(* ===== verification/Prelude.thy ===== *)
theory Prelude
  imports Main "HOL-Library.Char_ord" "HOL-Library.List_Lexorder" "HOL-Library.Product_Lexorder"
    "HOL-Library.Multiset" "HOL-Library.Sublist"
begin

text \<open>
  Shared vocabulary of the development: the exceptions the Python code raises, results that
  carry them, the monadic combinators the translated services are written with, stable sorting
  by a key (Python's \<open>sorted\<close>), and the generic list lemmas that several components use.
\<close>

section \<open>Exceptions and results\<close>

text \<open>
  A raised exception is a value. \<open>ValidationError f m\<close> is Django's
  \<open>ValidationError({f: m})\<close>. \<open>InvalidOperation\<close> is the signal of Python's
  \<open>decimal\<close> module, \<open>DoesNotExist\<close> what \<open>objects.get\<close> raises, \<open>OtherError\<close>
  any exception class the code does not name.
\<close>

datatype exn =
    ValidationError string string
  | ValueError string
  | DoesNotExist
  | IntegrityError
  | InvalidOperation
  | TypeError
  | KeyError
  | RetryableEventError string
  | PermanentEventError string
  | OtherError string

type_synonym 'a result = "exn + 'a"

definition ebind :: "'e + 'a \<Rightarrow> ('a \<Rightarrow> 'e + 'b) \<Rightarrow> 'e + 'b" where
  "ebind m f = (case m of Inl e \<Rightarrow> Inl e | Inr v \<Rightarrow> f v)"

text \<open>A loop that transforms every element and stops at the first exception.\<close>

fun emap :: "('a \<Rightarrow> 'e + 'b) \<Rightarrow> 'a list \<Rightarrow> 'e + 'b list" where
  "emap f [] = Inr []"
| "emap f (x # xs) = ebind (f x) (\<lambda>y. ebind (emap f xs) (\<lambda>ys. Inr (y # ys)))"

text \<open>A loop that threads an accumulator and stops at the first exception.\<close>

fun efold :: "('a \<Rightarrow> 's \<Rightarrow> 'e + 's) \<Rightarrow> 'a list \<Rightarrow> 's \<Rightarrow> 'e + 's" where
  "efold f [] s = Inr s"
| "efold f (x # xs) s = ebind (f x s) (\<lambda>s'. efold f xs s')"

text \<open>A loop that only checks.\<close>

fun echeck :: "('a \<Rightarrow> 'e + unit) \<Rightarrow> 'a list \<Rightarrow> 'e + unit" where
  "echeck f [] = Inr ()"
| "echeck f (x # xs) = ebind (f x) (\<lambda>_. echeck f xs)"

definition is_ok :: "'e + 'a \<Rightarrow> bool" where
  "is_ok m = (case m of Inl _ \<Rightarrow> False | Inr _ \<Rightarrow> True)"

named_theorems result_simps \<open>facts about results and their combinators\<close>

lemma ebind_simps [simp]:
  "ebind (Inl e) f = Inl e"
  "ebind (Inr v) f = f v"
  by (simp_all add: ebind_def)

lemma ebind_eq_Inr [result_simps]:
  "ebind m f = Inr y \<longleftrightarrow> (\<exists>x. m = Inr x \<and> f x = Inr y)"
  by (cases m) auto

lemma ebind_eq_Inl [result_simps]:
  "ebind m f = Inl e \<longleftrightarrow> m = Inl e \<or> (\<exists>x. m = Inr x \<and> f x = Inl e)"
  by (cases m) auto

lemma if_Inl_eq_Inr [result_simps]:
  "(if c then Inl e else k) = Inr y \<longleftrightarrow> \<not> c \<and> k = Inr y"
  "(if c then k else Inl e) = Inr y \<longleftrightarrow> c \<and> k = Inr y"
  by simp_all

lemma case_option_Inl_eq_Inr [result_simps]:
  "(case m of None \<Rightarrow> Inl e | Some x \<Rightarrow> f x) = Inr y \<longleftrightarrow> (\<exists>x. m = Some x \<and> f x = Inr y)"
  by (cases m) auto

lemma is_ok_simps [simp]: "is_ok (Inl e) = False" "is_ok (Inr v) = True"
  by (simp_all add: is_ok_def)

lemma is_ok_ebind [simp]: "is_ok (ebind m f) \<longleftrightarrow> (\<exists>x. m = Inr x \<and> is_ok (f x))"
  by (cases m) auto

lemma is_ok_if [simp]: "is_ok (if c then a else b) = (if c then is_ok a else is_ok b)"
  by simp

lemma is_ok_iff: "is_ok m \<longleftrightarrow> (\<exists>v. m = Inr v)"
  by (cases m) auto

lemma ebind_assoc: "ebind (ebind m f) g = ebind m (\<lambda>x. ebind (f x) g)"
  by (cases m) auto

lemma echeck_eq_Inr [result_simps]: "echeck f xs = Inr u \<longleftrightarrow> (\<forall>x\<in>set xs. f x = Inr ())"
  by (induction xs) (auto simp: ebind_eq_Inr)

lemma emap_length: "emap f xs = Inr ys \<Longrightarrow> length ys = length xs"
  by (induction xs arbitrary: ys) (auto simp: result_simps)

lemma emap_all2: "emap f xs = Inr ys \<longleftrightarrow> list_all2 (\<lambda>x y. f x = Inr y) xs ys"
proof (induction xs arbitrary: ys)
  case Nil
  then show ?case by auto
next
  case (Cons x xs)
  then show ?case by (cases ys) (auto simp: result_simps)
qed

lemma emap_set: "emap f xs = Inr ys \<Longrightarrow> y \<in> set ys \<Longrightarrow> \<exists>x\<in>set xs. f x = Inr y"
  by (induction xs arbitrary: ys) (auto simp: result_simps)

lemma efold_append: "efold f (xs @ ys) s = ebind (efold f xs s) (efold f ys)"
  by (induction xs arbitrary: s) (auto simp: ebind_def split: sum.split)

text \<open>An invariant of the body is an invariant of the loop.\<close>

lemma efold_invariant:
  assumes "efold f xs s = Inr s'" and "I s"
    and "\<And>x t t'. x \<in> set xs \<Longrightarrow> I t \<Longrightarrow> f x t = Inr t' \<Longrightarrow> I t'"
  shows "I s'"
  using assms by (induction xs arbitrary: s) (auto simp: result_simps)

section \<open>Actions\<close>

text \<open>
  Code that changes the database and may raise outside a transaction keeps what it wrote before
  the exception: an action maps a state to a result and the state it leaves behind.
\<close>

type_synonym ('s, 'a) action = "'s \<Rightarrow> 'a result \<times> 's"

definition abind :: "('s, 'a) action \<Rightarrow> ('a \<Rightarrow> ('s, 'b) action) \<Rightarrow> ('s, 'b) action" where
  "abind m f s = (case m s of (Inl e, s') \<Rightarrow> (Inl e, s') | (Inr v, s') \<Rightarrow> f v s')"

text \<open>A pure check or computation inside an action.\<close>

definition alift :: "'a result \<Rightarrow> ('s, 'a) action" where
  "alift r s = (r, s)"

text \<open>A transaction: \<open>transaction.atomic\<close> undoes every write when an exception leaves it.\<close>

definition atomic :: "('s, 'a) action \<Rightarrow> ('s, 'a) action" where
  "atomic m s = (case m s of (Inl e, _) \<Rightarrow> (Inl e, s) | (Inr v, s') \<Rightarrow> (Inr v, s'))"

lemma abind_Inl [simp]: "m s = (Inl e, s') \<Longrightarrow> abind m f s = (Inl e, s')"
  by (simp add: abind_def)

lemma abind_Inr [simp]: "m s = (Inr v, s') \<Longrightarrow> abind m f s = f v s'"
  by (simp add: abind_def)

lemma abind_alift [simp]:
  "abind (alift (Inl e)) f s = (Inl e, s)" "abind (alift (Inr v)) f s = f v s"
  by (simp_all add: abind_def alift_def)

lemma alift_eq_Inr: "alift r db = (Inr v, db') \<longleftrightarrow> r = Inr v \<and> db' = db"
  by (auto simp: alift_def)

lemma abind_eq_Inr [result_simps]:
  "abind m f s = (Inr y, s'') \<longleftrightarrow> (\<exists>x s'. m s = (Inr x, s') \<and> f x s' = (Inr y, s''))"
  by (auto simp: abind_def split: prod.splits sum.splits)

lemma atomic_Inl: "fst (atomic m s) = Inl e \<Longrightarrow> snd (atomic m s) = s"
  by (auto simp: atomic_def split: prod.splits sum.splits)

lemma atomic_eq_Inr [result_simps]: "atomic m s = (Inr v, s') \<longleftrightarrow> m s = (Inr v, s')"
  by (auto simp: atomic_def split: prod.splits sum.splits)

text \<open>What a service that undoes its failures keeps.\<close>

lemma service_keeps:
  assumes "\<And>x t. service db = (Inl x, t) \<Longrightarrow> t = db" and "P db" and "\<And>r t. service db = (Inr r, t) \<Longrightarrow> P t"
  shows "P (snd (service db))"
  using assms by (cases "service db"; cases "fst (service db)") auto

text \<open>Reading the database inside an action.\<close>

definition query :: "('s \<Rightarrow> 'a result) \<Rightarrow> ('s, 'a) action" where
  "query f db = (f db, db)"

text \<open>A loop whose body changes the database; the results in order.\<close>

fun aeach :: "('x \<Rightarrow> ('s, 'a) action) \<Rightarrow> 'x list \<Rightarrow> ('s, 'a list) action" where
  "aeach f [] = alift (Inr [])"
| "aeach f (x # xs) = abind (f x) (\<lambda>y. abind (aeach f xs) (\<lambda>ys. alift (Inr (y # ys))))"

definition numbered :: "'x list \<Rightarrow> (nat \<times> 'x) list" where
  "numbered xs = zip [0..<length xs] xs"

text \<open>A property every stage of an action keeps, whether it returns or raises.\<close>

lemma abind_state:
  assumes "\<And>r s'. m s = (r, s') \<Longrightarrow> Q s'" and "\<And>v s'. m s = (Inr v, s') \<Longrightarrow> Q s' \<Longrightarrow> Q (snd (f v s'))"
  shows "Q (snd (abind m f s))"
proof (cases "m s")
  case (Pair r s')
  then show ?thesis using assms by (cases r) (auto simp: abind_def)
qed

text \<open>
  What every stage of an action respects, the action respects: the interface of a component
  that reasons about its steps up to a preorder of states (frame conditions, monotone facts).
\<close>

locale state_order =
  fixes R :: "'s \<Rightarrow> 's \<Rightarrow> bool"
  assumes order_refl: "R s s"
    and order_trans: "R s t \<Longrightarrow> R t u \<Longrightarrow> R s u"
begin

definition obeys :: "('s, 'a) action \<Rightarrow> bool" where
  "obeys m \<longleftrightarrow> (\<forall>s. R s (snd (m s)))"

lemma obeysI: "(\<And>s. R s (snd (m s))) \<Longrightarrow> obeys m"
  by (simp add: obeys_def)

lemma obeysD: "obeys m \<Longrightarrow> m s = (r, t) \<Longrightarrow> R s t"
  unfolding obeys_def by (metis snd_conv)

lemma obeys_at: "obeys m \<Longrightarrow> R s (snd (m s))"
  unfolding obeys_def by blast

lemma obeys_alift: "obeys (alift r)"
  by (simp add: obeys_def alift_def order_refl)

lemma obeys_return: "obeys (\<lambda>s. (r, s))"
  by (simp add: obeys_def order_refl)

lemma obeys_abind:
  assumes "obeys m" and "\<And>v. obeys (f v)"
  shows "obeys (abind m f)"
proof (rule obeysI)
  fix s
  obtain r t where m: "m s = (r, t)" by (cases "m s")
  have st: "R s t" using obeysD [OF assms(1) m] .
  show "R s (snd (abind m f s))"
  proof (cases r)
    case (Inl e)
    then show ?thesis using m st by (simp add: abind_def)
  next
    case (Inr v)
    have "R t (snd (f v t))" using assms(2) by (simp add: obeys_def)
    then show ?thesis using m st Inr by (simp add: abind_def order_trans)
  qed
qed

lemma obeys_atomic: "obeys m \<Longrightarrow> obeys (atomic m)"
  by (rule obeysI) (auto simp: atomic_def order_refl obeys_def split: prod.splits sum.splits; metis snd_conv)

lemma obeys_query: "obeys (query f)"
  by (rule obeysI) (simp add: query_def order_refl)

lemma obeys_aeach: "(\<And>x. obeys (f x)) \<Longrightarrow> obeys (aeach f xs)"
  by (induction xs) (simp_all add: obeys_alift obeys_abind)

text \<open>Every result of a loop comes from a state between the first and the last.\<close>

lemma aeach_stages:
  assumes "aeach f xs s = (Inr ys, s')" and "\<And>x. obeys (f x)"
  shows "list_all2 (\<lambda>x y. \<exists>u u'. R s u \<and> f x u = (Inr y, u')) xs ys"
  using assms(1)
proof (induction xs arbitrary: s ys)
  case (Cons x xs)
  from Cons.prems obtain y u zs where y: "f x s = (Inr y, u)" and zs: "aeach f xs u = (Inr zs, s')" "ys = y # zs"
    by (auto simp: abind_eq_Inr alift_eq_Inr)
  have "R s u" using obeysD [OF assms(2) y] .
  then have "list_all2 (\<lambda>x y. \<exists>v v'. R s v \<and> f x v = (Inr y, v')) xs zs"
    using Cons.IH [OF zs(1)] by (elim list.rel_mono_strong) (blast intro: order_trans)
  then show ?case using y order_refl zs(2) by auto
qed (simp add: alift_eq_Inr)

end

text \<open>A table to which every round appends one row made from its result.\<close>

lemma aeach_appends:
  assumes "aeach f xs s = (Inr ys, s')" and "\<And>x u y u'. f x u = (Inr y, u') \<Longrightarrow> T u' = T u @ [g y]"
  shows "T s' = T s @ map g ys"
  using assms(1)
proof (induction xs arbitrary: s ys)
  case (Cons x xs)
  from Cons.prems obtain y u zs where y: "f x s = (Inr y, u)" and zs: "aeach f xs u = (Inr zs, s')" "ys = y # zs"
    by (auto simp: abind_eq_Inr alift_eq_Inr)
  show ?case using Cons.IH [OF zs(1)] assms(2) [OF y] zs(2) by simp
qed (simp add: alift_eq_Inr)

lemma aeach_results:
  "aeach f xs s = (Inr ys, s') \<Longrightarrow> list_all2 (\<lambda>x y. \<exists>u u'. f x u = (Inr y, u')) xs ys"
  by (induction xs arbitrary: s ys) (auto simp: abind_eq_Inr alift_eq_Inr)

lemma aeach_length: "aeach f xs s = (Inr ys, s') \<Longrightarrow> length ys = length xs"
  by (induction xs arbitrary: s ys) (auto simp: abind_eq_Inr alift_eq_Inr)

lemma numbered_snd: "map snd (numbered xs) = xs"
  by (simp add: numbered_def)

section \<open>Python containers\<close>

text \<open>
  \<open>sorted(xs, key=k)\<close> is stable, as \<open>sort_key\<close> is; \<open>sorted({...})\<close> of a set is
  the ascending list of its elements. A \<open>dict\<close> that is only read is an association list in
  insertion order; \<open>d.get(k)\<close> is \<open>map_of d k\<close>.
\<close>

definition py_sorted_set :: "'a::linorder list \<Rightarrow> 'a list" where
  "py_sorted_set xs = sort (remdups xs)"

lemma set_py_sorted_set [simp]: "set (py_sorted_set xs) = set xs"
  by (simp add: py_sorted_set_def)

lemma sorted_py_sorted_set [simp]: "sorted (py_sorted_set xs)"
  by (simp add: py_sorted_set_def)

lemma distinct_py_sorted_set [simp]: "distinct (py_sorted_set xs)"
  by (simp add: py_sorted_set_def)

lemma py_sorted_set_Nil_iff [simp]: "py_sorted_set xs = [] \<longleftrightarrow> xs = []"
  by (metis set_empty set_py_sorted_set)

lemma py_sorted_set_cong: "set xs = set ys \<Longrightarrow> py_sorted_set xs = py_sorted_set ys"
  by (metis set_py_sorted_set distinct_py_sorted_set sorted_py_sorted_set
      sorted_distinct_set_unique)

text \<open>\<open>d[k] = v\<close> on a dict in insertion order: overwrite in place or append.\<close>

fun dict_set :: "'k \<Rightarrow> 'v \<Rightarrow> ('k \<times> 'v) list \<Rightarrow> ('k \<times> 'v) list" where
  "dict_set k v [] = [(k, v)]"
| "dict_set k v ((k', v') # d) = (if k' = k then (k, v) # d else (k', v') # dict_set k v d)"

lemma map_of_dict_set: "map_of (dict_set k v d) = (map_of d)(k \<mapsto> v)"
  by (induction d) auto

lemma keys_dict_set: "fst ` set (dict_set k v d) = insert k (fst ` set d)"
  by (induction k v d rule: dict_set.induct) (simp_all add: insert_commute)

lemma distinct_dict_set: "distinct (map fst d) \<Longrightarrow> distinct (map fst (dict_set k v d))"
proof (induction d)
  case (Cons p d)
  then show ?case
    by (cases p) (auto simp: keys_dict_set)
qed simp

text \<open>Replacing the rows of a table that satisfy a condition: \<open>filter(...).update(...)\<close>.\<close>

definition update_where :: "('r \<Rightarrow> bool) \<Rightarrow> ('r \<Rightarrow> 'r) \<Rightarrow> 'r list \<Rightarrow> 'r list" where
  "update_where P f rows = map (\<lambda>r. if P r then f r else r) rows"

lemma set_update_where:
  "set (update_where P f rows) = {r \<in> set rows. \<not> P r} \<union> f ` {r \<in> set rows. P r}"
  by (auto simp: update_where_def)

lemma map_update_where:
  "(\<And>r. P r \<Longrightarrow> g (f r) = g r) \<Longrightarrow> map g (update_where P f rows) = map g rows"
  by (auto simp: update_where_def)

lemma filter_update_where:
  assumes "\<And>r. P r \<Longrightarrow> \<not> Q r" and "\<And>r. P r \<Longrightarrow> \<not> Q (f r)"
  shows "filter Q (update_where P f rows) = filter Q rows"
  using assms by (induction rows) (auto simp: update_where_def)

lemma length_update_where [simp]: "length (update_where P f rows) = length rows"
  by (simp add: update_where_def)

text \<open>\<open>queryset.first()\<close>.\<close>

definition first_where :: "('r \<Rightarrow> bool) \<Rightarrow> 'r list \<Rightarrow> 'r option" where
  "first_where P rows = find P rows"

lemma first_where_SomeD: "first_where P rows = Some r \<Longrightarrow> r \<in> set rows \<and> P r"
  unfolding first_where_def by (metis find_Some_iff nth_mem)

lemma first_where_None: "first_where P rows = None \<longleftrightarrow> (\<forall>r\<in>set rows. \<not> P r)"
  by (auto simp: first_where_def find_None_iff)

lemma first_where_unique:
  assumes "r \<in> set rows" "P r" "\<And>q. q \<in> set rows \<Longrightarrow> P q \<Longrightarrow> q = r"
  shows "first_where P rows = Some r"
proof (cases "first_where P rows")
  case None
  with assms(1,2) show ?thesis by (auto simp: first_where_None)
next
  case (Some q)
  with assms(3) show ?thesis by (auto dest: first_where_SomeD)
qed

lemma first_where_map: "first_where P (map f xs) = map_option f (first_where (\<lambda>x. P (f x)) xs)"
  by (induction xs) (auto simp: first_where_def)

lemma first_where_put:
  "\<exists>q\<in>set rows. k q = i \<Longrightarrow> k v = i \<Longrightarrow> first_where (\<lambda>q. k q = i) (update_where (\<lambda>q. k q = i) (\<lambda>_. v) rows) = Some v"
  by (induction rows) (auto simp: first_where_def update_where_def)

end
