(* ===== verification/Regex.thy ===== *)
theory Regex
  imports PyText
begin

text \<open>
  The fragment of Python's \<open>re\<close> the code uses: character classes, sequence, alternation,
  option, bounded and unbounded repetition and the word boundary. A match is a relation
  between positions; a position is the consumed text (reversed) and the rest. \<open>fullmatch\<close>
  and \<open>search\<close> ask only whether a match exists, so the order in which Python's backtracking
  tries alternatives does not matter.
\<close>

section \<open>Patterns and positions\<close>

datatype regex =
    Eps
  | Cls "char \<Rightarrow> bool"
  | Seq regex regex
  | Alt regex regex
  | Star regex
  | WordBoundary

type_synonym position = "string \<times> string"

definition word_char :: "char \<Rightarrow> bool" where
  "word_char c \<longleftrightarrow> is_az c \<or> is_AZ c \<or> is_09 c \<or> c = CHR ''_''
     \<or> code c \<in> {170, 178, 179, 181, 185, 186, 188, 189, 190}
     \<or> (192 \<le> code c \<and> code c \<noteq> 215 \<and> code c \<noteq> 247)"

definition at_word :: "string \<Rightarrow> bool" where
  "at_word s = (case s of [] \<Rightarrow> False | c # _ \<Rightarrow> word_char c)"

text \<open>
  Repetition iterates the body from a position; an iteration that consumes nothing adds no new
  end position, so only iterations that make progress are followed. The rest of the text
  bounds their number.
\<close>

fun star_ends :: "nat \<Rightarrow> (position \<Rightarrow> position list) \<Rightarrow> position \<Rightarrow> position list" where
  "star_ends 0 f p = [p]"
| "star_ends (Suc k) f p =
     p # concat (map (star_ends k f) (filter (\<lambda>q. length (snd q) < length (snd p)) (f p)))"

primrec ends :: "regex \<Rightarrow> position \<Rightarrow> position list" where
  "ends Eps p = [p]"
| "ends (Cls P) p =
     (case snd p of [] \<Rightarrow> [] | c # r \<Rightarrow> (if P c then [(c # fst p, r)] else []))"
| "ends (Seq a b) p = concat (map (ends b) (ends a p))"
| "ends (Alt a b) p = ends a p @ ends b p"
| "ends (Star a) p = star_ends (length (snd p)) (ends a) p"
| "ends WordBoundary p = (if at_word (fst p) \<noteq> at_word (snd p) then [p] else [])"

definition fullmatch :: "regex \<Rightarrow> string \<Rightarrow> bool" where
  "fullmatch r s \<longleftrightarrow> (\<exists>q\<in>set (ends r ([], s)). snd q = [])"

fun search_from :: "regex \<Rightarrow> string \<Rightarrow> string \<Rightarrow> bool" where
  "search_from r l [] = (ends r (l, []) \<noteq> [])"
| "search_from r l (c # s) = (ends r (l, c # s) \<noteq> [] \<or> search_from r (c # l) s)"

definition search :: "regex \<Rightarrow> string \<Rightarrow> bool" where
  "search r s = search_from r [] s"

section \<open>Derived patterns\<close>

fun seqs :: "regex list \<Rightarrow> regex" where
  "seqs [] = Eps"
| "seqs [r] = r"
| "seqs (r # rs) = Seq r (seqs rs)"

fun alts :: "regex list \<Rightarrow> regex" where
  "alts [] = Cls (\<lambda>_. False)"
| "alts [r] = r"
| "alts (r # rs) = Alt r (alts rs)"

definition Opt :: "regex \<Rightarrow> regex" where "Opt r = Alt r Eps"
definition Plus :: "regex \<Rightarrow> regex" where "Plus r = Seq r (Star r)"

definition Lit :: "string \<Rightarrow> regex" where
  "Lit w = seqs (map (\<lambda>c. Cls (\<lambda>d. d = c)) w)"

text \<open>A literal under \<open>re.IGNORECASE\<close>; the pattern is written in lower case.\<close>

definition LitI :: "string \<Rightarrow> regex" where
  "LitI w = seqs (map (\<lambda>c. Cls (\<lambda>d. lower_char d = c)) w)"

text \<open>\<open>r{m,n}\<close> and \<open>r{m,}\<close>: the optional copies are nested, \<open>(r(r)?)?\<close>.\<close>

primrec RepUpTo :: "nat \<Rightarrow> regex \<Rightarrow> regex" where
  "RepUpTo 0 r = Eps"
| "RepUpTo (Suc k) r = Opt (Seq r (RepUpTo k r))"

definition Rep :: "nat \<Rightarrow> nat \<Rightarrow> regex \<Rightarrow> regex" where
  "Rep m n r = seqs (replicate m r @ [RepUpTo (n - m) r])"

definition RepAtLeast :: "nat \<Rightarrow> regex \<Rightarrow> regex" where
  "RepAtLeast m r = seqs (replicate m r @ [Star r])"

text \<open>The characters a pattern can consume.\<close>

primrec alpha :: "regex \<Rightarrow> char \<Rightarrow> bool" where
  "alpha Eps c = False"
| "alpha (Cls P) c = P c"
| "alpha (Seq a b) c = (alpha a c \<or> alpha b c)"
| "alpha (Alt a b) c = (alpha a c \<or> alpha b c)"
| "alpha (Star a) c = alpha a c"
| "alpha WordBoundary c = False"

section \<open>What a match consumes\<close>

text \<open>\<open>consumes P p q\<close>: from \<open>p\<close> to \<open>q\<close> the match ate characters satisfying \<open>P\<close>.\<close>

definition consumes :: "(char \<Rightarrow> bool) \<Rightarrow> position \<Rightarrow> position \<Rightarrow> bool" where
  "consumes P p q \<longleftrightarrow> (\<exists>w. snd p = w @ snd q \<and> fst q = rev w @ fst p \<and> (\<forall>c\<in>set w. P c))"

lemma consumes_refl [simp]: "consumes P p p"
  by (simp add: consumes_def)

lemma consumes_trans:
  assumes "consumes P p q" "consumes Q q r"
  shows "consumes (\<lambda>c. P c \<or> Q c) p r"
proof -
  obtain u v where "snd p = u @ snd q" "fst q = rev u @ fst p" "\<forall>c\<in>set u. P c"
    and "snd q = v @ snd r" "fst r = rev v @ fst q" "\<forall>c\<in>set v. Q c"
    using assms unfolding consumes_def by blast
  then show ?thesis
    unfolding consumes_def by (intro exI [of _ "u @ v"]) auto
qed

lemma consumes_mono: "consumes P p q \<Longrightarrow> (\<And>c. P c \<Longrightarrow> Q c) \<Longrightarrow> consumes Q p q"
  unfolding consumes_def by blast

lemma star_ends_consumes:
  assumes "\<And>p q. q \<in> set (f p) \<Longrightarrow> consumes P p q"
  shows "q \<in> set (star_ends k f p) \<Longrightarrow> consumes P p q"
proof (induction k arbitrary: p)
  case (Suc k)
  then consider "q = p"
    | m where "m \<in> set (f p)" "q \<in> set (star_ends k f m)" by auto
  then show ?case
  proof cases
    case 2
    from consumes_trans [OF assms [OF 2(1)] Suc.IH [OF 2(2)]]
    show ?thesis by simp
  qed simp
qed simp

lemma ends_consumes: "q \<in> set (ends r p) \<Longrightarrow> consumes (alpha r) p q"
proof (induction r arbitrary: p q)
  case (Cls P)
  then have "\<exists>c s. snd p = c # s \<and> P c \<and> q = (c # fst p, s)"
    by (auto split: list.splits if_splits)
  then show ?case unfolding consumes_def by force
next
  case (Seq a b)
  from Seq.prems obtain m where m: "m \<in> set (ends a p)" "q \<in> set (ends b m)" by auto
  from consumes_trans [OF Seq.IH(1) [OF m(1)] Seq.IH(2) [OF m(2)]]
  show ?case by (simp add: consumes_def)
next
  case (Alt a b)
  from Alt.prems consider "q \<in> set (ends a p)" | "q \<in> set (ends b p)" by auto
  then show ?case
  proof cases
    case 1
    then show ?thesis by (intro consumes_mono [OF Alt.IH(1)]) simp_all
  next
    case 2
    then show ?thesis by (intro consumes_mono [OF Alt.IH(2)]) simp_all
  qed
next
  case (Star a)
  then have "q \<in> set (star_ends (length (snd p)) (ends a) p)" by simp
  then have "consumes (alpha a) p q"
    using Star.IH by (rule star_ends_consumes [rotated])
  then show ?case by (simp add: consumes_def)
qed (auto split: if_splits)

lemma fullmatch_alpha: "fullmatch r s \<Longrightarrow> c \<in> set s \<Longrightarrow> alpha r c"
  unfolding fullmatch_def by (auto dest!: ends_consumes simp: consumes_def)

text \<open>A whole-text match of a sequence splits the text.\<close>

lemma ends_snd_suffix: "q \<in> set (ends r p) \<Longrightarrow> \<exists>w. snd p = w @ snd q"
  using ends_consumes unfolding consumes_def by blast

lemma fullmatch_hd_Cls: "fullmatch (Seq (Cls P) r) (c # s) \<Longrightarrow> P c"
  by (auto simp: fullmatch_def split: if_splits)

lemma fullmatch_Cls_Nil: "\<not> fullmatch (Seq (Cls P) r) []"
  by (auto simp: fullmatch_def)

text \<open>Bounded repetition of one class is a length bound and a character test.\<close>

lemma RepUpTo_full:
  "(\<exists>q\<in>set (ends (RepUpTo k (Cls P)) (l, s)). snd q = []) \<longleftrightarrow> length s \<le> k \<and> (\<forall>c\<in>set s. P c)"
proof (induction k arbitrary: l s)
  case 0
  then show ?case by auto
next
  case (Suc k)
  show ?case
  proof (cases s)
    case (Cons c t)
    then show ?thesis using Suc [of "c # l" t] by (auto simp: Opt_def)
  qed (simp add: Opt_def)
qed

lemma fullmatch_Rep_1:
  "fullmatch (Rep 1 (Suc n) (Cls P)) s \<longleftrightarrow> s \<noteq> [] \<and> length s \<le> Suc n \<and> (\<forall>c\<in>set s. P c)"
proof (cases s)
  case (Cons c t)
  then show ?thesis
    using RepUpTo_full [of n P "[c]" t] by (auto simp: fullmatch_def Rep_def)
qed (simp add: fullmatch_def Rep_def)

text \<open>
  A pattern without a word boundary looks at nothing beyond what it consumes: it still matches
  when the text is extended.
\<close>

primrec boundary_free :: "regex \<Rightarrow> bool" where
  "boundary_free Eps = True"
| "boundary_free (Cls P) = True"
| "boundary_free (Seq a b) = (boundary_free a \<and> boundary_free b)"
| "boundary_free (Alt a b) = (boundary_free a \<and> boundary_free b)"
| "boundary_free (Star a) = boundary_free a"
| "boundary_free WordBoundary = False"

definition ext_text :: "string \<Rightarrow> position \<Rightarrow> position" where
  "ext_text t p = (fst p, snd p @ t)"

lemma star_ends_stepI:
  "r \<in> set (f p) \<Longrightarrow> length (snd r) < length (snd p) \<Longrightarrow> q \<in> set (star_ends k f r) \<Longrightarrow>
     q \<in> set (star_ends (Suc k) f p)"
  by (cases r) force

lemma star_ends_more:
  assumes "\<And>p q. q \<in> set (f p) \<Longrightarrow> ext_text t q \<in> set (f (ext_text t p))"
  shows "q \<in> set (star_ends k f p) \<Longrightarrow> k \<le> m \<Longrightarrow> ext_text t q \<in> set (star_ends m f (ext_text t p))"
proof (induction k arbitrary: p m)
  case 0
  then show ?case by (cases m) auto
next
  case (Suc k)
  then obtain m' where m: "m = Suc m'" "k \<le> m'" by (cases m) auto
  from Suc.prems(1) consider "q = p"
    | r where "r \<in> set (f p)" "length (snd r) < length (snd p)" "q \<in> set (star_ends k f r)"
    by auto
  then show ?case
  proof cases
    case 2
    have "ext_text t q \<in> set (star_ends m' f (ext_text t r))" using Suc.IH 2(3) m(2) by blast
    moreover have "ext_text t r \<in> set (f (ext_text t p))" using assms 2(1) by blast
    moreover have "length (snd (ext_text t r)) < length (snd (ext_text t p))" using 2(2) by (simp add: ext_text_def)
    ultimately show ?thesis unfolding m(1) by (intro star_ends_stepI)
  qed (simp add: m)
qed

lemma ends_more:
  "boundary_free r \<Longrightarrow> q \<in> set (ends r p) \<Longrightarrow> ext_text t q \<in> set (ends r (ext_text t p))"
proof (induction r arbitrary: p q)
  case (Cls P)
  then show ?case by (auto simp: ext_text_def split: list.splits if_splits)
next
  case (Seq a b)
  from Seq.prems obtain m where m: "m \<in> set (ends a p)" "q \<in> set (ends b m)" by auto
  have "ext_text t m \<in> set (ends a (ext_text t p))" "ext_text t q \<in> set (ends b (ext_text t m))"
    using Seq m by auto
  then show ?case by auto
next
  case (Star a)
  have "ext_text t q \<in> set (star_ends (length (snd (ext_text t p))) (ends a) (ext_text t p))"
    by (rule star_ends_more [of "ends a" t q "length (snd p)"]) (use Star in \<open>auto simp: ext_text_def\<close>)
  then show ?case by simp
qed auto

text \<open>Repetition: extra fuel is harmless, and one leading iteration can be absorbed.\<close>

lemma star_ends_mono: "q \<in> set (star_ends k f p) \<Longrightarrow> k \<le> m \<Longrightarrow> q \<in> set (star_ends m f p)"
  using star_ends_more [of f "[]" q k p m] by (simp add: ext_text_def)

lemma ends_Plus_Star:
  assumes "q \<in> set (ends (Plus a) p)"
    and "\<And>p q. q \<in> set (ends a p) \<Longrightarrow> length (snd q) < length (snd p)"
  shows "q \<in> set (ends (Star a) p)"
proof -
  from assms(1) obtain m where m: "m \<in> set (ends a p)"
    "q \<in> set (star_ends (length (snd m)) (ends a) m)"
    by (auto simp: Plus_def)
  have l: "length (snd m) < length (snd p)" using assms(2) m(1) by blast
  then obtain k where k: "length (snd p) = Suc k" "length (snd m) \<le> k"
    by (cases "length (snd p)") auto
  have "q \<in> set (star_ends k (ends a) m)" using star_ends_mono m(2) k(2) by blast
  then show ?thesis using m(1) l star_ends_stepI [of m "ends a" p q k] by (simp add: k(1))
qed

text \<open>Repeating one class: the end positions are the prefixes inside the class.\<close>

lemma star_cls_full:
  "\<forall>c\<in>set s. P c \<Longrightarrow> length s \<le> k \<Longrightarrow>
     (rev s @ l, t) \<in> set (star_ends k (ends (Cls P)) (l, s @ t))"
proof (induction s arbitrary: l k)
  case Nil
  then show ?case by (cases k) auto
next
  case (Cons c s)
  then obtain k' where k: "k = Suc k'" by (cases k) auto
  have step: "ends (Cls P) (l, (c # s) @ t) = [(c # l, s @ t)]"
    using Cons.prems by simp
  have "(rev s @ c # l, t) \<in> set (star_ends k' (ends (Cls P)) (c # l, s @ t))"
    using Cons.prems k by (intro Cons.IH) auto
  then show ?case unfolding k star_ends.simps step by simp
qed

lemma ends_StarCls:
  assumes "\<forall>c\<in>set s. P c"
  shows "(rev s @ l, t) \<in> set (ends (Star (Cls P)) (l, s @ t))"
  using star_cls_full [OF assms, of "length (s @ t)" l t] by simp

lemma search_from_iff:
  "search_from r l s \<longleftrightarrow> (\<exists>u v. s = u @ v \<and> ends r (rev u @ l, v) \<noteq> [])"
proof (induction s arbitrary: l)
  case (Cons c s)
  have split: "(\<exists>u v. c # s = u @ v \<and> Q u v) \<longleftrightarrow> Q [] (c # s) \<or> (\<exists>u v. s = u @ v \<and> Q (c # u) v)"
    for Q :: "string \<Rightarrow> string \<Rightarrow> bool"
    by (auto simp: Cons_eq_append_conv)
  show ?case
    by (simp only: split search_from.simps Cons) simp
qed simp

lemma search_iff: "search r s \<longleftrightarrow> (\<exists>u v. s = u @ v \<and> ends r (rev u, v) \<noteq> [])"
  by (simp add: search_def search_from_iff)

end
