(* ===== verification/Json.thy ===== *)
theory Json
  imports PyText
begin

text \<open>
  The values that travel in payloads: JSON documents as Python sees them, and \<open>json.dumps\<close>
  with \<open>sort_keys=True, separators=(",", ":")\<close>. A \<open>dict\<close> is an association list in
  insertion order with string keys, a \<open>float\<close> is its \<open>repr\<close>, and \<open>JOther t\<close> is any
  other Python object, known by its \<open>str()\<close>: \<open>json.dumps\<close> raises on it unless it is
  called with \<open>default=str\<close>. A document is what \<open>json.loads\<close> can return or a service builds:
  lists, no tuples. (\<open>json.dumps\<close> writes a tuple as a list, and the payload guard of events does
  not look into one; no service of the repository puts one into a payload.)
\<close>

datatype json =
    JNull
  | JBool bool
  | JInt int
  | JFloat string
  | JStr string
  | JList "json list"
  | JObj "(string \<times> json) list"
  | JOther string

lemma emap_cong [fundef_cong]:
  "xs = ys \<Longrightarrow> (\<And>x. x \<in> set ys \<Longrightarrow> f x = g x) \<Longrightarrow> emap f xs = emap g ys"
  by (induction ys arbitrary: xs) (auto simp: ebind_def split: sum.split)

lemma echeck_cong [fundef_cong]:
  "xs = ys \<Longrightarrow> (\<And>x. x \<in> set ys \<Longrightarrow> f x = g x) \<Longrightarrow> echeck f xs = echeck g ys"
  by (induction ys arbitrary: xs) (auto simp: ebind_def split: sum.split)

section \<open>Serialisation\<close>

definition hex_digit :: "nat \<Rightarrow> char" where
  "hex_digit n = (if n < 10 then char_of (48 + n) else char_of (87 + n))"

definition json_escape_char :: "char \<Rightarrow> string" where
  "json_escape_char c =
     (if c = CHR 0x22 then [CHR 0x5C, CHR 0x22]
      else if c = CHR 0x5C then [CHR 0x5C, CHR 0x5C]
      else if c = CHR 0x0A then [CHR 0x5C, CHR ''n'']
      else if c = CHR 0x0D then [CHR 0x5C, CHR ''r'']
      else if c = CHR 0x09 then [CHR 0x5C, CHR ''t'']
      else if c = CHR 0x0C then [CHR 0x5C, CHR ''f'']
      else if c = CHR 0x08 then [CHR 0x5C, CHR ''b'']
      else if 32 \<le> code c \<and> code c \<le> 126 then [c]
      else [CHR 0x5C] @ ''u00'' @ [hex_digit (code c div 16), hex_digit (code c mod 16)])"

definition json_string :: "string \<Rightarrow> string" where
  "json_string s = [CHR 0x22] @ concat (map json_escape_char s) @ [CHR 0x22]"

fun dumps :: "bool \<Rightarrow> json \<Rightarrow> string result" where
  "dumps default_str JNull = Inr ''null''"
| "dumps default_str (JBool b) = Inr (if b then ''true'' else ''false'')"
| "dumps default_str (JInt i) = Inr (int_str i)"
| "dumps default_str (JFloat r) = Inr r"
| "dumps default_str (JStr s) = Inr (json_string s)"
| "dumps default_str (JList vs) =
     ebind (emap (dumps default_str) vs) (\<lambda>ts. Inr (''['' @ join '','' ts @ '']''))"
| "dumps default_str (JObj kvs) =
     ebind (emap (\<lambda>kv. ebind (dumps default_str (snd kv)) (\<lambda>t. Inr (json_string (fst kv) @ '':'' @ t)))
        (sort_key fst kvs)) (\<lambda>ts. Inr (''{'' @ join '','' ts @ ''}''))"
| "dumps default_str (JOther t) = (if default_str then Inr (json_string t) else Inl TypeError)"

section \<open>Reading values\<close>

text \<open>
  \<open>str(value)\<close>. The code only compares these texts with fixed words or parses them as
  decimals; of a list's or dict's text only the bracket it starts with is kept.
\<close>

fun json_str :: "json \<Rightarrow> string" where
  "json_str JNull = ''None''"
| "json_str (JBool b) = (if b then ''True'' else ''False'')"
| "json_str (JInt i) = int_str i"
| "json_str (JFloat r) = r"
| "json_str (JStr s) = s"
| "json_str (JOther t) = t"
| "json_str (JList vs) = ''[...]''"
| "json_str (JObj kvs) = ''{...}''"

text \<open>Python truthiness; \<open>0.0\<close> is the only falsy \<open>repr\<close> besides \<open>-0.0\<close>.\<close>

fun json_truthy :: "json \<Rightarrow> bool" where
  "json_truthy JNull = False"
| "json_truthy (JBool b) = b"
| "json_truthy (JInt i) = (i \<noteq> 0)"
| "json_truthy (JFloat r) = (r \<noteq> ''0.0'' \<and> r \<noteq> ''-0.0'')"
| "json_truthy (JStr s) = (s \<noteq> [])"
| "json_truthy (JList vs) = (vs \<noteq> [])"
| "json_truthy (JObj kvs) = (kvs \<noteq> [])"
| "json_truthy (JOther t) = True"

section \<open>Serialisation is canonical\<close>

text \<open>\<open>sort_keys\<close> makes the text independent of the insertion order of a dict's keys.\<close>

lemma sort_key_fst_mset:
  fixes kvs kvs' :: "('k::linorder \<times> 'v) list"
  assumes "mset kvs = mset kvs'" "distinct (map fst kvs)"
  shows "sort_key fst kvs = sort_key fst kvs'"
proof (rule properties_for_sort_key)
  show "mset (sort_key fst kvs') = mset kvs" using assms(1) by simp
next
  fix k
  assume "k \<in> set (sort_key fst kvs')"
  have d': "distinct (map fst kvs')"
    using assms by (metis mset_eq_imp_distinct_iff mset_map)
  have one: "filter (\<lambda>x. fst k = fst x) xs = [k]"
    if "distinct (map fst xs)" "k \<in> set xs" for xs :: "('k \<times> 'v) list"
    using that by (induction xs) (force simp: filter_empty_conv)+
  have "k \<in> set kvs" "k \<in> set kvs'"
    using \<open>k \<in> set (sort_key fst kvs')\<close> assms(1) by (auto dest: mset_eq_setD)
  moreover have "filter (\<lambda>x. fst k = fst x) (sort_key fst kvs') = filter (\<lambda>x. fst k = fst x) kvs'"
    using sort_key_stable [of fst "fst k" kvs'] by (simp add: eq_commute)
  ultimately show "filter (\<lambda>x. fst k = fst x) (sort_key fst kvs') = filter (\<lambda>x. fst k = fst x) kvs"
    using one [OF assms(2)] one [OF d'] by simp
qed simp

lemma dumps_key_order:
  "mset kvs = mset kvs' \<Longrightarrow> distinct (map fst kvs) \<Longrightarrow>
     dumps d (JObj kvs) = dumps d (JObj kvs')"
  by (simp add: sort_key_fst_mset)

lemma hex_digit_length: "length (json_escape_char c) \<ge> 1"
  by (simp add: json_escape_char_def)

lemma length_json_string: "length s + 2 \<le> length (json_string s)"
proof -
  have "length s \<le> length (concat (map json_escape_char s))"
  proof (induction s)
    case (Cons c s)
    then show ?case using hex_digit_length [of c] by simp
  qed simp
  then show ?thesis by (simp add: json_string_def)
qed

end
