(* ===== verification/EventRules.thy ===== *)
theory EventRules
  imports Regex Json
begin

text \<open>
  The deterministic rules of the event backbone, app/events/algorithms: event names, producer
  allowlists, idempotency and partition keys, priorities, payload safety and schema checks, the
  contract check that composes them, and the retry, backoff and dead-letter decisions. Each
  definition translates the function of the same name; a raised \<open>ValidationError\<close> is an
  \<open>Inl\<close>. Database identifiers are the text of a UUID, instants are microseconds.
\<close>

type_synonym uuid = string
type_synonym time = int

definition seconds :: "int \<Rightarrow> time" where
  "seconds n = n * 1000000"

section \<open>Event names (event_type_normalizer.py)\<close>

definition name_char :: "char \<Rightarrow> bool" where
  "name_char c \<longleftrightarrow> is_az c \<or> is_09 c \<or> c = CHR ''_''"

definition name_segment :: regex where
  "name_segment = Seq (Cls is_az) (Star (Cls name_char))"

definition dot_segment :: regex where
  "dot_segment = Seq (Cls (\<lambda>c. c = CHR ''.'')) name_segment"

definition BASE_EVENT_PATTERN :: regex where
  "BASE_EVENT_PATTERN = Seq name_segment (Plus dot_segment)"

definition version_suffix :: regex where
  "version_suffix = Seq (Lit ''.v'') (Seq (Cls (\<lambda>c. is_09 c \<and> c \<noteq> CHR ''0'')) (Star (Cls is_09)))"

definition VERSIONED_EVENT_PATTERN :: regex where
  "VERSIONED_EVENT_PATTERN = Seq (Seq name_segment (Star dot_segment)) version_suffix"

definition COMMAND_TOKENS :: "string list" where
  "COMMAND_TOKENS = [''command'', ''delete'', ''delete_everything'', ''do'', ''execute'', ''now'',
     ''publish_this'', ''run'', ''send'', ''send_message'', ''update_every'', ''update_every_school'']"

record normalized_event_name =
  nen_event_type :: string
  nen_event_version :: int
  nen_canonical_name :: string

definition parts :: "string \<Rightarrow> string list" where
  "parts value = concat (map (split_on (CHR ''_'')) (split_on (CHR ''.'') value))"

definition reject_command_language :: "string \<Rightarrow> unit result" where
  "reject_command_language value =
     (if (\<exists>p\<in>set (parts value). p \<in> set COMMAND_TOKENS)
         \<or> (\<exists>p\<in>set (split_on (CHR ''.'') value). p \<in> set COMMAND_TOKENS)
      then Inl (ValidationError ''event_type'' ''Events must describe facts.'')
      else Inr ())"

definition validate_event_namespace :: "string \<Rightarrow> string result" where
  "validate_event_namespace event_type =
     (let value = lower (strip event_type) in
      if \<not> fullmatch BASE_EVENT_PATTERN value
      then Inl (ValidationError ''event_type'' ''Event type name is invalid.'')
      else ebind (reject_command_language value) (\<lambda>_. Inr value))"

text \<open>
  The two named groups of the versioned pattern. The version group holds no dot and follows
  \<open>.v\<close>, so it is the last dotted segment without its first character.
\<close>

definition version_groups :: "string \<Rightarrow> string \<times> string" where
  "version_groups value =
     (let segs = split_on (CHR ''.'') value in (join ''.'' (butlast segs), drop 1 (last segs)))"

definition normalize_event_name :: "string \<Rightarrow> normalized_event_name result" where
  "normalize_event_name event_name =
     (let value = lower (strip event_name) in
      if \<not> fullmatch VERSIONED_EVENT_PATTERN value
      then Inl (ValidationError ''event_type'' ''Event name must include a version suffix.'')
      else ebind (validate_event_namespace (fst (version_groups value))) (\<lambda>event_type.
        let event_version = int (read_nat (snd (version_groups value))) in
        Inr \<lparr>nen_event_type = event_type, nen_event_version = event_version,
             nen_canonical_name = event_type @ ''.v'' @ int_str event_version\<rparr>))"

definition build_event_name :: "string \<Rightarrow> int \<Rightarrow> string result" where
  "build_event_name event_type event_version =
     ebind (validate_event_namespace event_type) (\<lambda>namespace.
       if event_version < 1 then Inl (ValidationError ''event_version'' ''Event version is invalid.'')
       else Inr (namespace @ ''.v'' @ int_str event_version))"

section \<open>Producers and consumers (producer_authorizer.py)\<close>

definition allow_set :: "string list \<Rightarrow> string list" where
  "allow_set items = filter (\<lambda>s. s \<noteq> []) (map strip items)"

definition authorize_producer :: "string \<Rightarrow> string list \<Rightarrow> string result" where
  "authorize_producer producer allowed_producers =
     (let value = strip producer in
      if value = [] \<or> value \<notin> set (allow_set allowed_producers)
      then Inl (ValidationError ''source_module'' ''Producer is not allowlisted.'')
      else Inr value)"

definition authorize_consumer :: "string \<Rightarrow> string list \<Rightarrow> string result" where
  "authorize_consumer consumer allowed_consumers =
     (let value = strip consumer in
      if value = [] \<or> value \<notin> set (allow_set allowed_consumers)
      then Inl (ValidationError ''consumer'' ''Consumer is not allowlisted.'')
      else Inr value)"

section \<open>Idempotency keys (idempotency_key_builder.py)\<close>

definition missing_value :: "string option \<Rightarrow> bool" where
  "missing_value v \<longleftrightarrow> v = None \<or> v = Some []"

definition build_idempotency_key ::
  "string option \<Rightarrow> string \<Rightarrow> int \<Rightarrow> string option \<Rightarrow> string option \<Rightarrow> string option \<Rightarrow> string result" where
  "build_idempotency_key tenant_id event_type event_version resource_type resource_id semantic_action =
     (if \<exists>v\<in>set [tenant_id, resource_type, resource_id, semantic_action]. missing_value v
      then Inl (ValidationError ''idempotency_key'' ''Idempotency inputs are required.'')
      else ebind (build_event_name event_type event_version) (\<lambda>event_name.
        Inr (''tenant:'' @ the tenant_id @ '':'' @ event_name @ '':'' @ the resource_type @ '':''
             @ the resource_id @ '':'' @ the semantic_action)))"

section \<open>Partition keys (partition_key_builder.py)\<close>

definition partition_char :: "char \<Rightarrow> bool" where
  "partition_char c \<longleftrightarrow> is_AZ c \<or> is_az c \<or> is_09 c \<or> c \<in> {CHR ''.'', CHR ''_'', CHR '':'', CHR ''-''}"

definition PARTITION_KEY_PATTERN :: regex where
  "PARTITION_KEY_PATTERN = Rep 1 128 (Cls partition_char)"

definition validate_partition_key :: "string \<Rightarrow> string result" where
  "validate_partition_key partition_key =
     (let value = strip partition_key in
      if \<not> fullmatch PARTITION_KEY_PATTERN value
      then Inl (ValidationError ''partition_key'' ''Partition key is invalid.'')
      else Inr value)"

definition truthy :: "string option \<Rightarrow> bool" where
  "truthy v \<longleftrightarrow> \<not> missing_value v"

definition build_partition_key ::
  "uuid option \<Rightarrow> string option \<Rightarrow> string option \<Rightarrow> string option \<Rightarrow> bool \<Rightarrow> string result" where
  "build_partition_key tenant_id event_type region priority requires_tenant =
     (if requires_tenant \<and> tenant_id = None
      then Inl (ValidationError ''tenant'' ''Tenant is required for partitioning.'')
      else validate_partition_key
        (if tenant_id \<noteq> None then ''tenant:'' @ the tenant_id
         else if truthy region \<and> truthy event_type
         then ''region:'' @ the region @ '':event_type:'' @ the event_type
         else if truthy priority \<and> tenant_id \<noteq> None
         then ''priority:'' @ the priority @ '':tenant:'' @ the tenant_id
         else if truthy event_type then ''event_type:'' @ the event_type
         else ''global''))"

section \<open>Priorities (priority_ordering.py)\<close>

definition PRIORITY_ORDER :: "(string \<times> int) list" where
  "PRIORITY_ORDER = [(''critical'', 0), (''high'', 1), (''normal'', 2), (''low'', 3), (''background'', 4)]"

definition validate_priority :: "string \<Rightarrow> string result" where
  "validate_priority priority =
     (let value = lower (strip priority) in
      if value \<notin> set (map fst PRIORITY_ORDER)
      then Inl (ValidationError ''priority'' ''Event priority is invalid.'')
      else Inr value)"

definition priority_rank :: "string \<Rightarrow> int result" where
  "priority_rank priority =
     ebind (validate_priority priority) (\<lambda>v.
       case map_of PRIORITY_ORDER v of Some r \<Rightarrow> Inr r | None \<Rightarrow> Inl KeyError)"

section \<open>Retry, backoff and dead letters\<close>

definition RETRYABLE :: string where "RETRYABLE = ''retryable''"
definition PERMANENT :: string where "PERMANENT = ''permanent''"
definition INVALID_PAYLOAD :: string where "INVALID_PAYLOAD = ''invalid_payload''"
definition UNAUTHORIZED_PRODUCER :: string where "UNAUTHORIZED_PRODUCER = ''unauthorized_producer''"
definition TENANT_MISMATCH :: string where "TENANT_MISMATCH = ''tenant_mismatch''"
definition SCHEMA_MISMATCH :: string where "SCHEMA_MISMATCH = ''schema_mismatch''"

record retry_decision =
  rd_failure_class :: string
  rd_should_retry :: bool
  rd_should_dead_letter :: bool

text \<open>The argument is the exception's class name, or the failure text itself.\<close>

definition classify_failure :: "string \<Rightarrow> string" where
  "classify_failure name =
     (let lowered = lower name in
      if contains ''retryable'' lowered \<or> contains ''temporary'' lowered \<or> contains ''unavailable'' lowered
      then RETRYABLE
      else if contains ''validation'' lowered \<or> contains ''payload'' lowered then INVALID_PAYLOAD
      else if contains ''tenant'' lowered then TENANT_MISMATCH
      else if contains ''producer'' lowered \<or> contains ''consumer'' lowered \<or> contains ''allowlist'' lowered
      then UNAUTHORIZED_PRODUCER
      else PERMANENT)"

definition decide_retry :: "string \<Rightarrow> int \<Rightarrow> int \<Rightarrow> retry_decision" where
  "decide_retry failure_class attempt_number max_attempts =
     (if failure_class = RETRYABLE \<and> attempt_number < max_attempts
      then \<lparr>rd_failure_class = failure_class, rd_should_retry = True, rd_should_dead_letter = False\<rparr>
      else \<lparr>rd_failure_class = failure_class, rd_should_retry = False, rd_should_dead_letter = True\<rparr>)"

definition calculate_backoff_seconds :: "int \<Rightarrow> int \<Rightarrow> int \<Rightarrow> int result" where
  "calculate_backoff_seconds attempt_number base_delay_seconds max_delay_seconds =
     (if attempt_number < 1
      then Inl (ValidationError ''attempt_number'' ''Attempt number is invalid.'')
      else Inr (min (base_delay_seconds * 2 ^ nat (attempt_number - 1)) max_delay_seconds))"

definition REASON_BY_FAILURE :: "(string \<times> string) list" where
  "REASON_BY_FAILURE =
     [(INVALID_PAYLOAD, ''invalid_payload''), (PERMANENT, ''handler_permanent_failure''),
      (SCHEMA_MISMATCH, ''schema_mismatch''), (TENANT_MISMATCH, ''tenant_mismatch''),
      (UNAUTHORIZED_PRODUCER, ''unauthorized_producer'')]"

definition classify_dead_letter_reason :: "string \<Rightarrow> int \<Rightarrow> int \<Rightarrow> string" where
  "classify_dead_letter_reason failure_class attempt_number max_attempts =
     (if max_attempts \<le> attempt_number then ''max_retries_exceeded''
      else case map_of REASON_BY_FAILURE failure_class of
        Some r \<Rightarrow> r | None \<Rightarrow> ''handler_permanent_failure'')"

section \<open>Payload safety (payload_safety_guard.py)\<close>

definition SENSITIVE_KEY_FRAGMENTS :: "string list" where
  "SENSITIVE_KEY_FRAGMENTS =
     [''access_token'', ''admission'', ''component_scores'', ''circular_text'', ''document_body'',
      ''email'', ''file_content'', ''full_curriculum_text'', ''guardian'', ''grade_mark'',
      ''grade_marks'', ''html_body'', ''learner_name'', ''learner_names'', ''nlp_output'',
      ''password'', ''phone'', ''private_key'', ''raw_circular'', ''raw_curriculum'',
      ''raw_document'', ''raw_grade_grid'', ''raw_mark'', ''raw_marks'', ''raw_payload'',
      ''raw_score'', ''raw_uploaded_file'', ''report_text'', ''secret'', ''student_data'',
      ''student_name'', ''student_names'', ''teacher_private_notes'', ''token'',
      ''uploaded_file_content'']"

definition any_of :: "string \<Rightarrow> char \<Rightarrow> bool" where
  "any_of s c \<longleftrightarrow> c \<in> set s"

definition SENSITIVE_VALUE_PATTERNS :: "regex list" where
  "SENSITIVE_VALUE_PATTERNS =
     [seqs [WordBoundary, Rep 2 5 (Cls is_AZ), Opt (Cls (any_of ''-_'')), RepAtLeast 3 (Cls is_09),
            WordBoundary],
      seqs [WordBoundary, Plus (Cls (\<lambda>c. word_char c \<or> any_of ''.+-'' c)), Lit ''@'',
            Plus (Cls (\<lambda>c. word_char c \<or> any_of ''.-'' c)), Lit ''.'',
            RepAtLeast 2 (Cls (\<lambda>c. is_AZ c \<or> is_az c)), WordBoundary],
      seqs [Lit ''-----BEGIN '', Star (Cls (\<lambda>c. is_AZ c \<or> c = CHR '' '')), Lit ''PRIVATE KEY-----''],
      seqs [WordBoundary, alts [LitI ''password'', LitI ''token'', LitI ''secret''],
            Star (Cls py_space), Cls (any_of '':='')]]"

definition sensitive_fields :: exn where
  "sensitive_fields = ValidationError ''payload'' ''Event payload contains sensitive fields.''"

definition sensitive_values :: exn where
  "sensitive_values = ValidationError ''payload'' ''Event payload contains sensitive values.''"

definition sensitive_key :: "string \<Rightarrow> bool" where
  "sensitive_key key \<longleftrightarrow> (\<exists>fragment\<in>set SENSITIVE_KEY_FRAGMENTS. contains fragment (lower (strip key)))"

definition sensitive_text :: "string \<Rightarrow> bool" where
  "sensitive_text s \<longleftrightarrow> (\<exists>r\<in>set SENSITIVE_VALUE_PATTERNS. search r s)"

fun is_jstr :: "json \<Rightarrow> bool" where
  "is_jstr (JStr s) = True" | "is_jstr _ = False"

definition joined_names :: "json list \<Rightarrow> bool" where
  "joined_names vs \<longleftrightarrow> vs \<noteq> [] \<and> (\<forall>v\<in>set vs. is_jstr v) \<and>
     (let joined = lower (join '' '' (map json_str vs)) in
      contains ''learner'' joined \<or> contains ''student'' joined)"

fun reject_sensitive_payload :: "json \<Rightarrow> unit result" where
  "reject_sensitive_payload (JObj kvs) =
     echeck (\<lambda>kv. if sensitive_key (fst kv) then Inl sensitive_fields
                  else reject_sensitive_payload (snd kv)) kvs"
| "reject_sensitive_payload (JList vs) =
     (if joined_names vs then Inl sensitive_values else echeck reject_sensitive_payload vs)"
| "reject_sensitive_payload (JStr s) = (if sensitive_text s then Inl sensitive_values else Inr ())"
| "reject_sensitive_payload _ = Inr ()"

definition payload_size_bytes :: "json \<Rightarrow> nat result" where
  "payload_size_bytes payload = ebind (dumps False payload) (\<lambda>t. Inr (length t))"

definition validate_payload_size :: "json \<Rightarrow> nat \<Rightarrow> unit result" where
  "validate_payload_size payload max_bytes =
     ebind (payload_size_bytes payload) (\<lambda>n.
       if n > max_bytes then Inl (ValidationError ''payload'' ''Event payload is too large.'')
       else Inr ())"

definition sanitize_failure_text :: "string \<Rightarrow> string \<Rightarrow> string" where
  "sanitize_failure_text value fallback =
     (let text = take 255 value in
      case reject_sensitive_payload (JObj [(''message'', JStr text)]) of
        Inl _ \<Rightarrow> fallback | Inr _ \<Rightarrow> text)"

definition sanitize_dead_letter_text :: "string \<Rightarrow> string" where
  "sanitize_dead_letter_text value = sanitize_failure_text value ''sanitized_dead_letter''"

section \<open>Payload schemas (payload_schema_validator.py)\<close>

record payload_schema =
  ps_required :: "string list"
  ps_types :: json

text \<open>\<open>isinstance\<close> on the mapped types; a Python \<open>bool\<close> is an \<open>int\<close>.\<close>

fun is_jint :: "json \<Rightarrow> bool" where
  "is_jint (JInt i) = True" | "is_jint (JBool b) = True" | "is_jint _ = False"
fun is_jbool :: "json \<Rightarrow> bool" where
  "is_jbool (JBool b) = True" | "is_jbool _ = False"
fun is_jobj :: "json \<Rightarrow> bool" where
  "is_jobj (JObj b) = True" | "is_jobj _ = False"
fun is_jlist :: "json \<Rightarrow> bool" where
  "is_jlist (JList b) = True" | "is_jlist _ = False"

definition TYPE_MAP :: "(string \<times> (json \<Rightarrow> bool)) list" where
  "TYPE_MAP = [(''str'', is_jstr), (''string'', is_jstr), (''int'', is_jint), (''integer'', is_jint),
     (''bool'', is_jbool), (''boolean'', is_jbool), (''dict'', is_jobj), (''object'', is_jobj),
     (''list'', is_jlist)]"

definition ensure_json_serializable :: "json \<Rightarrow> unit result" where
  "ensure_json_serializable payload =
     (case dumps False payload of
        Inl _ \<Rightarrow> Inl (ValidationError ''payload'' ''Event payload must be JSON-safe.'')
      | Inr _ \<Rightarrow> Inr ())"

definition validate_field_type :: "(string \<times> json) list \<Rightarrow> string \<times> json \<Rightarrow> unit result" where
  "validate_field_type payload ft =
     (case map_of payload (fst ft) of
        None \<Rightarrow> Inr ()
      | Some v \<Rightarrow>
          (case map_of TYPE_MAP (lower (json_str (snd ft))) of
             None \<Rightarrow> Inl (ValidationError ''payload_schema'' ''Payload field type is unsupported.'')
           | Some expected \<Rightarrow>
               if \<not> expected v
               then Inl (ValidationError ''payload'' ''Event payload field type is invalid.'')
               else Inr ()))"

definition validate_payload_schema :: "json \<Rightarrow> payload_schema \<Rightarrow> unit result" where
  "validate_payload_schema payload schema =
     (case payload of
        JObj kvs \<Rightarrow>
          ebind (ensure_json_serializable payload) (\<lambda>_.
            if \<exists>field\<in>set (ps_required schema). field \<notin> set (map fst kvs)
            then Inl (ValidationError ''payload'' ''Event payload is missing required fields.'')
            else (case ps_types schema of
                JObj types \<Rightarrow> echeck (validate_field_type kvs) types
              | _ \<Rightarrow> Inl (ValidationError ''payload_schema'' ''Payload field types are invalid.'')))
      | _ \<Rightarrow> Inl (ValidationError ''payload'' ''Event payload must be an object.''))"

section \<open>The contract check (event_contract_validator.py)\<close>

record event_contract =
  ec_event_type :: string
  ec_event_version :: int
  ec_allowed_producers :: "string list"
  ec_requires_tenant :: bool
  ec_payload_schema :: payload_schema
  ec_is_active :: bool

definition validate_event_contract_algorithm ::
  "event_contract \<Rightarrow> string \<Rightarrow> int \<Rightarrow> string \<Rightarrow> uuid option \<Rightarrow> json \<Rightarrow> string \<Rightarrow> nat \<Rightarrow> unit result" where
  "validate_event_contract_algorithm contract event_type event_version producer tenant_id payload
      priority max_payload_bytes =
     (if \<not> ec_is_active contract
      then Inl (ValidationError ''event_type'' ''Active event type is required.'')
      else ebind (validate_event_namespace event_type) (\<lambda>ns.
        if ns \<noteq> ec_event_type contract
        then Inl (ValidationError ''event_type'' ''Event type does not match contract.'')
        else if event_version \<noteq> ec_event_version contract
        then Inl (ValidationError ''event_version'' ''Event version is invalid.'')
        else ebind (authorize_producer producer (ec_allowed_producers contract)) (\<lambda>_.
          if ec_requires_tenant contract \<and> tenant_id = None
          then Inl (ValidationError ''tenant'' ''Tenant is required for this event.'')
          else ebind (validate_priority priority) (\<lambda>_.
            ebind (validate_payload_schema payload (ec_payload_schema contract)) (\<lambda>_.
              ebind (validate_payload_size payload max_payload_bytes) (\<lambda>_.
                reject_sensitive_payload payload))))))"

section \<open>Consumer idempotency (consumer_idempotency.py)\<close>

definition SKIP_STATUSES :: "string list" where
  "SKIP_STATUSES = [''started'', ''processed'']"

definition should_skip_consumer :: "string option \<Rightarrow> bool" where
  "should_skip_consumer status =
     (lower (strip (case status of None \<Rightarrow> [] | Some s \<Rightarrow> s)) \<in> set SKIP_STATUSES)"

definition ensure_consumer_tenant_matches :: "uuid option \<Rightarrow> uuid option \<Rightarrow> unit result" where
  "ensure_consumer_tenant_matches event_tenant_id consumer_tenant_id =
     (if truthy event_tenant_id \<and> truthy consumer_tenant_id \<and> event_tenant_id \<noteq> consumer_tenant_id
      then Inl (ValidationError ''tenant'' ''Consumer tenant mismatch.'')
      else Inr ())"

end
