(* ===== verification/Outbox.thy ===== *)
theory Outbox
  imports EventRules
begin

text \<open>
  The transactional outbox, app/events/models.py, services.py, handlers.py: the event tables,
  writing an event, taking a batch, and dispatching it to the in-process consumers with bounded
  retries and dead letters. The tables are lists of rows; a query is a filter and a stable sort.
  \<open>timezone.now()\<close> is the argument \<open>now\<close>, read once per operation. A dispatch attempt is
  known by its event and its number.
\<close>

section \<open>Constants and tables\<close>

definition MAX_EVENT_PAYLOAD_BYTES :: nat where "MAX_EVENT_PAYLOAD_BYTES = 8 * 1024"
definition MAX_RETRY_ATTEMPTS :: int where "MAX_RETRY_ATTEMPTS = 3"
definition DEFAULT_RETRY_DELAY_SECONDS :: int where "DEFAULT_RETRY_DELAY_SECONDS = 60"
definition MAX_RELAY_BATCH_SIZE :: int where "MAX_RELAY_BATCH_SIZE = 100"
definition LOCK_TIMEOUT_SECONDS :: int where "LOCK_TIMEOUT_SECONDS = 300"

record event_type_row =
  et_event_type :: string
  et_event_version :: int
  et_description :: string
  et_source_module :: string
  et_allowed_producers :: "string list"
  et_allowed_consumers :: "string list"
  et_requires_tenant :: bool
  et_payload_schema :: payload_schema
  et_priority :: string
  et_retention_days :: int
  et_is_active :: bool

datatype outbox_status =
  PENDING | LOCKED | DISPATCHED | FAILED_RETRYABLE | DEAD_LETTERED | DISCARDED_INVALID

record outbox_event =
  ev_id :: uuid
  ev_event_type :: string
  ev_event_version :: int
  ev_tenant :: "uuid option"
  ev_actor_id :: "uuid option"
  ev_idempotency_key :: string
  ev_source_module :: string
  ev_partition_key :: string
  ev_priority :: string
  ev_payload :: json
  ev_status :: outbox_status
  ev_available_at :: time
  ev_occurred_at :: time
  ev_locked_at :: "time option"
  ev_locked_by :: string
  ev_dispatched_at :: "time option"

datatype attempt_status = A_STARTED | A_SUCCEEDED | A_FAILED_RETRYABLE | A_DEAD_LETTERED

record dispatch_attempt =
  at_event :: uuid
  at_attempt_number :: int
  at_dispatcher_name :: string
  at_status :: attempt_status
  at_error_message :: string
  at_finished_at :: "time option"

datatype consumer_status = C_STARTED | C_PROCESSED | C_FAILED

record consumer_state =
  cs_event_id :: uuid
  cs_consumer_name :: string
  cs_tenant :: "uuid option"
  cs_status :: consumer_status
  cs_processed_at :: "time option"
  cs_failure_reason :: string

record dead_letter =
  dl_event :: uuid
  dl_event_type :: string
  dl_event_version :: int
  dl_tenant :: "uuid option"
  dl_reason :: string
  dl_sanitized_error :: string
  dl_failed_after_attempts :: int

record event_db =
  registry :: "event_type_row list"
  outbox :: "outbox_event list"
  attempts :: "dispatch_attempt list"
  consumer_states :: "consumer_state list"
  dead_letters :: "dead_letter list"

section \<open>Planning a batch (dispatch_batch_planner.py, priority_ordering.py)\<close>

definition rank_of :: "string \<Rightarrow> int" where
  "rank_of priority = (case priority_rank priority of Inl _ \<Rightarrow> 0 | Inr r \<Rightarrow> r)"

definition sort_events_for_dispatch :: "outbox_event list \<Rightarrow> outbox_event list result" where
  "sort_events_for_dispatch events =
     ebind (emap (\<lambda>event. priority_rank (ev_priority event)) events) (\<lambda>_.
       Inr (sort_key (\<lambda>event. (rank_of (ev_priority event), ev_occurred_at event)) events))"

definition ready_for_dispatch :: "time \<Rightarrow> int \<Rightarrow> outbox_event \<Rightarrow> bool" where
  "ready_for_dispatch now lock_timeout_seconds event =
     (let cutoff = now - seconds lock_timeout_seconds in
      \<not> ev_available_at event > now \<and>
      (ev_status event \<in> {PENDING, FAILED_RETRYABLE} \<or>
       (ev_status event = LOCKED \<and>
        (case ev_locked_at event of None \<Rightarrow> False | Some t \<Rightarrow> t < cutoff))))"

definition plan_dispatch_batch ::
  "outbox_event list \<Rightarrow> int \<Rightarrow> time \<Rightarrow> int \<Rightarrow> outbox_event list result" where
  "plan_dispatch_batch events max_batch_size now lock_timeout_seconds =
     (if max_batch_size < 1 then Inl (ValidationError ''batch_size'' ''Batch size must be positive.'')
      else ebind (sort_events_for_dispatch (filter (ready_for_dispatch now lock_timeout_seconds) events))
        (\<lambda>ready. Inr (take (nat max_batch_size) ready)))"

section \<open>Validation on save (models.py)\<close>

text \<open>
  \<open>save\<close> calls \<open>full_clean\<close>: the declared field options (length, blank), the model's
  \<open>clean\<close>, the declared uniqueness. The first failing check is the exception.
\<close>

definition field_error :: "string \<Rightarrow> exn" where
  "field_error f = ValidationError f ''Invalid field.''"

definition char_field :: "nat \<Rightarrow> string \<Rightarrow> bool" where
  "char_field n s \<longleftrightarrow> s \<noteq> [] \<and> length s \<le> n"

text \<open>The range of a \<open>PositiveIntegerField\<close>.\<close>

definition positive_integer :: "int \<Rightarrow> bool" where
  "positive_integer n \<longleftrightarrow> 0 \<le> n \<and> n \<le> 2147483647"

definition event_type_row_clean :: "event_type_row \<Rightarrow> event_type_row result" where
  "event_type_row_clean r =
     ebind (validate_event_namespace (et_event_type r)) (\<lambda>t.
       ebind (validate_priority (et_priority r)) (\<lambda>p.
         if strip (et_description r) = [] then Inl (ValidationError ''description'' ''Description is required.'')
         else if strip (et_source_module r) = []
         then Inl (ValidationError ''source_module'' ''Source module is required.'')
         else if et_allowed_producers r = []
         then Inl (ValidationError ''allowed_producers'' ''Allowed producers required.'')
         else Inr (r\<lparr>et_event_type := t, et_priority := p\<rparr>)))"

definition event_type_row_save :: "event_db \<Rightarrow> event_type_row \<Rightarrow> event_type_row result" where
  "event_type_row_save db r =
     (if \<not> (char_field 128 (et_event_type r) \<and> char_field 64 (et_source_module r)
            \<and> et_description r \<noteq> [] \<and> char_field 16 (et_priority r) \<and> et_allowed_consumers r \<noteq> []
            \<and> positive_integer (et_event_version r) \<and> positive_integer (et_retention_days r))
      then Inl (field_error ''event_type'')
      else ebind (event_type_row_clean r) (\<lambda>r'.
        if \<exists>q\<in>set (registry db). et_event_type q = et_event_type r' \<and> et_event_version q = et_event_version r'
        then Inl (ValidationError ''__all__'' ''events_type_version_unique'')
        else Inr r'))"

definition validate_event_payload :: "json \<Rightarrow> payload_schema \<Rightarrow> unit result" where
  "validate_event_payload payload schema =
     (if \<not> is_jobj payload then Inl (ValidationError ''payload'' ''Event payload must be an object.'')
      else ebind (validate_payload_schema payload schema) (\<lambda>_.
        ebind (validate_payload_size payload MAX_EVENT_PAYLOAD_BYTES) (\<lambda>_.
          reject_sensitive_payload payload)))"

definition active_contract :: "event_db \<Rightarrow> string \<Rightarrow> int \<Rightarrow> event_type_row option" where
  "active_contract db t v =
     first_where (\<lambda>r. et_event_type r = t \<and> et_event_version r = v \<and> et_is_active r) (registry db)"

definition outbox_clean :: "event_db \<Rightarrow> outbox_event \<Rightarrow> outbox_event result" where
  "outbox_clean db e =
     (case active_contract db (ev_event_type e) (ev_event_version e) of
        None \<Rightarrow> Inl (ValidationError ''event_type'' ''Active event type is required.'')
      | Some r \<Rightarrow>
          ebind (authorize_producer (ev_source_module e) (et_allowed_producers r)) (\<lambda>_.
            if et_requires_tenant r \<and> ev_tenant e = None
            then Inl (ValidationError ''tenant'' ''Tenant is required for this event.'')
            else if strip (ev_idempotency_key e) = []
            then Inl (ValidationError ''idempotency_key'' ''Idempotency key is required.'')
            else ebind (validate_event_namespace (ev_event_type e)) (\<lambda>t.
              ebind (validate_priority (ev_priority e)) (\<lambda>p.
                ebind (validate_partition_key (ev_partition_key e)) (\<lambda>k.
                  ebind (validate_event_payload (ev_payload e) (et_payload_schema r)) (\<lambda>_.
                    Inr (e\<lparr>ev_event_type := t, ev_priority := p, ev_partition_key := k\<rparr>)))))))"

definition outbox_fields_ok :: "outbox_event \<Rightarrow> bool" where
  "outbox_fields_ok e \<longleftrightarrow> char_field 128 (ev_event_type e) \<and> char_field 160 (ev_idempotency_key e)
     \<and> char_field 64 (ev_source_module e) \<and> char_field 128 (ev_partition_key e)
     \<and> char_field 16 (ev_priority e) \<and> ev_payload e \<noteq> JObj [] \<and> length (ev_locked_by e) \<le> 128
     \<and> positive_integer (ev_event_version e)"

text \<open>The checks of \<open>EventOutbox.save\<close>; the result is the cleaned row.\<close>

definition outbox_full_clean :: "event_db \<Rightarrow> outbox_event \<Rightarrow> outbox_event result" where
  "outbox_full_clean db e =
     (if \<not> outbox_fields_ok e then Inl (field_error ''event_type'')
      else ebind (outbox_clean db e) (\<lambda>e'.
        if \<exists>q\<in>set (outbox db). ev_id q \<noteq> ev_id e' \<and> ev_idempotency_key q = ev_idempotency_key e'
        then Inl (ValidationError ''idempotency_key'' ''Already exists.'')
        else Inr e'))"

section \<open>Registering event types and writing events (services.py)\<close>

definition register_event_type :: "event_type_row \<Rightarrow> (event_db, event_type_row) action" where
  "register_event_type r db =
     (case event_type_row_save db r of
        Inl e \<Rightarrow> (Inl e, db)
      | Inr r' \<Rightarrow> (Inr r', db\<lparr>registry := registry db @ [r']\<rparr>))"

definition get_event_contract :: "event_db \<Rightarrow> string \<Rightarrow> int \<Rightarrow> event_type_row result" where
  "get_event_contract db event_type event_version =
     ebind (validate_event_namespace event_type) (\<lambda>t.
       case active_contract db t event_version of None \<Rightarrow> Inl DoesNotExist | Some r \<Rightarrow> Inr r)"

definition registry_contract :: "event_type_row \<Rightarrow> event_contract" where
  "registry_contract r =
     \<lparr>ec_event_type = et_event_type r, ec_event_version = et_event_version r,
      ec_allowed_producers = et_allowed_producers r, ec_requires_tenant = et_requires_tenant r,
      ec_payload_schema = et_payload_schema r, ec_is_active = et_is_active r\<rparr>"

record outbox_request =
  rq_event_type :: string
  rq_event_version :: int
  rq_source_module :: string
  rq_idempotency_key :: string
  rq_payload :: json
  rq_tenant :: "uuid option"
  rq_actor_id :: "uuid option"
  rq_partition_key :: "string option"
  rq_occurred_at :: "time option"
  rq_priority :: "string option"

text \<open>\<open>a or b\<close> on optional text.\<close>

definition or_else :: "string option \<Rightarrow> string \<Rightarrow> string" where
  "or_else a b = (if truthy a then the a else b)"

definition build_outbox_row ::
  "event_db \<Rightarrow> time \<Rightarrow> uuid \<Rightarrow> outbox_request \<Rightarrow> outbox_event result" where
  "build_outbox_row db now new_id rq =
     ebind (get_event_contract db (rq_event_type rq) (rq_event_version rq)) (\<lambda>r.
       ebind (authorize_producer (rq_source_module rq) (et_allowed_producers r)) (\<lambda>_.
         ebind (validate_priority (or_else (rq_priority rq) (et_priority r))) (\<lambda>event_priority.
           ebind (validate_event_contract_algorithm (registry_contract r) (et_event_type r)
               (et_event_version r) (rq_source_module rq) (rq_tenant rq) (rq_payload rq)
               event_priority MAX_EVENT_PAYLOAD_BYTES) (\<lambda>_.
             ebind (if truthy (rq_partition_key rq) then Inr (the (rq_partition_key rq))
                    else build_partition_key (rq_tenant rq) (Some (et_event_type r)) None None
                      (et_requires_tenant r)) (\<lambda>partition.
               ebind (validate_partition_key partition) (\<lambda>pk.
                 Inr \<lparr>ev_id = new_id, ev_event_type = et_event_type r,
                      ev_event_version = et_event_version r, ev_tenant = rq_tenant rq,
                      ev_actor_id = rq_actor_id rq, ev_idempotency_key = rq_idempotency_key rq,
                      ev_source_module = rq_source_module rq, ev_partition_key = pk,
                      ev_priority = event_priority, ev_payload = rq_payload rq, ev_status = PENDING,
                      ev_available_at = now,
                      ev_occurred_at = (case rq_occurred_at rq of None \<Rightarrow> now | Some t \<Rightarrow> t),
                      ev_locked_at = None, ev_locked_by = [], ev_dispatched_at = None\<rparr>))))))"

definition write_outbox_event ::
  "time \<Rightarrow> uuid \<Rightarrow> outbox_request \<Rightarrow> (event_db, outbox_event) action" where
  "write_outbox_event now new_id rq =
     atomic (\<lambda>db.
       case ebind (build_outbox_row db now new_id rq) (outbox_full_clean db) of
         Inl e \<Rightarrow> (Inl e, db)
       | Inr e \<Rightarrow> (Inr e, db\<lparr>outbox := outbox db @ [e]\<rparr>))"

section \<open>Taking a batch\<close>

text \<open>
  No transaction and no row lock holds the three statements of \<open>lock_pending_events\<close> together:
  it selects the candidates, marks them with an UPDATE by primary key, and reads the marked rows
  again. Each statement is a definition of its own, so that two relays can be interleaved between
  them; \<open>lock_pending_events\<close> runs them without interruption.
\<close>

definition lock_candidates :: "time \<Rightarrow> int \<Rightarrow> event_db \<Rightarrow> uuid list result" where
  "lock_candidates now batch_size db =
     (let safe_batch_size = max 1 (min batch_size MAX_RELAY_BATCH_SIZE);
          candidates = take (nat (safe_batch_size * 3))
            (sort_key (\<lambda>e. (ev_available_at e, ev_occurred_at e))
              (filter (\<lambda>e. ev_status e \<in> {PENDING, FAILED_RETRYABLE, LOCKED}
                        \<and> ev_available_at e \<le> now) (outbox db)))
      in ebind (plan_dispatch_batch candidates safe_batch_size now LOCK_TIMEOUT_SECONDS) (\<lambda>selected.
           Inr (map ev_id selected)))"

text \<open>The UPDATE validates nothing; the column refuses more than 128 characters when a row is written.\<close>

definition mark_locked :: "time \<Rightarrow> string \<Rightarrow> uuid list \<Rightarrow> (event_db, unit) action" where
  "mark_locked now dispatcher_name ids db =
     (if 128 < length dispatcher_name \<and> (\<exists>e\<in>set (outbox db). ev_id e \<in> set ids)
      then (Inl (OtherError ''DataError''), db)
      else (Inr (), db\<lparr>outbox := update_where (\<lambda>e. ev_id e \<in> set ids)
              (\<lambda>e. e\<lparr>ev_status := LOCKED, ev_locked_at := Some now,
                      ev_locked_by := dispatcher_name\<rparr>) (outbox db)\<rparr>))"

definition locked_batch :: "uuid list \<Rightarrow> event_db \<Rightarrow> outbox_event list" where
  "locked_batch ids db = sort_key ev_occurred_at (filter (\<lambda>e. ev_id e \<in> set ids) (outbox db))"

definition lock_pending_events ::
  "time \<Rightarrow> string \<Rightarrow> int \<Rightarrow> (event_db, outbox_event list) action" where
  "lock_pending_events now dispatcher_name batch_size =
     abind (query (lock_candidates now batch_size)) (\<lambda>ids.
       abind (mark_locked now dispatcher_name ids) (\<lambda>_. query (\<lambda>db. Inr (locked_batch ids db))))"

section \<open>Consumers and outcomes\<close>

definition exn_text :: "exn \<Rightarrow> string" where
  "exn_text e = (case e of
       ValidationError f m \<Rightarrow> ''{'' @ [CHR 0x27] @ f @ [CHR 0x27] @ '': ['' @ [CHR 0x27] @ m @ [CHR 0x27] @ '']}''
     | ValueError m \<Rightarrow> m | RetryableEventError m \<Rightarrow> m | PermanentEventError m \<Rightarrow> m | OtherError m \<Rightarrow> m
     | _ \<Rightarrow> [])"

definition sanitize_error :: "string \<Rightarrow> string" where
  "sanitize_error message = sanitize_dead_letter_text (take 255 message)"

definition attempt_number_for :: "event_db \<Rightarrow> uuid \<Rightarrow> int" where
  "attempt_number_for db eid = int (length (filter (\<lambda>a. at_event a = eid) (attempts db))) + 1"

definition set_attempt ::
  "uuid \<Rightarrow> int \<Rightarrow> (dispatch_attempt \<Rightarrow> dispatch_attempt) \<Rightarrow> event_db \<Rightarrow> event_db" where
  "set_attempt eid n f db =
     db\<lparr>attempts := update_where (\<lambda>a. at_event a = eid \<and> at_attempt_number a = n) f (attempts db)\<rparr>"

definition set_event :: "uuid \<Rightarrow> (outbox_event \<Rightarrow> outbox_event) \<Rightarrow> event_db \<Rightarrow> event_db" where
  "set_event eid f db = db\<lparr>outbox := update_where (\<lambda>e. ev_id e = eid) f (outbox db)\<rparr>"

text \<open>
  \<open>event.save(update_fields=...)\<close>: the whole row in memory is validated, the named columns are
  written.
\<close>

definition save_event ::
  "outbox_event \<Rightarrow> (outbox_event \<Rightarrow> outbox_event) \<Rightarrow> (event_db, unit) action" where
  "save_event event f db =
     (case outbox_full_clean db (f event) of
        Inl e \<Rightarrow> (Inl e, db)
      | Inr _ \<Rightarrow> (Inr (), set_event (ev_id event) f db))"

definition mark_event_dispatched :: "time \<Rightarrow> outbox_event \<Rightarrow> int \<Rightarrow> (event_db, unit) action" where
  "mark_event_dispatched now event attempt =
     abind (save_event event (\<lambda>e. e\<lparr>ev_status := DISPATCHED, ev_dispatched_at := Some now\<rparr>)) (\<lambda>_ db.
       (Inr (), set_attempt (ev_id event) attempt
          (\<lambda>a. a\<lparr>at_status := A_SUCCEEDED, at_finished_at := Some now\<rparr>) db))"

definition move_event_to_dead_letter ::
  "outbox_event \<Rightarrow> string \<Rightarrow> string \<Rightarrow> int \<Rightarrow> (event_db, dead_letter) action" where
  "move_event_to_dead_letter event reason error_message failed_after_attempts =
     abind (save_event event (\<lambda>e. e\<lparr>ev_status := DEAD_LETTERED\<rparr>)) (\<lambda>_ db.
       let dl = \<lparr>dl_event = ev_id event, dl_event_type = ev_event_type event,
                 dl_event_version = ev_event_version event, dl_tenant = ev_tenant event,
                 dl_reason = sanitize_error reason, dl_sanitized_error = sanitize_error error_message,
                 dl_failed_after_attempts = failed_after_attempts\<rparr> in
       if dl_reason dl = [] then (Inl (field_error ''reason''), db)
       else case reject_sensitive_payload
           (JObj [(''reason'', JStr (dl_reason dl)), (''sanitized_error'', JStr (dl_sanitized_error dl))]) of
         Inl e \<Rightarrow> (Inl e, db)
       | Inr _ \<Rightarrow>
           if \<exists>d\<in>set (dead_letters db). dl_event d = ev_id event
           then (Inl (ValidationError ''event_outbox'' ''Already exists.''), db)
           else (Inr dl, db\<lparr>dead_letters := dead_letters db @ [dl]\<rparr>))"

definition mark_event_failed_retryable ::
  "time \<Rightarrow> outbox_event \<Rightarrow> int \<Rightarrow> string \<Rightarrow> (event_db, unit) action" where
  "mark_event_failed_retryable now event attempt error_message db =
     (let db1 = set_attempt (ev_id event) attempt
            (\<lambda>a. a\<lparr>at_status := A_FAILED_RETRYABLE, at_error_message := sanitize_error error_message,
                    at_finished_at := Some now\<rparr>) db;
          decision = decide_retry RETRYABLE attempt MAX_RETRY_ATTEMPTS
      in if rd_should_dead_letter decision
         then abind (move_event_to_dead_letter event
                (classify_dead_letter_reason RETRYABLE attempt MAX_RETRY_ATTEMPTS) error_message attempt)
              (\<lambda>_ db2. (Inr (), db2)) db1
         else case calculate_backoff_seconds attempt DEFAULT_RETRY_DELAY_SECONDS
                (DEFAULT_RETRY_DELAY_SECONDS * 8) of
             Inl e \<Rightarrow> (Inl e, db1)
           | Inr delay \<Rightarrow> save_event event
               (\<lambda>e. e\<lparr>ev_status := FAILED_RETRYABLE, ev_available_at := now + seconds delay\<rparr>) db1)"

definition consumer_row :: "event_db \<Rightarrow> uuid \<Rightarrow> string \<Rightarrow> consumer_state option" where
  "consumer_row db eid name =
     first_where (\<lambda>c. cs_event_id c = eid \<and> cs_consumer_name c = name) (consumer_states db)"

definition consumer_status_text :: "consumer_status \<Rightarrow> string" where
  "consumer_status_text st =
     (case st of C_STARTED \<Rightarrow> ''started'' | C_PROCESSED \<Rightarrow> ''processed'' | C_FAILED \<Rightarrow> ''failed'')"

definition already_processed :: "event_db \<Rightarrow> uuid \<Rightarrow> string \<Rightarrow> bool" where
  "already_processed db eid name =
     should_skip_consumer (map_option (\<lambda>c. consumer_status_text (cs_status c)) (consumer_row db eid name))"

definition record_consumer_started ::
  "outbox_event \<Rightarrow> string \<Rightarrow> uuid option \<Rightarrow> (event_db, consumer_state) action" where
  "record_consumer_started event name tenant =
     abind (alift (ensure_consumer_tenant_matches (ev_tenant event) tenant)) (\<lambda>_ db.
       case consumer_row db (ev_id event) name of
         Some c \<Rightarrow> (Inr c, db)
       | None \<Rightarrow>
           if \<not> char_field 128 name then (Inl (field_error ''consumer_name''), db)
           else let c = \<lparr>cs_event_id = ev_id event, cs_consumer_name = name,
                     cs_tenant = (if truthy tenant then tenant else ev_tenant event),
                     cs_status = C_STARTED, cs_processed_at = None, cs_failure_reason = []\<rparr>
                in (Inr c, db\<lparr>consumer_states := consumer_states db @ [c]\<rparr>))"

definition set_consumer ::
  "uuid \<Rightarrow> string \<Rightarrow> (consumer_state \<Rightarrow> consumer_state) \<Rightarrow> event_db \<Rightarrow> event_db" where
  "set_consumer eid name f db =
     db\<lparr>consumer_states := update_where (\<lambda>c. cs_event_id c = eid \<and> cs_consumer_name c = name) f
          (consumer_states db)\<rparr>"

text \<open>\<open>EventConsumerState.clean\<close> on saving a changed row.\<close>

definition consumer_clean :: "consumer_state \<Rightarrow> unit result" where
  "consumer_clean c =
     (if cs_failure_reason c = [] then Inr ()
      else reject_sensitive_payload (JObj [(''failure_reason'', JStr (cs_failure_reason c))]))"

definition record_consumer_processed ::
  "time \<Rightarrow> outbox_event \<Rightarrow> string \<Rightarrow> (event_db, unit) action" where
  "record_consumer_processed now event name =
     abind (record_consumer_started event name None) (\<lambda>c db.
       case consumer_clean c of
         Inl e \<Rightarrow> (Inl e, db)
       | Inr _ \<Rightarrow> (Inr (), set_consumer (ev_id event) name
           (\<lambda>r. r\<lparr>cs_status := C_PROCESSED, cs_processed_at := Some now\<rparr>) db))"

definition record_consumer_failed ::
  "outbox_event \<Rightarrow> string \<Rightarrow> string \<Rightarrow> (event_db, unit) action" where
  "record_consumer_failed event name failure_reason =
     abind (record_consumer_started event name None) (\<lambda>c db.
       let reason = sanitize_error failure_reason in
       case consumer_clean (c\<lparr>cs_failure_reason := reason\<rparr>) of
         Inl e \<Rightarrow> (Inl e, db)
       | Inr _ \<Rightarrow> (Inr (), set_consumer (ev_id event) name
           (\<lambda>r. r\<lparr>cs_status := C_FAILED, cs_failure_reason := reason\<rparr>) db))"

section \<open>Handlers and dispatch\<close>

text \<open>
  A handler is code of a consumer: it acts on the world outside the event tables and may raise.
  The registry maps an event type to its consumers in registration order (handlers.py).
\<close>

type_synonym 'w handler = "outbox_event \<Rightarrow> 'w \<Rightarrow> exn option \<times> 'w"
type_synonym 'w handlers = "(string \<times> (string \<times> 'w handler) list) list"

definition get_handlers :: "'w handlers \<Rightarrow> string \<Rightarrow> (string \<times> 'w handler) list" where
  "get_handlers hs event_type = (case map_of hs event_type of None \<Rightarrow> [] | Some l \<Rightarrow> l)"

definition register_handler ::
  "string \<Rightarrow> string \<Rightarrow> 'w handler \<Rightarrow> 'w handlers \<Rightarrow> 'w handlers result" where
  "register_handler event_type consumer_name h hs =
     (if consumer_name \<in> set (map fst (get_handlers hs event_type))
      then Inl (ValueError ''consumer already registered'')
      else Inr (dict_set event_type (get_handlers hs event_type @ [(consumer_name, h)]) hs))"

type_synonym 'w relay = "event_db \<times> 'w"

definition on_db :: "(event_db, 'a) action \<Rightarrow> ('w relay, 'a) action" where
  "on_db m s = (case m (fst s) of (r, db) \<Rightarrow> (r, (db, snd s)))"

definition run_handler :: "'w handler \<Rightarrow> outbox_event \<Rightarrow> ('w relay, unit) action" where
  "run_handler h event s =
     (case h event (snd s) of (None, w) \<Rightarrow> (Inr (), (fst s, w)) | (Some e, w) \<Rightarrow> (Inl e, (fst s, w)))"

text \<open>One consumer of one event: the body of the inner loop.\<close>

definition consume_event ::
  "time \<Rightarrow> outbox_event \<Rightarrow> string \<times> 'w handler \<Rightarrow> ('w relay, unit) action" where
  "consume_event now event ch s =
     abind (alift (ebind (get_event_contract (fst s) (ev_event_type event) (ev_event_version event))
         (\<lambda>r. authorize_consumer (fst ch) (et_allowed_consumers r)))) (\<lambda>_ s.
       if already_processed (fst s) (ev_id event) (fst ch) then (Inr (), s)
       else abind (on_db (record_consumer_started event (fst ch) None)) (\<lambda>_.
         abind (run_handler (snd ch) event) (\<lambda>_.
           on_db (record_consumer_processed now event (fst ch)))) s) s"

text \<open>The inner loop also reports the active consumer, for the exception handlers.\<close>

fun run_consumers ::
  "time \<Rightarrow> outbox_event \<Rightarrow> (string \<times> 'w handler) list \<Rightarrow> string \<Rightarrow> 'w relay
     \<Rightarrow> (unit result \<times> string) \<times> 'w relay" where
  "run_consumers now event [] active s = ((Inr (), active), s)"
| "run_consumers now event (ch # chs) active s =
     (case consume_event now event ch s of
        (Inl e, s') \<Rightarrow> ((Inl e, fst ch), s')
      | (Inr _, s') \<Rightarrow> run_consumers now event chs (fst ch) s')"

definition record_failure_of :: "outbox_event \<Rightarrow> string \<Rightarrow> exn \<Rightarrow> (event_db, unit) action" where
  "record_failure_of event active e =
     (if active = [] then (\<lambda>db. (Inr (), db)) else record_consumer_failed event active (exn_text e))"

text \<open>The two \<open>except\<close> clauses; any other exception propagates.\<close>

definition handle_dispatch_error ::
  "time \<Rightarrow> outbox_event \<Rightarrow> int \<Rightarrow> string \<Rightarrow> exn \<Rightarrow> (event_db, unit) action" where
  "handle_dispatch_error now event attempt active e =
     (case e of
        RetryableEventError m \<Rightarrow>
          abind (record_failure_of event active e) (\<lambda>_.
            mark_event_failed_retryable now event attempt (exn_text e))
      | _ \<Rightarrow>
          (if (case e of PermanentEventError _ \<Rightarrow> True | ValidationError _ _ \<Rightarrow> True
                 | IntegrityError \<Rightarrow> True | _ \<Rightarrow> False)
           then abind (record_failure_of event active e) (\<lambda>_.
              abind (move_event_to_dead_letter event ''permanent_failure'' (exn_text e) attempt) (\<lambda>_ db.
                (Inr (), set_attempt (ev_id event) attempt
                   (\<lambda>a. a\<lparr>at_status := A_DEAD_LETTERED, at_finished_at := Some now\<rparr>) db)))
           else (\<lambda>db. (Inl e, db))))"

text \<open>One iteration of the dispatch loop; the value is what it adds to \<open>dispatched\<close>.\<close>

definition dispatch_event ::
  "'w handlers \<Rightarrow> time \<Rightarrow> string \<Rightarrow> outbox_event \<Rightarrow> ('w relay, nat) action" where
  "dispatch_event hs now dispatcher_name event s =
     (let n = attempt_number_for (fst s) (ev_id event);
          db1 = (fst s)\<lparr>attempts := attempts (fst s) @
             [\<lparr>at_event = ev_id event, at_attempt_number = n, at_dispatcher_name = dispatcher_name,
               at_status = A_STARTED, at_error_message = [], at_finished_at = None\<rparr>]\<rparr>
      in case run_consumers now event (get_handlers hs (ev_event_type event)) [] (db1, snd s) of
           ((r, active), s2) \<Rightarrow>
             (case (case r of Inl e \<Rightarrow> (Inl e, s2) | Inr _ \<Rightarrow> on_db (mark_event_dispatched now event n) s2) of
                (Inr _, s3) \<Rightarrow> (Inr 1, s3)
              | (Inl e, s3) \<Rightarrow>
                  abind (on_db (handle_dispatch_error now event n active e)) (\<lambda>_ s4. (Inr 0, s4)) s3))"

fun dispatch_all ::
  "'w handlers \<Rightarrow> time \<Rightarrow> string \<Rightarrow> outbox_event list \<Rightarrow> nat \<Rightarrow> ('w relay, nat) action" where
  "dispatch_all hs now dispatcher_name [] dispatched s = (Inr dispatched, s)"
| "dispatch_all hs now dispatcher_name (event # events) dispatched s =
     abind (dispatch_event hs now dispatcher_name event) (\<lambda>k.
       dispatch_all hs now dispatcher_name events (dispatched + k)) s"

definition dispatch_pending_events ::
  "'w handlers \<Rightarrow> time \<Rightarrow> string \<Rightarrow> int \<Rightarrow> ('w relay, nat) action" where
  "dispatch_pending_events hs now dispatcher_name batch_size =
     abind (on_db (lock_pending_events now dispatcher_name batch_size)) (\<lambda>events.
       dispatch_all hs now dispatcher_name events 0)"

end
