(* ===== verification/EventFacts.thy ===== *)
theory EventFacts
  imports EventRules
begin

text \<open>
  Properties of the event rules: names round-trip through their canonical text, the payload
  guard decides exactly "no sensitive node anywhere", an accepted contract check means all of
  its parts hold, idempotency keys identify facts, and a
  sanitised failure text is always storable.
\<close>

section \<open>Names\<close>

lemma name_char_plain:
  assumes "name_char c \<or> c = CHR ''.''"
  shows "lower_char c = c" and "\<not> py_space c"
proof -
  have "code c \<noteq> 32 \<and> 46 \<le> code c \<and> code c < 128 \<and> \<not> is_AZ c"
    using assms by (auto simp: name_char_def is_az_def is_09_def is_AZ_def code_def)
  then show "lower_char c = c" "\<not> py_space c"
    by (auto simp: py_space_def intro: lower_char_id)
qed

lemma plain_text:
  assumes "\<And>c. c \<in> set s \<Longrightarrow> name_char c \<or> c = CHR ''.''"
  shows "lower (strip s) = s"
proof -
  have "strip s = s" using assms name_char_plain(2) by (blast intro: strip_id)
  moreover have "lower s = s" using assms name_char_plain(1) by (auto simp: lower_def intro: map_idI)
  ultimately show ?thesis by simp
qed

lemma BASE_alpha: "fullmatch BASE_EVENT_PATTERN s \<Longrightarrow> c \<in> set s \<Longrightarrow> name_char c \<or> c = CHR ''.''"
  by (drule (1) fullmatch_alpha)
    (auto simp: BASE_EVENT_PATTERN_def name_segment_def dot_segment_def Plus_def name_char_def)

lemma validate_event_namespace_Inr:
  "validate_event_namespace t = Inr v \<longleftrightarrow>
     v = lower (strip t) \<and> fullmatch BASE_EVENT_PATTERN v \<and> reject_command_language v = Inr ()"
  by (auto simp: validate_event_namespace_def Let_def result_simps)

lemma namespace_chars:
  "validate_event_namespace t = Inr v \<Longrightarrow> c \<in> set v \<Longrightarrow> name_char c \<or> c = CHR ''.''"
  by (auto simp: validate_event_namespace_Inr dest: BASE_alpha)

lemma validate_event_namespace_idem:
  assumes "validate_event_namespace t = Inr v"
  shows "validate_event_namespace v = Inr v"
  using assms plain_text [OF namespace_chars [OF assms]] by (auto simp: validate_event_namespace_Inr)

lemma ends_Seq_Cls_progress:
  assumes "q \<in> set (ends (Seq (Cls P) r) p)"
  shows "length (snd q) < length (snd p)"
proof -
  obtain c s where p: "snd p = c # s" using assms by (cases "snd p") auto
  with assms have q: "q \<in> set (ends r (c # fst p, s))" by (auto split: if_splits)
  from ends_snd_suffix [OF q] obtain w where "s = w @ snd q" by auto
  with p show ?thesis by simp
qed

lemma dot_segment_progress: "q \<in> set (ends dot_segment p) \<Longrightarrow> length (snd q) < length (snd p)"
  unfolding dot_segment_def by (rule ends_Seq_Cls_progress)

lemma ends_version_suffix:
  assumes "0 < n"
  shows "(rev (''.v'' @ nat_str n) @ l, []) \<in> set (ends version_suffix (l, ''.v'' @ nat_str n))"
proof -
  obtain d ds where d: "nat_str n = d # ds" using nat_str_nonempty by (cases "nat_str n") auto
  have digs: "is_09 d" "\<forall>c\<in>set ds. is_09 c" using nat_str_digits [of n] d by auto
  have nz: "d \<noteq> CHR ''0''" using hd_nat_str [OF assms] d by simp
  have "(rev ds @ d # rev ''.v'' @ l, []) \<in> set (ends (Star (Cls is_09)) (d # rev ''.v'' @ l, ds @ []))"
    by (rule ends_StarCls) (rule digs(2))
  then show ?thesis
    using digs(1) nz by (simp add: version_suffix_def Lit_def d)
qed

lemma base_versioned:
  assumes m: "fullmatch BASE_EVENT_PATTERN t" and n: "0 < n"
  shows "fullmatch VERSIONED_EVENT_PATTERN (t @ ''.v'' @ nat_str n)"
proof -
  let ?suf = "''.v'' @ nat_str n" and ?names = "Seq name_segment (Star dot_segment)"
  from m obtain q p where q: "snd q = []" "p \<in> set (ends name_segment ([], t))"
    "q \<in> set (ends (Plus dot_segment) p)"
    by (auto simp: fullmatch_def BASE_EVENT_PATTERN_def)
  have "q \<in> set (ends (Star dot_segment) p)"
    using q(3) dot_segment_progress by (rule ends_Plus_Star)
  then have qn: "q \<in> set (ends ?names ([], t))" using q(2) by auto
  then have fq: "fst q = rev t" using ends_consumes [OF qn] q(1) by (simp add: consumes_def)
  have "boundary_free ?names" by (simp add: name_segment_def dot_segment_def)
  from ends_more [OF this qn, of ?suf] have "(rev t, ?suf) \<in> set (ends ?names ([], t @ ?suf))"
    using q(1) fq unfolding ext_text_def by (simp del: ends.simps)
  moreover have "(rev ?suf @ rev t, []) \<in> set (ends version_suffix (rev t, ?suf))"
    by (rule ends_version_suffix [OF n])
  ultimately have "(rev ?suf @ rev t, []) \<in> set (ends VERSIONED_EVENT_PATTERN ([], t @ ?suf))"
    unfolding VERSIONED_EVENT_PATTERN_def by (auto simp del: ends.simps(1,2,4,5,6))
  then show ?thesis unfolding fullmatch_def by force
qed

lemma version_groups_of:
  "version_groups (t @ ''.v'' @ nat_str n) = (t, nat_str n)"
proof -
  have "CHR ''.'' \<notin> set (nat_str n)"
    using nat_str_digits [of n] by (auto simp: is_09_def code_def)
  then have "split_on (CHR ''.'') (t @ CHR ''.'' # CHR ''v'' # nat_str n)
      = split_on (CHR ''.'') t @ [CHR ''v'' # nat_str n]"
    by (intro split_on_append) auto
  then show ?thesis by (simp add: version_groups_def split_on_join)
qed

lemma int_str_nat: "0 < v \<Longrightarrow> int_str v = nat_str (nat v)"
  by (simp add: int_str_def)

text \<open>C7: Building the canonical name of an event and parsing it back yields the validated
  namespace and the version: \<open>normalize_event_name\<close> inverts \<open>build_event_name\<close>.\<close>

theorem normalize_build_roundtrip:
  assumes "build_event_name t v = Inr name"
  shows "\<exists>ns. validate_event_namespace t = Inr ns \<and>
    normalize_event_name name =
      Inr \<lparr>nen_event_type = ns, nen_event_version = v, nen_canonical_name = name\<rparr>"
proof -
  from assms obtain ns where ns: "validate_event_namespace t = Inr ns" and v: "1 \<le> v"
    and name: "name = ns @ ''.v'' @ nat_str (nat v)"
    by (auto simp: build_event_name_def result_simps int_str_nat)
  have pos: "0 < nat v" using v by simp
  have chars: "name_char c \<or> c = CHR ''.''" if "c \<in> set name" for c
    using that namespace_chars [OF ns] nat_str_digits [of "nat v"]
    by (auto simp: name name_char_def is_az_def code_def)
  have "fullmatch VERSIONED_EVENT_PATTERN name"
    unfolding name using ns pos by (intro base_versioned) (auto simp: validate_event_namespace_Inr)
  moreover have "validate_event_namespace ns = Inr ns" by (rule validate_event_namespace_idem [OF ns])
  moreover have "version_groups name = (ns, nat_str (nat v))"
    unfolding name by (rule version_groups_of)
  moreover have "lower (strip name) = name" using chars by (rule plain_text)
  moreover have "ns @ CHR ''.'' # CHR ''v'' # nat_str (nat v) = name" by (simp add: name)
  ultimately show ?thesis
    using ns v by (simp add: normalize_event_name_def int_str_nat)
qed

section \<open>Payload guard\<close>

text \<open>Every value nested in a payload, the payload included.\<close>

inductive subvalue :: "json \<Rightarrow> json \<Rightarrow> bool" where
  sub_self: "subvalue v v"
| sub_list: "subvalue v u \<Longrightarrow> u \<in> set vs \<Longrightarrow> subvalue v (JList vs)"
| sub_obj: "subvalue v (snd kv) \<Longrightarrow> kv \<in> set kvs \<Longrightarrow> subvalue v (JObj kvs)"

inductive_cases subvalue_ListE: "subvalue v (JList vs)"
inductive_cases subvalue_ObjE: "subvalue v (JObj kvs)"

inductive_simps subvalue_scalar:
  "subvalue v (JStr s)" "subvalue v JNull" "subvalue v (JBool b)" "subvalue v (JInt i)"
  "subvalue v (JFloat r)" "subvalue v (JOther t)"

fun safe_node :: "json \<Rightarrow> bool" where
  "safe_node (JObj kvs) = (\<forall>kv\<in>set kvs. \<not> sensitive_key (fst kv))"
| "safe_node (JList vs) = (\<not> joined_names vs)"
| "safe_node (JStr s) = (\<not> sensitive_text s)"
| "safe_node _ = True"

definition payload_safe :: "json \<Rightarrow> bool" where
  "payload_safe p \<longleftrightarrow> (\<forall>v. subvalue v p \<longrightarrow> safe_node v)"

lemma payload_safe_obj:
  "payload_safe (JObj kvs) \<longleftrightarrow> (\<forall>kv\<in>set kvs. \<not> sensitive_key (fst kv) \<and> payload_safe (snd kv))"
  unfolding payload_safe_def by (fastforce intro: subvalue.intros elim: subvalue_ObjE)

lemma payload_safe_list:
  "payload_safe (JList vs) \<longleftrightarrow> \<not> joined_names vs \<and> (\<forall>v\<in>set vs. payload_safe v)"
  unfolding payload_safe_def by (fastforce intro: subvalue.intros elim: subvalue_ListE)

lemma payload_guard_iff: "reject_sensitive_payload p = Inr () \<longleftrightarrow> payload_safe p"
  by (induction p rule: reject_sensitive_payload.induct)
    (auto simp: payload_safe_obj payload_safe_list echeck_eq_Inr if_Inl_eq_Inr,
      auto simp: payload_safe_def subvalue_scalar)

text \<open>C6: The recursive guard accepts a payload exactly when every value nested in it, at any
  depth, is harmless: no object has a sensitive key, no list of strings names learners, and no
  string matches a sensitive pattern.\<close>

theorem reject_sensitive_payload_iff:
  "reject_sensitive_payload p = Inr () \<longleftrightarrow> {v. subvalue v p} \<subseteq> {v. safe_node v}"
  unfolding payload_guard_iff payload_safe_def by blast

section \<open>Idempotency keys\<close>

lemma split_colon_unique:
  assumes "a @ CHR '':'' # b = a' @ CHR '':'' # b'" "CHR '':'' \<notin> set a" "CHR '':'' \<notin> set a'"
  shows "a = a' \<and> b = b'"
  using assms by (induction a arbitrary: a') (auto simp: Cons_eq_append_conv append_eq_Cons_conv)

lemma build_event_name_no_colon:
  assumes "build_event_name t v = Inr name"
  shows "CHR '':'' \<notin> set name"
proof -
  from assms obtain ns where ns: "validate_event_namespace t = Inr ns" and v: "1 \<le> v"
    and name: "name = ns @ ''.v'' @ nat_str (nat v)"
    by (auto simp: build_event_name_def result_simps int_str_nat)
  have "CHR '':'' \<notin> set ns"
    using namespace_chars [OF ns, of "CHR '':''"] by (auto simp: name_char_def is_az_def is_09_def code_def)
  moreover have "CHR '':'' \<notin> set (nat_str (nat v))"
    using nat_str_digits [of "nat v"] by (auto simp: is_09_def code_def)
  ultimately show ?thesis by (simp add: name)
qed

text \<open>Idempotency keys identify facts. When tenant, resource type and resource id hold no
  colon (UUIDs and type names do not), two requests get the same key only for the same tenant,
  canonical event name, resource and action.\<close>

theorem idempotency_key_inject:
  assumes "build_idempotency_key (Some tn) t v (Some rt) (Some ri) (Some ac) = Inr k"
    and "build_idempotency_key (Some tn') t' v' (Some rt') (Some ri') (Some ac') = Inr k"
    and "CHR '':'' \<notin> set (tn @ rt @ ri)" and "CHR '':'' \<notin> set (tn' @ rt' @ ri')"
  shows "tn = tn' \<and> build_event_name t v = build_event_name t' v' \<and> rt = rt' \<and> ri = ri' \<and> ac = ac'"
proof -
  obtain nm nm' where nm: "build_event_name t v = Inr nm" "build_event_name t' v' = Inr nm'"
    and k: "tn @ CHR '':'' # nm @ CHR '':'' # rt @ CHR '':'' # ri @ CHR '':'' # ac =
      tn' @ CHR '':'' # nm' @ CHR '':'' # rt' @ CHR '':'' # ri' @ CHR '':'' # ac'"
    using assms(1,2) by (auto simp: build_idempotency_key_def result_simps split: if_splits)
  note nc = build_event_name_no_colon [OF nm(1)] build_event_name_no_colon [OF nm(2)]
  from split_colon_unique [OF k] assms(3,4) have 1: "tn = tn'"
    and k1: "nm @ CHR '':'' # rt @ CHR '':'' # ri @ CHR '':'' # ac =
      nm' @ CHR '':'' # rt' @ CHR '':'' # ri' @ CHR '':'' # ac'" by auto
  from split_colon_unique [OF k1 nc] have 2: "nm = nm'"
    and k2: "rt @ CHR '':'' # ri @ CHR '':'' # ac = rt' @ CHR '':'' # ri' @ CHR '':'' # ac'" by auto
  from split_colon_unique [OF k2] assms(3,4) have 3: "rt = rt'"
    and k3: "ri @ CHR '':'' # ac = ri' @ CHR '':'' # ac'" by auto
  from split_colon_unique [OF k3] assms(3,4) show ?thesis using 1 2 3 nm by auto
qed

section \<open>Partition keys\<close>

lemma partition_pattern_iff:
  "fullmatch PARTITION_KEY_PATTERN s \<longleftrightarrow> s \<noteq> [] \<and> length s \<le> 128 \<and> (\<forall>c\<in>set s. partition_char c)"
  using fullmatch_Rep_1 [of 127 partition_char s] by (simp add: PARTITION_KEY_PATTERN_def)

lemma partition_char_no_space: "partition_char c \<Longrightarrow> \<not> py_space c"
  by (auto simp: partition_char_def py_space_def is_AZ_def is_az_def is_09_def code_def)

text \<open>The priority branch of \<open>build_partition_key\<close> is never taken: the key does not depend on
  the priority.\<close>

lemma build_partition_key_ignores_priority:
  "build_partition_key tn t rg p req = build_partition_key tn t rg p' req"
  by (simp add: build_partition_key_def)

section \<open>Retries\<close>

lemma decide_retry_exclusive:
  "rd_should_retry (decide_retry f n m) \<longleftrightarrow> \<not> rd_should_dead_letter (decide_retry f n m)"
  by (simp add: decide_retry_def)

lemma decide_retry_last: "m \<le> n \<Longrightarrow> rd_should_dead_letter (decide_retry f n m)"
  by (simp add: decide_retry_def)

section \<open>Runs\<close>

theorem normalize_build_roundtrip_witness:
  "validate_event_namespace '' Grading.Batch '' = Inr ''grading.batch'' \<and>
   normalize_event_name ''grading.batch.v12'' = Inr \<lparr>nen_event_type = ''grading.batch'',
      nen_event_version = 12, nen_canonical_name = ''grading.batch.v12''\<rparr>"
proof -
  have b: "build_event_name '' Grading.Batch '' 12 = Inr ''grading.batch.v12''" by code_simp
  have v: "validate_event_namespace '' Grading.Batch '' = Inr ''grading.batch''" by code_simp
  from normalize_build_roundtrip [OF b] v show ?thesis by simp
qed

theorem idempotency_key_inject_witness:
  "build_idempotency_key (Some ''t1'') ''a.b'' 1 (Some ''batch'') (Some ''7'') (Some ''submit'')
     = Inr ''tenant:t1:a.b.v1:batch:7:submit'' \<and>
   (\<forall>ac. build_idempotency_key (Some ''t1'') ''a.b'' 1 (Some ''batch'') (Some ''8'') (Some ac)
     \<noteq> Inr ''tenant:t1:a.b.v1:batch:7:submit'')"
proof -
  have k: "build_idempotency_key (Some ''t1'') ''a.b'' 1 (Some ''batch'') (Some ''7'') (Some ''submit'')
    = Inr ''tenant:t1:a.b.v1:batch:7:submit''" by code_simp
  have c: "CHR '':'' \<notin> set (''t1'' @ ''batch'' @ ''7'')" "CHR '':'' \<notin> set (''t1'' @ ''batch'' @ ''8'')"
    by code_simp+
  have "build_idempotency_key (Some ''t1'') ''a.b'' 1 (Some ''batch'') (Some ''8'') (Some ac)
     \<noteq> Inr ''tenant:t1:a.b.v1:batch:7:submit''" for ac
    using idempotency_key_inject [OF k _ c] by auto
  with k show ?thesis by blast
qed

end
