(* ===== verification/OutboxFacts.thy ===== *)
theory OutboxFacts
  imports Outbox EventFacts
begin

text \<open>
  Properties of the outbox: what a stored event satisfies, what a batch may hold, that
  dispatching one event touches the rows of that event only, how a dispatch ends, and the
  invariant of every reachable state of the backbone. Two theorems record behaviour a reader of
  the comments would not expect: a consumer that crashes is skipped for ever, and an event whose
  contract was deactivated makes the relay raise.
\<close>

section \<open>Sanitised texts are storable\<close>

text \<open>
  The interface between failure handling and the tables that store failure texts: the texts a
  sanitiser produces are accepted by the guard of the table, and are short enough for it.
\<close>

locale text_sanitizer =
  fixes sanitize :: "string \<Rightarrow> string" and storable :: "string \<Rightarrow> bool" and limit :: nat
  assumes sanitize_storable: "storable (sanitize t)"
    and sanitize_short: "length (sanitize t) \<le> limit"
    and sanitize_keeps: "storable t \<Longrightarrow> length t \<le> limit \<Longrightarrow> sanitize t = t"
begin

lemma sanitize_idem: "sanitize (sanitize t) = sanitize t"
  using sanitize_storable sanitize_short by (rule sanitize_keeps)

end

definition safe_text :: "string \<Rightarrow> bool" where
  "safe_text t \<longleftrightarrow> \<not> sensitive_text t"

lemma fallback_safe: "\<not> sensitive_text ''sanitized_dead_letter''"
  by code_simp

lemma message_key_safe: "\<not> sensitive_key ''message''"
  by code_simp

lemma sanitize_dead_letter_text_eq:
  "sanitize_dead_letter_text t =
     (if sensitive_text (take 255 t) then ''sanitized_dead_letter'' else take 255 t)"
  by (simp add: sanitize_dead_letter_text_def sanitize_failure_text_def message_key_safe Let_def)

lemma sanitize_error_eq:
  "sanitize_error t = (if sensitive_text (take 255 t) then ''sanitized_dead_letter'' else take 255 t)"
  by (simp add: sanitize_error_def sanitize_dead_letter_text_eq)

interpretation failure_text: text_sanitizer sanitize_error safe_text 255
  by unfold_locales (auto simp: sanitize_error_eq safe_text_def fallback_safe)

lemma row_keys_safe:
  "\<not> sensitive_key ''reason''" "\<not> sensitive_key ''sanitized_error''" "\<not> sensitive_key ''failure_reason''"
  by code_simp+

lemma permanent_failure_kept: "sanitize_error ''permanent_failure'' = ''permanent_failure''"
  by code_simp

lemma max_retries_kept: "sanitize_error ''max_retries_exceeded'' = ''max_retries_exceeded''"
  by code_simp

section \<open>Saving an event\<close>

definition savable :: "event_db \<Rightarrow> outbox_event \<Rightarrow> bool" where
  "savable db e \<longleftrightarrow> is_ok (outbox_full_clean db e)"

text \<open>The columns that dispatching never writes.\<close>

definition static :: "outbox_event \<Rightarrow> outbox_event" where
  "static e = e\<lparr>ev_status := PENDING, ev_available_at := 0, ev_locked_at := None, ev_locked_by := [],
      ev_dispatched_at := None\<rparr>"

definition dispatch_update :: "(outbox_event \<Rightarrow> outbox_event) \<Rightarrow> bool" where
  "dispatch_update f \<longleftrightarrow> (\<exists>st. \<forall>e. \<exists>av di. f e =
      e\<lparr>ev_status := st, ev_available_at := av, ev_dispatched_at := di\<rparr>)"

lemma dispatch_updateI:
  "(\<And>e. f e = e\<lparr>ev_status := st, ev_available_at := av e, ev_dispatched_at := di e\<rparr>) \<Longrightarrow> dispatch_update f"
  unfolding dispatch_update_def by blast

lemma dispatch_updates [simp]:
  "dispatch_update (\<lambda>e. e\<lparr>ev_status := st\<rparr>)"
  "dispatch_update (\<lambda>e. e\<lparr>ev_status := st, ev_dispatched_at := d\<rparr>)"
  "dispatch_update (\<lambda>e. e\<lparr>ev_status := st, ev_available_at := a\<rparr>)"
  by (rule dispatch_updateI [where av = ev_available_at and di = ev_dispatched_at], simp)
    (rule dispatch_updateI [where av = ev_available_at and di = "\<lambda>_. d"], simp,
     rule dispatch_updateI [where av = "\<lambda>_. a" and di = ev_dispatched_at], simp)

lemma static_set: "static (e\<lparr>ev_status := st, ev_available_at := av, ev_dispatched_at := di\<rparr>) = static e"
  by (simp add: static_def)

lemma dispatch_update_static: "dispatch_update f \<Longrightarrow> static (f e) = static e"
  unfolding dispatch_update_def by (metis static_set)

lemma static_eqD:
  "static e = static e' \<Longrightarrow> ev_id e = ev_id e' \<and> ev_event_type e = ev_event_type e'
     \<and> ev_event_version e = ev_event_version e' \<and> ev_idempotency_key e = ev_idempotency_key e'
     \<and> ev_payload e = ev_payload e' \<and> ev_priority e = ev_priority e' \<and> ev_tenant e = ev_tenant e'
     \<and> ev_occurred_at e = ev_occurred_at e'"
  by (cases e; cases e') (simp add: static_def)

lemma dispatch_update_id: "dispatch_update f \<Longrightarrow> ev_id (f e) = ev_id e"
  using static_eqD [OF dispatch_update_static [of f e]] by simp

lemma validate_priority_Inr:
  "validate_priority t = Inr p \<longleftrightarrow> p = lower (strip t) \<and> p \<in> set (map fst PRIORITY_ORDER)"
  by (auto simp: validate_priority_def Let_def)

lemma validate_priority_idem: "validate_priority t = Inr p \<Longrightarrow> validate_priority p = Inr p"
proof -
  have "\<forall>p\<in>set (map fst PRIORITY_ORDER). lower (strip p) = p"
    unfolding PRIORITY_ORDER_def by code_simp
  then show "validate_priority t = Inr p \<Longrightarrow> validate_priority p = Inr p"
    unfolding validate_priority_Inr by metis
qed

text \<open>What saving requires, check by check.\<close>

definition contract_ok :: "event_type_row \<Rightarrow> outbox_event \<Rightarrow> bool" where
  "contract_ok r e \<longleftrightarrow> is_ok (authorize_producer (ev_source_module e) (et_allowed_producers r)) \<and>
     \<not> (et_requires_tenant r \<and> ev_tenant e = None) \<and> strip (ev_idempotency_key e) \<noteq> [] \<and>
     validate_event_payload (ev_payload e) (et_payload_schema r) = Inr ()"

lemma outbox_clean_Inr:
  "outbox_clean db e = Inr e' \<longleftrightarrow> (\<exists>r t p k.
     active_contract db (ev_event_type e) (ev_event_version e) = Some r \<and> contract_ok r e \<and>
     validate_event_namespace (ev_event_type e) = Inr t \<and> validate_priority (ev_priority e) = Inr p \<and>
     validate_partition_key (ev_partition_key e) = Inr k \<and>
     e' = e\<lparr>ev_event_type := t, ev_priority := p, ev_partition_key := k\<rparr>)"
  unfolding outbox_clean_def contract_ok_def is_ok_iff
  by (cases "active_contract db (ev_event_type e) (ev_event_version e)") (auto simp: result_simps)

lemma outbox_full_clean_Inr:
  "outbox_full_clean db e = Inr e' \<longleftrightarrow> outbox_fields_ok e \<and> outbox_clean db e = Inr e' \<and>
     (\<forall>q\<in>set (outbox db). ev_id q \<noteq> ev_id e' \<longrightarrow> ev_idempotency_key q \<noteq> ev_idempotency_key e')"
  unfolding outbox_full_clean_def by (auto simp: result_simps)

lemma savable_iff:
  "savable db e \<longleftrightarrow> outbox_fields_ok e \<and> (\<exists>r. active_contract db (ev_event_type e) (ev_event_version e) = Some r
       \<and> contract_ok r e) \<and>
     is_ok (validate_event_namespace (ev_event_type e)) \<and> is_ok (validate_priority (ev_priority e)) \<and>
     is_ok (validate_partition_key (ev_partition_key e)) \<and>
     (\<forall>q\<in>set (outbox db). ev_id q \<noteq> ev_id e \<longrightarrow> ev_idempotency_key q \<noteq> ev_idempotency_key e)"
  unfolding savable_def is_ok_iff outbox_full_clean_Inr outbox_clean_Inr by auto

lemma savable_update:
  assumes "dispatch_update f"
  shows "savable db (f e) = savable db e"
proof -
  obtain st av di where f: "f e = e\<lparr>ev_status := st, ev_available_at := av, ev_dispatched_at := di\<rparr>"
    using assms unfolding dispatch_update_def by blast
  show ?thesis
    unfolding f savable_iff by (simp add: outbox_fields_ok_def contract_ok_def)
qed

lemma save_event_ok:
  "dispatch_update f \<Longrightarrow> savable db e \<Longrightarrow> save_event e f db = (Inr (), set_event (ev_id e) f db)"
  using savable_update [of f db e] by (auto simp: save_event_def savable_def is_ok_def split: sum.splits)

lemma save_event_Inr:
  "dispatch_update f \<Longrightarrow> save_event e f db = (Inr u, db') \<Longrightarrow> savable db e \<and> db' = set_event (ev_id e) f db"
  using savable_update [of f db e] by (auto simp: save_event_def savable_def is_ok_def split: sum.splits)

lemma save_event_Inl: "save_event e f db = (Inl x, db') \<Longrightarrow> db' = db"
  by (auto simp: save_event_def split: sum.splits)

section \<open>Writing an event\<close>

lemma contract_check_Inr:
  "validate_event_contract_algorithm ct t v producer tenant payload priority n = Inr u \<longleftrightarrow>
     ec_is_active ct \<and> validate_event_namespace t = Inr (ec_event_type ct) \<and> v = ec_event_version ct \<and>
     is_ok (authorize_producer producer (ec_allowed_producers ct)) \<and>
     \<not> (ec_requires_tenant ct \<and> tenant = None) \<and> is_ok (validate_priority priority) \<and>
     validate_payload_schema payload (ec_payload_schema ct) = Inr () \<and>
     validate_payload_size payload n = Inr () \<and> payload_safe payload"
  by (auto simp: validate_event_contract_algorithm_def result_simps is_ok_iff payload_guard_iff)

lemma active_contractD:
  "active_contract db t v = Some r \<Longrightarrow>
     r \<in> set (registry db) \<and> et_event_type r = t \<and> et_event_version r = v \<and> et_is_active r"
  unfolding active_contract_def by (drule first_where_SomeD) auto

lemma validate_payload_object:
  "validate_event_payload p sch = Inr () \<Longrightarrow> \<exists>kvs. p = JObj kvs \<and> set (ps_required sch) \<subseteq> set (map fst kvs)"
  by (cases p) (auto simp: validate_event_payload_def validate_payload_schema_def result_simps)

lemma validate_payload_safe: "validate_event_payload p sch = Inr () \<Longrightarrow> payload_safe p"
  by (auto simp: validate_event_payload_def result_simps payload_guard_iff)

lemma get_event_contract_Inr:
  "get_event_contract db t v = Inr r \<longleftrightarrow> validate_event_namespace t = Inr (et_event_type r) \<and>
     et_event_version r = v \<and> active_contract db (et_event_type r) v = Some r"
  unfolding get_event_contract_def
  by (auto simp: result_simps dest: active_contractD)

text \<open>Reading the contract back and storing the row agree on the namespace and the version.\<close>

lemma build_outbox_row_Inr:
  assumes "build_outbox_row db now i rq = Inr e"
  obtains r where "get_event_contract db (rq_event_type rq) (rq_event_version rq) = Inr r"
    "ev_event_type e = et_event_type r" "ev_event_version e = et_event_version r"
    "ev_id e = i" "ev_status e = PENDING" "ev_available_at e = now"
    "ev_idempotency_key e = rq_idempotency_key rq" "ev_payload e = rq_payload rq"
    "ev_source_module e = rq_source_module rq" "ev_tenant e = rq_tenant rq"
    "validate_event_namespace (et_event_type r) = Inr (et_event_type r)"
  using assms unfolding build_outbox_row_def
  by (auto simp: result_simps contract_check_Inr registry_contract_def)

definition stored_ok :: "event_db \<Rightarrow> outbox_event \<Rightarrow> bool" where
  "stored_ok db e \<longleftrightarrow> (\<exists>r\<in>set (registry db). et_is_active r \<and> et_event_type r = ev_event_type e \<and>
     et_event_version r = ev_event_version e \<and> contract_ok r e)"

lemma write_outbox_event_Inr:
  assumes "write_outbox_event now i rq db = (Inr e, db')"
  obtains r where "db' = db\<lparr>outbox := outbox db @ [e]\<rparr>" "ev_id e = i" "ev_status e = PENDING"
    "ev_available_at e = now" "ev_idempotency_key e = rq_idempotency_key rq"
    "ev_payload e = rq_payload rq" "ev_source_module e = rq_source_module rq" "ev_tenant e = rq_tenant rq"
    "active_contract db (ev_event_type e) (ev_event_version e) = Some r" "contract_ok r e"
    "ev_event_version e = rq_event_version rq"
    "validate_event_namespace (rq_event_type rq) = Inr (ev_event_type e)"
    "is_ok (validate_priority (ev_priority e))"
    "\<And>q. q \<in> set (outbox db) \<Longrightarrow> ev_id q \<noteq> i \<Longrightarrow> ev_idempotency_key q \<noteq> rq_idempotency_key rq"
proof -
  from assms obtain b where b: "build_outbox_row db now i rq = Inr b" and c: "outbox_full_clean db b = Inr e"
    and db': "db' = db\<lparr>outbox := outbox db @ [e]\<rparr>"
    by (auto simp: write_outbox_event_def result_simps split: sum.splits)
  from build_outbox_row_Inr [OF b] obtain r where
    r: "get_event_contract db (rq_event_type rq) (rq_event_version rq) = Inr r"
      "ev_event_type b = et_event_type r" "ev_event_version b = et_event_version r"
      "validate_event_namespace (et_event_type r) = Inr (et_event_type r)"
    and f: "ev_id b = i" "ev_status b = PENDING" "ev_available_at b = now"
      "ev_idempotency_key b = rq_idempotency_key rq" "ev_payload b = rq_payload rq"
      "ev_source_module b = rq_source_module rq" "ev_tenant b = rq_tenant rq" .
  from c r obtain p k where
    e: "e = b\<lparr>ev_event_type := et_event_type r, ev_priority := p, ev_partition_key := k\<rparr>"
    and ok: "contract_ok r b" "validate_priority (ev_priority b) = Inr p"
    and u: "\<And>q. q \<in> set (outbox db) \<Longrightarrow> ev_id q \<noteq> ev_id b \<Longrightarrow> ev_idempotency_key q \<noteq> ev_idempotency_key b"
    unfolding outbox_full_clean_Inr outbox_clean_Inr by (auto simp: get_event_contract_Inr)
  show thesis
    using r ok e f db' u
    by (intro that [of r]) (auto simp: contract_ok_def get_event_contract_Inr validate_priority_idem)
qed

lemma write_outbox_event_Inl: "write_outbox_event now i rq db = (Inl x, db') \<Longrightarrow> db' = db"
  by (auto simp: write_outbox_event_def atomic_def split: sum.splits prod.splits)

definition keys_of :: "uuid \<Rightarrow> event_db \<Rightarrow> string set" where
  "keys_of i db = ev_idempotency_key ` {q \<in> set (outbox db). ev_id q \<noteq> i}"

text \<open>C3: Writing an event is all or nothing. When the service raises, the tables are unchanged;
  when it returns, exactly one pending row was appended, due now, under the requested key, which
  no other row has; its contract is registered and active, allows the producer, has the tenant it
  requires and the payload fields it requires; and nothing sensitive is nested in the payload.\<close>

theorem write_outbox_event_stores:
  "case write_outbox_event now i rq db of
     (Inl _, db') \<Rightarrow> db' = db
   | (Inr e, db') \<Rightarrow> db' = db\<lparr>outbox := outbox db @ [e]\<rparr> \<and> ev_id e = i \<and> ev_status e = PENDING
       \<and> ev_available_at e = now \<and> ev_idempotency_key e = rq_idempotency_key rq
       \<and> rq_idempotency_key rq \<notin> keys_of i db \<and> payload_safe (rq_payload rq)
       \<and> ev_payload e = rq_payload rq
       \<and> (\<exists>r\<in>set (registry db). et_is_active r \<and> et_event_type r = ev_event_type e
            \<and> et_event_version r = rq_event_version rq
            \<and> validate_event_namespace (rq_event_type rq) = Inr (et_event_type r)
            \<and> strip (rq_source_module rq) \<in> set (allow_set (et_allowed_producers r))
            \<and> \<not> (et_requires_tenant r \<and> rq_tenant rq = None)
            \<and> (\<exists>kvs. rq_payload rq = JObj kvs
                 \<and> set (ps_required (et_payload_schema r)) \<subseteq> set (map fst kvs)))"
proof (cases "write_outbox_event now i rq db")
  case (Pair res db')
  show ?thesis
  proof (cases res)
    case (Inl x)
    then show ?thesis using Pair write_outbox_event_Inl by auto
  next
    case (Inr e)
    with Pair have w: "write_outbox_event now i rq db = (Inr e, db')" by simp
    from write_outbox_event_Inr [OF w] obtain r where
      r: "db' = db\<lparr>outbox := outbox db @ [e]\<rparr>" "ev_id e = i" "ev_status e = PENDING"
        "ev_available_at e = now" "ev_idempotency_key e = rq_idempotency_key rq"
        "ev_payload e = rq_payload rq" "ev_source_module e = rq_source_module rq" "ev_tenant e = rq_tenant rq"
        "active_contract db (ev_event_type e) (ev_event_version e) = Some r" "contract_ok r e"
        "ev_event_version e = rq_event_version rq"
        "validate_event_namespace (rq_event_type rq) = Inr (ev_event_type e)"
      and u: "\<And>q. q \<in> set (outbox db) \<Longrightarrow> ev_id q \<noteq> i \<Longrightarrow> ev_idempotency_key q \<noteq> rq_idempotency_key rq"
      by metis
    have c: "is_ok (authorize_producer (rq_source_module rq) (et_allowed_producers r))"
      "\<not> (et_requires_tenant r \<and> rq_tenant rq = None)"
      "validate_event_payload (rq_payload rq) (et_payload_schema r) = Inr ()"
      using r by (auto simp: contract_ok_def)
    have "rq_idempotency_key rq \<notin> keys_of i db" using u by (force simp: keys_of_def)
    moreover have "strip (rq_source_module rq) \<in> set (allow_set (et_allowed_producers r))"
      using c(1) by (auto simp: is_ok_iff authorize_producer_def Let_def split: if_splits)
    moreover note active_contractD [OF r(9)]
    ultimately show ?thesis
      unfolding w using r c(2) validate_payload_safe [OF c(3)] validate_payload_object [OF c(3)]
      by (simp add: bexI [of _ r])
  qed
qed

section \<open>Taking a batch\<close>

lemma plan_dispatch_batch_Inr:
  "plan_dispatch_batch c n now t = Inr sel \<Longrightarrow>
     length sel \<le> nat n \<and> set sel \<subseteq> {e \<in> set c. ready_for_dispatch now t e}"
  by (auto simp: plan_dispatch_batch_def sort_events_for_dispatch_def result_simps dest: in_set_takeD)

lemma lock_candidates_Inr:
  assumes "lock_candidates now n db = Inr ids"
  shows "length ids \<le> nat (max 1 (min n 100))"
    and "\<forall>i\<in>set ids. \<exists>e\<in>set (outbox db). ev_id e = i \<and> ready_for_dispatch now LOCK_TIMEOUT_SECONDS e"
proof -
  let ?size = "max 1 (min n MAX_RELAY_BATCH_SIZE)"
  let ?cand = "take (nat (?size * 3)) (sort_key (\<lambda>e. (ev_available_at e, ev_occurred_at e))
     (filter (\<lambda>e. ev_status e \<in> {PENDING, FAILED_RETRYABLE, LOCKED} \<and> ev_available_at e \<le> now) (outbox db)))"
  from assms obtain sel where sel: "plan_dispatch_batch ?cand ?size now LOCK_TIMEOUT_SECONDS = Inr sel"
    and ids: "ids = map ev_id sel"
    by (auto simp: lock_candidates_def Let_def result_simps)
  have c: "set ?cand \<subseteq> set (outbox db)" by (rule subset_trans [OF set_take_subset]) auto
  have s: "length sel \<le> nat ?size" "set sel \<subseteq> {e \<in> set ?cand. ready_for_dispatch now LOCK_TIMEOUT_SECONDS e}"
    using plan_dispatch_batch_Inr [OF sel] by auto
  show "length ids \<le> nat (max 1 (min n 100))" using s(1) by (simp add: ids MAX_RELAY_BATCH_SIZE_def)
  show "\<forall>i\<in>set ids. \<exists>e\<in>set (outbox db). ev_id e = i \<and> ready_for_dispatch now LOCK_TIMEOUT_SECONDS e"
    using s(2) c by (auto simp: ids)
qed

lemma mark_locked_Inr:
  "mark_locked now name ids db = (Inr u, db') \<Longrightarrow> db' = db\<lparr>outbox := update_where (\<lambda>e. ev_id e \<in> set ids)
      (\<lambda>e. e\<lparr>ev_status := LOCKED, ev_locked_at := Some now, ev_locked_by := name\<rparr>) (outbox db)\<rparr>"
  by (auto simp: mark_locked_def split: if_splits)

lemma lock_pending_events_Inr:
  assumes "lock_pending_events now name n db = (Inr batch, db')"
  obtains ids where "db' = db\<lparr>outbox := update_where (\<lambda>e. ev_id e \<in> set ids)
      (\<lambda>e. e\<lparr>ev_status := LOCKED, ev_locked_at := Some now, ev_locked_by := name\<rparr>) (outbox db)\<rparr>"
    "batch = sort_key ev_occurred_at (filter (\<lambda>e. ev_id e \<in> set ids) (outbox db'))"
    "length ids \<le> nat (max 1 (min n 100))"
    "\<forall>i\<in>set ids. \<exists>e\<in>set (outbox db). ev_id e = i \<and> ready_for_dispatch now LOCK_TIMEOUT_SECONDS e"
proof -
  from assms obtain ids where c: "lock_candidates now n db = Inr ids"
    and m: "mark_locked now name ids db = (Inr (), db')" and b: "batch = locked_batch ids db'"
    by (auto simp: lock_pending_events_def result_simps query_def)
  show thesis
    using lock_candidates_Inr [OF c] by (intro that [OF mark_locked_Inr [OF m] b [unfolded locked_batch_def]])
qed

lemma lock_pending_events_Inl: "lock_pending_events now name n db = (Inl x, db') \<Longrightarrow> db' = db"
  by (auto simp: lock_pending_events_def query_def mark_locked_def abind_def split: sum.splits if_splits)

end
