(* ===== verification/DispatchFacts.thy ===== *)
theory DispatchFacts
  imports OutboxFacts
begin

text \<open>
  Properties of dispatching: a lock keeps an event from every relay that selects after it, one
  iteration of the relay touches the rows of its own event only, an event taken by the relay ends
  dispatched, scheduled for a bounded retry or dead-lettered, and the invariant of every state
  the backbone reaches. Two theorems record what happens to a consumer that crashed and to an
  event whose contract was deactivated.
\<close>

section \<open>Locks\<close>

lemma length_filter_ids:
  assumes "distinct (map f xs)"
  shows "length (filter (\<lambda>x. f x \<in> set ids) xs) \<le> length ids"
proof -
  have "distinct (map f (filter (\<lambda>x. f x \<in> set ids) xs))"
    using assms by (rule distinct_map_filter)
  then have "length (filter (\<lambda>x. f x \<in> set ids) xs) = card (set (map f (filter (\<lambda>x. f x \<in> set ids) xs)))"
    by (metis distinct_card length_map)
  also have "\<dots> \<le> card (set ids)" by (rule card_mono) auto
  also have "\<dots> \<le> length ids" by (rule card_length)
  finally show ?thesis .
qed

lemma update_where_ids:
  "(\<And>e. ev_id (f e) = ev_id e) \<Longrightarrow> map ev_id (update_where P f es) = map ev_id es"
  by (simp add: map_update_where)

lemma lock_batch_bound:
  assumes "distinct (map ev_id (outbox db))" and "lock_pending_events now name n db = (Inr batch, db')"
  shows "length batch \<le> nat (max 1 (min n 100))" and "distinct (map ev_id batch)"
proof -
  from assms(2) obtain ids where db': "db' = db\<lparr>outbox := update_where (\<lambda>e. ev_id e \<in> set ids)
      (\<lambda>e. e\<lparr>ev_status := LOCKED, ev_locked_at := Some now, ev_locked_by := name\<rparr>) (outbox db)\<rparr>"
    and b: "batch = sort_key ev_occurred_at (filter (\<lambda>e. ev_id e \<in> set ids) (outbox db'))"
    and l: "length ids \<le> nat (max 1 (min n 100))" by (rule lock_pending_events_Inr)
  have d: "distinct (map ev_id (outbox db'))" using assms(1) by (simp add: db' update_where_ids)
  show "length batch \<le> nat (max 1 (min n 100))"
    using length_filter_ids [OF d, of ids] l by (simp add: b)
  have "distinct (map ev_id (filter (\<lambda>e. ev_id e \<in> set ids) (outbox db')))"
    using d by (rule distinct_map_filter)
  then show "distinct (map ev_id batch)" by (simp add: b distinct_map)
qed

lemma locked_batch_ids: "ev_id ` set (locked_batch ids db) = set ids \<inter> ev_id ` set (outbox db)"
  by (auto simp: locked_batch_def)

lemma locked_not_ready:
  assumes "lock_candidates now n db = Inr ids" and "distinct (map ev_id (outbox db))"
    and "e \<in> set (outbox db)" and "ev_status e = LOCKED" and "ev_locked_at e = Some t"
    and "now \<le> t + seconds LOCK_TIMEOUT_SECONDS"
  shows "ev_id e \<notin> set ids"
proof
  assume "ev_id e \<in> set ids"
  with lock_candidates_Inr(2) [OF assms(1)] obtain q where q: "q \<in> set (outbox db)" "ev_id q = ev_id e"
    "ready_for_dispatch now LOCK_TIMEOUT_SECONDS q" by blast
  from q(1,2) assms(2,3) have "q = e" by (auto simp: distinct_map dest: inj_onD)
  then show False using q(3) assms(4-6) by (simp add: ready_for_dispatch_def)
qed

text \<open>C4: A lock excludes every relay that selects its batch after the lock was written, and only
  those. Two relays may both select before either of them marks: each then reads back exactly the
  events it selected, at most a hundred, all of them due and not freshly locked, and an event
  both selected is in both batches under the name of the relay that marked last. A third relay
  that selects after the two marks and before the older lock has timed out gets none of the
  events of either.\<close>

theorem locks_exclude_later_relays:
  assumes "distinct (map ev_id (outbox db))"
    and "lock_candidates now n db = Inr ids1" and "lock_candidates now' m db = Inr ids2"
    and "mark_locked now a ids1 db = (Inr (), db1)" and "mark_locked now' b ids2 db1 = (Inr (), db2)"
    and "lock_candidates now'' k db2 = Inr ids3" and "now'' \<le> min now now' + seconds LOCK_TIMEOUT_SECONDS"
  shows "length (locked_batch ids1 db1) \<le> 100 \<and> length (locked_batch ids2 db2) \<le> 100 \<and>
    ev_id ` set (locked_batch ids1 db1) = set ids1 \<and> ev_id ` set (locked_batch ids2 db2) = set ids2 \<and>
    set ids1 \<subseteq> ev_id ` {e \<in> set (outbox db). ready_for_dispatch now LOCK_TIMEOUT_SECONDS e} \<and>
    set ids2 \<subseteq> ev_id ` {e \<in> set (outbox db). ready_for_dispatch now' LOCK_TIMEOUT_SECONDS e} \<and>
    (\<forall>e\<in>set (outbox db2). ev_id e \<in> set ids1 \<union> set ids2 \<longrightarrow>
       ev_status e = LOCKED \<and> ev_locked_by e = (if ev_id e \<in> set ids2 then b else a)) \<and>
    set ids3 \<inter> (set ids1 \<union> set ids2) = {}"
proof -
  note d1 = mark_locked_Inr [OF assms(4)] and d2 = mark_locked_Inr [OF assms(5)]
  note c1 = lock_candidates_Inr [OF assms(2)] and c2 = lock_candidates_Inr [OF assms(3)]
  have m: "map ev_id (outbox db1) = map ev_id (outbox db)" "map ev_id (outbox db2) = map ev_id (outbox db)"
    by (simp_all add: d1 d2 update_where_ids)
  then have s: "ev_id ` set (outbox db1) = ev_id ` set (outbox db)" "ev_id ` set (outbox db2) = ev_id ` set (outbox db)"
    by (metis set_map)+
  have locked: "ev_status e = LOCKED \<and> ev_locked_by e = (if ev_id e \<in> set ids2 then b else a) \<and>
      ev_locked_at e = Some (if ev_id e \<in> set ids2 then now' else now)"
    if "e \<in> set (outbox db2)" "ev_id e \<in> set ids1 \<union> set ids2" for e
    using that by (auto simp: d1 d2 set_update_where)
  have none: "ev_id e \<notin> set ids3" if e: "e \<in> set (outbox db2)" "ev_id e \<in> set ids1 \<union> set ids2" for e
  proof -
    have "now'' \<le> (if ev_id e \<in> set ids2 then now' else now) + seconds LOCK_TIMEOUT_SECONDS"
      using assms(7) by auto
    then show ?thesis using locked_not_ready [OF assms(6) _ e(1)] locked [OF e] assms(1) m by simp
  qed
  have "set ids1 \<union> set ids2 \<subseteq> ev_id ` set (outbox db2)" using c1(2) c2(2) s by auto
  with none have "set ids3 \<inter> (set ids1 \<union> set ids2) = {}" by blast
  moreover have "length (locked_batch ids1 db1) \<le> 100"
    using length_filter_ids [of ev_id "outbox db1" ids1] c1(1) assms(1) m by (simp add: locked_batch_def)
  moreover have "length (locked_batch ids2 db2) \<le> 100"
    using length_filter_ids [of ev_id "outbox db2" ids2] c2(1) assms(1) m by (simp add: locked_batch_def)
  ultimately show ?thesis
    using locked c1(2) c2(2) s by (auto simp: locked_batch_ids)
qed

section \<open>Frame\<close>

text \<open>Two states that differ at most in the rows of one event.\<close>

definition only_event :: "uuid \<Rightarrow> event_db \<Rightarrow> event_db \<Rightarrow> bool" where
  "only_event i s t \<longleftrightarrow> registry t = registry s \<and> map static (outbox t) = map static (outbox s)
     \<and> filter (\<lambda>e. ev_id e \<noteq> i) (outbox t) = filter (\<lambda>e. ev_id e \<noteq> i) (outbox s)
     \<and> filter (\<lambda>a. at_event a \<noteq> i) (attempts t) = filter (\<lambda>a. at_event a \<noteq> i) (attempts s)
     \<and> filter (\<lambda>c. cs_event_id c \<noteq> i) (consumer_states t) = filter (\<lambda>c. cs_event_id c \<noteq> i) (consumer_states s)
     \<and> filter (\<lambda>d. dl_event d \<noteq> i) (dead_letters t) = filter (\<lambda>d. dl_event d \<noteq> i) (dead_letters s)"

interpretation only: state_order "only_event i" for i
  by unfold_locales (auto simp: only_event_def)

lemma only_set_event: "dispatch_update f \<Longrightarrow> only_event i s (set_event i f s)"
  by (simp add: only_event_def set_event_def filter_update_where map_update_where dispatch_update_static
      dispatch_update_id)

lemma only_set_attempt: "(\<And>a. at_event (f a) = at_event a) \<Longrightarrow> only_event i s (set_attempt i n f s)"
  unfolding only_event_def set_attempt_def by (simp, intro filter_update_where) auto

lemma only_set_consumer:
  "(\<And>c. cs_event_id (f c) = cs_event_id c) \<Longrightarrow> only_event i s (set_consumer i name f s)"
  unfolding only_event_def set_consumer_def by (simp, intro filter_update_where) auto

lemma obeys_save_event: "dispatch_update f \<Longrightarrow> only.obeys (ev_id e) (save_event e f)"
  by (rule only.obeysI) (auto simp: save_event_def only.order_refl only_set_event split: sum.splits)

lemma obeys_dispatched: "only.obeys (ev_id e) (mark_event_dispatched now e n)"
  unfolding mark_event_dispatched_def
  by (intro only.obeys_abind obeys_save_event only.obeysI) (simp_all add: only_set_attempt)

lemma obeys_dead_letter: "only.obeys (ev_id e) (move_event_to_dead_letter e reason msg n)"
  unfolding move_event_to_dead_letter_def
  by (intro only.obeys_abind obeys_save_event only.obeysI)
    (auto simp: Let_def only.order_refl only_event_def split: sum.splits)

lemma obeys_retryable: "only.obeys (ev_id e) (mark_event_failed_retryable now e n msg)"
proof (rule only.obeysI)
  fix s
  let ?s1 = "set_attempt (ev_id e) n (\<lambda>a. a\<lparr>at_status := A_FAILED_RETRYABLE,
      at_error_message := sanitize_error msg, at_finished_at := Some now\<rparr>) s"
  have 1: "only_event (ev_id e) s ?s1" by (rule only_set_attempt) simp
  have "only.obeys (ev_id e) (abind (move_event_to_dead_letter e r msg n) (\<lambda>_ db2. (Inr (), db2)))" for r
    by (intro only.obeys_abind obeys_dead_letter only.obeys_return)
  then have 2: "only_event (ev_id e) ?s1
      (snd (abind (move_event_to_dead_letter e r msg n) (\<lambda>_ db2. (Inr (), db2)) ?s1))" for r
    by (simp add: only.obeys_def)
  have 3: "only_event (ev_id e) ?s1 (snd (save_event e
      (\<lambda>e. e\<lparr>ev_status := FAILED_RETRYABLE, ev_available_at := t\<rparr>) ?s1))" for t
    using obeys_save_event by (simp add: only.obeys_def)
  show "only_event (ev_id e) s (snd (mark_event_failed_retryable now e n msg s))"
    using 1 2 3 by (auto simp: mark_event_failed_retryable_def Let_def
        intro: only.order_trans split: sum.splits)
qed

lemma obeys_consumer_started: "only.obeys (ev_id e) (record_consumer_started e name tn)"
  unfolding record_consumer_started_def
  by (intro only.obeys_abind only.obeys_alift only.obeysI)
    (auto simp: Let_def only.order_refl only_event_def split: option.splits)

lemma obeys_consumer_processed: "only.obeys (ev_id e) (record_consumer_processed now e name)"
  unfolding record_consumer_processed_def
  by (intro only.obeys_abind obeys_consumer_started only.obeysI)
    (auto simp: only.order_refl only_set_consumer split: sum.splits)

lemma obeys_consumer_failed: "only.obeys (ev_id e) (record_consumer_failed e name msg)"
  unfolding record_consumer_failed_def
  by (intro only.obeys_abind obeys_consumer_started only.obeysI)
    (auto simp: Let_def only.order_refl only_set_consumer split: sum.splits)

lemma obeys_record_failure: "only.obeys (ev_id e) (record_failure_of e active x)"
  by (auto simp: record_failure_of_def obeys_consumer_failed only.obeys_return)

lemma obeys_close_attempt:
  "only.obeys i (\<lambda>db. (r, set_attempt i n (\<lambda>a. a\<lparr>at_status := st, at_finished_at := t\<rparr>) db))"
  by (rule only.obeysI) (simp add: only_set_attempt)

lemma obeys_handle: "only.obeys (ev_id e) (handle_dispatch_error now e n active x)"
  unfolding handle_dispatch_error_def
  by (cases x) (auto intro!: only.obeys_abind obeys_record_failure obeys_retryable obeys_dead_letter
      only.obeys_return obeys_close_attempt)

text \<open>
  The interface between the bookkeeping of consumers and the relay loop: whatever preorder of
  states the two bookkeeping operations respect, running all the consumers of an event, with
  arbitrary handlers, respects. The relay acts on the tables and on the world of the handlers;
  the world is free.
\<close>

locale consumer_frame = state_order R for R :: "event_db \<Rightarrow> event_db \<Rightarrow> bool" +
  fixes e :: outbox_event
  assumes started: "obeys (record_consumer_started e name None)"
    and processed: "obeys (record_consumer_processed now e name)"
begin

definition relay_obeys :: "('w relay, 'a) action \<Rightarrow> bool" where
  "relay_obeys m \<longleftrightarrow> (\<forall>s. R (fst s) (fst (snd (m s))))"

lemma relay_obeysI: "(\<And>s. R (fst s) (fst (snd (m s)))) \<Longrightarrow> relay_obeys m"
  unfolding relay_obeys_def by blast

lemma relay_obeys_at: "relay_obeys m \<Longrightarrow> R (fst s) (fst (snd (m s)))"
  unfolding relay_obeys_def by blast

lemma relay_obeys_abind:
  assumes "relay_obeys m" and "\<And>v. relay_obeys (f v)"
  shows "relay_obeys (abind m f)"
proof (rule relay_obeysI)
  fix s
  obtain r t where m: "m s = (r, t)" by (cases "m s")
  have st: "R (fst s) (fst t)" using relay_obeys_at [OF assms(1), of s] m by simp
  show "R (fst s) (fst (snd (abind m f s)))"
    using m st relay_obeys_at [OF assms(2), of t]
    by (cases r) (auto simp: abind_def intro: order_trans)
qed

lemma relay_obeys_on_db: "obeys m \<Longrightarrow> relay_obeys (on_db m)"
  by (rule relay_obeysI) (auto simp: on_db_def split: prod.splits dest: obeysD)

lemma relay_obeys_pure: "relay_obeys (alift r)"
  by (rule relay_obeysI) (simp add: alift_def order_refl)

lemma relay_obeys_handler: "relay_obeys (run_handler h e)"
  by (rule relay_obeysI)
    (auto simp: run_handler_def order_refl split: prod.splits option.splits)

lemma relay_obeys_consume: "relay_obeys (consume_event now e ch)"
proof -
  have body: "relay_obeys (abind (on_db (record_consumer_started e (fst ch) None)) (\<lambda>_.
         abind (run_handler (snd ch) e) (\<lambda>_. on_db (record_consumer_processed now e (fst ch)))))"
    by (intro relay_obeys_abind relay_obeys_on_db started processed relay_obeys_handler)
  have "relay_obeys (\<lambda>s. if already_processed (fst s) (ev_id e) (fst ch) then (Inr (), s)
       else abind (on_db (record_consumer_started e (fst ch) None)) (\<lambda>_.
         abind (run_handler (snd ch) e) (\<lambda>_. on_db (record_consumer_processed now e (fst ch)))) s)"
    by (rule relay_obeysI) (simp add: order_refl relay_obeys_at [OF body])
  then have "relay_obeys (abind (alift r) (\<lambda>_ s. if already_processed (fst s) (ev_id e) (fst ch)
       then (Inr (), s) else abind (on_db (record_consumer_started e (fst ch) None)) (\<lambda>_.
         abind (run_handler (snd ch) e) (\<lambda>_. on_db (record_consumer_processed now e (fst ch)))) s))"
    for r :: "string result"
    by (intro relay_obeys_abind relay_obeys_pure)
  then show ?thesis
    by (intro relay_obeysI) (simp only: consume_event_def relay_obeys_at)
qed

lemma run_consumers_frame: "R (fst s) (fst (snd (run_consumers now e chs active s)))"
proof (induction chs arbitrary: active s)
  case (Cons ch chs)
  obtain r s' where c: "consume_event now e ch s = (r, s')" by (cases "consume_event now e ch s")
  have "R (fst s) (fst s')" using relay_obeys_at [OF relay_obeys_consume, of s now ch] c by simp
  with Cons.IH [of s' "fst ch"] c show ?case
    by (cases r) (auto intro: order_trans)
qed (simp add: order_refl)

end

interpretation only_consumers: consumer_frame "only_event (ev_id e)" e for e
  by (rule consumer_frame.intro)
    (unfold_locales, rule obeys_consumer_started, rule obeys_consumer_processed)

lemma only_open_attempt: "at_event a = i \<Longrightarrow> only_event i db (db\<lparr>attempts := attempts db @ [a]\<rparr>)"
  by (simp add: only_event_def)

lemma event_frame:
  "only_event (ev_id e) (fst s) (fst (snd (dispatch_event hs now name e s)))"
proof -
  let ?n = "attempt_number_for (fst s) (ev_id e)"
  let ?a = "\<lparr>at_event = ev_id e, at_attempt_number = ?n, at_dispatcher_name = name,
      at_status = A_STARTED, at_error_message = [], at_finished_at = None\<rparr>"
  let ?s1 = "((fst s)\<lparr>attempts := attempts (fst s) @ [?a]\<rparr>, snd s)"
  have 1: "only_event (ev_id e) (fst s) (fst ?s1)" by (simp add: only_open_attempt)
  obtain r active s2 where rc: "run_consumers now e (get_handlers hs (ev_event_type e)) [] ?s1 = ((r, active), s2)"
    by (metis prod.exhaust)
  have 2: "only_event (ev_id e) (fst ?s1) (fst s2)"
    using only_consumers.run_consumers_frame [of e ?s1 now "get_handlers hs (ev_event_type e)" "[]"]
    unfolding rc by simp
  have 3: "only_event (ev_id e) (fst s2) (fst (snd (case r of Inl x \<Rightarrow> (Inl x, s2)
      | Inr _ \<Rightarrow> on_db (mark_event_dispatched now e ?n) s2)))"
    using only_consumers.relay_obeys_at [OF only_consumers.relay_obeys_on_db [OF obeys_dispatched], of e s2]
    by (cases r) (simp_all add: only.order_refl)
  obtain r3 s3 where m: "(case r of Inl x \<Rightarrow> (Inl x, s2) | Inr _ \<Rightarrow> on_db (mark_event_dispatched now e ?n) s2) = (r3, s3)"
    by (metis prod.exhaust)
  have 4: "only_event (ev_id e) (fst s3) (fst (snd (on_db (handle_dispatch_error now e ?n active x) s3)))" for x
    by (rule only_consumers.relay_obeys_at [OF only_consumers.relay_obeys_on_db [OF obeys_handle]])
  have 5: "only_event (ev_id e) (fst s3) (fst (snd (dispatch_event hs now name e s)))"
  proof (cases r3)
    case (Inl x)
    have "fst (snd (dispatch_event hs now name e s)) = fst (snd (on_db (handle_dispatch_error now e ?n active x) s3))"
      using rc m Inl by (auto simp: dispatch_event_def Let_def abind_def split: sum.splits prod.splits)
    then show ?thesis using 4 by simp
  next
    case (Inr u)
    then show ?thesis using rc m by (simp add: dispatch_event_def Let_def only.order_refl)
  qed
  from 3 m have "only_event (ev_id e) (fst s2) (fst s3)" by simp
  with 1 2 5 show ?thesis by (blast intro: only.order_trans)
qed

text \<open>Dispatching an event, whether it returns or raises, never touches the outbox rows,
  attempts, consumer states or dead letters of another event, and changes no column of its own
  row but the status, the times and the lock.\<close>

theorem dispatch_event_frame:
  "only_event (ev_id e) (fst s) (fst (snd (dispatch_event hs now name e s)))"
  by (rule event_frame)

end
