(* ===== verification/OutboxInvariant.thy ===== *)
theory OutboxInvariant
  imports DispatchFacts
begin

text \<open>
  The invariant of the event backbone: whatever sequence of registrations, writes and relay
  passes is run, with whatever handlers, the event tables stay consistent.
\<close>

section \<open>The invariant, table by table\<close>

definition outbox_part :: "event_type_row list \<Rightarrow> outbox_event list \<Rightarrow> bool" where
  "outbox_part reg ob \<longleftrightarrow> distinct (map ev_id ob) \<and> distinct (map ev_idempotency_key ob) \<and>
     (\<forall>e\<in>set ob. payload_safe (ev_payload e) \<and> (\<exists>r\<in>set reg. et_event_type r = ev_event_type e \<and>
        et_event_version r = ev_event_version e \<and> contract_ok r e))"

definition dead_ids :: "outbox_event list \<Rightarrow> uuid set" where
  "dead_ids ob = set (map ev_id (filter (\<lambda>e. ev_status e = DEAD_LETTERED) ob))"

definition letters_part :: "outbox_event list \<Rightarrow> dead_letter list \<Rightarrow> bool" where
  "letters_part ob dls \<longleftrightarrow> distinct (map dl_event dls) \<and>
     dl_event ` set dls = dead_ids ob \<and>
     (\<forall>d\<in>set dls. safe_text (dl_reason d) \<and> safe_text (dl_sanitized_error d))"

definition consumers_part :: "consumer_state list \<Rightarrow> bool" where
  "consumers_part css \<longleftrightarrow> distinct (map (\<lambda>c. (cs_event_id c, cs_consumer_name c)) css) \<and>
     (\<forall>c\<in>set css. safe_text (cs_failure_reason c))"

definition count_attempts :: "uuid \<Rightarrow> dispatch_attempt list \<Rightarrow> nat" where
  "count_attempts i ats = length (filter (\<lambda>a. at_event a = i) ats)"

definition attempts_part :: "dispatch_attempt list \<Rightarrow> bool" where
  "attempts_part ats \<longleftrightarrow> (\<forall>i. map at_attempt_number (filter (\<lambda>a. at_event a = i) ats)
     = map int [1..<Suc (count_attempts i ats)])"

definition retry_part :: "outbox_event list \<Rightarrow> dispatch_attempt list \<Rightarrow> bool" where
  "retry_part ob ats \<longleftrightarrow> (\<forall>e\<in>set ob. ev_status e = FAILED_RETRYABLE \<longrightarrow> count_attempts (ev_id e) ats < 3)"

definition tables_ok :: "event_db \<Rightarrow> bool" where
  "tables_ok db \<longleftrightarrow> outbox_part (registry db) (outbox db) \<and> letters_part (outbox db) (dead_letters db) \<and>
     consumers_part (consumer_states db) \<and> attempts_part (attempts db) \<and> retry_part (outbox db) (attempts db)"

text \<open>The event is stored and has no dead letter: what a relay holds when it dispatches.\<close>

definition open_event :: "uuid \<Rightarrow> event_db \<Rightarrow> bool" where
  "open_event i db \<longleftrightarrow> i \<in> ev_id ` set (outbox db) \<and> i \<notin> dl_event ` set (dead_letters db)"

lemma safe_empty: "safe_text []"
  unfolding safe_text_def by code_simp

section \<open>Changing rows\<close>

definition sets_status :: "outbox_status \<Rightarrow> (outbox_event \<Rightarrow> outbox_event) \<Rightarrow> bool" where
  "sets_status st f \<longleftrightarrow> (\<forall>e. ev_status (f e) = st \<and> static (f e) = static e)"

lemma sets_status_simps [simp]:
  "sets_status st (\<lambda>e. e\<lparr>ev_status := st\<rparr>)"
  "sets_status st (\<lambda>e. e\<lparr>ev_status := st, ev_dispatched_at := d\<rparr>)"
  "sets_status st (\<lambda>e. e\<lparr>ev_status := st, ev_available_at := a\<rparr>)"
  by (simp_all add: sets_status_def static_def)

lemma contract_ok_static: "static e = static e' \<Longrightarrow> contract_ok r e = contract_ok r e'"
  by (cases e; cases e') (simp add: static_def contract_ok_def)

lemma static_id: "static e = static e' \<Longrightarrow> ev_id e = ev_id e'"
  by (drule static_eqD) simp

lemma static_key: "static e = static e' \<Longrightarrow> ev_idempotency_key e = ev_idempotency_key e'"
  by (drule static_eqD) simp

lemma outbox_part_static:
  assumes "map static ob' = map static ob" "outbox_part reg ob"
  shows "outbox_part reg ob'"
proof -
  have m: "map g ob' = map g ob" if "\<And>e e'. static e = static e' \<Longrightarrow> g e = g e'" for g :: "outbox_event \<Rightarrow> 'x"
  proof -
    have "list_all2 (\<lambda>e' e. static e' = static e) ob' ob"
      using assms(1) by (simp add: list_all2_conv_all_nth) (metis length_map nth_map)
    then have "list_all2 (\<lambda>e' e. g e' = g e) ob' ob" by (rule list_all2_mono) (rule that)
    then show ?thesis by (simp add: list_all2_conv_all_nth list_eq_iff_nth_eq)
  qed
  have ex: "\<exists>e\<in>set ob. static e' = static e" if "e' \<in> set ob'" for e'
    using assms(1) that by (metis imageE image_eqI set_map)
  show ?thesis
    unfolding outbox_part_def
  proof (intro conjI ballI)
    show "distinct (map ev_id ob')" "distinct (map ev_idempotency_key ob')"
      using assms(2) m [OF static_id] m [OF static_key] by (simp_all add: outbox_part_def)
    fix e' assume "e' \<in> set ob'"
    with ex obtain e where e: "e \<in> set ob" "static e' = static e" by blast
    from e(1) assms(2) have "payload_safe (ev_payload e)" "\<exists>r\<in>set reg. et_event_type r = ev_event_type e \<and>
        et_event_version r = ev_event_version e \<and> contract_ok r e" by (auto simp: outbox_part_def)
    with static_eqD [OF e(2)] contract_ok_static [OF e(2)]
    show "payload_safe (ev_payload e')" "\<exists>r\<in>set reg. et_event_type r = ev_event_type e' \<and>
        et_event_version r = ev_event_version e' \<and> contract_ok r e'" by auto
  qed
qed

lemma set_event_static: "sets_status st f \<Longrightarrow> map static (outbox (set_event i f db)) = map static (outbox db)"
  by (simp add: set_event_def map_update_where sets_status_def)

lemma sets_statusD: "sets_status st f \<Longrightarrow> ev_status (f e) = st \<and> ev_id (f e) = ev_id e"
  using static_id [of "f e" e] by (simp add: sets_status_def)

lemma dead_ids_open:
  assumes "sets_status st f" "st \<noteq> DEAD_LETTERED" "i \<notin> dead_ids ob"
  shows "dead_ids (update_where (\<lambda>e. ev_id e = i) f ob) = dead_ids ob"
  using assms(3)
  by (induction ob) (auto simp: dead_ids_def update_where_def sets_statusD [OF assms(1)] assms(2))

lemma dead_ids_dead:
  assumes "sets_status DEAD_LETTERED f"
  shows "i \<in> ev_id ` set ob \<Longrightarrow>
    dead_ids (update_where (\<lambda>e. ev_id e = i) f ob) = insert i (dead_ids ob)"
proof (induction ob)
  case (Cons e ob)
  have "dead_ids (update_where (\<lambda>e. ev_id e = i) f ob) = dead_ids ob" if "i \<notin> ev_id ` set ob"
  proof -
    have "update_where (\<lambda>e. ev_id e = i) f ob = ob"
      using that by (auto simp: update_where_def intro!: map_idI)
    then show ?thesis by simp
  qed
  with Cons show ?case
    by (cases "i \<in> ev_id ` set ob") (auto simp: dead_ids_def update_where_def sets_statusD [OF assms])
qed simp

lemma tables_ok_set_event:
  assumes "tables_ok db" "open_event i db" "sets_status st f" "st \<noteq> DEAD_LETTERED"
    and "st = FAILED_RETRYABLE \<Longrightarrow> count_attempts i (attempts db) < 3"
  shows "tables_ok (set_event i f db)"
proof -
  have "outbox_part (registry db) (outbox (set_event i f db))"
    using outbox_part_static [OF set_event_static [OF assms(3)]] assms(1) by (simp add: tables_ok_def)
  moreover have "letters_part (outbox (set_event i f db)) (dead_letters db)"
    using assms(1,2) dead_ids_open [OF assms(3,4), of i "outbox db"]
    by (simp add: tables_ok_def letters_part_def open_event_def set_event_def)
  moreover have "retry_part (outbox (set_event i f db)) (attempts db)"
    using assms(1,5)
    by (auto simp: tables_ok_def retry_part_def set_event_def set_update_where sets_statusD [OF assms(3)])
  ultimately show ?thesis using assms(1) by (simp add: tables_ok_def set_event_def)
qed

lemma set_event_fields [simp]:
  "registry (set_event i f db) = registry db" "attempts (set_event i f db) = attempts db"
  "consumer_states (set_event i f db) = consumer_states db" "dead_letters (set_event i f db) = dead_letters db"
  by (simp_all add: set_event_def)

lemma set_attempt_fields [simp]:
  "registry (set_attempt i n f db) = registry db" "outbox (set_attempt i n f db) = outbox db"
  "consumer_states (set_attempt i n f db) = consumer_states db" "dead_letters (set_attempt i n f db) = dead_letters db"
  by (simp_all add: set_attempt_def)

lemma set_consumer_fields [simp]:
  "registry (set_consumer i n f db) = registry db" "outbox (set_consumer i n f db) = outbox db"
  "attempts (set_consumer i n f db) = attempts db" "dead_letters (set_consumer i n f db) = dead_letters db"
  by (simp_all add: set_consumer_def)

lemma open_set_attempt [simp]: "open_event j (set_attempt i n f db) = open_event j db"
  by (simp add: open_event_def)

definition keeps_attempt_key :: "(dispatch_attempt \<Rightarrow> dispatch_attempt) \<Rightarrow> bool" where
  "keeps_attempt_key f \<longleftrightarrow> (\<forall>a. at_event (f a) = at_event a \<and> at_attempt_number (f a) = at_attempt_number a)"

lemma filter_attempts:
  assumes "keeps_attempt_key f"
  shows "map at_attempt_number (filter (\<lambda>a. at_event a = j) (update_where P f ats))
    = map at_attempt_number (filter (\<lambda>a. at_event a = j) ats)"
  using assms by (induction ats) (auto simp: update_where_def keeps_attempt_key_def)

lemma count_set_attempt:
  "keeps_attempt_key f \<Longrightarrow> count_attempts j (update_where P f ats) = count_attempts j ats"
  using filter_attempts [of f j P ats] unfolding count_attempts_def by (metis length_map)

lemma tables_ok_set_attempt:
  assumes "tables_ok db" "keeps_attempt_key f"
  shows "tables_ok (set_attempt i n f db)"
  using assms by (simp add: tables_ok_def attempts_part_def retry_part_def set_attempt_def filter_attempts
      count_set_attempt)

lemma tables_ok_open_attempt:
  assumes "tables_ok db" "at_event a = i" "at_attempt_number a = attempt_number_for db i" "open_event i db"
    and "\<And>e. e \<in> set (outbox db) \<Longrightarrow> ev_id e = i \<Longrightarrow> ev_status e \<noteq> FAILED_RETRYABLE"
  shows "tables_ok (db\<lparr>attempts := attempts db @ [a]\<rparr>)"
proof -
  have c: "count_attempts j (attempts db @ [a]) = count_attempts j (attempts db) + (if j = i then 1 else 0)" for j
    using assms(2) by (simp add: count_attempts_def)
  have "attempts_part (attempts db @ [a])"
    unfolding attempts_part_def
  proof
    fix j
    have "map at_attempt_number (filter (\<lambda>a. at_event a = j) (attempts db))
       = map int [1..<Suc (count_attempts j (attempts db))]"
      using assms(1) by (simp add: tables_ok_def attempts_part_def)
    then show "map at_attempt_number (filter (\<lambda>a. at_event a = j) (attempts db @ [a]))
       = map int [1..<Suc (count_attempts j (attempts db @ [a]))]"
      using assms(2,3) unfolding c by (auto simp: attempt_number_for_def count_attempts_def)
  qed
  moreover have "retry_part (outbox db) (attempts db @ [a])"
    using assms(1,5) by (auto simp: tables_ok_def retry_part_def c)
  ultimately show ?thesis using assms(1) by (simp add: tables_ok_def)
qed

section \<open>Consumers\<close>

text \<open>Consumer bookkeeping writes its own table only, and keeps it consistent.\<close>

definition consumer_step :: "event_db \<Rightarrow> event_db \<Rightarrow> bool" where
  "consumer_step s t \<longleftrightarrow> t = s\<lparr>consumer_states := consumer_states t\<rparr> \<and>
     (consumers_part (consumer_states s) \<longrightarrow> consumers_part (consumer_states t))"

interpretation consumer: state_order consumer_step
proof unfold_locales
  show "consumer_step s s" for s by (simp add: consumer_step_def)
  show "consumer_step s u" if "consumer_step s t" "consumer_step t u" for s t u
    using that by (cases s; cases t; cases u) (simp add: consumer_step_def)
qed

lemma consumer_step_append:
  assumes "consumer_row s (cs_event_id c) (cs_consumer_name c) = None" "safe_text (cs_failure_reason c)"
  shows "consumer_step s (s\<lparr>consumer_states := consumer_states s @ [c]\<rparr>)"
  using assms
  by (auto simp: consumer_step_def consumers_part_def consumer_row_def first_where_None)

lemma consumer_step_update:
  assumes "\<And>c. cs_event_id (f c) = cs_event_id c \<and> cs_consumer_name (f c) = cs_consumer_name c"
    and "\<And>c. safe_text (cs_failure_reason c) \<Longrightarrow> safe_text (cs_failure_reason (f c))"
  shows "consumer_step s (set_consumer i n f s)"
proof -
  have "consumers_part (update_where P f css)" if "consumers_part css" for P css
    using that assms by (auto simp: consumers_part_def map_update_where set_update_where)
  then show ?thesis by (simp add: consumer_step_def set_consumer_def)
qed

lemma consumer_started_step: "consumer.obeys (record_consumer_started e name tn)"
  unfolding record_consumer_started_def
  by (intro consumer.obeys_abind consumer.obeys_alift consumer.obeysI)
    (auto simp: Let_def consumer.order_refl safe_empty intro!: consumer_step_append split: option.splits)

lemma consumer_processed_step: "consumer.obeys (record_consumer_processed now e name)"
  unfolding record_consumer_processed_def
  by (intro consumer.obeys_abind consumer_started_step consumer.obeysI)
    (auto simp: consumer.order_refl intro!: consumer_step_update split: sum.splits)

lemma consumer_failed_step: "consumer.obeys (record_consumer_failed e name msg)"
  unfolding record_consumer_failed_def
  by (intro consumer.obeys_abind consumer_started_step consumer.obeysI)
    (auto simp: Let_def consumer.order_refl failure_text.sanitize_storable
      intro!: consumer_step_update split: sum.splits)

lemma record_failure_step: "consumer.obeys (record_failure_of e active x)"
  by (auto simp: record_failure_of_def consumer_failed_step consumer.obeys_return)

interpretation consumer_bookkeeping: consumer_frame consumer_step e for e
  by (rule consumer_frame.intro)
    (unfold_locales, rule consumer_started_step, rule consumer_processed_step)

lemma consumer_step_fields:
  "consumer_step s t \<Longrightarrow> registry t = registry s \<and> outbox t = outbox s \<and> attempts t = attempts s
     \<and> dead_letters t = dead_letters s"
  by (cases s; cases t) (simp add: consumer_step_def)

lemma tables_ok_consumer: "consumer_step s t \<Longrightarrow> tables_ok s \<Longrightarrow> tables_ok t"
  using consumer_step_fields [of s t] by (auto simp: tables_ok_def consumer_step_def)

section \<open>Outcomes\<close>

lemma mark_event_dispatched_ok:
  assumes "tables_ok db" "open_event (ev_id e) db"
  shows "tables_ok (snd (mark_event_dispatched now e n db))"
    and "fst (mark_event_dispatched now e n db) = Inl x \<Longrightarrow> snd (mark_event_dispatched now e n db) = db"
proof -
  let ?f = "\<lambda>e. e\<lparr>ev_status := DISPATCHED, ev_dispatched_at := Some now\<rparr>"
  have 1: "tables_ok (set_event (ev_id e) ?f db)"
    by (rule tables_ok_set_event [where st = DISPATCHED]) (use assms in auto)
  then have 2: "tables_ok (set_attempt (ev_id e) n (\<lambda>a. a\<lparr>at_status := A_SUCCEEDED, at_finished_at := Some now\<rparr>)
      (set_event (ev_id e) ?f db))"
    by (rule tables_ok_set_attempt) (simp add: keeps_attempt_key_def)
  show "tables_ok (snd (mark_event_dispatched now e n db))"
    using assms(1) 2
    by (cases "savable db e") (auto simp: mark_event_dispatched_def abind_def save_event_ok
        split: prod.splits sum.splits dest: save_event_Inl save_event_Inr [OF dispatch_updates(2)])
  show "fst (mark_event_dispatched now e n db) = Inl x \<Longrightarrow> snd (mark_event_dispatched now e n db) = db"
    by (auto simp: mark_event_dispatched_def abind_def split: prod.splits sum.splits dest: save_event_Inl)
qed

lemma tables_ok_dead_letter:
  assumes "tables_ok db" "ev_id e \<in> ev_id ` set (outbox db)" "sets_status DEAD_LETTERED f"
    and "db' = set_event (ev_id e) f db" "dl_event dl = ev_id e"
    and "safe_text (dl_reason dl)" "safe_text (dl_sanitized_error dl)"
  shows "(if \<exists>d\<in>set (dead_letters db'). dl_event d = ev_id e then tables_ok db'
     else tables_ok (db'\<lparr>dead_letters := dead_letters db' @ [dl]\<rparr>))"
proof -
  have "outbox_part (registry db) (outbox db')"
    using outbox_part_static [OF set_event_static [OF assms(3)]] assms(1,4) by (simp add: tables_ok_def)
  moreover have "dead_ids (outbox db') = insert (ev_id e) (dead_ids (outbox db))"
    using dead_ids_dead [OF assms(3,2)] by (simp add: assms(4) set_event_def)
  moreover have "retry_part (outbox db') (attempts db)"
    using assms(1) by (auto simp: assms(4) tables_ok_def retry_part_def set_event_def set_update_where
        sets_statusD [OF assms(3)])
  moreover have l: "letters_part (outbox db) (dead_letters db)" using assms(1) by (simp add: tables_ok_def)
  moreover have "(\<exists>d\<in>set (dead_letters db). dl_event d = ev_id e) \<longleftrightarrow> ev_id e \<in> dead_ids (outbox db)"
    using l unfolding letters_part_def by (metis image_iff)
  ultimately show ?thesis
    using assms(1,5-7) by (simp add: assms(4) tables_ok_def letters_part_def insert_absorb)
qed

lemma safe_pair: "safe_text r \<Longrightarrow> safe_text m \<Longrightarrow>
   reject_sensitive_payload (JObj [(''reason'', JStr r), (''sanitized_error'', JStr m)]) = Inr ()"
  by (simp add: row_keys_safe safe_text_def)

lemma sanitize_nonempty: "t \<noteq> [] \<Longrightarrow> sanitize_error t \<noteq> []"
  by (cases t) (simp_all add: sanitize_error_eq)

text \<open>The only ways dead-lettering ends, given a reason.\<close>

lemma move_event_to_dead_letter_cases:
  assumes "reason \<noteq> []"
  shows "move_event_to_dead_letter e reason msg n db =
    (case save_event e (\<lambda>e. e\<lparr>ev_status := DEAD_LETTERED\<rparr>) db of
       (Inl x, db') \<Rightarrow> (Inl x, db')
     | (Inr _, db') \<Rightarrow>
         if \<exists>d\<in>set (dead_letters db'). dl_event d = ev_id e
         then (Inl (ValidationError ''event_outbox'' ''Already exists.''), db')
         else let dl = \<lparr>dl_event = ev_id e, dl_event_type = ev_event_type e,
                 dl_event_version = ev_event_version e, dl_tenant = ev_tenant e,
                 dl_reason = sanitize_error reason, dl_sanitized_error = sanitize_error msg,
                 dl_failed_after_attempts = n\<rparr>
              in (Inr dl, db'\<lparr>dead_letters := dead_letters db' @ [dl]\<rparr>))"
  using sanitize_nonempty [OF assms] safe_pair [OF failure_text.sanitize_storable failure_text.sanitize_storable]
  by (auto simp: move_event_to_dead_letter_def abind_def Let_def simp del: reject_sensitive_payload.simps
      split: prod.splits sum.splits)

lemma move_event_to_dead_letter_ok:
  assumes "tables_ok db" "ev_id e \<in> ev_id ` set (outbox db)" "reason \<noteq> []"
  shows "tables_ok (snd (move_event_to_dead_letter e reason msg n db))"
proof -
  let ?f = "\<lambda>e. e\<lparr>ev_status := DEAD_LETTERED\<rparr>"
  let ?dl = "\<lparr>dl_event = ev_id e, dl_event_type = ev_event_type e,
                 dl_event_version = ev_event_version e, dl_tenant = ev_tenant e,
                 dl_reason = sanitize_error reason, dl_sanitized_error = sanitize_error msg,
                 dl_failed_after_attempts = n\<rparr>"
  show ?thesis
  proof (cases "savable db e")
    case True
    have "if \<exists>d\<in>set (dead_letters (set_event (ev_id e) ?f db)). dl_event d = ev_id e
      then tables_ok (set_event (ev_id e) ?f db) else tables_ok ((set_event (ev_id e) ?f db)
        \<lparr>dead_letters := dead_letters (set_event (ev_id e) ?f db) @ [?dl]\<rparr>)"
      by (rule tables_ok_dead_letter [OF assms(1,2), of ?f]) (simp_all add: failure_text.sanitize_storable)
    then show ?thesis
      using True
      by (cases "\<exists>d\<in>set (dead_letters db). dl_event d = ev_id e")
        (simp_all add: move_event_to_dead_letter_cases [OF assms(3)] save_event_ok Let_def)
  next
    case False
    then show ?thesis
      using assms(1) by (auto simp: move_event_to_dead_letter_cases [OF assms(3)] split: prod.splits sum.splits
          dest: save_event_Inl save_event_Inr [OF dispatch_updates(1)])
  qed
qed

lemma open_event_stored: "open_event i db \<Longrightarrow> i \<in> ev_id ` set (outbox db)"
  by (simp add: open_event_def)

lemma mark_event_failed_retryable_ok:
  assumes "tables_ok db" "open_event (ev_id e) db" "n = int (count_attempts (ev_id e) (attempts db))" "0 < n"
  shows "tables_ok (snd (mark_event_failed_retryable now e n msg db))"
proof -
  let ?fa = "\<lambda>a. a\<lparr>at_status := A_FAILED_RETRYABLE, at_error_message := sanitize_error msg,
      at_finished_at := Some now\<rparr>"
  let ?db = "set_attempt (ev_id e) n ?fa db"
  have k: "keeps_attempt_key ?fa" by (simp add: keeps_attempt_key_def)
  have 1: "tables_ok ?db" by (rule tables_ok_set_attempt [OF assms(1) k])
  have 2: "tables_ok (snd (move_event_to_dead_letter e r msg n ?db))" if "r \<noteq> []" for r
    by (rule move_event_to_dead_letter_ok [OF 1 _ that]) (use open_event_stored [OF assms(2)] in simp)
  have 3: "tables_ok (snd (save_event e (\<lambda>e. e\<lparr>ev_status := FAILED_RETRYABLE, ev_available_at := t\<rparr>) ?db))"
    if "n < 3" for t
  proof -
    have "tables_ok (set_event (ev_id e) (\<lambda>e. e\<lparr>ev_status := FAILED_RETRYABLE, ev_available_at := t\<rparr>) ?db)"
      by (rule tables_ok_set_event [OF 1, where st = FAILED_RETRYABLE])
        (use assms(2,3) that in \<open>simp_all add: set_attempt_def count_set_attempt [OF k] open_event_def\<close>)
    then show ?thesis using 1
      by (auto simp: save_event_def split: sum.splits)
  qed
  have r: "classify_dead_letter_reason RETRYABLE n MAX_RETRY_ATTEMPTS \<noteq> []"
    by (simp add: classify_dead_letter_reason_def REASON_BY_FAILURE_def RETRYABLE_def PERMANENT_def
        INVALID_PAYLOAD_def UNAUTHORIZED_PRODUCER_def TENANT_MISMATCH_def SCHEMA_MISMATCH_def)
  show ?thesis
    using 1 2 [OF r] 3
    by (auto simp: mark_event_failed_retryable_def Let_def decide_retry_def abind_def MAX_RETRY_ATTEMPTS_def
        split: sum.splits prod.splits if_splits)
qed

lemma handle_dispatch_error_ok:
  assumes "tables_ok db" "open_event (ev_id e) db" "n = int (count_attempts (ev_id e) (attempts db))" "0 < n"
  shows "tables_ok (snd (handle_dispatch_error now e n active x db))"
proof -
  obtain r1 db1 where f: "record_failure_of e active x db = (r1, db1)" by (metis prod.exhaust)
  have st: "consumer_step db db1" by (rule consumer.obeysD [OF record_failure_step f])
  note fields = consumer_step_fields [OF st]
  have 1: "tables_ok db1" by (rule tables_ok_consumer [OF st assms(1)])
  have o1: "open_event (ev_id e) db1" using assms(2) fields by (simp add: open_event_def)
  have 2: "tables_ok (snd (mark_event_failed_retryable now e n (exn_text x) db1))"
    by (rule mark_event_failed_retryable_ok [OF 1 o1]) (use assms(3,4) fields in simp_all)
  have 3: "tables_ok (snd (move_event_to_dead_letter e ''permanent_failure'' (exn_text x) n db1))"
    by (rule move_event_to_dead_letter_ok [OF 1 open_event_stored [OF o1]]) simp
  have 4: "tables_ok db2 \<Longrightarrow> tables_ok (set_attempt (ev_id e) n
      (\<lambda>a. a\<lparr>at_status := A_DEAD_LETTERED, at_finished_at := Some now\<rparr>) db2)" for db2
    by (rule tables_ok_set_attempt) (simp_all add: keeps_attempt_key_def)
  have 5: "tables_ok (snd (abind (move_event_to_dead_letter e ''permanent_failure'' (exn_text x) n) (\<lambda>_ db.
      (Inr (), set_attempt (ev_id e) n (\<lambda>a. a\<lparr>at_status := A_DEAD_LETTERED, at_finished_at := Some now\<rparr>) db)) db1))"
    using 3 4 by (auto simp: abind_def split: prod.splits sum.splits)
  show ?thesis
    using 1 2 5 f assms(1)
    by (cases x; cases r1) (simp_all add: handle_dispatch_error_def abind_def)
qed

section \<open>A relay pass\<close>

text \<open>What the relay holds after taking a batch: the row is locked and has no dead letter.\<close>

definition held :: "uuid \<Rightarrow> event_db \<Rightarrow> bool" where
  "held i db \<longleftrightarrow> open_event i db \<and> (\<forall>e\<in>{e \<in> set (outbox db). ev_id e = i}. ev_status e = LOCKED)"

lemma held_frame:
  assumes "only_event i s t" "j \<noteq> i" "held j s"
  shows "held j t"
proof -
  have o: "set (filter (\<lambda>e. ev_id e \<noteq> i) (outbox t)) = set (filter (\<lambda>e. ev_id e \<noteq> i) (outbox s))"
    and d: "set (filter (\<lambda>d. dl_event d \<noteq> i) (dead_letters t)) = set (filter (\<lambda>d. dl_event d \<noteq> i) (dead_letters s))"
    using assms(1) unfolding only_event_def by metis+
  have "{e \<in> set (outbox t). ev_id e = j} = {e \<in> set (outbox s). ev_id e = j}"
    using o assms(2) by (auto simp: set_eq_iff)
  moreover have "{x \<in> set (dead_letters t). dl_event x = j} = {x \<in> set (dead_letters s). dl_event x = j}"
    using d assms(2) by (auto simp: set_eq_iff)
  ultimately show ?thesis
    using assms(3) by (fastforce simp: held_def open_event_def)
qed

lemma count_open_attempt:
  "at_event a = i \<Longrightarrow> int (count_attempts i (attempts db @ [a])) = attempt_number_for db i"
  by (simp add: attempt_number_for_def count_attempts_def)

lemma dispatch_event_ok:
  assumes "tables_ok (fst s)" "held (ev_id e) (fst s)"
  shows "tables_ok (fst (snd (dispatch_event hs now name e s)))"
proof -
  let ?n = "attempt_number_for (fst s) (ev_id e)"
  let ?a = "\<lparr>at_event = ev_id e, at_attempt_number = ?n, at_dispatcher_name = name,
      at_status = A_STARTED, at_error_message = [], at_finished_at = None\<rparr>"
  let ?s1 = "((fst s)\<lparr>attempts := attempts (fst s) @ [?a]\<rparr>, snd s)"
  have o: "open_event (ev_id e) (fst s)" using assms(2) by (simp add: held_def)
  have 1: "tables_ok (fst ?s1)"
    using tables_ok_open_attempt [OF assms(1), of ?a, OF _ _ o] assms(2) by (simp add: held_def)
  obtain r active s2 where rc: "run_consumers now e (get_handlers hs (ev_event_type e)) [] ?s1 = ((r, active), s2)"
    by (metis prod.exhaust)
  have st: "consumer_step (fst ?s1) (fst s2)"
    using consumer_bookkeeping.run_consumers_frame [of ?s1 now e "get_handlers hs (ev_event_type e)" "[]"]
    unfolding rc by simp
  note fields = consumer_step_fields [OF st]
  have 2: "tables_ok (fst s2)" by (rule tables_ok_consumer [OF st 1])
  have o2: "open_event (ev_id e) (fst s2)" using o fields by (simp add: open_event_def)
  have n2: "?n = int (count_attempts (ev_id e) (attempts (fst s2)))"
    using count_open_attempt [of ?a "ev_id e" "fst s"] fields by simp
  have n0: "0 < ?n" by (simp add: attempt_number_for_def)
  note m = mark_event_dispatched_ok [OF 2 o2, of now ?n]
  note h = handle_dispatch_error_ok [OF 2 o2 n2 n0, of now active]
  show ?thesis
  proof (cases r)
    case (Inl x)
    then show ?thesis using rc h [of x]
      by (auto simp: dispatch_event_def Let_def abind_def on_db_def split: sum.splits prod.splits)
  next
    case (Inr u)
    obtain rm dm where md: "mark_event_dispatched now e ?n (fst s2) = (rm, dm)" by (metis prod.exhaust)
    show ?thesis
    proof (cases rm)
      case (Inl x)
      then have "dm = fst s2" using m(2) md by simp
      then show ?thesis using rc Inr md Inl h [of x]
        by (auto simp: dispatch_event_def Let_def abind_def on_db_def split: sum.splits prod.splits)
    next
      case (Inr v)
      then show ?thesis using rc \<open>r = Inr u\<close> md m(1)
        by (simp add: dispatch_event_def Let_def on_db_def)
    qed
  qed
qed

lemma dispatch_all_ok:
  assumes "tables_ok (fst s)" "\<forall>e\<in>set es. held (ev_id e) (fst s)" "distinct (map ev_id es)"
  shows "tables_ok (fst (snd (dispatch_all hs now name es k s)))"
  using assms
proof (induction es arbitrary: k s)
  case (Cons e es)
  obtain r s' where d: "dispatch_event hs now name e s = (r, s')" by (metis prod.exhaust)
  have 1: "tables_ok (fst s')" using dispatch_event_ok [of s e hs now name] Cons.prems d by simp
  have f: "only_event (ev_id e) (fst s) (fst s')" using event_frame [of e s hs now name] d by simp
  have 2: "\<forall>x\<in>set es. held (ev_id x) (fst s')"
  proof
    fix x assume x: "x \<in> set es"
    then have "ev_id x \<noteq> ev_id e" using Cons.prems(3) by (metis distinct.simps(2) image_eqI list.map(2) list.set_map)
    then show "held (ev_id x) (fst s')" using held_frame [OF f] Cons.prems(2) x by simp
  qed
  show ?case
    using Cons.IH [OF 1 2] Cons.prems(3) d 1 by (cases r) (simp_all add: abind_def)
qed simp

section \<open>Every operation keeps the invariant\<close>

lemma ready_not_dead: "ready_for_dispatch now t e \<Longrightarrow> ev_status e \<noteq> DEAD_LETTERED"
  by (auto simp: ready_for_dispatch_def Let_def)

lemma lock_ok:
  assumes ok: "tables_ok db" and "lock_pending_events now name n db = (Inr batch, db')"
  shows "tables_ok db'" and "\<forall>e\<in>set batch. held (ev_id e) db'"
proof -
  let ?f = "\<lambda>e. e\<lparr>ev_status := LOCKED, ev_locked_at := Some now, ev_locked_by := name\<rparr>"
  from assms(2) obtain ids where db': "db' = db\<lparr>outbox := update_where (\<lambda>e. ev_id e \<in> set ids) ?f (outbox db)\<rparr>"
    and b: "batch = sort_key ev_occurred_at (filter (\<lambda>e. ev_id e \<in> set ids) (outbox db'))"
    and "length ids \<le> nat (max 1 (min n 100))"
    and rd: "\<forall>i\<in>set ids. \<exists>e\<in>set (outbox db). ev_id e = i \<and> ready_for_dispatch now LOCK_TIMEOUT_SECONDS e"
    by (rule lock_pending_events_Inr)
  have d: "distinct (map ev_id (outbox db))" using ok by (simp add: tables_ok_def outbox_part_def)
  have alive: "ev_status e \<noteq> DEAD_LETTERED" if "e \<in> set (outbox db)" "ev_id e \<in> set ids" for e
    using rd that d ready_not_dead by (metis (no_types, lifting) eq_key_imp_eq_value distinct_map inj_onD)
  have di: "dead_ids (outbox db') = dead_ids (outbox db)"
    using alive unfolding db' dead_ids_def by (auto simp: set_update_where image_iff)
  have "map static (outbox db') = map static (outbox db)"
    unfolding db' by (simp add: map_update_where static_def)
  then have "outbox_part (registry db) (outbox db')"
    using outbox_part_static ok by (simp add: tables_ok_def)
  moreover have "retry_part (outbox db') (attempts db)"
    using ok by (auto simp: db' tables_ok_def retry_part_def set_update_where)
  ultimately show "tables_ok db'"
    using ok di by (simp add: tables_ok_def letters_part_def db')
  show "\<forall>e\<in>set batch. held (ev_id e) db'"
  proof
    fix e assume e: "e \<in> set batch"
    then have i: "ev_id e \<in> set ids" "e \<in> set (outbox db')" by (auto simp: b)
    have "ev_id e \<notin> dead_ids (outbox db)" using alive i(1) by (auto simp: dead_ids_def)
    then have "ev_id e \<notin> dl_event ` set (dead_letters db)" using ok by (simp add: tables_ok_def letters_part_def)
    then show "held (ev_id e) db'"
      using i by (auto simp: held_def open_event_def db' set_update_where)
  qed
qed

lemma dispatch_pending_ok:
  assumes "tables_ok (fst s)"
  shows "tables_ok (fst (snd (dispatch_pending_events hs now name n s)))"
proof -
  obtain r db' where l: "lock_pending_events now name n (fst s) = (r, db')" by (metis prod.exhaust)
  show ?thesis
  proof (cases r)
    case (Inl x)
    then show ?thesis using l assms lock_pending_events_Inl [of now name n "fst s" x db']
      by (simp add: dispatch_pending_events_def abind_def on_db_def)
  next
    case (Inr batch)
    with l have l: "lock_pending_events now name n (fst s) = (Inr batch, db')" by simp
    have d: "distinct (map ev_id (outbox (fst s)))" using assms by (simp add: tables_ok_def outbox_part_def)
    show ?thesis
      using dispatch_all_ok [of "(db', snd s)" batch hs now name 0] lock_ok [OF assms l] lock_batch_bound(2) [OF d l] l
      by (simp add: dispatch_pending_events_def abind_def on_db_def)
  qed
qed

lemma write_ok:
  assumes "tables_ok db" "i \<notin> ev_id ` set (outbox db)"
  shows "tables_ok (snd (write_outbox_event now i rq db))"
proof -
  obtain res db' where w: "write_outbox_event now i rq db = (res, db')" by (metis prod.exhaust)
  show ?thesis
  proof (cases res)
    case (Inl x)
    then show ?thesis using w assms(1) write_outbox_event_Inl [of now i rq db x db'] by simp
  next
    case (Inr e)
    with w have w: "write_outbox_event now i rq db = (Inr e, db')" by simp
    from write_outbox_event_Inr [OF w] obtain r where
      r: "db' = db\<lparr>outbox := outbox db @ [e]\<rparr>" "ev_id e = i" "ev_status e = PENDING"
        "ev_idempotency_key e = rq_idempotency_key rq"
        "active_contract db (ev_event_type e) (ev_event_version e) = Some r" "contract_ok r e"
      and u: "\<And>q. q \<in> set (outbox db) \<Longrightarrow> ev_id q \<noteq> i \<Longrightarrow> ev_idempotency_key q \<noteq> rq_idempotency_key rq"
      by metis
    have "rq_idempotency_key rq \<notin> ev_idempotency_key ` set (outbox db)"
      using u assms(2) by (force simp: image_iff)
    moreover have "payload_safe (ev_payload e)" using r(6) by (auto simp: contract_ok_def dest: validate_payload_safe)
    ultimately have "outbox_part (registry db) (outbox db @ [e])"
      using assms r(2,4,6) active_contractD [OF r(5)] by (auto simp: tables_ok_def outbox_part_def)
    moreover have "dead_ids (outbox db @ [e]) = dead_ids (outbox db)" using r(3) by (simp add: dead_ids_def)
    moreover have "retry_part (outbox db @ [e]) (attempts db)"
      using assms(1) r(3) by (auto simp: tables_ok_def retry_part_def)
    ultimately show ?thesis
      using assms(1) w r(1) by (simp add: tables_ok_def letters_part_def)
  qed
qed

lemma register_ok:
  assumes "tables_ok db"
  shows "tables_ok (snd (register_event_type r db))"
  using assms
  by (auto simp: register_event_type_def tables_ok_def outbox_part_def split: sum.splits)

section \<open>Reachable states\<close>

text \<open>
  The steps of the backbone: registering an event type, writing an event with a fresh id, and a
  relay pass of any relay with any batch size. Each may raise; the state is what it leaves behind.
\<close>

inductive backbone_step :: "'w handlers \<Rightarrow> 'w relay \<Rightarrow> 'w relay \<Rightarrow> bool" for hs where
  bs_register: "backbone_step hs (db, w) (snd (register_event_type r db), w)"
| bs_write: "i \<notin> ev_id ` set (outbox db) \<Longrightarrow> backbone_step hs (db, w) (snd (write_outbox_event now i rq db), w)"
| bs_world: "backbone_step hs (db, w) (db, w')"
| bs_dispatch: "backbone_step hs s (snd (dispatch_pending_events hs now name n s))"

definition empty_event_db :: event_db where
  "empty_event_db = \<lparr>registry = [], outbox = [], attempts = [], consumer_states = [], dead_letters = []\<rparr>"

inductive backbone_reach :: "'w handlers \<Rightarrow> 'w relay \<Rightarrow> bool" for hs where
  br_init: "backbone_reach hs (empty_event_db, w)"
| br_step: "backbone_reach hs s \<Longrightarrow> backbone_step hs s t \<Longrightarrow> backbone_reach hs t"

lemma empty_ok: "tables_ok empty_event_db"
  by (simp add: empty_event_db_def tables_ok_def outbox_part_def letters_part_def consumers_part_def
      attempts_part_def retry_part_def dead_ids_def count_attempts_def)

lemma backbone_step_ok: "backbone_step hs s t \<Longrightarrow> tables_ok (fst s) \<Longrightarrow> tables_ok (fst t)"
  by (induction rule: backbone_step.induct) (simp_all add: register_ok write_ok dispatch_pending_ok)

lemma backbone_reach_ok: "backbone_reach hs s \<Longrightarrow> tables_ok (fst s)"
  by (induction rule: backbone_reach.induct) (simp_all add: empty_ok backbone_step_ok)

end
