(* ===== verification/Backbone.thy ===== *)
theory Backbone
  imports OutboxInvariant
begin

text \<open>
  What the event backbone promises as a whole: how the dispatch of one event ends, which
  consumers run, what a deactivated contract does, and the invariant of reachable states, each
  with a run of the model on a sample event type.
\<close>

section \<open>How a dispatch ends\<close>

definition row_of :: "uuid \<Rightarrow> event_db \<Rightarrow> outbox_event option" where
  "row_of i db = first_where (\<lambda>e. ev_id e = i) (outbox db)"

lemma row_of_set_event:
  assumes "i \<in> ev_id ` set (outbox db)" "sets_status st f"
  shows "\<exists>e\<in>set (outbox db). ev_id e = i \<and> row_of i (set_event i f db) = Some (f e)"
proof -
  have "\<exists>e\<in>set es. ev_id e = i \<and> find (\<lambda>e. ev_id e = i) (update_where (\<lambda>e. ev_id e = i) f es) = Some (f e)"
    if "i \<in> ev_id ` set es" for es
    using that by (induction es) (auto simp: update_where_def sets_statusD [OF assms(2)])
  from this [OF assms(1)] show ?thesis by (simp add: row_of_def first_where_def set_event_def)
qed

lemma row_of_cong: "outbox db' = outbox db \<Longrightarrow> row_of i db' = row_of i db"
  by (simp add: row_of_def)

lemma row_of_held: "held i db \<Longrightarrow> map_option ev_status (row_of i db) = Some LOCKED"
  by (cases "row_of i db") (auto simp: held_def open_event_def row_of_def first_where_None dest: first_where_SomeD)

lemma savable_cong: "registry db' = registry db \<Longrightarrow> outbox db' = outbox db \<Longrightarrow> savable db' e = savable db e"
  by (simp add: savable_iff active_contract_def)

lemma record_failure_total:
  assumes "active = [] \<or> char_field 128 active"
  shows "\<exists>db'. record_failure_of e active x db = (Inr (), db')"
proof -
  have clean: "consumer_clean (c\<lparr>cs_failure_reason := sanitize_error m\<rparr>) = Inr ()" for c m
    using failure_text.sanitize_storable [of m]
    by (simp add: consumer_clean_def safe_text_def row_keys_safe)
  show ?thesis
    using assms clean
    by (cases "consumer_row db (ev_id e) active")
      (auto simp: record_failure_of_def record_consumer_failed_def record_consumer_started_def abind_def
        alift_def ensure_consumer_tenant_matches_def truthy_def missing_value_def Let_def char_field_def split: sum.splits prod.splits)
qed

lemma run_consumers_active:
  "run_consumers now e chs active s = ((r, a), s') \<Longrightarrow> a = active \<or> a \<in> fst ` set chs"
proof (induction chs arbitrary: active s)
  case (Cons ch chs)
  then show ?case by (fastforce split: prod.splits sum.splits)
qed simp

lemma dead_letter_total:
  assumes "savable db e" "open_event (ev_id e) db" "reason \<noteq> []"
  shows "\<exists>dl db'. move_event_to_dead_letter e reason msg n db = (Inr dl, db') \<and>
    map_option ev_status (row_of (ev_id e) db') = Some DEAD_LETTERED \<and> ev_id e \<in> dl_event ` set (dead_letters db')"
proof -
  let ?f = "\<lambda>e. e\<lparr>ev_status := DEAD_LETTERED\<rparr>"
  have no: "\<not> (\<exists>d\<in>set (dead_letters db). dl_event d = ev_id e)"
    using assms(2) unfolding open_event_def by (metis imageI)
  obtain r where "row_of (ev_id e) (set_event (ev_id e) ?f db) = Some (?f r)"
    using row_of_set_event [OF open_event_stored [OF assms(2)], of DEAD_LETTERED ?f] by auto
  then have "map_option ev_status (row_of (ev_id e) ((set_event (ev_id e) ?f db)\<lparr>dead_letters := l\<rparr>)) = Some DEAD_LETTERED" for l
    using row_of_cong [of "(set_event (ev_id e) ?f db)\<lparr>dead_letters := l\<rparr>" "set_event (ev_id e) ?f db"] by simp
  then show ?thesis
    using no by (simp add: move_event_to_dead_letter_cases [OF assms(3)] save_event_ok [OF _ assms(1)] Let_def)
qed

lemma retryable_total:
  assumes "savable db e" "open_event (ev_id e) db" "1 \<le> n"
  shows "\<exists>db'. mark_event_failed_retryable now e n msg db = (Inr (), db') \<and>
    (if n < 3 then (\<exists>r. row_of (ev_id e) db' = Some r \<and> ev_status r = FAILED_RETRYABLE \<and>
        ev_available_at r = now + seconds (60 * 2 ^ nat (n - 1)))
     else map_option ev_status (row_of (ev_id e) db') = Some DEAD_LETTERED \<and>
        ev_id e \<in> dl_event ` set (dead_letters db'))"
proof -
  let ?db = "set_attempt (ev_id e) n (\<lambda>a. a\<lparr>at_status := A_FAILED_RETRYABLE,
      at_error_message := sanitize_error msg, at_finished_at := Some now\<rparr>) db"
  have s: "savable ?db e" using assms(1) savable_cong [of ?db db] by simp
  have o: "open_event (ev_id e) ?db" using assms(2) by simp
  show ?thesis
  proof (cases "n < 3")
    case True
    let ?f = "\<lambda>e. e\<lparr>ev_status := FAILED_RETRYABLE, ev_available_at := now + seconds (60 * 2 ^ nat (n - 1))\<rparr>"
    have "n = 1 \<or> n = 2" using True assms(3) by auto
    then have b: "calculate_backoff_seconds n DEFAULT_RETRY_DELAY_SECONDS (DEFAULT_RETRY_DELAY_SECONDS * 8)
        = Inr (60 * 2 ^ nat (n - 1))"
      by (auto simp: calculate_backoff_seconds_def DEFAULT_RETRY_DELAY_SECONDS_def)
    have m: "mark_event_failed_retryable now e n msg db = (Inr (), set_event (ev_id e) ?f ?db)"
      using True b save_event_ok [OF _ s, of ?f]
      by (simp add: mark_event_failed_retryable_def Let_def decide_retry_def MAX_RETRY_ATTEMPTS_def)
    obtain r where "row_of (ev_id e) (set_event (ev_id e) ?f ?db) = Some (?f r)"
      using row_of_set_event [OF open_event_stored [OF o], of FAILED_RETRYABLE ?f] by auto
    with m True show ?thesis by simp
  next
    case False
    have r: "classify_dead_letter_reason RETRYABLE n MAX_RETRY_ATTEMPTS \<noteq> []"
      using False by (simp add: classify_dead_letter_reason_def MAX_RETRY_ATTEMPTS_def)
    from dead_letter_total [OF s o r, of msg n] False show ?thesis
      by (auto simp: mark_event_failed_retryable_def Let_def decide_retry_def MAX_RETRY_ATTEMPTS_def abind_def)
  qed
qed

definition uncaught :: "exn \<Rightarrow> bool" where
  "uncaught x \<longleftrightarrow> (case x of RetryableEventError _ \<Rightarrow> False | PermanentEventError _ \<Rightarrow> False
     | ValidationError _ _ \<Rightarrow> False | IntegrityError \<Rightarrow> False | _ \<Rightarrow> True)"

definition dispatch_outcome :: "time \<Rightarrow> int \<Rightarrow> uuid \<Rightarrow> nat result \<Rightarrow> event_db \<Rightarrow> bool" where
  "dispatch_outcome now n i res db = (case (res, row_of i db) of
     (Inr k, Some r) \<Rightarrow> (k = 1 \<and> ev_status r = DISPATCHED)
       \<or> (k = 0 \<and> ev_status r = FAILED_RETRYABLE \<and> n < 3 \<and> ev_available_at r = now + seconds (60 * 2 ^ nat (n - 1)))
       \<or> (k = 0 \<and> ev_status r = DEAD_LETTERED \<and> i \<in> dl_event ` set (dead_letters db))
   | (Inl x, Some r) \<Rightarrow> uncaught x \<and> ev_status r = LOCKED
   | (_, None) \<Rightarrow> False)"

lemma handle_dispatch_error_outcome:
  assumes "savable db e" "held (ev_id e) db" "1 \<le> n" "active = [] \<or> char_field 128 active"
    and "handle_dispatch_error now e n active x db = (r, db')"
  shows "dispatch_outcome now n (ev_id e) (case r of Inl y \<Rightarrow> Inl y | Inr _ \<Rightarrow> Inr 0) db'"
proof (cases "uncaught x")
  case True
  then show ?thesis
    using assms(5) row_of_held [OF assms(2)]
    by (cases x) (auto simp: uncaught_def handle_dispatch_error_def dispatch_outcome_def)
next
  case False
  obtain db1 where f: "record_failure_of e active x db = (Inr (), db1)"
    using record_failure_total [OF assms(4)] by blast
  note fields = consumer_step_fields [OF consumer.obeysD [OF record_failure_step f]]
  have s: "savable db1 e" using savable_cong [of db1 db] fields assms(1) by simp
  have o: "open_event (ev_id e) db1" using assms(2) fields by (simp add: held_def open_event_def)
  show ?thesis
  proof (cases "\<exists>m. x = RetryableEventError m")
    case True
    then show ?thesis
      using retryable_total [OF s o assms(3), of now "exn_text x"] f assms(5)
      by (auto simp: handle_dispatch_error_def abind_def dispatch_outcome_def split: if_splits)
  next
    case nr: False
    from dead_letter_total [OF s o, of "''permanent_failure''" "exn_text x" n]
    obtain dl db2 where d: "move_event_to_dead_letter e ''permanent_failure'' (exn_text x) n db1 = (Inr dl, db2)"
      "map_option ev_status (row_of (ev_id e) db2) = Some DEAD_LETTERED" "ev_id e \<in> dl_event ` set (dead_letters db2)"
      by auto
    have "r = Inr ()" "db' = set_attempt (ev_id e) n (\<lambda>a. a\<lparr>at_status := A_DEAD_LETTERED, at_finished_at := Some now\<rparr>) db2"
      using False nr f d(1) assms(5)
      by (cases x; simp add: uncaught_def handle_dispatch_error_def abind_def)+
    then show ?thesis
      using d(2,3) row_of_cong [of db' db2] by (auto simp: dispatch_outcome_def)
  qed
qed

lemma dispatch_event_cases:
  assumes "dispatch_event hs now name e s = (res, s')"
  obtains r active s2 where "run_consumers now e (get_handlers hs (ev_event_type e)) []
      ((fst s)\<lparr>attempts := attempts (fst s) @ [\<lparr>at_event = ev_id e,
        at_attempt_number = attempt_number_for (fst s) (ev_id e), at_dispatcher_name = name,
        at_status = A_STARTED, at_error_message = [], at_finished_at = None\<rparr>]\<rparr>, snd s) = ((r, active), s2)"
    "case r of
       Inr _ \<Rightarrow> (case mark_event_dispatched now e (attempt_number_for (fst s) (ev_id e)) (fst s2) of
           (Inr _, db) \<Rightarrow> (res, fst s') = (Inr 1, db)
         | (Inl x, db) \<Rightarrow> (case handle_dispatch_error now e (attempt_number_for (fst s) (ev_id e)) active x db of
             (q, db') \<Rightarrow> (res, fst s') = ((case q of Inl y \<Rightarrow> Inl y | Inr _ \<Rightarrow> Inr 0), db')))
     | Inl x \<Rightarrow> (case handle_dispatch_error now e (attempt_number_for (fst s) (ev_id e)) active x (fst s2) of
             (q, db') \<Rightarrow> (res, fst s') = ((case q of Inl y \<Rightarrow> Inl y | Inr _ \<Rightarrow> Inr 0), db'))"
proof -
  obtain r active s2 where rc: "run_consumers now e (get_handlers hs (ev_event_type e)) []
      ((fst s)\<lparr>attempts := attempts (fst s) @ [\<lparr>at_event = ev_id e,
        at_attempt_number = attempt_number_for (fst s) (ev_id e), at_dispatcher_name = name,
        at_status = A_STARTED, at_error_message = [], at_finished_at = None\<rparr>]\<rparr>, snd s) = ((r, active), s2)"
    by (metis prod.exhaust)
  show thesis
    by (rule that [OF rc]) (use assms rc in \<open>auto simp: dispatch_event_def Let_def abind_def on_db_def
        split: sum.splits prod.splits\<close>)
qed

text \<open>C1: Dispatching an event the relay holds ends in one of four ways: it is dispatched; it is
  scheduled for a retry, which happens only on the first two attempts and after the doubled delay;
  it is dead-lettered, with a dead letter stored for it; or an exception the relay does not handle
  escapes, and the event stays locked. There is no other end, and no event is lost.\<close>

theorem dispatch_event_outcome:
  assumes "tables_ok (fst s)" and "held (ev_id e) (fst s)" and "savable (fst s) e"
    and "\<forall>ch\<in>set (get_handlers hs (ev_event_type e)). char_field 128 (fst ch)"
    and "dispatch_event hs now name e s = (res, s')"
  shows "dispatch_outcome now (attempt_number_for (fst s) (ev_id e)) (ev_id e) res (fst s')"
proof -
  let ?n = "attempt_number_for (fst s) (ev_id e)"
  let ?s1 = "((fst s)\<lparr>attempts := attempts (fst s) @ [\<lparr>at_event = ev_id e, at_attempt_number = ?n,
      at_dispatcher_name = name, at_status = A_STARTED, at_error_message = [], at_finished_at = None\<rparr>]\<rparr>, snd s)"
  obtain r active s2 where rc: "run_consumers now e (get_handlers hs (ev_event_type e)) [] ?s1 = ((r, active), s2)"
    and out: "case r of
       Inr _ \<Rightarrow> (case mark_event_dispatched now e ?n (fst s2) of
           (Inr _, db) \<Rightarrow> (res, fst s') = (Inr 1, db)
         | (Inl x, db) \<Rightarrow> (case handle_dispatch_error now e ?n active x db of
             (q, db') \<Rightarrow> (res, fst s') = ((case q of Inl y \<Rightarrow> Inl y | Inr _ \<Rightarrow> Inr 0), db')))
     | Inl x \<Rightarrow> (case handle_dispatch_error now e ?n active x (fst s2) of
             (q, db') \<Rightarrow> (res, fst s') = ((case q of Inl y \<Rightarrow> Inl y | Inr _ \<Rightarrow> Inr 0), db'))"
    using assms(5) by (rule dispatch_event_cases)
  have act: "active = [] \<or> char_field 128 active" using run_consumers_active [OF rc] assms(4) by auto
  have "consumer_step (fst ?s1) (fst s2)"
    using consumer_bookkeeping.run_consumers_frame [of ?s1 now e "get_handlers hs (ev_event_type e)" "[]"]
    unfolding rc by simp
  note fields = consumer_step_fields [OF this]
  have s: "savable (fst s2) e" using savable_cong [of "fst s2" "fst s"] fields assms(3) by simp
  have h: "held (ev_id e) (fst s2)" using assms(2) fields by (simp add: held_def open_event_def)
  have n: "1 \<le> ?n" by (simp add: attempt_number_for_def)
  note he = handle_dispatch_error_outcome [OF s h n act]
  show ?thesis
  proof (cases r)
    case (Inl x)
    obtain q db' where "handle_dispatch_error now e ?n active x (fst s2) = (q, db')" by (metis prod.exhaust)
    with he [OF this] out Inl show ?thesis by simp
  next
    case (Inr u)
    let ?f = "\<lambda>e. e\<lparr>ev_status := DISPATCHED, ev_dispatched_at := Some now\<rparr>"
    let ?db = "set_attempt (ev_id e) ?n (\<lambda>a. a\<lparr>at_status := A_SUCCEEDED, at_finished_at := Some now\<rparr>)
        (set_event (ev_id e) ?f (fst s2))"
    have i: "ev_id e \<in> ev_id ` set (outbox (fst s2))" using h by (simp add: held_def open_event_def)
    have "mark_event_dispatched now e ?n (fst s2) = (Inr (), ?db)"
      using save_event_ok [OF _ s, of ?f] by (simp add: mark_event_dispatched_def abind_def)
    with out Inr have res: "res = Inr 1" "fst s' = ?db" by simp_all
    obtain r' where "row_of (ev_id e) (set_event (ev_id e) ?f (fst s2)) = Some (?f r')"
      using row_of_set_event [OF i, of DISPATCHED ?f] by auto
    with res row_of_cong [of ?db "set_event (ev_id e) ?f (fst s2)"] show ?thesis
      by (simp add: dispatch_outcome_def)
  qed
qed

section \<open>Consumers that already ran\<close>

definition ran_before :: "event_db \<Rightarrow> outbox_event \<Rightarrow> string \<Rightarrow> bool" where
  "ran_before db e name \<longleftrightarrow> (\<exists>c. consumer_row db (ev_id e) name = Some c \<and> cs_status c \<in> {C_STARTED, C_PROCESSED})"

lemma ran_before_skips: "ran_before db e name \<Longrightarrow> already_processed db (ev_id e) name"
  by (auto simp: ran_before_def already_processed_def consumer_status_text_def)
    (code_simp, code_simp)

lemma consume_skips:
  assumes "get_event_contract (fst s) (ev_event_type e) (ev_event_version e) = Inr ct"
    and "is_ok (authorize_consumer (fst ch) (et_allowed_consumers ct))" and "ran_before (fst s) e (fst ch)"
  shows "consume_event now e ch s = (Inr (), s)"
  using assms ran_before_skips [OF assms(3)] by (auto simp: consume_event_def is_ok_iff abind_def alift_def)

lemma run_consumers_skip:
  assumes "get_event_contract (fst s) (ev_event_type e) (ev_event_version e) = Inr ct"
    and "\<forall>ch\<in>set chs. is_ok (authorize_consumer (fst ch) (et_allowed_consumers ct)) \<and> ran_before (fst s) e (fst ch)"
  shows "\<exists>a. run_consumers now e chs active s = ((Inr (), a), s)"
  using assms(2)
proof (induction chs arbitrary: active)
  case (Cons ch chs)
  have "consume_event now e ch s = (Inr (), s)" using Cons.prems by (intro consume_skips [OF assms(1)]) auto
  moreover obtain a where "run_consumers now e chs (fst ch) s = ((Inr (), a), s)" using Cons by force
  ultimately show ?case by simp
qed simp

text \<open>A consumer is never run twice for an event, and not even once more when its first run
  did not finish: when every consumer of the event has a row that says started or processed, a
  dispatch runs no handler (the world outside the tables is unchanged), leaves the consumer rows
  as they are, and marks the event dispatched. A consumer whose process died between "started" and
  its effect therefore never handles the event, although the event ends dispatched.\<close>

theorem dispatch_skips_started_consumers:
  assumes "get_event_contract (fst s) (ev_event_type e) (ev_event_version e) = Inr ct"
    and "\<forall>ch\<in>set (get_handlers hs (ev_event_type e)).
      is_ok (authorize_consumer (fst ch) (et_allowed_consumers ct)) \<and> ran_before (fst s) e (fst ch)"
    and "savable (fst s) e" and "ev_id e \<in> ev_id ` set (outbox (fst s))"
    and "dispatch_event hs now name e s = (res, s')"
  shows "res = Inr 1 \<and> snd s' = snd s \<and> consumer_states (fst s') = consumer_states (fst s)
    \<and> map_option ev_status (row_of (ev_id e) (fst s')) = Some DISPATCHED"
proof -
  let ?n = "attempt_number_for (fst s) (ev_id e)"
  let ?s1 = "((fst s)\<lparr>attempts := attempts (fst s) @ [\<lparr>at_event = ev_id e, at_attempt_number = ?n,
      at_dispatcher_name = name, at_status = A_STARTED, at_error_message = [], at_finished_at = None\<rparr>]\<rparr>, snd s)"
  let ?f = "\<lambda>e. e\<lparr>ev_status := DISPATCHED, ev_dispatched_at := Some now\<rparr>"
  have c1: "get_event_contract (fst ?s1) (ev_event_type e) (ev_event_version e) = Inr ct"
    using assms(1) by (simp add: get_event_contract_def active_contract_def)
  have "\<forall>ch\<in>set (get_handlers hs (ev_event_type e)).
      is_ok (authorize_consumer (fst ch) (et_allowed_consumers ct)) \<and> ran_before (fst ?s1) e (fst ch)"
    using assms(2) by (simp add: ran_before_def consumer_row_def)
  from run_consumers_skip [OF c1 this] obtain a where
    rc: "run_consumers now e (get_handlers hs (ev_event_type e)) [] ?s1 = ((Inr (), a), ?s1)" by blast
  have s1: "savable (fst ?s1) e" using savable_cong [of "fst ?s1" "fst s"] assms(3) by simp
  let ?db = "set_attempt (ev_id e) ?n (\<lambda>a. a\<lparr>at_status := A_SUCCEEDED, at_finished_at := Some now\<rparr>)
        (set_event (ev_id e) ?f (fst ?s1))"
  have "mark_event_dispatched now e ?n (fst ?s1) = (Inr (), ?db)"
    using save_event_ok [OF _ s1, of ?f] by (simp add: mark_event_dispatched_def abind_def)
  then have d: "res = Inr 1" "s' = (?db, snd s)"
    using assms(5) rc by (auto simp: dispatch_event_def Let_def on_db_def)
  have "ev_id e \<in> ev_id ` set (outbox (fst ?s1))" using assms(4) by simp
  from row_of_set_event [OF this, of DISPATCHED ?f] d row_of_cong [of ?db "set_event (ev_id e) ?f (fst ?s1)"]
  show ?thesis by auto
qed

section \<open>Deactivated contracts\<close>

lemma inactive_save:
  assumes "dispatch_update f" "active_contract db (ev_event_type e) (ev_event_version e) = None"
  shows "\<exists>a m. save_event e f db = (Inl (ValidationError a m), db)"
proof -
  have "\<not> savable db (f e)" using assms(2) savable_update [OF assms(1), of db e] by (simp add: savable_iff)
  then obtain x where x: "outbox_full_clean db (f e) = Inl x"
    by (auto simp: savable_def is_ok_def split: sum.splits)
  have t: "ev_event_type (f e) = ev_event_type e" "ev_event_version (f e) = ev_event_version e"
    using static_eqD [OF dispatch_update_static [OF assms(1), of e]] by auto
  from x assms(2) have "\<exists>a m. x = ValidationError a m"
    by (auto simp: outbox_full_clean_def outbox_clean_def t field_error_def split: if_splits)
  with x show ?thesis by (auto simp: save_event_def)
qed

lemma inactive_handle:
  assumes "active_contract db (ev_event_type e) (ev_event_version e) = None"
    and "\<nexists>m. x = RetryableEventError m" and "handle_dispatch_error now e n active x db = (r, db')"
  shows "\<not> is_ok r \<and> outbox db' = outbox db \<and> dead_letters db' = dead_letters db"
proof -
  obtain r1 db1 where f: "record_failure_of e active x db = (r1, db1)" by (metis prod.exhaust)
  note fields = consumer_step_fields [OF consumer.obeysD [OF record_failure_step f]]
  have "active_contract db1 (ev_event_type e) (ev_event_version e) = None"
    using assms(1) fields by (simp add: active_contract_def)
  from inactive_save [OF dispatch_updates(1) this] obtain a m where
    "save_event e (\<lambda>e. e\<lparr>ev_status := DEAD_LETTERED\<rparr>) db1 = (Inl (ValidationError a m), db1)" by blast
  then have "move_event_to_dead_letter e ''permanent_failure'' (exn_text x) n db1 = (Inl (ValidationError a m), db1)"
    by (simp add: move_event_to_dead_letter_def abind_def)
  with assms(2,3) f fields show ?thesis
    by (cases x; cases r1) (auto simp: handle_dispatch_error_def abind_def)
qed

lemma inactive_consume:
  assumes "active_contract (fst s) (ev_event_type e) (ev_event_version e) = None"
    and "validate_event_namespace (ev_event_type e) = Inr (ev_event_type e)"
  shows "\<exists>x. consume_event now e ch s = (Inl x, s) \<and> (\<nexists>m. x = RetryableEventError m)"
proof -
  have "get_event_contract (fst s) (ev_event_type e) (ev_event_version e) = Inl DoesNotExist"
    using assms by (simp add: get_event_contract_def)
  then show ?thesis by (auto simp: consume_event_def abind_def alift_def)
qed

text \<open>C5: When the contract of a stored event is no longer active, dispatching the event raises
  out of the relay, whatever its consumers, and leaves every outbox row and dead letter as it was:
  the event stays locked, to be taken and to fail again after each lock timeout.\<close>

theorem dispatch_inactive_contract_raises:
  assumes "active_contract (fst s) (ev_event_type e) (ev_event_version e) = None"
    and "validate_event_namespace (ev_event_type e) = Inr (ev_event_type e)"
  shows "case dispatch_event hs now name e s of (res, s') \<Rightarrow>
    \<not> is_ok res \<and> outbox (fst s') = outbox (fst s) \<and> dead_letters (fst s') = dead_letters (fst s)"
proof -
  let ?n = "attempt_number_for (fst s) (ev_id e)"
  let ?s1 = "((fst s)\<lparr>attempts := attempts (fst s) @ [\<lparr>at_event = ev_id e, at_attempt_number = ?n,
      at_dispatcher_name = name, at_status = A_STARTED, at_error_message = [], at_finished_at = None\<rparr>]\<rparr>, snd s)"
  have i: "active_contract (fst ?s1) (ev_event_type e) (ev_event_version e) = None"
    using assms(1) by (simp add: active_contract_def)
  note h = inactive_handle [OF i, of _ now ?n]
  show ?thesis
  proof (cases "get_handlers hs (ev_event_type e)")
    case Nil
    from inactive_save [OF dispatch_updates(2) i] obtain a m where
      x: "save_event e (\<lambda>e. e\<lparr>ev_status := DISPATCHED, ev_dispatched_at := Some now\<rparr>) (fst ?s1)
        = (Inl (ValidationError a m), fst ?s1)" by blast
    obtain q db where q: "handle_dispatch_error now e ?n [] (ValidationError a m) (fst ?s1) = (q, db)"
      by (metis prod.exhaust)
    from h [OF _ q] show ?thesis
      using Nil x q by (auto simp: dispatch_event_def Let_def on_db_def mark_event_dispatched_def abind_def
          split: sum.splits)
  next
    case (Cons ch chs)
    from inactive_consume [of ?s1 e, OF i] assms(2) obtain x where
      x: "consume_event now e ch ?s1 = (Inl x, ?s1)" "\<nexists>m. x = RetryableEventError m" by blast
    obtain q db where q: "handle_dispatch_error now e ?n (fst ch) x (fst ?s1) = (q, db)"
      by (metis prod.exhaust)
    from h [OF x(2) q] show ?thesis
      using Cons x q by (auto simp: dispatch_event_def Let_def on_db_def abind_def split: sum.splits)
  qed
qed

section \<open>The invariant of reachable states\<close>

text \<open>C2: After any sequence of registrations, event writes and relay passes, with any handlers:
  event ids and idempotency keys are unique; no stored payload holds sensitive content and every
  stored event has a registered contract; the dead letters are exactly one per dead-lettered event
  and their texts are sanitised; each consumer has at most one row per event; the attempts of an
  event are numbered 1, 2, 3 and so on; and an event waiting for a retry has had fewer than three.\<close>

theorem backbone_invariant:
  assumes "backbone_reach hs s"
  shows "distinct (map ev_id (outbox (fst s))) \<and> distinct (map ev_idempotency_key (outbox (fst s)))
    \<and> (\<forall>e\<in>set (outbox (fst s)). payload_safe (ev_payload e)
        \<and> (ev_event_type e, ev_event_version e) \<in> (\<lambda>r. (et_event_type r, et_event_version r)) ` set (registry (fst s))
        \<and> (ev_status e = FAILED_RETRYABLE \<longrightarrow> attempt_number_for (fst s) (ev_id e) \<le> 3))
    \<and> distinct (map dl_event (dead_letters (fst s)))
    \<and> set (map dl_event (dead_letters (fst s))) =
        set (map ev_id (filter (\<lambda>e. ev_status e = DEAD_LETTERED) (outbox (fst s))))
    \<and> (\<forall>d\<in>set (dead_letters (fst s)). \<not> sensitive_text (dl_reason d) \<and> \<not> sensitive_text (dl_sanitized_error d))
    \<and> distinct (map (\<lambda>c. (cs_event_id c, cs_consumer_name c)) (consumer_states (fst s)))
    \<and> (\<forall>i. map at_attempt_number (filter (\<lambda>a. at_event a = i) (attempts (fst s)))
        = [1..attempt_number_for (fst s) i - 1])"
proof -
  have ok: "tables_ok (fst s)" by (rule backbone_reach_ok [OF assms])
  have n: "attempt_number_for (fst s) i = int (count_attempts i (attempts (fst s))) + 1" for i
    by (simp add: attempt_number_for_def count_attempts_def)
  have "map int [1..<Suc k] = [1..int k]" for k
    by (induction k) (simp_all add: upto_rec2)
  with ok have "map at_attempt_number (filter (\<lambda>a. at_event a = i) (attempts (fst s)))
      = [1..attempt_number_for (fst s) i - 1]" for i
    unfolding n tables_ok_def attempts_part_def by simp
  moreover have "\<forall>e\<in>set (outbox (fst s)). payload_safe (ev_payload e)
        \<and> (ev_event_type e, ev_event_version e) \<in> (\<lambda>r. (et_event_type r, et_event_version r)) ` set (registry (fst s))
        \<and> (ev_status e = FAILED_RETRYABLE \<longrightarrow> attempt_number_for (fst s) (ev_id e) \<le> 3)"
  proof
    fix e assume e: "e \<in> set (outbox (fst s))"
    with ok have "payload_safe (ev_payload e)" "\<exists>r\<in>set (registry (fst s)). et_event_type r = ev_event_type e \<and>
        et_event_version r = ev_event_version e"
      "ev_status e = FAILED_RETRYABLE \<longrightarrow> count_attempts (ev_id e) (attempts (fst s)) < 3"
      by (auto simp: tables_ok_def outbox_part_def retry_part_def)
    then show "payload_safe (ev_payload e)
        \<and> (ev_event_type e, ev_event_version e) \<in> (\<lambda>r. (et_event_type r, et_event_version r)) ` set (registry (fst s))
        \<and> (ev_status e = FAILED_RETRYABLE \<longrightarrow> attempt_number_for (fst s) (ev_id e) \<le> 3)"
      unfolding n by force
  qed
  ultimately show ?thesis
    using ok by (simp add: tables_ok_def outbox_part_def letters_part_def dead_ids_def consumers_part_def safe_text_def)
qed

section \<open>Runs on a sample event type\<close>

definition sample_row :: event_type_row where
  "sample_row = \<lparr>et_event_type = ''grading.batch.submitted'', et_event_version = 1,
     et_description = ''Grades submitted.'', et_source_module = ''grading'', et_allowed_producers = [''grading''],
     et_allowed_consumers = [''audit''], et_requires_tenant = True,
     et_payload_schema = \<lparr>ps_required = [''batch_id''], ps_types = JObj [(''batch_id'', JStr ''str'')]\<rparr>,
     et_priority = ''normal'', et_retention_days = 365, et_is_active = True\<rparr>"

definition sample_request :: outbox_request where
  "sample_request = \<lparr>rq_event_type = ''grading.batch.submitted'', rq_event_version = 1,
     rq_source_module = ''grading'', rq_idempotency_key = ''k1'', rq_payload = JObj [(''batch_id'', JStr ''b1'')],
     rq_tenant = Some ''t1'', rq_actor_id = None, rq_partition_key = None, rq_occurred_at = None,
     rq_priority = None\<rparr>"

definition sample_handlers :: "nat handlers" where
  "sample_handlers = [(''grading.batch.submitted'', [(''audit'', \<lambda>e w. (Some (RetryableEventError ''later''), Suc w))])]"

definition sample_stored :: event_db where
  "sample_stored = snd (write_outbox_event 0 ''e1'' sample_request (snd (register_event_type sample_row empty_event_db)))"

definition sample_event :: outbox_event where
  "sample_event = \<lparr>ev_id = ''e1'', ev_event_type = ''grading.batch.submitted'', ev_event_version = 1,
     ev_tenant = Some ''t1'', ev_actor_id = None, ev_idempotency_key = ''k1'', ev_source_module = ''grading'',
     ev_partition_key = ''tenant:t1'', ev_priority = ''normal'', ev_payload = JObj [(''batch_id'', JStr ''b1'')],
     ev_status = LOCKED, ev_available_at = 0, ev_occurred_at = 0, ev_locked_at = Some 5,
     ev_locked_by = ''relay'', ev_dispatched_at = None\<rparr>"

definition sample_locked :: event_db where
  "sample_locked = \<lparr>registry = [sample_row], outbox = [sample_event], attempts = [], consumer_states = [],
     dead_letters = []\<rparr>"

definition sample_crashed :: event_db where
  "sample_crashed = \<lparr>registry = [sample_row], outbox = [sample_event], attempts = [], consumer_states =
     [\<lparr>cs_event_id = ''e1'', cs_consumer_name = ''audit'', cs_tenant = Some ''t1'', cs_status = C_STARTED,
       cs_processed_at = None, cs_failure_reason = []\<rparr>], dead_letters = []\<rparr>"

definition sample_inactive :: event_db where
  "sample_inactive = \<lparr>registry = [sample_row\<lparr>et_is_active := False\<rparr>], outbox = [sample_event], attempts = [],
     consumer_states = [], dead_letters = []\<rparr>"

lemma sample_reach_stored: "backbone_reach sample_handlers (sample_stored, 0)"
proof -
  have "''e1'' \<notin> ev_id ` set (outbox (snd (register_event_type sample_row empty_event_db)))" by code_simp
  then show ?thesis
    unfolding sample_stored_def by (intro br_step [OF br_step [OF br_init bs_register] bs_write])
qed

lemma sample_lock_eq: "lock_pending_events 5 ''relay'' 10 sample_stored = (Inr [sample_event], sample_locked)"
  by code_simp

lemma sample_locked_ok: "tables_ok sample_locked" "held (ev_id sample_event) sample_locked"
  using lock_ok [OF _ sample_lock_eq] backbone_reach_ok [OF sample_reach_stored] by auto

lemma sample_savable: "savable sample_locked sample_event"
  unfolding savable_def by code_simp

theorem backbone_invariant_witness:
  "distinct (map ev_idempotency_key (outbox (fst (snd (dispatch_pending_events sample_handlers 5 ''relay'' 10
     (sample_stored, 0)))))) \<and> map ev_status (outbox (fst (snd (dispatch_pending_events sample_handlers 5 ''relay'' 10
     (sample_stored, 0))))) = [FAILED_RETRYABLE]"
proof
  show "distinct (map ev_idempotency_key (outbox (fst (snd (dispatch_pending_events sample_handlers 5 ''relay'' 10
     (sample_stored, 0))))))"
    using backbone_invariant [OF br_step [OF sample_reach_stored bs_dispatch, of 5 "''relay''" 10]] by blast
  show "map ev_status (outbox (fst (snd (dispatch_pending_events sample_handlers 5 ''relay'' 10
     (sample_stored, 0))))) = [FAILED_RETRYABLE]" by code_simp
qed

theorem dispatch_event_outcome_witness:
  "dispatch_outcome 5 1 (ev_id sample_event)
     (fst (dispatch_event sample_handlers 5 ''relay'' sample_event (sample_locked, 0)))
     (fst (snd (dispatch_event sample_handlers 5 ''relay'' sample_event (sample_locked, 0))))"
proof -
  have n: "attempt_number_for (fst (sample_locked, 0 :: nat)) (ev_id sample_event) = 1" by code_simp
  have c: "\<forall>ch\<in>set (get_handlers sample_handlers (ev_event_type sample_event)). char_field 128 (fst ch)"
    by code_simp
  show ?thesis
    using dispatch_event_outcome [of "(sample_locked, 0)", OF _ _ _ c surjective_pairing]
      sample_locked_ok sample_savable unfolding n by simp
qed

text \<open>Two relays that overlap on one event, and a third that finds the other.\<close>

definition sample_two :: event_db where
  "sample_two = sample_locked\<lparr>outbox := map (\<lambda>(i, k, t). sample_event\<lparr>ev_id := i, ev_idempotency_key := k,
     ev_status := PENDING, ev_available_at := t, ev_occurred_at := t, ev_locked_at := None, ev_locked_by := []\<rparr>)
     [(''e1'', ''k1'', 0), (''e2'', ''k2'', 1)]\<rparr>"

definition sample_first_lock :: event_db where
  "sample_first_lock = snd (mark_locked 5 ''one'' [''e1''] sample_two)"

definition sample_second_lock :: event_db where
  "sample_second_lock = snd (mark_locked 6 ''two'' [''e1''] sample_first_lock)"

theorem locks_exclude_later_relays_witness:
  "ev_id ` set (locked_batch [''e1''] sample_first_lock) = {''e1''} \<and>
   ev_id ` set (locked_batch [''e1''] sample_second_lock) = {''e1''} \<and>
   lock_candidates 7 10 sample_second_lock = Inr [''e2''] \<and> set [''e2''] \<inter> ({''e1''} :: string set) = {}"
proof -
  have d: "distinct (map ev_id (outbox sample_two))" by code_simp
  have c: "lock_candidates 5 1 sample_two = Inr [''e1'']" "lock_candidates 6 1 sample_two = Inr [''e1'']"
    by code_simp+
  have m: "mark_locked 5 ''one'' [''e1''] sample_two = (Inr (), sample_first_lock)"
    "mark_locked 6 ''two'' [''e1''] sample_first_lock = (Inr (), sample_second_lock)"
    by (simp_all add: sample_first_lock_def sample_second_lock_def mark_locked_def)
  have t: "lock_candidates 7 10 sample_second_lock = Inr [''e2'']" by code_simp
  show ?thesis
    using locks_exclude_later_relays [OF d c m t] t
    by (simp add: seconds_def LOCK_TIMEOUT_SECONDS_def)
qed

theorem dispatch_skips_started_consumers_witness:
  "fst (dispatch_event sample_handlers 9 ''relay'' sample_event (sample_crashed, 0)) = Inr 1
   \<and> snd (snd (dispatch_event sample_handlers 9 ''relay'' sample_event (sample_crashed, 0))) = 0"
proof -
  have 1: "get_event_contract (fst (sample_crashed, 0 :: nat)) (ev_event_type sample_event) (ev_event_version sample_event)
      = Inr sample_row" by code_simp
  have 2: "\<forall>ch\<in>set (get_handlers sample_handlers (ev_event_type sample_event)).
      is_ok (authorize_consumer (fst ch) (et_allowed_consumers sample_row)) \<and> ran_before (fst (sample_crashed, 0 :: nat)) sample_event (fst ch)"
  proof -
    have "get_handlers sample_handlers (ev_event_type sample_event) = [(''audit'', \<lambda>e w. (Some (RetryableEventError ''later''), Suc w))]"
      by (simp add: get_handlers_def sample_handlers_def sample_event_def)
    moreover have "is_ok (authorize_consumer ''audit'' (et_allowed_consumers sample_row))" by code_simp
    moreover have "map_option cs_status (consumer_row sample_crashed (ev_id sample_event) ''audit'') = Some C_STARTED"
      by code_simp
    ultimately show ?thesis by (auto simp: ran_before_def)
  qed
  have 3: "savable (fst (sample_crashed, 0 :: nat)) sample_event" unfolding savable_def by code_simp
  have 4: "ev_id sample_event \<in> ev_id ` set (outbox (fst (sample_crashed, 0 :: nat)))" by code_simp
  show ?thesis
    using dispatch_skips_started_consumers [OF 1 2 3 4 surjective_pairing, of 9 "''relay''"] by simp
qed

theorem dispatch_inactive_contract_raises_witness:
  "\<not> is_ok (fst (dispatch_event sample_handlers 5 ''relay'' sample_event
     (sample_inactive, 0)))"
proof -
  have 1: "active_contract (fst (sample_inactive, 0 :: nat))
      (ev_event_type sample_event) (ev_event_version sample_event) = None"
    by code_simp
  have 2: "validate_event_namespace (ev_event_type sample_event) = Inr (ev_event_type sample_event)" by code_simp
  show ?thesis
    using dispatch_inactive_contract_raises [OF 1 2, of sample_handlers 5 "''relay''"]
    by (auto split: prod.splits)
qed

end
