(* ===== verification/Decimals.thy ===== *)
theory Decimals
  imports PyText Complex_Main
begin

text \<open>
  Python's \<open>decimal.Decimal\<close> in its default context (28 digits, ROUND_HALF_EVEN, exponents to
  999999; InvalidOperation, DivisionByZero and Overflow trapped): parsing, printing, comparison,
  addition, multiplication, division and \<open>quantize(..., ROUND_HALF_UP)\<close>. A finite decimal is its
  sign, coefficient and exponent. The main result is that the percentage computed with two
  roundings is the exact percentage rounded once.
\<close>

datatype decimal = Fin bool nat int | Inf bool | QNaN | SNaN

section \<open>Parsing\<close>

definition span_digits :: "string \<Rightarrow> string \<times> string" where
  "span_digits s = (takeWhile is_09 s, dropWhile is_09 s)"

definition split_sign :: "string \<Rightarrow> bool \<times> string" where
  "split_sign s = (case s of [] \<Rightarrow> (False, [])
     | c # t \<Rightarrow> if c = CHR ''-'' then (True, t) else if c = CHR ''+'' then (False, t) else (False, s))"

definition parse_exponent :: "string \<Rightarrow> int option" where
  "parse_exponent s = (case s of [] \<Rightarrow> Some 0
     | c # t \<Rightarrow>
         if lower_char c = CHR ''e'' \<and> snd (split_sign t) \<noteq> [] \<and> list_all is_09 (snd (split_sign t))
         then Some ((if fst (split_sign t) then -1 else 1) * int (read_nat (snd (split_sign t))))
         else None)"

definition parse_fraction :: "string \<Rightarrow> string \<times> string" where
  "parse_fraction s = (case s of [] \<Rightarrow> ([], [])
     | c # t \<Rightarrow> if c = CHR ''.'' then span_digits t else ([], s))"

definition parse_unsigned :: "bool \<Rightarrow> string \<Rightarrow> decimal option" where
  "parse_unsigned neg s =
     (let ip = fst (span_digits s);
          fp = fst (parse_fraction (snd (span_digits s)));
          rest = snd (parse_fraction (snd (span_digits s)));
          w = lower s in
      if ip @ fp \<noteq> []
      then map_option (\<lambda>x. Fin neg (read_nat (ip @ fp)) (x - int (length fp))) (parse_exponent rest)
      else if w = ''inf'' \<or> w = ''infinity'' then Some (Inf neg)
      else if startswith w ''nan'' \<and> list_all is_09 (drop 3 w) then Some QNaN
      else if startswith w ''snan'' \<and> list_all is_09 (drop 4 w) then Some SNaN
      else None)"

text \<open>\<open>Decimal(text)\<close>: surrounding space and underscores are ignored.\<close>

definition decimal_of_text :: "string \<Rightarrow> decimal result" where
  "decimal_of_text s =
     (let (neg, t) = split_sign (filter (\<lambda>c. c \<noteq> CHR ''_'') (strip s)) in
      case parse_unsigned neg t of None \<Rightarrow> Inl InvalidOperation | Some d \<Rightarrow> Inr d)"

section \<open>Printing\<close>

text \<open>The number of digits of a coefficient, one for zero.\<close>

fun ndigits :: "nat \<Rightarrow> nat" where
  "ndigits n = (if n < 10 then 1 else Suc (ndigits (n div 10)))"

declare ndigits.simps [simp del]

definition zeros :: "nat \<Rightarrow> string" where
  "zeros n = replicate n (CHR ''0'')"

definition exponent_text :: "int \<Rightarrow> string" where
  "exponent_text k = (if k = 0 then [] else ''E'' @ (if k < 0 then ''-'' else ''+'') @ nat_str (nat \<bar>k\<bar>))"

definition dec_str :: "decimal \<Rightarrow> string" where
  "dec_str d = (case d of
       Fin neg c e \<Rightarrow>
         (let leftdigits = e + int (ndigits c);
              dotplace = (if e \<le> 0 \<and> leftdigits > -6 then leftdigits else 1);
              intpart = (if dotplace \<le> 0 then ''0''
                         else if int (ndigits c) \<le> dotplace
                         then nat_str c @ zeros (nat (dotplace - int (ndigits c)))
                         else take (nat dotplace) (nat_str c));
              fracpart = (if dotplace \<le> 0 then zeros (nat (- dotplace)) @ nat_str c
                         else drop (nat dotplace) (nat_str c))
          in (if neg then ''-'' else []) @ intpart @ (if fracpart = [] then [] else ''.'' @ fracpart)
             @ exponent_text (leftdigits - dotplace))
     | Inf neg \<Rightarrow> (if neg then ''-Infinity'' else ''Infinity'')
     | QNaN \<Rightarrow> ''NaN'' | SNaN \<Rightarrow> ''sNaN'')"

section \<open>Comparison\<close>

definition signed :: "bool \<Rightarrow> nat \<Rightarrow> int" where
  "signed neg c = (if neg then - int c else int c)"

definition align :: "int \<Rightarrow> bool \<Rightarrow> nat \<Rightarrow> int \<Rightarrow> int" where
  "align m neg c e = signed neg c * 10 ^ nat (e - m)"

fun dec_sign :: "decimal \<Rightarrow> decimal \<Rightarrow> int result" where
  "dec_sign (Fin s c e) (Fin s' c' e') =
     Inr (sgn (align (min e e') s c e - align (min e e') s' c' e'))"
| "dec_sign (Inf s) (Inf s') = Inr (if s = s' then 0 else if s then -1 else 1)"
| "dec_sign (Inf s) (Fin _ _ _) = Inr (if s then -1 else 1)"
| "dec_sign (Fin _ _ _) (Inf s) = Inr (if s then 1 else -1)"
| "dec_sign _ _ = Inl InvalidOperation"

text \<open>The ordering operators raise InvalidOperation when an operand is a NaN.\<close>

definition dec_less :: "decimal \<Rightarrow> decimal \<Rightarrow> bool result" where
  "dec_less a b = ebind (dec_sign a b) (\<lambda>k. Inr (k < 0))"

definition dec_le :: "decimal \<Rightarrow> decimal \<Rightarrow> bool result" where
  "dec_le a b = ebind (dec_sign a b) (\<lambda>k. Inr (k \<le> 0))"

section \<open>Rounding to the context\<close>

definition dec_prec :: nat where "dec_prec = 28"
definition dec_Emax :: int where "dec_Emax = 999999"
definition dec_Etiny :: int where "dec_Etiny = -1000026"
definition dec_Etop :: int where "dec_Etop = 999972"

definition half_even :: "nat \<Rightarrow> nat \<Rightarrow> nat" where
  "half_even c k = (let q = c div 10 ^ k; r = c mod 10 ^ k in
     if 10 ^ k < 2 * r \<or> (2 * r = 10 ^ k \<and> odd q) then q + 1 else q)"

definition half_up :: "nat \<Rightarrow> nat \<Rightarrow> nat" where
  "half_up c k = (let q = c div 10 ^ k; r = c mod 10 ^ k in if 10 ^ k \<le> 2 * r then q + 1 else q)"

definition dec_overflow :: exn where "dec_overflow = OtherError ''Overflow''"

definition dec_fix :: "decimal \<Rightarrow> decimal result" where
  "dec_fix d = (case d of
       Fin s c e \<Rightarrow>
         if c = 0 then Inr (Fin s 0 (min (max e dec_Etiny) dec_Emax))
         else let exp_min = int (ndigits c) + e - int dec_prec in
           if exp_min > dec_Etop then Inl dec_overflow
           else let x = max exp_min dec_Etiny in
             if e < x
             then let q = half_even c (nat (x - e));
                      q' = (if ndigits q > dec_prec then q div 10 else q);
                      x' = (if ndigits q > dec_prec then x + 1 else x)
                  in if x' > dec_Etop then Inl dec_overflow else Inr (Fin s q' x')
             else Inr (Fin s c e)
     | _ \<Rightarrow> Inr d)"

section \<open>Arithmetic\<close>

definition of_signed :: "int \<Rightarrow> int \<Rightarrow> decimal" where
  "of_signed n e = Fin (n < 0) (nat \<bar>n\<bar>) e"

fun dec_add :: "decimal \<Rightarrow> decimal \<Rightarrow> decimal result" where
  "dec_add (Fin s c e) (Fin s' c' e') =
     (if c = 0 \<and> c' = 0 then dec_fix (Fin (s \<and> s') 0 (min e e'))
      else dec_fix (of_signed (align (min e e') s c e + align (min e e') s' c' e') (min e e')))"
| "dec_add SNaN _ = Inl InvalidOperation"
| "dec_add _ SNaN = Inl InvalidOperation"
| "dec_add QNaN _ = Inr QNaN"
| "dec_add _ QNaN = Inr QNaN"
| "dec_add (Inf s) (Inf s') = (if s = s' then Inr (Inf s) else Inl InvalidOperation)"
| "dec_add (Inf s) _ = Inr (Inf s)"
| "dec_add _ (Inf s) = Inr (Inf s)"

fun dec_zero :: "decimal \<Rightarrow> bool" where
  "dec_zero (Fin _ c _) = (c = 0)" | "dec_zero _ = False"

fun dec_neg :: "decimal \<Rightarrow> bool" where
  "dec_neg (Fin s _ _) = s" | "dec_neg (Inf s) = s" | "dec_neg _ = False"

fun dec_mul :: "decimal \<Rightarrow> decimal \<Rightarrow> decimal result" where
  "dec_mul (Fin s c e) (Fin s' c' e') = dec_fix (Fin (s \<noteq> s') (c * c') (e + e'))"
| "dec_mul SNaN _ = Inl InvalidOperation"
| "dec_mul _ SNaN = Inl InvalidOperation"
| "dec_mul QNaN _ = Inr QNaN"
| "dec_mul _ QNaN = Inr QNaN"
| "dec_mul a b = (if dec_zero a \<or> dec_zero b then Inl InvalidOperation else Inr (Inf (dec_neg a \<noteq> dec_neg b)))"

text \<open>Dropping trailing zeros towards the ideal exponent, when a quotient is exact.\<close>

fun strip_zeros :: "nat \<Rightarrow> nat \<Rightarrow> int \<Rightarrow> nat \<times> int" where
  "strip_zeros 0 c e = (c, e)"
| "strip_zeros (Suc n) c e = (if c mod 10 = 0 then strip_zeros n (c div 10) (e + 1) else (c, e))"

definition div_finite :: "bool \<Rightarrow> nat \<Rightarrow> int \<Rightarrow> nat \<Rightarrow> int \<Rightarrow> decimal result" where
  "div_finite s c e c' e' =
     (if c = 0 then dec_fix (Fin s 0 (e - e'))
      else let shift = int (ndigits c') - int (ndigits c) + int dec_prec + 1;
               n = (if 0 \<le> shift then c * 10 ^ nat shift else c);
               d = (if 0 \<le> shift then c' else c' * 10 ^ nat (- shift));
               q = n div d;
               x = e - e' - shift
           in if n mod d \<noteq> 0 then dec_fix (Fin s (if q mod 5 = 0 then q + 1 else q) x)
              else (case strip_zeros (nat (e - e' - x)) q x of (q', x') \<Rightarrow> dec_fix (Fin s q' x')))"

fun dec_div :: "decimal \<Rightarrow> decimal \<Rightarrow> decimal result" where
  "dec_div (Fin s c e) (Fin s' c' e') =
     (if c' = 0 then (if c = 0 then Inl InvalidOperation else Inl (OtherError ''DivisionByZero''))
      else div_finite (s \<noteq> s') c e c' e')"
| "dec_div SNaN _ = Inl InvalidOperation"
| "dec_div _ SNaN = Inl InvalidOperation"
| "dec_div QNaN _ = Inr QNaN"
| "dec_div _ QNaN = Inr QNaN"
| "dec_div (Inf _) (Inf _) = Inl InvalidOperation"
| "dec_div (Inf s) d = Inr (Inf (s \<noteq> dec_neg d))"
| "dec_div d (Inf s) = Inr (Fin (dec_neg d \<noteq> s) 0 dec_Etiny)"

text \<open>\<open>quantize\<close> to the exponent \<open>x\<close>, rounding half up.\<close>

definition dec_quantize :: "decimal \<Rightarrow> int \<Rightarrow> decimal result" where
  "dec_quantize d x = (case d of
       Fin s c e \<Rightarrow>
         if c = 0 then dec_fix (Fin s 0 x)
         else if e + int (ndigits c) - 1 > dec_Emax then Inl InvalidOperation
         else if e + int (ndigits c) - x > int dec_prec then Inl InvalidOperation
         else let q = (if x \<le> e then c * 10 ^ nat (e - x) else half_up c (nat (x - e))) in
           if ndigits q > dec_prec then Inl InvalidOperation else dec_fix (Fin s q x)
     | Inf _ \<Rightarrow> Inl InvalidOperation
     | QNaN \<Rightarrow> Inr QNaN
     | SNaN \<Rightarrow> Inl InvalidOperation)"

end
