(* ===== verification/DecimalFacts.thy ===== *)
theory DecimalFacts
  imports Decimals
begin

text \<open>
  Facts about decimal arithmetic: printing and parsing are inverse, comparison is comparison of
  values, the context rounds to within half a unit of the last kept digit, and the percentage of
  a score is the exact quotient rounded half up once, although the code rounds three times.
\<close>

section \<open>Digits\<close>

lemma ndigits_str: "length (nat_str n) = ndigits n"
proof (induction n rule: ndigits.induct)
  case (1 n)
  then show ?case by (subst nat_str.simps, subst ndigits.simps) auto
qed

lemma ndigits_pos [simp]: "0 < ndigits n"
  by (subst ndigits.simps) simp

lemma ndigits_le_iff: "0 < k \<Longrightarrow> ndigits n \<le> k \<longleftrightarrow> n < 10 ^ k"
proof (induction n arbitrary: k rule: ndigits.induct)
  case (1 n)
  show ?case
  proof (cases "n < 10")
    case True
    then have "n < 10 ^ k" using 1(2) by (metis less_le_trans power_increasing power_one_right Suc_leI One_nat_def
          le_numeral_extra(4) one_le_numeral)
    then show ?thesis using True 1(2) by (subst ndigits.simps) simp
  next
    case False
    show ?thesis
    proof (cases "k = 1")
      case True
      have "0 < ndigits (n div 10)" by simp
      then show ?thesis using False True by (subst ndigits.simps) simp
    next
      case k: False
      then obtain j where j: "k = Suc j" "0 < j" using 1(2) by (cases k) auto
      have "n div 10 < 10 ^ j \<longleftrightarrow> n < 10 ^ k"
        unfolding j(1) by (simp add: div_less_iff_less_mult mult.commute)
      then show ?thesis using False 1(1) [OF False j(2)] j(1) by (subst ndigits.simps) simp
    qed
  qed
qed

lemma ndigits_upper: "n < 10 ^ ndigits n"
  using ndigits_le_iff [of "ndigits n" n] by simp

lemma ndigits_lower: "0 < n \<Longrightarrow> 10 ^ (ndigits n - 1) \<le> n"
proof (cases "ndigits n = 1")
  case False
  assume "0 < n"
  have "0 < ndigits n - 1" using False ndigits_pos [of n] by linarith
  then have "\<not> ndigits n \<le> ndigits n - 1" by linarith
  with ndigits_le_iff [OF \<open>0 < ndigits n - 1\<close>, of n] show ?thesis by simp
qed simp

lemma ndigits_mono: "m \<le> n \<Longrightarrow> ndigits m \<le> ndigits n"
  using ndigits_le_iff [of "ndigits n" m] ndigits_upper [of n] by simp

lemma ndigits_mult_power:
  assumes "0 < n" shows "ndigits (n * 10 ^ k) = ndigits n + k"
proof (rule antisym)
  show "ndigits (n * 10 ^ k) \<le> ndigits n + k"
    using ndigits_le_iff [of "ndigits n + k" "n * 10 ^ k"] ndigits_upper [of n] by (simp add: power_add)
  have "10 ^ (ndigits n + k - 1) \<le> n * 10 ^ k"
    using mult_le_mono1 [OF ndigits_lower [OF assms], of "10 ^ k"] ndigits_pos [of n]
    by (simp add: power_add [symmetric])
  then have "\<not> n * 10 ^ k < 10 ^ (ndigits n + k - 1)" by simp
  show "ndigits n + k \<le> ndigits (n * 10 ^ k)"
  proof (cases "ndigits n + k - 1 = 0")
    case True
    then show ?thesis using ndigits_pos [of n] ndigits_pos [of "n * 10 ^ k"] by linarith
  next
    case False
    with \<open>\<not> n * 10 ^ k < 10 ^ (ndigits n + k - 1)\<close> ndigits_le_iff [of "ndigits n + k - 1" "n * 10 ^ k"]
    show ?thesis by linarith
  qed
qed

section \<open>Values\<close>

definition dval :: "nat \<Rightarrow> int \<Rightarrow> rat" where
  "dval c e = of_nat c * 10 powi e"

lemma dval_shift: "dval (c * 10 ^ k) e = dval c (e + int k)"
  by (simp add: dval_def power_int_add)

lemma dval_zero [simp]: "dval 0 e = 0"
  by (simp add: dval_def)

lemma dval_nonneg [simp]: "0 \<le> dval c e"
  by (simp add: dval_def)

lemma dval_not_neg [simp]: "\<not> dval c e < 0"
  by (simp add: not_less)

lemma div_mod_of_nat:
  fixes m :: nat shows "of_nat c = (of_nat (c div m) * of_nat m + of_nat (c mod m) :: rat)"
  by (metis div_mult_mod_eq of_nat_add of_nat_mult)

lemma half_even_error: "\<bar>of_nat (half_even c k) * 10 ^ k - of_nat c\<bar> \<le> (10 ^ k / 2 :: rat)"
proof -
  let ?m = "10 ^ k :: nat"
  have r: "c mod ?m < ?m" by simp
  have c: "of_nat c = (of_nat (c div ?m) * 10 ^ k + of_nat (c mod ?m) :: rat)"
    using div_mod_of_nat [of c ?m] by simp
  show ?thesis
  proof (cases "?m < 2 * (c mod ?m) \<or> (2 * (c mod ?m) = ?m \<and> odd (c div ?m))")
    case True
    then have "?m \<le> 2 * (c mod ?m)" by auto
    then have "(10 ^ k :: rat) \<le> 2 * of_nat (c mod ?m)"
      by (metis of_nat_le_iff of_nat_mult of_nat_numeral of_nat_power)
    moreover have "of_nat (c mod ?m) < (10 ^ k :: rat)" using r by (metis of_nat_less_iff of_nat_numeral of_nat_power)
    ultimately show ?thesis using True unfolding half_even_def Let_def c by (auto simp: algebra_simps abs_le_iff)
  next
    case False
    then have "2 * (c mod ?m) \<le> ?m" by auto
    then have "2 * of_nat (c mod ?m) \<le> (10 ^ k :: rat)"
      by (metis of_nat_le_iff of_nat_mult of_nat_numeral of_nat_power)
    then show ?thesis using False unfolding half_even_def Let_def c by (auto simp: abs_le_iff)
  qed
qed

lemma half_even_dvd: "10 ^ k dvd c \<Longrightarrow> half_even c k = c div 10 ^ k"
  by (simp add: half_even_def Let_def dvd_eq_mod_eq_0)

lemma half_up_floor: "of_nat (half_up c k) = (\<lfloor>of_nat c / 10 ^ k + 1 / 2 :: rat\<rfloor>)"
proof -
  let ?m = "10 ^ k :: nat"
  have r: "of_nat (c mod ?m) < (10 ^ k :: rat)"
    by (metis mod_less_divisor of_nat_less_iff of_nat_numeral of_nat_power pos2 zero_less_power zero_less_numeral)
  have c: "of_nat c / 10 ^ k + 1 / 2 = (of_nat (c div ?m) + (of_nat (c mod ?m) / 10 ^ k + 1 / 2) :: rat)"
    using div_mod_of_nat [of c ?m] by (simp add: field_simps)
  show ?thesis
  proof (cases "?m \<le> 2 * (c mod ?m)")
    case True
    then have "(10 ^ k :: rat) \<le> 2 * of_nat (c mod ?m)"
      by (metis of_nat_le_iff of_nat_mult of_nat_numeral of_nat_power)
    then have "\<lfloor>of_nat (c mod ?m) / 10 ^ k + 1 / 2 :: rat\<rfloor> = 1"
    proof (intro floor_unique)
      assume g: "(10 ^ k :: rat) \<le> 2 * of_nat (c mod ?m)"
      show "of_int 1 \<le> (of_nat (c mod ?m) / 10 ^ k + 1 / 2 :: rat)" using g by (simp add: field_simps)
      have "of_nat (c mod ?m) / 10 ^ k < (1 :: rat)" using r by simp
      then have "of_nat (c mod ?m) / 10 ^ k + 1 / 2 < (1 + 1 :: rat)" by linarith
      then show "(of_nat (c mod ?m) / 10 ^ k + 1 / 2 :: rat) < of_int 1 + 1" by simp
    qed
    then show ?thesis using True unfolding half_up_def Let_def c by simp
  next
    case False
    then have "2 * (c mod ?m) < ?m" by simp
    then have "2 * of_nat (c mod ?m) < (10 ^ k :: rat)"
      by (metis of_nat_less_iff of_nat_mult of_nat_numeral of_nat_power)
    then have "\<lfloor>of_nat (c mod ?m) / 10 ^ k + 1 / 2 :: rat\<rfloor> = 0"
      by (intro floor_unique) (auto simp: field_simps)
    then show ?thesis using False unfolding half_up_def Let_def c by simp
  qed
qed

section \<open>Rounding to the context\<close>

text \<open>Exponents far from the limits of the context, as in any score.\<close>

definition moderate :: "int \<Rightarrow> bool" where
  "moderate e \<longleftrightarrow> -1000 \<le> e \<and> e \<le> 1000"

lemma dval_add: "dval c (e + int k) = of_nat c * 10 ^ k * 10 powi e"
  by (simp add: dval_def power_int_add)

lemma dec_fix_rounds:
  assumes c: "0 < c" and e: "moderate e" and k: "k = ndigits c - 28" and small: "k \<le> 100"
  shows "\<exists>c' e'. dec_fix (Fin s c e) = Inr (Fin s c' e') \<and> 0 < c' \<and> ndigits c' \<le> 28
    \<and> dval c' e' = dval (if k = 0 then c else half_even c k) (e + int k)
    \<and> e \<le> e' \<and> e' \<le> e + 101"
proof (cases "k = 0")
  case True
  then have "ndigits c \<le> 28" using k by simp
  then show ?thesis
    using c e True by (intro exI [of _ c] exI [of _ e])
      (auto simp: dec_fix_def Let_def dec_prec_def dec_Etop_def dec_Etiny_def moderate_def)
next
  case False
  then have n: "ndigits c = k + 28" using k by simp
  let ?q = "half_even c k"
  have min: "int (ndigits c) + e - int dec_prec = e + int k" "max (e + int k) dec_Etiny = e + int k"
    using e n by (simp_all add: dec_prec_def dec_Etiny_def moderate_def)
  have lim: "\<not> dec_Etop < e + int k + 1" "\<not> dec_Etop < e + int k"
    using e small by (simp_all add: dec_Etop_def moderate_def)
  have q0: "0 < ?q"
  proof -
    have "(10::nat) ^ k \<le> 10 ^ (ndigits c - 1)" by (rule power_increasing) (simp_all add: n)
    then have "10 ^ k \<le> c" using ndigits_lower [OF c] by linarith
    then have "0 < c div 10 ^ k" by (simp add: div_greater_zero_iff)
    then show ?thesis by (simp add: half_even_def Let_def)
  qed
  have qle: "?q \<le> 10 ^ 28"
  proof -
    have "c < 10 ^ 28 * 10 ^ k" using ndigits_upper [of c] n by (simp add: power_add mult.commute)
    then have "c div 10 ^ k < 10 ^ 28" by (simp add: div_less_iff_less_mult)
    then show ?thesis by (simp add: half_even_def Let_def)
  qed
  show ?thesis
  proof (cases "ndigits ?q \<le> 28")
    case True
    then have p: "\<not> dec_prec < ndigits ?q" by (simp add: dec_prec_def)
    have "dec_fix (Fin s c e) = Inr (Fin s ?q (e + int k))"
      using c p False lim unfolding dec_fix_def Let_def by (simp add: min)
    then show ?thesis
      using True False q0 small by (intro exI [of _ ?q] exI [of _ "e + int k"]) simp
  next
    case big: False
    then have "\<not> ?q < 10 ^ 28" using ndigits_le_iff [of 28 ?q] by simp
    then have q: "?q = 10 ^ 28" using qle by simp
    have d: "ndigits (10 ^ 27) \<le> 28" using ndigits_le_iff [of 28 "10 ^ 27"] by simp
    have v: "dval (10 ^ 27) (e + int k + 1) = dval (10 ^ 28) (e + int k)"
      using dval_shift [of "10 ^ 27" 1 "e + int k"] by simp
    have p: "dec_prec < ndigits ?q" using big by (simp add: dec_prec_def)
    have "dec_fix (Fin s c e) = Inr (Fin s (?q div 10) (e + int k + 1))"
      using c p False lim unfolding dec_fix_def Let_def by (simp add: min)
    then show ?thesis
      using d v False small by (intro exI [of _ "10 ^ 27"] exI [of _ "e + int k + 1"]) (simp add: q)
  qed
qed

text \<open>Within half a unit of the last kept digit, and exact when the dropped digits are zeros.\<close>

lemma dec_fix_error:
  assumes "0 < c" "moderate e" "ndigits c \<le> 128"
  shows "\<exists>c' e'. dec_fix (Fin s c e) = Inr (Fin s c' e') \<and> 0 < c' \<and> ndigits c' \<le> 28 \<and> e \<le> e' \<and> e' \<le> e + 101
    \<and> \<bar>dval c' e' - dval c e\<bar> \<le> (if ndigits c \<le> 28 then 0 else 10 ^ (ndigits c - 28) / 2 * 10 powi e)
    \<and> (10 ^ (ndigits c - 28) dvd c \<longrightarrow> dval c' e' = dval c e)"
proof -
  let ?k = "ndigits c - 28"
  have k: "?k \<le> 100" using assms(3) by simp
  obtain c' e' where f: "dec_fix (Fin s c e) = Inr (Fin s c' e')" "0 < c'" "ndigits c' \<le> 28" "e \<le> e'" "e' \<le> e + 101"
    and v: "dval c' e' = dval (if ?k = 0 then c else half_even c ?k) (e + int ?k)"
    using dec_fix_rounds [OF assms(1,2) refl k, of s] by blast
  have "\<bar>dval c' e' - dval c e\<bar> \<le> (if ndigits c \<le> 28 then 0 else 10 ^ ?k / 2 * 10 powi e)"
  proof (cases "?k = 0")
    case True
    then show ?thesis using v by simp
  next
    case False
    have "dval c' e' - dval c e = (of_nat (half_even c ?k) * 10 ^ ?k - of_nat c) * 10 powi e"
      using False unfolding v if_not_P [OF False] dval_add by (simp add: dval_def left_diff_distrib)
    then have "\<bar>dval c' e' - dval c e\<bar> = \<bar>of_nat (half_even c ?k) * 10 ^ ?k - of_nat c\<bar> * 10 powi e"
      by (simp add: abs_mult)
    also have "\<dots> \<le> 10 ^ ?k / 2 * 10 powi e"
      by (rule mult_right_mono [OF half_even_error]) simp
    finally show ?thesis using False by simp
  qed
  moreover have "dval c' e' = dval c e" if "10 ^ ?k dvd c"
  proof (cases "?k = 0")
    case True
    then show ?thesis using v by simp
  next
    case False
    then have "dval c' e' = dval (c div 10 ^ ?k) (e + int ?k)" using v half_even_dvd [OF that] by simp
    also have "\<dots> = dval c e" using dval_shift [of "c div 10 ^ ?k" ?k e] that by simp
    finally show ?thesis .
  qed
  ultimately show ?thesis using f by blast
qed

section \<open>Quotients\<close>

lemma strip_zeros_value:
  "strip_zeros n q x = (q', x') \<Longrightarrow> dval q' x' = dval q x \<and> x \<le> x' \<and> x' \<le> x + int n \<and> q' \<le> q
     \<and> (q' = 0 \<longleftrightarrow> q = 0) \<and> (x' = x + int n \<or> q' mod 10 \<noteq> 0)"
proof (induction n arbitrary: q x)
  case (Suc n)
  show ?case
  proof (cases "q mod 10 = 0")
    case True
    then have s: "strip_zeros n (q div 10) (x + 1) = (q', x')" using Suc.prems by simp
    have "dval (q div 10) (x + 1) = dval q x"
      using True dval_shift [of "q div 10" 1 x] by (simp add: mult.commute dvd_eq_mod_eq_0 [symmetric])
    then show ?thesis using Suc.IH [OF s] True by auto
  next
    case False
    then show ?thesis using Suc.prems by auto
  qed
qed simp

text \<open>
  The raw quotient of two coefficients: it is within one unit of its last digit of the exact
  quotient, it has 29 or 30 digits unless it is exact, and it is exact whenever the quotient has a
  short expansion.
\<close>

definition raw_quotient :: "nat \<Rightarrow> nat \<Rightarrow> nat \<times> int" where
  "raw_quotient a b =
     (let shift = ndigits b - ndigits a + 29;
          q = a * 10 ^ shift div b in
      if a * 10 ^ shift mod b \<noteq> 0 then ((if q mod 5 = 0 then q + 1 else q), - int shift)
      else strip_zeros shift q (- int shift))"

lemma div_finite_raw:
  assumes "0 < a" "ndigits a \<le> ndigits b"
  shows "div_finite s a e b e = (case raw_quotient a b of (q, x) \<Rightarrow> dec_fix (Fin s q x))"
proof -
  define n where "n = ndigits b - ndigits a + 29"
  have i: "int (ndigits b) - int (ndigits a) + int dec_prec + 1 = int n"
    using assms(2) by (simp add: dec_prec_def n_def)
  show ?thesis
    unfolding div_finite_def raw_quotient_def Let_def i n_def [symmetric] using assms(1)
    by (simp split: prod.split)
qed

lemma dval_neg: "dval c (- int n) = of_nat c / 10 ^ n"
  by (simp add: dval_def power_int_minus divide_inverse)

lemma ndigits_dval: "0 < c \<Longrightarrow> 10 ^ (ndigits c - 1) * 10 powi e \<le> dval c e"
proof -
  assume "0 < c"
  then have "(10 :: rat) ^ (ndigits c - 1) \<le> of_nat c"
    using ndigits_lower by (metis of_nat_le_iff of_nat_numeral of_nat_power)
  then show ?thesis unfolding dval_def by (rule mult_right_mono) simp
qed

text \<open>The quotient before the zeros are dropped.\<close>

lemma quotient_digits:
  assumes a: "0 < a" and ab: "a \<le> b" and n: "n = ndigits b - ndigits a + 29"
  shows "10 ^ 28 \<le> a * 10 ^ n div b" and "a * 10 ^ n div b < 10 ^ 30"
proof -
  have b0: "0 < b" using a ab by simp
  have nab: "ndigits a \<le> ndigits b" by (rule ndigits_mono [OF ab])
  have "10 ^ 28 * b \<le> 10 ^ 28 * 10 ^ ndigits b" using ndigits_upper [of b] by simp
  also have "\<dots> = 10 ^ (ndigits a - 1) * 10 ^ n"
  proof -
    have e: "ndigits a - 1 + n = 28 + ndigits b" using nab n ndigits_pos [of a] by linarith
    show ?thesis by (simp only: power_add [symmetric] e)
  qed
  also have "\<dots> \<le> a * 10 ^ n" using ndigits_lower [OF a] by simp
  finally show "10 ^ 28 \<le> a * 10 ^ n div b" using b0 by (simp add: less_eq_div_iff_mult_less_eq)
  have "a * 10 ^ n < 10 ^ ndigits a * 10 ^ n" using ndigits_upper [of a] by simp
  also have "\<dots> = 10 ^ 30 * 10 ^ (ndigits b - 1)"
  proof -
    have e: "ndigits a + n = 30 + (ndigits b - 1)" using nab n ndigits_pos [of b] by linarith
    show ?thesis by (simp only: power_add [symmetric] e)
  qed
  also have "\<dots> \<le> 10 ^ 30 * b" using ndigits_lower [OF b0] by simp
  finally show "a * 10 ^ n div b < 10 ^ 30" by (simp add: div_less_iff_less_mult b0)
qed

lemma quotient_split:
  fixes a b n :: nat
  shows "of_nat (a * 10 ^ n div b) * of_nat b + of_nat (a * 10 ^ n mod b) = (of_nat a * 10 ^ n :: rat)"
  by (metis div_mult_mod_eq of_nat_add of_nat_mult of_nat_numeral of_nat_power)

definition close_quotient :: "nat \<Rightarrow> nat \<Rightarrow> nat \<Rightarrow> int \<Rightarrow> bool" where
  "close_quotient a b q x \<longleftrightarrow> 0 < q \<and> ndigits q \<le> 30 \<and> -50 \<le> x \<and> x \<le> 0
    \<and> \<bar>dval q x - of_nat a / of_nat b\<bar> * 10 ^ 29 \<le> 1
    \<and> (28 < ndigits q \<longrightarrow> 10 ^ (ndigits q - 28) * 10 powi x * 10 ^ 27 \<le> (1 :: rat))
    \<and> (b dvd a * 10 ^ 5 \<longrightarrow> dval q x = of_nat a / of_nat b \<and> ndigits q \<le> 28)"

lemma inexact_quotient:
  assumes a: "0 < a" and ab: "a \<le> b" and b: "b < 10 ^ 20" and n: "n = ndigits b - ndigits a + 29"
    and nz: "a * 10 ^ n mod b \<noteq> 0" and q: "q = a * 10 ^ n div b"
  shows "close_quotient a b (if q mod 5 = 0 then q + 1 else q) (- int n)"
proof -
  let ?c = "if q mod 5 = 0 then q + 1 else q" and ?X = "of_nat a / of_nat b :: rat"
  have b0: "0 < b" using a ab by simp
  have nb: "ndigits b \<le> 20" using b ndigits_le_iff [of 20 b] by simp
  have n29: "29 \<le> n" "n \<le> 48" using nb n ndigits_pos [of a] by linarith+
  note qd = quotient_digits [OF a ab n, folded q]
  have c30: "?c < 10 ^ 30"
  proof (cases "q + 1 = 10 ^ 30")
    case True
    then have "q = 10 ^ 30 - 1" by simp
    then have "q mod 5 \<noteq> 0" by simp
    then show ?thesis using qd(2) by simp
  next
    case False
    then show ?thesis using qd(2) by auto
  qed
  then have d: "ndigits ?c \<le> 30" using ndigits_le_iff [of 30 ?c] by simp
  have "a * 10 ^ n mod b < b" using b0 by simp
  then have m: "of_nat (a * 10 ^ n mod b) < (of_nat b :: rat)" "0 \<le> (of_nat (a * 10 ^ n mod b) :: rat)" by simp_all
  have "\<bar>of_nat ?c * of_nat b - of_nat a * 10 ^ n\<bar> \<le> (of_nat b :: rat)"
    using quotient_split [of a n b] m unfolding q [symmetric] by (auto simp: algebra_simps abs_le_iff)
  moreover have "\<bar>of_nat ?c / 10 ^ n - ?X\<bar> = \<bar>of_nat ?c * of_nat b - of_nat a * 10 ^ n\<bar> / (of_nat b * 10 ^ n)"
  proof -
    have "of_nat ?c / 10 ^ n - ?X = (of_nat ?c * of_nat b - of_nat a * 10 ^ n) / (of_nat b * 10 ^ n)"
      using b0 by (simp add: field_simps)
    then show ?thesis by (simp add: abs_divide abs_mult)
  qed
  ultimately have "\<bar>of_nat ?c / 10 ^ n - ?X\<bar> * 10 ^ n \<le> 1"
    using b0 by (simp add: field_simps)
  moreover have "(10 :: rat) ^ 29 \<le> 10 ^ n" using n29(1) by (rule power_increasing) simp
  ultimately have err: "\<bar>of_nat ?c / 10 ^ n - ?X\<bar> * 10 ^ 29 \<le> 1"
    by (meson abs_ge_zero mult_left_mono order_trans)
  have "10 ^ (ndigits ?c - 28) * 10 powi (- int n) * 10 ^ 27 \<le> (1 :: rat)"
  proof -
    have "(10 :: rat) ^ (ndigits ?c - 28) * 10 ^ 27 \<le> 10 ^ 2 * 10 ^ 27"
      using d by (intro mult_right_mono power_increasing) auto
    also have "\<dots> = 10 ^ 29" by simp
    also have "\<dots> \<le> 10 ^ n" using n29(1) by (rule power_increasing) simp
    finally show ?thesis by (simp add: power_int_minus field_simps)
  qed
  moreover have "\<not> b dvd a * 10 ^ 5"
  proof
    assume "b dvd a * 10 ^ 5"
    then have "b dvd a * 10 ^ 5 * 10 ^ (n - 5)" by (rule dvd_mult2)
    moreover have "a * 10 ^ 5 * 10 ^ (n - 5) = a * 10 ^ n"
      using n29(1) by (simp only: mult.assoc power_add [symmetric]) simp
    ultimately have "b dvd a * 10 ^ n" by metis
    with nz show False by (simp add: dvd_eq_mod_eq_0)
  qed
  moreover have "0 < ?c" using qd(1) by (cases "q mod 5 = 0") auto
  ultimately show ?thesis
    using d err n29 by (simp add: close_quotient_def dval_neg)
qed

lemma exact_quotient:
  assumes a: "0 < a" and ab: "a \<le> b" and b: "b < 10 ^ 20" and n: "n = ndigits b - ndigits a + 29"
    and z: "a * 10 ^ n mod b = 0" and s: "strip_zeros n (a * 10 ^ n div b) (- int n) = (q, x)"
  shows "close_quotient a b q x"
proof -
  let ?q = "a * 10 ^ n div b" and ?X = "of_nat a / of_nat b :: rat"
  have b0: "0 < b" using a ab by simp
  have nb: "ndigits b \<le> 20" using b ndigits_le_iff [of 20 b] by simp
  have n48: "n \<le> 48" using nb n ndigits_pos [of a] by linarith
  note qd = quotient_digits [OF a ab n]
  note sv = strip_zeros_value [OF s]
  have X: "dval q x = ?X"
  proof -
    have "of_nat ?q * of_nat b = (of_nat a * 10 ^ n :: rat)" using quotient_split [of a n b] z by simp
    then have "of_nat ?q / 10 ^ n = ?X" using b0 by (simp add: field_simps)
    then show ?thesis using sv by (simp add: dval_neg)
  qed
  have X1: "?X \<le> 1" using ab b0 by simp
  have q0: "0 < q" using sv qd(1) by (cases "q = 0") auto
  have d: "ndigits q \<le> 30" using ndigits_le_iff [of 30 q] sv qd(2) by simp
  have "10 ^ (ndigits q - 28) * 10 powi x * 10 ^ 27 \<le> (1 :: rat)" if "28 < ndigits q"
  proof -
    have "(10 :: rat) ^ (ndigits q - 28) * 10 powi x * 10 ^ 27 = 10 ^ (ndigits q - 28 + 27) * 10 powi x"
      by (simp add: power_add)
    also have "ndigits q - 28 + 27 = ndigits q - 1" using that by simp
    also have "10 ^ (ndigits q - 1) * 10 powi x \<le> dval q x" by (rule ndigits_dval [OF q0])
    finally show ?thesis using X X1 by simp
  qed
  moreover have "ndigits q \<le> 28" if dv: "b dvd a * 10 ^ 5"
  proof -
    obtain m where m: "a * 10 ^ 5 = b * m" using dv unfolding dvd_def by blast
    have xl: "-5 \<le> x"
    proof (rule ccontr)
      assume "\<not> -5 \<le> x"
      define k where "k = nat (- x - 6)"
      have k: "x = - int (k + 6)" using \<open>\<not> -5 \<le> x\<close> by (simp add: k_def)
      have "of_nat q / 10 ^ (k + 6) = (of_nat m / 10 ^ 5 :: rat)"
      proof -
        have "of_nat a * 10 ^ 5 = (of_nat b * of_nat m :: rat)" by (metis m of_nat_mult of_nat_numeral of_nat_power)
        then have "?X = of_nat m / 10 ^ 5" using b0 by (simp add: field_simps)
        then show ?thesis using X unfolding k dval_neg by (rule trans [rotated])
      qed
      then have "of_nat q = (of_nat (m * 10 ^ (k + 1)) :: rat)" by (simp add: field_simps power_add)
      then have "q = m * 10 ^ (k + 1)" by (simp only: of_nat_eq_iff)
      then have "q mod 10 = 0" by simp
      with sv k show False by simp
    qed
    have "of_nat q = ?X * 10 ^ nat (- x)"
    proof -
      have "x \<le> 0" using sv by simp
      then have "dval q x = of_nat q / 10 ^ nat (- x)" using dval_neg [of q "nat (- x)"] by simp
      then show ?thesis unfolding X [symmetric] by simp
    qed
    also have "\<dots> \<le> 1 * 10 ^ 5"
      using X1 xl by (intro mult_mono power_increasing) auto
    finally have "q \<le> 10 ^ 5" by (metis mult_1 of_nat_le_iff of_nat_numeral of_nat_power)
    then have "q < 10 ^ 28" by simp
    then show ?thesis using ndigits_le_iff [of 28 q] by simp
  qed
  ultimately show ?thesis
    using q0 d sv n48 X by (simp add: close_quotient_def)
qed

lemma raw_quotient_close:
  assumes "0 < a" "a \<le> b" "b < 10 ^ 20" "raw_quotient a b = (q, x)"
  shows "close_quotient a b q x"
  using assms inexact_quotient [OF assms(1-3) refl _ refl] exact_quotient [OF assms(1-3) refl]
  by (auto simp: raw_quotient_def Let_def split: if_splits)

section \<open>Percentages\<close>

text \<open>\<open>(raw / maximum) * Decimal("100")\<close>, quantised to hundredths.\<close>

definition dec_percent :: "decimal \<Rightarrow> decimal \<Rightarrow> decimal result" where
  "dec_percent a b = ebind (dec_div a b) (\<lambda>x. ebind (dec_mul x (Fin False 100 0)) (\<lambda>y. dec_quantize y (-2)))"

lemma dec_mul_100:
  assumes "0 < c" "ndigits c \<le> 28" "moderate e"
  shows "\<exists>c' e'. dec_mul (Fin s c e) (Fin False 100 0) = Inr (Fin s c' e') \<and> 0 < c' \<and> ndigits c' \<le> 28
    \<and> dval c' e' = 100 * dval c e \<and> e \<le> e' \<and> e' \<le> e + 101"
proof -
  let ?k = "ndigits (c * 100) - 28"
  have "ndigits (c * 10 ^ 2) = ndigits c + 2" by (rule ndigits_mult_power [OF assms(1)])
  then have n: "ndigits (c * 100) = ndigits c + 2" by simp
  then have k: "?k \<le> 2" using assms(2) by simp
  have "(10::nat) ^ ?k dvd 10 ^ 2" by (rule le_imp_power_dvd [OF k])
  then have d: "10 ^ ?k dvd c * 100" by simp
  have "0 < c * 100" "ndigits (c * 100) \<le> 128" using assms(1,2) n by simp_all
  from dec_fix_error [OF this(1) assms(3) this(2), of s] d obtain c' e' where
    "dec_fix (Fin s (c * 100) e) = Inr (Fin s c' e')" "0 < c'" "ndigits c' \<le> 28" "e \<le> e'" "e' \<le> e + 101"
    "dval c' e' = dval (c * 100) e" by blast
  then show ?thesis by (simp add: dval_def)
qed

lemma quantize_value:
  assumes "-500 \<le> e"
  shows "of_nat (if -2 \<le> e then c * 10 ^ nat (e - (-2)) else half_up c (nat (-2 - e))) = \<lfloor>dval c e * 100 + 1 / 2\<rfloor>"
proof (cases "-2 \<le> e")
  case True
  have "dval c e * 100 = of_nat c * (10 powi e * 10 powi 2)" by (simp add: dval_def)
  also have "\<dots> = of_nat c * 10 powi (e + 2)" by (simp add: power_int_add)
  also have "\<dots> = of_nat (c * 10 ^ nat (e + 2))" using True by (simp add: power_int_def)
  finally have v: "dval c e * 100 = of_nat (c * 10 ^ nat (e + 2))" .
  have "\<lfloor>of_nat (c * 10 ^ nat (e + 2)) + 1 / 2 :: rat\<rfloor> = int (c * 10 ^ nat (e + 2))"
    by (rule floor_unique) simp_all
  then show ?thesis using True unfolding v by (simp add: add.commute)
next
  case False
  have "dval c e = of_nat c / 10 ^ nat (- e)"
    using False dval_neg [of c "nat (- e)"] by simp
  also have "(10 :: rat) ^ nat (- e) = 10 ^ nat (- 2 - e) * 100"
  proof -
    have "nat (- e) = nat (- 2 - e) + 2" using False by simp
    then show ?thesis by (simp add: power_add)
  qed
  finally have v: "dval c e * 100 = of_nat c / 10 ^ nat (- 2 - e)" by simp
  show ?thesis using False half_up_floor [of c "nat (- 2 - e)"] v by simp
qed

lemma dec_quantize_cents:
  assumes "0 < c" "ndigits c \<le> 28" "-500 \<le> e" "e \<le> 500" "dval c e \<le> 1000"
  shows "dec_quantize (Fin s c e) (-2) = Inr (Fin s (nat \<lfloor>dval c e * 100 + 1 / 2\<rfloor>) (-2))"
proof -
  let ?q = "if -2 \<le> e then c * 10 ^ nat (e - (-2)) else half_up c (nat (-2 - e))"
  have q: "of_nat ?q = \<lfloor>dval c e * 100 + 1 / 2\<rfloor>" by (rule quantize_value [OF assms(3)])
  have "of_int (int ?q) \<le> dval c e * 100 + 1 / 2" unfolding q by (rule of_int_floor_le)
  then have "(of_nat ?q :: rat) \<le> 100001" using assms(5) by simp
  then have "?q \<le> 100001" by (metis of_nat_le_iff of_nat_numeral)
  then have "?q < 10 ^ 28" by simp
  then have n: "ndigits ?q \<le> 28" using ndigits_le_iff [of 28 ?q] by simp
  have fx: "dec_fix (Fin s ?q (-2)) = Inr (Fin s ?q (-2))"
    using n by (cases "?q = 0") (auto simp: dec_fix_def Let_def dec_prec_def dec_Etop_def dec_Etiny_def dec_Emax_def)
  have "10 powi (int (ndigits c) - 1 + e) = (10 ^ (ndigits c - 1) * 10 powi e :: rat)"
  proof -
    have "int (ndigits c) - 1 + e = int (ndigits c - 1) + e" using ndigits_pos [of c] by linarith
    then show ?thesis by (simp only: power_int_add [OF disjI1, OF zero_neq_numeral [symmetric]] power_int_of_nat)
  qed
  also have "\<dots> \<le> 10 powi 3" using ndigits_dval [OF assms(1), of e] assms(5) by simp
  finally have b10: "(10 :: rat) powi (int (ndigits c) - 1 + e) \<le> 10 powi 3" .
  have b: "int (ndigits c) - 1 + e \<le> 3"
  proof (rule ccontr)
    assume "\<not> int (ndigits c) - 1 + e \<le> 3"
    then have "(10 :: rat) powi 3 < 10 powi (int (ndigits c) - 1 + e)"
      by (intro power_int_strict_increasing) simp_all
    with b10 show False by linarith
  qed
  have lim: "\<not> e + int (ndigits c) - 1 > dec_Emax" using b by (simp add: dec_Emax_def)
  have lim2: "\<not> e + int (ndigits c) - (-2) > int dec_prec" using b by (simp add: dec_prec_def)
  have c: "c \<noteq> 0" using assms(1) by simp
  have np: "\<not> dec_prec < ndigits ?q" using n by (simp add: dec_prec_def)
  have "dec_quantize (Fin s c e) (-2) = Inr (Fin s ?q (-2))"
    unfolding dec_quantize_def decimal.case Let_def if_not_P [OF c] if_not_P [OF lim] if_not_P [OF lim2]
      if_not_P [OF np] by (rule fx)
  also have "?q = nat \<lfloor>dval c e * 100 + 1 / 2\<rfloor>" using q by linarith
  finally show ?thesis .
qed

text \<open>Two values closer than their distance to the next tie round alike.\<close>

lemma floor_same:
  fixes y :: rat
  assumes b: "0 < b" and close: "\<bar>y - of_int n / of_int b\<bar> < 1 / of_int b"
    and tie: "b dvd n \<Longrightarrow> y = of_int n / of_int b"
  shows "\<lfloor>y\<rfloor> = n div b"
proof (rule floor_unique)
  have b': "(0 :: rat) < of_int b" using b by simp
  have n: "of_int n = (of_int (n div b) * of_int b + of_int (n mod b) :: rat)"
    by (metis div_mult_mod_eq of_int_add of_int_mult)
  have x: "of_int n / of_int b = (of_int (n div b) + of_int (n mod b) / of_int b :: rat)"
    using b' by (subst n) (simp add: add_divide_distrib)
  have m: "0 \<le> n mod b" "n mod b < b" using b by simp_all
  show "of_int (n div b) \<le> y"
  proof (cases "n mod b = 0")
    case True
    then have "y = of_int n / of_int b" using tie by (simp add: dvd_eq_mod_eq_0)
    then show ?thesis using x True by simp
  next
    case False
    then have "1 \<le> n mod b" using m(1) by linarith
    then have "1 / of_int b \<le> (of_int (n mod b) / of_int b :: rat)"
      using b' by (intro divide_right_mono) auto
    then show ?thesis using close x by linarith
  qed
  have "n mod b + 1 \<le> b" using m(2) by linarith
  then have "of_int (n mod b + 1) \<le> (of_int b :: rat)" by (simp only: of_int_le_iff)
  then have "of_int (n mod b + 1) / of_int b \<le> (1 :: rat)" using b' by (simp only: divide_le_eq_1_pos)
  then have "of_int (n mod b) / of_int b + 1 / of_int b \<le> (1 :: rat)" by (simp add: add_divide_distrib)
  then show "y < of_int (n div b) + 1"
    using close x by linarith
qed

lemma scale_dist: "\<bar>10000 * u + 1 / 2 - (10000 * v + 1 / 2)\<bar> = 10000 * \<bar>u - v :: rat\<bar>"
proof -
  have "10000 * u + 1 / 2 - (10000 * v + 1 / 2) = 10000 * (u - v)" by (simp add: right_diff_distrib)
  then show ?thesis by (simp only: abs_mult abs_numeral)
qed

text \<open>
  The percentage of two scores on the same scale, below 10^20 in units of it: dividing to 28
  digits, multiplying and rounding to hundredths gives the exact quotient rounded half up once.
\<close>

lemma dec_percent_exact:
  assumes "a \<le> b" "0 < b" "b < 10 ^ 20"
  shows "dec_percent (Fin False a e) (Fin False b e) = Inr (Fin False ((20000 * a + b) div (2 * b)) (-2))"
proof (cases "a = 0")
  case True
  have "b div (2 * b) = 0" using assms(2) by simp
  then show ?thesis
    using True assms(2) by (simp add: dec_percent_def div_finite_def dec_fix_def dec_quantize_def
        dec_Etiny_def dec_Emax_def)
next
  case False
  let ?X = "of_nat a / of_nat b :: rat"
  have a: "0 < a" using False by simp
  obtain q x where r: "raw_quotient a b = (q, x)" by (cases "raw_quotient a b")
  have cq: "close_quotient a b q x" by (rule raw_quotient_close [OF a assms(1,3) r])
  have mx: "moderate x" "0 < q" "ndigits q \<le> 128" using cq by (auto simp: close_quotient_def moderate_def)
  from dec_fix_error [OF mx(2,1,3), of False] obtain c1 e1 where
    f1: "dec_fix (Fin False q x) = Inr (Fin False c1 e1)" "0 < c1" "ndigits c1 \<le> 28" "x \<le> e1" "e1 \<le> x + 101"
    and err: "\<bar>dval c1 e1 - dval q x\<bar> \<le> (if ndigits q \<le> 28 then 0 else 10 ^ (ndigits q - 28) / 2 * 10 powi x)"
    by blast
  have div: "dec_div (Fin False a e) (Fin False b e) = Inr (Fin False c1 e1)"
    using assms(2) div_finite_raw [OF a ndigits_mono [OF assms(1)], of False e] r f1(1) by simp
  have "\<bar>dval c1 e1 - dval q x\<bar> * 10 ^ 27 \<le> 1 / 2"
  proof (cases "ndigits q \<le> 28")
    case True
    then show ?thesis using err by simp
  next
    case False
    then have e: "10 ^ (ndigits q - 28) * 10 powi x * 10 ^ 27 \<le> (1 :: rat)" using cq by (simp add: close_quotient_def)
    define u where "u = (10 ^ (ndigits q - 28) * 10 powi x :: rat)"
    have "\<bar>dval c1 e1 - dval q x\<bar> \<le> u / 2" using err False by (simp add: u_def)
    then have "\<bar>dval c1 e1 - dval q x\<bar> * 10 ^ 27 \<le> u / 2 * 10 ^ 27" by (rule mult_right_mono) simp
    also have "\<dots> = (u * 10 ^ 27) / 2" by simp
    also have "\<dots> \<le> 1 / 2" using e unfolding u_def [symmetric] by (rule divide_right_mono) simp
    finally show ?thesis .
  qed
  moreover have "\<bar>dval q x - ?X\<bar> * 10 ^ 29 \<le> 1" using cq by (simp add: close_quotient_def)
  moreover have "\<bar>dval c1 e1 - ?X\<bar> \<le> \<bar>dval c1 e1 - dval q x\<bar> + \<bar>dval q x - ?X\<bar>" by simp
  ultimately have close: "\<bar>dval c1 e1 - ?X\<bar> * 10 ^ 27 < 1" by simp
  have X1: "?X \<le> 1" "0 \<le> ?X" using assms by simp_all
  have "\<bar>dval c1 e1 - ?X\<bar> * 1 \<le> \<bar>dval c1 e1 - ?X\<bar> * 10 ^ 27" by (rule mult_left_mono) simp_all
  from le_less_trans [OF this close] have "\<bar>dval c1 e1 - ?X\<bar> < 1" by (simp only: mult_1_right)
  moreover have "dval c1 e1 \<le> \<bar>dval c1 e1 - ?X\<bar> + ?X" by simp
  ultimately have v1: "dval c1 e1 \<le> 2" using X1(1) by (metis add_mono dual_order.trans less_imp_le one_add_one)
  have x: "-50 \<le> x" "x \<le> 0" using cq by (simp_all add: close_quotient_def)
  have m1: "moderate e1" using x f1(4,5) by (simp add: moderate_def)
  obtain c2 e2 where f2: "dec_mul (Fin False c1 e1) (Fin False 100 0) = Inr (Fin False c2 e2)" "0 < c2"
    "ndigits c2 \<le> 28" "dval c2 e2 = 100 * dval c1 e1" "e1 \<le> e2" "e2 \<le> e1 + 101"
    using dec_mul_100 [OF f1(2,3) m1, of False] by blast
  have "dec_percent (Fin False a e) (Fin False b e) = dec_quantize (Fin False c2 e2) (-2)"
    by (simp only: dec_percent_def div f2(1) ebind_simps)
  also have "\<dots> = Inr (Fin False (nat \<lfloor>dval c2 e2 * 100 + 1 / 2\<rfloor>) (-2))"
    using x f1(4,5) f2(4-6) v1 by (intro dec_quantize_cents [OF f2(2,3)]) simp_all
  also have "\<lfloor>dval c2 e2 * 100 + 1 / 2\<rfloor> = int (20000 * a + b) div int (2 * b)"
  proof (rule floor_same)
    show "0 < int (2 * b)" using assms(2) by simp
    have eq: "of_int (int (20000 * a + b)) / of_int (int (2 * b)) = 10000 * ?X + 1 / 2"
      using assms(2) by (simp add: field_simps)
    have y: "dval c2 e2 * 100 + 1 / 2 = 10000 * dval c1 e1 + 1 / 2" using f2(4) by simp
    have "(of_nat b :: rat) < 10 ^ 20" using assms(3) by (metis of_nat_less_iff of_nat_numeral of_nat_power)
    then have "1 / (2 * 10 ^ 20) < 1 / (2 * of_nat b :: rat)"
      using assms(2) by (intro divide_strict_left_mono) simp_all
    then show "\<bar>dval c2 e2 * 100 + 1 / 2 - of_int (int (20000 * a + b)) / of_int (int (2 * b))\<bar>
        < 1 / of_int (int (2 * b))"
    proof -
      have "\<bar>10000 * dval c1 e1 + 1 / 2 - (10000 * ?X + 1 / 2)\<bar> = 10000 * \<bar>dval c1 e1 - ?X\<bar>"
        by (rule scale_dist)
      also have "\<dots> < 10000 * (1 / 10 ^ 27)" using close by (simp add: less_divide_eq)
      also have "\<dots> < 1 / (2 * 10 ^ 20)" by simp
      also have "\<dots> < 1 / (2 * of_nat b :: rat)" by fact
      finally show ?thesis unfolding y eq by simp
    qed
    show "dval c2 e2 * 100 + 1 / 2 = of_int (int (20000 * a + b)) / of_int (int (2 * b))"
      if d: "int (2 * b) dvd int (20000 * a + b)"
    proof -
      have "2 * b dvd 20000 * a + b" using d by (simp only: int_dvd_int_iff)
      then have "b dvd 20000 * a + b" by (rule dvd_mult_right)
      then have "b dvd 20000 * a" by (simp add: dvd_add_left_iff)
      then have "b dvd 20000 * a * 5" by (rule dvd_mult2)
      then have "b dvd a * 10 ^ 5" by (simp add: mult.commute mult.left_commute)
      then have "dval q x = ?X" "ndigits q \<le> 28" using cq by (simp_all add: close_quotient_def)
      then have "dval c1 e1 = ?X" using err by simp
      then show ?thesis unfolding y eq by simp
    qed
  qed
  also have "nat (int (20000 * a + b) div int (2 * b)) = (20000 * a + b) div (2 * b)"
    by (simp only: zdiv_int [symmetric] nat_int)
  finally show ?thesis .
qed

section \<open>Comparison\<close>

definition sval :: "bool \<Rightarrow> nat \<Rightarrow> int \<Rightarrow> rat" where
  "sval s c e = (if s then - dval c e else dval c e)"

lemma align_value: "m \<le> e \<Longrightarrow> of_int (align m s c e) * 10 powi m = sval s c e"
proof -
  assume m: "m \<le> e"
  then have "(10 :: rat) powi e = 10 ^ nat (e - m) * 10 powi m"
    using power_int_add [of "10::rat" "e - m" m] by (simp add: power_int_def)
  then show ?thesis by (simp add: align_def signed_def sval_def dval_def)
qed

lemma dec_sign_finite: "dec_sign (Fin s c e) (Fin s' c' e') =
   Inr (if sval s c e < sval s' c' e' then -1 else if sval s c e = sval s' c' e' then 0 else 1)"
proof -
  let ?m = "min e e'"
  let ?x = "align ?m s c e" and ?y = "align ?m s' c' e'"
  have p: "(0 :: rat) < 10 powi ?m" by simp
  have v: "sval s c e = of_int ?x * 10 powi ?m" "sval s' c' e' = of_int ?y * 10 powi ?m"
    using align_value [of ?m e s c] align_value [of ?m e' s' c'] by simp_all
  have "sval s c e < sval s' c' e' \<longleftrightarrow> ?x < ?y" "sval s c e = sval s' c' e' \<longleftrightarrow> ?x = ?y"
    unfolding v using p by simp_all
  then show ?thesis by (simp add: sgn_if)
qed

text \<open>On finite decimals the ordering is the ordering of the values.\<close>

lemma dec_le_finite: "dec_le (Fin s c e) (Fin s' c' e') = Inr (sval s c e \<le> sval s' c' e')"
  by (simp add: dec_le_def dec_sign_finite del: dec_sign.simps)

lemma dec_less_finite: "dec_less (Fin s c e) (Fin s' c' e') = Inr (sval s c e < sval s' c' e')"
  by (simp add: dec_less_def dec_sign_finite del: dec_sign.simps)

lemma sval_same_exp [simp]: "sval False c e \<le> sval False c' e \<longleftrightarrow> c \<le> c'"
  "sval False c e < sval False c' e \<longleftrightarrow> c < c'"
  by (simp_all add: sval_def dval_def)

lemma dec_le_Inr:
  "dec_le a b = Inr v \<Longrightarrow> a \<noteq> QNaN \<and> a \<noteq> SNaN \<and> b \<noteq> QNaN \<and> b \<noteq> SNaN"
  by (cases a; cases b) (simp_all add: dec_le_def)

section \<open>Printing and parsing\<close>

lemma is_09_plain: "is_09 c \<Longrightarrow> \<not> py_space c \<and> c \<noteq> CHR ''_'' \<and> c \<noteq> CHR ''-'' \<and> c \<noteq> CHR ''+'' \<and> c \<noteq> CHR ''.''
    \<and> c \<noteq> CHR ''E''"
  by (auto simp: is_09_def py_space_def code_def)

lemma takeWhile_digits:
  "\<forall>c\<in>set ip. is_09 c \<Longrightarrow> rest = [] \<or> \<not> is_09 (hd rest) \<Longrightarrow> span_digits (ip @ rest) = (ip, rest)"
  by (cases rest) (auto simp: span_digits_def takeWhile_append dropWhile_append)

lemma not_09: "\<not> is_09 (CHR ''.'')" "\<not> is_09 (CHR ''E'')" "lower_char (CHR ''E'') = CHR ''e''"
  by code_simp+

lemma parse_exponent_text: "parse_exponent (exponent_text k) = Some k"
proof -
  have sp: "split_sign (CHR ''-'' # t) = (True, t)" "split_sign (CHR ''+'' # t) = (False, t)" for t
    by (simp_all add: split_sign_def)
  show ?thesis
    using nat_str_digits [of "nat \<bar>k\<bar>"]
    by (simp add: exponent_text_def parse_exponent_def sp not_09 list_all_iff)
qed

lemma parse_number:
  assumes "ip \<noteq> []" "\<forall>c\<in>set (ip @ fp). is_09 c"
  shows "parse_unsigned neg (ip @ (if fp = [] then [] else CHR ''.'' # fp) @ exponent_text k)
    = Some (Fin neg (read_nat (ip @ fp)) (k - int (length fp)))"
proof -
  have h: "exponent_text k = [] \<or> \<not> is_09 (hd (exponent_text k))"
    by (simp add: exponent_text_def not_09)
  have he: "exponent_text k = [] \<or> hd (exponent_text k) \<noteq> CHR ''.''"
    by (simp add: exponent_text_def)
  let ?r = "(if fp = [] then [] else CHR ''.'' # fp) @ exponent_text k"
  have r: "?r = [] \<or> \<not> is_09 (hd ?r)" using h not_09 by auto
  have s: "span_digits (ip @ ?r) = (ip, ?r)" by (rule takeWhile_digits) (use assms(2) r in auto)
  have f: "parse_fraction ?r = (fp, exponent_text k)"
  proof (cases "fp = []")
    case True
    then show ?thesis using he by (cases "exponent_text k") (auto simp: parse_fraction_def)
  next
    case False
    have "span_digits (fp @ exponent_text k) = (fp, exponent_text k)"
      by (rule takeWhile_digits) (use assms(2) h in auto)
    then show ?thesis using False by (simp add: parse_fraction_def)
  qed
  show ?thesis
    unfolding parse_unsigned_def s Let_def using assms(1) f by (simp add: parse_exponent_text)
qed

lemma decimal_of_rendered:
  assumes "ip \<noteq> []" "\<forall>c\<in>set (ip @ fp). is_09 c"
  shows "decimal_of_text ((if neg then ''-'' else []) @ ip @ (if fp = [] then [] else CHR ''.'' # fp) @ exponent_text k)
    = Inr (Fin neg (read_nat (ip @ fp)) (k - int (length fp)))"
proof -
  let ?b = "ip @ (if fp = [] then [] else CHR ''.'' # fp) @ exponent_text k"
  let ?t = "(if neg then ''-'' else []) @ ?b"
  have c: "\<not> py_space c \<and> c \<noteq> CHR ''_''" if "c \<in> set ?t" for c
  proof -
    have "is_09 c \<or> c \<in> set ''-.E+''"
      using that assms(2) nat_str_digits [of "nat \<bar>k\<bar>"] by (auto simp: exponent_text_def split: if_splits)
    moreover have "\<forall>c\<in>set ''-.E+''. \<not> py_space c \<and> c \<noteq> CHR ''_''" by code_simp
    ultimately show ?thesis using is_09_plain by blast
  qed
  have "strip ?t = ?t" using c by (blast intro: strip_id)
  moreover have "filter (\<lambda>c. c \<noteq> CHR ''_'') ?t = ?t" using c by (intro filter_True) blast
  moreover have "split_sign ?t = (neg, ?b)"
  proof (cases neg)
    case False
    obtain d ds where d: "ip = d # ds" "is_09 d" using assms by (cases ip) auto
    with is_09_plain [OF d(2)] False show ?thesis by (simp add: split_sign_def)
  qed (simp add: split_sign_def)
  ultimately show ?thesis
    unfolding decimal_of_text_def using parse_number [OF assms, of neg k] by simp
qed

lemma read_zeros: "read_nat (zeros k @ s) = read_nat s"
proof -
  have "digit_val (CHR ''0'') = 0" by code_simp
  then have "foldl (\<lambda>n c. 10 * n + digit_val c) 0 (zeros k) = 0" by (induction k) (simp_all add: zeros_def)
  then show ?thesis by (simp add: read_nat_def)
qed

lemma zeros_digits: "\<forall>c\<in>set (zeros k). is_09 c"
  by (simp add: zeros_def) (code_simp)

text \<open>The digits of a printed decimal and where its point falls.\<close>

lemma dec_str_shape:
  "\<exists>ip fp k. dec_str (Fin neg c e) = (if neg then ''-'' else []) @ ip @ (if fp = [] then [] else CHR ''.'' # fp)
     @ exponent_text k \<and> ip \<noteq> [] \<and> (\<forall>d\<in>set (ip @ fp). is_09 d) \<and> read_nat (ip @ fp) = c \<and> k - int (length fp) = e"
proof -
  let ?n = "ndigits c" let ?l = "e + int ?n"
  let ?d = "if e \<le> 0 \<and> ?l > -6 then ?l else 1"
  have len: "length (nat_str c) = ?n" by (rule ndigits_str)
  have dg: "\<forall>d\<in>set (nat_str c). is_09 d" by (rule nat_str_digits)
  have n0: "0 < ?n" by simp
  consider "?d \<le> 0" | "int ?n \<le> ?d" | "0 < ?d" "?d < int ?n" by linarith
  then show ?thesis
  proof cases
    case 1
    let ?fp = "zeros (nat (- ?d)) @ nat_str c"
    have l: "int (length ?fp) = - e" using 1 len by (simp add: zeros_def split: if_splits)
    have d: "?d = ?l" using 1 by (auto split: if_splits)
    have r: "read_nat (''0'' @ ?fp) = c" using read_zeros [of 1] read_zeros [of "nat (- ?d)"] by (simp add: zeros_def)
    have nz: "is_09 (CHR ''0'')" by code_simp
    have f: "?fp \<noteq> []" by simp
    show ?thesis
      by (rule exI [of _ "''0''"], rule exI [of _ ?fp], rule exI [of _ "?l - ?d"])
        (use 1 l d r nz dg zeros_digits f in \<open>auto simp: dec_str_def Let_def\<close>)
  next
    case 2
    have z: "?d = int ?n"
    proof (cases "e \<le> 0 \<and> - 6 < ?l")
      case True
      then have "?d = ?l" by (rule if_P)
      then show ?thesis using 2 True by linarith
    next
      case False
      then have "?d = 1" by (rule if_not_P)
      then show ?thesis using 2 n0 by linarith
    qed
    show ?thesis
      by (rule exI [of _ "nat_str c"], rule exI [of _ "[]"], rule exI [of _ "?l - ?d"])
        (use 2 z n0 dg len in \<open>auto simp: dec_str_def Let_def zeros_def\<close>)
  next
    case 3
    let ?k = "nat ?d"
    have td: "take ?k (nat_str c) @ drop ?k (nat_str c) = nat_str c" by simp
    have t: "take ?k (nat_str c) \<noteq> []" using 3(1) by simp
    have f: "drop ?k (nat_str c) \<noteq> []" using 3 len by simp
    have l: "int (length (drop ?k (nat_str c))) = int ?n - ?d" using 3 len by simp
    have dt: "\<forall>d\<in>set (take ?k (nat_str c) @ drop ?k (nat_str c)). is_09 d" unfolding td by (rule dg)
    have r: "read_nat (take ?k (nat_str c) @ drop ?k (nat_str c)) = c" unfolding td by simp
    have s: "dec_str (Fin neg c e) = (if neg then ''-'' else []) @ take ?k (nat_str c)
        @ (if drop ?k (nat_str c) = [] then [] else CHR ''.'' # drop ?k (nat_str c)) @ exponent_text (?l - ?d)"
      using 3 by (simp only: dec_str_def decimal.case Let_def) simp
    have "?l - ?d - int (length (drop ?k (nat_str c))) = e" using l by simp
    with s t dt r show ?thesis by blast
  qed
qed

lemma decimal_of_dec_str: "decimal_of_text (dec_str (Fin neg c e)) = Inr (Fin neg c e)"
  using dec_str_shape [of neg c e] decimal_of_rendered by metis

end
