(* ===== verification/Scores.thy ===== *)
theory Scores
  imports DecimalFacts EventRules
begin

text \<open>
  Scores as the grading algorithms check and summarise them: score_bounds.py, practical_grid.py,
  batch_validation.py, draft_merge.py, score_summary.py. A value that arrives from a client is
  JSON; the code reads a number from \<open>str(value)\<close>, so bounds are checked on texts.
\<close>

section \<open>Bounds (score_bounds.py)\<close>

definition to_decimal :: "string \<Rightarrow> string \<Rightarrow> decimal result" where
  "to_decimal field_name text =
     (case decimal_of_text text of
        Inl _ \<Rightarrow> Inl (ValidationError field_name ''Score must be numeric.'')
      | Inr d \<Rightarrow> Inr d)"

definition dec_0 :: decimal where "dec_0 = Fin False 0 0"

definition validate_score_bounds :: "string \<Rightarrow> string \<Rightarrow> decimal result" where
  "validate_score_bounds score max_score =
     ebind (to_decimal ''max_score'' max_score) (\<lambda>maximum.
       ebind (dec_le maximum dec_0) (\<lambda>nonpos.
         if nonpos then Inl (ValidationError ''max_score'' ''Maximum score must be positive.'')
         else ebind (to_decimal ''raw_score'' score) (\<lambda>value.
           ebind (dec_less value dec_0) (\<lambda>negative.
             if negative then Inl (ValidationError ''raw_score'' ''Score cannot be negative.'')
             else ebind (dec_less maximum value) (\<lambda>above.
               if above then Inl (ValidationError ''raw_score'' ''Score cannot exceed maximum score.'')
               else Inr value)))))"

section \<open>Components (practical_grid.py)\<close>

record component =
  cm_id :: uuid
  cm_name :: string
  cm_max_score :: decimal
  cm_is_required :: bool
  cm_order :: int
  cm_rubric :: "uuid option"

text \<open>\<open>value in [None, ""]\<close>.\<close>

definition blank_value :: "json \<Rightarrow> bool" where
  "blank_value v \<longleftrightarrow> v = JNull \<or> v = JStr []"

definition component_total :: "json list \<Rightarrow> decimal result" where
  "component_total values =
     efold (\<lambda>v total. ebind (decimal_of_text (json_str v)) (dec_add total)) values (Fin False 0 (-2))"

section \<open>Batches of rows (batch_validation.py)\<close>

definition score_decimal :: "json \<Rightarrow> string \<Rightarrow> decimal result" where
  "score_decimal value field = to_decimal field (json_str value)"

record grade_row =
  gr_student_id :: uuid
  gr_raw_score :: "decimal option"
  gr_component_scores :: json
  gr_remarks :: string

text \<open>\<open>row.get(key)\<close>, \<open>row.get(key, default)\<close> and \<open>value or default\<close> on JSON.\<close>

definition jget :: "(string \<times> json) list \<Rightarrow> string \<Rightarrow> json" where
  "jget kvs k = (case map_of kvs k of None \<Rightarrow> JNull | Some v \<Rightarrow> v)"

definition jget_or :: "(string \<times> json) list \<Rightarrow> string \<Rightarrow> json \<Rightarrow> json" where
  "jget_or kvs k d = (case map_of kvs k of None \<Rightarrow> d | Some v \<Rightarrow> v)"

definition or_json :: "json \<Rightarrow> json \<Rightarrow> json" where
  "or_json v d = (if json_truthy v then v else d)"

definition check_component :: "bool \<Rightarrow> (string \<times> json) list \<Rightarrow> component \<Rightarrow> unit result" where
  "check_component require_complete scores c =
     (let raw_value = jget scores (cm_id c) in
      if blank_value raw_value
      then (if cm_is_required c \<and> require_complete
            then Inl (ValidationError ''component_scores'' ''Required component score missing.'')
            else Inr ())
      else ebind (score_decimal raw_value ''component_scores'') (\<lambda>score.
        ebind (validate_score_bounds (dec_str score) (dec_str (cm_max_score c))) (\<lambda>_. Inr ())))"

definition component_raw_score ::
  "decimal \<Rightarrow> component list \<Rightarrow> bool \<Rightarrow> json \<Rightarrow> decimal option result" where
  "component_raw_score max_score components require_complete component_scores =
     (case component_scores of
        JObj scores \<Rightarrow>
          ebind (echeck (check_component require_complete scores) components) (\<lambda>_.
            ebind (component_total (filter (\<lambda>v. \<not> blank_value v) (map snd scores))) (\<lambda>total.
              ebind (validate_score_bounds (dec_str total) (dec_str max_score)) (\<lambda>_.
                Inr (if scores \<noteq> [] then Some total else None))))
      | _ \<Rightarrow> Inl (ValidationError ''component_scores'' ''Component scores must be an object.''))"

definition simple_raw_score ::
  "decimal \<Rightarrow> bool \<Rightarrow> json \<Rightarrow> decimal option result" where
  "simple_raw_score max_score require_complete raw_value =
     (if blank_value raw_value
      then (if require_complete then Inl (ValidationError ''raw_score'' ''Score is required.'') else Inr None)
      else ebind (score_decimal raw_value ''raw_score'') (\<lambda>raw_score.
        ebind (validate_score_bounds (dec_str raw_score) (dec_str max_score)) (\<lambda>_. Inr (Some raw_score))))"

definition validate_grade_row ::
  "uuid list \<Rightarrow> decimal \<Rightarrow> component list \<Rightarrow> bool \<Rightarrow> json \<Rightarrow> grade_row list \<Rightarrow> grade_row list result" where
  "validate_grade_row roster max_score components require_complete row normalized =
     (case row of
        JObj kvs \<Rightarrow>
          (let student_id = strip (json_str (jget_or kvs ''student_id'' (JStr [])));
               component_scores = or_json (jget kvs ''component_scores'') (JObj []) in
           if student_id = [] \<or> student_id \<notin> set roster
           then Inl (ValidationError ''student_id'' ''Submitted learner is invalid.'')
           else if student_id \<in> gr_student_id ` set normalized
           then Inl (ValidationError ''student_id'' ''Duplicate learner row.'')
           else ebind (if components \<noteq> []
                       then component_raw_score max_score components require_complete component_scores
                       else simple_raw_score max_score require_complete (jget kvs ''raw_score'')) (\<lambda>raw_score.
             Inr (normalized @ [\<lparr>gr_student_id = student_id, gr_raw_score = raw_score,
               gr_component_scores = component_scores,
               gr_remarks = json_str (jget_or kvs ''remarks'' (JStr []))\<rparr>])))
      | _ \<Rightarrow> Inl (OtherError ''AttributeError''))"

definition validate_grade_rows ::
  "json \<Rightarrow> uuid list \<Rightarrow> decimal \<Rightarrow> component list \<Rightarrow> bool \<Rightarrow> grade_row list result" where
  "validate_grade_rows rows roster max_score components require_complete =
     (case rows of
        JList rs \<Rightarrow>
          ebind (efold (validate_grade_row roster max_score components require_complete) rs []) (\<lambda>normalized.
            if require_complete \<and> normalized = []
            then Inl (ValidationError ''rows'' ''At least one grade row is required.'')
            else Inr normalized)
      | _ \<Rightarrow> Inl (ValidationError ''rows'' ''Rows must be a list.''))"

section \<open>Drafts (draft_merge.py)\<close>

text \<open>\<open>int(...)\<close> of the client's expected version has been taken by the caller's JSON number.\<close>

definition validate_draft_version :: "int option \<Rightarrow> int option \<Rightarrow> unit result" where
  "validate_draft_version current_version expected_version =
     (case (expected_version, current_version) of
        (Some e, Some c) \<Rightarrow>
          if e \<noteq> c then Inl (ValidationError ''draft_version'' ''Draft version is stale.'') else Inr ()
      | _ \<Rightarrow> Inr ())"

definition normalize_draft_rows ::
  "json \<Rightarrow> uuid list \<Rightarrow> decimal \<Rightarrow> component list \<Rightarrow> grade_row list result" where
  "normalize_draft_rows rows roster max_score components =
     validate_grade_rows rows roster max_score components False"

section \<open>Percentages (score_summary.py)\<close>

definition percentage :: "decimal \<Rightarrow> decimal \<Rightarrow> decimal result" where
  "percentage score max_score =
     ebind (dec_le max_score dec_0) (\<lambda>nonpos.
       if nonpos then Inr (Fin False 0 (-2)) else dec_percent score max_score)"

end
