(* ===== verification/Bands.thy ===== *)
theory Bands
  imports Scores
begin

text \<open>
  School grading schemas: the band validator, the mapper from scores to bands and the boundary to
  the national (CBE) context: school_grading_schema_validator.py, school_grading_band_mapper.py,
  cbe_school_schema_boundary.py, cbe_band_mapper.py. Percentages of a band arrive as texts.
\<close>

record band_input =
  bi_label :: string
  bi_descriptor :: string
  bi_min :: string
  bi_max :: string
  bi_points :: "string option"

section \<open>Ordering bands\<close>

text \<open>
  Sorting compares pairs of decimals. Comparing a NaN raises, and a sort compares every two
  neighbours of its result, so a NaN minimum raises as soon as there are two bands, and a NaN
  maximum as soon as another band has the same minimum.
\<close>

definition is_nan :: "decimal \<Rightarrow> bool" where
  "is_nan d \<longleftrightarrow> d = QNaN \<or> d = SNaN"

definition dec_key :: "decimal \<Rightarrow> int \<times> rat" where
  "dec_key d = (case d of Fin s c e \<Rightarrow> (0, sval s c e) | Inf s \<Rightarrow> (if s then (-1, 0) else (1, 0)) | _ \<Rightarrow> (2, 0))"

definition sort_raises :: "(decimal \<times> decimal) list \<Rightarrow> bool" where
  "sort_raises ps \<longleftrightarrow> 2 \<le> length ps \<and> ((\<exists>p\<in>set ps. is_nan (fst p)) \<or>
     (\<exists>p\<in>set ps. is_nan (snd p) \<and> 2 \<le> length (filter (\<lambda>q. dec_key (fst q) = dec_key (fst p)) ps)))"

definition sort_ranges :: "('a \<Rightarrow> decimal \<times> decimal) \<Rightarrow> 'a list \<Rightarrow> 'a list result" where
  "sort_ranges f xs =
     (if sort_raises (map f xs) then Inl InvalidOperation
      else Inr (sort_key (\<lambda>x. (dec_key (fst (f x)), dec_key (snd (f x)))) xs))"

section \<open>Validation (school_grading_schema_validator.py)\<close>

definition INTERNAL_ASSESSMENT_TYPES :: "string list" where
  "INTERNAL_ASSESSMENT_TYPES =
     [''quiz'', ''assignment'', ''practical'', ''exam'', ''project'', ''cat'', ''internal_exam'', ''mock_exam'',
      ''trial_exam'', ''departmental_test'', ''practical_component'']"

definition is_internal_assessment_type :: "string \<Rightarrow> bool" where
  "is_internal_assessment_type assessment_type \<longleftrightarrow> assessment_type \<in> set INTERNAL_ASSESSMENT_TYPES"

definition dec_100 :: decimal where "dec_100 = Fin False 100 0"
definition dec_cent :: decimal where "dec_cent = Fin False 1 (-2)"

definition band_range :: "band_input \<Rightarrow> (decimal \<times> decimal) result" where
  "band_range b = ebind (decimal_of_text (bi_min b)) (\<lambda>lo. ebind (decimal_of_text (bi_max b)) (\<lambda>hi. Inr (lo, hi)))"

text \<open>\<open>a or b or c\<close> over checks that may raise: evaluated from the left until one holds.\<close>

fun any_check :: "bool result list \<Rightarrow> bool result" where
  "any_check [] = Inr False"
| "any_check (c # cs) = ebind c (\<lambda>b. if b then Inr True else any_check cs)"

definition range_error :: "decimal \<times> decimal \<Rightarrow> string list result" where
  "range_error p =
     ebind (any_check [dec_less (fst p) dec_0, dec_less dec_100 (snd p), dec_less (snd p) (fst p)])
       (\<lambda>bad. Inr (if bad then [''invalid_range''] else []))"

fun overlap_errors :: "(decimal \<times> decimal) list \<Rightarrow> string list result" where
  "overlap_errors (p # q # ps) =
     ebind (dec_le (fst q) (snd p)) (\<lambda>o_lap.
       ebind (overlap_errors (q # ps)) (\<lambda>es. Inr ((if o_lap then [''overlapping_ranges''] else []) @ es)))"
| "overlap_errors _ = Inr []"

text \<open>\<open>==\<close> on decimals is numeric and false on a quiet NaN; a signalling NaN raises.\<close>

definition dec_eq :: "decimal \<Rightarrow> decimal \<Rightarrow> bool result" where
  "dec_eq a b = (if a = SNaN \<or> b = SNaN then Inl InvalidOperation
     else Inr (a \<noteq> QNaN \<and> b \<noteq> QNaN \<and> dec_key a = dec_key b))"

fun gap_errors :: "(decimal \<times> decimal) list \<Rightarrow> string list result" where
  "gap_errors (p # q # ps) =
     ebind (dec_add (snd p) dec_cent) (\<lambda>next_min.
       ebind (dec_eq (fst q) next_min) (\<lambda>adjacent.
         if adjacent then gap_errors (q # ps) else Inr [''coverage_gap'']))"
| "gap_errors _ = Inr []"

definition coverage_errors :: "(decimal \<times> decimal) list \<Rightarrow> string list result" where
  "coverage_errors ps =
     (if ps = [] then Inr []
      else ebind (dec_eq (fst (hd ps)) dec_0) (\<lambda>starts.
        ebind (dec_eq (snd (last ps)) dec_100) (\<lambda>reaches.
          ebind (gap_errors ps) (\<lambda>gaps.
            Inr ((if starts then [] else [''coverage_gap'']) @ (if reaches then [] else [''coverage_gap'']) @ gaps)))))"

record schema_validation =
  sv_is_valid :: bool
  sv_errors :: "string list"

definition validate_schema_bands :: "band_input list \<Rightarrow> bool \<Rightarrow> schema_validation result" where
  "validate_schema_bands bands requires_full_coverage =
     ebind (emap band_range bands) (\<lambda>ranges.
       ebind (sort_ranges id ranges) (\<lambda>normalized.
         ebind (emap range_error normalized) (\<lambda>range_errors.
           ebind (overlap_errors normalized) (\<lambda>overlaps.
             ebind (if requires_full_coverage then coverage_errors normalized else Inr []) (\<lambda>coverage.
               let errors = (if normalized = [] then [''bands_required''] else []) @ concat range_errors
                     @ overlaps @ coverage
               in Inr \<lparr>sv_is_valid = (errors = []), sv_errors = py_sorted_set errors\<rparr>)))))"

section \<open>Mapping (school_grading_band_mapper.py)\<close>

record band_mapping =
  bm_raw_score :: decimal
  bm_max_score :: decimal
  bm_normalized_percentage :: decimal
  bm_band_label :: string
  bm_band_descriptor :: string
  bm_points :: "decimal option"

definition normalize_percentage :: "string \<Rightarrow> string \<Rightarrow> decimal result" where
  "normalize_percentage raw_score max_score =
     ebind (decimal_of_text raw_score) (\<lambda>raw.
       ebind (decimal_of_text max_score) (\<lambda>maximum.
         ebind (dec_le maximum dec_0) (\<lambda>nonpos.
           if nonpos then Inl (ValueError ''max_score_must_be_positive'')
           else ebind (any_check [dec_less raw dec_0, dec_less maximum raw]) (\<lambda>outside.
             if outside then Inl (ValueError ''raw_score_out_of_range'')
             else dec_percent raw maximum))))"

fun find_band :: "decimal \<Rightarrow> (band_input \<times> decimal \<times> decimal) list \<Rightarrow> band_input result" where
  "find_band pct [] = Inl (ValueError ''no_matching_band'')"
| "find_band pct ((b, lo, hi) # bs) =
     ebind (dec_le lo pct) (\<lambda>above.
       if \<not> above then find_band pct bs
       else ebind (dec_le pct hi) (\<lambda>below.
         if below then Inr b else find_band pct bs))"

definition map_score_to_band :: "string \<Rightarrow> string \<Rightarrow> band_input list \<Rightarrow> band_mapping result" where
  "map_score_to_band raw_score max_score bands =
     ebind (normalize_percentage raw_score max_score) (\<lambda>pct.
       ebind (emap band_range bands) (\<lambda>ranges.
         ebind (sort_ranges snd (zip bands ranges)) (\<lambda>ordered.
           ebind (find_band pct ordered) (\<lambda>band.
             ebind (case bi_points band of None \<Rightarrow> Inr None
                    | Some t \<Rightarrow> ebind (decimal_of_text t) (\<lambda>d. Inr (Some d))) (\<lambda>points.
               ebind (decimal_of_text raw_score) (\<lambda>raw.
                 ebind (decimal_of_text max_score) (\<lambda>maximum.
                   Inr \<lparr>bm_raw_score = raw, bm_max_score = maximum, bm_normalized_percentage = pct,
                        bm_band_label = bi_label band, bm_band_descriptor = bi_descriptor band,
                        bm_points = points\<rparr>)))))))"

section \<open>The boundary to the national context\<close>

record binding_decision =
  bd_allowed :: bool
  bd_reason :: string

definition can_bind_school_schema :: "string \<Rightarrow> string \<Rightarrow> bool \<Rightarrow> binding_decision" where
  "can_bind_school_schema assessment_type schema_assessment_type has_cbe_context =
     (if assessment_type = ''cbe_rubric_assessment''
      then \<lparr>bd_allowed = False, bd_reason = ''cbe_rubric_schema_override_denied''\<rparr>
      else if \<not> is_internal_assessment_type assessment_type
      then \<lparr>bd_allowed = False, bd_reason = ''assessment_type_not_internal''\<rparr>
      else if assessment_type \<noteq> schema_assessment_type
      then \<lparr>bd_allowed = False, bd_reason = ''schema_type_mismatch''\<rparr>
      else if \<not> has_cbe_context
      then \<lparr>bd_allowed = False, bd_reason = ''missing_cbe_context''\<rparr>
      else \<lparr>bd_allowed = True, bd_reason = ''allowed''\<rparr>)"

record cbe_band =
  cb_status :: string
  cb_rubric_foundation_id :: "string option"
  cb_resolved_band :: "string option"

definition map_cbe_band :: "string option \<Rightarrow> cbe_band" where
  "map_cbe_band rubric_foundation_id =
     (if truthy rubric_foundation_id
      then \<lparr>cb_status = ''unresolved_due_to_missing_rubric_mapping'',
            cb_rubric_foundation_id = rubric_foundation_id, cb_resolved_band = None\<rparr>
      else \<lparr>cb_status = ''not_applicable'', cb_rubric_foundation_id = None, cb_resolved_band = None\<rparr>)"

end
