(* ===== verification/ScoreFacts.thy ===== *)
theory ScoreFacts
  imports Scores
begin

text \<open>
  Properties of score checking: an accepted batch holds each learner of the roster at most once,
  every score within its bounds and nothing required left out; a NaN is not rejected but raises;
  and scores under unknown component keys count towards the total.
\<close>

section \<open>Bounds\<close>

lemma decimal_of_str [simp]: "decimal_of_text (dec_str d) = Inr d"
proof (cases d)
  case (Inf s)
  have "decimal_of_text ''-Infinity'' = Inr (Inf True)" "decimal_of_text ''Infinity'' = Inr (Inf False)" by code_simp+
  with Inf show ?thesis by (cases s) (simp_all add: dec_str_def)
next
  case QNaN
  have "decimal_of_text ''NaN'' = Inr QNaN" by code_simp
  with QNaN show ?thesis by (simp add: dec_str_def)
next
  case SNaN
  have "decimal_of_text ''sNaN'' = Inr SNaN" by code_simp
  with SNaN show ?thesis by (simp add: dec_str_def)
qed (simp add: decimal_of_dec_str)

definition score_within :: "decimal \<Rightarrow> decimal \<Rightarrow> bool" where
  "score_within maximum d \<longleftrightarrow> dec_le dec_0 d = Inr True \<and> dec_le d maximum = Inr True"

lemma dec_less_le: "dec_less a b = Inr False \<Longrightarrow> dec_le b a = Inr True"
  by (cases a; cases b) (auto simp: dec_less_def dec_le_def dec_sign_finite simp del: dec_sign.simps(1) split: if_splits)

lemma to_decimal_Inr: "to_decimal f t = Inr d \<longleftrightarrow> decimal_of_text t = Inr d"
  by (simp add: to_decimal_def split: sum.splits)

lemma validate_score_bounds_Inr:
  assumes "validate_score_bounds score max_score = Inr d"
  obtains M where "decimal_of_text score = Inr d" "decimal_of_text max_score = Inr M" "score_within M d"
    "dec_le M dec_0 = Inr False"
  using assms dec_less_le
  by (auto simp: validate_score_bounds_def result_simps to_decimal_Inr score_within_def)

lemma bounds_of_decimals:
  "validate_score_bounds (dec_str d) (dec_str M) = Inr v \<Longrightarrow> v = d \<and> score_within M d"
  by (auto elim!: validate_score_bounds_Inr)

text \<open>On finite scores the bound is the numeric one.\<close>

lemma score_within_finite:
  "score_within (Fin s' c' e') d \<longleftrightarrow> (\<exists>s c e. d = Fin s c e \<and> 0 \<le> sval s c e \<and> sval s c e \<le> sval s' c' e')"
proof (cases d)
  case (Fin s c e)
  then show ?thesis by (simp add: score_within_def dec_0_def dec_le_finite sval_def)
qed (auto simp: score_within_def dec_le_def dec_0_def)

section \<open>Batches\<close>

definition row_checked :: "uuid list \<Rightarrow> decimal \<Rightarrow> component list \<Rightarrow> bool \<Rightarrow> grade_row \<Rightarrow> bool" where
  "row_checked roster M components full r \<longleftrightarrow>
     gr_student_id r \<in> set roster \<and>
     (case gr_raw_score r of None \<Rightarrow> \<not> (full \<and> components = []) | Some d \<Rightarrow> score_within M d) \<and>
     (components \<noteq> [] \<longrightarrow> (\<exists>scores. gr_component_scores r = JObj scores \<and>
        (\<forall>c\<in>set components. let v = jget scores (cm_id c) in
           (if blank_value v then \<not> (cm_is_required c \<and> full)
            else \<exists>d. decimal_of_text (json_str v) = Inr d \<and> score_within (cm_max_score c) d))))"

lemma check_component_ok:
  assumes "check_component full scores c = Inr u"
  shows "let v = jget scores (cm_id c) in
           (if blank_value v then \<not> (cm_is_required c \<and> full)
            else \<exists>d. decimal_of_text (json_str v) = Inr d \<and> score_within (cm_max_score c) d)"
  using assms by (auto simp: check_component_def Let_def result_simps score_decimal_def to_decimal_Inr
      dest: bounds_of_decimals split: if_splits)

lemma validate_grade_row_ok:
  assumes "validate_grade_row roster M components full row acc = Inr acc'"
  shows "\<exists>r. acc' = acc @ [r] \<and> gr_student_id r \<notin> gr_student_id ` set acc \<and> row_checked roster M components full r"
proof -
  obtain kvs where row: "row = JObj kvs" using assms by (cases row) (auto simp: validate_grade_row_def)
  let ?sid = "strip (json_str (jget_or kvs ''student_id'' (JStr [])))"
  let ?cs = "or_json (jget kvs ''component_scores'') (JObj [])"
  from assms obtain raw where sid: "?sid \<in> set roster" "?sid \<notin> gr_student_id ` set acc"
    and raw: "(if components \<noteq> [] then component_raw_score M components full ?cs
        else simple_raw_score M full (jget kvs ''raw_score'')) = Inr raw"
    and acc': "acc' = acc @ [\<lparr>gr_student_id = ?sid, gr_raw_score = raw, gr_component_scores = ?cs,
        gr_remarks = json_str (jget_or kvs ''remarks'' (JStr []))\<rparr>]"
    by (auto simp: row validate_grade_row_def Let_def result_simps)
  have "row_checked roster M components full \<lparr>gr_student_id = ?sid, gr_raw_score = raw,
      gr_component_scores = ?cs, gr_remarks = json_str (jget_or kvs ''remarks'' (JStr []))\<rparr>"
  proof (cases "components = []")
    case True
    with raw sid show ?thesis
      by (auto simp: row_checked_def simple_raw_score_def result_simps score_decimal_def
          dest: bounds_of_decimals split: if_splits)
  next
    case False
    with raw obtain scores where cs: "?cs = JObj scores"
      and ck: "\<forall>c\<in>set components. check_component full scores c = Inr ()"
      and r: "raw = None \<or> (\<exists>d. raw = Some d \<and> score_within M d)"
      by (cases ?cs) (auto simp: component_raw_score_def result_simps dest: bounds_of_decimals split: if_splits)
    from r sid(1) cs check_component_ok [OF bspec [OF ck]] False show ?thesis
      by (auto simp: row_checked_def)
  qed
  with acc' sid(2) show ?thesis by auto
qed

lemma grade_rows_fold:
  assumes "efold (validate_grade_row roster M components full) rs acc = Inr out"
    and "distinct (map gr_student_id acc)" "\<forall>r\<in>set acc. row_checked roster M components full r"
  shows "distinct (map gr_student_id out) \<and> (\<forall>r\<in>set out. row_checked roster M components full r)
    \<and> length out = length acc + length rs"
  using assms
proof (induction rs arbitrary: acc)
  case (Cons row rs)
  from Cons.prems(1) obtain acc' where s: "validate_grade_row roster M components full row acc = Inr acc'"
    and f: "efold (validate_grade_row roster M components full) rs acc' = Inr out" by (auto simp: result_simps)
  from validate_grade_row_ok [OF s] obtain r where "acc' = acc @ [r]"
    "gr_student_id r \<notin> gr_student_id ` set acc" "row_checked roster M components full r" by blast
  with Cons.IH [OF f] Cons.prems(2,3) show ?case by auto
qed simp

lemma validated_rows:
  assumes "validate_grade_rows (JList rs) roster M components full = Inr out"
  shows "distinct (map gr_student_id out) \<and> length out = length rs \<and> \<not> (full \<and> out = []) \<and>
    (\<forall>r\<in>set out. row_checked roster M components full r)"
proof -
  from assms have f: "efold (validate_grade_row roster M components full) rs [] = Inr out"
    and c: "\<not> (full \<and> out = [])" by (auto simp: validate_grade_rows_def result_simps)
  from grade_rows_fold [OF f] have "distinct (map gr_student_id out)" "length out = length rs"
    "\<forall>r\<in>set out. row_checked roster M components full r" by auto
  with c show ?thesis by blast
qed

text \<open>C8: An accepted batch holds one row per submitted row, each for a different learner of the
  roster. Every raw score lies between zero and the assessment's maximum; every score given for a
  component lies between zero and the component's maximum; and when a complete batch is required
  it is not empty, no plain score is missing and no required component is blank.\<close>

theorem validate_grade_rows_sound:
  assumes "validate_grade_rows (JList rs) roster M components full = Inr out"
  shows "distinct (map gr_student_id out) \<and> length out = length rs \<and> \<not> (full \<and> out = []) \<and>
    (\<forall>r\<in>set out. gr_student_id r \<in> set roster \<and>
      (case gr_raw_score r of None \<Rightarrow> \<not> (full \<and> components = []) | Some d \<Rightarrow> score_within M d) \<and>
      (components \<noteq> [] \<longrightarrow> (\<exists>scores. gr_component_scores r = JObj scores \<and>
        (\<forall>c\<in>set components. if blank_value (jget scores (cm_id c)) then \<not> (cm_is_required c \<and> full)
            else \<exists>d. decimal_of_text (json_str (jget scores (cm_id c))) = Inr d \<and> score_within (cm_max_score c) d))))"
  using validated_rows [OF assms] unfolding row_checked_def Let_def by blast

text \<open>A score of NaN is neither accepted nor refused with a validation error: comparing it
  raises InvalidOperation, whatever the maximum, as long as the maximum is a positive number.\<close>

theorem validate_score_bounds_nan:
  assumes "decimal_of_text max_score = Inr (Fin s c e)" and "0 < sval s c e"
  shows "validate_score_bounds ''NaN'' max_score = Inl InvalidOperation"
proof -
  have "decimal_of_text ''NaN'' = Inr QNaN" by code_simp
  moreover have "dec_le (Fin s c e) dec_0 = Inr False" using assms(2) by (simp add: dec_0_def dec_le_finite sval_def)
  ultimately show ?thesis using assms(1)
    by (simp add: validate_score_bounds_def to_decimal_def dec_less_def dec_0_def)
qed

text \<open>A score under a key that is no component of the assessment is not checked on its own but
  counts towards the total: with one component worth 60, a learner given 50 for it and -20 under an
  unknown key is accepted as complete with a raw score of 30.\<close>

theorem unknown_component_key_counts:
  "validate_grade_rows
     (JList [JObj [(''student_id'', JStr ''s1''),
        (''component_scores'', JObj [(''c1'', JInt 50), (''other'', JInt (-20))])]])
     [''s1''] (Fin False 6000 (-2))
     [\<lparr>cm_id = ''c1'', cm_name = ''Paper 1'', cm_max_score = Fin False 6000 (-2), cm_is_required = True,
       cm_order = 1, cm_rubric = None\<rparr>] True
   = Inr [\<lparr>gr_student_id = ''s1'', gr_raw_score = Some (Fin False 3000 (-2)),
       gr_component_scores = JObj [(''c1'', JInt 50), (''other'', JInt (-20))], gr_remarks = []\<rparr>]"
proof -
  have t: "decimal_of_text (int_str 50) = Inr (Fin False 50 0)" "decimal_of_text (int_str (-20)) = Inr (Fin True 20 0)"
    "int_str 50 \<noteq> []" "int_str (-20) \<noteq> []" by code_simp+
  have s: "strip ''s1'' = ''s1''" by code_simp
  note add = dec_fix_def align_def signed_def of_signed_def ndigits.simps dec_prec_def dec_Etop_def dec_Etiny_def
  have a: "dec_add (Fin False 0 (-2)) (Fin False 50 0) = Inr (Fin False 5000 (-2))"
    "dec_add (Fin False 5000 (-2)) (Fin True 20 0) = Inr (Fin False 3000 (-2))"
    by (simp_all add: add Let_def)
  have b: "validate_score_bounds (dec_str (Fin False 50 0)) (dec_str (Fin False 6000 (-2))) = Inr (Fin False 50 0)"
    "validate_score_bounds (dec_str (Fin False 3000 (-2))) (dec_str (Fin False 6000 (-2))) = Inr (Fin False 3000 (-2))"
    by (simp_all add: validate_score_bounds_def to_decimal_def dec_le_def dec_less_def dec_0_def align_def signed_def)
  show ?thesis
    by (simp add: validate_grade_rows_def validate_grade_row_def component_raw_score_def check_component_def
        component_total_def score_decimal_def to_decimal_def blank_value_def jget_def jget_or_def or_json_def
        Let_def s t a b del: dec_add.simps)
qed

section \<open>Runs\<close>

lemma small_scores:
  "decimal_of_text (int_str 7) = Inr (Fin False 7 0)"
  "validate_score_bounds (dec_str (Fin False 7 0)) (dec_str (Fin False 1000 (-2))) = Inr (Fin False 7 0)"
proof -
  show "decimal_of_text (int_str 7) = Inr (Fin False 7 0)" by code_simp
  show "validate_score_bounds (dec_str (Fin False 7 0)) (dec_str (Fin False 1000 (-2))) = Inr (Fin False 7 0)"
    by (simp add: validate_score_bounds_def to_decimal_def dec_le_def dec_less_def dec_0_def align_def signed_def)
qed

theorem validate_grade_rows_sound_witness:
  "\<exists>out. validate_grade_rows (JList [JObj [(''student_id'', JStr ''s1''), (''raw_score'', JInt 7)]]) [''s1'']
      (Fin False 1000 (-2)) [] True = Inr out \<and> distinct (map gr_student_id out) \<and> length out = 1"
proof -
  have s: "strip ''s1'' = ''s1''" by code_simp
  have e: "\<exists>out. validate_grade_rows (JList [JObj [(''student_id'', JStr ''s1''), (''raw_score'', JInt 7)]]) [''s1'']
      (Fin False 1000 (-2)) [] True = Inr out"
    by (simp add: validate_grade_rows_def validate_grade_row_def simple_raw_score_def score_decimal_def
        to_decimal_def blank_value_def jget_def jget_or_def or_json_def Let_def s small_scores)
  then obtain out where o: "validate_grade_rows (JList [JObj [(''student_id'', JStr ''s1''), (''raw_score'', JInt 7)]]) [''s1'']
      (Fin False 1000 (-2)) [] True = Inr out" ..
  from validate_grade_rows_sound [OF o] o show ?thesis by auto
qed

theorem validate_score_bounds_nan_witness: "validate_score_bounds ''NaN'' ''100.00'' = Inl InvalidOperation"
proof -
  have "decimal_of_text ''100.00'' = Inr (Fin False 10000 (-2))"
    using decimal_of_rendered [of "''100''" "''00''" False 0]
    by (simp add: exponent_text_def read_nat_def) (code_simp)
  from validate_score_bounds_nan [OF this] show ?thesis by (simp add: sval_def dval_def)
qed

end
