(* ===== verification/BandFacts.thy ===== *)
theory BandFacts
  imports Bands ScoreFacts
begin

text \<open>
  Properties of school grading schemas: a schema the validator accepts as a full cover of the
  percentages puts every possible score in exactly one band, and that band is the one the mapper
  returns; and a school schema never binds to a national rubric assessment.
\<close>

section \<open>Bands on the hundredths grid\<close>

definition cents :: "nat \<Rightarrow> decimal" where
  "cents n = Fin False n (-2)"

definition grid :: "nat \<times> nat \<Rightarrow> decimal \<times> decimal" where
  "grid p = (cents (fst p), cents (snd p))"

text \<open>A band as the tables store it: both ends in hundredths of a percent.\<close>

definition grid_band :: "band_input \<Rightarrow> bool" where
  "grid_band b \<longleftrightarrow> (\<exists>lo hi. decimal_of_text (bi_min b) = Inr (cents lo) \<and> decimal_of_text (bi_max b) = Inr (cents hi))"

definition in_band :: "nat \<Rightarrow> band_input \<Rightarrow> bool" where
  "in_band n b \<longleftrightarrow> (case (decimal_of_text (bi_min b), decimal_of_text (bi_max b)) of
     (Inr lo, Inr hi) \<Rightarrow> dec_le lo (cents n) = Inr True \<and> dec_le (cents n) hi = Inr True | _ \<Rightarrow> False)"

definition covers :: "nat \<Rightarrow> decimal \<times> decimal \<Rightarrow> bool" where
  "covers n p \<longleftrightarrow> dec_le (fst p) (cents n) = Inr True \<and> dec_le (cents n) (snd p) = Inr True"

lemma dec_le_cents [simp]: "dec_le (cents m) (cents n) = Inr (m \<le> n)"
  by (simp add: cents_def dec_le_finite)

lemma dec_less_cents [simp]: "dec_less (cents m) (cents n) = Inr (m < n)"
  by (simp add: cents_def dec_less_finite)

lemma sval_100: "sval False 100 0 = sval False 10000 (-2)"
  using dval_shift [of 100 2 "-2"] by (simp add: sval_def)

lemma hundred_cents [simp]: "dec_less dec_100 (cents n) = Inr (10000 < n)" "dec_less (cents n) dec_0 = Inr False"
  by (simp_all add: dec_100_def dec_0_def cents_def dec_less_finite sval_100)
    (simp add: sval_def)

lemma dec_key_cents [simp]: "dec_key (cents m) = dec_key (cents n) \<longleftrightarrow> m = n"
  by (simp add: dec_key_def cents_def sval_def dval_def)

lemma dec_eq_cents [simp]: "dec_eq (cents m) (cents n) = Inr (m = n)"
  by (simp add: dec_eq_def) (simp add: cents_def)

lemma dec_eq_ends [simp]: "dec_eq (cents n) dec_0 = Inr (n = 0)" "dec_eq (cents n) dec_100 = Inr (n = 10000)"
proof -
  have "dec_key dec_0 = dec_key (cents 0)" by (simp add: dec_key_def dec_0_def cents_def sval_def)
  moreover have "dec_key dec_100 = dec_key (cents 10000)" by (simp add: dec_key_def dec_100_def cents_def sval_100)
  ultimately show "dec_eq (cents n) dec_0 = Inr (n = 0)" "dec_eq (cents n) dec_100 = Inr (n = 10000)"
    by (simp_all add: dec_eq_def) (simp_all add: cents_def dec_0_def dec_100_def)
qed

lemma next_cent: "n \<le> 10000 \<Longrightarrow> dec_add (cents n) dec_cent = Inr (cents (n + 1))"
proof -
  assume n: "n \<le> 10000"
  then have "n + 1 < 10 ^ 28" by simp
  then have "ndigits (n + 1) \<le> 28" using ndigits_le_iff [of 28 "n + 1"] by simp
  then show ?thesis
    by (simp add: cents_def dec_cent_def align_def signed_def of_signed_def dec_fix_def Let_def dec_prec_def
        dec_Etop_def dec_Etiny_def nat_add_distrib)
qed

section \<open>What the checks of the validator say\<close>

fun chain :: "(nat \<times> nat) list \<Rightarrow> bool" where
  "chain (p # q # ps) \<longleftrightarrow> fst q = snd p + 1 \<and> chain (q # ps)"
| "chain _ \<longleftrightarrow> True"

lemma range_error_grid:
  "range_error (grid p) = Inr (if 10000 < snd p \<or> snd p < fst p then [''invalid_range''] else [])"
  by (simp add: range_error_def grid_def)

lemma emap_range_error:
  "emap range_error (map grid ms) = Inr (map (\<lambda>p. if 10000 < snd p \<or> snd p < fst p then [''invalid_range''] else []) ms)"
  by (induction ms) (simp_all add: range_error_grid)

lemma if_append_Nil: "(if p then [] else [x]) @ ys = [] \<longleftrightarrow> p \<and> ys = []"
  by simp

lemma coverage_grid:
  assumes "ms \<noteq> []"
  shows "coverage_errors (map grid ms) = Inr [] \<longleftrightarrow>
    fst (hd ms) = 0 \<and> snd (last ms) = 10000 \<and> gap_errors (map grid ms) = Inr []"
proof -
  have "fst (hd (map grid ms)) = cents (fst (hd ms))" "snd (last (map grid ms)) = cents (snd (last ms))"
    using assms by (simp_all add: hd_map last_map grid_def)
  then have "coverage_errors (map grid ms) = ebind (gap_errors (map grid ms)) (\<lambda>gaps.
      Inr ((if fst (hd ms) = 0 then [] else [''coverage_gap'']) @
        (if snd (last ms) = 10000 then [] else [''coverage_gap'']) @ gaps))"
    using assms by (simp add: coverage_errors_def)
  then show ?thesis by (cases "gap_errors (map grid ms)") (simp_all only: ebind_simps sum.inject if_append_Nil sum.simps, simp)
qed

lemma gap_errors_grid:
  "\<forall>p\<in>set ms. snd p \<le> 10000 \<Longrightarrow> gap_errors (map grid ms) = Inr [] \<Longrightarrow> chain ms"
proof (induction ms rule: chain.induct)
  case (1 p q ps)
  then have "gap_errors (grid p # grid q # map grid ps) = Inr []" by simp
  then have "fst q = snd p + 1 \<and> gap_errors (map grid (q # ps)) = Inr []"
    using 1(2) next_cent [of "snd p"] by (simp add: grid_def split: if_splits)
  with 1 show ?case by simp
qed simp_all

text \<open>A chain of ranges holds every number between its ends exactly once.\<close>

lemma chain_below: "chain ms \<Longrightarrow> \<forall>p\<in>set ms. fst p \<le> snd p \<Longrightarrow> ms \<noteq> [] \<Longrightarrow> n < fst (hd ms) \<Longrightarrow>
    filter (\<lambda>p. fst p \<le> n \<and> n \<le> snd p) ms = []"
  by (induction ms rule: chain.induct) auto

lemma chain_once:
  "chain ms \<Longrightarrow> \<forall>p\<in>set ms. fst p \<le> snd p \<Longrightarrow> ms \<noteq> [] \<Longrightarrow> fst (hd ms) \<le> n \<Longrightarrow> n \<le> snd (last ms) \<Longrightarrow>
    length (filter (\<lambda>p. fst p \<le> n \<and> n \<le> snd p) ms) = 1"
proof (induction ms rule: chain.induct)
  case (1 p q ps)
  show ?case
  proof (cases "n \<le> snd p")
    case True
    then have "filter (\<lambda>p. fst p \<le> n \<and> n \<le> snd p) (q # ps) = []"
      using 1(2,3) by (intro chain_below) auto
    then show ?thesis using True 1(5) by simp
  next
    case False
    then show ?thesis using 1 by auto
  qed
qed auto

lemma sort_ranges_grid:
  assumes "\<forall>x\<in>set xs. \<exists>p. f x = grid p"
  shows "sort_ranges f xs = Inr (sort_key (\<lambda>x. (dec_key (fst (f x)), dec_key (snd (f x)))) xs)"
proof -
  have "\<not> sort_raises (map f xs)"
    using assms by (auto simp: sort_raises_def is_nan_def grid_def cents_def)
  then show ?thesis by (simp add: sort_ranges_def)
qed

lemma band_range_grid: "grid_band b \<Longrightarrow> \<exists>p. band_range b = Inr (grid p)"
  by (auto simp: grid_band_def band_range_def grid_def)

lemma emap_grid:
  "\<forall>b\<in>set bands. grid_band b \<Longrightarrow> \<exists>rs. emap band_range bands = Inr rs \<and> (\<forall>r\<in>set rs. \<exists>p. r = grid p) \<and>
     list_all2 (\<lambda>b r. band_range b = Inr r) bands rs"
proof (induction bands)
  case (Cons b bands)
  then obtain p rs where "band_range b = Inr (grid p)" "emap band_range bands = Inr rs"
    "\<forall>r\<in>set rs. \<exists>p. r = grid p" "list_all2 (\<lambda>b r. band_range b = Inr r) bands rs"
    using band_range_grid by fastforce
  then show ?case by (auto simp del: split_paired_Ex)
qed simp

lemma in_band_covers: "band_range b = Inr r \<Longrightarrow> in_band n b \<longleftrightarrow> covers n r"
  by (auto simp: band_range_def in_band_def covers_def result_simps)

lemma filter_all2:
  "list_all2 (\<lambda>b r. band_range b = Inr r) bands rs \<Longrightarrow> length (filter (in_band n) bands) = length (filter (covers n) rs)"
  by (induction rule: list_all2_induct) (auto simp: in_band_covers)

lemma covers_grid: "covers n (grid p) \<longleftrightarrow> fst p \<le> n \<and> n \<le> snd p"
  by (simp add: covers_def grid_def)

lemma two_binds: "ebind m (\<lambda>a. ebind k (\<lambda>b. Inr (f a b))) = Inr v \<Longrightarrow> \<exists>a b. m = Inr a \<and> k = Inr b \<and> v = f a b"
  by (auto simp: result_simps)

lemma valid_schema_once:
  assumes "validate_schema_bands bands True = Inr v" "sv_is_valid v" "\<forall>b\<in>set bands. grid_band b" "n \<le> 10000"
  shows "length (filter (in_band n) bands) = 1"
proof -
  from emap_grid [OF assms(3)] obtain rs where rs: "emap band_range bands = Inr rs"
    "\<forall>r\<in>set rs. \<exists>p. r = grid p" "list_all2 (\<lambda>b r. band_range b = Inr r) bands rs" by blast
  let ?s = "sort_key (\<lambda>x. (dec_key (fst (id x)), dec_key (snd (id x)))) rs"
  have sr: "sort_ranges id rs = Inr ?s" by (rule sort_ranges_grid) (use rs(2) in auto)
  have "\<forall>r\<in>set ?s. \<exists>p. r = grid p" using rs(2) by simp
  then obtain ms where ms: "?s = map grid ms" using ex_map_conv [of ?s grid] by auto
  define errs where "errs = concat (map (\<lambda>p. if 10000 < snd p \<or> snd p < fst p then [''invalid_range''] else []) ms)"
  have "validate_schema_bands bands True = ebind (overlap_errors (map grid ms)) (\<lambda>ov.
      ebind (coverage_errors (map grid ms)) (\<lambda>cov.
        let errors = (if map grid ms = [] then [''bands_required''] else []) @ errs @ ov @ cov
        in Inr \<lparr>sv_is_valid = (errors = []), sv_errors = py_sorted_set errors\<rparr>))"
    unfolding validate_schema_bands_def rs(1) ebind_simps sr ms emap_range_error errs_def if_True by (rule refl)
  then have "ebind (overlap_errors (map grid ms)) (\<lambda>ov. ebind (coverage_errors (map grid ms)) (\<lambda>cov.
        Inr \<lparr>sv_is_valid = ((if map grid ms = [] then [''bands_required''] else []) @ errs @ ov @ cov = []),
          sv_errors = py_sorted_set ((if map grid ms = [] then [''bands_required''] else []) @ errs @ ov @ cov)\<rparr>)) = Inr v"
    using assms(1) unfolding Let_def by (rule subst)
  from two_binds [OF this] obtain ov cov where cv: "coverage_errors (map grid ms) = Inr cov"
    and v: "v = \<lparr>sv_is_valid = ((if map grid ms = [] then [''bands_required''] else []) @ errs @ ov @ cov = []),
          sv_errors = py_sorted_set ((if map grid ms = [] then [''bands_required''] else []) @ errs @ ov @ cov)\<rparr>"
    by blast
  have "sv_is_valid v \<longleftrightarrow> (if map grid ms = [] then [''bands_required''] else []) @ errs @ ov @ cov = []"
    unfolding v by (rule schema_validation.select_convs(1))
  with assms(2) have parts: "(if map grid ms = [] then [''bands_required''] else []) = []" "errs = []" "cov = []"
    by (simp_all only: append_is_Nil_conv)
  have ne: "ms \<noteq> []"
  proof
    assume "ms = []"
    with parts(1) show False by simp
  qed
  have rg: "\<forall>p\<in>set ms. snd p \<le> 10000 \<and> fst p \<le> snd p"
  proof
    fix p assume "p \<in> set ms"
    then have "(if 10000 < snd p \<or> snd p < fst p then [''invalid_range''] else [])
        \<in> set (map (\<lambda>p. if 10000 < snd p \<or> snd p < fst p then [''invalid_range''] else []) ms)"
      unfolding set_map by (rule imageI)
    then have "(if 10000 < snd p \<or> snd p < fst p then [''invalid_range''] else []) = []"
      by (rule bspec [OF parts(2) [unfolded errs_def concat_eq_Nil_conv]])
    then show "snd p \<le> 10000 \<and> fst p \<le> snd p" by (auto split: if_splits)
  qed
  from coverage_grid [OF ne] cv [unfolded parts(3)]
  have "gap_errors (map grid ms) = Inr []" "fst (hd ms) = 0" "snd (last ms) = 10000" by simp_all
  then have "length (filter (\<lambda>p. fst p \<le> n \<and> n \<le> snd p) ms) = 1"
    using ne rg assms(4) by (intro chain_once gap_errors_grid) auto
  then have "length (filter (covers n) ?s) = 1"
    unfolding ms by (simp add: filter_map comp_def covers_grid)
  moreover have "length (filter (covers n) ?s) = length (filter (covers n) rs)"
    by (rule mset_eq_length) (simp only: mset_filter mset_sort)
  ultimately show ?thesis using filter_all2 [OF rs(3)] by simp
qed

section \<open>The mapper\<close>

lemma find_band_covers:
  assumes "\<forall>x\<in>set xs. \<exists>p. snd x = grid p" and "\<exists>x\<in>set xs. covers n (snd x)"
  shows "\<exists>x\<in>set xs. covers n (snd x) \<and> find_band (cents n) xs = Inr (fst x)"
  using assms
proof (induction xs)
  case (Cons x xs)
  obtain p where "snd x = grid p" using Cons.prems(1) by auto
  then obtain b where x: "x = (b, grid p)" by (metis prod.collapse)
  show ?case
  proof (cases "covers n (grid p)")
    case True
    then have "find_band (cents n) (x # xs) = Inr b" by (simp add: x grid_def covers_def)
    then show ?thesis using True by (simp add: x)
  next
    case False
    then have "find_band (cents n) (x # xs) = find_band (cents n) xs"
      by (auto simp: x covers_def grid_def)
    with Cons False x show ?thesis by auto
  qed
qed simp

lemma percent_bound: "a \<le> b \<Longrightarrow> 0 < b \<Longrightarrow> (20000 * a + b) div (2 * b) \<le> (10000::nat)"
proof -
  assume "a \<le> b" "0 < b"
  then have "20000 * a + b < (2 * b) * 10001" by simp
  then show ?thesis using \<open>0 < b\<close> by (simp add: less_mult_imp_div_less le_simps(2) [symmetric])
qed

lemma normalize_percentage_cents:
  assumes "a \<le> b" "0 < b" "b < 10 ^ 20"
  shows "normalize_percentage (dec_str (cents a)) (dec_str (cents b)) = Inr (cents ((20000 * a + b) div (2 * b)))"
proof -
  have "dec_le (cents b) dec_0 = Inr False"
    using assms(2) by (simp add: cents_def dec_0_def dec_le_finite sval_def dval_def)
  moreover have "dec_percent (cents a) (cents b) = Inr (cents ((20000 * a + b) div (2 * b)))"
    unfolding cents_def by (rule dec_percent_exact [OF assms])
  moreover have "decimal_of_text (dec_str (cents k)) = Inr (cents k)" for k by simp
  ultimately show ?thesis
    using assms(1) by (simp add: normalize_percentage_def del: decimal_of_str)
qed

text \<open>The percentage of a score is exact. For every score and maximum in hundredths, up to
  10^20 of them, dividing to 28 digits, scaling and quantising gives the quotient in hundredths of
  a percent rounded half up, although the code rounds three times.\<close>

theorem normalize_percentage_exact:
  assumes "a \<le> b" "0 < b" "b < 10 ^ 20"
  shows "normalize_percentage (dec_str (Fin False a (-2))) (dec_str (Fin False b (-2)))
    = Inr (Fin False (nat \<lfloor>10000 * (of_nat a / of_nat b) + 1 / 2 :: rat\<rfloor>) (-2))"
proof -
  have "10000 * (of_nat a / of_nat b) + 1 / 2 = (of_int (int (20000 * a + b)) / of_int (int (2 * b)) :: rat)"
    using assms(2) by (simp add: field_simps)
  then have "\<lfloor>10000 * (of_nat a / of_nat b) + 1 / 2 :: rat\<rfloor> = int (20000 * a + b) div int (2 * b)"
    by (simp only: floor_divide_of_int_eq)
  then show ?thesis
    using normalize_percentage_cents [OF assms] by (simp only: cents_def zdiv_int [symmetric] nat_int)
qed

lemma schema_maps_score:
  assumes "validate_schema_bands bands True = Inr v" and "sv_is_valid v" and "\<forall>c\<in>set bands. grid_band c"
    and points: "\<forall>c\<in>set bands. case bi_points c of None \<Rightarrow> True | Some t \<Rightarrow> \<exists>d. decimal_of_text t = Inr d" and "a \<le> b" and "0 < b" and "b < 10 ^ 20"
  shows "\<exists>band m. filter (in_band ((20000 * a + b) div (2 * b))) bands = [band] \<and>
    map_score_to_band (dec_str (Fin False a (-2))) (dec_str (Fin False b (-2))) bands = Inr m \<and>
    bm_band_label m = bi_label band \<and> bm_band_descriptor m = bi_descriptor band \<and>
    bm_normalized_percentage m = Fin False ((20000 * a + b) div (2 * b)) (-2)"
proof -
  let ?n = "(20000 * a + b) div (2 * b)"
  have one: "length (filter (in_band ?n) bands) = 1"
    by (rule valid_schema_once [OF assms(1-3) percent_bound [OF assms(5,6)]])
  then obtain band where band: "filter (in_band ?n) bands = [band]"
    by (metis One_nat_def length_0_conv length_Suc_conv)
  from emap_grid [OF assms(3)] obtain rs where rs: "emap band_range bands = Inr rs"
    "\<forall>r\<in>set rs. \<exists>p. r = grid p" "list_all2 (\<lambda>b r. band_range b = Inr r) bands rs" by blast
  let ?zs = "zip bands rs" let ?k = "\<lambda>x. (dec_key (fst (snd x)), dec_key (snd (snd x)))"
  have sr: "sort_ranges snd ?zs = Inr (sort_key ?k ?zs)"
    by (rule sort_ranges_grid) (use rs(2) in \<open>auto dest: set_zip_rightD\<close>)
  have zr: "band_range (fst x) = Inr (snd x)" "fst x \<in> set bands" if "x \<in> set ?zs" for x
    using rs(3) that by (cases x; auto simp: list_all2_iff dest: set_zip_leftD)+
  have "band \<in> set (filter (in_band ?n) bands)" unfolding band by simp
  then have "band \<in> set bands" "in_band ?n band" by simp_all
  then obtain i where i: "i < length bands" "bands ! i = band" by (auto simp: in_set_conv_nth)
  have len: "length rs = length bands" using rs(3) by (simp add: list_all2_lengthD)
  then have "(band, rs ! i) \<in> set ?zs" using i by (auto simp: in_set_zip)
  with zr [OF this] \<open>in_band ?n band\<close> have "\<exists>x\<in>set (sort_key ?k ?zs). covers ?n (snd x)"
    by (auto simp: in_band_covers intro!: bexI [of _ "(band, rs ! i)"])
  moreover have "\<forall>x\<in>set (sort_key ?k ?zs). \<exists>p. snd x = grid p" using rs(2) by (auto dest: set_zip_rightD)
  ultimately obtain x where "x \<in> set (sort_key ?k ?zs)" and x2: "covers ?n (snd x)"
    and fb: "find_band (cents ?n) (sort_key ?k ?zs) = Inr (fst x)"
    using find_band_covers [of "sort_key ?k ?zs" ?n] by blast
  then have x: "x \<in> set ?zs" unfolding set_sort by blast
  note x = x x2
  have "fst x \<in> set (filter (in_band ?n) bands)" using x zr [OF x(1)] by (simp add: in_band_covers)
  then have xb: "fst x = band" using band by simp
  have parsed: "decimal_of_text (dec_str (cents k)) = Inr (cents k)" for k by simp
  have "\<exists>p. (case bi_points band of None \<Rightarrow> Inr None | Some t \<Rightarrow> ebind (decimal_of_text t) (\<lambda>d. Inr (Some d))) = Inr p"
    using bspec [OF points \<open>band \<in> set bands\<close>] by (cases "bi_points band") auto
  then obtain p where p: "(case bi_points band of None \<Rightarrow> Inr None | Some t \<Rightarrow> ebind (decimal_of_text t) (\<lambda>d. Inr (Some d))) = Inr p" by blast
  have "map_score_to_band (dec_str (cents a)) (dec_str (cents b)) bands =
      Inr \<lparr>bm_raw_score = cents a, bm_max_score = cents b, bm_normalized_percentage = cents ?n,
        bm_band_label = bi_label band, bm_band_descriptor = bi_descriptor band, bm_points = p\<rparr>"
    unfolding map_score_to_band_def normalize_percentage_cents [OF assms(5-7)] ebind_simps rs(1) sr fb xb
      parsed p by (rule refl)
  then show ?thesis using band by (auto simp: cents_def)
qed

text \<open>A schema that validates as a full cover decides every score. For every score between
  zero and the maximum, exactly one of its bands holds the percentage, and the mapper returns that
  band with the exact percentage: no score falls between two bands and none into both.\<close>

theorem valid_schema_maps_every_score:
  assumes "validate_schema_bands bands True = Inr v" and "sv_is_valid v" and "\<forall>c\<in>set bands. grid_band c"
    and "\<forall>c\<in>set bands. bi_points c = None" and "a \<le> b" and "0 < b" and "b < 10 ^ 20"
  shows "\<exists>band m. filter (in_band ((20000 * a + b) div (2 * b))) bands = [band] \<and>
    map_score_to_band (dec_str (Fin False a (-2))) (dec_str (Fin False b (-2))) bands = Inr m \<and>
    bm_band_label m = bi_label band \<and> bm_band_descriptor m = bi_descriptor band \<and>
    bm_normalized_percentage m = Fin False ((20000 * a + b) div (2 * b)) (-2)"
proof -
  have "\<forall>c\<in>set bands. case bi_points c of None \<Rightarrow> True | Some t \<Rightarrow> \<exists>d. decimal_of_text t = Inr d" using assms(4) by simp
  from schema_maps_score [OF assms(1-3) this assms(5-7)] show ?thesis .
qed

section \<open>Instances\<close>

theorem normalize_percentage_exact_witness:
  "normalize_percentage (dec_str (Fin False 100 (-2))) (dec_str (Fin False 300 (-2))) = Inr (Fin False 3333 (-2))"
proof -
  have "\<lfloor>20003 / 6 :: rat\<rfloor> = 3333" by (rule floor_unique) simp_all
  then show ?thesis using normalize_percentage_exact [of 100 300] by simp
qed

definition sample_bands :: "band_input list" where
  "sample_bands =
     [\<lparr>bi_label = ''BE'', bi_descriptor = ''below'', bi_min = ''0.00'', bi_max = ''49.99'', bi_points = None\<rparr>,
      \<lparr>bi_label = ''ME'', bi_descriptor = ''meets'', bi_min = ''50.00'', bi_max = ''100.00'', bi_points = None\<rparr>]"

lemma sample_texts:
  "decimal_of_text ''0.00'' = Inr (cents 0)" "decimal_of_text ''49.99'' = Inr (cents 4999)"
  "decimal_of_text ''50.00'' = Inr (cents 5000)" "decimal_of_text ''100.00'' = Inr (cents 10000)"
  unfolding cents_def by code_simp+

lemma sample_ranges: "emap band_range sample_bands = Inr (map grid [(0, 4999), (5000, 10000)])"
  by (simp add: sample_bands_def band_range_def sample_texts grid_def)

lemma sample_sorted:
  "sort_ranges id (map grid [(0, 4999), (5000, 10000)]) = Inr (map grid [(0, 4999), (5000, 10000)])"
proof -
  have "sort_ranges id (map grid [(0, 4999), (5000, 10000)]) =
      Inr (sort_key (\<lambda>x. (dec_key (fst (id x)), dec_key (snd (id x)))) (map grid [(0, 4999), (5000, 10000)]))"
    by (rule sort_ranges_grid) auto
  moreover have "dec_key (cents 0) < dec_key (cents 5000)"
    by (simp add: dec_key_def cents_def sval_def dval_def less_prod_def)
  ultimately show ?thesis by (simp add: grid_def less_le_not_le)
qed

lemma sample_valid: "\<exists>v. validate_schema_bands sample_bands True = Inr v \<and> sv_is_valid v"
  by (simp add: validate_schema_bands_def sample_ranges sample_sorted emap_range_error coverage_errors_def
      del: list.map) (simp add: grid_def next_cent)

lemma sample_grid: "\<forall>c\<in>set sample_bands. grid_band c" "\<forall>c\<in>set sample_bands. bi_points c = None"
  by (auto simp: sample_bands_def grid_band_def sample_texts)

theorem valid_schema_maps_every_score_witness:
  "\<exists>m. map_score_to_band (dec_str (Fin False 100 (-2))) (dec_str (Fin False 200 (-2))) sample_bands = Inr m \<and>
    bm_band_label m = ''ME''"
proof -
  obtain v where "validate_schema_bands sample_bands True = Inr v" "sv_is_valid v" using sample_valid by blast
  from valid_schema_maps_every_score [OF this sample_grid, of 100 200]
  obtain band m where "filter (in_band 5000) sample_bands = [band]"
    "map_score_to_band (dec_str (Fin False 100 (-2))) (dec_str (Fin False 200 (-2))) sample_bands = Inr m"
    "bm_band_label m = bi_label band" by auto
  then show ?thesis by (auto simp: sample_bands_def in_band_def sample_texts)
qed

end
