(* ===== verification/Identity.thy ===== *)
theory Identity
  imports EventRules
begin

text \<open>
  Who may do what: schools, users, roles and the bindings that give a user a role inside a school
  (core/models.py, tenant/models.py), the selectors that read them (core/selectors.py), and the
  fail-closed policy checks of core/policies.py, tenant/policies.py and events/policies.py.
  An object a caller passes (the acting user, the tenant, a role) is a row as it was read; the
  tables hold the rows the queries see.
\<close>

section \<open>Rows\<close>

record school =
  sc_id :: uuid
  sc_is_active :: bool

record user =
  us_id :: uuid
  us_is_active :: bool

record role_row =
  ro_id :: uuid
  ro_code :: string
  ro_name :: string
  ro_description :: string
  ro_is_active :: bool

record role_binding =
  rb_id :: uuid
  rb_tenant :: uuid
  rb_user :: uuid
  rb_role :: uuid
  rb_is_active :: bool
  rb_updated_at :: time

record identity_db =
  schools :: "school list"
  users :: "user list"
  roles :: "role_row list"
  role_bindings :: "role_binding list"

text \<open>The values of \<open>Role.RoleCode\<close>, in the order they are declared, with their labels.\<close>

definition role_codes :: "(string \<times> string) list" where
  "role_codes =
     [(''principal'', ''Principal''), (''deputy_principal'', ''Deputy Principal''),
      (''hod'', ''Head of Department''), (''class_teacher'', ''Class Teacher''),
      (''subject_teacher'', ''Subject Teacher''), (''school_admin'', ''School Admin''),
      (''guardian'', ''Guardian''), (''auditor'', ''Auditor'')]"

section \<open>Selectors (core/selectors.py)\<close>

text \<open>A condition on the row a foreign key points to.\<close>

definition role_row_is :: "(role_row \<Rightarrow> bool) \<Rightarrow> 'a identity_db_scheme \<Rightarrow> uuid \<Rightarrow> bool" where
  "role_row_is P db rid \<longleftrightarrow> (\<exists>r\<in>set (roles db). ro_id r = rid \<and> P r)"

definition user_active :: "'a identity_db_scheme \<Rightarrow> uuid \<Rightarrow> bool" where
  "user_active db uid \<longleftrightarrow> (\<exists>u\<in>set (users db). us_id u = uid \<and> us_is_active u)"

definition school_active :: "'a identity_db_scheme \<Rightarrow> uuid \<Rightarrow> bool" where
  "school_active db sid \<longleftrightarrow> (\<exists>s\<in>set (schools db). sc_id s = sid \<and> sc_is_active s)"

definition get_active_tenant_user_role_bindings ::
  "'a identity_db_scheme \<Rightarrow> user option \<Rightarrow> school option \<Rightarrow> role_binding list result" where
  "get_active_tenant_user_role_bindings db user tenant =
     (if user = None \<and> tenant = None then Inl (ValueError ''Either user or tenant is required.'')
      else Inr (filter (\<lambda>b. rb_is_active b \<and> role_row_is ro_is_active db (rb_role b)
          \<and> user_active db (rb_user b) \<and> school_active db (rb_tenant b)
          \<and> (case user of None \<Rightarrow> True | Some u \<Rightarrow> rb_user b = us_id u)
          \<and> (case tenant of None \<Rightarrow> True | Some t \<Rightarrow> rb_tenant b = sc_id t)) (role_bindings db)))"

definition get_roles_for_user_in_tenant ::
  "'a identity_db_scheme \<Rightarrow> user option \<Rightarrow> school option \<Rightarrow> role_row list" where
  "get_roles_for_user_in_tenant db user tenant =
     (if user = None \<or> tenant = None then []
      else case get_active_tenant_user_role_bindings db user tenant of
        Inl _ \<Rightarrow> []
      | Inr bs \<Rightarrow> filter (\<lambda>r. ro_id r \<in> rb_role ` set bs \<and> ro_is_active r) (roles db))"

definition user_has_role_in_tenant ::
  "'a identity_db_scheme \<Rightarrow> user option \<Rightarrow> school option \<Rightarrow> string \<Rightarrow> bool" where
  "user_has_role_in_tenant db user tenant role_code =
     (if user = None \<or> tenant = None \<or> role_code = [] then False
      else \<exists>r\<in>set (get_roles_for_user_in_tenant db user tenant). ro_code r = role_code)"

definition get_principal_role :: "'a identity_db_scheme \<Rightarrow> role_row option" where
  "get_principal_role db = first_where (\<lambda>r. ro_code r = ''principal'' \<and> ro_is_active r) (roles db)"

section \<open>Default roles (core/services.py)\<close>

definition DEFAULT_ROLE_DESCRIPTIONS :: "(string \<times> string) list" where
  "DEFAULT_ROLE_DESCRIPTIONS =
     [(''principal'', ''School-wide administrative capability.''),
      (''deputy_principal'', ''Delegated school leadership capability.''),
      (''hod'', ''Department-level coordination capability.''),
      (''class_teacher'', ''Class-level pastoral and academic capability.''),
      (''subject_teacher'', ''Subject instruction capability.''),
      (''school_admin'', ''School operations administration capability.''),
      (''guardian'', ''Learner guardian access capability.''),
      (''auditor'', ''Read-only compliance review capability.'')]"

text \<open>\<open>get_or_create(code=..., defaults=...)\<close>: the row with the code, or a new one.\<close>

definition get_or_create_role ::
  "uuid \<Rightarrow> string \<times> string \<Rightarrow> 'a identity_db_scheme \<Rightarrow> role_row \<times> 'a identity_db_scheme" where
  "get_or_create_role new_id c db =
     (case first_where (\<lambda>r. ro_code r = fst c) (roles db) of
        Some r \<Rightarrow> (r, db)
      | None \<Rightarrow>
          (let r = \<lparr>ro_id = new_id, ro_code = fst c, ro_name = snd c,
                    ro_description = (case map_of DEFAULT_ROLE_DESCRIPTIONS (fst c) of None \<Rightarrow> [] | Some d \<Rightarrow> d),
                    ro_is_active = True\<rparr>
           in (r, db\<lparr>roles := roles db @ [r]\<rparr>)))"

fun ensure_roles ::
  "(uuid \<times> string \<times> string) list \<Rightarrow> 'a identity_db_scheme \<Rightarrow> role_row list \<times> 'a identity_db_scheme" where
  "ensure_roles [] db = ([], db)"
| "ensure_roles ((new_id, c) # cs) db =
     (case get_or_create_role new_id c db of
        (r, db1) \<Rightarrow> (case ensure_roles cs db1 of (rs, db2) \<Rightarrow> (r # rs, db2)))"

definition ensure_default_roles ::
  "uuid list \<Rightarrow> 'a identity_db_scheme \<Rightarrow> role_row list \<times> 'a identity_db_scheme" where
  "ensure_default_roles new_ids db = ensure_roles (zip new_ids role_codes) db"

section \<open>Policies (core/policies.py, tenant/policies.py)\<close>

record policy_context =
  ctx_tenant :: "school option"
  ctx_actor :: "user option"
  ctx_action :: string
  ctx_role :: "role_row option"

definition TENANT_ADMIN_ALLOWED_ROLES :: "string list" where
  "TENANT_ADMIN_ALLOWED_ROLES = [''principal'', ''school_admin'']"

definition ACTION_ALLOWED_ROLES :: "(string \<times> string list) list" where
  "ACTION_ALLOWED_ROLES = [(''tenant.admin'', TENANT_ADMIN_ALLOWED_ROLES)]"

text \<open>\<open>context.role.code in roles\<close>, for a context whose role has been checked.\<close>

definition role_in :: "policy_context \<Rightarrow> string list \<Rightarrow> bool" where
  "role_in ctx codes \<longleftrightarrow> (case ctx_role ctx of None \<Rightarrow> False | Some r \<Rightarrow> ro_code r \<in> set codes)"

definition is_allowed :: "'a identity_db_scheme \<Rightarrow> policy_context \<Rightarrow> bool" where
  "is_allowed db ctx =
     (if ctx_tenant ctx = None then False
      else case ctx_actor ctx of None \<Rightarrow> False | Some actor \<Rightarrow>
        if \<not> us_is_active actor then False
        else case ctx_role ctx of None \<Rightarrow> False | Some role \<Rightarrow>
          if \<not> ro_is_active role then False
          else if ctx_action ctx = [] then False
          else case map_of ACTION_ALLOWED_ROLES (ctx_action ctx) of None \<Rightarrow> False | Some allowed_roles \<Rightarrow>
            if ro_code role \<notin> set allowed_roles then False
            else user_has_role_in_tenant db (Some actor) (ctx_tenant ctx) (ro_code role))"

definition can_administer_tenant ::
  "'a identity_db_scheme \<Rightarrow> user option \<Rightarrow> school option \<Rightarrow> role_row option \<Rightarrow> bool" where
  "can_administer_tenant db actor tenant role =
     is_allowed db \<lparr>ctx_tenant = tenant, ctx_actor = actor, ctx_action = ''tenant.admin'', ctx_role = role\<rparr>"

text \<open>The check every policy module opens with.\<close>

definition context_is_valid :: "'a identity_db_scheme \<Rightarrow> policy_context \<Rightarrow> bool" where
  "context_is_valid db ctx =
     (if ctx_tenant ctx = None then False
      else case ctx_actor ctx of None \<Rightarrow> False | Some actor \<Rightarrow>
        if \<not> us_is_active actor then False
        else case ctx_role ctx of None \<Rightarrow> False | Some role \<Rightarrow>
          if \<not> ro_is_active role then False
          else if ctx_action ctx = [] then False
          else user_has_role_in_tenant db (Some actor) (ctx_tenant ctx) (ro_code role))"

section \<open>Event operations (events/policies.py)\<close>

definition EVENT_ADMIN_ROLES :: "string list" where
  "EVENT_ADMIN_ROLES = [''principal'', ''school_admin'', ''auditor'']"

definition can_operate_events :: "'a identity_db_scheme \<Rightarrow> policy_context \<Rightarrow> bool" where
  "can_operate_events db ctx \<longleftrightarrow> context_is_valid db ctx \<and> role_in ctx EVENT_ADMIN_ROLES"

definition can_view_audit_events :: "'a identity_db_scheme \<Rightarrow> policy_context \<Rightarrow> bool" where
  "can_view_audit_events db ctx \<longleftrightarrow> ctx_action ctx = ''events.audit.view'' \<and> can_operate_events db ctx"

definition can_view_event_backlog :: "'a identity_db_scheme \<Rightarrow> policy_context \<Rightarrow> bool" where
  "can_view_event_backlog db ctx \<longleftrightarrow> ctx_action ctx = ''events.backlog.view'' \<and> can_operate_events db ctx"

definition can_view_dead_letter_events :: "'a identity_db_scheme \<Rightarrow> policy_context \<Rightarrow> bool" where
  "can_view_dead_letter_events db ctx \<longleftrightarrow>
     ctx_action ctx = ''events.dead_letter.view'' \<and> can_operate_events db ctx"

definition can_replay_dead_letter_event :: "'a identity_db_scheme \<Rightarrow> policy_context \<Rightarrow> bool" where
  "can_replay_dead_letter_event db ctx \<longleftrightarrow>
     ctx_action ctx = ''events.dead_letter.replay'' \<and> can_operate_events db ctx"

definition can_inspect_event_payload_metadata :: "'a identity_db_scheme \<Rightarrow> policy_context \<Rightarrow> bool" where
  "can_inspect_event_payload_metadata db ctx \<longleftrightarrow>
     ctx_action ctx = ''events.payload_metadata.view'' \<and> can_operate_events db ctx"

definition can_register_event_type :: "'a identity_db_scheme \<Rightarrow> policy_context \<Rightarrow> bool" where
  "can_register_event_type db ctx \<longleftrightarrow>
     ctx_action ctx = ''events.registry.register'' \<and> can_operate_events db ctx"

definition can_deactivate_event_type :: "'a identity_db_scheme \<Rightarrow> policy_context \<Rightarrow> bool" where
  "can_deactivate_event_type db ctx \<longleftrightarrow>
     ctx_action ctx = ''events.registry.deactivate'' \<and> can_operate_events db ctx"

section \<open>What a granted policy means\<close>

text \<open>
  The actor is active and bound, by an active binding, to an active role with one of the codes in
  the active school of the context.
\<close>

definition holds_role :: "'a identity_db_scheme \<Rightarrow> policy_context \<Rightarrow> string list \<Rightarrow> bool" where
  "holds_role db ctx codes \<longleftrightarrow>
     (\<exists>u t r b. ctx_actor ctx = Some u \<and> us_is_active u \<and> user_active db (us_id u) \<and>
        ctx_tenant ctx = Some t \<and> school_active db (sc_id t) \<and>
        b \<in> set (role_bindings db) \<and> rb_is_active b \<and> rb_user b = us_id u \<and> rb_tenant b = sc_id t \<and>
        r \<in> set (roles db) \<and> ro_id r = rb_role b \<and> ro_is_active r \<and> ro_code r \<in> set codes)"

lemma has_roleD:
  assumes "user_has_role_in_tenant db (Some u) (Some t) rc"
  shows "rc \<noteq> [] \<and> user_active db (us_id u) \<and> school_active db (sc_id t) \<and>
    (\<exists>b r. b \<in> set (role_bindings db) \<and> rb_is_active b \<and> rb_user b = us_id u \<and> rb_tenant b = sc_id t \<and>
      r \<in> set (roles db) \<and> ro_id r = rb_role b \<and> ro_is_active r \<and> ro_code r = rc)"
  using assms
  by (auto simp: user_has_role_in_tenant_def get_roles_for_user_in_tenant_def
      get_active_tenant_user_role_bindings_def split: if_splits)

lemma context_validD:
  assumes "context_is_valid db ctx"
  obtains t u r where "ctx_tenant ctx = Some t" "ctx_actor ctx = Some u" "us_is_active u"
    "ctx_role ctx = Some r" "ro_is_active r" "ctx_action ctx \<noteq> []"
    "user_has_role_in_tenant db (Some u) (Some t) (ro_code r)"
  using assms by (auto simp: context_is_valid_def split: if_splits option.splits)

lemma valid_holds_role: "context_is_valid db ctx \<Longrightarrow> role_in ctx codes \<Longrightarrow> holds_role db ctx codes"
  by (erule context_validD, drule has_roleD) (simp add: holds_role_def role_in_def, metis)

lemma holds_role_mono: "holds_role db ctx codes \<Longrightarrow> set codes \<subseteq> set codes' \<Longrightarrow> holds_role db ctx codes'"
  unfolding holds_role_def by blast

text \<open>
  The contract of a policy: it grants nothing without a valid context, and only to the listed
  roles. Whoever relies on a policy relies on no more than this.
\<close>

locale fail_closed =
  fixes allowed :: "'a identity_db_scheme \<Rightarrow> policy_context \<Rightarrow> bool"
    and codes :: "string list"
  assumes needs_context: "allowed db ctx \<Longrightarrow> context_is_valid db ctx"
    and needs_role: "allowed db ctx \<Longrightarrow> role_in ctx codes"
begin

lemma granted: "allowed db ctx \<Longrightarrow> holds_role db ctx codes"
  by (rule valid_holds_role [OF needs_context needs_role])

lemma no_actor: "ctx_actor ctx = None \<Longrightarrow> \<not> allowed db ctx"
  using granted [of db ctx] by (auto simp: holds_role_def)

lemma no_binding:
  assumes "ctx_actor ctx = Some u" and "\<forall>b\<in>set (role_bindings db). rb_user b \<noteq> us_id u"
  shows "\<not> allowed db ctx"
  using assms granted unfolding holds_role_def by fastforce

text \<open>Authority never crosses schools: a binding in another school does not help.\<close>

lemma other_tenant:
  assumes "ctx_tenant ctx = Some t" and "\<forall>b\<in>set (role_bindings db). rb_tenant b \<noteq> sc_id t"
  shows "\<not> allowed db ctx"
  using assms granted unfolding holds_role_def by fastforce

lemma inactive_binding:
  assumes "\<forall>b\<in>set (role_bindings db). \<not> rb_is_active b"
  shows "\<not> allowed db ctx"
  using assms granted unfolding holds_role_def by blast

end

interpretation event_operations: fail_closed can_operate_events EVENT_ADMIN_ROLES
  by unfold_locales (simp_all add: can_operate_events_def)

lemma is_allowed_iff:
  "is_allowed db ctx \<longleftrightarrow> context_is_valid db ctx \<and>
     (case map_of ACTION_ALLOWED_ROLES (ctx_action ctx) of None \<Rightarrow> False | Some codes \<Rightarrow> role_in ctx codes)"
  by (auto simp: is_allowed_def context_is_valid_def role_in_def split: option.splits)

interpretation tenant_administration: fail_closed is_allowed TENANT_ADMIN_ALLOWED_ROLES
  by unfold_locales (auto simp: is_allowed_iff ACTION_ALLOWED_ROLES_def split: option.splits if_splits)

end
