(* ===== verification/Academic.thy ===== *)
theory Academic
  imports Identity Regex Outbox
begin

text \<open>
  The academic structure of a school (src/app/academics): years, terms, grade levels, learning
  areas, cohorts, learners, enrollments and teacher assignments, with the validation each row goes
  through when it is saved, the services that create rows, and the read-only selectors.
  A date is a day number. The services call \<open>full_clean\<close> and then \<open>save\<close>, which calls it again
  on the cleaned row.
\<close>

section \<open>Rows (models.py)\<close>

type_synonym date = int

record academic_year =
  ay_id :: uuid
  ay_tenant :: uuid
  ay_label :: string
  ay_start_date :: date
  ay_end_date :: date
  ay_is_active :: bool

record school_term =
  te_id :: uuid
  te_tenant :: uuid
  te_academic_year :: uuid
  te_code :: string
  te_name :: string
  te_start_date :: date
  te_end_date :: date
  te_is_active :: bool

record grade_level =
  gl_id :: uuid
  gl_code :: string
  gl_name :: string
  gl_stage :: string
  gl_is_active :: bool

record learning_area =
  la_id :: uuid
  la_tenant :: uuid
  la_grade_level :: uuid
  la_code :: string
  la_name :: string
  la_is_active :: bool

record cohort =
  co_id :: uuid
  co_tenant :: uuid
  co_academic_year :: uuid
  co_grade_level :: uuid
  co_name :: string
  co_stream_label :: string
  co_is_active :: bool

record student =
  st_id :: uuid
  st_tenant :: uuid
  st_admission_number :: string
  st_first_name :: string
  st_last_name :: string
  st_is_active :: bool

record enrollment =
  en_id :: uuid
  en_tenant :: uuid
  en_student :: uuid
  en_cohort :: uuid
  en_academic_year :: uuid
  en_term :: uuid
  en_is_active :: bool

record teacher_assignment =
  ta_id :: uuid
  ta_tenant :: uuid
  ta_teacher :: uuid
  ta_cohort :: uuid
  ta_learning_area :: uuid
  ta_academic_year :: uuid
  ta_term :: uuid
  ta_is_active :: bool

record academic_db = identity_db +
  academic_years :: "academic_year list"
  terms :: "school_term list"
  grade_levels :: "grade_level list"
  learning_areas :: "learning_area list"
  cohorts :: "cohort list"
  students :: "student list"
  enrollments :: "enrollment list"
  assignments :: "teacher_assignment list"

text \<open>The row a foreign key points to.\<close>

definition year_row :: "'a academic_db_scheme \<Rightarrow> uuid \<Rightarrow> academic_year option" where
  "year_row db i = first_where (\<lambda>r. ay_id r = i) (academic_years db)"

definition term_row :: "'a academic_db_scheme \<Rightarrow> uuid \<Rightarrow> school_term option" where
  "term_row db i = first_where (\<lambda>r. te_id r = i) (terms db)"

definition grade_level_row :: "'a academic_db_scheme \<Rightarrow> uuid \<Rightarrow> grade_level option" where
  "grade_level_row db i = first_where (\<lambda>r. gl_id r = i) (grade_levels db)"

definition learning_area_row :: "'a academic_db_scheme \<Rightarrow> uuid \<Rightarrow> learning_area option" where
  "learning_area_row db i = first_where (\<lambda>r. la_id r = i) (learning_areas db)"

definition cohort_row :: "'a academic_db_scheme \<Rightarrow> uuid \<Rightarrow> cohort option" where
  "cohort_row db i = first_where (\<lambda>r. co_id r = i) (cohorts db)"

definition student_row :: "'a academic_db_scheme \<Rightarrow> uuid \<Rightarrow> student option" where
  "student_row db i = first_where (\<lambda>r. st_id r = i) (students db)"

definition school_exists :: "'a identity_db_scheme \<Rightarrow> uuid \<Rightarrow> bool" where
  "school_exists db i \<longleftrightarrow> (\<exists>s\<in>set (schools db). sc_id s = i)"

section \<open>Field validators\<close>

text \<open>
  \<open>validators.RegexValidator\<close> searches its pattern, whose \<open>$\<close> also matches before a final
  newline. A slug field has a validator of its own, with no such newline.
\<close>

definition match_line :: "regex \<Rightarrow> string \<Rightarrow> bool" where
  "match_line r s \<longleftrightarrow> fullmatch r s \<or> (s \<noteq> [] \<and> last s = CHR 0x0A \<and> fullmatch r (butlast s))"

definition lower_alnum :: "char \<Rightarrow> bool" where
  "lower_alnum c \<longleftrightarrow> is_az c \<or> is_09 c"

definition code_validator :: regex where
  "code_validator = Seq (Plus (Cls lower_alnum))
     (Star (Seq (Cls (\<lambda>c. c = CHR ''-'' \<or> c = CHR ''_'')) (Plus (Cls lower_alnum))))"

definition admission_number_validator :: regex where
  "admission_number_validator = Rep 3 32 (Cls (\<lambda>c. is_AZ c \<or> is_09 c \<or> c = CHR ''-''))"

definition slug_field :: "nat \<Rightarrow> string \<Rightarrow> bool" where
  "slug_field n s \<longleftrightarrow> char_field n s \<and>
     (\<forall>c\<in>set s. is_az c \<or> is_AZ c \<or> is_09 c \<or> c = CHR ''-'' \<or> c = CHR ''_'')"

definition code_field :: "string \<Rightarrow> bool" where
  "code_field s \<longleftrightarrow> slug_field 64 s \<and> match_line code_validator s"

text \<open>\<open>s.upper()\<close>, for the letters whose capital is a character of the model.\<close>

definition upper_char :: "char \<Rightarrow> char" where
  "upper_char c =
     (if is_az c \<or> (224 \<le> code c \<and> code c \<le> 254 \<and> code c \<noteq> 247) then char_of (code c - 32) else c)"

definition upper :: "string \<Rightarrow> string" where
  "upper s = map upper_char s"

text \<open>\<open>s.replace(a, b)\<close> for single characters.\<close>

definition replace_char :: "char \<Rightarrow> char \<Rightarrow> string \<Rightarrow> string" where
  "replace_char a b s = map (\<lambda>c. if c = a then b else c) s"

section \<open>Saving rows\<close>

text \<open>
  \<open>full_clean\<close> checks the fields (with the existence of referenced rows), runs \<open>clean\<close>, then
  checks uniqueness and the declared constraints; the first failing check is the exception.
\<close>

definition year_clean :: "academic_year \<Rightarrow> academic_year result" where
  "year_clean y =
     (let y = y\<lparr>ay_label := strip (ay_label y)\<rparr> in
      if ay_end_date y \<le> ay_start_date y
      then Inl (ValidationError ''end_date'' ''End date must follow start date.'') else Inr y)"

definition year_full_clean :: "'a academic_db_scheme \<Rightarrow> academic_year \<Rightarrow> academic_year result" where
  "year_full_clean db y =
     (if \<not> (school_exists db (ay_tenant y) \<and> char_field 64 (ay_label y)) then Inl (field_error ''label'')
      else ebind (year_clean y) (\<lambda>y.
        if \<exists>q\<in>set (academic_years db). ay_id q \<noteq> ay_id y \<and> ay_tenant q = ay_tenant y
             \<and> (ay_label q = ay_label y \<or> ay_is_active q \<and> ay_is_active y)
        then Inl (ValidationError ''__all__'' ''Already exists.'') else Inr y))"

definition term_codes :: "string list" where
  "term_codes = [''term_1'', ''term_2'', ''term_3'']"

definition term_clean :: "'a academic_db_scheme \<Rightarrow> school_term \<Rightarrow> school_term result" where
  "term_clean db t =
     (let t = t\<lparr>te_name := strip (te_name t)\<rparr> in
      case year_row db (te_academic_year t) of
        None \<Rightarrow> Inl (field_error ''academic_year'')
      | Some y \<Rightarrow>
          if te_tenant t \<noteq> ay_tenant y then Inl (ValidationError ''tenant'' ''Term tenant is invalid.'')
          else if te_end_date t \<le> te_start_date t
          then Inl (ValidationError ''end_date'' ''End date must follow start date.'')
          else if te_start_date t < ay_start_date y \<or> ay_end_date y < te_end_date t
          then Inl (ValidationError ''start_date'' ''Term is outside the year.'')
          else Inr t)"

definition term_full_clean :: "'a academic_db_scheme \<Rightarrow> school_term \<Rightarrow> school_term result" where
  "term_full_clean db t =
     (if \<not> (school_exists db (te_tenant t) \<and> te_code t \<in> set term_codes \<and> char_field 64 (te_name t))
      then Inl (field_error ''code'')
      else ebind (term_clean db t) (\<lambda>t.
        if \<exists>q\<in>set (terms db). te_id q \<noteq> te_id t \<and> te_tenant q = te_tenant t
             \<and> te_academic_year q = te_academic_year t \<and> te_code q = te_code t
        then Inl (ValidationError ''__all__'' ''Already exists.'') else Inr t))"

definition grade_stages :: "string list" where
  "grade_stages = [''pre_primary'', ''primary'', ''junior_school'', ''senior_school'']"

definition normal_code :: "string \<Rightarrow> string" where
  "normal_code c = replace_char (CHR '' '') (CHR ''-'') (lower (strip c))"

definition grade_level_clean :: "grade_level \<Rightarrow> grade_level" where
  "grade_level_clean g = g\<lparr>gl_code := normal_code (gl_code g), gl_name := strip (gl_name g)\<rparr>"

definition grade_level_full_clean :: "'a academic_db_scheme \<Rightarrow> grade_level \<Rightarrow> grade_level result" where
  "grade_level_full_clean db g =
     (if \<not> (code_field (gl_code g) \<and> char_field 128 (gl_name g) \<and> gl_stage g \<in> set grade_stages)
      then Inl (field_error ''code'')
      else let g = grade_level_clean g in
        if \<exists>q\<in>set (grade_levels db). gl_id q \<noteq> gl_id g \<and> gl_code q = gl_code g
        then Inl (ValidationError ''code'' ''Already exists.'') else Inr g)"

definition learning_area_clean :: "learning_area \<Rightarrow> learning_area" where
  "learning_area_clean a = a\<lparr>la_code := normal_code (la_code a), la_name := strip (la_name a)\<rparr>"

definition learning_area_full_clean ::
  "'a academic_db_scheme \<Rightarrow> learning_area \<Rightarrow> learning_area result" where
  "learning_area_full_clean db a =
     (if \<not> (school_exists db (la_tenant a) \<and> grade_level_row db (la_grade_level a) \<noteq> None
            \<and> code_field (la_code a) \<and> char_field 150 (la_name a))
      then Inl (field_error ''code'')
      else let a = learning_area_clean a in
        if \<exists>q\<in>set (learning_areas db). la_id q \<noteq> la_id a \<and> la_tenant q = la_tenant a
             \<and> la_grade_level q = la_grade_level a \<and> la_code q = la_code a
        then Inl (ValidationError ''__all__'' ''Already exists.'') else Inr a)"

definition cohort_clean :: "'a academic_db_scheme \<Rightarrow> cohort \<Rightarrow> cohort result" where
  "cohort_clean db c =
     (let c = c\<lparr>co_name := strip (co_name c), co_stream_label := strip (co_stream_label c)\<rparr> in
      case year_row db (co_academic_year c) of
        None \<Rightarrow> Inl (field_error ''academic_year'')
      | Some y \<Rightarrow>
          if co_tenant c \<noteq> ay_tenant y then Inl (ValidationError ''tenant'' ''Cohort tenant is invalid.'')
          else Inr c)"

definition cohort_full_clean :: "'a academic_db_scheme \<Rightarrow> cohort \<Rightarrow> cohort result" where
  "cohort_full_clean db c =
     (if \<not> (school_exists db (co_tenant c) \<and> grade_level_row db (co_grade_level c) \<noteq> None
            \<and> char_field 100 (co_name c) \<and> length (co_stream_label c) \<le> 64)
      then Inl (field_error ''name'')
      else ebind (cohort_clean db c) (\<lambda>c.
        if \<exists>q\<in>set (cohorts db). co_id q \<noteq> co_id c \<and> co_tenant q = co_tenant c
             \<and> co_academic_year q = co_academic_year c \<and> co_grade_level q = co_grade_level c
             \<and> co_name q = co_name c
        then Inl (ValidationError ''__all__'' ''Already exists.'') else Inr c))"

definition student_clean :: "student \<Rightarrow> student" where
  "student_clean s =
     s\<lparr>st_admission_number := upper (strip (st_admission_number s)),
       st_first_name := strip (st_first_name s), st_last_name := strip (st_last_name s)\<rparr>"

definition student_full_clean :: "'a academic_db_scheme \<Rightarrow> student \<Rightarrow> student result" where
  "student_full_clean db s =
     (if \<not> (school_exists db (st_tenant s) \<and> char_field 32 (st_admission_number s)
            \<and> match_line admission_number_validator (st_admission_number s)
            \<and> char_field 100 (st_first_name s) \<and> char_field 100 (st_last_name s))
      then Inl (field_error ''admission_number'')
      else let s = student_clean s in
        if \<exists>q\<in>set (students db). st_id q \<noteq> st_id s \<and> st_tenant q = st_tenant s
             \<and> st_admission_number q = st_admission_number s
        then Inl (ValidationError ''__all__'' ''Already exists.'') else Inr s)"

text \<open>\<open>any(value != self.tenant_id for value in related_tenant_ids)\<close>.\<close>

definition tenants_agree :: "uuid \<Rightarrow> uuid option list \<Rightarrow> bool" where
  "tenants_agree tenant related \<longleftrightarrow> (\<forall>v\<in>set related. v = Some tenant)"

definition enrollment_full_clean :: "'a academic_db_scheme \<Rightarrow> enrollment \<Rightarrow> enrollment result" where
  "enrollment_full_clean db e =
     (let related = [map_option st_tenant (student_row db (en_student e)),
            map_option co_tenant (cohort_row db (en_cohort e)),
            map_option ay_tenant (year_row db (en_academic_year e)),
            map_option te_tenant (term_row db (en_term e))] in
      if \<not> school_exists db (en_tenant e) \<or> None \<in> set related then Inl (field_error ''tenant'')
      else if \<not> tenants_agree (en_tenant e) related
      then Inl (ValidationError ''tenant'' ''Enrollment tenant is invalid.'')
      else if en_is_active e \<and> (\<exists>q\<in>set (enrollments db). en_id q \<noteq> en_id e \<and> en_is_active q
             \<and> en_tenant q = en_tenant e \<and> en_student q = en_student e \<and> en_cohort q = en_cohort e
             \<and> en_academic_year q = en_academic_year e \<and> en_term q = en_term e)
      then Inl (ValidationError ''__all__'' ''Already exists.'') else Inr e)"

definition teacher_bound :: "'a identity_db_scheme \<Rightarrow> uuid \<Rightarrow> uuid \<Rightarrow> bool" where
  "teacher_bound db tenant teacher \<longleftrightarrow>
     (\<exists>b\<in>set (role_bindings db). rb_tenant b = tenant \<and> rb_user b = teacher \<and> rb_is_active b
        \<and> role_row_is ro_is_active db (rb_role b))"

definition assignment_full_clean ::
  "'a academic_db_scheme \<Rightarrow> teacher_assignment \<Rightarrow> teacher_assignment result" where
  "assignment_full_clean db a =
     (let related = [map_option co_tenant (cohort_row db (ta_cohort a)),
            map_option la_tenant (learning_area_row db (ta_learning_area a)),
            map_option ay_tenant (year_row db (ta_academic_year a)),
            map_option te_tenant (term_row db (ta_term a))] in
      if \<not> school_exists db (ta_tenant a) \<or> \<not> (\<exists>u\<in>set (users db). us_id u = ta_teacher a)
         \<or> None \<in> set related then Inl (field_error ''tenant'')
      else if \<not> tenants_agree (ta_tenant a) related
      then Inl (ValidationError ''tenant'' ''Teacher assignment is invalid.'')
      else if \<not> teacher_bound db (ta_tenant a) (ta_teacher a)
      then Inl (ValidationError ''teacher'' ''Teacher assignment is invalid.'')
      else if ta_is_active a \<and> (\<exists>q\<in>set (assignments db). ta_id q \<noteq> ta_id a \<and> ta_is_active q
             \<and> ta_tenant q = ta_tenant a \<and> ta_teacher q = ta_teacher a \<and> ta_cohort q = ta_cohort a
             \<and> ta_learning_area q = ta_learning_area a \<and> ta_academic_year q = ta_academic_year a
             \<and> ta_term q = ta_term a)
      then Inl (ValidationError ''__all__'' ''Already exists.'') else Inr a)"

section \<open>Services (services.py)\<close>

definition save_clean ::
  "('db \<Rightarrow> 'r \<Rightarrow> 'r result) \<Rightarrow> ('r \<Rightarrow> 'db \<Rightarrow> 'db) \<Rightarrow> 'r \<Rightarrow> ('db, 'r) action" where
  "save_clean full_clean insert_row r =
     atomic (\<lambda>db. case ebind (full_clean db r) (full_clean db) of
        Inl e \<Rightarrow> (Inl e, db)
      | Inr r' \<Rightarrow> (Inr r', insert_row r' db))"

definition add_year :: "academic_year \<Rightarrow> 'a academic_db_scheme \<Rightarrow> 'a academic_db_scheme" where
  "add_year r db = db\<lparr>academic_years := academic_years db @ [r]\<rparr>"

definition create_academic_year ::
  "uuid \<Rightarrow> uuid \<Rightarrow> string \<Rightarrow> date \<Rightarrow> date \<Rightarrow> bool \<Rightarrow> ('a academic_db_scheme, academic_year) action" where
  "create_academic_year new_id tenant label start_date end_date is_active =
     save_clean year_full_clean add_year
       \<lparr>ay_id = new_id, ay_tenant = tenant, ay_label = label, ay_start_date = start_date,
        ay_end_date = end_date, ay_is_active = is_active\<rparr>"

definition add_term :: "school_term \<Rightarrow> 'a academic_db_scheme \<Rightarrow> 'a academic_db_scheme" where
  "add_term r db = db\<lparr>terms := terms db @ [r]\<rparr>"

definition create_term ::
  "uuid \<Rightarrow> uuid \<Rightarrow> uuid \<Rightarrow> string \<Rightarrow> string \<Rightarrow> date \<Rightarrow> date \<Rightarrow> bool \<Rightarrow> ('a academic_db_scheme, school_term) action" where
  "create_term new_id tenant academic_year code_text name start_date end_date is_active =
     save_clean term_full_clean add_term
       \<lparr>te_id = new_id, te_tenant = tenant, te_academic_year = academic_year, te_code = code_text,
        te_name = name, te_start_date = start_date, te_end_date = end_date, te_is_active = is_active\<rparr>"

definition add_grade_level :: "grade_level \<Rightarrow> 'a academic_db_scheme \<Rightarrow> 'a academic_db_scheme" where
  "add_grade_level r db = db\<lparr>grade_levels := grade_levels db @ [r]\<rparr>"

definition create_grade_level ::
  "uuid \<Rightarrow> string \<Rightarrow> string \<Rightarrow> string \<Rightarrow> bool \<Rightarrow> ('a academic_db_scheme, grade_level) action" where
  "create_grade_level new_id code_text name stage is_active =
     save_clean grade_level_full_clean add_grade_level
       \<lparr>gl_id = new_id, gl_code = code_text, gl_name = name, gl_stage = stage, gl_is_active = is_active\<rparr>"

definition add_learning_area :: "learning_area \<Rightarrow> 'a academic_db_scheme \<Rightarrow> 'a academic_db_scheme" where
  "add_learning_area r db = db\<lparr>learning_areas := learning_areas db @ [r]\<rparr>"

definition create_learning_area ::
  "uuid \<Rightarrow> uuid \<Rightarrow> uuid \<Rightarrow> string \<Rightarrow> string \<Rightarrow> bool \<Rightarrow> ('a academic_db_scheme, learning_area) action" where
  "create_learning_area new_id tenant grade_level code_text name is_active =
     save_clean learning_area_full_clean add_learning_area
       \<lparr>la_id = new_id, la_tenant = tenant, la_grade_level = grade_level, la_code = code_text,
        la_name = name, la_is_active = is_active\<rparr>"

definition add_cohort :: "cohort \<Rightarrow> 'a academic_db_scheme \<Rightarrow> 'a academic_db_scheme" where
  "add_cohort r db = db\<lparr>cohorts := cohorts db @ [r]\<rparr>"

definition create_cohort ::
  "uuid \<Rightarrow> uuid \<Rightarrow> uuid \<Rightarrow> uuid \<Rightarrow> string \<Rightarrow> string \<Rightarrow> bool \<Rightarrow> ('a academic_db_scheme, cohort) action" where
  "create_cohort new_id tenant academic_year grade_level name stream_label is_active =
     save_clean cohort_full_clean add_cohort
       \<lparr>co_id = new_id, co_tenant = tenant, co_academic_year = academic_year, co_grade_level = grade_level,
        co_name = name, co_stream_label = stream_label, co_is_active = is_active\<rparr>"

definition add_student :: "student \<Rightarrow> 'a academic_db_scheme \<Rightarrow> 'a academic_db_scheme" where
  "add_student r db = db\<lparr>students := students db @ [r]\<rparr>"

definition create_learner ::
  "uuid \<Rightarrow> uuid \<Rightarrow> string \<Rightarrow> string \<Rightarrow> string \<Rightarrow> bool \<Rightarrow> ('a academic_db_scheme, student) action" where
  "create_learner new_id tenant admission_number first_name last_name is_active =
     save_clean student_full_clean add_student
       \<lparr>st_id = new_id, st_tenant = tenant, st_admission_number = admission_number,
        st_first_name = first_name, st_last_name = last_name, st_is_active = is_active\<rparr>"

definition add_enrollment :: "enrollment \<Rightarrow> 'a academic_db_scheme \<Rightarrow> 'a academic_db_scheme" where
  "add_enrollment r db = db\<lparr>enrollments := enrollments db @ [r]\<rparr>"

definition enroll_learner ::
  "uuid \<Rightarrow> uuid \<Rightarrow> student \<Rightarrow> uuid \<Rightarrow> uuid \<Rightarrow> uuid \<Rightarrow> bool \<Rightarrow> ('a academic_db_scheme, enrollment) action" where
  "enroll_learner new_id tenant learner cohort academic_year term_id is_active db =
     (if st_tenant learner \<noteq> tenant then (Inl (ValidationError ''__all__'' ''Enrollment is invalid.''), db)
      else save_clean enrollment_full_clean add_enrollment
       \<lparr>en_id = new_id, en_tenant = tenant, en_student = st_id learner, en_cohort = cohort,
        en_academic_year = academic_year, en_term = term_id, en_is_active = is_active\<rparr> db)"

definition add_assignment :: "teacher_assignment \<Rightarrow> 'a academic_db_scheme \<Rightarrow> 'a academic_db_scheme" where
  "add_assignment r db = db\<lparr>assignments := assignments db @ [r]\<rparr>"

definition assign_teacher_to_learning_area ::
  "uuid \<Rightarrow> uuid \<Rightarrow> uuid \<Rightarrow> uuid \<Rightarrow> uuid \<Rightarrow> uuid \<Rightarrow> uuid \<Rightarrow> bool \<Rightarrow> ('a academic_db_scheme, teacher_assignment) action" where
  "assign_teacher_to_learning_area new_id tenant teacher cohort learning_area academic_year term_id is_active =
     save_clean assignment_full_clean add_assignment
       \<lparr>ta_id = new_id, ta_tenant = tenant, ta_teacher = teacher, ta_cohort = cohort,
        ta_learning_area = learning_area, ta_academic_year = academic_year, ta_term = term_id,
        ta_is_active = is_active\<rparr>"

section \<open>Selectors (selectors.py)\<close>

definition cohort_active :: "'a academic_db_scheme \<Rightarrow> uuid \<Rightarrow> bool" where
  "cohort_active db i \<longleftrightarrow> (case cohort_row db i of None \<Rightarrow> False | Some c \<Rightarrow> co_is_active c)"

definition learning_area_active :: "'a academic_db_scheme \<Rightarrow> uuid \<Rightarrow> bool" where
  "learning_area_active db i \<longleftrightarrow> (case learning_area_row db i of None \<Rightarrow> False | Some a \<Rightarrow> la_is_active a)"

definition get_active_academic_year_for_tenant ::
  "'a academic_db_scheme \<Rightarrow> uuid \<Rightarrow> academic_year option" where
  "get_active_academic_year_for_tenant db tenant =
     first_where (\<lambda>y. ay_tenant y = tenant \<and> ay_is_active y) (academic_years db)"

definition get_active_terms_for_tenant :: "'a academic_db_scheme \<Rightarrow> uuid \<Rightarrow> school_term list" where
  "get_active_terms_for_tenant db tenant =
     filter (\<lambda>t. te_tenant t = tenant \<and> te_is_active t \<and>
        (case year_row db (te_academic_year t) of None \<Rightarrow> False | Some y \<Rightarrow> ay_is_active y)) (terms db)"

definition verify_teacher_assignment ::
  "'a academic_db_scheme \<Rightarrow> uuid \<Rightarrow> uuid \<Rightarrow> uuid \<Rightarrow> uuid \<Rightarrow> bool" where
  "verify_teacher_assignment db tenant teacher cohort learning_area \<longleftrightarrow>
     (\<exists>a\<in>set (assignments db). ta_tenant a = tenant \<and> ta_teacher a = teacher \<and> ta_cohort a = cohort
        \<and> ta_learning_area a = learning_area \<and> ta_is_active a \<and> cohort_active db (ta_cohort a)
        \<and> learning_area_active db (ta_learning_area a))"

definition get_teacher_assignments ::
  "'a academic_db_scheme \<Rightarrow> uuid \<Rightarrow> uuid \<Rightarrow> teacher_assignment list" where
  "get_teacher_assignments db tenant teacher =
     filter (\<lambda>a. ta_tenant a = tenant \<and> ta_teacher a = teacher \<and> ta_is_active a
        \<and> cohort_active db (ta_cohort a) \<and> learning_area_active db (ta_learning_area a)) (assignments db)"

definition get_learning_areas_assigned_to_teacher ::
  "'a academic_db_scheme \<Rightarrow> uuid \<Rightarrow> uuid \<Rightarrow> learning_area list" where
  "get_learning_areas_assigned_to_teacher db tenant teacher =
     filter (\<lambda>r. la_tenant r = tenant \<and> la_is_active r
        \<and> la_id r \<in> ta_learning_area ` set (get_teacher_assignments db tenant teacher)) (learning_areas db)"

text \<open>
  \<open>order_by\<close> on names uses the collation of the database, the argument \<open>coll\<close>. A refusal is
  Django's \<open>PermissionDenied\<close>.
\<close>

definition permission_denied :: exn where
  "permission_denied = OtherError ''Access denied.''"

definition get_cohort_roster ::
  "(string \<Rightarrow> 'k::linorder) \<Rightarrow> 'a academic_db_scheme \<Rightarrow> uuid \<Rightarrow> uuid \<Rightarrow> uuid \<Rightarrow> uuid \<Rightarrow> student list result" where
  "get_cohort_roster coll db tenant actor cohort learning_area =
     (if \<not> verify_teacher_assignment db tenant actor cohort learning_area then Inl permission_denied
      else Inr (sort_key (\<lambda>s. (coll (st_last_name s), coll (st_first_name s)))
        (concat (map (\<lambda>e. filter (\<lambda>s. st_id s = en_student e \<and> st_is_active s \<and> st_tenant s = tenant) (students db))
          (filter (\<lambda>e. en_tenant e = tenant \<and> en_cohort e = cohort \<and> en_is_active e) (enrollments db))))))"

text \<open>
  \<open>.first()\<close> follows the ordering of the table, the latest \<open>updated_at\<close> first. No service changes an
  assignment once it is stored, so that is the assignment inserted last.
\<close>

definition get_fast_grid_roster ::
  "(string \<Rightarrow> 'k::linorder) \<Rightarrow> 'a academic_db_scheme \<Rightarrow> uuid \<Rightarrow> uuid \<Rightarrow> uuid \<Rightarrow> student list result" where
  "get_fast_grid_roster coll db teacher_user cohort_uuid subject_uuid =
     (case first_where (\<lambda>a. ta_teacher a = teacher_user \<and> ta_cohort a = cohort_uuid
          \<and> ta_learning_area a = subject_uuid \<and> ta_is_active a \<and> school_active db (ta_tenant a)) (rev (assignments db)) of
        None \<Rightarrow> Inl permission_denied
      | Some a \<Rightarrow> get_cohort_roster coll db (ta_tenant a) teacher_user (ta_cohort a) (ta_learning_area a))"

definition get_tenant_scoped_learner_by_admission_number ::
  "'a academic_db_scheme \<Rightarrow> uuid \<Rightarrow> string \<Rightarrow> student option" where
  "get_tenant_scoped_learner_by_admission_number db tenant admission_number =
     (let normalized = upper (strip admission_number) in
      if normalized = [] then None
      else first_where (\<lambda>s. st_tenant s = tenant \<and> st_admission_number s = normalized \<and> st_is_active s) (students db))"

section \<open>Policies (policies.py)\<close>

definition ACADEMIC_ADMIN_ROLES :: "string list" where
  "ACADEMIC_ADMIN_ROLES = [''principal'', ''school_admin'']"

definition ACADEMIC_TEACHER_ROLES :: "string list" where
  "ACADEMIC_TEACHER_ROLES = [''class_teacher'', ''subject_teacher'', ''hod'']"

text \<open>A resource is given by its \<open>tenant_id\<close>.\<close>

definition resource_in_tenant :: "policy_context \<Rightarrow> uuid \<Rightarrow> bool" where
  "resource_in_tenant ctx resource_tenant \<longleftrightarrow>
     (case ctx_tenant ctx of None \<Rightarrow> False | Some t \<Rightarrow> resource_tenant = sc_id t)"

definition is_academic_admin :: "'a identity_db_scheme \<Rightarrow> policy_context \<Rightarrow> bool" where
  "is_academic_admin db ctx \<longleftrightarrow> context_is_valid db ctx \<and> role_in ctx ACADEMIC_ADMIN_ROLES"

text \<open>\<open>TeacherAssignment.objects.filter(tenant=..., teacher=..., ...)\<close> for the context's tenant and actor.\<close>

definition own_assignments :: "'a academic_db_scheme \<Rightarrow> policy_context \<Rightarrow> teacher_assignment list" where
  "own_assignments db ctx =
     (case (ctx_tenant ctx, ctx_actor ctx) of
        (Some t, Some u) \<Rightarrow> filter (\<lambda>a. ta_tenant a = sc_id t \<and> ta_teacher a = us_id u \<and> ta_is_active a) (assignments db)
      | _ \<Rightarrow> [])"

definition has_active_assignment ::
  "'a academic_db_scheme \<Rightarrow> policy_context \<Rightarrow> cohort \<Rightarrow> learning_area option \<Rightarrow> bool" where
  "has_active_assignment db ctx cohort learning_area =
     (if \<not> context_is_valid db ctx \<or> \<not> role_in ctx ACADEMIC_TEACHER_ROLES then False
      else if \<not> resource_in_tenant ctx (co_tenant cohort) then False
      else case learning_area of
        None \<Rightarrow> \<exists>a\<in>set (own_assignments db ctx). ta_cohort a = co_id cohort \<and> cohort_active db (ta_cohort a)
      | Some area \<Rightarrow>
          resource_in_tenant ctx (la_tenant area) \<and>
          (\<exists>a\<in>set (own_assignments db ctx). ta_cohort a = co_id cohort \<and> cohort_active db (ta_cohort a)
             \<and> ta_learning_area a = la_id area \<and> learning_area_active db (ta_learning_area a)))"

definition can_view_cohort_roster ::
  "'a academic_db_scheme \<Rightarrow> policy_context \<Rightarrow> cohort \<Rightarrow> learning_area option \<Rightarrow> bool" where
  "can_view_cohort_roster db ctx cohort learning_area =
     (if \<not> resource_in_tenant ctx (co_tenant cohort) then False
      else if (case learning_area of None \<Rightarrow> False | Some area \<Rightarrow> \<not> resource_in_tenant ctx (la_tenant area)) then False
      else if is_academic_admin db ctx then True
      else has_active_assignment db ctx cohort learning_area)"

definition can_view_learner_academic_profile ::
  "'a academic_db_scheme \<Rightarrow> policy_context \<Rightarrow> student \<Rightarrow> bool" where
  "can_view_learner_academic_profile db ctx learner =
     (if \<not> resource_in_tenant ctx (st_tenant learner) then False
      else if is_academic_admin db ctx then True
      else if \<not> context_is_valid db ctx then False
      else \<exists>a\<in>set (own_assignments db ctx). cohort_active db (ta_cohort a) \<and>
        (\<exists>e\<in>set (enrollments db). en_cohort e = ta_cohort a \<and> en_student e = st_id learner \<and> en_is_active e))"

definition can_manage_cohort :: "'a academic_db_scheme \<Rightarrow> policy_context \<Rightarrow> cohort \<Rightarrow> bool" where
  "can_manage_cohort db ctx cohort \<longleftrightarrow> resource_in_tenant ctx (co_tenant cohort) \<and> is_academic_admin db ctx"

definition can_assign_teacher :: "'a academic_db_scheme \<Rightarrow> policy_context \<Rightarrow> cohort \<Rightarrow> bool" where
  "can_assign_teacher db ctx cohort \<longleftrightarrow> resource_in_tenant ctx (co_tenant cohort) \<and> is_academic_admin db ctx"

definition can_teacher_access_learning_area ::
  "'a academic_db_scheme \<Rightarrow> policy_context \<Rightarrow> cohort \<Rightarrow> learning_area \<Rightarrow> bool" where
  "can_teacher_access_learning_area db ctx cohort learning_area \<longleftrightarrow>
     has_active_assignment db ctx cohort (Some learning_area)"

end
