(* ===== verification/CurriculumState.thy ===== *)
theory CurriculumState
  imports Academic
begin

text \<open>
  The rows of curriculum governance (src/app/curriculum/models.py): versions with the tree that
  leads from a rubric to its learning area, change sets, publications, the adoptions of schools,
  withdrawals, rollback plans and notice batches; their validation on save; and the text guard of
  pii_guard.py that all of them share. Statuses are the strings of the \<open>TextChoices\<close>.
\<close>

section \<open>Rows\<close>

record curriculum_version =
  cv_id :: uuid
  cv_source_document :: uuid
  cv_version_label :: string
  cv_effective_from :: date
  cv_effective_to :: "date option"
  cv_is_active :: bool

record curriculum_learning_area =
  cl_id :: uuid
  cl_version :: uuid
  cl_grade_level :: uuid
  cl_learning_area :: uuid
  cl_is_active :: bool

record strand =
  sd_id :: uuid
  sd_curriculum_learning_area :: uuid

record sub_strand =
  su_id :: uuid
  su_strand :: uuid

record outcome =
  lo_id :: uuid
  lo_sub_strand :: uuid

record rubric =
  rf_id :: uuid
  rf_sub_strand :: "uuid option"
  rf_learning_outcome :: "uuid option"
  rf_level_code :: string
  rf_level_label :: string
  rf_is_active :: bool

record change_set =
  ch_id :: uuid
  ch_source_document :: uuid
  ch_old_version :: "uuid option"
  ch_proposed_version :: "uuid option"
  ch_change_type :: string
  ch_summary :: string
  ch_status :: string
  ch_reviewed_at :: "time option"
  ch_reviewed_by :: "uuid option"

record publication =
  pb_id :: uuid
  pb_version :: uuid
  pb_effective_from :: date
  pb_effective_to :: "date option"
  pb_is_active :: bool
  pb_notes :: string
  pb_approved_by :: "uuid option"
  pb_published_at :: time
  pb_superseded_by :: "uuid option"

record adoption =
  ad_id :: uuid
  ad_tenant :: uuid
  ad_version :: uuid
  ad_status :: string
  ad_effective_from :: date
  ad_effective_to :: "date option"
  ad_adopted_by :: "uuid option"
  ad_adopted_at :: "time option"
  ad_notes :: string

record withdrawal =
  wd_id :: uuid
  wd_version :: uuid
  wd_replacement :: "uuid option"
  wd_status :: string
  wd_reason :: string
  wd_withdrawn_by :: "uuid option"
  wd_withdrawn_at :: "time option"

record rollback_plan =
  rp_id :: uuid
  rp_tenant :: uuid
  rp_withdrawn_version :: uuid
  rp_target_version :: "uuid option"
  rp_status :: string
  rp_reason :: string
  rp_planned_by :: "uuid option"
  rp_affected_count :: int

record notice_batch =
  nb_id :: uuid
  nb_tenant :: "uuid option"
  nb_version :: "uuid option"
  nb_notice_type :: string
  nb_status :: string
  nb_total_count :: int
  nb_processed_count :: int
  nb_created_by :: "uuid option"
  nb_notes :: string

record curriculum_db = academic_db +
  source_documents :: "uuid list"
  versions :: "curriculum_version list"
  curriculum_areas :: "curriculum_learning_area list"
  strands :: "strand list"
  sub_strands :: "sub_strand list"
  outcomes :: "outcome list"
  rubrics :: "rubric list"
  change_sets :: "change_set list"
  publications :: "publication list"
  adoptions :: "adoption list"
  withdrawals :: "withdrawal list"
  rollback_plans :: "rollback_plan list"
  notice_batches :: "notice_batch list"
  event_tables :: event_db

definition version_row :: "'a curriculum_db_scheme \<Rightarrow> uuid \<Rightarrow> curriculum_version option" where
  "version_row db i = first_where (\<lambda>r. cv_id r = i) (versions db)"

definition curriculum_area_row :: "'a curriculum_db_scheme \<Rightarrow> uuid \<Rightarrow> curriculum_learning_area option" where
  "curriculum_area_row db i = first_where (\<lambda>r. cl_id r = i) (curriculum_areas db)"

definition strand_row :: "'a curriculum_db_scheme \<Rightarrow> uuid \<Rightarrow> strand option" where
  "strand_row db i = first_where (\<lambda>r. sd_id r = i) (strands db)"

definition sub_strand_row :: "'a curriculum_db_scheme \<Rightarrow> uuid \<Rightarrow> sub_strand option" where
  "sub_strand_row db i = first_where (\<lambda>r. su_id r = i) (sub_strands db)"

definition outcome_row :: "'a curriculum_db_scheme \<Rightarrow> uuid \<Rightarrow> outcome option" where
  "outcome_row db i = first_where (\<lambda>r. lo_id r = i) (outcomes db)"

definition rubric_row :: "'a curriculum_db_scheme \<Rightarrow> uuid \<Rightarrow> rubric option" where
  "rubric_row db i = first_where (\<lambda>r. rf_id r = i) (rubrics db)"

text \<open>
  From a rubric to the learning area of its curriculum: \<open>learning_outcome.sub_strand\<close> when an
  outcome is set, else \<open>sub_strand\<close>, then \<open>.strand.curriculum_learning_area\<close>.
\<close>

definition rubric_sub_strand :: "'a curriculum_db_scheme \<Rightarrow> rubric \<Rightarrow> uuid option" where
  "rubric_sub_strand db r =
     (case rf_learning_outcome r of
        None \<Rightarrow> rf_sub_strand r
      | Some o_id \<Rightarrow> map_option lo_sub_strand (outcome_row db o_id))"

definition sub_strand_area :: "'a curriculum_db_scheme \<Rightarrow> uuid \<Rightarrow> curriculum_learning_area option" where
  "sub_strand_area db i =
     Option.bind (sub_strand_row db i) (\<lambda>s.
       Option.bind (strand_row db (su_strand s)) (\<lambda>d. curriculum_area_row db (sd_curriculum_learning_area d)))"

section \<open>Text of governance records (pii_guard.py)\<close>

definition lower_is :: "(char \<Rightarrow> bool) \<Rightarrow> char \<Rightarrow> bool" where
  "lower_is P c \<longleftrightarrow> P (lower_char c)"

definition separator :: regex where
  "separator = Opt (Cls (\<lambda>c. c = CHR ''-'' \<or> c = CHR ''_'' \<or> py_space c))"

definition two_names :: "string \<Rightarrow> regex" where
  "two_names w = seqs [WordBoundary, LitI w, Plus (Cls py_space), Cls (lower_is is_az),
     Plus (Cls (lower_is is_az)), Plus (Cls py_space), Cls (lower_is is_az), Plus (Cls (lower_is is_az)), WordBoundary]"

definition PII_PATTERNS :: "regex list" where
  "PII_PATTERNS =
     [seqs [WordBoundary, alts [LitI ''admission'', LitI ''adm''], separator,
            Opt (alts [LitI ''number'', seqs [LitI ''no'', Opt (Lit ''.'')]]), separator,
            RepAtLeast 3 (Cls (\<lambda>c. lower_is is_az c \<or> is_09 c \<or> c = CHR ''-'')), WordBoundary],
      seqs [WordBoundary, LitI ''guardian'', WordBoundary],
      two_names ''pupil'', two_names ''learner'']"

definition HTML_INJECTION_PATTERNS :: "regex list" where
  "HTML_INJECTION_PATTERNS =
     [seqs [Lit ''<'', Star (Cls py_space),
            alts [LitI ''script'', LitI ''img'', LitI ''svg'', LitI ''iframe'', LitI ''object'', LitI ''embed'', LitI ''a''],
            WordBoundary],
      seqs [WordBoundary, LitI ''on'', Plus (Cls (lower_is is_az)), Star (Cls py_space), Lit ''=''],
      seqs [LitI ''javascript'', Star (Cls py_space), Lit '':'']]"

definition validate_governance_text :: "string \<Rightarrow> unit result" where
  "validate_governance_text value =
     (if strip value = [] then Inl (ValidationError ''summary'' ''Governance text is required.'')
      else if \<exists>r\<in>set PII_PATTERNS. search r value
      then Inl (ValidationError ''summary'' ''Governance text must not contain learner PII.'')
      else if \<exists>r\<in>set HTML_INJECTION_PATTERNS. search r value
      then Inl (ValidationError ''summary'' ''Governance text must not contain executable HTML.'')
      else Inr ())"

section \<open>Saving governance rows\<close>

text \<open>A nullable foreign key: absent or an existing row.\<close>

definition opt_fk :: "('k \<Rightarrow> bool) \<Rightarrow> 'k option \<Rightarrow> bool" where
  "opt_fk exists_row k = (case k of None \<Rightarrow> True | Some i \<Rightarrow> exists_row i)"

text \<open>The range Django checks for a \<open>PositiveIntegerField\<close>.\<close>

definition positive_integer_field :: "int \<Rightarrow> bool" where
  "positive_integer_field n \<longleftrightarrow> 0 \<le> n \<and> n \<le> 2147483647"

definition version_exists :: "'a curriculum_db_scheme \<Rightarrow> uuid \<Rightarrow> bool" where
  "version_exists db i \<longleftrightarrow> version_row db i \<noteq> None"

definition user_exists :: "'a identity_db_scheme \<Rightarrow> uuid \<Rightarrow> bool" where
  "user_exists db i \<longleftrightarrow> (\<exists>u\<in>set (users db). us_id u = i)"

definition change_types :: "string list" where
  "change_types = [''new_version'', ''source_changed'', ''correction'']"

definition change_statuses :: "string list" where
  "change_statuses = [''detected'', ''quarantined'', ''under_review'', ''approved'', ''rejected'', ''published'', ''superseded'']"

definition change_set_clean :: "change_set \<Rightarrow> change_set result" where
  "change_set_clean c =
     ebind (validate_governance_text (ch_summary c)) (\<lambda>_. Inr (c\<lparr>ch_summary := strip (ch_summary c)\<rparr>))"

definition change_set_full_clean :: "'a curriculum_db_scheme \<Rightarrow> change_set \<Rightarrow> change_set result" where
  "change_set_full_clean db c =
     (if \<not> (ch_source_document c \<in> set (source_documents db) \<and> opt_fk (version_exists db) (ch_old_version c)
            \<and> opt_fk (version_exists db) (ch_proposed_version c) \<and> opt_fk (user_exists db) (ch_reviewed_by c)
            \<and> ch_change_type c \<in> set change_types \<and> ch_status c \<in> set change_statuses \<and> ch_summary c \<noteq> [])
      then Inl (field_error ''change_type'') else change_set_clean c)"

definition publication_clean :: "publication \<Rightarrow> publication result" where
  "publication_clean p =
     ebind (validate_governance_text (pb_notes p)) (\<lambda>_.
       let p = p\<lparr>pb_notes := strip (pb_notes p)\<rparr> in
       case pb_effective_to p of None \<Rightarrow> Inr p
       | Some t \<Rightarrow> if t < pb_effective_from p
           then Inl (ValidationError ''effective_to'' ''Publication end date must follow start date.'') else Inr p)"

definition publication_full_clean :: "'a curriculum_db_scheme \<Rightarrow> publication \<Rightarrow> publication result" where
  "publication_full_clean db p =
     (if \<not> (version_exists db (pb_version p) \<and> pb_notes p \<noteq> [] \<and> opt_fk (user_exists db) (pb_approved_by p)
            \<and> opt_fk (\<lambda>i. \<exists>q\<in>set (publications db). pb_id q = i) (pb_superseded_by p))
      then Inl (field_error ''curriculum_version'')
      else ebind (publication_clean p) (\<lambda>p.
        if pb_is_active p \<and> (\<exists>q\<in>set (publications db). pb_id q \<noteq> pb_id p \<and> pb_version q = pb_version p \<and> pb_is_active q)
        then Inl (ValidationError ''__all__'' ''Already exists.'') else Inr p))"

definition has_active_publication :: "'a curriculum_db_scheme \<Rightarrow> uuid \<Rightarrow> bool" where
  "has_active_publication db v \<longleftrightarrow> (\<exists>p\<in>set (publications db). pb_version p = v \<and> pb_is_active p)"

definition version_is_withdrawn :: "'a curriculum_db_scheme \<Rightarrow> uuid \<Rightarrow> bool" where
  "version_is_withdrawn db v \<longleftrightarrow> (\<exists>w\<in>set (withdrawals db). wd_version w = v \<and> wd_status w = ''withdrawn'')"

definition adoption_statuses :: "string list" where
  "adoption_statuses = [''scheduled'', ''active'', ''superseded'', ''withdrawn'', ''rolled_back'']"

definition live_adoption :: "adoption \<Rightarrow> bool" where
  "live_adoption a \<longleftrightarrow> ad_status a = ''scheduled'' \<or> ad_status a = ''active''"

definition adoption_clean :: "'a curriculum_db_scheme \<Rightarrow> adoption \<Rightarrow> adoption result" where
  "adoption_clean db a =
     ebind (if ad_notes a = [] then Inr a
            else ebind (validate_governance_text (ad_notes a)) (\<lambda>_. Inr (a\<lparr>ad_notes := strip (ad_notes a)\<rparr>))) (\<lambda>a.
       if (case ad_effective_to a of None \<Rightarrow> False | Some t \<Rightarrow> t < ad_effective_from a)
       then Inl (ValidationError ''effective_to'' ''Adoption end date must follow start date.'')
       else if live_adoption a \<and> \<not> (case version_row db (ad_version a) of None \<Rightarrow> False | Some v \<Rightarrow> cv_is_active v)
       then Inl (ValidationError ''curriculum_version'' ''Curriculum version is inactive.'')
       else if live_adoption a \<and> \<not> has_active_publication db (ad_version a)
       then Inl (ValidationError ''curriculum_version'' ''Published curriculum is required.'')
       else if live_adoption a \<and> version_is_withdrawn db (ad_version a)
       then Inl (ValidationError ''curriculum_version'' ''Withdrawn curriculum cannot be adopted.'')
       else if \<not> opt_fk (user_active db) (ad_adopted_by a)
       then Inl (ValidationError ''adopted_by'' ''Adoption actor must be active.'')
       else Inr a)"

definition adoption_full_clean :: "'a curriculum_db_scheme \<Rightarrow> adoption \<Rightarrow> adoption result" where
  "adoption_full_clean db a =
     (if \<not> (school_exists db (ad_tenant a) \<and> version_exists db (ad_version a) \<and> ad_status a \<in> set adoption_statuses
            \<and> opt_fk (user_exists db) (ad_adopted_by a))
      then Inl (field_error ''tenant'')
      else ebind (adoption_clean db a) (\<lambda>a.
        if live_adoption a \<and> (\<exists>q\<in>set (adoptions db). ad_id q \<noteq> ad_id a \<and> ad_tenant q = ad_tenant a
             \<and> ad_version q = ad_version a \<and> live_adoption q)
        then Inl (ValidationError ''__all__'' ''Already exists.'') else Inr a))"

definition withdrawal_full_clean :: "'a curriculum_db_scheme \<Rightarrow> withdrawal \<Rightarrow> withdrawal result" where
  "withdrawal_full_clean db w =
     (if \<not> (version_exists db (wd_version w) \<and> opt_fk (version_exists db) (wd_replacement w) \<and> wd_reason w \<noteq> []
            \<and> wd_status w \<in> {''planned'', ''withdrawn'', ''cancelled''} \<and> opt_fk (user_exists db) (wd_withdrawn_by w))
      then Inl (field_error ''reason'')
      else ebind (validate_governance_text (wd_reason w)) (\<lambda>_.
        if wd_replacement w = Some (wd_version w)
        then Inl (ValidationError ''replacement_version'' ''Replacement version must differ.'')
        else if \<not> opt_fk (user_active db) (wd_withdrawn_by w)
        then Inl (ValidationError ''withdrawn_by'' ''Withdrawal actor is inactive.'')
        else Inr (w\<lparr>wd_reason := strip (wd_reason w)\<rparr>)))"

definition rollback_plan_full_clean :: "'a curriculum_db_scheme \<Rightarrow> rollback_plan \<Rightarrow> rollback_plan result" where
  "rollback_plan_full_clean db r =
     (if \<not> (school_exists db (rp_tenant r) \<and> version_exists db (rp_withdrawn_version r)
            \<and> opt_fk (version_exists db) (rp_target_version r) \<and> rp_reason r \<noteq> [] \<and> positive_integer_field (rp_affected_count r)
            \<and> rp_status r \<in> {''planned'', ''approved'', ''executed'', ''cancelled''} \<and> opt_fk (user_exists db) (rp_planned_by r))
      then Inl (field_error ''reason'')
      else ebind (validate_governance_text (rp_reason r)) (\<lambda>_.
        if rp_target_version r = Some (rp_withdrawn_version r)
        then Inl (ValidationError ''target_version'' ''Target version must differ.'')
        else if \<not> opt_fk (user_active db) (rp_planned_by r)
        then Inl (ValidationError ''planned_by'' ''Planner must be active.'')
        else Inr (r\<lparr>rp_reason := strip (rp_reason r)\<rparr>)))"

definition notice_batch_full_clean :: "'a curriculum_db_scheme \<Rightarrow> notice_batch \<Rightarrow> notice_batch result" where
  "notice_batch_full_clean db b =
     (if \<not> (opt_fk (school_exists db) (nb_tenant b) \<and> opt_fk (version_exists db) (nb_version b)
            \<and> nb_notice_type b \<in> {''principal_evidence'', ''teacher_readiness'', ''adoption'', ''withdrawal''}
            \<and> nb_status b \<in> {''planned'', ''processing'', ''completed'', ''failed''}
            \<and> positive_integer_field (nb_total_count b) \<and> positive_integer_field (nb_processed_count b) \<and> opt_fk (user_exists db) (nb_created_by b))
      then Inl (field_error ''notice_type'')
      else if nb_total_count b < nb_processed_count b
      then Inl (ValidationError ''processed_count'' ''Processed count cannot exceed total count.'')
      else ebind (if nb_notes b = [] then Inr b
                  else ebind (validate_governance_text (nb_notes b)) (\<lambda>_. Inr (b\<lparr>nb_notes := strip (nb_notes b)\<rparr>))) (\<lambda>b.
        if \<not> opt_fk (user_active db) (nb_created_by b)
        then Inl (ValidationError ''created_by'' ''Batch creator must be active.'') else Inr b))"

end
