(* ===== verification/Workflow.thy ===== *)
theory Workflow
  imports Prelude
begin

text \<open>
  Status tables: a workflow is a list that gives every status the statuses it may move to. The
  contract of a workflow is that its moves go down in a rank, so that it ends; the lemmas about
  paths are proved once and used for change sets, corrections and assessments.
\<close>

type_synonym workflow_table = "(string \<times> string list) list"

definition allowed_targets :: "workflow_table \<Rightarrow> string \<Rightarrow> string list" where
  "allowed_targets table s = (case map_of table s of None \<Rightarrow> [] | Some ts \<Rightarrow> ts)"

text \<open>A history of statuses, oldest first, each move allowed by the table.\<close>

fun allowed_path :: "workflow_table \<Rightarrow> string list \<Rightarrow> bool" where
  "allowed_path table (s # t # ss) \<longleftrightarrow> t \<in> set (allowed_targets table s) \<and> allowed_path table (t # ss)"
| "allowed_path table _ \<longleftrightarrow> True"

lemma allowed_targetsD: "t \<in> set (allowed_targets table s) \<Longrightarrow> \<exists>ts. (s, ts) \<in> set table \<and> t \<in> set ts"
  by (cases "map_of table s") (auto simp: allowed_targets_def dest: map_of_SomeD)

text \<open>Facts about a table are checked on its entries.\<close>

lemma targets_all:
  assumes "\<forall>(s, ts)\<in>set table. \<forall>t\<in>set ts. P s t" and "t \<in> set (allowed_targets table s)"
  shows "P s t"
  using assms allowed_targetsD by fastforce

locale workflow =
  fixes table :: workflow_table and rank :: "string \<Rightarrow> nat"
  assumes down: "t \<in> set (allowed_targets table s) \<Longrightarrow> rank t < rank s"
begin

lemma path_bound: "allowed_path table (s # ss) \<Longrightarrow> length ss + rank (last (s # ss)) \<le> rank s"
proof (induction ss arbitrary: s)
  case (Cons t ss)
  then have "rank t < rank s" "length ss + rank (last (t # ss)) \<le> rank t" using down by auto
  then show ?case by simp
qed simp

text \<open>No status is entered twice.\<close>

lemma path_below: "allowed_path table (s # ss) \<Longrightarrow> t \<in> set ss \<Longrightarrow> rank t < rank s"
proof (induction ss arbitrary: s)
  case (Cons u ss)
  then have "rank u < rank s" using down by auto
  then show ?case using Cons by fastforce
qed simp

lemma path_distinct: "allowed_path table ss \<Longrightarrow> distinct ss"
proof (induction ss)
  case (Cons s ss)
  have "allowed_path table ss" using Cons.prems by (cases ss) auto
  moreover have "s \<notin> set ss" using path_below [OF Cons.prems] by blast
  ultimately show ?case using Cons.IH by simp
qed simp

text \<open>A status without moves is the last one of every history that enters it.\<close>

lemma terminal_last:
  "allowed_path table ss \<Longrightarrow> s \<in> set ss \<Longrightarrow> allowed_targets table s = [] \<Longrightarrow> last ss = s"
proof (induction ss)
  case (Cons u ss)
  then show ?case by (cases ss) auto
qed simp

text \<open>What only one status leads to is entered through it.\<close>

lemma gate:
  assumes "\<And>s. t \<in> set (allowed_targets table s) \<Longrightarrow> s = g"
    and "allowed_path table ss" and "t \<in> set ss" and "hd ss \<noteq> t"
  shows "\<exists>xs ys. ss = xs @ g # t # ys"
  using assms(2-)
proof (induction ss)
  case (Cons u ss)
  show ?case
  proof (cases ss)
    case (Cons v vs)
    show ?thesis
    proof (cases "v = t")
      case True
      with assms(1) Cons.prems Cons have "u = g" by auto
      then show ?thesis using True Cons by (intro exI [of _ "[]"] exI [of _ vs]) simp
    next
      case False
      with Cons.IH Cons.prems Cons obtain xs ys where "ss = xs @ g # t # ys" by auto
      then have "u # ss = (u # xs) @ g # t # ys" by simp
      then show ?thesis by blast
    qed
  qed (use Cons.prems in auto)
qed simp

end

end
