(* ===== verification/CurriculumWorkflow.thy ===== *)
theory CurriculumWorkflow
  imports CurriculumState Workflow
begin

text \<open>
  The governance workflow of src/app/curriculum: the transition rules of change sets, the services
  that review, publish, supersede, adopt and withdraw (services.py), the dependency guards other
  applications rely on (dependency_guards.py) and the planners (rollout_planning.py,
  rollback_planning.py, notice_batch_planning.py, governance_decision_rules.py).
\<close>

section \<open>Transitions (publication_state_machine.py)\<close>

definition ALLOWED_TRANSITIONS :: "(string \<times> string list) list" where
  "ALLOWED_TRANSITIONS =
     [(''detected'', [''quarantined'', ''under_review'', ''rejected'']),
      (''quarantined'', [''under_review'', ''rejected'']),
      (''under_review'', [''approved'', ''rejected'']),
      (''approved'', [''published'', ''rejected'']),
      (''published'', [''superseded'']),
      (''rejected'', []),
      (''superseded'', [])]"

definition validate_transition :: "string \<Rightarrow> string \<Rightarrow> unit result" where
  "validate_transition old_status new_status =
     (if new_status \<notin> set (allowed_targets ALLOWED_TRANSITIONS old_status)
      then Inl (ValidationError ''status'' ''Curriculum workflow transition is not allowed.'') else Inr ())"

section \<open>Planners\<close>

record rollout_batch =
  batch_number :: int
  start_index :: int
  end_index :: int

definition validate_adoption_window :: "date \<Rightarrow> date \<Rightarrow> unit result" where
  "validate_adoption_window publication_effective_from adoption_effective_from =
     (if adoption_effective_from < publication_effective_from
      then Inl (ValidationError ''effective_from'' ''Adoption cannot precede publication.'') else Inr ())"

text \<open>\<open>ceil(total / size)\<close>: the float quotient is exact for counts below 2^53.\<close>

definition ceil_div :: "int \<Rightarrow> int \<Rightarrow> int" where
  "ceil_div a b = - (- a div b)"

definition plan_rollout_batches :: "int \<Rightarrow> int \<Rightarrow> rollout_batch list result" where
  "plan_rollout_batches total_items batch_size =
     (if total_items < 0 then Inl (ValidationError ''total_items'' ''Total item count is invalid.'')
      else if batch_size < 1 then Inl (ValidationError ''batch_size'' ''Batch size must be positive.'')
      else Inr (map (\<lambda>index. let start = int index * batch_size in
          \<lparr>batch_number = int index + 1, start_index = start, end_index = min (start + batch_size) total_items\<rparr>)
        [0..<nat (ceil_div total_items batch_size)]))"

record rollback_decision =
  rbd_status :: string
  rbd_requires_review :: bool
  rbd_reason :: string

definition plan_assessment_rebind_eligibility :: "bool \<Rightarrow> bool \<Rightarrow> rollback_decision" where
  "plan_assessment_rebind_eligibility has_submitted_batches has_grade_records =
     (if has_submitted_batches \<or> has_grade_records
      then \<lparr>rbd_status = ''review_required'', rbd_requires_review = True,
            rbd_reason = ''submitted_academic_history_present''\<rparr>
      else \<lparr>rbd_status = ''eligible_for_controlled_rebind'', rbd_requires_review = False,
            rbd_reason = ''no_submitted_academic_history''\<rparr>)"

record notice_batch_plan =
  np_total_count :: int
  np_batch_size :: int
  np_batch_count :: int

definition plan_notice_batch :: "int \<Rightarrow> int \<Rightarrow> notice_batch_plan result" where
  "plan_notice_batch total_count batch_size =
     (if total_count < 0 then Inl (ValidationError ''total_count'' ''Total notice count is invalid.'')
      else if batch_size < 1 then Inl (ValidationError ''batch_size'' ''Batch size must be positive.'')
      else Inr \<lparr>np_total_count = total_count, np_batch_size = batch_size,
        np_batch_count = (total_count + batch_size - 1) div batch_size\<rparr>)"

definition APPROVAL_REPORT_STATUSES :: "string list" where
  "APPROVAL_REPORT_STATUSES = [''complete'', ''escalated'']"

definition validate_governance_decision :: "string \<Rightarrow> string \<Rightarrow> string \<Rightarrow> string result" where
  "validate_governance_decision decision report_status reason =
     (let normalized = lower (strip decision) in
      if normalized \<notin> {''pending'', ''approved_for_publication'', ''rejected'', ''requires_more_evidence'', ''escalated''}
      then Inl (ValidationError ''decision'' ''Governance decision is not allowed.'')
      else if normalized = ''approved_for_publication'' \<and> report_status \<notin> set APPROVAL_REPORT_STATUSES
      then Inl (ValidationError ''verification_report'' ''Approval requires a completed report.'')
      else if normalized \<in> {''rejected'', ''requires_more_evidence'', ''escalated''} \<and> strip reason = []
      then Inl (ValidationError ''reason'' ''Governance decision reason required.'')
      else Inr normalized)"

section \<open>Dependency guards (dependency_guards.py)\<close>

record guard_result =
  gr_is_allowed :: bool
  gr_reason :: string

definition validate_grading_dependency_state ::
  "bool \<Rightarrow> bool \<Rightarrow> bool \<Rightarrow> bool \<Rightarrow> bool \<Rightarrow> guard_result" where
  "validate_grading_dependency_state is_published is_school_adopted is_withdrawn has_learning_area_context
       has_rubric_context =
     (if is_withdrawn then \<lparr>gr_is_allowed = False, gr_reason = ''curriculum_version_withdrawn''\<rparr>
      else if \<not> is_published then \<lparr>gr_is_allowed = False, gr_reason = ''curriculum_version_unpublished''\<rparr>
      else if \<not> is_school_adopted then \<lparr>gr_is_allowed = False, gr_reason = ''curriculum_version_not_adopted''\<rparr>
      else if \<not> has_learning_area_context then \<lparr>gr_is_allowed = False, gr_reason = ''learning_area_context_required''\<rparr>
      else if \<not> has_rubric_context then \<lparr>gr_is_allowed = False, gr_reason = ''rubric_context_required''\<rparr>
      else \<lparr>gr_is_allowed = True, gr_reason = ''allowed''\<rparr>)"

definition validate_historical_dependency_state :: "bool \<Rightarrow> bool \<Rightarrow> bool \<Rightarrow> guard_result" where
  "validate_historical_dependency_state has_curriculum_version has_learning_area_context has_snapshot_context =
     (if \<not> has_curriculum_version then \<lparr>gr_is_allowed = False, gr_reason = ''curriculum_version_required''\<rparr>
      else if \<not> has_learning_area_context then \<lparr>gr_is_allowed = False, gr_reason = ''learning_area_context_required''\<rparr>
      else if \<not> has_snapshot_context then \<lparr>gr_is_allowed = False, gr_reason = ''snapshot_context_required''\<rparr>
      else \<lparr>gr_is_allowed = True, gr_reason = ''historical_context_preserved''\<rparr>)"

definition validate_reporting_dependency_state :: "bool \<Rightarrow> bool \<Rightarrow> bool \<Rightarrow> guard_result" where
  "validate_reporting_dependency_state has_compiled_snapshot has_preserved_curriculum_context is_report_phase_enabled =
     (if \<not> is_report_phase_enabled then \<lparr>gr_is_allowed = False, gr_reason = ''reports_not_enabled''\<rparr>
      else if \<not> has_compiled_snapshot then \<lparr>gr_is_allowed = False, gr_reason = ''compiled_snapshot_required''\<rparr>
      else if \<not> has_preserved_curriculum_context then \<lparr>gr_is_allowed = False, gr_reason = ''curriculum_context_required''\<rparr>
      else \<lparr>gr_is_allowed = True, gr_reason = ''allowed''\<rparr>)"

section \<open>Authority (services.py)\<close>

definition require_active_reviewer :: "user option \<Rightarrow> unit result" where
  "require_active_reviewer user =
     (case user of None \<Rightarrow> Inl (ValidationError ''reviewed_by'' ''An active reviewer is required.'')
      | Some u \<Rightarrow> if us_is_active u then Inr ()
          else Inl (ValidationError ''reviewed_by'' ''An active reviewer is required.''))"

text \<open>The authority over national curriculum truth: an active school_admin binding in any school.\<close>

definition is_truth_manager :: "'a identity_db_scheme \<Rightarrow> uuid \<Rightarrow> bool" where
  "is_truth_manager db uid \<longleftrightarrow>
     (\<exists>b\<in>set (role_bindings db). rb_user b = uid \<and> rb_is_active b \<and>
        role_row_is (\<lambda>r. ro_is_active r \<and> ro_code r = ''school_admin'') db (rb_role b))"

definition require_curriculum_truth_manager :: "'a identity_db_scheme \<Rightarrow> string \<Rightarrow> user option \<Rightarrow> user result" where
  "require_curriculum_truth_manager db field user =
     ebind (require_active_reviewer user) (\<lambda>_.
       if is_truth_manager db (us_id (the user)) then Inr (the user)
       else Inl (ValidationError field ''Curriculum authority role is required.''))"

definition require_school_curriculum_manager ::
  "'a identity_db_scheme \<Rightarrow> user option \<Rightarrow> school option \<Rightarrow> user result" where
  "require_school_curriculum_manager db user tenant =
     ebind (require_active_reviewer user) (\<lambda>_.
       if \<exists>c\<in>{''principal'', ''deputy_principal'', ''school_admin''}. user_has_role_in_tenant db user tenant c
       then Inr (the user)
       else Inl (ValidationError ''actor'' ''Curriculum school authority is required.''))"

definition require_evidence_submitter ::
  "'a identity_db_scheme \<Rightarrow> user option \<Rightarrow> school option \<Rightarrow> string result" where
  "require_evidence_submitter db user tenant =
     ebind (require_active_reviewer user) (\<lambda>_.
       case filter (user_has_role_in_tenant db user tenant) [''principal'', ''deputy_principal'', ''school_admin''] of
         [] \<Rightarrow> Inl (ValidationError ''actor'' ''Evidence submitter role is required.'')
       | c # _ \<Rightarrow> Inr c)"

definition require_governance_approver ::
  "'a identity_db_scheme \<Rightarrow> user option \<Rightarrow> school option \<Rightarrow> unit result" where
  "require_governance_approver db user tenant =
     ebind (require_active_reviewer user) (\<lambda>_.
       if user_has_role_in_tenant db user tenant ''school_admin'' then Inr ()
       else Inl (ValidationError ''actor'' ''Curriculum governance role is required.''))"

section \<open>Events after commit\<close>

text \<open>
  \<open>transaction.on_commit\<close>: the event is written once the service's transaction is done, in a
  transaction of its own; when writing it raises, the caller sees the exception and the service's
  changes stay.
\<close>

definition curriculum_event ::
  "string \<Rightarrow> string \<Rightarrow> (string \<times> json) list \<Rightarrow> uuid option \<Rightarrow> uuid option \<Rightarrow> outbox_request" where
  "curriculum_event event_type key payload tenant actor_id =
     \<lparr>rq_event_type = event_type, rq_event_version = 1, rq_source_module = ''curriculum'',
      rq_idempotency_key = key, rq_payload = JObj payload, rq_tenant = tenant, rq_actor_id = actor_id,
      rq_partition_key = None, rq_occurred_at = None, rq_priority = None\<rparr>"

definition record_after_commit ::
  "time \<Rightarrow> uuid \<Rightarrow> ('r \<Rightarrow> outbox_request) \<Rightarrow> ('a curriculum_db_scheme, 'r) action \<Rightarrow> ('a curriculum_db_scheme, 'r) action" where
  "record_after_commit now event_id request service db =
     (case service db of
        (Inl e, db1) \<Rightarrow> (Inl e, db1)
      | (Inr r, db1) \<Rightarrow>
          (case write_outbox_event now event_id (request r) (event_tables db1) of
             (Inl e, ev) \<Rightarrow> (Inl e, db1\<lparr>event_tables := ev\<rparr>)
           | (Inr _, ev) \<Rightarrow> (Inr r, db1\<lparr>event_tables := ev\<rparr>)))"

section \<open>Change sets\<close>

definition add_change_set :: "change_set \<Rightarrow> 'a curriculum_db_scheme \<Rightarrow> 'a curriculum_db_scheme" where
  "add_change_set r db = db\<lparr>change_sets := change_sets db @ [r]\<rparr>"

definition put_change_set :: "change_set \<Rightarrow> 'a curriculum_db_scheme \<Rightarrow> 'a curriculum_db_scheme" where
  "put_change_set r db = db\<lparr>change_sets := update_where (\<lambda>q. ch_id q = ch_id r) (\<lambda>_. r) (change_sets db)\<rparr>"

definition create_curriculum_change_set ::
  "uuid \<Rightarrow> uuid \<Rightarrow> string \<Rightarrow> string \<Rightarrow> uuid option \<Rightarrow> uuid option \<Rightarrow> ('a curriculum_db_scheme, change_set) action" where
  "create_curriculum_change_set new_id source_document change_type summary old_version proposed_version =
     save_clean change_set_full_clean add_change_set
       \<lparr>ch_id = new_id, ch_source_document = source_document, ch_old_version = old_version,
        ch_proposed_version = proposed_version, ch_change_type = change_type, ch_summary = summary,
        ch_status = ''detected'', ch_reviewed_at = None, ch_reviewed_by = None\<rparr>"

definition move_change_set_to_review :: "change_set \<Rightarrow> change_set result" where
  "move_change_set_to_review c =
     ebind (if ch_status c = ''detected''
            then ebind (validate_transition ''detected'' ''quarantined'') (\<lambda>_. Inr (c\<lparr>ch_status := ''quarantined''\<rparr>))
            else Inr c) (\<lambda>c.
       if ch_status c = ''quarantined''
       then ebind (validate_transition ''quarantined'' ''under_review'') (\<lambda>_. Inr (c\<lparr>ch_status := ''under_review''\<rparr>))
       else Inr c)"

text \<open>The change set is the object the caller holds; saving writes all its columns.\<close>

definition approve_change_set ::
  "time \<Rightarrow> change_set \<Rightarrow> user option \<Rightarrow> ('a curriculum_db_scheme, change_set) action" where
  "approve_change_set now c reviewed_by =
     atomic (\<lambda>db.
       case ebind (require_curriculum_truth_manager db ''reviewed_by'' reviewed_by) (\<lambda>u.
         ebind (move_change_set_to_review c) (\<lambda>c.
           ebind (validate_transition (ch_status c) ''approved'') (\<lambda>_.
             Inr (c\<lparr>ch_status := ''approved'', ch_reviewed_by := Some (us_id u), ch_reviewed_at := Some now\<rparr>)))) of
         Inl e \<Rightarrow> (Inl e, db)
       | Inr c \<Rightarrow> save_clean change_set_full_clean put_change_set c db)"

definition reject_change_set ::
  "time \<Rightarrow> change_set \<Rightarrow> user option \<Rightarrow> ('a curriculum_db_scheme, change_set) action" where
  "reject_change_set now c reviewed_by =
     atomic (\<lambda>db.
       case ebind (require_curriculum_truth_manager db ''reviewed_by'' reviewed_by) (\<lambda>u.
         ebind (if ch_status c \<notin> {''detected'', ''quarantined'', ''under_review'', ''approved''}
                then validate_transition (ch_status c) ''rejected'' else Inr ()) (\<lambda>_.
           Inr (c\<lparr>ch_status := ''rejected'', ch_reviewed_by := Some (us_id u), ch_reviewed_at := Some now\<rparr>))) of
         Inl e \<Rightarrow> (Inl e, db)
       | Inr c \<Rightarrow> save_clean change_set_full_clean put_change_set c db)"

section \<open>Publications\<close>

definition add_publication :: "publication \<Rightarrow> 'a curriculum_db_scheme \<Rightarrow> 'a curriculum_db_scheme" where
  "add_publication r db = db\<lparr>publications := publications db @ [r]\<rparr>"

definition put_publication :: "publication \<Rightarrow> 'a curriculum_db_scheme \<Rightarrow> 'a curriculum_db_scheme" where
  "put_publication r db = db\<lparr>publications := update_where (\<lambda>q. pb_id q = pb_id r) (\<lambda>_. r) (publications db)\<rparr>"

definition create_curriculum_publication ::
  "time \<Rightarrow> uuid \<Rightarrow> uuid \<Rightarrow> date \<Rightarrow> string \<Rightarrow> user option \<Rightarrow> date option \<Rightarrow> bool \<Rightarrow> bool
     \<Rightarrow> ('a curriculum_db_scheme, publication) action" where
  "create_curriculum_publication now new_id version effective_from notes approved_by effective_to is_active workflow_approved =
     atomic (\<lambda>db.
       if is_active \<and> \<not> workflow_approved
       then (Inl (ValidationError ''is_active'' ''Active publication requires approved workflow.''), db)
       else case (if is_active then ebind (require_curriculum_truth_manager db ''approved_by'' approved_by) (\<lambda>_. Inr ())
                  else Inr ()) of
         Inl e \<Rightarrow> (Inl e, db)
       | Inr _ \<Rightarrow> save_clean publication_full_clean add_publication
           \<lparr>pb_id = new_id, pb_version = version, pb_effective_from = effective_from, pb_effective_to = effective_to,
            pb_is_active = is_active, pb_notes = notes, pb_approved_by = map_option us_id approved_by,
            pb_published_at = now, pb_superseded_by = None\<rparr> db)"

definition publish_curriculum_version ::
  "time \<Rightarrow> uuid \<Rightarrow> change_set \<Rightarrow> uuid option \<Rightarrow> user option \<Rightarrow> date \<Rightarrow> string \<Rightarrow> ('a curriculum_db_scheme, publication) action" where
  "publish_curriculum_version now new_id c version approved_by effective_from notes =
     atomic (\<lambda>db.
       case (case version of
               None \<Rightarrow> Inl (ValidationError ''curriculum_version'' ''Approved curriculum version is required.'')
             | Some v \<Rightarrow> ebind (require_curriculum_truth_manager db ''approved_by'' approved_by) (\<lambda>u.
                 if ch_proposed_version c \<noteq> Some v
                 then Inl (ValidationError ''curriculum_version'' ''Published version must match the change set.'')
                 else ebind (validate_transition (ch_status c) ''published'') (\<lambda>_. Inr (v, u)))) of
         Inl e \<Rightarrow> (Inl e, db)
       | Inr (v, u) \<Rightarrow>
           abind (create_curriculum_publication now new_id v effective_from notes approved_by None True True) (\<lambda>p.
             abind (save_clean change_set_full_clean put_change_set
                 (c\<lparr>ch_status := ''published'', ch_reviewed_by := Some (us_id u), ch_reviewed_at := Some now\<rparr>))
               (\<lambda>_ db. (Inr p, db))) db)"

definition supersede_curriculum_publication ::
  "publication \<Rightarrow> publication \<Rightarrow> ('a curriculum_db_scheme, publication) action" where
  "supersede_curriculum_publication p superseded_by =
     save_clean publication_full_clean put_publication
       (p\<lparr>pb_is_active := False, pb_superseded_by := Some (pb_id superseded_by)\<rparr>)"

text \<open>\<open>order_by("-effective_from", "-published_at").first()\<close>.\<close>

definition active_publication_for_version :: "'a curriculum_db_scheme \<Rightarrow> uuid \<Rightarrow> publication option" where
  "active_publication_for_version db v =
     (case sort_key (\<lambda>p. (- pb_effective_from p, - pb_published_at p))
         (filter (\<lambda>p. pb_version p = v \<and> pb_is_active p) (publications db)) of
        [] \<Rightarrow> None | p # _ \<Rightarrow> Some p)"

section \<open>Adoption by a school\<close>

definition add_adoption :: "adoption \<Rightarrow> 'a curriculum_db_scheme \<Rightarrow> 'a curriculum_db_scheme" where
  "add_adoption r db = db\<lparr>adoptions := adoptions db @ [r]\<rparr>"

definition put_adoption :: "adoption \<Rightarrow> 'a curriculum_db_scheme \<Rightarrow> 'a curriculum_db_scheme" where
  "put_adoption r db = db\<lparr>adoptions := update_where (\<lambda>q. ad_id q = ad_id r) (\<lambda>_. r) (adoptions db)\<rparr>"

definition schedule_adoption ::
  "time \<Rightarrow> uuid \<Rightarrow> school \<Rightarrow> uuid \<Rightarrow> date \<Rightarrow> user option \<Rightarrow> string \<Rightarrow> ('a curriculum_db_scheme, adoption) action" where
  "schedule_adoption now new_id tenant version effective_from scheduled_by notes =
     atomic (\<lambda>db.
       case ebind (require_school_curriculum_manager db scheduled_by (Some tenant)) (\<lambda>u.
         case active_publication_for_version db version of
           None \<Rightarrow> Inl (ValidationError ''curriculum_version'' ''Published curriculum version is required.'')
         | Some p \<Rightarrow> ebind (validate_adoption_window (pb_effective_from p) effective_from) (\<lambda>_. Inr u)) of
         Inl e \<Rightarrow> (Inl e, db)
       | Inr u \<Rightarrow> save_clean adoption_full_clean add_adoption
           \<lparr>ad_id = new_id, ad_tenant = sc_id tenant, ad_version = version, ad_status = ''scheduled'',
            ad_effective_from = effective_from, ad_effective_to = None, ad_adopted_by = Some (us_id u),
            ad_adopted_at = Some now, ad_notes = notes\<rparr> db)"

text \<open>\<open>date_text\<close> is \<open>str\<close> of a date, ISO 8601.\<close>

definition schedule_school_curriculum_adoption ::
  "(date \<Rightarrow> string) \<Rightarrow> time \<Rightarrow> uuid \<Rightarrow> uuid \<Rightarrow> school \<Rightarrow> uuid \<Rightarrow> date \<Rightarrow> user option \<Rightarrow> string \<Rightarrow> ('a curriculum_db_scheme, adoption) action" where
  "schedule_school_curriculum_adoption date_text now new_id event_id tenant version effective_from scheduled_by notes =
     record_after_commit now event_id (\<lambda>a. curriculum_event ''curriculum.school_adoption_scheduled''
         (''curriculum-adoption-scheduled:'' @ ad_id a)
         [(''tenant_id'', JStr (sc_id tenant)), (''curriculum_version_id'', JStr version),
          (''adoption_id'', JStr (ad_id a)), (''effective_from'', JStr (date_text (ad_effective_from a)))]
         (Some (sc_id tenant)) (map_option us_id scheduled_by))
       (schedule_adoption now new_id tenant version effective_from scheduled_by notes)"

definition tenant_row :: "'a identity_db_scheme \<Rightarrow> uuid \<Rightarrow> school option" where
  "tenant_row db i = first_where (\<lambda>s. sc_id s = i) (schools db)"

definition activate_school_curriculum_adoption ::
  "time \<Rightarrow> adoption \<Rightarrow> user option \<Rightarrow> ('a curriculum_db_scheme, adoption) action" where
  "activate_school_curriculum_adoption now a activated_by =
     atomic (\<lambda>db.
       case ebind (require_school_curriculum_manager db activated_by (tenant_row db (ad_tenant a))) (\<lambda>u.
         if version_is_withdrawn db (ad_version a)
         then Inl (ValidationError ''curriculum_version'' ''Withdrawn curriculum cannot be activated.'') else Inr u) of
         Inl e \<Rightarrow> (Inl e, db)
       | Inr u \<Rightarrow> save_clean adoption_full_clean put_adoption
           (a\<lparr>ad_status := ''active'', ad_adopted_by := Some (us_id u), ad_adopted_at := Some now\<rparr>) db)"

section \<open>Withdrawal and rollback plans\<close>

definition add_withdrawal :: "withdrawal \<Rightarrow> 'a curriculum_db_scheme \<Rightarrow> 'a curriculum_db_scheme" where
  "add_withdrawal r db = db\<lparr>withdrawals := withdrawals db @ [r]\<rparr>"

definition withdraw_version ::
  "time \<Rightarrow> uuid \<Rightarrow> uuid \<Rightarrow> user option \<Rightarrow> string \<Rightarrow> uuid option \<Rightarrow> ('a curriculum_db_scheme, withdrawal) action" where
  "withdraw_version now new_id version withdrawn_by reason replacement =
     atomic (\<lambda>db.
       case require_curriculum_truth_manager db ''withdrawn_by'' withdrawn_by of
         Inl e \<Rightarrow> (Inl e, db)
       | Inr u \<Rightarrow> save_clean withdrawal_full_clean add_withdrawal
           \<lparr>wd_id = new_id, wd_version = version, wd_replacement = replacement, wd_status = ''withdrawn'',
            wd_reason = reason, wd_withdrawn_by = Some (us_id u), wd_withdrawn_at = Some now\<rparr> db)"

definition mark_curriculum_version_withdrawn ::
  "(time \<Rightarrow> string) \<Rightarrow> time \<Rightarrow> uuid \<Rightarrow> uuid \<Rightarrow> uuid \<Rightarrow> user option \<Rightarrow> string \<Rightarrow> uuid option \<Rightarrow> ('a curriculum_db_scheme, withdrawal) action" where
  "mark_curriculum_version_withdrawn isoformat now new_id event_id version withdrawn_by reason replacement =
     record_after_commit now event_id (\<lambda>w. curriculum_event ''curriculum.version_withdrawn''
         (''curriculum-version-withdrawn:'' @ wd_id w)
         [(''curriculum_version_id'', JStr version), (''withdrawal_id'', JStr (wd_id w)), (''withdrawn_at'', JStr (isoformat now))]
         None (map_option us_id withdrawn_by))
       (withdraw_version now new_id version withdrawn_by reason replacement)"

definition add_rollback_plan :: "rollback_plan \<Rightarrow> 'a curriculum_db_scheme \<Rightarrow> 'a curriculum_db_scheme" where
  "add_rollback_plan r db = db\<lparr>rollback_plans := rollback_plans db @ [r]\<rparr>"

definition plan_rollback ::
  "uuid \<Rightarrow> school \<Rightarrow> uuid \<Rightarrow> user option \<Rightarrow> string \<Rightarrow> uuid option \<Rightarrow> int \<Rightarrow> ('a curriculum_db_scheme, rollback_plan) action" where
  "plan_rollback new_id tenant withdrawn_version planned_by reason target_version affected =
     atomic (\<lambda>db.
       case require_school_curriculum_manager db planned_by (Some tenant) of
         Inl e \<Rightarrow> (Inl e, db)
       | Inr u \<Rightarrow> save_clean rollback_plan_full_clean add_rollback_plan
           \<lparr>rp_id = new_id, rp_tenant = sc_id tenant, rp_withdrawn_version = withdrawn_version,
            rp_target_version = target_version, rp_status = ''planned'', rp_reason = reason,
            rp_planned_by = Some (us_id u), rp_affected_count = affected\<rparr> db)"

definition plan_curriculum_rollback ::
  "time \<Rightarrow> uuid \<Rightarrow> uuid \<Rightarrow> school \<Rightarrow> uuid \<Rightarrow> user option \<Rightarrow> string \<Rightarrow> uuid option \<Rightarrow> int \<Rightarrow> ('a curriculum_db_scheme, rollback_plan) action" where
  "plan_curriculum_rollback now new_id event_id tenant withdrawn_version planned_by reason target_version affected =
     record_after_commit now event_id (\<lambda>r. curriculum_event ''curriculum.rollback_planned''
         (''curriculum-rollback-planned:'' @ rp_id r)
         [(''tenant_id'', JStr (sc_id tenant)), (''rollback_plan_id'', JStr (rp_id r)),
          (''withdrawn_version_id'', JStr withdrawn_version),
          (''target_version_id'', JStr (case target_version of None \<Rightarrow> [] | Some v \<Rightarrow> v)),
          (''affected_assessment_count'', JInt affected)]
         (Some (sc_id tenant)) (map_option us_id planned_by))
       (plan_rollback new_id tenant withdrawn_version planned_by reason target_version affected)"

definition add_notice_batch :: "notice_batch \<Rightarrow> 'a curriculum_db_scheme \<Rightarrow> 'a curriculum_db_scheme" where
  "add_notice_batch r db = db\<lparr>notice_batches := notice_batches db @ [r]\<rparr>"

text \<open>The service returns the batch; the planned number of batches goes into the event only.\<close>

definition start_notice_batch ::
  "uuid \<Rightarrow> string \<Rightarrow> int \<Rightarrow> int \<Rightarrow> user option \<Rightarrow> school option \<Rightarrow> uuid option \<Rightarrow> string
     \<Rightarrow> ('a curriculum_db_scheme, notice_batch \<times> notice_batch_plan) action" where
  "start_notice_batch new_id notice_type total_count batch_size created_by tenant version notes =
     atomic (\<lambda>db.
       case ebind (case tenant of
              Some t \<Rightarrow> require_school_curriculum_manager db created_by (Some t)
            | None \<Rightarrow> require_curriculum_truth_manager db ''created_by'' created_by) (\<lambda>u.
         ebind (plan_notice_batch total_count batch_size) (\<lambda>plan. Inr (u, plan))) of
         Inl e \<Rightarrow> (Inl e, db)
       | Inr (u, plan) \<Rightarrow>
           abind (save_clean notice_batch_full_clean add_notice_batch
               \<lparr>nb_id = new_id, nb_tenant = map_option sc_id tenant, nb_version = version, nb_notice_type = notice_type,
                nb_status = ''planned'', nb_total_count = np_total_count plan, nb_processed_count = 0,
                nb_created_by = Some (us_id u), nb_notes = notes\<rparr>)
             (\<lambda>b db. (Inr (b, plan), db)) db)"

definition create_notice_batch_run ::
  "time \<Rightarrow> uuid \<Rightarrow> uuid \<Rightarrow> string \<Rightarrow> int \<Rightarrow> int \<Rightarrow> user option \<Rightarrow> school option \<Rightarrow> uuid option \<Rightarrow> string
     \<Rightarrow> ('a curriculum_db_scheme, notice_batch \<times> notice_batch_plan) action" where
  "create_notice_batch_run now new_id event_id notice_type total_count batch_size created_by tenant version notes =
     record_after_commit now event_id (\<lambda>(b, plan). curriculum_event ''curriculum.notice_batch_created''
         (''curriculum-notice-batch-created:'' @ nb_id b)
         ([(''notice_batch_id'', JStr (nb_id b)), (''notice_type'', JStr (nb_notice_type b)),
           (''total_count'', JInt (nb_total_count b)), (''batch_count'', JInt (np_batch_count plan))] @
          (case tenant of None \<Rightarrow> [] | Some t \<Rightarrow> [(''tenant_id'', JStr (sc_id t))]) @
          (case version of None \<Rightarrow> [] | Some v \<Rightarrow> [(''curriculum_version_id'', JStr v)]))
         (map_option sc_id tenant) (map_option us_id created_by))
       (start_notice_batch new_id notice_type total_count batch_size created_by tenant version notes)"

section \<open>What grading asks of the curriculum\<close>

definition rubric_matches_curriculum_context ::
  "'a curriculum_db_scheme \<Rightarrow> uuid \<Rightarrow> uuid option \<Rightarrow> rubric option \<Rightarrow> bool" where
  "rubric_matches_curriculum_context db version area r =
     (case (area, r) of
        (Some la, Some r) \<Rightarrow>
          rf_is_active r \<and>
          (case Option.bind (rubric_sub_strand db r) (sub_strand_area db) of
             None \<Rightarrow> False
           | Some cl \<Rightarrow> cl_version cl = version \<and> cl_learning_area cl = la \<and> cl_is_active cl)
      | _ \<Rightarrow> False)"

definition validate_curriculum_context_for_grading_binding ::
  "'a curriculum_db_scheme \<Rightarrow> uuid option \<Rightarrow> uuid option \<Rightarrow> uuid option \<Rightarrow> rubric option \<Rightarrow> unit result" where
  "validate_curriculum_context_for_grading_binding db tenant version area r =
     (case tenant of
        None \<Rightarrow> Inl (ValidationError ''tenant'' ''Tenant is required.'')
      | Some t \<Rightarrow>
      case version of
        None \<Rightarrow> Inl (ValidationError ''curriculum_version'' ''Curriculum version required.'')
      | Some v \<Rightarrow>
          (let adoption_exists = (\<exists>a\<in>set (adoptions db). ad_tenant a = t \<and> ad_version a = v \<and> live_adoption a);
               result = validate_grading_dependency_state (active_publication_for_version db v \<noteq> None) adoption_exists
                 (version_is_withdrawn db v)
                 (case Option.bind area (learning_area_row db) of None \<Rightarrow> False | Some la \<Rightarrow> la_tenant la = t)
                 (rubric_matches_curriculum_context db v area r)
           in if gr_is_allowed result then Inr () else Inl (ValidationError ''curriculum_version'' (gr_reason result))))"

definition validate_curriculum_context_for_compilation_dependency ::
  "uuid option \<Rightarrow> uuid option \<Rightarrow> time option \<Rightarrow> unit result" where
  "validate_curriculum_context_for_compilation_dependency version area locked_at =
     (let result = validate_historical_dependency_state (version \<noteq> None) (area \<noteq> None) (locked_at \<noteq> None)
      in if gr_is_allowed result then Inr () else Inl (ValidationError ''curriculum_version'' (gr_reason result)))"

definition validate_curriculum_context_for_reporting_dependency ::
  "bool \<Rightarrow> bool \<Rightarrow> bool \<Rightarrow> unit result" where
  "validate_curriculum_context_for_reporting_dependency has_compiled_snapshot has_preserved_curriculum_context
       is_report_phase_enabled =
     (let result = validate_reporting_dependency_state has_compiled_snapshot has_preserved_curriculum_context
          is_report_phase_enabled
      in if gr_is_allowed result then Inr () else Inl (ValidationError ''reports'' (gr_reason result)))"

end
