(* ===== verification/GovernanceText.thy ===== *)
theory GovernanceText
  imports CurriculumState
begin

text \<open>
  Which texts the guard of governance records accepts: a pattern that has to consume some character
  finds nothing in a text without such characters.
\<close>


primrec must_consume :: "(char \<Rightarrow> bool) \<Rightarrow> regex \<Rightarrow> bool" where
  "must_consume P Eps = False"
| "must_consume P (Cls Q) = (\<forall>c. Q c \<longrightarrow> P c)"
| "must_consume P (Seq a b) = (must_consume P a \<or> must_consume P b)"
| "must_consume P (Alt a b) = (must_consume P a \<and> must_consume P b)"
| "must_consume P (Star a) = False"
| "must_consume P WordBoundary = False"

lemma ends_all_consume: "q \<in> set (ends r p) \<Longrightarrow> consumes (\<lambda>_. True) p q"
  using ends_consumes [of q r p] by (auto elim: consumes_mono)

lemma must_consumeD:
  "must_consume P r \<Longrightarrow> q \<in> set (ends r p) \<Longrightarrow> \<exists>c\<in>set (snd p). P c \<and> set (snd q) \<subseteq> set (snd p)"
proof (induction r arbitrary: p q)
  case (Cls Q)
  then show ?case by (cases "snd p") (auto split: if_splits)
next
  case (Seq a b)
  from Seq.prems(2) obtain m where m: "m \<in> set (ends a p)" "q \<in> set (ends b m)" by auto
  have s: "set (snd m) \<subseteq> set (snd p)" "set (snd q) \<subseteq> set (snd m)"
    using ends_all_consume [OF m(1)] ends_all_consume [OF m(2)] by (auto simp: consumes_def)
  from Seq.prems(1) consider "must_consume P a" | "must_consume P b" by auto
  then show ?case
  proof cases
    case 1
    from Seq.IH(1) [OF this m(1)] s show ?thesis by blast
  next
    case 2
    from Seq.IH(2) [OF this m(2)] s show ?thesis by blast
  qed
next
  case (Alt a b)
  from Alt.prems(2) consider "q \<in> set (ends a p)" | "q \<in> set (ends b p)" by auto
  then show ?case
  proof cases
    case 1
    from Alt.IH(1) [OF _ this] Alt.prems(1) show ?thesis by simp
  next
    case 2
    from Alt.IH(2) [OF _ this] Alt.prems(1) show ?thesis by simp
  qed
qed auto

lemma search_from_must: "must_consume P r \<Longrightarrow> search_from r l s \<Longrightarrow> \<exists>c\<in>set s. P c"
proof (induction s arbitrary: l)
  case Nil
  then obtain q where "q \<in> set (ends r (l, []))" by (cases "ends r (l, [])") auto
  from must_consumeD [OF Nil(1) this] show ?case by simp
next
  case (Cons c s)
  show ?case
  proof (cases "ends r (l, c # s) = []")
    case True
    with Cons show ?thesis by auto
  next
    case False
    then obtain q where "q \<in> set (ends r (l, c # s))" by (cases "ends r (l, c # s)") auto
    from must_consumeD [OF Cons(2) this] show ?thesis by auto
  qed
qed

lemma search_must: "must_consume P r \<Longrightarrow> \<forall>c\<in>set s. \<not> P c \<Longrightarrow> \<not> search r s"
  unfolding search_def using search_from_must by blast

definition plain_char :: "char \<Rightarrow> bool" where
  "plain_char c \<longleftrightarrow> lower_char c \<notin> {CHR ''d'', CHR ''g'', CHR ''p'', CHR ''l''} \<and> c \<notin> {CHR ''<'', CHR ''='', CHR '':''}"

lemma governance_text_accepts:
  assumes "strip s \<noteq> []" and "\<forall>c\<in>set s. plain_char c"
  shows "validate_governance_text s = Inr ()"
proof -
  have "must_consume (\<lambda>c. \<not> plain_char c) r" if "r \<in> set PII_PATTERNS \<union> set HTML_INJECTION_PATTERNS" for r
    using that
    by (auto simp: PII_PATTERNS_def HTML_INJECTION_PATTERNS_def LitI_def Lit_def two_names_def plain_char_def)
  then have "\<not> search r s" if "r \<in> set PII_PATTERNS \<union> set HTML_INJECTION_PATTERNS" for r
    using that assms(2) search_must by blast
  then show ?thesis using assms(1) unfolding validate_governance_text_def by auto
qed

lemma ends_seqs: "m \<in> set (ends a p) \<Longrightarrow> q \<in> set (ends (seqs rs) m) \<Longrightarrow> q \<in> set (ends (seqs (a # rs)) p)"
  by (cases rs) auto

lemma search_at_start: "q \<in> set (ends r ([], s)) \<Longrightarrow> search r s"
  by (cases s) (auto simp: search_def)

lemma ends_Opt_skip: "p \<in> set (ends (Opt r) p)"
  by (simp add: Opt_def)

lemma ends_at_least_three:
  assumes "P a" "P b" "P c" "\<forall>x\<in>set u. P x"
  shows "(rev u @ c # b # a # l, v) \<in> set (ends (RepAtLeast 3 (Cls P)) (l, a # b # c # u @ v))"
proof -
  have "(rev u @ c # b # a # l, v) \<in> set (ends (Star (Cls P)) (c # b # a # l, u @ v))"
    by (rule ends_StarCls [OF assms(4)])
  then show ?thesis using assms(1-3) by (simp add: RepAtLeast_def numeral_3_eq_3)
qed

text \<open>The guard refuses harmless governance texts: it takes any word that begins like an
  abbreviation of admission and goes on for three characters for an admission number, so that a
  summary which speaks of an administrative update is refused as learner data.\<close>

theorem governance_text_refuses_administrative:
  "validate_governance_text ''Administrative update'' =
     Inl (ValidationError ''summary'' ''Governance text must not contain learner PII.'')"
proof -
  have s: "strip ''Administrative update'' \<noteq> []" by code_simp
  let ?r = "hd PII_PATTERNS"
  have l: "lower_char CHR ''A'' = CHR ''a''" "lower_char CHR ''d'' = CHR ''d''" "lower_char CHR ''m'' = CHR ''m''"
    "lower_char CHR ''i'' = CHR ''i''" "lower_char CHR ''n'' = CHR ''n''" "lower_char CHR ''s'' = CHR ''s''"
    "lower_char CHR ''t'' = CHR ''t''" "lower_char CHR ''r'' = CHR ''r''" "lower_char CHR ''a'' = CHR ''a''"
    "lower_char CHR ''v'' = CHR ''v''" "lower_char CHR ''e'' = CHR ''e''" by code_simp+
  have w: "word_char CHR ''A''" "word_char CHR ''e''" "\<not> word_char (CHR '' '')" by code_simp+
  have az: "is_az CHR ''a''" "is_az CHR ''i''" "is_az CHR ''n''" "is_az CHR ''s''" "is_az CHR ''t''" "is_az CHR ''r''"
    "is_az CHR ''v''" "is_az CHR ''e''" "\<not> is_az (CHR '' '')" "\<not> is_09 (CHR '' '')" "lower_char (CHR '' '') = CHR '' ''" by code_simp+
  let ?P = "\<lambda>c. lower_is is_az c \<or> is_09 c \<or> c = CHR ''-''"
  have "(rev ''Administrative'', '' update'') \<in> set (ends ?r ([], ''Administrative update''))"
  proof -
    have 1: "([], ''Administrative update'') \<in> set (ends WordBoundary ([], ''Administrative update''))"
      using w by (simp add: at_word_def)
    have 2: "(''mdA'', ''inistrative update'') \<in> set (ends (alts [LitI ''admission'', LitI ''adm'']) ([], ''Administrative update''))"
      by (simp add: LitI_def l)
    have P: "?P CHR ''i''" "?P CHR ''n''" "\<forall>c\<in>set ''strative''. ?P c" by (simp_all add: lower_is_def l az)
    have "rev ''strative'' @ ''inimdA'' = rev ''Administrative''" "CHR ''i'' # CHR ''n'' # CHR ''i'' # ''strative'' @ '' update'' = ''inistrative update''"
      by simp_all
    note e = this
    have 3: "(rev ''Administrative'', '' update'') \<in> set (ends (RepAtLeast 3 (Cls ?P)) (''mdA'', ''inistrative update''))"
      by (rule ends_at_least_three [where P = ?P and a = "CHR ''i''" and b = "CHR ''n''" and c = "CHR ''i''" and
            u = "''strative''" and l = "''mdA''" and v = "'' update''", OF P(1) P(2) P(1) P(3), unfolded e])
    have 4: "(rev ''Administrative'', '' update'') \<in> set (ends (seqs [WordBoundary]) (rev ''Administrative'', '' update''))"
      using w by (simp add: at_word_def)
    show ?thesis unfolding PII_PATTERNS_def separator_def list.sel
      by (intro ends_seqs [OF 1] ends_seqs [OF 2] ends_seqs [OF ends_Opt_skip] ends_seqs [OF 3] 4)
  qed
  then have "search ?r ''Administrative update''" by (rule search_at_start)
  moreover have "?r \<in> set PII_PATTERNS" by (simp add: PII_PATTERNS_def)
  ultimately have "\<exists>r\<in>set PII_PATTERNS. search r ''Administrative update''" by (rule bexI)
  then show ?thesis unfolding validate_governance_text_def by (simp only: s if_False if_True)
qed

end
