(* ===== verification/AcademicFacts.thy ===== *)
theory AcademicFacts
  imports Academic
begin

text \<open>
  The tables of a school stay coherent: whatever is created through the services, every row only
  refers to rows of its own school, terms lie inside their years, keys are unique and a school has
  one active year. The services share one contract, the locale \<open>clean_store\<close>.
\<close>

section \<open>The contract of a validated insert\<close>

locale clean_store =
  fixes full_clean :: "'db \<Rightarrow> 'r \<Rightarrow> 'r result" and insert_row :: "'r \<Rightarrow> 'db \<Rightarrow> 'db" and inv :: "'db \<Rightarrow> bool"
  assumes keeps: "inv db \<Longrightarrow> full_clean db r = Inr r' \<Longrightarrow> inv (insert_row r' db)"
begin

lemma save_stores:
  assumes "save_clean full_clean insert_row r db = (Inr r', db')"
  obtains r1 where "full_clean db r = Inr r1" "full_clean db r1 = Inr r'" "db' = insert_row r' db"
  using assms by (auto simp: save_clean_def result_simps split: sum.splits)

lemma save_refused: "save_clean full_clean insert_row r db = (Inl e, db') \<Longrightarrow> db' = db"
  by (auto simp: save_clean_def atomic_def split: sum.splits prod.splits)

lemma save_keeps: "inv db \<Longrightarrow> inv (snd (save_clean full_clean insert_row r db))"
proof (cases "save_clean full_clean insert_row r db")
  case (Pair res db')
  then show "inv db \<Longrightarrow> ?thesis"
    using keeps by (cases res) (auto dest: save_refused elim: save_stores)
qed

end

section \<open>Lookups survive inserts\<close>

lemma first_where_append:
  "first_where P (xs @ ys) = (case first_where P xs of None \<Rightarrow> first_where P ys | Some x \<Rightarrow> Some x)"
  by (induction xs) (simp_all add: first_where_def)

lemmas row_defs = year_row_def term_row_def grade_level_row_def learning_area_row_def cohort_row_def student_row_def

lemmas add_defs = add_year_def add_term_def add_grade_level_def add_learning_area_def add_cohort_def
  add_student_def add_enrollment_def add_assignment_def

definition extends :: "'a academic_db_scheme \<Rightarrow> 'a academic_db_scheme \<Rightarrow> bool" where
  "extends db db' \<longleftrightarrow>
     (\<forall>i r. year_row db i = Some r \<longrightarrow> year_row db' i = Some r) \<and>
     (\<forall>i r. term_row db i = Some r \<longrightarrow> term_row db' i = Some r) \<and>
     (\<forall>i r. grade_level_row db i = Some r \<longrightarrow> grade_level_row db' i = Some r) \<and>
     (\<forall>i r. learning_area_row db i = Some r \<longrightarrow> learning_area_row db' i = Some r) \<and>
     (\<forall>i r. cohort_row db i = Some r \<longrightarrow> cohort_row db' i = Some r) \<and>
     (\<forall>i r. student_row db i = Some r \<longrightarrow> student_row db' i = Some r)"

lemma add_extends:
  "extends db (add_year y db)" "extends db (add_term t db)" "extends db (add_grade_level g db)"
  "extends db (add_learning_area a db)" "extends db (add_cohort c db)" "extends db (add_student s db)"
  "extends db (add_enrollment e db)" "extends db (add_assignment ta db)"
  by (simp_all add: extends_def row_defs add_defs first_where_append)

section \<open>The invariant\<close>

definition year_clash :: "academic_year \<Rightarrow> academic_year \<Rightarrow> bool" where
  "year_clash q y \<longleftrightarrow> ay_id q \<noteq> ay_id y \<and> ay_tenant q = ay_tenant y
     \<and> (ay_label q = ay_label y \<or> ay_is_active q \<and> ay_is_active y)"

definition years_ok :: "'a academic_db_scheme \<Rightarrow> bool" where
  "years_ok db \<longleftrightarrow> (\<forall>y\<in>set (academic_years db). ay_start_date y < ay_end_date y \<and>
     (\<forall>q\<in>set (academic_years db). \<not> year_clash q y))"

definition term_clash :: "school_term \<Rightarrow> school_term \<Rightarrow> bool" where
  "term_clash q t \<longleftrightarrow> te_id q \<noteq> te_id t \<and> te_tenant q = te_tenant t
     \<and> te_academic_year q = te_academic_year t \<and> te_code q = te_code t"

definition term_inside :: "'a academic_db_scheme \<Rightarrow> school_term \<Rightarrow> bool" where
  "term_inside db t \<longleftrightarrow> te_code t \<in> set term_codes \<and> (\<exists>y. year_row db (te_academic_year t) = Some y \<and>
     ay_tenant y = te_tenant t \<and> ay_start_date y \<le> te_start_date t \<and> te_start_date t < te_end_date t \<and>
     te_end_date t \<le> ay_end_date y)"

definition terms_ok :: "'a academic_db_scheme \<Rightarrow> bool" where
  "terms_ok db \<longleftrightarrow> (\<forall>t\<in>set (terms db). term_inside db t \<and> (\<forall>q\<in>set (terms db). \<not> term_clash q t))"

definition areas_ok :: "'a academic_db_scheme \<Rightarrow> bool" where
  "areas_ok db \<longleftrightarrow> (\<forall>a\<in>set (learning_areas db). grade_level_row db (la_grade_level a) \<noteq> None \<and>
     (\<forall>q\<in>set (learning_areas db). la_id q \<noteq> la_id a \<longrightarrow> la_tenant q = la_tenant a \<longrightarrow>
        la_grade_level q = la_grade_level a \<longrightarrow> la_code q \<noteq> la_code a))"

definition cohorts_ok :: "'a academic_db_scheme \<Rightarrow> bool" where
  "cohorts_ok db \<longleftrightarrow> (\<forall>c\<in>set (cohorts db). grade_level_row db (co_grade_level c) \<noteq> None \<and>
     (\<exists>y. year_row db (co_academic_year c) = Some y \<and> ay_tenant y = co_tenant c))"

definition students_ok :: "'a academic_db_scheme \<Rightarrow> bool" where
  "students_ok db \<longleftrightarrow> (\<forall>s\<in>set (students db). \<forall>q\<in>set (students db). st_id q \<noteq> st_id s \<longrightarrow>
     st_tenant q = st_tenant s \<longrightarrow> st_admission_number q \<noteq> st_admission_number s)"

definition enrollment_local :: "'a academic_db_scheme \<Rightarrow> enrollment \<Rightarrow> bool" where
  "enrollment_local db e \<longleftrightarrow>
     (\<exists>s c y t. student_row db (en_student e) = Some s \<and> cohort_row db (en_cohort e) = Some c \<and>
        year_row db (en_academic_year e) = Some y \<and> term_row db (en_term e) = Some t \<and>
        st_tenant s = en_tenant e \<and> co_tenant c = en_tenant e \<and> ay_tenant y = en_tenant e \<and>
        te_tenant t = en_tenant e)"

definition assignment_local :: "'a academic_db_scheme \<Rightarrow> teacher_assignment \<Rightarrow> bool" where
  "assignment_local db a \<longleftrightarrow>
     (\<exists>c l y t. cohort_row db (ta_cohort a) = Some c \<and> learning_area_row db (ta_learning_area a) = Some l \<and>
        year_row db (ta_academic_year a) = Some y \<and> term_row db (ta_term a) = Some t \<and>
        co_tenant c = ta_tenant a \<and> la_tenant l = ta_tenant a \<and> ay_tenant y = ta_tenant a \<and>
        te_tenant t = ta_tenant a)"

definition academic_ok :: "'a academic_db_scheme \<Rightarrow> bool" where
  "academic_ok db \<longleftrightarrow> years_ok db \<and> terms_ok db \<and> areas_ok db \<and> cohorts_ok db \<and> students_ok db \<and>
     (\<forall>e\<in>set (enrollments db). enrollment_local db e) \<and> (\<forall>a\<in>set (assignments db). assignment_local db a)"

lemma extends_term_inside: "term_inside db t \<Longrightarrow> extends db db' \<Longrightarrow> term_inside db' t"
  unfolding term_inside_def extends_def by blast

lemma extends_enrollment: "enrollment_local db e \<Longrightarrow> extends db db' \<Longrightarrow> enrollment_local db' e"
  unfolding enrollment_local_def extends_def by blast

lemma extends_assignment: "assignment_local db a \<Longrightarrow> extends db db' \<Longrightarrow> assignment_local db' a"
  unfolding assignment_local_def extends_def by blast

lemma extends_lookups:
  assumes "extends db db'"
  shows "year_row db i = Some y \<Longrightarrow> year_row db' i = Some y"
    and "grade_level_row db i = Some g \<Longrightarrow> grade_level_row db' i = Some g"
  using assms unfolding extends_def by blast+

lemma extends_areas: "areas_ok db \<Longrightarrow> extends db db' \<Longrightarrow> learning_areas db' = learning_areas db \<Longrightarrow> areas_ok db'"
  by (fastforce simp: areas_ok_def dest: extends_lookups)

lemma extends_cohorts: "cohorts_ok db \<Longrightarrow> extends db db' \<Longrightarrow> cohorts db' = cohorts db \<Longrightarrow> cohorts_ok db'"
  by (fastforce simp: cohorts_ok_def dest: extends_lookups)

text \<open>Inserting a row leaves the facts about the other tables.\<close>

lemma academic_ok_extend:
  assumes ok: "academic_ok db" and x: "extends db db'"
    and "academic_years db' = academic_years db \<or> years_ok db'"
    and "\<forall>t\<in>set (terms db') - set (terms db). term_inside db' t"
    and "terms db' = terms db \<or> (\<forall>t\<in>set (terms db'). \<forall>q\<in>set (terms db'). \<not> term_clash q t)"
    and "learning_areas db' = learning_areas db \<or> areas_ok db'"
    and "cohorts db' = cohorts db \<or> cohorts_ok db'"
    and "students db' = students db \<or> students_ok db'"
    and "\<forall>e\<in>set (enrollments db') - set (enrollments db). enrollment_local db' e"
    and "\<forall>a\<in>set (assignments db') - set (assignments db). assignment_local db' a"
  shows "academic_ok db'"
proof -
  have "years_ok db'" using ok assms(3) by (auto simp: academic_ok_def years_ok_def)
  moreover have "students_ok db'" using ok assms(8) by (auto simp: academic_ok_def students_ok_def)
  moreover have "areas_ok db'" using ok x assms(6) extends_areas unfolding academic_ok_def by blast
  moreover have "cohorts_ok db'" using ok x assms(7) extends_cohorts unfolding academic_ok_def by blast
  moreover have "\<forall>t\<in>set (terms db'). term_inside db' t"
    using ok x assms(4) extends_term_inside unfolding academic_ok_def terms_ok_def by blast
  then have "terms_ok db'" using ok assms(5) unfolding academic_ok_def terms_ok_def by auto
  moreover have "\<forall>e\<in>set (enrollments db'). enrollment_local db' e"
    using ok x assms(9) extends_enrollment unfolding academic_ok_def by blast
  moreover have "\<forall>a\<in>set (assignments db'). assignment_local db' a"
    using ok x assms(10) extends_assignment unfolding academic_ok_def by blast
  ultimately show ?thesis by (simp add: academic_ok_def)
qed

lemma academic_okD:
  assumes "academic_ok db"
  shows "years_ok db" "areas_ok db" "cohorts_ok db" "students_ok db"
    "\<forall>t\<in>set (terms db). \<forall>q\<in>set (terms db). \<not> term_clash q t"
  using assms by (auto simp: academic_ok_def terms_ok_def)

lemma table_of_add [simp]:
  "academic_years (add_term t db) = academic_years db" "academic_years (add_grade_level g db) = academic_years db"
  "academic_years (add_learning_area a db) = academic_years db" "academic_years (add_cohort c db) = academic_years db"
  "academic_years (add_student s db) = academic_years db" "academic_years (add_enrollment e db) = academic_years db"
  "academic_years (add_assignment ta db) = academic_years db" "academic_years (add_year y db) = academic_years db @ [y]"
  "terms (add_year y db) = terms db" "terms (add_grade_level g db) = terms db"
  "terms (add_learning_area a db) = terms db" "terms (add_cohort c db) = terms db"
  "terms (add_student s db) = terms db" "terms (add_enrollment e db) = terms db"
  "terms (add_assignment ta db) = terms db" "terms (add_term t db) = terms db @ [t]"
  "learning_areas (add_year y db) = learning_areas db" "learning_areas (add_term t db) = learning_areas db"
  "learning_areas (add_grade_level g db) = learning_areas db" "learning_areas (add_cohort c db) = learning_areas db"
  "learning_areas (add_student s db) = learning_areas db" "learning_areas (add_enrollment e db) = learning_areas db"
  "learning_areas (add_assignment ta db) = learning_areas db"
  "learning_areas (add_learning_area a db) = learning_areas db @ [a]"
  "cohorts (add_year y db) = cohorts db" "cohorts (add_term t db) = cohorts db"
  "cohorts (add_grade_level g db) = cohorts db" "cohorts (add_learning_area a db) = cohorts db"
  "cohorts (add_student s db) = cohorts db" "cohorts (add_enrollment e db) = cohorts db"
  "cohorts (add_assignment ta db) = cohorts db" "cohorts (add_cohort c db) = cohorts db @ [c]"
  "students (add_year y db) = students db" "students (add_term t db) = students db"
  "students (add_grade_level g db) = students db" "students (add_learning_area a db) = students db"
  "students (add_cohort c db) = students db" "students (add_enrollment e db) = students db"
  "students (add_assignment ta db) = students db" "students (add_student s db) = students db @ [s]"
  "enrollments (add_year y db) = enrollments db" "enrollments (add_term t db) = enrollments db"
  "enrollments (add_grade_level g db) = enrollments db" "enrollments (add_learning_area a db) = enrollments db"
  "enrollments (add_cohort c db) = enrollments db" "enrollments (add_student s db) = enrollments db"
  "enrollments (add_assignment ta db) = enrollments db" "enrollments (add_enrollment e db) = enrollments db @ [e]"
  "assignments (add_year y db) = assignments db" "assignments (add_term t db) = assignments db"
  "assignments (add_grade_level g db) = assignments db" "assignments (add_learning_area a db) = assignments db"
  "assignments (add_cohort c db) = assignments db" "assignments (add_student s db) = assignments db"
  "assignments (add_enrollment e db) = assignments db" "assignments (add_assignment ta db) = assignments db @ [ta]"
  by (simp_all add: add_defs)

section \<open>Each service keeps the invariant\<close>

lemma year_full_clean_Inr:
  assumes "year_full_clean db y = Inr y'"
  shows "ay_start_date y' < ay_end_date y' \<and> (\<forall>q\<in>set (academic_years db). \<not> year_clash q y')"
  using assms
  by (auto simp: year_full_clean_def year_clean_def Let_def result_simps year_clash_def split: if_splits)

interpretation year_store: clean_store year_full_clean add_year academic_ok
proof
  fix db :: "'a academic_db_scheme" and r r'
  assume ok: "academic_ok db" and fc: "year_full_clean db r = Inr r'"
  note d = academic_okD [OF ok]
  have "years_ok (add_year r' db)"
    using d(1) year_full_clean_Inr [OF fc] by (auto simp: years_ok_def year_clash_def)
  then show "academic_ok (add_year r' db)"
    by (intro academic_ok_extend [OF ok add_extends(1)]) simp_all
qed

lemma term_full_clean_Inr:
  assumes "term_full_clean db t = Inr t'"
  shows "term_inside db t' \<and> (\<forall>q\<in>set (terms db). \<not> term_clash q t')"
  using assms
  by (auto simp: term_full_clean_def term_clean_def Let_def result_simps term_clash_def term_inside_def
      split: if_splits option.splits)

interpretation term_store: clean_store term_full_clean add_term academic_ok
proof
  fix db :: "'a academic_db_scheme" and r r'
  assume ok: "academic_ok db" and fc: "term_full_clean db r = Inr r'"
  note d = academic_okD [OF ok] and x = add_extends(2) [of db r']
  have "term_inside (add_term r' db) r'"
    using term_full_clean_Inr [OF fc] extends_term_inside [OF _ x] by blast
  moreover have "\<forall>t\<in>set (terms (add_term r' db)). \<forall>q\<in>set (terms (add_term r' db)). \<not> term_clash q t"
    using d(5) term_full_clean_Inr [OF fc] by (auto simp: term_clash_def)
  ultimately show "academic_ok (add_term r' db)"
    by (intro academic_ok_extend [OF ok x]) auto
qed

interpretation grade_level_store: clean_store grade_level_full_clean add_grade_level academic_ok
proof
  fix db :: "'a academic_db_scheme" and r r'
  assume ok: "academic_ok db" and fc: "grade_level_full_clean db r = Inr r'"
  note d = academic_okD [OF ok] and x = add_extends(3) [of db r']
  show "academic_ok (add_grade_level r' db)"
    by (intro academic_ok_extend [OF ok x]) simp_all
qed

interpretation learning_area_store: clean_store learning_area_full_clean add_learning_area academic_ok
proof
  fix db :: "'a academic_db_scheme" and r r'
  assume ok: "academic_ok db" and fc: "learning_area_full_clean db r = Inr r'"
  note d = academic_okD [OF ok] and x = add_extends(4) [of db r']
  have "grade_level_row (add_learning_area r' db) i = grade_level_row db i" for i
    by (simp add: row_defs add_defs)
  then have "areas_ok (add_learning_area r' db)"
    using d(2) fc by (auto simp: areas_ok_def learning_area_full_clean_def Let_def learning_area_clean_def split: if_splits)
  then show "academic_ok (add_learning_area r' db)"
    by (intro academic_ok_extend [OF ok x]) simp_all
qed

interpretation cohort_store: clean_store cohort_full_clean add_cohort academic_ok
proof
  fix db :: "'a academic_db_scheme" and r r'
  assume ok: "academic_ok db" and fc: "cohort_full_clean db r = Inr r'"
  note d = academic_okD [OF ok] and x = add_extends(5) [of db r']
  have "grade_level_row (add_cohort r' db) i = grade_level_row db i" "year_row (add_cohort r' db) i = year_row db i" for i
    by (simp_all add: row_defs add_defs)
  then have "cohorts_ok (add_cohort r' db)"
    using d(3) fc by (auto simp: cohorts_ok_def cohort_full_clean_def cohort_clean_def Let_def result_simps
        split: if_splits option.splits)
  then show "academic_ok (add_cohort r' db)"
    by (intro academic_ok_extend [OF ok x]) simp_all
qed

interpretation student_store: clean_store student_full_clean add_student academic_ok
proof
  fix db :: "'a academic_db_scheme" and r r'
  assume ok: "academic_ok db" and fc: "student_full_clean db r = Inr r'"
  note d = academic_okD [OF ok] and x = add_extends(6) [of db r']
  have "\<forall>q\<in>set (students db). st_id q = st_id r' \<or> st_tenant q \<noteq> st_tenant r'
      \<or> st_admission_number q \<noteq> st_admission_number r'"
    using fc by (auto simp: student_full_clean_def Let_def split: if_splits)
  then have "students_ok (add_student r' db)" using d(4) by (fastforce simp: students_ok_def)
  then show "academic_ok (add_student r' db)"
    by (intro academic_ok_extend [OF ok x]) simp_all
qed

lemma enrollment_full_clean_Inr: "enrollment_full_clean db e = Inr e' \<Longrightarrow> e' = e \<and> enrollment_local db e"
  by (auto simp: enrollment_full_clean_def Let_def tenants_agree_def enrollment_local_def split: if_splits)

interpretation enrollment_store: clean_store enrollment_full_clean add_enrollment academic_ok
proof
  fix db :: "'a academic_db_scheme" and r r'
  assume ok: "academic_ok db" and fc: "enrollment_full_clean db r = Inr r'"
  note d = academic_okD [OF ok] and x = add_extends(7) [of db r']
  have "enrollment_local (add_enrollment r' db) r'"
    using enrollment_full_clean_Inr [OF fc] extends_enrollment [OF _ x] by blast
  then show "academic_ok (add_enrollment r' db)"
    by (intro academic_ok_extend [OF ok x]) auto
qed

lemma assignment_full_clean_Inr:
  "assignment_full_clean db a = Inr a' \<Longrightarrow> a' = a \<and> assignment_local db a \<and> teacher_bound db (ta_tenant a) (ta_teacher a)"
  by (auto simp: assignment_full_clean_def Let_def tenants_agree_def assignment_local_def split: if_splits)

interpretation assignment_store: clean_store assignment_full_clean add_assignment academic_ok
proof
  fix db :: "'a academic_db_scheme" and r r'
  assume ok: "academic_ok db" and fc: "assignment_full_clean db r = Inr r'"
  note d = academic_okD [OF ok] and x = add_extends(8) [of db r']
  have "assignment_local (add_assignment r' db) r'"
    using assignment_full_clean_Inr [OF fc] extends_assignment [OF _ x] by blast
  then show "academic_ok (add_assignment r' db)"
    by (intro academic_ok_extend [OF ok x]) auto
qed

section \<open>Reachable tables\<close>

inductive academic_step :: "'a academic_db_scheme \<Rightarrow> 'a academic_db_scheme \<Rightarrow> bool" where
  "academic_step db (snd (create_academic_year i t l d1 d2 a db))"
| "academic_step db (snd (create_term i t y c n d1 d2 a db))"
| "academic_step db (snd (create_grade_level i c n st a db))"
| "academic_step db (snd (create_learning_area i t g c n a db))"
| "academic_step db (snd (create_cohort i t y g n sl a db))"
| "academic_step db (snd (create_learner i t an fn ln a db))"
| "academic_step db (snd (enroll_learner i t s c y te a db))"
| "academic_step db (snd (assign_teacher_to_learning_area i t u c l y te a db))"
| "academic_step db (snd (ensure_default_roles ids db))"

inductive academic_reach :: "'a academic_db_scheme \<Rightarrow> 'a academic_db_scheme \<Rightarrow> bool" where
  start: "academic_reach db db"
| next_step: "academic_reach db db1 \<Longrightarrow> academic_step db1 db2 \<Longrightarrow> academic_reach db db2"

lemma academic_ok_cong:
  assumes "academic_years db' = academic_years db" "terms db' = terms db" "grade_levels db' = grade_levels db"
    "learning_areas db' = learning_areas db" "cohorts db' = cohorts db" "students db' = students db"
    "enrollments db' = enrollments db" "assignments db' = assignments db"
  shows "academic_ok db' \<longleftrightarrow> academic_ok db"
  by (simp add: academic_ok_def years_ok_def terms_ok_def areas_ok_def cohorts_ok_def students_ok_def
      term_inside_def enrollment_local_def assignment_local_def row_defs assms)

lemma ensure_roles_tables:
  "ensure_roles cs db = (rs, db') \<Longrightarrow> \<exists>roles'. db' = roles_update (\<lambda>_. roles') db"
proof (induction cs db arbitrary: rs db' rule: ensure_roles.induct)
  case (1 db)
  then have "db' = roles_update (\<lambda>_. roles db) db" by simp
  then show ?case ..
next
  case (2 new_id c cs db)
  obtain r db1 where g: "get_or_create_role new_id c db = (r, db1)" by (cases "get_or_create_role new_id c db")
  obtain rs2 db2 where e: "ensure_roles cs db1 = (rs2, db2)" by (cases "ensure_roles cs db1")
  from 2(1) [OF g [symmetric] e] obtain r2 where r2: "db2 = roles_update (\<lambda>_. r2) db1" ..
  have "\<exists>r1. db1 = roles_update (\<lambda>_. r1) db"
  proof (cases "first_where (\<lambda>r. ro_code r = fst c) (roles db)")
    case None
    with g show ?thesis by (auto simp: get_or_create_role_def Let_def)
  next
    case (Some q)
    with g have "db1 = roles_update (\<lambda>_. roles db) db" by (simp add: get_or_create_role_def)
    then show ?thesis ..
  qed
  then obtain r1 where "db1 = roles_update (\<lambda>_. r1) db" ..
  with r2 have "db2 = roles_update (\<lambda>_. r2) db" by simp
  with 2(2) g e show ?case by auto
qed

lemma academic_step_ok: "academic_step db db' \<Longrightarrow> academic_ok db \<Longrightarrow> academic_ok db'"
proof (induction rule: academic_step.induct)
  case (9 db ids)
  obtain rs db' where e: "ensure_roles (zip ids role_codes) db = (rs, db')"
    by (cases "ensure_roles (zip ids role_codes) db")
  from ensure_roles_tables [OF e] obtain r where "db' = roles_update (\<lambda>_. r) db" ..
  then have "academic_ok db' \<longleftrightarrow> academic_ok db" by (intro academic_ok_cong) simp_all
  with 9 e show ?case by (simp add: ensure_default_roles_def)
qed (simp_all add: create_academic_year_def create_term_def create_grade_level_def create_learning_area_def
    create_cohort_def create_learner_def enroll_learner_def assign_teacher_to_learning_area_def
    year_store.save_keeps term_store.save_keeps grade_level_store.save_keeps learning_area_store.save_keeps
    cohort_store.save_keeps student_store.save_keeps enrollment_store.save_keeps assignment_store.save_keeps)

lemma academic_reach_ok: "academic_reach db0 db \<Longrightarrow> academic_ok db0 \<Longrightarrow> academic_ok db"
  by (induction rule: academic_reach.induct) (blast intro: academic_step_ok)+

lemma empty_academic_ok:
  "academic_years db = [] \<Longrightarrow> terms db = [] \<Longrightarrow> learning_areas db = [] \<Longrightarrow> cohorts db = [] \<Longrightarrow>
   students db = [] \<Longrightarrow> enrollments db = [] \<Longrightarrow> assignments db = [] \<Longrightarrow> academic_ok db"
  by (simp add: academic_ok_def years_ok_def terms_ok_def areas_ok_def cohorts_ok_def students_ok_def)

section \<open>Codes are checked, not repaired\<close>

lemma lower_alnum_alpha: "alpha code_validator c \<Longrightarrow> lower_alnum c \<or> c = CHR ''-'' \<or> c = CHR ''_''"
  by (auto simp: code_validator_def Plus_def)

lemma code_field_chars: "code_field s \<Longrightarrow> c \<in> set s \<Longrightarrow> lower_alnum c \<or> c = CHR ''-'' \<or> c = CHR ''_''"
proof -
  assume f: "code_field s" and c: "c \<in> set s"
  have "last s \<noteq> CHR 0x0A"
  proof -
    have "s \<noteq> []" using c by auto
    then have "last s \<in> set s" by simp
    then show ?thesis using f by (auto simp: code_field_def slug_field_def is_az_def is_AZ_def is_09_def code_def)
  qed
  then have "fullmatch code_validator s" using f by (simp add: code_field_def match_line_def)
  from fullmatch_alpha [OF this c] show ?thesis by (rule lower_alnum_alpha)
qed

lemma normal_code_id: "code_field s \<Longrightarrow> normal_code s = s"
proof -
  assume f: "code_field s"
  have ch: "\<not> py_space c \<and> lower_char c = c \<and> c \<noteq> CHR '' ''" if "c \<in> set s" for c
    using code_field_chars [OF f that]
    by (auto simp: lower_alnum_def is_az_def is_09_def py_space_def lower_char_def is_AZ_def code_def)
  then have "strip s = s" by (intro strip_id) blast
  moreover have "lower s = s" unfolding lower_def by (rule map_idI) (use ch in blast)
  moreover have "replace_char (CHR '' '') (CHR ''-'') s = s"
    unfolding replace_char_def by (rule map_idI) (use ch in auto)
  ultimately show ?thesis by (simp add: normal_code_def)
qed

section \<open>Rosters and profiles\<close>

lemma verify_assignment_same_school:
  assumes "academic_ok db" "verify_teacher_assignment db t u c l"
  shows "\<exists>co. cohort_row db c = Some co \<and> co_tenant co = t \<and> co_is_active co"
  using assms by (auto simp: verify_teacher_assignment_def academic_ok_def assignment_local_def cohort_active_def)

lemma set_roster:
  assumes "get_cohort_roster coll db t u c l = Inr ss" "s \<in> set ss"
  shows "verify_teacher_assignment db t u c l \<and> s \<in> set (students db) \<and> st_is_active s \<and> st_tenant s = t \<and>
    (\<exists>e\<in>set (enrollments db). en_student e = st_id s \<and> en_cohort e = c \<and> en_is_active e)"
  using assms by (auto simp: get_cohort_roster_def split: if_splits) blast

interpretation academic_admin: fail_closed is_academic_admin ACADEMIC_ADMIN_ROLES
  by unfold_locales (simp_all add: is_academic_admin_def)

interpretation teaching: fail_closed "\<lambda>db ctx. has_active_assignment db ctx c l" ACADEMIC_TEACHER_ROLES for c l
  by unfold_locales (auto simp: has_active_assignment_def split: if_splits)

interpretation cohort_management: fail_closed "\<lambda>db ctx. can_manage_cohort db ctx c" ACADEMIC_ADMIN_ROLES for c
  by unfold_locales (auto simp: can_manage_cohort_def is_academic_admin_def)

lemma own_assignmentD:
  assumes "a \<in> set (own_assignments db ctx)"
  obtains t u where "ctx_tenant ctx = Some t" "ctx_actor ctx = Some u" "a \<in> set (assignments db)"
    "ta_tenant a = sc_id t" "ta_teacher a = us_id u" "ta_is_active a"
  using assms by (cases "ctx_tenant ctx"; cases "ctx_actor ctx") (auto simp: own_assignments_def)

section \<open>Properties\<close>

text \<open>C13: Starting from empty academic tables, whatever the services create keeps every school's
  rows to itself and its calendar coherent: a term lies inside a year of its own school, a cohort
  has a year of its own school, an enrollment or a teacher assignment joins four rows of its own
  school, no school has two active years and no two learners of a school share a number.\<close>

theorem academic_tables_coherent:
  assumes "academic_reach db0 db"
    and "academic_years db0 = []" "terms db0 = []" "learning_areas db0 = []" "cohorts db0 = []"
      "students db0 = []" "enrollments db0 = []" "assignments db0 = []"
  shows "(\<forall>t\<in>set (terms db). term_inside db t) \<and>
    (\<forall>c\<in>set (cohorts db). \<exists>y. year_row db (co_academic_year c) = Some y \<and> ay_tenant y = co_tenant c) \<and>
    (\<forall>e\<in>set (enrollments db). enrollment_local db e) \<and>
    (\<forall>a\<in>set (assignments db). assignment_local db a) \<and>
    (\<forall>y\<in>set (academic_years db). \<forall>z\<in>set (academic_years db).
       ay_is_active y \<longrightarrow> ay_is_active z \<longrightarrow> ay_tenant y = ay_tenant z \<longrightarrow> ay_id y = ay_id z) \<and>
    (\<forall>s\<in>set (students db). \<forall>q\<in>set (students db).
       st_tenant q = st_tenant s \<longrightarrow> st_admission_number q = st_admission_number s \<longrightarrow> st_id q = st_id s)"
proof -
  have "academic_ok db" using academic_reach_ok [OF assms(1) empty_academic_ok] assms(2-) by blast
  then show ?thesis
    unfolding academic_ok_def terms_ok_def years_ok_def year_clash_def cohorts_ok_def students_ok_def
    by (intro conjI; blast)
qed

text \<open>The codes of learning areas and grade levels are checked and never repaired: the trimming,
  lowering and replacing that \<open>clean\<close> applies changes no code that the validators let through.\<close>

theorem academic_codes_not_repaired:
  "(learning_area_full_clean db a = Inr a' \<longrightarrow> la_code a' = la_code a) \<and>
   (grade_level_full_clean db g = Inr g' \<longrightarrow> gl_code g' = gl_code g)"
  by (auto simp: learning_area_full_clean_def grade_level_full_clean_def Let_def learning_area_clean_def
      grade_level_clean_def normal_code_id split: if_splits)

text \<open>C14: A grid roster stays inside one school: when the tables are coherent and a roster is
  returned for a cohort and a learning area, the teacher is assigned to both, the cohort is active,
  and every learner listed is active, belongs to the cohort's own school and is enrolled in it.\<close>

theorem roster_confined_to_school:
  assumes "academic_ok db" and "get_fast_grid_roster coll db u c l = Inr ss"
  shows "\<exists>co. cohort_row db c = Some co \<and> co_is_active co \<and> verify_teacher_assignment db (co_tenant co) u c l \<and>
    (\<forall>s\<in>set ss. st_is_active s \<and> st_tenant s = co_tenant co \<and>
      (\<exists>e\<in>set (enrollments db). en_student e = st_id s \<and> en_cohort e = c \<and> en_is_active e))"
proof -
  let ?P = "\<lambda>a. ta_teacher a = u \<and> ta_cohort a = c \<and> ta_learning_area a = l \<and> ta_is_active a
      \<and> school_active db (ta_tenant a)"
  obtain a where f: "first_where ?P (rev (assignments db)) = Some a"
    and r: "get_cohort_roster coll db (ta_tenant a) u (ta_cohort a) (ta_learning_area a) = Inr ss"
    using assms(2) by (cases "first_where ?P (rev (assignments db))") (simp_all add: get_fast_grid_roster_def)
  from first_where_SomeD [OF f] have a: "ta_cohort a = c" "ta_learning_area a = l" by simp_all
  from r have v: "verify_teacher_assignment db (ta_tenant a) u c l"
    by (simp add: get_cohort_roster_def a split: if_splits)
  from verify_assignment_same_school [OF assms(1) v] v set_roster [OF r] show ?thesis
    by (auto simp: a)
qed

text \<open>Nobody reads a learner's academic profile across schools: whoever may view it acts in the
  learner's school with an active binding there, and is an administrator of it or actively teaches,
  in that same school, a cohort in which the learner is actively enrolled.\<close>

theorem learner_profile_confined:
  assumes "academic_ok db" and "can_view_learner_academic_profile db ctx s"
  shows "\<exists>t u. ctx_tenant ctx = Some t \<and> ctx_actor ctx = Some u \<and> us_is_active u \<and> st_tenant s = sc_id t \<and>
    (holds_role db ctx ACADEMIC_ADMIN_ROLES \<or>
     (\<exists>a\<in>set (assignments db). \<exists>co. ta_teacher a = us_id u \<and> ta_is_active a \<and>
        cohort_row db (ta_cohort a) = Some co \<and> co_tenant co = sc_id t \<and> co_is_active co \<and>
        (\<exists>e\<in>set (enrollments db). en_cohort e = ta_cohort a \<and> en_student e = st_id s \<and> en_is_active e)))"
proof -
  from assms(2) have st: "resource_in_tenant ctx (st_tenant s)" and v: "context_is_valid db ctx"
    by (auto simp: can_view_learner_academic_profile_def dest: academic_admin.needs_context split: if_splits)
  from v obtain t u where tu: "ctx_tenant ctx = Some t" "ctx_actor ctx = Some u" "us_is_active u"
    by (rule context_validD)
  show ?thesis
  proof (cases "is_academic_admin db ctx")
    case True
    from academic_admin.granted [OF this] st tu show ?thesis by (auto simp: resource_in_tenant_def)
  next
    case False
    with assms(2) st v obtain a e where a: "a \<in> set (own_assignments db ctx)" "cohort_active db (ta_cohort a)"
      and e: "e \<in> set (enrollments db)" "en_cohort e = ta_cohort a" "en_student e = st_id s" "en_is_active e"
      by (auto simp: can_view_learner_academic_profile_def)
    from a(1) tu have o: "a \<in> set (assignments db)" "ta_tenant a = sc_id t" "ta_teacher a = us_id u" "ta_is_active a"
      by (auto simp: own_assignments_def)
    from o(1) assms(1) have "assignment_local db a" by (simp add: academic_ok_def)
    with o(2) a(2) obtain co where "cohort_row db (ta_cohort a) = Some co" "co_tenant co = sc_id t" "co_is_active co"
      by (auto simp: assignment_local_def cohort_active_def)
    with o e st tu show ?thesis by (auto simp: resource_in_tenant_def)
  qed
qed

section \<open>Instances\<close>

definition sample_identity :: "academic_db" where
  "sample_identity = \<lparr>schools = [\<lparr>sc_id = ''s1'', sc_is_active = True\<rparr>],
     users = [\<lparr>us_id = ''u1'', us_is_active = True\<rparr>, \<lparr>us_id = ''u2'', us_is_active = True\<rparr>],
     roles = [\<lparr>ro_id = ''r1'', ro_code = ''subject_teacher'', ro_name = ''T'', ro_description = [], ro_is_active = True\<rparr>,
       \<lparr>ro_id = ''r2'', ro_code = ''hod'', ro_name = ''H'', ro_description = [], ro_is_active = True\<rparr>],
     role_bindings = [\<lparr>rb_id = ''b1'', rb_tenant = ''s1'', rb_user = ''u1'', rb_role = ''r1'', rb_is_active = True, rb_updated_at = 1\<rparr>,
       \<lparr>rb_id = ''b2'', rb_tenant = ''s1'', rb_user = ''u2'', rb_role = ''r2'', rb_is_active = True, rb_updated_at = 1\<rparr>],
     academic_years = [], terms = [], grade_levels = [], learning_areas = [], cohorts = [], students = [],
     enrollments = [], assignments = []\<rparr>"

definition sample_academic :: "academic_db" where
  "sample_academic = sample_identity\<lparr>
     academic_years := [\<lparr>ay_id = ''y1'', ay_tenant = ''s1'', ay_label = ''2026'', ay_start_date = 10, ay_end_date = 300, ay_is_active = True\<rparr>],
     terms := [\<lparr>te_id = ''t1'', te_tenant = ''s1'', te_academic_year = ''y1'', te_code = ''term_1'', te_name = ''Term 1'',
       te_start_date = 10, te_end_date = 100, te_is_active = True\<rparr>],
     grade_levels := [\<lparr>gl_id = ''g1'', gl_code = ''grade-7'', gl_name = ''Grade 7'', gl_stage = ''junior_school'', gl_is_active = True\<rparr>],
     learning_areas := [\<lparr>la_id = ''l1'', la_tenant = ''s1'', la_grade_level = ''g1'', la_code = ''maths'', la_name = ''Maths'', la_is_active = True\<rparr>],
     cohorts := [\<lparr>co_id = ''c1'', co_tenant = ''s1'', co_academic_year = ''y1'', co_grade_level = ''g1'', co_name = ''7 East'',
       co_stream_label = [], co_is_active = True\<rparr>],
     students := [\<lparr>st_id = ''p1'', st_tenant = ''s1'', st_admission_number = ''A001'', st_first_name = ''A'', st_last_name = ''B'', st_is_active = True\<rparr>],
     enrollments := [\<lparr>en_id = ''e1'', en_tenant = ''s1'', en_student = ''p1'', en_cohort = ''c1'', en_academic_year = ''y1'', en_term = ''t1'', en_is_active = True\<rparr>],
     assignments := [\<lparr>ta_id = ''a1'', ta_tenant = ''s1'', ta_teacher = ''u1'', ta_cohort = ''c1'', ta_learning_area = ''l1'', ta_academic_year = ''y1'',
         ta_term = ''t1'', ta_is_active = True\<rparr>,
       \<lparr>ta_id = ''a2'', ta_tenant = ''s1'', ta_teacher = ''u2'', ta_cohort = ''c1'', ta_learning_area = ''l1'', ta_academic_year = ''y1'',
         ta_term = ''t1'', ta_is_active = True\<rparr>]\<rparr>"

definition sample_teacher_context :: policy_context where
  "sample_teacher_context =
     \<lparr>ctx_tenant = Some \<lparr>sc_id = ''s1'', sc_is_active = True\<rparr>, ctx_actor = Some \<lparr>us_id = ''u1'', us_is_active = True\<rparr>,
      ctx_action = ''academics.view'',
      ctx_role = Some \<lparr>ro_id = ''r1'', ro_code = ''subject_teacher'', ro_name = ''T'', ro_description = [], ro_is_active = True\<rparr>\<rparr>"

lemmas sample_defs = sample_academic_def sample_identity_def

lemma sample_academic_ok: "academic_ok sample_academic"
  by (simp add: academic_ok_def years_ok_def terms_ok_def areas_ok_def cohorts_ok_def students_ok_def
      year_clash_def term_clash_def term_inside_def term_codes_def enrollment_local_def assignment_local_def
      row_defs first_where_def sample_defs)

definition sample_calendar :: "academic_db" where
  "sample_calendar = snd (create_term ''t1'' ''s1'' ''y1'' ''term_1'' ''Term 1'' 10 100 True
     (snd (create_academic_year ''y1'' ''s1'' ''2026'' 10 300 True sample_identity)))"

theorem academic_tables_coherent_witness:
  "terms sample_calendar \<noteq> [] \<and> list_all (term_inside sample_calendar) (terms sample_calendar)"
proof -
  have r: "academic_reach sample_identity sample_calendar"
    unfolding sample_calendar_def
    by (rule next_step [OF next_step [OF start academic_step.intros(1)] academic_step.intros(2)])
  have st: "strip ''2026'' = ''2026''" "strip ''Term 1'' = ''Term 1''" by code_simp+
  have "terms sample_calendar \<noteq> []"
    by (simp add: sample_calendar_def create_term_def create_academic_year_def save_clean_def year_full_clean_def year_clean_def
        term_full_clean_def term_clean_def school_exists_def char_field_def row_defs first_where_def sample_identity_def
        add_year_def add_term_def term_codes_def atomic_def st Let_def)
  then show ?thesis using academic_tables_coherent [OF r] by (simp add: sample_identity_def list_all_iff)
qed

theorem academic_codes_not_repaired_witness:
  "learning_area_full_clean sample_academic \<lparr>la_id = ''l2'', la_tenant = ''s1'', la_grade_level = ''g1'', la_code = ''art'',
      la_name = '' Art '', la_is_active = True\<rparr>
    = Inr \<lparr>la_id = ''l2'', la_tenant = ''s1'', la_grade_level = ''g1'', la_code = ''art'', la_name = ''Art'', la_is_active = True\<rparr>"
proof -
  let ?a = "\<lparr>la_id = ''l2'', la_tenant = ''s1'', la_grade_level = ''g1'', la_code = ''art'', la_name = '' Art '', la_is_active = True\<rparr>"
  have ok: "code_field ''art''" "strip '' Art '' = ''Art''" by code_simp+
  have "\<exists>a'. learning_area_full_clean sample_academic ?a = Inr a' \<and> la_name a' = ''Art'' \<and> la_id a' = ''l2'' \<and>
      la_tenant a' = ''s1'' \<and> la_grade_level a' = ''g1'' \<and> la_is_active a'"
    by (simp add: learning_area_full_clean_def learning_area_clean_def school_exists_def char_field_def row_defs
        first_where_def sample_defs ok normal_code_id)
  then obtain a' where a': "learning_area_full_clean sample_academic ?a = Inr a'" "la_name a' = ''Art''" "la_id a' = ''l2''"
    "la_tenant a' = ''s1''" "la_grade_level a' = ''g1''" "la_is_active a'" by blast
  with academic_codes_not_repaired [of sample_academic ?a a'] have "la_code a' = ''art''" by simp
  with a' show ?thesis by (cases a') simp
qed

theorem roster_confined_to_school_witness:
  "\<exists>s. get_fast_grid_roster id sample_academic ''u1'' ''c1'' ''l1'' = Inr [s] \<and> st_tenant s = ''s1'' \<and> st_is_active s"
proof -
  let ?s = "hd (students sample_academic)"
  have r: "get_fast_grid_roster id sample_academic ''u1'' ''c1'' ''l1'' = Inr [?s]"
    by (simp add: get_fast_grid_roster_def get_cohort_roster_def verify_teacher_assignment_def cohort_active_def
        learning_area_active_def school_active_def row_defs first_where_def sample_defs)
  from roster_confined_to_school [OF sample_academic_ok r] obtain co where co: "cohort_row sample_academic ''c1'' = Some co"
    and m: "st_is_active ?s" "st_tenant ?s = co_tenant co" unfolding list.set by blast
  have "co_tenant co = ''s1''" using co by (simp add: cohort_row_def first_where_def sample_defs) auto
  with r m show ?thesis by (intro exI conjI) simp_all
qed


theorem learner_profile_confined_witness:
  "\<exists>s\<in>set (students sample_academic). can_view_learner_academic_profile sample_academic sample_teacher_context s \<and>
     st_tenant s = ''s1''"
proof -
  let ?s = "\<lparr>st_id = ''p1'', st_tenant = ''s1'', st_admission_number = ''A001'', st_first_name = ''A'', st_last_name = ''B'', st_is_active = True\<rparr>"
  have "can_view_learner_academic_profile sample_academic sample_teacher_context ?s" by code_simp
  from learner_profile_confined [OF sample_academic_ok this] this show ?thesis
    by (auto simp: sample_teacher_context_def sample_defs)
qed

end
