(* ===== verification/CurriculumFacts.thy ===== *)
theory CurriculumFacts
  imports CurriculumWorkflow GovernanceText AcademicFacts OutboxInvariant
begin

text \<open>
  What the governance of the curriculum promises: one active publication
  per version and one live adoption per school and version whatever services run, what a
  publication and a grading binding rest on, the exact partition of rollouts, and where the rules
  refuse or keep more than they mean to.
\<close>

section \<open>Change sets\<close>

fun change_rank :: "string \<Rightarrow> nat" where
  "change_rank s = (case map_of [(''detected'', 5), (''quarantined'', 4), (''under_review'', 3), (''approved'', 2), (''published'', 1)] s of
     None \<Rightarrow> 0 | Some n \<Rightarrow> n)"

lemma change_entries:
  "\<forall>(s, ts)\<in>set ALLOWED_TRANSITIONS. \<forall>t\<in>set ts. change_rank t < change_rank s \<and>
     (t = ''published'' \<longrightarrow> s = ''approved'') \<and> (t = ''approved'' \<longrightarrow> s = ''under_review'')"
  by code_simp

interpretation change_workflow: workflow ALLOWED_TRANSITIONS change_rank
  by unfold_locales (use targets_all [OF change_entries] in blast)

lemma change_gates:
  "''published'' \<in> set (allowed_targets ALLOWED_TRANSITIONS s) \<Longrightarrow> s = ''approved''"
  "''approved'' \<in> set (allowed_targets ALLOWED_TRANSITIONS s) \<Longrightarrow> s = ''under_review''"
  using targets_all [OF change_entries] by blast+

lemma validate_transition_Inr [result_simps]:
  "validate_transition s t = Inr u \<longleftrightarrow> t \<in> set (allowed_targets ALLOWED_TRANSITIONS s)"
  by (simp add: validate_transition_def)

section \<open>Saving governance rows\<close>

lemma save_cleanE:
  assumes "save_clean full_clean insert_row r db = (Inr r', db')"
  obtains r1 where "full_clean db r = Inr r1" "full_clean db r1 = Inr r'" "db' = insert_row r' db"
  using assms by (auto simp: save_clean_def result_simps split: sum.splits)

lemma save_clean_Inl: "save_clean full_clean insert_row r db = (Inl e, db') \<Longrightarrow> db' = db"
  by (auto simp: save_clean_def atomic_def split: sum.splits prod.splits)

definition publication_clash :: "publication \<Rightarrow> publication \<Rightarrow> bool" where
  "publication_clash p q \<longleftrightarrow> pb_id p \<noteq> pb_id q \<and> pb_version p = pb_version q \<and> pb_is_active p \<and> pb_is_active q"

definition adoption_clash :: "adoption \<Rightarrow> adoption \<Rightarrow> bool" where
  "adoption_clash a q \<longleftrightarrow> ad_id a \<noteq> ad_id q \<and> ad_tenant a = ad_tenant q \<and> ad_version a = ad_version q
     \<and> live_adoption a \<and> live_adoption q"

definition governance_ok :: "'a curriculum_db_scheme \<Rightarrow> bool" where
  "governance_ok db \<longleftrightarrow>
     (\<forall>p\<in>set (publications db). \<forall>q\<in>set (publications db). \<not> publication_clash p q) \<and>
     (\<forall>a\<in>set (adoptions db). \<forall>q\<in>set (adoptions db). \<not> adoption_clash a q)"

lemma publication_full_clean_Inr:
  assumes "publication_full_clean db p = Inr p'"
  shows "p' = p\<lparr>pb_notes := strip (pb_notes p)\<rparr>" "q \<in> set (publications db) \<Longrightarrow> \<not> publication_clash q p'"
  using assms by (auto simp: publication_full_clean_def publication_clean_def Let_def result_simps publication_clash_def
      split: if_splits option.splits)

lemma live_adoption_notes [simp]: "live_adoption (a\<lparr>ad_notes := n\<rparr>) = live_adoption a"
  by (simp add: live_adoption_def)

lemma adoption_clean_Inr:
  assumes "adoption_clean db a = Inr a'"
  shows "\<exists>n. a' = a\<lparr>ad_notes := n\<rparr>"
    "live_adoption a \<Longrightarrow> has_active_publication db (ad_version a) \<and> \<not> version_is_withdrawn db (ad_version a)"
proof -
  let ?safe = "live_adoption a \<longrightarrow> has_active_publication db (ad_version a) \<and> \<not> version_is_withdrawn db (ad_version a)"
  have "(\<exists>n. a' = a\<lparr>ad_notes := n\<rparr>) \<and> ?safe"
  proof (cases "ad_notes a = []")
    case True
    then have "a' = a\<lparr>ad_notes := ad_notes a\<rparr> \<and> ?safe" using assms by (auto simp: adoption_clean_def split: if_splits)
    then show ?thesis by blast
  next
    case False
    then have "a' = a\<lparr>ad_notes := strip (ad_notes a)\<rparr> \<and> ?safe" using assms
      by (auto simp: adoption_clean_def ebind_assoc ebind_eq_Inr split: if_splits)
    then show ?thesis by blast
  qed
  then show "\<exists>n. a' = a\<lparr>ad_notes := n\<rparr>"
    "live_adoption a \<Longrightarrow> has_active_publication db (ad_version a) \<and> \<not> version_is_withdrawn db (ad_version a)" by blast+
qed

lemma adoption_full_clean_Inr:
  assumes "adoption_full_clean db a = Inr a'"
  shows "adoption_clean db a = Inr a'" "q \<in> set (adoptions db) \<Longrightarrow> \<not> adoption_clash q a'"
  using assms by (auto simp: adoption_full_clean_def ebind_eq_Inr adoption_clash_def split: if_splits)

lemma clash_sym: "publication_clash p q \<longleftrightarrow> publication_clash q p" "adoption_clash a b \<longleftrightarrow> adoption_clash b a"
  by (auto simp: publication_clash_def adoption_clash_def)

lemma clash_irrefl [simp]: "\<not> publication_clash p p" "\<not> adoption_clash a a"
  by (simp_all add: publication_clash_def adoption_clash_def)

lemma set_put: "q \<in> set (update_where P (\<lambda>_. r) xs) \<Longrightarrow> q = r \<or> q \<in> set xs"
  by (auto simp: set_update_where)

lemma no_clash_extend:
  assumes old: "\<forall>p\<in>set rows. \<forall>q\<in>set rows. \<not> clash p q" and r: "\<And>q. q \<in> set rows \<Longrightarrow> \<not> clash q r"
    and new: "\<And>q. q \<in> set rows' \<Longrightarrow> q = r \<or> q \<in> set rows"
    and sym: "\<And>p q. clash p q = clash q p" and irr: "\<not> clash r r"
  shows "\<forall>p\<in>set rows'. \<forall>q\<in>set rows'. \<not> clash p q"
proof (intro ballI)
  fix p q assume "p \<in> set rows'" "q \<in> set rows'"
  then have "p = r \<or> p \<in> set rows" "q = r \<or> q \<in> set rows" using new by blast+
  then show "\<not> clash p q" using old r sym irr by blast
qed

lemma governance_put_publication:
  assumes ok: "governance_ok db" and r: "\<And>q. q \<in> set (publications db) \<Longrightarrow> \<not> publication_clash q r"
  shows "governance_ok (add_publication r db)" "governance_ok (put_publication r db)"
proof -
  have old: "\<forall>p\<in>set (publications db). \<forall>q\<in>set (publications db). \<not> publication_clash p q"
    using ok by (simp add: governance_ok_def)
  have "\<forall>p\<in>set (publications db @ [r]). \<forall>q\<in>set (publications db @ [r]). \<not> publication_clash p q"
    by (rule no_clash_extend [OF old r _ clash_sym(1)]) auto
  then show "governance_ok (add_publication r db)" using ok by (simp add: governance_ok_def add_publication_def)
  have "\<forall>p\<in>set (update_where (\<lambda>q. pb_id q = pb_id r) (\<lambda>_. r) (publications db)).
      \<forall>q\<in>set (update_where (\<lambda>q. pb_id q = pb_id r) (\<lambda>_. r) (publications db)). \<not> publication_clash p q"
    by (rule no_clash_extend [OF old r set_put clash_sym(1)]) auto
  then show "governance_ok (put_publication r db)" using ok by (simp add: governance_ok_def put_publication_def)
qed

lemma governance_put_adoption:
  assumes ok: "governance_ok db" and r: "\<And>q. q \<in> set (adoptions db) \<Longrightarrow> \<not> adoption_clash q r"
  shows "governance_ok (add_adoption r db)" "governance_ok (put_adoption r db)"
proof -
  have old: "\<forall>p\<in>set (adoptions db). \<forall>q\<in>set (adoptions db). \<not> adoption_clash p q"
    using ok by (simp add: governance_ok_def)
  have "\<forall>p\<in>set (adoptions db @ [r]). \<forall>q\<in>set (adoptions db @ [r]). \<not> adoption_clash p q"
    by (rule no_clash_extend [OF old r _ clash_sym(2)]) auto
  then show "governance_ok (add_adoption r db)" using ok by (simp add: governance_ok_def add_adoption_def)
  have "\<forall>p\<in>set (update_where (\<lambda>q. ad_id q = ad_id r) (\<lambda>_. r) (adoptions db)).
      \<forall>q\<in>set (update_where (\<lambda>q. ad_id q = ad_id r) (\<lambda>_. r) (adoptions db)). \<not> adoption_clash p q"
    by (rule no_clash_extend [OF old r set_put clash_sym(2)]) auto
  then show "governance_ok (put_adoption r db)" using ok by (simp add: governance_ok_def put_adoption_def)
qed

interpretation publication_store: clean_store publication_full_clean add_publication governance_ok
  by unfold_locales (blast intro: governance_put_publication(1) dest: publication_full_clean_Inr(2))

interpretation publication_update: clean_store publication_full_clean put_publication governance_ok
  by unfold_locales (blast intro: governance_put_publication(2) dest: publication_full_clean_Inr(2))

interpretation adoption_store: clean_store adoption_full_clean add_adoption governance_ok
  by unfold_locales (blast intro: governance_put_adoption(1) dest: adoption_full_clean_Inr(2))

interpretation adoption_update: clean_store adoption_full_clean put_adoption governance_ok
  by unfold_locales (blast intro: governance_put_adoption(2) dest: adoption_full_clean_Inr(2))

lemma governance_frame:
  "governance_ok (add_change_set c db) = governance_ok db" "governance_ok (put_change_set c db) = governance_ok db"
  "governance_ok (add_withdrawal w db) = governance_ok db" "governance_ok (add_rollback_plan r db) = governance_ok db"
  "governance_ok (add_notice_batch b db) = governance_ok db" "governance_ok (db\<lparr>event_tables := ev\<rparr>) = governance_ok db"
  by (simp_all add: governance_ok_def add_change_set_def put_change_set_def add_withdrawal_def add_rollback_plan_def
      add_notice_batch_def)

interpretation change_set_store: clean_store change_set_full_clean add_change_set governance_ok
  by unfold_locales (simp add: governance_frame)

interpretation change_set_update: clean_store change_set_full_clean put_change_set governance_ok
  by unfold_locales (simp add: governance_frame)

interpretation withdrawal_store: clean_store withdrawal_full_clean add_withdrawal governance_ok
  by unfold_locales (simp add: governance_frame)

interpretation rollback_store: clean_store rollback_plan_full_clean add_rollback_plan governance_ok
  by unfold_locales (simp add: governance_frame)

interpretation notice_store: clean_store notice_batch_full_clean add_notice_batch governance_ok
  by unfold_locales (simp add: governance_frame)

section \<open>Every service keeps the uniqueness of live rows\<close>

lemma keeps_atomic: "(\<And>r t. m db = (r, t) \<Longrightarrow> P t) \<Longrightarrow> P db \<Longrightarrow> P (snd (atomic m db))"
  by (cases "m db") (auto simp: atomic_def split: sum.splits)

lemmas keeps_governance = keeps_atomic [where P = governance_ok]

lemma keeps_record:
  assumes "governance_ok (snd (service db))"
  shows "governance_ok (snd (record_after_commit now i req service db))"
proof (cases "service db")
  case (Pair r t)
  then show ?thesis using assms
    by (cases r; cases "write_outbox_event now i (req (projr r)) (event_tables t)")
      (auto simp: record_after_commit_def governance_frame split: sum.splits)
qed

lemmas governance_saves = publication_store.save_keeps publication_update.save_keeps adoption_store.save_keeps
  adoption_update.save_keeps change_set_store.save_keeps change_set_update.save_keeps withdrawal_store.save_keeps
  rollback_store.save_keeps notice_store.save_keeps

lemma snd_of: "m db = (r, t) \<Longrightarrow> t = snd (m db)"
  by simp

lemma create_publication_keeps:
  assumes "governance_ok db"
  shows "governance_ok (snd (create_curriculum_publication now i v f n u et a w db))"
  unfolding create_curriculum_publication_def
  by (rule keeps_governance) (auto dest!: snd_of simp: assms publication_store.save_keeps split: sum.splits if_splits)

lemma publish_keeps:
  assumes "governance_ok db"
  shows "governance_ok (snd (publish_curriculum_version now i c v u f n db))"
proof -
  have "governance_ok (snd (abind (create_curriculum_publication now i vid f n u None True True)
      (\<lambda>p. abind (save_clean change_set_full_clean put_change_set c') (\<lambda>_ db. (Inr p, db))) db))" for vid c'
    by (rule abind_state [where Q = governance_ok])
      (use assms create_publication_keeps snd_of change_set_update.save_keeps in
        \<open>fastforce intro!: abind_state [where Q = governance_ok]\<close>)+
  then show ?thesis unfolding publish_curriculum_version_def
    by (intro keeps_governance) (auto dest!: snd_of simp: assms assms split: sum.splits)
qed

inductive curriculum_step :: "'a curriculum_db_scheme \<Rightarrow> 'a curriculum_db_scheme \<Rightarrow> bool" where
  "curriculum_step db (snd (create_curriculum_change_set i d ct sm ov pv db))"
| "curriculum_step db (snd (approve_change_set now c u db))"
| "curriculum_step db (snd (reject_change_set now c u db))"
| "curriculum_step db (snd (create_curriculum_publication now i v f n u et a w db))"
| "curriculum_step db (snd (publish_curriculum_version now i c vo u f n db))"
| "curriculum_step db (snd (supersede_curriculum_publication p p' db))"
| "curriculum_step db (snd (schedule_school_curriculum_adoption dt now i e t v f u n db))"
| "curriculum_step db (snd (activate_school_curriculum_adoption now ad u db))"
| "curriculum_step db (snd (mark_curriculum_version_withdrawn fmt now i e v u n vo db))"
| "curriculum_step db (snd (plan_curriculum_rollback now i e t v u n vo k db))"
| "curriculum_step db (snd (create_notice_batch_run now i e nt tc bs u tn vo n db))"

inductive curriculum_reach :: "'a curriculum_db_scheme \<Rightarrow> 'a curriculum_db_scheme \<Rightarrow> bool" where
  curriculum_start: "curriculum_reach db db"
| curriculum_next: "curriculum_reach db db1 \<Longrightarrow> curriculum_step db1 db2 \<Longrightarrow> curriculum_reach db db2"

lemma curriculum_step_ok: "curriculum_step db db' \<Longrightarrow> governance_ok db \<Longrightarrow> governance_ok db'"
proof (induction rule: curriculum_step.induct)
  case (1 db i d ct sm ov pv)
  then show ?case by (simp add: create_curriculum_change_set_def change_set_store.save_keeps)
next
  case (2 db now c u)
  then show ?case unfolding approve_change_set_def
    by (intro keeps_governance) (auto dest!: snd_of simp: 2 governance_saves split: sum.splits)
next
  case (3 db now c u)
  then show ?case unfolding reject_change_set_def
    by (intro keeps_governance) (auto dest!: snd_of simp: 3 governance_saves split: sum.splits)
next
  case (4 db now i v f n u et a w)
  then show ?case by (rule create_publication_keeps)
next
  case (5 db now i c vo u f n)
  then show ?case by (rule publish_keeps)
next
  case (6 db p p')
  then show ?case by (simp add: supersede_curriculum_publication_def publication_update.save_keeps)
next
  case (7 db dt now i e t v f u n)
  then show ?case unfolding schedule_school_curriculum_adoption_def schedule_adoption_def
    by (intro keeps_record keeps_governance) (auto dest!: snd_of simp: 7 governance_saves split: sum.splits)
next
  case (8 db now ad u)
  then show ?case unfolding activate_school_curriculum_adoption_def
    by (intro keeps_governance) (auto dest!: snd_of simp: 8 governance_saves split: sum.splits)
next
  case (9 db fmt now i e v u n vo)
  then show ?case unfolding mark_curriculum_version_withdrawn_def withdraw_version_def
    by (intro keeps_record keeps_governance) (auto dest!: snd_of simp: 9 governance_saves split: sum.splits)
next
  case (10 db now i e t v u n vo k)
  then show ?case unfolding plan_curriculum_rollback_def plan_rollback_def
    by (intro keeps_record keeps_governance) (auto dest!: snd_of simp: 10 governance_saves split: sum.splits)
next
  case (11 db now i e nt tc bs u tn vo n)
  have "governance_ok (snd (abind (save_clean notice_batch_full_clean add_notice_batch r) (\<lambda>b db. (Inr (b, plan), db)) db))" for r plan
    by (rule abind_state [where Q = governance_ok]) (use notice_store.save_keeps [OF 11] snd_of in fastforce)+
  then show ?case unfolding create_notice_batch_run_def start_notice_batch_def
    by (intro keeps_record keeps_governance) (auto dest!: snd_of simp: 11 11 split: sum.splits prod.splits)
qed

lemma curriculum_reach_ok: "curriculum_reach db0 db \<Longrightarrow> governance_ok db0 \<Longrightarrow> governance_ok db"
  by (induction rule: curriculum_reach.induct) (blast intro: curriculum_step_ok)+

section \<open>What publications and bindings rest on\<close>

lemma require_truth_manager_Inr:
  "require_curriculum_truth_manager db f u = Inr v \<longleftrightarrow> u = Some v \<and> us_is_active v \<and> is_truth_manager db (us_id v)"
  by (auto simp: require_curriculum_truth_manager_def require_active_reviewer_def split: option.splits if_splits)

lemma require_school_manager_Inr:
  "require_school_curriculum_manager db u t = Inr v \<longleftrightarrow> u = Some v \<and> us_is_active v \<and>
     (\<exists>c\<in>{''principal'', ''deputy_principal'', ''school_admin''}. user_has_role_in_tenant db (Some v) t c)"
  by (cases u) (auto simp: require_school_curriculum_manager_def require_active_reviewer_def split: if_splits)

lemma active_publication_iff: "active_publication_for_version db v \<noteq> None \<longleftrightarrow> has_active_publication db v"
proof -
  let ?k = "\<lambda>p. (- pb_effective_from p, - pb_published_at p)"
  let ?f = "filter (\<lambda>p. pb_version p = v \<and> pb_is_active p) (publications db)"
  have "sort_key ?k ?f = [] \<longleftrightarrow> ?f = []" by (simp only: length_0_conv [symmetric] length_sort)
  moreover have "active_publication_for_version db v = None \<longleftrightarrow> sort_key ?k ?f = []"
    unfolding active_publication_for_version_def by (cases "sort_key ?k ?f") simp_all
  ultimately have "active_publication_for_version db v = None \<longleftrightarrow> ?f = []" by simp
  then show ?thesis by (auto simp: has_active_publication_def filter_empty_conv)
qed

lemma grading_dependency_allowed [simp]:
  "gr_is_allowed (validate_grading_dependency_state p a w l r) \<longleftrightarrow> p \<and> a \<and> \<not> w \<and> l \<and> r"
  by (simp add: validate_grading_dependency_state_def)

lemma grading_binding_Inr:
  "validate_curriculum_context_for_grading_binding db (Some t) (Some v) area r = Inr () \<longleftrightarrow>
     active_publication_for_version db v \<noteq> None \<and>
     (\<exists>a\<in>set (adoptions db). ad_tenant a = t \<and> ad_version a = v \<and> live_adoption a) \<and> \<not> version_is_withdrawn db v \<and>
     (case Option.bind area (learning_area_row db) of None \<Rightarrow> False | Some la \<Rightarrow> la_tenant la = t) \<and>
     rubric_matches_curriculum_context db v area r"
  by (simp add: validate_curriculum_context_for_grading_binding_def Let_def)

lemma rubric_matches_iff:
  "rubric_matches_curriculum_context db v area r \<longleftrightarrow>
     (\<exists>i rb ss cl. area = Some i \<and> r = Some rb \<and> rf_is_active rb \<and> rubric_sub_strand db rb = Some ss \<and>
        sub_strand_area db ss = Some cl \<and> cl_version cl = v \<and> cl_learning_area cl = i \<and> cl_is_active cl)"
  by (cases area; cases r) (auto simp: rubric_matches_curriculum_context_def bind_eq_Some_conv split: option.splits)

lemma active_publicationD:
  assumes "active_publication_for_version db v = Some p"
  shows "p \<in> set (publications db)" "pb_version p = v" "pb_is_active p"
proof -
  let ?k = "\<lambda>p. (- pb_effective_from p, - pb_published_at p)"
  let ?f = "filter (\<lambda>p. pb_version p = v \<and> pb_is_active p) (publications db)"
  from assms obtain ps where "sort_key ?k ?f = p # ps"
    unfolding active_publication_for_version_def by (cases "sort_key ?k ?f") simp_all
  then have "p \<in> set (sort_key ?k ?f)" by simp
  then have "p \<in> set ?f" by (simp only: set_sort)
  then show "p \<in> set (publications db)" "pb_version p = v" "pb_is_active p" by simp_all
qed

lemma ceil_div_bounds:
  assumes "0 < b"
  obtains m where "a = b * ceil_div a b - m" "0 \<le> m" "m < b"
proof -
  have "- a = b * (- a div b) + - a mod b" by (rule mult_div_mod_eq [symmetric])
  then have "a = b * ceil_div a b - (- a mod b)" unfolding ceil_div_def by (simp only: mult_minus_right)
  then show thesis using assms that [of "- a mod b"] by simp
qed

lemma ceil_div_alt: "0 < b \<Longrightarrow> (a + b - 1) div b = ceil_div a b"
proof -
  assume b: "0 < b"
  obtain m where "a = b * ceil_div a b - m" "0 \<le> m" "m < b" using ceil_div_bounds [OF b] .
  then have "a + b - 1 = b * ceil_div a b + (b - 1 - m)" "0 \<le> b - 1 - m" "b - 1 - m < b" by simp_all
  then show ?thesis by (rule int_div_pos_eq)
qed

lemma atomic_refused: "atomic m s = (Inl e, s') \<Longrightarrow> s' = s"
  by (auto simp: atomic_def split: sum.splits prod.splits)

lemma create_publication_Inr:
  assumes "create_curriculum_publication now i v f n u et a w db = (Inr p, db')"
  shows "db' = add_publication p db" "pb_id p = i" "pb_version p = v" "pb_is_active p = a"
    "pb_approved_by p = map_option us_id u" "q \<in> set (publications db) \<Longrightarrow> \<not> publication_clash q p"
    "a \<Longrightarrow> \<exists>w. u = Some w \<and> us_is_active w \<and> is_truth_manager db (us_id w)"
proof -
  let ?r = "\<lparr>pb_id = i, pb_version = v, pb_effective_from = f, pb_effective_to = et,
            pb_is_active = a, pb_notes = n, pb_approved_by = map_option us_id u,
            pb_published_at = now, pb_superseded_by = None\<rparr>"
  from assms have s: "save_clean publication_full_clean add_publication ?r db = (Inr p, db')"
    and u: "a \<Longrightarrow> \<exists>w. u = Some w \<and> us_is_active w \<and> is_truth_manager db (us_id w)"
    by (auto simp: create_curriculum_publication_def atomic_eq_Inr require_truth_manager_Inr ebind_eq_Inr
        split: if_splits sum.splits)
  obtain r1 where r: "publication_full_clean db ?r = Inr r1" "publication_full_clean db r1 = Inr p" "db' = add_publication p db"
    using save_cleanE [OF s] .
  note f1 = publication_full_clean_Inr(1) [OF r(1)] and f2 = publication_full_clean_Inr(1) [OF r(2)]
  show "db' = add_publication p db" by (rule r(3))
  show "pb_id p = i" "pb_version p = v" "pb_is_active p = a" "pb_approved_by p = map_option us_id u"
    by (simp_all add: f1 f2)
  show "q \<in> set (publications db) \<Longrightarrow> \<not> publication_clash q p" by (rule publication_full_clean_Inr(2) [OF r(2)])
  show "a \<Longrightarrow> \<exists>w. u = Some w \<and> us_is_active w \<and> is_truth_manager db (us_id w)" by (rule u)
qed

lemma change_set_full_clean_Inr: "change_set_full_clean db c = Inr c' \<Longrightarrow> \<exists>s. c' = c\<lparr>ch_summary := s\<rparr>"
  by (auto simp: change_set_full_clean_def change_set_clean_def ebind_eq_Inr split: if_splits)

lemma save_change_set_Inr:
  assumes "save_clean change_set_full_clean put_change_set c db = (Inr c', db')"
  shows "(\<exists>s. c' = c\<lparr>ch_summary := s\<rparr>) \<and> db' = put_change_set c' db"
proof -
  obtain r1 where r: "change_set_full_clean db c = Inr r1" "change_set_full_clean db r1 = Inr c'" "db' = put_change_set c' db"
    using save_cleanE [OF assms] .
  from change_set_full_clean_Inr [OF r(1)] change_set_full_clean_Inr [OF r(2)] r(3) show ?thesis by auto
qed

lemma put_change_set_simps [simp]:
  "publications (put_change_set c db) = publications db"
  "k \<in> set (change_sets (put_change_set c db)) \<Longrightarrow> ch_id k = ch_id c \<Longrightarrow> k = c"
  by (auto simp: put_change_set_def set_update_where)

lemma rollout_batches_Inr:
  assumes "plan_rollout_batches n b = Inr bs"
  shows "0 \<le> n" "0 < b" "length bs = nat (ceil_div n b)"
    "i < length bs \<Longrightarrow> start_index (bs ! i) = int i * b" "i < length bs \<Longrightarrow> end_index (bs ! i) = min (int i * b + b) n"
    "i < length bs \<Longrightarrow> batch_number (bs ! i) = int i + 1"
  using assms by (auto simp: plan_rollout_batches_def Let_def split: if_splits)

lemma batch_of_item:
  assumes "plan_rollout_batches n b = Inr bs" and "0 \<le> k" "k < n"
  shows "\<exists>!i. i < length bs \<and> start_index (bs ! i) \<le> k \<and> k < end_index (bs ! i)"
proof (rule ex1I)
  note r = rollout_batches_Inr [OF assms(1)]
  obtain m where m: "n = b * ceil_div n b - m" "0 \<le> m" "m < b" using ceil_div_bounds [OF r(2)] .
  let ?i = "nat (k div b)"
  have k: "b * (k div b) \<le> k" "k < b * (k div b) + b"
    using r(2) by (simp_all add: minus_mod_eq_mult_div [symmetric])
  have i: "int ?i = k div b" using assms(2) r(2) by (simp add: pos_imp_zdiv_nonneg_iff)
  have "b * (k div b) < b * ceil_div n b" using k(1) assms(3) m(1,2) by linarith
  then have "k div b < ceil_div n b" using r(2) by simp
  then have l: "?i < length bs" using r(3) i by linarith
  show "?i < length bs \<and> start_index (bs ! ?i) \<le> k \<and> k < end_index (bs ! ?i)"
    using l r(4,5) [OF l] k i assms(3) by (simp add: mult.commute)
  fix j assume j: "j < length bs \<and> start_index (bs ! j) \<le> k \<and> k < end_index (bs ! j)"
  then have "k = b * int j + (k - b * int j)" "0 \<le> k - b * int j" "k - b * int j < b"
    using r(4,5) [of j] by (auto simp: mult.commute)
  then have "k div b = int j" by (rule int_div_pos_eq)
  then show "j = ?i" using i by simp
qed

section \<open>Properties\<close>

text \<open>C16: Whatever governance services run, in any order and with any caller's copies of the rows,
  a curriculum version has at most one active publication and a school has at most one scheduled or
  active adoption of a version.\<close>

theorem one_live_publication_and_adoption:
  assumes "curriculum_reach db0 db" and "publications db0 = []" "adoptions db0 = []"
  shows "(\<forall>p\<in>set (publications db). \<forall>q\<in>set (publications db).
      pb_version p = pb_version q \<longrightarrow> pb_is_active p \<longrightarrow> pb_is_active q \<longrightarrow> pb_id p = pb_id q) \<and>
    (\<forall>a\<in>set (adoptions db). \<forall>b\<in>set (adoptions db).
      ad_tenant a = ad_tenant b \<longrightarrow> ad_version a = ad_version b \<longrightarrow> live_adoption a \<longrightarrow> live_adoption b \<longrightarrow> ad_id a = ad_id b)"
proof -
  have "governance_ok db0" using assms(2,3) by (simp add: governance_ok_def)
  from curriculum_reach_ok [OF assms(1) this] show ?thesis
    unfolding governance_ok_def publication_clash_def adoption_clash_def by blast
qed

text \<open>Publication follows approval: a call that publishes was given an approved change set that
  proposes exactly the version published and an active user with an active school_admin binding,
  found no other active publication of the version, and stores the active publication and the
  change set as published; a call that raises leaves the database as it was.\<close>

theorem publish_outcome:
  "case publish_curriculum_version now i c v u f n db of
     (Inl e, db') \<Rightarrow> db' = db
   | (Inr p, db') \<Rightarrow> ch_status c = ''approved'' \<and> v = ch_proposed_version c \<and> v = Some (pb_version p) \<and> pb_is_active p \<and>
       (\<exists>w. u = Some w \<and> us_is_active w \<and> is_truth_manager db (us_id w) \<and> pb_approved_by p = Some (us_id w)) \<and>
       (\<forall>q\<in>set (publications db). pb_version q = pb_version p \<longrightarrow> pb_is_active q \<longrightarrow> pb_id q = i) \<and>
       publications db' = publications db @ [p] \<and>
       (\<forall>k\<in>set (change_sets db'). ch_id k = ch_id c \<longrightarrow> ch_status k = ''published'')"
proof (cases "publish_curriculum_version now i c v u f n db")
  case (Pair r db')
  show ?thesis
  proof (cases r)
    case (Inl e)
    then show ?thesis using Pair atomic_refused unfolding publish_curriculum_version_def by fastforce
  next
    case (Inr p)
    from Pair Inr obtain w vid db1 k where v: "v = Some vid" and ok: "ch_proposed_version c = Some vid"
        "''published'' \<in> set (allowed_targets ALLOWED_TRANSITIONS (ch_status c))"
      and w: "u = Some w"
      and p: "create_curriculum_publication now i vid f n u None True True db = (Inr p, db1)"
      and k: "save_clean change_set_full_clean put_change_set
          (c\<lparr>ch_status := ''published'', ch_reviewed_by := Some (us_id w), ch_reviewed_at := Some now\<rparr>) db1 = (Inr k, db')"
      by (auto simp: publish_curriculum_version_def result_simps require_truth_manager_Inr split: sum.splits)
    note p = create_publication_Inr [OF p]
    from save_change_set_Inr [OF k] obtain s where kc: "k = c\<lparr>ch_status := ''published'', ch_reviewed_by := Some (us_id w), ch_reviewed_at := Some now, ch_summary := s\<rparr>"
      and db': "db' = put_change_set k db1" by auto
    have "\<forall>q\<in>set (publications db). pb_version q = pb_version p \<longrightarrow> pb_is_active q \<longrightarrow> pb_id q = i"
      using p(2,4,6) unfolding publication_clash_def by blast
    moreover have "publications db' = publications db @ [p]" using db' p(1) by (simp add: add_publication_def)
    moreover have "\<forall>k'\<in>set (change_sets db'). ch_id k' = ch_id c \<longrightarrow> ch_status k' = ''published''"
      using db' kc put_change_set_simps(2) [of _ k db1] by fastforce
    ultimately show ?thesis using Pair Inr v ok w p change_gates(1) by simp
  qed
qed

text \<open>C18: Grading may bind to a curriculum exactly when the version has an active publication, is
  adopted by the school, is not withdrawn, the learning area is the school's own and the active
  rubric hangs, directly or through its outcome, under an active curriculum area of that version
  and that learning area.\<close>

theorem grading_binding_iff:
  "validate_curriculum_context_for_grading_binding db (Some t) (Some v) area r = Inr () \<longleftrightarrow>
     (\<exists>p\<in>set (publications db). pb_version p = v \<and> pb_is_active p) \<and>
     (\<exists>a\<in>set (adoptions db). ad_tenant a = t \<and> ad_version a = v \<and> ad_status a \<in> {''scheduled'', ''active''}) \<and>
     \<not> (\<exists>w\<in>set (withdrawals db). wd_version w = v \<and> wd_status w = ''withdrawn'') \<and>
     (\<exists>i la rb ss cl. area = Some i \<and> learning_area_row db i = Some la \<and> la_tenant la = t \<and>
        r = Some rb \<and> rf_is_active rb \<and> rubric_sub_strand db rb = Some ss \<and> sub_strand_area db ss = Some cl \<and>
        cl_version cl = v \<and> cl_learning_area cl = i \<and> cl_is_active cl)"
  unfolding grading_binding_Inr active_publication_iff has_active_publication_def version_is_withdrawn_def live_adoption_def
    rubric_matches_iff
  by (auto split: option.splits)

text \<open>A rollout plan covers every item exactly once: each item lies in exactly one batch, the
  batches are numbered from one, none is empty or larger than the batch size, and there are as many
  as the notice planner counts for the same total.\<close>

theorem rollout_partition:
  assumes "plan_rollout_batches n b = Inr bs"
  shows "(\<forall>k. 0 \<le> k \<longrightarrow> k < n \<longrightarrow> (\<exists>!i. i < length bs \<and> start_index (bs ! i) \<le> k \<and> k < end_index (bs ! i))) \<and>
    (\<forall>i<length bs. batch_number (bs ! i) = int i + 1 \<and> 0 \<le> start_index (bs ! i) \<and>
       start_index (bs ! i) < end_index (bs ! i) \<and> end_index (bs ! i) \<le> start_index (bs ! i) + b \<and> end_index (bs ! i) \<le> n) \<and>
    (\<exists>plan. plan_notice_batch n b = Inr plan \<and> np_batch_count plan = int (length bs))"
proof (intro conjI allI impI)
  note r = rollout_batches_Inr [OF assms]
  fix k assume "0 \<le> k" "k < n"
  then show "\<exists>!i. i < length bs \<and> start_index (bs ! i) \<le> k \<and> k < end_index (bs ! i)"
    by (rule batch_of_item [OF assms])
next
  note r = rollout_batches_Inr [OF assms]
  fix i assume i: "i < length bs"
  obtain m where m: "n = b * ceil_div n b - m" "0 \<le> m" "m < b" using ceil_div_bounds [OF r(2)] .
  have "int i + 1 \<le> ceil_div n b" using i r(3) by linarith
  then have "b * (int i + 1) \<le> b * ceil_div n b" using r(2) by simp
  then have "int i * b < n" using m by (simp add: algebra_simps)
  then show "batch_number (bs ! i) = int i + 1" "0 \<le> start_index (bs ! i)" "start_index (bs ! i) < end_index (bs ! i)"
    "end_index (bs ! i) \<le> start_index (bs ! i) + b" "end_index (bs ! i) \<le> n"
    using r(2,4,5,6) i by simp_all
next
  note r = rollout_batches_Inr [OF assms]
  have "0 \<le> ceil_div n b"
    using r(1,2) by (simp add: ceil_div_alt [symmetric] pos_imp_zdiv_nonneg_iff)
  then show "\<exists>plan. plan_notice_batch n b = Inr plan \<and> np_batch_count plan = int (length bs)"
    using r(1,2,3) by (simp add: plan_notice_batch_def ceil_div_alt)
qed

section \<open>Instances\<close>

definition sample_curriculum :: curriculum_db where
  "sample_curriculum = academic_db.extend (sample_academic\<lparr>
       users := [\<lparr>us_id = ''u1'', us_is_active = True\<rparr>, \<lparr>us_id = ''u2'', us_is_active = True\<rparr>, \<lparr>us_id = ''u9'', us_is_active = True\<rparr>],
       roles := roles sample_academic @ [\<lparr>ro_id = ''r9'', ro_code = ''school_admin'', ro_name = ''A'', ro_description = [], ro_is_active = True\<rparr>],
       role_bindings := role_bindings sample_academic @
         [\<lparr>rb_id = ''b9'', rb_tenant = ''s1'', rb_user = ''u9'', rb_role = ''r9'', rb_is_active = True, rb_updated_at = 1\<rparr>]\<rparr>)
     (curriculum_db.fields [''d1'']
       [\<lparr>cv_id = ''v1'', cv_source_document = ''d1'', cv_version_label = ''2026'', cv_effective_from = 1, cv_effective_to = None, cv_is_active = True\<rparr>]
       [\<lparr>cl_id = ''k1'', cl_version = ''v1'', cl_grade_level = ''g1'', cl_learning_area = ''l1'', cl_is_active = True\<rparr>]
       [\<lparr>sd_id = ''n1'', sd_curriculum_learning_area = ''k1''\<rparr>] [\<lparr>su_id = ''m1'', su_strand = ''n1''\<rparr>]
       [\<lparr>lo_id = ''o1'', lo_sub_strand = ''m1''\<rparr>]
       [\<lparr>rf_id = ''f1'', rf_sub_strand = None, rf_learning_outcome = Some ''o1'', rf_level_code = ''me'', rf_level_label = ''ME'', rf_is_active = True\<rparr>]
       [] [\<lparr>pb_id = ''p1'', pb_version = ''v1'', pb_effective_from = 5, pb_effective_to = None, pb_is_active = True, pb_notes = ''ok'',
          pb_approved_by = Some ''u9'', pb_published_at = 1, pb_superseded_by = None\<rparr>]
       [\<lparr>ad_id = ''a1'', ad_tenant = ''s1'', ad_version = ''v1'', ad_status = ''active'', ad_effective_from = 5, ad_effective_to = None,
          ad_adopted_by = Some ''u9'', ad_adopted_at = Some 1, ad_notes = []\<rparr>] [] [] [] empty_event_db)"

theorem rollout_partition_witness:
  "\<exists>bs. plan_rollout_batches 5 2 = Inr bs \<and> length bs = 3 \<and> end_index (bs ! 2) = 5 \<and>
     (\<exists>!i. i < length bs \<and> start_index (bs ! i) \<le> 4 \<and> 4 < end_index (bs ! i))"
proof -
  have p: "plan_rollout_batches 5 2 = Inr [\<lparr>batch_number = 1, start_index = 0, end_index = 2\<rparr>,
      \<lparr>batch_number = 2, start_index = 2, end_index = 4\<rparr>, \<lparr>batch_number = 3, start_index = 4, end_index = 5\<rparr>]"
    by code_simp
  from rollout_partition [OF p] have "\<exists>!i. i < length [\<lparr>batch_number = 1, start_index = 0, end_index = 2\<rparr>,
      \<lparr>batch_number = 2, start_index = 2, end_index = 4\<rparr>, \<lparr>batch_number = 3, start_index = 4, end_index = 5\<rparr>] \<and>
      start_index ([\<lparr>batch_number = 1, start_index = 0, end_index = 2\<rparr>, \<lparr>batch_number = 2, start_index = 2, end_index = 4\<rparr>,
         \<lparr>batch_number = 3, start_index = 4, end_index = 5\<rparr>] ! i) \<le> (4::int) \<and>
      4 < end_index ([\<lparr>batch_number = 1, start_index = 0, end_index = 2\<rparr>, \<lparr>batch_number = 2, start_index = 2, end_index = 4\<rparr>,
         \<lparr>batch_number = 3, start_index = 4, end_index = 5\<rparr>] ! i)" by simp
  with p show ?thesis by (intro exI conjI) (assumption | simp)+
qed

lemma fst_eq_Inr: "fst m = Inr v \<longleftrightarrow> (\<exists>s. m = (Inr v, s))"
  by (cases m) auto

definition sample_admin :: user where
  "sample_admin = \<lparr>us_id = ''u9'', us_is_active = True\<rparr>"

definition sample_change :: change_set where
  "sample_change = \<lparr>ch_id = ''c1'', ch_source_document = ''d1'', ch_old_version = None, ch_proposed_version = Some ''v1'',
     ch_change_type = ''new_version'', ch_summary = ''Review it'', ch_status = ''approved'', ch_reviewed_at = Some 1,
     ch_reviewed_by = Some ''u9''\<rparr>"

definition sample_unpublished :: curriculum_db where
  "sample_unpublished = sample_curriculum\<lparr>publications := [], adoptions := [], change_sets := [sample_change]\<rparr>"

lemma sample_text: "validate_governance_text ''Review it'' = Inr ()" "strip ''Review it'' = ''Review it''"
proof -
  have "\<forall>c\<in>set ''Review it''. plain_char c" by code_simp
  moreover have s: "strip ''Review it'' = ''Review it''" by code_simp
  ultimately show "validate_governance_text ''Review it'' = Inr ()" by (intro governance_text_accepts) simp_all
  show "strip ''Review it'' = ''Review it''" by (rule s)
qed

lemmas sample_curriculum_simps = sample_unpublished_def sample_curriculum_def sample_change_def sample_admin_def
  curriculum_db.defs academic_db.defs sample_defs empty_event_db_def

lemma sample_publish_ok:
  "is_ok (fst (publish_curriculum_version 7 ''p2'' sample_change (Some ''v1'') (Some sample_admin) 5 ''Review it'' sample_unpublished))"
proof -
  have m: "require_curriculum_truth_manager sample_unpublished f (Some sample_admin) = Inr sample_admin" for f
    by (simp add: require_truth_manager_Inr is_truth_manager_def role_row_is_def sample_curriculum_simps)
  have t: "validate_transition ''approved'' ''published'' = Inr ()" by code_simp
  have e: "version_exists sample_unpublished ''v1''" "user_exists sample_unpublished ''u9''" "publications sample_unpublished = []"
    "source_documents sample_unpublished = [''d1'']"
    by (simp_all add: version_exists_def version_row_def first_where_def user_exists_def sample_curriculum_simps)
  have p: "version_exists (add_publication p sample_unpublished) ''v1''" "user_exists (add_publication p sample_unpublished) ''u9''"
    "source_documents (add_publication p sample_unpublished) = [''d1'']" for p
    using e by (simp_all add: add_publication_def version_exists_def version_row_def user_exists_def)
  have c: "ch_proposed_version sample_change = Some ''v1''" "ch_status sample_change = ''approved''"
    "us_id sample_admin = ''u9''" by (simp_all add: sample_change_def sample_admin_def)
  show ?thesis
    by (simp add: publish_curriculum_version_def create_curriculum_publication_def atomic_def abind_def save_clean_def
        publication_full_clean_def publication_clean_def change_set_full_clean_def change_set_clean_def opt_fk_def
        change_types_def change_statuses_def m t e p c sample_text Let_def)
      (simp add: sample_change_def sample_text change_set_full_clean_def change_set_clean_def opt_fk_def
        change_types_def change_statuses_def p)
qed

theorem one_live_publication_and_adoption_witness:
  "\<exists>db. publish_curriculum_version 7 ''p2'' sample_change (Some ''v1'') (Some sample_admin) 5 ''Review it'' sample_unpublished = db \<and>
     \<not> list_ex (\<lambda>p. list_ex (\<lambda>q. pb_version p = pb_version q \<and> pb_is_active p \<and> pb_is_active q \<and> pb_id p \<noteq> pb_id q)
       (publications (snd db))) (publications (snd db))"
proof -
  have "publications sample_unpublished = []" "adoptions sample_unpublished = []" by (simp_all add: sample_unpublished_def)
  note c = conjunct1 [OF one_live_publication_and_adoption [OF curriculum_next [OF curriculum_start curriculum_step.intros(5)] this]]
  show ?thesis
    by (rule exI, rule conjI [OF refl]) (use c in \<open>unfold list_ex_iff, blast\<close>)
qed

theorem grading_binding_iff_witness:
  "validate_curriculum_context_for_grading_binding sample_curriculum (Some ''s1'') (Some ''v1'') (Some ''l1'')
     (rubric_row sample_curriculum ''f1'') = Inr ()"
  unfolding grading_binding_iff
  by (simp add: sample_curriculum_def curriculum_db.defs academic_db.defs row_defs rubric_row_def first_where_def
      rubric_sub_strand_def outcome_row_def sub_strand_area_def sub_strand_row_def strand_row_def curriculum_area_row_def sample_defs)

end
