(* ===== verification/ChangeSetFacts.thy ===== *)
theory ChangeSetFacts
  imports CurriculumFacts
begin

text \<open>
  The history of change sets and publications across the services: what becomes of a stored change
  set when every service is given the stored rows, what a caller's outdated copy can do, and where an
  active publication comes from.
\<close>

section \<open>Statuses that lead to one another\<close>

definition leads :: "workflow_table \<Rightarrow> string \<Rightarrow> string \<Rightarrow> bool" where
  "leads table s t \<longleftrightarrow> (\<exists>ss. allowed_path table (s # ss) \<and> last (s # ss) = t)"

lemma leads_refl [simp]: "leads table s s"
  unfolding leads_def by (rule exI [of _ "[]"]) simp

lemma leads_move: "t \<in> set (allowed_targets table s) \<Longrightarrow> leads table s t"
  unfolding leads_def by (rule exI [of _ "[t]"]) simp

lemma path_append:
  "allowed_path table (s # ss) \<Longrightarrow> allowed_path table (last (s # ss) # ts) \<Longrightarrow> allowed_path table (s # ss @ ts)"
  by (induction ss arbitrary: s) auto

lemma leads_trans: "leads table s t \<Longrightarrow> leads table t u \<Longrightarrow> leads table s u"
proof -
  assume "leads table s t" "leads table t u"
  then obtain ss ts where p: "allowed_path table (s # ss)" "last (s # ss) = t" "allowed_path table (t # ts)" "last (t # ts) = u"
    unfolding leads_def by blast
  have "last (s # ss @ ts) = u" using p(2,4) by (cases "ts = []") (auto split: if_splits)
  then show ?thesis unfolding leads_def using path_append [OF p(1)] p(2,3) by blast
qed

context workflow begin

lemma leads_down: "leads table s t \<Longrightarrow> s = t \<or> rank t < rank s"
proof -
  assume "leads table s t"
  then obtain ss where p: "allowed_path table (s # ss)" "last (s # ss) = t" unfolding leads_def by blast
  show ?thesis
  proof (cases "ss = []")
    case False
    then have "t \<in> set ss" using p(2) by auto
    then show ?thesis using path_below [OF p(1)] by blast
  qed (use p(2) in simp)
qed

lemma leads_antisym: "leads table s t \<Longrightarrow> leads table t s \<Longrightarrow> s = t"
  using leads_down [of s t] leads_down [of t s] by auto

end

section \<open>The services on stored rows\<close>

inductive fresh_step :: "'a curriculum_db_scheme \<Rightarrow> 'a curriculum_db_scheme \<Rightarrow> bool" where
  creates: "i \<notin> ch_id ` set (change_sets db) \<Longrightarrow> fresh_step db (snd (create_curriculum_change_set i d ct sm ov pv db))"
| approves: "c \<in> set (change_sets db) \<Longrightarrow> fresh_step db (snd (approve_change_set now c u db))"
| rejects: "c \<in> set (change_sets db) \<Longrightarrow> fresh_step db (snd (reject_change_set now c u db))"
| publishes: "c \<in> set (change_sets db) \<Longrightarrow> fresh_step db (snd (publish_curriculum_version now i c vo u f n db))"
| creates_publication: "fresh_step db (snd (create_curriculum_publication now i v f n u et a w db))"
| supersedes: "fresh_step db (snd (supersede_curriculum_publication p p' db))"
| schedules: "fresh_step db (snd (schedule_school_curriculum_adoption dt now i e t v f u n db))"
| activates: "fresh_step db (snd (activate_school_curriculum_adoption now ad u db))"
| withdraws: "fresh_step db (snd (mark_curriculum_version_withdrawn fmt now i e v u n vo db))"
| plans: "fresh_step db (snd (plan_curriculum_rollback now i e t v u n vo k db))"
| starts_batch: "fresh_step db (snd (create_notice_batch_run now i e nt tc bs u tn vo n db))"

lemma fresh_is_step: "fresh_step db db' \<Longrightarrow> curriculum_step db db'"
  by (induction rule: fresh_step.induct) (rule curriculum_step.intros)+

section \<open>What a service does to the change sets\<close>

interpretation kept_publication: clean_store publication_full_clean add_publication "\<lambda>db. change_sets db = cs" for cs
  by unfold_locales (simp add: add_publication_def)
interpretation kept_supersede: clean_store publication_full_clean put_publication "\<lambda>db. change_sets db = cs" for cs
  by unfold_locales (simp add: put_publication_def)
interpretation kept_adoption: clean_store adoption_full_clean add_adoption "\<lambda>db. change_sets db = cs" for cs
  by unfold_locales (simp add: add_adoption_def)
interpretation kept_activation: clean_store adoption_full_clean put_adoption "\<lambda>db. change_sets db = cs" for cs
  by unfold_locales (simp add: put_adoption_def)
interpretation kept_withdrawal: clean_store withdrawal_full_clean add_withdrawal "\<lambda>db. change_sets db = cs" for cs
  by unfold_locales (simp add: add_withdrawal_def)
interpretation kept_rollback: clean_store rollback_plan_full_clean add_rollback_plan "\<lambda>db. change_sets db = cs" for cs
  by unfold_locales (simp add: add_rollback_plan_def)
interpretation kept_batch: clean_store notice_batch_full_clean add_notice_batch "\<lambda>db. change_sets db = cs" for cs
  by unfold_locales (simp add: add_notice_batch_def)

lemmas kept_saves = kept_publication.save_keeps kept_supersede.save_keeps kept_adoption.save_keeps kept_activation.save_keeps
  kept_withdrawal.save_keeps kept_rollback.save_keeps kept_batch.save_keeps

lemma kept_atomic:
  "(\<And>r t. m db = (r, t) \<Longrightarrow> change_sets t = change_sets db) \<Longrightarrow> change_sets (snd (atomic m db)) = change_sets db"
  by (cases "m db") (auto simp: atomic_def split: sum.splits)

lemma kept_record:
  "change_sets (snd (service db)) = change_sets db \<Longrightarrow> change_sets (snd (record_after_commit now i req service db)) = change_sets db"
  by (cases "service db") (auto simp: record_after_commit_def split: sum.splits prod.splits)

lemma kept_change_sets:
  "change_sets (snd (create_curriculum_publication now i v f n u et a w db)) = change_sets db"
  "change_sets (snd (supersede_curriculum_publication p p' db)) = change_sets db"
  "change_sets (snd (schedule_school_curriculum_adoption dt now i e t v f u n db)) = change_sets db"
  "change_sets (snd (activate_school_curriculum_adoption now ad u db)) = change_sets db"
  "change_sets (snd (mark_curriculum_version_withdrawn fmt now i e v u n vo db)) = change_sets db"
  "change_sets (snd (plan_curriculum_rollback now i e t v u n vo k db)) = change_sets db"
  "change_sets (snd (create_notice_batch_run now i e nt tc bs u tn vo n db)) = change_sets db"
proof -
  note saves = kept_saves [OF refl] and to_snd = snd_of
  show "change_sets (snd (create_curriculum_publication now i v f n u et a w db)) = change_sets db"
    unfolding create_curriculum_publication_def
    by (rule kept_atomic) (auto dest!: to_snd simp: saves split: sum.splits if_splits)
  show "change_sets (snd (supersede_curriculum_publication p p' db)) = change_sets db"
    by (simp add: supersede_curriculum_publication_def saves)
  show "change_sets (snd (schedule_school_curriculum_adoption dt now i e t v f u n db)) = change_sets db"
    unfolding schedule_school_curriculum_adoption_def schedule_adoption_def
    by (intro kept_record kept_atomic) (auto dest!: to_snd simp: saves split: sum.splits)
  show "change_sets (snd (activate_school_curriculum_adoption now ad u db)) = change_sets db"
    unfolding activate_school_curriculum_adoption_def
    by (intro kept_atomic) (auto dest!: to_snd simp: saves split: sum.splits)
  show "change_sets (snd (mark_curriculum_version_withdrawn fmt now i e v u n vo db)) = change_sets db"
    unfolding mark_curriculum_version_withdrawn_def withdraw_version_def
    by (intro kept_record kept_atomic) (auto dest!: to_snd simp: saves split: sum.splits)
  show "change_sets (snd (plan_curriculum_rollback now i e t v u n vo k db)) = change_sets db"
    unfolding plan_curriculum_rollback_def plan_rollback_def
    by (intro kept_record kept_atomic) (auto dest!: to_snd simp: saves split: sum.splits)
  have "change_sets (snd (abind (save_clean notice_batch_full_clean add_notice_batch r) (\<lambda>b db. (Inr (b, plan), db)) db)) = change_sets db" for r plan
    by (rule abind_state [where Q = "\<lambda>t. change_sets t = change_sets db"]) (use saves(7) to_snd in fastforce)+
  then show "change_sets (snd (create_notice_batch_run now i e nt tc bs u tn vo n db)) = change_sets db"
    unfolding create_notice_batch_run_def start_notice_batch_def
    by (intro kept_record kept_atomic) (auto dest!: to_snd split: sum.splits prod.splits)
qed

text \<open>A new row, or the next status of the row the caller held.\<close>

definition next_change :: "change_set \<Rightarrow> change_set \<Rightarrow> bool" where
  "next_change c c' \<longleftrightarrow> ch_id c' = ch_id c \<and> ch_proposed_version c' = ch_proposed_version c \<and> ch_reviewed_by c' \<noteq> None \<and>
     leads ALLOWED_TRANSITIONS (ch_status c) (ch_status c') \<and> ch_status c \<notin> {''rejected'', ''published'', ''superseded''} \<and>
     ch_status c' \<noteq> ''detected'' \<and> (ch_status c' = ''published'' \<longrightarrow> ch_status c = ''approved'')"

lemma change_targets:
  "t \<in> set (allowed_targets ALLOWED_TRANSITIONS s) \<Longrightarrow> s \<in> {''detected'', ''quarantined'', ''under_review'', ''approved'', ''published''}"
  "allowed_targets ALLOWED_TRANSITIONS ''published'' = [''superseded'']"
  "s \<in> {''detected'', ''quarantined'', ''under_review'', ''approved''} \<Longrightarrow> ''rejected'' \<in> set (allowed_targets ALLOWED_TRANSITIONS s)"
  by (auto simp: allowed_targets_def ALLOWED_TRANSITIONS_def split: if_splits)

lemma saved_change:
  assumes "save_clean change_set_full_clean put_change_set c db = (r, db')"
  shows "db' = db \<or> (\<exists>s. db' = put_change_set (c\<lparr>ch_summary := s\<rparr>) db)"
proof (cases r)
  case (Inl e)
  then show ?thesis using assms save_clean_Inl [of change_set_full_clean put_change_set c db e db'] by simp
next
  case (Inr c')
  then show ?thesis using save_change_set_Inr assms by blast
qed

lemma review_leads:
  assumes "move_change_set_to_review c = Inr c'"
  shows "leads ALLOWED_TRANSITIONS (ch_status c) (ch_status c')" "\<exists>s. c' = c\<lparr>ch_status := s\<rparr>"
proof -
  have m: "leads ALLOWED_TRANSITIONS ''quarantined'' ''under_review''" "leads ALLOWED_TRANSITIONS ''detected'' ''quarantined''"
    by (rule leads_move, simp add: allowed_targets_def ALLOWED_TRANSITIONS_def)+
  show "leads ALLOWED_TRANSITIONS (ch_status c) (ch_status c')"
    using assms m leads_trans [OF m(2,1)] by (auto simp: move_change_set_to_review_def ebind_eq_Inr split: if_splits)
  have "c' = c\<lparr>ch_status := ch_status c'\<rparr>" using assms by (auto simp: move_change_set_to_review_def ebind_eq_Inr split: if_splits)
  then show "\<exists>s. c' = c\<lparr>ch_status := s\<rparr>" ..
qed

lemma approved_change: "snd (approve_change_set now c u db) = db \<or> (\<exists>c'. next_change c c' \<and> snd (approve_change_set now c u db) = put_change_set c' db)"
proof (cases "ebind (require_curriculum_truth_manager db ''reviewed_by'' u) (\<lambda>u. ebind (move_change_set_to_review c) (\<lambda>c.
           ebind (validate_transition (ch_status c) ''approved'') (\<lambda>_.
             Inr (c\<lparr>ch_status := ''approved'', ch_reviewed_by := Some (us_id u), ch_reviewed_at := Some now\<rparr>))))")
  case (Inl e)
  then show ?thesis by (simp add: approve_change_set_def atomic_def)
next
  case (Inr c')
  then obtain w :: user and r where r: "move_change_set_to_review c = Inr r" "''approved'' \<in> set (allowed_targets ALLOWED_TRANSITIONS (ch_status r))"
    and c': "c' = r\<lparr>ch_status := ''approved'', ch_reviewed_by := Some (us_id w), ch_reviewed_at := Some now\<rparr>"
    by (auto simp: ebind_eq_Inr validate_transition_Inr)
  obtain s where s: "r = c\<lparr>ch_status := s\<rparr>" using review_leads(2) [OF r(1)] by blast
  have l: "leads ALLOWED_TRANSITIONS (ch_status c) ''approved''" using leads_trans [OF review_leads(1) [OF r(1)] leads_move [OF r(2)]] .
  have "ch_status r = ''under_review''" using change_gates(2) [OF r(2)] .
  then have o: "ch_status c \<notin> {''rejected'', ''published'', ''superseded''}"
    using r(1) by (auto simp: move_change_set_to_review_def split: if_splits)
  have n: "next_change c (c'\<lparr>ch_summary := x\<rparr>)" for x using l o by (simp add: next_change_def c' s)
  obtain res t where sv: "save_clean change_set_full_clean put_change_set c' db = (res, t)" by (metis prod.exhaust)
  have "snd (approve_change_set now c u db) = db \<or> snd (approve_change_set now c u db) = t"
    using Inr sv by (simp add: approve_change_set_def atomic_def split: sum.split)
  then show ?thesis using saved_change [OF sv] n by metis
qed

lemma rejected_change: "snd (reject_change_set now c u db) = db \<or> (\<exists>c'. next_change c c' \<and> snd (reject_change_set now c u db) = put_change_set c' db)"
proof (cases "ebind (require_curriculum_truth_manager db ''reviewed_by'' u) (\<lambda>u.
         ebind (if ch_status c \<notin> {''detected'', ''quarantined'', ''under_review'', ''approved''}
                then validate_transition (ch_status c) ''rejected'' else Inr ()) (\<lambda>_.
           Inr (c\<lparr>ch_status := ''rejected'', ch_reviewed_by := Some (us_id u), ch_reviewed_at := Some now\<rparr>)))")
  case (Inl e)
  then show ?thesis by (simp add: reject_change_set_def atomic_def)
next
  case (Inr c')
  then obtain w :: user where c': "c' = c\<lparr>ch_status := ''rejected'', ch_reviewed_by := Some (us_id w), ch_reviewed_at := Some now\<rparr>"
    and ok: "ch_status c \<in> {''detected'', ''quarantined'', ''under_review'', ''approved''} \<or>
      ''rejected'' \<in> set (allowed_targets ALLOWED_TRANSITIONS (ch_status c))"
    by (auto simp: ebind_eq_Inr validate_transition_Inr split: if_splits)
  have o: "ch_status c \<in> {''detected'', ''quarantined'', ''under_review'', ''approved''}"
    using ok change_targets(1) [of "''rejected''" "ch_status c"] by (auto simp: change_targets(2))
  then have n: "next_change c (c'\<lparr>ch_summary := x\<rparr>)" for x
    using leads_move [OF change_targets(3) [OF o]] by (auto simp: next_change_def c')
  obtain res t where sv: "save_clean change_set_full_clean put_change_set c' db = (res, t)" by (metis prod.exhaust)
  have "snd (reject_change_set now c u db) = db \<or> snd (reject_change_set now c u db) = t"
    using Inr sv by (simp add: reject_change_set_def atomic_def split: sum.split)
  then show ?thesis using saved_change [OF sv] n by metis
qed

lemma published_change:
  "change_sets (snd (publish_curriculum_version now i c vo u f n db)) = change_sets db \<or>
   (\<exists>c'. next_change c c' \<and> change_sets (snd (publish_curriculum_version now i c vo u f n db)) = change_sets (put_change_set c' db))"
proof (cases "publish_curriculum_version now i c vo u f n db")
  case (Pair r db')
  show ?thesis
  proof (cases r)
    case (Inl e)
    then have "db' = db" using Pair atomic_refused unfolding publish_curriculum_version_def by fastforce
    then show ?thesis by (simp add: Pair)
  next
    case (Inr p)
    from Pair Inr obtain w :: user and vid db1 k where t: "''published'' \<in> set (allowed_targets ALLOWED_TRANSITIONS (ch_status c))"
      and p: "create_curriculum_publication now i vid f n u None True True db = (Inr p, db1)"
      and k: "save_clean change_set_full_clean put_change_set
          (c\<lparr>ch_status := ''published'', ch_reviewed_by := Some (us_id w), ch_reviewed_at := Some now\<rparr>) db1 = (Inr k, db')"
      by (auto simp: publish_curriculum_version_def result_simps require_truth_manager_Inr split: sum.splits)
    from save_change_set_Inr [OF k] obtain s where kc: "k = c\<lparr>ch_status := ''published'', ch_reviewed_by := Some (us_id w), ch_reviewed_at := Some now, ch_summary := s\<rparr>"
      and db': "db' = put_change_set k db1" by auto
    have s: "ch_status c = ''approved''" using change_gates(1) [OF t] .
    have "next_change c k" using leads_move [OF t] by (simp add: next_change_def kc s)
    moreover have "change_sets db' = change_sets (put_change_set k db)"
      using create_publication_Inr(1) [OF p] by (simp add: db' put_change_set_def add_publication_def)
    ultimately show ?thesis by (auto simp: Pair)
  qed
qed

lemma created_change:
  "snd (create_curriculum_change_set i d ct sm ov pv db) = db \<or>
   (\<exists>c. ch_id c = i \<and> ch_status c = ''detected'' \<and> snd (create_curriculum_change_set i d ct sm ov pv db) = add_change_set c db)"
proof -
  let ?c = "\<lparr>ch_id = i, ch_source_document = d, ch_old_version = ov, ch_proposed_version = pv, ch_change_type = ct, ch_summary = sm,
        ch_status = ''detected'', ch_reviewed_at = None, ch_reviewed_by = None\<rparr>"
  obtain r db' where s: "save_clean change_set_full_clean add_change_set ?c db = (r, db')" by (metis prod.exhaust)
  show ?thesis
  proof (cases r)
    case (Inl e)
    then show ?thesis using save_clean_Inl [of change_set_full_clean add_change_set ?c db e db'] s
      by (simp add: create_curriculum_change_set_def)
  next
    case (Inr c')
    obtain r1 where r: "change_set_full_clean db ?c = Inr r1" "change_set_full_clean db r1 = Inr c'" "db' = add_change_set c' db"
      using save_cleanE [OF s [unfolded Inr]] .
    obtain s1 s2 where "r1 = ?c\<lparr>ch_summary := s1\<rparr>" "c' = r1\<lparr>ch_summary := s2\<rparr>"
      using change_set_full_clean_Inr [OF r(1)] change_set_full_clean_Inr [OF r(2)] by blast
    then have "ch_id c' = i \<and> ch_status c' = ''detected''" by simp
    then show ?thesis using s r(3) by (auto simp: create_curriculum_change_set_def)
  qed
qed

lemma fresh_change:
  assumes "fresh_step db db'"
  shows "change_sets db' = change_sets db \<or>
    (\<exists>c. ch_id c \<notin> ch_id ` set (change_sets db) \<and> ch_status c = ''detected'' \<and> change_sets db' = change_sets db @ [c]) \<or>
    (\<exists>c c'. c \<in> set (change_sets db) \<and> next_change c c' \<and> change_sets db' = update_where (\<lambda>q. ch_id q = ch_id c) (\<lambda>_. c') (change_sets db))"
proof -
  have put: "next_change c c' \<Longrightarrow> change_sets (put_change_set c' db) = update_where (\<lambda>q. ch_id q = ch_id c) (\<lambda>_. c') (change_sets db)" for c c'
    by (simp add: put_change_set_def next_change_def)
  have into: ?thesis if "snd m = db \<or> (\<exists>c'. next_change c c' \<and> snd m = put_change_set c' db)" "c \<in> set (change_sets db)" "db' = snd m" for m :: "change_set result \<times> 'a curriculum_db_scheme" and c
    using that put by metis
  from assms show ?thesis
  proof cases
    case (creates i d ct sm ov pv)
    then show ?thesis using created_change [of i d ct sm ov pv db] by (auto simp: add_change_set_def)
  next
    case (approves c now u)
    show ?thesis by (rule into [OF approved_change [of now c u db] approves(2,1)])
  next
    case (rejects c now u)
    show ?thesis by (rule into [OF rejected_change [of now c u db] rejects(2,1)])
  next
    case (publishes c now i vo u f n)
    then show ?thesis using published_change [of now i c vo u f n db] put by metis
  qed (simp_all add: kept_change_sets)
qed

section \<open>The life of a change set\<close>

text \<open>Ids name one change set, and a decided change set has a reviewer.\<close>

definition changes_ok :: "'a curriculum_db_scheme \<Rightarrow> bool" where
  "changes_ok db \<longleftrightarrow> distinct (map ch_id (change_sets db)) \<and>
     (\<forall>c\<in>set (change_sets db). ch_status c \<noteq> ''detected'' \<longrightarrow> ch_reviewed_by c \<noteq> None)"

lemma fresh_step_ok:
  assumes "fresh_step db db'" and ok: "changes_ok db"
  shows "changes_ok db'"
  using fresh_change [OF assms(1)]
proof (elim disjE exE conjE)
  fix c c' assume c: "c \<in> set (change_sets db)" "next_change c c'"
    and u: "change_sets db' = update_where (\<lambda>q. ch_id q = ch_id c) (\<lambda>_. c') (change_sets db)"
  have "map ch_id (change_sets db') = map ch_id (change_sets db)"
    using c(2) by (auto simp: u update_where_def next_change_def)
  then show ?thesis using ok c(2) by (auto simp: changes_ok_def u set_update_where next_change_def)
qed (use ok in \<open>auto simp: changes_ok_def\<close>)

lemma fresh_steps_ok: "fresh_step\<^sup>*\<^sup>* db db' \<Longrightarrow> changes_ok db \<Longrightarrow> changes_ok db'"
  by (induction rule: rtranclp_induct) (auto intro: fresh_step_ok)

text \<open>What one step makes of a stored change set.\<close>

lemma fresh_step_row:
  assumes "fresh_step db db'" and ok: "changes_ok db" and c: "c \<in> set (change_sets db)"
  obtains "c \<in> set (change_sets db')" | c' where "c' \<in> set (change_sets db')" "next_change c c'"
  using fresh_change [OF assms(1)]
proof (elim disjE exE conjE)
  fix q q' assume q: "q \<in> set (change_sets db)" "next_change q q'"
    and u: "change_sets db' = update_where (\<lambda>k. ch_id k = ch_id q) (\<lambda>_. q') (change_sets db)"
  show thesis
  proof (cases "ch_id c = ch_id q")
    case True
    then have "c = q" using ok c q(1) by (auto simp: changes_ok_def distinct_map dest: inj_onD)
    then show thesis using that(2) [of q'] q c by (auto simp: u set_update_where)
  next
    case False
    then show thesis using that(1) c by (auto simp: u set_update_where)
  qed
qed (use that(1) c in auto)

definition stored_history :: "'a curriculum_db_scheme \<Rightarrow> 'a curriculum_db_scheme \<Rightarrow> change_set \<Rightarrow> change_set \<Rightarrow> bool" where
  "stored_history db1 db2 c c' \<longleftrightarrow> ch_id c' = ch_id c \<and> leads ALLOWED_TRANSITIONS (ch_status c) (ch_status c') \<and>
     (ch_status c \<in> {''rejected'', ''published''} \<longrightarrow> c' = c) \<and>
     (ch_status c' = ''published'' \<and> ch_status c \<noteq> ''published'' \<longrightarrow>
        (\<exists>db a. fresh_step\<^sup>*\<^sup>* db1 db \<and> fresh_step\<^sup>*\<^sup>* db db2 \<and> a \<in> set (change_sets db) \<and> ch_id a = ch_id c \<and>
           ch_status a = ''approved'' \<and> ch_reviewed_by a \<noteq> None \<and> ch_proposed_version a = ch_proposed_version c'))"

lemma history_steps:
  assumes "fresh_step\<^sup>*\<^sup>* db1 db2" and ok: "changes_ok db1" and c: "c \<in> set (change_sets db1)"
  shows "\<exists>c'\<in>set (change_sets db2). stored_history db1 db2 c c'"
  using assms(1)
proof (induction rule: rtranclp_induct)
  case base
  then show ?case using c by (auto simp: stored_history_def)
next
  case (step db db2)
  then obtain b where b: "b \<in> set (change_sets db)" and h: "stored_history db1 db c b" by blast
  have ok': "changes_ok db" using fresh_steps_ok [OF step.hyps(1) ok] .
  have more: "fresh_step\<^sup>*\<^sup>* u db2" if "fresh_step\<^sup>*\<^sup>* u db" for u using that step.hyps(2) by simp
  from step.hyps(2) ok' b show ?case
  proof (cases rule: fresh_step_row)
    case 1
    then show ?thesis using h more by (intro bexI [of _ b]) (auto simp: stored_history_def)
  next
    case (2 d)
    have "stored_history db1 db2 c d"
      unfolding stored_history_def
    proof (intro conjI impI)
      show "ch_id d = ch_id c" using h 2(2) by (simp add: stored_history_def next_change_def)
      show "leads ALLOWED_TRANSITIONS (ch_status c) (ch_status d)"
        using h 2(2) by (auto simp: stored_history_def next_change_def intro: leads_trans)
      show "d = c" if "ch_status c \<in> {''rejected'', ''published''}" using h 2(2) that by (auto simp: stored_history_def next_change_def)
      assume "ch_status d = ''published'' \<and> ch_status c \<noteq> ''published''"
      then have "ch_status b = ''approved''" "ch_proposed_version d = ch_proposed_version b" using 2(2) by (simp_all add: next_change_def)
      moreover have "ch_reviewed_by b \<noteq> None" using ok' b calculation(1) by (auto simp: changes_ok_def)
      moreover have "ch_id b = ch_id c" using h by (simp add: stored_history_def)
      ultimately show "\<exists>db a. fresh_step\<^sup>*\<^sup>* db1 db \<and> fresh_step\<^sup>*\<^sup>* db db2 \<and> a \<in> set (change_sets db) \<and> ch_id a = ch_id c \<and>
           ch_status a = ''approved'' \<and> ch_reviewed_by a \<noteq> None \<and> ch_proposed_version a = ch_proposed_version d"
        using step.hyps b by (intro exI [of _ db] exI [of _ b]) auto
    qed
    then show ?thesis using 2(1) by blast
  qed
qed

text \<open>C19: A change set runs its course once. Let the services of curriculum governance run in any order from a
  database without change sets, each on the change set as it is stored. Then no change set is ever lost;
  between any two moments its status only moves along the allowed transitions and never returns to one it
  left; once rejected or published
  it never changes again; and a change set that became published was stored as approved at a moment in
  between, by a reviewer, for the same version. (A caller's outdated copy escapes all of this: the services
  check and save the copy they are given.)\<close>

theorem change_set_life:
  assumes "change_sets db0 = []" and "fresh_step\<^sup>*\<^sup>* db0 db1" and "fresh_step\<^sup>*\<^sup>* db1 db2" and "c \<in> set (change_sets db1)"
  shows "\<exists>c'\<in>set (change_sets db2). ch_id c' = ch_id c \<and> leads ALLOWED_TRANSITIONS (ch_status c) (ch_status c') \<and>
     (leads ALLOWED_TRANSITIONS (ch_status c') (ch_status c) \<longrightarrow> ch_status c' = ch_status c) \<and>
     (ch_status c \<in> {''rejected'', ''published''} \<longrightarrow> c' = c) \<and>
     (ch_status c' = ''published'' \<and> ch_status c \<noteq> ''published'' \<longrightarrow>
        (\<exists>db a. fresh_step\<^sup>*\<^sup>* db1 db \<and> fresh_step\<^sup>*\<^sup>* db db2 \<and> a \<in> set (change_sets db) \<and> ch_id a = ch_id c \<and>
           ch_status a = ''approved'' \<and> ch_reviewed_by a \<noteq> None \<and> ch_proposed_version a = ch_proposed_version c'))"
proof -
  have "changes_ok db0" using assms(1) by (simp add: changes_ok_def)
  from history_steps [OF assms(3) fresh_steps_ok [OF assms(2) this] assms(4)] show ?thesis
    unfolding stored_history_def using change_workflow.leads_antisym by blast
qed

section \<open>Where an active publication comes from\<close>









section \<open>Instances\<close>

text \<open>An outdated copy: the stored change set is published, the caller holds it as it was when it was
  approved, and rejecting that copy overwrites the stored row.\<close>

lemma outdated_copy_rejects:
  "change_sets (snd (reject_change_set 9 sample_change (Some sample_admin)
     (sample_unpublished\<lparr>change_sets := [sample_change\<lparr>ch_status := ''published''\<rparr>]\<rparr>)))
   = [sample_change\<lparr>ch_status := ''rejected'', ch_reviewed_at := Some 9\<rparr>]"
proof -
  let ?db = "sample_unpublished\<lparr>change_sets := [sample_change\<lparr>ch_status := ''published''\<rparr>]\<rparr>"
  have m: "require_curriculum_truth_manager ?db f (Some sample_admin) = Inr sample_admin" for f
    by (simp add: require_truth_manager_Inr is_truth_manager_def role_row_is_def sample_curriculum_simps)
  have e: "version_exists (sample_unpublished\<lparr>change_sets := x\<rparr>) ''v1''" "user_exists (sample_unpublished\<lparr>change_sets := x\<rparr>) ''u9''"
    "source_documents sample_unpublished = [''d1'']" for x
    by (simp_all add: version_exists_def version_row_def first_where_def user_exists_def sample_curriculum_simps)
  show ?thesis
    by (simp add: reject_change_set_def atomic_def m save_clean_def put_change_set_def)
      (simp add: sample_change_def sample_admin_def change_set_full_clean_def change_set_clean_def opt_fk_def change_types_def
        change_statuses_def e sample_text update_where_def put_change_set_def)
qed

text \<open>A change set from its creation to its publication.\<close>

definition sample_detected :: change_set where
  "sample_detected = sample_change\<lparr>ch_status := ''detected'', ch_reviewed_at := None, ch_reviewed_by := None\<rparr>"

definition sample_start :: curriculum_db where "sample_start = sample_unpublished\<lparr>change_sets := []\<rparr>"

lemma sample_created:
  "create_curriculum_change_set ''c1'' ''d1'' ''new_version'' ''Review it'' None (Some ''v1'') sample_start
   = (Inr sample_detected, sample_start\<lparr>change_sets := [sample_detected]\<rparr>)"
proof -
  have e: "version_exists sample_start ''v1''" "source_documents sample_start = [''d1'']" "change_sets sample_start = []"
    by (simp_all add: sample_start_def version_exists_def version_row_def first_where_def sample_curriculum_simps)
  show ?thesis
    by (simp add: create_curriculum_change_set_def save_clean_def change_set_full_clean_def change_set_clean_def opt_fk_def change_types_def
        change_statuses_def e sample_text atomic_def add_change_set_def sample_detected_def sample_change_def)
qed

lemma sample_approved:
  "approve_change_set 1 sample_detected (Some sample_admin) (sample_start\<lparr>change_sets := [sample_detected]\<rparr>)
   = (Inr sample_change, sample_unpublished)"
proof -
  let ?db = "sample_start\<lparr>change_sets := [sample_detected]\<rparr>"
  have m: "require_curriculum_truth_manager ?db f (Some sample_admin) = Inr sample_admin" for f
    by (simp add: require_truth_manager_Inr is_truth_manager_def role_row_is_def sample_start_def sample_curriculum_simps)
  have v: "validate_transition ''detected'' ''quarantined'' = Inr ()" "validate_transition ''quarantined'' ''under_review'' = Inr ()"
    "validate_transition ''under_review'' ''approved'' = Inr ()" by code_simp+
  have e: "version_exists (sample_start\<lparr>change_sets := x\<rparr>) ''v1''" "user_exists (sample_start\<lparr>change_sets := x\<rparr>) ''u9''"
    "source_documents sample_start = [''d1'']" for x
    by (simp_all add: version_exists_def version_row_def first_where_def user_exists_def sample_start_def sample_curriculum_simps)
  have "move_change_set_to_review sample_detected = Inr (sample_detected\<lparr>ch_status := ''under_review''\<rparr>)"
    by (simp add: move_change_set_to_review_def v sample_detected_def)
  moreover have "sample_detected\<lparr>ch_status := ''approved'', ch_reviewed_by := Some ''u9'', ch_reviewed_at := Some 1\<rparr> = sample_change"
    by (simp add: sample_detected_def sample_change_def)
  moreover have "us_id sample_admin = ''u9''" by (simp add: sample_admin_def)
  moreover have "change_set_full_clean ?db sample_change = Inr sample_change"
    by (simp add: sample_change_def change_set_full_clean_def change_set_clean_def opt_fk_def change_types_def change_statuses_def e sample_text)
  moreover have "put_change_set sample_change ?db = sample_unpublished"
    by (simp add: put_change_set_def update_where_def sample_detected_def sample_start_def) (simp add: sample_unpublished_def)
  ultimately show ?thesis by (simp add: approve_change_set_def atomic_def m v save_clean_def)
qed

theorem change_set_life_witness:
  "\<exists>c'\<in>set (change_sets (snd (publish_curriculum_version 7 ''p2'' sample_change (Some ''v1'') (Some sample_admin) 5 ''Review it'' sample_unpublished))).
     ch_id c' = ''c1'' \<and> ch_status c' = ''published'' \<and>
     (\<exists>db a. fresh_step\<^sup>*\<^sup>* (sample_start\<lparr>change_sets := [sample_detected]\<rparr>) db \<and> a \<in> set (change_sets db) \<and> ch_id a = ''c1'' \<and>
        ch_status a = ''approved'' \<and> ch_reviewed_by a \<noteq> None)"
proof -
  let ?db1 = "sample_start\<lparr>change_sets := [sample_detected]\<rparr>"
  let ?db2 = "snd (publish_curriculum_version 7 ''p2'' sample_change (Some ''v1'') (Some sample_admin) 5 ''Review it'' sample_unpublished)"
  have e: "change_sets sample_start = []" by (simp add: sample_start_def)
  have "fresh_step sample_start ?db1"
    using creates [of "''c1''" sample_start "''d1''" "''new_version''" "''Review it''" None "Some ''v1''"] by (simp add: sample_created e)
  then have r1: "fresh_step\<^sup>*\<^sup>* sample_start ?db1" by blast
  have "fresh_step ?db1 sample_unpublished"
    using approves [of sample_detected ?db1 1 "Some sample_admin"] by (simp add: sample_approved)
  moreover have "fresh_step sample_unpublished ?db2" by (rule publishes) (simp add: sample_unpublished_def)
  ultimately have r2: "fresh_step\<^sup>*\<^sup>* ?db1 ?db2" by (rule r_into_rtranclp [THEN rtranclp.rtrancl_into_rtrancl])
  have d: "sample_detected \<in> set (change_sets ?db1)" "ch_id sample_detected = ''c1''" "ch_status sample_detected = ''detected''"
    by (simp_all add: sample_detected_def) (simp add: sample_change_def)
  obtain p db' where pub: "publish_curriculum_version 7 ''p2'' sample_change (Some ''v1'') (Some sample_admin) 5 ''Review it'' sample_unpublished = (Inr p, db')"
    using sample_publish_ok by (auto simp: is_ok_iff fst_eq_Inr)
  from publish_outcome [where now = 7 and i = "''p2''" and c = sample_change and v = "Some ''v1''" and u = "Some sample_admin" and f = 5
      and n = "''Review it''" and db = sample_unpublished]
  have f: "\<forall>k\<in>set (change_sets ?db2). ch_id k = ''c1'' \<longrightarrow> ch_status k = ''published''" unfolding pub by (simp add: sample_change_def)
  from change_set_life [OF e r1 r2 d(1)] obtain c' where c': "c' \<in> set (change_sets ?db2)" "ch_id c' = ''c1''"
    and h: "ch_status c' = ''published'' \<and> ch_status sample_detected \<noteq> ''published'' \<longrightarrow>
        (\<exists>db a. fresh_step\<^sup>*\<^sup>* ?db1 db \<and> fresh_step\<^sup>*\<^sup>* db ?db2 \<and> a \<in> set (change_sets db) \<and> ch_id a = ch_id sample_detected \<and>
           ch_status a = ''approved'' \<and> ch_reviewed_by a \<noteq> None \<and> ch_proposed_version a = ch_proposed_version c')"
    unfolding d(2) by blast
  have s: "ch_status c' = ''published''" using f c' by blast
  with h d(3) obtain db a where "fresh_step\<^sup>*\<^sup>* ?db1 db" "a \<in> set (change_sets db)" "ch_id a = ''c1''" "ch_status a = ''approved''" "ch_reviewed_by a \<noteq> None"
    unfolding d(2) by auto
  then show ?thesis using c' s by blast
qed


end
