(* ===== verification/GradingTables.thy ===== *)
theory GradingTables
  imports CurriculumWorkflow Bands
begin

text \<open>
  The grading rows of src/app/grading/models.py that assessments, submissions, corrections and
  schemas are made of, with the validation that runs when one is saved, and the binding of an
  assessment to the curriculum (curriculum_binding.py, assessment_lifecycle.py).
  A decimal column keeps two places: a value is rounded when it is stored.
\<close>

section \<open>Decimal columns\<close>

text \<open>\<open>DecimalField(max_digits=m, decimal_places=p)\<close>: finite, and the digit rules of \<open>DecimalValidator\<close>.\<close>

definition decimal_field :: "int \<Rightarrow> int \<Rightarrow> decimal \<Rightarrow> bool" where
  "decimal_field m p d = (case d of
       Fin s c e \<Rightarrow>
         (let len = int (ndigits c);
              decimals = (if 0 \<le> e then 0 else - e);
              digits = (if 0 \<le> e then (if c = 0 then len else len + e) else max len (- e))
          in digits \<le> m \<and> decimals \<le> p \<and> digits - decimals \<le> m - p)
     | _ \<Rightarrow> False)"

text \<open>What a \<open>NUMERIC(_, 2)\<close> column gives back for a finite value.\<close>

definition stored_2 :: "decimal \<Rightarrow> decimal" where
  "stored_2 d = (case d of
       Fin s c e \<Rightarrow> Fin s (if -2 \<le> e then c * 10 ^ nat (e + 2) else half_up c (nat (- 2 - e))) (-2)
     | _ \<Rightarrow> d)"

definition dec_at_least :: "decimal \<Rightarrow> decimal \<Rightarrow> bool" where
  "dec_at_least a b \<longleftrightarrow> dec_le b a = Inr True"

text \<open>A \<open>JSONField\<close>: a value \<open>json.dumps\<close> accepts.\<close>

definition json_field :: "json \<Rightarrow> bool" where
  "json_field v \<longleftrightarrow> is_ok (dumps False v)"

definition is_dict :: "json \<Rightarrow> bool" where
  "is_dict v = (case v of JObj _ \<Rightarrow> True | _ \<Rightarrow> False)"

definition unsafe_markup :: "string \<Rightarrow> bool" where
  "unsafe_markup s \<longleftrightarrow> (\<exists>token\<in>{''<script'', ''<svg'', ''onerror''}. contains token (lower s))"

section \<open>Rows (models.py)\<close>

record assessment =
  as_id :: uuid
  as_tenant :: uuid
  as_academic_year :: uuid
  as_term :: uuid
  as_grade_level :: "uuid option"
  as_cohort :: uuid
  as_learning_area :: uuid
  as_version :: "uuid option"
  as_rubric :: "uuid option"
  as_title :: string
  as_type :: string
  as_max_score :: decimal
  as_weight :: decimal
  as_status :: string
  as_opens_at :: "time option"
  as_closes_at :: "time option"
  as_created_by :: "uuid option"
  as_locked_at :: "time option"
  as_schema :: "uuid option"
  as_schema_version :: string
  as_updated_at :: time

record grading_schema =
  gs_id :: uuid
  gs_tenant :: uuid
  gs_name :: string
  gs_assessment_type :: string
  gs_version_label :: string
  gs_status :: string
  gs_requires_full_coverage :: bool
  gs_created_by :: uuid
  gs_activated_by :: "uuid option"
  gs_activated_at :: "time option"
  gs_deprecated_by :: "uuid option"
  gs_deprecated_at :: "time option"

record schema_band =
  sb_tenant :: uuid
  sb_schema :: uuid
  sb_label :: string
  sb_descriptor :: string
  sb_min :: decimal
  sb_max :: decimal
  sb_points :: "decimal option"
  sb_order :: int

record assessment_component = component +
  cm_tenant :: uuid
  cm_assessment :: uuid

record submission_batch =
  bt_id :: uuid
  bt_tenant :: uuid
  bt_assessment :: uuid
  bt_teacher :: uuid
  bt_teacher_assignment :: uuid
  bt_cohort :: uuid
  bt_learning_area :: uuid
  bt_idempotency_key :: string
  bt_payload_hash :: string
  bt_record_count :: int
  bt_status :: string
  bt_submitted_at :: "time option"
  bt_confirmation_method :: string
  bt_confirmation_at :: "time option"
  bt_confirmation_reference :: string

record draft_batch =
  df_id :: uuid
  df_tenant :: uuid
  df_assessment :: uuid
  df_teacher :: uuid
  df_teacher_assignment :: uuid
  df_cohort :: uuid
  df_learning_area :: uuid
  df_idempotency_key :: string
  df_payload_hash :: string
  df_version :: int
  df_status :: string

record draft_row =
  dr_draft_batch :: uuid
  dr_tenant :: uuid
  dr_student :: uuid
  dr_raw_score :: "decimal option"
  dr_component_scores :: json
  dr_remarks :: string
  dr_row_version :: int

record grade_record =
  rec_id :: uuid
  rec_tenant :: uuid
  rec_assessment :: uuid
  rec_submission_batch :: uuid
  rec_student :: uuid
  rec_raw_score :: decimal
  rec_normalized_score :: "decimal option"
  rec_component_scores :: json
  rec_remarks :: string
  rec_schema_version :: string
  rec_band_label :: string
  rec_band_descriptor :: string
  rec_version :: int
  rec_submitted_by :: uuid

record correction =
  cq_id :: uuid
  cq_tenant :: uuid
  cq_grade_record :: uuid
  cq_requested_by :: uuid
  cq_reviewed_by :: "uuid option"
  cq_reason :: string
  cq_reason_code :: string
  cq_old_state_hash :: string
  cq_proposed_raw_score :: "decimal option"
  cq_proposed_components :: json
  cq_proposed_remarks :: string
  cq_review_reason :: string
  cq_escalation_reason :: string
  cq_escalated_by :: "uuid option"
  cq_applied_by :: "uuid option"
  cq_status :: string
  cq_requested_at :: time
  cq_reviewed_at :: "time option"
  cq_escalated_at :: "time option"
  cq_applied_at :: "time option"

record correction_audit =
  ca_id :: uuid
  ca_tenant :: uuid
  ca_correction :: uuid
  ca_grade_record :: uuid
  ca_actor :: uuid
  ca_action :: string
  ca_status_from :: string
  ca_status_to :: string
  ca_reason_code :: string
  ca_reason_summary :: string
  ca_state_before :: string
  ca_state_after :: string
  ca_changed_fields :: "string list"

record compilation_run =
  cr_id :: uuid
  cr_tenant :: uuid
  cr_assessment :: uuid
  cr_requested_by :: "uuid option"
  cr_status :: string
  cr_expected :: int
  cr_submitted :: int
  cr_missing :: int
  cr_source_batch_ids :: "string list"
  cr_error_summary :: string
  cr_compiled_at :: "time option"
  cr_created_at :: time

record grading_db = curriculum_db +
  assessments :: "assessment list"
  schemas :: "grading_schema list"
  schema_bands :: "schema_band list"
  components :: "assessment_component list"
  submission_batches :: "submission_batch list"
  draft_batches :: "draft_batch list"
  draft_rows :: "draft_row list"
  grade_records :: "grade_record list"
  corrections :: "correction list"
  correction_audits :: "correction_audit list"
  compilation_runs :: "compilation_run list"

definition assessment_row :: "'a grading_db_scheme \<Rightarrow> uuid \<Rightarrow> assessment option" where
  "assessment_row db i = first_where (\<lambda>r. as_id r = i) (assessments db)"

definition schema_row :: "'a grading_db_scheme \<Rightarrow> uuid \<Rightarrow> grading_schema option" where
  "schema_row db i = first_where (\<lambda>r. gs_id r = i) (schemas db)"

definition batch_row :: "'a grading_db_scheme \<Rightarrow> uuid \<Rightarrow> submission_batch option" where
  "batch_row db i = first_where (\<lambda>r. bt_id r = i) (submission_batches db)"

definition grade_record_row :: "'a grading_db_scheme \<Rightarrow> uuid \<Rightarrow> grade_record option" where
  "grade_record_row db i = first_where (\<lambda>r. rec_id r = i) (grade_records db)"

definition correction_row :: "'a grading_db_scheme \<Rightarrow> uuid \<Rightarrow> correction option" where
  "correction_row db i = first_where (\<lambda>r. cq_id r = i) (corrections db)"

definition assignment_row :: "'a academic_db_scheme \<Rightarrow> uuid \<Rightarrow> teacher_assignment option" where
  "assignment_row db i = first_where (\<lambda>r. ta_id r = i) (assignments db)"

section \<open>The binding to the curriculum (curriculum_binding.py, assessment_lifecycle.py)\<close>

definition OPERATIONAL_STATUSES :: "string list" where
  "OPERATIONAL_STATUSES = [''open'', ''locked'', ''submitted'', ''approved'', ''archived'']"

definition assessment_status_requires_binding :: "string \<Rightarrow> bool" where
  "assessment_status_requires_binding status =
     (if status = ''draft'' then False else status \<in> set OPERATIONAL_STATUSES \<or> status \<notin> {''draft''})"

record binding_result =
  bn_is_bound :: bool
  bn_reason :: string

definition validate_curriculum_binding ::
  "string \<Rightarrow> uuid option \<Rightarrow> uuid option \<Rightarrow> uuid option \<Rightarrow> bool \<Rightarrow> bool \<Rightarrow> bool \<Rightarrow> bool \<Rightarrow> bool \<Rightarrow> binding_result" where
  "validate_curriculum_binding status version_id area_id rubric_id version_is_active publication_is_active
       rubric_matches_context require_locked_binding binding_locked =
     (if \<not> assessment_status_requires_binding status then \<lparr>bn_is_bound = True, bn_reason = []\<rparr>
      else if version_id = None then \<lparr>bn_is_bound = False, bn_reason = ''curriculum_version_required''\<rparr>
      else if area_id = None then \<lparr>bn_is_bound = False, bn_reason = ''learning_area_required''\<rparr>
      else if rubric_id = None then \<lparr>bn_is_bound = False, bn_reason = ''rubric_foundation_required''\<rparr>
      else if \<not> version_is_active then \<lparr>bn_is_bound = False, bn_reason = ''curriculum_version_inactive''\<rparr>
      else if \<not> publication_is_active then \<lparr>bn_is_bound = False, bn_reason = ''curriculum_version_unpublished''\<rparr>
      else if \<not> rubric_matches_context then \<lparr>bn_is_bound = False, bn_reason = ''rubric_context_mismatch''\<rparr>
      else if require_locked_binding \<and> \<not> binding_locked
      then \<lparr>bn_is_bound = False, bn_reason = ''curriculum_binding_unlocked''\<rparr>
      else \<lparr>bn_is_bound = True, bn_reason = []\<rparr>)"

text \<open>Unlike the curriculum's own check, the curriculum area need not be active.\<close>

definition rubric_matches_assessment_context :: "'a curriculum_db_scheme \<Rightarrow> assessment \<Rightarrow> bool" where
  "rubric_matches_assessment_context db a =
     (case (as_rubric a, as_version a) of
        (Some rid, Some v) \<Rightarrow>
          (case rubric_row db rid of None \<Rightarrow> False | Some r \<Rightarrow>
            if \<not> rf_is_active r then False
            else case Option.bind (rubric_sub_strand db r) (sub_strand_area db) of
              None \<Rightarrow> False
            | Some cl \<Rightarrow> cl_version cl = v \<and> cl_learning_area cl = as_learning_area a)
      | _ \<Rightarrow> False)"

definition is_operationally_bound :: "'a curriculum_db_scheme \<Rightarrow> assessment \<Rightarrow> bool" where
  "is_operationally_bound db a =
     (if \<not> assessment_status_requires_binding (as_status a) then False
      else bn_is_bound (validate_curriculum_binding (as_status a) (as_version a) (Some (as_learning_area a))
        (as_rubric a) True True (rubric_matches_assessment_context db a) True (as_locked_at a \<noteq> None)))"

definition CURRICULUM_CONTEXT_FIELDS :: "string list" where
  "CURRICULUM_CONTEXT_FIELDS = [''curriculum_version'', ''learning_area'', ''rubric_foundation'']"

definition changed_curriculum_context_fields ::
  "(string \<Rightarrow> uuid option) \<Rightarrow> (string \<Rightarrow> uuid option) \<Rightarrow> string list" where
  "changed_curriculum_context_fields old_values new_values =
     filter (\<lambda>f. old_values f \<noteq> new_values f) CURRICULUM_CONTEXT_FIELDS"

definition curriculum_context_mutation_allowed :: "string list \<Rightarrow> bool \<Rightarrow> bool \<Rightarrow> bool" where
  "curriculum_context_mutation_allowed changed_fields has_submitted_batches has_grade_records =
     (let changed = filter (\<lambda>f. f \<in> set CURRICULUM_CONTEXT_FIELDS) changed_fields in
      if changed = [] then True else \<not> (has_submitted_batches \<or> has_grade_records))"

definition context_values :: "assessment \<Rightarrow> string \<Rightarrow> uuid option" where
  "context_values a f =
     (if f = ''curriculum_version'' then as_version a
      else if f = ''learning_area'' then Some (as_learning_area a)
      else if f = ''rubric_foundation'' then as_rubric a else None)"

text \<open>The stored row with the same key, when there is one, against the row to save.\<close>

definition curriculum_context_changed_fields :: "'a grading_db_scheme \<Rightarrow> assessment \<Rightarrow> string list" where
  "curriculum_context_changed_fields db a =
     (case assessment_row db (as_id a) of None \<Rightarrow> []
      | Some original \<Rightarrow> changed_curriculum_context_fields (context_values original) (context_values a))"

definition has_active_curriculum_publication :: "'a curriculum_db_scheme \<Rightarrow> assessment \<Rightarrow> bool" where
  "has_active_curriculum_publication db a =
     (if as_version a = None then False
      else is_ok (validate_curriculum_context_for_grading_binding db (Some (as_tenant a)) (as_version a)
        (Some (as_learning_area a)) (Option.bind (as_rubric a) (rubric_row db))))"

definition validate_curriculum_binding_for_status :: "'a grading_db_scheme \<Rightarrow> assessment \<Rightarrow> unit result" where
  "validate_curriculum_binding_for_status db a =
     (if \<not> assessment_status_requires_binding (as_status a) then Inr ()
      else let preserved_historical_context = as_locked_at a \<noteq> None \<and> curriculum_context_changed_fields db a = [];
               result = validate_curriculum_binding (as_status a) (as_version a) (Some (as_learning_area a)) (as_rubric a)
                 (case Option.bind (as_version a) (version_row db) of None \<Rightarrow> False | Some v \<Rightarrow> cv_is_active v)
                 (if preserved_historical_context then True else has_active_curriculum_publication db a)
                 (rubric_matches_assessment_context db a) False False
           in if bn_is_bound result then Inr ()
              else Inl (ValidationError ''curriculum_version'' ''Assessment curriculum binding is invalid.''))"

definition validate_curriculum_context_immutability :: "'a grading_db_scheme \<Rightarrow> assessment \<Rightarrow> unit result" where
  "validate_curriculum_context_immutability db a =
     (let changed_fields = curriculum_context_changed_fields db a;
          has_submitted_batches = (\<exists>b\<in>set (submission_batches db). bt_assessment b = as_id a \<and> bt_status b \<noteq> ''draft'');
          has_grade_records = (\<exists>r\<in>set (grade_records db). rec_assessment r = as_id a)
      in if changed_fields = [] then Inr ()
         else if \<not> curriculum_context_mutation_allowed changed_fields has_submitted_batches has_grade_records
         then Inl (ValidationError ''curriculum_version''
           ''Assessment curriculum context cannot be changed after grading begins.'')
         else Inr ())"

section \<open>Saving assessments\<close>

definition ASSESSMENT_TYPES :: "string list" where
  "ASSESSMENT_TYPES = INTERNAL_ASSESSMENT_TYPES @ [''cbe_rubric_assessment'']"

definition assessment_schema_check :: "'a grading_db_scheme \<Rightarrow> assessment \<Rightarrow> unit result" where
  "assessment_schema_check db a =
     (case as_schema a of None \<Rightarrow> Inr () | Some sid \<Rightarrow>
        case schema_row db sid of None \<Rightarrow> Inl (field_error ''school_grading_schema'') | Some s \<Rightarrow>
          if gs_tenant s \<noteq> as_tenant a
          then Inl (ValidationError ''school_grading_schema'' ''Grading schema tenant is invalid.'')
          else if gs_assessment_type s \<noteq> as_type a
          then Inl (ValidationError ''school_grading_schema'' ''Grading schema type is invalid.'')
          else if gs_status s \<notin> {''active'', ''locked''}
          then Inl (ValidationError ''school_grading_schema'' ''Grading schema is not active.'')
          else if as_type a = ''cbe_rubric_assessment''
          then Inl (ValidationError ''school_grading_schema'' ''School grading schema cannot override CBE rubric context.'')
          else Inr ())"

definition assessment_clean :: "'a grading_db_scheme \<Rightarrow> assessment \<Rightarrow> assessment result" where
  "assessment_clean db a =
     (let a = a\<lparr>as_title := strip (as_title a)\<rparr>;
          related = [map_option ay_tenant (year_row db (as_academic_year a)),
                     map_option te_tenant (term_row db (as_term a)),
                     map_option co_tenant (cohort_row db (as_cohort a)),
                     map_option la_tenant (learning_area_row db (as_learning_area a))] in
      ebind (validate_score_bounds ''0'' (dec_str (as_max_score a))) (\<lambda>_.
        if \<not> tenants_agree (as_tenant a) related
        then Inl (ValidationError ''tenant'' ''Assessment tenant is invalid.'')
        else if (case as_grade_level a of None \<Rightarrow> False
                 | Some g \<Rightarrow> map_option co_grade_level (cohort_row db (as_cohort a)) \<noteq> Some g)
        then Inl (ValidationError ''grade_level'' ''Assessment grade is invalid.'')
        else if (case (as_opens_at a, as_closes_at a) of (Some o_at, Some c_at) \<Rightarrow> c_at \<le> o_at | _ \<Rightarrow> False)
        then Inl (ValidationError ''closes_at'' ''Close time must follow open time.'')
        else ebind (assessment_schema_check db a) (\<lambda>_.
          ebind (validate_curriculum_binding_for_status db a) (\<lambda>_.
            ebind (validate_curriculum_context_immutability db a) (\<lambda>_. Inr a)))))"

definition assessment_full_clean :: "'a grading_db_scheme \<Rightarrow> assessment \<Rightarrow> assessment result" where
  "assessment_full_clean db a =
     (if \<not> (school_exists db (as_tenant a) \<and> year_row db (as_academic_year a) \<noteq> None \<and> term_row db (as_term a) \<noteq> None
            \<and> opt_fk (\<lambda>g. grade_level_row db g \<noteq> None) (as_grade_level a) \<and> cohort_row db (as_cohort a) \<noteq> None
            \<and> learning_area_row db (as_learning_area a) \<noteq> None \<and> opt_fk (version_exists db) (as_version a)
            \<and> opt_fk (\<lambda>r. rubric_row db r \<noteq> None) (as_rubric a) \<and> char_field 150 (as_title a)
            \<and> as_type a \<in> set ASSESSMENT_TYPES \<and> decimal_field 7 2 (as_max_score a)
            \<and> decimal_field 5 2 (as_weight a) \<and> dec_at_least (as_weight a) dec_0
            \<and> as_status a \<in> set (''draft'' # OPERATIONAL_STATUSES) \<and> opt_fk (user_exists db) (as_created_by a)
            \<and> opt_fk (\<lambda>s. schema_row db s \<noteq> None) (as_schema a) \<and> length (as_schema_version a) \<le> 48)
      then Inl (field_error ''title'')
      else ebind (assessment_clean db a) (\<lambda>a.
        if \<not> (dec_less dec_0 (as_max_score a) = Inr True \<and> dec_at_least dec_100 (as_weight a))
        then Inl (ValidationError ''__all__'' ''Constraint is violated.'') else Inr a))"

definition put_assessment :: "assessment \<Rightarrow> 'a grading_db_scheme \<Rightarrow> 'a grading_db_scheme" where
  "put_assessment a db = db\<lparr>assessments := update_where (\<lambda>q. as_id q = as_id a) (\<lambda>_. a) (assessments db)\<rparr>"

text \<open>\<open>save\<close> stamps the binding once the status needs one, and the update time.\<close>

definition assessment_save :: "time \<Rightarrow> assessment \<Rightarrow> ('a grading_db_scheme, assessment) action" where
  "assessment_save now a db =
     (case assessment_full_clean db a of
        Inl e \<Rightarrow> (Inl e, db)
      | Inr a \<Rightarrow>
          (let a = (if assessment_status_requires_binding (as_status a) \<and> as_locked_at a = None
                    then a\<lparr>as_locked_at := Some now\<rparr> else a)\<lparr>as_updated_at := now\<rparr>
           in (Inr a, put_assessment a db)))"

section \<open>Saving schemas and bands\<close>

definition schema_clean :: "grading_schema \<Rightarrow> grading_schema result" where
  "schema_clean s =
     (let s = s\<lparr>gs_name := strip (gs_name s), gs_version_label := strip (gs_version_label s)\<rparr> in
      if gs_name s = [] then Inl (ValidationError ''name'' ''Schema name is required.'')
      else if gs_version_label s = [] then Inl (ValidationError ''version_label'' ''Schema version is required.'')
      else if unsafe_markup (gs_name s) then Inl (ValidationError ''name'' ''Schema name is unsafe.'')
      else if gs_status s \<in> {''active'', ''locked''} \<and> (gs_activated_by s = None \<or> gs_activated_at s = None)
      then Inl (ValidationError ''activated_at'' ''Active schema requires activation audit.'')
      else Inr s)"

definition schema_full_clean :: "'a grading_db_scheme \<Rightarrow> grading_schema \<Rightarrow> grading_schema result" where
  "schema_full_clean db s =
     (if \<not> (school_exists db (gs_tenant s) \<and> char_field 120 (gs_name s) \<and> gs_assessment_type s \<in> set ASSESSMENT_TYPES
            \<and> char_field 48 (gs_version_label s) \<and> gs_status s \<in> {''draft'', ''active'', ''deprecated'', ''retired'', ''locked''}
            \<and> user_exists db (gs_created_by s) \<and> opt_fk (user_exists db) (gs_activated_by s)
            \<and> opt_fk (user_exists db) (gs_deprecated_by s))
      then Inl (field_error ''name'')
      else ebind (schema_clean s) (\<lambda>s.
        if \<exists>q\<in>set (schemas db). gs_id q \<noteq> gs_id s \<and> gs_tenant q = gs_tenant s
             \<and> gs_assessment_type q = gs_assessment_type s \<and> gs_version_label q = gs_version_label s
        then Inl (ValidationError ''__all__'' ''Already exists.'') else Inr s))"

definition put_schema :: "grading_schema \<Rightarrow> 'a grading_db_scheme \<Rightarrow> 'a grading_db_scheme" where
  "put_schema s db = db\<lparr>schemas := update_where (\<lambda>q. gs_id q = gs_id s) (\<lambda>_. s) (schemas db)\<rparr>"

definition add_schema :: "grading_schema \<Rightarrow> 'a grading_db_scheme \<Rightarrow> 'a grading_db_scheme" where
  "add_schema s db = db\<lparr>schemas := schemas db @ [s]\<rparr>"

text \<open>\<open>save\<close> runs \<open>full_clean\<close> once; \<open>insert_row\<close> is the insert or the update.\<close>

definition save_row :: "('db \<Rightarrow> 'r \<Rightarrow> 'r result) \<Rightarrow> ('r \<Rightarrow> 'db \<Rightarrow> 'db) \<Rightarrow> 'r \<Rightarrow> ('db, 'r) action" where
  "save_row full_clean insert_row r db =
     (case full_clean db r of Inl e \<Rightarrow> (Inl e, db) | Inr r' \<Rightarrow> (Inr r', insert_row r' db))"

section \<open>Saving submissions and drafts\<close>

text \<open>The checks a submission and a draft share on their tenant, assessment and teacher assignment.\<close>

definition batch_context_check ::
  "string \<Rightarrow> 'a grading_db_scheme \<Rightarrow> uuid \<Rightarrow> uuid \<Rightarrow> uuid \<Rightarrow> uuid \<Rightarrow> uuid \<Rightarrow> uuid \<Rightarrow> unit result" where
  "batch_context_check what db tenant assessment_id teacher assignment_id cohort_id area_id =
     (case (assessment_row db assessment_id, assignment_row db assignment_id) of
        (Some a, Some ta) \<Rightarrow>
          if \<not> tenants_agree tenant [Some (as_tenant a), Some (ta_tenant ta),
               map_option co_tenant (cohort_row db cohort_id), map_option la_tenant (learning_area_row db area_id)]
          then Inl (ValidationError ''tenant'' (what @ '' tenant is invalid.''))
          else if as_cohort a \<noteq> cohort_id then Inl (ValidationError ''cohort'' (what @ '' cohort is invalid.''))
          else if as_learning_area a \<noteq> area_id then Inl (ValidationError ''learning_area'' (what @ '' area is invalid.''))
          else if ta_teacher ta \<noteq> teacher then Inl (ValidationError ''teacher'' (what @ '' teacher is invalid.''))
          else if ta_cohort ta \<noteq> cohort_id then Inl (ValidationError ''cohort'' ''Teacher assignment is invalid.'')
          else if ta_learning_area ta \<noteq> area_id then Inl (ValidationError ''learning_area'' ''Teacher assignment is invalid.'')
          else if \<not> ta_is_active ta then Inl (ValidationError ''teacher_assignment'' ''Teacher assignment is inactive.'')
          else Inr ()
      | _ \<Rightarrow> Inl (field_error ''assessment''))"

definition batch_clean :: "'a grading_db_scheme \<Rightarrow> submission_batch \<Rightarrow> unit result" where
  "batch_clean db b =
     ebind (batch_context_check ''Grade batch'' db (bt_tenant b) (bt_assessment b) (bt_teacher b) (bt_teacher_assignment b)
         (bt_cohort b) (bt_learning_area b)) (\<lambda>_.
       if bt_status b = ''draft'' then Inr ()
       else if strip (bt_idempotency_key b) = []
       then Inl (ValidationError ''idempotency_key'' ''Idempotency key is required.'')
       else if strip (bt_payload_hash b) = [] then Inl (ValidationError ''payload_hash'' ''Payload hash is required.'')
       else if (case assessment_row db (bt_assessment b) of None \<Rightarrow> True | Some a \<Rightarrow> \<not> is_operationally_bound db a)
       then Inl (ValidationError ''assessment'' ''Assessment is not open for CBE-bound grading.'')
       else if strip (bt_confirmation_method b) = []
       then Inl (ValidationError ''confirmation_method'' ''Confirmation method is required.'')
       else if bt_confirmation_at b = None
       then Inl (ValidationError ''confirmation_at'' ''Confirmation time is required.'')
       else if strip (bt_confirmation_reference b) = []
       then Inl (ValidationError ''confirmation_reference'' ''Confirmation reference is required.'')
       else Inr ())"

definition submitted_statuses :: "string list" where
  "submitted_statuses = [''submitted'', ''validated'', ''compiled'']"

definition batch_clash :: "submission_batch \<Rightarrow> submission_batch \<Rightarrow> bool" where
  "batch_clash q b \<longleftrightarrow> bt_id q \<noteq> bt_id b \<and> bt_tenant q = bt_tenant b \<and>
     ((bt_assessment q = bt_assessment b \<and> bt_teacher q = bt_teacher b \<and> bt_teacher_assignment q = bt_teacher_assignment b
       \<and> bt_status q \<in> set submitted_statuses \<and> bt_status b \<in> set submitted_statuses) \<or>
      (bt_idempotency_key q = bt_idempotency_key b \<and> bt_idempotency_key b \<noteq> []))"

definition batch_full_clean :: "'a grading_db_scheme \<Rightarrow> submission_batch \<Rightarrow> submission_batch result" where
  "batch_full_clean db b =
     (if \<not> (school_exists db (bt_tenant b) \<and> user_exists db (bt_teacher b) \<and> cohort_row db (bt_cohort b) \<noteq> None
            \<and> learning_area_row db (bt_learning_area b) \<noteq> None \<and> length (bt_idempotency_key b) \<le> 180
            \<and> length (bt_payload_hash b) \<le> 96 \<and> positive_integer_field (bt_record_count b)
            \<and> bt_status b \<in> set (submitted_statuses @ [''draft'', ''rejected'', ''failed'', ''superseded''])
            \<and> length (bt_confirmation_method b) \<le> 32 \<and> length (bt_confirmation_reference b) \<le> 128)
      then Inl (field_error ''idempotency_key'')
      else ebind (batch_clean db b) (\<lambda>_.
        if \<exists>q\<in>set (submission_batches db). batch_clash q b
        then Inl (ValidationError ''__all__'' ''Already exists.'') else Inr b))"

definition add_batch :: "submission_batch \<Rightarrow> 'a grading_db_scheme \<Rightarrow> 'a grading_db_scheme" where
  "add_batch b db = db\<lparr>submission_batches := submission_batches db @ [b]\<rparr>"

definition draft_clash :: "draft_batch \<Rightarrow> draft_batch \<Rightarrow> bool" where
  "draft_clash q d \<longleftrightarrow> df_id q \<noteq> df_id d \<and> df_tenant q = df_tenant d \<and>
     ((df_assessment q = df_assessment d \<and> df_teacher q = df_teacher d \<and> df_status q = ''draft'' \<and> df_status d = ''draft'') \<or>
      (df_idempotency_key q = df_idempotency_key d \<and> df_idempotency_key d \<noteq> []))"

definition draft_full_clean :: "'a grading_db_scheme \<Rightarrow> draft_batch \<Rightarrow> draft_batch result" where
  "draft_full_clean db d =
     (if \<not> (school_exists db (df_tenant d) \<and> user_exists db (df_teacher d) \<and> cohort_row db (df_cohort d) \<noteq> None
            \<and> learning_area_row db (df_learning_area d) \<noteq> None \<and> length (df_idempotency_key d) \<le> 180
            \<and> length (df_payload_hash d) \<le> 96 \<and> positive_integer_field (df_version d)
            \<and> df_status d \<in> {''draft'', ''submitted'', ''discarded''})
      then Inl (field_error ''idempotency_key'')
      else ebind (batch_context_check ''Grade draft'' db (df_tenant d) (df_assessment d) (df_teacher d) (df_teacher_assignment d)
          (df_cohort d) (df_learning_area d)) (\<lambda>_.
        if df_version d < 1 then Inl (ValidationError ''version'' ''Draft version is invalid.'')
        else if \<exists>q\<in>set (draft_batches db). draft_clash q d
        then Inl (ValidationError ''__all__'' ''Already exists.'') else Inr d))"

definition add_draft :: "draft_batch \<Rightarrow> 'a grading_db_scheme \<Rightarrow> 'a grading_db_scheme" where
  "add_draft d db = db\<lparr>draft_batches := draft_batches db @ [d]\<rparr>"

definition put_draft :: "draft_batch \<Rightarrow> 'a grading_db_scheme \<Rightarrow> 'a grading_db_scheme" where
  "put_draft d db = db\<lparr>draft_batches := update_where (\<lambda>q. df_id q = df_id d) (\<lambda>_. d) (draft_batches db)\<rparr>"

end
