(* ===== verification/GradingPolicies.thy ===== *)
theory GradingPolicies
  imports GradingTables AcademicFacts
begin

text \<open>
  Who may read, enter, correct and release grades: grading/policies.py. Every policy is a
  fail-closed check on a context (tenant, actor, action, role) and the resource asked for.
\<close>

section \<open>Roles\<close>

definition GRADING_ADMIN_ROLES :: "string list" where
  "GRADING_ADMIN_ROLES = [''principal'', ''school_admin'', ''hod'']"

definition GRADING_EXECUTIVE_ROLES :: "string list" where
  "GRADING_EXECUTIVE_ROLES = [''principal'', ''school_admin'', ''deputy_principal'']"

definition GRADING_ACADEMIC_HEAD_ROLES :: "string list" where
  "GRADING_ACADEMIC_HEAD_ROLES = [''deputy_principal'', ''school_admin'']"

definition GRADING_TEACHER_ROLES :: "string list" where
  "GRADING_TEACHER_ROLES = [''subject_teacher'', ''class_teacher'', ''hod'']"

definition is_grading_admin :: "'a identity_db_scheme \<Rightarrow> policy_context \<Rightarrow> bool" where
  "is_grading_admin db ctx \<longleftrightarrow> context_is_valid db ctx \<and> role_in ctx GRADING_ADMIN_ROLES"

section \<open>Assignments\<close>

text \<open>An active assignment of the actor to the assessment's cohort, area, year and term.\<close>

definition assigned_to :: "'a academic_db_scheme \<Rightarrow> uuid \<Rightarrow> uuid \<Rightarrow> assessment \<Rightarrow> teacher_assignment \<Rightarrow> bool" where
  "assigned_to db tenant teacher a ta \<longleftrightarrow>
     ta_tenant ta = tenant \<and> ta_teacher ta = teacher \<and> ta_cohort ta = as_cohort a
     \<and> ta_learning_area ta = as_learning_area a \<and> ta_academic_year ta = as_academic_year a \<and> ta_term ta = as_term a
     \<and> ta_is_active ta \<and> cohort_active db (ta_cohort ta) \<and> learning_area_active db (ta_learning_area ta)"

definition has_assignment_for_assessment :: "'a academic_db_scheme \<Rightarrow> policy_context \<Rightarrow> assessment \<Rightarrow> bool" where
  "has_assignment_for_assessment db ctx a =
     (if \<not> context_is_valid db ctx \<or> \<not> role_in ctx GRADING_TEACHER_ROLES then False
      else if \<not> resource_in_tenant ctx (as_tenant a) then False
      else case (ctx_tenant ctx, ctx_actor ctx) of
        (Some t, Some u) \<Rightarrow> \<exists>ta\<in>set (assignments db). assigned_to db (sc_id t) (us_id u) a ta
      | _ \<Rightarrow> False)"

definition actor_is :: "policy_context \<Rightarrow> uuid \<Rightarrow> bool" where
  "actor_is ctx uid \<longleftrightarrow> map_option us_id (ctx_actor ctx) = Some uid"

section \<open>Assessments and records\<close>

definition can_view_grading_context :: "'a academic_db_scheme \<Rightarrow> policy_context \<Rightarrow> assessment \<Rightarrow> bool" where
  "can_view_grading_context db ctx a =
     (if \<not> resource_in_tenant ctx (as_tenant a) then False
      else is_grading_admin db ctx \<or> has_assignment_for_assessment db ctx a)"

definition can_view_assessment :: "'a academic_db_scheme \<Rightarrow> policy_context \<Rightarrow> assessment \<Rightarrow> bool" where
  "can_view_assessment db ctx a \<longleftrightarrow>
     ctx_action ctx = ''grading.assessment.view'' \<and> can_view_grading_context db ctx a"

definition can_enter_grades :: "'a curriculum_db_scheme \<Rightarrow> policy_context \<Rightarrow> assessment \<Rightarrow> bool" where
  "can_enter_grades db ctx a =
     (if ctx_action ctx \<noteq> ''grading.grades.enter'' then False
      else if as_status a \<noteq> ''open'' then False
      else if \<not> is_operationally_bound db a then False
      else has_assignment_for_assessment db ctx a)"

definition can_submit_grade_batch :: "'a curriculum_db_scheme \<Rightarrow> policy_context \<Rightarrow> assessment \<Rightarrow> bool" where
  "can_submit_grade_batch db ctx a \<longleftrightarrow>
     ctx_action ctx = ''grading.batch.submit'' \<and> can_enter_grades db (ctx\<lparr>ctx_action := ''grading.grades.enter''\<rparr>) a"

text \<open>A record is given with its assessment.\<close>

definition can_view_grade_records ::
  "'a academic_db_scheme \<Rightarrow> policy_context \<Rightarrow> grade_record \<Rightarrow> assessment \<Rightarrow> bool" where
  "can_view_grade_records db ctx r a =
     (if ctx_action ctx \<noteq> ''grading.records.view'' then False
      else if \<not> resource_in_tenant ctx (rec_tenant r) then False
      else is_grading_admin db ctx \<or> has_assignment_for_assessment db ctx a)"

definition can_request_grade_correction ::
  "'a academic_db_scheme \<Rightarrow> policy_context \<Rightarrow> grade_record \<Rightarrow> assessment \<Rightarrow> bool" where
  "can_request_grade_correction db ctx r a =
     (if ctx_action ctx \<noteq> ''grading.correction.request'' then False
      else can_view_grade_records db (ctx\<lparr>ctx_action := ''grading.records.view''\<rparr>) r a)"

section \<open>Corrections\<close>

definition can_review_grade_correction :: "'a academic_db_scheme \<Rightarrow> policy_context \<Rightarrow> correction \<Rightarrow> bool" where
  "can_review_grade_correction db ctx c =
     (if ctx_action ctx \<noteq> ''grading.correction.review'' then False
      else if \<not> resource_in_tenant ctx (cq_tenant c) then False
      else if actor_is ctx (cq_requested_by c) then False
      else is_grading_admin db ctx)"

definition can_submit_correction_request ::
  "'a academic_db_scheme \<Rightarrow> policy_context \<Rightarrow> grade_record \<Rightarrow> assessment \<Rightarrow> bool" where
  "can_submit_correction_request db ctx r a =
     (if ctx_action ctx \<noteq> ''grading.correction.submit'' then False
      else can_request_grade_correction db (ctx\<lparr>ctx_action := ''grading.correction.request''\<rparr>) r a)"

definition can_review_hod_correction ::
  "'a academic_db_scheme \<Rightarrow> policy_context \<Rightarrow> correction \<Rightarrow> assessment \<Rightarrow> bool" where
  "can_review_hod_correction db ctx c a =
     (if ctx_action ctx \<noteq> ''grading.correction.hod.review'' then False
      else if \<not> context_is_valid db ctx then False
      else if \<not> role_in ctx [''hod''] then False
      else if \<not> resource_in_tenant ctx (cq_tenant c) then False
      else if actor_is ctx (cq_requested_by c) then False
      else has_assignment_for_assessment db ctx a)"

definition can_escalate_correction :: "'a academic_db_scheme \<Rightarrow> policy_context \<Rightarrow> correction \<Rightarrow> bool" where
  "can_escalate_correction db ctx c =
     (if ctx_action ctx \<noteq> ''grading.correction.escalate'' then False
      else if \<not> context_is_valid db ctx \<or> \<not> resource_in_tenant ctx (cq_tenant c) then False
      else role_in ctx GRADING_ACADEMIC_HEAD_ROLES)"

definition can_review_academic_head_correction :: "'a academic_db_scheme \<Rightarrow> policy_context \<Rightarrow> correction \<Rightarrow> bool" where
  "can_review_academic_head_correction db ctx c =
     (if ctx_action ctx \<noteq> ''grading.correction.academic_head.review'' then False
      else if \<not> context_is_valid db ctx \<or> \<not> resource_in_tenant ctx (cq_tenant c) then False
      else if actor_is ctx (cq_requested_by c) then False
      else role_in ctx GRADING_ACADEMIC_HEAD_ROLES)"

definition can_apply_correction ::
  "'a academic_db_scheme \<Rightarrow> policy_context \<Rightarrow> correction \<Rightarrow> assessment \<Rightarrow> bool" where
  "can_apply_correction db ctx c a =
     (if ctx_action ctx \<noteq> ''grading.correction.apply'' then False
      else if \<not> context_is_valid db ctx \<or> \<not> resource_in_tenant ctx (cq_tenant c) then False
      else if actor_is ctx (cq_requested_by c) then False
      else if role_in ctx [''hod''] then has_assignment_for_assessment db ctx a
      else role_in ctx GRADING_ACADEMIC_HEAD_ROLES)"

definition can_view_correction_audit ::
  "'a academic_db_scheme \<Rightarrow> policy_context \<Rightarrow> correction \<Rightarrow> assessment \<Rightarrow> bool" where
  "can_view_correction_audit db ctx c a =
     (if ctx_action ctx \<noteq> ''grading.correction.audit.view'' then False
      else if \<not> resource_in_tenant ctx (cq_tenant c) then False
      else if \<not> context_is_valid db ctx then False
      else if role_in ctx GRADING_EXECUTIVE_ROLES then True
      else if role_in ctx [''hod''] then has_assignment_for_assessment db ctx a
      else actor_is ctx (cq_requested_by c))"

definition can_view_principal_correction_summary :: "'a academic_db_scheme \<Rightarrow> policy_context \<Rightarrow> bool" where
  "can_view_principal_correction_summary db ctx =
     (if ctx_action ctx \<noteq> ''grading.correction.principal.summary.view'' then False
      else if \<not> context_is_valid db ctx then False
      else role_in ctx [''principal'', ''school_admin''])"

section \<open>Schemas\<close>

definition opt_in_tenant :: "policy_context \<Rightarrow> uuid option \<Rightarrow> bool" where
  "opt_in_tenant ctx tenant = (case tenant of None \<Rightarrow> True | Some t \<Rightarrow> resource_in_tenant ctx t)"

definition can_manage_school_grading_schema ::
  "'a academic_db_scheme \<Rightarrow> policy_context \<Rightarrow> string \<Rightarrow> grading_schema option \<Rightarrow> assessment option \<Rightarrow> bool" where
  "can_manage_school_grading_schema db ctx action schema a =
     (if ctx_action ctx \<noteq> action then False
      else if \<not> context_is_valid db ctx then False
      else if \<not> role_in ctx (GRADING_ACADEMIC_HEAD_ROLES @ [''principal'']) then False
      else if \<not> opt_in_tenant ctx (map_option gs_tenant schema) then False
      else if \<not> opt_in_tenant ctx (map_option as_tenant a) then False
      else True)"

section \<open>Compilation\<close>

definition can_view_grade_completion_summary :: "'a curriculum_db_scheme \<Rightarrow> policy_context \<Rightarrow> assessment \<Rightarrow> bool" where
  "can_view_grade_completion_summary db ctx a =
     (if ctx_action ctx \<noteq> ''grading.summary.view'' then False
      else if \<not> resource_in_tenant ctx (as_tenant a) then False
      else if \<not> is_operationally_bound db a then False
      else is_grading_admin db ctx)"

definition can_compile_assessment :: "'a curriculum_db_scheme \<Rightarrow> policy_context \<Rightarrow> assessment \<Rightarrow> bool" where
  "can_compile_assessment db ctx a =
     (if ctx_action ctx \<noteq> ''grading.compilation.compile'' then False
      else if \<not> resource_in_tenant ctx (as_tenant a) then False
      else if \<not> is_operationally_bound db a then False
      else if \<not> context_is_valid db ctx then False
      else if role_in ctx [''principal'', ''school_admin''] then True
      else if role_in ctx [''hod''] then has_assignment_for_assessment db ctx a
      else False)"

definition can_view_teacher_compilation :: "'a academic_db_scheme \<Rightarrow> policy_context \<Rightarrow> assessment \<Rightarrow> bool" where
  "can_view_teacher_compilation db ctx a =
     (if ctx_action ctx \<noteq> ''grading.compilation.teacher.view'' then False else has_assignment_for_assessment db ctx a)"

definition can_view_hod_compilation :: "'a academic_db_scheme \<Rightarrow> policy_context \<Rightarrow> assessment \<Rightarrow> bool" where
  "can_view_hod_compilation db ctx a =
     (if ctx_action ctx \<noteq> ''grading.compilation.hod.view'' then False
      else if \<not> resource_in_tenant ctx (as_tenant a) then False
      else if \<not> context_is_valid db ctx \<or> \<not> role_in ctx [''hod''] then False
      else has_assignment_for_assessment db ctx a)"

definition can_view_deputy_academics_compilation ::
  "'a academic_db_scheme \<Rightarrow> policy_context \<Rightarrow> assessment option \<Rightarrow> bool" where
  "can_view_deputy_academics_compilation db ctx a =
     (if ctx_action ctx \<noteq> ''grading.compilation.deputy.view'' then False
      else if \<not> context_is_valid db ctx then False
      else if \<not> role_in ctx GRADING_EXECUTIVE_ROLES then False
      else opt_in_tenant ctx (map_option as_tenant a))"

definition can_view_principal_compilation ::
  "'a academic_db_scheme \<Rightarrow> policy_context \<Rightarrow> assessment option \<Rightarrow> bool" where
  "can_view_principal_compilation db ctx a =
     (if ctx_action ctx \<noteq> ''grading.compilation.principal.view'' then False
      else if \<not> context_is_valid db ctx then False
      else if \<not> role_in ctx [''principal'', ''school_admin''] then False
      else opt_in_tenant ctx (map_option as_tenant a))"

definition can_view_future_parent_projection :: "policy_context \<Rightarrow> school option \<Rightarrow> bool" where
  "can_view_future_parent_projection ctx tenant =
     (if ctx_action ctx \<noteq> ''grading.compilation.future_parent.view'' then False
      else if map_option sc_id (ctx_tenant ctx) \<noteq> map_option sc_id tenant then False else False)"

section \<open>Readiness and reports\<close>

definition can_compute_readiness :: "'a academic_db_scheme \<Rightarrow> policy_context \<Rightarrow> assessment \<Rightarrow> bool" where
  "can_compute_readiness db ctx a =
     (if ctx_action ctx \<noteq> ''grading.readiness.compute'' then False
      else if \<not> resource_in_tenant ctx (as_tenant a) then False
      else if \<not> context_is_valid db ctx then False
      else if role_in ctx GRADING_EXECUTIVE_ROLES then True
      else if role_in ctx [''hod''] then has_assignment_for_assessment db ctx a
      else False)"

definition can_view_teacher_readiness :: "'a academic_db_scheme \<Rightarrow> policy_context \<Rightarrow> assessment \<Rightarrow> bool" where
  "can_view_teacher_readiness db ctx a =
     (if ctx_action ctx \<noteq> ''grading.readiness.teacher.view'' then False else has_assignment_for_assessment db ctx a)"

definition can_view_hod_readiness :: "'a academic_db_scheme \<Rightarrow> policy_context \<Rightarrow> assessment \<Rightarrow> bool" where
  "can_view_hod_readiness db ctx a =
     (if ctx_action ctx \<noteq> ''grading.readiness.hod.view'' then False
      else if \<not> context_is_valid db ctx \<or> \<not> role_in ctx [''hod''] then False
      else has_assignment_for_assessment db ctx a)"

definition can_view_academic_head_readiness ::
  "'a academic_db_scheme \<Rightarrow> policy_context \<Rightarrow> assessment option \<Rightarrow> bool" where
  "can_view_academic_head_readiness db ctx a =
     (if ctx_action ctx \<noteq> ''grading.readiness.academic_head.view'' then False
      else if \<not> context_is_valid db ctx then False
      else if \<not> role_in ctx GRADING_EXECUTIVE_ROLES then False
      else opt_in_tenant ctx (map_option as_tenant a))"

definition can_view_principal_readiness ::
  "'a academic_db_scheme \<Rightarrow> policy_context \<Rightarrow> assessment option \<Rightarrow> bool" where
  "can_view_principal_readiness db ctx a =
     (if ctx_action ctx \<noteq> ''grading.readiness.principal.view'' then False
      else if \<not> context_is_valid db ctx then False
      else if \<not> role_in ctx [''principal'', ''school_admin''] then False
      else opt_in_tenant ctx (map_option as_tenant a))"

definition can_view_future_parent_readiness :: "policy_context \<Rightarrow> school option \<Rightarrow> bool" where
  "can_view_future_parent_readiness ctx tenant =
     (if ctx_action ctx \<noteq> ''grading.readiness.future_parent.view'' then False
      else if map_option sc_id (ctx_tenant ctx) \<noteq> map_option sc_id tenant then False else False)"

definition can_compute_report_snapshot :: "'a academic_db_scheme \<Rightarrow> policy_context \<Rightarrow> school option \<Rightarrow> bool" where
  "can_compute_report_snapshot db ctx tenant =
     (if ctx_action ctx \<noteq> ''grading.report_snapshot.compute'' then False
      else if map_option sc_id (ctx_tenant ctx) \<noteq> map_option sc_id tenant then False
      else if \<not> context_is_valid db ctx then False
      else role_in ctx GRADING_EXECUTIVE_ROLES)"

text \<open>A snapshot, subject line or run is given by its tenant.\<close>

definition can_view_report_snapshot :: "'a academic_db_scheme \<Rightarrow> policy_context \<Rightarrow> uuid \<Rightarrow> bool" where
  "can_view_report_snapshot db ctx snapshot_tenant =
     (if ctx_action ctx \<noteq> ''grading.report_snapshot.view'' then False
      else if \<not> context_is_valid db ctx \<or> \<not> resource_in_tenant ctx snapshot_tenant then False
      else role_in ctx (GRADING_EXECUTIVE_ROLES @ GRADING_TEACHER_ROLES))"

section \<open>Analytics\<close>

definition can_view_principal_analytics :: "'a academic_db_scheme \<Rightarrow> policy_context \<Rightarrow> bool" where
  "can_view_principal_analytics db ctx =
     (if ctx_action ctx \<noteq> ''grading.analytics.principal.view'' then False
      else if \<not> context_is_valid db ctx then False
      else role_in ctx [''principal'', ''school_admin''])"

definition can_view_deputy_analytics :: "'a academic_db_scheme \<Rightarrow> policy_context \<Rightarrow> bool" where
  "can_view_deputy_analytics db ctx =
     (if ctx_action ctx \<noteq> ''grading.analytics.deputy.view'' then False
      else if \<not> context_is_valid db ctx then False
      else role_in ctx GRADING_EXECUTIVE_ROLES)"

text \<open>An aggregate is given by its learning area, when it has one, its year and its term.\<close>

definition can_view_hod_analytics ::
  "'a academic_db_scheme \<Rightarrow> policy_context \<Rightarrow> assessment option \<Rightarrow> (uuid option \<times> uuid \<times> uuid) option \<Rightarrow> bool" where
  "can_view_hod_analytics db ctx a aggregate =
     (if ctx_action ctx \<noteq> ''grading.analytics.hod.view'' then False
      else if \<not> context_is_valid db ctx \<or> \<not> role_in ctx [''hod''] then False
      else case a of
        Some a \<Rightarrow> has_assignment_for_assessment db ctx a
      | None \<Rightarrow> (case aggregate of
          Some (Some area, year, te) \<Rightarrow>
            \<exists>ta\<in>set (own_assignments db ctx). ta_learning_area ta = area \<and> ta_academic_year ta = year \<and> ta_term ta = te
        | _ \<Rightarrow> False))"

text \<open>A subject line is given by its assessment.\<close>

definition can_view_teacher_analytics :: "'a academic_db_scheme \<Rightarrow> policy_context \<Rightarrow> assessment option \<Rightarrow> bool" where
  "can_view_teacher_analytics db ctx line =
     (if ctx_action ctx \<noteq> ''grading.analytics.teacher.view'' then False
      else if \<not> context_is_valid db ctx then False
      else case line of None \<Rightarrow> role_in ctx GRADING_TEACHER_ROLES
        | Some a \<Rightarrow> has_assignment_for_assessment db ctx a)"

definition can_view_subject_teacher_analytics ::
  "'a academic_db_scheme \<Rightarrow> policy_context \<Rightarrow> assessment option \<Rightarrow> bool" where
  "can_view_subject_teacher_analytics db ctx line =
     (if ctx_action ctx \<noteq> ''grading.analytics.subject_teacher.view'' then False
      else if \<not> context_is_valid db ctx then False
      else if \<not> role_in ctx [''subject_teacher'', ''hod''] then False
      else case line of None \<Rightarrow> True | Some a \<Rightarrow> has_assignment_for_assessment db ctx a)"

text \<open>The target cohort is the snapshot's when a snapshot is given, else the one asked for.\<close>

definition can_view_class_teacher_analytics ::
  "'a academic_db_scheme \<Rightarrow> policy_context \<Rightarrow> uuid option \<Rightarrow> uuid option \<Rightarrow> bool" where
  "can_view_class_teacher_analytics db ctx snapshot_cohort cohort_id =
     (if ctx_action ctx \<noteq> ''grading.analytics.class_teacher.view'' then False
      else if \<not> context_is_valid db ctx then False
      else if \<not> role_in ctx [''class_teacher'', ''hod''] then False
      else case (case snapshot_cohort of Some c \<Rightarrow> Some c | None \<Rightarrow> cohort_id) of
        None \<Rightarrow> False
      | Some c \<Rightarrow> \<exists>ta\<in>set (own_assignments db ctx). ta_cohort ta = c)"

definition can_view_future_parent_snapshot :: "policy_context \<Rightarrow> school option \<Rightarrow> bool" where
  "can_view_future_parent_snapshot ctx tenant =
     (if ctx_action ctx \<noteq> ''grading.analytics.future_parent.view'' then False
      else if map_option sc_id (ctx_tenant ctx) \<noteq> map_option sc_id tenant then False else False)"

end
