(* ===== verification/GradingPolicyFacts.thy ===== *)
theory GradingPolicyFacts
  imports GradingPolicies CurriculumFacts
begin

text \<open>
  The policies of grading as one access-control function over the requests the services make, and
  its specification, a matrix that gives for each request the exact action, roles, assignments,
  schools and states of an assessment it needs; a request is granted if and only if its row is met.
\<close>

section \<open>Requests\<close>

datatype grading_request =
    ViewAssessment assessment
  | EnterGrades assessment
  | SubmitBatch assessment
  | ViewRecords grade_record assessment
  | RequestCorrection grade_record assessment
  | ReviewCorrection correction
  | SubmitCorrection grade_record assessment
  | ReviewAsHod correction assessment
  | Escalate correction
  | ReviewAsHead correction
  | ApplyCorrection correction assessment
  | ViewAudit correction assessment
  | ViewCorrectionSummary
  | ManageSchema string "grading_schema option" "assessment option"
  | ViewCompletion assessment
  | Compile assessment
  | TeacherCompilation assessment
  | HodCompilation assessment
  | DeputyCompilation "assessment option"
  | PrincipalCompilation "assessment option"
  | ParentCompilation "school option"
  | ComputeReadiness assessment
  | TeacherReadiness assessment
  | HodReadiness assessment
  | HeadReadiness "assessment option"
  | PrincipalReadiness "assessment option"
  | ParentReadiness "school option"
  | ComputeReports school
  | ViewReport uuid
  | PrincipalAnalytics
  | DeputyAnalytics
  | HodAnalytics "assessment option" "(uuid option \<times> uuid \<times> uuid) option"
  | TeacherAnalytics "assessment option"
  | SubjectAnalytics "assessment option"
  | ClassAnalytics "uuid option" "uuid option"
  | ParentSnapshot "school option"

fun grading_allowed :: "'a curriculum_db_scheme \<Rightarrow> policy_context \<Rightarrow> grading_request \<Rightarrow> bool" where
  "grading_allowed db ctx (ViewAssessment a) = can_view_assessment db ctx a"
| "grading_allowed db ctx (EnterGrades a) = can_enter_grades db ctx a"
| "grading_allowed db ctx (SubmitBatch a) = can_submit_grade_batch db ctx a"
| "grading_allowed db ctx (ViewRecords r a) = can_view_grade_records db ctx r a"
| "grading_allowed db ctx (RequestCorrection r a) = can_request_grade_correction db ctx r a"
| "grading_allowed db ctx (ReviewCorrection c) = can_review_grade_correction db ctx c"
| "grading_allowed db ctx (SubmitCorrection r a) = can_submit_correction_request db ctx r a"
| "grading_allowed db ctx (ReviewAsHod c a) = can_review_hod_correction db ctx c a"
| "grading_allowed db ctx (Escalate c) = can_escalate_correction db ctx c"
| "grading_allowed db ctx (ReviewAsHead c) = can_review_academic_head_correction db ctx c"
| "grading_allowed db ctx (ApplyCorrection c a) = can_apply_correction db ctx c a"
| "grading_allowed db ctx (ViewAudit c a) = can_view_correction_audit db ctx c a"
| "grading_allowed db ctx ViewCorrectionSummary = can_view_principal_correction_summary db ctx"
| "grading_allowed db ctx (ManageSchema act s a) = can_manage_school_grading_schema db ctx act s a"
| "grading_allowed db ctx (ViewCompletion a) = can_view_grade_completion_summary db ctx a"
| "grading_allowed db ctx (Compile a) = can_compile_assessment db ctx a"
| "grading_allowed db ctx (TeacherCompilation a) = can_view_teacher_compilation db ctx a"
| "grading_allowed db ctx (HodCompilation a) = can_view_hod_compilation db ctx a"
| "grading_allowed db ctx (DeputyCompilation a) = can_view_deputy_academics_compilation db ctx a"
| "grading_allowed db ctx (PrincipalCompilation a) = can_view_principal_compilation db ctx a"
| "grading_allowed db ctx (ParentCompilation t) = can_view_future_parent_projection ctx t"
| "grading_allowed db ctx (ComputeReadiness a) = can_compute_readiness db ctx a"
| "grading_allowed db ctx (TeacherReadiness a) = can_view_teacher_readiness db ctx a"
| "grading_allowed db ctx (HodReadiness a) = can_view_hod_readiness db ctx a"
| "grading_allowed db ctx (HeadReadiness a) = can_view_academic_head_readiness db ctx a"
| "grading_allowed db ctx (PrincipalReadiness a) = can_view_principal_readiness db ctx a"
| "grading_allowed db ctx (ParentReadiness t) = can_view_future_parent_readiness ctx t"
| "grading_allowed db ctx (ComputeReports t) = can_compute_report_snapshot db ctx (Some t)"
| "grading_allowed db ctx (ViewReport t) = can_view_report_snapshot db ctx t"
| "grading_allowed db ctx PrincipalAnalytics = can_view_principal_analytics db ctx"
| "grading_allowed db ctx DeputyAnalytics = can_view_deputy_analytics db ctx"
| "grading_allowed db ctx (HodAnalytics a g) = can_view_hod_analytics db ctx a g"
| "grading_allowed db ctx (TeacherAnalytics l) = can_view_teacher_analytics db ctx l"
| "grading_allowed db ctx (SubjectAnalytics l) = can_view_subject_teacher_analytics db ctx l"
| "grading_allowed db ctx (ClassAnalytics s c) = can_view_class_teacher_analytics db ctx s c"
| "grading_allowed db ctx (ParentSnapshot t) = can_view_future_parent_snapshot ctx t"

section \<open>The access matrix\<close>

text \<open>
  What a request needs, as a row of a table: the exact action, the schools of the rows it names,
  the roles that are granted it outright, the roles that are granted it by an assignment to the
  work it is about, the user it is refused to (a requester may not decide on the own request), the
  user it is open to without such a role (the requester, unless a head of department, reads the
  audit trail), and the assessments that must be open or bound.
\<close>

datatype work =
    NoWork
  | AssessmentWork assessment
  | AreaWork uuid uuid uuid
  | CohortWork uuid

record access_rule =
  ar_action :: string
  ar_schools :: "uuid list"
  ar_roles :: "string list"
  ar_assigned :: "string list"
  ar_work :: work
  ar_refused :: "uuid option"
  ar_owner :: "uuid option"
  ar_open :: "assessment list"
  ar_bound :: "assessment list"

definition access_row :: "string \<Rightarrow> uuid list \<Rightarrow> string list \<Rightarrow> access_rule" where
  "access_row act tenants codes = \<lparr>ar_action = act, ar_schools = tenants, ar_roles = codes, ar_assigned = [], ar_work = NoWork,
     ar_refused = None, ar_owner = None, ar_open = [], ar_bound = []\<rparr>"

definition by_assignment :: "string list \<Rightarrow> assessment \<Rightarrow> access_rule \<Rightarrow> access_rule" where
  "by_assignment codes a r = r\<lparr>ar_assigned := codes, ar_work := AssessmentWork a\<rparr>"

definition opt_schools :: "assessment option \<Rightarrow> uuid list" where
  "opt_schools a = (case a of None \<Rightarrow> [] | Some a \<Rightarrow> [as_tenant a])"

fun rule_of :: "grading_request \<Rightarrow> access_rule" where
  "rule_of (ViewAssessment a) =
     by_assignment GRADING_TEACHER_ROLES a (access_row ''grading.assessment.view'' [as_tenant a] GRADING_ADMIN_ROLES)"
| "rule_of (EnterGrades a) =
     (by_assignment GRADING_TEACHER_ROLES a (access_row ''grading.grades.enter'' [as_tenant a] []))\<lparr>ar_open := [a], ar_bound := [a]\<rparr>"
| "rule_of (SubmitBatch a) =
     (by_assignment GRADING_TEACHER_ROLES a (access_row ''grading.batch.submit'' [as_tenant a] []))\<lparr>ar_open := [a], ar_bound := [a]\<rparr>"
| "rule_of (ViewRecords r a) =
     by_assignment GRADING_TEACHER_ROLES a (access_row ''grading.records.view'' [rec_tenant r] GRADING_ADMIN_ROLES)"
| "rule_of (RequestCorrection r a) =
     by_assignment GRADING_TEACHER_ROLES a (access_row ''grading.correction.request'' [rec_tenant r] GRADING_ADMIN_ROLES)"
| "rule_of (ReviewCorrection c) =
     (access_row ''grading.correction.review'' [cq_tenant c] GRADING_ADMIN_ROLES)\<lparr>ar_refused := Some (cq_requested_by c)\<rparr>"
| "rule_of (SubmitCorrection r a) =
     by_assignment GRADING_TEACHER_ROLES a (access_row ''grading.correction.submit'' [rec_tenant r] GRADING_ADMIN_ROLES)"
| "rule_of (ReviewAsHod c a) =
     (by_assignment [''hod''] a (access_row ''grading.correction.hod.review'' [cq_tenant c] []))\<lparr>ar_refused := Some (cq_requested_by c)\<rparr>"
| "rule_of (Escalate c) = access_row ''grading.correction.escalate'' [cq_tenant c] [''deputy_principal'', ''school_admin'']"
| "rule_of (ReviewAsHead c) =
     (access_row ''grading.correction.academic_head.review'' [cq_tenant c] [''deputy_principal'', ''school_admin''])
       \<lparr>ar_refused := Some (cq_requested_by c)\<rparr>"
| "rule_of (ApplyCorrection c a) =
     (by_assignment [''hod''] a (access_row ''grading.correction.apply'' [cq_tenant c] [''deputy_principal'', ''school_admin'']))
       \<lparr>ar_refused := Some (cq_requested_by c)\<rparr>"
| "rule_of (ViewAudit c a) =
     (by_assignment [''hod''] a (access_row ''grading.correction.audit.view'' [cq_tenant c] GRADING_EXECUTIVE_ROLES))
       \<lparr>ar_owner := Some (cq_requested_by c)\<rparr>"
| "rule_of ViewCorrectionSummary = access_row ''grading.correction.principal.summary.view'' [] [''principal'', ''school_admin'']"
| "rule_of (ManageSchema act s a) =
     access_row act ((case s of None \<Rightarrow> [] | Some s \<Rightarrow> [gs_tenant s]) @ opt_schools a) [''deputy_principal'', ''school_admin'', ''principal'']"
| "rule_of (ViewCompletion a) = (access_row ''grading.summary.view'' [as_tenant a] GRADING_ADMIN_ROLES)\<lparr>ar_bound := [a]\<rparr>"
| "rule_of (Compile a) =
     (by_assignment [''hod''] a (access_row ''grading.compilation.compile'' [as_tenant a] [''principal'', ''school_admin'']))\<lparr>ar_bound := [a]\<rparr>"
| "rule_of (TeacherCompilation a) =
     by_assignment GRADING_TEACHER_ROLES a (access_row ''grading.compilation.teacher.view'' [as_tenant a] [])"
| "rule_of (HodCompilation a) = by_assignment [''hod''] a (access_row ''grading.compilation.hod.view'' [as_tenant a] [])"
| "rule_of (DeputyCompilation a) = access_row ''grading.compilation.deputy.view'' (opt_schools a) GRADING_EXECUTIVE_ROLES"
| "rule_of (PrincipalCompilation a) = access_row ''grading.compilation.principal.view'' (opt_schools a) [''principal'', ''school_admin'']"
| "rule_of (ParentCompilation t) = access_row ''grading.compilation.future_parent.view'' [] []"
| "rule_of (ComputeReadiness a) =
     by_assignment [''hod''] a (access_row ''grading.readiness.compute'' [as_tenant a] GRADING_EXECUTIVE_ROLES)"
| "rule_of (TeacherReadiness a) =
     by_assignment GRADING_TEACHER_ROLES a (access_row ''grading.readiness.teacher.view'' [as_tenant a] [])"
| "rule_of (HodReadiness a) = by_assignment [''hod''] a (access_row ''grading.readiness.hod.view'' [as_tenant a] [])"
| "rule_of (HeadReadiness a) = access_row ''grading.readiness.academic_head.view'' (opt_schools a) GRADING_EXECUTIVE_ROLES"
| "rule_of (PrincipalReadiness a) = access_row ''grading.readiness.principal.view'' (opt_schools a) [''principal'', ''school_admin'']"
| "rule_of (ParentReadiness t) = access_row ''grading.readiness.future_parent.view'' [] []"
| "rule_of (ComputeReports t) = access_row ''grading.report_snapshot.compute'' [sc_id t] GRADING_EXECUTIVE_ROLES"
| "rule_of (ViewReport t) = access_row ''grading.report_snapshot.view'' [t] (GRADING_EXECUTIVE_ROLES @ GRADING_TEACHER_ROLES)"
| "rule_of PrincipalAnalytics = access_row ''grading.analytics.principal.view'' [] [''principal'', ''school_admin'']"
| "rule_of DeputyAnalytics = access_row ''grading.analytics.deputy.view'' [] GRADING_EXECUTIVE_ROLES"
| "rule_of (HodAnalytics (Some a) g) = by_assignment [''hod''] a (access_row ''grading.analytics.hod.view'' [as_tenant a] [])"
| "rule_of (HodAnalytics None (Some (Some area, year, te))) =
     (access_row ''grading.analytics.hod.view'' [] [])\<lparr>ar_assigned := [''hod''], ar_work := AreaWork area year te\<rparr>"
| "rule_of (HodAnalytics None _) = access_row ''grading.analytics.hod.view'' [] []"
| "rule_of (TeacherAnalytics None) = access_row ''grading.analytics.teacher.view'' [] GRADING_TEACHER_ROLES"
| "rule_of (TeacherAnalytics (Some a)) =
     by_assignment GRADING_TEACHER_ROLES a (access_row ''grading.analytics.teacher.view'' [as_tenant a] [])"
| "rule_of (SubjectAnalytics None) = access_row ''grading.analytics.subject_teacher.view'' [] [''subject_teacher'', ''hod'']"
| "rule_of (SubjectAnalytics (Some a)) =
     by_assignment [''subject_teacher'', ''hod''] a (access_row ''grading.analytics.subject_teacher.view'' [as_tenant a] [])"
| "rule_of (ClassAnalytics (Some c) d) =
     (access_row ''grading.analytics.class_teacher.view'' [] [])\<lparr>ar_assigned := [''class_teacher'', ''hod''], ar_work := CohortWork c\<rparr>"
| "rule_of (ClassAnalytics None (Some c)) =
     (access_row ''grading.analytics.class_teacher.view'' [] [])\<lparr>ar_assigned := [''class_teacher'', ''hod''], ar_work := CohortWork c\<rparr>"
| "rule_of (ClassAnalytics None None) = access_row ''grading.analytics.class_teacher.view'' [] []"
| "rule_of (ParentSnapshot t) = access_row ''grading.analytics.future_parent.view'' [] []"

text \<open>The actor's own active assignments in the school cover the work.\<close>

fun covers_work :: "'a academic_db_scheme \<Rightarrow> policy_context \<Rightarrow> work \<Rightarrow> bool" where
  "covers_work db ctx NoWork \<longleftrightarrow> False"
| "covers_work db ctx (AssessmentWork a) \<longleftrightarrow> resource_in_tenant ctx (as_tenant a) \<and>
     (\<exists>ta\<in>set (own_assignments db ctx). ta_cohort ta = as_cohort a \<and> ta_learning_area ta = as_learning_area a \<and>
        ta_academic_year ta = as_academic_year a \<and> ta_term ta = as_term a \<and>
        cohort_active db (ta_cohort ta) \<and> learning_area_active db (ta_learning_area ta))"
| "covers_work db ctx (AreaWork area year te) \<longleftrightarrow>
     (\<exists>ta\<in>set (own_assignments db ctx). ta_learning_area ta = area \<and> ta_academic_year ta = year \<and> ta_term ta = te)"
| "covers_work db ctx (CohortWork c) \<longleftrightarrow> (\<exists>ta\<in>set (own_assignments db ctx). ta_cohort ta = c)"

definition rule_met :: "'a curriculum_db_scheme \<Rightarrow> policy_context \<Rightarrow> access_rule \<Rightarrow> bool" where
  "rule_met db ctx r \<longleftrightarrow> ctx_action ctx = ar_action r \<and> context_is_valid db ctx \<and>
     (\<forall>t\<in>set (ar_schools r). resource_in_tenant ctx t) \<and>
     (\<forall>a\<in>set (ar_open r). as_status a = ''open'') \<and> (\<forall>a\<in>set (ar_bound r). is_operationally_bound db a) \<and>
     \<not> (\<exists>u. ar_refused r = Some u \<and> actor_is ctx u) \<and>
     (role_in ctx (ar_roles r) \<or> role_in ctx (ar_assigned r) \<and> covers_work db ctx (ar_work r) \<or>
      (\<exists>u. ar_owner r = Some u \<and> actor_is ctx u \<and> \<not> role_in ctx [''hod'']))"

section \<open>Grants\<close>

lemma has_assignmentD:
  assumes "has_assignment_for_assessment db ctx a"
  shows "context_is_valid db ctx" "role_in ctx GRADING_TEACHER_ROLES" "resource_in_tenant ctx (as_tenant a)"
    "\<exists>t u ta. ctx_tenant ctx = Some t \<and> ctx_actor ctx = Some u \<and> ta \<in> set (assignments db) \<and>
       assigned_to db (sc_id t) (us_id u) a ta"
  using assms by (auto simp: has_assignment_for_assessment_def split: if_splits option.splits)

lemma role_in_mono: "role_in ctx xs \<Longrightarrow> set xs \<subseteq> set ys \<Longrightarrow> role_in ctx ys"
  by (auto simp: role_in_def split: option.splits)

lemma context_valid_action: "context_is_valid db (ctx\<lparr>ctx_action := act\<rparr>) \<Longrightarrow> ctx_action ctx \<noteq> [] \<Longrightarrow> context_is_valid db ctx"
  by (auto simp: context_is_valid_def split: if_splits option.splits)

lemma context_frame [simp]:
  "role_in (ctx\<lparr>ctx_action := act\<rparr>) xs = role_in ctx xs"
  "resource_in_tenant (ctx\<lparr>ctx_action := act\<rparr>) t = resource_in_tenant ctx t"
  by (simp_all add: role_in_def resource_in_tenant_def)

lemmas policy_defs = can_view_grading_context_def can_view_assessment_def can_enter_grades_def can_submit_grade_batch_def
  can_view_grade_records_def can_request_grade_correction_def can_review_grade_correction_def can_submit_correction_request_def
  can_review_hod_correction_def can_escalate_correction_def can_review_academic_head_correction_def can_apply_correction_def
  can_view_principal_correction_summary_def can_manage_school_grading_schema_def
  can_view_grade_completion_summary_def can_compile_assessment_def can_view_teacher_compilation_def can_view_hod_compilation_def
  can_view_deputy_academics_compilation_def can_view_principal_compilation_def can_view_future_parent_projection_def
  can_compute_readiness_def can_view_teacher_readiness_def can_view_hod_readiness_def can_view_academic_head_readiness_def
  can_view_principal_readiness_def can_view_future_parent_readiness_def can_compute_report_snapshot_def
  can_view_report_snapshot_def can_view_principal_analytics_def can_view_deputy_analytics_def can_view_hod_analytics_def
  can_view_teacher_analytics_def can_view_subject_teacher_analytics_def can_view_class_teacher_analytics_def
  can_view_future_parent_snapshot_def

lemmas role_lists = GRADING_ADMIN_ROLES_def GRADING_EXECUTIVE_ROLES_def GRADING_ACADEMIC_HEAD_ROLES_def GRADING_TEACHER_ROLES_def

lemma role_in_simps: "role_in ctx xs \<longleftrightarrow> (\<exists>r. ctx_role ctx = Some r \<and> ro_code r \<in> set xs)"
  by (auto simp: role_in_def split: option.splits)

lemma is_grading_adminD: "is_grading_admin db ctx \<Longrightarrow> context_is_valid db ctx \<and> role_in ctx GRADING_ADMIN_ROLES"
  by (simp add: is_grading_admin_def)

text \<open>What every grant except the view of an audit trail gives, for a context without its action.\<close>

definition confined :: "'a identity_db_scheme \<Rightarrow> policy_context \<Rightarrow> string list \<Rightarrow> uuid list \<Rightarrow> bool" where
  "confined db ctx codes tenants \<longleftrightarrow> context_is_valid db ctx \<and> role_in ctx codes \<and>
     (\<forall>t\<in>set tenants. resource_in_tenant ctx t)"

lemma assignment_confined: "has_assignment_for_assessment db ctx a \<Longrightarrow> confined db ctx GRADING_TEACHER_ROLES [as_tenant a]"
  by (simp add: confined_def has_assignmentD)

lemma confined_action:
  "confined db (ctx\<lparr>ctx_action := act\<rparr>) xs ts \<Longrightarrow> ctx_action ctx \<noteq> [] \<Longrightarrow> confined db ctx xs ts"
  by (auto simp: confined_def dest: context_valid_action)

lemma enter_confined: "can_enter_grades db ctx a \<Longrightarrow> confined db ctx GRADING_TEACHER_ROLES [as_tenant a]"
  by (auto simp: can_enter_grades_def dest: assignment_confined split: if_splits)

section \<open>Properties\<close>

text \<open>An assignment to an assessment is work on it, by a teacher.\<close>

lemma has_assignment_work:
  "has_assignment_for_assessment db ctx a \<longleftrightarrow> context_is_valid db ctx \<and> role_in ctx GRADING_TEACHER_ROLES \<and>
     covers_work db ctx (AssessmentWork a)"
  by (auto simp: has_assignment_for_assessment_def assigned_to_def own_assignments_def resource_in_tenant_def
      split: option.splits)

lemma own_assignments_action [simp]: "own_assignments db (ctx\<lparr>ctx_action := act\<rparr>) = own_assignments db ctx"
  by (simp add: own_assignments_def)

lemma covers_work_action [simp]: "covers_work db (ctx\<lparr>ctx_action := act\<rparr>) w = covers_work db ctx w"
  by (cases w) simp_all

lemma valid_action [simp]:
  "act \<noteq> [] \<Longrightarrow> ctx_action ctx \<noteq> [] \<Longrightarrow> context_is_valid db (ctx\<lparr>ctx_action := act\<rparr>) = context_is_valid db ctx"
  by (simp add: context_is_valid_def split: option.splits)

lemmas rule_simps = rule_met_def access_row_def by_assignment_def opt_schools_def

lemma hod_is_no_head: "role_in ctx [''hod''] \<Longrightarrow> \<not> role_in ctx [''deputy_principal'', ''school_admin''] \<and> \<not> role_in ctx GRADING_EXECUTIVE_ROLES"
  by (auto simp: role_in_simps role_lists)

text \<open>C15: The access matrix of grading is exact. Each of the requests the services make is granted if
  and only if its row of the matrix is met: the exact action is asked for, the actor is an active
  user with an active role in the active school, every row that decides lies in that school, the
  assessment is open or bound where that is required, the actor is not the one the request is
  refused to, and the actor's role is granted outright, or is granted to those whose own active
  assignment covers the work, or the actor is the requester of the correction who reads its audit
  trail. So no role beyond the listed ones, no other action and no school but the actor's own is
  ever served, and no parent request at all.\<close>

theorem grading_access_matrix:
  "grading_allowed db ctx rq \<longleftrightarrow> rule_met db ctx (rule_of rq)"
proof (cases rq)
  case (ApplyCorrection c a)
  then show ?thesis using hod_is_no_head [of ctx]
    by (auto simp: policy_defs rule_simps has_assignment_work role_lists role_in_simps)
next
  case (ViewAudit c a)
  then show ?thesis using hod_is_no_head [of ctx]
    by (auto simp: can_view_correction_audit_def rule_simps has_assignment_work role_lists role_in_simps)
next
  case (ComputeReports t)
  then show ?thesis
    by (auto simp: can_compute_report_snapshot_def rule_simps resource_in_tenant_def split: option.splits)
qed (auto simp: policy_defs rule_simps has_assignment_work is_grading_admin_def opt_in_tenant_def role_lists role_in_simps
    split: option.splits)

text \<open>Marks are entered only by the assigned teacher into an open, bound assessment: whoever may
  submit a batch acts, in the assessment's school, with a teaching role and an active assignment to
  exactly its cohort, learning area, year and term, the assessment is open, and its binding to an
  active rubric under its own curriculum version and learning area is locked.\<close>

theorem submission_needs_assignment:
  assumes "can_submit_grade_batch db ctx a"
  shows "as_status a = ''open'' \<and> as_locked_at a \<noteq> None \<and> holds_role db ctx GRADING_TEACHER_ROLES \<and>
    (\<exists>t u ta. ctx_tenant ctx = Some t \<and> sc_id t = as_tenant a \<and> ctx_actor ctx = Some u \<and> ta \<in> set (assignments db) \<and>
       ta_teacher ta = us_id u \<and> ta_tenant ta = as_tenant a \<and> ta_is_active ta \<and> ta_cohort ta = as_cohort a \<and>
       ta_learning_area ta = as_learning_area a \<and> ta_academic_year ta = as_academic_year a \<and> ta_term ta = as_term a) \<and>
    (\<exists>v rid r s cl. as_version a = Some v \<and> as_rubric a = Some rid \<and> rubric_row db rid = Some r \<and> rf_is_active r \<and>
       rubric_sub_strand db r = Some s \<and> sub_strand_area db s = Some cl \<and> cl_version cl = v \<and>
       cl_learning_area cl = as_learning_area a)"
proof -
  from assms have e: "can_enter_grades db (ctx\<lparr>ctx_action := ''grading.grades.enter''\<rparr>) a"
    and act: "ctx_action ctx \<noteq> []" by (auto simp: can_submit_grade_batch_def)
  from e have st: "as_status a = ''open''" and b: "is_operationally_bound db a"
    and h: "has_assignment_for_assessment db (ctx\<lparr>ctx_action := ''grading.grades.enter''\<rparr>) a"
    by (auto simp: can_enter_grades_def split: if_splits)
  from confined_action [OF enter_confined [OF e] act] have "holds_role db ctx GRADING_TEACHER_ROLES"
    and t: "resource_in_tenant ctx (as_tenant a)" by (auto simp: confined_def intro: valid_holds_role)
  moreover have "as_locked_at a \<noteq> None" "rubric_matches_assessment_context db a"
    using b by (auto simp: is_operationally_bound_def validate_curriculum_binding_def split: if_splits)
  moreover from this(2) have "\<exists>v rid r s cl. as_version a = Some v \<and> as_rubric a = Some rid \<and> rubric_row db rid = Some r \<and> rf_is_active r \<and>
       rubric_sub_strand db r = Some s \<and> sub_strand_area db s = Some cl \<and> cl_version cl = v \<and> cl_learning_area cl = as_learning_area a"
    by (auto simp: rubric_matches_assessment_context_def bind_eq_Some_conv split: option.splits if_splits)
  moreover from has_assignmentD(3,4) [OF h] have "\<exists>t u ta. ctx_tenant ctx = Some t \<and> sc_id t = as_tenant a \<and> ctx_actor ctx = Some u \<and>
       ta \<in> set (assignments db) \<and> ta_teacher ta = us_id u \<and> ta_tenant ta = as_tenant a \<and> ta_is_active ta \<and> ta_cohort ta = as_cohort a \<and>
       ta_learning_area ta = as_learning_area a \<and> ta_academic_year ta = as_academic_year a \<and> ta_term ta = as_term a"
    by (fastforce simp: assigned_to_def resource_in_tenant_def)
  ultimately show ?thesis using st by blast
qed

section \<open>Instances\<close>

definition sample_assessment :: assessment where
  "sample_assessment = \<lparr>as_id = ''x1'', as_tenant = ''s1'', as_academic_year = ''y1'', as_term = ''t1'', as_grade_level = None,
     as_cohort = ''c1'', as_learning_area = ''l1'', as_version = Some ''v1'', as_rubric = Some ''f1'', as_title = ''CAT 1'',
     as_type = ''cat'', as_max_score = Fin False 10000 (-2), as_weight = Fin False 100 (-2), as_status = ''open'',
     as_opens_at = None, as_closes_at = None, as_created_by = None, as_locked_at = Some 1, as_schema = None,
     as_schema_version = [], as_updated_at = 1\<rparr>"

definition sample_grading :: grading_db where
  "sample_grading = curriculum_db.extend sample_curriculum
     (grading_db.fields [sample_assessment] [] [] [] [] [] [] [] [] [] [])"

lemmas sample_grading_simps = sample_grading_def sample_assessment_def sample_curriculum_simps grading_db.defs

lemma sample_bound: "is_operationally_bound sample_grading sample_assessment"
  by (simp add: is_operationally_bound_def validate_curriculum_binding_def assessment_status_requires_binding_def
      rubric_matches_assessment_context_def rubric_row_def rubric_sub_strand_def outcome_row_def sub_strand_area_def
      sub_strand_row_def strand_row_def curriculum_area_row_def first_where_def sample_grading_simps)

lemma sample_teacher_valid: "act \<noteq> [] \<Longrightarrow> context_is_valid sample_grading (sample_teacher_context\<lparr>ctx_action := act\<rparr>)"
  by (simp add: context_is_valid_def user_has_role_in_tenant_def get_roles_for_user_in_tenant_def
      get_active_tenant_user_role_bindings_def role_row_is_def user_active_def school_active_def
      sample_teacher_context_def sample_grading_simps)

lemma sample_teacher_assigned:
  "act \<noteq> [] \<Longrightarrow> has_assignment_for_assessment sample_grading (sample_teacher_context\<lparr>ctx_action := act\<rparr>) sample_assessment"
  using sample_teacher_valid [of act]
  by (simp add: has_assignment_for_assessment_def GRADING_TEACHER_ROLES_def role_in_def resource_in_tenant_def assigned_to_def
      cohort_active_def learning_area_active_def row_defs first_where_def sample_teacher_context_def sample_grading_simps)

theorem submission_needs_assignment_witness:
  "can_submit_grade_batch sample_grading (sample_teacher_context\<lparr>ctx_action := ''grading.batch.submit''\<rparr>) sample_assessment \<and>
   as_locked_at sample_assessment \<noteq> None"
proof -
  have s: "can_submit_grade_batch sample_grading (sample_teacher_context\<lparr>ctx_action := ''grading.batch.submit''\<rparr>) sample_assessment"
    using sample_bound sample_teacher_assigned [of "''grading.grades.enter''"]
    by (simp add: can_submit_grade_batch_def can_enter_grades_def) (simp add: sample_assessment_def)
  from submission_needs_assignment [OF s] s show ?thesis by blast
qed

end
