(* ===== verification/Correction.thy ===== *)
theory Correction
  imports GradingPolicies Workflow
begin

text \<open>
  Corrections of submitted marks: the rules of grading/algorithms/correction_*.py,
  hod_escalation_rules.py and pii_safe_correction_payload.py, the validation of records, requests
  and audit rows (grading/models.py), and the services of grading/services.py that request, review,
  escalate and apply a correction. SHA-256 of a text is the argument \<open>sha\<close>; \<open>of_float\<close> is
  \<open>Context(prec=7).create_decimal_from_float\<close> on the \<open>repr\<close> of a float.
  Identifiers given by a client are already in canonical form.
\<close>

section \<open>Statuses (correction_status.py, correction_transition_rules.py)\<close>

definition HOD_REVIEW_STATUSES :: "string list" where
  "HOD_REVIEW_STATUSES = [''requested'', ''submitted'', ''under_hod_review'']"

definition ACADEMIC_HEAD_REVIEW_STATUSES :: "string list" where
  "ACADEMIC_HEAD_REVIEW_STATUSES = [''escalation_requested'', ''under_academic_head_review'']"

definition APPROVED_UNAPPLIED_STATUSES :: "string list" where
  "APPROVED_UNAPPLIED_STATUSES = [''approved'', ''approved_by_hod'', ''approved_by_academic_head'']"

definition BLOCKING_CORRECTION_STATUSES :: "string list" where
  "BLOCKING_CORRECTION_STATUSES =
     [''requested'', ''submitted'', ''under_hod_review'', ''approved'', ''approved_by_hod'', ''escalation_requested'',
      ''under_academic_head_review'', ''approved_by_academic_head'']"

definition TERMINAL_STATUSES :: "string list" where
  "TERMINAL_STATUSES =
     [''rejected'', ''rejected_by_hod'', ''rejected_by_academic_head'', ''applied'', ''cancelled'', ''expired'']"

definition is_blocking_correction_status :: "string \<Rightarrow> bool" where
  "is_blocking_correction_status status \<longleftrightarrow> status \<in> set BLOCKING_CORRECTION_STATUSES"

definition is_approved_unapplied_status :: "string \<Rightarrow> bool" where
  "is_approved_unapplied_status status \<longleftrightarrow> status \<in> set APPROVED_UNAPPLIED_STATUSES"

definition TRANSITIONS :: workflow_table where
  "TRANSITIONS =
     [(''draft'', [''submitted'', ''cancelled'']),
      (''requested'', [''under_hod_review'', ''approved_by_hod'', ''rejected_by_hod'']),
      (''submitted'', [''under_hod_review'', ''cancelled'']),
      (''under_hod_review'', [''approved_by_hod'', ''rejected_by_hod'', ''escalation_requested'']),
      (''approved'', [''applied'']),
      (''approved_by_hod'', [''applied'']),
      (''rejected'', []),
      (''rejected_by_hod'', []),
      (''escalation_requested'',
        [''under_academic_head_review'', ''approved_by_academic_head'', ''rejected_by_academic_head'']),
      (''under_academic_head_review'', [''approved_by_academic_head'', ''rejected_by_academic_head'']),
      (''approved_by_academic_head'', [''applied'']),
      (''rejected_by_academic_head'', []),
      (''applied'', []),
      (''cancelled'', []),
      (''expired'', [])]"

record decision =
  dc_allowed :: bool
  dc_reason :: string

definition can_transition_correction :: "string \<Rightarrow> string \<Rightarrow> decision" where
  "can_transition_correction current_status target_status =
     (if target_status \<in> set (allowed_targets TRANSITIONS current_status)
      then \<lparr>dc_allowed = True, dc_reason = ''allowed''\<rparr>
      else \<lparr>dc_allowed = False, dc_reason = ''invalid_transition''\<rparr>)"

definition ESCALATION_ELIGIBLE_STATUSES :: "string list" where
  "ESCALATION_ELIGIBLE_STATUSES = [''requested'', ''submitted'', ''under_hod_review'']"

definition can_escalate_hod_unavailable :: "string \<Rightarrow> string \<Rightarrow> bool \<Rightarrow> decision" where
  "can_escalate_hod_unavailable status explicit_reason hod_available =
     (if status \<notin> set ESCALATION_ELIGIBLE_STATUSES
      then \<lparr>dc_allowed = False, dc_reason = ''status_not_escalation_eligible''\<rparr>
      else if hod_available then \<lparr>dc_allowed = False, dc_reason = ''hod_available''\<rparr>
      else if strip explicit_reason = [] then \<lparr>dc_allowed = False, dc_reason = ''reason_required''\<rparr>
      else \<lparr>dc_allowed = True, dc_reason = ''allowed''\<rparr>)"

section \<open>Texts (pii_safe_correction_payload.py)\<close>

definition FORBIDDEN_EVENT_FIELDS :: "string list" where
  "FORBIDDEN_EVENT_FIELDS =
     [''raw_score'', ''old_mark'', ''new_mark'', ''old_value'', ''new_value'', ''learner_name'', ''guardian'',
      ''teacher_private_notes'', ''raw_grade_grid'', ''reason'']"

definition UNSAFE_TEXT_TOKENS :: "string list" where
  "UNSAFE_TEXT_TOKENS = [''<script'', ''<svg'', ''onerror'', ''javascript:'']"

text \<open>\<open>str(value or "")\<close> of a JSON scalar.\<close>

definition sanitize_untrusted_text :: "json \<Rightarrow> nat \<Rightarrow> string result" where
  "sanitize_untrusted_text value max_length =
     (let text = strip (if json_truthy value then json_str value else []) in
      if \<exists>token\<in>set UNSAFE_TEXT_TOKENS. contains token (lower text)
      then Inl (ValidationError ''text'' ''Correction text is unsafe.'') else Inr (take max_length text))"

definition assert_pii_safe_event_payload :: "(string \<times> json) list \<Rightarrow> unit result" where
  "assert_pii_safe_event_payload payload =
     (if \<exists>k\<in>set (map fst payload). k \<in> set FORBIDDEN_EVENT_FIELDS
      then Inl (ValidationError ''payload'' ''Correction event payload contains PII.'') else Inr ())"

section \<open>State hashes and differences (correction_hash.py, correction_audit_diff.py)\<close>

definition hash_grade_state :: "(string \<Rightarrow> string) \<Rightarrow> (string \<times> json) list \<Rightarrow> string result" where
  "hash_grade_state sha state =
     (case dumps True (JObj state) of
        Inl _ \<Rightarrow> Inl (ValidationError ''grade_state'' ''Grade state is not serializable.'')
      | Inr t \<Rightarrow> Inr (''sha256:'' @ sha t))"

definition correction_state_hash ::
  "(string \<Rightarrow> string) \<Rightarrow> uuid \<Rightarrow> decimal \<Rightarrow> json \<Rightarrow> string \<Rightarrow> int \<Rightarrow> string result" where
  "correction_state_hash sha grade_record_id raw_score component_scores remarks version =
     ebind (hash_grade_state sha [(''remarks'', JStr remarks)]) (\<lambda>remarks_hash.
       hash_grade_state sha
         [(''grade_record_id'', JStr grade_record_id), (''raw_score'', JStr (dec_str raw_score)),
          (''component_scores'', component_scores), (''remarks_hash'', JStr remarks_hash), (''version'', JInt version)])"

text \<open>
  Python's \<open>==\<close> on JSON values: numbers compare by value (a float by the value its \<open>repr\<close>
  denotes), dicts regardless of order.
\<close>

definition json_number :: "json \<Rightarrow> rat option" where
  "json_number v = (case v of
       JBool b \<Rightarrow> Some (if b then 1 else 0) | JInt i \<Rightarrow> Some (of_int i)
     | JFloat r \<Rightarrow> (case decimal_of_text r of Inr (Fin s c e) \<Rightarrow> Some (sval s c e) | _ \<Rightarrow> None)
     | _ \<Rightarrow> None)"

lemma size_member: "x \<in> set xs \<Longrightarrow> size x < Suc (size_list size xs)"
  by (induction xs) auto

lemma size_value: "(k, v) \<in> set kvs \<Longrightarrow> size v < Suc (size_list (size_prod (\<lambda>_. 0) size) kvs)"
  by (induction kvs) auto

function py_eq :: "json \<Rightarrow> json \<Rightarrow> bool" where
  "py_eq a b =
     (case (a, b) of
        (JList xs, JList ys) \<Rightarrow> length xs = length ys \<and> (\<forall>p\<in>set (zip xs ys). py_eq (fst p) (snd p))
      | (JObj kvs, JObj kvs') \<Rightarrow> length kvs = length kvs' \<and>
          (\<forall>p\<in>set kvs. case map_of kvs' (fst p) of None \<Rightarrow> False | Some w \<Rightarrow> py_eq (snd p) w)
      | _ \<Rightarrow> (if json_number a \<noteq> None \<and> json_number b \<noteq> None then json_number a = json_number b else a = b))"
  by pat_completeness auto

termination
  by (relation "measure (\<lambda>(a, b). size a)") (auto simp: size_member size_value dest: set_zip_leftD)

declare py_eq.simps [simp del]

definition correction_changed_fields ::
  "decimal \<Rightarrow> decimal option \<Rightarrow> json \<Rightarrow> json \<Rightarrow> string \<Rightarrow> string \<Rightarrow> string list" where
  "correction_changed_fields old_raw_score new_raw_score old_components new_components old_remarks new_remarks =
     sort ((case new_raw_score of None \<Rightarrow> [] | Some n \<Rightarrow> if dec_str old_raw_score \<noteq> dec_str n then [''raw_score''] else [])
       @ (if json_truthy new_components \<and> \<not> py_eq old_components new_components then [''component_scores''] else [])
       @ (if new_remarks \<noteq> [] \<and> old_remarks \<noteq> new_remarks then [''remarks''] else []))"

section \<open>Saving records, requests and audit rows (models.py)\<close>

definition record_clean :: "'a grading_db_scheme \<Rightarrow> grade_record \<Rightarrow> unit result" where
  "record_clean db r =
     (case assessment_row db (rec_assessment r) of None \<Rightarrow> Inl (field_error ''assessment'') | Some a \<Rightarrow>
        ebind (validate_score_bounds (dec_str (rec_raw_score r)) (dec_str (as_max_score a))) (\<lambda>_.
          case batch_row db (rec_submission_batch r) of None \<Rightarrow> Inl (field_error ''submission_batch'') | Some b \<Rightarrow>
            if \<not> tenants_agree (rec_tenant r) [Some (as_tenant a), Some (bt_tenant b),
                 map_option st_tenant (student_row db (rec_student r))]
            then Inl (ValidationError ''tenant'' ''Grade record tenant is invalid.'')
            else if bt_assessment b \<noteq> rec_assessment r
            then Inl (ValidationError ''submission_batch'' ''Grade batch is invalid.'')
            else if bt_teacher b \<noteq> rec_submitted_by r
            then Inl (ValidationError ''submitted_by'' ''Submitted by is invalid.'')
            else if \<not> (\<exists>e\<in>set (enrollments db). en_tenant e = rec_tenant r \<and> en_student e = rec_student r
                 \<and> en_cohort e = as_cohort a \<and> en_academic_year e = as_academic_year a \<and> en_term e = as_term a
                 \<and> en_is_active e)
            then Inl (ValidationError ''student'' ''Grade record student is invalid.'')
            else if \<not> is_dict (rec_component_scores r)
            then Inl (ValidationError ''component_scores'' ''Component scores must be an object.'')
            else Inr ()))"

definition record_full_clean :: "'a grading_db_scheme \<Rightarrow> grade_record \<Rightarrow> grade_record result" where
  "record_full_clean db r =
     ebind (record_clean db r) (\<lambda>_.
       if \<not> (school_exists db (rec_tenant r) \<and> student_row db (rec_student r) \<noteq> None
            \<and> decimal_field 7 2 (rec_raw_score r) \<and> opt_fk (decimal_field 7 2) (rec_normalized_score r)
            \<and> json_field (rec_component_scores r) \<and> length (rec_schema_version r) \<le> 48
            \<and> length (rec_band_label r) \<le> 32 \<and> length (rec_band_descriptor r) \<le> 160
            \<and> positive_integer_field (rec_version r) \<and> user_exists db (rec_submitted_by r))
       then Inl (field_error ''raw_score'')
       else if (\<exists>q\<in>set (grade_records db). rec_id q \<noteq> rec_id r \<and> rec_tenant q = rec_tenant r
              \<and> rec_assessment q = rec_assessment r \<and> rec_student q = rec_student r)
            \<or> \<not> dec_at_least (rec_raw_score r) dec_0 \<or> rec_version r < 1
       then Inl (ValidationError ''__all__'' ''Constraint is violated.'') else Inr r)"

text \<open>An update writes the row; decimals come back with two places.\<close>

definition put_record :: "grade_record \<Rightarrow> 'a grading_db_scheme \<Rightarrow> 'a grading_db_scheme" where
  "put_record r db = db\<lparr>grade_records := update_where (\<lambda>q. rec_id q = rec_id r)
     (\<lambda>_. r\<lparr>rec_raw_score := stored_2 (rec_raw_score r),
             rec_normalized_score := map_option stored_2 (rec_normalized_score r)\<rparr>) (grade_records db)\<rparr>"

definition correction_statuses :: "string list" where
  "correction_statuses = map fst TRANSITIONS"

text \<open>
  \<open>score\<close> is the text of the proposed score. Django runs \<open>clean\<close> also when a field is invalid, and an
  exception of \<open>clean\<close> that is no ValidationError leaves \<open>full_clean\<close> as it is.
\<close>

definition correction_clean :: "'a grading_db_scheme \<Rightarrow> string option \<Rightarrow> correction \<Rightarrow> correction result" where
  "correction_clean db score c =
     (case grade_record_row db (cq_grade_record c) of None \<Rightarrow> Inl (field_error ''grade_record'') | Some r \<Rightarrow>
        if rec_tenant r \<noteq> cq_tenant c then Inl (ValidationError ''tenant'' ''Correction tenant is invalid.'')
        else if strip (cq_reason c) = [] then Inl (ValidationError ''reason'' ''Correction reason is required.'')
        else let c = c\<lparr>cq_reason_code := strip (cq_reason_code c)\<rparr> in
        if cq_reason_code c = [] then Inl (ValidationError ''reason_code'' ''Reason code is required.'')
        else if unsafe_markup (cq_reason c) \<or> unsafe_markup (cq_review_reason c) \<or> unsafe_markup (cq_escalation_reason c)
        then Inl (ValidationError ''reason'' ''Correction text is unsafe.'')
        else if strip (cq_old_state_hash c) = []
        then Inl (ValidationError ''old_state_hash'' ''Old state hash is required.'')
        else ebind (case score of None \<Rightarrow> Inr ()
              | Some t \<Rightarrow> (case assessment_row db (rec_assessment r) of None \<Rightarrow> Inl (field_error ''assessment'')
                  | Some a \<Rightarrow> ebind (validate_score_bounds t (dec_str (as_max_score a))) (\<lambda>_. Inr ()))) (\<lambda>_.
          if cq_reviewed_by c = Some (cq_requested_by c) then Inl (ValidationError ''reviewed_by'' ''Reviewer is invalid.'')
          else if cq_applied_by c = Some (cq_requested_by c) then Inl (ValidationError ''applied_by'' ''Applier is invalid.'')
          else if \<not> is_dict (cq_proposed_components c)
          then Inl (ValidationError ''proposed_component_scores'' ''Component scores must be an object.'')
          else Inr c))"

definition correction_fields_ok :: "'a grading_db_scheme \<Rightarrow> correction \<Rightarrow> bool" where
  "correction_fields_ok db c \<longleftrightarrow>
     school_exists db (cq_tenant c) \<and> user_exists db (cq_requested_by c) \<and> opt_fk (user_exists db) (cq_reviewed_by c)
     \<and> cq_reason c \<noteq> [] \<and> char_field 64 (cq_reason_code c) \<and> char_field 96 (cq_old_state_hash c)
     \<and> json_field (cq_proposed_components c) \<and> opt_fk (user_exists db) (cq_escalated_by c)
     \<and> opt_fk (user_exists db) (cq_applied_by c) \<and> cq_status c \<in> set correction_statuses"

text \<open>Saving a stored request: its proposed score is a decimal of the column.\<close>

definition correction_full_clean :: "'a grading_db_scheme \<Rightarrow> correction \<Rightarrow> correction result" where
  "correction_full_clean db c =
     ebind (correction_clean db (map_option dec_str (cq_proposed_raw_score c)) c) (\<lambda>c'.
       if correction_fields_ok db c \<and> opt_fk (decimal_field 7 2) (cq_proposed_raw_score c)
       then Inr c' else Inl (field_error ''status''))"

text \<open>The value a client proposes, as the decimal field reads it.\<close>

definition decimal_of_json :: "(string \<Rightarrow> decimal) \<Rightarrow> json \<Rightarrow> decimal option" where
  "decimal_of_json of_float v = (case v of
       JBool b \<Rightarrow> Some (Fin False (if b then 1 else 0) 0)
     | JInt i \<Rightarrow> Some (of_signed i 0)
     | JFloat r \<Rightarrow> Some (of_float r)
     | JStr s \<Rightarrow> (case decimal_of_text s of Inr d \<Rightarrow> Some d | Inl _ \<Rightarrow> None)
     | JOther t \<Rightarrow> (case decimal_of_text t of Inr d \<Rightarrow> Some d | Inl _ \<Rightarrow> None)
     | _ \<Rightarrow> None)"

definition new_correction_full_clean ::
  "(string \<Rightarrow> decimal) \<Rightarrow> 'a grading_db_scheme \<Rightarrow> json \<Rightarrow> correction \<Rightarrow> correction result" where
  "new_correction_full_clean of_float db proposed c =
     (if proposed = JNull
      then ebind (correction_clean db None c) (\<lambda>c'. if correction_fields_ok db c then Inr c' else Inl (field_error ''status''))
      else case decimal_of_json of_float proposed of
        Some d \<Rightarrow>
          ebind (correction_clean db (Some (dec_str d)) c) (\<lambda>c'.
            if correction_fields_ok db c \<and> decimal_field 7 2 d then Inr (c'\<lparr>cq_proposed_raw_score := Some d\<rparr>)
            else Inl (field_error ''proposed_raw_score''))
      | None \<Rightarrow> ebind (correction_clean db (Some (json_str proposed)) c) (\<lambda>_. Inl (field_error ''proposed_raw_score'')))"

definition stored_correction :: "correction \<Rightarrow> correction" where
  "stored_correction c = c\<lparr>cq_proposed_raw_score := map_option stored_2 (cq_proposed_raw_score c)\<rparr>"

definition add_correction :: "correction \<Rightarrow> 'a grading_db_scheme \<Rightarrow> 'a grading_db_scheme" where
  "add_correction c db = db\<lparr>corrections := corrections db @ [stored_correction c]\<rparr>"

definition put_correction :: "correction \<Rightarrow> 'a grading_db_scheme \<Rightarrow> 'a grading_db_scheme" where
  "put_correction c db =
     db\<lparr>corrections := update_where (\<lambda>q. cq_id q = cq_id c) (\<lambda>_. stored_correction c) (corrections db)\<rparr>"

definition audit_full_clean :: "'a grading_db_scheme \<Rightarrow> correction_audit \<Rightarrow> correction_audit result" where
  "audit_full_clean db u =
     (if \<not> tenants_agree (ca_tenant u) [map_option cq_tenant (correction_row db (ca_correction u)),
          map_option rec_tenant (grade_record_row db (ca_grade_record u))]
      then Inl (ValidationError ''tenant'' ''Audit tenant is invalid.'')
      else if unsafe_markup (ca_reason_summary u) then Inl (ValidationError ''reason_summary'' ''Audit reason is unsafe.'')
      else if \<not> (school_exists db (ca_tenant u) \<and> user_exists db (ca_actor u)
           \<and> ca_action u \<in> {''requested'', ''reviewed'', ''escalated'', ''applied'', ''cancelled''}
           \<and> length (ca_status_from u) \<le> 32 \<and> char_field 32 (ca_status_to u) \<and> length (ca_reason_code u) \<le> 64
           \<and> length (ca_reason_summary u) \<le> 180 \<and> length (ca_state_before u) \<le> 96 \<and> length (ca_state_after u) \<le> 96)
      then Inl (field_error ''action'') else Inr u)"

definition add_audit :: "correction_audit \<Rightarrow> 'a grading_db_scheme \<Rightarrow> 'a grading_db_scheme" where
  "add_audit u db = db\<lparr>correction_audits := correction_audits db @ [u]\<rparr>"

section \<open>Services (services.py)\<close>

definition GRADING_TEACHER_ROLE_CODES :: "string list" where
  "GRADING_TEACHER_ROLE_CODES = [''subject_teacher'', ''class_teacher'', ''hod'']"

definition GRADING_HOD_ROLE_CODES :: "string list" where
  "GRADING_HOD_ROLE_CODES = [''hod'']"

definition GRADING_ACADEMIC_HEAD_ROLE_CODES :: "string list" where
  "GRADING_ACADEMIC_HEAD_ROLE_CODES = [''deputy_principal'', ''school_admin'']"

text \<open>
  The role a service acts under: of the actor's active bindings to active roles with one of the
  codes, the one updated last (\<open>ordering = ["-updated_at"]\<close>).
\<close>

definition role_for :: "'a identity_db_scheme \<Rightarrow> user option \<Rightarrow> school option \<Rightarrow> string list \<Rightarrow> role_row option" where
  "role_for db actor tenant codes =
     (case (actor, tenant) of
        (Some u, Some t) \<Rightarrow>
          (case sort_key (\<lambda>b. - rb_updated_at b) (filter (\<lambda>b. rb_tenant b = sc_id t \<and> rb_user b = us_id u
               \<and> role_row_is (\<lambda>r. ro_code r \<in> set codes \<and> ro_is_active r) db (rb_role b) \<and> rb_is_active b) (role_bindings db)) of
             [] \<Rightarrow> None
           | b # _ \<Rightarrow> first_where (\<lambda>r. ro_id r = rb_role b) (roles db))
      | _ \<Rightarrow> None)"

definition policy_context_for ::
  "'a identity_db_scheme \<Rightarrow> user option \<Rightarrow> school option \<Rightarrow> string \<Rightarrow> string list \<Rightarrow> policy_context" where
  "policy_context_for db actor tenant action codes =
     \<lparr>ctx_tenant = tenant, ctx_actor = actor, ctx_action = action, ctx_role = role_for db actor tenant codes\<rparr>"

definition reject_correction_mass_assignment :: "(string \<times> json) list \<Rightarrow> unit result" where
  "reject_correction_mass_assignment payload =
     (if \<exists>k\<in>set (map fst payload). k \<in>
          {''status'', ''tenant'', ''tenant_id'', ''reviewed_by'', ''reviewed_by_id'', ''approved_by'', ''approved_by_id'',
           ''applied_by'', ''applied_by_id'', ''old_state_hash'', ''requested_by'', ''requested_by_id'', ''schema_version'',
           ''school_grading_schema_version''}
      then Inl (ValidationError ''payload'' ''Payload contains server-controlled fields.'') else Inr ())"

definition audit_correction ::
  "uuid \<Rightarrow> school \<Rightarrow> correction \<Rightarrow> uuid \<Rightarrow> string \<Rightarrow> string \<Rightarrow> string list \<Rightarrow> string \<Rightarrow> string \<Rightarrow> string
     \<Rightarrow> ('a grading_db_scheme, correction_audit) action" where
  "audit_correction audit_id tenant c actor_id action status_from changed_fields state_before state_after reason_summary =
     save_row audit_full_clean add_audit
       \<lparr>ca_id = audit_id, ca_tenant = sc_id tenant, ca_correction = cq_id c, ca_grade_record = cq_grade_record c,
        ca_actor = actor_id, ca_action = action, ca_status_from = status_from, ca_status_to = cq_status c,
        ca_reason_code = cq_reason_code c, ca_reason_summary = reason_summary, ca_state_before = state_before,
        ca_state_after = state_after, ca_changed_fields = changed_fields\<rparr>"

text \<open>A request with its record and the record's assessment.\<close>

definition get_correction_for_update ::
  "'a grading_db_scheme \<Rightarrow> school \<Rightarrow> uuid \<Rightarrow> (correction \<times> grade_record \<times> assessment) result" where
  "get_correction_for_update db tenant i =
     (case first_where (\<lambda>c. cq_tenant c = sc_id tenant \<and> cq_id c = i) (corrections db) of
        None \<Rightarrow> Inl (ValidationError ''correction'' ''Correction is not available.'')
      | Some c \<Rightarrow>
          (case grade_record_row db (cq_grade_record c) of None \<Rightarrow> Inl DoesNotExist | Some r \<Rightarrow>
             (case assessment_row db (rec_assessment r) of None \<Rightarrow> Inl DoesNotExist | Some a \<Rightarrow> Inr (c, r, a))))"

definition new_correction_request ::
  "(string \<Rightarrow> string) \<Rightarrow> time \<Rightarrow> uuid \<Rightarrow> user option \<Rightarrow> school \<Rightarrow> uuid \<Rightarrow> (string \<times> json) list
     \<Rightarrow> 'a grading_db_scheme \<Rightarrow> correction result" where
  "new_correction_request sha now new_id actor tenant record_id payload db =
     ebind (reject_correction_mass_assignment payload) (\<lambda>_.
       case first_where (\<lambda>r. rec_tenant r = sc_id tenant \<and> rec_id r = record_id) (grade_records db) of
         None \<Rightarrow> Inl (ValidationError ''grade_record'' ''Grade record is not available.'')
       | Some r \<Rightarrow> (case assessment_row db (rec_assessment r) of None \<Rightarrow> Inl DoesNotExist | Some a \<Rightarrow>
           let ctx = policy_context_for db actor (Some tenant) ''grading.correction.submit'' GRADING_TEACHER_ROLE_CODES in
           case actor of
             None \<Rightarrow> Inl (ValidationError ''correction'' ''Correction is not authorized.'')
           | Some u \<Rightarrow>
             if \<not> can_submit_correction_request db ctx r a
             then Inl (ValidationError ''correction'' ''Correction is not authorized.'')
             else let proposed_components = or_json (jget payload ''proposed_component_scores'') (JObj []) in
             if \<not> is_dict proposed_components
             then Inl (ValidationError ''proposed_component_scores'' ''Invalid components.'')
             else ebind (sanitize_untrusted_text (jget payload ''reason'') 500) (\<lambda>reason.
               ebind (sanitize_untrusted_text (jget_or payload ''reason_code'' (JStr ''teacher_request'')) 64) (\<lambda>reason_code.
                 ebind (correction_state_hash sha (rec_id r) (rec_raw_score r) (rec_component_scores r) (rec_remarks r)
                     (rec_version r)) (\<lambda>old_hash.
                   ebind (sanitize_untrusted_text (jget_or payload ''proposed_remarks'' (JStr [])) 500) (\<lambda>remarks.
                     Inr \<lparr>cq_id = new_id, cq_tenant = sc_id tenant, cq_grade_record = rec_id r, cq_requested_by = us_id u,
                       cq_reviewed_by = None, cq_reason = reason, cq_reason_code = reason_code, cq_old_state_hash = old_hash,
                       cq_proposed_raw_score = None, cq_proposed_components = proposed_components,
                       cq_proposed_remarks = remarks, cq_review_reason = [], cq_escalation_reason = [],
                       cq_escalated_by = None, cq_applied_by = None, cq_status = ''under_hod_review'',
                       cq_requested_at = now, cq_reviewed_at = None, cq_escalated_at = None, cq_applied_at = None\<rparr>))))))"

definition create_correction_request ::
  "(string \<Rightarrow> string) \<Rightarrow> (string \<Rightarrow> decimal) \<Rightarrow> time \<Rightarrow> uuid \<Rightarrow> uuid \<Rightarrow> user option \<Rightarrow> school \<Rightarrow> uuid \<Rightarrow> (string \<times> json) list
     \<Rightarrow> ('a grading_db_scheme, correction) action" where
  "create_correction_request sha of_float now new_id audit_id actor tenant record_id payload =
     atomic (abind (query (new_correction_request sha now new_id actor tenant record_id payload)) (\<lambda>c.
       abind (save_row (\<lambda>db. new_correction_full_clean of_float db (jget payload ''proposed_raw_score'')) add_correction c) (\<lambda>c.
         abind (audit_correction audit_id tenant c (cq_requested_by c) ''requested'' [] [] (cq_old_state_hash c) []
             ''teacher_requested_correction'') (\<lambda>_. alift (Inr c)))))"

text \<open>
  The shape the three services that move a request share: lock it, check the policy, compute the
  changed request, save it, write the audit row with the status it came from.
\<close>

definition move_correction ::
  "school \<Rightarrow> uuid \<Rightarrow> uuid \<Rightarrow> uuid \<Rightarrow> string \<Rightarrow> string
     \<Rightarrow> ('a grading_db_scheme \<Rightarrow> correction \<times> grade_record \<times> assessment \<Rightarrow> correction result)
     \<Rightarrow> ('a grading_db_scheme, correction) action" where
  "move_correction tenant correction_id audit_id actor_id action summary change =
     atomic (abind (query (\<lambda>db. ebind (get_correction_for_update db tenant correction_id) (\<lambda>cra.
           ebind (change db cra) (\<lambda>c'. Inr (cq_status (fst cra), c'))))) (\<lambda>(status_from, c').
       abind (save_row correction_full_clean put_correction c') (\<lambda>c'.
         abind (audit_correction audit_id tenant c' actor_id action status_from [] [] [] summary)
           (\<lambda>_. alift (Inr c')))))"

text \<open>An authorised review: the policy holds, the decision is known, the transition allowed.\<close>

definition reviewed ::
  "time \<Rightarrow> uuid \<Rightarrow> bool \<Rightarrow> (string \<times> string) list \<Rightarrow> string \<Rightarrow> string \<Rightarrow> correction \<Rightarrow> correction result" where
  "reviewed now actor_id allowed targets decision_text reason c =
     (if \<not> allowed then Inl (ValidationError ''correction'' ''Correction review is not authorized.'')
      else case map_of targets decision_text of
        None \<Rightarrow> Inl (ValidationError ''decision'' ''Correction decision is invalid.'')
      | Some target \<Rightarrow>
          if \<not> dc_allowed (can_transition_correction (cq_status c) target)
          then Inl (ValidationError ''status'' ''Correction transition is invalid.'')
          else ebind (sanitize_untrusted_text (JStr reason) 500) (\<lambda>text.
            Inr (c\<lparr>cq_status := target, cq_reviewed_by := Some actor_id, cq_reviewed_at := Some now,
                   cq_review_reason := text\<rparr>)))"

definition review_correction_as_hod ::
  "time \<Rightarrow> uuid \<Rightarrow> user \<Rightarrow> school \<Rightarrow> uuid \<Rightarrow> string \<Rightarrow> string \<Rightarrow> ('a grading_db_scheme, correction) action" where
  "review_correction_as_hod now audit_id actor tenant correction_id decision_text reason =
     move_correction tenant correction_id audit_id (us_id actor) ''reviewed'' (''hod_'' @ decision_text) (\<lambda>db (c, r, a).
       reviewed now (us_id actor)
         (can_review_hod_correction db (policy_context_for db (Some actor) (Some tenant) ''grading.correction.hod.review''
            GRADING_HOD_ROLE_CODES) c a)
         [(''approve'', ''approved_by_hod''), (''reject'', ''rejected_by_hod'')] decision_text reason c)"

definition escalate_correction_request ::
  "time \<Rightarrow> uuid \<Rightarrow> user \<Rightarrow> school \<Rightarrow> uuid \<Rightarrow> string \<Rightarrow> ('a grading_db_scheme, correction) action" where
  "escalate_correction_request now audit_id actor tenant correction_id reason =
     move_correction tenant correction_id audit_id (us_id actor) ''escalated'' ''hod_unavailable_escalation'' (\<lambda>db (c, r, a).
       if \<not> can_escalate_correction db (policy_context_for db (Some actor) (Some tenant) ''grading.correction.escalate''
            GRADING_ACADEMIC_HEAD_ROLE_CODES) c
       then Inl (ValidationError ''correction'' ''Correction escalation is not authorized.'')
       else ebind (sanitize_untrusted_text (JStr reason) 500) (\<lambda>clean_reason.
         if \<not> dc_allowed (can_escalate_hod_unavailable (cq_status c) clean_reason False)
         then Inl (ValidationError ''status'' ''Correction escalation is invalid.'')
         else Inr (c\<lparr>cq_status := ''escalation_requested'', cq_escalated_by := Some (us_id actor),
                     cq_escalated_at := Some now, cq_escalation_reason := clean_reason\<rparr>)))"

definition review_correction_as_academic_head ::
  "time \<Rightarrow> uuid \<Rightarrow> user \<Rightarrow> school \<Rightarrow> uuid \<Rightarrow> string \<Rightarrow> string \<Rightarrow> ('a grading_db_scheme, correction) action" where
  "review_correction_as_academic_head now audit_id actor tenant correction_id decision_text reason =
     move_correction tenant correction_id audit_id (us_id actor) ''reviewed'' (''academic_head_'' @ decision_text)
       (\<lambda>db (c, r, a).
         reviewed now (us_id actor)
           (can_review_academic_head_correction db (policy_context_for db (Some actor) (Some tenant)
              ''grading.correction.academic_head.review'' GRADING_ACADEMIC_HEAD_ROLE_CODES) c)
           [(''approve'', ''approved_by_academic_head''), (''reject'', ''rejected_by_academic_head'')]
           decision_text reason c)"

section \<open>Applying an approved correction\<close>

definition get_assessment_schema_binding :: "'a grading_db_scheme \<Rightarrow> school \<Rightarrow> assessment \<Rightarrow> grading_schema option" where
  "get_assessment_schema_binding db tenant a =
     (if as_tenant a \<noteq> sc_id tenant then None else Option.bind (as_schema a) (schema_row db))"

definition get_schema_bands_for_assessment :: "'a grading_db_scheme \<Rightarrow> school \<Rightarrow> assessment \<Rightarrow> schema_band list" where
  "get_schema_bands_for_assessment db tenant a =
     (case get_assessment_schema_binding db tenant a of
        None \<Rightarrow> []
      | Some s \<Rightarrow> sort_key (\<lambda>b. (sb_order b, dec_key (sb_min b), sb_label b))
          (filter (\<lambda>b. sb_tenant b = sc_id tenant \<and> sb_schema b = gs_id s) (schema_bands db)))"

definition band_input_of :: "schema_band \<Rightarrow> band_input" where
  "band_input_of b = \<lparr>bi_label = sb_label b, bi_descriptor = sb_descriptor b, bi_min = dec_str (sb_min b),
     bi_max = dec_str (sb_max b), bi_points = map_option dec_str (sb_points b)\<rparr>"

text \<open>The record a correction leaves, before its band is looked up.\<close>

definition corrected_record :: "correction \<Rightarrow> grade_record \<Rightarrow> grade_record" where
  "corrected_record c r =
     r\<lparr>rec_raw_score := (case cq_proposed_raw_score c of Some d \<Rightarrow> d | None \<Rightarrow> rec_raw_score r),
       rec_component_scores := or_json (cq_proposed_components c) (rec_component_scores r),
       rec_remarks := (if cq_proposed_remarks c \<noteq> [] then cq_proposed_remarks c else rec_remarks r),
       rec_version := rec_version r + 1\<rparr>"

definition banded_record :: "schema_band list \<Rightarrow> assessment \<Rightarrow> grade_record \<Rightarrow> grade_record result" where
  "banded_record bands a r =
     (if bands = [] then Inr r
      else ebind (map_score_to_band (dec_str (rec_raw_score r)) (dec_str (as_max_score a)) (map band_input_of bands)) (\<lambda>m.
        Inr (r\<lparr>rec_normalized_score := Some (bm_normalized_percentage m), rec_band_label := bm_band_label m,
               rec_band_descriptor := bm_band_descriptor m, rec_schema_version := as_schema_version a\<rparr>)))"

definition state_hash_of :: "(string \<Rightarrow> string) \<Rightarrow> grade_record \<Rightarrow> string result" where
  "state_hash_of sha r =
     correction_state_hash sha (rec_id r) (rec_raw_score r) (rec_component_scores r) (rec_remarks r) (rec_version r)"

definition mark_runs_stale :: "uuid \<Rightarrow> uuid \<Rightarrow> 'a grading_db_scheme \<Rightarrow> 'a grading_db_scheme" where
  "mark_runs_stale tenant assessment_id db =
     db\<lparr>compilation_runs := update_where (\<lambda>q. cr_tenant q = tenant \<and> cr_assessment q = assessment_id)
       (\<lambda>q. q\<lparr>cr_status := ''stale''\<rparr>) (compilation_runs db)\<rparr>"

record correction_application =
  ap_correction :: correction
  ap_record :: grade_record
  ap_changed :: "string list"
  ap_state_before :: string

text \<open>Everything the service checks and computes before its first write.\<close>

definition plan_application ::
  "(string \<Rightarrow> string) \<Rightarrow> user \<Rightarrow> school \<Rightarrow> uuid \<Rightarrow> 'a grading_db_scheme \<Rightarrow> correction_application result" where
  "plan_application sha actor tenant correction_id db =
     ebind (get_correction_for_update db tenant correction_id) (\<lambda>(c, r, a).
       if cq_status c \<notin> set APPROVED_UNAPPLIED_STATUSES
       then Inl (ValidationError ''status'' ''Correction is not approved for application.'')
       else if \<not> can_apply_correction db (policy_context_for db (Some actor) (Some tenant) ''grading.correction.apply''
            (GRADING_HOD_ROLE_CODES @ GRADING_ACADEMIC_HEAD_ROLE_CODES)) c a
       then Inl (ValidationError ''correction'' ''Correction application is not authorized.'')
       else ebind (state_hash_of sha r) (\<lambda>state_before.
         let changed = correction_changed_fields (rec_raw_score r) (cq_proposed_raw_score c) (rec_component_scores r)
               (cq_proposed_components c) (rec_remarks r) (cq_proposed_remarks c) in
         if changed = [] then Inl (ValidationError ''correction'' ''Correction does not change the record.'')
         else ebind (banded_record (get_schema_bands_for_assessment db tenant a) a (corrected_record c r)) (\<lambda>r'.
           Inr \<lparr>ap_correction = c, ap_record = r', ap_changed = changed, ap_state_before = state_before\<rparr>)))"

definition apply_approved_correction ::
  "(string \<Rightarrow> string) \<Rightarrow> time \<Rightarrow> uuid \<Rightarrow> user \<Rightarrow> school \<Rightarrow> uuid \<Rightarrow> ('a grading_db_scheme, correction) action" where
  "apply_approved_correction sha now audit_id actor tenant correction_id =
     atomic (abind (query (plan_application sha actor tenant correction_id)) (\<lambda>p.
       abind (save_row record_full_clean put_record (ap_record p)) (\<lambda>r.
         abind (\<lambda>db. (state_hash_of sha r, mark_runs_stale (sc_id tenant) (rec_assessment r) db)) (\<lambda>state_after.
           abind (save_row correction_full_clean put_correction
               ((ap_correction p)\<lparr>cq_status := ''applied'', cq_applied_by := Some (us_id actor), cq_applied_at := Some now\<rparr>)) (\<lambda>c.
             abind (audit_correction audit_id tenant c (us_id actor) ''applied'' (cq_status (ap_correction p)) (ap_changed p)
                 (ap_state_before p) state_after ''approved_correction_applied'') (\<lambda>_. alift (Inr c)))))))"

section \<open>Reading corrections\<close>

definition get_correction_audit_trail ::
  "'a grading_db_scheme \<Rightarrow> user option \<Rightarrow> school \<Rightarrow> uuid \<Rightarrow> correction_audit list result" where
  "get_correction_audit_trail db actor tenant correction_id =
     ebind (get_correction_for_update db tenant correction_id) (\<lambda>(c, r, a).
       if \<not> can_view_correction_audit db (policy_context_for db actor (Some tenant) ''grading.correction.audit.view''
            (GRADING_TEACHER_ROLE_CODES @ GRADING_ACADEMIC_HEAD_ROLE_CODES @ [''principal''])) c a
       then Inl (ValidationError ''correction'' ''Correction is not available.'')
       else Inr (filter (\<lambda>u. ca_tenant u = sc_id tenant \<and> ca_correction u = cq_id c) (correction_audits db)))"

record correction_summary =
  su_pending :: nat
  su_escalated :: nat
  su_approved_unapplied :: nat

definition get_principal_correction_summary :: "'a grading_db_scheme \<Rightarrow> school \<Rightarrow> correction_summary" where
  "get_principal_correction_summary db tenant =
     (let count = \<lambda>statuses. length (filter (\<lambda>c. cq_tenant c = sc_id tenant \<and> cq_status c \<in> set statuses) (corrections db)) in
      \<lparr>su_pending = count BLOCKING_CORRECTION_STATUSES, su_escalated = count ACADEMIC_HEAD_REVIEW_STATUSES,
       su_approved_unapplied = count APPROVED_UNAPPLIED_STATUSES\<rparr>)"

definition get_principal_correction_summary_projection ::
  "'a grading_db_scheme \<Rightarrow> user option \<Rightarrow> school \<Rightarrow> correction_summary result" where
  "get_principal_correction_summary_projection db actor tenant =
     (if \<not> can_view_principal_correction_summary db (policy_context_for db actor (Some tenant)
          ''grading.correction.principal.summary.view'' [''principal'', ''school_admin''])
      then Inl (ValidationError ''correction'' ''Correction summary is not available.'')
      else Inr (get_principal_correction_summary db tenant))"

definition get_pending_corrections_for_assessment ::
  "'a grading_db_scheme \<Rightarrow> school \<Rightarrow> assessment \<Rightarrow> correction list" where
  "get_pending_corrections_for_assessment db tenant a =
     (if as_tenant a \<noteq> sc_id tenant then []
      else sort_key (\<lambda>c. - cq_requested_at c) (filter (\<lambda>c. cq_tenant c = sc_id tenant
        \<and> map_option rec_assessment (grade_record_row db (cq_grade_record c)) = Some (as_id a)
        \<and> cq_status c \<in> set BLOCKING_CORRECTION_STATUSES) (corrections db)))"

end
