(* ===== verification/Submission.thy ===== *)
theory Submission
  imports Correction
begin

text \<open>
  Marks from a teacher's grid to official records: submission_idempotency.py,
  submission_confirmation.py, roster_resolver.py, workload_resolver.py, grade_grid_builder.py, the
  selectors a teacher's work reads, and the services of grading/services.py that save a draft and
  submit a batch. SHA-256 of a text is the argument \<open>sha\<close>. Identifiers given by a client are
  already in canonical form. Where the code takes the first row of a queryset, a uniqueness
  constraint of the database leaves at most one.
\<close>

section \<open>Retries (submission_idempotency.py)\<close>

definition canonical_payload_hash :: "(string \<Rightarrow> string) \<Rightarrow> json \<Rightarrow> string result" where
  "canonical_payload_hash sha payload = ebind (dumps True payload) (\<lambda>encoded. Inr (''sha256:'' @ sha encoded))"

definition require_idempotency_key :: "string option \<Rightarrow> string result" where
  "require_idempotency_key idempotency_key =
     (let v = strip (case idempotency_key of None \<Rightarrow> [] | Some k \<Rightarrow> k) in
      if v = [] then Inl (ValidationError ''idempotency_key'' ''Idempotency key is required.'') else Inr v)"

definition ensure_same_payload :: "string \<Rightarrow> string \<Rightarrow> unit result" where
  "ensure_same_payload existing_hash new_hash =
     (if existing_hash \<noteq> [] \<and> existing_hash \<noteq> new_hash
      then Inl (ValidationError ''idempotency_key'' ''Idempotency key was used with a different payload.'')
      else Inr ())"

section \<open>Confirmation (submission_confirmation.py)\<close>

definition ALLOWED_CONFIRMATION_METHODS :: "string list" where
  "ALLOWED_CONFIRMATION_METHODS = [''password_reauth'', ''teacher_pin'', ''session_step_up'']"

definition CONFIRMATION_TTL_SECONDS :: int where "CONFIRMATION_TTL_SECONDS = 300"

text \<open>The confirmation a caller passes: a dict whose \<open>confirmed_at\<close> is a datetime or missing.\<close>

record confirmation =
  cf_fields :: "(string \<times> json) list"
  cf_confirmed_at :: "time option"

record confirmation_result =
  cf_method :: string
  cf_time :: time
  cf_reference :: string

definition validate_confirmation ::
  "confirmation option \<Rightarrow> uuid \<Rightarrow> uuid \<Rightarrow> time \<Rightarrow> confirmation_result result" where
  "validate_confirmation confirmation actor_id tenant_id now =
     (case confirmation of None \<Rightarrow> Inl (ValidationError ''confirmation'' ''Step-up confirmation is required.'')
      | Some c \<Rightarrow>
          let text = \<lambda>k. json_str (jget_or (cf_fields c) k (JStr [])); method = strip (text ''method'') in
          if map_of (cf_fields c) ''password'' \<noteq> None \<or> map_of (cf_fields c) ''pin'' \<noteq> None
          then Inl (ValidationError ''confirmation'' ''Raw credentials are not accepted.'')
          else if method \<notin> set ALLOWED_CONFIRMATION_METHODS
          then Inl (ValidationError ''confirmation'' ''Confirmation method is invalid.'')
          else if text ''actor_id'' \<noteq> actor_id
          then Inl (ValidationError ''confirmation'' ''Confirmation actor is invalid.'')
          else if text ''tenant_id'' \<noteq> tenant_id
          then Inl (ValidationError ''confirmation'' ''Confirmation tenant is invalid.'')
          else (case cf_confirmed_at c of
              None \<Rightarrow> Inl (ValidationError ''confirmation'' ''Confirmation time is required.'')
            | Some confirmed_at \<Rightarrow>
                if now < confirmed_at then Inl (ValidationError ''confirmation'' ''Confirmation time is invalid.'')
                else if seconds CONFIRMATION_TTL_SECONDS < now - confirmed_at
                then Inl (ValidationError ''confirmation'' ''Confirmation has expired.'')
                else let reference = strip (text ''confirmation_reference'') in
                if reference = [] then Inl (ValidationError ''confirmation'' ''Confirmation reference is required.'')
                else Inr \<lparr>cf_method = method, cf_time = confirmed_at, cf_reference = reference\<rparr>))"

section \<open>What a teacher's work reads (selectors.py)\<close>

definition works_on :: "'a academic_db_scheme \<Rightarrow> uuid \<Rightarrow> assessment \<Rightarrow> bool" where
  "works_on db actor_id a \<longleftrightarrow> as_status a = ''open'' \<and> as_version a \<noteq> None \<and> as_rubric a \<noteq> None \<and> as_locked_at a \<noteq> None \<and>
     (\<exists>ta\<in>set (assignments db). ta_cohort ta = as_cohort a \<and> ta_teacher ta = actor_id
        \<and> ta_learning_area ta = as_learning_area a \<and> ta_academic_year ta = as_academic_year a \<and> ta_term ta = as_term a
        \<and> ta_is_active ta)"

definition get_assessment_for_teacher ::
  "'a grading_db_scheme \<Rightarrow> user option \<Rightarrow> school option \<Rightarrow> uuid \<Rightarrow> assessment option" where
  "get_assessment_for_teacher db actor tenant assessment_id =
     (case (actor, tenant) of
        (Some u, Some t) \<Rightarrow> first_where (\<lambda>a. as_id a = assessment_id \<and> as_tenant a = sc_id t \<and> works_on db (us_id u) a)
          (assessments db)
      | _ \<Rightarrow> None)"

definition get_teacher_grading_contexts ::
  "'a grading_db_scheme \<Rightarrow> user option \<Rightarrow> school option \<Rightarrow> uuid option \<Rightarrow> uuid option \<Rightarrow> assessment list" where
  "get_teacher_grading_contexts db actor tenant academic_year term_id =
     (case (actor, tenant) of
        (Some u, Some t) \<Rightarrow> sort_key (\<lambda>a. - as_updated_at a) (filter (\<lambda>a. as_tenant a = sc_id t \<and> works_on db (us_id u) a
            \<and> cohort_active db (as_cohort a) \<and> learning_area_active db (as_learning_area a)
            \<and> (case academic_year of None \<Rightarrow> True | Some y \<Rightarrow> as_academic_year a = y)
            \<and> (case term_id of None \<Rightarrow> True | Some k \<Rightarrow> as_term a = k)) (assessments db))
      | _ \<Rightarrow> [])"

definition get_grade_records_for_assessment ::
  "'a grading_db_scheme \<Rightarrow> user option \<Rightarrow> school option \<Rightarrow> uuid \<Rightarrow> grade_record list" where
  "get_grade_records_for_assessment db actor tenant assessment_id =
     (case (get_assessment_for_teacher db actor tenant assessment_id, tenant) of
        (Some a, Some t) \<Rightarrow> filter (\<lambda>r. rec_tenant r = sc_id t \<and> rec_assessment r = as_id a) (grade_records db)
      | _ \<Rightarrow> [])"

definition get_submission_batches_for_assessment ::
  "'a grading_db_scheme \<Rightarrow> user option \<Rightarrow> school option \<Rightarrow> uuid \<Rightarrow> submission_batch list" where
  "get_submission_batches_for_assessment db actor tenant assessment_id =
     (case (get_assessment_for_teacher db actor tenant assessment_id, tenant) of
        (Some a, Some t) \<Rightarrow> filter (\<lambda>b. bt_tenant b = sc_id t \<and> bt_assessment b = as_id a) (submission_batches db)
      | _ \<Rightarrow> [])"

text \<open>Texts are ordered by code point, as the database does under the C collation.\<close>

definition get_roster_for_assessment :: "'a grading_db_scheme \<Rightarrow> school option \<Rightarrow> assessment \<Rightarrow> student list" where
  "get_roster_for_assessment db tenant a =
     (case tenant of None \<Rightarrow> [] | Some t \<Rightarrow>
        if as_tenant a \<noteq> sc_id t then []
        else sort_key (\<lambda>s. (st_admission_number s, st_last_name s, st_first_name s, st_id s))
          (filter (\<lambda>s. st_tenant s = sc_id t \<and> st_is_active s \<and> (\<exists>e\<in>set (enrollments db). en_student e = st_id s
             \<and> en_tenant e = sc_id t \<and> en_cohort e = as_cohort a \<and> en_academic_year e = as_academic_year a
             \<and> en_term e = as_term a \<and> en_is_active e)) (students db)))"

definition get_existing_draft_for_teacher ::
  "'a grading_db_scheme \<Rightarrow> user option \<Rightarrow> school option \<Rightarrow> assessment \<Rightarrow> draft_batch option" where
  "get_existing_draft_for_teacher db actor tenant a =
     (case (actor, tenant) of
        (Some u, Some t) \<Rightarrow> first_where (\<lambda>d. df_tenant d = sc_id t \<and> df_assessment d = as_id a \<and> df_teacher d = us_id u
          \<and> df_status d = ''draft'') (draft_batches db)
      | _ \<Rightarrow> None)"

definition get_existing_submission_for_assessment ::
  "'a grading_db_scheme \<Rightarrow> user option \<Rightarrow> school option \<Rightarrow> assessment \<Rightarrow> submission_batch option" where
  "get_existing_submission_for_assessment db actor tenant a =
     (case (actor, tenant) of
        (Some u, Some t) \<Rightarrow> first_where (\<lambda>b. bt_tenant b = sc_id t \<and> bt_assessment b = as_id a \<and> bt_teacher b = us_id u
          \<and> bt_status b \<in> set submitted_statuses) (submission_batches db)
      | _ \<Rightarrow> None)"

section \<open>Guards of the services (services.py)\<close>

definition GRADING_ROLE_CODES :: "string list" where
  "GRADING_ROLE_CODES = [''subject_teacher'', ''class_teacher'', ''hod'']"

definition CLIENT_CONTROLLED_FIELDS :: "string list" where
  "CLIENT_CONTROLLED_FIELDS =
     [''tenant'', ''tenant_id'', ''teacher'', ''teacher_id'', ''submitted_by'', ''submitted_by_id'', ''teacher_assignment'',
      ''teacher_assignment_id'', ''status'', ''compiled_at'', ''validated_at'', ''reviewed_by'', ''reviewed_by_id'',
      ''approved_by'', ''approved_by_id'', ''applied_by'', ''applied_by_id'', ''old_state_hash'', ''curriculum_version'',
      ''curriculum_version_id'', ''rubric_foundation'', ''rubric_foundation_id'', ''curriculum_binding_locked_at'']"

definition reject_client_controlled_fields :: "(string \<times> json) list \<Rightarrow> unit result" where
  "reject_client_controlled_fields payload =
     (let row_keys = (case jget payload ''rows'' of
            JList rs \<Rightarrow> concat (map (\<lambda>r. case r of JObj kvs \<Rightarrow> map fst kvs | _ \<Rightarrow> []) rs) | _ \<Rightarrow> []) in
      if \<exists>k\<in>set (map fst payload @ row_keys). k \<in> set CLIENT_CONTROLLED_FIELDS
      then Inl (ValidationError ''payload'' ''Payload contains server-controlled fields.'') else Inr ())"

definition has_grading_role :: "'a identity_db_scheme \<Rightarrow> user option \<Rightarrow> school option \<Rightarrow> bool" where
  "has_grading_role db actor tenant \<longleftrightarrow>
     (case actor of None \<Rightarrow> False | Some u \<Rightarrow> tenant \<noteq> None \<and> us_is_active u
        \<and> (\<exists>k\<in>set GRADING_ROLE_CODES. user_has_role_in_tenant db actor tenant k))"

definition teacher_assignment_for ::
  "'a academic_db_scheme \<Rightarrow> user \<Rightarrow> school \<Rightarrow> assessment \<Rightarrow> teacher_assignment result" where
  "teacher_assignment_for db actor tenant a =
     (case first_where (assigned_to db (sc_id tenant) (us_id actor) a) (assignments db) of
        None \<Rightarrow> Inl (ValidationError ''assessment'' ''Teacher is not assigned to grade this assessment.'')
      | Some ta \<Rightarrow> Inr ta)"

definition grade_rows_payload :: "(string \<times> json) list \<Rightarrow> json result" where
  "grade_rows_payload payload =
     (case jget payload ''rows'' of JList rs \<Rightarrow> Inr (JList rs)
      | _ \<Rightarrow> Inl (ValidationError ''rows'' ''Rows must be provided.''))"

definition assessment_components :: "'a grading_db_scheme \<Rightarrow> assessment \<Rightarrow> component list" where
  "assessment_components db a = map component.truncate
     (sort_key (\<lambda>c. (cm_order c, cm_name c)) (filter (\<lambda>c. cm_assessment c = as_id a) (components db)))"

definition roster_ids :: "'a grading_db_scheme \<Rightarrow> school \<Rightarrow> assessment \<Rightarrow> uuid list" where
  "roster_ids db tenant a = map st_id (get_roster_for_assessment db (Some tenant) a)"

text \<open>\<open>int(value)\<close>: a number is cut at its point, a text must be a signed run of digits.\<close>

definition int_of_text :: "string \<Rightarrow> int result" where
  "int_of_text s =
     (let (neg, t) = split_sign (strip s); digits = filter (\<lambda>c. c \<noteq> CHR ''_'') t in
      if t = [] \<or> hd t = CHR ''_'' \<or> last t = CHR ''_'' \<or> contains ''__'' t \<or> \<not> list_all is_09 digits
      then Inl (ValueError ''invalid literal for int()'')
      else Inr ((if neg then -1 else 1) * int (read_nat digits)))"

definition py_int :: "json \<Rightarrow> int result" where
  "py_int v = (case v of
       JInt i \<Rightarrow> Inr i | JBool b \<Rightarrow> Inr (if b then 1 else 0)
     | JFloat r \<Rightarrow> (case decimal_of_text r of
          Inr (Fin s c e) \<Rightarrow> Inr ((if s then -1 else 1) * \<lfloor>of_nat c * 10 powi e :: rat\<rfloor>)
        | Inr (Inf s) \<Rightarrow> Inl (OtherError ''OverflowError'') | _ \<Rightarrow> Inl (ValueError ''cannot convert float to integer''))
     | JStr s \<Rightarrow> int_of_text s
     | _ \<Rightarrow> Inl TypeError)"

text \<open>The version a client saw is only read when there is a draft to compare it with.\<close>

definition expected_version :: "json \<Rightarrow> draft_batch option \<Rightarrow> int option result" where
  "expected_version v draft =
     (if v = JNull \<or> draft = None then Inr None else ebind (py_int v) (\<lambda>i. Inr (Some i)))"

text \<open>The opening of the services a teacher calls: role, payload, key, assessment, assignment, rows, hash.\<close>

record teacher_call =
  tc_user :: user
  tc_key :: string
  tc_assessment :: assessment
  tc_assignment :: teacher_assignment
  tc_rows :: json
  tc_hash :: string

definition open_call ::
  "(string \<Rightarrow> string) \<Rightarrow> 'a grading_db_scheme \<Rightarrow> user option \<Rightarrow> school \<Rightarrow> uuid \<Rightarrow> (string \<times> json) list \<Rightarrow> string option
     \<Rightarrow> teacher_call result" where
  "open_call sha db actor tenant assessment_id payload idempotency_key =
     (if \<not> has_grading_role db actor (Some tenant)
      then Inl (ValidationError ''assessment'' ''Assessment is not available.'')
      else ebind (reject_client_controlled_fields payload) (\<lambda>_.
        ebind (require_idempotency_key idempotency_key) (\<lambda>key.
          case (actor, get_assessment_for_teacher db actor (Some tenant) assessment_id) of
            (Some u, Some a) \<Rightarrow>
              ebind (teacher_assignment_for db u tenant a) (\<lambda>ta.
                ebind (grade_rows_payload payload) (\<lambda>rows.
                  ebind (canonical_payload_hash sha rows) (\<lambda>h.
                    Inr \<lparr>tc_user = u, tc_key = key, tc_assessment = a, tc_assignment = ta, tc_rows = rows, tc_hash = h\<rparr>)))
          | _ \<Rightarrow> Inl (ValidationError ''assessment'' ''Assessment is not available.''))))"

section \<open>Inserting many rows\<close>

text \<open>
  \<open>bulk_create\<close> runs no validation: only what the columns and constraints of the database refuse
  raises. Every row of a call gets its columns from a checked grade row.
\<close>

definition new_draft_row :: "uuid \<Rightarrow> uuid \<Rightarrow> grade_row \<Rightarrow> draft_row" where
  "new_draft_row tenant draft_id r =
     \<lparr>dr_draft_batch = draft_id, dr_tenant = tenant, dr_student = gr_student_id r,
      dr_raw_score = map_option stored_2 (gr_raw_score r), dr_component_scores = gr_component_scores r,
      dr_remarks = gr_remarks r, dr_row_version = 1\<rparr>"

definition bulk_create_draft_rows :: "draft_row list \<Rightarrow> ('a grading_db_scheme, unit) action" where
  "bulk_create_draft_rows rows db =
     (if \<exists>r\<in>set rows. \<not> json_field (dr_component_scores r) then (Inl TypeError, db)
      else if \<exists>r\<in>set rows. \<exists>q\<in>set (draft_rows db). dr_draft_batch q = dr_draft_batch r \<and> dr_student q = dr_student r
      then (Inl IntegrityError, db)
      else (Inr (), db\<lparr>draft_rows := draft_rows db @ rows\<rparr>))"

definition new_grade_record :: "uuid \<Rightarrow> assessment \<Rightarrow> uuid \<Rightarrow> uuid \<Rightarrow> uuid \<Rightarrow> grade_row \<Rightarrow> decimal \<Rightarrow> grade_record" where
  "new_grade_record tenant a batch_id submitted_by new_id r score =
     \<lparr>rec_id = new_id, rec_tenant = tenant, rec_assessment = as_id a, rec_submission_batch = batch_id,
      rec_student = gr_student_id r, rec_raw_score = stored_2 score, rec_normalized_score = None,
      rec_component_scores = gr_component_scores r, rec_remarks = gr_remarks r, rec_schema_version = [],
      rec_band_label = [], rec_band_descriptor = [], rec_version = 1, rec_submitted_by = submitted_by\<rparr>"

text \<open>A missing score violates the column, a second record of a learner the uniqueness of records.\<close>

definition bulk_create_records ::
  "uuid \<Rightarrow> assessment \<Rightarrow> uuid \<Rightarrow> uuid \<Rightarrow> (uuid \<times> grade_row) list \<Rightarrow> ('a grading_db_scheme, unit) action" where
  "bulk_create_records tenant a batch_id submitted_by rows db =
     (if \<exists>(i, r)\<in>set rows. \<not> json_field (gr_component_scores r) then (Inl TypeError, db)
      else if (\<exists>(i, r)\<in>set rows. gr_raw_score r = None \<or>
             (\<exists>q\<in>set (grade_records db). rec_tenant q = tenant \<and> rec_assessment q = as_id a \<and> rec_student q = gr_student_id r))
      then (Inl IntegrityError, db)
      else (Inr (), db\<lparr>grade_records := grade_records db @
        concat (map (\<lambda>(i, r). case gr_raw_score r of None \<Rightarrow> []
          | Some d \<Rightarrow> [new_grade_record tenant a batch_id submitted_by i r d]) rows)\<rparr>))"

section \<open>Saving a draft\<close>

definition draft_by_key :: "'a grading_db_scheme \<Rightarrow> school \<Rightarrow> string \<Rightarrow> draft_batch option" where
  "draft_by_key db tenant key = first_where (\<lambda>d. df_tenant d = sc_id tenant \<and> df_idempotency_key d = key) (draft_batches db)"

text \<open>A fresh save: the checks against the open draft, then the new or the changed draft and its rows.\<close>

definition store_draft :: "uuid \<Rightarrow> school \<Rightarrow> json \<Rightarrow> teacher_call \<Rightarrow> ('a grading_db_scheme, draft_batch) action" where
  "store_draft new_id tenant seen tc =
     (let a = tc_assessment tc; uid = us_id (tc_user tc) in
      abind (query (\<lambda>db. let draft = get_existing_draft_for_teacher db (Some (tc_user tc)) (Some tenant) a in
          ebind (expected_version seen draft) (\<lambda>expected.
            ebind (validate_draft_version (map_option df_version draft) expected) (\<lambda>_.
              ebind (normalize_draft_rows (tc_rows tc) (roster_ids db tenant a) (as_max_score a) (assessment_components db a))
                (\<lambda>rows. Inr (draft, rows)))))) (\<lambda>(draft, rows).
        abind (case draft of
            None \<Rightarrow> save_row draft_full_clean add_draft
              \<lparr>df_id = new_id, df_tenant = sc_id tenant, df_assessment = as_id a, df_teacher = uid,
               df_teacher_assignment = ta_id (tc_assignment tc), df_cohort = as_cohort a, df_learning_area = as_learning_area a,
               df_idempotency_key = tc_key tc, df_payload_hash = tc_hash tc, df_version = 1, df_status = ''draft''\<rparr>
          | Some d \<Rightarrow> abind (save_row draft_full_clean put_draft
                (d\<lparr>df_version := df_version d + 1, df_idempotency_key := tc_key tc, df_payload_hash := tc_hash tc\<rparr>)) (\<lambda>d db.
              (Inr d, db\<lparr>draft_rows := filter (\<lambda>r. dr_draft_batch r \<noteq> df_id d) (draft_rows db)\<rparr>))) (\<lambda>d.
          abind (bulk_create_draft_rows (map (new_draft_row (sc_id tenant) (df_id d)) rows)) (\<lambda>_. alift (Inr d)))))"

definition save_grade_draft ::
  "(string \<Rightarrow> string) \<Rightarrow> uuid \<Rightarrow> user option \<Rightarrow> school \<Rightarrow> uuid \<Rightarrow> (string \<times> json) list \<Rightarrow> string option
     \<Rightarrow> ('a grading_db_scheme, draft_batch) action" where
  "save_grade_draft sha new_id actor tenant assessment_id payload idempotency_key =
     atomic (abind (query (\<lambda>db. open_call sha db actor tenant assessment_id payload idempotency_key)) (\<lambda>tc db.
       case draft_by_key db tenant (tc_key tc) of
         Some d \<Rightarrow>
           if df_assessment d \<noteq> as_id (tc_assessment tc) \<or> df_teacher d \<noteq> us_id (tc_user tc)
           then (Inl (ValidationError ''idempotency_key'' ''Idempotency key belongs to another context.''), db)
           else (ebind (ensure_same_payload (df_payload_hash d) (tc_hash tc)) (\<lambda>_. Inr d), db)
       | None \<Rightarrow> store_draft new_id tenant (jget payload ''draft_version'') tc db))"

section \<open>Submitting a batch\<close>

definition submission_by_key :: "'a grading_db_scheme \<Rightarrow> school \<Rightarrow> string \<Rightarrow> submission_batch option" where
  "submission_by_key db tenant key = first_where (\<lambda>b. bt_tenant b = sc_id tenant \<and> bt_idempotency_key b = key
     \<and> bt_status b \<in> set submitted_statuses) (submission_batches db)"

definition mark_drafts_submitted :: "school \<Rightarrow> teacher_call \<Rightarrow> 'a grading_db_scheme \<Rightarrow> 'a grading_db_scheme" where
  "mark_drafts_submitted tenant tc db = db\<lparr>draft_batches := update_where (\<lambda>d. df_tenant d = sc_id tenant
     \<and> df_assessment d = as_id (tc_assessment tc) \<and> df_teacher d = us_id (tc_user tc) \<and> df_status d = ''draft'')
     (\<lambda>d. d\<lparr>df_status := ''submitted''\<rparr>) (draft_batches db)\<rparr>"

text \<open>A first submission; \<open>new_record_ids k\<close> is the identifier of the record of row \<open>k\<close>.\<close>

definition store_submission ::
  "time \<Rightarrow> uuid \<Rightarrow> (nat \<Rightarrow> uuid) \<Rightarrow> school \<Rightarrow> confirmation option \<Rightarrow> teacher_call \<Rightarrow> ('a grading_db_scheme, submission_batch) action" where
  "store_submission now new_id new_record_ids tenant confirmation tc =
     (let a = tc_assessment tc; uid = us_id (tc_user tc) in
      abind (query (\<lambda>db.
          if get_existing_submission_for_assessment db (Some (tc_user tc)) (Some tenant) a \<noteq> None
          then Inl (ValidationError ''assessment'' ''Assessment already has a submission.'')
          else ebind (validate_confirmation confirmation uid (sc_id tenant) now) (\<lambda>conf.
            ebind (validate_grade_rows (tc_rows tc) (roster_ids db tenant a) (as_max_score a) (assessment_components db a) True)
              (\<lambda>rows. Inr (conf, rows))))) (\<lambda>(conf, rows).
        abind (save_row batch_full_clean add_batch
            \<lparr>bt_id = new_id, bt_tenant = sc_id tenant, bt_assessment = as_id a, bt_teacher = uid,
             bt_teacher_assignment = ta_id (tc_assignment tc), bt_cohort = as_cohort a, bt_learning_area = as_learning_area a,
             bt_idempotency_key = tc_key tc, bt_payload_hash = tc_hash tc, bt_record_count = int (length rows),
             bt_status = ''submitted'', bt_submitted_at = Some now, bt_confirmation_method = cf_method conf,
             bt_confirmation_at = Some (cf_time conf), bt_confirmation_reference = cf_reference conf\<rparr>) (\<lambda>b.
          abind (bulk_create_records (sc_id tenant) a (bt_id b) uid (zip (map new_record_ids [0..<length rows]) rows)) (\<lambda>_ db.
            (Inr b, mark_drafts_submitted tenant tc db)))))"

text \<open>Whether the batch is new decides if the event is written after the commit.\<close>

definition submit_in_transaction ::
  "(string \<Rightarrow> string) \<Rightarrow> time \<Rightarrow> uuid \<Rightarrow> (nat \<Rightarrow> uuid) \<Rightarrow> user option \<Rightarrow> school \<Rightarrow> uuid \<Rightarrow> (string \<times> json) list \<Rightarrow> string option
     \<Rightarrow> confirmation option \<Rightarrow> ('a grading_db_scheme, (assessment \<times> user) option \<times> submission_batch) action" where
  "submit_in_transaction sha now new_id new_record_ids actor tenant assessment_id payload idempotency_key confirmation =
     atomic (abind (query (\<lambda>db. open_call sha db actor tenant assessment_id payload idempotency_key)) (\<lambda>tc db.
       case submission_by_key db tenant (tc_key tc) of
         Some b \<Rightarrow>
           if bt_assessment b \<noteq> as_id (tc_assessment tc) \<or> bt_teacher b \<noteq> us_id (tc_user tc)
           then (Inl (ValidationError ''idempotency_key'' ''Idempotency key belongs to another context.''), db)
           else (ebind (ensure_same_payload (bt_payload_hash b) (tc_hash tc)) (\<lambda>_. Inr (None, b)), db)
       | None \<Rightarrow> abind (store_submission now new_id new_record_ids tenant confirmation tc)
           (\<lambda>b. alift (Inr (Some (tc_assessment tc, tc_user tc), b))) db))"

definition grading_event :: "string \<Rightarrow> string \<Rightarrow> (string \<times> json) list \<Rightarrow> uuid option \<Rightarrow> uuid option \<Rightarrow> outbox_request" where
  "grading_event event_type key payload tenant actor_id =
     \<lparr>rq_event_type = event_type, rq_event_version = 1, rq_source_module = ''grading'',
      rq_idempotency_key = key, rq_payload = JObj payload, rq_tenant = tenant, rq_actor_id = actor_id,
      rq_partition_key = None, rq_occurred_at = None, rq_priority = None\<rparr>"

definition opt_text :: "uuid option \<Rightarrow> string" where
  "opt_text v = (case v of None \<Rightarrow> ''None'' | Some i \<Rightarrow> i)"

definition batch_submitted_event :: "(time \<Rightarrow> string) \<Rightarrow> time \<Rightarrow> school \<Rightarrow> assessment \<Rightarrow> user \<Rightarrow> submission_batch \<Rightarrow> outbox_request" where
  "batch_submitted_event isoformat now tenant a u b =
     grading_event ''grading.batch_submitted'' (''grading.batch_submitted:'' @ bt_id b)
       [(''tenant_id'', JStr (sc_id tenant)), (''assessment_id'', JStr (as_id a)), (''batch_id'', JStr (bt_id b)),
        (''cohort_id'', JStr (as_cohort a)), (''learning_area_id'', JStr (as_learning_area a)),
        (''curriculum_version_id'', JStr (opt_text (as_version a))), (''rubric_foundation_id'', JStr (opt_text (as_rubric a))),
        (''record_count'', JInt (bt_record_count b)), (''submitted_at'', JStr (isoformat now))]
       (Some (sc_id tenant)) (Some (us_id u))"

definition submit_grade_batch ::
  "(string \<Rightarrow> string) \<Rightarrow> (time \<Rightarrow> string) \<Rightarrow> time \<Rightarrow> uuid \<Rightarrow> (nat \<Rightarrow> uuid) \<Rightarrow> uuid \<Rightarrow> user option \<Rightarrow> school \<Rightarrow> uuid \<Rightarrow> (string \<times> json) list
     \<Rightarrow> string option \<Rightarrow> confirmation option \<Rightarrow> ('a grading_db_scheme, submission_batch) action" where
  "submit_grade_batch sha isoformat now new_id new_record_ids event_id actor tenant assessment_id payload idempotency_key confirmation db =
     (case submit_in_transaction sha now new_id new_record_ids actor tenant assessment_id payload idempotency_key confirmation db of
        (Inl e, db1) \<Rightarrow> (Inl e, db1)
      | (Inr (None, b), db1) \<Rightarrow> (Inr b, db1)
      | (Inr (Some (a, u), b), db1) \<Rightarrow>
          record_after_commit now event_id (batch_submitted_event isoformat now tenant a u) (alift (Inr b)) db1)"

section \<open>Helpers kept for other callers\<close>

definition build_submission_batch ::
  "time \<Rightarrow> uuid \<Rightarrow> school \<Rightarrow> user \<Rightarrow> assessment \<Rightarrow> teacher_assignment \<Rightarrow> string \<Rightarrow> int \<Rightarrow> string \<Rightarrow> string \<Rightarrow> string \<Rightarrow> time option \<Rightarrow> string
     \<Rightarrow> ('a grading_db_scheme, submission_batch) action" where
  "build_submission_batch now new_id tenant actor a ta idempotency_key record_count status payload_hash confirmation_method
       confirmation_at confirmation_reference db =
     (if ta_teacher ta \<noteq> us_id actor
      then (Inl (ValidationError ''teacher_assignment'' ''Teacher assignment is invalid.''), db)
      else save_row batch_full_clean add_batch
        \<lparr>bt_id = new_id, bt_tenant = sc_id tenant, bt_assessment = as_id a, bt_teacher = us_id actor,
         bt_teacher_assignment = ta_id ta, bt_cohort = as_cohort a, bt_learning_area = as_learning_area a,
         bt_idempotency_key = idempotency_key, bt_payload_hash = payload_hash, bt_record_count = record_count,
         bt_status = status, bt_submitted_at = (if status \<noteq> ''draft'' then Some now else None),
         bt_confirmation_method = confirmation_method,
         bt_confirmation_at = (case confirmation_at of None \<Rightarrow> Some now | Some t \<Rightarrow> Some t),
         bt_confirmation_reference = confirmation_reference\<rparr> db)"

definition build_grade_record ::
  "uuid \<Rightarrow> school \<Rightarrow> user \<Rightarrow> assessment \<Rightarrow> submission_batch \<Rightarrow> uuid \<Rightarrow> decimal \<Rightarrow> string \<Rightarrow> json \<Rightarrow> ('a grading_db_scheme, grade_record) action" where
  "build_grade_record new_id tenant actor a b student raw_score remarks component_scores =
     save_row record_full_clean (\<lambda>r db. db\<lparr>grade_records := grade_records db @ [r\<lparr>rec_raw_score := stored_2 (rec_raw_score r)\<rparr>]\<rparr>)
       \<lparr>rec_id = new_id, rec_tenant = sc_id tenant, rec_assessment = as_id a, rec_submission_batch = bt_id b,
        rec_student = student, rec_raw_score = raw_score, rec_normalized_score = None,
        rec_component_scores = or_json component_scores (JObj []), rec_remarks = remarks, rec_schema_version = [],
        rec_band_label = [], rec_band_descriptor = [], rec_version = 1, rec_submitted_by = us_id actor\<rparr>"

end
