(* ===== verification/Compilation.thy ===== *)
theory Compilation
  imports Submission
begin

text \<open>
  From official records to compiled facts: compilation_inputs.py, missing_marks.py,
  component_summary.py, score_summary.py, compilation_status.py, cohort_summary_builder.py,
  learner_snapshot_builder.py, the compiled rows of grading/models.py and the services
  \<open>compile_assessment\<close> and \<open>compile_submission_batch\<close>. One call reads the clock once: the time of
  a run's creation is its \<open>compiled_at\<close>. Identifiers of stored rows are distinct, so a dict keyed by
  the identifiers of the components is their list.
\<close>

section \<open>Compiled rows (models.py)\<close>

record assessment_snapshot =
  an_id :: uuid
  an_tenant :: uuid
  an_run :: uuid
  an_assessment :: uuid
  an_cohort :: uuid
  an_learning_area :: uuid
  an_version :: uuid
  an_rubric :: "uuid option"
  an_status :: string
  an_context :: json
  an_summary :: json
  an_compiled_at :: time

record learner_snapshot =
  ls_id :: uuid
  ls_tenant :: uuid
  ls_run :: uuid
  ls_assessment :: uuid
  ls_student :: uuid
  ls_cohort :: uuid
  ls_learning_area :: uuid
  ls_version :: uuid
  ls_rubric :: "uuid option"
  ls_status :: string
  ls_score_summary :: json
  ls_component_summary :: json
  ls_missing_marks :: json
  ls_band_status :: string
  ls_source_batch_ids :: "string list"
  ls_compiled_at :: time

record cohort_summary =
  sm_id :: uuid
  sm_tenant :: uuid
  sm_run :: uuid
  sm_assessment :: uuid
  sm_cohort :: uuid
  sm_learning_area :: uuid
  sm_expected :: int
  sm_submitted :: int
  sm_missing :: int
  sm_completion :: decimal
  sm_component_summary :: json
  sm_status :: string
  sm_compiled_at :: time

record compiled_db = grading_db +
  assessment_snapshots :: "assessment_snapshot list"
  learner_snapshots :: "learner_snapshot list"
  cohort_summaries :: "cohort_summary list"

definition run_row :: "'a grading_db_scheme \<Rightarrow> uuid \<Rightarrow> compilation_run option" where
  "run_row db i = first_where (\<lambda>q. cr_id q = i) (compilation_runs db)"

section \<open>What a compilation reads (selectors.py)\<close>

definition get_submitted_records_for_assessment :: "'a grading_db_scheme \<Rightarrow> school \<Rightarrow> assessment \<Rightarrow> grade_record list" where
  "get_submitted_records_for_assessment db tenant a =
     (if as_tenant a \<noteq> sc_id tenant then []
      else sort_key (\<lambda>r. (case student_row db (rec_student r) of None \<Rightarrow> [] | Some s \<Rightarrow> st_admission_number s, rec_student r))
        (filter (\<lambda>r. rec_tenant r = sc_id tenant \<and> rec_assessment r = as_id a
           \<and> map_option bt_status (batch_row db (rec_submission_batch r)) = Some ''submitted'') (grade_records db)))"

definition get_expected_roster_for_compilation :: "'a grading_db_scheme \<Rightarrow> school \<Rightarrow> assessment \<Rightarrow> student list" where
  "get_expected_roster_for_compilation db tenant a = get_roster_for_assessment db (Some tenant) a"

definition get_assessment_components_for_compilation ::
  "'a grading_db_scheme \<Rightarrow> school \<Rightarrow> assessment \<Rightarrow> assessment_component list" where
  "get_assessment_components_for_compilation db tenant a =
     (if as_tenant a \<noteq> sc_id tenant then []
      else sort_key (\<lambda>c. (cm_order c, cm_name c))
        (filter (\<lambda>c. cm_tenant c = sc_id tenant \<and> cm_assessment c = as_id a) (components db)))"

text \<open>The newest run; of runs created at one instant the one compiled last, then the greater identifier.\<close>

definition get_latest_compilation_run :: "'a grading_db_scheme \<Rightarrow> school \<Rightarrow> assessment \<Rightarrow> compilation_run option" where
  "get_latest_compilation_run db tenant a =
     (case rev (sort_key (\<lambda>q. (cr_created_at q, case cr_compiled_at q of None \<Rightarrow> [] | Some t \<Rightarrow> [t], cr_id q))
        (filter (\<lambda>q. cr_tenant q = sc_id tenant \<and> cr_assessment q = as_id a) (compilation_runs db))) of
        [] \<Rightarrow> None | q # _ \<Rightarrow> Some q)"

section \<open>The input contract (compilation_inputs.py)\<close>

record compilation_input =
  ci_tenant_id :: uuid
  ci_assessment :: assessment
  ci_roster :: "uuid list"
  ci_records :: "grade_record list"
  ci_components :: "assessment_component list"
  ci_source_batch_ids :: "uuid list"

definition record_in_scope :: "'a grading_db_scheme \<Rightarrow> school \<Rightarrow> assessment \<Rightarrow> grade_record \<Rightarrow> unit result" where
  "record_in_scope db tenant a r =
     (if rec_tenant r \<noteq> sc_id tenant \<or> rec_assessment r \<noteq> as_id a
      then Inl (ValidationError ''grade_record'' ''Grade record scope is invalid.'')
      else if map_option bt_status (batch_row db (rec_submission_batch r)) \<noteq> Some ''submitted''
      then Inl (ValidationError ''grade_record'' ''Only submitted records compile.'') else Inr ())"

definition build_compilation_input ::
  "'a grading_db_scheme \<Rightarrow> school option \<Rightarrow> assessment option \<Rightarrow> student list \<Rightarrow> grade_record list \<Rightarrow> assessment_component list
     \<Rightarrow> compilation_input result" where
  "build_compilation_input db tenant assessment roster records comps =
     (case (tenant, assessment) of
        (Some t, Some a) \<Rightarrow>
          if as_tenant a \<noteq> sc_id t then Inl (ValidationError ''assessment'' ''Assessment tenant is invalid.'')
          else if as_status a \<noteq> ''open'' then Inl (ValidationError ''assessment'' ''Assessment is not compilable.'')
          else if \<not> is_operationally_bound db a then Inl (ValidationError ''assessment'' ''Assessment is not CBE/CCT-bound.'')
          else ebind (echeck (record_in_scope db t a) records) (\<lambda>_.
            ebind (echeck (\<lambda>c. if cm_tenant c \<noteq> sc_id t \<or> cm_assessment c \<noteq> as_id a
                then Inl (ValidationError ''component'' ''Component scope is invalid.'') else Inr ()) comps) (\<lambda>_.
              Inr \<lparr>ci_tenant_id = sc_id t, ci_assessment = a, ci_roster = remdups (map st_id roster), ci_records = records,
                   ci_components = comps, ci_source_batch_ids = py_sorted_set (map rec_submission_batch records)\<rparr>))
      | _ \<Rightarrow> Inl (ValidationError ''tenant'' ''Compilation context is required.''))"

section \<open>Missing marks (missing_marks.py)\<close>

record mark_finding =
  mf_learner_id :: uuid
  mf_missing_fields :: "string list"
  mf_severity :: string
  mf_code :: string

text \<open>\<open>(record.component_scores or {}).get(...)\<close>: only a dict has \<open>get\<close>.\<close>

definition component_scores_of :: "grade_record \<Rightarrow> (string \<times> json) list result" where
  "component_scores_of r = (case or_json (rec_component_scores r) (JObj []) of
     JObj kvs \<Rightarrow> Inr kvs | _ \<Rightarrow> Inl (OtherError ''AttributeError''))"

definition missing_components :: "string list \<Rightarrow> grade_record \<Rightarrow> string list result" where
  "missing_components component_ids r =
     (if component_ids = [] then Inr []
      else ebind (component_scores_of r) (\<lambda>scores. Inr (filter (\<lambda>i. blank_value (jget scores i)) component_ids)))"

text \<open>One record of the scan: the findings so far, the learners seen, the learners seen twice.\<close>

definition scan_record ::
  "uuid list \<Rightarrow> string list \<Rightarrow> grade_record \<Rightarrow> mark_finding list \<times> uuid list \<times> uuid list
     \<Rightarrow> (mark_finding list \<times> uuid list \<times> uuid list) result" where
  "scan_record roster component_ids r state =
     (let (findings, seen, duplicates) = state; s = rec_student r;
          duplicates' = (if s \<in> set seen then s # duplicates else duplicates); seen' = s # seen in
      if s \<notin> set roster
      then Inr (findings @ [\<lparr>mf_learner_id = s, mf_missing_fields = [], mf_severity = ''failed'',
                              mf_code = ''student_outside_roster''\<rparr>], seen', duplicates')
      else ebind (missing_components component_ids r) (\<lambda>missing.
        Inr (if missing \<noteq> []
             then findings @ [\<lparr>mf_learner_id = s, mf_missing_fields = missing, mf_severity = ''blocked'',
                                mf_code = ''missing_required_component''\<rparr>]
             else findings, seen', duplicates')))"

definition detect_missing_marks ::
  "uuid list \<Rightarrow> grade_record list \<Rightarrow> assessment_component list \<Rightarrow> mark_finding list result" where
  "detect_missing_marks roster records comps =
     ebind (efold (scan_record roster (map cm_id (filter cm_is_required comps))) records ([], [], []))
       (\<lambda>(findings, seen, duplicates).
         Inr (sort_key (\<lambda>f. (mf_learner_id f, mf_code f)) (findings
           @ map (\<lambda>s. \<lparr>mf_learner_id = s, mf_missing_fields = [''raw_score''], mf_severity = ''partial'',
                        mf_code = ''missing_learner_mark''\<rparr>) (py_sorted_set (filter (\<lambda>s. s \<notin> set seen) roster))
           @ map (\<lambda>s. \<lparr>mf_learner_id = s, mf_missing_fields = [], mf_severity = ''failed'',
                        mf_code = ''duplicate_grade_record''\<rparr>) (py_sorted_set duplicates))))"

section \<open>Components (component_summary.py)\<close>

record component_fact =
  pt_component_id :: uuid
  pt_score :: "string option"
  pt_max_score :: string
  pt_is_required :: bool
  pt_rubric :: "uuid option"

record component_facts =
  ps_mode :: string
  ps_components :: "component_fact list"
  ps_total :: "string option"
  ps_missing_required :: "uuid list"

definition component_fact_for :: "(string \<times> json) list \<Rightarrow> assessment_component \<Rightarrow> component_fact result" where
  "component_fact_for scores c =
     (let raw_value = jget scores (cm_id c);
          fact = \<lambda>score. \<lparr>pt_component_id = cm_id c, pt_score = score, pt_max_score = dec_str (cm_max_score c),
                           pt_is_required = cm_is_required c, pt_rubric = cm_rubric c\<rparr> in
      if blank_value raw_value then Inr (fact None)
      else ebind (validate_score_bounds (json_str raw_value) (dec_str (cm_max_score c))) (\<lambda>score.
        Inr (fact (Some (dec_str score)))))"

definition build_component_summary ::
  "(string \<times> json) list \<Rightarrow> assessment_component list \<Rightarrow> decimal \<Rightarrow> component_facts result" where
  "build_component_summary scores comps assessment_max_score =
     ebind (emap (component_fact_for scores) comps) (\<lambda>facts.
       ebind (component_total (map snd (filter (\<lambda>(k, v). k \<in> cm_id ` set comps \<and> \<not> blank_value v) scores))) (\<lambda>total.
         ebind (validate_score_bounds (dec_str total) (dec_str assessment_max_score)) (\<lambda>_.
           Inr \<lparr>ps_mode = (if comps \<noteq> [] then ''component'' else ''simple''), ps_components = facts,
                ps_total = (if comps \<noteq> [] then Some (dec_str total) else None),
                ps_missing_required = map pt_component_id (filter (\<lambda>f. pt_score f = None \<and> pt_is_required f) facts)\<rparr>)))"

definition record_component_summary ::
  "assessment_component list \<Rightarrow> decimal \<Rightarrow> grade_record \<Rightarrow> component_facts result" where
  "record_component_summary comps assessment_max_score r =
     ebind (component_scores_of r) (\<lambda>scores. build_component_summary scores comps assessment_max_score)"

text \<open>Only a validation error makes a record invalid; any other exception ends the compilation.\<close>

definition detect_invalid_component_scores ::
  "grade_record list \<Rightarrow> assessment_component list \<Rightarrow> decimal \<Rightarrow> mark_finding list result" where
  "detect_invalid_component_scores records comps assessment_max_score =
     efold (\<lambda>r invalid. case record_component_summary comps assessment_max_score r of
         Inr _ \<Rightarrow> Inr invalid
       | Inl (ValidationError _ _) \<Rightarrow>
           Inr (invalid @ [\<lparr>mf_learner_id = rec_student r, mf_missing_fields = [], mf_severity = ''failed'',
                             mf_code = ''invalid_component_score''\<rparr>])
       | Inl e \<Rightarrow> Inl e) records []"

section \<open>Status and cohort summary (compilation_status.py, cohort_summary_builder.py)\<close>

definition determine_compilation_status :: "mark_finding list \<Rightarrow> mark_finding list \<Rightarrow> bool \<Rightarrow> string" where
  "determine_compilation_status missing_marks invalid_records has_submitted_records =
     (if invalid_records \<noteq> [] then ''failed''
      else if \<not> has_submitted_records then ''blocked''
      else if missing_marks \<noteq> [] then ''partial'' else ''complete'')"

text \<open>\<open>Decimal(n)\<close> of an int.\<close>

definition dec_int :: "int \<Rightarrow> decimal" where
  "dec_int n = Fin (n < 0) (nat \<bar>n\<bar>) 0"

definition completion_percentage :: "int \<Rightarrow> int \<Rightarrow> decimal result" where
  "completion_percentage submitted_count expected_count =
     (if expected_count \<le> 0 then Inr (Fin False 0 (-2)) else dec_percent (dec_int submitted_count) (dec_int expected_count))"

definition component_completion_summary :: "assessment_component list \<Rightarrow> mark_finding list \<Rightarrow> json" where
  "component_completion_summary comps missing_marks =
     JObj [(''component_count'', JInt (int (length comps))),
           (''required_component_count'', JInt (int (length (filter cm_is_required comps)))),
           (''missing_required_component_count'',
             JInt (int (length (filter (\<lambda>f. mf_code f = ''missing_required_component'') missing_marks))))]"

definition build_cohort_summary ::
  "assessment \<Rightarrow> int \<Rightarrow> int \<Rightarrow> int \<Rightarrow> json \<Rightarrow> string \<Rightarrow> (decimal \<times> json) result" where
  "build_cohort_summary a expected_count submitted_count missing_count component_summary status =
     ebind (completion_percentage submitted_count expected_count) (\<lambda>completion. Inr (completion,
       JObj [(''tenant_id'', JStr (as_tenant a)), (''assessment_id'', JStr (as_id a)), (''cohort_id'', JStr (as_cohort a)),
             (''learning_area_id'', JStr (as_learning_area a)), (''expected_learner_count'', JInt expected_count),
             (''submitted_learner_count'', JInt submitted_count), (''missing_learner_count'', JInt missing_count),
             (''completion_percentage'', JStr (dec_str completion)), (''component_summary'', component_summary),
             (''compilation_status'', JStr status)]))"

section \<open>Learner facts (score_summary.py, learner_snapshot_builder.py)\<close>

definition opt_json :: "string option \<Rightarrow> json" where
  "opt_json v = (case v of None \<Rightarrow> JNull | Some s \<Rightarrow> JStr s)"

definition build_score_summary :: "grade_record \<Rightarrow> assessment \<Rightarrow> json result" where
  "build_score_summary r a =
     ebind (percentage (rec_raw_score r) (as_max_score a)) (\<lambda>pct. Inr (JObj
       [(''raw_score'', JStr (dec_str (rec_raw_score r))),
        (''normalized_score'', opt_json (map_option dec_str (rec_normalized_score r))),
        (''max_score'', JStr (dec_str (as_max_score a))), (''percentage'', JStr (dec_str pct))]))"

definition component_fact_json :: "component_fact \<Rightarrow> json" where
  "component_fact_json f = JObj [(''component_id'', JStr (pt_component_id f)), (''score'', opt_json (pt_score f)),
     (''max_score'', JStr (pt_max_score f)), (''is_required'', JBool (pt_is_required f)),
     (''rubric_foundation_id'', opt_json (pt_rubric f))]"

definition component_facts_json :: "component_facts \<Rightarrow> json" where
  "component_facts_json p = JObj [(''mode'', JStr (ps_mode p)), (''components'', JList (map component_fact_json (ps_components p))),
     (''component_total'', opt_json (ps_total p)),
     (''missing_required_component_ids'', JList (map JStr (ps_missing_required p)))]"

definition mark_finding_json :: "mark_finding \<Rightarrow> json" where
  "mark_finding_json f = JObj [(''learner_id'', JStr (mf_learner_id f)),
     (''missing_fields'', JList (map JStr (mf_missing_fields f))), (''severity'', JStr (mf_severity f)), (''code'', JStr (mf_code f))]"

record learner_facts =
  lf_learner_id :: uuid
  lf_score_summary :: json
  lf_component_summary :: json
  lf_missing_marks :: json
  lf_band_status :: string
  lf_status :: string
  lf_source_batch_ids :: "string list"

definition learner_facts_for ::
  "compilation_input \<Rightarrow> mark_finding list \<Rightarrow> string \<Rightarrow> grade_record \<Rightarrow> learner_facts result" where
  "learner_facts_for ci missing_marks status r =
     (let a = ci_assessment ci in
      ebind (record_component_summary (ci_components ci) (as_max_score a) r) (\<lambda>component_summary.
        ebind (build_score_summary r a) (\<lambda>score_summary.
          Inr \<lparr>lf_learner_id = rec_student r, lf_score_summary = score_summary,
               lf_component_summary = component_facts_json component_summary,
               lf_missing_marks = JList (map mark_finding_json (filter (\<lambda>f. mf_learner_id f = rec_student r) missing_marks)),
               lf_band_status = cb_status (map_cbe_band (as_rubric a)), lf_status = status,
               lf_source_batch_ids = ci_source_batch_ids ci\<rparr>)))"

definition build_learner_snapshots ::
  "compilation_input \<Rightarrow> mark_finding list \<Rightarrow> string \<Rightarrow> learner_facts list result" where
  "build_learner_snapshots ci missing_marks status =
     emap (learner_facts_for ci missing_marks status) (sort_key rec_student (ci_records ci))"

section \<open>Saving compiled rows (models.py)\<close>

definition compilation_statuses :: "string list" where
  "compilation_statuses = [''pending'', ''complete'', ''partial'', ''failed'', ''stale'', ''blocked'']"

definition run_full_clean :: "'a grading_db_scheme \<Rightarrow> compilation_run \<Rightarrow> compilation_run result" where
  "run_full_clean db q =
     (if \<not> (school_exists db (cr_tenant q) \<and> opt_fk (user_exists db) (cr_requested_by q) \<and> cr_status q \<in> set compilation_statuses
            \<and> positive_integer_field (cr_expected q) \<and> positive_integer_field (cr_submitted q)
            \<and> positive_integer_field (cr_missing q) \<and> length (cr_error_summary q) \<le> 255)
      then Inl (field_error ''status'')
      else case assessment_row db (cr_assessment q) of
        None \<Rightarrow> Inl (field_error ''assessment'')
      | Some a \<Rightarrow> if as_tenant a \<noteq> cr_tenant q then Inl (ValidationError ''tenant'' ''Compilation tenant is invalid.'') else Inr q)"

definition snapshot_full_clean :: "'a compiled_db_scheme \<Rightarrow> assessment_snapshot \<Rightarrow> assessment_snapshot result" where
  "snapshot_full_clean db n =
     (if \<not> (school_exists db (an_tenant n) \<and> run_row db (an_run n) \<noteq> None \<and> cohort_row db (an_cohort n) \<noteq> None
            \<and> learning_area_row db (an_learning_area n) \<noteq> None \<and> version_exists db (an_version n)
            \<and> opt_fk (\<lambda>r. rubric_row db r \<noteq> None) (an_rubric n) \<and> char_field 32 (an_status n)
            \<and> json_field (an_context n) \<and> json_field (an_summary n))
      then Inl (field_error ''status'')
      else case assessment_row db (an_assessment n) of
        None \<Rightarrow> Inl (field_error ''assessment'')
      | Some a \<Rightarrow>
          if as_tenant a \<noteq> an_tenant n then Inl (ValidationError ''tenant'' ''Snapshot tenant is invalid.'')
          else if as_cohort a \<noteq> an_cohort n then Inl (ValidationError ''cohort'' ''Snapshot cohort is invalid.'')
          else if as_learning_area a \<noteq> an_learning_area n
          then Inl (ValidationError ''learning_area'' ''Snapshot learning area is invalid.'')
          else if as_version a \<noteq> Some (an_version n)
          then Inl (ValidationError ''curriculum_version'' ''Snapshot curriculum is invalid.'')
          else if as_rubric a \<noteq> an_rubric n then Inl (ValidationError ''rubric_foundation'' ''Snapshot rubric is invalid.'')
          else if \<exists>q\<in>set (assessment_snapshots db). an_id q \<noteq> an_id n \<and> an_run q = an_run n
          then Inl (ValidationError ''compilation_run'' ''Already exists.'') else Inr n)"

definition summary_full_clean :: "'a compiled_db_scheme \<Rightarrow> cohort_summary \<Rightarrow> cohort_summary result" where
  "summary_full_clean db m =
     (if \<not> (school_exists db (sm_tenant m) \<and> run_row db (sm_run m) \<noteq> None \<and> cohort_row db (sm_cohort m) \<noteq> None
            \<and> learning_area_row db (sm_learning_area m) \<noteq> None \<and> positive_integer_field (sm_expected m)
            \<and> positive_integer_field (sm_submitted m) \<and> positive_integer_field (sm_missing m)
            \<and> decimal_field 5 2 (sm_completion m) \<and> json_field (sm_component_summary m) \<and> char_field 32 (sm_status m))
      then Inl (field_error ''status'')
      else case assessment_row db (sm_assessment m) of
        None \<Rightarrow> Inl (field_error ''assessment'')
      | Some a \<Rightarrow>
          if as_tenant a \<noteq> sm_tenant m then Inl (ValidationError ''tenant'' ''Cohort summary tenant invalid.'')
          else if as_cohort a \<noteq> sm_cohort m then Inl (ValidationError ''cohort'' ''Cohort summary scope invalid.'')
          else if as_learning_area a \<noteq> sm_learning_area m
          then Inl (ValidationError ''learning_area'' ''Cohort summary scope invalid.'')
          else if \<exists>q\<in>set (cohort_summaries db). sm_id q \<noteq> sm_id m \<and> sm_run q = sm_run m
          then Inl (ValidationError ''compilation_run'' ''Already exists.'') else Inr m)"

definition add_run :: "compilation_run \<Rightarrow> 'a grading_db_scheme \<Rightarrow> 'a grading_db_scheme" where
  "add_run q db = db\<lparr>compilation_runs := compilation_runs db @ [q]\<rparr>"

definition add_snapshot :: "assessment_snapshot \<Rightarrow> 'a compiled_db_scheme \<Rightarrow> 'a compiled_db_scheme" where
  "add_snapshot n db = db\<lparr>assessment_snapshots := assessment_snapshots db @ [n]\<rparr>"

definition add_summary :: "cohort_summary \<Rightarrow> 'a compiled_db_scheme \<Rightarrow> 'a compiled_db_scheme" where
  "add_summary m db = db\<lparr>cohort_summaries := cohort_summaries db @ [m\<lparr>sm_completion := stored_2 (sm_completion m)\<rparr>]\<rparr>"

text \<open>\<open>bulk_create\<close> of learner snapshots: one per learner and run.\<close>

definition bulk_create_learner_snapshots :: "learner_snapshot list \<Rightarrow> ('a compiled_db_scheme, unit) action" where
  "bulk_create_learner_snapshots rows db =
     (let place = (\<lambda>s. (ls_tenant s, ls_assessment s, ls_student s, ls_run s)) in
      if \<not> distinct (map place rows) \<or> (\<exists>s\<in>set rows. place s \<in> place ` set (learner_snapshots db))
      then (Inl IntegrityError, db)
      else (Inr (), db\<lparr>learner_snapshots := learner_snapshots db @ rows\<rparr>))"

section \<open>Compiling (services.py)\<close>

definition compilation_context_snapshot :: "assessment \<Rightarrow> json" where
  "compilation_context_snapshot a =
     JObj [(''assessment_id'', JStr (as_id a)), (''cohort_id'', JStr (as_cohort a)), (''learning_area_id'', JStr (as_learning_area a)),
           (''curriculum_version_id'', JStr (opt_text (as_version a))), (''rubric_foundation_id'', JStr (opt_text (as_rubric a))),
           (''academic_year_id'', JStr (as_academic_year a)), (''term_id'', JStr (as_term a))]"

text \<open>What a compilation computes before it writes.\<close>

record compilation_facts =
  cp_assessment :: assessment
  cp_user :: user
  cp_version :: uuid
  cp_input :: compilation_input
  cp_missing :: "mark_finding list"
  cp_invalid :: "mark_finding list"
  cp_status :: string
  cp_expected :: int
  cp_submitted :: int
  cp_absent :: int
  cp_completion :: decimal
  cp_component_summary :: json
  cp_summary :: json

definition gather_compilation ::
  "school \<Rightarrow> uuid \<Rightarrow> user option \<Rightarrow> 'a grading_db_scheme \<Rightarrow> compilation_facts result" where
  "gather_compilation tenant assessment_id requested_by db =
     (case first_where (\<lambda>a. as_id a = assessment_id \<and> as_tenant a = sc_id tenant) (assessments db) of
        None \<Rightarrow> Inl (ValidationError ''assessment'' ''Assessment is not available.'')
      | Some a \<Rightarrow>
      (case requested_by of
        None \<Rightarrow> Inl (ValidationError ''requested_by'' ''Compilation actor is required.'')
      | Some u \<Rightarrow>
          if \<not> can_compile_assessment db (policy_context_for db requested_by (Some tenant) ''grading.compilation.compile''
               [''principal'', ''school_admin'', ''hod'']) a
          then Inl (ValidationError ''assessment'' ''Compilation is not authorized.'')
          else ebind (build_compilation_input db (Some tenant) (Some a) (get_expected_roster_for_compilation db tenant a)
              (get_submitted_records_for_assessment db tenant a) (get_assessment_components_for_compilation db tenant a)) (\<lambda>ci.
            ebind (detect_missing_marks (ci_roster ci) (ci_records ci) (ci_components ci)) (\<lambda>missing.
              ebind (detect_invalid_component_scores (ci_records ci) (ci_components ci) (as_max_score a)) (\<lambda>invalid.
                let status = determine_compilation_status missing invalid (ci_records ci \<noteq> []);
                    component_summary = component_completion_summary (ci_components ci) missing;
                    expected = int (length (ci_roster ci));
                    submitted = int (card (rec_student ` set (ci_records ci) \<inter> set (ci_roster ci)));
                    absent = int (length (filter (\<lambda>f. mf_code f = ''missing_learner_mark'') missing)) in
                ebind (build_cohort_summary a expected submitted absent component_summary status) (\<lambda>(completion, summary).
                  case as_version a of
                    None \<Rightarrow> Inl (field_error ''curriculum_version'')
                  | Some v \<Rightarrow> Inr \<lparr>cp_assessment = a, cp_user = u, cp_version = v, cp_input = ci, cp_missing = missing,
                      cp_invalid = invalid, cp_status = status, cp_expected = expected, cp_submitted = submitted,
                      cp_absent = absent, cp_completion = completion, cp_component_summary = component_summary,
                      cp_summary = summary\<rparr>))))))"

definition mark_other_runs_stale :: "compilation_run \<Rightarrow> 'a grading_db_scheme \<Rightarrow> 'a grading_db_scheme" where
  "mark_other_runs_stale q db = db\<lparr>compilation_runs := update_where
     (\<lambda>p. cr_tenant p = cr_tenant q \<and> cr_assessment p = cr_assessment q \<and> cr_id p \<noteq> cr_id q)
     (\<lambda>p. p\<lparr>cr_status := ''stale''\<rparr>) (compilation_runs db)\<rparr>"

text \<open>The identifiers of the rows of one compilation; \<open>ni_learner k\<close> is that of the k-th learner snapshot.\<close>

record compilation_ids =
  ni_run :: uuid
  ni_snapshot :: uuid
  ni_summary :: uuid
  ni_learner :: "nat \<Rightarrow> uuid"

definition new_run :: "time \<Rightarrow> compilation_ids \<Rightarrow> school \<Rightarrow> compilation_facts \<Rightarrow> compilation_run" where
  "new_run now ids tenant p =
     \<lparr>cr_id = ni_run ids, cr_tenant = sc_id tenant, cr_assessment = as_id (cp_assessment p),
      cr_requested_by = Some (us_id (cp_user p)), cr_status = cp_status p, cr_expected = cp_expected p,
      cr_submitted = cp_submitted p, cr_missing = cp_absent p, cr_source_batch_ids = ci_source_batch_ids (cp_input p),
      cr_error_summary = take 255 (join '';'' (py_sorted_set (map mf_code (cp_invalid p)))),
      cr_compiled_at = Some now, cr_created_at = now\<rparr>"

definition new_learner_snapshot ::
  "time \<Rightarrow> compilation_ids \<Rightarrow> school \<Rightarrow> compilation_facts \<Rightarrow> nat \<times> learner_facts \<Rightarrow> learner_snapshot" where
  "new_learner_snapshot now ids tenant p = (\<lambda>(k, f).
     \<lparr>ls_id = ni_learner ids k, ls_tenant = sc_id tenant, ls_run = ni_run ids, ls_assessment = as_id (cp_assessment p),
      ls_student = lf_learner_id f, ls_cohort = as_cohort (cp_assessment p), ls_learning_area = as_learning_area (cp_assessment p),
      ls_version = cp_version p, ls_rubric = as_rubric (cp_assessment p), ls_status = lf_status f,
      ls_score_summary = lf_score_summary f, ls_component_summary = lf_component_summary f, ls_missing_marks = lf_missing_marks f,
      ls_band_status = lf_band_status f, ls_source_batch_ids = lf_source_batch_ids f, ls_compiled_at = now\<rparr>)"

definition store_compilation ::
  "time \<Rightarrow> compilation_ids \<Rightarrow> school \<Rightarrow> compilation_facts \<Rightarrow> ('a compiled_db_scheme, compilation_run) action" where
  "store_compilation now ids tenant p =
     (let a = cp_assessment p in
      abind (save_row run_full_clean add_run (new_run now ids tenant p)) (\<lambda>q.
        abind (\<lambda>db. (Inr (), mark_other_runs_stale q db)) (\<lambda>_.
          abind (save_row snapshot_full_clean add_snapshot
              \<lparr>an_id = ni_snapshot ids, an_tenant = sc_id tenant, an_run = cr_id q, an_assessment = as_id a, an_cohort = as_cohort a,
               an_learning_area = as_learning_area a, an_version = cp_version p, an_rubric = as_rubric a, an_status = cp_status p,
               an_context = compilation_context_snapshot a, an_summary = cp_summary p, an_compiled_at = now\<rparr>) (\<lambda>_.
            abind (save_row summary_full_clean add_summary
                \<lparr>sm_id = ni_summary ids, sm_tenant = sc_id tenant, sm_run = cr_id q, sm_assessment = as_id a, sm_cohort = as_cohort a,
                 sm_learning_area = as_learning_area a, sm_expected = cp_expected p, sm_submitted = cp_submitted p,
                 sm_missing = cp_absent p, sm_completion = cp_completion p, sm_component_summary = cp_component_summary p,
                 sm_status = cp_status p, sm_compiled_at = now\<rparr>) (\<lambda>_.
              abind (alift (build_learner_snapshots (cp_input p) (cp_missing p) (cp_status p))) (\<lambda>facts.
                abind (bulk_create_learner_snapshots
                    (map (new_learner_snapshot now ids tenant p) (zip [0..<length facts] facts))) (\<lambda>_. alift (Inr q))))))))"

definition compile_in_transaction ::
  "time \<Rightarrow> compilation_ids \<Rightarrow> school \<Rightarrow> uuid \<Rightarrow> user option \<Rightarrow> ('a compiled_db_scheme, compilation_facts \<times> compilation_run) action" where
  "compile_in_transaction now ids tenant assessment_id requested_by =
     atomic (abind (query (gather_compilation tenant assessment_id requested_by)) (\<lambda>p.
       abind (store_compilation now ids tenant p) (\<lambda>q. alift (Inr (p, q)))))"

definition compilation_completed_event ::
  "(time \<Rightarrow> string) \<Rightarrow> time \<Rightarrow> school \<Rightarrow> compilation_facts \<times> compilation_run \<Rightarrow> outbox_request" where
  "compilation_completed_event isoformat now tenant = (\<lambda>(p, q). let a = cp_assessment p in
     grading_event ''grading.compilation_completed'' (''grading.compilation_completed:'' @ cr_id q)
       [(''tenant_id'', JStr (sc_id tenant)), (''assessment_id'', JStr (as_id a)), (''compilation_run_id'', JStr (cr_id q)),
        (''cohort_id'', JStr (as_cohort a)), (''learning_area_id'', JStr (as_learning_area a)),
        (''curriculum_version_id'', JStr (opt_text (as_version a))), (''status'', JStr (cp_status p)),
        (''compiled_at'', JStr (isoformat now))]
       (Some (sc_id tenant)) (Some (us_id (cp_user p))))"

definition compile_assessment ::
  "(time \<Rightarrow> string) \<Rightarrow> time \<Rightarrow> compilation_ids \<Rightarrow> uuid \<Rightarrow> school \<Rightarrow> uuid \<Rightarrow> user option \<Rightarrow> ('a compiled_db_scheme, compilation_run) action" where
  "compile_assessment isoformat now ids event_id tenant assessment_id requested_by =
     abind (record_after_commit now event_id (compilation_completed_event isoformat now tenant)
       (compile_in_transaction now ids tenant assessment_id requested_by)) (\<lambda>(p, q). alift (Inr q))"

definition compile_submission_batch ::
  "(time \<Rightarrow> string) \<Rightarrow> time \<Rightarrow> compilation_ids \<Rightarrow> uuid \<Rightarrow> school \<Rightarrow> uuid \<Rightarrow> user option \<Rightarrow> ('a compiled_db_scheme, compilation_run) action" where
  "compile_submission_batch isoformat now ids event_id tenant batch_id requested_by db =
     (case first_where (\<lambda>b. bt_tenant b = sc_id tenant \<and> bt_id b = batch_id \<and> bt_status b = ''submitted'') (submission_batches db) of
        None \<Rightarrow> (Inl (ValidationError ''batch'' ''Submitted batch is not available.''), db)
      | Some b \<Rightarrow> compile_assessment isoformat now ids event_id tenant (bt_assessment b) requested_by db)"

end
