(* ===== verification/Readiness.thy ===== *)
theory Readiness
  imports Compilation
begin

text \<open>
  Whether an assessment may be reported: readiness_blockers.py, readiness_status.py,
  report_readiness_rules.py, stale_compilation_detector.py, cct_readiness_guard.py,
  component_readiness.py, correction_readiness_impact.py, role_readiness_projection.py, the selectors
  they read and \<open>_build_assessment_readiness\<close> with the projections per role in grading/services.py.
  A school's metadata and the impact plans of the curriculum are two more tables.
\<close>

record impact_plan =
  ip_id :: uuid
  ip_tenant :: uuid
  ip_report :: uuid
  ip_app_domain :: string
  ip_impact_type :: string
  ip_affected_scope :: json
  ip_required_action :: string
  ip_safe_behavior :: string
  ip_history :: string
  ip_status :: string

record readiness_db = compiled_db +
  impact_plans :: "impact_plan list"
  school_metadata :: "(uuid \<times> (string \<times> json) list) list"

section \<open>Blockers (readiness_blockers.py)\<close>

record readiness_blocker =
  bk_code :: string
  bk_severity :: string
  bk_message :: string
  bk_scope :: string
  bk_resource_id :: string

definition blocker :: "string \<Rightarrow> string \<Rightarrow> string \<Rightarrow> string \<Rightarrow> string option \<Rightarrow> readiness_blocker" where
  "blocker code_text message scope severity resource_id =
     \<lparr>bk_code = code_text, bk_severity = severity, bk_message = message, bk_scope = scope,
      bk_resource_id = (case resource_id of None \<Rightarrow> [] | Some i \<Rightarrow> i)\<rparr>"

definition blocker_json :: "readiness_blocker \<Rightarrow> json" where
  "blocker_json b = JObj [(''code'', JStr (bk_code b)), (''severity'', JStr (bk_severity b)), (''message'', JStr (bk_message b)),
     (''scope'', JStr (bk_scope b)), (''resource_id'', JStr (bk_resource_id b))]"

definition blocker_dicts :: "readiness_blocker list \<Rightarrow> json list" where
  "blocker_dicts blockers = map blocker_json blockers"

definition blocker_codes :: "readiness_blocker list \<Rightarrow> string list" where
  "blocker_codes blockers = map bk_code blockers"

section \<open>Status (readiness_status.py)\<close>

definition determine_readiness_status :: "string option \<Rightarrow> readiness_blocker list \<Rightarrow> bool \<Rightarrow> bool \<Rightarrow> string" where
  "determine_readiness_status compilation_status blockers has_submitted_batch has_draft =
     (let codes = set (blocker_codes blockers) in
      if ''failed_compilation'' \<in> codes \<or> compilation_status = Some ''failed'' then ''failed''
      else if ''stale_compilation'' \<in> codes \<or> compilation_status = Some ''stale'' then ''stale''
      else if ''correction_pending'' \<in> codes then ''needs_correction''
      else if ''missing_required_component'' \<in> codes then ''blocked''
      else if ''missing_marks'' \<in> codes \<or> compilation_status = Some ''partial'' then ''partial''
      else if \<exists>k\<in>codes. startswith ''cct_'' k then ''not_ready_for_reports''
      else if ''no_compilation'' \<in> codes
      then (if has_submitted_batch then ''submitted'' else if has_draft then ''in_progress'' else ''not_started'')
      else if blockers \<noteq> [] then ''not_ready_for_reports''
      else if compilation_status = Some ''complete'' then ''ready_for_reports''
      else ''not_ready_for_reports'')"

section \<open>The parts (component, correction, schema, curriculum, freshness)\<close>

text \<open>\<open>int(summary.get(key) or 0)\<close>.\<close>

definition component_readiness_blockers :: "(string \<times> json) list \<Rightarrow> readiness_blocker list result" where
  "component_readiness_blockers component_summary =
     ebind (py_int (or_json (jget component_summary ''missing_required_component_count'') (JInt 0))) (\<lambda>missing_required.
       Inr (if missing_required \<le> 0 then []
            else [blocker ''missing_required_component'' ''Required practical/component marks are incomplete.''
                    ''component'' ''blocking'' None]))"

definition correction_readiness_blockers :: "correction list \<Rightarrow> readiness_blocker list" where
  "correction_readiness_blockers cs =
     (if cs \<noteq> [] then [blocker ''correction_pending'' ''Pending correction workflow items block report readiness.''
                         ''correction'' ''blocking'' None] else [])
     @ (if \<exists>c\<in>set cs. is_approved_unapplied_status (cq_status c)
        then [blocker ''approved_correction_unapplied'' ''Approved correction must be applied before reports.''
                ''correction'' ''blocking'' None] else [])"

definition schema_readiness_blockers :: "string \<Rightarrow> bool \<Rightarrow> string option \<Rightarrow> readiness_blocker list" where
  "schema_readiness_blockers assessment_type requires_internal_schema schema_status =
     (if \<not> requires_internal_schema then []
      else if \<not> is_internal_assessment_type assessment_type then []
      else case schema_status of
        None \<Rightarrow> [blocker ''school_schema_missing'' ''Internal assessment requires a school grading schema.''
                   ''schema'' ''blocking'' None]
      | Some s \<Rightarrow>
          if s \<in> {''deprecated'', ''retired'', ''draft''}
          then [blocker ''school_schema_not_active'' ''Internal assessment schema is not active for report readiness.''
                  ''schema'' ''blocking'' None]
          else [])"

definition cct_readiness_blockers :: "bool \<Rightarrow> bool \<Rightarrow> bool \<Rightarrow> nat \<Rightarrow> nat \<Rightarrow> readiness_blocker list" where
  "cct_readiness_blockers assessment_is_bound has_school_adoption curriculum_version_withdrawn rollback_plan_count
       app_impact_plan_count =
     (if \<not> assessment_is_bound
      then [blocker ''assessment_not_cbe_cct_bound'' ''Assessment is not bound to CBE/CCT context.''
              ''assessment'' ''blocking'' None] else [])
     @ (if \<not> has_school_adoption
        then [blocker ''cct_adoption_missing'' ''School adoption for the assessment curriculum is missing.''
                ''curriculum'' ''blocking'' None] else [])
     @ (if curriculum_version_withdrawn
        then [blocker ''cct_withdrawal_review_required'' ''Curriculum withdrawal requires report-readiness review.''
                ''curriculum'' ''blocking'' None] else [])
     @ (if 0 < rollback_plan_count
        then [blocker ''cct_rollback_review_required'' ''Curriculum rollback planning affects readiness review.''
                ''curriculum'' ''blocking'' None] else [])
     @ (if 0 < app_impact_plan_count
        then [blocker ''cct_app_impact_review_required'' ''CCT app impact planning requires academic review.''
                ''curriculum'' ''review'' None] else [])"

record compilation_freshness =
  fr_is_stale :: bool
  fr_reasons :: "string list"

definition after_opt :: "time option \<Rightarrow> time option \<Rightarrow> bool" where
  "after_opt x y \<longleftrightarrow> (case (x, y) of (Some a, Some b) \<Rightarrow> b < a | _ \<Rightarrow> False)"

definition detect_stale_compilation ::
  "string option \<Rightarrow> time option \<Rightarrow> time option \<Rightarrow> time option \<Rightarrow> time option \<Rightarrow> compilation_freshness" where
  "detect_stale_compilation compilation_status compiled_at assessment_updated_at latest_batch_submitted_at
       latest_correction_requested_at =
     (let reasons =
        (if compilation_status = Some ''stale'' then [''compilation_marked_stale''] else [])
        @ (if compilation_status \<noteq> None \<and> compiled_at = None then [''compilation_missing_timestamp''] else [])
        @ (if after_opt assessment_updated_at compiled_at then [''assessment_changed_after_compilation''] else [])
        @ (if after_opt latest_batch_submitted_at compiled_at then [''submission_after_compilation''] else [])
        @ (if after_opt latest_correction_requested_at compiled_at then [''correction_after_compilation''] else [])
      in \<lparr>fr_is_stale = (reasons \<noteq> []), fr_reasons = reasons\<rparr>)"

section \<open>The curriculum context (selectors.py)\<close>

definition READINESS_CCT_APP_DOMAINS :: "string list" where
  "READINESS_CCT_APP_DOMAINS = [''academics'', ''assessments'', ''examinations'', ''grading'', ''compilation'', ''reports_future'']"

definition normalized_text :: "json \<Rightarrow> string" where
  "normalized_text value = lower (strip (json_str (or_json value (JStr []))))"

definition scope_matches_any :: "json \<Rightarrow> json list \<Rightarrow> bool" where
  "scope_matches_any value candidates =
     (let expected = normalized_text value in
      if expected = [] then True else expected \<in> set (map normalized_text candidates))"

definition metadata_scope_matches :: "(string \<times> json) list \<Rightarrow> (string \<times> json) list \<Rightarrow> bool" where
  "metadata_scope_matches metadata scope =
     (\<forall>key\<in>set [''region'', ''county'', ''sub_county'', ''school_category'', ''senior_school_pathway''].
        \<not> (json_truthy (jget scope key) \<and> \<not> scope_matches_any (jget scope key) [jget metadata key]))"

definition metadata_of :: "'a readiness_db_scheme \<Rightarrow> school \<Rightarrow> (string \<times> json) list" where
  "metadata_of db tenant = (case map_of (school_metadata db) (sc_id tenant) of None \<Rightarrow> [] | Some m \<Rightarrow> m)"

definition scope_excludes :: "(string \<times> json) list \<Rightarrow> string \<Rightarrow> json list \<Rightarrow> bool" where
  "scope_excludes scope key candidates \<longleftrightarrow> json_truthy (jget scope key) \<and> \<not> scope_matches_any (jget scope key) candidates"

text \<open>An empty scope applies everywhere; only a dict has the \<open>get\<close> the rest reads.\<close>

definition impact_scope_applies_to_assessment :: "'a readiness_db_scheme \<Rightarrow> school \<Rightarrow> assessment \<Rightarrow> json \<Rightarrow> bool result" where
  "impact_scope_applies_to_assessment db tenant a scope =
     (if \<not> json_truthy scope then Inr True
      else case scope of
        JObj sc \<Rightarrow>
          let grade = Option.bind (as_grade_level a) (grade_level_row db); area = learning_area_row db (as_learning_area a);
              rubric = Option.bind (as_rubric a) (rubric_row db); text = (\<lambda>v. case v of None \<Rightarrow> JStr [] | Some s \<Rightarrow> JStr s) in
          Inr (if normalized_text (jget sc ''scope_type'') = ''scope_unknown'' then True
               else if \<not> metadata_scope_matches (metadata_of db tenant) sc then False
               else if scope_excludes sc ''grade_level''
                 [opt_json (as_grade_level a), text (map_option gl_code grade), text (map_option gl_name grade)] then False
               else if scope_excludes sc ''learning_area''
                 [JStr (as_learning_area a), text (map_option la_code area), text (map_option la_name area)] then False
               else if scope_excludes sc ''rubric''
                 [opt_json (as_rubric a), text (map_option rf_level_code rubric), text (map_option rf_level_label rubric)] then False
               else True)
      | _ \<Rightarrow> Inl (OtherError ''AttributeError''))"

record cct_state =
  ct_has_adoption :: bool
  ct_withdrawn :: bool
  ct_rollback_count :: nat
  ct_impact_count :: nat

definition get_cct_blockers_for_assessment :: "'a readiness_db_scheme \<Rightarrow> school \<Rightarrow> assessment \<Rightarrow> cct_state result" where
  "get_cct_blockers_for_assessment db tenant a =
     (case (if as_tenant a \<noteq> sc_id tenant then None else as_version a) of
        None \<Rightarrow> Inr \<lparr>ct_has_adoption = False, ct_withdrawn = False, ct_rollback_count = 0, ct_impact_count = 0\<rparr>
      | Some v \<Rightarrow>
          ebind (emap (\<lambda>p. impact_scope_applies_to_assessment db tenant a (ip_affected_scope p))
              (filter (\<lambda>p. ip_tenant p = sc_id tenant \<and> ip_app_domain p \<in> set READINESS_CCT_APP_DOMAINS
                 \<and> ip_status p \<in> {''planned'', ''review_required''}) (impact_plans db))) (\<lambda>applies.
            Inr \<lparr>ct_has_adoption = (\<exists>ad\<in>set (adoptions db). ad_tenant ad = sc_id tenant \<and> ad_version ad = v \<and> live_adoption ad),
                 ct_withdrawn = (\<exists>w\<in>set (withdrawals db). wd_version w = v \<and> wd_status w = ''withdrawn''),
                 ct_rollback_count = length (filter (\<lambda>p. rp_tenant p = sc_id tenant \<and> rp_withdrawn_version p = v) (rollback_plans db)),
                 ct_impact_count = length (filter id applies)\<rparr>))"

definition get_readiness_batches_for_assessment :: "'a grading_db_scheme \<Rightarrow> school \<Rightarrow> assessment \<Rightarrow> submission_batch list" where
  "get_readiness_batches_for_assessment db tenant a =
     (if as_tenant a \<noteq> sc_id tenant then []
      else filter (\<lambda>b. bt_tenant b = sc_id tenant \<and> bt_assessment b = as_id a) (submission_batches db))"

definition get_readiness_drafts_for_assessment :: "'a grading_db_scheme \<Rightarrow> school \<Rightarrow> assessment \<Rightarrow> draft_batch list" where
  "get_readiness_drafts_for_assessment db tenant a =
     (if as_tenant a \<noteq> sc_id tenant then []
      else filter (\<lambda>d. df_tenant d = sc_id tenant \<and> df_assessment d = as_id a \<and> df_status d = ''draft'') (draft_batches db))"

section \<open>The summary (report_readiness_rules.py)\<close>

record readiness =
  rd_assessment :: uuid
  rd_cohort :: uuid
  rd_learning_area :: uuid
  rd_version :: string
  rd_run :: string
  rd_compilation_status :: string
  rd_status :: string
  rd_report_ready :: bool
  rd_expected :: int
  rd_submitted :: int
  rd_missing :: int
  rd_pending_corrections :: nat
  rd_has_draft :: bool
  rd_has_submitted_batch :: bool
  rd_blocker_count :: nat
  rd_review_count :: nat
  rd_blockers :: "readiness_blocker list"

definition build_report_readiness_summary ::
  "assessment \<Rightarrow> uuid option \<Rightarrow> string option \<Rightarrow> int \<Rightarrow> int \<Rightarrow> int \<Rightarrow> readiness_blocker list \<Rightarrow> bool \<Rightarrow> bool \<Rightarrow> nat \<Rightarrow> readiness" where
  "build_report_readiness_summary a run_id compilation_status expected submitted missing blockers has_submitted_batch has_draft
       pending_correction_count =
     (let status = determine_readiness_status compilation_status blockers has_submitted_batch has_draft in
      \<lparr>rd_assessment = as_id a, rd_cohort = as_cohort a, rd_learning_area = as_learning_area a,
       rd_version = (case as_version a of None \<Rightarrow> [] | Some v \<Rightarrow> v), rd_run = (case run_id of None \<Rightarrow> [] | Some i \<Rightarrow> i),
       rd_compilation_status = (case compilation_status of None \<Rightarrow> ''not_started'' | Some s \<Rightarrow> if s = [] then ''not_started'' else s),
       rd_status = status, rd_report_ready = (status = ''ready_for_reports''), rd_expected = expected, rd_submitted = submitted,
       rd_missing = missing, rd_pending_corrections = pending_correction_count, rd_has_draft = has_draft,
       rd_has_submitted_batch = has_submitted_batch,
       rd_blocker_count = length (filter (\<lambda>b. bk_severity b = ''blocking'') blockers),
       rd_review_count = length (filter (\<lambda>b. bk_severity b \<noteq> ''blocking'') blockers), rd_blockers = blockers\<rparr>)"

definition readiness_json :: "readiness \<Rightarrow> (string \<times> json) list" where
  "readiness_json r =
     [(''assessment_id'', JStr (rd_assessment r)), (''cohort_id'', JStr (rd_cohort r)), (''learning_area_id'', JStr (rd_learning_area r)),
      (''curriculum_version_id'', JStr (rd_version r)), (''compilation_run_id'', JStr (rd_run r)),
      (''compilation_status'', JStr (rd_compilation_status r)), (''readiness_status'', JStr (rd_status r)),
      (''report_ready'', JBool (rd_report_ready r)), (''expected_learner_count'', JInt (rd_expected r)),
      (''submitted_learner_count'', JInt (rd_submitted r)), (''missing_learner_count'', JInt (rd_missing r)),
      (''pending_correction_count'', JInt (int (rd_pending_corrections r))), (''has_draft'', JBool (rd_has_draft r)),
      (''has_submitted_batch'', JBool (rd_has_submitted_batch r)), (''blocker_count'', JInt (int (rd_blocker_count r))),
      (''review_count'', JInt (int (rd_review_count r))), (''blockers'', JList (blocker_dicts (rd_blockers r)))]"

section \<open>Building readiness (services.py)\<close>

definition max_opt :: "time list \<Rightarrow> time option" where
  "max_opt ts = (if ts = [] then None else Some (Max (set ts)))"

definition schema_required_types :: "string list" where
  "schema_required_types = [''cat'', ''internal_exam'', ''mock_exam'', ''trial_exam'', ''departmental_test'', ''practical_component'']"

text \<open>The blockers a run has by itself.\<close>

definition run_blockers :: "compilation_run option \<Rightarrow> readiness_blocker list" where
  "run_blockers run = (case run of
     None \<Rightarrow> [blocker ''no_compilation'' ''No compilation run exists for this assessment.'' ''assessment'' ''blocking'' None]
   | Some q \<Rightarrow>
       (if cr_status q = ''failed''
        then [blocker ''failed_compilation'' ''Latest compilation failed.'' ''assessment'' ''blocking'' (Some (cr_id q))]
        else if cr_status q = ''blocked''
        then [blocker ''blocked_compilation'' ''Latest compilation is blocked.'' ''assessment'' ''blocking'' (Some (cr_id q))]
        else [])
       @ (if 0 < cr_missing q
          then [blocker ''missing_marks'' ''One or more active learners are missing official marks.'' ''learner'' ''blocking'' None]
          else []))"

definition submission_blockers :: "bool \<Rightarrow> bool \<Rightarrow> readiness_blocker list" where
  "submission_blockers has_submitted_batch has_draft =
     (if \<not> has_submitted_batch
      then [blocker ''teacher_submission_missing'' ''No submitted teacher batch exists for this assessment.'' ''assessment'' ''blocking'' None]
      else [])
     @ (if has_draft \<and> \<not> has_submitted_batch
        then [blocker ''draft_unsubmitted'' ''A draft exists but final submission is missing.'' ''assessment'' ''blocking'' None] else [])"

definition freshness_of ::
  "compilation_run option \<Rightarrow> assessment \<Rightarrow> submission_batch list \<Rightarrow> correction list \<Rightarrow> compilation_freshness" where
  "freshness_of run a submitted cs =
     detect_stale_compilation (map_option cr_status run) (Option.bind run cr_compiled_at) (Some (as_updated_at a))
       (max_opt (List.map_filter bt_submitted_at submitted)) (max_opt (map cq_requested_at cs))"

definition build_assessment_readiness :: "'a readiness_db_scheme \<Rightarrow> school \<Rightarrow> assessment \<Rightarrow> readiness result" where
  "build_assessment_readiness db tenant a =
     (let run = get_latest_compilation_run db tenant a;
          summary = Option.bind run (\<lambda>q. first_where (\<lambda>m. sm_run m = cr_id q) (cohort_summaries db));
          submitted = filter (\<lambda>b. bt_status b \<in> set submitted_statuses) (get_readiness_batches_for_assessment db tenant a);
          drafts = get_readiness_drafts_for_assessment db tenant a;
          pending = get_pending_corrections_for_assessment db tenant a in
      ebind (get_cct_blockers_for_assessment db tenant a) (\<lambda>cct.
        ebind (component_readiness_blockers (case map_option sm_component_summary summary of Some (JObj kvs) \<Rightarrow> kvs | _ \<Rightarrow> [])) (\<lambda>component_blockers.
          let fresh = freshness_of run a submitted pending;
              blockers = run_blockers run @ submission_blockers (submitted \<noteq> []) (drafts \<noteq> [])
                @ correction_readiness_blockers pending
                @ schema_readiness_blockers (as_type a) (as_type a \<in> set schema_required_types)
                    (map_option gs_status (get_assessment_schema_binding db tenant a))
                @ component_blockers
                @ (if fr_is_stale fresh
                   then [blocker ''stale_compilation'' ''Compilation is stale and must be reviewed.'' ''assessment'' ''blocking''
                           (map_option cr_id run)] else [])
                @ cct_readiness_blockers (is_operationally_bound db a) (ct_has_adoption cct) (ct_withdrawn cct)
                    (ct_rollback_count cct) (ct_impact_count cct) in
          Inr (build_report_readiness_summary a (map_option cr_id run) (map_option cr_status run)
            (case summary of None \<Rightarrow> 0 | Some m \<Rightarrow> sm_expected m) (case summary of None \<Rightarrow> 0 | Some m \<Rightarrow> sm_submitted m)
            (case summary of None \<Rightarrow> 0 | Some m \<Rightarrow> sm_missing m) blockers (submitted \<noteq> []) (drafts \<noteq> []) (length pending)))))"

end
