(* ===== verification/Projections.thy ===== *)
theory Projections
  imports Readiness
begin

text \<open>
  What each role sees of readiness and of compiled facts: role_readiness_projection.py,
  role_projection_builder.py, the scopes of grading/selectors.py and the projection services of
  grading/services.py. A filter is the list of a request's fields, each with its text; a filter on
  an identifier holds an identifier.
\<close>

section \<open>Scopes of assessments (selectors.py)\<close>

definition scope_filters :: "(string \<times> (assessment \<Rightarrow> uuid)) list" where
  "scope_filters = [(''academic_year_id'', as_academic_year), (''term_id'', as_term), (''cohort_id'', as_cohort),
                    (''learning_area_id'', as_learning_area)]"

definition passes_filters :: "(string \<times> string) list \<Rightarrow> assessment \<Rightarrow> bool" where
  "passes_filters filters a =
     (\<forall>(field, of_row)\<in>set scope_filters. case map_of filters field of
        None \<Rightarrow> True | Some v \<Rightarrow> v = [] \<or> of_row a = v)"

definition get_assessment_readiness_scope ::
  "'a grading_db_scheme \<Rightarrow> school option \<Rightarrow> (string \<times> string) list \<Rightarrow> assessment list" where
  "get_assessment_readiness_scope db tenant filters =
     (case tenant of None \<Rightarrow> []
      | Some t \<Rightarrow> sort_key (\<lambda>a. (case cohort_row db (as_cohort a) of None \<Rightarrow> [] | Some c \<Rightarrow> co_name c,
                              case learning_area_row db (as_learning_area a) of None \<Rightarrow> [] | Some l \<Rightarrow> la_name l, as_title a))
          (filter (\<lambda>a. as_tenant a = sc_id t \<and> passes_filters filters a) (assessments db)))"

text \<open>An active assignment of the actor to what the assessment covers, of any tenant.\<close>

definition teaches :: "'a academic_db_scheme \<Rightarrow> uuid \<Rightarrow> uuid \<Rightarrow> uuid \<Rightarrow> uuid \<Rightarrow> uuid \<Rightarrow> bool" where
  "teaches db actor_id cohort area year term_id =
     (\<exists>ta\<in>set (assignments db). ta_teacher ta = actor_id \<and> ta_cohort ta = cohort \<and> ta_learning_area ta = area
        \<and> ta_academic_year ta = year \<and> ta_term ta = term_id \<and> ta_is_active ta)"

definition teaches_assessment :: "'a academic_db_scheme \<Rightarrow> uuid \<Rightarrow> assessment \<Rightarrow> bool" where
  "teaches_assessment db actor_id a = teaches db actor_id (as_cohort a) (as_learning_area a) (as_academic_year a) (as_term a)"

definition get_teacher_readiness_scope ::
  "'a grading_db_scheme \<Rightarrow> user option \<Rightarrow> school option \<Rightarrow> uuid option \<Rightarrow> assessment list" where
  "get_teacher_readiness_scope db actor tenant assessment_id =
     (case actor of None \<Rightarrow> []
      | Some u \<Rightarrow> filter (\<lambda>a. teaches_assessment db (us_id u) a
            \<and> (case assessment_id of None \<Rightarrow> True | Some i \<Rightarrow> as_id a = i)) (get_assessment_readiness_scope db tenant []))"

definition get_hod_readiness_scope ::
  "'a grading_db_scheme \<Rightarrow> user option \<Rightarrow> school option \<Rightarrow> (string \<times> string) list \<Rightarrow> assessment list" where
  "get_hod_readiness_scope db actor tenant filters =
     filter (\<lambda>a. case map_of filters ''learning_area_id'' of None \<Rightarrow> True | Some l \<Rightarrow> l = [] \<or> as_learning_area a = l)
       (get_teacher_readiness_scope db actor tenant None)"

definition get_academic_head_readiness_scope ::
  "'a grading_db_scheme \<Rightarrow> school option \<Rightarrow> (string \<times> string) list \<Rightarrow> assessment list" where
  "get_academic_head_readiness_scope db tenant filters = get_assessment_readiness_scope db tenant filters"

definition get_principal_readiness_scope ::
  "'a grading_db_scheme \<Rightarrow> school option \<Rightarrow> (string \<times> string) list \<Rightarrow> assessment list" where
  "get_principal_readiness_scope db tenant filters = get_assessment_readiness_scope db tenant filters"

section \<open>Readiness per role (role_readiness_projection.py, services.py)\<close>

record readiness_projection =
  jp_type :: string
  jp_count :: nat
  jp_ready :: bool
  jp_statuses :: "(string \<times> nat) list"
  jp_blockers :: "(string \<times> nat) list"
  jp_items :: "readiness list"

text \<open>\<open>dict(sorted(Counter(xs).items()))\<close>.\<close>

definition counted :: "string list \<Rightarrow> (string \<times> nat) list" where
  "counted xs = map (\<lambda>x. (x, count_list xs x)) (py_sorted_set xs)"

definition build_readiness_projection :: "string \<Rightarrow> readiness list \<Rightarrow> readiness_projection" where
  "build_readiness_projection projection_type items =
     \<lparr>jp_type = projection_type, jp_count = length items,
      jp_ready = (items \<noteq> [] \<and> list_all rd_report_ready items),
      jp_statuses = counted (map rd_status items),
      jp_blockers = counted (concat (map (\<lambda>r. map bk_code (filter (\<lambda>b. bk_severity b = ''blocking'') (rd_blockers r))) items)),
      jp_items = items\<rparr>"

definition build_future_parent_readiness_projection :: "(string \<times> json) list" where
  "build_future_parent_readiness_projection =
     [(''projection_type'', JStr ''future_parent''), (''ready_for_release'', JBool False), (''assessments'', JList []),
      (''blockers'', JList [JObj [(''code'', JStr ''guardian_release_model_missing''), (''severity'', JStr ''blocking''),
        (''message'', JStr ''Future parent readiness fails closed until approved release data exists.''),
        (''scope'', JStr ''learner''), (''resource_id'', JStr [])]])]"

definition compute_assessment_readiness ::
  "'a readiness_db_scheme \<Rightarrow> user option \<Rightarrow> school \<Rightarrow> uuid \<Rightarrow> readiness result" where
  "compute_assessment_readiness db actor tenant assessment_id =
     (case first_where (\<lambda>a. as_tenant a = sc_id tenant \<and> as_id a = assessment_id) (assessments db) of
        None \<Rightarrow> Inl (ValidationError ''assessment'' ''Assessment is not available.'')
      | Some a \<Rightarrow>
          if \<not> can_compute_readiness db (policy_context_for db actor (Some tenant) ''grading.readiness.compute''
               [''hod'', ''deputy_principal'', ''principal'', ''school_admin'']) a
          then Inl (ValidationError ''assessment'' ''Readiness computation is not authorized.'')
          else build_assessment_readiness db tenant a)"

definition authorized_readiness_items ::
  "'a readiness_db_scheme \<Rightarrow> school \<Rightarrow> assessment list \<Rightarrow> (assessment \<Rightarrow> bool) \<Rightarrow> readiness list result" where
  "authorized_readiness_items db tenant as policy_check =
     emap (build_assessment_readiness db tenant) (filter policy_check as)"

definition get_teacher_readiness_projection ::
  "'a readiness_db_scheme \<Rightarrow> user option \<Rightarrow> school \<Rightarrow> uuid option \<Rightarrow> readiness_projection result" where
  "get_teacher_readiness_projection db actor tenant assessment_id =
     (let as = get_teacher_readiness_scope db actor (Some tenant) assessment_id in
      if as = [] then Inr (build_readiness_projection ''teacher'' [])
      else ebind (authorized_readiness_items db tenant as
            (can_view_teacher_readiness db (policy_context_for db actor (Some tenant) ''grading.readiness.teacher.view''
               GRADING_ROLE_CODES))) (\<lambda>items. Inr (build_readiness_projection ''teacher'' items)))"

definition get_hod_readiness_projection ::
  "'a readiness_db_scheme \<Rightarrow> user option \<Rightarrow> school \<Rightarrow> (string \<times> string) list \<Rightarrow> readiness_projection result" where
  "get_hod_readiness_projection db actor tenant filters =
     ebind (authorized_readiness_items db tenant (get_hod_readiness_scope db actor (Some tenant) filters)
         (can_view_hod_readiness db (policy_context_for db actor (Some tenant) ''grading.readiness.hod.view'' [''hod''])))
       (\<lambda>items. Inr (build_readiness_projection ''hod'' items))"

definition get_deputy_academics_readiness_projection ::
  "'a readiness_db_scheme \<Rightarrow> user option \<Rightarrow> school \<Rightarrow> (string \<times> string) list \<Rightarrow> readiness_projection result" where
  "get_deputy_academics_readiness_projection db actor tenant filters =
     (let ctx = policy_context_for db actor (Some tenant) ''grading.readiness.academic_head.view''
                  [''deputy_principal'', ''principal'', ''school_admin''] in
      if \<not> can_view_academic_head_readiness db ctx None then Inr (build_readiness_projection ''deputy_head_academics'' [])
      else ebind (authorized_readiness_items db tenant (get_academic_head_readiness_scope db (Some tenant) filters)
          (\<lambda>a. can_view_academic_head_readiness db ctx (Some a)))
        (\<lambda>items. Inr (build_readiness_projection ''deputy_head_academics'' items)))"

definition get_principal_readiness_projection ::
  "'a readiness_db_scheme \<Rightarrow> user option \<Rightarrow> school \<Rightarrow> (string \<times> string) list \<Rightarrow> readiness_projection result" where
  "get_principal_readiness_projection db actor tenant filters =
     (let ctx = policy_context_for db actor (Some tenant) ''grading.readiness.principal.view'' [''principal'', ''school_admin''] in
      if \<not> can_view_principal_readiness db ctx None then Inr (build_readiness_projection ''principal'' [])
      else ebind (authorized_readiness_items db tenant (get_principal_readiness_scope db (Some tenant) filters)
          (\<lambda>a. can_view_principal_readiness db ctx (Some a)))
        (\<lambda>items. Inr (build_readiness_projection ''principal'' items)))"

definition compute_cohort_readiness ::
  "'a readiness_db_scheme \<Rightarrow> user option \<Rightarrow> school \<Rightarrow> uuid \<Rightarrow> readiness_projection result" where
  "compute_cohort_readiness db actor tenant cohort_id =
     get_deputy_academics_readiness_projection db actor tenant [(''cohort_id'', cohort_id)]"

definition compute_department_readiness ::
  "'a readiness_db_scheme \<Rightarrow> user option \<Rightarrow> school \<Rightarrow> uuid \<Rightarrow> readiness_projection result" where
  "compute_department_readiness db actor tenant learning_area_id =
     get_hod_readiness_projection db actor tenant [(''learning_area_id'', learning_area_id)]"

definition compute_school_report_readiness ::
  "'a readiness_db_scheme \<Rightarrow> user option \<Rightarrow> school \<Rightarrow> (string \<times> string) list \<Rightarrow> readiness_projection result" where
  "compute_school_report_readiness db actor tenant filters = get_principal_readiness_projection db actor tenant filters"

definition get_future_parent_report_readiness_projection ::
  "'a identity_db_scheme \<Rightarrow> user option \<Rightarrow> school \<Rightarrow> uuid \<Rightarrow> (string \<times> json) list" where
  "get_future_parent_report_readiness_projection db actor tenant learner_id =
     (if \<not> can_view_future_parent_readiness (policy_context_for db actor (Some tenant) ''grading.readiness.future_parent.view''
            [''guardian'']) (Some tenant)
      then build_future_parent_readiness_projection else build_future_parent_readiness_projection)"

section \<open>Compiled facts per role (selectors.py, role_projection_builder.py, services.py)\<close>

definition get_compiled_learner_snapshots ::
  "'a compiled_db_scheme \<Rightarrow> school option \<Rightarrow> assessment option \<Rightarrow> uuid option \<Rightarrow> learner_snapshot list" where
  "get_compiled_learner_snapshots db tenant a learner_id =
     (case tenant of None \<Rightarrow> []
      | Some t \<Rightarrow> sort_key (\<lambda>s. (case student_row db (ls_student s) of None \<Rightarrow> [] | Some st \<Rightarrow> st_admission_number st, ls_assessment s))
          (filter (\<lambda>s. ls_tenant s = sc_id t \<and> (case a of None \<Rightarrow> True | Some r \<Rightarrow> ls_assessment s = as_id r)
             \<and> (case learner_id of None \<Rightarrow> True | Some i \<Rightarrow> ls_student s = i)) (learner_snapshots db)))"

definition get_compiled_cohort_summary :: "'a compiled_db_scheme \<Rightarrow> school option \<Rightarrow> assessment option \<Rightarrow> cohort_summary list" where
  "get_compiled_cohort_summary db tenant a =
     (case tenant of None \<Rightarrow> []
      | Some t \<Rightarrow> sort_key (\<lambda>m. (- sm_compiled_at m, sm_assessment m))
          (filter (\<lambda>m. sm_tenant m = sc_id t \<and> (case a of None \<Rightarrow> True | Some r \<Rightarrow> sm_assessment m = as_id r))
             (cohort_summaries db)))"

definition teaches_summary :: "'a grading_db_scheme \<Rightarrow> uuid \<Rightarrow> cohort_summary \<Rightarrow> bool" where
  "teaches_summary db actor_id m \<longleftrightarrow>
     (case assessment_row db (sm_assessment m) of None \<Rightarrow> False | Some a \<Rightarrow> teaches_assessment db actor_id a)"

definition get_teacher_compilation_scope ::
  "'a compiled_db_scheme \<Rightarrow> user option \<Rightarrow> school option \<Rightarrow> uuid option \<Rightarrow> cohort_summary list" where
  "get_teacher_compilation_scope db actor tenant assessment_id =
     (case actor of None \<Rightarrow> []
      | Some u \<Rightarrow> filter (\<lambda>m. teaches_summary db (us_id u) m \<and> (case assessment_id of None \<Rightarrow> True | Some i \<Rightarrow> sm_assessment m = i))
          (get_compiled_cohort_summary db tenant None))"

definition get_hod_compilation_scope ::
  "'a compiled_db_scheme \<Rightarrow> user option \<Rightarrow> school option \<Rightarrow> (string \<times> string) list \<Rightarrow> cohort_summary list" where
  "get_hod_compilation_scope db actor tenant filters =
     (case actor of None \<Rightarrow> []
      | Some u \<Rightarrow> filter (\<lambda>m. teaches_summary db (us_id u) m
            \<and> (case map_of filters ''learning_area_id'' of None \<Rightarrow> True | Some l \<Rightarrow> sm_learning_area m = l))
          (get_compiled_cohort_summary db tenant None))"

definition get_principal_compilation_scope ::
  "'a compiled_db_scheme \<Rightarrow> user option \<Rightarrow> school option \<Rightarrow> (string \<times> string) list \<Rightarrow> cohort_summary list" where
  "get_principal_compilation_scope db actor tenant filters =
     (case actor of None \<Rightarrow> []
      | Some u \<Rightarrow> filter (\<lambda>m. case map_of filters ''status'' of None \<Rightarrow> True | Some s \<Rightarrow> s = [] \<or> sm_status m = s)
          (get_compiled_cohort_summary db tenant None))"

definition SUPPORTED_PROJECTIONS :: "string list" where
  "SUPPORTED_PROJECTIONS = [''teacher'', ''hod'', ''deputy_head_academics'', ''principal'', ''future_parent'']"

definition role_summary_json :: "cohort_summary \<Rightarrow> json" where
  "role_summary_json m =
     JObj [(''assessment_id'', JStr (sm_assessment m)), (''cohort_id'', JStr (sm_cohort m)), (''learning_area_id'', JStr (sm_learning_area m)),
           (''status'', JStr (sm_status m)), (''expected_learner_count'', JInt (sm_expected m)),
           (''submitted_learner_count'', JInt (sm_submitted m)), (''missing_learner_count'', JInt (sm_missing m)),
           (''completion_percentage'', JStr (dec_str (sm_completion m)))]"

definition role_snapshot_json :: "learner_snapshot \<Rightarrow> json" where
  "role_snapshot_json s =
     JObj [(''assessment_id'', JStr (ls_assessment s)), (''learner_id'', JStr (ls_student s)), (''status'', JStr (ls_status s)),
           (''score_summary'', ls_score_summary s), (''component_summary'', ls_component_summary s),
           (''cbe_band_status'', JStr (ls_band_status s))]"

definition build_role_projection ::
  "string \<Rightarrow> cohort_summary list \<Rightarrow> learner_snapshot list \<Rightarrow> (string \<times> json) list result" where
  "build_role_projection projection_type summaries snapshots =
     (if projection_type \<notin> set SUPPORTED_PROJECTIONS
      then Inl (ValidationError ''projection'' ''Projection type is invalid.'')
      else Inr ([(''projection_type'', JStr projection_type), (''summaries'', JList (map role_summary_json summaries))]
        @ (if projection_type = ''future_parent'' then [(''learner_snapshots'', JList (map role_snapshot_json snapshots))] else [])))"

text \<open>A summary's assessment is a row: its table's key holds.\<close>

definition summary_visible :: "'a grading_db_scheme \<Rightarrow> (assessment \<Rightarrow> bool) \<Rightarrow> cohort_summary \<Rightarrow> bool" where
  "summary_visible db check m \<longleftrightarrow> (case assessment_row db (sm_assessment m) of None \<Rightarrow> False | Some a \<Rightarrow> check a)"

definition get_teacher_compilation_projection ::
  "'a compiled_db_scheme \<Rightarrow> user option \<Rightarrow> school \<Rightarrow> uuid option \<Rightarrow> (string \<times> json) list result" where
  "get_teacher_compilation_projection db actor tenant assessment_id =
     (case get_teacher_compilation_scope db actor (Some tenant) assessment_id of
        [] \<Rightarrow> build_role_projection ''teacher'' [] []
      | m # ms \<Rightarrow>
          if \<not> summary_visible db (can_view_teacher_compilation db
               (policy_context_for db actor (Some tenant) ''grading.compilation.teacher.view'' GRADING_ROLE_CODES)) m
          then build_role_projection ''teacher'' [] [] else build_role_projection ''teacher'' (m # ms) [])"

definition get_hod_compilation_projection ::
  "'a compiled_db_scheme \<Rightarrow> user option \<Rightarrow> school \<Rightarrow> (string \<times> string) list \<Rightarrow> (string \<times> json) list result" where
  "get_hod_compilation_projection db actor tenant filters =
     build_role_projection ''hod'' (filter (summary_visible db (can_view_hod_compilation db
         (policy_context_for db actor (Some tenant) ''grading.compilation.hod.view'' [''hod''])))
       (get_hod_compilation_scope db actor (Some tenant) filters)) []"

definition get_deputy_academics_projection ::
  "'a compiled_db_scheme \<Rightarrow> user option \<Rightarrow> school \<Rightarrow> (string \<times> string) list \<Rightarrow> (string \<times> json) list result" where
  "get_deputy_academics_projection db actor tenant filters =
     (if \<not> can_view_deputy_academics_compilation db (policy_context_for db actor (Some tenant) ''grading.compilation.deputy.view''
            [''deputy_principal'', ''principal'', ''school_admin'']) None
      then build_role_projection ''deputy_head_academics'' [] []
      else build_role_projection ''deputy_head_academics'' (get_principal_compilation_scope db actor (Some tenant) filters) [])"

definition get_principal_compilation_projection ::
  "'a compiled_db_scheme \<Rightarrow> user option \<Rightarrow> school \<Rightarrow> (string \<times> string) list \<Rightarrow> (string \<times> json) list result" where
  "get_principal_compilation_projection db actor tenant filters =
     (if \<not> can_view_principal_compilation db (policy_context_for db actor (Some tenant) ''grading.compilation.principal.view''
            [''principal'', ''school_admin'']) None
      then build_role_projection ''principal'' [] []
      else build_role_projection ''principal'' (get_principal_compilation_scope db actor (Some tenant) filters) [])"

definition get_future_parent_learner_projection ::
  "'a compiled_db_scheme \<Rightarrow> user option \<Rightarrow> school \<Rightarrow> uuid \<Rightarrow> (string \<times> json) list result" where
  "get_future_parent_learner_projection db actor tenant learner_id =
     (if \<not> can_view_future_parent_projection (policy_context_for db actor (Some tenant) ''grading.compilation.future_parent.view''
            [''guardian'']) (Some tenant)
      then build_role_projection ''future_parent'' [] []
      else build_role_projection ''future_parent'' [] (get_compiled_learner_snapshots db (Some tenant) None (Some learner_id)))"

end
