(* ===== verification/ReportRules.thy ===== *)
theory ReportRules
  imports Projections
begin

text \<open>
  The pure rules of reports and analytics: report_eligibility_rules.py, report_snapshot_builder.py,
  report_snapshot_integrity.py, academic_aggregate_builder.py, performance_ranking.py,
  learner_improvement_detector.py, subject_weakness_detector.py, role_analytics_projection.py and
  report_pii_payload_guard.py.
\<close>

section \<open>Eligibility (report_eligibility_rules.py)\<close>

record eligibility =
  eg_eligible :: bool
  eg_status :: string
  eg_readiness_status :: string
  eg_compilation_status :: string
  eg_run :: string
  eg_assessment :: string
  eg_cohort :: string
  eg_learning_area :: string
  eg_codes :: "string list"

definition evaluate_report_eligibility :: "readiness \<Rightarrow> eligibility" where
  "evaluate_report_eligibility r =
     (let compilation_status = (if rd_compilation_status r = [] then ''not_started'' else rd_compilation_status r);
          readiness_status = (if rd_status r = [] then ''unknown'' else rd_status r);
          codes = py_sorted_set (map bk_code (filter (\<lambda>b. bk_severity b = ''blocking'') (rd_blockers r))
            @ (if rd_run r = [] then [''compilation_missing''] else [])
            @ (if compilation_status \<noteq> ''complete'' then [''compilation_'' @ compilation_status] else [])
            @ (if readiness_status \<noteq> ''ready_for_reports'' then [''readiness_'' @ readiness_status] else [])
            @ (if 0 < rd_pending_corrections r then [''correction_unresolved''] else [])
            @ (if \<not> rd_report_ready r then [''readiness_not_cleared''] else [])) in
      \<lparr>eg_eligible = (codes = []), eg_status = (if codes = [] then ''eligible'' else ''blocked''),
       eg_readiness_status = readiness_status, eg_compilation_status = compilation_status, eg_run = rd_run r,
       eg_assessment = rd_assessment r, eg_cohort = rd_cohort r, eg_learning_area = rd_learning_area r, eg_codes = codes\<rparr>)"

record eligibility_summary =
  es_assessments :: nat
  es_eligible :: nat
  es_blocked :: nat
  es_all_eligible :: bool
  es_blockers :: "(string \<times> nat) list"

definition summarize_eligibility :: "eligibility list \<Rightarrow> eligibility_summary" where
  "summarize_eligibility results =
     (let eligible_count = length (filter eg_eligible results); blocked_count = length results - eligible_count in
      \<lparr>es_assessments = length results, es_eligible = eligible_count, es_blocked = blocked_count,
       es_all_eligible = (results \<noteq> [] \<and> blocked_count = 0), es_blockers = counted (concat (map eg_codes results))\<rparr>)"

definition eligibility_summary_json :: "eligibility_summary \<Rightarrow> json" where
  "eligibility_summary_json s =
     JObj [(''assessment_count'', JInt (int (es_assessments s))), (''eligible_count'', JInt (int (es_eligible s))),
           (''blocked_count'', JInt (int (es_blocked s))), (''all_eligible'', JBool (es_all_eligible s)),
           (''blocker_counts'', JObj (map (\<lambda>(k, n). (k, JInt (int n))) (es_blockers s)))]"

section \<open>Snapshot payloads (report_snapshot_builder.py)\<close>

text \<open>\<open>_decimal\<close>: anything that is no number counts as zero.\<close>

definition decimal_or_zero :: "string \<Rightarrow> decimal" where
  "decimal_or_zero v = (case decimal_of_text v of Inl _ \<Rightarrow> Fin False 0 (-2) | Inr d \<Rightarrow> d)"

definition quantize_cents :: "decimal \<Rightarrow> decimal result" where
  "quantize_cents d = dec_quantize d (-2)"

definition sum_decimals :: "decimal list \<Rightarrow> decimal result" where
  "sum_decimals ds = efold (\<lambda>d total. dec_add total d) ds (Fin False 0 0)"

text \<open>\<open>dict(value or {})\<close>.\<close>

definition dict_of :: "json \<Rightarrow> (string \<times> json) list result" where
  "dict_of v = (case or_json v (JObj []) of JObj kvs \<Rightarrow> Inr kvs | _ \<Rightarrow> Inl (OtherError ''TypeError''))"

record line_payload =
  lp_compiled :: uuid
  lp_run :: uuid
  lp_assessment :: uuid
  lp_student :: uuid
  lp_cohort :: uuid
  lp_learning_area :: uuid
  lp_version :: uuid
  lp_rubric :: string
  lp_schema_version :: string
  lp_score_summary :: "(string \<times> json) list"
  lp_component_summary :: "(string \<times> json) list"
  lp_percentage :: string
  lp_raw_score :: string
  lp_band_status :: string
  lp_band_label :: string
  lp_band_descriptor :: string
  lp_status :: string

text \<open>
  The internal band is read from attributes an assessment does not have, so it is always the default.
\<close>

definition build_subject_line_payload :: "learner_snapshot \<Rightarrow> assessment \<Rightarrow> line_payload result" where
  "build_subject_line_payload s a =
     ebind (dict_of (ls_score_summary s)) (\<lambda>score_summary.
       ebind (dict_of (ls_component_summary s)) (\<lambda>component_summary.
         Inr \<lparr>lp_compiled = ls_id s, lp_run = ls_run s, lp_assessment = ls_assessment s, lp_student = ls_student s,
              lp_cohort = ls_cohort s, lp_learning_area = ls_learning_area s, lp_version = ls_version s,
              lp_rubric = (case ls_rubric s of None \<Rightarrow> [] | Some r \<Rightarrow> r), lp_schema_version = as_schema_version a,
              lp_score_summary = score_summary, lp_component_summary = component_summary,
              lp_percentage = json_str (or_json (jget score_summary ''percentage'') (JStr ''0.00'')),
              lp_raw_score = json_str (or_json (jget score_summary ''raw_score'') (JStr ''0.00'')),
              lp_band_status = ls_band_status s, lp_band_label = [], lp_band_descriptor = [], lp_status = ls_status s\<rparr>))"

record learner_payload =
  yp_student :: uuid
  yp_subject_count :: nat
  yp_total_score :: string
  yp_average :: string
  yp_source_ids :: "string list"
  yp_readiness_status :: string
  yp_schema_versions :: "(string \<times> string) list"
  yp_context :: json

definition build_learner_snapshot_payload :: "uuid \<Rightarrow> line_payload list \<Rightarrow> string \<Rightarrow> learner_payload result" where
  "build_learner_snapshot_payload student_id lines readiness_status =
     (let percentages = map (decimal_or_zero \<circ> lp_percentage) lines; raw_scores = map (decimal_or_zero \<circ> lp_raw_score) lines in
      ebind (if lines = [] then Inr (Fin False 0 (-2))
             else ebind (sum_decimals percentages) (\<lambda>total.
               ebind (dec_div total (dec_int (int (length lines)))) quantize_cents)) (\<lambda>average.
        ebind (if lines = [] then Inl (OtherError ''AttributeError'') else ebind (sum_decimals raw_scores) quantize_cents) (\<lambda>total.
          Inr \<lparr>yp_student = student_id, yp_subject_count = length lines, yp_total_score = dec_str total, yp_average = dec_str average,
               yp_source_ids = py_sorted_set (map lp_run lines), yp_readiness_status = readiness_status,
               yp_schema_versions = foldl (\<lambda>d l. dict_set (lp_assessment l) (lp_schema_version l) d) []
                 (filter (\<lambda>l. lp_schema_version l \<noteq> []) lines),
               yp_context = JObj [(''assessment_ids'', JList (map JStr (py_sorted_set (map lp_assessment lines)))),
                 (''curriculum_version_ids'', JList (map JStr (py_sorted_set (map lp_version lines)))),
                 (''learning_area_ids'', JList (map JStr (py_sorted_set (map lp_learning_area lines))))]\<rparr>)))"

section \<open>Integrity of snapshots (report_snapshot_integrity.py, report_pii_payload_guard.py)\<close>

definition snapshot_context_fingerprint :: "line_payload list \<Rightarrow> string" where
  "snapshot_context_fingerprint lines =
     join '';'' (sort (map (\<lambda>l. join ''|'' [lp_assessment l, lp_run l, lp_version l, lp_schema_version l]) lines))"

definition snapshot_is_context_preserving :: "line_payload \<Rightarrow> learner_snapshot \<Rightarrow> bool" where
  "snapshot_is_context_preserving l s \<longleftrightarrow>
     lp_compiled l = ls_id s \<and> lp_version l = ls_version s \<and> lp_learning_area l = ls_learning_area s"

definition FORBIDDEN_REPORT_PAYLOAD_KEYS :: "string list" where
  "FORBIDDEN_REPORT_PAYLOAD_KEYS =
     [''raw_marks'', ''learner_names'', ''guardian_data'', ''guardian_phone'', ''teacher_private_notes'', ''report_text'',
      ''nlp_output'', ''raw_grade_grid'']"

definition assert_report_payload_is_reference_safe :: "(string \<times> json) list \<Rightarrow> unit result" where
  "assert_report_payload_is_reference_safe payload =
     (if set (map fst payload) \<inter> set FORBIDDEN_REPORT_PAYLOAD_KEYS \<noteq> {}
      then Inl (OtherError ''ValueError'') else Inr ())"

section \<open>Aggregates (academic_aggregate_builder.py)\<close>

text \<open>Python's \<open>max\<close> and \<open>min\<close>: the first of the greatest, the first of the least.\<close>

definition max_decimals :: "decimal list \<Rightarrow> decimal result" where
  "max_decimals ds = efold (\<lambda>d best. ebind (dec_less best d) (\<lambda>b. Inr (if b then d else best))) (tl ds) (hd ds)"

definition min_decimals :: "decimal list \<Rightarrow> decimal result" where
  "min_decimals ds = efold (\<lambda>d best. ebind (dec_less d best) (\<lambda>b. Inr (if b then d else best))) (tl ds) (hd ds)"

record performance_metrics =
  pm_count :: nat
  pm_mean :: string
  pm_highest :: string
  pm_lowest :: string
  pm_minimum :: nat
  pm_met :: bool

definition build_performance_metrics :: "string list \<Rightarrow> nat \<Rightarrow> performance_metrics result" where
  "build_performance_metrics percentages minimum_group_size =
     (let values = map decimal_or_zero percentages; count = length values in
      ebind (if count = 0 then Inr (Fin False 0 (-2))
             else ebind (sum_decimals values) (\<lambda>total. dec_div total (dec_int (int count)))) (\<lambda>mean.
        ebind (quantize_cents mean) (\<lambda>q_mean.
          ebind (if values = [] then Inr ''0.00'' else ebind (ebind (max_decimals values) quantize_cents) (\<lambda>d. Inr (dec_str d))) (\<lambda>highest.
            ebind (if values = [] then Inr ''0.00'' else ebind (ebind (min_decimals values) quantize_cents) (\<lambda>d. Inr (dec_str d))) (\<lambda>lowest.
              Inr \<lparr>pm_count = count, pm_mean = dec_str q_mean, pm_highest = highest, pm_lowest = lowest,
                   pm_minimum = minimum_group_size, pm_met = (minimum_group_size \<le> count)\<rparr>)))))"

definition metrics_json :: "performance_metrics \<Rightarrow> (string \<times> json) list" where
  "metrics_json m =
     [(''learner_count'', JInt (int (pm_count m))), (''mean_percentage'', JStr (pm_mean m)),
      (''highest_percentage'', JStr (pm_highest m)), (''lowest_percentage'', JStr (pm_lowest m)),
      (''minimum_group_size'', JInt (int (pm_minimum m))), (''min_group_size_met'', JBool (pm_met m))]"

definition build_scope_aggregate ::
  "string \<Rightarrow> string list \<Rightarrow> nat \<Rightarrow> nat \<Rightarrow> nat \<Rightarrow> nat \<Rightarrow> nat \<Rightarrow> (performance_metrics \<times> (string \<times> json) list) result" where
  "build_scope_aggregate scope_type percentages readiness_risk_count correction_blocker_count cct_blocker_count
       schema_mismatch_count minimum_group_size =
     ebind (build_performance_metrics percentages minimum_group_size) (\<lambda>m.
       Inr (m, metrics_json m @ [(''scope_type'', JStr scope_type), (''readiness_risk_count'', JInt (int readiness_risk_count)),
         (''correction_blocker_count'', JInt (int correction_blocker_count)), (''cct_blocker_count'', JInt (int cct_blocker_count)),
         (''schema_mismatch_count'', JInt (int schema_mismatch_count))]))"

section \<open>Rankings (performance_ranking.py, learner_improvement_detector.py, subject_weakness_detector.py)\<close>

record learner_item =
  li_snapshot :: uuid
  li_student :: uuid
  li_cohort :: uuid
  li_average :: string
  li_subject_count :: nat

text \<open>\<open>-d\<close>, rounded to the context.\<close>

definition dec_minus :: "decimal \<Rightarrow> decimal result" where
  "dec_minus d = (case d of
       Fin s c e \<Rightarrow> dec_fix (if c = 0 then Fin False 0 e else Fin (\<not> s) c e)
     | Inf s \<Rightarrow> Inr (Inf (\<not> s)) | QNaN \<Rightarrow> Inr QNaN | SNaN \<Rightarrow> Inl InvalidOperation)"

definition dec_sub :: "decimal \<Rightarrow> decimal \<Rightarrow> decimal result" where
  "dec_sub a b = dec_add a (case b of Fin s c e \<Rightarrow> Fin (\<not> s) c e | Inf s \<Rightarrow> Inf (\<not> s) | _ \<Rightarrow> b)"

text \<open>\<open>quantize(Decimal("0.01"))\<close> under the context's rounding, half even.\<close>

definition quantize_even :: "decimal \<Rightarrow> decimal result" where
  "quantize_even d = (case d of
       Fin s c e \<Rightarrow>
         if c = 0 then dec_fix (Fin s 0 (-2))
         else if e + int (ndigits c) - 1 > dec_Emax then Inl InvalidOperation
         else if e + int (ndigits c) + 2 > int dec_prec then Inl InvalidOperation
         else let q = (if -2 \<le> e then c * 10 ^ nat (e + 2) else half_even c (nat (- 2 - e))) in
           if ndigits q > dec_prec then Inl InvalidOperation else dec_fix (Fin s q (-2))
     | QNaN \<Rightarrow> Inr QNaN | _ \<Rightarrow> Inl InvalidOperation)"

text \<open>Sorting by a decimal and a text; comparing a NaN raises as soon as there are two items.\<close>

definition sort_by_decimal :: "('a \<Rightarrow> decimal) \<Rightarrow> ('a \<Rightarrow> string) \<Rightarrow> 'a list \<Rightarrow> 'a list result" where
  "sort_by_decimal f g xs =
     (if 2 \<le> length xs \<and> (\<exists>x\<in>set xs. is_nan (f x)) then Inl InvalidOperation
      else Inr (sort_key (\<lambda>x. (dec_key (f x), g x)) xs))"

record ranked =
  rk_student :: uuid
  rk_rank :: nat
  rk_average :: string

definition rank_learners :: "learner_item list \<Rightarrow> nat \<Rightarrow> ranked list result" where
  "rank_learners items limit =
     ebind (emap (\<lambda>i. ebind (ebind (decimal_of_text (li_average i)) dec_minus) (\<lambda>d. Inr (d, i))) items) (\<lambda>keyed.
       ebind (sort_by_decimal fst (li_student \<circ> snd) keyed) (\<lambda>ordered.
         Inr (map (\<lambda>(k, i). \<lparr>rk_student = li_student i, rk_rank = k + 1, rk_average = li_average i\<rparr>)
           (zip [0..<limit] (map snd (take limit ordered))))))"

record improvement =
  im_student :: uuid
  im_delta :: string
  im_average :: string

definition learner_delta :: "(uuid \<times> decimal) list \<Rightarrow> learner_item \<Rightarrow> improvement result" where
  "learner_delta previous_map i =
     ebind (decimal_of_text (li_average i)) (\<lambda>current_average.
       ebind (dec_sub current_average (case map_of (rev previous_map) (li_student i) of None \<Rightarrow> Fin False 0 0 | Some d \<Rightarrow> d)) (\<lambda>delta.
         ebind (quantize_even delta) (\<lambda>q_delta. ebind (quantize_even current_average) (\<lambda>q_average.
           Inr \<lparr>im_student = li_student i, im_delta = dec_str q_delta, im_average = dec_str q_average\<rparr>))))"

definition detect_most_improved :: "learner_item list \<Rightarrow> learner_item list option \<Rightarrow> nat \<Rightarrow> improvement list result" where
  "detect_most_improved current previous limit =
     ebind (emap (\<lambda>i. ebind (decimal_of_text (li_average i)) (\<lambda>d. Inr (li_student i, d)))
         (case previous of None \<Rightarrow> [] | Some ps \<Rightarrow> ps)) (\<lambda>previous_map.
       ebind (emap (learner_delta previous_map) current) (\<lambda>deltas.
         ebind (emap (\<lambda>m. ebind (ebind (decimal_of_text (im_delta m)) dec_minus) (\<lambda>d. Inr (d, m))) deltas) (\<lambda>keyed.
           ebind (sort_by_decimal fst (im_student \<circ> snd) keyed) (\<lambda>ordered. Inr (take limit (map snd ordered))))))"

record aggregate_item =
  ai_id :: uuid
  ai_scope_type :: string
  ai_cohort :: string
  ai_learning_area :: string
  ai_stream_label :: string
  ai_department_key :: string
  ai_metrics :: "(string \<times> json) list"
  ai_met :: bool

record weak_subject =
  wk_learning_area :: string
  wk_mean :: string
  wk_count :: int

definition weak_subject_of :: "decimal \<Rightarrow> aggregate_item \<Rightarrow> weak_subject list result" where
  "weak_subject_of threshold i =
     ebind (decimal_of_text (json_str (jget_or (ai_metrics i) ''mean_percentage'' (JStr ''0'')))) (\<lambda>mean.
       ebind (dec_less mean threshold) (\<lambda>weak.
         if \<not> weak then Inr []
         else ebind (quantize_even mean) (\<lambda>q. ebind (py_int (jget_or (ai_metrics i) ''learner_count'' (JInt 0))) (\<lambda>n.
           Inr [\<lparr>wk_learning_area = ai_learning_area i, wk_mean = dec_str q, wk_count = n\<rparr>]))))"

definition detect_weak_subjects :: "aggregate_item list \<Rightarrow> decimal \<Rightarrow> weak_subject list result" where
  "detect_weak_subjects items threshold =
     ebind (emap (weak_subject_of threshold) items) (\<lambda>weak.
       ebind (emap (\<lambda>w. ebind (decimal_of_text (wk_mean w)) (\<lambda>d. Inr (d, w))) (concat weak)) (\<lambda>keyed.
         ebind (sort_by_decimal fst (wk_learning_area \<circ> snd) keyed) (\<lambda>ordered. Inr (map snd ordered))))"

section \<open>Analytics per role (role_analytics_projection.py)\<close>

record analytics =
  aa_type :: string
  aa_snapshot_count :: nat
  aa_aggregate_count :: nat
  aa_readiness :: json
  aa_top :: "ranked list"
  aa_improved :: "improvement list"
  aa_weak :: "weak_subject list"
  aa_aggregates :: "aggregate_item list"

definition build_role_analytics_projection ::
  "string \<Rightarrow> learner_item list \<Rightarrow> aggregate_item list \<Rightarrow> json \<Rightarrow> analytics result" where
  "build_role_analytics_projection projection_type learners items readiness_summary =
     ebind (rank_learners learners 10) (\<lambda>top.
       ebind (detect_most_improved learners None 10) (\<lambda>improved.
         ebind (detect_weak_subjects (filter (\<lambda>i. ai_scope_type i = ''subject'') items) (Fin False 5000 (-2))) (\<lambda>weak.
           Inr \<lparr>aa_type = projection_type, aa_snapshot_count = length learners, aa_aggregate_count = length items,
                aa_readiness = or_json readiness_summary (JObj []), aa_top = top, aa_improved = improved, aa_weak = weak,
                aa_aggregates = items\<rparr>)))"

definition build_future_parent_snapshot_projection :: "(string \<times> json) list" where
  "build_future_parent_snapshot_projection =
     [(''projection_type'', JStr ''future_parent''), (''ready_for_release'', JBool False), (''learner_snapshots'', JList []),
      (''blockers'', JList [JObj [(''code'', JStr ''guardian_release_model_missing''), (''severity'', JStr ''blocking''),
        (''message'', JStr ''Parent analytics fails closed until guardian links and approved report release records exist.'')]])]"

end
