(* ===== verification/Reports.thy ===== *)
theory Reports
  imports ReportRules
begin

text \<open>
  Report snapshots: the rows of a report period in grading/models.py, the services that freeze
  readiness-cleared compiled facts into learner snapshots, subject lines and aggregates, and the
  selectors that read them.
\<close>

section \<open>Rows (models.py)\<close>

record report_run =
  rn_id :: uuid
  rn_tenant :: uuid
  rn_academic_year :: uuid
  rn_term :: uuid
  rn_requested_by :: "uuid option"
  rn_status :: string
  rn_eligibility_summary :: json
  rn_source_ids :: "string list"
  rn_started_at :: time
  rn_completed_at :: "time option"
  rn_created_at :: time

record eligibility_record =
  el_id :: uuid
  el_tenant :: uuid
  el_run :: uuid
  el_assessment :: uuid
  el_compilation_run :: "uuid option"
  el_academic_year :: uuid
  el_term :: uuid
  el_cohort :: uuid
  el_learning_area :: uuid
  el_status :: string
  el_readiness_status :: string
  el_blocker_codes :: "string list"
  el_source_readiness :: json
  el_checked_at :: time

record learner_report =
  lr_id :: uuid
  lr_tenant :: uuid
  lr_run :: uuid
  lr_student :: uuid
  lr_academic_year :: uuid
  lr_term :: uuid
  lr_cohort :: uuid
  lr_status :: string
  lr_subject_count :: int
  lr_total :: decimal
  lr_average :: decimal
  lr_source_ids :: "string list"
  lr_readiness_status :: string
  lr_audit_state :: json
  lr_context :: json
  lr_schema_versions :: json

record subject_line =
  sl_id :: uuid
  sl_tenant :: uuid
  sl_run :: uuid
  sl_learner :: uuid
  sl_compiled :: uuid
  sl_compilation_run :: uuid
  sl_assessment :: uuid
  sl_student :: uuid
  sl_academic_year :: uuid
  sl_term :: uuid
  sl_cohort :: uuid
  sl_learning_area :: uuid
  sl_version :: uuid
  sl_rubric :: "uuid option"
  sl_schema_version :: string
  sl_score_summary :: json
  sl_component_summary :: json
  sl_band_status :: string
  sl_band_label :: string
  sl_band_descriptor :: string
  sl_status :: string

record aggregate =
  ag_id :: uuid
  ag_tenant :: uuid
  ag_run :: uuid
  ag_academic_year :: uuid
  ag_term :: uuid
  ag_scope_type :: string
  ag_grade_level :: "uuid option"
  ag_cohort :: "uuid option"
  ag_learning_area :: "uuid option"
  ag_stream_label :: string
  ag_department_key :: string
  ag_metrics :: json
  ag_met :: bool
  ag_status :: string

record report_db = readiness_db +
  report_runs :: "report_run list"
  eligibility_records :: "eligibility_record list"
  learner_reports :: "learner_report list"
  subject_lines :: "subject_line list"
  academic_aggregates :: "aggregate list"

definition report_run_row :: "'a report_db_scheme \<Rightarrow> uuid \<Rightarrow> report_run option" where
  "report_run_row db i = first_where (\<lambda>q. rn_id q = i) (report_runs db)"

definition learner_report_row :: "'a report_db_scheme \<Rightarrow> uuid \<Rightarrow> learner_report option" where
  "learner_report_row db i = first_where (\<lambda>s. lr_id s = i) (learner_reports db)"

definition learner_snapshot_row :: "'a compiled_db_scheme \<Rightarrow> uuid \<Rightarrow> learner_snapshot option" where
  "learner_snapshot_row db i = first_where (\<lambda>s. ls_id s = i) (learner_snapshots db)"

text \<open>The tenants of the rows a foreign key names: one list per key, empty when the row is missing.\<close>

definition years_and_terms :: "'a academic_db_scheme \<Rightarrow> uuid \<Rightarrow> uuid \<Rightarrow> uuid option list" where
  "years_and_terms db y k = [map_option ay_tenant (year_row db y), map_option te_tenant (term_row db k)]"

definition cohort_and_area :: "'a academic_db_scheme \<Rightarrow> uuid \<Rightarrow> uuid \<Rightarrow> uuid option list" where
  "cohort_and_area db c l = [map_option co_tenant (cohort_row db c), map_option la_tenant (learning_area_row db l)]"

text \<open>Every key names a row; then the rows are of the tenant.\<close>

definition related_check :: "string \<Rightarrow> uuid \<Rightarrow> uuid option list \<Rightarrow> unit result" where
  "related_check message tenant related =
     (if None \<in> set related then Inl (field_error ''related'')
      else if \<exists>v\<in>set related. v \<noteq> Some tenant then Inl (ValidationError ''tenant'' message) else Inr ())"

definition report_run_statuses :: "string list" where
  "report_run_statuses = [''pending'', ''running'', ''complete'', ''partial'', ''blocked'', ''failed'']"

definition report_run_full_clean :: "'a report_db_scheme \<Rightarrow> report_run \<Rightarrow> report_run result" where
  "report_run_full_clean db q =
     (if \<not> (school_exists db (rn_tenant q) \<and> opt_fk (user_exists db) (rn_requested_by q) \<and> rn_status q \<in> set report_run_statuses
            \<and> json_field (rn_eligibility_summary q))
      then Inl (field_error ''status'')
      else ebind (related_check ''Report run tenant is invalid.'' (rn_tenant q) (years_and_terms db (rn_academic_year q) (rn_term q))) (\<lambda>_.
        if map_option te_academic_year (term_row db (rn_term q)) \<noteq> Some (rn_academic_year q)
        then Inl (ValidationError ''term'' ''Report run term is invalid.'')
        else if \<not> is_dict (rn_eligibility_summary q)
        then Inl (ValidationError ''eligibility_summary'' ''Eligibility summary must be an object.'')
        else Inr q))"

definition eligibility_full_clean :: "'a report_db_scheme \<Rightarrow> eligibility_record \<Rightarrow> eligibility_record result" where
  "eligibility_full_clean db e =
     (if \<not> (school_exists db (el_tenant e) \<and> el_status e \<in> {''eligible'', ''blocked''} \<and> length (el_readiness_status e) \<le> 64
            \<and> json_field (el_source_readiness e))
      then Inl (field_error ''status'')
      else ebind (related_check ''Eligibility tenant is invalid.'' (el_tenant e)
          ([map_option rn_tenant (report_run_row db (el_run e)), map_option as_tenant (assessment_row db (el_assessment e)),
            (case el_compilation_run e of None \<Rightarrow> Some (el_tenant e) | Some i \<Rightarrow> map_option cr_tenant (run_row db i))]
           @ years_and_terms db (el_academic_year e) (el_term e) @ cohort_and_area db (el_cohort e) (el_learning_area e))) (\<lambda>_.
        if \<not> is_dict (el_source_readiness e)
        then Inl (ValidationError ''source_readiness'' ''Readiness payload must be an object.'') else Inr e))"

definition learner_report_full_clean :: "'a report_db_scheme \<Rightarrow> learner_report \<Rightarrow> learner_report result" where
  "learner_report_full_clean db s =
     (if \<not> (school_exists db (lr_tenant s) \<and> lr_status s \<in> {''active'', ''superseded'', ''stale''}
            \<and> positive_integer_field (lr_subject_count s) \<and> decimal_field 9 2 (lr_total s) \<and> decimal_field 7 2 (lr_average s)
            \<and> length (lr_readiness_status s) \<le> 64 \<and> json_field (lr_audit_state s) \<and> json_field (lr_context s)
            \<and> json_field (lr_schema_versions s))
      then Inl (field_error ''status'')
      else ebind (related_check ''Learner report tenant is invalid.'' (lr_tenant s)
          ([map_option rn_tenant (report_run_row db (lr_run s)), map_option st_tenant (student_row db (lr_student s))]
           @ years_and_terms db (lr_academic_year s) (lr_term s) @ [map_option co_tenant (cohort_row db (lr_cohort s))])) (\<lambda>_.
        if \<not> (is_dict (lr_audit_state s) \<and> is_dict (lr_context s) \<and> is_dict (lr_schema_versions s))
        then Inl (ValidationError ''context_snapshot'' ''Value must be an object.'')
        else if \<exists>p\<in>set (learner_reports db). lr_id p \<noteq> lr_id s \<and> lr_tenant p = lr_tenant s \<and> lr_run p = lr_run s
               \<and> lr_student p = lr_student s
        then Inl (ValidationError ''__all__'' ''Already exists.'') else Inr s))"

definition subject_line_full_clean :: "'a report_db_scheme \<Rightarrow> subject_line \<Rightarrow> subject_line result" where
  "subject_line_full_clean db l =
     (if \<not> (school_exists db (sl_tenant l) \<and> version_exists db (sl_version l) \<and> opt_fk (\<lambda>r. rubric_row db r \<noteq> None) (sl_rubric l)
            \<and> length (sl_schema_version l) \<le> 48 \<and> json_field (sl_score_summary l) \<and> json_field (sl_component_summary l)
            \<and> length (sl_band_status l) \<le> 64 \<and> length (sl_band_label l) \<le> 32 \<and> length (sl_band_descriptor l) \<le> 160
            \<and> char_field 32 (sl_status l))
      then Inl (field_error ''status'')
      else ebind (related_check ''Subject report tenant is invalid.'' (sl_tenant l)
          ([map_option rn_tenant (report_run_row db (sl_run l)), map_option lr_tenant (learner_report_row db (sl_learner l)),
            map_option ls_tenant (learner_snapshot_row db (sl_compiled l)), map_option cr_tenant (run_row db (sl_compilation_run l)),
            map_option as_tenant (assessment_row db (sl_assessment l)), map_option st_tenant (student_row db (sl_student l))]
           @ years_and_terms db (sl_academic_year l) (sl_term l) @ cohort_and_area db (sl_cohort l) (sl_learning_area l))) (\<lambda>_.
        if map_option as_learning_area (assessment_row db (sl_assessment l)) \<noteq> Some (sl_learning_area l)
        then Inl (ValidationError ''learning_area'' ''Subject report scope is invalid.'')
        else if \<not> is_dict (sl_score_summary l) then Inl (ValidationError ''score_summary'' ''Score summary must be object.'')
        else if \<not> is_dict (sl_component_summary l)
        then Inl (ValidationError ''component_summary'' ''Component summary must be object.'')
        else if \<exists>p\<in>set (subject_lines db). sl_id p \<noteq> sl_id l \<and> sl_tenant p = sl_tenant l \<and> sl_run p = sl_run l
               \<and> sl_assessment p = sl_assessment l \<and> sl_student p = sl_student l
        then Inl (ValidationError ''__all__'' ''Already exists.'') else Inr l))"

definition aggregate_full_clean :: "'a report_db_scheme \<Rightarrow> aggregate \<Rightarrow> aggregate result" where
  "aggregate_full_clean db g =
     (if \<not> (school_exists db (ag_tenant g) \<and> ag_scope_type g \<in> {''school'', ''cohort'', ''stream'', ''subject'', ''department''}
            \<and> opt_fk (\<lambda>i. grade_level_row db i \<noteq> None) (ag_grade_level g) \<and> length (ag_stream_label g) \<le> 64
            \<and> length (ag_department_key g) \<le> 96 \<and> json_field (ag_metrics g) \<and> char_field 32 (ag_status g))
      then Inl (field_error ''status'')
      else ebind (related_check ''Aggregate tenant is invalid.'' (ag_tenant g)
          ([map_option rn_tenant (report_run_row db (ag_run g))] @ years_and_terms db (ag_academic_year g) (ag_term g)
           @ [(case ag_cohort g of None \<Rightarrow> Some (ag_tenant g) | Some c \<Rightarrow> map_option co_tenant (cohort_row db c)),
              (case ag_learning_area g of None \<Rightarrow> Some (ag_tenant g) | Some l \<Rightarrow> map_option la_tenant (learning_area_row db l))])) (\<lambda>_.
        if \<not> is_dict (ag_metrics g) then Inl (ValidationError ''metrics'' ''Metrics must be an object.'') else Inr g))"

definition add_report_run :: "report_run \<Rightarrow> 'a report_db_scheme \<Rightarrow> 'a report_db_scheme" where
  "add_report_run q db = db\<lparr>report_runs := report_runs db @ [q]\<rparr>"

definition put_report_run :: "report_run \<Rightarrow> 'a report_db_scheme \<Rightarrow> 'a report_db_scheme" where
  "put_report_run q db = db\<lparr>report_runs := update_where (\<lambda>p. rn_id p = rn_id q) (\<lambda>_. q) (report_runs db)\<rparr>"

definition add_eligibility :: "eligibility_record \<Rightarrow> 'a report_db_scheme \<Rightarrow> 'a report_db_scheme" where
  "add_eligibility e db = db\<lparr>eligibility_records := eligibility_records db @ [e]\<rparr>"

definition add_learner_report :: "learner_report \<Rightarrow> 'a report_db_scheme \<Rightarrow> 'a report_db_scheme" where
  "add_learner_report s db = db\<lparr>learner_reports := learner_reports db
     @ [s\<lparr>lr_total := stored_2 (lr_total s), lr_average := stored_2 (lr_average s)\<rparr>]\<rparr>"

definition add_subject_line :: "subject_line \<Rightarrow> 'a report_db_scheme \<Rightarrow> 'a report_db_scheme" where
  "add_subject_line l db = db\<lparr>subject_lines := subject_lines db @ [l]\<rparr>"

definition add_aggregate :: "aggregate \<Rightarrow> 'a report_db_scheme \<Rightarrow> 'a report_db_scheme" where
  "add_aggregate g db = db\<lparr>academic_aggregates := academic_aggregates db @ [g]\<rparr>"

section \<open>Eligibility of a period (services.py)\<close>

text \<open>A dict merged over the period: the caller's fields win.\<close>

definition period_filters :: "uuid \<Rightarrow> uuid \<Rightarrow> (string \<times> string) list \<Rightarrow> (string \<times> string) list" where
  "period_filters year term_id filters = filters @ [(''academic_year_id'', year), (''term_id'', term_id)]"

definition report_context :: "'a identity_db_scheme \<Rightarrow> user \<Rightarrow> school \<Rightarrow> policy_context" where
  "report_context db actor tenant =
     policy_context_for db (Some actor) (Some tenant) ''grading.report_snapshot.compute'' (GRADING_ACADEMIC_HEAD_ROLE_CODES @ [''principal''])"

definition report_assessments ::
  "'a academic_db_scheme \<Rightarrow> (school option \<Rightarrow> (string \<times> string) list \<Rightarrow> assessment list) \<Rightarrow> user \<Rightarrow> school \<Rightarrow> uuid \<Rightarrow> uuid
     \<Rightarrow> (string \<times> string) list \<Rightarrow> assessment list result" where
  "report_assessments db scope actor tenant year term_id filters =
     (if \<not> can_compute_report_snapshot db (report_context db actor tenant) (Some tenant)
      then Inl (ValidationError ''report_snapshot'' ''Report snapshot is not authorized.'')
      else Inr (scope (Some tenant) (period_filters year term_id filters)))"

definition compute_report_eligibility ::
  "'a readiness_db_scheme \<Rightarrow> user \<Rightarrow> school \<Rightarrow> uuid \<Rightarrow> uuid \<Rightarrow> (string \<times> string) list \<Rightarrow> (eligibility_summary \<times> eligibility list) result" where
  "compute_report_eligibility db actor tenant year term_id filters =
     ebind (report_assessments db (get_academic_head_readiness_scope db) actor tenant year term_id filters) (\<lambda>as.
       ebind (emap (\<lambda>a. ebind (build_assessment_readiness db tenant a) (\<lambda>r. Inr (evaluate_report_eligibility r))) as) (\<lambda>results.
         Inr (summarize_eligibility results, results)))"

section \<open>Freezing a period (services.py)\<close>

text \<open>The identifiers of the rows of one snapshot run, those of each kind numbered in their order.\<close>

record report_ids =
  ri_run :: uuid
  ri_eligibility :: "nat \<Rightarrow> uuid"
  ri_learner :: "nat \<Rightarrow> uuid"
  ri_line :: "nat \<Rightarrow> uuid"
  ri_aggregate :: "nat \<Rightarrow> uuid"

definition create_eligibility_record ::
  "time \<Rightarrow> report_ids \<Rightarrow> school \<Rightarrow> report_run \<Rightarrow> nat \<times> assessment \<Rightarrow> ('a report_db_scheme, eligibility) action" where
  "create_eligibility_record now ids tenant q = (\<lambda>(k, a).
     abind (query (\<lambda>db. build_assessment_readiness db tenant a)) (\<lambda>r.
       let e = evaluate_report_eligibility r in
       abind (query (\<lambda>db. Inr (if eg_run e = [] then None
           else first_where (\<lambda>p. cr_tenant p = sc_id tenant \<and> cr_id p = eg_run e) (compilation_runs db)))) (\<lambda>run.
         abind (save_row eligibility_full_clean add_eligibility
             \<lparr>el_id = ri_eligibility ids k, el_tenant = sc_id tenant, el_run = rn_id q, el_assessment = as_id a,
              el_compilation_run = map_option cr_id run, el_academic_year = as_academic_year a, el_term = as_term a,
              el_cohort = as_cohort a, el_learning_area = as_learning_area a, el_status = eg_status e,
              el_readiness_status = eg_readiness_status e, el_blocker_codes = eg_codes e,
              el_source_readiness = JObj (readiness_json r), el_checked_at = now\<rparr>) (\<lambda>_. alift (Inr e)))))"

definition create_eligibility_records ::
  "time \<Rightarrow> report_ids \<Rightarrow> school \<Rightarrow> report_run \<Rightarrow> assessment list \<Rightarrow> ('a report_db_scheme, eligibility list) action" where
  "create_eligibility_records now ids tenant q as = aeach (create_eligibility_record now ids tenant q) (numbered as)"

definition eligible_compilation_ids :: "eligibility list \<Rightarrow> string list" where
  "eligible_compilation_ids results = py_sorted_set (map eg_run (filter (\<lambda>e. eg_eligible e \<and> eg_run e \<noteq> []) results))"

definition snapshot_source_rows :: "'a compiled_db_scheme \<Rightarrow> school \<Rightarrow> string list \<Rightarrow> learner_snapshot list" where
  "snapshot_source_rows db tenant run_ids =
     (if run_ids = [] then []
      else sort_key (\<lambda>s. (ls_student s, case learning_area_row db (ls_learning_area s) of None \<Rightarrow> [] | Some l \<Rightarrow> la_name l, ls_assessment s))
        (filter (\<lambda>s. ls_tenant s = sc_id tenant \<and> ls_run s \<in> set run_ids \<and> ls_status s = ''complete'') (learner_snapshots db)))"

text \<open>A source row with its assessment and its subject line.\<close>

definition source_line :: "'a grading_db_scheme \<Rightarrow> learner_snapshot \<Rightarrow> (learner_snapshot \<times> assessment \<times> line_payload) result" where
  "source_line db s =
     (case assessment_row db (ls_assessment s) of
        None \<Rightarrow> Inl (OtherError ''DoesNotExist'')
      | Some a \<Rightarrow> ebind (build_subject_line_payload s a) (\<lambda>l. Inr (s, a, l)))"

definition create_learner_report ::
  "report_ids \<Rightarrow> school \<Rightarrow> report_run \<Rightarrow> (learner_snapshot \<times> assessment \<times> line_payload) list \<Rightarrow> nat \<times> uuid
     \<Rightarrow> ('a report_db_scheme, uuid \<times> learner_report) action" where
  "create_learner_report ids tenant q sources = (\<lambda>(k, student_id).
     let mine = filter (\<lambda>(s, a, l). ls_student s = student_id) sources; (row, a, _) = hd mine in
     abind (alift (build_learner_snapshot_payload student_id (map (snd \<circ> snd) mine) ''ready_for_reports'')) (\<lambda>p.
       abind (alift (decimal_of_text (yp_total_score p))) (\<lambda>total.
         abind (alift (decimal_of_text (yp_average p))) (\<lambda>average.
           abind (save_row learner_report_full_clean add_learner_report
               \<lparr>lr_id = ri_learner ids k, lr_tenant = sc_id tenant, lr_run = rn_id q, lr_student = student_id,
                lr_academic_year = as_academic_year a, lr_term = as_term a, lr_cohort = ls_cohort row, lr_status = ''active'',
                lr_subject_count = int (yp_subject_count p), lr_total = total, lr_average = average,
                lr_source_ids = yp_source_ids p, lr_readiness_status = yp_readiness_status p,
                lr_audit_state = JObj [(''resolved'', JBool True)], lr_context = yp_context p,
                lr_schema_versions = JObj (map (\<lambda>(i, v). (i, JStr v)) (yp_schema_versions p))\<rparr>) (\<lambda>s.
             alift (Inr (student_id, s)))))))"

definition create_subject_line ::
  "report_ids \<Rightarrow> school \<Rightarrow> report_run \<Rightarrow> (uuid \<times> learner_report) list \<Rightarrow> nat \<times> (learner_snapshot \<times> assessment \<times> line_payload)
     \<Rightarrow> ('a report_db_scheme, subject_line) action" where
  "create_subject_line ids tenant q learner_by_student = (\<lambda>(k, (s, a, l)).
     case map_of learner_by_student (ls_student s) of
       None \<Rightarrow> alift (Inl (OtherError ''KeyError''))
     | Some learner \<Rightarrow> save_row subject_line_full_clean add_subject_line
         \<lparr>sl_id = ri_line ids k, sl_tenant = sc_id tenant, sl_run = rn_id q, sl_learner = lr_id learner, sl_compiled = ls_id s,
          sl_compilation_run = ls_run s, sl_assessment = as_id a, sl_student = ls_student s, sl_academic_year = as_academic_year a,
          sl_term = as_term a, sl_cohort = ls_cohort s, sl_learning_area = ls_learning_area s, sl_version = ls_version s,
          sl_rubric = ls_rubric s, sl_schema_version = lp_schema_version l, sl_score_summary = JObj (lp_score_summary l),
          sl_component_summary = JObj (lp_component_summary l), sl_band_status = lp_band_status l, sl_band_label = lp_band_label l,
          sl_band_descriptor = lp_band_descriptor l, sl_status = lp_status l\<rparr>)"

definition build_report_snapshots ::
  "report_ids \<Rightarrow> school \<Rightarrow> report_run \<Rightarrow> learner_snapshot list \<Rightarrow> ('a report_db_scheme, unit) action" where
  "build_report_snapshots ids tenant q source_rows =
     abind (query (\<lambda>db. emap (source_line db) source_rows)) (\<lambda>sources.
       abind (aeach (create_learner_report ids tenant q sources) (numbered (py_sorted_set (map ls_student source_rows)))) (\<lambda>learner_by_student.
         abind (aeach (create_subject_line ids tenant q learner_by_student) (numbered sources)) (\<lambda>_. alift (Inr ()))))"

section \<open>Selectors (selectors.py)\<close>

definition get_learner_report_snapshots ::
  "'a report_db_scheme \<Rightarrow> school option \<Rightarrow> report_run option \<Rightarrow> uuid option \<Rightarrow> uuid option \<Rightarrow> learner_report list" where
  "get_learner_report_snapshots db tenant q cohort_id learner_id =
     (case tenant of None \<Rightarrow> []
      | Some t \<Rightarrow> sort_key (\<lambda>s. (- snd (dec_key (lr_average s)), lr_student s))
          (filter (\<lambda>s. lr_tenant s = sc_id t \<and> (case q of None \<Rightarrow> True | Some r \<Rightarrow> lr_run s = rn_id r)
             \<and> (case cohort_id of None \<Rightarrow> True | Some c \<Rightarrow> lr_cohort s = c)
             \<and> (case learner_id of None \<Rightarrow> True | Some i \<Rightarrow> lr_student s = i)) (learner_reports db)))"

definition cohort_name :: "'a academic_db_scheme \<Rightarrow> uuid \<Rightarrow> string" where
  "cohort_name db c = (case cohort_row db c of None \<Rightarrow> [] | Some r \<Rightarrow> co_name r)"

definition area_name :: "'a academic_db_scheme \<Rightarrow> uuid \<Rightarrow> string" where
  "area_name db l = (case learning_area_row db l of None \<Rightarrow> [] | Some r \<Rightarrow> la_name r)"

definition line_of_teacher :: "'a grading_db_scheme \<Rightarrow> uuid \<Rightarrow> subject_line \<Rightarrow> bool" where
  "line_of_teacher db actor_id l \<longleftrightarrow> (case assessment_row db (sl_assessment l) of None \<Rightarrow> False
     | Some a \<Rightarrow> teaches db actor_id (as_cohort a) (sl_learning_area l) (sl_academic_year l) (sl_term l))"

definition get_report_subject_line_snapshots ::
  "'a report_db_scheme \<Rightarrow> school option \<Rightarrow> report_run option \<Rightarrow> uuid option \<Rightarrow> uuid option \<Rightarrow> user option \<Rightarrow> subject_line list" where
  "get_report_subject_line_snapshots db tenant q cohort_id area_id actor =
     (case tenant of None \<Rightarrow> []
      | Some t \<Rightarrow> sort_key (\<lambda>l. (cohort_name db (sl_cohort l), area_name db (sl_learning_area l), sl_student l))
          (filter (\<lambda>l. sl_tenant l = sc_id t \<and> (case q of None \<Rightarrow> True | Some r \<Rightarrow> sl_run l = rn_id r)
             \<and> (case cohort_id of None \<Rightarrow> True | Some c \<Rightarrow> sl_cohort l = c)
             \<and> (case area_id of None \<Rightarrow> True | Some i \<Rightarrow> sl_learning_area l = i)
             \<and> (case actor of None \<Rightarrow> True | Some u \<Rightarrow> line_of_teacher db (us_id u) l)) (subject_lines db)))"

text \<open>Rows without a cohort or an area come last.\<close>

definition nulls_last :: "('x \<Rightarrow> string) \<Rightarrow> 'x option \<Rightarrow> nat \<times> string" where
  "nulls_last f v = (case v of None \<Rightarrow> (1, []) | Some x \<Rightarrow> (0, f x))"

definition get_academic_aggregates ::
  "'a report_db_scheme \<Rightarrow> school option \<Rightarrow> report_run option \<Rightarrow> string option \<Rightarrow> uuid option \<Rightarrow> uuid option \<Rightarrow> aggregate list" where
  "get_academic_aggregates db tenant q scope_type cohort_id area_id =
     (case tenant of None \<Rightarrow> []
      | Some t \<Rightarrow> sort_key (\<lambda>g. (ag_scope_type g, nulls_last (cohort_name db) (ag_cohort g), nulls_last (area_name db) (ag_learning_area g)))
          (filter (\<lambda>g. ag_tenant g = sc_id t \<and> (case q of None \<Rightarrow> True | Some r \<Rightarrow> ag_run g = rn_id r)
             \<and> (case scope_type of None \<Rightarrow> True | Some k \<Rightarrow> ag_scope_type g = k)
             \<and> (case cohort_id of None \<Rightarrow> True | Some c \<Rightarrow> ag_cohort g = Some c)
             \<and> (case area_id of None \<Rightarrow> True | Some l \<Rightarrow> ag_learning_area g = Some l)) (academic_aggregates db)))"

definition get_eligible_compilations_for_report_period ::
  "'a grading_db_scheme \<Rightarrow> school option \<Rightarrow> uuid option \<Rightarrow> uuid option \<Rightarrow> uuid option \<Rightarrow> uuid option \<Rightarrow> compilation_run list" where
  "get_eligible_compilations_for_report_period db tenant year term_id cohort_id area_id =
     (case (tenant, year, term_id) of
        (Some t, Some y, Some k) \<Rightarrow>
          map snd (sort_key (\<lambda>(a, q). (cohort_name db (as_cohort a), area_name db (as_learning_area a),
              case cr_compiled_at q of None \<Rightarrow> (0::nat, 0) | Some c \<Rightarrow> (1, - c), - cr_created_at q))
            (List.map_filter (\<lambda>q. case assessment_row db (cr_assessment q) of None \<Rightarrow> None
               | Some a \<Rightarrow> if cr_tenant q = sc_id t \<and> as_academic_year a = y \<and> as_term a = k \<and> cr_status q = ''complete''
                   \<and> (case cohort_id of None \<Rightarrow> True | Some c \<Rightarrow> as_cohort a = c)
                   \<and> (case area_id of None \<Rightarrow> True | Some l \<Rightarrow> as_learning_area a = l) then Some (a, q) else None) (compilation_runs db)))
      | _ \<Rightarrow> [])"

section \<open>Aggregates and the run (services.py)\<close>

definition subject_percentage :: "subject_line \<Rightarrow> string result" where
  "subject_percentage l = (case or_json (sl_score_summary l) (JObj []) of
     JObj kvs \<Rightarrow> Inr (json_str (jget_or kvs ''percentage'' (JStr ''0.00''))) | _ \<Rightarrow> Inl (OtherError ''AttributeError''))"

record aggregate_scope =
  gp_scope_type :: string
  gp_percentages :: "string list"
  gp_cohort :: "cohort option"
  gp_learning_area :: "learning_area option"
  gp_stream_label :: string
  gp_department_key :: string

definition create_aggregate ::
  "report_ids \<Rightarrow> school \<Rightarrow> report_run \<Rightarrow> nat \<times> aggregate_scope \<Rightarrow> ('a report_db_scheme, aggregate) action" where
  "create_aggregate ids tenant q = (\<lambda>(k, g).
     abind (alift (build_scope_aggregate (gp_scope_type g) (gp_percentages g) 0 0 0 0 3)) (\<lambda>(m, metrics).
       save_row aggregate_full_clean add_aggregate
         \<lparr>ag_id = ri_aggregate ids k, ag_tenant = sc_id tenant, ag_run = rn_id q, ag_academic_year = rn_academic_year q,
          ag_term = rn_term q, ag_scope_type = gp_scope_type g, ag_grade_level = map_option co_grade_level (gp_cohort g),
          ag_cohort = map_option co_id (gp_cohort g), ag_learning_area = map_option la_id (gp_learning_area g),
          ag_stream_label = gp_stream_label g, ag_department_key = gp_department_key g, ag_metrics = JObj metrics,
          ag_met = pm_met m, ag_status = ''computed''\<rparr>))"

definition cohort_scopes :: "'a academic_db_scheme \<Rightarrow> learner_report list \<Rightarrow> uuid \<Rightarrow> aggregate_scope list" where
  "cohort_scopes db learners c =
     (let percentages = map (dec_str \<circ> lr_average) (filter (\<lambda>s. lr_cohort s = c) learners); cohort = cohort_row db c;
          label = (case cohort of None \<Rightarrow> [] | Some r \<Rightarrow> if co_stream_label r \<noteq> [] then co_stream_label r else co_name r) in
      [\<lparr>gp_scope_type = ''cohort'', gp_percentages = percentages, gp_cohort = cohort, gp_learning_area = None,
        gp_stream_label = [], gp_department_key = []\<rparr>,
       \<lparr>gp_scope_type = ''stream'', gp_percentages = percentages, gp_cohort = cohort, gp_learning_area = None,
        gp_stream_label = label, gp_department_key = []\<rparr>])"

definition area_scopes :: "'a academic_db_scheme \<Rightarrow> subject_line list \<Rightarrow> uuid \<Rightarrow> aggregate_scope list result" where
  "area_scopes db lines l =
     ebind (emap subject_percentage (filter (\<lambda>x. sl_learning_area x = l) lines)) (\<lambda>percentages.
       let area = learning_area_row db l in
       Inr [\<lparr>gp_scope_type = ''subject'', gp_percentages = percentages, gp_cohort = None, gp_learning_area = area,
             gp_stream_label = [], gp_department_key = []\<rparr>,
            \<lparr>gp_scope_type = ''department'', gp_percentages = percentages, gp_cohort = None, gp_learning_area = area,
             gp_stream_label = [], gp_department_key = (case area of None \<Rightarrow> [] | Some a \<Rightarrow> la_code a)\<rparr>])"

text \<open>Every scope of a run: the school, then each cohort and its stream, then each area and its department.\<close>

definition aggregate_scopes :: "'a report_db_scheme \<Rightarrow> school \<Rightarrow> report_run \<Rightarrow> aggregate_scope list result" where
  "aggregate_scopes db tenant q =
     (let learners = get_learner_report_snapshots db (Some tenant) (Some q) None None;
          lines = get_report_subject_line_snapshots db (Some tenant) (Some q) None None None in
      ebind (emap (area_scopes db lines) (py_sorted_set (map sl_learning_area lines))) (\<lambda>areas.
        Inr (\<lparr>gp_scope_type = ''school'', gp_percentages = map (dec_str \<circ> lr_average) learners, gp_cohort = None,
              gp_learning_area = None, gp_stream_label = [], gp_department_key = []\<rparr>
          # concat (map (cohort_scopes db learners) (py_sorted_set (map lr_cohort learners))) @ concat areas)))"

definition compute_report_snapshot_aggregates ::
  "report_ids \<Rightarrow> school \<Rightarrow> report_run \<Rightarrow> ('a report_db_scheme, aggregate list) action" where
  "compute_report_snapshot_aggregates ids tenant q =
     abind (query (\<lambda>db. aggregate_scopes db tenant q)) (\<lambda>scopes. aeach (create_aggregate ids tenant q) (numbered scopes))"

definition new_report_run :: "time \<Rightarrow> report_ids \<Rightarrow> school \<Rightarrow> user \<Rightarrow> uuid \<Rightarrow> uuid \<Rightarrow> report_run" where
  "new_report_run now ids tenant actor year term_id =
     \<lparr>rn_id = ri_run ids, rn_tenant = sc_id tenant, rn_academic_year = year, rn_term = term_id, rn_requested_by = Some (us_id actor),
      rn_status = ''running'', rn_eligibility_summary = JObj [], rn_source_ids = [], rn_started_at = now, rn_completed_at = None,
      rn_created_at = now\<rparr>"

definition finished_run :: "time \<Rightarrow> eligibility list \<Rightarrow> report_run \<Rightarrow> report_run" where
  "finished_run finished results q =
     (let summary = summarize_eligibility results in
      q\<lparr>rn_status := (if es_all_eligible summary then ''complete'' else if 0 < es_eligible summary then ''partial'' else ''blocked''),
        rn_eligibility_summary := eligibility_summary_json summary, rn_source_ids := eligible_compilation_ids results,
        rn_completed_at := Some finished\<rparr>)"

definition create_report_snapshot_run ::
  "time \<Rightarrow> time \<Rightarrow> report_ids \<Rightarrow> user \<Rightarrow> school \<Rightarrow> uuid \<Rightarrow> uuid \<Rightarrow> (string \<times> string) list \<Rightarrow> ('a report_db_scheme, report_run) action" where
  "create_report_snapshot_run now finished ids actor tenant year term_id filters =
     atomic (abind (query (\<lambda>db. report_assessments db (get_academic_head_readiness_scope db) actor tenant year term_id filters)) (\<lambda>as.
       abind (save_row report_run_full_clean add_report_run (new_report_run now ids tenant actor year term_id)) (\<lambda>q.
         abind (create_eligibility_records now ids tenant q as) (\<lambda>results.
           abind (query (\<lambda>db. Inr (snapshot_source_rows db tenant (eligible_compilation_ids results)))) (\<lambda>source_rows.
             abind (build_report_snapshots ids tenant q source_rows) (\<lambda>_.
               abind (compute_report_snapshot_aggregates ids tenant q) (\<lambda>_.
                 save_row report_run_full_clean put_report_run (finished_run finished results q))))))))"

end
