(* ===== verification/Analytics.thy ===== *)
theory Analytics
  imports Reports
begin

text \<open>
  Analytics of the latest report snapshot, per role: the projections of grading/services.py over the
  rules of theory ReportRules.
\<close>

text \<open>The last finished run; a database puts a missing completion first when it sorts downwards.\<close>

definition latest_report_snapshot_run :: "'a report_db_scheme \<Rightarrow> school option \<Rightarrow> report_run option" where
  "latest_report_snapshot_run db tenant =
     (case tenant of None \<Rightarrow> None
      | Some t \<Rightarrow>
          (case sort_key (\<lambda>q. (case rn_completed_at q of None \<Rightarrow> (0::nat, 0) | Some c \<Rightarrow> (1, - c), - rn_created_at q))
              (filter (\<lambda>q. rn_tenant q = sc_id t \<and> rn_status q \<in> {''complete'', ''partial''}) (report_runs db)) of
             [] \<Rightarrow> None | q # _ \<Rightarrow> Some q))"

definition learner_projection_items :: "learner_report list \<Rightarrow> learner_item list" where
  "learner_projection_items snapshots =
     map (\<lambda>s. \<lparr>li_snapshot = lr_id s, li_student = lr_student s, li_cohort = lr_cohort s, li_average = dec_str (lr_average s),
               li_subject_count = nat (lr_subject_count s)\<rparr>) snapshots"

definition aggregate_projection_items :: "aggregate list \<Rightarrow> aggregate_item list" where
  "aggregate_projection_items gs =
     map (\<lambda>g. \<lparr>ai_id = ag_id g, ai_scope_type = ag_scope_type g, ai_cohort = (case ag_cohort g of None \<Rightarrow> [] | Some c \<Rightarrow> c),
               ai_learning_area = (case ag_learning_area g of None \<Rightarrow> [] | Some l \<Rightarrow> l), ai_stream_label = ag_stream_label g,
               ai_department_key = ag_department_key g, ai_metrics = (case ag_metrics g of JObj kvs \<Rightarrow> kvs | _ \<Rightarrow> []), ai_met = ag_met g\<rparr>) gs"

definition analytics_projection :: "string \<Rightarrow> report_run option \<Rightarrow> learner_report list \<Rightarrow> aggregate list \<Rightarrow> analytics result" where
  "analytics_projection projection_type q learners gs =
     build_role_analytics_projection projection_type (learner_projection_items learners) (aggregate_projection_items gs)
       (case q of None \<Rightarrow> JObj [] | Some r \<Rightarrow> rn_eligibility_summary r)"

text \<open>Everything of the latest run, for one cohort or for all.\<close>

definition whole_projection :: "'a report_db_scheme \<Rightarrow> string \<Rightarrow> school \<Rightarrow> uuid option \<Rightarrow> analytics result" where
  "whole_projection db projection_type tenant cohort_id =
     (case latest_report_snapshot_run db (Some tenant) of
        None \<Rightarrow> analytics_projection projection_type None [] []
      | Some q \<Rightarrow> analytics_projection projection_type (Some q) (get_learner_report_snapshots db (Some tenant) (Some q) cohort_id None)
          (get_academic_aggregates db (Some tenant) (Some q) None cohort_id None))"

definition get_principal_analytics_projection :: "'a report_db_scheme \<Rightarrow> user option \<Rightarrow> school \<Rightarrow> analytics result" where
  "get_principal_analytics_projection db actor tenant =
     (if \<not> can_view_principal_analytics db (policy_context_for db actor (Some tenant) ''grading.analytics.principal.view''
            [''principal'', ''school_admin''])
      then analytics_projection ''principal'' None [] [] else whole_projection db ''principal'' tenant None)"

definition get_deputy_analytics_projection :: "'a report_db_scheme \<Rightarrow> user option \<Rightarrow> school \<Rightarrow> analytics result" where
  "get_deputy_analytics_projection db actor tenant =
     (if \<not> can_view_deputy_analytics db (policy_context_for db actor (Some tenant) ''grading.analytics.deputy.view''
            [''deputy_principal'', ''principal'', ''school_admin''])
      then analytics_projection ''deputy_head_academics'' None [] [] else whole_projection db ''deputy_head_academics'' tenant None)"

definition learners_of :: "'a report_db_scheme \<Rightarrow> school \<Rightarrow> report_run \<Rightarrow> uuid list \<Rightarrow> learner_report list" where
  "learners_of db tenant q learner_ids =
     filter (\<lambda>s. lr_student s \<in> set learner_ids) (get_learner_report_snapshots db (Some tenant) (Some q) None None)"

definition get_hod_analytics_projection :: "'a report_db_scheme \<Rightarrow> user option \<Rightarrow> school \<Rightarrow> analytics result" where
  "get_hod_analytics_projection db actor tenant =
     (let ctx = policy_context_for db actor (Some tenant) ''grading.analytics.hod.view'' [''hod''] in
      case latest_report_snapshot_run db (Some tenant) of
        None \<Rightarrow> analytics_projection ''hod'' None [] []
      | Some q \<Rightarrow>
          let lines = get_report_subject_line_snapshots db (Some tenant) (Some q) None None actor;
              visible_areas = map sl_learning_area (filter (\<lambda>l. case assessment_row db (sl_assessment l) of None \<Rightarrow> False
                 | Some a \<Rightarrow> can_view_hod_analytics db ctx (Some a) None) lines) in
          if lines = [] then analytics_projection ''hod'' (Some q) [] []
          else analytics_projection ''hod'' (Some q)
            (learners_of db tenant q (map sl_student (filter (\<lambda>l. sl_learning_area l \<in> set visible_areas) lines)))
            (filter (\<lambda>g. ag_learning_area g \<in> Some ` set visible_areas
                 \<and> can_view_hod_analytics db ctx None (Some (ag_learning_area g, ag_academic_year g, ag_term g)))
               (get_academic_aggregates db (Some tenant) (Some q) None None None)))"

definition get_class_teacher_analytics_projection ::
  "'a report_db_scheme \<Rightarrow> user option \<Rightarrow> school \<Rightarrow> uuid \<Rightarrow> analytics result" where
  "get_class_teacher_analytics_projection db actor tenant cohort_id =
     (if \<not> can_view_class_teacher_analytics db (policy_context_for db actor (Some tenant) ''grading.analytics.class_teacher.view''
            [''class_teacher'', ''hod'']) None (Some cohort_id)
      then analytics_projection ''class_teacher'' None [] [] else whole_projection db ''class_teacher'' tenant (Some cohort_id))"

text \<open>The policy hides lines and so learners; the aggregates of the area are not asked for at all.\<close>

definition get_subject_teacher_analytics_projection ::
  "'a report_db_scheme \<Rightarrow> user option \<Rightarrow> school \<Rightarrow> uuid \<Rightarrow> analytics result" where
  "get_subject_teacher_analytics_projection db actor tenant area_id =
     (let ctx = policy_context_for db actor (Some tenant) ''grading.analytics.subject_teacher.view'' [''subject_teacher'', ''hod''] in
      case latest_report_snapshot_run db (Some tenant) of
        None \<Rightarrow> analytics_projection ''subject_teacher'' None [] []
      | Some q \<Rightarrow>
          let visible = filter (\<lambda>l. case assessment_row db (sl_assessment l) of None \<Rightarrow> False
                 | Some a \<Rightarrow> can_view_subject_teacher_analytics db ctx (Some a))
               (get_report_subject_line_snapshots db (Some tenant) (Some q) None (Some area_id) actor) in
          analytics_projection ''subject_teacher'' (Some q) (learners_of db tenant q (map sl_student visible))
            (get_academic_aggregates db (Some tenant) (Some q) None None (Some area_id)))"

definition get_future_parent_snapshot_projection :: "'a identity_db_scheme \<Rightarrow> user option \<Rightarrow> school \<Rightarrow> uuid \<Rightarrow> (string \<times> json) list" where
  "get_future_parent_snapshot_projection db actor tenant learner_id =
     (if \<not> can_view_future_parent_snapshot (policy_context_for db actor (Some tenant) ''grading.analytics.future_parent.view''
            [''guardian'']) (Some tenant)
      then build_future_parent_snapshot_projection else build_future_parent_snapshot_projection)"

end
