(* ===== verification/CorrectionFacts.thy ===== *)
theory CorrectionFacts
  imports Correction GradingPolicyFacts ScoreFacts
begin

text \<open>
  What the correction services guarantee: the audit trail of a request is its whole history, an
  allowed path of statuses; who asked never reviews or applies; an application changes one record
  once, bumps its version and makes the compilations stale; and what is not checked.
\<close>

section \<open>The workflow\<close>

definition correction_rank :: "string \<Rightarrow> nat" where
  "correction_rank s =
     (case map_of [(''draft'', 7), (''submitted'', 6), (''requested'', 6), (''under_hod_review'', 4), (''escalation_requested'', 3),
        (''under_academic_head_review'', 2), (''approved'', 1), (''approved_by_hod'', 1), (''approved_by_academic_head'', 1)] s of
        None \<Rightarrow> 0 | Some n \<Rightarrow> n)"

lemma correction_entries:
  "\<forall>(s, ts)\<in>set TRANSITIONS. \<forall>t\<in>set ts. correction_rank t < correction_rank s"
  by code_simp

interpretation correction_workflow: workflow TRANSITIONS correction_rank
  by unfold_locales (use targets_all [OF correction_entries] in blast)

definition live_statuses :: "string list" where
  "live_statuses = [''under_hod_review'', ''approved_by_hod'', ''rejected_by_hod'', ''escalation_requested'',
     ''under_academic_head_review'', ''approved_by_academic_head'', ''rejected_by_academic_head'', ''applied'']"

lemma live_entries:
  "\<forall>(s, ts)\<in>set TRANSITIONS. \<forall>t\<in>set ts. s \<in> set live_statuses \<longrightarrow> t \<in> set live_statuses"
  by code_simp

lemma live_step: "t \<in> set (allowed_targets TRANSITIONS s) \<Longrightarrow> s \<in> set live_statuses \<Longrightarrow> t \<in> set live_statuses"
  using targets_all [OF live_entries] by blast

lemma can_transition_iff [simp]:
  "dc_allowed (can_transition_correction s t) \<longleftrightarrow> t \<in> set (allowed_targets TRANSITIONS s)"
  by (simp add: can_transition_correction_def)

lemma allowed_path_snoc:
  "ss \<noteq> [] \<Longrightarrow> allowed_path table (ss @ [t]) \<longleftrightarrow> allowed_path table ss \<and> t \<in> set (allowed_targets table (last ss))"
  by (induction table ss rule: allowed_path.induct) auto

section \<open>What the services write\<close>

lemma save_row_Inr:
  "save_row full_clean ins r db = (Inr r', db') \<longleftrightarrow> full_clean db r = Inr r' \<and> db' = ins r' db"
  by (auto simp: save_row_def split: sum.splits)

lemma query_Inr [simp]: "query f db = (Inr v, db') \<longleftrightarrow> f db = Inr v \<and> db' = db"
  by (auto simp: query_def)

lemma alift_Inr [simp]: "alift (Inr v) db = (Inr w, db') \<longleftrightarrow> w = v \<and> db' = db"
  by (auto simp: alift_def)

lemma audit_full_clean_Inr: "audit_full_clean db u = Inr u' \<Longrightarrow> u' = u"
  by (auto simp: audit_full_clean_def split: if_splits)

lemma correction_clean_Inr:
  assumes "correction_clean db s c = Inr c'"
  shows "c' = c\<lparr>cq_reason_code := strip (cq_reason_code c)\<rparr>" "cq_reviewed_by c \<noteq> Some (cq_requested_by c)"
    "cq_applied_by c \<noteq> Some (cq_requested_by c)"
  using assms by (auto simp: correction_clean_def Let_def ebind_eq_Inr split: option.splits if_splits)

lemma correction_full_clean_Inr:
  assumes "correction_full_clean db c = Inr c'"
  shows "c' = c\<lparr>cq_reason_code := strip (cq_reason_code c)\<rparr>" "cq_reviewed_by c \<noteq> Some (cq_requested_by c)"
    "cq_applied_by c \<noteq> Some (cq_requested_by c)"
proof -
  have c: "correction_clean db (map_option dec_str (cq_proposed_raw_score c)) c = Inr c'"
    using assms by (auto simp: correction_full_clean_def ebind_eq_Inr split: if_splits)
  show "c' = c\<lparr>cq_reason_code := strip (cq_reason_code c)\<rparr>" "cq_reviewed_by c \<noteq> Some (cq_requested_by c)"
    "cq_applied_by c \<noteq> Some (cq_requested_by c)" by (rule correction_clean_Inr [OF c])+
qed

lemma new_correction_full_clean_Inr:
  assumes "new_correction_full_clean f db p c = Inr c'"
  shows "\<exists>d. c' = c\<lparr>cq_reason_code := strip (cq_reason_code c), cq_proposed_raw_score := d\<rparr>"
proof (cases "p = JNull")
  case True
  with assms have "correction_clean db None c = Inr c'" by (auto simp: new_correction_full_clean_def ebind_eq_Inr split: if_splits)
  from correction_clean_Inr(1) [OF this] show ?thesis by (intro exI [of _ "cq_proposed_raw_score c"]) simp
next
  case False
  with assms obtain d c1 where "correction_clean db (Some (dec_str d)) c = Inr c1" "c' = c1\<lparr>cq_proposed_raw_score := Some d\<rparr>"
    by (auto simp: new_correction_full_clean_def ebind_eq_Inr split: if_splits option.splits)
  with correction_clean_Inr(1) [OF this(1)] show ?thesis by auto
qed

definition identity_of :: "correction \<Rightarrow> uuid \<times> uuid \<times> uuid \<times> uuid" where
  "identity_of c = (cq_id c, cq_tenant c, cq_grade_record c, cq_requested_by c)"

lemma stored_correction_simps [simp]:
  "cq_id (stored_correction c) = cq_id c" "cq_tenant (stored_correction c) = cq_tenant c" "cq_status (stored_correction c) = cq_status c"
  "cq_reviewed_by (stored_correction c) = cq_reviewed_by c" "cq_applied_by (stored_correction c) = cq_applied_by c"
  "cq_requested_by (stored_correction c) = cq_requested_by c" "identity_of (stored_correction c) = identity_of c"
  by (simp_all add: stored_correction_def identity_of_def)

text \<open>One request moves and one audit row records it.\<close>

definition moved :: "'a grading_db_scheme \<Rightarrow> correction \<Rightarrow> correction \<Rightarrow> correction_audit \<Rightarrow> 'a grading_db_scheme \<Rightarrow> bool" where
  "moved db c c' u db' \<longleftrightarrow>
     c \<in> set (corrections db) \<and> identity_of c' = identity_of c \<and>
     corrections db' = update_where (\<lambda>q. cq_id q = cq_id c) (\<lambda>_. stored_correction c') (corrections db) \<and>
     correction_audits db' = correction_audits db @ [u] \<and> ca_correction u = cq_id c \<and>
     ca_status_from u = cq_status c \<and> ca_status_to u = cq_status c' \<and>
     cq_status c' \<in> set (allowed_targets TRANSITIONS (cq_status c)) \<and>
     cq_reviewed_by c' \<noteq> Some (cq_requested_by c) \<and> cq_applied_by c' \<noteq> Some (cq_requested_by c) \<and>
     (if cq_status c' = ''applied'' then cq_applied_by c' \<noteq> None \<and> cq_reviewed_by c' = cq_reviewed_by c
      else cq_applied_by c' = cq_applied_by c \<and>
        (cq_reviewed_by c' \<noteq> None \<or> cq_status c' = ''escalation_requested'' \<and> cq_reviewed_by c' = cq_reviewed_by c))"

lemma get_correction_Inr:
  assumes "get_correction_for_update db tenant i = Inr (c, r, a)"
  shows "c \<in> set (corrections db)" "cq_id c = i" "cq_tenant c = sc_id tenant" "grade_record_row db (cq_grade_record c) = Some r"
    "assessment_row db (rec_assessment r) = Some a"
  using assms by (auto simp: get_correction_for_update_def dest!: first_where_SomeD split: option.splits)

lemma put_correction_tables [simp]:
  "corrections (put_correction c db) = update_where (\<lambda>q. cq_id q = cq_id c) (\<lambda>_. stored_correction c) (corrections db)"
  "correction_audits (put_correction c db) = correction_audits db" "grade_records (put_correction c db) = grade_records db"
  "compilation_runs (put_correction c db) = compilation_runs db"
  by (simp_all add: put_correction_def)

lemma add_audit_tables [simp]:
  "corrections (add_audit u db) = corrections db" "correction_audits (add_audit u db) = correction_audits db @ [u]"
  "grade_records (add_audit u db) = grade_records db" "compilation_runs (add_audit u db) = compilation_runs db"
  by (simp_all add: add_audit_def)

lemma move_correction_Inr:
  assumes "move_correction tenant i aid uid act sm change db = (Inr c', db')"
  obtains c r a c1 u where "get_correction_for_update db tenant i = Inr (c, r, a)" "change db (c, r, a) = Inr c1"
    "c' = c1\<lparr>cq_reason_code := strip (cq_reason_code c1)\<rparr>" "cq_reviewed_by c1 \<noteq> Some (cq_requested_by c1)"
    "cq_applied_by c1 \<noteq> Some (cq_requested_by c1)" "db' = add_audit u (put_correction c' db)"
    "ca_correction u = cq_id c'" "ca_status_from u = cq_status c" "ca_status_to u = cq_status c'" "ca_action u = act"
    "ca_grade_record u = cq_grade_record c'" "ca_actor u = uid"
proof -
  from assms obtain c r a c1 u where g: "get_correction_for_update db tenant i = Inr (c, r, a)" "change db (c, r, a) = Inr c1"
    and f: "correction_full_clean db c1 = Inr c'"
    and u: "audit_correction aid tenant c' uid act (cq_status c) [] [] [] sm (put_correction c' db) = (Inr u, db')"
    by (auto simp: move_correction_def atomic_eq_Inr abind_eq_Inr save_row_Inr ebind_eq_Inr split: prod.splits)
  note f' = correction_full_clean_Inr [OF f]
  from u have "db' = add_audit u (put_correction c' db)" "ca_correction u = cq_id c'" "ca_status_from u = cq_status c"
    "ca_status_to u = cq_status c'" "ca_action u = act" "ca_grade_record u = cq_grade_record c'" "ca_actor u = uid"
    by (auto simp: audit_correction_def save_row_Inr dest!: audit_full_clean_Inr)
  then show thesis by (intro that [OF g f'])
qed

lemma moved_by_move:
  assumes m: "move_correction tenant i aid uid act sm change db = (Inr c', db')"
    and ch: "\<And>c r a c1. change db (c, r, a) = Inr c1 \<Longrightarrow> identity_of c1 = identity_of c \<and>
      cq_status c1 \<in> set (allowed_targets TRANSITIONS (cq_status c)) \<and> cq_status c1 \<noteq> ''applied'' \<and>
      cq_applied_by c1 = cq_applied_by c \<and> cq_reviewed_by c1 \<noteq> None"
  shows "\<exists>c u. moved db c c' u db'"
proof -
  from m obtain c r a c1 u where g: "get_correction_for_update db tenant i = Inr (c, r, a)" and c1: "change db (c, r, a) = Inr c1"
    and c': "c' = c1\<lparr>cq_reason_code := strip (cq_reason_code c1)\<rparr>" and p: "cq_reviewed_by c1 \<noteq> Some (cq_requested_by c1)"
    "cq_applied_by c1 \<noteq> Some (cq_requested_by c1)" and db': "db' = add_audit u (put_correction c' db)"
    and u: "ca_correction u = cq_id c'" "ca_status_from u = cq_status c" "ca_status_to u = cq_status c'"
    by (rule move_correction_Inr)
  have "moved db c c' u db'"
    using ch [OF c1] get_correction_Inr(1) [OF g] c' p db' u by (auto simp: moved_def identity_of_def)
  then show ?thesis by blast
qed

lemma reviewed_Inr:
  assumes "reviewed now uid al ts d txt c = Inr c1"
  shows "al" "\<exists>t x. map_of ts d = Some t \<and> t \<in> set (allowed_targets TRANSITIONS (cq_status c)) \<and>
    c1 = c\<lparr>cq_status := t, cq_reviewed_by := Some uid, cq_reviewed_at := Some now, cq_review_reason := x\<rparr>"
  using assms by (auto simp: reviewed_def ebind_eq_Inr split: if_splits option.splits)

lemma moved_hod: "review_correction_as_hod now aid u t i d x db = (Inr c', db') \<Longrightarrow> \<exists>c u. moved db c c' u db'"
  unfolding review_correction_as_hod_def
  by (erule moved_by_move) (auto dest!: reviewed_Inr simp: identity_of_def split: if_splits)

lemma moved_head: "review_correction_as_academic_head now aid u t i d x db = (Inr c', db') \<Longrightarrow> \<exists>c u. moved db c c' u db'"
  unfolding review_correction_as_academic_head_def
  by (erule moved_by_move) (auto dest!: reviewed_Inr simp: identity_of_def split: if_splits)

text \<open>Escalation checks its own list of statuses; of those only one moves by the table.\<close>

lemma escalated_Inr:
  assumes "escalate_correction_request now aid u t i x db = (Inr c', db')"
  obtains c r a c1 au where "get_correction_for_update db t i = Inr (c, r, a)"
    "cq_status c \<in> set ESCALATION_ELIGIBLE_STATUSES" "identity_of c' = identity_of c"
    "cq_status c' = ''escalation_requested''" "cq_reviewed_by c' = cq_reviewed_by c" "cq_applied_by c' = cq_applied_by c"
    "cq_reviewed_by c' \<noteq> Some (cq_requested_by c)" "cq_applied_by c' \<noteq> Some (cq_requested_by c)"
    "db' = add_audit au (put_correction c' db)" "ca_correction au = cq_id c'" "ca_status_from au = cq_status c"
    "ca_status_to au = cq_status c'" "c \<in> set (corrections db)"
proof -
  from assms obtain c r a c1 au where g: "get_correction_for_update db t i = Inr (c, r, a)"
    and c1: "(if \<not> can_escalate_correction db (policy_context_for db (Some u) (Some t) ''grading.correction.escalate''
            GRADING_ACADEMIC_HEAD_ROLE_CODES) c
       then Inl (ValidationError ''correction'' ''Correction escalation is not authorized.'')
       else ebind (sanitize_untrusted_text (JStr x) 500) (\<lambda>clean_reason.
         if \<not> dc_allowed (can_escalate_hod_unavailable (cq_status c) clean_reason False)
         then Inl (ValidationError ''status'' ''Correction escalation is invalid.'')
         else Inr (c\<lparr>cq_status := ''escalation_requested'', cq_escalated_by := Some (us_id u),
                     cq_escalated_at := Some now, cq_escalation_reason := clean_reason\<rparr>))) = Inr c1"
    and c': "c' = c1\<lparr>cq_reason_code := strip (cq_reason_code c1)\<rparr>" and p: "cq_reviewed_by c1 \<noteq> Some (cq_requested_by c1)"
    "cq_applied_by c1 \<noteq> Some (cq_requested_by c1)" and db': "db' = add_audit au (put_correction c' db)"
    and u: "ca_correction au = cq_id c'" "ca_status_from au = cq_status c" "ca_status_to au = cq_status c'"
    unfolding escalate_correction_request_def by (rule move_correction_Inr) auto
  from c1 have "cq_status c \<in> set ESCALATION_ELIGIBLE_STATUSES" "identity_of c1 = identity_of c" "cq_status c1 = ''escalation_requested''"
    "cq_reviewed_by c1 = cq_reviewed_by c" "cq_applied_by c1 = cq_applied_by c" "cq_requested_by c1 = cq_requested_by c"
    by (auto simp: ebind_eq_Inr can_escalate_hod_unavailable_def identity_of_def split: if_splits)
  with g c' p db' u get_correction_Inr(1) [OF g] show thesis by (intro that) (auto simp: identity_of_def)
qed

lemma moved_escalate:
  assumes "escalate_correction_request now aid u t i x db = (Inr c', db')"
    and live: "\<forall>c\<in>set (corrections db). cq_status c \<in> set live_statuses"
  shows "\<exists>c u. moved db c c' u db'"
proof -
  from assms(1) obtain c r a c1 au where e: "cq_status c \<in> set ESCALATION_ELIGIBLE_STATUSES" "identity_of c' = identity_of c"
    "cq_status c' = ''escalation_requested''" "cq_reviewed_by c' \<noteq> Some (cq_requested_by c)" "cq_applied_by c' \<noteq> Some (cq_requested_by c)"
    "db' = add_audit au (put_correction c' db)" "ca_correction au = cq_id c'" "ca_status_from au = cq_status c"
    "ca_status_to au = cq_status c'" "c \<in> set (corrections db)"
    and a: "cq_applied_by c' = cq_applied_by c" "cq_reviewed_by c' = cq_reviewed_by c"
    by (rule escalated_Inr)
  from e(1,10) live have "cq_status c = ''under_hod_review''"
    by (auto simp: ESCALATION_ELIGIBLE_STATUSES_def live_statuses_def)
  then have "cq_status c' \<in> set (allowed_targets TRANSITIONS (cq_status c))"
    by (simp add: e(3) allowed_targets_def TRANSITIONS_def)
  with e a have "moved db c c' au db'" by (auto simp: moved_def identity_of_def)
  then show ?thesis by blast
qed

section \<open>Applying\<close>

lemma put_record_tables [simp]:
  "corrections (put_record r db) = corrections db" "correction_audits (put_record r db) = correction_audits db"
  "compilation_runs (put_record r db) = compilation_runs db"
  by (simp_all add: put_record_def)

lemma mark_runs_stale_tables [simp]:
  "corrections (mark_runs_stale t a db) = corrections db" "correction_audits (mark_runs_stale t a db) = correction_audits db"
  "grade_records (mark_runs_stale t a db) = grade_records db"
  by (simp_all add: mark_runs_stale_def)

lemma record_full_clean_Inr: "record_full_clean db r = Inr r' \<Longrightarrow> r' = r \<and> record_clean db r = Inr ()"
  by (auto simp: record_full_clean_def ebind_eq_Inr split: if_splits)

lemma banded_record_Inr:
  "banded_record bands a r = Inr r' \<Longrightarrow> rec_id r' = rec_id r \<and> rec_tenant r' = rec_tenant r \<and> rec_assessment r' = rec_assessment r
     \<and> rec_raw_score r' = rec_raw_score r \<and> rec_component_scores r' = rec_component_scores r \<and> rec_remarks r' = rec_remarks r
     \<and> rec_version r' = rec_version r \<and> rec_student r' = rec_student r"
  by (auto simp: banded_record_def ebind_eq_Inr split: if_splits)

lemma plan_application_Inr:
  assumes "plan_application sha u t i db = Inr p"
  obtains c r a where "get_correction_for_update db t i = Inr (c, r, a)" "ap_correction p = c"
    "cq_status c \<in> set APPROVED_UNAPPLIED_STATUSES"
    "can_apply_correction db (policy_context_for db (Some u) (Some t) ''grading.correction.apply''
       (GRADING_HOD_ROLE_CODES @ GRADING_ACADEMIC_HEAD_ROLE_CODES)) c a"
    "banded_record (get_schema_bands_for_assessment db t a) a (corrected_record c r) = Inr (ap_record p)"
    "ap_changed p \<noteq> []" "state_hash_of sha r = Inr (ap_state_before p)"
  using assms by (auto simp: plan_application_def ebind_eq_Inr Let_def split: prod.splits if_splits)

lemma apply_Inr:
  assumes "apply_approved_correction sha now aid u t i db = (Inr c', db')"
  obtains c r a r' au where "get_correction_for_update db t i = Inr (c, r, a)" "cq_status c \<in> set APPROVED_UNAPPLIED_STATUSES"
    "can_apply_correction db (policy_context_for db (Some u) (Some t) ''grading.correction.apply''
       (GRADING_HOD_ROLE_CODES @ GRADING_ACADEMIC_HEAD_ROLE_CODES)) c a"
    "banded_record (get_schema_bands_for_assessment db t a) a (corrected_record c r) = Inr r'"
    "record_clean db r' = Inr ()" "identity_of c' = identity_of c" "cq_status c' = ''applied''"
    "cq_applied_by c' = Some (us_id u)" "cq_applied_by c' \<noteq> Some (cq_requested_by c)"
    "cq_reviewed_by c' = cq_reviewed_by c" "cq_reviewed_by c' \<noteq> Some (cq_requested_by c)"
    "db' = add_audit au (put_correction c' (mark_runs_stale (sc_id t) (rec_assessment r') (put_record r' db)))"
    "ca_correction au = cq_id c'" "ca_status_from au = cq_status c" "ca_status_to au = ''applied''" "ca_actor au = us_id u"
    "state_hash_of sha r = Inr (ca_state_before au)" "state_hash_of sha r' = Inr (ca_state_after au)"
    "ca_action au = ''applied''" "ca_changed_fields au \<noteq> []"
proof -
  from assms obtain p r' h au where p: "plan_application sha u t i db = Inr p" and r': "record_full_clean db (ap_record p) = Inr r'"
    and h': "state_hash_of sha r' = Inr h"
    and c1': "correction_full_clean (mark_runs_stale (sc_id t) (rec_assessment r') (put_record r' db))
       ((ap_correction p)\<lparr>cq_status := ''applied'', cq_applied_by := Some (us_id u), cq_applied_at := Some now\<rparr>) = Inr c'"
    and au': "audit_correction aid t c' (us_id u) ''applied'' (cq_status (ap_correction p)) (ap_changed p) (ap_state_before p) h
       ''approved_correction_applied'' (put_correction c' (mark_runs_stale (sc_id t) (rec_assessment r') (put_record r' db)))
       = (Inr au, db')"
    by (auto simp: apply_approved_correction_def atomic_eq_Inr abind_eq_Inr save_row_Inr)
  from record_full_clean_Inr [OF r'] have e: "r' = ap_record p" by simp
  note r = r' [unfolded e] and h = h' [unfolded e] and c1 = c1' [unfolded e] and au = au' [unfolded e]
  from p obtain c r a where g: "get_correction_for_update db t i = Inr (c, r, a)" "ap_correction p = c"
    "cq_status c \<in> set APPROVED_UNAPPLIED_STATUSES"
    "can_apply_correction db (policy_context_for db (Some u) (Some t) ''grading.correction.apply''
       (GRADING_HOD_ROLE_CODES @ GRADING_ACADEMIC_HEAD_ROLE_CODES)) c a"
    "banded_record (get_schema_bands_for_assessment db t a) a (corrected_record c r) = Inr (ap_record p)"
    "ap_changed p \<noteq> []" "state_hash_of sha r = Inr (ap_state_before p)"
    by (rule plan_application_Inr)
  note f = correction_full_clean_Inr [OF c1]
  have i: "identity_of c' = identity_of c" "cq_status c' = ''applied''" "cq_applied_by c' = Some (us_id u)"
    "cq_applied_by c' \<noteq> Some (cq_requested_by c)" "cq_reviewed_by c' = cq_reviewed_by c" "cq_reviewed_by c' \<noteq> Some (cq_requested_by c)"
    using f g(2) by (auto simp: identity_of_def)
  from au i(2) g(2,6,7) have w: "db' = add_audit au (put_correction c' (mark_runs_stale (sc_id t) (rec_assessment (ap_record p)) (put_record (ap_record p) db)))"
    "ca_correction au = cq_id c'" "ca_status_from au = cq_status c" "ca_status_to au = ''applied''" "ca_actor au = us_id u"
    "state_hash_of sha r = Inr (ca_state_before au)" "state_hash_of sha (ap_record p) = Inr (ca_state_after au)"
    "ca_action au = ''applied''" "ca_changed_fields au \<noteq> []"
    using h by (auto simp: audit_correction_def save_row_Inr dest!: audit_full_clean_Inr)
  from record_full_clean_Inr [OF r] have "record_clean db (ap_record p) = Inr ()" by simp
  from that [OF g(1,3,4,5) this i w] show thesis .
qed


lemma moved_apply:
  assumes "apply_approved_correction sha now aid u t i db = (Inr c', db')"
  shows "\<exists>c u. moved db c c' u db'"
proof -
  from assms obtain c r a r' au where e: "get_correction_for_update db t i = Inr (c, r, a)" "cq_status c \<in> set APPROVED_UNAPPLIED_STATUSES"
    "identity_of c' = identity_of c" "cq_status c' = ''applied''" "cq_applied_by c' = Some (us_id u)"
    "cq_applied_by c' \<noteq> Some (cq_requested_by c)" "cq_reviewed_by c' = cq_reviewed_by c" "cq_reviewed_by c' \<noteq> Some (cq_requested_by c)"
    "db' = add_audit au (put_correction c' (mark_runs_stale (sc_id t) (rec_assessment r') (put_record r' db)))"
    "ca_correction au = cq_id c'" "ca_status_from au = cq_status c" "ca_status_to au = ''applied''"
    by (rule apply_Inr)
  have "''applied'' \<in> set (allowed_targets TRANSITIONS (cq_status c))"
    using e(2) by (auto simp: APPROVED_UNAPPLIED_STATUSES_def allowed_targets_def TRANSITIONS_def)
  with e get_correction_Inr(1) [OF e(1)] have "moved db c c' au db'" by (auto simp: moved_def identity_of_def)
  then show ?thesis by blast
qed

section \<open>The history of every request\<close>

definition trail :: "'a grading_db_scheme \<Rightarrow> uuid \<Rightarrow> correction_audit list" where
  "trail db i = filter (\<lambda>u. ca_correction u = i) (correction_audits db)"

definition decided :: "string list" where
  "decided = [''approved_by_hod'', ''rejected_by_hod'', ''approved_by_academic_head'', ''rejected_by_academic_head'', ''applied'']"

definition request_ok :: "correction_audit list \<Rightarrow> correction \<Rightarrow> bool" where
  "request_ok us c \<longleftrightarrow>
     us \<noteq> [] \<and> ca_status_to (hd us) = ''under_hod_review'' \<and>
     map ca_status_from us = [] # butlast (map ca_status_to us) \<and>
     allowed_path TRANSITIONS (map ca_status_to us) \<and> last (map ca_status_to us) = cq_status c \<and>
     cq_status c \<in> set live_statuses \<and>
     cq_reviewed_by c \<noteq> Some (cq_requested_by c) \<and> cq_applied_by c \<noteq> Some (cq_requested_by c) \<and>
     (cq_applied_by c \<noteq> None \<longleftrightarrow> cq_status c = ''applied'') \<and>
     (cq_status c \<in> set decided \<longrightarrow> cq_reviewed_by c \<noteq> None)"

definition corrections_ok :: "'a grading_db_scheme \<Rightarrow> bool" where
  "corrections_ok db \<longleftrightarrow> distinct (map cq_id (corrections db)) \<and>
     (\<forall>u\<in>set (correction_audits db). ca_correction u \<in> cq_id ` set (corrections db)) \<and>
     (\<forall>c\<in>set (corrections db). request_ok (trail db (cq_id c)) c)"

lemma request_ok_stored [simp]: "request_ok us (stored_correction c) \<longleftrightarrow> request_ok us c"
  by (simp add: request_ok_def)

text \<open>No status with a successor but the approved ones leads to \<open>applied\<close>; an applied request has none.\<close>

lemma applied_entries:
  "\<forall>(s, ts)\<in>set TRANSITIONS. \<forall>t\<in>set ts. s \<in> set live_statuses \<longrightarrow> s \<noteq> ''applied'' \<and> (t = ''applied'' \<longrightarrow> s \<in> set decided)
     \<and> (t \<noteq> ''escalation_requested'' \<or> t \<notin> set decided)"
  by code_simp

lemma applied_step:
  "t \<in> set (allowed_targets TRANSITIONS s) \<Longrightarrow> s \<in> set live_statuses \<Longrightarrow> s \<noteq> ''applied'' \<and> (t = ''applied'' \<longrightarrow> s \<in> set decided)"
  using targets_all [OF applied_entries] by blast

lemma request_ok_moved:
  assumes ok: "request_ok us c" and m: "moved db c c' u db'"
  shows "request_ok (us @ [u]) c'"
proof -
  have st: "cq_status c' \<in> set (allowed_targets TRANSITIONS (cq_status c))" and l: "cq_status c \<in> set live_statuses"
    using ok m by (simp_all add: request_ok_def moved_def)
  note a = applied_step [OF st l] and live = live_step [OF st l]
  have us: "us \<noteq> []" using ok by (simp add: request_ok_def)
  have to: "map ca_status_to (us @ [u]) = map ca_status_to us @ [cq_status c']" using m by (simp add: moved_def)
  have p: "allowed_path TRANSITIONS (map ca_status_to (us @ [u]))"
    unfolding to using ok st us by (subst allowed_path_snoc) (simp_all add: request_ok_def)
  have "map ca_status_to us = butlast (map ca_status_to us) @ [cq_status c]"
    using ok us append_butlast_last_id [of "map ca_status_to us"] by (simp add: request_ok_def)
  then have fr: "map ca_status_from (us @ [u]) = [] # butlast (map ca_status_to (us @ [u]))"
    unfolding to using ok m by (simp add: request_ok_def moved_def)
  have h: "ca_status_to (hd (us @ [u])) = ''under_hod_review''" using ok us by (simp add: request_ok_def)
  have mv: "if cq_status c' = ''applied'' then cq_applied_by c' \<noteq> None \<and> cq_reviewed_by c' = cq_reviewed_by c
      else cq_applied_by c' = cq_applied_by c \<and>
        (cq_reviewed_by c' \<noteq> None \<or> cq_status c' = ''escalation_requested'' \<and> cq_reviewed_by c' = cq_reviewed_by c)"
    using m unfolding moved_def by blast
  have ck: "cq_applied_by c \<noteq> None \<longleftrightarrow> cq_status c = ''applied''" "cq_status c \<in> set decided \<longrightarrow> cq_reviewed_by c \<noteq> None"
    using ok unfolding request_ok_def by blast+
  have esc: "''escalation_requested'' \<notin> set decided" by (simp add: decided_def)
  have d: "cq_status c' \<in> set decided \<Longrightarrow> cq_reviewed_by c' \<noteq> None"
    by (cases "cq_status c' = ''applied''") (use mv ck a esc in \<open>metis (full_types)\<close>)+
  have r: "cq_requested_by c' = cq_requested_by c" using m by (simp add: moved_def identity_of_def)
  have ap: "cq_applied_by c' \<noteq> None \<longleftrightarrow> cq_status c' = ''applied''"
    by (cases "cq_status c' = ''applied''") (use mv ck a in simp_all)
  have ls: "last (map ca_status_to (us @ [u])) = cq_status c'" unfolding to by simp
  have rv: "cq_reviewed_by c' \<noteq> Some (cq_requested_by c')" "cq_applied_by c' \<noteq> Some (cq_requested_by c')"
    using m by (simp_all add: moved_def r)
  show ?thesis unfolding request_ok_def using d by (intro conjI h fr p ls live rv ap impI) auto
qed

lemma moved_ok:
  assumes ok: "corrections_ok db" and m: "moved db c c' u db'"
  shows "corrections_ok db'"
proof -
  have c: "c \<in> set (corrections db)" and i: "cq_id c' = cq_id c" and u: "ca_correction u = cq_id c"
    and cs: "corrections db' = update_where (\<lambda>q. cq_id q = cq_id c) (\<lambda>_. stored_correction c') (corrections db)"
    and au: "correction_audits db' = correction_audits db @ [u]"
    using m by (simp_all add: moved_def identity_of_def)
  have ids: "map cq_id (corrections db') = map cq_id (corrections db)" unfolding cs by (auto simp: update_where_def i)
  have img: "cq_id ` set (corrections db') = cq_id ` set (corrections db)"
    using arg_cong [OF ids, of set] by simp
  have tr: "trail db' j = trail db j @ (if j = cq_id c then [u] else [])" for j by (auto simp: trail_def au u)
  have "request_ok (trail db' (cq_id q)) q" if "q \<in> set (corrections db')" for q
  proof -
    from that consider "q \<in> set (corrections db)" "cq_id q \<noteq> cq_id c" | "q = stored_correction c'"
      unfolding cs by (auto simp: set_update_where)
    then show ?thesis
    proof cases
      case 1
      then show ?thesis using ok by (simp add: corrections_ok_def tr)
    next
      case 2
      have "request_ok (trail db (cq_id c)) c" using ok c by (simp add: corrections_ok_def)
      from request_ok_moved [OF this m] show ?thesis by (simp add: 2 i tr)
    qed
  qed
  moreover have "\<forall>w\<in>set (correction_audits db'). ca_correction w \<in> cq_id ` set (corrections db')"
    using ok c by (auto simp: corrections_ok_def img au u)
  ultimately show ?thesis using ok by (simp add: corrections_ok_def ids)
qed


text \<open>A new request starts its own trail; a refused call changes nothing.\<close>

lemma created_ok:
  assumes ok: "corrections_ok db" and new: "i \<notin> cq_id ` set (corrections db)"
    and c: "create_correction_request sha f now i aid u t r p db = (Inr c', db')"
  shows "corrections_ok db'"
proof -
  from c obtain c0 c1 au where n: "new_correction_request sha now i u t r p db = Inr c0"
    and f: "new_correction_full_clean f db (jget p ''proposed_raw_score'') c0 = Inr c1"
    and au: "audit_correction aid t c1 (cq_requested_by c1) ''requested'' [] [] (cq_old_state_hash c1) []
             ''teacher_requested_correction'' (add_correction c1 db) = (Inr au, db')"
    by (auto simp: create_correction_request_def atomic_eq_Inr abind_eq_Inr save_row_Inr)
  have c0: "cq_id c0 = i" "cq_reviewed_by c0 = None" "cq_applied_by c0 = None" "cq_status c0 = ''under_hod_review''"
    using n by (auto simp: new_correction_request_def ebind_eq_Inr Let_def split: if_splits option.splits)
  obtain d where c1: "c1 = c0\<lparr>cq_reason_code := strip (cq_reason_code c0), cq_proposed_raw_score := d\<rparr>"
    using new_correction_full_clean_Inr [OF f] by blast
  from au have d: "db' = add_audit au (add_correction c1 db)" "ca_correction au = i" "ca_status_from au = []"
    "ca_status_to au = ''under_hod_review''"
    by (auto simp: audit_correction_def save_row_Inr c1 c0 dest!: audit_full_clean_Inr)
  have tr: "trail db' j = (if j = i then [au] else trail db j)" for j
    using ok new by (auto simp: trail_def d add_correction_def corrections_ok_def filter_empty_conv)
  have cs: "corrections db' = corrections db @ [stored_correction c1]" by (simp add: d add_correction_def)
  have "request_ok [au] c1" using d c0 by (simp add: request_ok_def c1 live_statuses_def decided_def)
  moreover have "request_ok (trail db' (cq_id q)) q" if "q \<in> set (corrections db)" for q
    using ok new that by (auto simp: corrections_ok_def tr)
  ultimately have "\<forall>q\<in>set (corrections db'). request_ok (trail db' (cq_id q)) q"
    by (auto simp: cs tr c1 c0)
  moreover have "distinct (map cq_id (corrections db'))" using ok new by (auto simp: cs corrections_ok_def c1 c0)
  moreover have "\<forall>w\<in>set (correction_audits db'). ca_correction w \<in> cq_id ` set (corrections db')"
    using ok d by (auto simp: corrections_ok_def add_correction_def c1 c0)
  ultimately show ?thesis by (simp add: corrections_ok_def)
qed

inductive correction_step :: "(string \<Rightarrow> string) \<Rightarrow> 'a grading_db_scheme \<Rightarrow> 'a grading_db_scheme \<Rightarrow> bool" for sha where
  requests: "i \<notin> cq_id ` set (corrections db) \<Longrightarrow> create_correction_request sha f now i aid u t r p db = (res, db')
    \<Longrightarrow> correction_step sha db db'"
| hod_reviews: "review_correction_as_hod now aid v t i d x db = (res, db') \<Longrightarrow> correction_step sha db db'"
| escalates: "escalate_correction_request now aid v t i x db = (res, db') \<Longrightarrow> correction_step sha db db'"
| head_reviews: "review_correction_as_academic_head now aid v t i d x db = (res, db') \<Longrightarrow> correction_step sha db db'"
| applies: "apply_approved_correction sha now aid v t i db = (res, db') \<Longrightarrow> correction_step sha db db'"

inductive correction_reach :: "(string \<Rightarrow> string) \<Rightarrow> 'a grading_db_scheme \<Rightarrow> 'a grading_db_scheme \<Rightarrow> bool" for sha db where
  here: "correction_reach sha db db"
| further: "correction_reach sha db db1 \<Longrightarrow> correction_step sha db1 db2 \<Longrightarrow> correction_reach sha db db2"

lemma atomic_unchanged: "atomic m s = (Inl e, s') \<Longrightarrow> s' = s"
  using atomic_Inl [of m s e] by simp

lemmas service_defs = create_correction_request_def move_correction_def review_correction_as_hod_def
  review_correction_as_academic_head_def escalate_correction_request_def apply_approved_correction_def

lemma refused_unchanged:
  "create_correction_request sha f now i aid u t r p db = (Inl e, db') \<Longrightarrow> db' = db"
  "review_correction_as_hod now aid v t i d x db = (Inl e, db') \<Longrightarrow> db' = db"
  "escalate_correction_request now aid v t i x db = (Inl e, db') \<Longrightarrow> db' = db"
  "review_correction_as_academic_head now aid v t i d x db = (Inl e, db') \<Longrightarrow> db' = db"
  "apply_approved_correction sha now aid v t i db = (Inl e, db') \<Longrightarrow> db' = db"
  unfolding service_defs by (blast dest: atomic_unchanged)+

lemma live_corrections: "corrections_ok db \<Longrightarrow> \<forall>c\<in>set (corrections db). cq_status c \<in> set live_statuses"
  by (auto simp: corrections_ok_def request_ok_def)

lemma correction_step_ok: "correction_step sha db db' \<Longrightarrow> corrections_ok db \<Longrightarrow> corrections_ok db'"
proof (induction rule: correction_step.induct)
  case (requests i db f now aid u t r p res db')
  then show ?case by (cases res) (auto dest: refused_unchanged created_ok)
next
  case (hod_reviews now aid v t i d x db res db')
  then show ?case by (cases res) (auto dest: refused_unchanged moved_ok dest!: moved_hod)
next
  case (escalates now aid v t i x db res db')
  then show ?case by (cases res) (auto dest: refused_unchanged moved_ok moved_escalate [OF _ live_corrections])
next
  case (head_reviews now aid v t i d x db res db')
  then show ?case by (cases res) (auto dest: refused_unchanged moved_ok dest!: moved_head)
next
  case (applies now aid v t i db res db')
  then show ?case by (cases res) (auto dest: refused_unchanged moved_ok dest!: moved_apply)
qed

lemma correction_reach_ok: "correction_reach sha db db' \<Longrightarrow> corrections_ok db \<Longrightarrow> corrections_ok db'"
  by (induction rule: correction_reach.induct) (auto dest: correction_step_ok)

lemma no_corrections_ok: "corrections db = [] \<Longrightarrow> correction_audits db = [] \<Longrightarrow> corrections_ok db"
  by (simp add: corrections_ok_def)


section \<open>Properties\<close>

text \<open>C9: The audit trail of a correction is its whole history: from coherent tables, however the
  services are called (refused calls included), every stored request has a trail that starts with
  its submission to the head of department, in which each row starts at the status the row before
  ended in, whose statuses are an allowed path of at most five and whose last is the stored status.\<close>

theorem correction_trail_is_history:
  assumes "correction_reach sha db db'" and "corrections_ok db" and "c \<in> set (corrections db')"
  shows "trail db' (cq_id c) \<noteq> [] \<and>
     map ca_status_from (trail db' (cq_id c)) = [] # butlast (map ca_status_to (trail db' (cq_id c))) \<and>
     ca_status_to (hd (trail db' (cq_id c))) = ''under_hod_review'' \<and>
     allowed_path TRANSITIONS (map ca_status_to (trail db' (cq_id c))) \<and>
     distinct (map ca_status_to (trail db' (cq_id c))) \<and> length (trail db' (cq_id c)) \<le> 5 \<and>
     ca_status_to (last (trail db' (cq_id c))) = cq_status c"
proof -
  have r: "request_ok (trail db' (cq_id c)) c"
    using correction_reach_ok [OF assms(1,2)] assms(3) by (simp add: corrections_ok_def)
  then obtain u us where t: "trail db' (cq_id c) = u # us" by (cases "trail db' (cq_id c)") (auto simp: request_ok_def)
  have p: "allowed_path TRANSITIONS (ca_status_to u # map ca_status_to us)"
    using r unfolding request_ok_def t list.map by blast
  have u: "ca_status_to u = ''under_hod_review''" using r by (simp add: request_ok_def t)
  have "length us \<le> 4" using correction_workflow.path_bound [OF p] by (simp add: u correction_rank_def)
  moreover have "map ca_status_from (u # us) = [] # butlast (map ca_status_to (u # us))"
    and l: "last (map ca_status_to (u # us)) = cq_status c" using r unfolding request_ok_def t by blast+
  moreover have "ca_status_to (last (u # us)) = cq_status c" using l by (subst (asm) last_map) simp_all
  ultimately show ?thesis using p u correction_workflow.path_distinct [OF p] unfolding t by (intro conjI) simp_all
qed

text \<open>C10: Duties are separated: from coherent tables, however the services are called, nobody who
  requested a correction is recorded as its reviewer or as the one who applied it; an applied request
  has both, and every approved or rejected one a reviewer.\<close>

theorem correction_duties_separated:
  assumes "correction_reach sha db db'" and "corrections_ok db" and "c \<in> set (corrections db')"
  shows "cq_reviewed_by c \<noteq> Some (cq_requested_by c) \<and> cq_applied_by c \<noteq> Some (cq_requested_by c) \<and>
     (cq_applied_by c \<noteq> None \<longleftrightarrow> cq_status c = ''applied'') \<and>
     (cq_status c \<in> {''approved_by_hod'', ''rejected_by_hod'', ''approved_by_academic_head'', ''rejected_by_academic_head'', ''applied''}
        \<longrightarrow> cq_reviewed_by c \<noteq> None)"
  using correction_reach_ok [OF assms(1,2)] assms(3) by (simp add: corrections_ok_def request_ok_def decided_def)

text \<open>C11: Applying changes one record once: the request was approved, its applier may apply it and did
  not ask for it; the record it names gets the proposed score, components and remarks where there are
  any, and the next version; every other record is untouched, every compilation of its assessment is
  stale, and one audit row holds the hashes of the record's states before and after.\<close>

theorem application_effect:
  assumes "apply_approved_correction sha now aid u t i db = (Inr c', db')"
  shows "\<exists>c r a r' au. get_correction_for_update db t i = Inr (c, r, a) \<and>
     cq_status c \<in> {''approved'', ''approved_by_hod'', ''approved_by_academic_head''} \<and> cq_requested_by c \<noteq> us_id u \<and>
     rec_id r' = rec_id r \<and> rec_version r' = rec_version r + 1 \<and> rec_student r' = rec_student r \<and>
     rec_raw_score r' = (case cq_proposed_raw_score c of None \<Rightarrow> rec_raw_score r | Some d \<Rightarrow> d) \<and>
     rec_component_scores r' = or_json (cq_proposed_components c) (rec_component_scores r) \<and>
     rec_remarks r' = (if cq_proposed_remarks c = [] then rec_remarks r else cq_proposed_remarks c) \<and>
     record_clean db r' = Inr () \<and> grade_records db' = grade_records (put_record r' db) \<and>
     filter (\<lambda>q. rec_id q \<noteq> rec_id r) (grade_records db') = filter (\<lambda>q. rec_id q \<noteq> rec_id r) (grade_records db) \<and>
     (\<forall>q\<in>set (compilation_runs db'). cr_tenant q = sc_id t \<and> cr_assessment q = rec_assessment r \<longrightarrow> cr_status q = ''stale'') \<and>
     correction_audits db' = correction_audits db @ [au] \<and> ca_actor au = us_id u \<and>
     state_hash_of sha r = Inr (ca_state_before au) \<and> state_hash_of sha r' = Inr (ca_state_after au) \<and>
     submission_batches db' = submission_batches db"
proof -
  from assms obtain c r a r' au where e: "get_correction_for_update db t i = Inr (c, r, a)" "cq_status c \<in> set APPROVED_UNAPPLIED_STATUSES"
    and b: "banded_record (get_schema_bands_for_assessment db t a) a (corrected_record c r) = Inr r'" and rc: "record_clean db r' = Inr ()"
    and ap: "cq_applied_by c' = Some (us_id u)" "cq_applied_by c' \<noteq> Some (cq_requested_by c)"
    and db': "db' = add_audit au (put_correction c' (mark_runs_stale (sc_id t) (rec_assessment r') (put_record r' db)))"
    and au: "ca_actor au = us_id u" "state_hash_of sha r = Inr (ca_state_before au)" "state_hash_of sha r' = Inr (ca_state_after au)"
    by (rule apply_Inr)
  note r' = banded_record_Inr [OF b, unfolded corrected_record_def, simplified]
  have ca: "grade_records db' = grade_records (put_record r' db)" "correction_audits db' = correction_audits db @ [au]"
    by (simp_all add: db')
  have o: "filter (\<lambda>q. rec_id q \<noteq> rec_id r) (grade_records db') = filter (\<lambda>q. rec_id q \<noteq> rec_id r) (grade_records db)"
    unfolding ca(1) put_record_def using r' by (simp add: filter_update_where)
  have st: "\<forall>q\<in>set (compilation_runs db'). cr_tenant q = sc_id t \<and> cr_assessment q = rec_assessment r \<longrightarrow> cr_status q = ''stale''"
    by (auto simp: db' r' mark_runs_stale_def set_update_where)
  have bt: "submission_batches db' = submission_batches db"
    by (simp add: db' add_audit_def put_correction_def mark_runs_stale_def put_record_def)
  from e(2) have s: "cq_status c \<in> {''approved'', ''approved_by_hod'', ''approved_by_academic_head''}"
    by (simp add: APPROVED_UNAPPLIED_STATUSES_def)
  show ?thesis
    by (rule exI [of _ c], rule exI [of _ r], rule exI [of _ a], rule exI [of _ r'], rule exI [of _ au])
      (intro conjI e(1) s rc ca o st au bt, use ap r' in \<open>auto split: option.splits\<close>)
qed


text \<open>The grants read no correction table.\<close>

lemma identity_frame [simp]:
  "role_row_is P (db\<lparr>corrections := x\<rparr>) = role_row_is P db" "user_active (db\<lparr>corrections := x\<rparr>) = user_active db" "school_active (db\<lparr>corrections := x\<rparr>) = school_active db"
  "role_for (db\<lparr>corrections := x\<rparr>) u t codes = role_for db u t codes"
  by (auto simp: role_row_is_def user_active_def school_active_def role_for_def fun_eq_iff split: option.splits list.splits)

lemma roles_frame [simp]:
  "get_active_tenant_user_role_bindings (db\<lparr>corrections := x\<rparr>) u t = get_active_tenant_user_role_bindings db u t"
  "get_roles_for_user_in_tenant (db\<lparr>corrections := x\<rparr>) u t = get_roles_for_user_in_tenant db u t"
  "user_has_role_in_tenant (db\<lparr>corrections := x\<rparr>) u t k = user_has_role_in_tenant db u t k"
  "context_is_valid (db\<lparr>corrections := x\<rparr>) ctx = context_is_valid db ctx"
  "policy_context_for (db\<lparr>corrections := x\<rparr>) u t act codes = policy_context_for db u t act codes"
  by (simp_all add: get_active_tenant_user_role_bindings_def get_roles_for_user_in_tenant_def user_has_role_in_tenant_def
      context_is_valid_def policy_context_for_def cong: option.case_cong)

lemma assigned_frame [simp]:
  "cohort_active (db\<lparr>corrections := x\<rparr>) = cohort_active db" "learning_area_active (db\<lparr>corrections := x\<rparr>) = learning_area_active db"
  "assigned_to (db\<lparr>corrections := x\<rparr>) = assigned_to db"
  by (simp_all add: cohort_active_def learning_area_active_def row_defs assigned_to_def fun_eq_iff)

lemma tables_frame [simp]:
  "has_assignment_for_assessment (db\<lparr>corrections := x\<rparr>) ctx a = has_assignment_for_assessment db ctx a"
  "can_apply_correction (db\<lparr>corrections := x\<rparr>) ctx c a = can_apply_correction db ctx c a"
  "can_review_hod_correction (db\<lparr>corrections := x\<rparr>) ctx c a = can_review_hod_correction db ctx c a"
  "schema_row (db\<lparr>corrections := x\<rparr>) = schema_row db" "grade_record_row (db\<lparr>corrections := x\<rparr>) = grade_record_row db" "assessment_row (db\<lparr>corrections := x\<rparr>) = assessment_row db"
  by (simp_all add: has_assignment_for_assessment_def can_apply_correction_def can_review_hod_correction_def schema_row_def grade_record_row_def
      assessment_row_def fun_eq_iff cong: option.case_cong)

lemma bands_frame [simp]: "get_schema_bands_for_assessment (db\<lparr>corrections := x\<rparr>) tn a = get_schema_bands_for_assessment db tn a"
  by (simp add: get_schema_bands_for_assessment_def get_assessment_schema_binding_def cong: option.case_cong)

text \<open>An application does not look at the state the request was made for: what it checks and computes
  before it writes is the same whatever \<open>old_state_hash\<close> the stored requests carry, so a request
  approved for an older state of the record overwrites a newer one.\<close>

theorem application_ignores_request_hash:
  "map_sum id (\<lambda>p. (ap_record p, ap_changed p, ap_state_before p))
     (plan_application sha u t i (db\<lparr>corrections := map (\<lambda>c. c\<lparr>cq_old_state_hash := h c\<rparr>) (corrections db)\<rparr>)) =
   map_sum id (\<lambda>p. (ap_record p, ap_changed p, ap_state_before p)) (plan_application sha u t i db)"
proof -
  let ?f = "\<lambda>c. c\<lparr>cq_old_state_hash := h c\<rparr>"
  let ?db = "db\<lparr>corrections := map ?f (corrections db)\<rparr>"
  have g: "get_correction_for_update ?db t i = map_sum id (\<lambda>(c, ra). (?f c, ra)) (get_correction_for_update db t i)"
    by (simp add: get_correction_for_update_def first_where_map split: option.splits)
  have a: "can_apply_correction db ctx (c\<lparr>cq_old_state_hash := k\<rparr>) a = can_apply_correction db ctx c a" for ctx c k a
    by (simp add: can_apply_correction_def)
  have r: "corrected_record (c\<lparr>cq_old_state_hash := k\<rparr>) r = corrected_record c r" for c k r
    by (simp add: corrected_record_def)
  show ?thesis
    by (simp add: plan_application_def g)
      (auto simp: a r ebind_def Let_def split: sum.splits)
qed


text \<open>With \<open>default=str\<close> a state is always serializable: hashing it never raises.\<close>

lemma emap_ok: "\<forall>x\<in>set xs. is_ok (f x) \<Longrightarrow> is_ok (emap f xs)"
  by (induction xs) (auto simp: is_ok_iff ebind_eq_Inr)

lemma dumps_default_ok: "is_ok (dumps True v)"
proof (induction "True" v rule: dumps.induct)
  case (6 vs)
  then show ?case using emap_ok [of vs "dumps True"] by (auto simp: is_ok_iff)
next
  case (7 kvs)
  have "is_ok (ebind (dumps True (snd kv)) (\<lambda>t. Inr (json_string (fst kv) @ '':'' @ t)))" if "kv \<in> set (sort_key fst kvs)" for kv
    using 7 [OF that] by (cases "dumps True (snd kv)") simp_all
  then have "is_ok (emap (\<lambda>kv. ebind (dumps True (snd kv)) (\<lambda>t. Inr (json_string (fst kv) @ '':'' @ t))) (sort_key fst kvs))"
    by (intro emap_ok) blast
  then show ?case by (auto simp: is_ok_iff)
qed simp_all

lemma hash_constant: "hash_grade_state (\<lambda>_. h) s = Inr (''sha256:'' @ h)"
  using dumps_default_ok [of "JObj s"] by (auto simp: hash_grade_state_def is_ok_iff split: sum.splits)

lemma state_hash_constant: "state_hash_of (\<lambda>_. h) r = Inr (''sha256:'' @ h)"
  by (simp add: state_hash_of_def correction_state_hash_def hash_constant)

lemma dec_str_eq [simp]: "dec_str a = dec_str b \<longleftrightarrow> a = b"
  using decimal_of_str [of a] decimal_of_str [of b] by (metis sum.inject(2))

text \<open>A sanitised text is short and safe.\<close>

lemma unsafe_take: "unsafe_markup (take n s) \<Longrightarrow> unsafe_markup s"
proof -
  have "contains k (lower (take n s)) \<Longrightarrow> contains k (lower s)" for k
    unfolding contains_iff lower_def using append_take_drop_id [of n s] by (metis append.assoc map_append)
  then show "unsafe_markup (take n s) \<Longrightarrow> unsafe_markup s" by (auto simp: unsafe_markup_def)
qed

lemma sanitized_text:
  assumes "\<forall>k\<in>set UNSAFE_TEXT_TOKENS. \<not> contains k (lower (strip x))"
  shows "sanitize_untrusted_text (JStr x) n = Inr (take n (strip x))" "\<not> unsafe_markup (take n (strip x))"
proof -
  show "sanitize_untrusted_text (JStr x) n = Inr (take n (strip x))"
    by (cases "x = []") (use assms in \<open>simp_all add: sanitize_untrusted_text_def Let_def\<close>)
  have "\<not> unsafe_markup (strip x)" using assms by (auto simp: unsafe_markup_def UNSAFE_TEXT_TOKENS_def)
  then show "\<not> unsafe_markup (take n (strip x))" using unsafe_take by blast
qed

text \<open>Recording a review keeps a valid row valid.\<close>

lemma reviewed_row_valid:
  assumes "correction_full_clean db c = Inr c" and "user_exists db v" and "v \<noteq> cq_requested_by c" and "\<not> unsafe_markup w"
    and "s \<in> set correction_statuses"
  shows "correction_full_clean db (c\<lparr>cq_status := s, cq_reviewed_by := Some v, cq_reviewed_at := n, cq_review_reason := w\<rparr>)
    = Inr (c\<lparr>cq_status := s, cq_reviewed_by := Some v, cq_reviewed_at := n, cq_review_reason := w\<rparr>)"
proof -
  let ?c = "c\<lparr>cq_status := s, cq_reviewed_by := Some v, cq_reviewed_at := n, cq_review_reason := w\<rparr>"
  from assms(1) have cl: "correction_clean db (map_option dec_str (cq_proposed_raw_score c)) c = Inr c"
    and f: "correction_fields_ok db c" "opt_fk (decimal_field 7 2) (cq_proposed_raw_score c)"
    by (auto simp: correction_full_clean_def ebind_eq_Inr split: if_splits)
  have k: "strip (cq_reason_code c) = cq_reason_code c"
    using correction_clean_Inr(1) [OF cl] by (cases c) simp
  from cl have "correction_clean db (map_option dec_str (cq_proposed_raw_score c)) ?c = Inr ?c"
    using assms(3,4) by (auto simp: correction_clean_def Let_def ebind_eq_Inr k split: option.splits if_splits)
  with f assms(2,5) show ?thesis by (simp add: correction_full_clean_def correction_fields_ok_def opt_fk_def)
qed

lemma put_correction_frame [simp]:
  "grade_record_row (put_correction c db) = grade_record_row db" "school_exists (put_correction c db) = school_exists db"
  "user_exists (put_correction c db) = user_exists db"
  by (simp_all add: put_correction_def grade_record_row_def school_exists_def user_exists_def fun_eq_iff)

text \<open>C12: A head of department can always decide: a request under review whose stored row is valid is
  approved or rejected by anyone the policy allows to review it, whatever reason is given as long as
  it holds no forbidden markup; nothing else can stop the decision.\<close>

theorem hod_can_decide:
  assumes g: "get_correction_for_update db t i = Inr (c, r, a)" and st: "cq_status c = ''under_hod_review''"
    and can: "can_review_hod_correction db (policy_context_for db (Some u) (Some t) ''grading.correction.hod.review''
        GRADING_HOD_ROLE_CODES) c a"
    and ok: "correction_full_clean db c = Inr c" and u: "user_exists db (us_id u)" and d: "d = ''approve'' \<or> d = ''reject''"
    and x: "\<forall>k\<in>set UNSAFE_TEXT_TOKENS. \<not> contains k (lower (strip x))"
  shows "\<exists>c' db'. review_correction_as_hod now aid u t i d x db = (Inr c', db') \<and>
    cq_status c' = (if d = ''approve'' then ''approved_by_hod'' else ''rejected_by_hod'') \<and> cq_reviewed_by c' = Some (us_id u) \<and>
    map ca_status_to (trail db' i) = map ca_status_to (trail db i) @ [cq_status c']"
proof -
  let ?s = "if d = ''approve'' then ''approved_by_hod'' else ''rejected_by_hod''"
  let ?c = "c\<lparr>cq_status := ?s, cq_reviewed_by := Some (us_id u), cq_reviewed_at := Some now, cq_review_reason := take 500 (strip x)\<rparr>"
  let ?m = "''hod_'' @ d"
  let ?u = "\<lparr>ca_id = aid, ca_tenant = sc_id t, ca_correction = i, ca_grade_record = cq_grade_record c, ca_actor = us_id u,
      ca_action = ''reviewed'', ca_status_from = ''under_hod_review'', ca_status_to = ?s, ca_reason_code = cq_reason_code c,
      ca_reason_summary = ?m, ca_state_before = [], ca_state_after = [], ca_changed_fields = []\<rparr>"
  note gc = get_correction_Inr [OF g]
  have rq: "us_id u \<noteq> cq_requested_by c"
    using can by (auto simp: can_review_hod_correction_def actor_is_def policy_context_for_def split: if_splits)
  have tr: "?s \<in> set (allowed_targets TRANSITIONS (cq_status c))" "?s \<in> set correction_statuses" "length ?s \<le> 32" "?s \<noteq> []"
    unfolding st by (simp_all add: allowed_targets_def TRANSITIONS_def correction_statuses_def)
  have ch: "reviewed now (us_id u) (can_review_hod_correction db (policy_context_for db (Some u) (Some t) ''grading.correction.hod.review''
            GRADING_HOD_ROLE_CODES) c a) [(''approve'', ''approved_by_hod''), (''reject'', ''rejected_by_hod'')] d x c = Inr ?c"
    using can d tr(1) by (auto simp: reviewed_def sanitized_text [OF x])
  have fc: "correction_full_clean db ?c = Inr ?c" by (rule reviewed_row_valid [OF ok u rq sanitized_text(2) [OF x] tr(2)])
  from ok have cl: "correction_clean db (map_option dec_str (cq_proposed_raw_score c)) c = Inr c" and f: "correction_fields_ok db c"
    by (auto simp: correction_full_clean_def ebind_eq_Inr split: if_splits)
  have rt: "rec_tenant r = sc_id t" using cl gc by (auto simp: correction_clean_def split: if_splits)
  have cr: "correction_row (put_correction ?c db) i = Some (stored_correction ?c)"
    using gc by (auto simp: correction_row_def intro: first_where_put)
  have "\<not> unsafe_markup ''hod_approve''" "\<not> unsafe_markup ''hod_reject''" by code_simp+
  then have sm: "\<not> unsafe_markup ?m" "length ?m \<le> 180" using d by auto
  have au: "audit_full_clean (put_correction ?c db) ?u = Inr ?u"
    using sm tr(3,4) f u gc rt
    by (simp add: audit_full_clean_def tenants_agree_def cr correction_fields_ok_def char_field_def)
  have "review_correction_as_hod now aid u t i d x db = (Inr ?c, add_audit ?u (put_correction ?c db))"
    using g gc fc au st
    by (simp add: review_correction_as_hod_def move_correction_def ch atomic_def abind_def query_def save_row_def alift_def
        audit_correction_def)
  then show ?thesis by (intro exI conjI) (auto simp: trail_def)
qed

section \<open>Instances\<close>

definition sample_batch :: submission_batch where
  "sample_batch = \<lparr>bt_id = ''b1'', bt_tenant = ''s1'', bt_assessment = ''x1'', bt_teacher = ''u1'', bt_teacher_assignment = ''a1'',
     bt_cohort = ''c1'', bt_learning_area = ''l1'', bt_idempotency_key = ''k1'', bt_payload_hash = ''sha256:p'', bt_record_count = 1,
     bt_status = ''submitted'', bt_submitted_at = Some 2, bt_confirmation_method = ''web_session'', bt_confirmation_at = Some 2,
     bt_confirmation_reference = ''ref''\<rparr>"

definition sample_record :: grade_record where
  "sample_record = \<lparr>rec_id = ''g1'', rec_tenant = ''s1'', rec_assessment = ''x1'', rec_submission_batch = ''b1'', rec_student = ''p1'',
     rec_raw_score = Fin False 4000 (-2), rec_normalized_score = None, rec_component_scores = JObj [], rec_remarks = [],
     rec_schema_version = [], rec_band_label = [], rec_band_descriptor = [], rec_version = 1, rec_submitted_by = ''u1''\<rparr>"

definition sample_request_row :: correction where
  "sample_request_row = \<lparr>cq_id = ''q1'', cq_tenant = ''s1'', cq_grade_record = ''g1'', cq_requested_by = ''u1'', cq_reviewed_by = Some ''u2'',
     cq_reason = ''recount'', cq_reason_code = ''teacher_request'', cq_old_state_hash = ''sha256:h'',
     cq_proposed_raw_score = Some (Fin False 5000 (-2)), cq_proposed_components = JObj [], cq_proposed_remarks = [],
     cq_review_reason = ''ok'', cq_escalation_reason = [], cq_escalated_by = None, cq_applied_by = None, cq_status = ''approved_by_hod'',
     cq_requested_at = 3, cq_reviewed_at = Some 4, cq_escalated_at = None, cq_applied_at = None\<rparr>"

definition sample_audit :: "uuid \<Rightarrow> uuid \<Rightarrow> string \<Rightarrow> string \<Rightarrow> string \<Rightarrow> correction_audit" where
  "sample_audit i actor action s t = \<lparr>ca_id = i, ca_tenant = ''s1'', ca_correction = ''q1'', ca_grade_record = ''g1'', ca_actor = actor,
     ca_action = action, ca_status_from = s, ca_status_to = t, ca_reason_code = ''teacher_request'', ca_reason_summary = ''hod_approve'',
     ca_state_before = [], ca_state_after = [], ca_changed_fields = []\<rparr>"

definition sample_corrections :: grading_db where
  "sample_corrections = sample_grading\<lparr>submission_batches := [sample_batch], grade_records := [sample_record],
     corrections := [sample_request_row],
     correction_audits := [sample_audit ''w1'' ''u1'' ''requested'' [] ''under_hod_review'',
       sample_audit ''w2'' ''u2'' ''reviewed'' ''under_hod_review'' ''approved_by_hod'']\<rparr>"

definition sample_school :: school where "sample_school = \<lparr>sc_id = ''s1'', sc_is_active = True\<rparr>"

definition sample_hod :: user where "sample_hod = \<lparr>us_id = ''u2'', us_is_active = True\<rparr>"

lemmas sample_correction_simps = sample_corrections_def sample_school_def sample_hod_def sample_record_def sample_request_row_def
  sample_audit_def sample_batch_def

lemma sample_corrections_ok: "corrections_ok sample_corrections"
  by (simp add: corrections_ok_def request_ok_def trail_def sample_correction_simps decided_def live_statuses_def
      allowed_targets_def TRANSITIONS_def)

lemma sample_people:
  "schools sample_corrections = [\<lparr>sc_id = ''s1'', sc_is_active = True\<rparr>]"
  "users sample_corrections = [\<lparr>us_id = ''u1'', us_is_active = True\<rparr>, \<lparr>us_id = ''u2'', us_is_active = True\<rparr>, \<lparr>us_id = ''u9'', us_is_active = True\<rparr>]"
  "roles sample_corrections = [\<lparr>ro_id = ''r1'', ro_code = ''subject_teacher'', ro_name = ''T'', ro_description = [], ro_is_active = True\<rparr>,
       \<lparr>ro_id = ''r2'', ro_code = ''hod'', ro_name = ''H'', ro_description = [], ro_is_active = True\<rparr>,
       \<lparr>ro_id = ''r9'', ro_code = ''school_admin'', ro_name = ''A'', ro_description = [], ro_is_active = True\<rparr>]"
  "role_bindings sample_corrections = [\<lparr>rb_id = ''b1'', rb_tenant = ''s1'', rb_user = ''u1'', rb_role = ''r1'', rb_is_active = True, rb_updated_at = 1\<rparr>,
       \<lparr>rb_id = ''b2'', rb_tenant = ''s1'', rb_user = ''u2'', rb_role = ''r2'', rb_is_active = True, rb_updated_at = 1\<rparr>,
       \<lparr>rb_id = ''b9'', rb_tenant = ''s1'', rb_user = ''u9'', rb_role = ''r9'', rb_is_active = True, rb_updated_at = 1\<rparr>]"
  "grade_records sample_corrections = [sample_record]" "corrections sample_corrections = [sample_request_row]"
  "students sample_corrections = [\<lparr>st_id = ''p1'', st_tenant = ''s1'', st_admission_number = ''A001'', st_first_name = ''A'', st_last_name = ''B'', st_is_active = True\<rparr>]"
  "enrollments sample_corrections = [\<lparr>en_id = ''e1'', en_tenant = ''s1'', en_student = ''p1'', en_cohort = ''c1'', en_academic_year = ''y1'', en_term = ''t1'', en_is_active = True\<rparr>]"
  "submission_batches sample_corrections = [sample_batch]" "assessments sample_corrections = [sample_assessment]"
  "compilation_runs sample_corrections = []"
  by (simp_all add: sample_corrections_def sample_grading_def sample_curriculum_simps grading_db.defs)

lemma sample_hod_context:
  "policy_context_for sample_corrections (Some sample_hod) (Some sample_school) act (GRADING_HOD_ROLE_CODES @ cs)
     = \<lparr>ctx_tenant = Some sample_school, ctx_actor = Some sample_hod, ctx_action = act,
        ctx_role = Some \<lparr>ro_id = ''r2'', ro_code = ''hod'', ro_name = ''H'', ro_description = [], ro_is_active = True\<rparr>\<rparr>"
  by (simp add: policy_context_for_def role_for_def role_row_is_def GRADING_HOD_ROLE_CODES_def first_where_def sample_people
      sample_school_def sample_hod_def)

lemma sample_hod_valid:
  "act \<noteq> [] \<Longrightarrow> context_is_valid sample_corrections \<lparr>ctx_tenant = Some sample_school, ctx_actor = Some sample_hod, ctx_action = act,
     ctx_role = Some \<lparr>ro_id = ''r2'', ro_code = ''hod'', ro_name = ''H'', ro_description = [], ro_is_active = True\<rparr>\<rparr>"
  by (simp add: context_is_valid_def user_has_role_in_tenant_def get_roles_for_user_in_tenant_def sample_people
      get_active_tenant_user_role_bindings_def role_row_is_def user_active_def school_active_def sample_school_def sample_hod_def)

lemma sample_hod_assigned: "assigned_to sample_corrections ''s1'' ''u2'' sample_assessment
     \<lparr>ta_id = ''a2'', ta_tenant = ''s1'', ta_teacher = ''u2'', ta_cohort = ''c1'', ta_learning_area = ''l1'', ta_academic_year = ''y1'',
         ta_term = ''t1'', ta_is_active = True\<rparr>"
  "\<lparr>ta_id = ''a2'', ta_tenant = ''s1'', ta_teacher = ''u2'', ta_cohort = ''c1'', ta_learning_area = ''l1'', ta_academic_year = ''y1'',
         ta_term = ''t1'', ta_is_active = True\<rparr> \<in> set (assignments sample_corrections)"
  by (simp_all add: assigned_to_def cohort_active_def learning_area_active_def row_defs first_where_def sample_corrections_def
      sample_grading_simps)

lemma sample_get:
  "get_correction_for_update sample_corrections sample_school ''q1'' = Inr (sample_request_row, sample_record, sample_assessment)"
  by (simp add: get_correction_for_update_def first_where_def grade_record_row_def assessment_row_def sample_people
      sample_school_def sample_request_row_def sample_record_def sample_assessment_def)

lemma sample_hod_for_assessment:
  "act \<noteq> [] \<Longrightarrow> has_assignment_for_assessment sample_corrections \<lparr>ctx_tenant = Some sample_school, ctx_actor = Some sample_hod,
     ctx_action = act, ctx_role = Some \<lparr>ro_id = ''r2'', ro_code = ''hod'', ro_name = ''H'', ro_description = [], ro_is_active = True\<rparr>\<rparr>
     sample_assessment"
  using sample_hod_assigned sample_hod_valid [of act]
  by (auto simp: has_assignment_for_assessment_def role_in_def GRADING_TEACHER_ROLES_def resource_in_tenant_def sample_assessment_def
      sample_school_def sample_hod_def)

lemma sample_correction_texts:
  "\<not> unsafe_markup ''recount''" "\<not> unsafe_markup ''ok''" "\<not> unsafe_markup []" "strip ''recount'' = ''recount''"
  "strip ''teacher_request'' = ''teacher_request''" "strip ''sha256:h'' = ''sha256:h''" "\<not> unsafe_markup ''approved_correction_applied''"
  by code_simp+

lemma sample_score:
  "validate_score_bounds (dec_str (Fin False 5000 (-2))) (dec_str (Fin False 10000 (-2))) = Inr (Fin False 5000 (-2))"
  "decimal_field 7 2 (Fin False 5000 (-2))" "json_field (JObj [])" "positive_integer_field 2" "is_dict (JObj [])"
  "dec_at_least (Fin False 5000 (-2)) dec_0"
  by (simp_all add: validate_score_bounds_def to_decimal_def decimal_field_def json_field_def positive_integer_field_def
      is_dict_def dec_at_least_def dec_le_def dec_less_def dec_0_def align_def signed_def ndigits.simps)

lemma sample_apply_ok:
  "\<exists>c' db'. apply_approved_correction (\<lambda>_. ''h'') 5 ''w3'' sample_hod sample_school ''q1'' sample_corrections = (Inr c', db')"
proof -
  let ?ctx = "policy_context_for sample_corrections (Some sample_hod) (Some sample_school) ''grading.correction.apply''
     (GRADING_HOD_ROLE_CODES @ GRADING_ACADEMIC_HEAD_ROLE_CODES)"
  let ?r = "corrected_record sample_request_row sample_record"
  have x: "as_tenant sample_assessment = ''s1''" "cq_tenant sample_request_row = ''s1''" "cq_requested_by sample_request_row = ''u1''"
    by (simp_all add: sample_assessment_def sample_request_row_def)
  have "has_assignment_for_assessment sample_corrections ?ctx sample_assessment"
    unfolding sample_hod_context by (rule sample_hod_for_assessment) simp
  then have can: "can_apply_correction sample_corrections ?ctx sample_request_row sample_assessment"
    using sample_hod_valid [of "''grading.correction.apply''"] unfolding sample_hod_context
    by (simp add: can_apply_correction_def resource_in_tenant_def actor_is_def role_in_def x sample_school_def sample_hod_def)
  have b: "get_schema_bands_for_assessment sample_corrections sample_school sample_assessment = []"
    by (simp add: get_schema_bands_for_assessment_def get_assessment_schema_binding_def sample_assessment_def)
  have st: "cq_status sample_request_row \<in> set APPROVED_UNAPPLIED_STATUSES"
    by (simp add: APPROVED_UNAPPLIED_STATUSES_def sample_request_row_def)
  have ch: "correction_changed_fields (rec_raw_score sample_record) (cq_proposed_raw_score sample_request_row)
      (rec_component_scores sample_record) (cq_proposed_components sample_request_row) (rec_remarks sample_record)
      (cq_proposed_remarks sample_request_row) = [''raw_score'']"
    by (simp add: correction_changed_fields_def sample_request_row_def sample_record_def)
  have plan: "plan_application (\<lambda>_. ''h'') sample_hod sample_school ''q1'' sample_corrections = Inr
      \<lparr>ap_correction = sample_request_row, ap_record = ?r, ap_changed = [''raw_score''], ap_state_before = ''sha256:h''\<rparr>"
    using can st by (simp add: plan_application_def sample_get state_hash_constant ch banded_record_def b)
  have r: "?r = sample_record\<lparr>rec_raw_score := Fin False 5000 (-2), rec_version := 2\<rparr>"
    by (simp add: corrected_record_def sample_request_row_def sample_record_def or_json_def)
  have rc: "record_full_clean sample_corrections ?r = Inr ?r"
    unfolding r
    by (simp add: record_full_clean_def record_clean_def assessment_row_def batch_row_def first_where_def sample_people
        sample_record_def sample_assessment_def sample_batch_def sample_score opt_fk_def school_exists_def user_exists_def
        student_row_def tenants_agree_def)
  let ?d2 = "sample_corrections\<lparr>grade_records := [?r]\<rparr>"
  have d2: "mark_runs_stale ''s1'' ''x1'' (put_record ?r sample_corrections) = ?d2"
    unfolding r by (simp add: mark_runs_stale_def put_record_def update_where_def sample_people sample_record_def stored_2_def)
  let ?c = "sample_request_row\<lparr>cq_status := ''applied'', cq_applied_by := Some ''u2'', cq_applied_at := Some 5\<rparr>"
  have cc: "correction_full_clean ?d2 ?c = Inr ?c"
    unfolding r
    by (simp add: correction_full_clean_def correction_clean_def correction_fields_ok_def correction_statuses_def TRANSITIONS_def
      grade_record_row_def assessment_row_def school_exists_def user_exists_def opt_fk_def char_field_def first_where_def
      sample_people sample_record_def sample_assessment_def sample_request_row_def sample_correction_texts sample_score)
  let ?u = "\<lparr>ca_id = ''w3'', ca_tenant = ''s1'', ca_correction = ''q1'', ca_grade_record = ''g1'', ca_actor = ''u2'', ca_action = ''applied'',
      ca_status_from = ''approved_by_hod'', ca_status_to = ''applied'', ca_reason_code = ''teacher_request'',
      ca_reason_summary = ''approved_correction_applied'', ca_state_before = ''sha256:h'', ca_state_after = ''sha256:h'',
      ca_changed_fields = [''raw_score'']\<rparr>"
  have uu: "audit_full_clean (put_correction ?c ?d2) ?u = Inr ?u"
    unfolding r
    by (simp add: audit_full_clean_def tenants_agree_def correction_row_def grade_record_row_def put_correction_def stored_correction_def
      update_where_def school_exists_def user_exists_def char_field_def first_where_def sample_people sample_record_def
      sample_request_row_def sample_correction_texts)
  have ids: "rec_assessment ?r = ''x1''" "cq_status sample_request_row = ''approved_by_hod''" "cq_id sample_request_row = ''q1''"
    "cq_grade_record sample_request_row = ''g1''" "cq_reason_code sample_request_row = ''teacher_request''"
    by (simp_all add: corrected_record_def sample_record_def sample_request_row_def)
  have "apply_approved_correction (\<lambda>_. ''h'') 5 ''w3'' sample_hod sample_school ''q1'' sample_corrections
      = (Inr ?c, add_audit ?u (put_correction ?c ?d2))"
    using plan rc d2 cc uu
    by (simp add: apply_approved_correction_def atomic_def abind_def query_def save_row_def alift_def state_hash_constant
        audit_correction_def sample_hod_def sample_school_def ids)
  then show ?thesis by blast
qed

theorem correction_trail_is_history_witness:
  "\<exists>c' db'. apply_approved_correction (\<lambda>_. ''h'') 5 ''w3'' sample_hod sample_school ''q1'' sample_corrections = (Inr c', db') \<and>
     list_all (\<lambda>c. ca_status_to (last (trail db' (cq_id c))) = cq_status c \<and> length (trail db' (cq_id c)) \<le> 5) (corrections db')"
proof -
  obtain c' db' where e: "apply_approved_correction (\<lambda>_. ''h'') 5 ''w3'' sample_hod sample_school ''q1'' sample_corrections = (Inr c', db')"
    using sample_apply_ok by blast
  have "correction_reach (\<lambda>_. ''h'') sample_corrections db'" by (rule further [OF here applies [OF e]])
  from e correction_trail_is_history [OF this sample_corrections_ok] show ?thesis by (auto simp: list_all_iff)
qed

theorem correction_duties_separated_witness:
  "cq_reviewed_by sample_request_row \<noteq> Some (cq_requested_by sample_request_row) \<and> cq_reviewed_by sample_request_row \<noteq> None"
  using correction_duties_separated [OF here [where sha = "\<lambda>_. ''h''"] sample_corrections_ok, of sample_request_row]
  by (simp add: sample_people) (simp add: sample_request_row_def)

theorem application_effect_witness:
  "\<exists>c' db'. apply_approved_correction (\<lambda>_. ''h'') 5 ''w3'' sample_hod sample_school ''q1'' sample_corrections = (Inr c', db') \<and>
     map rec_version (grade_records db') = [2] \<and> map rec_raw_score (grade_records db') = [Fin False 5000 (-2)]"
proof -
  obtain c' db' where e: "apply_approved_correction (\<lambda>_. ''h'') 5 ''w3'' sample_hod sample_school ''q1'' sample_corrections = (Inr c', db')"
    using sample_apply_ok by blast
  from application_effect [OF e] obtain r' where "rec_id r' = ''g1''" "rec_version r' = 2" "rec_raw_score r' = Fin False 5000 (-2)"
    "grade_records db' = grade_records (put_record r' sample_corrections)"
    by (auto simp: sample_get sample_record_def sample_request_row_def)
  then have "map rec_version (grade_records db') = [2]" "map rec_raw_score (grade_records db') = [Fin False 5000 (-2)]"
    by (simp_all add: put_record_def update_where_def sample_people sample_record_def stored_2_def)
  with e show ?thesis by (intro exI conjI)
qed

definition sample_pending :: grading_db where
  "sample_pending = sample_corrections\<lparr>corrections := [sample_request_row\<lparr>cq_status := ''under_hod_review'', cq_reviewed_by := None\<rparr>]\<rparr>"

theorem hod_can_decide_witness:
  "\<exists>c' db'. review_correction_as_hod 9 ''w9'' sample_hod sample_school ''q1'' ''reject'' ''checked'' sample_pending = (Inr c', db') \<and>
     cq_status c' = ''rejected_by_hod''"
proof -
  let ?c = "sample_request_row\<lparr>cq_status := ''under_hod_review'', cq_reviewed_by := None\<rparr>"
  have g: "get_correction_for_update sample_pending sample_school ''q1'' = Inr (?c, sample_record, sample_assessment)"
    by (simp add: sample_pending_def get_correction_for_update_def first_where_def)
      (simp add: grade_record_row_def assessment_row_def first_where_def sample_people sample_school_def sample_request_row_def
        sample_record_def sample_assessment_def)
  have can: "can_review_hod_correction sample_pending (policy_context_for sample_pending (Some sample_hod) (Some sample_school)
      ''grading.correction.hod.review'' GRADING_HOD_ROLE_CODES) ?c sample_assessment"
    unfolding sample_pending_def
    using sample_hod_valid [of "''grading.correction.hod.review''"] sample_hod_for_assessment [of "''grading.correction.hod.review''"]
      sample_hod_context [of "''grading.correction.hod.review''" "[]"]
    by (simp add: can_review_hod_correction_def resource_in_tenant_def actor_is_def role_in_def)
      (simp add: sample_school_def sample_hod_def sample_request_row_def)
  have ok: "correction_full_clean sample_pending ?c = Inr ?c"
    by (simp add: correction_full_clean_def correction_clean_def correction_fields_ok_def correction_statuses_def TRANSITIONS_def
      grade_record_row_def assessment_row_def school_exists_def user_exists_def opt_fk_def char_field_def first_where_def sample_pending_def
      sample_people sample_record_def sample_assessment_def sample_request_row_def sample_correction_texts sample_score)
  have u: "user_exists sample_pending (us_id sample_hod)" by (simp add: user_exists_def sample_pending_def sample_people sample_hod_def)
  have x: "\<forall>k\<in>set UNSAFE_TEXT_TOKENS. \<not> contains k (lower (strip ''checked''))" by code_simp
  have st: "cq_status ?c = ''under_hod_review''" by simp
  from hod_can_decide [OF g st can ok u _ x, where d = "''reject''" and now = 9 and aid = "''w9''"] show ?thesis by auto
qed

end
