(* ===== verification/SubmissionFacts.thy ===== *)
theory SubmissionFacts
  imports Submission CorrectionFacts
begin

text \<open>
  What saving drafts and submitting batches guarantee: a first submission stores one batch with one
  record per row; a retry with the same key and payload returns that batch and changes nothing; and
  no sequence of saves, submissions and corrections leaves two records for a learner or two active
  submissions of a teacher.
\<close>

context clean_store
begin

lemma save_row_keeps: "inv db \<Longrightarrow> save_row full_clean insert_row r db = (res, db') \<Longrightarrow> inv db'"
  by (cases "full_clean db r") (auto simp: save_row_def intro: keeps [OF _ sym])

end

section \<open>Live batches and drafts stay apart\<close>

definition batches_apart :: "'a grading_db_scheme \<Rightarrow> bool" where
  "batches_apart db \<longleftrightarrow> (\<forall>q\<in>set (submission_batches db). \<forall>b\<in>set (submission_batches db). \<not> batch_clash q b)"

definition drafts_apart :: "'a grading_db_scheme \<Rightarrow> bool" where
  "drafts_apart db \<longleftrightarrow> (\<forall>q\<in>set (draft_batches db). \<forall>d\<in>set (draft_batches db). \<not> draft_clash q d)"

lemma batch_clash_sym: "batch_clash q b \<Longrightarrow> batch_clash b q"
  by (auto simp: batch_clash_def)

lemma draft_clash_sym: "draft_clash q d \<Longrightarrow> draft_clash d q"
  by (auto simp: draft_clash_def)

lemma no_self_clash [simp]: "\<not> batch_clash b b" "\<not> draft_clash d d"
  by (simp_all add: batch_clash_def draft_clash_def)

lemma batch_full_clean_Inr:
  "batch_full_clean db b = Inr b' \<Longrightarrow> b' = b \<and> batch_clean db b = Inr () \<and> (\<forall>q\<in>set (submission_batches db). \<not> batch_clash q b)"
  by (auto simp: batch_full_clean_def ebind_eq_Inr split: if_splits)

lemma draft_full_clean_Inr:
  "draft_full_clean db d = Inr d' \<Longrightarrow> d' = d \<and> (\<forall>q\<in>set (draft_batches db). \<not> draft_clash q d)"
  by (auto simp: draft_full_clean_def ebind_eq_Inr split: if_splits)

lemma add_batch_apart: "batches_apart db \<Longrightarrow> \<forall>q\<in>set (submission_batches db). \<not> batch_clash q b \<Longrightarrow> batches_apart (add_batch b db)"
  by (auto simp: batches_apart_def add_batch_def dest: batch_clash_sym)

lemma add_draft_apart: "drafts_apart db \<Longrightarrow> \<forall>q\<in>set (draft_batches db). \<not> draft_clash q d \<Longrightarrow> drafts_apart (add_draft d db)"
  by (auto simp: drafts_apart_def add_draft_def dest: draft_clash_sym)

lemma put_draft_apart: "drafts_apart db \<Longrightarrow> \<forall>q\<in>set (draft_batches db). \<not> draft_clash q d \<Longrightarrow> drafts_apart (put_draft d db)"
  by (auto simp: drafts_apart_def put_draft_def set_update_where dest: draft_clash_sym)

interpretation batch_store: clean_store batch_full_clean add_batch batches_apart
  by unfold_locales (use batch_full_clean_Inr add_batch_apart in blast)

interpretation draft_store: clean_store draft_full_clean add_draft drafts_apart
  by unfold_locales (use draft_full_clean_Inr add_draft_apart in blast)

interpretation draft_update: clean_store draft_full_clean put_draft drafts_apart
  by unfold_locales (use draft_full_clean_Inr put_draft_apart in blast)

section \<open>A first submission\<close>

lemma bulk_create_records_Inr:
  assumes "bulk_create_records t a i u rows db = (Inr x, db')"
  shows "\<forall>(k, r)\<in>set rows. gr_raw_score r \<noteq> None \<and>
      (\<forall>q\<in>set (grade_records db). \<not> (rec_tenant q = t \<and> rec_assessment q = as_id a \<and> rec_student q = gr_student_id r))"
    and "db' = db\<lparr>grade_records := grade_records db @
        map (\<lambda>(k, r). new_grade_record t a i u k r (the (gr_raw_score r))) rows\<rparr>"
proof -
  show s: "\<forall>(k, r)\<in>set rows. gr_raw_score r \<noteq> None \<and>
      (\<forall>q\<in>set (grade_records db). \<not> (rec_tenant q = t \<and> rec_assessment q = as_id a \<and> rec_student q = gr_student_id r))"
    using assms by (auto simp: bulk_create_records_def split: if_splits)
  have "concat (map (\<lambda>(k, r). case gr_raw_score r of None \<Rightarrow> [] | Some d \<Rightarrow> [new_grade_record t a i u k r d]) xs) =
      map (\<lambda>(k, r). new_grade_record t a i u k r (the (gr_raw_score r))) xs" if "\<forall>(k, r)\<in>set xs. gr_raw_score r \<noteq> None" for xs
    using that by (induction xs) auto
  then have e: "concat (map (\<lambda>(k, r). case gr_raw_score r of None \<Rightarrow> [] | Some d \<Rightarrow> [new_grade_record t a i u k r d]) rows) =
      map (\<lambda>(k, r). new_grade_record t a i u k r (the (gr_raw_score r))) rows" using s by blast
  show "db' = db\<lparr>grade_records := grade_records db @
        map (\<lambda>(k, r). new_grade_record t a i u k r (the (gr_raw_score r))) rows\<rparr>"
    using assms by (simp add: bulk_create_records_def e split: if_splits)
qed

definition submitted_batch :: "time \<Rightarrow> uuid \<Rightarrow> school \<Rightarrow> teacher_call \<Rightarrow> nat \<Rightarrow> confirmation_result \<Rightarrow> submission_batch" where
  "submitted_batch now i t tc n conf =
     \<lparr>bt_id = i, bt_tenant = sc_id t, bt_assessment = as_id (tc_assessment tc), bt_teacher = us_id (tc_user tc),
      bt_teacher_assignment = ta_id (tc_assignment tc), bt_cohort = as_cohort (tc_assessment tc),
      bt_learning_area = as_learning_area (tc_assessment tc), bt_idempotency_key = tc_key tc, bt_payload_hash = tc_hash tc,
      bt_record_count = int n, bt_status = ''submitted'', bt_submitted_at = Some now, bt_confirmation_method = cf_method conf,
      bt_confirmation_at = Some (cf_time conf), bt_confirmation_reference = cf_reference conf\<rparr>"

lemma store_submission_Inr:
  assumes "store_submission now i ids t conf tc db = (Inr b, db')"
  obtains cf rows where "validate_confirmation conf (us_id (tc_user tc)) (sc_id t) now = Inr cf"
    "validate_grade_rows (tc_rows tc) (roster_ids db t (tc_assessment tc)) (as_max_score (tc_assessment tc))
       (assessment_components db (tc_assessment tc)) True = Inr rows"
    "b = submitted_batch now i t tc (length rows) cf" "batch_full_clean db b = Inr b"
    "\<forall>(k, r)\<in>set (zip (map ids [0..<length rows]) rows). gr_raw_score r \<noteq> None \<and> (\<forall>q\<in>set (grade_records db).
       \<not> (rec_tenant q = sc_id t \<and> rec_assessment q = as_id (tc_assessment tc) \<and> rec_student q = gr_student_id r))"
    "db' = mark_drafts_submitted t tc ((add_batch b db)\<lparr>grade_records := grade_records db @
        map (\<lambda>(k, r). new_grade_record (sc_id t) (tc_assessment tc) i (us_id (tc_user tc)) k r (the (gr_raw_score r))) (zip (map ids [0..<length rows]) rows)\<rparr>)"
proof -
  from assms obtain cf rows b1 x db1 where v: "validate_confirmation conf (us_id (tc_user tc)) (sc_id t) now = Inr cf"
    "validate_grade_rows (tc_rows tc) (roster_ids db t (tc_assessment tc)) (as_max_score (tc_assessment tc))
       (assessment_components db (tc_assessment tc)) True = Inr rows"
    and b: "batch_full_clean db (submitted_batch now i t tc (length rows) cf) = Inr b"
    and r: "bulk_create_records (sc_id t) (tc_assessment tc) (bt_id b) (us_id (tc_user tc)) (zip (map ids [0..<length rows]) rows) (add_batch b db) = (Inr x, db1)"
    and db': "db' = mark_drafts_submitted t tc db1"
    by (auto simp: store_submission_def Let_def abind_eq_Inr save_row_Inr ebind_eq_Inr submitted_batch_def split: prod.splits if_splits)
  have e: "b = submitted_batch now i t tc (length rows) cf" and i: "bt_id b = i" and g: "grade_records (add_batch b db) = grade_records db"
    using batch_full_clean_Inr [OF b] by (simp_all add: submitted_batch_def add_batch_def)
  show thesis
    using that [OF v e b [folded e]] bulk_create_records_Inr [OF r [unfolded i]] unfolding g db' by blast
qed


lemma open_call_Inr:
  assumes "open_call sha db actor t aid payload key = Inr tc"
  shows "actor = Some (tc_user tc)" "get_assessment_for_teacher db actor (Some t) aid = Some (tc_assessment tc)"
    "teacher_assignment_for db (tc_user tc) t (tc_assessment tc) = Inr (tc_assignment tc)"
    "grade_rows_payload payload = Inr (tc_rows tc)" "canonical_payload_hash sha (tc_rows tc) = Inr (tc_hash tc)"
    "require_idempotency_key key = Inr (tc_key tc)"
  by (cases actor; cases "get_assessment_for_teacher db actor (Some t) aid",
      use assms in \<open>auto simp: open_call_def ebind_eq_Inr split: if_splits\<close>)+

lemma call_assessment:
  assumes "open_call sha db actor t aid payload key = Inr tc"
  shows "as_id (tc_assessment tc) = aid \<and> as_tenant (tc_assessment tc) = sc_id t \<and> as_status (tc_assessment tc) = ''open''
    \<and> tc_assessment tc \<in> set (assessments db)"
  using open_call_Inr(2) [OF assms]
  by (auto simp: get_assessment_for_teacher_def works_on_def dest!: first_where_SomeD split: option.splits)

lemma submit_new_Inr:
  assumes "submit_in_transaction sha now i ids actor t aid payload key conf db = (Inr (Some (a, u), b), db')"
  obtains tc where "open_call sha db actor t aid payload key = Inr tc" "a = tc_assessment tc" "u = tc_user tc"
    "submission_by_key db t (tc_key tc) = None" "store_submission now i ids t conf tc db = (Inr b, db')"
proof -
  from assms obtain tc where o: "open_call sha db actor t aid payload key = Inr tc"
    and r: "(case submission_by_key db t (tc_key tc) of
         Some b \<Rightarrow>
           if bt_assessment b \<noteq> as_id (tc_assessment tc) \<or> bt_teacher b \<noteq> us_id (tc_user tc)
           then (Inl (ValidationError ''idempotency_key'' ''Idempotency key belongs to another context.''), db)
           else (ebind (ensure_same_payload (bt_payload_hash b) (tc_hash tc)) (\<lambda>_. Inr (None, b)), db)
       | None \<Rightarrow> abind (store_submission now i ids t conf tc) (\<lambda>b. alift (Inr (Some (tc_assessment tc, tc_user tc), b))) db)
       = (Inr (Some (a, u), b), db')"
    by (auto simp: submit_in_transaction_def atomic_eq_Inr abind_eq_Inr)
  show thesis
    by (cases "submission_by_key db t (tc_key tc)") (use r o in \<open>auto simp: abind_eq_Inr ebind_eq_Inr split: if_splits intro: that\<close>)
qed

lemma submit_refused: "submit_in_transaction sha now i ids actor t aid payload key conf db = (Inl e, db') \<Longrightarrow> db' = db"
  unfolding submit_in_transaction_def by (rule atomic_unchanged)

lemma drafts_closed:
  "\<forall>d\<in>set (draft_batches (mark_drafts_submitted t tc db)). \<not> (df_tenant d = sc_id t \<and> df_assessment d = as_id (tc_assessment tc)
     \<and> df_teacher d = us_id (tc_user tc) \<and> df_status d = ''draft'')"
  by (auto simp: mark_drafts_submitted_def update_where_def)

section \<open>Properties of submissions\<close>

text \<open>The records made from checked rows: one per row, for its learner, with a score within the maximum.\<close>

lemma new_records:
  assumes z: "\<forall>(k, r)\<in>set (zip (map ids [0..<length out]) out). gr_raw_score r \<noteq> None \<and> (\<forall>q\<in>set olds.
       \<not> (rec_tenant q = tid \<and> rec_assessment q = as_id a \<and> rec_student q = gr_student_id r))"
    and checked: "\<forall>g\<in>set out. gr_student_id g \<in> set ros \<and> (case gr_raw_score g of None \<Rightarrow> \<not> (True \<and> cs = []) | Some d \<Rightarrow> score_within mx d)"
  defines "new \<equiv> \<lambda>i uid. map (\<lambda>(k, r). new_grade_record tid a i uid k r (the (gr_raw_score r))) (zip (map ids [0..<length out]) out)"
  shows "map rec_student (new i uid) = map gr_student_id out"
    and "r \<in> set (new i uid) \<Longrightarrow> rec_submission_batch r = i \<and> rec_assessment r = as_id a \<and> rec_tenant r = tid \<and> rec_submitted_by r = uid \<and>
          rec_student r \<in> set ros \<and> (\<exists>d. score_within mx d \<and> rec_raw_score r = stored_2 d) \<and>
          (\<forall>q\<in>set olds. \<not> (rec_tenant q = tid \<and> rec_assessment q = as_id a \<and> rec_student q = rec_student r))"
proof -
  let ?z = "zip (map ids [0..<length out]) out"
  have "map rec_student (new i uid) = map gr_student_id (map snd ?z)"
    by (simp only: new_def map_map comp_def split_beta new_grade_record_def grade_record.simps)
  also have "map snd ?z = out" by (rule map_snd_zip) simp
  finally show "map rec_student (new i uid) = map gr_student_id out" .
  assume "r \<in> set (new i uid)"
  then obtain k g where g: "(k, g) \<in> set ?z" and r: "r = new_grade_record tid a i uid k g (the (gr_raw_score g))" by (auto simp: new_def)
  from g have go: "g \<in> set out" by (auto dest: set_zip_rightD)
  from z g obtain d where d: "gr_raw_score g = Some d" by fastforce
  have n: "\<forall>q\<in>set olds. \<not> (rec_tenant q = tid \<and> rec_assessment q = as_id a \<and> rec_student q = gr_student_id g)" using z g by blast
  have "gr_student_id g \<in> set ros" "score_within mx d" using bspec [OF checked go] by (simp_all add: d)
  with d n show "rec_submission_batch r = i \<and> rec_assessment r = as_id a \<and> rec_tenant r = tid \<and> rec_submitted_by r = uid \<and>
          rec_student r \<in> set ros \<and> (\<exists>d. score_within mx d \<and> rec_raw_score r = stored_2 d) \<and>
          (\<forall>q\<in>set olds. \<not> (rec_tenant q = tid \<and> rec_assessment q = as_id a \<and> rec_student q = rec_student r))"
    unfolding r by (auto simp: new_grade_record_def)
qed

text \<open>C20: A first submission stores one batch and one record per submitted row, and nothing else of the
  kind: the assessment is open and the caller assigned to it; the records belong to the batch, to
  different learners of the assessment's roster who had no record of it before, and their scores are
  within its maximum; the drafts of the caller for it are closed; a refused call changes nothing.\<close>

theorem first_submission_stored:
  assumes "submit_in_transaction sha now i ids actor t aid payload key conf db = (Inr (Some (a, u), b), db')"
  shows "actor = Some u \<and> as_id a = aid \<and> as_status a = ''open'' \<and> teacher_assignment_for db u t a \<noteq> Inl e \<and>
    submission_batches db' = submission_batches db @ [b] \<and> bt_id b = i \<and> bt_teacher b = us_id u \<and> bt_assessment b = aid \<and>
    (\<exists>rows new. jget payload ''rows'' = JList rows \<and> length new = length rows \<and> new \<noteq> [] \<and> bt_record_count b = int (length new) \<and>
       grade_records db' = grade_records db @ new \<and> distinct (map rec_student new) \<and>
       (\<forall>r\<in>set new. rec_submission_batch r = i \<and> rec_assessment r = aid \<and> rec_tenant r = sc_id t \<and> rec_submitted_by r = us_id u \<and>
          rec_student r \<in> set (roster_ids db t a) \<and> (\<exists>d. score_within (as_max_score a) d \<and> rec_raw_score r = stored_2 d) \<and>
          (\<forall>q\<in>set (grade_records db). \<not> (rec_tenant q = sc_id t \<and> rec_assessment q = aid \<and> rec_student q = rec_student r)))) \<and>
    (\<forall>d\<in>set (draft_batches db'). \<not> (df_tenant d = sc_id t \<and> df_assessment d = aid \<and> df_teacher d = us_id u \<and> df_status d = ''draft''))"
proof -
  from assms obtain tc where o: "open_call sha db actor t aid payload key = Inr tc" and au: "a = tc_assessment tc" "u = tc_user tc"
    and st: "store_submission now i ids t conf tc db = (Inr b, db')" by (rule submit_new_Inr)
  from st obtain cf out where "validate_confirmation conf (us_id (tc_user tc)) (sc_id t) now = Inr cf"
    and v: "validate_grade_rows (tc_rows tc) (roster_ids db t a) (as_max_score a) (assessment_components db a) True = Inr out"
    and b: "b = submitted_batch now i t tc (length out) cf"
    and z: "\<forall>(k, r)\<in>set (zip (map ids [0..<length out]) out). gr_raw_score r \<noteq> None \<and> (\<forall>q\<in>set (grade_records db).
       \<not> (rec_tenant q = sc_id t \<and> rec_assessment q = as_id a \<and> rec_student q = gr_student_id r))"
    and db': "db' = mark_drafts_submitted t tc ((add_batch b db)\<lparr>grade_records := grade_records db @
        map (\<lambda>(k, r). new_grade_record (sc_id t) a i (us_id u) k r (the (gr_raw_score r))) (zip (map ids [0..<length out]) out)\<rparr>)"
    unfolding au by (rule store_submission_Inr)
  let ?z = "zip (map ids [0..<length out]) out"
  let ?new = "map (\<lambda>(k, r). new_grade_record (sc_id t) a i (us_id u) k r (the (gr_raw_score r))) ?z"
  obtain rows where rows: "jget payload ''rows'' = JList rows" "tc_rows tc = JList rows"
    using open_call_Inr(4) [OF o] by (auto simp: grade_rows_payload_def split: json.splits)
  note vs = validated_rows [OF v [unfolded rows(2)], unfolded row_checked_def Let_def]
  have a: "as_id a = aid" "as_status a = ''open''" using call_assessment [OF o] by (simp_all add: au)
  have checked: "\<forall>g\<in>set out. gr_student_id g \<in> set (roster_ids db t a) \<and> (case gr_raw_score g of None \<Rightarrow> \<not> (True \<and> assessment_components db a = [])
        | Some d \<Rightarrow> score_within (as_max_score a) d)" using vs by blast
  note st = new_records(1) [OF z checked, of i "us_id u"] and rec = new_records(2) [OF z checked, of _ i "us_id u", unfolded a(1)]
  have tabs: "submission_batches db' = submission_batches db @ [b]" "grade_records db' = grade_records db @ ?new"
    by (simp_all add: db' mark_drafts_submitted_def add_batch_def)
  have dr: "\<forall>d\<in>set (draft_batches db'). \<not> (df_tenant d = sc_id t \<and> df_assessment d = aid \<and> df_teacher d = us_id u \<and> df_status d = ''draft'')"
    unfolding db' a(1) [symmetric] unfolding au by (rule drafts_closed)
  have "\<exists>rows new. jget payload ''rows'' = JList rows \<and> length new = length rows \<and> new \<noteq> [] \<and> bt_record_count b = int (length new) \<and>
       grade_records db' = grade_records db @ new \<and> distinct (map rec_student new) \<and>
       (\<forall>r\<in>set new. rec_submission_batch r = i \<and> rec_assessment r = aid \<and> rec_tenant r = sc_id t \<and> rec_submitted_by r = us_id u \<and>
          rec_student r \<in> set (roster_ids db t a) \<and> (\<exists>d. score_within (as_max_score a) d \<and> rec_raw_score r = stored_2 d) \<and>
          (\<forall>q\<in>set (grade_records db). \<not> (rec_tenant q = sc_id t \<and> rec_assessment q = aid \<and> rec_student q = rec_student r)))"
  proof (rule exI [of _ rows], rule exI [of _ ?new], intro conjI)
    show "jget payload ''rows'' = JList rows" "grade_records db' = grade_records db @ ?new" by (rule rows(1) tabs(2))+
    show ln: "length ?new = length rows" "?new \<noteq> []" using vs by auto
    show "bt_record_count b = int (length ?new)" by (simp add: b submitted_batch_def)
    show "distinct (map rec_student ?new)" unfolding st using vs by blast
  qed (use rec in blast)
  with a dr tabs(1) open_call_Inr(1,3) [OF o] show ?thesis by (simp add: b submitted_batch_def au)
qed

section \<open>Instances\<close>

definition sample_teacher :: user where "sample_teacher = \<lparr>us_id = ''u1'', us_is_active = True\<rparr>"

definition sample_payload :: "(string \<times> json) list" where
  "sample_payload = [(''rows'', JList [JObj [(''student_id'', JStr ''p1''), (''raw_score'', JInt 7)]])]"

definition sample_confirmation :: confirmation where
  "sample_confirmation = \<lparr>cf_fields = [(''method'', JStr ''teacher_pin''), (''actor_id'', JStr ''u1''), (''tenant_id'', JStr ''s1''),
     (''confirmation_reference'', JStr ''ref'')], cf_confirmed_at = Some 4\<rparr>"

lemma sample_marks_people:
  "schools sample_grading = [\<lparr>sc_id = ''s1'', sc_is_active = True\<rparr>]"
  "users sample_grading = [\<lparr>us_id = ''u1'', us_is_active = True\<rparr>, \<lparr>us_id = ''u2'', us_is_active = True\<rparr>, \<lparr>us_id = ''u9'', us_is_active = True\<rparr>]"
  "roles sample_grading = [\<lparr>ro_id = ''r1'', ro_code = ''subject_teacher'', ro_name = ''T'', ro_description = [], ro_is_active = True\<rparr>,
       \<lparr>ro_id = ''r2'', ro_code = ''hod'', ro_name = ''H'', ro_description = [], ro_is_active = True\<rparr>,
       \<lparr>ro_id = ''r9'', ro_code = ''school_admin'', ro_name = ''A'', ro_description = [], ro_is_active = True\<rparr>]"
  "role_bindings sample_grading = [\<lparr>rb_id = ''b1'', rb_tenant = ''s1'', rb_user = ''u1'', rb_role = ''r1'', rb_is_active = True, rb_updated_at = 1\<rparr>,
       \<lparr>rb_id = ''b2'', rb_tenant = ''s1'', rb_user = ''u2'', rb_role = ''r2'', rb_is_active = True, rb_updated_at = 1\<rparr>,
       \<lparr>rb_id = ''b9'', rb_tenant = ''s1'', rb_user = ''u9'', rb_role = ''r9'', rb_is_active = True, rb_updated_at = 1\<rparr>]"
  "grade_records sample_grading = []" "draft_batches sample_grading = []" "components sample_grading = []"
  "students sample_grading = [\<lparr>st_id = ''p1'', st_tenant = ''s1'', st_admission_number = ''A001'', st_first_name = ''A'', st_last_name = ''B'', st_is_active = True\<rparr>]"
  "enrollments sample_grading = [\<lparr>en_id = ''e1'', en_tenant = ''s1'', en_student = ''p1'', en_cohort = ''c1'', en_academic_year = ''y1'', en_term = ''t1'', en_is_active = True\<rparr>]"
  "submission_batches sample_grading = []" "assessments sample_grading = [sample_assessment]"
  by (simp_all add: sample_grading_def sample_curriculum_simps grading_db.defs)

lemma sample_marks_texts: "strip ''p1'' = ''p1''" "strip ''k7'' = ''k7''" "strip ''teacher_pin'' = ''teacher_pin''" "strip ''ref'' = ''ref''"
  "strip ''sha256:h'' = ''sha256:h''"
  by code_simp+

lemma sample_marks_assessment:
  "as_id sample_assessment = ''x1''" "as_tenant sample_assessment = ''s1''" "as_cohort sample_assessment = ''c1''"
  "as_learning_area sample_assessment = ''l1''" "as_max_score sample_assessment = Fin False 10000 (-2)" "as_status sample_assessment = ''open''"
  "as_academic_year sample_assessment = ''y1''" "as_term sample_assessment = ''t1''"
  by (simp_all add: sample_assessment_def)

definition sample_assigned :: teacher_assignment where
  "sample_assigned = the (first_where (assigned_to sample_grading ''s1'' ''u1'' sample_assessment) (assignments sample_grading))"

lemma sample_assignment:
  "first_where (assigned_to sample_grading ''s1'' ''u1'' sample_assessment) (assignments sample_grading) = Some sample_assigned"
  "ta_teacher sample_assigned = ''u1''" "ta_tenant sample_assigned = ''s1''" "ta_cohort sample_assigned = ''c1''"
  "ta_learning_area sample_assigned = ''l1''" "ta_is_active sample_assigned"
  "assignment_row sample_grading (ta_id sample_assigned) = Some sample_assigned"
  by (simp_all add: sample_assigned_def first_where_def assignment_row_def assigned_to_def cohort_active_def learning_area_active_def
      row_defs sample_grading_simps)

lemma sample_works: "works_on sample_grading ''u1'' sample_assessment"
  by (simp add: works_on_def sample_grading_simps)

lemma sample_open_call:
  "open_call (\<lambda>_. ''h'') sample_grading (Some sample_teacher) sample_school ''x1'' sample_payload (Some ''k7'') =
     Inr \<lparr>tc_user = sample_teacher, tc_key = ''k7'', tc_assessment = sample_assessment, tc_assignment = sample_assigned,
       tc_rows = jget sample_payload ''rows'', tc_hash = ''sha256:'' @ ''h''\<rparr>"
proof -
  have r: "has_grading_role sample_grading (Some sample_teacher) (Some sample_school)"
    by (simp add: has_grading_role_def GRADING_ROLE_CODES_def user_has_role_in_tenant_def get_roles_for_user_in_tenant_def
        get_active_tenant_user_role_bindings_def role_row_is_def sample_marks_people sample_teacher_def sample_school_def
        user_active_def school_active_def)
  have p: "reject_client_controlled_fields sample_payload = Inr ()"
    by (simp add: reject_client_controlled_fields_def CLIENT_CONTROLLED_FIELDS_def sample_payload_def jget_def)
  have a: "get_assessment_for_teacher sample_grading (Some sample_teacher) (Some sample_school) ''x1'' = Some sample_assessment"
    by (simp add: get_assessment_for_teacher_def first_where_def sample_marks_people sample_marks_assessment sample_works
        sample_teacher_def sample_school_def)
  have t: "teacher_assignment_for sample_grading sample_teacher sample_school sample_assessment = Inr sample_assigned"
    by (simp add: teacher_assignment_for_def sample_assignment sample_teacher_def sample_school_def)
  have h: "canonical_payload_hash (\<lambda>_. ''h'') v = Inr (''sha256:'' @ ''h'')" for v
    using dumps_default_ok [of v] by (auto simp: canonical_payload_hash_def is_ok_iff)
  have g: "grade_rows_payload sample_payload = Inr (jget sample_payload ''rows'')"
    by (simp add: grade_rows_payload_def sample_payload_def jget_def)
  show ?thesis
    by (simp add: open_call_def r p a t g h require_idempotency_key_def sample_marks_texts)
qed

lemma sample_seven: "validate_score_bounds (dec_str (Fin False 7 0)) (dec_str (Fin False 10000 (-2))) = Inr (Fin False 7 0)"
  by (simp add: validate_score_bounds_def to_decimal_def dec_le_def dec_less_def dec_0_def align_def signed_def)

lemma sample_rows:
  "validate_grade_rows (jget sample_payload ''rows'') [''p1''] (Fin False 10000 (-2)) [] True =
     Inr [\<lparr>gr_student_id = ''p1'', gr_raw_score = Some (Fin False 7 0), gr_component_scores = JObj [], gr_remarks = []\<rparr>]"
  by (simp add: validate_grade_rows_def validate_grade_row_def simple_raw_score_def score_decimal_def
        to_decimal_def blank_value_def jget_def jget_or_def or_json_def Let_def sample_payload_def sample_marks_texts small_scores sample_seven)

lemma sample_roster: "roster_ids sample_grading sample_school sample_assessment = [''p1'']"
  by (simp add: roster_ids_def get_roster_for_assessment_def sample_marks_people sample_marks_assessment sample_school_def)

lemma sample_first_submission:
  "\<exists>b db'. submit_in_transaction (\<lambda>_. ''h'') 5 ''b7'' (\<lambda>k. ''g7'') (Some sample_teacher) sample_school ''x1'' sample_payload (Some ''k7'')
     (Some sample_confirmation) sample_grading = (Inr (Some (sample_assessment, sample_teacher), b), db')"
proof -
  let ?tc = "\<lparr>tc_user = sample_teacher, tc_key = ''k7'', tc_assessment = sample_assessment, tc_assignment = sample_assigned,
       tc_rows = jget sample_payload ''rows'', tc_hash = ''sha256:'' @ ''h''\<rparr>"
  let ?cf = "\<lparr>cf_method = ''teacher_pin'', cf_time = 4, cf_reference = ''ref''\<rparr>"
  have cf: "validate_confirmation (Some sample_confirmation) ''u1'' ''s1'' 5 = Inr ?cf"
    by (simp add: validate_confirmation_def sample_confirmation_def jget_or_def ALLOWED_CONFIRMATION_METHODS_def sample_marks_texts
        CONFIRMATION_TTL_SECONDS_def seconds_def)
  let ?b = "submitted_batch 5 ''b7'' sample_school ?tc 1 ?cf"
  have bc: "batch_full_clean sample_grading ?b = Inr ?b"
    by (simp add: batch_full_clean_def batch_clean_def batch_context_check_def submitted_batch_def sample_marks_assessment sample_assignment
      assessment_row_def first_where_def sample_marks_people sample_school_def sample_teacher_def school_exists_def user_exists_def
      submitted_statuses_def positive_integer_field_def sample_bound tenants_agree_def sample_marks_texts)
     (simp add: row_defs first_where_def sample_grading_simps)
  have e: "get_existing_submission_for_assessment sample_grading (Some sample_teacher) (Some sample_school) sample_assessment = None"
    "submission_by_key sample_grading sample_school ''k7'' = None" "assessment_components sample_grading sample_assessment = []"
    by (simp_all add: get_existing_submission_for_assessment_def submission_by_key_def first_where_def sample_marks_people assessment_components_def)
  have g: "grade_records (add_batch ?b sample_grading) = []" by (simp add: add_batch_def sample_marks_people)
  have u: "us_id sample_teacher = ''u1''" "sc_id sample_school = ''s1''" by (simp_all add: sample_teacher_def sample_school_def)
  have "\<exists>db'. store_submission 5 ''b7'' (\<lambda>k. ''g7'') sample_school (Some sample_confirmation) ?tc sample_grading = (Inr ?b, db')"
    using bc g by (simp add: store_submission_def Let_def abind_def query_def e u cf sample_roster sample_rows sample_marks_assessment save_row_def
        bulk_create_records_def submitted_batch_def json_field_def)
  then obtain db' where st: "store_submission 5 ''b7'' (\<lambda>k. ''g7'') sample_school (Some sample_confirmation) ?tc sample_grading = (Inr ?b, db')" ..
  have "submit_in_transaction (\<lambda>_. ''h'') 5 ''b7'' (\<lambda>k. ''g7'') (Some sample_teacher) sample_school ''x1'' sample_payload (Some ''k7'')
     (Some sample_confirmation) sample_grading = (Inr (Some (sample_assessment, sample_teacher), ?b), db')"
    using st by (simp add: submit_in_transaction_def atomic_def abind_def query_def sample_open_call e alift_def)
  then show ?thesis by blast
qed

theorem first_submission_stored_witness:
  "\<exists>b db'. submit_in_transaction (\<lambda>_. ''h'') 5 ''b7'' (\<lambda>k. ''g7'') (Some sample_teacher) sample_school ''x1'' sample_payload (Some ''k7'')
     (Some sample_confirmation) sample_grading = (Inr (Some (sample_assessment, sample_teacher), b), db') \<and>
     submission_batches db' = [b] \<and> length (grade_records db') = 1"
proof -
  obtain b db' where e: "submit_in_transaction (\<lambda>_. ''h'') 5 ''b7'' (\<lambda>k. ''g7'') (Some sample_teacher) sample_school ''x1'' sample_payload (Some ''k7'')
     (Some sample_confirmation) sample_grading = (Inr (Some (sample_assessment, sample_teacher), b), db')"
    using sample_first_submission by blast
  note f = first_submission_stored [OF e]
  have "submission_batches db' = [b]" using f by (simp add: sample_marks_people)
  moreover have "\<exists>rows new. jget sample_payload ''rows'' = JList rows \<and> length new = length rows \<and> grade_records db' = grade_records sample_grading @ new"
    using f by blast
  then have "length (grade_records db') = 1" by (auto simp: sample_payload_def jget_def sample_marks_people)
  ultimately show ?thesis using e by blast
qed

end
