(* ===== verification/Ledger.thy ===== *)
theory Ledger
  imports SubmissionFacts
begin

text \<open>
  The abstract specification of official marks: a ledger that maps a learner's place (tenant,
  assessment, learner) to the current score and the number of its revision. A ledger is only
  extended with new places and amended one place at a time, with the revision counted. The services
  that save drafts, submit batches and correct marks refine it.
\<close>

section \<open>The interface of a refinement\<close>

text \<open>A concrete system, its invariant and its abstraction: every step is an abstract step.\<close>

locale refinement =
  fixes step :: "'s \<Rightarrow> 's \<Rightarrow> bool" and inv :: "'s \<Rightarrow> bool" and abstraction :: "'s \<Rightarrow> 'a" and spec :: "'a \<Rightarrow> 'a \<Rightarrow> bool"
  assumes step_keeps: "step s t \<Longrightarrow> inv s \<Longrightarrow> inv t"
    and step_refines: "step s t \<Longrightarrow> inv s \<Longrightarrow> spec (abstraction s) (abstraction t)"
begin

lemma run_keeps: "step\<^sup>*\<^sup>* s t \<Longrightarrow> inv s \<Longrightarrow> inv t"
  by (induction rule: rtranclp_induct) (auto intro: step_keeps)

lemma run_refines: "step\<^sup>*\<^sup>* s t \<Longrightarrow> inv s \<Longrightarrow> spec\<^sup>*\<^sup>* (abstraction s) (abstraction t)"
proof (induction rule: rtranclp_induct)
  case (step t u)
  then show ?case using run_keeps [OF step(1)] step_refines [OF step(2)] by auto
qed simp

lemma transfer:
  assumes "step\<^sup>*\<^sup>* s t" and "inv s" and "\<And>a. R a a" and "\<And>a b c. R a b \<Longrightarrow> spec b c \<Longrightarrow> R a c"
  shows "R (abstraction s) (abstraction t)"
  using run_refines [OF assms(1,2)] by (induction rule: rtranclp_induct) (use assms(3,4) in blast)+

end

section \<open>The ledger\<close>

type_synonym mark_place = "uuid \<times> uuid \<times> uuid"

type_synonym ledger = "mark_place \<Rightarrow> (decimal \<times> int) option"

inductive ledger_step :: "ledger \<Rightarrow> ledger \<Rightarrow> bool" where
  unchanged: "ledger_step m m"
| posted: "dom m \<inter> dom n = {} \<Longrightarrow> (\<forall>k d v. n k = Some (d, v) \<longrightarrow> v = 1) \<Longrightarrow> ledger_step m (m ++ n)"
| amended: "m k = Some (d, v) \<Longrightarrow> ledger_step m (m(k \<mapsto> (d', v + 1)))"

text \<open>What a ledger promises: no mark disappears, and a score differs only under a later revision.\<close>

definition keeps_marks :: "ledger \<Rightarrow> ledger \<Rightarrow> bool" where
  "keeps_marks m n \<longleftrightarrow> (\<forall>k e. m k = Some e \<longrightarrow> (\<exists>e'. n k = Some e' \<and> snd e \<le> snd e' \<and> (snd e' = snd e \<longrightarrow> e' = e)))"

lemma keeps_marks_refl: "keeps_marks m m"
  by (simp add: keeps_marks_def)

lemma keeps_marks_trans:
  assumes "keeps_marks l m" and "keeps_marks m n"
  shows "keeps_marks l n"
  unfolding keeps_marks_def
proof (intro allI impI)
  fix k e assume "l k = Some e"
  with assms obtain e1 e2 where "m k = Some e1" "snd e \<le> snd e1" "snd e1 = snd e \<longrightarrow> e1 = e"
    "n k = Some e2" "snd e1 \<le> snd e2" "snd e2 = snd e1 \<longrightarrow> e2 = e1"
    unfolding keeps_marks_def by meson
  then show "\<exists>e'. n k = Some e' \<and> snd e \<le> snd e' \<and> (snd e' = snd e \<longrightarrow> e' = e)" by auto
qed

lemma ledger_step_keeps: "ledger_step m n \<Longrightarrow> keeps_marks m n"
proof (induction rule: ledger_step.induct)
  case (unchanged m)
  then show ?case by (rule keeps_marks_refl)
next
  case (posted m n)
  have "(m ++ n) k = m k" if "m k = Some e" for k e
    using posted(1) that by (auto simp: map_add_def split: option.splits)
  then show ?case by (simp add: keeps_marks_def)
next
  case (amended m k d v d')
  then show ?case by (simp add: keeps_marks_def)
qed

lemma keeps_marks_step: "keeps_marks l m \<Longrightarrow> ledger_step m n \<Longrightarrow> keeps_marks l n"
  by (blast intro: keeps_marks_trans ledger_step_keeps)

section \<open>The records as a ledger\<close>

definition mark_place :: "grade_record \<Rightarrow> mark_place" where
  "mark_place r = (rec_tenant r, rec_assessment r, rec_student r)"

definition mark_entry :: "grade_record \<Rightarrow> mark_place \<times> decimal \<times> int" where
  "mark_entry r = (mark_place r, rec_raw_score r, rec_version r)"

definition ledger_of :: "'a grading_db_scheme \<Rightarrow> ledger" where
  "ledger_of db = map_of (map mark_entry (grade_records db))"

definition marks_ok :: "'a grading_db_scheme \<Rightarrow> bool" where
  "marks_ok db \<longleftrightarrow> distinct (map rec_id (grade_records db)) \<and> distinct (map mark_place (grade_records db))"

lemma fst_mark_entry [simp]: "fst (mark_entry r) = mark_place r"
  by (simp add: mark_entry_def)

lemma map_fst_mark_entry [simp]: "map fst (map mark_entry rs) = map mark_place rs"
  by simp

lemma same_records: "grade_records db' = grade_records db \<Longrightarrow> marks_ok db' = marks_ok db \<and> ledger_of db' = ledger_of db"
  by (simp add: marks_ok_def ledger_of_def)

lemma posted_records:
  assumes "marks_ok db" and "grade_records db' = grade_records db @ new"
    and "distinct (map rec_id new)" and "distinct (map mark_place new)" and "\<forall>r\<in>set new. rec_version r = 1"
    and "rec_id ` set new \<inter> rec_id ` set (grade_records db) = {}"
    and "mark_place ` set new \<inter> mark_place ` set (grade_records db) = {}"
  shows "marks_ok db' \<and> ledger_step (ledger_of db) (ledger_of db')"
proof
  show "marks_ok db'" using assms by (auto simp: marks_ok_def)
  let ?n = "map_of (map mark_entry new)"
  have dom: "dom ?n = mark_place ` set new" "dom (ledger_of db) = mark_place ` set (grade_records db)"
    by (simp_all add: ledger_of_def dom_map_of_conv_image_fst image_image)
  have dj: "dom (ledger_of db) \<inter> dom ?n = {}" using assms(7) dom by auto
  have "ledger_of db' = ?n ++ ledger_of db" by (simp add: ledger_of_def assms(2) map_of_append)
  also have "\<dots> = ledger_of db ++ ?n" using dj by (simp add: map_add_comm Int_commute)
  finally have e: "ledger_of db' = ledger_of db ++ ?n" .
  have "\<forall>k d v. ?n k = Some (d, v) \<longrightarrow> v = 1"
    using assms(5) by (auto dest!: map_of_SomeD simp: mark_entry_def)
  then show "ledger_step (ledger_of db) (ledger_of db')" unfolding e by (rule posted [OF dj])
qed

lemma amended_record:
  assumes ok: "marks_ok db" and r: "r \<in> set (grade_records db)" and i: "rec_id r' = rec_id r" "mark_place r' = mark_place r"
    and v: "rec_version r' = rec_version r + 1" and db': "grade_records db' = grade_records (put_record r' db)"
  shows "marks_ok db' \<and> ledger_step (ledger_of db) (ledger_of db')"
proof -
  let ?q = "r'\<lparr>rec_raw_score := stored_2 (rec_raw_score r'), rec_normalized_score := map_option stored_2 (rec_normalized_score r')\<rparr>"
  have u: "grade_records db' = update_where (\<lambda>q. rec_id q = rec_id r) (\<lambda>_. ?q) (grade_records db)"
    by (simp add: db' put_record_def i)
  have mp: "map mark_place (grade_records db') = map mark_place (grade_records db)"
    unfolding u update_where_def map_map comp_def
  proof (rule map_cong [OF refl])
    fix q assume q: "q \<in> set (grade_records db)"
    have "mark_place ?q = mark_place r" using i(2) by (simp add: mark_place_def)
    moreover have "rec_id q = rec_id r \<Longrightarrow> q = r" using ok r q by (auto simp: marks_ok_def distinct_map inj_on_def)
    ultimately show "mark_place (if rec_id q = rec_id r then ?q else q) = mark_place q" by auto
  qed
  have ri: "map rec_id (grade_records db') = map rec_id (grade_records db)" unfolding u by (rule map_update_where) (simp add: i)
  have ok': "marks_ok db'" using ok mp ri by (simp add: marks_ok_def)
  have look: "ledger_of db (mark_place q) = Some (rec_raw_score q, rec_version q)" if "q \<in> set (grade_records db)" for q
    using ok that by (auto simp: ledger_of_def marks_ok_def mark_entry_def comp_def intro!: map_of_is_SomeI image_eqI [of _ _ q])
  have look': "ledger_of db' (mark_place q) = Some (rec_raw_score q, rec_version q)" if "q \<in> set (grade_records db')" for q
    using ok' that by (auto simp: ledger_of_def marks_ok_def mark_entry_def comp_def intro!: map_of_is_SomeI image_eqI [of _ _ q])
  have "ledger_of db' = (ledger_of db)(mark_place r \<mapsto> (rec_raw_score ?q, rec_version r + 1))"
  proof
    fix k
    show "ledger_of db' k = ((ledger_of db)(mark_place r \<mapsto> (rec_raw_score ?q, rec_version r + 1))) k"
    proof (cases "k \<in> mark_place ` set (grade_records db)")
      case False
      then have "k \<notin> mark_place ` set (grade_records db')" using mp by (metis list.set_map)
      with False have "ledger_of db k = None" "ledger_of db' k = None"
        by (simp_all add: ledger_of_def map_of_eq_None_iff image_image)
      with False r show ?thesis by auto
    next
      case True
      then obtain q where q: "q \<in> set (grade_records db)" "k = mark_place q" by blast
      show ?thesis
      proof (cases "q = r")
        case True
        have "?q \<in> set (grade_records db')" using r unfolding u by (auto simp: set_update_where)
        from look' [OF this] q True i(2) v show ?thesis by (simp add: mark_place_def)
      next
        case False
        then have "rec_id q \<noteq> rec_id r" "mark_place q \<noteq> mark_place r"
          using ok r q(1) by (auto simp: marks_ok_def distinct_map inj_on_def)
        moreover from this have "q \<in> set (grade_records db')" using q(1) unfolding u by (auto simp: set_update_where)
        ultimately show ?thesis using look' look [OF q(1)] q(2) by simp
      qed
    qed
  qed
  then have "ledger_step (ledger_of db) (ledger_of db')" using amended [where m = "ledger_of db", OF look [OF r]] by simp
  with ok' show ?thesis ..
qed


section \<open>What a service leaves alone\<close>

text \<open>The tables that decide who may work on which assessment, and those of other parts: no service of marks writes them.\<close>

definition same_setup :: "'a grading_db_scheme \<Rightarrow> 'a grading_db_scheme \<Rightarrow> bool" where
  "same_setup s t \<longleftrightarrow> schools t = schools s \<and> users t = users s \<and> roles t = roles s \<and> role_bindings t = role_bindings s \<and>
     cohorts t = cohorts s \<and> learning_areas t = learning_areas s \<and> assignments t = assignments s \<and> assessments t = assessments s \<and>
     students t = students s \<and> enrollments t = enrollments s \<and> components t = components s \<and> grading_db.more t = grading_db.more s"

lemma same_setup_frames [simp]:
  "same_setup s s" "same_setup s (t\<lparr>draft_batches := x1\<rparr>) = same_setup s t" "same_setup s (t\<lparr>draft_rows := x2\<rparr>) = same_setup s t"
  "same_setup s (t\<lparr>submission_batches := x3\<rparr>) = same_setup s t" "same_setup s (t\<lparr>grade_records := x4\<rparr>) = same_setup s t"
  "same_setup s (t\<lparr>corrections := x5\<rparr>) = same_setup s t" "same_setup s (t\<lparr>correction_audits := x6\<rparr>) = same_setup s t"
  "same_setup s (t\<lparr>compilation_runs := x7\<rparr>) = same_setup s t" "same_setup s (t\<lparr>event_tables := x8\<rparr>) = same_setup s t"
  by (simp_all add: same_setup_def)

lemma same_setup_call:
  assumes "same_setup s t"
  shows "open_call sha t = open_call sha s"
proof -
  have a: "assigned_to t = assigned_to s"
    using assms by (simp add: same_setup_def assigned_to_def cohort_active_def learning_area_active_def row_defs fun_eq_iff)
  have r: "has_grading_role t = has_grading_role s"
    using assms by (simp add: same_setup_def has_grading_role_def user_has_role_in_tenant_def get_roles_for_user_in_tenant_def
        get_active_tenant_user_role_bindings_def role_row_is_def user_active_def school_active_def fun_eq_iff cong: option.case_cong)
  have g: "get_assessment_for_teacher t = get_assessment_for_teacher s"
    using assms by (simp add: same_setup_def get_assessment_for_teacher_def works_on_def fun_eq_iff cong: option.case_cong)
  have ta: "teacher_assignment_for t = teacher_assignment_for s"
    using assms unfolding same_setup_def by (intro ext) (simp add: teacher_assignment_for_def a)
  show ?thesis unfolding open_call_def r g ta ..
qed

lemma same_setup_trans: "same_setup s t \<Longrightarrow> same_setup t u \<Longrightarrow> same_setup s u"
  by (simp add: same_setup_def)

text \<open>Steps aside from marks: drafts and requests change, official records and batches do not.\<close>

definition aside :: "'a grading_db_scheme \<Rightarrow> 'a grading_db_scheme \<Rightarrow> bool" where
  "aside s t \<longleftrightarrow> same_setup s t \<and> submission_batches t = submission_batches s \<and> grade_records t = grade_records s \<and>
     compilation_runs t = compilation_runs s"

interpretation aside: state_order aside
  by unfold_locales (auto simp: aside_def intro: same_setup_trans)

lemma aside_query: "aside.obeys (query f)"
  by (rule aside.obeysI) (simp add: query_def aside.order_refl)

lemma aside_save: "(\<And>r db. aside db (ins r db)) \<Longrightarrow> aside.obeys (save_row fc ins r)"
  by (rule aside.obeysI) (simp add: save_row_def aside.order_refl split: sum.splits)

lemma aside_tables [simp]:
  "aside db (add_draft d db)" "aside db (put_draft d db)" "aside db (add_correction c db)" "aside db (put_correction c db)"
  "aside db (add_audit u db)" "aside db (db\<lparr>draft_rows := x\<rparr>)"
  by (simp_all add: aside_def add_draft_def put_draft_def add_correction_def put_correction_def add_audit_def)

lemma aside_draft: "aside.obeys (save_grade_draft sha i u t aid p k)"
proof -
  have b: "aside.obeys (bulk_create_draft_rows rows)" for rows
    by (rule aside.obeysI) (simp add: bulk_create_draft_rows_def aside.order_refl)
  have "aside.obeys (store_draft i t v tc)" for v tc
    unfolding store_draft_def Let_def
    by (auto intro!: aside.obeys_abind aside_query aside_save b aside.obeys_alift split: prod.splits option.splits)
      (auto intro!: aside.obeysI)
  then have st: "aside db (snd (store_draft i t v tc db))" for v tc db by (rule aside.obeys_at)
  show ?thesis
    unfolding save_grade_draft_def
    by (intro aside.obeys_atomic aside.obeys_abind aside_query aside.obeysI) (auto simp: st aside.order_refl split: option.splits)
qed

lemma aside_audit: "aside.obeys (audit_correction aid t c uid act st fs b a sm)"
  unfolding audit_correction_def by (rule aside_save) simp

lemma aside_move: "aside.obeys (move_correction t i aid uid act sm ch)"
  unfolding move_correction_def
  by (auto intro!: aside.obeys_atomic aside.obeys_abind aside_query aside_save aside_audit aside.obeys_alift split: prod.splits)

lemma aside_reviews:
  "aside.obeys (create_correction_request sha f now i aid u t r p)" "aside.obeys (review_correction_as_hod now aid v t i d x)"
  "aside.obeys (escalate_correction_request now aid v t i x)" "aside.obeys (review_correction_as_academic_head now aid v t i d x)"
  unfolding create_correction_request_def review_correction_as_hod_def escalate_correction_request_def review_correction_as_academic_head_def
  by (auto intro!: aside.obeys_atomic aside.obeys_abind aside_query aside_save aside_audit aside.obeys_alift aside_move)

section \<open>Submissions and applied corrections\<close>

lemma submitted_records:
  assumes "store_submission now i ids t conf tc db = (Inr b, db')" and "inj ids"
    and "range ids \<inter> rec_id ` set (grade_records db) = {}"
  obtains new where "same_setup db db'" "submission_batches db' = submission_batches db @ [b]" "bt_tenant b = sc_id t"
    "bt_idempotency_key b = tc_key tc" "bt_status b = ''submitted''" "bt_assessment b = as_id (tc_assessment tc)"
    "bt_teacher b = us_id (tc_user tc)" "bt_payload_hash b = tc_hash tc" "grade_records db' = grade_records db @ new"
    "distinct (map rec_id new)" "distinct (map mark_place new)" "\<forall>r\<in>set new. rec_version r = 1"
    "rec_id ` set new \<inter> rec_id ` set (grade_records db) = {}" "mark_place ` set new \<inter> mark_place ` set (grade_records db) = {}"
proof -
  let ?a = "tc_assessment tc"
  from assms(1) obtain cf rows where v: "validate_grade_rows (tc_rows tc) (roster_ids db t ?a) (as_max_score ?a) (assessment_components db ?a) True = Inr rows"
    and b: "b = submitted_batch now i t tc (length rows) cf"
    and z: "\<forall>(k, r)\<in>set (zip (map ids [0..<length rows]) rows). gr_raw_score r \<noteq> None \<and> (\<forall>q\<in>set (grade_records db).
       \<not> (rec_tenant q = sc_id t \<and> rec_assessment q = as_id ?a \<and> rec_student q = gr_student_id r))"
    and db': "db' = mark_drafts_submitted t tc ((add_batch b db)\<lparr>grade_records := grade_records db @
        map (\<lambda>(k, r). new_grade_record (sc_id t) ?a i (us_id (tc_user tc)) k r (the (gr_raw_score r))) (zip (map ids [0..<length rows]) rows)\<rparr>)"
    by (rule store_submission_Inr)
  let ?z = "zip (map ids [0..<length rows]) rows"
  let ?new = "map (\<lambda>(k, r). new_grade_record (sc_id t) ?a i (us_id (tc_user tc)) k r (the (gr_raw_score r))) ?z"
  have st: "distinct (map gr_student_id rows)"
  proof (cases "tc_rows tc")
    case (JList rs)
    then show ?thesis using validated_rows [OF v [unfolded JList]] by blast
  qed (use v in \<open>simp_all add: validate_grade_rows_def\<close>)
  have "map rec_id ?new = map fst ?z"
    by (simp only: map_map comp_def split_beta new_grade_record_def grade_record.simps)
  then have ids: "map rec_id ?new = map ids [0..<length rows]" by (simp add: map_fst_zip)
  have "map mark_place ?new = map (\<lambda>r. (sc_id t, as_id ?a, gr_student_id r)) (map snd ?z)"
    by (simp only: map_map comp_def split_beta new_grade_record_def grade_record.simps mark_place_def)
  then have pl: "map mark_place ?new = map (\<lambda>x. (sc_id t, as_id ?a, x)) (map gr_student_id rows)" by (simp add: map_snd_zip comp_def)
  have vs: "\<forall>r\<in>set ?new. rec_version r = 1" by (auto simp: new_grade_record_def)
  have d1: "distinct (map rec_id ?new)" unfolding ids using assms(2) by (simp add: distinct_map inj_on_def inj_def)
  have d2: "distinct (map mark_place ?new)" unfolding pl using st by (simp add: distinct_map inj_on_def)
  have "rec_id ` set ?new = set (map rec_id ?new)" by (rule list.set_map [symmetric])
  also have "\<dots> \<subseteq> range ids" unfolding ids by auto
  finally have j1: "rec_id ` set ?new \<inter> rec_id ` set (grade_records db) = {}" using assms(3) by blast
  have j2: "mark_place ` set ?new \<inter> mark_place ` set (grade_records db) = {}"
    using z by (fastforce simp: mark_place_def new_grade_record_def)
  have e: "submission_batches db' = submission_batches db @ [b]" "grade_records db' = grade_records db @ ?new" "same_setup db db'"
    by (simp_all add: db' mark_drafts_submitted_def add_batch_def)
  show thesis
    by (rule that [OF e(3,1) _ _ _ _ _ _ e(2) d1 d2 vs j1 j2]) (simp_all add: b submitted_batch_def)
qed

lemma submit_cases:
  assumes "submit_grade_batch sha isoformat now i ids eid actor t aid p k c db = (res, db')"
  obtains "db' = db" | tc b db1 E where "store_submission now i ids t c tc db = (Inr b, db1)" "db' = db1\<lparr>event_tables := E\<rparr>"
    "open_call sha db actor t aid p k = Inr tc" "submission_by_key db t (tc_key tc) = None"
proof -
  obtain r db1 where s: "submit_in_transaction sha now i ids actor t aid p k c db = (r, db1)" by fastforce
  show thesis
  proof (cases r)
    case (Inl e)
    then show thesis using submit_refused [OF s [unfolded Inl]] assms s by (intro that(1)) (simp add: submit_grade_batch_def)
  next
    case (Inr xb)
    obtain x b where xb: "xb = (x, b)" by fastforce
    show thesis
    proof (cases x)
      case None
      have "db1 = db" using s unfolding Inr xb None
        by (auto simp: submit_in_transaction_def atomic_eq_Inr abind_eq_Inr ebind_eq_Inr split: option.splits if_splits)
      then show thesis using assms s by (intro that(1)) (simp add: submit_grade_batch_def Inr xb None)
    next
      case (Some au)
      obtain a u where au: "au = (a, u)" by fastforce
      obtain tc where tc: "open_call sha db actor t aid p k = Inr tc" "submission_by_key db t (tc_key tc) = None"
        "store_submission now i ids t c tc db = (Inr b, db1)" by (rule submit_new_Inr [OF s [unfolded Inr xb Some au]])
      have "\<exists>E. db' = db1\<lparr>event_tables := E\<rparr>"
        using assms s by (auto simp: submit_grade_batch_def Inr xb Some au record_after_commit_def alift_def split: prod.splits sum.splits)
      then show thesis using that(2) tc by blast
    qed
  qed
qed

section \<open>Every run of the services\<close>

text \<open>One call of a service, refused ones included; identifiers of new records are fresh and distinct.\<close>

inductive grading_step :: "(string \<Rightarrow> string) \<Rightarrow> (time \<Rightarrow> string) \<Rightarrow> 'a grading_db_scheme \<Rightarrow> 'a grading_db_scheme \<Rightarrow> bool"
  for sha isoformat where
  drafts: "save_grade_draft sha i u t aid p k db = (res, db') \<Longrightarrow> grading_step sha isoformat db db'"
| submits: "inj ids \<Longrightarrow> range ids \<inter> rec_id ` set (grade_records db) = {} \<Longrightarrow>
    submit_grade_batch sha isoformat now i ids eid u t aid p k c db = (bres, db') \<Longrightarrow> grading_step sha isoformat db db'"
| corrects: "correction_step sha db db' \<Longrightarrow> grading_step sha isoformat db db'"

text \<open>What a step does to the marks: nothing, new places, or one amended place.\<close>

text \<open>The correction a service applies names a record of its own school.\<close>

lemma correction_full_clean_tenant:
  "correction_full_clean db c = Inr c' \<Longrightarrow> \<exists>r. grade_record_row db (cq_grade_record c) = Some r \<and> rec_tenant r = cq_tenant c"
  by (auto simp: correction_full_clean_def correction_clean_def ebind_eq_Inr split: option.splits if_splits)

lemma applied_tenant:
  assumes "apply_approved_correction sha now aid u t i db = (Inr c', db')" and "get_correction_for_update db t i = Inr (c, r, a)"
  shows "rec_tenant r = sc_id t"
proof -
  from assms(1) obtain p r' where p: "plan_application sha u t i db = Inr p" and r': "record_full_clean db (ap_record p) = Inr r'"
    and c1: "correction_full_clean (mark_runs_stale (sc_id t) (rec_assessment r') (put_record r' db))
       ((ap_correction p)\<lparr>cq_status := ''applied'', cq_applied_by := Some (us_id u), cq_applied_at := Some now\<rparr>) = Inr c'"
    by (auto simp: apply_approved_correction_def atomic_eq_Inr abind_eq_Inr save_row_Inr)
  from p assms(2) have c: "ap_correction p = c"
    and b: "banded_record (get_schema_bands_for_assessment db t a) a (corrected_record c r) = Inr (ap_record p)"
    by (auto elim!: plan_application_Inr)
  have rec: "rec_id r' = rec_id r" "rec_tenant r' = rec_tenant r"
    using banded_record_Inr [OF b, unfolded corrected_record_def, simplified] record_full_clean_Inr [OF r'] by simp_all
  note g = get_correction_Inr [OF assms(2)]
  have "cq_grade_record c = rec_id r" "r \<in> set (grade_records db)" using g(4) by (auto simp: grade_record_row_def dest: first_where_SomeD)
  then have "grade_record_row (mark_runs_stale (sc_id t) (rec_assessment r') (put_record r' db)) (cq_grade_record c) =
      Some (r'\<lparr>rec_raw_score := stored_2 (rec_raw_score r'), rec_normalized_score := map_option stored_2 (rec_normalized_score r')\<rparr>)"
    unfolding grade_record_row_def mark_runs_stale_tables put_record_def rec(1) by (auto simp: rec(1) intro!: first_where_put)
  with correction_full_clean_tenant [OF c1] g(3) rec(2) show ?thesis by (auto simp: c)
qed

lemma applied_record:
  assumes "apply_approved_correction sha now aid u t i db = (Inr c', db')"
  obtains r r' where "r \<in> set (grade_records db)" "rec_id r' = rec_id r" "mark_place r' = mark_place r"
    "rec_version r' = rec_version r + 1" "grade_records db' = grade_records (put_record r' db)" "same_setup db db'"
    "submission_batches db' = submission_batches db"
    "compilation_runs db' = compilation_runs (mark_runs_stale (rec_tenant r) (rec_assessment r) db)"
proof -
  from assms obtain c r a r' au where g: "get_correction_for_update db t i = Inr (c, r, a)"
    and b: "banded_record (get_schema_bands_for_assessment db t a) a (corrected_record c r) = Inr r'"
    and db': "db' = add_audit au (put_correction c' (mark_runs_stale (sc_id t) (rec_assessment r') (put_record r' db)))"
    by (rule apply_Inr)
  note r' = banded_record_Inr [OF b, unfolded corrected_record_def, simplified]
  have "r \<in> set (grade_records db)" using get_correction_Inr(4) [OF g] by (auto simp: grade_record_row_def dest: first_where_SomeD)
  then show thesis
    by (rule that [of r r']) (use r' applied_tenant [OF assms g] in \<open>simp_all add: mark_place_def db' add_audit_def put_correction_def
        mark_runs_stale_def put_record_def\<close>)
qed

definition amends :: "'a grading_db_scheme \<Rightarrow> 'a grading_db_scheme \<Rightarrow> bool" where
  "amends db db' \<longleftrightarrow> same_setup db db' \<and> submission_batches db' = submission_batches db \<and>
     (\<exists>r r'. r \<in> set (grade_records db) \<and> rec_id r' = rec_id r \<and> mark_place r' = mark_place r \<and>
        rec_version r' = rec_version r + 1 \<and> grade_records db' = grade_records (put_record r' db) \<and>
        compilation_runs db' = compilation_runs (mark_runs_stale (rec_tenant r) (rec_assessment r) db))"

lemma applied_amends: "apply_approved_correction sha now aid u t i db = (Inr c', db') \<Longrightarrow> amends db db'"
  unfolding amends_def by (elim applied_record) blast

lemma correction_marks: "correction_step sha db db' \<Longrightarrow> aside db db' \<or> amends db db'"
proof (induction rule: correction_step.induct)
  case (applies now aid v t i db res db')
  then show ?case
    by (cases res) (auto dest: refused_unchanged applied_amends simp: aside.order_refl)
qed (blast dest: aside.obeysD [OF aside_reviews(1)] aside.obeysD [OF aside_reviews(2)] aside.obeysD [OF aside_reviews(3)]
    aside.obeysD [OF aside_reviews(4)])+

lemma aside_ledger: "aside db db' \<Longrightarrow> marks_ok db \<Longrightarrow> marks_ok db' \<and> ledger_step (ledger_of db) (ledger_of db')"
  using same_records [of db' db] by (simp add: aside_def unchanged)

lemma submit_ledger:
  assumes "submit_grade_batch sha isoformat now i ids eid u t aid p k c db = (bres, db')" and "inj ids"
    and "range ids \<inter> rec_id ` set (grade_records db) = {}" and "marks_ok db"
  shows "marks_ok db' \<and> ledger_step (ledger_of db) (ledger_of db')"
  using assms(1)
proof (cases rule: submit_cases)
  case 1
  then show ?thesis using assms(4) by (simp add: unchanged)
next
  case (2 tc b db1 E)
  obtain new where n: "grade_records db1 = grade_records db @ new" "distinct (map rec_id new)" "distinct (map mark_place new)"
    "\<forall>r\<in>set new. rec_version r = 1" "rec_id ` set new \<inter> rec_id ` set (grade_records db) = {}"
    "mark_place ` set new \<inter> mark_place ` set (grade_records db) = {}"
    by (rule submitted_records [OF 2(1) assms(2,3)])
  from posted_records [OF assms(4) n] show ?thesis unfolding 2(2) using same_records [of "db1\<lparr>event_tables := E\<rparr>" db1] by simp
qed

lemma grading_step_ledger:
  "grading_step sha isoformat db db' \<Longrightarrow> marks_ok db \<Longrightarrow> marks_ok db' \<and> ledger_step (ledger_of db) (ledger_of db')"
proof (induction rule: grading_step.induct)
  case (drafts i u t aid p k db res db')
  then show ?case using aside_ledger [OF aside.obeysD [OF aside_draft]] by blast
next
  case (submits ids db now i eid u t aid p k c bres db')
  show ?case by (rule submit_ledger [OF submits(3,1,2,4)])
next
  case (corrects db db')
  from correction_marks [OF corrects(1)] show ?case
  proof
    assume "aside db db'"
    then show ?thesis by (rule aside_ledger [OF _ corrects(2)])
  next
    assume "amends db db'"
    then show ?thesis unfolding amends_def by (elim conjE exE) (rule amended_record [OF corrects(2)])
  qed
qed

interpretation marks: refinement "grading_step sha isoformat" marks_ok ledger_of ledger_step
  by unfold_locales (use grading_step_ledger in blast)+

section \<open>Properties\<close>

text \<open>C21: Saving drafts, submitting batches and every correction service refine the ledger of marks: a run
  of them, refused calls included, is a run of the ledger, in which places are only added (with
  revision one) or amended one at a time (with the next revision).\<close>

theorem marks_refine_ledger:
  assumes "(grading_step sha isoformat)\<^sup>*\<^sup>* db db'" and "marks_ok db"
  shows "marks_ok db' \<and> ledger_step\<^sup>*\<^sup>* (ledger_of db) (ledger_of db')"
  using marks.run_keeps [OF assms] marks.run_refines [OF assms] by blast

text \<open>Calls are served the same way and batches stay: what a retry relies on.\<close>

definition serves :: "'a grading_db_scheme \<Rightarrow> 'a grading_db_scheme \<Rightarrow> bool" where
  "serves s t \<longleftrightarrow> same_setup s t \<and> (\<exists>new. submission_batches t = submission_batches s @ new)"

interpretation serves: state_order serves
proof
  show "serves s s" for s :: "'a grading_db_scheme" by (simp add: serves_def)
  show "serves s t \<Longrightarrow> serves t u \<Longrightarrow> serves s u" for s t u :: "'a grading_db_scheme"
    by (auto simp: serves_def intro: same_setup_trans)
qed

lemma aside_serves: "aside s t \<Longrightarrow> serves s t"
  by (simp add: aside_def serves_def)

lemma submission_tables:
  assumes "store_submission now i ids t conf tc db = (Inr b, db')"
  shows "same_setup db db'" "submission_batches db' = submission_batches db @ [b]" "bt_tenant b = sc_id t"
    "bt_idempotency_key b = tc_key tc" "bt_status b = ''submitted''" "bt_assessment b = as_id (tc_assessment tc)"
    "bt_teacher b = us_id (tc_user tc)" "bt_payload_hash b = tc_hash tc"
  using assms by (auto elim!: store_submission_Inr simp: mark_drafts_submitted_def add_batch_def submitted_batch_def)

lemma submit_serves: "submit_grade_batch sha isoformat now i ids eid u t aid p k c db = (bres, db') \<Longrightarrow> serves db db'"
  by (erule submit_cases) (auto simp: serves.order_refl serves_def dest: submission_tables)

lemma step_serves: "grading_step sha isoformat db db' \<Longrightarrow> serves db db'"
proof (induction rule: grading_step.induct)
  case (drafts i u t aid p k db res db')
  then show ?case by (rule aside_serves [OF aside.obeysD [OF aside_draft]])
next
  case (submits ids db now i eid u t aid p k c bres db')
  show ?case by (rule submit_serves [OF submits(3)])
next
  case (corrects db db')
  from correction_marks [OF this] show ?case by (auto simp: serves_def aside_def amends_def)
qed

text \<open>A batch that answers a call is found by every later call of the kind.\<close>

definition answers :: "(string \<Rightarrow> string) \<Rightarrow> user option \<Rightarrow> school \<Rightarrow> uuid \<Rightarrow> (string \<times> json) list \<Rightarrow> string option \<Rightarrow> submission_batch
    \<Rightarrow> 'a grading_db_scheme \<Rightarrow> bool" where
  "answers sha u t aid p k b db \<longleftrightarrow> (\<exists>tc. open_call sha db u t aid p k = Inr tc \<and> submission_by_key db t (tc_key tc) = Some b \<and>
     bt_assessment b = as_id (tc_assessment tc) \<and> bt_teacher b = us_id (tc_user tc) \<and> ensure_same_payload (bt_payload_hash b) (tc_hash tc) = Inr ())"

lemma answered: "answers sha u t aid p k b db \<Longrightarrow> submit_grade_batch sha isoformat now i ids eid u t aid p k c db = (Inr b, db)"
  by (auto simp: answers_def submit_grade_batch_def submit_in_transaction_def atomic_def abind_def query_def)

lemma committed_answers:
  assumes s: "submit_in_transaction sha now i ids u t aid p k c db = (Inr (x, b), db1)"
  shows "answers sha u t aid p k b db1"
proof (cases x)
  case None
  then show ?thesis
    using s unfolding answers_def by (auto simp: submit_in_transaction_def atomic_eq_Inr abind_eq_Inr ebind_eq_Inr split: option.splits if_splits)
next
  case (Some au)
  obtain a v where au: "au = (a, v)" by fastforce
  obtain tc where tc: "open_call sha db u t aid p k = Inr tc" "submission_by_key db t (tc_key tc) = None"
    "store_submission now i ids t c tc db = (Inr b, db1)" by (rule submit_new_Inr [OF s [unfolded Some au]])
  note st = submission_tables [OF tc(3)]
  have "first_where (\<lambda>q. bt_tenant q = sc_id t \<and> bt_idempotency_key q = tc_key tc \<and> bt_status q \<in> set submitted_statuses) [b] = Some b"
    using st by (simp add: first_where_def submitted_statuses_def)
  then have "submission_by_key db1 t (tc_key tc) = Some b"
    using tc(2) by (simp add: submission_by_key_def st(2) first_where_append)
  then show "answers sha u t aid p k b db1"
    using tc(1) st by (simp add: answers_def same_setup_call [OF st(1)] ensure_same_payload_def)
qed

text \<open>Whether a teacher may work on an assessment now: what a call asks of the database.\<close>

definition may_work :: "'a grading_db_scheme \<Rightarrow> user option \<Rightarrow> school \<Rightarrow> uuid \<Rightarrow> bool" where
  "may_work db u t aid \<longleftrightarrow> has_grading_role db u (Some t) \<and>
     (case (u, get_assessment_for_teacher db u (Some t) aid) of
        (Some v, Some a) \<Rightarrow> is_ok (teacher_assignment_for db v t a) | _ \<Rightarrow> False)"

lemma assessment_for_teacher_id: "get_assessment_for_teacher db u t aid = Some a \<Longrightarrow> as_id a = aid"
  by (auto simp: get_assessment_for_teacher_def dest!: first_where_SomeD split: option.splits if_splits)

lemma open_call_works:
  assumes "open_call sha db u t aid p k = Inr tc"
  shows "may_work db u t aid" "reject_client_controlled_fields p = Inr ()"
proof -
  note o = open_call_Inr [OF assms]
  have g: "has_grading_role db u (Some t) \<and> reject_client_controlled_fields p = Inr ()"
    using assms by (auto simp: open_call_def ebind_eq_Inr split: if_split_asm)
  then show "may_work db u t aid" using o(1,2,3) by (simp add: may_work_def is_ok_def)
  show "reject_client_controlled_fields p = Inr ()" using g ..
qed

text \<open>The key and the hash of a call do not depend on the database, its user and assessment are those asked for.\<close>

lemma open_call_again:
  assumes "open_call sha db u t aid p k = Inr tc"
  shows "case open_call sha db2 u t aid p k of Inl e \<Rightarrow> \<not> may_work db2 u t aid
    | Inr tc2 \<Rightarrow> tc_key tc2 = tc_key tc \<and> tc_hash tc2 = tc_hash tc \<and> tc_user tc2 = tc_user tc \<and> as_id (tc_assessment tc2) = as_id (tc_assessment tc)"
proof (cases "open_call sha db2 u t aid p k")
  case (Inr tc2)
  have "as_id (tc_assessment tc2) = aid" "as_id (tc_assessment tc) = aid"
    using assessment_for_teacher_id open_call_Inr(2) [OF assms] open_call_Inr(2) [OF Inr] by blast+
  then show ?thesis using open_call_Inr [OF assms] open_call_Inr [OF Inr] Inr by auto
next
  case (Inl e)
  note o = open_call_Inr [OF assms] and r = open_call_works(2) [OF assms]
  have "\<not> may_work db2 u t aid"
  proof
    assume w: "may_work db2 u t aid"
    then obtain a2 where a2: "get_assessment_for_teacher db2 u (Some t) aid = Some a2"
      using o(1) by (cases "get_assessment_for_teacher db2 u (Some t) aid") (auto simp: may_work_def)
    then obtain ta2 where "teacher_assignment_for db2 (tc_user tc) t a2 = Inr ta2"
      using w o(1) by (cases "teacher_assignment_for db2 (tc_user tc) t a2") (auto simp: may_work_def is_ok_def)
    then show False using Inl a2 w o r by (simp add: open_call_def may_work_def)
  qed
  then show ?thesis using Inl by simp
qed

text \<open>
  What may happen between a submission and its retry: the services of drafts, submissions and
  corrections, and any other change that leaves the stored batches alone: of roles, assignments,
  rosters, assessments, schemas, runs, reports or events.
\<close>

inductive busy_step :: "(string \<Rightarrow> string) \<Rightarrow> (time \<Rightarrow> string) \<Rightarrow> 'a grading_db_scheme \<Rightarrow> 'a grading_db_scheme \<Rightarrow> bool"
  for sha isoformat where
  marks_move: "grading_step sha isoformat db db' \<Longrightarrow> busy_step sha isoformat db db'"
| others_move: "submission_batches db' = submission_batches db \<Longrightarrow> busy_step sha isoformat db db'"

lemma busy_batches: "(busy_step sha isoformat)\<^sup>*\<^sup>* db db' \<Longrightarrow> \<exists>new. submission_batches db' = submission_batches db @ new"
proof (induction rule: rtranclp_induct)
  case (step y z)
  from step.hyps(2) have "\<exists>new. submission_batches z = submission_batches y @ new"
    by cases (auto simp: serves_def dest: step_serves)
  then show ?case using step.IH by auto
qed simp

text \<open>C22: A submission takes effect once. After the transaction of a call has committed a batch, let any services
  of drafts, submissions and corrections run, and let roles, assignments, rosters, assessments and
  everything else but the stored batches change in any way. The same call (same caller, school,
  assessment, payload and key; any time, confirmation and identifiers) then stores nothing: while the
  teacher may still work on the assessment, which must be open, it returns the first batch, and
  otherwise it is refused with an error.\<close>

theorem submission_takes_effect_once:
  assumes "submit_in_transaction sha now i ids u t aid p k c db = (Inr (x, b), db1)"
    and "(busy_step sha isoformat)\<^sup>*\<^sup>* db1 db2"
  shows "if may_work db2 u t aid
    then submit_grade_batch sha isoformat now' i' ids' eid' u t aid p k c' db2 = (Inr b, db2)
    else \<exists>e. submit_grade_batch sha isoformat now' i' ids' eid' u t aid p k c' db2 = (Inl e, db2)"
proof -
  obtain tc where tc: "open_call sha db1 u t aid p k = Inr tc" "submission_by_key db1 t (tc_key tc) = Some b"
    and b: "bt_assessment b = as_id (tc_assessment tc)" "bt_teacher b = us_id (tc_user tc)" "ensure_same_payload (bt_payload_hash b) (tc_hash tc) = Inr ()"
    using committed_answers [OF assms(1)] by (auto simp: answers_def)
  note again = open_call_again [OF tc(1), of db2]
  show ?thesis
  proof (cases "open_call sha db2 u t aid p k")
    case (Inl e)
    then show ?thesis using again
      by (simp add: submit_grade_batch_def submit_in_transaction_def atomic_def abind_def query_def)
  next
    case (Inr tc2)
    have "submission_by_key db2 t (tc_key tc2) = Some b"
      using busy_batches [OF assms(2)] tc(2) again Inr by (auto simp: submission_by_key_def first_where_append)
    then have "answers sha u t aid p k b db2" using Inr again b by (simp add: answers_def)
    then show ?thesis using answered open_call_works(1) [OF Inr] by simp
  qed
qed

text \<open>C23: No mark is lost or silently changed: whatever the services do, a learner's record of an
  assessment stays, its version never falls, and its score differs only under a greater version.\<close>

theorem marks_never_lost:
  assumes "(grading_step sha isoformat)\<^sup>*\<^sup>* db db'" and "marks_ok db" and "r \<in> set (grade_records db)"
  shows "\<exists>r'\<in>set (grade_records db'). rec_tenant r' = rec_tenant r \<and> rec_assessment r' = rec_assessment r \<and>
    rec_student r' = rec_student r \<and> rec_version r \<le> rec_version r' \<and>
    (rec_version r' = rec_version r \<longrightarrow> rec_raw_score r' = rec_raw_score r)"
proof -
  have l: "ledger_of db (mark_place r) = Some (rec_raw_score r, rec_version r)"
    using assms(2,3) by (auto simp: ledger_of_def marks_ok_def mark_entry_def comp_def intro!: map_of_is_SomeI image_eqI [of _ _ r])
  have "keeps_marks (ledger_of db) (ledger_of db')"
    by (rule marks.transfer [OF assms(1,2) keeps_marks_refl keeps_marks_step])
  with l obtain d w where "ledger_of db' (mark_place r) = Some (d, w)" "rec_version r \<le> w" "w = rec_version r \<longrightarrow> d = rec_raw_score r"
    unfolding keeps_marks_def by fastforce
  then obtain x where "x \<in> set (grade_records db')" "mark_place x = mark_place r" "rec_raw_score x = d" "rec_version x = w"
    by (auto simp: ledger_of_def mark_entry_def dest!: map_of_SomeD)
  then show ?thesis using \<open>rec_version r \<le> w\<close> \<open>w = rec_version r \<longrightarrow> d = rec_raw_score r\<close>
    by (intro bexI [of _ x]) (auto simp: mark_place_def)
qed

section \<open>Instances\<close>

theorem submission_takes_effect_once_witness:
  "\<exists>b db'. submit_in_transaction (\<lambda>_. ''h'') 5 ''b7'' (\<lambda>k. ''g7'') (Some sample_teacher) sample_school ''x1'' sample_payload (Some ''k7'')
     (Some sample_confirmation) sample_grading = (Inr (Some (sample_assessment, sample_teacher), b), db') \<and>
   submit_grade_batch (\<lambda>_. ''h'') (\<lambda>_. ''now'') 9 ''b8'' (\<lambda>k. ''g8'') ''e8'' (Some sample_teacher) sample_school ''x1'' sample_payload
     (Some ''k7'') None db' = (Inr b, db') \<and>
   (\<exists>e. submit_grade_batch (\<lambda>_. ''h'') (\<lambda>_. ''now'') 9 ''b8'' (\<lambda>k. ''g8'') ''e8'' (Some sample_teacher) sample_school ''x1'' sample_payload
     (Some ''k7'') None (db'\<lparr>assessments := []\<rparr>) = (Inl e, db'\<lparr>assessments := []\<rparr>))"
proof -
  obtain b db' where e: "submit_in_transaction (\<lambda>_. ''h'') 5 ''b7'' (\<lambda>k. ''g7'') (Some sample_teacher) sample_school ''x1'' sample_payload (Some ''k7'')
     (Some sample_confirmation) sample_grading = (Inr (Some (sample_assessment, sample_teacher), b), db')"
    using sample_first_submission by blast
  have w: "may_work db' (Some sample_teacher) sample_school ''x1''"
    using committed_answers [OF e] open_call_works(1) by (auto simp: answers_def)
  have n: "\<not> may_work (db'\<lparr>assessments := []\<rparr>) (Some sample_teacher) sample_school ''x1''"
    by (simp add: may_work_def get_assessment_for_teacher_def first_where_def split: option.splits)
  have "(busy_step (\<lambda>_. ''h'') (\<lambda>_. ''now''))\<^sup>*\<^sup>* db' (db'\<lparr>assessments := []\<rparr>)"
    by (intro r_into_rtranclp others_move) simp
  from submission_takes_effect_once [OF e this] submission_takes_effect_once [OF e rtranclp.rtrancl_refl] w n e show ?thesis by simp
qed

lemma sample_marks_ok: "marks_ok sample_corrections"
  by (simp add: marks_ok_def sample_people)

lemma sample_apply_step:
  "\<exists>c' db'. apply_approved_correction (\<lambda>_. ''h'') 5 ''w3'' sample_hod sample_school ''q1'' sample_corrections = (Inr c', db') \<and>
     (grading_step (\<lambda>_. ''h'') isoformat)\<^sup>*\<^sup>* sample_corrections db'"
  using sample_apply_ok by (blast intro: corrects applies)

theorem marks_refine_ledger_witness:
  "\<exists>c' db'. apply_approved_correction (\<lambda>_. ''h'') 5 ''w3'' sample_hod sample_school ''q1'' sample_corrections = (Inr c', db') \<and>
     marks_ok db' \<and> ledger_step\<^sup>*\<^sup>* (ledger_of sample_corrections) (ledger_of db')"
  using sample_apply_step marks_refine_ledger [OF _ sample_marks_ok] by blast

theorem marks_never_lost_witness:
  "\<exists>c' db'. apply_approved_correction (\<lambda>_. ''h'') 5 ''w3'' sample_hod sample_school ''q1'' sample_corrections = (Inr c', db') \<and>
     (\<exists>r'\<in>set (grade_records db'). rec_student r' = ''p1'' \<and> 1 \<le> rec_version r')"
proof -
  obtain c' db' where e: "apply_approved_correction (\<lambda>_. ''h'') 5 ''w3'' sample_hod sample_school ''q1'' sample_corrections = (Inr c', db')"
    and s: "(grading_step (\<lambda>_. ''h'') (\<lambda>_. ''now''))\<^sup>*\<^sup>* sample_corrections db'" using sample_apply_step by blast
  have "sample_record \<in> set (grade_records sample_corrections)" by (simp add: sample_people)
  from marks_never_lost [OF s sample_marks_ok this] e show ?thesis by (auto simp: sample_record_def)
qed

end
