(* ===== verification/CompilationFacts.thy ===== *)
theory CompilationFacts
  imports Compilation Ledger
begin

text \<open>
  What a compilation establishes: its status says exactly whether every learner of the roster has one
  complete record, a run is never stored as failed, and a run that is not stale repeats the official
  scores, however drafts, submissions, corrections and compilations interleave.
\<close>

section \<open>The scan for missing marks\<close>

lemma scan_one:
  assumes "scan_record roster ids r (f, seen, dups) = Inr g"
  obtains n where "g = (f @ n, rec_student r # seen, if rec_student r \<in> set seen then rec_student r # dups else dups)"
    "n = [] \<longleftrightarrow> rec_student r \<in> set roster \<and> missing_components ids r = Inr []"
    "\<forall>m\<in>set n. mf_code m \<in> {''student_outside_roster'', ''missing_required_component''}"
proof (cases "rec_student r \<in> set roster")
  case False
  show thesis
    by (rule that [of "[\<lparr>mf_learner_id = rec_student r, mf_missing_fields = [], mf_severity = ''failed'', mf_code = ''student_outside_roster''\<rparr>]"])
      (use assms False in \<open>simp_all add: scan_record_def Let_def\<close>)
next
  case True
  with assms obtain missing where m: "missing_components ids r = Inr missing"
    by (cases "missing_components ids r") (simp_all add: scan_record_def Let_def)
  show thesis
    by (rule that [of "if missing = [] then [] else [\<lparr>mf_learner_id = rec_student r, mf_missing_fields = missing, mf_severity = ''blocked'',
          mf_code = ''missing_required_component''\<rparr>]"])
      (use assms True m in \<open>auto simp: scan_record_def Let_def\<close>)
qed

lemma scan_records:
  assumes "efold (scan_record roster ids) records (f, seen, dups) = Inr (f', seen', dups')"
  shows "set seen' = set seen \<union> rec_student ` set records"
    and "set dups \<subseteq> set dups'"
    and "dups' = dups \<longleftrightarrow> distinct (map rec_student records) \<and> set seen \<inter> rec_student ` set records = {}"
    and "\<exists>more. f' = f @ more \<and> (more = [] \<longleftrightarrow> (\<forall>r\<in>set records. rec_student r \<in> set roster \<and> missing_components ids r = Inr []))
      \<and> (\<forall>m\<in>set more. mf_code m \<in> {''student_outside_roster'', ''missing_required_component''})"
proof -
  have "set seen' = set seen \<union> rec_student ` set records \<and> length dups \<le> length dups' \<and> set dups \<subseteq> set dups' \<and>
    (dups' = dups \<longleftrightarrow> distinct (map rec_student records) \<and> set seen \<inter> rec_student ` set records = {}) \<and>
    (\<exists>more. f' = f @ more \<and> (more = [] \<longleftrightarrow> (\<forall>r\<in>set records. rec_student r \<in> set roster \<and> missing_components ids r = Inr []))
      \<and> (\<forall>m\<in>set more. mf_code m \<in> {''student_outside_roster'', ''missing_required_component''}))"
    using assms
  proof (induction records arbitrary: f seen dups)
    case (Cons r records)
    from Cons.prems obtain g where s: "scan_record roster ids r (f, seen, dups) = Inr g"
      and e: "efold (scan_record roster ids) records g = Inr (f', seen', dups')" by (auto simp: ebind_eq_Inr)
    let ?d = "if rec_student r \<in> set seen then rec_student r # dups else dups"
    from s obtain n where g: "g = (f @ n, rec_student r # seen, ?d)"
      and n: "n = [] \<longleftrightarrow> rec_student r \<in> set roster \<and> missing_components ids r = Inr []"
      "\<forall>m\<in>set n. mf_code m \<in> {''student_outside_roster'', ''missing_required_component''}"
      by (rule scan_one)
    from Cons.IH [OF e [unfolded g]] obtain more where ih: "set seen' = insert (rec_student r) (set seen) \<union> rec_student ` set records"
      "length ?d \<le> length dups'" "set ?d \<subseteq> set dups'"
      "dups' = ?d \<longleftrightarrow> distinct (map rec_student records) \<and> insert (rec_student r) (set seen) \<inter> rec_student ` set records = {}"
      "f' = (f @ n) @ more" "more = [] \<longleftrightarrow> (\<forall>r\<in>set records. rec_student r \<in> set roster \<and> missing_components ids r = Inr [])"
      "\<forall>m\<in>set more. mf_code m \<in> {''student_outside_roster'', ''missing_required_component''}" by auto
    have d: "dups' = dups \<longleftrightarrow> rec_student r \<notin> set seen \<and> dups' = ?d" using ih(2) by auto
    show ?case
    proof (intro conjI)
      show "\<exists>more. f' = f @ more \<and> (more = [] \<longleftrightarrow> (\<forall>x\<in>set (r # records). rec_student x \<in> set roster \<and> missing_components ids x = Inr []))
          \<and> (\<forall>m\<in>set more. mf_code m \<in> {''student_outside_roster'', ''missing_required_component''})"
        by (rule exI [of _ "n @ more"]) (use ih(5-7) n in auto)
      show "dups' = dups \<longleftrightarrow> distinct (map rec_student (r # records)) \<and> set seen \<inter> rec_student ` set (r # records) = {}"
        unfolding d ih(4) by auto
    qed (use ih(1-3) in \<open>auto split: if_splits\<close>)
  qed simp
  then show "set seen' = set seen \<union> rec_student ` set records" "set dups \<subseteq> set dups'"
    "dups' = dups \<longleftrightarrow> distinct (map rec_student records) \<and> set seen \<inter> rec_student ` set records = {}"
    "\<exists>more. f' = f @ more \<and> (more = [] \<longleftrightarrow> (\<forall>r\<in>set records. rec_student r \<in> set roster \<and> missing_components ids r = Inr []))
      \<and> (\<forall>m\<in>set more. mf_code m \<in> {''student_outside_roster'', ''missing_required_component''})" by blast+
qed

text \<open>Every learner of the roster has exactly one record, nobody else has one, and no required component is blank.\<close>

definition fully_marked :: "uuid list \<Rightarrow> assessment_component list \<Rightarrow> grade_record list \<Rightarrow> bool" where
  "fully_marked roster comps records \<longleftrightarrow> distinct (map rec_student records) \<and> rec_student ` set records = set roster \<and>
     (\<forall>r\<in>set records. missing_components (map cm_id (filter cm_is_required comps)) r = Inr [])"

lemma detect_missing_marks_Inr:
  assumes "detect_missing_marks roster records comps = Inr missing"
  shows "missing = [] \<longleftrightarrow> fully_marked roster comps records"
    and "length (filter (\<lambda>f. mf_code f = ''missing_learner_mark'') missing) = card (set roster - rec_student ` set records)"
proof -
  let ?ids = "map cm_id (filter cm_is_required comps)"
  let ?miss = "map (\<lambda>s. \<lparr>mf_learner_id = s, mf_missing_fields = [''raw_score''], mf_severity = ''partial'', mf_code = ''missing_learner_mark''\<rparr>)"
  let ?dup = "map (\<lambda>s. \<lparr>mf_learner_id = s, mf_missing_fields = [], mf_severity = ''failed'', mf_code = ''duplicate_grade_record''\<rparr>)"
  from assms obtain f seen dups where e: "efold (scan_record roster ?ids) records ([], [], []) = Inr (f, seen, dups)"
    and m: "missing = sort_key (\<lambda>f. (mf_learner_id f, mf_code f)) (f @ ?miss (py_sorted_set (filter (\<lambda>s. s \<notin> set seen) roster)) @ ?dup (py_sorted_set dups))"
    by (auto simp: detect_missing_marks_def ebind_eq_Inr)
  note sc = scan_records [OF e]
  from sc(4) have f: "f = [] \<longleftrightarrow> (\<forall>r\<in>set records. rec_student r \<in> set roster \<and> missing_components ?ids r = Inr [])"
    "\<forall>m\<in>set f. mf_code m \<in> {''student_outside_roster'', ''missing_required_component''}" by auto
  have nil: "missing = [] \<longleftrightarrow> f = [] \<and> filter (\<lambda>s. s \<notin> set seen) roster = [] \<and> dups = []" unfolding m
    using py_sorted_set_Nil_iff [of dups] by (metis (no_types, lifting) append_is_Nil_conv map_is_Nil_conv py_sorted_set_Nil_iff set_empty set_sort)
  show "missing = [] \<longleftrightarrow> fully_marked roster comps records"
    unfolding nil f(1) fully_marked_def using sc(1,3) by (auto simp: filter_empty_conv)
  let ?P = "\<lambda>f. mf_code f = ''missing_learner_mark''"
  have "filter ?P f = []" "filter ?P (?dup xs) = []" for xs using f(2) by (auto simp: filter_empty_conv)
  then have "length (filter ?P missing) = length (py_sorted_set (filter (\<lambda>s. s \<notin> set seen) roster))"
    unfolding m by (simp add: filter_sort filter_map comp_def)
  also have "\<dots> = card (set (filter (\<lambda>s. s \<notin> set seen) roster))"
    by (metis distinct_card distinct_py_sorted_set set_py_sorted_set)
  also have "set (filter (\<lambda>s. s \<notin> set seen) roster) = set roster - rec_student ` set records" using sc(1) by auto
  finally show "length (filter ?P missing) = card (set roster - rec_student ` set records)" .
qed

section \<open>Validity of component scores\<close>

lemma invalid_fold:
  assumes "efold (\<lambda>r invalid. case record_component_summary comps M r of
         Inr _ \<Rightarrow> Inr invalid
       | Inl (ValidationError _ _) \<Rightarrow>
           Inr (invalid @ [\<lparr>mf_learner_id = rec_student r, mf_missing_fields = [], mf_severity = ''failed'',
                             mf_code = ''invalid_component_score''\<rparr>])
       | Inl e \<Rightarrow> Inl e) records acc = Inr out"
  shows "length acc \<le> length out \<and> (out = acc \<longleftrightarrow> (\<forall>r\<in>set records. is_ok (record_component_summary comps M r)))"
  using assms
proof (induction records arbitrary: acc)
  case (Cons r records)
  show ?case
  proof (cases "record_component_summary comps M r")
    case (Inr v)
    then show ?thesis using Cons by simp
  next
    case (Inl e)
    obtain m where "efold (\<lambda>r invalid. case record_component_summary comps M r of
         Inr _ \<Rightarrow> Inr invalid
       | Inl (ValidationError _ _) \<Rightarrow>
           Inr (invalid @ [\<lparr>mf_learner_id = rec_student r, mf_missing_fields = [], mf_severity = ''failed'',
                             mf_code = ''invalid_component_score''\<rparr>])
       | Inl e \<Rightarrow> Inl e) records (acc @ [m]) = Inr out"
      using Cons.prems Inl by (cases e) auto
    from Cons.IH [OF this] have "length acc < length out" by simp
    then show ?thesis using Inl by auto
  qed
qed simp

lemma detect_invalid_Nil:
  assumes "detect_invalid_component_scores records comps M = Inr invalid"
  shows "invalid = [] \<longleftrightarrow> (\<forall>r\<in>set records. is_ok (record_component_summary comps M r))"
  using invalid_fold [OF assms [unfolded detect_invalid_component_scores_def]] by blast

lemma emap_Inr_ok: "emap f xs = Inr ys \<Longrightarrow> \<forall>x\<in>set xs. is_ok (f x)"
  by (induction xs arbitrary: ys) (auto simp: ebind_eq_Inr is_ok_iff)

lemma snapshots_valid:
  assumes "build_learner_snapshots ci missing st = Inr facts"
  shows "\<forall>r\<in>set (ci_records ci). is_ok (record_component_summary (ci_components ci) (as_max_score (ci_assessment ci)) r)"
  using emap_Inr_ok [OF assms [unfolded build_learner_snapshots_def]] by (auto simp: learner_facts_for_def Let_def)

section \<open>What a compilation stores\<close>

lemma first_whereD: "first_where P xs = Some x \<Longrightarrow> x \<in> set xs" "first_where P xs = Some x \<Longrightarrow> P x"
  by (auto dest: first_where_SomeD)

lemma build_compilation_input_Inr:
  assumes "build_compilation_input db (Some t) (Some a) roster records comps = Inr ci"
  shows "as_status a = ''open''" "is_operationally_bound db a"
    "ci = \<lparr>ci_tenant_id = sc_id t, ci_assessment = a, ci_roster = remdups (map st_id roster), ci_records = records,
                   ci_components = comps, ci_source_batch_ids = py_sorted_set (map rec_submission_batch records)\<rparr>"
  using assms by (auto simp: build_compilation_input_def ebind_eq_Inr split: if_splits)

lemma gather_Inr:
  assumes "gather_compilation t aid who db = Inr p"
  shows "cp_assessment p \<in> set (assessments db)" "as_id (cp_assessment p) = aid" "as_tenant (cp_assessment p) = sc_id t"
    "who = Some (cp_user p)" "as_status (cp_assessment p) = ''open''" "is_operationally_bound db (cp_assessment p)"
    "can_compile_assessment db (policy_context_for db who (Some t) ''grading.compilation.compile'' [''principal'', ''school_admin'', ''hod'']) (cp_assessment p)"
    "cp_input p = \<lparr>ci_tenant_id = sc_id t, ci_assessment = cp_assessment p,
       ci_roster = remdups (map st_id (get_expected_roster_for_compilation db t (cp_assessment p))),
       ci_records = get_submitted_records_for_assessment db t (cp_assessment p),
       ci_components = get_assessment_components_for_compilation db t (cp_assessment p),
       ci_source_batch_ids = py_sorted_set (map rec_submission_batch (get_submitted_records_for_assessment db t (cp_assessment p)))\<rparr>"
    "detect_missing_marks (ci_roster (cp_input p)) (ci_records (cp_input p)) (ci_components (cp_input p)) = Inr (cp_missing p)"
    "detect_invalid_component_scores (ci_records (cp_input p)) (ci_components (cp_input p)) (as_max_score (cp_assessment p)) = Inr (cp_invalid p)"
    "cp_status p = determine_compilation_status (cp_missing p) (cp_invalid p) (ci_records (cp_input p) \<noteq> [])"
    "cp_expected p = int (length (ci_roster (cp_input p)))"
    "cp_submitted p = int (card (rec_student ` set (ci_records (cp_input p)) \<inter> set (ci_roster (cp_input p))))"
    "cp_absent p = int (length (filter (\<lambda>f. mf_code f = ''missing_learner_mark'') (cp_missing p)))"
    "as_version (cp_assessment p) = Some (cp_version p)" "completion_percentage (cp_submitted p) (cp_expected p) = Inr (cp_completion p)"
proof -
  from assms obtain a u where a: "first_where (\<lambda>a. as_id a = aid \<and> as_tenant a = sc_id t) (assessments db) = Some a" and u: "who = Some u"
    by (auto simp: gather_compilation_def split: option.splits)
  let ?ctx = "policy_context_for db who (Some t) ''grading.compilation.compile'' [''principal'', ''school_admin'', ''hod'']"
  let ?records = "get_submitted_records_for_assessment db t a"
  have can: "can_compile_assessment db ?ctx a"
    using assms by (simp add: gather_compilation_def a u split: if_splits)
  with assms obtain ci missing invalid completion summary v where
    ci: "build_compilation_input db (Some t) (Some a) (get_expected_roster_for_compilation db t a) ?records
        (get_assessment_components_for_compilation db t a) = Inr ci"
    and m: "detect_missing_marks (ci_roster ci) (ci_records ci) (ci_components ci) = Inr missing"
    and i: "detect_invalid_component_scores (ci_records ci) (ci_components ci) (as_max_score a) = Inr invalid"
    and c: "build_cohort_summary a (int (length (ci_roster ci))) (int (card (rec_student ` set (ci_records ci) \<inter> set (ci_roster ci))))
        (int (length (filter (\<lambda>f. mf_code f = ''missing_learner_mark'') missing))) (component_completion_summary (ci_components ci) missing)
        (determine_compilation_status missing invalid (ci_records ci \<noteq> [])) = Inr (completion, summary)"
    and v: "as_version a = Some v"
    and p: "p = \<lparr>cp_assessment = a, cp_user = u, cp_version = v, cp_input = ci, cp_missing = missing, cp_invalid = invalid,
        cp_status = determine_compilation_status missing invalid (ci_records ci \<noteq> []), cp_expected = int (length (ci_roster ci)),
        cp_submitted = int (card (rec_student ` set (ci_records ci) \<inter> set (ci_roster ci))),
        cp_absent = int (length (filter (\<lambda>f. mf_code f = ''missing_learner_mark'') missing)), cp_completion = completion,
        cp_component_summary = component_completion_summary (ci_components ci) missing, cp_summary = summary\<rparr>"
    by (auto simp: gather_compilation_def a u Let_def ebind_eq_Inr split: option.splits)
  note b = build_compilation_input_Inr [OF ci]
  have cc: "completion_percentage (cp_submitted p) (cp_expected p) = Inr (cp_completion p)"
    using c by (auto simp: build_cohort_summary_def ebind_eq_Inr p)
  show "cp_assessment p \<in> set (assessments db)" "as_id (cp_assessment p) = aid" "as_tenant (cp_assessment p) = sc_id t"
    using first_whereD [OF a] by (simp_all add: p)
  show "who = Some (cp_user p)" using u by (simp add: p)
  show "as_status (cp_assessment p) = ''open''" "is_operationally_bound db (cp_assessment p)" using b by (simp_all add: p)
  show "can_compile_assessment db (policy_context_for db who (Some t) ''grading.compilation.compile'' [''principal'', ''school_admin'', ''hod'']) (cp_assessment p)"
    using can by (simp add: p)
  show "cp_input p = \<lparr>ci_tenant_id = sc_id t, ci_assessment = cp_assessment p,
       ci_roster = remdups (map st_id (get_expected_roster_for_compilation db t (cp_assessment p))),
       ci_records = get_submitted_records_for_assessment db t (cp_assessment p),
       ci_components = get_assessment_components_for_compilation db t (cp_assessment p),
       ci_source_batch_ids = py_sorted_set (map rec_submission_batch (get_submitted_records_for_assessment db t (cp_assessment p)))\<rparr>"
    using b(3) by (simp add: p)
  show "detect_missing_marks (ci_roster (cp_input p)) (ci_records (cp_input p)) (ci_components (cp_input p)) = Inr (cp_missing p)"
    using m by (simp add: p)
  show "detect_invalid_component_scores (ci_records (cp_input p)) (ci_components (cp_input p)) (as_max_score (cp_assessment p)) = Inr (cp_invalid p)"
    using i by (simp add: p)
  show "cp_status p = determine_compilation_status (cp_missing p) (cp_invalid p) (ci_records (cp_input p) \<noteq> [])"
    "cp_expected p = int (length (ci_roster (cp_input p)))"
    "cp_submitted p = int (card (rec_student ` set (ci_records (cp_input p)) \<inter> set (ci_roster (cp_input p))))"
    "cp_absent p = int (length (filter (\<lambda>f. mf_code f = ''missing_learner_mark'') (cp_missing p)))"
    "as_version (cp_assessment p) = Some (cp_version p)" by (simp_all add: p v)
  show "completion_percentage (cp_submitted p) (cp_expected p) = Inr (cp_completion p)" by (rule cc)
qed

lemma run_full_clean_Inr: "run_full_clean db q = Inr q' \<Longrightarrow> q' = q"
  by (auto simp: run_full_clean_def split: if_splits option.splits)

lemma snapshot_full_clean_Inr: "snapshot_full_clean db n = Inr n' \<Longrightarrow> n' = n"
  by (auto simp: snapshot_full_clean_def split: if_splits option.splits)

lemma summary_full_clean_Inr: "summary_full_clean db m = Inr m' \<Longrightarrow> m' = m"
  by (auto simp: summary_full_clean_def split: if_splits option.splits)

definition stale_others :: "compilation_run \<Rightarrow> compilation_run list \<Rightarrow> compilation_run list" where
  "stale_others q = update_where (\<lambda>p. cr_tenant p = cr_tenant q \<and> cr_assessment p = cr_assessment q \<and> cr_id p \<noteq> cr_id q)
     (\<lambda>p. p\<lparr>cr_status := ''stale''\<rparr>)"

lemma stale_others_elim:
  assumes "p \<in> set (stale_others q qs)"
  obtains "p \<in> set qs" "\<not> (cr_tenant p = cr_tenant q \<and> cr_assessment p = cr_assessment q \<and> cr_id p \<noteq> cr_id q)"
  | p' where "p' \<in> set qs" "p = p'\<lparr>cr_status := ''stale''\<rparr>"
  using assms unfolding stale_others_def update_where_def by (auto split: if_splits)

lemma stale_others_stale:
  assumes "p \<in> set (stale_others q qs)" "cr_tenant p = cr_tenant q" "cr_assessment p = cr_assessment q" "cr_id p \<noteq> cr_id q"
  shows "cr_status p = ''stale''"
  using assms(1) by (cases rule: stale_others_elim) (use assms(2-4) in simp_all)

lemma stale_others_self: "q \<in> set (stale_others q (qs @ [q]))"
  by (simp add: stale_others_def update_where_def)

text \<open>The rest of the database a compilation leaves alone.\<close>

definition only_compiles :: "'a compiled_db_scheme \<Rightarrow> 'a compiled_db_scheme \<Rightarrow> bool" where
  "only_compiles s t \<longleftrightarrow> t = s\<lparr>compilation_runs := compilation_runs t, assessment_snapshots := assessment_snapshots t,
     learner_snapshots := learner_snapshots t, cohort_summaries := cohort_summaries t\<rparr>"

lemma only_compiles_tables:
  assumes "only_compiles s t"
  shows "grade_records t = grade_records s" "assessments t = assessments s" "submission_batches t = submission_batches s"
  using arg_cong [OF assms [unfolded only_compiles_def], of grade_records] arg_cong [OF assms [unfolded only_compiles_def], of assessments]
    arg_cong [OF assms [unfolded only_compiles_def], of submission_batches] by simp_all

lemma store_compilation_Inr:
  assumes "store_compilation now ids t p db = (Inr q, db')"
  obtains facts where "q = new_run now ids t p" "build_learner_snapshots (cp_input p) (cp_missing p) (cp_status p) = Inr facts"
    "compilation_runs db' = stale_others q (compilation_runs db @ [q])"
    "learner_snapshots db' = learner_snapshots db @ map (new_learner_snapshot now ids t p) (zip [0..<length facts] facts)"
    "only_compiles db db'"
proof -
  from assms obtain q1 n m facts x db1 where q1: "run_full_clean db (new_run now ids t p) = Inr q1"
    and facts: "build_learner_snapshots (cp_input p) (cp_missing p) (cp_status p) = Inr facts"
    and b: "bulk_create_learner_snapshots (map (new_learner_snapshot now ids t p) (zip [0..<length facts] facts))
       (add_summary m (add_snapshot n (mark_other_runs_stale q1 (add_run q1 db)))) = (Inr x, db1)"
    and e: "q = q1" "db' = db1"
    by (auto simp: store_compilation_def Let_def abind_eq_Inr save_row_Inr alift_eq_Inr)
  from run_full_clean_Inr [OF q1] have q: "q = new_run now ids t p" by (simp add: e)
  from b have d: "db' = (add_summary m (add_snapshot n (mark_other_runs_stale q (add_run q db))))\<lparr>learner_snapshots :=
      learner_snapshots db @ map (new_learner_snapshot now ids t p) (zip [0..<length facts] facts)\<rparr>"
    unfolding e by (auto simp: bulk_create_learner_snapshots_def Let_def add_summary_def add_snapshot_def mark_other_runs_stale_def add_run_def
        split: if_splits)
  show thesis
    by (rule that [OF q facts])
      (simp_all add: d add_summary_def add_snapshot_def mark_other_runs_stale_def add_run_def stale_others_def only_compiles_def)
qed

lemma compile_Inr:
  assumes "compile_in_transaction now ids t aid who db = (Inr (p, q), db')"
  shows "gather_compilation t aid who db = Inr p" "store_compilation now ids t p db = (Inr q, db')"
  using assms by (auto simp: compile_in_transaction_def atomic_eq_Inr abind_eq_Inr)

lemma compile_refused: "compile_in_transaction now ids t aid who db = (Inl e, db') \<Longrightarrow> db' = db"
  unfolding compile_in_transaction_def by (rule atomic_unchanged)

lemma learner_facts_Inr:
  "learner_facts_for ci missing st r = Inr f \<Longrightarrow> lf_learner_id f = rec_student r \<and> lf_status f = st \<and>
     build_score_summary r (ci_assessment ci) = Inr (lf_score_summary f)"
  by (auto simp: learner_facts_for_def Let_def ebind_eq_Inr)

lemma facts_of_records:
  assumes "build_learner_snapshots ci missing st = Inr facts"
  shows "map lf_learner_id facts = map rec_student (sort_key rec_student (ci_records ci))"
    and "\<forall>f\<in>set facts. \<exists>r\<in>set (ci_records ci). lf_learner_id f = rec_student r \<and> lf_status f = st \<and>
       build_score_summary r (ci_assessment ci) = Inr (lf_score_summary f)"
proof -
  have a: "list_all2 (\<lambda>r f. learner_facts_for ci missing st r = Inr f) (sort_key rec_student (ci_records ci)) facts"
    using assms by (simp add: build_learner_snapshots_def emap_all2)
  have "map lf_learner_id fs = map rec_student rs" if "list_all2 (\<lambda>r f. learner_facts_for ci missing st r = Inr f) rs fs" for rs fs
    using that by (induction rule: list_all2_induct) (auto dest: learner_facts_Inr)
  then show "map lf_learner_id facts = map rec_student (sort_key rec_student (ci_records ci))" using a .
  show "\<forall>f\<in>set facts. \<exists>r\<in>set (ci_records ci). lf_learner_id f = rec_student r \<and> lf_status f = st \<and>
       build_score_summary r (ci_assessment ci) = Inr (lf_score_summary f)"
  proof
    fix f assume "f \<in> set facts"
    with assms [unfolded build_learner_snapshots_def] obtain r where "r \<in> set (sort_key rec_student (ci_records ci))"
      "learner_facts_for ci missing st r = Inr f" using emap_set by metis
    then show "\<exists>r\<in>set (ci_records ci). lf_learner_id f = rec_student r \<and> lf_status f = st \<and>
       build_score_summary r (ci_assessment ci) = Inr (lf_score_summary f)" by (auto dest: learner_facts_Inr)
  qed
qed

section \<open>Compilations and marks together\<close>

text \<open>A run repeats the marks: each of its snapshots is of its assessment and holds the score summary of
  the learner's current record.\<close>

definition repeats_marks :: "'a compiled_db_scheme \<Rightarrow> compilation_run \<Rightarrow> bool" where
  "repeats_marks db q \<longleftrightarrow> (\<forall>s\<in>set (learner_snapshots db). ls_run s = cr_id q \<longrightarrow> ls_assessment s = cr_assessment q \<and>
     (\<exists>r\<in>set (grade_records db). \<exists>a\<in>set (assessments db). mark_place r = (cr_tenant q, cr_assessment q, ls_student s) \<and>
        as_id a = cr_assessment q \<and> build_score_summary r a = Inr (ls_score_summary s)))"

definition same_work :: "compilation_run \<Rightarrow> compilation_run \<Rightarrow> bool" where
  "same_work q q' \<longleftrightarrow> cr_tenant q' = cr_tenant q \<and> cr_assessment q' = cr_assessment q"

definition compiled_ok :: "'a compiled_db_scheme \<Rightarrow> bool" where
  "compiled_ok db \<longleftrightarrow> distinct (map cr_id (compilation_runs db)) \<and>
     ls_run ` set (learner_snapshots db) \<subseteq> cr_id ` set (compilation_runs db) \<and>
     (\<forall>q\<in>set (compilation_runs db). cr_status q \<noteq> ''stale'' \<longrightarrow> repeats_marks db q \<and>
        (\<forall>q'\<in>set (compilation_runs db). same_work q q' \<and> cr_status q' \<noteq> ''stale'' \<longrightarrow> cr_id q' = cr_id q))"

lemma compiled_ok_live:
  assumes "compiled_ok db" and "q \<in> set (compilation_runs db)" and "cr_status q \<noteq> ''stale''"
  shows "repeats_marks db q"
    and "q' \<in> set (compilation_runs db) \<Longrightarrow> same_work q q' \<Longrightarrow> cr_status q' \<noteq> ''stale'' \<Longrightarrow> cr_id q' = cr_id q"
proof -
  from assms have "repeats_marks db q \<and> (\<forall>q'\<in>set (compilation_runs db). same_work q q' \<and> cr_status q' \<noteq> ''stale'' \<longrightarrow> cr_id q' = cr_id q)"
    unfolding compiled_ok_def by blast
  then show "repeats_marks db q" "q' \<in> set (compilation_runs db) \<Longrightarrow> same_work q q' \<Longrightarrow> cr_status q' \<noteq> ''stale'' \<Longrightarrow> cr_id q' = cr_id q"
    by simp_all
qed

lemma compiled_ok_ref: "compiled_ok db \<Longrightarrow> s \<in> set (learner_snapshots db) \<Longrightarrow> ls_run s \<in> cr_id ` set (compilation_runs db)"
  unfolding compiled_ok_def by blast

inductive school_step :: "(string \<Rightarrow> string) \<Rightarrow> (time \<Rightarrow> string) \<Rightarrow> 'a compiled_db_scheme \<Rightarrow> 'a compiled_db_scheme \<Rightarrow> bool" for sha isoformat where
  grades: "grading_step sha isoformat db db' \<Longrightarrow> school_step sha isoformat db db'"
| compiles: "ni_run ids \<notin> cr_id ` set (compilation_runs db) \<Longrightarrow>
    compile_assessment isoformat now ids eid t aid who db = (res, db') \<Longrightarrow> school_step sha isoformat db db'"
| compiles_batch: "ni_run ids \<notin> cr_id ` set (compilation_runs db) \<Longrightarrow>
    compile_submission_batch isoformat now ids eid t bid who db = (res, db') \<Longrightarrow> school_step sha isoformat db db'"

lemma same_setup_compiled: "same_setup s (t :: 'a compiled_db_scheme) \<Longrightarrow> learner_snapshots t = learner_snapshots s"
  by (cases s, cases t) (simp add: same_setup_def)

lemma repeats_marks_mono:
  assumes "repeats_marks db q" and "learner_snapshots db' = learner_snapshots db" and "assessments db' = assessments db"
    and "\<And>r. r \<in> set (grade_records db) \<Longrightarrow> rec_tenant r = cr_tenant q \<Longrightarrow> rec_assessment r = cr_assessment q \<Longrightarrow> r \<in> set (grade_records db')"
  shows "repeats_marks db' q"
  unfolding repeats_marks_def assms(2,3)
proof (intro ballI impI)
  fix s assume "s \<in> set (learner_snapshots db)" "ls_run s = cr_id q"
  with assms(1) obtain r a where "ls_assessment s = cr_assessment q" "r \<in> set (grade_records db)" "a \<in> set (assessments db)"
    "mark_place r = (cr_tenant q, cr_assessment q, ls_student s)" "as_id a = cr_assessment q" "build_score_summary r a = Inr (ls_score_summary s)"
    unfolding repeats_marks_def by blast
  moreover from this assms(4) [of r] have "r \<in> set (grade_records db')" by (simp add: mark_place_def)
  ultimately show "ls_assessment s = cr_assessment q \<and> (\<exists>r\<in>set (grade_records db'). \<exists>a\<in>set (assessments db). mark_place r = (cr_tenant q, cr_assessment q, ls_student s) \<and>
        as_id a = cr_assessment q \<and> build_score_summary r a = Inr (ls_score_summary s))" by blast
qed

text \<open>Runs only become stale, and the runs that do not still find their records.\<close>

lemma compiled_ok_mono:
  assumes ok: "compiled_ok db" and same: "same_setup db db'"
    and ids: "map cr_id (compilation_runs db') = map cr_id (compilation_runs db)"
    and only_stale: "\<And>q. q \<in> set (compilation_runs db') \<Longrightarrow> cr_status q \<noteq> ''stale'' \<Longrightarrow> q \<in> set (compilation_runs db) \<and>
      (\<forall>r\<in>set (grade_records db). rec_tenant r = cr_tenant q \<and> rec_assessment r = cr_assessment q \<longrightarrow> r \<in> set (grade_records db'))"
  shows "compiled_ok db'"
proof -
  have ls: "learner_snapshots db' = learner_snapshots db" by (rule same_setup_compiled [OF same])
  have as: "assessments db' = assessments db" using same by (simp add: same_setup_def)
  have "repeats_marks db' q" if "q \<in> set (compilation_runs db')" "cr_status q \<noteq> ''stale''" for q
    using ok only_stale [OF that] that by (intro repeats_marks_mono [OF _ ls as]) (auto simp: compiled_ok_def)
  moreover have "cr_id q' = cr_id q" if "q \<in> set (compilation_runs db')" "cr_status q \<noteq> ''stale''" "q' \<in> set (compilation_runs db')"
    "cr_status q' \<noteq> ''stale''" "same_work q q'" for q q'
    using compiled_ok_live(2) [OF ok _ that(2) _ that(5,4)] only_stale [OF that(1,2)] only_stale [OF that(3,4)] by blast
  moreover have "cr_id ` set (compilation_runs db') = cr_id ` set (compilation_runs db)" using ids by (metis list.set_map)
  ultimately show ?thesis using ok by (simp add: compiled_ok_def ids ls)
qed

lemma aside_compiled:
  assumes "aside db db'" and "compiled_ok db"
  shows "compiled_ok db'"
  using assms(1) by (intro compiled_ok_mono [OF assms(2)]) (auto simp: aside_def)

lemma amends_compiled:
  assumes "amends db db'" and "compiled_ok db" and "marks_ok db"
  shows "compiled_ok db'"
proof -
  from assms(1) obtain r r' where same: "same_setup db db'" and r: "r \<in> set (grade_records db)" "rec_id r' = rec_id r"
    and rec: "grade_records db' = grade_records (put_record r' db)"
    and runs: "compilation_runs db' = compilation_runs (mark_runs_stale (rec_tenant r) (rec_assessment r) db)"
    unfolding amends_def by blast
  show ?thesis
  proof (rule compiled_ok_mono [OF assms(2) same])
    show "map cr_id (compilation_runs db') = map cr_id (compilation_runs db)"
      unfolding runs mark_runs_stale_def by (simp add: map_update_where)
    fix q assume q: "q \<in> set (compilation_runs db')" "cr_status q \<noteq> ''stale''"
    then have q': "q \<in> set (compilation_runs db)" "\<not> (cr_tenant q = rec_tenant r \<and> cr_assessment q = rec_assessment r)"
      unfolding runs mark_runs_stale_def by (auto simp: set_update_where)
    have "x \<in> set (grade_records db')" if x: "x \<in> set (grade_records db)" "rec_tenant x = cr_tenant q" "rec_assessment x = cr_assessment q" for x
    proof -
      have "x \<noteq> r" using q'(2) x by auto
      then have "rec_id x \<noteq> rec_id r" using assms(3) x(1) r(1) by (auto simp: marks_ok_def distinct_map inj_on_def)
      then show ?thesis using x(1) unfolding rec put_record_def by (auto simp: set_update_where r(2))
    qed
    with q'(1) show "q \<in> set (compilation_runs db) \<and>
      (\<forall>r\<in>set (grade_records db). rec_tenant r = cr_tenant q \<and> rec_assessment r = cr_assessment q \<longrightarrow> r \<in> set (grade_records db'))" by blast
  qed
qed

lemma submits_compiled:
  assumes "submit_grade_batch sha isoformat now i ids eid u t aid p k c db = (bres, db')" and "compiled_ok db"
  shows "compiled_ok db'"
  using assms(1)
proof (cases rule: submit_cases)
  case 1
  then show ?thesis using assms(2) by simp
next
  case (2 tc b db1 E)
  obtain new where "grade_records db1 = grade_records db @ new" "compilation_runs db1 = compilation_runs db"
    using 2(1) by (rule store_submission_Inr) (simp add: mark_drafts_submitted_def add_batch_def)
  then show ?thesis
    using submission_tables(1) [OF 2(1)] unfolding 2(2) by (intro compiled_ok_mono [OF assms(2)]) simp_all
qed

lemma grading_compiled:
  assumes "grading_step sha isoformat db db'" and "compiled_ok db" and "marks_ok db"
  shows "compiled_ok db'"
  using assms(1)
proof cases
  case (drafts i u t aid p k res)
  then show ?thesis using aside_compiled [OF aside.obeysD [OF aside_draft] assms(2)] by blast
next
  case (submits ids now i eid u t aid p k c bres)
  show ?thesis by (rule submits_compiled [OF submits(3) assms(2)])
next
  case corrects
  from correction_marks [OF this] show ?thesis using aside_compiled amends_compiled assms(2,3) by blast
qed

lemma compile_compiled:
  assumes "compile_in_transaction now ids t aid who db = (Inr (p, q), db')" and ok: "compiled_ok db"
    and fresh: "ni_run ids \<notin> cr_id ` set (compilation_runs db)"
  shows "compiled_ok db'"
proof -
  note st = compile_Inr(2) [OF assms(1)] and G = gather_Inr [OF compile_Inr(1) [OF assms(1)]]
  from st obtain facts where q: "q = new_run now ids t p"
    and fs: "build_learner_snapshots (cp_input p) (cp_missing p) (cp_status p) = Inr facts"
    and runs: "compilation_runs db' = stale_others q (compilation_runs db @ [q])"
    and ls: "learner_snapshots db' = learner_snapshots db @ map (new_learner_snapshot now ids t p) (zip [0..<length facts] facts)"
    and oc: "only_compiles db db'" by (rule store_compilation_Inr)
  have tabs: "grade_records db' = grade_records db" "assessments db' = assessments db"
    by (rule only_compiles_tables [OF oc])+
  have qi: "cr_id q = ni_run ids" "cr_tenant q = sc_id t" "cr_assessment q = as_id (cp_assessment p)" by (simp_all add: q new_run_def)
  have ids: "map cr_id (compilation_runs db') = map cr_id (compilation_runs db @ [q])"
    unfolding runs stale_others_def by (rule map_update_where) simp
  let ?new = "map (new_learner_snapshot now ids t p) (zip [0..<length facts] facts)"
  have nr: "ls_run s = ni_run ids" if "s \<in> set ?new" for s using that by (auto simp: new_learner_snapshot_def)
  have rq: "repeats_marks db' q"
    unfolding repeats_marks_def tabs
  proof (intro ballI impI)
    fix s assume "s \<in> set (learner_snapshots db')" "ls_run s = cr_id q"
    then have "s \<in> set ?new" using compiled_ok_ref [OF ok, of s] fresh unfolding ls qi(1) by auto
    then obtain k f where f: "f \<in> set facts" "s = new_learner_snapshot now ids t p (k, f)" by (auto dest: set_zip_rightD)
    from bspec [OF facts_of_records(2) [OF fs] f(1)] obtain r where r: "r \<in> set (ci_records (cp_input p))" "lf_learner_id f = rec_student r"
      "build_score_summary r (ci_assessment (cp_input p)) = Inr (lf_score_summary f)" by blast
    then have "r \<in> set (grade_records db)" "mark_place r = (sc_id t, as_id (cp_assessment p), rec_student r)"
      by (auto simp: G(8) get_submitted_records_for_assessment_def mark_place_def split: if_splits)
    then show "ls_assessment s = cr_assessment q \<and> (\<exists>r\<in>set (grade_records db). \<exists>a\<in>set (assessments db). mark_place r = (cr_tenant q, cr_assessment q, ls_student s) \<and>
        as_id a = cr_assessment q \<and> build_score_summary r a = Inr (ls_score_summary s))"
      using r G(1) by (intro conjI bexI [of _ r] bexI [of _ "cp_assessment p"]) (simp_all add: qi f(2) new_learner_snapshot_def G(8))
  qed
  have old: "x \<in> set (compilation_runs db) \<and> \<not> (cr_tenant x = cr_tenant q \<and> cr_assessment x = cr_assessment q)"
    if "x \<in> set (compilation_runs db')" "cr_status x \<noteq> ''stale''" "x \<noteq> q" for x
    using that(1) unfolding runs
  proof (cases rule: stale_others_elim)
    case 1
    then have "x \<in> set (compilation_runs db)" using that(3) by simp
    moreover from imageI [OF this, of cr_id] have "cr_id x \<noteq> cr_id q" using fresh unfolding qi(1) by metis
    ultimately show ?thesis using 1(2) by blast
  qed (use that(2) in simp)
  have rx: "repeats_marks db' x" if "x \<in> set (compilation_runs db)" "cr_status x \<noteq> ''stale''" for x
  proof -
    have "cr_id x \<noteq> ni_run ids" using fresh imageI [OF that(1), of cr_id] by metis
    then have "s \<in> set (learner_snapshots db)" if "s \<in> set (learner_snapshots db')" "ls_run s = cr_id x" for s
      using that nr [of s] unfolding ls by (metis UnE set_append)
    note in_old = this
    show ?thesis unfolding repeats_marks_def tabs
    proof (intro ballI impI)
      fix s assume "s \<in> set (learner_snapshots db')" "ls_run s = cr_id x"
      from compiled_ok_live(1) [OF ok that, unfolded repeats_marks_def, rule_format, OF in_old [OF this] this(2)]
      show "ls_assessment s = cr_assessment x \<and> (\<exists>r\<in>set (grade_records db). \<exists>a\<in>set (assessments db). mark_place r = (cr_tenant x, cr_assessment x, ls_student s) \<and>
        as_id a = cr_assessment x \<and> build_score_summary r a = Inr (ls_score_summary s))" .
    qed
  qed
  have "repeats_marks db' x" if "x \<in> set (compilation_runs db')" "cr_status x \<noteq> ''stale''" for x
    using rq rx old [OF that] that(2) by (cases "x = q") auto
  moreover have "cr_id y = cr_id x" if "x \<in> set (compilation_runs db')" "cr_status x \<noteq> ''stale''" "y \<in> set (compilation_runs db')"
    "cr_status y \<noteq> ''stale''" "same_work x y" for x y
  proof (cases "x = q \<or> y = q")
    case True
    then show ?thesis using old [OF that(1,2)] old [OF that(3,4)] that(5) unfolding same_work_def by metis
  next
    case False
    then show ?thesis using compiled_ok_live(2) [OF ok _ that(2) _ that(5,4)] old [OF that(1,2)] old [OF that(3,4)] by blast
  qed
  moreover have "ls_run ` set (learner_snapshots db') \<subseteq> cr_id ` set (compilation_runs db')"
  proof -
    have "cr_id ` set (compilation_runs db') = insert (ni_run ids) (cr_id ` set (compilation_runs db))"
      using arg_cong [OF ids, of set] by (simp add: qi)
    moreover have "ls_run ` set ?new \<subseteq> {ni_run ids}" using nr by blast
    ultimately show ?thesis using ok unfolding ls compiled_ok_def by auto
  qed
  moreover have "distinct (map cr_id (compilation_runs db'))" unfolding ids using ok fresh by (auto simp: compiled_ok_def qi)
  ultimately show ?thesis unfolding compiled_ok_def by blast
qed

lemma compile_cases:
  assumes "compile_assessment isoformat now ids eid t aid who db = (res, db')"
  obtains "db' = db" | p q db1 E where "compile_in_transaction now ids t aid who db = (Inr (p, q), db1)" "db' = db1\<lparr>event_tables := E\<rparr>"
proof -
  obtain r db1 where c: "compile_in_transaction now ids t aid who db = (r, db1)" by fastforce
  show thesis
  proof (cases r)
    case (Inl e)
    then show thesis using compile_refused [OF c [unfolded Inl]] assms c
      by (intro that(1)) (simp add: compile_assessment_def record_after_commit_def abind_def)
  next
    case (Inr pq)
    obtain p q where pq: "pq = (p, q)" by fastforce
    have "\<exists>E. db' = db1\<lparr>event_tables := E\<rparr>"
      using assms c by (auto simp: compile_assessment_def record_after_commit_def abind_def alift_def Inr pq split: prod.splits sum.splits)
    then show thesis using that(2) c Inr pq by blast
  qed
qed

lemma compiled_events [simp]: "compiled_ok (db\<lparr>event_tables := E\<rparr>) = compiled_ok db" "marks_ok (db\<lparr>event_tables := E\<rparr>) = marks_ok db"
  by (simp_all add: compiled_ok_def repeats_marks_def marks_ok_def)

lemma compile_school:
  assumes "compile_assessment isoformat now ids eid t aid who db = (res, db')" and "compiled_ok db" and "marks_ok db"
    and "ni_run ids \<notin> cr_id ` set (compilation_runs db)"
  shows "compiled_ok db' \<and> marks_ok db'"
  using assms(1)
proof (cases rule: compile_cases)
  case (2 p q db1 E)
  from compile_Inr(2) [OF 2(1)] obtain facts where "only_compiles db db1" by (rule store_compilation_Inr)
  then have "grade_records db1 = grade_records db" by (rule only_compiles_tables)
  then have "marks_ok db1" using assms(3) by (simp add: marks_ok_def)
  then show ?thesis unfolding 2(2) using compile_compiled [OF 2(1) assms(2,4)] by simp
qed (use assms(2,3) in simp)

lemma school_step_ok:
  "school_step sha isoformat db db' \<Longrightarrow> compiled_ok db \<and> marks_ok db \<Longrightarrow> compiled_ok db' \<and> marks_ok db'"
proof (induction rule: school_step.induct)
  case (grades db db')
  then show ?case using grading_compiled [OF grades(1)] grading_step_ledger [OF grades(1)] by blast
next
  case (compiles ids db now eid t aid who res db')
  then show ?case using compile_school [OF compiles(2)] by blast
next
  case (compiles_batch ids db now eid t bid who res db')
  then show ?case
    by (auto simp: compile_submission_batch_def split: option.splits dest: compile_school)
qed

lemma school_run_ok: "(school_step sha isoformat)\<^sup>*\<^sup>* db db' \<Longrightarrow> compiled_ok db \<and> marks_ok db \<Longrightarrow> compiled_ok db' \<and> marks_ok db'"
  by (induction rule: rtranclp_induct) (auto dest: school_step_ok)

section \<open>Properties\<close>

text \<open>The snapshots made from a compilation's facts: one per record, with its learner and its score.\<close>

lemma new_snapshots:
  assumes fs: "build_learner_snapshots x ms (cp_status p) = Inr facts"
  defines "new \<equiv> \<lambda>now ids t p. map (new_learner_snapshot now ids t p) (zip [0..<length facts] facts)"
  shows "map ls_student (new now ids t p) = map rec_student (sort_key rec_student (ci_records x))"
    and "\<forall>s\<in>set (new now ids t p). ls_run s = ni_run ids \<and> ls_status s = cp_status p \<and>
          (\<exists>r\<in>set (ci_records x). ls_student s = rec_student r \<and> build_score_summary r (ci_assessment x) = Inr (ls_score_summary s))"
proof -
  have "map ls_student (new now ids t p) = map lf_learner_id (map snd (zip [0..<length facts] facts))"
    by (simp only: new_def map_map comp_def new_learner_snapshot_def split_beta learner_snapshot.simps)
  then show "map ls_student (new now ids t p) = map rec_student (sort_key rec_student (ci_records x))"
    using facts_of_records(1) [OF fs] by simp
  show "\<forall>s\<in>set (new now ids t p). ls_run s = ni_run ids \<and> ls_status s = cp_status p \<and>
          (\<exists>r\<in>set (ci_records x). ls_student s = rec_student r \<and> build_score_summary r (ci_assessment x) = Inr (ls_score_summary s))"
  proof
    fix s assume "s \<in> set (new now ids t p)"
    then obtain k f where f: "f \<in> set facts" "s = new_learner_snapshot now ids t p (k, f)" by (auto simp: new_def dest: set_zip_rightD)
    from bspec [OF facts_of_records(2) [OF fs] f(1)] show "ls_run s = ni_run ids \<and> ls_status s = cp_status p \<and>
          (\<exists>r\<in>set (ci_records x). ls_student s = rec_student r \<and> build_score_summary r (ci_assessment x) = Inr (ls_score_summary s))"
      unfolding f(2) by (auto simp: new_learner_snapshot_def)
  qed
qed

text \<open>C24: A compilation reports exactly what it found. The caller holds a role that may compile, and the assessment is
  open and bound to a curriculum. Submitted and missing learners add up to the roster. The run is complete exactly when every
  learner of the roster has one submitted record with all required components and nobody else has
  one, blocked exactly when there is no submitted record, and otherwise partial: a run that would be
  failed is never stored, because building its learner snapshots raises the same validation error
  again. Every other run of the assessment is stale afterwards, and each submitted record has one
  snapshot with its score.\<close>

theorem compilation_outcome:
  assumes "compile_in_transaction now ids t aid who db = (Inr (p, q), db')"
  defines "a \<equiv> cp_assessment p"
  defines "records \<equiv> get_submitted_records_for_assessment db t a"
    and "roster \<equiv> map st_id (get_expected_roster_for_compilation db t a)"
  shows "a \<in> set (assessments db) \<and> as_id a = aid \<and> as_status a = ''open'' \<and> is_operationally_bound db a \<and>
    can_compile_assessment db (policy_context_for db who (Some t) ''grading.compilation.compile'' [''principal'', ''school_admin'', ''hod'']) a \<and>
    cr_submitted q + cr_missing q = cr_expected q \<and> cr_expected q = int (card (set roster)) \<and>
    cr_status q = (if records = [] then ''blocked''
      else if fully_marked roster (get_assessment_components_for_compilation db t a) records then ''complete'' else ''partial'') \<and>
    q \<in> set (compilation_runs db') \<and>
    (\<forall>q'\<in>set (compilation_runs db'). cr_tenant q' = cr_tenant q \<and> cr_assessment q' = aid \<and> cr_id q' \<noteq> cr_id q \<longrightarrow> cr_status q' = ''stale'') \<and>
    (\<exists>new. learner_snapshots db' = learner_snapshots db @ new \<and> map ls_student new = map rec_student (sort_key rec_student records) \<and>
       (\<forall>s\<in>set new. ls_run s = cr_id q \<and> ls_status s = cr_status q \<and>
          (\<exists>r\<in>set records. ls_student s = rec_student r \<and> build_score_summary r a = Inr (ls_score_summary s))))"
proof -
  note g = compile_Inr(1) [OF assms(1)] and st = compile_Inr(2) [OF assms(1)]
  note G = gather_Inr [OF g]
  have in_eq: "ci_assessment (cp_input p) = a" "ci_records (cp_input p) = records"
    "ci_roster (cp_input p) = remdups roster" "ci_components (cp_input p) = get_assessment_components_for_compilation db t a"
    by (simp_all add: G(8) a_def records_def roster_def)
  from st obtain facts where q: "q = new_run now ids t p"
    and fs: "build_learner_snapshots (cp_input p) (cp_missing p) (cp_status p) = Inr facts"
    and runs: "compilation_runs db' = stale_others q (compilation_runs db @ [q])"
    and ls: "learner_snapshots db' = learner_snapshots db @ map (new_learner_snapshot now ids t p) (zip [0..<length facts] facts)"
    by (rule store_compilation_Inr)
  have miss: "detect_missing_marks (remdups roster) records (get_assessment_components_for_compilation db t a) = Inr (cp_missing p)"
    using G(9) by (simp add: in_eq)
  note mm = detect_missing_marks_Inr [OF miss]
  have "detect_invalid_component_scores records (get_assessment_components_for_compilation db t a) (as_max_score a) = Inr (cp_invalid p)"
    using G(10) by (simp add: in_eq a_def)
  from detect_invalid_Nil [OF this] snapshots_valid [OF fs] have inv: "cp_invalid p = []" by (simp add: in_eq)
  have status: "cp_status p = (if records = [] then ''blocked''
      else if fully_marked roster (get_assessment_components_for_compilation db t a) records then ''complete'' else ''partial'')"
    by (simp add: G(11) in_eq determine_compilation_status_def inv mm(1) fully_marked_def)
  have counts: "cp_submitted p = int (card (rec_student ` set records \<inter> set roster))" "cp_expected p = int (card (set roster))"
    "cp_absent p = int (card (set roster - rec_student ` set records))"
    by (simp_all add: G(12-14) in_eq mm(2) length_remdups_card_conv)
  have "card (rec_student ` set records \<inter> set roster) + card (set roster - rec_student ` set records) = card (set roster)"
    by (metis (no_types) Int_commute List.finite_set card_Diff_subset_Int card_mono finite_Int inf_le1 le_add_diff_inverse)
  then have sum: "cp_submitted p + cp_absent p = cp_expected p" unfolding counts by linarith
  have as: "a \<in> set (assessments db) \<and> as_id a = aid \<and> as_status a = ''open'' \<and> is_operationally_bound db a \<and>
    can_compile_assessment db (policy_context_for db who (Some t) ''grading.compilation.compile'' [''principal'', ''school_admin'', ''hod'']) a"
    using G by (simp add: a_def)
  let ?new = "map (new_learner_snapshot now ids t p) (zip [0..<length facts] facts)"
  note st = new_snapshots(1) [OF fs, of now ids t, unfolded in_eq] and sn = new_snapshots(2) [OF fs, of now ids t, unfolded in_eq]
  then have sn: "\<forall>s\<in>set ?new. ls_run s = cr_id q \<and> ls_status s = cr_status q \<and>
          (\<exists>r\<in>set records. ls_student s = rec_student r \<and> build_score_summary r a = Inr (ls_score_summary s))"
    by (simp add: q new_run_def)
  have qf: "cr_status q = cp_status p" "cr_expected q = cp_expected p" "cr_submitted q = cp_submitted p" "cr_missing q = cp_absent p"
    "cr_assessment q = aid" using as by (simp_all add: q new_run_def a_def)
  have rs: "q \<in> set (compilation_runs db')"
    "\<forall>q'\<in>set (compilation_runs db'). cr_tenant q' = cr_tenant q \<and> cr_assessment q' = aid \<and> cr_id q' \<noteq> cr_id q \<longrightarrow> cr_status q' = ''stale''"
    unfolding runs using stale_others_self [of q] stale_others_stale [of _ q] by (simp_all add: qf(5))
  have n: "cr_submitted q + cr_missing q = cr_expected q" "cr_expected q = int (card (set roster))"
    "cr_status q = (if records = [] then ''blocked''
      else if fully_marked roster (get_assessment_components_for_compilation db t a) records then ''complete'' else ''partial'')"
    by (simp_all only: qf sum counts(2) status)
  from as show ?thesis by (elim conjE) (intro conjI exI [of _ ?new] n rs ls st sn)
qed

end
