(* ===== verification/ReadinessFacts.thy ===== *)
theory ReadinessFacts
  imports Projections CompilationFacts
begin

text \<open>
  When an assessment may be reported: exactly the conditions that make readiness true, and that an
  assessment which is ready shows the marks that are official now.
\<close>

section \<open>When there is no blocker\<close>

lemma ready_status_iff:
  "determine_readiness_status st bs sub dr = ''ready_for_reports'' \<longleftrightarrow> bs = [] \<and> st = Some ''complete''"
  by (cases bs) (auto simp: determine_readiness_status_def blocker_codes_def Let_def)

lemma run_blockers_Nil:
  "run_blockers run = [] \<longleftrightarrow> (\<exists>q. run = Some q \<and> cr_status q \<notin> {''failed'', ''blocked''} \<and> cr_missing q \<le> 0)"
  by (auto simp: run_blockers_def split: option.splits)

lemma submission_blockers_Nil: "submission_blockers sub dr = [] \<longleftrightarrow> sub"
  by (simp add: submission_blockers_def)

lemma correction_blockers_Nil: "correction_readiness_blockers cs = [] \<longleftrightarrow> cs = []"
  by (simp add: correction_readiness_blockers_def)

lemma internal_types: "ty \<in> set schema_required_types \<Longrightarrow> is_internal_assessment_type ty"
  by (auto simp: schema_required_types_def is_internal_assessment_type_def INTERNAL_ASSESSMENT_TYPES_def)

text \<open>The schema an internal assessment needs: one that is neither a draft nor out of use.\<close>

definition schema_ready :: "'a grading_db_scheme \<Rightarrow> school \<Rightarrow> assessment \<Rightarrow> bool" where
  "schema_ready db t a \<longleftrightarrow> (as_type a \<in> set schema_required_types \<longrightarrow>
     (\<exists>s. get_assessment_schema_binding db t a = Some s \<and> gs_status s \<notin> {''draft'', ''deprecated'', ''retired''}))"

lemma schema_blockers_Nil:
  "schema_readiness_blockers (as_type a) (as_type a \<in> set schema_required_types) (map_option gs_status (get_assessment_schema_binding db t a)) = []
     \<longleftrightarrow> schema_ready db t a"
  by (auto simp: schema_readiness_blockers_def schema_ready_def internal_types split: option.splits)

lemma cct_blockers_Nil:
  "cct_readiness_blockers bound adoption withdrawn rollbacks impacts = [] \<longleftrightarrow>
     bound \<and> adoption \<and> \<not> withdrawn \<and> rollbacks = 0 \<and> impacts = 0"
  by (auto simp: cct_readiness_blockers_def)

text \<open>Nothing the run was compiled from is newer than the run.\<close>

definition up_to_date :: "compilation_run \<Rightarrow> assessment \<Rightarrow> submission_batch list \<Rightarrow> bool" where
  "up_to_date q a submitted \<longleftrightarrow> (\<exists>c. cr_compiled_at q = Some c \<and> as_updated_at a \<le> c \<and>
     (\<forall>b\<in>set submitted. \<forall>s. bt_submitted_at b = Some s \<longrightarrow> s \<le> c))"

lemma map_filter_times: "set (List.map_filter f xs) = {y. \<exists>x\<in>set xs. f x = Some y}"
  by (induction xs) (auto simp: List.map_filter_simps split: option.splits)

lemma after_max: "after_opt (max_opt ts) (Some c) \<longleftrightarrow> (\<exists>t\<in>set ts. c < t)"
proof (cases "ts = []")
  case False
  then have "c < Max (set ts) \<longleftrightarrow> (\<exists>t\<in>set ts. c < t)" by (simp add: Max_gr_iff)
  then show ?thesis using False by (simp add: after_opt_def max_opt_def)
qed (simp add: after_opt_def max_opt_def)

lemma fresh_iff:
  "\<not> fr_is_stale (freshness_of (Some q) a submitted []) \<longleftrightarrow> cr_status q \<noteq> ''stale'' \<and> up_to_date q a submitted"
proof (cases "cr_compiled_at q")
  case None
  then show ?thesis by (simp add: freshness_of_def detect_stale_compilation_def Let_def up_to_date_def)
next
  case (Some c)
  have "after_opt (max_opt (List.map_filter bt_submitted_at submitted)) (Some c) \<longleftrightarrow>
      \<not> (\<forall>b\<in>set submitted. \<forall>s. bt_submitted_at b = Some s \<longrightarrow> s \<le> c)"
    by (auto simp: after_max map_filter_times not_le)
  moreover have "\<not> after_opt (max_opt []) (Some c)" by (simp add: after_max)
  moreover have "after_opt (Some (as_updated_at a)) (Some c) \<longleftrightarrow> c < as_updated_at a" by (simp add: after_opt_def)
  ultimately show ?thesis using Some
    by (auto simp: freshness_of_def detect_stale_compilation_def Let_def up_to_date_def not_less)
qed

definition submitted_batches_of :: "'a grading_db_scheme \<Rightarrow> school \<Rightarrow> assessment \<Rightarrow> submission_batch list" where
  "submitted_batches_of db t a = filter (\<lambda>b. bt_status b \<in> set submitted_statuses) (get_readiness_batches_for_assessment db t a)"

text \<open>The count of records without a required component, as the cohort summary of the run holds it.\<close>

definition components_marked :: "'a compiled_db_scheme \<Rightarrow> compilation_run \<Rightarrow> bool" where
  "components_marked db q \<longleftrightarrow> component_readiness_blockers
     (case map_option sm_component_summary (first_where (\<lambda>m. sm_run m = cr_id q) (cohort_summaries db)) of
        Some (JObj kvs) \<Rightarrow> kvs | _ \<Rightarrow> []) = Inr []"

text \<open>The curriculum lets the assessment be reported.\<close>

definition curriculum_clear :: "'a readiness_db_scheme \<Rightarrow> school \<Rightarrow> assessment \<Rightarrow> bool" where
  "curriculum_clear db t a \<longleftrightarrow> is_operationally_bound db a \<and>
     get_cct_blockers_for_assessment db t a =
       Inr \<lparr>ct_has_adoption = True, ct_withdrawn = False, ct_rollback_count = 0, ct_impact_count = 0\<rparr>"

lemma ready_iff:
  "(\<exists>r. build_assessment_readiness db t a = Inr r \<and> rd_report_ready r) \<longleftrightarrow>
     (\<exists>q. get_latest_compilation_run db t a = Some q \<and> cr_status q = ''complete'' \<and> cr_missing q \<le> 0 \<and> components_marked db q \<and>
        submitted_batches_of db t a \<noteq> [] \<and> up_to_date q a (submitted_batches_of db t a)) \<and>
     get_pending_corrections_for_assessment db t a = [] \<and> schema_ready db t a \<and> curriculum_clear db t a"
    (is "?ready \<longleftrightarrow> ?clear")
proof
  assume ?ready
  then obtain r where r: "build_assessment_readiness db t a = Inr r" and ready: "rd_report_ready r" by blast
  let ?run = "get_latest_compilation_run db t a"
  let ?cs = "get_pending_corrections_for_assessment db t a"
  from r obtain cct cb where cct: "get_cct_blockers_for_assessment db t a = Inr cct"
    and cb: "component_readiness_blockers (case map_option sm_component_summary (Option.bind ?run (\<lambda>q. first_where (\<lambda>m. sm_run m = cr_id q)
        (cohort_summaries db))) of Some (JObj kvs) \<Rightarrow> kvs | _ \<Rightarrow> []) = Inr cb"
    and eq: "rd_report_ready r = (determine_readiness_status (map_option cr_status ?run)
       (run_blockers ?run @ submission_blockers (submitted_batches_of db t a \<noteq> []) (get_readiness_drafts_for_assessment db t a \<noteq> [])
        @ correction_readiness_blockers ?cs
        @ schema_readiness_blockers (as_type a) (as_type a \<in> set schema_required_types) (map_option gs_status (get_assessment_schema_binding db t a))
        @ cb @ (if fr_is_stale (freshness_of ?run a (submitted_batches_of db t a) ?cs)
                then [blocker ''stale_compilation'' ''Compilation is stale and must be reviewed.'' ''assessment'' ''blocking'' (map_option cr_id ?run)] else [])
        @ cct_readiness_blockers (is_operationally_bound db a) (ct_has_adoption cct) (ct_withdrawn cct) (ct_rollback_count cct) (ct_impact_count cct))
       (submitted_batches_of db t a \<noteq> []) (get_readiness_drafts_for_assessment db t a \<noteq> []) = ''ready_for_reports'')"
    unfolding build_assessment_readiness_def Let_def submitted_batches_of_def
    by (auto simp: ebind_eq_Inr build_report_readiness_summary_def Let_def)
  note d = ready [unfolded eq ready_status_iff append_is_Nil_conv]
  from d obtain q where q: "?run = Some q" "cr_status q = ''complete''" by auto
  have cs: "?cs = []" using d by (simp add: correction_blockers_Nil)
  have f: "up_to_date q a (submitted_batches_of db t a)" using d q cs fresh_iff [of q a "submitted_batches_of db t a"] by (simp split: if_splits)
  have c: "cct = \<lparr>ct_has_adoption = True, ct_withdrawn = False, ct_rollback_count = 0, ct_impact_count = 0\<rparr>" "is_operationally_bound db a"
    using d by (simp_all add: cct_blockers_Nil)
  have m: "components_marked db q" using cb d by (simp add: components_marked_def q)
  have "schema_ready db t a" using d by (simp add: schema_blockers_Nil)
  moreover have "cr_missing q \<le> 0" "submitted_batches_of db t a \<noteq> []"
    using d by (simp_all add: run_blockers_Nil submission_blockers_Nil q)
  ultimately show ?clear using q cs f c m cct by (simp add: curriculum_clear_def)
next
  assume ?clear
  then obtain q where q: "get_latest_compilation_run db t a = Some q" "cr_status q = ''complete''" "cr_missing q \<le> 0" "components_marked db q"
    "submitted_batches_of db t a \<noteq> []" "up_to_date q a (submitted_batches_of db t a)" by blast
  have rest: "get_pending_corrections_for_assessment db t a = []" "schema_ready db t a" "curriculum_clear db t a" using \<open>?clear\<close> by blast+
  have "\<not> fr_is_stale (freshness_of (Some q) a (submitted_batches_of db t a) [])" using q by (simp add: fresh_iff)
  then show ?ready
    using q rest unfolding build_assessment_readiness_def Let_def submitted_batches_of_def [symmetric] curriculum_clear_def components_marked_def
    by (simp add: build_report_readiness_summary_def Let_def ready_status_iff run_blockers_Nil submission_blockers_Nil
        correction_blockers_Nil schema_blockers_Nil cct_blockers_Nil)
qed

section \<open>Properties\<close>

text \<open>C25: An assessment may be reported exactly when its latest run is complete, misses no learner and no required
  component, was compiled after the assessment's last change and after every submission, there is a
  submitted batch, no correction is pending, an internal assessment has a schema in use, and the
  curriculum is bound, adopted, not withdrawn and free of rollback and impact plans, even those that
  only ask for a review.\<close>

theorem readiness_iff:
  "(\<exists>r. build_assessment_readiness db t a = Inr r \<and> rd_report_ready r) \<longleftrightarrow>
     (\<exists>q. get_latest_compilation_run db t a = Some q \<and> cr_status q = ''complete'' \<and> cr_missing q \<le> 0 \<and> components_marked db q \<and>
        submitted_batches_of db t a \<noteq> [] \<and> up_to_date q a (submitted_batches_of db t a)) \<and>
     get_pending_corrections_for_assessment db t a = [] \<and> schema_ready db t a \<and> curriculum_clear db t a"
  by (rule ready_iff)

lemma latest_run_row: "get_latest_compilation_run db t a = Some q \<Longrightarrow> q \<in> set (compilation_runs db) \<and> cr_tenant q = sc_id t \<and> cr_assessment q = as_id a"
proof -
  assume "get_latest_compilation_run db t a = Some q"
  then have "q \<in> set (filter (\<lambda>q. cr_tenant q = sc_id t \<and> cr_assessment q = as_id a) (compilation_runs db))"
    unfolding get_latest_compilation_run_def by (metis (no_types, lifting) list.case_eq_if list.set_sel(1) option.distinct(1) option.inject set_rev set_sort)
  then show ?thesis by simp
qed

text \<open>A ready assessment's latest run is live, so its snapshots repeat the official scores.\<close>

lemma ready_current:
  assumes ok: "compiled_ok db" and r: "build_assessment_readiness db t a = Inr r" "rd_report_ready r"
    and s: "s \<in> set (learner_snapshots db)" "ls_run s = rd_run r"
  shows "ls_assessment s = as_id a \<and> (\<exists>g\<in>set (grade_records db). \<exists>a'\<in>set (assessments db). rec_tenant g = sc_id t \<and>
    rec_assessment g = as_id a \<and> rec_student g = ls_student s \<and> as_id a' = as_id a \<and> build_score_summary g a' = Inr (ls_score_summary s))"
proof -
  have "\<exists>r. build_assessment_readiness db t a = Inr r \<and> rd_report_ready r" using r by blast
  then obtain q where q: "get_latest_compilation_run db t a = Some q" "cr_status q = ''complete''" unfolding ready_iff by blast
  note row = latest_run_row [OF q(1)]
  have "rd_run r = cr_id q"
    using r(1) unfolding build_assessment_readiness_def Let_def by (auto simp: ebind_eq_Inr build_report_readiness_summary_def Let_def q(1))
  moreover have "repeats_marks db q" by (rule compiled_ok_live(1) [OF ok]) (use row q(2) in simp_all)
  ultimately show ?thesis using s row unfolding repeats_marks_def mark_place_def by fastforce
qed

text \<open>C26: What is reported is current: whatever drafts, submissions, corrections and compilations ran before, when an
  assessment is ready, each learner snapshot of its latest run repeats the score the learner's
  official record holds now.\<close>

theorem ready_means_current:
  assumes "(school_step sha isoformat)\<^sup>*\<^sup>* db0 db" and "compiled_ok db0" and "marks_ok db0"
    and "build_assessment_readiness db t a = Inr r" and "rd_report_ready r"
    and "s \<in> set (learner_snapshots db)" and "ls_run s = rd_run r"
  shows "\<exists>g\<in>set (grade_records db). \<exists>a'\<in>set (assessments db). rec_tenant g = sc_id t \<and> rec_assessment g = as_id a \<and>
    rec_student g = ls_student s \<and> as_id a' = as_id a \<and> build_score_summary g a' = Inr (ls_score_summary s)"
  using ready_current [OF _ assms(4-7)] school_run_ok [OF assms(1)] assms(2,3) by blast

section \<open>Instances\<close>

definition report_assessment :: assessment where
  "report_assessment = sample_assessment\<lparr>as_type := ''cbe_rubric_assessment''\<rparr>"

definition report_run :: compilation_run where
  "report_run = \<lparr>cr_id = ''j1'', cr_tenant = ''s1'', cr_assessment = ''x1'', cr_requested_by = Some ''u9'', cr_status = ''complete'',
     cr_expected = 1, cr_submitted = 1, cr_missing = 0, cr_source_batch_ids = [''b1''], cr_error_summary = [],
     cr_compiled_at = Some 6, cr_created_at = 6\<rparr>"

definition report_snapshot :: learner_snapshot where
  "report_snapshot = \<lparr>ls_id = ''o1'', ls_tenant = ''s1'', ls_run = ''j1'', ls_assessment = ''x1'', ls_student = ''p1'', ls_cohort = ''c1'',
     ls_learning_area = ''l1'', ls_version = ''v1'', ls_rubric = Some ''f1'', ls_status = ''complete'',
     ls_score_summary = projr (build_score_summary sample_record report_assessment), ls_component_summary = JObj [],
     ls_missing_marks = JList [], ls_band_status = [], ls_source_batch_ids = [''b1''], ls_compiled_at = 6\<rparr>"

definition sample_report :: readiness_db where
  "sample_report = compiled_db.extend (grading_db.extend (sample_corrections\<lparr>corrections := [], assessments := [report_assessment],
       compilation_runs := [report_run]\<rparr>) (compiled_db.fields [] [report_snapshot] [])) (readiness_db.fields [] [])"

lemma sample_report_parts:
  "schools sample_report = schools sample_corrections" "users sample_report = users sample_corrections"
  "roles sample_report = roles sample_corrections" "role_bindings sample_report = role_bindings sample_corrections"
  "students sample_report = students sample_corrections" "enrollments sample_report = enrollments sample_corrections"
  "grade_records sample_report = grade_records sample_corrections" "submission_batches sample_report = submission_batches sample_corrections"
  "components sample_report = components sample_corrections" "draft_batches sample_report = draft_batches sample_corrections"
  "withdrawals sample_report = withdrawals sample_corrections" "rollback_plans sample_report = rollback_plans sample_corrections"
  "adoptions sample_report = adoptions sample_corrections" "rubrics sample_report = rubrics sample_corrections"
  "outcomes sample_report = outcomes sample_corrections" "sub_strands sample_report = sub_strands sample_corrections"
  "strands sample_report = strands sample_corrections" "curriculum_areas sample_report = curriculum_areas sample_corrections"
  "cohorts sample_report = cohorts sample_corrections" "learning_areas sample_report = learning_areas sample_corrections"
  "versions sample_report = versions sample_corrections"
  by (simp_all only: sample_report_def compiled_db.extend_def grading_db.extend_def academic_db.select_convs identity_db.select_convs
      curriculum_db.select_convs grading_db.select_convs) simp_all

lemma sample_report_tables:
  "corrections sample_report = []" "assessments sample_report = [report_assessment]" "compilation_runs sample_report = [report_run]"
  "assessment_snapshots sample_report = []" "learner_snapshots sample_report = [report_snapshot]" "cohort_summaries sample_report = []"
  "impact_plans sample_report = []"
  by (simp_all add: sample_report_def compiled_db.defs grading_db.defs readiness_db.defs)

lemmas sample_report_simps = sample_report_parts sample_people sample_report_tables

lemma report_assessment_simps:
  "as_id report_assessment = ''x1''" "as_tenant report_assessment = ''s1''" "as_cohort report_assessment = ''c1''"
  "as_learning_area report_assessment = ''l1''" "as_max_score report_assessment = Fin False 10000 (-2)" "as_status report_assessment = ''open''"
  "as_academic_year report_assessment = ''y1''" "as_term report_assessment = ''t1''" "as_type report_assessment = ''cbe_rubric_assessment''"
  "as_version report_assessment = Some ''v1''" "as_rubric report_assessment = Some ''f1''" "as_updated_at report_assessment = 1"
  by (simp_all add: report_assessment_def sample_assessment_def)

lemma report_bound: "is_operationally_bound sample_report report_assessment"
proof -
  have "rubrics sample_corrections = rubrics sample_grading" "outcomes sample_corrections = outcomes sample_grading"
    "sub_strands sample_corrections = sub_strands sample_grading" "strands sample_corrections = strands sample_grading"
    "curriculum_areas sample_corrections = curriculum_areas sample_grading" by (simp_all add: sample_corrections_def)
  then have "rubric_row sample_report = rubric_row sample_grading" "rubric_sub_strand sample_report = rubric_sub_strand sample_grading"
    "sub_strand_area sample_report = sub_strand_area sample_grading"
    by (simp_all add: fun_eq_iff rubric_row_def rubric_sub_strand_def outcome_row_def
        sub_strand_area_def sub_strand_row_def strand_row_def curriculum_area_row_def sample_report_parts cong: option.case_cong)
  moreover have "as_status report_assessment = as_status sample_assessment" "as_version report_assessment = as_version sample_assessment"
    "as_rubric report_assessment = as_rubric sample_assessment" "as_learning_area report_assessment = as_learning_area sample_assessment"
    "as_locked_at report_assessment = as_locked_at sample_assessment" by (simp_all add: report_assessment_def)
  ultimately have "is_operationally_bound sample_report report_assessment = is_operationally_bound sample_grading sample_assessment"
    by (simp only: is_operationally_bound_def rubric_matches_assessment_context_def)
  then show ?thesis using sample_bound by simp
qed

lemma report_percentage: "percentage (Fin False 4000 (-2)) (Fin False 10000 (-2)) = Inr (Fin False 4000 (-2))"
proof -
  have "dec_le (Fin False 10000 (-2)) dec_0 = Inr False" by (simp add: dec_0_def dec_le_finite sval_def dval_def)
  then show ?thesis using dec_percent_exact [of 4000 10000 "-2"] by (simp add: percentage_def)
qed

lemma report_score: "build_score_summary sample_record report_assessment = Inr (ls_score_summary report_snapshot)"
  by (simp add: report_snapshot_def build_score_summary_def sample_record_def report_assessment_simps report_percentage)

lemma sample_report_ok: "compiled_ok sample_report" "marks_ok sample_report"
proof -
  have "repeats_marks sample_report report_run"
    by (simp add: repeats_marks_def sample_report_simps mark_place_def report_score)
      (simp add: report_run_def report_snapshot_def sample_record_def report_assessment_simps)
  then show "compiled_ok sample_report" by (simp add: compiled_ok_def sample_report_simps) (simp add: report_snapshot_def report_run_def)
  show "marks_ok sample_report" by (simp add: marks_ok_def sample_report_simps)
qed

lemma sample_report_ready:
  "\<exists>r. build_assessment_readiness sample_report sample_school report_assessment = Inr r \<and> rd_report_ready r \<and> rd_run r = ''j1''"
proof -
  have run: "get_latest_compilation_run sample_report sample_school report_assessment = Some report_run"
    by (simp add: get_latest_compilation_run_def sample_report_simps) (simp add: report_run_def sample_school_def report_assessment_simps)
  have c: "get_cct_blockers_for_assessment sample_report sample_school report_assessment =
       Inr \<lparr>ct_has_adoption = True, ct_withdrawn = False, ct_rollback_count = 0, ct_impact_count = 0\<rparr>"
    by (simp add: get_cct_blockers_for_assessment_def sample_report_simps report_assessment_simps sample_school_def live_adoption_def)
      (simp add: sample_corrections_def sample_grading_simps)
  have s: "submitted_batches_of sample_report sample_school report_assessment = [sample_batch]"
    by (simp add: submitted_batches_of_def get_readiness_batches_for_assessment_def sample_report_simps report_assessment_simps
        sample_school_def sample_batch_def submitted_statuses_def)
  have "\<exists>r. build_assessment_readiness sample_report sample_school report_assessment = Inr r \<and> rd_report_ready r"
    unfolding ready_iff s
    using run c report_bound
    by (simp add: components_marked_def curriculum_clear_def schema_ready_def first_where_def sample_report_simps
        get_pending_corrections_for_assessment_def component_readiness_blockers_def py_int_def or_json_def jget_def)
      (simp add: report_run_def up_to_date_def report_assessment_simps sample_batch_def schema_required_types_def)
  then obtain r where r: "build_assessment_readiness sample_report sample_school report_assessment = Inr r" "rd_report_ready r" by blast
  moreover have "rd_run r = ''j1''"
    using r(1) unfolding build_assessment_readiness_def Let_def
    by (auto simp: ebind_eq_Inr build_report_readiness_summary_def Let_def run) (simp add: report_run_def)
  ultimately show ?thesis by blast
qed

theorem ready_means_current_witness:
  "\<exists>r. build_assessment_readiness sample_report sample_school report_assessment = Inr r \<and> rd_report_ready r \<and>
     (\<exists>g\<in>set (grade_records sample_report). rec_student g = ''p1'' \<and> rec_raw_score g = Fin False 4000 (-2))"
proof -
  obtain r where r: "build_assessment_readiness sample_report sample_school report_assessment = Inr r" "rd_report_ready r" "rd_run r = ''j1''"
    using sample_report_ready by blast
  have "report_snapshot \<in> set (learner_snapshots sample_report)" "ls_run report_snapshot = rd_run r"
    by (simp_all add: sample_report_simps r(3)) (simp add: report_snapshot_def)
  from ready_means_current [OF rtranclp.rtrancl_refl sample_report_ok r(1,2) this]
  obtain g where "g \<in> set (grade_records sample_report)" "rec_student g = ''p1''" by (auto simp: report_snapshot_def)
  moreover from this have "rec_raw_score g = Fin False 4000 (-2)" by (simp add: sample_report_simps sample_record_def)
  ultimately show ?thesis using r by blast
qed

definition report_admin :: user where "report_admin = \<lparr>us_id = ''u9'', us_is_active = True\<rparr>"

definition report_ids :: compilation_ids where
  "report_ids = \<lparr>ni_run = ''j2'', ni_snapshot = ''n2'', ni_summary = ''m2'', ni_learner = (\<lambda>k. ''o2'')\<rparr>"

lemma report_admin_context:
  "policy_context_for sample_report (Some report_admin) (Some sample_school) act [''principal'', ''school_admin'', ''hod'']
     = \<lparr>ctx_tenant = Some sample_school, ctx_actor = Some report_admin, ctx_action = act,
        ctx_role = Some \<lparr>ro_id = ''r9'', ro_code = ''school_admin'', ro_name = ''A'', ro_description = [], ro_is_active = True\<rparr>\<rparr>"
  by (simp add: policy_context_for_def role_for_def role_row_is_def first_where_def sample_report_simps sample_school_def report_admin_def)

lemma report_can_compile:
  "can_compile_assessment sample_report (policy_context_for sample_report (Some report_admin) (Some sample_school)
     ''grading.compilation.compile'' [''principal'', ''school_admin'', ''hod'']) report_assessment"
  using report_bound unfolding report_admin_context
  by (simp add: can_compile_assessment_def resource_in_tenant_def role_in_def context_is_valid_def user_has_role_in_tenant_def
      get_roles_for_user_in_tenant_def get_active_tenant_user_role_bindings_def role_row_is_def user_active_def school_active_def
      sample_report_simps sample_school_def report_admin_def report_assessment_simps)

definition report_facts :: compilation_facts where
  "report_facts = projr (gather_compilation sample_school ''x1'' (Some report_admin) sample_report)"

definition report_input :: compilation_input where
  "report_input = \<lparr>ci_tenant_id = ''s1'', ci_assessment = report_assessment, ci_roster = [''p1''], ci_records = [sample_record],
     ci_components = [], ci_source_batch_ids = [''b1'']\<rparr>"

lemma report_components:
  "record_component_summary [] (Fin False 10000 (-2)) sample_record = Inr \<lparr>ps_mode = ''simple'', ps_components = [], ps_total = None, ps_missing_required = []\<rparr>"
proof -
  have "validate_score_bounds (dec_str (Fin False 0 (-2))) (dec_str (Fin False 10000 (-2))) = Inr (Fin False 0 (-2))"
    by (simp add: validate_score_bounds_def to_decimal_def dec_le_def dec_less_def dec_0_def align_def signed_def)
  then show ?thesis
    by (simp add: record_component_summary_def component_scores_of_def or_json_def build_component_summary_def component_total_def sample_record_def)
qed

lemma report_gather:
  "gather_compilation sample_school ''x1'' (Some report_admin) sample_report = Inr report_facts"
  "cp_assessment report_facts = report_assessment" "cp_user report_facts = report_admin" "cp_version report_facts = ''v1''"
  "cp_input report_facts = report_input" "cp_missing report_facts = []" "cp_invalid report_facts = []"
  "cp_status report_facts = ''complete''" "cp_expected report_facts = 1" "cp_submitted report_facts = 1" "cp_absent report_facts = 0"
  "cp_completion report_facts = Fin False 10000 (-2)" "json_field (cp_component_summary report_facts)" "json_field (cp_summary report_facts)"
proof -
  have a: "first_where (\<lambda>a. as_id a = ''x1'' \<and> as_tenant a = sc_id sample_school) (assessments sample_report) = Some report_assessment"
    by (simp add: first_where_def sample_report_simps report_assessment_simps sample_school_def)
  have parts: "get_expected_roster_for_compilation sample_report sample_school report_assessment = students sample_corrections"
    "get_submitted_records_for_assessment sample_report sample_school report_assessment = [sample_record]"
    "get_assessment_components_for_compilation sample_report sample_school report_assessment = []"
    subgoal by (simp add: get_expected_roster_for_compilation_def get_roster_for_assessment_def sample_report_simps report_assessment_simps sample_school_def)
    subgoal by (simp add: get_submitted_records_for_assessment_def sample_report_simps batch_row_def first_where_def)
      (simp add: sample_record_def sample_batch_def report_assessment_simps sample_school_def)
    subgoal by (simp add: get_assessment_components_for_compilation_def sample_report_simps) (simp add: sample_corrections_def sample_grading_simps)
    done
  have b: "build_compilation_input sample_report (Some sample_school) (Some report_assessment) (students sample_corrections) [sample_record] []
      = Inr report_input"
    by (simp add: build_compilation_input_def report_input_def report_assessment_simps report_bound record_in_scope_def batch_row_def first_where_def
        sample_report_simps) (simp add: sample_record_def sample_batch_def sample_school_def py_sorted_set_def)
  have m: "detect_missing_marks [''p1''] [sample_record] [] = Inr []"
    by (simp add: detect_missing_marks_def scan_record_def missing_components_def sample_record_def py_sorted_set_def)
  have i: "detect_invalid_component_scores [sample_record] [] (Fin False 10000 (-2)) = Inr []"
    by (simp add: detect_invalid_component_scores_def report_components)
  have c: "completion_percentage 1 1 = Inr (Fin False 10000 (-2))"
    using dec_percent_exact [of 1 1 0] by (simp add: completion_percentage_def dec_int_def)
  have r: "rec_student sample_record = ''p1''" by (simp add: sample_record_def)
  have "\<exists>p. gather_compilation sample_school ''x1'' (Some report_admin) sample_report = Inr p \<and> cp_assessment p = report_assessment \<and>
      cp_user p = report_admin \<and> cp_version p = ''v1'' \<and> cp_input p = report_input \<and> cp_missing p = [] \<and> cp_invalid p = [] \<and>
      cp_status p = ''complete'' \<and> cp_expected p = 1 \<and> cp_submitted p = 1 \<and> cp_absent p = 0 \<and> cp_completion p = Fin False 10000 (-2) \<and>
      json_field (cp_component_summary p) \<and> json_field (cp_summary p)"
    by (simp add: gather_compilation_def a report_can_compile parts b m i c r report_assessment_simps build_cohort_summary_def Let_def
        report_input_def determine_compilation_status_def component_completion_summary_def json_field_def)
  then show "gather_compilation sample_school ''x1'' (Some report_admin) sample_report = Inr report_facts"
    "cp_assessment report_facts = report_assessment" "cp_user report_facts = report_admin" "cp_version report_facts = ''v1''"
    "cp_input report_facts = report_input" "cp_missing report_facts = []" "cp_invalid report_facts = []"
    "cp_status report_facts = ''complete''" "cp_expected report_facts = 1" "cp_submitted report_facts = 1" "cp_absent report_facts = 0"
    "cp_completion report_facts = Fin False 10000 (-2)" "json_field (cp_component_summary report_facts)" "json_field (cp_summary report_facts)"
    by (auto simp: report_facts_def)
qed

lemma report_compiles:
  "\<exists>q db'. compile_in_transaction 9 report_ids sample_school ''x1'' (Some report_admin) sample_report = (Inr (report_facts, q), db')"
proof -
  let ?q = "new_run 9 report_ids sample_school report_facts"
  have q: "?q = \<lparr>cr_id = ''j2'', cr_tenant = ''s1'', cr_assessment = ''x1'', cr_requested_by = Some ''u9'', cr_status = ''complete'',
      cr_expected = 1, cr_submitted = 1, cr_missing = 0, cr_source_batch_ids = [''b1''], cr_error_summary = [],
      cr_compiled_at = Some 9, cr_created_at = 9\<rparr>"
    by (simp add: new_run_def report_ids_def sample_school_def report_gather report_assessment_simps report_admin_def report_input_def
        py_sorted_set_def)
  have rq: "run_full_clean sample_report ?q = Inr ?q"
    by (simp add: q run_full_clean_def school_exists_def opt_fk_def user_exists_def compilation_statuses_def positive_integer_field_def
        assessment_row_def first_where_def sample_report_simps report_assessment_simps)
  let ?d = "mark_other_runs_stale ?q (add_run ?q sample_report)"
  note tables = mark_other_runs_stale_def add_run_def add_snapshot_def add_summary_def sample_report_simps
  have ex: "school_exists ?d t = school_exists sample_report t" "run_row ?d ''j2'' \<noteq> None" "cohort_row ?d c = cohort_row sample_report c"
    "learning_area_row ?d l = learning_area_row sample_report l" "version_exists ?d v = version_exists sample_report v"
    "rubric_row ?d u = rubric_row sample_report u" "assessment_row ?d ''x1'' = Some report_assessment"
    "assessment_snapshots ?d = []" "cohort_summaries ?d = []" "learner_snapshots ?d = [report_snapshot]" for t c l v u
    by (simp_all add: tables school_exists_def run_row_def cohort_row_def learning_area_row_def version_exists_def version_row_def
        rubric_row_def assessment_row_def first_where_def report_assessment_simps q update_where_def)
  have rows: "school_exists sample_report ''s1''" "cohort_row sample_report ''c1'' \<noteq> None" "learning_area_row sample_report ''l1'' \<noteq> None"
    "version_exists sample_report ''v1''" "rubric_row sample_report ''f1'' \<noteq> None"
    by (simp_all add: school_exists_def cohort_row_def learning_area_row_def version_exists_def version_row_def rubric_row_def first_where_def
        sample_report_simps) (simp_all add: sample_corrections_def sample_grading_simps)
  let ?n = "\<lparr>an_id = ''n2'', an_tenant = ''s1'', an_run = ''j2'', an_assessment = ''x1'', an_cohort = ''c1'',
      an_learning_area = ''l1'', an_version = ''v1'', an_rubric = Some ''f1'', an_status = ''complete'',
      an_context = compilation_context_snapshot report_assessment, an_summary = cp_summary report_facts, an_compiled_at = 9\<rparr>"
  let ?m = "\<lparr>sm_id = ''m2'', sm_tenant = ''s1'', sm_run = ''j2'', sm_assessment = ''x1'', sm_cohort = ''c1'', sm_learning_area = ''l1'',
      sm_expected = 1, sm_submitted = 1, sm_missing = 0, sm_completion = Fin False 10000 (-2),
      sm_component_summary = cp_component_summary report_facts, sm_status = ''complete'', sm_compiled_at = 9\<rparr>"
  have "json_field (compilation_context_snapshot report_assessment)"
    by (simp add: compilation_context_snapshot_def json_field_def)
  then have n: "snapshot_full_clean ?d ?n = Inr ?n"
    using ex(2) rows by (simp add: snapshot_full_clean_def ex opt_fk_def char_field_def report_gather report_assessment_simps)
  have d: "school_exists (add_snapshot ?n ?d) = school_exists ?d" "run_row (add_snapshot ?n ?d) = run_row ?d"
    "cohort_row (add_snapshot ?n ?d) = cohort_row ?d" "learning_area_row (add_snapshot ?n ?d) = learning_area_row ?d"
    "assessment_row (add_snapshot ?n ?d) = assessment_row ?d" "cohort_summaries (add_snapshot ?n ?d) = cohort_summaries ?d"
    "learner_snapshots (add_summary ?m (add_snapshot ?n ?d)) = learner_snapshots ?d"
    by (simp_all add: fun_eq_iff add_snapshot_def add_summary_def school_exists_def run_row_def cohort_row_def learning_area_row_def assessment_row_def)
  have m: "summary_full_clean (add_snapshot ?n ?d) ?m = Inr ?m"
    using ex(2) rows by (simp add: summary_full_clean_def d ex char_field_def report_gather report_assessment_simps positive_integer_field_def
        decimal_field_def ndigits.simps)
  obtain f where f: "build_learner_snapshots report_input [] ''complete'' = Inr [f]" "lf_learner_id f = ''p1''"
    by (simp add: build_learner_snapshots_def learner_facts_for_def Let_def report_input_def report_assessment_simps report_components report_score)
      (simp add: sample_record_def)
  have ids: "cr_id ?q = ''j2''" "sc_id sample_school = ''s1''" "ni_snapshot report_ids = ''n2''" "ni_summary report_ids = ''m2''"
    by (simp add: q) (simp_all add: sample_school_def report_ids_def)
  let ?s = "new_learner_snapshot 9 report_ids sample_school report_facts (0, f)"
  let ?d3 = "add_summary ?m (add_snapshot ?n ?d)"
  have "ls_run ?s = ''j2''" "ls_run report_snapshot = ''j1''" by (simp_all add: new_learner_snapshot_def report_ids_def report_snapshot_def)
  then have b: "bulk_create_learner_snapshots [?s] ?d3 = (Inr (), ?d3\<lparr>learner_snapshots := [report_snapshot, ?s]\<rparr>)"
    by (simp add: bulk_create_learner_snapshots_def Let_def d ex)
  have "store_compilation 9 report_ids sample_school report_facts sample_report = (Inr ?q, ?d3\<lparr>learner_snapshots := [report_snapshot, ?s]\<rparr>)"
    unfolding store_compilation_def Let_def
    by (simp add: abind_def save_row_def alift_def report_gather report_assessment_simps ids rq n m f b)
  then show ?thesis by (simp add: compile_in_transaction_def atomic_def abind_def query_def report_gather alift_def)
qed

theorem compilation_outcome_witness:
  "\<exists>q db'. compile_in_transaction 9 report_ids sample_school ''x1'' (Some report_admin) sample_report = (Inr (report_facts, q), db') \<and>
     cr_submitted q + cr_missing q = cr_expected q \<and> q \<in> set (compilation_runs db') \<and>
     (\<exists>new. learner_snapshots db' = report_snapshot # new \<and> length new = 1)"
proof -
  obtain q db' where e: "compile_in_transaction 9 report_ids sample_school ''x1'' (Some report_admin) sample_report = (Inr (report_facts, q), db')"
    using report_compiles by blast
  note out = compilation_outcome [OF e]
  have r: "get_submitted_records_for_assessment sample_report sample_school (cp_assessment report_facts) = [sample_record]"
    by (simp add: report_gather get_submitted_records_for_assessment_def sample_report_simps batch_row_def first_where_def)
      (simp add: sample_record_def sample_batch_def report_assessment_simps sample_school_def)
  have "\<exists>new. learner_snapshots db' = learner_snapshots sample_report @ new \<and>
      map ls_student new = map rec_student (sort_key rec_student [sample_record])" using out unfolding r by blast
  then have "\<exists>new. learner_snapshots db' = report_snapshot # new \<and> length new = 1"
    by (auto simp: sample_report_simps dest: arg_cong [where f = length])
  then show ?thesis using e out by blast
qed

end
