(* ===== verification/ReportFacts.thy ===== *)
theory ReportFacts
  imports Analytics ReadinessFacts
begin

text \<open>
  What a report snapshot freezes: the eligibility of every assessment of the period, one learner
  report per learner with a line, and lines that repeat official marks.
\<close>

section \<open>Saving rows\<close>

context state_order
begin

lemma obeys_save: "(\<And>r db. R db (ins r db)) \<Longrightarrow> obeys (save_row fc ins r)"
  by (rule obeysI) (simp add: save_row_def order_refl split: sum.splits)

end

section \<open>The tables a report leaves alone\<close>

definition only_reports :: "'a report_db_scheme \<Rightarrow> 'a report_db_scheme \<Rightarrow> bool" where
  "only_reports s t \<longleftrightarrow> t = s\<lparr>report_runs := report_runs t, eligibility_records := eligibility_records t,
     learner_reports := learner_reports t, subject_lines := subject_lines t, academic_aggregates := academic_aggregates t\<rparr>"

interpretation reports: state_order only_reports
proof
  show "only_reports s s" for s :: "'a report_db_scheme" by (simp add: only_reports_def)
  show "only_reports s t \<Longrightarrow> only_reports t u \<Longrightarrow> only_reports s u" for s t u :: "'a report_db_scheme"
    by (cases s; cases t; cases u) (simp add: only_reports_def)
qed

lemma only_reports_add [simp]:
  "only_reports db (add_report_run q db)" "only_reports db (put_report_run q db)" "only_reports db (add_eligibility e db)"
  "only_reports db (add_learner_report s db)" "only_reports db (add_subject_line l db)" "only_reports db (add_aggregate g db)"
  by (simp_all add: only_reports_def add_report_run_def put_report_run_def add_eligibility_def add_learner_report_def
      add_subject_line_def add_aggregate_def)

lemma only_reports_tables:
  assumes "only_reports s t"
  shows "schools t = schools s" "users t = users s" "roles t = roles s" "role_bindings t = role_bindings s"
    "academic_years t = academic_years s" "terms t = terms s" "grade_levels t = grade_levels s" "learning_areas t = learning_areas s"
    "cohorts t = cohorts s" "students t = students s" "enrollments t = enrollments s" "assignments t = assignments s"
    "adoptions t = adoptions s" "withdrawals t = withdrawals s" "rollback_plans t = rollback_plans s" "rubrics t = rubrics s"
    "outcomes t = outcomes s" "sub_strands t = sub_strands s" "strands t = strands s" "curriculum_areas t = curriculum_areas s"
    "assessments t = assessments s" "schemas t = schemas s" "submission_batches t = submission_batches s" "draft_batches t = draft_batches s"
    "grade_records t = grade_records s" "corrections t = corrections s" "compilation_runs t = compilation_runs s"
    "learner_snapshots t = learner_snapshots s" "cohort_summaries t = cohort_summaries s" "impact_plans t = impact_plans s"
    "school_metadata t = school_metadata s" "versions t = versions s"
  by (subst assms [unfolded only_reports_def], simp)+

text \<open>
  Readiness reads these tables only, whatever else the state holds; the impact plans enter it
  through the blockers of the curriculum.
\<close>

lemma readiness_of_blockers:
  assumes tabs:
    "assessments t = assessments s" "schemas t = schemas s" "grade_records t = grade_records s"
    "submission_batches t = submission_batches s" "draft_batches t = draft_batches s" "corrections t = corrections s"
    "rubrics t = rubrics s" "outcomes t = outcomes s"
    "sub_strands t = sub_strands s" "strands t = strands s" "curriculum_areas t = curriculum_areas s"
    "compilation_runs t = compilation_runs s" "cohort_summaries t = cohort_summaries s"
    and cct: "get_cct_blockers_for_assessment t tenant a = get_cct_blockers_for_assessment s tenant a"
  shows "build_assessment_readiness t tenant a = build_assessment_readiness s tenant a"
proof -
  have rows: "assessment_row t = assessment_row s" "grade_record_row t = grade_record_row s" "schema_row t = schema_row s"
    "rubric_row t = rubric_row s" "outcome_row t = outcome_row s" "sub_strand_row t = sub_strand_row s" "strand_row t = strand_row s"
    "curriculum_area_row t = curriculum_area_row s"
    by (simp_all add: fun_eq_iff assessment_row_def grade_record_row_def schema_row_def
        rubric_row_def outcome_row_def sub_strand_row_def strand_row_def curriculum_area_row_def tabs)
  then have subs: "rubric_sub_strand t = rubric_sub_strand s" "sub_strand_area t = sub_strand_area s"
    by (simp_all add: fun_eq_iff rubric_sub_strand_def sub_strand_area_def cong: option.case_cong)
  have "is_operationally_bound t a = is_operationally_bound s a"
    by (simp only: is_operationally_bound_def rubric_matches_assessment_context_def rows subs)
  moreover have "get_latest_compilation_run t tenant a = get_latest_compilation_run s tenant a"
    "get_readiness_batches_for_assessment t tenant a = get_readiness_batches_for_assessment s tenant a"
    "get_readiness_drafts_for_assessment t tenant a = get_readiness_drafts_for_assessment s tenant a"
    "get_pending_corrections_for_assessment t tenant a = get_pending_corrections_for_assessment s tenant a"
    "get_assessment_schema_binding t tenant a = get_assessment_schema_binding s tenant a"
    by (simp_all only: get_latest_compilation_run_def get_readiness_batches_for_assessment_def get_readiness_drafts_for_assessment_def
        get_pending_corrections_for_assessment_def get_assessment_schema_binding_def tabs rows)
  ultimately show ?thesis by (simp only: build_assessment_readiness_def tabs cct)
qed

lemma scope_of_tables:
  assumes "grade_levels t = grade_levels s" "learning_areas t = learning_areas s" "rubrics t = rubrics s" "school_metadata t = school_metadata s"
  shows "impact_scope_applies_to_assessment t tenant a sc = impact_scope_applies_to_assessment s tenant a sc"
proof -
  have "grade_level_row t = grade_level_row s" "learning_area_row t = learning_area_row s" "rubric_row t = rubric_row s"
    "metadata_of t = metadata_of s"
    by (simp_all add: fun_eq_iff grade_level_row_def learning_area_row_def rubric_row_def metadata_of_def assms)
  then show ?thesis by (simp only: impact_scope_applies_to_assessment_def)
qed

lemma readiness_of_tables:
  assumes tabs:
    "grade_levels t = grade_levels s" "learning_areas t = learning_areas s" "assessments t = assessments s"
    "schemas t = schemas s" "grade_records t = grade_records s" "submission_batches t = submission_batches s"
    "draft_batches t = draft_batches s" "corrections t = corrections s" "withdrawals t = withdrawals s"
    "rollback_plans t = rollback_plans s" "adoptions t = adoptions s" "rubrics t = rubrics s" "outcomes t = outcomes s"
    "sub_strands t = sub_strands s" "strands t = strands s" "curriculum_areas t = curriculum_areas s"
    "compilation_runs t = compilation_runs s" "cohort_summaries t = cohort_summaries s" "impact_plans t = impact_plans s"
    "school_metadata t = school_metadata s"
  shows "build_assessment_readiness t tenant a = build_assessment_readiness s tenant a"
proof (rule readiness_of_blockers)
  show "get_cct_blockers_for_assessment t tenant a = get_cct_blockers_for_assessment s tenant a"
    by (simp only: get_cct_blockers_for_assessment_def scope_of_tables [OF tabs(1,2,12,20)] tabs)
qed (fact tabs)+

lemma only_reports_readiness:
  "only_reports s t \<Longrightarrow> build_assessment_readiness t tenant a = build_assessment_readiness s tenant a"
  by (rule readiness_of_tables) (rule only_reports_tables, assumption)+

section \<open>One round of each loop\<close>

lemma report_clean_Inr:
  "report_run_full_clean db q = Inr q' \<Longrightarrow> q' = q" "eligibility_full_clean db e = Inr e' \<Longrightarrow> e' = e"
  "learner_report_full_clean db s = Inr s' \<Longrightarrow> s' = s" "subject_line_full_clean db l = Inr l' \<Longrightarrow> l' = l"
  "aggregate_full_clean db g = Inr g' \<Longrightarrow> g' = g"
  by (auto simp: report_run_full_clean_def eligibility_full_clean_def learner_report_full_clean_def subject_line_full_clean_def
      aggregate_full_clean_def ebind_eq_Inr split: if_splits)

lemma report_rounds_obey:
  "reports.obeys (create_eligibility_record now ids tenant q ka)" "reports.obeys (create_learner_report ids tenant q sources ks)"
  "reports.obeys (create_subject_line ids tenant q lbs kl)" "reports.obeys (create_aggregate ids tenant q kg)"
proof -
  show "reports.obeys (create_eligibility_record now ids tenant q ka)"
    unfolding create_eligibility_record_def Let_def split_beta
    by (intro reports.obeys_abind reports.obeys_query reports.obeys_save reports.obeys_alift) simp
  show "reports.obeys (create_learner_report ids tenant q sources ks)"
    unfolding create_learner_report_def Let_def split_beta
    by (intro reports.obeys_abind reports.obeys_save reports.obeys_alift) simp
  show "reports.obeys (create_subject_line ids tenant q lbs kl)"
    unfolding create_subject_line_def split_beta
    by (cases "map_of lbs (ls_student (fst (snd kl)))") (simp_all add: reports.obeys_save reports.obeys_alift)
  show "reports.obeys (create_aggregate ids tenant q kg)"
    unfolding create_aggregate_def split_beta by (intro reports.obeys_abind reports.obeys_save reports.obeys_alift) simp
qed

text \<open>Which of the growing tables a round leaves alone.\<close>

definition same_reports :: "'a report_db_scheme \<Rightarrow> 'a report_db_scheme \<Rightarrow> bool" where
  "same_reports s t \<longleftrightarrow> report_runs t = report_runs s \<and> learner_reports t = learner_reports s \<and> subject_lines t = subject_lines s"

definition same_lines :: "'a report_db_scheme \<Rightarrow> 'a report_db_scheme \<Rightarrow> bool" where
  "same_lines s t \<longleftrightarrow> report_runs t = report_runs s \<and> subject_lines t = subject_lines s"

definition same_learners :: "'a report_db_scheme \<Rightarrow> 'a report_db_scheme \<Rightarrow> bool" where
  "same_learners s t \<longleftrightarrow> report_runs t = report_runs s \<and> learner_reports t = learner_reports s"

interpretation same_reports: state_order same_reports by unfold_locales (auto simp: same_reports_def)
interpretation same_lines: state_order same_lines by unfold_locales (auto simp: same_lines_def)
interpretation same_learners: state_order same_learners by unfold_locales (auto simp: same_learners_def)

lemma report_rounds_same:
  "same_reports.obeys (create_eligibility_record now ids tenant q ka)" "same_lines.obeys (create_learner_report ids tenant q sources ks)"
  "same_learners.obeys (create_subject_line ids tenant q lbs kl)" "same_reports.obeys (create_aggregate ids tenant q kg)"
proof -
  show "same_reports.obeys (create_eligibility_record now ids tenant q ka)"
    unfolding create_eligibility_record_def Let_def split_beta
    by (intro same_reports.obeys_abind same_reports.obeys_query same_reports.obeys_save same_reports.obeys_alift)
      (simp add: same_reports_def add_eligibility_def)
  show "same_lines.obeys (create_learner_report ids tenant q sources ks)"
    unfolding create_learner_report_def Let_def split_beta
    by (intro same_lines.obeys_abind same_lines.obeys_save same_lines.obeys_alift) (simp add: same_lines_def add_learner_report_def)
  show "same_learners.obeys (create_subject_line ids tenant q lbs kl)"
    unfolding create_subject_line_def split_beta
    by (cases "map_of lbs (ls_student (fst (snd kl)))")
      (simp_all add: same_learners.obeys_save same_learners.obeys_alift same_learners_def add_subject_line_def)
  show "same_reports.obeys (create_aggregate ids tenant q kg)"
    unfolding create_aggregate_def split_beta
    by (intro same_reports.obeys_abind same_reports.obeys_save same_reports.obeys_alift) (simp add: same_reports_def add_aggregate_def)
qed

lemma eligibility_round:
  "create_eligibility_record now ids tenant q ka u = (Inr e, u') \<Longrightarrow>
     \<exists>r. build_assessment_readiness u tenant (snd ka) = Inr r \<and> e = evaluate_report_eligibility r"
  by (auto simp: create_eligibility_record_def split_beta Let_def abind_eq_Inr)

lemma eligibility_results:
  assumes "create_eligibility_records now ids tenant q as u = (Inr results, u')"
  shows "emap (\<lambda>a. ebind (build_assessment_readiness u tenant a) (\<lambda>r. Inr (evaluate_report_eligibility r))) as = Inr results"
proof -
  have "list_all2 (\<lambda>ka e. \<exists>v v'. only_reports u v \<and> create_eligibility_record now ids tenant q ka v = (Inr e, v')) (numbered as) results"
    by (rule reports.aeach_stages [OF assms [unfolded create_eligibility_records_def] report_rounds_obey(1)])
  then have "list_all2 (\<lambda>ka e. ebind (build_assessment_readiness u tenant (snd ka)) (\<lambda>r. Inr (evaluate_report_eligibility r)) = Inr e) (numbered as) results"
    by (elim list.rel_mono_strong) (auto dest!: eligibility_round simp: only_reports_readiness ebind_eq_Inr)
  then have "list_all2 (\<lambda>a e. ebind (build_assessment_readiness u tenant a) (\<lambda>r. Inr (evaluate_report_eligibility r)) = Inr e) (map snd (numbered as)) results"
    by (simp add: list_all2_map1)
  then show ?thesis by (simp add: emap_all2 numbered_snd)
qed

lemma of_student: "(\<lambda>(s, a, l). ls_student s = st) = (\<lambda>x. ls_student (fst x) = st)"
  by auto

lemma learner_round:
  assumes "create_learner_report ids tenant q sources (k, st) u = (Inr (st', s), u')"
  shows "learner_reports u' = learner_reports u @ [s\<lparr>lr_total := stored_2 (lr_total s), lr_average := stored_2 (lr_average s)\<rparr>]"
    and "st' = st \<and> lr_student s = st \<and> lr_tenant s = sc_id tenant \<and> lr_run s = rn_id q \<and>
      lr_subject_count s = int (length (filter (\<lambda>x. ls_student (fst x) = st) sources))"
  using assms
  by (auto simp: create_learner_report_def Let_def of_student split_beta abind_eq_Inr alift_eq_Inr save_row_Inr add_learner_report_def
      build_learner_snapshot_payload_def ebind_eq_Inr dest!: report_clean_Inr(3))

lemma line_round:
  assumes "create_subject_line ids tenant q lbs (k, (s, a, p)) u = (Inr l, u')"
  shows "subject_lines u' = subject_lines u @ [l]"
    and "sl_compiled l = ls_id s \<and> sl_compilation_run l = ls_run s \<and> sl_assessment l = as_id a \<and> sl_student l = ls_student s \<and>
      sl_tenant l = sc_id tenant \<and> sl_run l = rn_id q \<and> sl_score_summary l = JObj (lp_score_summary p) \<and>
      (\<exists>y. map_of lbs (ls_student s) = Some y \<and> sl_learner l = lr_id y)"
  using assms by (auto simp: create_subject_line_def save_row_Inr alift_eq_Inr add_subject_line_def split: option.splits dest!: report_clean_Inr(4))

section \<open>The stages of a run\<close>

lemma learners_stage:
  assumes "aeach (create_learner_report ids tenant q sources) (numbered pupils) u = (Inr lbs, u')"
  shows "map fst lbs = pupils"
    and "learner_reports u' = learner_reports u @ map (\<lambda>(i, s). s\<lparr>lr_total := stored_2 (lr_total s), lr_average := stored_2 (lr_average s)\<rparr>) lbs"
    and "\<forall>(i, s)\<in>set lbs. lr_student s = i \<and> lr_subject_count s = int (length (filter (\<lambda>x. ls_student (fst x) = i) sources))"
proof -
  have st: "list_all2 (\<lambda>ks y. \<exists>v v'. only_reports u v \<and> create_learner_report ids tenant q sources ks v = (Inr y, v')) (numbered pupils) lbs"
    by (rule reports.aeach_stages [OF assms report_rounds_obey(2)])
  then have "list_all2 (\<lambda>ks y. fst y = snd ks \<and> lr_student (snd y) = fst y \<and>
      lr_subject_count (snd y) = int (length (filter (\<lambda>x. ls_student (fst x) = fst y) sources))) (numbered pupils) lbs"
    by (elim list.rel_mono_strong) (auto dest!: learner_round(2))
  note a = this
  have "map fst lbs = map snd (numbered pupils)" using a by (induction rule: list_all2_induct) auto
  then show "map fst lbs = pupils" by (simp add: numbered_snd)
  show "\<forall>(i, s)\<in>set lbs. lr_student s = i \<and> lr_subject_count s = int (length (filter (\<lambda>x. ls_student (fst x) = i) sources))"
    using a by (induction rule: list_all2_induct) auto
  show "learner_reports u' = learner_reports u @ map (\<lambda>(i, s). s\<lparr>lr_total := stored_2 (lr_total s), lr_average := stored_2 (lr_average s)\<rparr>) lbs"
    by (rule aeach_appends [OF assms]) (auto dest!: learner_round(1))
qed

text \<open>A subject line repeats its source.\<close>

definition line_repeats :: "(uuid \<times> learner_report) list \<Rightarrow> learner_snapshot \<times> assessment \<times> line_payload \<Rightarrow> subject_line \<Rightarrow> bool" where
  "line_repeats lbs = (\<lambda>(s, a, p) l. sl_compiled l = ls_id s \<and> sl_compilation_run l = ls_run s \<and> sl_assessment l = as_id a \<and>
     sl_student l = ls_student s \<and> sl_score_summary l = JObj (lp_score_summary p) \<and>
     (\<exists>y. map_of lbs (ls_student s) = Some y \<and> sl_learner l = lr_id y))"

lemma lines_stage:
  assumes "aeach (create_subject_line ids tenant q lbs) (numbered sources) u = (Inr lines, u')"
  shows "subject_lines u' = subject_lines u @ lines" and "list_all2 (line_repeats lbs) sources lines"
proof -
  have "subject_lines u' = subject_lines u @ map (\<lambda>l. l) lines"
    by (rule aeach_appends [OF assms]) (auto dest!: line_round(1))
  then show "subject_lines u' = subject_lines u @ lines" by simp
  have "list_all2 (\<lambda>kl y. \<exists>v v'. only_reports u v \<and> create_subject_line ids tenant q lbs kl v = (Inr y, v')) (numbered sources) lines"
    by (rule reports.aeach_stages [OF assms report_rounds_obey(3)])
  then have "list_all2 (\<lambda>kl y. line_repeats lbs (snd kl) y) (numbered sources) lines"
    by (elim list.rel_mono_strong) (auto dest!: line_round(2) simp: line_repeats_def split_beta)
  then have "list_all2 (line_repeats lbs) (map snd (numbered sources)) lines" by (simp add: list_all2_map1)
  then show "list_all2 (line_repeats lbs) sources lines" by (simp add: numbered_snd)
qed

text \<open>What a snapshot run did, from its first state to its last.\<close>

lemma report_run_Inr:
  assumes "create_report_snapshot_run now finished ids actor tenant y k filters db = (Inr q, db')"
  obtains summary results sources lbs lines where
    "compute_report_eligibility db actor tenant y k filters = Inr (summary, results)" "summary = summarize_eligibility results"
    "q = finished_run finished results (new_report_run now ids tenant actor y k)" "q \<in> set (report_runs db')" "only_reports db db'"
    "emap (source_line db) (snapshot_source_rows db tenant (eligible_compilation_ids results)) = Inr sources"
    "map fst lbs = py_sorted_set (map ls_student (snapshot_source_rows db tenant (eligible_compilation_ids results)))"
    "\<forall>(i, s)\<in>set lbs. lr_student s = i \<and> lr_subject_count s = int (length (filter (\<lambda>x. ls_student (fst x) = i) sources))"
    "learner_reports db' = learner_reports db @ map (\<lambda>(i, s). s\<lparr>lr_total := stored_2 (lr_total s), lr_average := stored_2 (lr_average s)\<rparr>) lbs"
    "subject_lines db' = subject_lines db @ lines" "list_all2 (line_repeats lbs) sources lines"
proof -
  let ?q0 = "new_report_run now ids tenant actor y k"
  from assms obtain as results db2 db3 ags db4 where
    as: "report_assessments db (get_academic_head_readiness_scope db) actor tenant y k filters = Inr as"
    and el: "create_eligibility_records now ids tenant ?q0 as (add_report_run ?q0 db) = (Inr results, db2)"
    and bs: "build_report_snapshots ids tenant ?q0 (snapshot_source_rows db2 tenant (eligible_compilation_ids results)) db2 = (Inr (), db3)"
    and ag: "compute_report_snapshot_aggregates ids tenant ?q0 db3 = (Inr ags, db4)"
    and q: "q = finished_run finished results ?q0" "db' = put_report_run q db4"
    by (auto simp: create_report_snapshot_run_def atomic_eq_Inr abind_eq_Inr save_row_Inr dest!: report_clean_Inr(1))
  let ?rows = "snapshot_source_rows db2 tenant (eligible_compilation_ids results)"
  from bs obtain sources lbs lines u where src: "emap (source_line db2) ?rows = Inr sources"
    and lrn: "aeach (create_learner_report ids tenant ?q0 sources) (numbered (py_sorted_set (map ls_student ?rows))) db2 = (Inr lbs, u)"
    and lns: "aeach (create_subject_line ids tenant ?q0 lbs) (numbered sources) u = (Inr lines, db3)"
    by (auto simp: build_report_snapshots_def abind_eq_Inr)
  from ag obtain scopes where ags: "aeach (create_aggregate ids tenant ?q0) (numbered scopes) db3 = (Inr ags, db4)"
    by (auto simp: compute_report_snapshot_aggregates_def abind_eq_Inr)
  have o1: "only_reports (add_report_run ?q0 db) db2"
    by (rule reports.obeysD [OF reports.obeys_aeach el [unfolded create_eligibility_records_def]]) (rule report_rounds_obey)
  have o2: "only_reports db2 u" by (rule reports.obeysD [OF reports.obeys_aeach lrn]) (rule report_rounds_obey)
  have o3: "only_reports u db3" by (rule reports.obeysD [OF reports.obeys_aeach lns]) (rule report_rounds_obey)
  have o4: "only_reports db3 db4" by (rule reports.obeysD [OF reports.obeys_aeach ags]) (rule report_rounds_obey)
  have odb2: "only_reports db db2" using o1 reports.order_trans only_reports_add(1) by blast
  have odb: "only_reports db db'"
    unfolding q(2) by (rule reports.order_trans [OF odb2 reports.order_trans [OF o2 reports.order_trans [OF o3 reports.order_trans [OF o4 only_reports_add(2)]]]])
  have s1: "same_reports (add_report_run ?q0 db) db2"
    by (rule same_reports.obeysD [OF same_reports.obeys_aeach el [unfolded create_eligibility_records_def]]) (rule report_rounds_same)
  have s2: "same_lines db2 u" by (rule same_lines.obeysD [OF same_lines.obeys_aeach lrn]) (rule report_rounds_same)
  have s3: "same_learners u db3" by (rule same_learners.obeysD [OF same_learners.obeys_aeach lns]) (rule report_rounds_same)
  have s4: "same_reports db3 db4" by (rule same_reports.obeysD [OF same_reports.obeys_aeach ags]) (rule report_rounds_same)
  have runs: "report_runs db4 = report_runs db @ [?q0]"
    using s1 s2 s3 s4 by (simp add: same_reports_def same_lines_def same_learners_def add_report_run_def)
  have "rn_id q = rn_id ?q0" by (simp add: q(1) finished_run_def Let_def)
  then have "q \<in> set (report_runs db')" by (auto simp: q(2) put_report_run_def runs set_update_where)
  moreover have "emap (\<lambda>a. ebind (build_assessment_readiness db tenant a) (\<lambda>r. Inr (evaluate_report_eligibility r))) as = Inr results"
    using eligibility_results [OF el] by (simp add: only_reports_readiness [OF only_reports_add(1)])
  then have "compute_report_eligibility db actor tenant y k filters = Inr (summarize_eligibility results, results)"
    by (simp add: compute_report_eligibility_def as)
  moreover have rows: "?rows = snapshot_source_rows db tenant (eligible_compilation_ids results)"
    by (simp add: snapshot_source_rows_def learning_area_row_def only_reports_tables [OF odb2])
  moreover have "source_line db2 = source_line db"
    by (simp add: fun_eq_iff source_line_def assessment_row_def only_reports_tables [OF odb2])
  moreover have "learner_reports db' = learner_reports db @ map (\<lambda>(i, s). s\<lparr>lr_total := stored_2 (lr_total s), lr_average := stored_2 (lr_average s)\<rparr>) lbs"
    using learners_stage(2) [OF lrn] s1 s3 s4 by (simp add: q(2) put_report_run_def same_reports_def same_learners_def add_report_run_def)
  moreover have "subject_lines db' = subject_lines db @ lines"
    using lines_stage(1) [OF lns] s1 s2 s4 by (simp add: q(2) put_report_run_def same_reports_def same_lines_def add_report_run_def)
  ultimately show thesis
    using that [of "summarize_eligibility results" results sources lbs lines] q(1) odb src learners_stage(1,3) [OF lrn] lines_stage(2) [OF lns] by simp
qed

section \<open>Properties\<close>

lemma eligible_iff: "eg_eligible (evaluate_report_eligibility r) \<Longrightarrow> rd_report_ready r \<and> eg_run (evaluate_report_eligibility r) = rd_run r"
  by (auto simp: evaluate_report_eligibility_def Let_def split: if_splits)

lemma sources_of_rows:
  assumes "emap (source_line db) rows = Inr sources"
  shows "map fst sources = rows"
    and "\<forall>(s, a, p)\<in>set sources. assessment_row db (ls_assessment s) = Some a \<and> build_subject_line_payload s a = Inr p"
proof -
  have a: "list_all2 (\<lambda>s x. source_line db s = Inr x) rows sources" using assms by (simp add: emap_all2)
  then show "map fst sources = rows"
    by (induction rule: list_all2_induct) (auto simp: source_line_def ebind_eq_Inr split: option.splits)
  from a show "\<forall>(s, a, p)\<in>set sources. assessment_row db (ls_assessment s) = Some a \<and> build_subject_line_payload s a = Inr p"
    by (induction rule: list_all2_induct) (auto simp: source_line_def ebind_eq_Inr split: option.splits)
qed

lemma repeated_lines:
  assumes "list_all2 (line_repeats lbs) sources lines"
  shows "map sl_compiled lines = map (ls_id \<circ> fst) sources" "map sl_student lines = map (ls_student \<circ> fst) sources"
    "\<forall>l\<in>set lines. \<exists>x\<in>set sources. line_repeats lbs x l"
  using assms by (induction rule: list_all2_induct) (auto simp: line_repeats_def)

lemma length_filter_all: "length xs \<le> length (filter P xs) \<longleftrightarrow> list_all P xs"
proof (induction xs)
  case (Cons x xs)
  show ?case using Cons.IH length_filter_le [of P xs] by (cases "P x") (simp_all add: le_imp_less_Suc leD not_le del: length_filter_le)
qed simp

lemma filter_some: "filter P xs = [] \<longleftrightarrow> \<not> list_ex P xs"
  by (simp add: filter_empty_conv list_ex_iff)

lemma list_all_ex: "list_all P xs \<Longrightarrow> list_ex P xs \<longleftrightarrow> xs \<noteq> []"
  by (cases xs) auto

lemma length_filter_map: "length (filter (\<lambda>x. f x = i) xs) = length (filter (\<lambda>v. v = i) (map f xs))"
  by (induction xs) auto

text \<open>C27: A report snapshot freezes the eligibility of the period. The run holds what the eligibility check computes on the
  state before it: complete when there are assessments and all are eligible, partial when some are,
  else blocked. It adds one subject line per complete learner snapshot of an eligible run, and one learner
  report per learner with a line, which counts the learner's lines and which the lines name. Nothing but
  the report tables changes.\<close>

theorem report_snapshot_outcome:
  assumes "create_report_snapshot_run now finished ids actor tenant y k filters db = (Inr q, db')"
  shows "\<exists>summary results learners lines.
    compute_report_eligibility db actor tenant y k filters = Inr (summary, results) \<and>
    rn_status q = (if results \<noteq> [] \<and> list_all eg_eligible results then ''complete''
      else if list_ex eg_eligible results then ''partial'' else ''blocked'') \<and>
    rn_source_ids q = eligible_compilation_ids results \<and> q \<in> set (report_runs db') \<and>
    learner_reports db' = learner_reports db @ learners \<and> subject_lines db' = subject_lines db @ lines \<and>
    map sl_compiled lines = map ls_id (snapshot_source_rows db tenant (eligible_compilation_ids results)) \<and>
    map lr_student learners = py_sorted_set (map sl_student lines) \<and>
    list_all (\<lambda>s. lr_subject_count s = int (count_list (map sl_student lines) (lr_student s))) learners \<and>
    list_all (\<lambda>l. \<exists>s\<in>set learners. sl_learner l = lr_id s \<and> lr_student s = sl_student l) lines \<and>
    only_reports db db'"
proof -
  from assms obtain summary results sources lbs lines where
    el: "compute_report_eligibility db actor tenant y k filters = Inr (summary, results)" "summary = summarize_eligibility results"
    and q: "q = finished_run finished results (new_report_run now ids tenant actor y k)" "q \<in> set (report_runs db')" "only_reports db db'"
    and src: "emap (source_line db) (snapshot_source_rows db tenant (eligible_compilation_ids results)) = Inr sources"
    and lbs: "map fst lbs = py_sorted_set (map ls_student (snapshot_source_rows db tenant (eligible_compilation_ids results)))"
      "\<forall>(i, s)\<in>set lbs. lr_student s = i \<and> lr_subject_count s = int (length (filter (\<lambda>x. ls_student (fst x) = i) sources))"
    and tabs: "learner_reports db' = learner_reports db @ map (\<lambda>(i, s). s\<lparr>lr_total := stored_2 (lr_total s), lr_average := stored_2 (lr_average s)\<rparr>) lbs"
      "subject_lines db' = subject_lines db @ lines"
    and rep: "list_all2 (line_repeats lbs) sources lines" by (rule report_run_Inr)
  let ?learners = "map (\<lambda>(i, s). s\<lparr>lr_total := stored_2 (lr_total s), lr_average := stored_2 (lr_average s)\<rparr>) lbs"
  note src = sources_of_rows [OF src] and rp = repeated_lines [OF rep]
  have compiled: "map sl_compiled lines = map ls_id (snapshot_source_rows db tenant (eligible_compilation_ids results))"
    unfolding rp(1) src(1) [symmetric] by simp
  have pupils: "map sl_student lines = map ls_student (snapshot_source_rows db tenant (eligible_compilation_ids results))"
    unfolding rp(2) src(1) [symmetric] by simp
  have "map lr_student ?learners = map fst lbs" using lbs(2) by (auto simp: split_beta)
  then have students: "map lr_student ?learners = py_sorted_set (map sl_student lines)" by (simp add: lbs(1) pupils)
  have "length (filter (\<lambda>x. ls_student (fst x) = i) sources) = count_list (map sl_student lines) i" for i
    unfolding rp(2) by (induction sources) auto
  then have counts: "list_all (\<lambda>s. lr_subject_count s = int (count_list (map sl_student lines) (lr_student s))) ?learners"
    using lbs(2) by (auto simp: list_all_iff)
  have named: "list_all (\<lambda>l. \<exists>s\<in>set ?learners. sl_learner l = lr_id s \<and> lr_student s = sl_student l) lines"
    unfolding list_all_iff
  proof
    fix l assume "l \<in> set lines"
    with rp(3) obtain x where "line_repeats lbs x l" by blast
    then obtain s where "map_of lbs (sl_student l) = Some s" "sl_learner l = lr_id s" by (auto simp: line_repeats_def split_beta)
    then have "(sl_student l, s) \<in> set lbs" "lr_student s = sl_student l" "sl_learner l = lr_id s"
      using lbs(2) by (auto dest: map_of_SomeD)
    then show "\<exists>s\<in>set ?learners. sl_learner l = lr_id s \<and> lr_student s = sl_student l" by force
  qed
  have status: "rn_status q = (if results \<noteq> [] \<and> list_all eg_eligible results then ''complete''
      else if list_ex eg_eligible results then ''partial'' else ''blocked'')"
    by (auto simp: q(1) finished_run_def Let_def summarize_eligibility_def length_filter_all filter_some list_all_ex)
  have "rn_source_ids q = eligible_compilation_ids results" by (simp add: q(1) finished_run_def Let_def)
  then show ?thesis using el q tabs compiled students counts named status by blast
qed

text \<open>C28: Only official marks are reported: whatever drafts, submissions, corrections and compilations ran before, each
  subject line a snapshot run adds holds the score summary of the official record its learner has now
  for its assessment.\<close>

theorem reported_marks_official:
  assumes "(school_step sha isoformat)\<^sup>*\<^sup>* db0 db" and "compiled_ok db0" and "marks_ok db0"
    and "create_report_snapshot_run now finished ids actor tenant y k filters db = (Inr q, db')"
    and "subject_lines db' = subject_lines db @ lines" and "l \<in> set lines"
  shows "\<exists>g\<in>set (grade_records db'). \<exists>a\<in>set (assessments db'). rec_tenant g = sc_id tenant \<and> rec_assessment g = sl_assessment l \<and>
    rec_student g = sl_student l \<and> as_id a = sl_assessment l \<and> build_score_summary g a = Inr (sl_score_summary l)"
proof -
  from assms(4) obtain results sources lbs where
    el: "compute_report_eligibility db actor tenant y k filters = Inr (summarize_eligibility results, results)"
    and only: "only_reports db db'"
    and src: "emap (source_line db) (snapshot_source_rows db tenant (eligible_compilation_ids results)) = Inr sources"
    and rep: "list_all2 (line_repeats lbs) sources lines" using assms(5) by (elim report_run_Inr) auto
  from repeated_lines(3) [OF rep] assms(6) obtain s a p where x: "(s, a, p) \<in> set sources" and l: "line_repeats lbs (s, a, p) l" by auto
  from sources_of_rows(2) [OF src] x have a: "assessment_row db (ls_assessment s) = Some a" and p: "build_subject_line_payload s a = Inr p" by auto
  have "s \<in> set (snapshot_source_rows db tenant (eligible_compilation_ids results))"
    using sources_of_rows(1) [OF src] x by (metis image_eqI list.set_map fst_conv)
  then have s: "s \<in> set (learner_snapshots db)" "ls_run s \<in> set (eligible_compilation_ids results)"
    by (auto simp: snapshot_source_rows_def split: if_splits)
  from s(2) obtain e where e: "e \<in> set results" "eg_eligible e" "eg_run e = ls_run s" by (auto simp: eligible_compilation_ids_def)
  from el obtain as where "emap (\<lambda>a. ebind (build_assessment_readiness db tenant a) (\<lambda>r. Inr (evaluate_report_eligibility r))) as = Inr results"
    by (auto simp: compute_report_eligibility_def ebind_eq_Inr)
  from emap_set [OF this e(1)] obtain b r where r: "build_assessment_readiness db tenant b = Inr r" "e = evaluate_report_eligibility r"
    by (auto simp: ebind_eq_Inr)
  have ready: "rd_report_ready r" "ls_run s = rd_run r" using eligible_iff [of r] e r(2) by auto
  have "compiled_ok db" using school_run_ok [OF assms(1)] assms(2,3) by blast
  from ready_current [OF this r(1) ready(1) s(1) ready(2)] obtain g a' where
    g: "ls_assessment s = as_id b" "g \<in> set (grade_records db)" "a' \<in> set (assessments db)" "rec_tenant g = sc_id tenant"
      "rec_assessment g = as_id b" "rec_student g = ls_student s" "as_id a' = as_id b" "build_score_summary g a' = Inr (ls_score_summary s)" by blast
  have "as_id a = as_id b" using a g(1) by (auto simp: assessment_row_def dest: first_where_SomeD)
  moreover have "JObj (lp_score_summary p) = ls_score_summary s"
  proof -
    have "dict_of (ls_score_summary s) = Inr (lp_score_summary p)" using p by (auto simp: build_subject_line_payload_def ebind_eq_Inr)
    moreover have "\<exists>kvs. ls_score_summary s = JObj kvs \<and> kvs \<noteq> []" using g(8) [symmetric]
      by (cases "percentage (rec_raw_score g) (as_max_score a')") (auto simp: build_score_summary_def)
    ultimately show ?thesis by (auto simp: dict_of_def or_json_def)
  qed
  ultimately show ?thesis using g l by (auto simp: only_reports_tables [OF only] line_repeats_def)
qed


section \<open>Instances\<close>

definition sample_reports :: report_db where
  "sample_reports = readiness_db.extend sample_report (report_db.fields [] [] [] [] [])"

lemma sample_reports_parts:
  "schools sample_reports = schools sample_report" "users sample_reports = users sample_report"
  "roles sample_reports = roles sample_report" "role_bindings sample_reports = role_bindings sample_report"
  "academic_years sample_reports = academic_years sample_report" "terms sample_reports = terms sample_report"
  "grade_levels sample_reports = grade_levels sample_report" "students sample_reports = students sample_report"
  "enrollments sample_reports = enrollments sample_report" "versions sample_reports = versions sample_report"
  "assessments sample_reports = assessments sample_report" "schemas sample_reports = schemas sample_report"
  "grade_records sample_reports = grade_records sample_report" "submission_batches sample_reports = submission_batches sample_report"
  "draft_batches sample_reports = draft_batches sample_report" "corrections sample_reports = corrections sample_report"
  "withdrawals sample_reports = withdrawals sample_report" "rollback_plans sample_reports = rollback_plans sample_report"
  "adoptions sample_reports = adoptions sample_report" "rubrics sample_reports = rubrics sample_report"
  "outcomes sample_reports = outcomes sample_report" "sub_strands sample_reports = sub_strands sample_report"
  "strands sample_reports = strands sample_report" "curriculum_areas sample_reports = curriculum_areas sample_report"
  "cohorts sample_reports = cohorts sample_report" "learning_areas sample_reports = learning_areas sample_report"
  "compilation_runs sample_reports = compilation_runs sample_report" "learner_snapshots sample_reports = learner_snapshots sample_report"
  "cohort_summaries sample_reports = cohort_summaries sample_report" "impact_plans sample_reports = impact_plans sample_report"
  "school_metadata sample_reports = school_metadata sample_report"
  by (simp_all only: sample_reports_def readiness_db.extend_def academic_db.select_convs identity_db.select_convs
      curriculum_db.select_convs grading_db.select_convs compiled_db.select_convs readiness_db.select_convs)

lemma sample_reports_tables:
  "report_runs sample_reports = []" "learner_reports sample_reports = []" "subject_lines sample_reports = []"
  "academic_aggregates sample_reports = []" "eligibility_records sample_reports = []"
  by (simp_all add: sample_reports_def readiness_db.extend_def report_db.defs)

lemma sample_reports_ok: "compiled_ok sample_reports" "marks_ok sample_reports"
  using sample_report_ok
  by (simp_all add: compiled_ok_def marks_ok_def repeats_marks_def sample_reports_parts)

lemma sample_reports_ready:
  "\<exists>r. build_assessment_readiness sample_reports sample_school report_assessment = Inr r \<and> rd_report_ready r \<and> rd_run r = ''j1''"
  using sample_report_ready readiness_of_tables [of sample_reports sample_report sample_school report_assessment] sample_reports_parts
  by simp

end
