(* ===== verification/ReportInstances.thy ===== *)
theory ReportInstances
  imports ReportFacts
begin

text \<open>
  A report snapshot run evaluated on one school with one ready assessment and one learner: the
  witnesses of the properties of report snapshots.
\<close>

section \<open>The run and its rows\<close>

definition sample_report_ids :: report_ids where
  "sample_report_ids = \<lparr>ri_run = ''w1'', ri_eligibility = (\<lambda>_. ''w2''), ri_learner = (\<lambda>_. ''w3''), ri_line = (\<lambda>_. ''w4''),
     ri_aggregate = (\<lambda>_. ''w5'')\<rparr>"

definition sample_run :: report_run where
  "sample_run = new_report_run 9 sample_report_ids sample_school report_admin ''y1'' ''t1''"

lemma sample_run_simps:
  "rn_id sample_run = ''w1''" "rn_tenant sample_run = ''s1''" "rn_academic_year sample_run = ''y1''" "rn_term sample_run = ''t1''"
  "rn_requested_by sample_run = Some ''u9''" "rn_status sample_run = ''running''" "rn_eligibility_summary sample_run = JObj []"
  by (simp_all add: sample_run_def new_report_run_def sample_report_ids_def sample_school_def report_admin_def)

lemma sample_calendar_tables:
  "academic_years sample_report = academic_years sample_academic" "terms sample_report = terms sample_academic"
  "learning_areas sample_report = learning_areas sample_academic" "cohorts sample_report = cohorts sample_academic"
  "versions sample_report = [\<lparr>cv_id = ''v1'', cv_source_document = ''d1'', cv_version_label = ''2026'', cv_effective_from = 1,
     cv_effective_to = None, cv_is_active = True\<rparr>]"
  "rubrics sample_report = [\<lparr>rf_id = ''f1'', rf_sub_strand = None, rf_learning_outcome = Some ''o1'', rf_level_code = ''me'',
     rf_level_label = ''ME'', rf_is_active = True\<rparr>]"
  "grade_levels sample_report = grade_levels sample_academic"
  by (simp_all only: sample_report_def compiled_db.extend_def grading_db.extend_def academic_db.select_convs identity_db.select_convs
      curriculum_db.select_convs grading_db.select_convs)
    (simp_all add: sample_corrections_def sample_grading_def sample_curriculum_simps grading_db.defs)

lemma score_text: "decimal_of_text (dec_str (Fin False 4000 (-2))) = Inr (Fin False 4000 (-2))"
  by (rule decimal_of_dec_str)

lemma sum_one: "sum_decimals [Fin False 4000 (-2)] = Inr (Fin False 4000 (-2))"
  by (simp add: sum_decimals_def align_def signed_def of_signed_def dec_fix_def ndigits.simps dec_prec_def dec_Etop_def dec_Etiny_def)

lemma strip_zeros_power: "strip_zeros n (c * 10 ^ n) e = (c, e + int n)"
  by (induction n arbitrary: e) (simp_all add: mult.left_commute [of c 10])

lemma div_one: "div_finite False 4000 (-2) (Suc 0) 0 = Inr (Fin False 4000 (-2))"
  using strip_zeros_power [of 26 4000 "-28"]
  by (simp add: div_finite_def ndigits.simps dec_prec_def dec_fix_def dec_Etop_def dec_Etiny_def)

lemma cents_one: "quantize_cents (Fin False 4000 (-2)) = Inr (Fin False 4000 (-2))"
  by (simp add: quantize_cents_def dec_quantize_def ndigits.simps dec_prec_def dec_Emax_def dec_fix_def dec_Etop_def dec_Etiny_def)

lemmas one_score = decimal_or_zero_def score_text sum_one div_one cents_one

lemma one_metrics:
  "build_scope_aggregate k [dec_str (Fin False 4000 (-2))] 0 0 0 0 3 =
     (let m = \<lparr>pm_count = 1, pm_mean = dec_str (Fin False 4000 (-2)), pm_highest = dec_str (Fin False 4000 (-2)),
        pm_lowest = dec_str (Fin False 4000 (-2)), pm_minimum = 3, pm_met = False\<rparr> in
      Inr (m, metrics_json m @ [(''scope_type'', JStr k), (''readiness_risk_count'', JInt 0),
         (''correction_blocker_count'', JInt 0), (''cct_blocker_count'', JInt 0), (''schema_mismatch_count'', JInt 0)]))"
  by (simp add: build_scope_aggregate_def build_performance_metrics_def max_decimals_def min_decimals_def one_score dec_int_def Let_def)

lemma one_line:
  "\<exists>p. build_subject_line_payload report_snapshot report_assessment = Inr p \<and> lp_percentage p = dec_str (Fin False 4000 (-2)) \<and>
     lp_raw_score p = dec_str (Fin False 4000 (-2)) \<and> JObj (lp_score_summary p) = ls_score_summary report_snapshot \<and>
     lp_component_summary p = [] \<and> lp_band_status p = [] \<and> lp_band_label p = [] \<and> lp_band_descriptor p = [] \<and> lp_status p = ''complete'' \<and>
     lp_schema_version p = as_schema_version report_assessment \<and> lp_run p = ''j1'' \<and> lp_assessment p = ''x1'' \<and> lp_version p = ''v1'' \<and>
     lp_learning_area p = ''l1''"
proof -
  have "decimal_of_text [] = Inl InvalidOperation" by code_simp
  then have "dec_str (Fin False 4000 (-2)) \<noteq> []" by (metis Inl_Inr_False decimal_of_dec_str)
  then show ?thesis
  by (simp add: build_subject_line_payload_def report_snapshot_def build_score_summary_def sample_record_def report_assessment_simps report_percentage
      dict_of_def or_json_def jget_def)
qed

lemma one_learner:
  assumes "lp_percentage p = dec_str (Fin False 4000 (-2))" "lp_raw_score p = dec_str (Fin False 4000 (-2))"
  shows "\<exists>y. build_learner_snapshot_payload ''p1'' [p] ''ready_for_reports'' = Inr y \<and> yp_subject_count y = 1 \<and>
     yp_total_score y = dec_str (Fin False 4000 (-2)) \<and> yp_average y = dec_str (Fin False 4000 (-2)) \<and>
     yp_readiness_status y = ''ready_for_reports'' \<and> json_field (yp_context y) \<and> is_dict (yp_context y) \<and>
     json_field (JObj (map (\<lambda>(i, v). (i, JStr v)) (yp_schema_versions y)))"
  using assms by (simp add: build_learner_snapshot_payload_def one_score dec_int_def py_sorted_set_def json_field_def is_dict_def)


text \<open>The states of the sample run: the run's row is there, and only report tables may have grown.\<close>

definition in_sample_run :: "report_db \<Rightarrow> bool" where
  "in_sample_run u \<longleftrightarrow> only_reports sample_reports u \<and> report_runs u = [sample_run]"

lemma in_sample_run_rows:
  assumes "in_sample_run u"
  shows "school_exists u ''s1''" "report_run_row u ''w1'' = Some sample_run" "assessment_row u ''x1'' = Some report_assessment"
    "run_row u ''j1'' = Some report_run" "year_row u ''y1'' = Some (hd (academic_years sample_academic))"
    "term_row u ''t1'' = Some (hd (terms sample_academic))" "cohort_row u ''c1'' = Some (hd (cohorts sample_academic))"
    "learning_area_row u ''l1'' = Some (hd (learning_areas sample_academic))"
    "student_row u ''p1'' = Some (hd (students sample_academic))" "learner_snapshot_row u ''o1'' = Some report_snapshot"
    "version_exists u ''v1''" "\<exists>r. rubric_row u ''f1'' = Some r" "\<exists>g. grade_level_row u ''g1'' = Some g" "user_exists u ''u9''"
  using assms unfolding in_sample_run_def
  by (simp_all add: row_defs version_row_def school_exists_def user_exists_def version_exists_def rubric_row_def report_run_row_def
        assessment_row_def run_row_def learner_snapshot_row_def first_where_def only_reports_tables [of sample_reports] sample_reports_parts
        sample_report_simps sample_calendar_tables sample_run_simps report_assessment_simps)
    (simp_all add: sample_academic_def report_snapshot_def report_run_def sample_corrections_def sample_grading_simps)

lemma sample_table_rows:
  "ay_tenant (hd (academic_years sample_academic)) = ''s1''" "te_tenant (hd (terms sample_academic)) = ''s1''"
  "te_academic_year (hd (terms sample_academic)) = ''y1''" "co_tenant (hd (cohorts sample_academic)) = ''s1''"
  "co_id (hd (cohorts sample_academic)) = ''c1''" "co_grade_level (hd (cohorts sample_academic)) = ''g1''"
  "co_name (hd (cohorts sample_academic)) = ''7 East''" "co_stream_label (hd (cohorts sample_academic)) = []"
  "la_tenant (hd (learning_areas sample_academic)) = ''s1''" "la_id (hd (learning_areas sample_academic)) = ''l1''"
  "la_code (hd (learning_areas sample_academic)) = ''maths''" "st_tenant (hd (students sample_academic)) = ''s1''"
  "sc_id sample_school = ''s1''" "as_tenant report_assessment = ''s1''" "cr_tenant report_run = ''s1''" "cr_id report_run = ''j1''"
  "ls_tenant report_snapshot = ''s1''"
  by (simp_all add: sample_academic_def sample_school_def report_assessment_simps report_run_def report_snapshot_def)

lemma in_sample_run_add [simp]:
  assumes "in_sample_run u"
  shows "in_sample_run (add_eligibility e u)" "in_sample_run (add_learner_report s u)" "in_sample_run (add_subject_line l u)"
    "in_sample_run (add_aggregate g u)"
proof -
  have "report_runs (add_eligibility e u) = report_runs u" "report_runs (add_learner_report s u) = report_runs u"
    "report_runs (add_subject_line l u) = report_runs u" "report_runs (add_aggregate g u) = report_runs u"
    by (simp_all add: add_eligibility_def add_learner_report_def add_subject_line_def add_aggregate_def)
  moreover have "only_reports sample_reports u" using assms by (simp add: in_sample_run_def)
  then have "only_reports u v \<Longrightarrow> only_reports sample_reports v" for v by (rule reports.order_trans)
  ultimately show "in_sample_run (add_eligibility e u)" "in_sample_run (add_learner_report s u)" "in_sample_run (add_subject_line l u)"
    "in_sample_run (add_aggregate g u)"
    using assms by (simp_all add: in_sample_run_def)
qed

lemma sample_run_clean:
  assumes "only_reports sample_reports u" and "json_field (rn_eligibility_summary q)" "is_dict (rn_eligibility_summary q)"
    and "rn_tenant q = ''s1''" "rn_academic_year q = ''y1''" "rn_term q = ''t1''" "rn_requested_by q = Some ''u9''" "rn_status q \<in> set report_run_statuses"
  shows "report_run_full_clean u q = Inr q"
proof -
  have "only_reports u (u\<lparr>report_runs := [sample_run]\<rparr>)" by (simp add: only_reports_def)
  then have t: "in_sample_run (u\<lparr>report_runs := [sample_run]\<rparr>)"
    using reports.order_trans [OF assms(1)] by (simp add: in_sample_run_def)
  note r = in_sample_run_rows [OF t]
  have "school_exists u ''s1''" "year_row u = year_row (u\<lparr>report_runs := [sample_run]\<rparr>)" "term_row u = term_row (u\<lparr>report_runs := [sample_run]\<rparr>)"
    "user_exists u ''u9''"
    using r by (simp_all add: fun_eq_iff row_defs school_exists_def user_exists_def)
  then show ?thesis using r assms by (simp add: report_run_full_clean_def related_check_def sample_table_rows years_and_terms_def opt_fk_def)
qed

lemma ready_shape:
  assumes "build_assessment_readiness db t a = Inr r" and "rd_report_ready r"
  shows "rd_blockers r = []" "rd_status r = ''ready_for_reports''" "rd_compilation_status r = ''complete''"
    "rd_pending_corrections r = length (get_pending_corrections_for_assessment db t a)"
  using assms unfolding build_assessment_readiness_def Let_def
  by (auto simp: ebind_eq_Inr build_report_readiness_summary_def Let_def ready_status_iff)

lemma ready_eligible:
  assumes "build_assessment_readiness db t a = Inr r" and "rd_report_ready r"
    and "get_pending_corrections_for_assessment db t a = []" and "rd_run r \<noteq> []"
  shows "eg_eligible (evaluate_report_eligibility r)" "eg_status (evaluate_report_eligibility r) = ''eligible''"
     "eg_readiness_status (evaluate_report_eligibility r) = ''ready_for_reports''" "eg_run (evaluate_report_eligibility r) = rd_run r"
     "eg_codes (evaluate_report_eligibility r) = []"
  using ready_shape [OF assms(1,2)] assms(2-4)
  by (simp_all add: evaluate_report_eligibility_def py_sorted_set_def)

lemma round_eligibility:
  assumes "in_sample_run u"
  shows "\<exists>e u'. create_eligibility_record 9 sample_report_ids sample_school sample_run (0, report_assessment) u = (Inr e, u') \<and>
    eg_eligible e \<and> eg_run e = ''j1'' \<and> eg_codes e = [] \<and> in_sample_run u' \<and> same_reports u u'"
proof -
  have o: "only_reports sample_reports u" using assms by (simp add: in_sample_run_def)
  obtain r where r: "build_assessment_readiness u sample_school report_assessment = Inr r" "rd_report_ready r" "rd_run r = ''j1''"
    using sample_reports_ready unfolding only_reports_readiness [OF o] by blast
  have "get_pending_corrections_for_assessment u sample_school report_assessment = []"
    by (simp add: get_pending_corrections_for_assessment_def only_reports_tables [OF o] sample_reports_parts sample_report_simps)
  note e = ready_eligible [OF r(1,2) this]
  have runs: "compilation_runs u = [report_run]" by (simp add: only_reports_tables [OF o] sample_reports_parts sample_report_simps)
  have c: "json_field (JObj (readiness_json r))"
    using ready_shape(1) [OF r(1,2)] by (simp add: json_field_def readiness_json_def blocker_dicts_def)
  show ?thesis
    using in_sample_run_rows [OF assms] e r c runs assms
    by (simp add: create_eligibility_record_def abind_def query_def alift_def Let_def save_row_def first_where_def eligibility_full_clean_def
      related_check_def sample_table_rows years_and_terms_def cohort_and_area_def is_dict_def sample_run_simps report_assessment_simps sample_table_rows same_reports_def)
      (simp add: add_eligibility_def)
qed


lemma cents_field: "decimal_field 9 2 (Fin False 4000 (-2))" "decimal_field 7 2 (Fin False 4000 (-2))"
  "stored_2 (Fin False 4000 (-2)) = Fin False 4000 (-2)"
  by (simp_all add: decimal_field_def stored_2_def ndigits.simps)

lemma round_learner:
  assumes "in_sample_run u" and "learner_reports u = []" and p: "build_subject_line_payload report_snapshot report_assessment = Inr p"
  shows "\<exists>y. create_learner_report sample_report_ids sample_school sample_run [(report_snapshot, report_assessment, p)] (0, ''p1'') u
      = (Inr (''p1'', y), add_learner_report y u) \<and> lr_id y = ''w3'' \<and> lr_tenant y = ''s1'' \<and> lr_run y = ''w1'' \<and> lr_cohort y = ''c1'' \<and>
        lr_average y = Fin False 4000 (-2)"
proof -
  from one_line p have "lp_percentage p = dec_str (Fin False 4000 (-2))" "lp_raw_score p = dec_str (Fin False 4000 (-2))" by auto
  from one_learner [OF this] obtain y where y: "build_learner_snapshot_payload ''p1'' [p] ''ready_for_reports'' = Inr y" "yp_subject_count y = 1"
    "yp_total_score y = dec_str (Fin False 4000 (-2))" "yp_average y = dec_str (Fin False 4000 (-2))"
    "yp_readiness_status y = ''ready_for_reports''" "json_field (yp_context y)" "is_dict (yp_context y)" 
    "json_field (JObj (map (\<lambda>(i, v). (i, JStr v)) (yp_schema_versions y)))" by blast
  have "ls_student report_snapshot = ''p1''" "ls_cohort report_snapshot = ''c1''" by (simp_all add: report_snapshot_def)
  then show ?thesis
    using in_sample_run_rows [OF assms(1)] y assms(2)
    by (simp add: create_learner_report_def abind_def alift_def Let_def save_row_def learner_report_full_clean_def score_text cents_field
      related_check_def sample_table_rows years_and_terms_def is_dict_def sample_run_simps report_assessment_simps positive_integer_field_def json_field_def [of "JObj [(''resolved'', JBool True)]"])
      (simp add: sample_report_ids_def)
qed

lemma round_line:
  assumes "in_sample_run u" and "learner_report_row u ''w3'' = Some y'" and "lr_tenant y' = ''s1''" and "subject_lines u = []" and p: "build_subject_line_payload report_snapshot report_assessment = Inr p"
    and "lr_id y = ''w3''"
  shows "\<exists>l. create_subject_line sample_report_ids sample_school sample_run [(''p1'', y)] (0, (report_snapshot, report_assessment, p)) u
      = (Inr l, add_subject_line l u) \<and> sl_learning_area l = ''l1'' \<and> sl_run l = ''w1'' \<and> sl_tenant l = ''s1'' \<and>
        sl_score_summary l = ls_score_summary report_snapshot"
proof -
  note l = one_line [unfolded p, simplified]
  have s: "ls_student report_snapshot = ''p1''" "ls_cohort report_snapshot = ''c1''" "ls_id report_snapshot = ''o1''" "ls_run report_snapshot = ''j1''"
    "ls_learning_area report_snapshot = ''l1''" "ls_version report_snapshot = ''v1''" "ls_rubric report_snapshot = Some ''f1''"
    "as_schema_version report_assessment = []"
    by (simp_all add: report_snapshot_def report_assessment_def sample_assessment_def)
  have j: "json_field (ls_score_summary report_snapshot)" "is_dict (ls_score_summary report_snapshot)"
    by (simp_all add: report_snapshot_def build_score_summary_def sample_record_def report_assessment_simps report_percentage json_field_def is_dict_def opt_json_def)
  show ?thesis
    using in_sample_run_rows [OF assms(1)] assms(2-4,6) l s j
    by (simp add: create_subject_line_def alift_def save_row_def subject_line_full_clean_def char_field_def opt_fk_def
      related_check_def sample_table_rows years_and_terms_def cohort_and_area_def sample_run_simps report_assessment_simps json_field_def [of "JObj []"] is_dict_def [of "JObj []"])
qed

definition sample_scope :: "aggregate_scope \<Rightarrow> bool" where
  "sample_scope g \<longleftrightarrow> gp_scope_type g \<in> {''school'', ''cohort'', ''stream'', ''subject'', ''department''} \<and>
     gp_percentages g = [dec_str (Fin False 4000 (-2))] \<and> gp_cohort g \<in> {None, Some (hd (cohorts sample_academic))} \<and>
     gp_learning_area g \<in> {None, Some (hd (learning_areas sample_academic))} \<and> length (gp_stream_label g) \<le> 64 \<and>
     length (gp_department_key g) \<le> 96"

lemma one_metrics_ok:
  "\<exists>m x. build_scope_aggregate k [dec_str (Fin False 4000 (-2))] 0 0 0 0 3 = Inr (m, x) \<and> json_field (JObj x)"
  unfolding one_metrics Let_def metrics_json_def by (simp add: json_field_def)

lemma round_aggregate:
  assumes "in_sample_run u" and g: "sample_scope g"
  shows "\<exists>a. create_aggregate sample_report_ids sample_school sample_run (k, g) u = (Inr a, add_aggregate a u)"
proof -
  from one_metrics_ok obtain m x where
    m: "build_scope_aggregate (gp_scope_type g) (gp_percentages g) 0 0 0 0 3 = Inr (m, x)" "json_field (JObj x)"
    using g unfolding sample_scope_def by metis
  have "aggregate_full_clean u a = Inr a" if "ag_tenant a = ''s1''" "ag_run a = ''w1''" "ag_academic_year a = ''y1''" "ag_term a = ''t1''"
    "ag_scope_type a = gp_scope_type g" "ag_grade_level a = map_option co_grade_level (gp_cohort g)" "ag_cohort a = map_option co_id (gp_cohort g)"
    "ag_learning_area a = map_option la_id (gp_learning_area g)" "ag_stream_label a = gp_stream_label g"
    "ag_department_key a = gp_department_key g" "ag_metrics a = JObj x" "ag_status a = ''computed''" for a
  proof -
    have "opt_fk (\<lambda>i. \<exists>r. grade_level_row u i = Some r) (ag_grade_level a)"
      "(case ag_cohort a of None \<Rightarrow> Some (ag_tenant a) | Some c \<Rightarrow> map_option co_tenant (cohort_row u c)) = Some ''s1''"
      "(case ag_learning_area a of None \<Rightarrow> Some (ag_tenant a) | Some l \<Rightarrow> map_option la_tenant (learning_area_row u l)) = Some ''s1''"
      using in_sample_run_rows [OF assms(1)] g that by (auto simp: sample_scope_def sample_table_rows opt_fk_def)
    then show ?thesis
    using in_sample_run_rows [OF assms(1)] g m(2) that(1-5,9-12)
    by (simp add: aggregate_full_clean_def related_check_def years_and_terms_def sample_scope_def sample_table_rows sample_run_simps is_dict_def char_field_def)
  qed
  then show ?thesis by (simp add: create_aggregate_def abind_def alift_def save_row_def m sample_table_rows sample_run_simps)
qed

lemma rounds_aggregate:
  assumes "in_sample_run u" and "list_all (\<lambda>x. sample_scope (snd x)) gs"
  shows "\<exists>as u'. aeach (create_aggregate sample_report_ids sample_school sample_run) gs u = (Inr as, u') \<and> in_sample_run u'"
  using assms
proof (induction gs arbitrary: u)
  case (Cons x gs)
  then obtain a where a: "create_aggregate sample_report_ids sample_school sample_run x u = (Inr a, add_aggregate a u)"
    using round_aggregate [of u "snd x" "fst x"] by auto
  then show ?case using Cons.IH [of "add_aggregate a u"] Cons.prems by (auto simp: abind_def alift_def)
qed (simp add: alift_def)

lemma sample_scopes:
  assumes "in_sample_run u" and "learner_reports u = [y]" and "subject_lines u = [l]" and "lr_tenant y = ''s1''" "lr_run y = ''w1''" "lr_cohort y = ''c1''"
    "lr_average y = Fin False 4000 (-2)" and "sl_learning_area l = ''l1''" "sl_run l = ''w1''" "sl_tenant l = ''s1''"
    "sl_score_summary l = ls_score_summary report_snapshot"
  shows "\<exists>gs. aggregate_scopes u sample_school sample_run = Inr gs \<and> list_all (\<lambda>x. sample_scope (snd x)) (numbered gs)"
proof -
  have "subject_percentage l = Inr (dec_str (Fin False 4000 (-2)))"
    by (simp add: subject_percentage_def assms report_snapshot_def build_score_summary_def sample_record_def report_assessment_simps report_percentage
      or_json_def jget_or_def jget_def)
  then show ?thesis
    using in_sample_run_rows [OF assms(1)] assms(2-)
    by (simp add: aggregate_scopes_def get_learner_report_snapshots_def get_report_subject_line_snapshots_def sample_table_rows sample_run_simps
      cohort_scopes_def area_scopes_def py_sorted_set_def Let_def numbered_def sample_scope_def)
qed

lemma sample_assessments:
  "report_assessments sample_reports (get_academic_head_readiness_scope sample_reports) report_admin sample_school ''y1'' ''t1'' [] = Inr [report_assessment]"
proof -
  have "context_is_valid sample_reports (report_context sample_reports report_admin sample_school) \<and>
      role_in (report_context sample_reports report_admin sample_school) GRADING_EXECUTIVE_ROLES"
    by (simp add: report_context_def policy_context_for_def role_for_def role_row_is_def first_where_def sample_reports_parts sample_report_simps
      sample_school_def report_admin_def context_is_valid_def user_has_role_in_tenant_def get_roles_for_user_in_tenant_def GRADING_EXECUTIVE_ROLES_def
      get_active_tenant_user_role_bindings_def user_active_def school_active_def role_in_def GRADING_ACADEMIC_HEAD_ROLE_CODES_def)
  then have "can_compute_report_snapshot sample_reports (report_context sample_reports report_admin sample_school) (Some sample_school)"
    by (simp add: can_compute_report_snapshot_def) (simp add: report_context_def policy_context_for_def)
  then show ?thesis
    by (simp add: report_assessments_def get_academic_head_readiness_scope_def get_assessment_readiness_scope_def sample_reports_parts
      sample_report_simps sample_table_rows passes_filters_def period_filters_def scope_filters_def report_assessment_simps)
qed

lemma sample_report_runs:
  "\<exists>q db'. create_report_snapshot_run 9 9 sample_report_ids report_admin sample_school ''y1'' ''t1'' [] sample_reports = (Inr q, db') \<and>
     (\<exists>l. subject_lines db' = [l])"
proof -
  let ?ids = sample_report_ids and ?u0 = "add_report_run sample_run sample_reports"
  obtain p where p: "build_subject_line_payload report_snapshot report_assessment = Inr p" using one_line by blast
  have u0: "in_sample_run ?u0"
    using only_reports_add(1) by (simp add: in_sample_run_def) (simp add: add_report_run_def sample_reports_tables)
  obtain e u1 where u1: "create_eligibility_record 9 ?ids sample_school sample_run (0, report_assessment) ?u0 = (Inr e, u1)"
    "eg_eligible e" "eg_run e = ''j1''" "eg_codes e = []" "in_sample_run u1" "same_reports ?u0 u1" using round_eligibility [OF u0] by blast
  have t1: "learner_reports u1 = []" "subject_lines u1 = []"
    using u1(6) by (simp_all add: same_reports_def add_report_run_def sample_reports_tables)
  have rows: "snapshot_source_rows u1 sample_school (eligible_compilation_ids [e]) = [report_snapshot]"
    using u1 by (simp add: snapshot_source_rows_def eligible_compilation_ids_def in_sample_run_def only_reports_tables [of sample_reports]
      sample_reports_parts sample_report_simps py_sorted_set_def) (simp add: report_snapshot_def sample_school_def)
  obtain y where y: "create_learner_report ?ids sample_school sample_run [(report_snapshot, report_assessment, p)] (0, ''p1'') u1
      = (Inr (''p1'', y), add_learner_report y u1)" "lr_id y = ''w3''" "lr_tenant y = ''s1''" "lr_run y = ''w1''" "lr_cohort y = ''c1''"
    "lr_average y = Fin False 4000 (-2)" using round_learner [OF u1(5) t1(1) p] by blast
  let ?y = "y\<lparr>lr_total := stored_2 (lr_total y), lr_average := stored_2 (lr_average y)\<rparr>" and ?u2 = "add_learner_report y u1"
  have "learner_report_row ?u2 ''w3'' = Some ?y" "subject_lines ?u2 = []"
    by (simp_all add: learner_report_row_def first_where_def add_learner_report_def t1 y)
  from round_line [OF in_sample_run_add(2) [OF u1(5)] this(1) _ this(2) p y(2)] obtain l where
    l: "create_subject_line ?ids sample_school sample_run [(''p1'', y)] (0, (report_snapshot, report_assessment, p)) ?u2
      = (Inr l, add_subject_line l ?u2)" "sl_learning_area l = ''l1''" "sl_run l = ''w1''" "sl_tenant l = ''s1''"
    "sl_score_summary l = ls_score_summary report_snapshot" using y(3) by auto
  let ?u3 = "add_subject_line l ?u2"
  have u3: "in_sample_run ?u3" "learner_reports ?u3 = [?y]" "subject_lines ?u3 = [l]"
    using u1(5) by (simp, simp_all add: add_subject_line_def add_learner_report_def t1)
  obtain gs where gs: "aggregate_scopes ?u3 sample_school sample_run = Inr gs" "list_all (\<lambda>x. sample_scope (snd x)) (numbered gs)"
    using sample_scopes [OF u3 _ _ _ _ l(2-5)] y by (auto simp: cents_field)
  obtain as u4 where u4: "aeach (create_aggregate ?ids sample_school sample_run) (numbered gs) ?u3 = (Inr as, u4)" "in_sample_run u4"
    using rounds_aggregate [OF u3(1) gs(2)] by blast
  have n: "numbered [x] = [(0, x)]" for x :: 'z by (simp add: numbered_def)
  have s: "ls_student report_snapshot = ''p1''" "ls_assessment report_snapshot = ''x1''" by (simp_all add: report_snapshot_def)
  have "build_report_snapshots ?ids sample_school sample_run [report_snapshot] u1 = (Inr (), ?u3)"
    using in_sample_run_rows(3) [OF u1(5)] y(1) l(1)
    by (simp add: build_report_snapshots_def abind_def query_def alift_def source_line_def p s n py_sorted_set_def)
  moreover have "compute_report_snapshot_aggregates ?ids sample_school sample_run ?u3 = (Inr as, u4)"
    using gs(1) u4(1) by (simp add: compute_report_snapshot_aggregates_def abind_def query_def)
  moreover let ?q = "finished_run 9 [e] sample_run"
  have "report_run_full_clean u4 ?q = Inr ?q"
  proof (rule sample_run_clean)
    show "only_reports sample_reports u4" using u4(2) by (simp add: in_sample_run_def)
  qed (use u1(2,4) in \<open>simp_all add: finished_run_def Let_def summarize_eligibility_def sample_run_simps report_run_statuses_def
      eligibility_summary_json_def counted_def py_sorted_set_def json_field_def is_dict_def\<close>)
  moreover have "report_run_full_clean sample_reports sample_run = Inr sample_run"
    by (rule sample_run_clean) (simp_all add: sample_run_simps report_run_statuses_def json_field_def is_dict_def reports.order_refl)
  moreover have "subject_lines (put_report_run ?q u4) = [l]"
  proof -
    have "same_reports ?u3 u4" by (rule same_reports.obeysD [OF same_reports.obeys_aeach u4(1)]) (rule report_rounds_same)
    then show ?thesis using u3(3) by (simp add: same_reports_def put_report_run_def)
  qed
  moreover have "create_eligibility_records 9 ?ids sample_school sample_run [report_assessment] ?u0 = (Inr [e], u1)"
    using u1(1) by (simp add: create_eligibility_records_def n abind_def alift_def)
  moreover have "new_report_run 9 ?ids sample_school report_admin ''y1'' ''t1'' = sample_run" by (simp add: sample_run_def)
  ultimately show ?thesis
    by (simp add: create_report_snapshot_run_def atomic_def abind_def query_def save_row_def sample_assessments rows)
qed

text \<open>Witnesses.\<close>

theorem report_snapshot_outcome_witness:
  "\<exists>q db'. create_report_snapshot_run 9 9 sample_report_ids report_admin sample_school ''y1'' ''t1'' [] sample_reports = (Inr q, db') \<and>
     (\<exists>s\<in>set (learner_reports db'). \<exists>l. subject_lines db' = [l] \<and> sl_learner l = lr_id s \<and> lr_subject_count s = 1)"
proof -
  obtain q db' l where r: "create_report_snapshot_run 9 9 sample_report_ids report_admin sample_school ''y1'' ''t1'' [] sample_reports = (Inr q, db')"
    and l: "subject_lines db' = [l]" using sample_report_runs by blast
  from report_snapshot_outcome [OF r] obtain learners where a: "learner_reports db' = learners"
    "list_all (\<lambda>s. lr_subject_count s = int (count_list (map sl_student [l]) (lr_student s))) learners"
    "list_all (\<lambda>l. \<exists>s\<in>set learners. sl_learner l = lr_id s \<and> lr_student s = sl_student l) [l]"
    by (auto simp: l sample_reports_tables)
  from a(3) obtain s where "s \<in> set learners" "sl_learner l = lr_id s" "lr_student s = sl_student l" by auto
  moreover from this a(2) have "lr_subject_count s = 1" by (auto simp: list_all_iff)
  ultimately show ?thesis using r l a(1) by blast
qed

theorem reported_marks_official_witness:
  "\<exists>q db'. create_report_snapshot_run 9 9 sample_report_ids report_admin sample_school ''y1'' ''t1'' [] sample_reports = (Inr q, db') \<and>
     (\<exists>g\<in>set (grade_records db'). \<exists>l\<in>set (subject_lines db'). rec_student g = sl_student l \<and> rec_assessment g = sl_assessment l)"
proof -
  obtain q db' l where r: "create_report_snapshot_run 9 9 sample_report_ids report_admin sample_school ''y1'' ''t1'' [] sample_reports = (Inr q, db')"
    and l: "subject_lines db' = [l]" using sample_report_runs by blast
  have "subject_lines db' = subject_lines sample_reports @ [l]" by (simp add: l sample_reports_tables)
  from reported_marks_official [OF rtranclp.rtrancl_refl sample_reports_ok r this, of l] show ?thesis using r l by fastforce
qed

end
