(* ===== verification/SourceUrl.thy ===== *)
theory SourceUrl
  imports CurriculumState Json
begin

text \<open>
  Which source references curriculum governance accepts: the URL rules of source_url_validator.py and
  ssrf_guard.py, with what they use of Python 3.11's urllib.parse and ipaddress.
\<close>

section \<open>Splitting texts\<close>

text \<open>\<open>s.partition(d)\<close> and \<open>s.rpartition(d)\<close>, with whether \<open>d\<close> was found.\<close>

definition partition_at :: "char \<Rightarrow> string \<Rightarrow> string \<times> bool \<times> string" where
  "partition_at d s = (takeWhile (\<lambda>c. c \<noteq> d) s, d \<in> set s, drop 1 (dropWhile (\<lambda>c. c \<noteq> d) s))"

definition rpartition_at :: "char \<Rightarrow> string \<Rightarrow> string \<times> bool \<times> string" where
  "rpartition_at d s =
     (rev (drop 1 (dropWhile (\<lambda>c. c \<noteq> d) (rev s))), d \<in> set s, rev (takeWhile (\<lambda>c. c \<noteq> d) (rev s)))"

section \<open>IP addresses (ipaddress)\<close>

datatype ip_address = IPv4 nat | IPv6 nat

definition is_hex :: "char \<Rightarrow> bool" where
  "is_hex c \<longleftrightarrow> is_09 c \<or> 97 \<le> code (lower_char c) \<and> code (lower_char c) \<le> 102"

definition hex_val :: "char \<Rightarrow> nat" where
  "hex_val c = (if is_09 c then code c - 48 else code (lower_char c) - 87)"

definition read_hex :: "string \<Rightarrow> nat" where
  "read_hex s = foldl (\<lambda>n c. 16 * n + hex_val c) 0 s"

text \<open>An octet: one to three digits without a leading zero, up to 255.\<close>

definition parse_octet :: "string \<Rightarrow> nat option" where
  "parse_octet s =
     (if s \<noteq> [] \<and> list_all is_09 s \<and> length s \<le> 3 \<and> (s = ''0'' \<or> hd s \<noteq> CHR ''0'') \<and> read_nat s \<le> 255
      then Some (read_nat s) else None)"

definition parse_ipv4 :: "string \<Rightarrow> nat option" where
  "parse_ipv4 s =
     (case map parse_octet (split_on (CHR ''.'') s) of
        [Some a, Some b, Some c, Some d] \<Rightarrow> Some (((a * 256 + b) * 256 + c) * 256 + d)
      | _ \<Rightarrow> None)"

definition parse_hextet :: "string \<Rightarrow> nat option" where
  "parse_hextet s = (if s \<noteq> [] \<and> list_all is_hex s \<and> length s \<le> 4 then Some (read_hex s) else None)"

fun all_some :: "'a option list \<Rightarrow> 'a list option" where
  "all_some [] = Some []"
| "all_some (None # xs) = None"
| "all_some (Some x # xs) = map_option (\<lambda>ys. x # ys) (all_some xs)"

fun hex_str :: "nat \<Rightarrow> string" where
  "hex_str n = (if n < 16 then [hex_digit n] else hex_str (n div 16) @ [hex_digit (n mod 16)])"

declare hex_str.simps [simp del]

text \<open>The parts between colons, an IPv4 tail replaced by its two hextets.\<close>

definition ipv6_parts :: "string \<Rightarrow> string list option" where
  "ipv6_parts s =
     (let ps = split_on (CHR '':'') s in
      if length ps < 3 then None
      else if CHR ''.'' \<in> set (last ps)
      then (case parse_ipv4 (last ps) of None \<Rightarrow> None
            | Some n \<Rightarrow> Some (butlast ps @ [hex_str (n div 65536), hex_str (n mod 65536)]))
      else Some ps)"

definition hextets_number :: "nat list \<Rightarrow> nat" where
  "hextets_number hs = foldl (\<lambda>n h. n * 65536 + h) 0 hs"

text \<open>
  One inner empty part stands for the zeros left out; an empty first or last part is only allowed
  beside it.
\<close>

definition parse_ipv6_parts :: "string list \<Rightarrow> nat option" where
  "parse_ipv6_parts ps =
     (if 9 < length ps then None
      else case filter (\<lambda>i. ps ! i = []) [1..<length ps - 1] of
        [] \<Rightarrow> if length ps \<noteq> 8 then None else map_option hextets_number (all_some (map parse_hextet ps))
      | [k] \<Rightarrow>
          let hi = (if hd ps = [] then k - 1 else k);
              lo = (if last ps = [] then length ps - k - 2 else length ps - k - 1) in
          if (hd ps = [] \<and> hi \<noteq> 0) \<or> (last ps = [] \<and> lo \<noteq> 0) \<or> 8 < hi + lo + 1 then None
          else (case (all_some (map parse_hextet (take hi ps)), all_some (map parse_hextet (drop (length ps - lo) ps))) of
                  (Some a, Some b) \<Rightarrow> Some (hextets_number (a @ replicate (8 - hi - lo) 0 @ b))
                | _ \<Rightarrow> None)
      | _ \<Rightarrow> None)"

text \<open>A scope after a percent sign is not empty and holds no other percent sign.\<close>

definition parse_ipv6 :: "string \<Rightarrow> nat option" where
  "parse_ipv6 s =
     (let (addr, scoped, scope) = partition_at (CHR ''%'') s in
      if CHR ''/'' \<in> set s \<or> (scoped \<and> (scope = [] \<or> CHR ''%'' \<in> set scope)) then None
      else Option.bind (ipv6_parts addr) parse_ipv6_parts)"

definition ip_address :: "string \<Rightarrow> ip_address option" where
  "ip_address s =
     (case (if CHR ''/'' \<in> set s then None else parse_ipv4 s) of
        Some n \<Rightarrow> Some (IPv4 n) | None \<Rightarrow> map_option IPv6 (parse_ipv6 s))"

text \<open>A network: the first bits of an address.\<close>

definition in_net :: "nat \<Rightarrow> nat \<Rightarrow> nat \<Rightarrow> nat \<Rightarrow> bool" where
  "in_net bits prefix_length net n \<longleftrightarrow> n div 2 ^ (bits - prefix_length) = net div 2 ^ (bits - prefix_length)"

definition v4 :: "nat \<Rightarrow> nat \<Rightarrow> nat \<Rightarrow> nat \<Rightarrow> nat" where
  "v4 a b c d = ((a * 256 + b) * 256 + c) * 256 + d"

definition v6 :: "nat list \<Rightarrow> nat" where
  "v6 hs = hextets_number (hs @ replicate (8 - length hs) 0)"

definition ipv4_private_networks :: "(nat \<times> nat) list" where
  "ipv4_private_networks =
     [(8, 0), (8, v4 10 0 0 0), (8, v4 127 0 0 0), (16, v4 169 254 0 0), (12, v4 172 16 0 0), (24, v4 192 0 0 0),
      (31, v4 192 0 0 170), (24, v4 192 0 2 0), (16, v4 192 168 0 0), (15, v4 198 18 0 0), (24, v4 198 51 100 0),
      (24, v4 203 0 113 0), (4, v4 240 0 0 0), (32, v4 255 255 255 255)]"

definition ipv4_private :: "nat \<Rightarrow> bool" where
  "ipv4_private n \<longleftrightarrow> (\<exists>(p, net)\<in>set ipv4_private_networks. in_net 32 p net n) \<and> n \<notin> {v4 192 0 0 9, v4 192 0 0 10}"

definition ipv6_private_networks :: "(nat \<times> nat) list" where
  "ipv6_private_networks =
     [(128, 1), (128, 0), (96, v6 [0, 0, 0, 0, 0, 65535]), (48, v6 [0x64, 0xff9b, 1]), (64, v6 [0x100]), (23, v6 [0x2001]),
      (32, v6 [0x2001, 0xdb8]), (16, v6 [0x2002]), (20, v6 [0x3fff]), (7, v6 [0xfc00]), (10, v6 [0xfe80])]"

definition ipv6_private_exceptions :: "(nat \<times> nat) list" where
  "ipv6_private_exceptions =
     [(128, v6 [0x2001, 1, 0, 0, 0, 0, 0, 1]), (128, v6 [0x2001, 1, 0, 0, 0, 0, 0, 2]), (32, v6 [0x2001, 3]),
      (48, v6 [0x2001, 4, 0x112]), (28, v6 [0x2001, 0x20]), (28, v6 [0x2001, 0x30])]"

definition ipv6_reserved_networks :: "(nat \<times> nat) list" where
  "ipv6_reserved_networks =
     [(8, 0), (8, v6 [0x100]), (7, v6 [0x200]), (6, v6 [0x400]), (5, v6 [0x800]), (4, v6 [0x1000]), (3, v6 [0x4000]), (3, v6 [0x6000]),
      (3, v6 [0x8000]), (3, v6 [0xa000]), (3, v6 [0xc000]), (4, v6 [0xe000]), (5, v6 [0xf000]), (6, v6 [0xf800]), (9, v6 [0xfe00])]"

definition in_nets :: "nat \<Rightarrow> (nat \<times> nat) list \<Rightarrow> nat \<Rightarrow> bool" where
  "in_nets bits nets n \<longleftrightarrow> (\<exists>(p, net)\<in>set nets. in_net bits p net n)"

text \<open>\<open>is_loopback or is_private or is_link_local or is_multicast or is_reserved or is_unspecified\<close>.\<close>

fun is_internal_address :: "ip_address \<Rightarrow> bool" where
  "is_internal_address (IPv4 n) \<longleftrightarrow>
     ipv4_private n \<or> in_nets 32 [(8, v4 127 0 0 0), (16, v4 169 254 0 0), (4, v4 224 0 0 0), (4, v4 240 0 0 0)] n \<or> n = 0"
| "is_internal_address (IPv6 n) \<longleftrightarrow>
     (if in_net 128 96 (v6 [0, 0, 0, 0, 0, 65535]) n then ipv4_private (n mod 2 ^ 32)
      else in_nets 128 ipv6_private_networks n \<and> \<not> in_nets 128 ipv6_private_exceptions n)
     \<or> n = 1 \<or> in_nets 128 [(10, v6 [0xfe80]), (8, v6 [0xff00])] n \<or> in_nets 128 ipv6_reserved_networks n \<or> n = 0"

text \<open>\<open>str\<close> of an IPv4 address; the only text an address is compared with is one of these.\<close>

fun address_is :: "ip_address \<Rightarrow> nat \<Rightarrow> bool" where
  "address_is (IPv4 n) k \<longleftrightarrow> n = k" | "address_is (IPv6 n) k = False"

section \<open>Hosts (ssrf_guard.py)\<close>

definition normalize_host :: "string \<Rightarrow> string" where
  "normalize_host host = rstrip_where (\<lambda>c. c = CHR ''.'') (lower (strip host))"

definition INTERNAL_HOSTS :: "string list" where
  "INTERNAL_HOSTS = [''localhost'', ''metadata'', ''metadata.google.internal'']"

definition strip_brackets :: "string \<Rightarrow> string" where
  "strip_brackets s = (let P = \<lambda>c. c = CHR ''['' \<or> c = CHR '']'' in rstrip_where P (dropWhile P s))"

definition validate_host :: "string \<Rightarrow> string list \<Rightarrow> string result" where
  "validate_host host allowed_domains =
     (let h = normalize_host host; allowed = map normalize_host (filter (\<lambda>d. strip d \<noteq> []) allowed_domains) in
      if h = [] then Inl (ValidationError ''source_url'' ''Source host is required.'')
      else if h \<in> set INTERNAL_HOSTS \<or> endswith h ''.local'' then Inl (ValidationError ''source_url'' ''Internal hosts are not allowed.'')
      else if allowed = [] then Inl (ValidationError ''allowed_domains'' ''Allowed domains are required.'')
      else case ip_address (strip_brackets h) of
        None \<Rightarrow> if h \<notin> set allowed then Inl (ValidationError ''source_url'' ''Source host is not approved.'') else Inr h
      | Some a \<Rightarrow>
          if address_is a (v4 169 254 169 254) then Inl (ValidationError ''source_url'' ''Metadata endpoints are not allowed.'')
          else if is_internal_address a then Inl (ValidationError ''source_url'' ''Internal network addresses are not allowed.'')
          else if h \<notin> set allowed then Inl (ValidationError ''source_url'' ''Source host is not approved.'') else Inr h)"

section \<open>URLs (urllib.parse, source_url_validator.py)\<close>

record split_url =
  ur_scheme :: string
  ur_netloc :: string
  ur_path :: string
  ur_query :: string

definition scheme_char :: "char \<Rightarrow> bool" where
  "scheme_char c \<longleftrightarrow> is_az c \<or> is_AZ c \<or> is_09 c \<or> c \<in> {CHR ''+'', CHR ''-'', CHR ''.''}"

text \<open>The text before the first colon, when it is a scheme.\<close>

definition split_scheme :: "string \<Rightarrow> string \<times> string" where
  "split_scheme url =
     (let (s, found, rest) = partition_at (CHR '':'') url in
      if found \<and> s \<noteq> [] \<and> (is_az (hd s) \<or> is_AZ (hd s)) \<and> list_all scheme_char s then (lower s, rest) else ([], url))"

definition split_netloc :: "string \<Rightarrow> string \<times> string" where
  "split_netloc url =
     (if startswith url ''//''
      then let P = \<lambda>c. c \<notin> {CHR ''/'', CHR ''?'', CHR ''#''} in (takeWhile P (drop 2 url), dropWhile P (drop 2 url))
      else ([], url))"

text \<open>What may stand in brackets: an IPv6 address or a future address.\<close>

definition bracketed_host_ok :: "string \<Rightarrow> bool" where
  "bracketed_host_ok h \<longleftrightarrow>
     (if startswith h ''v''
      then (let (digits, dot, rest) = partition_at (CHR ''.'') (tl h) in
        dot \<and> digits \<noteq> [] \<and> list_all is_hex digits \<and> rest \<noteq> [])
      else (case ip_address h of Some (IPv6 _) \<Rightarrow> True | _ \<Rightarrow> False))"

definition netloc_ok :: "string \<Rightarrow> bool" where
  "netloc_ok netloc \<longleftrightarrow>
     (let opens = CHR ''['' \<in> set netloc; closes = CHR '']'' \<in> set netloc in
      opens = closes \<and>
      (opens \<longrightarrow>
        (let (_, _, hostport) = rpartition_at (CHR ''@'') netloc; (pre, open_br, bracketed) = partition_at (CHR ''['') hostport;
             (h, _, port) = partition_at (CHR '']'') bracketed; (plain, _, _) = partition_at (CHR '':'') hostport in
         if open_br then pre = [] \<and> (port = [] \<or> startswith port '':'') \<and> bracketed_host_ok h
         else bracketed_host_ok plain)))"

definition urlsplit :: "string \<Rightarrow> split_url result" where
  "urlsplit url =
     (let url = filter (\<lambda>c. code c \<notin> {9, 10, 13}) (dropWhile (\<lambda>c. code c \<le> 32) url);
          (scheme, url) = split_scheme url; (netloc, url) = split_netloc url in
      if \<not> netloc_ok netloc then Inl (ValueError ''Invalid IPv6 URL'')
      else let (url, _, _) = partition_at (CHR ''#'') url; (path, _, query_text) = partition_at (CHR ''?'') url in
        Inr \<lparr>ur_scheme = scheme, ur_netloc = netloc, ur_path = path, ur_query = query_text\<rparr>)"

definition host_and_port :: "string \<Rightarrow> string \<times> string" where
  "host_and_port netloc =
     (let (_, _, hostinfo) = rpartition_at (CHR ''@'') netloc; (_, open_br, bracketed) = partition_at (CHR ''['') hostinfo in
      if open_br
      then let (h, _, after) = partition_at (CHR '']'') bracketed; (_, _, port) = partition_at (CHR '':'') after in (h, port)
      else let (h, _, port) = partition_at (CHR '':'') hostinfo in (h, port))"

text \<open>The host, its zone kept as written; empty when there is none.\<close>

definition url_hostname :: "string \<Rightarrow> string" where
  "url_hostname netloc =
     (let (h, found, zone) = partition_at (CHR ''%'') (fst (host_and_port netloc)) in
      lower h @ (if found then CHR ''%'' # zone else []))"

definition has_credentials :: "string \<Rightarrow> bool" where
  "has_credentials netloc =
     (let (userinfo, found, _) = rpartition_at (CHR ''@'') netloc; (username, _, password) = partition_at (CHR '':'') userinfo in
      found \<and> (username \<noteq> [] \<or> password \<noteq> []))"

definition url_port :: "string \<Rightarrow> int option result" where
  "url_port netloc =
     (let port = snd (host_and_port netloc) in
      if port = [] then Inr None
      else if list_all is_09 port \<and> read_nat port \<le> 65535 then Inr (Some (int (read_nat port)))
      else Inl (ValueError ''Port''))"

definition urlunsplit :: "string \<Rightarrow> string \<Rightarrow> string \<Rightarrow> string \<Rightarrow> string" where
  "urlunsplit scheme netloc path query_text =
     scheme @ '':'' @ ''//'' @ netloc @ (if path \<noteq> [] \<and> hd path \<noteq> CHR ''/'' then CHR ''/'' # path else path)
       @ (if query_text = [] then [] else CHR ''?'' # query_text)"

definition validate_source_url :: "string \<Rightarrow> string list \<Rightarrow> string result" where
  "validate_source_url source_url allowed_domains =
     (let value = strip source_url in
      if value = [] then Inl (ValidationError ''source_url'' ''Source URL is required.'')
      else ebind (urlsplit value) (\<lambda>u.
        if lower (ur_scheme u) \<noteq> ''https'' then Inl (ValidationError ''source_url'' ''HTTPS source URLs are required.'')
        else if url_hostname (ur_netloc u) = [] then Inl (ValidationError ''source_url'' ''Malformed source URL.'')
        else if has_credentials (ur_netloc u) then Inl (ValidationError ''source_url'' ''Credentialed source URLs are not allowed.'')
        else ebind (validate_host (url_hostname (ur_netloc u)) allowed_domains) (\<lambda>host.
          case url_port (ur_netloc u) of
            Inl _ \<Rightarrow> Inl (ValidationError ''source_url'' ''Invalid source URL port.'')
          | Inr port \<Rightarrow>
              if port \<notin> {None, Some 0, Some 443}
              then Inl (ValidationError ''source_url'' ''Only the canonical HTTPS port is allowed.'')
              else Inr (urlunsplit (lower (ur_scheme u)) (if port = Some 443 then host @ '':443'' else host)
                     (if ur_path u = [] then ''/'' else ur_path u) (ur_query u)))))"

end
