(* ===== verification/SourceRules.thy ===== *)
theory SourceRules
  imports SourceUrl
begin

text \<open>
  The rules sources and evidence are checked by: authority_normalizer.py, authority_registry.py,
  artifact_validator.py, upload_metadata_guard.py, source_fingerprint.py, evidence_fingerprint.py,
  change_detector.py, document_signal_validator.py, verification_confidence_scorer.py, scope_estimator.py,
  app_impact_planner.py, rollback_candidate_rules.py and verification_sla_calculator.py. The SHA-256 hex
  digest of a text is a parameter.
\<close>

section \<open>Authorities\<close>

text \<open>\<open>re.sub(r"[^a-z0-9]+", "-", s)\<close>: every run of other characters becomes one dash.\<close>

definition slug_char :: "char \<Rightarrow> bool" where "slug_char c \<longleftrightarrow> is_az c \<or> is_09 c"

fun dash_runs :: "string \<Rightarrow> string" where
  "dash_runs [] = []"
| "dash_runs (c # s) =
     (if slug_char c then c # dash_runs s
      else if s \<noteq> [] \<and> \<not> slug_char (hd s) then dash_runs s else CHR ''-'' # dash_runs s)"

definition strip_dashes :: "string \<Rightarrow> string" where
  "strip_dashes s = rstrip_where (\<lambda>c. c = CHR ''-'') (dropWhile (\<lambda>c. c = CHR ''-'') s)"

definition normalize_authority_code :: "string \<Rightarrow> string result" where
  "normalize_authority_code value =
     (let normalized = strip_dashes (dash_runs (lower (strip value))) in
      if normalized = [] then Inl (ValidationError ''code'' ''Authority code is required.'') else Inr normalized)"

definition APPROVED_AUTHORITY_DOMAINS :: "(string \<times> string list) list" where
  "APPROVED_AUTHORITY_DOMAINS =
     [(''kicd'', [''kicd.ac.ke'', ''www.kicd.ac.ke'']), (''knec'', [''knec.ac.ke'', ''www.knec.ac.ke'']),
      (''moe'', [''education.go.ke'', ''www.education.go.ke'']),
      (''ministry-of-education'', [''education.go.ke'', ''www.education.go.ke'']), (''tsc'', [''tsc.go.ke'', ''www.tsc.go.ke''])]"

text \<open>Entries that are no text or blank are left out before the check.\<close>

definition domain_of :: "json \<Rightarrow> string option" where
  "domain_of v = (case v of JStr d \<Rightarrow> if strip d = [] then None else Some (normalize_host d) | _ \<Rightarrow> None)"

definition validate_authority_domains :: "string \<Rightarrow> json list \<Rightarrow> string list result" where
  "validate_authority_domains authority_code allowed_domains =
     (case map_of APPROVED_AUTHORITY_DOMAINS authority_code of
        None \<Rightarrow> Inl (ValidationError ''code'' ''Curriculum authority is not allowlisted.'')
      | Some approved \<Rightarrow>
          let normalized = List.map_filter domain_of allowed_domains in
          if normalized = [] then Inl (ValidationError ''allowed_domains'' ''Allowed domains are required.'')
          else if \<exists>d\<in>set normalized. d \<notin> set approved
          then Inl (ValidationError ''allowed_domains'' ''Authority domain is not allowlisted.'')
          else Inr normalized)"

section \<open>Artifacts and uploads\<close>

definition ALLOWED_CONTENT_TYPES :: "string list" where
  "ALLOWED_CONTENT_TYPES =
     [''application/pdf'', ''text/plain'', ''application/vnd.openxmlformats-officedocument.wordprocessingml.document'']"

definition MAX_ARTIFACT_BYTES :: int where "MAX_ARTIFACT_BYTES = 50 * 1024 * 1024"

text \<open>\<open>^sha256:[0-9a-f]{64}$\<close>.\<close>

definition CHECKSUM_PATTERN :: "string \<Rightarrow> bool" where
  "CHECKSUM_PATTERN s \<longleftrightarrow> startswith s ''sha256:'' \<and> length s = 71 \<and>
     list_all (\<lambda>c. is_09 c \<or> c \<in> {CHR ''a'', CHR ''b'', CHR ''c'', CHR ''d'', CHR ''e'', CHR ''f''}) (drop 7 s)"

definition alnum :: "char \<Rightarrow> bool" where "alnum c \<longleftrightarrow> is_az c \<or> is_AZ c \<or> is_09 c"

text \<open>\<open>^[A-Za-z0-9][A-Za-z0-9._-]{0,254}$\<close>.\<close>

definition SAFE_FILE_NAME_PATTERN :: "string \<Rightarrow> bool" where
  "SAFE_FILE_NAME_PATTERN s \<longleftrightarrow> s \<noteq> [] \<and> alnum (hd s) \<and> length s \<le> 255 \<and>
     list_all (\<lambda>c. alnum c \<or> c \<in> {CHR ''.'', CHR ''_'', CHR ''-''}) s"

definition validate_artifact_metadata :: "int \<Rightarrow> string \<Rightarrow> string \<Rightarrow> unit result" where
  "validate_artifact_metadata file_size content_type checksum =
     (if file_size \<le> 0 \<or> MAX_ARTIFACT_BYTES < file_size
      then Inl (ValidationError ''file_size'' ''Artifact size is not allowed.'')
      else if lower (strip content_type) \<notin> set ALLOWED_CONTENT_TYPES
      then Inl (ValidationError ''content_type'' ''Artifact content type is not allowed.'')
      else if \<not> CHECKSUM_PATTERN (lower (strip checksum))
      then Inl (ValidationError ''checksum'' ''A valid SHA-256 checksum is required.'')
      else Inr ())"

definition backslash :: char where "backslash = CHR 0x5C"

definition validate_artifact_file_name :: "string \<Rightarrow> string result" where
  "validate_artifact_file_name file_name =
     (let value = strip file_name in
      if \<not> SAFE_FILE_NAME_PATTERN value \<or> contains ''..'' value \<or> CHR ''/'' \<in> set value \<or> backslash \<in> set value
      then Inl (ValidationError ''file_name'' ''Artifact file name is not allowed.'')
      else Inr value)"

text \<open>\<open>^(private|cct-evidence)://[A-Za-z0-9._/-]+$\<close>.\<close>

definition PRIVATE_STORAGE_PATTERN :: "string \<Rightarrow> bool" where
  "PRIVATE_STORAGE_PATTERN s \<longleftrightarrow> (\<exists>p\<in>{''private://'', ''cct-evidence://''}. startswith s p \<and> drop (length p) s \<noteq> [] \<and>
     list_all (\<lambda>c. alnum c \<or> c \<in> {CHR ''.'', CHR ''_'', CHR ''/'', CHR ''-''}) (drop (length p) s))"

definition validate_storage_reference :: "string \<Rightarrow> string result" where
  "validate_storage_reference value =
     (let reference = strip value in
      if \<not> PRIVATE_STORAGE_PATTERN reference
      then Inl (ValidationError ''storage_reference'' ''Private storage reference is required.'')
      else if contains ''..'' reference \<or> backslash \<in> set reference
      then Inl (ValidationError ''storage_reference'' ''Storage reference is not allowed.'')
      else Inr reference)"

record upload_metadata =
  um_storage_reference :: string
  um_file_name :: string
  um_content_type :: string
  um_size_bytes :: int
  um_file_checksum :: string

definition validate_upload_metadata :: "string \<Rightarrow> string \<Rightarrow> string \<Rightarrow> int \<Rightarrow> string \<Rightarrow> upload_metadata result" where
  "validate_upload_metadata storage_reference file_name content_type size_bytes file_checksum =
     ebind (validate_artifact_file_name file_name) (\<lambda>safe_name.
       ebind (validate_governance_text safe_name) (\<lambda>_.
         ebind (validate_artifact_metadata size_bytes content_type file_checksum) (\<lambda>_.
           ebind (validate_storage_reference storage_reference) (\<lambda>reference.
             Inr \<lparr>um_storage_reference = reference, um_file_name = safe_name, um_content_type = lower (strip content_type),
                  um_size_bytes = size_bytes, um_file_checksum = lower (strip file_checksum)\<rparr>))))"

section \<open>Fingerprints\<close>

definition unit_separator :: string where "unit_separator = [CHR 0x1F]"

definition build_source_fingerprint :: "(string \<Rightarrow> string) \<Rightarrow> string \<Rightarrow> string \<Rightarrow> string \<Rightarrow> string \<Rightarrow> string" where
  "build_source_fingerprint sha authority_code source_reference version_label checksum =
     ''sha256:'' @ sha (join unit_separator (map (\<lambda>p. lower (strip p)) [authority_code, source_reference, version_label, checksum]))"

text \<open>The dates are the ISO texts, empty when there is none.\<close>

definition build_evidence_fingerprint ::
  "(string \<Rightarrow> string) \<Rightarrow> string \<Rightarrow> string \<Rightarrow> string \<Rightarrow> string \<Rightarrow> string \<Rightarrow> string \<Rightarrow> string" where
  "build_evidence_fingerprint sha file_checksum claimed_authority claimed_reference_number claimed_publication_number
       claimed_publication_date claimed_effective_date =
     ''sha256:'' @ sha (join unit_separator (map (\<lambda>p. lower (strip p))
       [file_checksum, claimed_authority, claimed_reference_number, claimed_publication_number, claimed_publication_date,
        claimed_effective_date]))"

definition detect_source_change :: "string option \<Rightarrow> string \<Rightarrow> string" where
  "detect_source_change old_fingerprint new_fingerprint =
     (case old_fingerprint of None \<Rightarrow> ''new_version_candidate''
      | Some f \<Rightarrow> if f = [] then ''new_version_candidate'' else if f = new_fingerprint then ''no_change'' else ''changed_source'')"

section \<open>Document signals\<close>

text \<open>\<open>str.upper\<close>; sharp s becomes two letters.\<close>

definition upper :: "string \<Rightarrow> string" where
  "upper s = concat (map (\<lambda>c.
     if is_az c \<or> (224 \<le> code c \<and> code c \<le> 254 \<and> code c \<noteq> 247) then [char_of (code c - 32)]
     else if code c = 223 then ''SS'' else [c]) s)"

definition mark_char :: regex where "mark_char = Cls (\<lambda>c. c \<in> {CHR ''/'', CHR ''.'', CHR ''-''})"

definition number_tail :: "regex list" where
  "number_tail = [mark_char, Rep 4 4 (Cls is_09), Opt (seqs [mark_char, Rep 1 6 (Cls is_09)])]"

definition REFERENCE_PATTERN :: regex where
  "REFERENCE_PATTERN = seqs ([Rep 2 8 (Cls is_AZ), mark_char, Rep 2 16 (Cls (\<lambda>c. is_AZ c \<or> is_09 c))] @ number_tail)"

definition PUBLICATION_PATTERN :: regex where
  "PUBLICATION_PATTERN = seqs (Rep 2 12 (Cls (\<lambda>c. is_AZ c \<or> is_09 c)) # number_tail)"

record signal_report =
  sg_reference_detected :: bool
  sg_reference_valid :: bool
  sg_publication_detected :: bool
  sg_publication_valid :: bool
  sg_publication_date :: bool
  sg_effective_date :: bool
  sg_stamp :: bool
  sg_signature :: bool
  sg_template :: bool
  sg_risk_flags :: "string list"
  sg_missing :: "string list"

definition validate_document_signals ::
  "string \<Rightarrow> string \<Rightarrow> date option \<Rightarrow> date option \<Rightarrow> bool \<Rightarrow> bool \<Rightarrow> bool \<Rightarrow> signal_report" where
  "validate_document_signals reference publication publication_date effective_date stamp signature template =
     (let reference_detected = strip reference \<noteq> []; reference_valid = reference_detected \<and> fullmatch REFERENCE_PATTERN (upper (strip reference));
          publication_detected = strip publication \<noteq> [];
          publication_valid = publication_detected \<and> fullmatch PUBLICATION_PATTERN (upper (strip publication)) in
      \<lparr>sg_reference_detected = reference_detected, sg_reference_valid = reference_valid,
       sg_publication_detected = publication_detected, sg_publication_valid = publication_valid,
       sg_publication_date = (publication_date \<noteq> None), sg_effective_date = (effective_date \<noteq> None),
       sg_stamp = stamp, sg_signature = signature, sg_template = template,
       sg_risk_flags = (if reference_detected \<and> \<not> reference_valid then [''invalid_reference_number_format''] else [])
         @ (if publication_detected \<and> \<not> publication_valid then [''invalid_publication_number_format''] else [])
         @ (case (publication_date, effective_date) of
              (Some p, Some e) \<Rightarrow> if e < p then [''effective_date_before_publication_date''] else [] | _ \<Rightarrow> []),
       sg_missing = (if reference_detected then [] else [''reference_number''])
         @ (if publication_date = None then [''publication_date''] else [])
         @ (if effective_date = None then [''effective_date''] else [])
         @ (if stamp then [] else [''stamp_signal'']) @ (if signature then [] else [''signature_signal''])\<rparr>)"

section \<open>Confidence\<close>

record verification_confidence =
  vc_score :: int
  vc_level :: string
  vc_action :: string

definition raw_confidence :: "signal_report \<Rightarrow> bool \<Rightarrow> string \<Rightarrow> int \<Rightarrow> int" where
  "raw_confidence s authority_known official_match duplicate_count =
     10 + (if authority_known then 20 else 0) + (if sg_reference_valid s then 15 else 0) + (if sg_publication_valid s then 10 else 0)
     + (if sg_publication_date s then 10 else 0) + (if sg_effective_date s then 10 else 0) + (if sg_stamp s then 5 else 0)
     + (if sg_signature s then 5 else 0) + (if sg_template s then 5 else 0)
     + (if official_match = ''matched'' then 30 else if official_match = ''unmatched'' then - 30 else 0)
     + (if duplicate_count \<noteq> 0 then min 10 duplicate_count else 0) - 10 * int (length (sg_risk_flags s))"

definition score_verification_confidence :: "signal_report \<Rightarrow> bool \<Rightarrow> string \<Rightarrow> int \<Rightarrow> verification_confidence" where
  "score_verification_confidence s authority_known official_match duplicate_count =
     (let score = max 0 (min 100 (raw_confidence s authority_known official_match duplicate_count)) in
      if official_match = ''unmatched'' then \<lparr>vc_score = score, vc_level = ''rejected'', vc_action = ''reject''\<rparr>
      else if 85 \<le> score
      then \<lparr>vc_score = score, vc_level = ''needs_governance_review'', vc_action = ''ready_for_governance_review''\<rparr>
      else if 70 \<le> score then \<lparr>vc_score = score, vc_level = ''high'', vc_action = ''escalate_to_governance''\<rparr>
      else if 45 \<le> score then \<lparr>vc_score = score, vc_level = ''medium'', vc_action = ''await_official_confirmation''\<rparr>
      else \<lparr>vc_score = score, vc_level = ''low'', vc_action = ''request_more_evidence''\<rparr>)"

definition calculate_verification_sla_due_at :: "time \<Rightarrow> time option \<Rightarrow> int \<Rightarrow> time" where
  "calculate_verification_sla_due_at now submitted_at hours =
     (case submitted_at of None \<Rightarrow> now | Some t \<Rightarrow> t) + hours * 3600 * 1000000"

section \<open>Scopes, impacts and rollback candidates\<close>

definition ALLOWED_SCOPE_KEYS :: "string list" where
  "ALLOWED_SCOPE_KEYS =
     [''scope_type'', ''country'', ''region'', ''county'', ''sub_county'', ''school_category'', ''senior_school_pathway'', ''grade_level'',
      ''learning_area'', ''strand'', ''sub_strand'', ''topic'', ''rubric'', ''exam_cycle'', ''teacher_training_cohort'']"

definition scope_value :: "json \<Rightarrow> json result" where
  "scope_value v = (case v of
       JStr s \<Rightarrow> ebind (validate_governance_text s) (\<lambda>_. Inr (JStr (strip s)))
     | JInt i \<Rightarrow> Inr v | JBool b \<Rightarrow> Inr v | JNull \<Rightarrow> Inr v
     | _ \<Rightarrow> Inl (ValidationError ''claimed_scope'' ''Scope value is not allowed.''))"

definition estimate_scope :: "(string \<times> json) list \<Rightarrow> (string \<times> json) list result" where
  "estimate_scope claimed_scope =
     (if claimed_scope = [] then Inr [(''scope_type'', JStr ''scope_unknown'')]
      else ebind (efold (\<lambda>(key, value) normalized.
            let key_text = lower (strip key) in
            if key_text \<notin> set ALLOWED_SCOPE_KEYS
            then Inl (ValidationError ''claimed_scope'' ''Scope dimension is not allowed.'')
            else ebind (scope_value value) (\<lambda>v. Inr (dict_set key_text v normalized))) claimed_scope []) (\<lambda>normalized.
        Inr (if ''scope_type'' \<in> fst ` set normalized then normalized else normalized @ [(''scope_type'', JStr ''scoped'')])))"

definition APP_DOMAINS :: "string list" where
  "APP_DOMAINS =
     [''academics'', ''assessments'', ''examinations'', ''grading'', ''compilation'', ''reports_future'', ''schemes_of_work_future'',
      ''lesson_plans_future'', ''teacher_readiness'', ''principal_notices'', ''parent_analytics_future'', ''nlp_future'']"

record impact_proposal =
  px_app_domain :: string
  px_impact_type :: string
  px_affected_scope :: "(string \<times> json) list"
  px_required_action :: string
  px_safe_behavior :: string
  px_history :: string
  px_status :: string

definition impact_texts :: "string \<Rightarrow> string \<times> string" where
  "impact_texts domain =
     (if domain = ''grading''
      then (''New assessments may bind only after tenant adoption.'', ''Existing assessments and grade records preserve old context.'')
      else if domain = ''compilation''
      then (''Future compilations use stored assessment context.'', ''Compiled snapshots preserve old curriculum context.'')
      else if domain = ''reports_future''
      then (''Reports must consume compiled snapshots later.'', ''Historical reports must not re-resolve live CCT state.'')
      else if domain = ''nlp_future''
      then (''NLP may use approved facts only in future phases.'', ''NLP cannot decide or mutate academic records.'')
      else (''Review required before future work changes behavior.'', ''Existing academic history must not mutate silently.''))"

definition plan_app_impacts :: "(string \<times> json) list \<Rightarrow> string list \<Rightarrow> impact_proposal list" where
  "plan_app_impacts scope app_domains =
     map (\<lambda>domain. \<lparr>px_app_domain = domain, px_impact_type = ''review_required'', px_affected_scope = scope,
         px_required_action = ''review_before_activation'', px_safe_behavior = fst (impact_texts domain),
         px_history = snd (impact_texts domain), px_status = ''planned''\<rparr>)
       (if app_domains = [] then APP_DOMAINS else app_domains)"

definition ROLLBACK_STATUSES :: "string list" where
  "ROLLBACK_STATUSES = [''suspected'', ''quarantined'', ''under_review'', ''verified'', ''rejected'', ''rollback_planned'', ''withdrawn'']"

definition validate_rollback_candidate_status :: "string \<Rightarrow> string result" where
  "validate_rollback_candidate_status status =
     (let normalized = lower (strip status) in
      if normalized \<notin> set ROLLBACK_STATUSES then Inl (ValidationError ''status'' ''Rollback candidate status is invalid.'')
      else Inr normalized)"

end
