(* ===== verification/Evidence.thy ===== *)
theory Evidence
  imports Readiness SourceRules
begin

text \<open>
  The evidence of curriculum changes (curriculum/models.py, curriculum/services.py): what a school submits,
  the verification report on it, the decisions of governance, the plans of what it affects and the
  candidates for a rollback. The URL check of Django's URLField, the SHA-256 digest and the ISO texts of
  dates and times are parameters.
\<close>

section \<open>Rows (models.py)\<close>

record authority =
  au_id :: uuid
  au_code :: string
  au_name :: string
  au_website :: string
  au_domains :: "json list"
  au_is_active :: bool
  au_is_approved :: bool

record evidence =
  ce_id :: uuid
  ce_tenant :: uuid
  ce_submitted_by :: "uuid option"
  ce_role :: string
  ce_type :: string
  ce_status :: string
  ce_backend :: string
  ce_storage :: string
  ce_file_name :: string
  ce_content_type :: string
  ce_size :: int
  ce_checksum :: string
  ce_malware :: string
  ce_content_status :: string
  ce_fingerprint :: string
  ce_cluster :: uuid
  ce_duplicate_of :: "uuid option"
  ce_authority :: string
  ce_source_reference :: string
  ce_source_url :: string
  ce_reference_number :: string
  ce_publication_number :: string
  ce_publication_date :: "date option"
  ce_effective_date :: "date option"
  ce_scope :: "(string \<times> json) list"
  ce_created_at :: time

record verification_report =
  vr_id :: uuid
  vr_tenant :: uuid
  vr_evidence :: uuid
  vr_candidate :: uuid
  vr_fingerprint :: string
  vr_authority :: string
  vr_source_reference :: string
  vr_reference_number :: string
  vr_publication_number :: string
  vr_signals :: signal_report
  vr_duplicate_count :: int
  vr_official_match :: string
  vr_scope :: "(string \<times> json) list"
  vr_score :: int
  vr_level :: string
  vr_action :: string
  vr_sla_due_at :: time
  vr_review_status :: string
  vr_created_by :: "uuid option"
  vr_created_at :: time

record governance_decision =
  gd_id :: uuid
  gd_tenant :: uuid
  gd_report :: uuid
  gd_decision :: string
  gd_reason :: string
  gd_reviewed_by :: "uuid option"
  gd_reviewed_at :: "time option"
  gd_created_at :: time

record rollback_candidate =
  rc_id :: uuid
  rc_tenant :: uuid
  rc_evidence :: uuid
  rc_report :: "uuid option"
  rc_status :: string
  rc_reason :: string
  rc_created_by :: "uuid option"
  rc_created_at :: time

record evidence_db = readiness_db +
  authorities :: "authority list"
  evidence_submissions :: "evidence list"
  verification_reports :: "verification_report list"
  governance_decisions :: "governance_decision list"
  rollback_candidates :: "rollback_candidate list"

definition evidence_row :: "'a evidence_db_scheme \<Rightarrow> uuid \<Rightarrow> evidence option" where
  "evidence_row db i = first_where (\<lambda>e. ce_id e = i) (evidence_submissions db)"

definition report_row :: "'a evidence_db_scheme \<Rightarrow> uuid \<Rightarrow> verification_report option" where
  "report_row db i = first_where (\<lambda>r. vr_id r = i) (verification_reports db)"

definition optional_governance_text :: "string \<Rightarrow> string result" where
  "optional_governance_text value =
     (let t = strip value in if t = [] then Inr [] else ebind (validate_governance_text t) (\<lambda>_. Inr t))"

definition authority_full_clean :: "(string \<Rightarrow> bool) \<Rightarrow> 'a evidence_db_scheme \<Rightarrow> authority \<Rightarrow> authority result" where
  "authority_full_clean url_ok db a =
     (if \<not> (code_field (au_code a) \<and> char_field 255 (au_name a) \<and> char_field 500 (au_website a) \<and> url_ok (au_website a)
            \<and> au_domains a \<noteq> [] \<and> json_field (JList (au_domains a)))
      then Inl (field_error ''code'')
      else ebind (normalize_authority_code (au_code a)) (\<lambda>code.
        if strip (au_name a) = [] then Inl (ValidationError ''name'' ''This field is required.'')
        else ebind (validate_authority_domains code (au_domains a)) (\<lambda>domains.
          ebind (validate_source_url (au_website a) domains) (\<lambda>website.
            if \<exists>q\<in>set (authorities db). au_id q \<noteq> au_id a \<and> au_code q = code
            then Inl (ValidationError ''code'' ''Already exists.'')
            else Inr (a\<lparr>au_code := code, au_name := strip (au_name a), au_domains := map JStr domains, au_website := website\<rparr>)))))"

definition evidence_types :: "string list" where
  "evidence_types = [''curriculum_update'', ''rollback'', ''withdrawal'']"

definition evidence_statuses :: "string list" where
  "evidence_statuses = [''received'', ''quarantined'', ''duplicate_attached'', ''under_verification'', ''verification_reported'',
     ''escalated'', ''rejected'', ''governance_ready'']"

definition evidence_fields_ok :: "(string \<Rightarrow> bool) \<Rightarrow> 'a evidence_db_scheme \<Rightarrow> evidence \<Rightarrow> bool" where
  "evidence_fields_ok url_ok db e \<longleftrightarrow>
     school_exists db (ce_tenant e) \<and> opt_fk (user_exists db) (ce_submitted_by e) \<and> opt_fk (\<lambda>i. evidence_row db i \<noteq> None) (ce_duplicate_of e)
     \<and> char_field 64 (ce_role e) \<and> ce_type e \<in> set evidence_types \<and> ce_status e \<in> set evidence_statuses \<and> char_field 64 (ce_backend e)
     \<and> char_field 500 (ce_storage e) \<and> char_field 255 (ce_file_name e) \<and> char_field 128 (ce_content_type e)
     \<and> positive_integer_field (ce_size e) \<and> char_field 96 (ce_checksum e)
     \<and> ce_malware e \<in> {''pending'', ''clean'', ''suspicious'', ''infected'', ''unavailable''}
     \<and> ce_content_status e \<in> {''pending'', ''passed'', ''failed'', ''unsupported''} \<and> char_field 96 (ce_fingerprint e)
     \<and> length (ce_authority e) \<le> 128 \<and> length (ce_source_reference e) \<le> 255
     \<and> (ce_source_url e = [] \<or> length (ce_source_url e) \<le> 500 \<and> url_ok (ce_source_url e))
     \<and> length (ce_reference_number e) \<le> 128 \<and> length (ce_publication_number e) \<le> 128 \<and> json_field (JObj (ce_scope e))"

definition evidence_clean :: "'a evidence_db_scheme \<Rightarrow> evidence \<Rightarrow> evidence result" where
  "evidence_clean db e =
     ebind (emap optional_governance_text [ce_role e, ce_backend e, ce_file_name e, ce_authority e, ce_source_reference e,
       ce_reference_number e, ce_publication_number e]) (\<lambda>texts.
       let original = Option.bind (ce_duplicate_of e) (evidence_row db) in
       if ce_duplicate_of e = Some (ce_id e) then Inl (ValidationError ''duplicate_of'' ''Duplicate cannot reference self.'')
       else if (case original of None \<Rightarrow> False | Some o' \<Rightarrow> ce_tenant o' \<noteq> ce_tenant e)
       then Inl (ValidationError ''duplicate_of'' ''Duplicate tenant mismatch.'')
       else if \<not> opt_fk (user_active db) (ce_submitted_by e) then Inl (ValidationError ''submitted_by'' ''Submitter must be active.'')
       else Inr (e\<lparr>ce_role := texts ! 0, ce_backend := texts ! 1, ce_file_name := texts ! 2, ce_authority := texts ! 3,
         ce_source_reference := texts ! 4, ce_reference_number := texts ! 5, ce_publication_number := texts ! 6,
         ce_cluster := (case original of None \<Rightarrow> ce_cluster e | Some o' \<Rightarrow> ce_cluster o')\<rparr>))"

definition evidence_full_clean :: "(string \<Rightarrow> bool) \<Rightarrow> 'a evidence_db_scheme \<Rightarrow> evidence \<Rightarrow> evidence result" where
  "evidence_full_clean url_ok db e =
     (if \<not> evidence_fields_ok url_ok db e then Inl (field_error ''evidence_type'') else evidence_clean db e)"

definition official_source_matches :: "string list" where
  "official_source_matches = [''unknown'', ''matched'', ''unmatched'', ''awaiting_confirmation'']"

definition report_full_clean :: "'a evidence_db_scheme \<Rightarrow> verification_report \<Rightarrow> verification_report result" where
  "report_full_clean db r =
     (if \<not> (school_exists db (vr_tenant r) \<and> evidence_row db (vr_evidence r) \<noteq> None \<and> opt_fk (user_exists db) (vr_created_by r)
            \<and> char_field 96 (vr_fingerprint r) \<and> length (vr_authority r) \<le> 128 \<and> length (vr_source_reference r) \<le> 255
            \<and> length (vr_reference_number r) \<le> 128 \<and> length (vr_publication_number r) \<le> 128 \<and> positive_integer_field (vr_duplicate_count r)
            \<and> vr_official_match r \<in> set official_source_matches \<and> json_field (JObj (vr_scope r)) \<and> 0 \<le> vr_score r \<and> vr_score r \<le> 32767
            \<and> vr_level r \<in> {''low'', ''medium'', ''high'', ''rejected'', ''needs_governance_review''}
            \<and> vr_action r \<in> {''keep_quarantined'', ''request_more_evidence'', ''await_official_confirmation'', ''escalate_to_governance'',
                 ''ready_for_governance_review'', ''reject''}
            \<and> vr_review_status r \<in> {''pending'', ''complete'', ''needs_more_evidence'', ''awaiting_official_confirmation'', ''rejected'', ''escalated''})
      then Inl (field_error ''evidence_submission'')
      else if map_option ce_tenant (evidence_row db (vr_evidence r)) \<noteq> Some (vr_tenant r)
      then Inl (ValidationError ''tenant'' ''Verification report tenant mismatch.'')
      else ebind (echeck (\<lambda>t. ebind (optional_governance_text t) (\<lambda>_. Inr ()))
          [vr_authority r, vr_source_reference r, vr_reference_number r, vr_publication_number r]) (\<lambda>_.
        if 100 < vr_score r then Inl (ValidationError ''confidence_score'' ''Confidence exceeds 100.'')
        else if \<exists>q\<in>set (verification_reports db). vr_id q \<noteq> vr_id r \<and> vr_evidence q = vr_evidence r
        then Inl (ValidationError ''evidence_submission'' ''Already exists.'') else Inr r))"

definition decision_full_clean :: "'a evidence_db_scheme \<Rightarrow> governance_decision \<Rightarrow> governance_decision result" where
  "decision_full_clean db d =
     (if \<not> (school_exists db (gd_tenant d) \<and> report_row db (gd_report d) \<noteq> None \<and> opt_fk (user_exists db) (gd_reviewed_by d)
            \<and> gd_decision d \<in> {''pending'', ''approved_for_publication'', ''rejected'', ''requires_more_evidence'', ''escalated''})
      then Inl (field_error ''decision'')
      else if map_option vr_tenant (report_row db (gd_report d)) \<noteq> Some (gd_tenant d)
      then Inl (ValidationError ''tenant'' ''Governance tenant mismatch.'')
      else ebind (optional_governance_text (gd_reason d)) (\<lambda>reason.
        if \<not> opt_fk (user_active db) (gd_reviewed_by d) then Inl (ValidationError ''reviewed_by'' ''Reviewer must be active.'')
        else Inr (d\<lparr>gd_reason := reason\<rparr>)))"

definition impact_plan_full_clean :: "'a evidence_db_scheme \<Rightarrow> impact_plan \<Rightarrow> impact_plan result" where
  "impact_plan_full_clean db p =
     (if \<not> (school_exists db (ip_tenant p) \<and> report_row db (ip_report p) \<noteq> None \<and> char_field 64 (ip_app_domain p)
            \<and> char_field 64 (ip_impact_type p) \<and> json_field (ip_affected_scope p) \<and> ip_required_action p \<noteq> [] \<and> ip_safe_behavior p \<noteq> []
            \<and> ip_history p \<noteq> [] \<and> ip_status p \<in> {''planned'', ''review_required'', ''approved'', ''paused''})
      then Inl (field_error ''app_domain'')
      else if map_option vr_tenant (report_row db (ip_report p)) \<noteq> Some (ip_tenant p)
      then Inl (ValidationError ''tenant'' ''Impact plan tenant mismatch.'')
      else ebind (optional_governance_text (ip_app_domain p)) (\<lambda>domain.
        ebind (optional_governance_text (ip_impact_type p)) (\<lambda>impact.
          ebind (echeck validate_governance_text [ip_required_action p, ip_safe_behavior p, ip_history p]) (\<lambda>_.
            Inr (p\<lparr>ip_app_domain := domain, ip_impact_type := impact\<rparr>)))))"

definition candidate_full_clean :: "'a evidence_db_scheme \<Rightarrow> rollback_candidate \<Rightarrow> rollback_candidate result" where
  "candidate_full_clean db c =
     (if \<not> (school_exists db (rc_tenant c) \<and> evidence_row db (rc_evidence c) \<noteq> None \<and> opt_fk (\<lambda>i. report_row db i \<noteq> None) (rc_report c)
            \<and> rc_status c \<in> set ROLLBACK_STATUSES \<and> rc_reason c \<noteq> [] \<and> opt_fk (user_exists db) (rc_created_by c))
      then Inl (field_error ''reason'')
      else if map_option ce_tenant (evidence_row db (rc_evidence c)) \<noteq> Some (rc_tenant c)
      then Inl (ValidationError ''tenant'' ''Rollback tenant mismatch.'')
      else if \<not> opt_fk (\<lambda>i. map_option vr_tenant (report_row db i) = Some (rc_tenant c)) (rc_report c)
      then Inl (ValidationError ''tenant'' ''Rollback report mismatch.'')
      else ebind (validate_governance_text (rc_reason c)) (\<lambda>_.
        if \<not> opt_fk (user_active db) (rc_created_by c) then Inl (ValidationError ''created_by'' ''Creator must be active.'')
        else Inr (c\<lparr>rc_reason := strip (rc_reason c)\<rparr>)))"

section \<open>Tables\<close>

definition add_authority :: "authority \<Rightarrow> 'a evidence_db_scheme \<Rightarrow> 'a evidence_db_scheme" where
  "add_authority r db = db\<lparr>authorities := authorities db @ [r]\<rparr>"

definition add_evidence :: "evidence \<Rightarrow> 'a evidence_db_scheme \<Rightarrow> 'a evidence_db_scheme" where
  "add_evidence r db = db\<lparr>evidence_submissions := evidence_submissions db @ [r]\<rparr>"

definition put_evidence :: "evidence \<Rightarrow> 'a evidence_db_scheme \<Rightarrow> 'a evidence_db_scheme" where
  "put_evidence r db = db\<lparr>evidence_submissions := update_where (\<lambda>q. ce_id q = ce_id r) (\<lambda>_. r) (evidence_submissions db)\<rparr>"

definition add_report :: "verification_report \<Rightarrow> 'a evidence_db_scheme \<Rightarrow> 'a evidence_db_scheme" where
  "add_report r db = db\<lparr>verification_reports := verification_reports db @ [r]\<rparr>"

definition add_decision :: "governance_decision \<Rightarrow> 'a evidence_db_scheme \<Rightarrow> 'a evidence_db_scheme" where
  "add_decision r db = db\<lparr>governance_decisions := governance_decisions db @ [r]\<rparr>"

definition add_impact_plan :: "impact_plan \<Rightarrow> 'a evidence_db_scheme \<Rightarrow> 'a evidence_db_scheme" where
  "add_impact_plan r db = db\<lparr>impact_plans := impact_plans db @ [r]\<rparr>"

definition add_candidate :: "rollback_candidate \<Rightarrow> 'a evidence_db_scheme \<Rightarrow> 'a evidence_db_scheme" where
  "add_candidate r db = db\<lparr>rollback_candidates := rollback_candidates db @ [r]\<rparr>"

section \<open>Submitting evidence (services.py)\<close>

definition register_curriculum_authority ::
  "(string \<Rightarrow> bool) \<Rightarrow> uuid \<Rightarrow> string \<Rightarrow> string \<Rightarrow> string \<Rightarrow> json list \<Rightarrow> bool \<Rightarrow> bool \<Rightarrow> ('a evidence_db_scheme, authority) action" where
  "register_curriculum_authority url_ok new_id raw_code name website domains is_active is_approved =
     atomic (abind (alift (normalize_authority_code raw_code)) (\<lambda>c.
       save_clean (authority_full_clean url_ok) add_authority
         \<lparr>au_id = new_id, au_code = c, au_name = name, au_website = website, au_domains = domains, au_is_active = is_active,
          au_is_approved = is_approved\<rparr>))"

definition authority_in_use :: "'a evidence_db_scheme \<Rightarrow> string \<Rightarrow> authority option" where
  "authority_in_use db c = first_where (\<lambda>a. au_code a = c \<and> au_is_active a \<and> au_is_approved a) (authorities db)"

text \<open>Stored domains are texts.\<close>

definition stored_domains :: "authority \<Rightarrow> string list" where
  "stored_domains a = map json_str (au_domains a)"

definition validate_claimed_source_url :: "'a evidence_db_scheme \<Rightarrow> string \<Rightarrow> string \<Rightarrow> string result" where
  "validate_claimed_source_url db claimed_authority claimed_source_url =
     (if strip claimed_source_url = [] then Inr []
      else ebind (normalize_authority_code claimed_authority) (\<lambda>c.
        case authority_in_use db c of
          None \<Rightarrow> Inl (ValidationError ''claimed_source_url'' ''Approved authority required.'')
        | Some a \<Rightarrow> validate_source_url (strip claimed_source_url) (stored_domains a)))"

definition text_of :: "(string \<times> json) list \<Rightarrow> string \<Rightarrow> string" where
  "text_of payload key = json_str (jget_or payload key (JStr []))"

definition claimed_scope_of :: "json \<Rightarrow> (string \<times> json) list result" where
  "claimed_scope_of v =
     (if \<not> json_truthy v then estimate_scope [] else case v of JObj kvs \<Rightarrow> estimate_scope kvs | _ \<Rightarrow> Inl (OtherError ''AttributeError''))"

text \<open>What a payload says, checked; its dates are dates or absent.\<close>

record evidence_facts =
  ef_role :: string
  ef_metadata :: upload_metadata
  ef_scope :: "(string \<times> json) list"
  ef_authority :: string
  ef_source_url :: string
  ef_fingerprint :: string

definition date_text_of :: "(date \<Rightarrow> string) \<Rightarrow> date option \<Rightarrow> string" where
  "date_text_of date_text d = (case d of None \<Rightarrow> [] | Some x \<Rightarrow> date_text x)"

definition read_evidence ::
  "(string \<Rightarrow> string) \<Rightarrow> (date \<Rightarrow> string) \<Rightarrow> user option \<Rightarrow> school \<Rightarrow> (string \<times> json) list \<Rightarrow> date option \<Rightarrow> date option
     \<Rightarrow> 'a evidence_db_scheme \<Rightarrow> evidence_facts result" where
  "read_evidence sha date_text actor tenant payload published effective db =
     ebind (require_evidence_submitter db actor (Some tenant)) (\<lambda>role.
       ebind (py_int (jget_or payload ''size_bytes'' (jget_or payload ''file_size'' (JInt 0)))) (\<lambda>size_bytes.
         ebind (validate_upload_metadata (text_of payload ''storage_reference'')
             (json_str (jget_or payload ''filename'' (jget_or payload ''file_name'' (JStr [])))) (text_of payload ''content_type'')
             size_bytes (text_of payload ''file_checksum'')) (\<lambda>metadata.
           ebind (claimed_scope_of (jget payload ''claimed_scope'')) (\<lambda>scope.
             let claimed_authority = strip (text_of payload ''claimed_authority'') in
             ebind (validate_claimed_source_url db claimed_authority (text_of payload ''claimed_source_url'')) (\<lambda>url.
               if \<exists>e\<in>set (evidence_submissions db). ce_storage e = um_storage_reference metadata \<and> ce_tenant e \<noteq> sc_id tenant
               then Inl (ValidationError ''storage_reference'' ''Storage reference belongs to another tenant.'')
               else Inr \<lparr>ef_role = role, ef_metadata = metadata, ef_scope = scope, ef_authority = claimed_authority, ef_source_url = url,
                 ef_fingerprint = build_evidence_fingerprint sha (um_file_checksum metadata) claimed_authority
                   (text_of payload ''claimed_reference_number'') (text_of payload ''claimed_publication_number'')
                   (date_text_of date_text published) (date_text_of date_text effective)\<rparr>)))))"

text \<open>\<open>filter(evidence_fingerprint=...).order_by("created_at").first()\<close>.\<close>

definition original_evidence :: "'a evidence_db_scheme \<Rightarrow> string \<Rightarrow> evidence option" where
  "original_evidence db fingerprint =
     (case sort_key ce_created_at (filter (\<lambda>e. ce_fingerprint e = fingerprint) (evidence_submissions db)) of
        [] \<Rightarrow> None | e # _ \<Rightarrow> Some e)"

definition new_evidence ::
  "time \<Rightarrow> uuid \<Rightarrow> uuid \<Rightarrow> user \<Rightarrow> school \<Rightarrow> (string \<times> json) list \<Rightarrow> date option \<Rightarrow> date option \<Rightarrow> evidence_facts \<Rightarrow> evidence option \<Rightarrow> evidence" where
  "new_evidence now new_id cluster_id u tenant payload published effective f original =
     (let m = ef_metadata f in
      \<lparr>ce_id = new_id, ce_tenant = sc_id tenant, ce_submitted_by = Some (us_id u), ce_role = ef_role f,
       ce_type = json_str (jget_or payload ''evidence_type'' (JStr ''curriculum_update'')),
       ce_status = (if original = None then ''quarantined'' else ''duplicate_attached''), ce_backend = ''private_internal'',
       ce_storage = um_storage_reference m, ce_file_name = um_file_name m, ce_content_type = um_content_type m,
       ce_size = um_size_bytes m, ce_checksum = um_file_checksum m, ce_malware = ''pending'', ce_content_status = ''pending'',
       ce_fingerprint = ef_fingerprint f, ce_cluster = (case original of None \<Rightarrow> cluster_id | Some e \<Rightarrow> ce_cluster e),
       ce_duplicate_of = (case original of None \<Rightarrow> None | Some e \<Rightarrow> if ce_tenant e = sc_id tenant then Some (ce_id e) else None),
       ce_authority = ef_authority f, ce_source_reference = strip (text_of payload ''claimed_source_reference''),
       ce_source_url = ef_source_url f, ce_reference_number = strip (text_of payload ''claimed_reference_number''),
       ce_publication_number = strip (text_of payload ''claimed_publication_number''), ce_publication_date = published,
       ce_effective_date = effective, ce_scope = ef_scope f, ce_created_at = now\<rparr>)"

definition store_evidence ::
  "(string \<Rightarrow> bool) \<Rightarrow> (string \<Rightarrow> string) \<Rightarrow> (date \<Rightarrow> string) \<Rightarrow> time \<Rightarrow> uuid \<Rightarrow> uuid \<Rightarrow> user option \<Rightarrow> school \<Rightarrow> (string \<times> json) list
     \<Rightarrow> date option \<Rightarrow> date option \<Rightarrow> ('a evidence_db_scheme, evidence) action" where
  "store_evidence url_ok sha date_text now new_id cluster_id actor tenant payload published effective =
     atomic (abind (query (read_evidence sha date_text actor tenant payload published effective)) (\<lambda>f.
       abind (query (\<lambda>db. Inr (original_evidence db (ef_fingerprint f)))) (\<lambda>original.
         save_clean (evidence_full_clean url_ok) add_evidence
           (new_evidence now new_id cluster_id (the actor) tenant payload published effective f original))))"

definition submit_curriculum_evidence ::
  "(string \<Rightarrow> bool) \<Rightarrow> (string \<Rightarrow> string) \<Rightarrow> (date \<Rightarrow> string) \<Rightarrow> (time \<Rightarrow> string) \<Rightarrow> time \<Rightarrow> uuid \<Rightarrow> uuid \<Rightarrow> uuid \<Rightarrow> user option \<Rightarrow> school
     \<Rightarrow> (string \<times> json) list \<Rightarrow> date option \<Rightarrow> date option \<Rightarrow> ('a evidence_db_scheme, evidence) action" where
  "submit_curriculum_evidence url_ok sha date_text isoformat now new_id cluster_id event_id actor tenant payload published effective =
     record_after_commit now event_id (\<lambda>e. curriculum_event ''curriculum.evidence_submitted'' (''curriculum-evidence-submitted:'' @ ce_id e)
         [(''tenant_id'', JStr (sc_id tenant)), (''evidence_submission_id'', JStr (ce_id e)), (''status'', JStr (ce_status e)),
          (''created_at'', JStr (isoformat (ce_created_at e)))] (Some (sc_id tenant)) (map_option us_id actor))
       (store_evidence url_ok sha date_text now new_id cluster_id actor tenant payload published effective)"

section \<open>Verifying evidence (services.py)\<close>

definition status_by_action :: "(string \<times> string) list" where
  "status_by_action =
     [(''reject'', ''rejected''), (''request_more_evidence'', ''needs_more_evidence''),
      (''await_official_confirmation'', ''awaiting_official_confirmation''), (''escalate_to_governance'', ''escalated''),
      (''ready_for_governance_review'', ''complete'')]"

definition evidence_status_of_report :: "string \<Rightarrow> string" where
  "evidence_status_of_report review_status =
     (if review_status = ''complete'' then ''governance_ready'' else if review_status = ''escalated'' then ''escalated''
      else if review_status = ''rejected'' then ''rejected'' else ''verification_reported'')"

text \<open>The evidence is the object the caller holds.\<close>

definition new_report ::
  "time \<Rightarrow> uuid \<Rightarrow> user option \<Rightarrow> school \<Rightarrow> evidence \<Rightarrow> string \<Rightarrow> bool \<Rightarrow> bool \<Rightarrow> bool \<Rightarrow> 'a evidence_db_scheme \<Rightarrow> verification_report result" where
  "new_report now new_id actor tenant e official_match stamp signature template db =
     ebind (require_governance_approver db actor (Some tenant)) (\<lambda>_.
       if ce_tenant e \<noteq> sc_id tenant then Inl (ValidationError ''tenant'' ''Evidence tenant is invalid.'')
       else ebind (normalize_authority_code (ce_authority e)) (\<lambda>c.
         let signals = validate_document_signals (ce_reference_number e) (ce_publication_number e) (ce_publication_date e)
               (ce_effective_date e) stamp signature template;
             duplicate_count = int (length (filter (\<lambda>q. ce_cluster q = ce_cluster e \<and> ce_id q \<noteq> ce_id e) (evidence_submissions db)));
             confidence = score_verification_confidence signals (authority_in_use db c \<noteq> None) official_match duplicate_count in
         Inr \<lparr>vr_id = new_id, vr_tenant = sc_id tenant, vr_evidence = ce_id e, vr_candidate = ce_cluster e,
           vr_fingerprint = ce_fingerprint e, vr_authority = ce_authority e, vr_source_reference = ce_source_reference e,
           vr_reference_number = ce_reference_number e, vr_publication_number = ce_publication_number e, vr_signals = signals,
           vr_duplicate_count = duplicate_count, vr_official_match = official_match, vr_scope = ce_scope e, vr_score = vc_score confidence,
           vr_level = vc_level confidence, vr_action = vc_action confidence,
           vr_sla_due_at = calculate_verification_sla_due_at now (Some (ce_created_at e)) 24,
           vr_review_status = (case map_of status_by_action (vc_action confidence) of None \<Rightarrow> ''pending'' | Some s \<Rightarrow> s),
           vr_created_by = map_option us_id actor, vr_created_at = now\<rparr>))"

definition store_report ::
  "(string \<Rightarrow> bool) \<Rightarrow> time \<Rightarrow> uuid \<Rightarrow> user option \<Rightarrow> school \<Rightarrow> evidence \<Rightarrow> string \<Rightarrow> bool \<Rightarrow> bool \<Rightarrow> bool
     \<Rightarrow> ('a evidence_db_scheme, verification_report) action" where
  "store_report url_ok now new_id actor tenant e official_match stamp signature template =
     atomic (abind (query (new_report now new_id actor tenant e official_match stamp signature template)) (\<lambda>r.
       abind (save_clean report_full_clean add_report r) (\<lambda>r.
         abind (save_clean (evidence_full_clean url_ok) put_evidence (e\<lparr>ce_status := evidence_status_of_report (vr_review_status r)\<rparr>)) (\<lambda>_.
           alift (Inr r)))))"

definition create_curriculum_verification_report ::
  "(string \<Rightarrow> bool) \<Rightarrow> (time \<Rightarrow> string) \<Rightarrow> time \<Rightarrow> uuid \<Rightarrow> uuid \<Rightarrow> user option \<Rightarrow> school \<Rightarrow> evidence \<Rightarrow> string \<Rightarrow> bool \<Rightarrow> bool \<Rightarrow> bool
     \<Rightarrow> ('a evidence_db_scheme, verification_report) action" where
  "create_curriculum_verification_report url_ok isoformat now new_id event_id actor tenant e official_match stamp signature template =
     record_after_commit now event_id (\<lambda>r. curriculum_event ''curriculum.verification_report_created''
         (''curriculum-verification-report-created:'' @ vr_id r)
         [(''tenant_id'', JStr (sc_id tenant)), (''evidence_submission_id'', JStr (ce_id e)), (''verification_report_id'', JStr (vr_id r)),
          (''confidence_level'', JStr (vr_level r)), (''status'', JStr (vr_review_status r)), (''created_at'', JStr (isoformat (vr_created_at r)))]
         (Some (sc_id tenant)) (map_option us_id actor))
       (store_report url_ok now new_id actor tenant e official_match stamp signature template)"

section \<open>Decisions, impact plans and rollback candidates (services.py)\<close>

definition require_evidence_ready_for_approval :: "evidence \<Rightarrow> unit result" where
  "require_evidence_ready_for_approval e =
     (if ce_malware e \<noteq> ''clean'' then Inl (ValidationError ''malware_scan_status'' ''Clean malware scan is required.'')
      else if ce_content_status e \<noteq> ''passed''
      then Inl (ValidationError ''content_verification_status'' ''Passed content verification is required.'')
      else Inr ())"

text \<open>The report is the object the caller holds; its evidence is read from the database.\<close>

definition new_decision ::
  "time \<Rightarrow> uuid \<Rightarrow> user option \<Rightarrow> school \<Rightarrow> verification_report \<Rightarrow> string \<Rightarrow> string \<Rightarrow> 'a evidence_db_scheme \<Rightarrow> governance_decision result" where
  "new_decision now new_id actor tenant r decision reason db =
     ebind (require_governance_approver db actor (Some tenant)) (\<lambda>_.
       if vr_tenant r \<noteq> sc_id tenant then Inl (ValidationError ''tenant'' ''Verification report tenant is invalid.'')
       else ebind (validate_governance_decision decision (vr_review_status r) reason) (\<lambda>normalized.
         ebind (if normalized \<noteq> ''approved_for_publication'' then Inr ()
                else case evidence_row db (vr_evidence r) of None \<Rightarrow> Inl DoesNotExist
                     | Some e \<Rightarrow> require_evidence_ready_for_approval e) (\<lambda>_.
           Inr \<lparr>gd_id = new_id, gd_tenant = sc_id tenant, gd_report = vr_id r, gd_decision = normalized, gd_reason = reason,
                gd_reviewed_by = map_option us_id actor, gd_reviewed_at = Some now, gd_created_at = now\<rparr>)))"

definition store_decision ::
  "time \<Rightarrow> uuid \<Rightarrow> user option \<Rightarrow> school \<Rightarrow> verification_report \<Rightarrow> string \<Rightarrow> string \<Rightarrow> ('a evidence_db_scheme, governance_decision) action" where
  "store_decision now new_id actor tenant r decision reason =
     atomic (abind (query (new_decision now new_id actor tenant r decision reason)) (save_clean decision_full_clean add_decision))"

definition record_governance_decision ::
  "(time \<Rightarrow> string) \<Rightarrow> time \<Rightarrow> uuid \<Rightarrow> uuid \<Rightarrow> user option \<Rightarrow> school \<Rightarrow> verification_report \<Rightarrow> string \<Rightarrow> string
     \<Rightarrow> ('a evidence_db_scheme, governance_decision) action" where
  "record_governance_decision isoformat now new_id event_id actor tenant r decision reason =
     record_after_commit now event_id (\<lambda>d. curriculum_event ''curriculum.governance_decision_recorded''
         (''curriculum-governance-decision-recorded:'' @ gd_id d)
         [(''tenant_id'', JStr (sc_id tenant)), (''verification_report_id'', JStr (vr_id r)), (''governance_decision_id'', JStr (gd_id d)),
          (''status'', JStr (gd_decision d)), (''created_at'', JStr (isoformat (gd_created_at d)))]
         (Some (sc_id tenant)) (map_option us_id actor))
       (store_decision now new_id actor tenant r decision reason)"

definition save_impact_plan ::
  "(nat \<Rightarrow> uuid) \<Rightarrow> school \<Rightarrow> verification_report \<Rightarrow> nat \<times> impact_proposal \<Rightarrow> ('a evidence_db_scheme, impact_plan) action" where
  "save_impact_plan new_ids tenant r = (\<lambda>(k, p). save_clean impact_plan_full_clean add_impact_plan
     \<lparr>ip_id = new_ids k, ip_tenant = sc_id tenant, ip_report = vr_id r, ip_app_domain = px_app_domain p, ip_impact_type = px_impact_type p,
      ip_affected_scope = JObj (px_affected_scope p), ip_required_action = px_required_action p, ip_safe_behavior = px_safe_behavior p,
      ip_history = px_history p, ip_status = px_status p\<rparr>)"

definition plan_curriculum_app_impacts ::
  "(nat \<Rightarrow> uuid) \<Rightarrow> user option \<Rightarrow> school \<Rightarrow> verification_report \<Rightarrow> string list \<Rightarrow> ('a evidence_db_scheme, impact_plan list) action" where
  "plan_curriculum_app_impacts new_ids actor tenant r app_domains =
     atomic (abind (query (\<lambda>db. require_school_curriculum_manager db actor (Some tenant))) (\<lambda>_.
       if vr_tenant r \<noteq> sc_id tenant then alift (Inl (ValidationError ''tenant'' ''Verification report tenant is invalid.''))
       else aeach (save_impact_plan new_ids tenant r) (numbered (plan_app_impacts (vr_scope r) app_domains))))"

definition store_candidate ::
  "time \<Rightarrow> uuid \<Rightarrow> user option \<Rightarrow> school \<Rightarrow> evidence \<Rightarrow> string \<Rightarrow> verification_report option \<Rightarrow> string
     \<Rightarrow> ('a evidence_db_scheme, rollback_candidate) action" where
  "store_candidate now new_id actor tenant e reason report status =
     atomic (abind (query (\<lambda>db. require_school_curriculum_manager db actor (Some tenant))) (\<lambda>_.
       if ce_tenant e \<noteq> sc_id tenant then alift (Inl (ValidationError ''tenant'' ''Evidence tenant is invalid.''))
       else if (case report of None \<Rightarrow> False | Some r \<Rightarrow> vr_tenant r \<noteq> sc_id tenant)
       then alift (Inl (ValidationError ''tenant'' ''Verification report tenant is invalid.''))
       else abind (alift (validate_rollback_candidate_status status)) (\<lambda>normalized.
         save_clean candidate_full_clean add_candidate
           \<lparr>rc_id = new_id, rc_tenant = sc_id tenant, rc_evidence = ce_id e, rc_report = map_option vr_id report, rc_status = normalized,
            rc_reason = reason, rc_created_by = map_option us_id actor, rc_created_at = now\<rparr>)))"

definition create_curriculum_rollback_candidate ::
  "(time \<Rightarrow> string) \<Rightarrow> time \<Rightarrow> uuid \<Rightarrow> uuid \<Rightarrow> user option \<Rightarrow> school \<Rightarrow> evidence \<Rightarrow> string \<Rightarrow> verification_report option \<Rightarrow> string
     \<Rightarrow> ('a evidence_db_scheme, rollback_candidate) action" where
  "create_curriculum_rollback_candidate isoformat now new_id event_id actor tenant e reason report status =
     record_after_commit now event_id (\<lambda>c. curriculum_event ''curriculum.rollback_candidate_created''
         (''curriculum-rollback-candidate-created:'' @ rc_id c)
         [(''tenant_id'', JStr (sc_id tenant)), (''rollback_candidate_id'', JStr (rc_id c)), (''evidence_submission_id'', JStr (ce_id e)),
          (''status'', JStr (rc_status c)), (''created_at'', JStr (isoformat (rc_created_at c)))]
         (Some (sc_id tenant)) (map_option us_id actor))
       (store_candidate now new_id actor tenant e reason report status)"

end
