(* ===== verification/EvidenceFacts.thy ===== *)
theory EvidenceFacts
  imports Evidence ReportFacts
begin

text \<open>
  What holds of curriculum evidence: which source URLs are accepted, what every reachable state of
  the evidence workflow keeps, when a change can be approved, and how a planned impact stops the
  reports of the assessments it covers.
\<close>

section \<open>Source URLs\<close>

definition internal_target :: "string \<Rightarrow> bool" where
  "internal_target h \<longleftrightarrow> h \<in> set INTERNAL_HOSTS \<or> endswith h ''.local'' \<or>
     (case ip_address (strip_brackets h) of None \<Rightarrow> False | Some a \<Rightarrow> is_internal_address a)"

definition url_delimiter :: "char \<Rightarrow> bool" where
  "url_delimiter c \<longleftrightarrow> c \<in> {CHR ''/'', CHR ''?'', CHR ''#'', CHR ''@''}"

lemma url_delimiter_code: "url_delimiter c \<longleftrightarrow> code c \<in> {47, 63, 35, 64}"
proof -
  have "code (CHR ''/'') = 47" "code (CHR ''?'') = 63" "code (CHR ''#'') = 35" "code (CHR ''@'') = 64" by (simp_all add: code_def)
  then show ?thesis by (auto simp: url_delimiter_def code_inject [symmetric])
qed

lemma lower_delimiter: "url_delimiter (lower_char c) \<longleftrightarrow> url_delimiter c"
  by (auto simp: url_delimiter_code lower_char_def)

lemma set_rstrip_where: "set (rstrip_where P s) \<subseteq> set s"
  by (auto simp: rstrip_where_def dest: set_dropWhileD)

lemma normalize_host_plain: "\<forall>c\<in>set h. \<not> url_delimiter c \<Longrightarrow> \<forall>c\<in>set (normalize_host h). \<not> url_delimiter c"
proof
  fix c assume h: "\<forall>c\<in>set h. \<not> url_delimiter c" and "c \<in> set (normalize_host h)"
  then have "c \<in> set (lower (strip h))" unfolding normalize_host_def using set_rstrip_where by blast
  then obtain d where "d \<in> set h" "c = lower_char d" using set_strip [of h] by (auto simp: lower_def)
  then show "\<not> url_delimiter c" using h by (simp add: lower_delimiter)
qed

lemma validate_host_Inr:
  "validate_host host allowed = Inr h \<Longrightarrow> h = normalize_host host \<and> h \<in> normalize_host ` set allowed \<and> \<not> internal_target h"
  by (auto simp: validate_host_def Let_def internal_target_def split: if_splits option.splits)

lemma partition_parts:
  "set (fst (partition_at d s)) \<subseteq> set s" "set (snd (snd (partition_at d s))) \<subseteq> set s" "d \<notin> set (fst (partition_at d s))"
  "set (snd (snd (rpartition_at d s))) \<subseteq> set s" "d \<notin> set (snd (snd (rpartition_at d s)))"
  by (auto simp: partition_at_def rpartition_at_def dest: set_takeWhileD in_set_dropD set_dropWhileD)

lemma host_chars:
  assumes "\<forall>c\<in>set netloc. c \<notin> {CHR ''/'', CHR ''?'', CHR ''#''}"
  shows "\<forall>c\<in>set (fst (host_and_port netloc)). \<not> url_delimiter c"
proof -
  let ?h = "snd (snd (rpartition_at (CHR ''@'') netloc))"
  have "\<forall>c\<in>set ?h. \<not> url_delimiter c" using assms partition_parts(4,5) [of "CHR ''@''" netloc] by (auto simp: url_delimiter_def)
  moreover have "set (fst (host_and_port netloc)) \<subseteq> set ?h"
    using partition_parts(1) [of "CHR '']''" "snd (snd (partition_at (CHR ''['') ?h))"] partition_parts(1) [of "CHR '':''" ?h]
      partition_parts(2) [of "CHR ''[''" ?h]
    by (cases "fst (snd (partition_at (CHR ''['') ?h))") (simp_all add: host_and_port_def split_beta Let_def)
  ultimately show ?thesis by blast
qed

lemma url_hostname_plain:
  assumes "\<forall>c\<in>set netloc. c \<notin> {CHR ''/'', CHR ''?'', CHR ''#''}"
  shows "\<forall>c\<in>set (url_hostname netloc). \<not> url_delimiter c"
proof -
  note h = host_chars [OF assms]
  have "\<not> url_delimiter (CHR ''%'')" by (simp add: url_delimiter_def)
  then show ?thesis
    using h partition_parts(1,2) [of "CHR ''%''" "fst (host_and_port netloc)"]
    by (auto simp: url_hostname_def split_beta Let_def lower_def lower_delimiter)
qed

lemma netloc_chars: "urlsplit url = Inr u \<Longrightarrow> \<forall>c\<in>set (ur_netloc u). c \<notin> {CHR ''/'', CHR ''?'', CHR ''#''}"
  by (auto simp: urlsplit_def split_netloc_def Let_def split_beta split: if_splits dest: set_takeWhileD)

lemma accepted_url_shape:
  assumes "validate_source_url url allowed = Inr v"
  shows "\<exists>h rest. v = ''https://'' @ h @ rest \<and> h \<in> normalize_host ` set allowed \<and> \<not> internal_target h
    \<and> (\<forall>c. c \<in> set h \<longrightarrow> \<not> url_delimiter c) \<and> (startswith rest ''/'' \<or> startswith rest '':443/'')"
proof -
  note step = assms [unfolded validate_source_url_def Let_def]
  obtain u where u: "urlsplit (strip url) = Inr u" using step by (cases "urlsplit (strip url)") (auto split: if_split_asm)
  obtain host where host: "validate_host (url_hostname (ur_netloc u)) allowed = Inr host"
    using step u by (cases "validate_host (url_hostname (ur_netloc u)) allowed") (auto split: if_split_asm)
  obtain port where "url_port (ur_netloc u) = Inr port" using step u host by (cases "url_port (ur_netloc u)") (auto split: if_split_asm)
  then have scheme: "lower (ur_scheme u) = ''https''" and
    v: "v = urlunsplit (lower (ur_scheme u)) (if port = Some 443 then host @ '':443'' else host)
        (if ur_path u = [] then ''/'' else ur_path u) (ur_query u)"
    using step u host by (auto split: if_split_asm)
  note h = validate_host_Inr [OF host]
  have plain: "\<forall>c\<in>set host. \<not> url_delimiter c"
    using h normalize_host_plain [OF url_hostname_plain [OF netloc_chars [OF u]]] by simp
  define path where "path = (let p = (if ur_path u = [] then ''/'' else ur_path u) in if hd p \<noteq> CHR ''/'' then CHR ''/'' # p else p)"
  define rest where "rest = (if port = Some 443 then '':443'' else []) @ path @ (if ur_query u = [] then [] else CHR ''?'' # ur_query u)"
  have "\<exists>q. path = CHR ''/'' # q" by (cases "ur_path u") (simp_all add: path_def Let_def)
  then have "startswith rest ''/'' \<or> startswith rest '':443/''" by (auto simp: rest_def startswith_def)
  moreover have "v = ''https://'' @ host @ rest" by (simp add: v scheme urlunsplit_def rest_def path_def Let_def)
  ultimately show ?thesis using h plain by blast
qed

text \<open>
  The characters of a domain name. A list of allowed domains may hold anything; the lists of the
  repository hold domain names. (An IPv6 address would be rebuilt without its brackets and read
  back with another host.)
\<close>

definition host_char :: "char \<Rightarrow> bool" where
  "host_char c \<longleftrightarrow> is_az c \<or> is_09 c \<or> c = CHR ''.'' \<or> c = CHR ''-''"

definition domain_names :: "string list \<Rightarrow> bool" where
  "domain_names allowed \<longleftrightarrow> (\<forall>d\<in>set allowed. list_all host_char (normalize_host d))"

lemma approved_domain_names: "domain_names (concat (map snd APPROVED_AUTHORITY_DOMAINS))"
proof -
  have "\<forall>d\<in>set (concat (map snd APPROVED_AUTHORITY_DOMAINS)). normalize_host d = d" by code_simp
  moreover have "\<forall>d\<in>set (concat (map snd APPROVED_AUTHORITY_DOMAINS)). list_all host_char d" by code_simp
  ultimately show ?thesis by (simp only: domain_names_def) metis
qed

lemma host_char_code: "host_char c \<longleftrightarrow> code c \<in> {45, 46} \<or> 48 \<le> code c \<and> code c \<le> 57 \<or> 97 \<le> code c \<and> code c \<le> 122"
proof -
  have "code (CHR ''.'') = 46" "code (CHR ''-'') = 45" by (simp_all add: code_def)
  then show ?thesis by (auto simp: host_char_def is_az_def is_09_def code_inject [symmetric])
qed

lemma host_char_plain:
  assumes "host_char c"
  shows "c \<notin> {CHR ''/'', CHR ''?'', CHR ''#'', CHR ''@'', CHR ''['', CHR '']'', CHR '':'', CHR ''%''}"
    and "code c \<notin> {9, 10, 13}" and "lower_char c = c"
proof -
  have "code (CHR ''/'') = 47" "code (CHR ''?'') = 63" "code (CHR ''#'') = 35" "code (CHR ''@'') = 64" "code (CHR ''['') = 91"
    "code (CHR '']'') = 93" "code (CHR '':'') = 58" "code (CHR ''%'') = 37" by (simp_all add: code_def)
  then show "c \<notin> {CHR ''/'', CHR ''?'', CHR ''#'', CHR ''@'', CHR ''['', CHR '']'', CHR '':'', CHR ''%''}"
    using assms by (auto simp: host_char_code)
  show "code c \<notin> {9, 10, 13}" "lower_char c = c" using assms by (auto simp: host_char_code lower_char_def)
qed

lemma plain_host:
  assumes "list_all host_char h"
  shows "CHR ''['' \<notin> set h" "CHR '']'' \<notin> set h" "CHR ''@'' \<notin> set h" "CHR '':'' \<notin> set h" "CHR ''%'' \<notin> set h"
    and "\<forall>c\<in>set h. c \<notin> {CHR ''/'', CHR ''?'', CHR ''#''}"
    and "filter (\<lambda>c. code c \<notin> {9, 10, 13}) h = h" and "lower h = h"
proof -
  have p: "c \<notin> {CHR ''/'', CHR ''?'', CHR ''#'', CHR ''@'', CHR ''['', CHR '']'', CHR '':'', CHR ''%''}"
    and q: "code c \<notin> {9, 10, 13}" "lower_char c = c" if "c \<in> set h" for c
    using host_char_plain that assms by (metis list_all_iff)+
  show "CHR ''['' \<notin> set h" "CHR '']'' \<notin> set h" "CHR ''@'' \<notin> set h" "CHR '':'' \<notin> set h" "CHR ''%'' \<notin> set h"
    using p by blast+
  show "\<forall>c\<in>set h. c \<notin> {CHR ''/'', CHR ''?'', CHR ''#''}" using p by blast
  show "filter (\<lambda>c. code c \<notin> {9, 10, 13}) h = h" using q(1) by (rule filter_True [OF ballI])
  show "lower h = h" unfolding lower_def using q(2) by (simp add: map_idI)
qed

text \<open>Reading a rebuilt URL: the authority is the host, with the canonical port or without a port.\<close>

lemma split_https: "split_scheme (''https:'' @ s) = (''https'', s)"
proof -
  have "CHR '':'' \<notin> set ''https''" "list_all scheme_char ''https''" "is_az (hd ''https'')" "lower ''https'' = ''https''" by code_simp+
  then show ?thesis by (simp add: split_scheme_def partition_at_def)
qed

lemma read_authority:
  assumes "list_all host_char h" and "netloc = h \<or> netloc = h @ '':443''"
  shows "netloc_ok netloc" "url_hostname netloc = h" "\<not> has_credentials netloc" "url_port netloc \<in> {Inr None, Inr (Some 443)}"
proof -
  note plain = plain_host [OF assms(1)]
  have no: "CHR ''['' \<notin> set netloc" "CHR '']'' \<notin> set netloc" "CHR ''@'' \<notin> set netloc"
    using assms(2) plain(1-3) by (elim disjE; simp)+
  then show "netloc_ok netloc" by (simp add: netloc_ok_def)
  have all: "takeWhile (\<lambda>c. c \<noteq> d) (rev s) = rev s" "takeWhile (\<lambda>c. c \<noteq> d) s = s" "dropWhile (\<lambda>c. c \<noteq> d) (rev s) = []"
    "dropWhile (\<lambda>c. c \<noteq> d) s = []" if "d \<notin> set s" for d :: char and s
    using that by (simp_all add: takeWhile_eq_all_conv) metis+
  have colon: "takeWhile (\<lambda>c. c \<noteq> CHR '':'') (h @ t) = h @ takeWhile (\<lambda>c. c \<noteq> CHR '':'') t"
    "dropWhile (\<lambda>c. c \<noteq> CHR '':'') (h @ t) = dropWhile (\<lambda>c. c \<noteq> CHR '':'') t" for t
    by (rule takeWhile_append2, use plain(4) in blast) (rule dropWhile_append2, use plain(4) in blast)
  have parts: "snd (snd (rpartition_at (CHR ''@'') netloc)) = netloc" "fst (snd (partition_at (CHR ''['') netloc)) = False"
    "fst (rpartition_at (CHR ''@'') netloc) = []" "fst (snd (rpartition_at (CHR ''@'') netloc)) = False"
    using no by (simp_all add: partition_at_def rpartition_at_def all [OF no(3)])
  have cut: "partition_at (CHR '':'') h = (h, False, [])" "partition_at (CHR '':'') (h @ '':443'') = (h, True, ''443'')"
    using plain(4) by (simp_all add: partition_at_def colon all(2,4) [OF plain(4)])
  have hp: "host_and_port netloc = (h, if netloc = h then [] else ''443'')"
    using assms(2) parts cut by (auto simp: host_and_port_def split_beta Let_def)
  show "url_hostname netloc = h" using plain(5,8) by (simp add: url_hostname_def hp partition_at_def all(2) [OF plain(5)])
  show "\<not> has_credentials netloc" using parts(3,4) by (simp add: has_credentials_def split_beta)
  have "list_all is_09 ''443''" "read_nat ''443'' = 443" by code_simp+
  then show "url_port netloc \<in> {Inr None, Inr (Some 443)}" by (simp add: url_port_def hp)
qed

lemma read_rebuilt:
  assumes h: "list_all host_char h" and rest: "startswith rest ''/'' \<or> startswith rest '':443/''"
  obtains w where "urlsplit (''https://'' @ h @ rest) = Inr w" "ur_scheme w = ''https''" "ur_netloc w = h \<or> ur_netloc w = h @ '':443''"
proof -
  let ?F = "filter (\<lambda>c. code c \<notin> {9, 10, 13})"
  obtain port path where r: "rest = port @ CHR ''/'' # path" "port = [] \<or> port = '':443''"
    using rest unfolding startswith_def by (metis append_Cons append_Nil append_take_drop_id)
  have "?F '':443'' = '':443''" "?F ''/'' = ''/''" by code_simp+
  then have f: "?F (h @ rest) = h @ port @ CHR ''/'' # ?F path" using r plain_host(7) [OF h] by (elim disjE) (simp_all add: code_def)
  define tail where "tail = ?F path"
  let ?P = "\<lambda>c. c \<notin> {CHR ''/'', CHR ''?'', CHR ''#''}"
  have "dropWhile (\<lambda>c. code c \<le> 32) (''https://'' @ h @ rest) = ''https://'' @ h @ rest" by (simp add: code_def)
  moreover have "?F ''https://'' = ''https:'' @ ''//''" by code_simp
  ultimately have u: "?F (dropWhile (\<lambda>c. code c \<le> 32) (''https://'' @ h @ rest)) = ''https:'' @ ''//'' @ h @ port @ CHR ''/'' # tail"
    using f unfolding tail_def by (simp only: filter_append append_assoc)
  have "\<forall>c\<in>set port. ?P c" using r(2) by auto
  then have "\<forall>c\<in>set (h @ port). ?P c" using plain_host(6) [OF h] by auto
  then have "takeWhile ?P ((h @ port) @ CHR ''/'' # tail) = (h @ port) @ takeWhile ?P (CHR ''/'' # tail)"
    by (intro takeWhile_append2) blast
  then have t: "takeWhile ?P (h @ port @ CHR ''/'' # tail) = h @ port" by simp
  obtain more where n: "split_netloc (''//'' @ h @ port @ CHR ''/'' # tail) = (h @ port, more)"
    using t by (simp add: split_netloc_def startswith_def)
  have ok: "netloc_ok (h @ port)" using read_authority(1) [OF h] r(2) by auto
  obtain w where w: "urlsplit (''https://'' @ h @ rest) = Inr w" "ur_scheme w = ''https''" "ur_netloc w = h @ port"
    using u split_https [of "''//'' @ h @ port @ CHR ''/'' # tail"] n ok
    by (simp add: urlsplit_def Let_def split_beta del: append.simps)
  show thesis by (rule that [OF w(1,2)]) (use w(3) r(2) in auto)
qed

text \<open>C29: An accepted source URL leads to one host of the allowed list and nowhere else, when the allowed domains
  are domain names: it is https with that host, which is no internal name and no loopback, private,
  link-local, multicast or reserved address; it has no port but 443; and a reader that splits the
  accepted text again finds the same host, no credentials and no other port.\<close>

theorem accepted_source_url:
  assumes "validate_source_url url allowed = Inr v" and "domain_names allowed"
  shows "\<exists>h rest w. v = ''https://'' @ h @ rest \<and> (startswith rest ''/'' \<or> startswith rest '':443/'') \<and>
    h \<in> normalize_host ` set allowed \<and> \<not> internal_target h \<and> list_all host_char h \<and>
    urlsplit v = Inr w \<and> ur_scheme w = ''https'' \<and> url_hostname (ur_netloc w) = h \<and> \<not> has_credentials (ur_netloc w) \<and>
    url_port (ur_netloc w) \<in> {Inr None, Inr (Some 443)}"
proof -
  obtain h rest where v: "v = ''https://'' @ h @ rest" and h: "h \<in> normalize_host ` set allowed" "\<not> internal_target h"
    and r: "startswith rest ''/'' \<or> startswith rest '':443/''" using accepted_url_shape [OF assms(1)] by blast
  have hc: "list_all host_char h" using h(1) assms(2) by (auto simp: domain_names_def)
  obtain w where w: "urlsplit v = Inr w" "ur_scheme w = ''https''" "ur_netloc w = h \<or> ur_netloc w = h @ '':443''"
    using read_rebuilt [OF hc r] unfolding v by blast
  show ?thesis using v h r hc w(1,2) read_authority(2-4) [OF hc w(3)] by blast
qed

lemma accepted_source_url_witness:
  "validate_source_url '' HTTPS://KICD.ac.ke/x?y=1#z'' [''kicd.ac.ke''] = Inr ''https://kicd.ac.ke/x?y=1'' \<and>
   (\<exists>w. urlsplit ''https://kicd.ac.ke/x?y=1'' = Inr w \<and> url_hostname (ur_netloc w) = ''kicd.ac.ke'' \<and> \<not> has_credentials (ur_netloc w))"
proof -
  have v: "validate_source_url '' HTTPS://KICD.ac.ke/x?y=1#z'' [''kicd.ac.ke''] = Inr ''https://kicd.ac.ke/x?y=1''" by code_simp
  have d: "domain_names [''kicd.ac.ke'']" "normalize_host ''kicd.ac.ke'' = ''kicd.ac.ke''" by code_simp+
  from accepted_source_url [OF v d(1)] v show ?thesis by (auto simp: d(2))
qed

section \<open>What a stored row looks like\<close>

definition approved_hosts :: "string list" where
  "approved_hosts = concat (map snd APPROVED_AUTHORITY_DOMAINS)"

definition authority_typed :: "authority \<Rightarrow> bool" where
  "authority_typed a \<longleftrightarrow> (\<exists>hosts. map_of APPROVED_AUTHORITY_DOMAINS (au_code a) = Some hosts \<and>
     au_domains a \<noteq> [] \<and> set (stored_domains a) \<subseteq> set hosts)"

definition source_typed :: "string \<Rightarrow> bool" where
  "source_typed u \<longleftrightarrow> u = [] \<or> (\<exists>h rest. u = ''https://'' @ h @ rest \<and> h \<in> set approved_hosts \<and>
     (startswith rest ''/'' \<or> startswith rest '':443/''))"

definition evidence_typed :: "evidence \<Rightarrow> bool" where
  "evidence_typed e \<longleftrightarrow> ce_type e \<in> set evidence_types \<and> ce_status e \<in> set evidence_statuses \<and>
     0 < ce_size e \<and> ce_size e \<le> MAX_ARTIFACT_BYTES \<and> ce_content_type e \<in> set ALLOWED_CONTENT_TYPES \<and>
     CHECKSUM_PATTERN (ce_checksum e) \<and> PRIVATE_STORAGE_PATTERN (ce_storage e) \<and> \<not> contains ''..'' (ce_storage e) \<and>
     source_typed (ce_source_url e)"

definition report_typed :: "verification_report \<Rightarrow> bool" where
  "report_typed r \<longleftrightarrow> 0 \<le> vr_score r \<and> vr_score r \<le> 100 \<and> 0 \<le> vr_duplicate_count r \<and> vr_official_match r \<in> set official_source_matches \<and>
     (vr_level r, vr_action r, vr_review_status r) \<in>
       {(''rejected'', ''reject'', ''rejected''), (''needs_governance_review'', ''ready_for_governance_review'', ''complete''),
        (''high'', ''escalate_to_governance'', ''escalated''), (''medium'', ''await_official_confirmation'', ''awaiting_official_confirmation''),
        (''low'', ''request_more_evidence'', ''needs_more_evidence'')}"

definition decision_typed :: "governance_decision \<Rightarrow> bool" where
  "decision_typed d \<longleftrightarrow> gd_decision d \<in> {''pending'', ''approved_for_publication'', ''rejected'', ''requires_more_evidence'', ''escalated''}"

definition candidate_typed :: "rollback_candidate \<Rightarrow> bool" where
  "candidate_typed c \<longleftrightarrow> rc_status c \<in> set ROLLBACK_STATUSES"

definition evidence_db_typed :: "'a evidence_db_scheme \<Rightarrow> bool" where
  "evidence_db_typed db \<longleftrightarrow> (\<forall>a\<in>set (authorities db). authority_typed a) \<and> (\<forall>e\<in>set (evidence_submissions db). evidence_typed e) \<and>
     (\<forall>r\<in>set (verification_reports db). report_typed r) \<and> (\<forall>d\<in>set (governance_decisions db). decision_typed d) \<and>
     (\<forall>c\<in>set (rollback_candidates db). candidate_typed c)"

section \<open>What validation guarantees\<close>

lemma optional_text_Inr: "optional_governance_text v = Inr t \<Longrightarrow> t = strip v"
  by (auto simp: optional_governance_text_def Let_def ebind_eq_Inr split: if_splits)

lemma authority_full_clean_typed: "authority_full_clean url_ok db a = Inr a' \<Longrightarrow> authority_typed a'"
  by (auto simp: authority_full_clean_def validate_authority_domains_def authority_typed_def stored_domains_def ebind_eq_Inr Let_def o_def
      split: if_split_asm option.split_asm)

text \<open>Validation of evidence strips its texts and puts a duplicate into the cluster of its original.\<close>

lemma evidence_full_clean_Inr:
  assumes "evidence_full_clean url_ok db e = Inr e'"
  defines "original \<equiv> Option.bind (ce_duplicate_of e) (evidence_row db)"
  shows "evidence_fields_ok url_ok db e" and "\<And>q. original = Some q \<Longrightarrow> ce_tenant q = ce_tenant e"
    and "\<exists>role backend name au sr rn pn. e' = e\<lparr>ce_role := role, ce_backend := backend, ce_file_name := name, ce_authority := au,
      ce_source_reference := sr, ce_reference_number := rn, ce_publication_number := pn,
      ce_cluster := (case original of None \<Rightarrow> ce_cluster e | Some q \<Rightarrow> ce_cluster q)\<rparr>"
    and "ce_duplicate_of e \<noteq> Some (ce_id e)"
proof -
  have c: "evidence_clean db e = Inr e'" and f: "evidence_fields_ok url_ok db e"
    using assms(1) by (auto simp: evidence_full_clean_def split: if_split_asm)
  show "evidence_fields_ok url_ok db e" by (rule f)
  show "original = Some q \<Longrightarrow> ce_tenant q = ce_tenant e" for q
    using c by (auto simp: evidence_clean_def original_def ebind_eq_Inr Let_def split: if_split_asm)
  show "\<exists>role backend name au sr rn pn. e' = e\<lparr>ce_role := role, ce_backend := backend, ce_file_name := name, ce_authority := au,
      ce_source_reference := sr, ce_reference_number := rn, ce_publication_number := pn,
      ce_cluster := (case original of None \<Rightarrow> ce_cluster e | Some q \<Rightarrow> ce_cluster q)\<rparr>"
    using c unfolding evidence_clean_def original_def [symmetric] ebind_eq_Inr Let_def
    by (fastforce split: if_split_asm)
  show "ce_duplicate_of e \<noteq> Some (ce_id e)"
    using c by (auto simp: evidence_clean_def ebind_eq_Inr Let_def split: if_split_asm)
qed

lemma report_full_clean_Inr:
  "report_full_clean db r = Inr r' \<Longrightarrow> r' = r \<and> vr_score r \<le> 100 \<and> vr_official_match r \<in> set official_source_matches \<and>
     (\<forall>q\<in>set (verification_reports db). vr_id q = vr_id r \<or> vr_evidence q \<noteq> vr_evidence r)"
  by (auto simp: report_full_clean_def ebind_eq_Inr split: if_split_asm)

lemma decision_full_clean_Inr:
  "decision_full_clean db d = Inr d' \<Longrightarrow> gd_decision d' = gd_decision d \<and> gd_report d' = gd_report d \<and> gd_tenant d' = gd_tenant d \<and>
    gd_reviewed_by d' = gd_reviewed_by d \<and> decision_typed d'"
  by (auto simp: decision_full_clean_def decision_typed_def ebind_eq_Inr split: if_split_asm)

lemma candidate_full_clean_Inr: "candidate_full_clean db c = Inr c' \<Longrightarrow> candidate_typed c'"
  by (auto simp: candidate_full_clean_def candidate_typed_def ebind_eq_Inr split: if_split_asm)

lemma upload_metadata_typed:
  assumes "validate_upload_metadata storage file_name content_type n checksum = Inr m"
  shows "0 < um_size_bytes m \<and> um_size_bytes m \<le> MAX_ARTIFACT_BYTES \<and> um_content_type m \<in> set ALLOWED_CONTENT_TYPES \<and>
    CHECKSUM_PATTERN (um_file_checksum m) \<and> PRIVATE_STORAGE_PATTERN (um_storage_reference m) \<and> \<not> contains ''..'' (um_storage_reference m)"
  using assms by (auto simp: validate_upload_metadata_def validate_artifact_metadata_def validate_storage_reference_def ebind_eq_Inr Let_def
      split: if_split_asm)

lemma approved_hosts_normal: "h \<in> set approved_hosts \<Longrightarrow> normalize_host h = h"
proof -
  have "\<forall>h\<in>set approved_hosts. normalize_host h = h" by code_simp
  then show "h \<in> set approved_hosts \<Longrightarrow> normalize_host h = h" by blast
qed

lemma claimed_source_typed:
  assumes "validate_claimed_source_url db au url = Inr u" and "\<forall>a\<in>set (authorities db). authority_typed a"
  shows "source_typed u"
proof (cases "strip url = []")
  case True
  then show ?thesis using assms(1) by (simp add: validate_claimed_source_url_def source_typed_def)
next
  case False
  then obtain a c where a: "authority_in_use db c = Some a" and u: "validate_source_url (strip url) (stored_domains a) = Inr u"
    using assms(1) by (auto simp: validate_claimed_source_url_def ebind_eq_Inr split: option.split_asm)
  have "a \<in> set (authorities db)" using a unfolding authority_in_use_def by (blast dest: first_where_SomeD)
  then obtain hosts where hosts: "map_of APPROVED_AUTHORITY_DOMAINS (au_code a) = Some hosts" "set (stored_domains a) \<subseteq> set hosts"
    using assms(2) by (auto simp: authority_typed_def)
  have "set hosts \<subseteq> set approved_hosts"
    using map_of_SomeD [OF hosts(1)] unfolding approved_hosts_def set_concat set_map by (metis UN_upper image_eqI snd_conv)
  then have "\<And>h. h \<in> normalize_host ` set (stored_domains a) \<Longrightarrow> h \<in> set approved_hosts"
    using hosts(2) approved_hosts_normal by fastforce
  then show ?thesis using accepted_url_shape [OF u] unfolding source_typed_def by blast
qed

section \<open>How rows belong together\<close>

text \<open>What identifies evidence: id, tenant, fingerprint, cluster, storage and the row it duplicates.\<close>

definition ce_key :: "evidence \<Rightarrow> uuid \<times> uuid \<times> string \<times> uuid \<times> string \<times> uuid option" where
  "ce_key e = (ce_id e, ce_tenant e, ce_fingerprint e, ce_cluster e, ce_storage e, ce_duplicate_of e)"

text \<open>
  Rows with the same fingerprint, and only they, form a cluster; a storage reference belongs to one tenant; a
  duplicate points at another row of its tenant and its cluster.
\<close>

definition keys_linked :: "(uuid \<times> uuid \<times> string \<times> uuid \<times> string \<times> uuid option) list \<Rightarrow> bool" where
  "keys_linked ks \<longleftrightarrow> distinct (map fst ks) \<and>
     (\<forall>(i, t, f, c, s, d)\<in>set ks. \<forall>(i', t', f', c', s', d')\<in>set ks. (c = c') = (f = f') \<and> (s = s' \<longrightarrow> t = t')) \<and>
     (\<forall>(i, t, f, c, s, d)\<in>set ks. \<forall>j. d = Some j \<longrightarrow> j \<noteq> i \<and> (\<exists>s' d'. (j, t, f, c, s', d') \<in> set ks))"

definition reports_linked :: "evidence list \<Rightarrow> verification_report list \<Rightarrow> bool" where
  "reports_linked es rs \<longleftrightarrow> distinct (map vr_evidence rs) \<and>
     (\<forall>r\<in>set rs. (vr_evidence r, vr_tenant r) \<in> set (map (\<lambda>e. (ce_id e, ce_tenant e)) es))"

definition evidence_ok :: "'a evidence_db_scheme \<Rightarrow> bool" where
  "evidence_ok db \<longleftrightarrow> keys_linked (map ce_key (evidence_submissions db)) \<and>
     reports_linked (evidence_submissions db) (verification_reports db)"

definition unscanned :: "evidence \<Rightarrow> bool" where
  "unscanned e \<longleftrightarrow> ce_malware e = ''pending'' \<and> ce_content_status e = ''pending''"

lemma keys_id_inj: "keys_linked (map ce_key es) \<Longrightarrow> a \<in> set es \<Longrightarrow> b \<in> set es \<Longrightarrow> ce_id a = ce_id b \<Longrightarrow> a = b"
  by (auto simp: keys_linked_def ce_key_def distinct_map inj_on_def)

lemma linked_row:
  assumes "keys_linked (map ce_key (evidence_submissions db))" and "q \<in> set (evidence_submissions db)"
  shows "evidence_row db (ce_id q) = Some q"
proof (cases "evidence_row db (ce_id q)")
  case None
  then show ?thesis using assms(2) by (auto simp: evidence_row_def first_where_def find_None_iff)
next
  case (Some e)
  then show ?thesis using keys_id_inj [OF assms(1) _ assms(2)] by (auto simp: evidence_row_def dest: first_where_SomeD)
qed

section \<open>What each service stores\<close>

lemma evidence_saved:
  assumes "evidence_full_clean url_ok db e = Inr e1" and "evidence_full_clean url_ok db e1 = Inr e'"
  defines "original \<equiv> Option.bind (ce_duplicate_of e) (evidence_row db)"
  shows "\<And>q. original = Some q \<Longrightarrow> ce_tenant q = ce_tenant e"
    and "\<exists>role backend name au sr rn pn. e' = e\<lparr>ce_role := role, ce_backend := backend, ce_file_name := name, ce_authority := au,
      ce_source_reference := sr, ce_reference_number := rn, ce_publication_number := pn,
      ce_cluster := (case original of None \<Rightarrow> ce_cluster e | Some q \<Rightarrow> ce_cluster q)\<rparr>"
    and "ce_duplicate_of e \<noteq> Some (ce_id e)" and "evidence_fields_ok url_ok db e"
proof -
  note a = evidence_full_clean_Inr [OF assms(1)] and b = evidence_full_clean_Inr [OF assms(2)]
  show "original = Some q \<Longrightarrow> ce_tenant q = ce_tenant e" for q using a(2) by (simp add: original_def)
  show "ce_duplicate_of e \<noteq> Some (ce_id e)" "evidence_fields_ok url_ok db e" by (rule a(4), rule a(1))
  from a(3) b(3) show "\<exists>role backend name au sr rn pn. e' = e\<lparr>ce_role := role, ce_backend := backend, ce_file_name := name, ce_authority := au,
      ce_source_reference := sr, ce_reference_number := rn, ce_publication_number := pn,
      ce_cluster := (case original of None \<Rightarrow> ce_cluster e | Some q \<Rightarrow> ce_cluster q)\<rparr>"
    unfolding original_def [symmetric] by (elim exE, simp add: original_def split: option.split) (blast)
qed

lemma original_evidence_Some:
  assumes "original_evidence db f = Some q" shows "q \<in> set (evidence_submissions db) \<and> ce_fingerprint q = f"
proof -
  have "q \<in> set (sort_key ce_created_at (filter (\<lambda>e. ce_fingerprint e = f) (evidence_submissions db)))"
    using assms unfolding original_evidence_def by (auto split: list.split_asm simp del: set_sort)
  then show ?thesis by simp
qed

lemma original_evidence_None: "original_evidence db f = None \<Longrightarrow> e \<in> set (evidence_submissions db) \<Longrightarrow> ce_fingerprint e \<noteq> f"
proof -
  assume "original_evidence db f = None" and e: "e \<in> set (evidence_submissions db)"
  then have "sort_key ce_created_at (filter (\<lambda>e. ce_fingerprint e = f) (evidence_submissions db)) = []"
    by (auto simp: original_evidence_def split: list.split_asm)
  then have "set (filter (\<lambda>e. ce_fingerprint e = f) (evidence_submissions db)) = {}" by (metis list.set(1) set_sort)
  then show "ce_fingerprint e \<noteq> f" using e by auto
qed

lemma store_evidence_Inr:
  assumes "store_evidence url_ok sha date_text now new_id cluster_id actor tenant payload published effective db = (Inr e', db')"
    and linked: "keys_linked (map ce_key (evidence_submissions db))"
  shows "db' = add_evidence e' db" and "ce_id e' = new_id" and "unscanned e'"
    and "\<forall>a\<in>set (authorities db). authority_typed a \<Longrightarrow> evidence_typed e'"
    and "q \<in> set (evidence_submissions db) \<Longrightarrow> ce_storage q = ce_storage e' \<Longrightarrow> ce_tenant q = ce_tenant e'"
    and "(\<exists>q\<in>set (evidence_submissions db). ce_fingerprint q = ce_fingerprint e' \<and> ce_cluster q = ce_cluster e' \<and>
        (ce_duplicate_of e' = None \<or> ce_duplicate_of e' = Some (ce_id q) \<and> ce_tenant q = ce_tenant e')) \<or>
      (\<forall>q\<in>set (evidence_submissions db). ce_fingerprint q \<noteq> ce_fingerprint e') \<and> ce_cluster e' = cluster_id \<and> ce_duplicate_of e' = None"
proof -
  from assms(1) obtain f where f: "read_evidence sha date_text actor tenant payload published effective db = Inr f"
    and s: "save_clean (evidence_full_clean url_ok) add_evidence
      (new_evidence now new_id cluster_id (the actor) tenant payload published effective f (original_evidence db (ef_fingerprint f))) db = (Inr e', db')"
    by (auto simp: store_evidence_def atomic_eq_Inr abind_eq_Inr)
  let ?o = "original_evidence db (ef_fingerprint f)"
  let ?e = "new_evidence now new_id cluster_id (the actor) tenant payload published effective f ?o"
  obtain e1 where e1: "evidence_full_clean url_ok db ?e = Inr e1" "evidence_full_clean url_ok db e1 = Inr e'" and db': "db' = add_evidence e' db"
    using s by (rule save_cleanE)
  note saved = evidence_saved [OF e1]
  have dup: "ce_duplicate_of ?e = (case ?o of None \<Rightarrow> None | Some q \<Rightarrow> if ce_tenant q = sc_id tenant then Some (ce_id q) else None)"
    "ce_cluster ?e = (case ?o of None \<Rightarrow> cluster_id | Some q \<Rightarrow> ce_cluster q)" "ce_id ?e = new_id" "ce_tenant ?e = sc_id tenant"
    "ce_fingerprint ?e = ef_fingerprint f" "ce_storage ?e = um_storage_reference (ef_metadata f)" "unscanned ?e"
    by (simp_all add: new_evidence_def Let_def unscanned_def)
  have row: "ce_duplicate_of ?e = Some i \<Longrightarrow> \<exists>q. ?o = Some q \<and> evidence_row db i = Some q" for i
    using linked_row [OF linked] original_evidence_Some [of db "ef_fingerprint f"] by (auto simp: dup(1) split: option.split_asm if_split_asm)
  have cluster: "(case Option.bind (ce_duplicate_of ?e) (evidence_row db) of None \<Rightarrow> ce_cluster ?e | Some q \<Rightarrow> ce_cluster q) = ce_cluster ?e"
    using row dup(2) by (auto split: option.split simp: bind_eq_Some_conv)
  obtain role backend name au sr rn pn where e': "e' = ?e\<lparr>ce_role := role, ce_backend := backend, ce_file_name := name, ce_authority := au,
      ce_source_reference := sr, ce_reference_number := rn, ce_publication_number := pn, ce_cluster := ce_cluster ?e\<rparr>"
    using saved(2) unfolding cluster by blast
  show "db' = add_evidence e' db" by (rule db')
  show "ce_id e' = new_id" "unscanned e'" using dup by (simp_all add: e' unscanned_def)
  note reads = f [unfolded read_evidence_def ebind_eq_Inr Let_def]
  obtain url where url: "validate_claimed_source_url db (ef_authority f) url = Inr (ef_source_url f)" using reads by (auto split: if_split_asm)
  have m: "\<exists>sr fn ct n cs. validate_upload_metadata sr fn ct n cs = Inr (ef_metadata f)" using reads by (auto split: if_split_asm) blast+
  have st: "\<not> (\<exists>e\<in>set (evidence_submissions db). ce_storage e = um_storage_reference (ef_metadata f) \<and> ce_tenant e \<noteq> sc_id tenant)"
    using reads by (auto split: if_split_asm)
  show "q \<in> set (evidence_submissions db) \<Longrightarrow> ce_storage q = ce_storage e' \<Longrightarrow> ce_tenant q = ce_tenant e'"
    using st by (auto simp: e' dup)
  show "evidence_typed e'" if "\<forall>a\<in>set (authorities db). authority_typed a"
    using m saved(4) claimed_source_typed [OF url that]
    by (auto simp: e' evidence_typed_def new_evidence_def Let_def evidence_statuses_def evidence_fields_ok_def dest!: upload_metadata_typed)
  have k: "ce_fingerprint e' = ef_fingerprint f" "ce_tenant e' = sc_id tenant"
    "ce_cluster e' = (case ?o of None \<Rightarrow> cluster_id | Some q \<Rightarrow> ce_cluster q)"
    "ce_duplicate_of e' = (case ?o of None \<Rightarrow> None | Some q \<Rightarrow> if ce_tenant q = sc_id tenant then Some (ce_id q) else None)"
    by (simp_all add: e' dup)
  show "(\<exists>q\<in>set (evidence_submissions db). ce_fingerprint q = ce_fingerprint e' \<and> ce_cluster q = ce_cluster e' \<and>
        (ce_duplicate_of e' = None \<or> ce_duplicate_of e' = Some (ce_id q) \<and> ce_tenant q = ce_tenant e')) \<or>
      (\<forall>q\<in>set (evidence_submissions db). ce_fingerprint q \<noteq> ce_fingerprint e') \<and> ce_cluster e' = cluster_id \<and> ce_duplicate_of e' = None"
  proof (cases ?o)
    case None
    then show ?thesis using original_evidence_None [OF None] by (auto simp: k)
  next
    case (Some q)
    then show ?thesis using original_evidence_Some [OF Some] by (intro disjI1 bexI [of _ q]) (simp_all add: k)
  qed
qed

lemma duplicate_row:
  assumes ok: "keys_linked (map ce_key (evidence_submissions db))" and e: "e \<in> set (evidence_submissions db)"
    and q: "Option.bind (ce_duplicate_of e) (evidence_row db) = Some q"
  shows "ce_cluster q = ce_cluster e"
proof -
  from q obtain j where j: "ce_duplicate_of e = Some j" "evidence_row db j = Some q" by (auto simp: bind_eq_Some_conv)
  have "ce_key e \<in> set (map ce_key (evidence_submissions db))" using e by simp
  with ok j(1) obtain s d where "(j, ce_tenant e, ce_fingerprint e, ce_cluster e, s, d) \<in> set (map ce_key (evidence_submissions db))"
    unfolding keys_linked_def by (fastforce simp: ce_key_def)
  then obtain p where p: "p \<in> set (evidence_submissions db)" "ce_id p = j" "ce_cluster p = ce_cluster e" by (auto simp: ce_key_def)
  then show ?thesis using linked_row [OF ok p(1)] j(2) by simp
qed

lemma score_bounds:
  "0 \<le> vc_score (score_verification_confidence s k m n) \<and> vc_score (score_verification_confidence s k m n) \<le> 100"
  by (auto simp: score_verification_confidence_def Let_def)

lemma confidence_outcome:
  "(vc_level c, vc_action c, case map_of status_by_action (vc_action c) of None \<Rightarrow> ''pending'' | Some s \<Rightarrow> s) \<in>
     {(''rejected'', ''reject'', ''rejected''), (''needs_governance_review'', ''ready_for_governance_review'', ''complete''),
      (''high'', ''escalate_to_governance'', ''escalated''), (''medium'', ''await_official_confirmation'', ''awaiting_official_confirmation''),
      (''low'', ''request_more_evidence'', ''needs_more_evidence'')}" if "c = score_verification_confidence s k m n"
  unfolding that by (auto simp: score_verification_confidence_def Let_def status_by_action_def)

lemma new_report_Inr:
  assumes "new_report now new_id actor tenant e om st si te db = Inr r"
  shows "vr_id r = new_id \<and> vr_evidence r = ce_id e \<and> vr_tenant r = ce_tenant e \<and> 0 \<le> vr_duplicate_count r"
    and "\<exists>c s k n. c = score_verification_confidence s k om n \<and> vr_score r = vc_score c \<and> vr_level r = vc_level c \<and> vr_action r = vc_action c \<and>
      vr_review_status r = (case map_of status_by_action (vc_action c) of None \<Rightarrow> ''pending'' | Some s \<Rightarrow> s)"
proof -
  obtain c where c: "normalize_authority_code (ce_authority e) = Inr c" and t: "ce_tenant e = sc_id tenant"
    and r: "require_governance_approver db actor (Some tenant) = Inr ()"
    using assms by (cases "normalize_authority_code (ce_authority e)") (auto simp: new_report_def ebind_eq_Inr split: if_split_asm)
  note r = assms [unfolded new_report_def c t r Let_def, simplified, symmetric]
  show "vr_id r = new_id \<and> vr_evidence r = ce_id e \<and> vr_tenant r = ce_tenant e \<and> 0 \<le> vr_duplicate_count r" by (simp add: r t)
  show "\<exists>c s k n. c = score_verification_confidence s k om n \<and> vr_score r = vc_score c \<and> vr_level r = vc_level c \<and> vr_action r = vc_action c \<and>
      vr_review_status r = (case map_of status_by_action (vc_action c) of None \<Rightarrow> ''pending'' | Some s \<Rightarrow> s)"
    by (intro exI conjI) (simp_all add: r)
qed

lemma store_report_Inr:
  assumes "store_report url_ok now new_id actor tenant e om st si te db = (Inr r, db')"
    and linked: "keys_linked (map ce_key (evidence_submissions db))" and e: "e \<in> set (evidence_submissions db)"
  obtains e' where "db' = put_evidence e' (add_report r db)" and "ce_key e' = ce_key e" and "evidence_typed e \<Longrightarrow> evidence_typed e'"
    and "ce_malware e' = ce_malware e \<and> ce_content_status e' = ce_content_status e" and "vr_evidence r = ce_id e" and "vr_tenant r = ce_tenant e" and "report_typed r"
    and "new_id \<notin> vr_id ` set (verification_reports db) \<Longrightarrow> ce_id e \<notin> vr_evidence ` set (verification_reports db)"
proof -
  from assms(1) obtain r0 db1 e' where r0: "new_report now new_id actor tenant e om st si te db = Inr r0"
    and s: "save_clean report_full_clean add_report r0 db = (Inr r, db1)"
    and p: "save_clean (evidence_full_clean url_ok) put_evidence (e\<lparr>ce_status := evidence_status_of_report (vr_review_status r)\<rparr>) db1 = (Inr e', db')"
    by (auto simp: store_report_def atomic_eq_Inr abind_eq_Inr alift_eq_Inr)
  obtain r1 where f: "report_full_clean db r0 = Inr r1" "report_full_clean db r1 = Inr r" and db1: "db1 = add_report r db" using s by (rule save_cleanE)
  note p = p [unfolded db1]
  from f have r: "r = r0" "vr_score r0 \<le> 100" "vr_official_match r0 \<in> set official_source_matches"
    "\<forall>q\<in>set (verification_reports db). vr_id q = vr_id r0 \<or> vr_evidence q \<noteq> vr_evidence r0"
    using report_full_clean_Inr [of db r0 r1] report_full_clean_Inr [of db r1 r] by auto
  note key = new_report_Inr(1) [OF r0]
  have typed: "report_typed r0"
    using new_report_Inr(2) [OF r0] key r(3) score_bounds confidence_outcome unfolding report_typed_def by metis
  let ?e = "e\<lparr>ce_status := evidence_status_of_report (vr_review_status r)\<rparr>"
  obtain e1 where e1: "evidence_full_clean url_ok (add_report r db) ?e = Inr e1" "evidence_full_clean url_ok (add_report r db) e1 = Inr e'"
    and db': "db' = put_evidence e' (add_report r db)" using p by (rule save_cleanE)
  have "evidence_row (add_report r db) = evidence_row db" by (simp add: fun_eq_iff evidence_row_def add_report_def)
  then have "(case Option.bind (ce_duplicate_of ?e) (evidence_row (add_report r db)) of None \<Rightarrow> ce_cluster ?e | Some q \<Rightarrow> ce_cluster q) = ce_cluster e"
    using duplicate_row [OF linked e] by (auto split: option.split)
  then obtain role backend name au sr rn pn where e': "e' = ?e\<lparr>ce_role := role, ce_backend := backend, ce_file_name := name, ce_authority := au,
      ce_source_reference := sr, ce_reference_number := rn, ce_publication_number := pn, ce_cluster := ce_cluster e\<rparr>"
    using evidence_saved(2) [OF e1] by auto
  have "ce_status ?e \<in> set evidence_statuses" by (simp add: evidence_status_of_report_def evidence_statuses_def)
  moreover have "ce_id e \<notin> vr_evidence ` set (verification_reports db)" if fresh: "new_id \<notin> vr_id ` set (verification_reports db)"
  proof
    assume "ce_id e \<in> vr_evidence ` set (verification_reports db)"
    then obtain q where q: "q \<in> set (verification_reports db)" "vr_evidence q = ce_id e" by auto
    then have "vr_id q = new_id" using r(4) key by auto
    then show False using fresh q(1) by auto
  qed
  ultimately show thesis
    using that [OF db'] r key typed by (auto simp: e' ce_key_def evidence_typed_def)
qed

lemma store_decision_Inr:
  assumes "store_decision now new_id actor tenant r decision reason db = (Inr d, db')"
  shows "db' = add_decision d db \<and> decision_typed d \<and> gd_report d = vr_id r \<and> gd_tenant d = vr_tenant r \<and> (gd_decision d = ''approved_for_publication'' \<longrightarrow>
    gd_reviewed_by d \<noteq> None \<and> vr_review_status r \<in> set APPROVAL_REPORT_STATUSES \<and>
    (\<exists>e. evidence_row db (vr_evidence r) = Some e \<and> ce_malware e = ''clean'' \<and> ce_content_status e = ''passed''))"
proof -
  from assms obtain d0 where d0: "new_decision now new_id actor tenant r decision reason db = Inr d0"
    and s: "save_clean decision_full_clean add_decision d0 db = (Inr d, db')"
    by (auto simp: store_decision_def atomic_eq_Inr abind_eq_Inr)
  obtain d1 where d1: "decision_full_clean db d0 = Inr d1" "decision_full_clean db d1 = Inr d" "db' = add_decision d db"
    using s by (rule save_cleanE)
  have d: "gd_decision d = gd_decision d0" "gd_report d = gd_report d0" "gd_tenant d = gd_tenant d0" "gd_reviewed_by d = gd_reviewed_by d0"
    "decision_typed d"
    using decision_full_clean_Inr [OF d1(1)] decision_full_clean_Inr [OF d1(2)] by simp_all
  have "gd_report d0 = vr_id r \<and> gd_tenant d0 = vr_tenant r \<and> (gd_decision d0 = ''approved_for_publication'' \<longrightarrow>
    gd_reviewed_by d0 \<noteq> None \<and> vr_review_status r \<in> set APPROVAL_REPORT_STATUSES \<and>
    (\<exists>e. evidence_row db (vr_evidence r) = Some e \<and> ce_malware e = ''clean'' \<and> ce_content_status e = ''passed''))"
    using d0 by (auto simp: new_decision_def ebind_eq_Inr require_evidence_ready_for_approval_def require_governance_approver_def
        require_active_reviewer_def validate_governance_decision_def Let_def split: if_split_asm option.split_asm)
  then show ?thesis using d d1(3) by simp
qed

section \<open>The evidence workflow\<close>

text \<open>
  The services in any order, with fresh ids; the evidence and the reports they are given are rows of the
  database.
\<close>

inductive evidence_step ::
  "(string \<Rightarrow> bool) \<Rightarrow> (string \<Rightarrow> string) \<Rightarrow> (date \<Rightarrow> string) \<Rightarrow> (time \<Rightarrow> string) \<Rightarrow> 'a evidence_db_scheme \<Rightarrow> 'a evidence_db_scheme \<Rightarrow> bool"
  for url_ok sha date_text isoformat where
  registers: "evidence_step url_ok sha date_text isoformat db (snd (register_curriculum_authority url_ok i c n w ds act app db))"
| submits: "i \<notin> ce_id ` set (evidence_submissions db) \<Longrightarrow> k \<notin> ce_cluster ` set (evidence_submissions db) \<Longrightarrow>
    evidence_step url_ok sha date_text isoformat db
      (snd (submit_curriculum_evidence url_ok sha date_text isoformat now i k ev u t payload pub eff db))"
| verifies: "e \<in> set (evidence_submissions db) \<Longrightarrow> i \<notin> vr_id ` set (verification_reports db) \<Longrightarrow>
    evidence_step url_ok sha date_text isoformat db
      (snd (create_curriculum_verification_report url_ok isoformat now i ev u t e om st si te db))"
| decides: "r \<in> set (verification_reports db) \<Longrightarrow>
    evidence_step url_ok sha date_text isoformat db (snd (record_governance_decision isoformat now i ev u t r d reason db))"
| plans: "r \<in> set (verification_reports db) \<Longrightarrow>
    evidence_step url_ok sha date_text isoformat db (snd (plan_curriculum_app_impacts ids u t r domains db))"
| proposes_rollback: "e \<in> set (evidence_submissions db) \<Longrightarrow>
    evidence_step url_ok sha date_text isoformat db
      (snd (create_curriculum_rollback_candidate isoformat now i ev u t e reason ro status db))"

text \<open>What a step does to the rows: nothing, or one of six changes.\<close>

definition evidence_tables :: "'a evidence_db_scheme \<Rightarrow>
    authority list \<times> evidence list \<times> verification_report list \<times> governance_decision list \<times> rollback_candidate list" where
  "evidence_tables db = (authorities db, evidence_submissions db, verification_reports db, governance_decisions db, rollback_candidates db)"

lemma evidence_tables_simps [simp]:
  "evidence_tables (db\<lparr>event_tables := ev\<rparr>) = evidence_tables db"
  "evidence_tables (add_impact_plan p db) = evidence_tables db"
  by (simp_all add: evidence_tables_def add_impact_plan_def)

lemma recorded_tables:
  assumes "P db" and "\<And>r t. service db = (Inr r, t) \<Longrightarrow> P t" and "\<And>x t. service db = (Inl x, t) \<Longrightarrow> t = db"
    and "\<And>t ev. P t \<Longrightarrow> P (t\<lparr>event_tables := ev\<rparr>)"
  shows "P (snd (record_after_commit now i req service db))"
  using assms by (auto simp: record_after_commit_def split: prod.split sum.split)

lemma store_Inl:
  "store_evidence url_ok sha date_text now i k u t payload pub eff db = (Inl x, db') \<Longrightarrow> db' = db"
  "store_report url_ok now i u t e om st si te db = (Inl x, db') \<Longrightarrow> db' = db"
  "store_decision now i u t r d reason db = (Inl x, db') \<Longrightarrow> db' = db"
  "store_candidate now i u t e reason ro status db = (Inl x, db') \<Longrightarrow> db' = db"
  by (auto simp: store_evidence_def store_report_def store_decision_def store_candidate_def dest: atomic_unchanged)

lemma evidence_step_induct [consumes 2, case_names frame start authority evidence report decision candidate]:
  assumes step: "evidence_step url_ok sha date_text isoformat db db'" and linked: "keys_linked (map ce_key (evidence_submissions db))"
    and frame: "\<And>s t. evidence_tables s = evidence_tables t \<Longrightarrow> P s \<Longrightarrow> P t"
    and P: "P db"
    and authority: "\<And>a. authority_typed a \<Longrightarrow> P (add_authority a db)"
    and evidence: "\<And>now i k u t payload pub eff e. i \<notin> ce_id ` set (evidence_submissions db) \<Longrightarrow> k \<notin> ce_cluster ` set (evidence_submissions db) \<Longrightarrow>
      store_evidence url_ok sha date_text now i k u t payload pub eff db = (Inr e, add_evidence e db) \<Longrightarrow> P (add_evidence e db)"
    and report: "\<And>e e' r. e \<in> set (evidence_submissions db) \<Longrightarrow> ce_key e' = ce_key e \<Longrightarrow> (evidence_typed e \<Longrightarrow> evidence_typed e') \<Longrightarrow>
      ce_malware e' = ce_malware e \<and> ce_content_status e' = ce_content_status e \<Longrightarrow> vr_evidence r = ce_id e \<Longrightarrow> vr_tenant r = ce_tenant e \<Longrightarrow> report_typed r \<Longrightarrow>
      ce_id e \<notin> vr_evidence ` set (verification_reports db) \<Longrightarrow> P (put_evidence e' (add_report r db))"
    and decision: "\<And>now i u t r d reason g. r \<in> set (verification_reports db) \<Longrightarrow> store_decision now i u t r d reason db = (Inr g, add_decision g db) \<Longrightarrow> P (add_decision g db)"
    and candidate: "\<And>c. candidate_typed c \<Longrightarrow> P (add_candidate c db)"
  shows "P db'"
proof -
  have ev: "P t \<Longrightarrow> P (t\<lparr>event_tables := ev\<rparr>)" for t ev by (rule frame [of t]) simp
  from step show ?thesis
  proof cases
    case (registers i c n w ds act app)
    then show ?thesis
      using P by (cases "register_curriculum_authority url_ok i c n w ds act app db"; cases "fst (register_curriculum_authority url_ok i c n w ds act app db)")
        (auto simp: register_curriculum_authority_def atomic_eq_Inr abind_eq_Inr alift_eq_Inr dest: atomic_unchanged
          elim!: save_cleanE intro!: authority intro: authority_full_clean_typed)
  next
    case (submits i k now ev u t payload pub eff)
    show ?thesis unfolding submits(1) submit_curriculum_evidence_def
    proof (rule recorded_tables [of P, OF P _ _ ev])
      fix r t' assume s: "store_evidence url_ok sha date_text now i k u t payload pub eff db = (Inr r, t')"
      then show "P t'" using store_evidence_Inr(1) [OF s linked] evidence [OF submits(2,3)] by simp
    qed (blast dest: store_Inl)
  next
    case (verifies e i now ev u t om st si te)
    show ?thesis unfolding verifies(1) create_curriculum_verification_report_def
    proof (rule recorded_tables [of P, OF P _ _ ev])
      fix r t' assume s: "store_report url_ok now i u t e om st si te db = (Inr r, t')"
      show "P t'"
        by (rule store_report_Inr [OF s linked verifies(2)]) (use report [OF verifies(2)] verifies(3) in blast)
    qed (blast dest: store_Inl)
  next
    case (decides r now i ev u t d reason)
    show ?thesis unfolding decides(1) record_governance_decision_def
    proof (rule recorded_tables [of P, OF P _ _ ev])
      fix g t' assume s: "store_decision now i u t r d reason db = (Inr g, t')"
      then show "P t'" using store_decision_Inr [OF s] decision [OF decides(2)] by auto
    qed (blast dest: store_Inl)
  next
    case (plans r ids u t domains)
    have e: "evidence_tables s' = evidence_tables s" if "aeach (save_impact_plan ids t r) xs s = (Inr ys, s')" for xs s ys s'
      using that by (induction xs arbitrary: s ys) (auto simp: abind_eq_Inr alift_eq_Inr save_impact_plan_def elim!: save_cleanE)
    show ?thesis
    proof (cases "plan_curriculum_app_impacts ids u t r domains db")
      case (Pair res t')
      then have "evidence_tables t' = evidence_tables db"
        by (cases res) (auto simp: plan_curriculum_app_impacts_def atomic_eq_Inr abind_eq_Inr alift_eq_Inr dest: e atomic_unchanged split: if_split_asm)
      then show ?thesis using frame [of db t'] P by (simp add: plans(1) Pair)
    qed
  next
    case (proposes_rollback e now i ev u t reason ro status)
    show ?thesis unfolding proposes_rollback(1) create_curriculum_rollback_candidate_def
    proof (rule recorded_tables [of P, OF P _ _ ev])
      fix c t' assume "store_candidate now i u t e reason ro status db = (Inr c, t')"
      then have "\<exists>c0. save_clean candidate_full_clean add_candidate c0 db = (Inr c, t')"
        by (auto simp: store_candidate_def atomic_eq_Inr abind_eq_Inr alift_eq_Inr split: if_split_asm)
      then show "P t'" by (auto elim!: save_cleanE intro!: candidate intro: candidate_full_clean_Inr)
    qed (blast dest: store_Inl)
  qed
qed

section \<open>What every reachable state keeps\<close>

lemma add_simps [simp]:
  "evidence_submissions (add_authority a db) = evidence_submissions db" "verification_reports (add_authority a db) = verification_reports db"
  "authorities (add_authority a db) = authorities db @ [a]" "governance_decisions (add_authority a db) = governance_decisions db"
  "rollback_candidates (add_authority a db) = rollback_candidates db"
  "evidence_submissions (add_evidence e db) = evidence_submissions db @ [e]" "verification_reports (add_evidence e db) = verification_reports db"
  "authorities (add_evidence e db) = authorities db" "governance_decisions (add_evidence e db) = governance_decisions db"
  "rollback_candidates (add_evidence e db) = rollback_candidates db"
  "evidence_submissions (add_decision d db) = evidence_submissions db" "verification_reports (add_decision d db) = verification_reports db"
  "authorities (add_decision d db) = authorities db" "governance_decisions (add_decision d db) = governance_decisions db @ [d]"
  "rollback_candidates (add_decision d db) = rollback_candidates db"
  "evidence_submissions (add_candidate c db) = evidence_submissions db" "verification_reports (add_candidate c db) = verification_reports db"
  "authorities (add_candidate c db) = authorities db" "governance_decisions (add_candidate c db) = governance_decisions db"
  "rollback_candidates (add_candidate c db) = rollback_candidates db @ [c]"
  by (simp_all add: add_authority_def add_evidence_def add_decision_def add_candidate_def)

lemma put_report_simps [simp]:
  "evidence_submissions (put_evidence e (add_report r db)) = update_where (\<lambda>q. ce_id q = ce_id e) (\<lambda>_. e) (evidence_submissions db)"
  "verification_reports (put_evidence e (add_report r db)) = verification_reports db @ [r]"
  "authorities (put_evidence e (add_report r db)) = authorities db" "governance_decisions (put_evidence e (add_report r db)) = governance_decisions db"
  "rollback_candidates (put_evidence e (add_report r db)) = rollback_candidates db"
  by (simp_all add: put_evidence_def add_report_def)

lemma keys_after_put:
  assumes "keys_linked (map ce_key es)" and "e \<in> set es" and "ce_key e' = ce_key e"
  shows "map ce_key (update_where (\<lambda>q. ce_id q = ce_id e') (\<lambda>_. e') es) = map ce_key es"
  using keys_id_inj [OF assms(1) _ assms(2)] assms(3) by (auto simp: update_where_def ce_key_def)

lemma linked_pair:
  assumes "keys_linked ks" and "(i, t, f, c, s, d) \<in> set ks" and "(i', t', f', c', s', d') \<in> set ks"
  shows "(c = c') = (f = f') \<and> (s = s' \<longrightarrow> t = t')"
  using bspec [OF conjunct1 [OF conjunct2 [OF assms(1) [unfolded keys_linked_def]]] assms(2)] assms(3) by fastforce

lemma keys_linkedI:
  assumes "distinct (map ce_id es)"
    and pair: "\<And>a b. a \<in> set es \<Longrightarrow> b \<in> set es \<Longrightarrow>
      (ce_cluster a = ce_cluster b) = (ce_fingerprint a = ce_fingerprint b) \<and> (ce_storage a = ce_storage b \<longrightarrow> ce_tenant a = ce_tenant b)"
    and dup: "\<And>a j. a \<in> set es \<Longrightarrow> ce_duplicate_of a = Some j \<Longrightarrow>
      j \<noteq> ce_id a \<and> (\<exists>q\<in>set es. ce_id q = j \<and> ce_tenant q = ce_tenant a \<and> ce_fingerprint q = ce_fingerprint a \<and> ce_cluster q = ce_cluster a)"
  shows "keys_linked (map ce_key es)"
  unfolding keys_linked_def
proof (intro conjI ballI)
  show "distinct (map fst (map ce_key es))" using assms(1) by (simp add: ce_key_def o_def)
  fix x assume "x \<in> set (map ce_key es)"
  then obtain a where a: "a \<in> set es" "x = ce_key a" by auto
  have "\<And>j. ce_duplicate_of a = Some j \<Longrightarrow> j \<noteq> ce_id a \<and> (\<exists>s d. (j, ce_tenant a, ce_fingerprint a, ce_cluster a, s, d) \<in> ce_key ` set es)"
    using dup [OF a(1)] by (force simp: ce_key_def)
  then show "case x of (i, t, f, c, s, d) \<Rightarrow> \<forall>j. d = Some j \<longrightarrow> j \<noteq> i \<and> (\<exists>s' d'. (j, t, f, c, s', d') \<in> set (map ce_key es))"
    by (simp add: a(2) ce_key_def [of a])
  have "\<forall>b\<in>set es. (ce_cluster a = ce_cluster b) = (ce_fingerprint a = ce_fingerprint b) \<and> (ce_storage a = ce_storage b \<longrightarrow> ce_tenant a = ce_tenant b)"
    using pair [OF a(1)] by blast
  then show "case x of (i, t, f, c, s, d) \<Rightarrow> \<forall>(i', t', f', c', s', d')\<in>set (map ce_key es). (c = c') = (f = f') \<and> (s = s' \<longrightarrow> t = t')"
    by (simp add: a(2) ce_key_def)
qed

lemma linked_dup:
  assumes "keys_linked ks" and "(i, t, f, c, s, Some j) \<in> set ks"
  shows "j \<noteq> i \<and> (\<exists>s' d'. (j, t, f, c, s', d') \<in> set ks)"
  using bspec [OF conjunct2 [OF conjunct2 [OF assms(1) [unfolded keys_linked_def]]] assms(2)] by simp

lemma keys_after_add:
  assumes ok: "keys_linked (map ce_key es)" and fresh: "ce_id e \<notin> ce_id ` set es" "k \<notin> ce_cluster ` set es"
    and storage: "\<And>q. q \<in> set es \<Longrightarrow> ce_storage q = ce_storage e \<Longrightarrow> ce_tenant q = ce_tenant e"
    and place: "(\<exists>q\<in>set es. ce_fingerprint q = ce_fingerprint e \<and> ce_cluster q = ce_cluster e \<and>
        (ce_duplicate_of e = None \<or> ce_duplicate_of e = Some (ce_id q) \<and> ce_tenant q = ce_tenant e)) \<or>
      (\<forall>q\<in>set es. ce_fingerprint q \<noteq> ce_fingerprint e) \<and> ce_cluster e = k \<and> ce_duplicate_of e = None"
  shows "keys_linked (map ce_key (es @ [e]))"
proof -
  have d: "distinct (map ce_id (es @ [e]))"
    using conjunct1 [OF ok [unfolded keys_linked_def]] fresh(1) by (simp add: ce_key_def o_def)
  have m: "(ce_id a, ce_tenant a, ce_fingerprint a, ce_cluster a, ce_storage a, ce_duplicate_of a) \<in> set (map ce_key es)" if "a \<in> set es" for a
    using imageI [OF that, of ce_key] by (simp only: ce_key_def set_map)
  have old: "(ce_cluster a = ce_cluster b) = (ce_fingerprint a = ce_fingerprint b) \<and> (ce_storage a = ce_storage b \<longrightarrow> ce_tenant a = ce_tenant b)"
    if "a \<in> set es" "b \<in> set es" for a b
    by (rule linked_pair [OF ok m [OF that(1)] m [OF that(2)]])
  have new: "(ce_cluster a = ce_cluster e) = (ce_fingerprint a = ce_fingerprint e)" if "a \<in> set es" for a
    using place
  proof
    assume "\<exists>q\<in>set es. ce_fingerprint q = ce_fingerprint e \<and> ce_cluster q = ce_cluster e \<and>
        (ce_duplicate_of e = None \<or> ce_duplicate_of e = Some (ce_id q) \<and> ce_tenant q = ce_tenant e)"
    then obtain q where "q \<in> set es" "ce_fingerprint q = ce_fingerprint e" "ce_cluster q = ce_cluster e" by blast
    then show ?thesis using old [OF that \<open>q \<in> set es\<close>] by simp
  next
    assume "(\<forall>q\<in>set es. ce_fingerprint q \<noteq> ce_fingerprint e) \<and> ce_cluster e = k \<and> ce_duplicate_of e = None"
    then show ?thesis using that fresh(2) by (metis imageI)
  qed
  have dup: "j \<noteq> ce_id a \<and> (\<exists>q\<in>set es. ce_id q = j \<and> ce_tenant q = ce_tenant a \<and> ce_fingerprint q = ce_fingerprint a \<and> ce_cluster q = ce_cluster a)"
    if "a \<in> set es \<or> a = e" "ce_duplicate_of a = Some j" for a j
    using that(1)
  proof
    assume "a \<in> set es"
    then have "(ce_id a, ce_tenant a, ce_fingerprint a, ce_cluster a, ce_storage a, Some j) \<in> set (map ce_key es)" using m that(2) by metis
    from linked_dup [OF ok this] show ?thesis by (auto simp: ce_key_def)
  next
    assume "a = e"
    then show ?thesis using place that(2) fresh(1) by (auto intro: rev_image_eqI)
  qed
  show ?thesis
  proof (rule keys_linkedI [OF d])
    fix a b assume "a \<in> set (es @ [e])" "b \<in> set (es @ [e])"
    then show "(ce_cluster a = ce_cluster b) = (ce_fingerprint a = ce_fingerprint b) \<and> (ce_storage a = ce_storage b \<longrightarrow> ce_tenant a = ce_tenant b)"
      using old [of a b] new [of a] new [of b] storage [of a] storage [of b] by (auto simp: eq_commute)
  next
    fix a j assume "a \<in> set (es @ [e])" "ce_duplicate_of a = Some j"
    then show "j \<noteq> ce_id a \<and> (\<exists>q\<in>set (es @ [e]). ce_id q = j \<and> ce_tenant q = ce_tenant a \<and> ce_fingerprint q = ce_fingerprint a \<and> ce_cluster q = ce_cluster a)"
      using dup [of a j] by auto
  qed
qed

lemma evidence_step_ok:
  assumes "evidence_step url_ok sha date_text isoformat db db'" and ok: "evidence_ok db"
  shows "evidence_ok db'"
proof -
  have linked: "keys_linked (map ce_key (evidence_submissions db))" and reports: "reports_linked (evidence_submissions db) (verification_reports db)"
    using ok by (simp_all add: evidence_ok_def)
  from assms(1) linked show ?thesis
  proof (induction rule: evidence_step_induct)
    case (evidence now i k u t payload pub eff e)
    note s = store_evidence_Inr [OF evidence(3) linked]
    have "keys_linked (map ce_key (evidence_submissions db @ [e]))"
      by (rule keys_after_add [OF linked _ evidence(2)]) (use s evidence(1) in auto)
    then show ?case using reports by (auto simp: evidence_ok_def reports_linked_def)
  next
    case (report e e' r)
    let ?es = "update_where (\<lambda>q. ce_id q = ce_id e') (\<lambda>_. e') (evidence_submissions db)"
    have k: "map ce_key ?es = map ce_key (evidence_submissions db)" by (rule keys_after_put [OF linked report(1,2)])
    have m: "map (\<lambda>e. (ce_id e, ce_tenant e)) es = map (\<lambda>(i, t, _). (i, t)) (map ce_key es)" for es by (simp add: ce_key_def)
    have "map (\<lambda>e. (ce_id e, ce_tenant e)) ?es = map (\<lambda>e. (ce_id e, ce_tenant e)) (evidence_submissions db)" by (simp only: m k)
    then have "set (map (\<lambda>e. (ce_id e, ce_tenant e)) ?es) = set (map (\<lambda>e. (ce_id e, ce_tenant e)) (evidence_submissions db))" by (rule arg_cong)
    then show ?case using reports linked report(1,5,6,8) k by (auto simp: evidence_ok_def reports_linked_def)
  qed (use ok in \<open>simp_all add: evidence_ok_def evidence_tables_def\<close>)
qed

lemma evidence_step_typed:
  assumes "evidence_step url_ok sha date_text isoformat db db'" and ok: "evidence_ok db" and typed: "evidence_db_typed db"
  shows "evidence_db_typed db'"
proof -
  have linked: "keys_linked (map ce_key (evidence_submissions db))" using ok by (simp add: evidence_ok_def)
  from assms(1) linked show ?thesis
  proof (induction rule: evidence_step_induct)
    case (evidence now i k u t payload pub eff e)
    then show ?case using store_evidence_Inr(4) [OF evidence(3) linked] typed by (auto simp: evidence_db_typed_def)
  next
    case (report e e' r)
    then show ?case using typed by (auto simp: evidence_db_typed_def set_update_where)
  next
    case (decision now i u t r d reason g)
    then show ?case using store_decision_Inr [OF decision(2)] typed by (auto simp: evidence_db_typed_def)
  qed (use typed in \<open>auto simp: evidence_db_typed_def evidence_tables_def\<close>)
qed

text \<open>
  What the services leave to trusted workers: the outcome of the malware scan and of the content
  verification of an evidence row. A worker may set both to anything at any time between the
  services; \<open>passed\<close> are the rows it found clean and verified.
\<close>

definition set_scan :: "uuid \<Rightarrow> string \<Rightarrow> string \<Rightarrow> 'a evidence_db_scheme \<Rightarrow> 'a evidence_db_scheme" where
  "set_scan i malware content db = db\<lparr>evidence_submissions :=
     update_where (\<lambda>e. ce_id e = i) (\<lambda>e. e\<lparr>ce_malware := malware, ce_content_status := content\<rparr>) (evidence_submissions db)\<rparr>"

inductive scanned_step ::
  "(string \<Rightarrow> bool) \<Rightarrow> (string \<Rightarrow> string) \<Rightarrow> (date \<Rightarrow> string) \<Rightarrow> (time \<Rightarrow> string) \<Rightarrow> uuid set \<Rightarrow> 'a evidence_db_scheme \<Rightarrow> 'a evidence_db_scheme \<Rightarrow> bool"
  for url_ok sha date_text isoformat passed where
  serves: "evidence_step url_ok sha date_text isoformat db db' \<Longrightarrow> scanned_step url_ok sha date_text isoformat passed db db'"
| scans: "(malware = ''clean'' \<and> content = ''passed'' \<Longrightarrow> i \<in> passed) \<Longrightarrow>
    scanned_step url_ok sha date_text isoformat passed db (set_scan i malware content db)"

definition approval_backed :: "uuid set \<Rightarrow> verification_report list \<Rightarrow> governance_decision \<Rightarrow> bool" where
  "approval_backed passed reports d \<longleftrightarrow> gd_decision d = ''approved_for_publication'' \<longrightarrow> gd_reviewed_by d \<noteq> None \<and>
     (\<exists>r\<in>set reports. vr_id r = gd_report d \<and> vr_tenant r = gd_tenant d \<and>
        vr_review_status r \<in> set APPROVAL_REPORT_STATUSES \<and> vr_evidence r \<in> passed)"

definition approvals_backed :: "uuid set \<Rightarrow> 'a evidence_db_scheme \<Rightarrow> bool" where
  "approvals_backed passed db \<longleftrightarrow>
     (\<forall>e\<in>set (evidence_submissions db). ce_malware e = ''clean'' \<and> ce_content_status e = ''passed'' \<longrightarrow> ce_id e \<in> passed) \<and>
     (\<forall>d\<in>set (governance_decisions db). approval_backed passed (verification_reports db) d)"

lemma approval_backed_mono: "approval_backed passed rs d \<Longrightarrow> approval_backed passed (rs @ qs) d"
  by (auto simp: approval_backed_def)

lemma evidence_step_backed:
  assumes "evidence_step url_ok sha date_text isoformat db db'" and ok: "evidence_ok db" and backed: "approvals_backed passed db"
  shows "approvals_backed passed db'"
proof -
  have linked: "keys_linked (map ce_key (evidence_submissions db))" using ok by (simp add: evidence_ok_def)
  from assms(1) linked show ?thesis
  proof (induction rule: evidence_step_induct)
    case (evidence now i k u t payload pub eff e)
    then show ?case using store_evidence_Inr(3) [OF evidence(3) linked] backed by (auto simp: approvals_backed_def unscanned_def)
  next
    case (report e e' r)
    have "ce_id e' = ce_id e" using report(2) by (simp add: ce_key_def)
    then show ?case using backed report(1,4) by (auto simp: approvals_backed_def set_update_where intro: approval_backed_mono)
  next
    case (decision now i u t r d reason g)
    have "vr_evidence r \<in> passed" if "evidence_row db (vr_evidence r) = Some e" "ce_malware e = ''clean''" "ce_content_status e = ''passed''" for e
      using backed that by (auto simp: approvals_backed_def evidence_row_def dest!: first_where_SomeD)
    then have "approval_backed passed (verification_reports db) g"
      using store_decision_Inr [OF decision(2)] decision(1) by (auto simp: approval_backed_def)
    then show ?case using backed by (auto simp: approvals_backed_def)
  qed (use backed in \<open>auto simp: approvals_backed_def evidence_tables_def\<close>)
qed

lemma set_scan_keys: "map ce_key (evidence_submissions (set_scan i m c db)) = map ce_key (evidence_submissions db)"
  by (simp add: set_scan_def map_update_where ce_key_def)

lemma scanned_step_ok:
  assumes "scanned_step url_ok sha date_text isoformat passed db db'" and "evidence_ok db" and "approvals_backed passed db"
  shows "evidence_ok db' \<and> approvals_backed passed db'"
  using assms(1)
proof cases
  case serves
  then show ?thesis using assms(2,3) evidence_step_ok evidence_step_backed by blast
next
  case (scans m c i)
  have "map (\<lambda>e. (ce_id e, ce_tenant e)) (evidence_submissions db') = map (\<lambda>e. (ce_id e, ce_tenant e)) (evidence_submissions db)"
    by (simp add: scans(1) set_scan_def map_update_where)
  then have "set (map (\<lambda>e. (ce_id e, ce_tenant e)) (evidence_submissions db')) = set (map (\<lambda>e. (ce_id e, ce_tenant e)) (evidence_submissions db))"
    by (rule arg_cong)
  moreover have "verification_reports db' = verification_reports db" by (simp add: scans(1) set_scan_def)
  ultimately have "evidence_ok db'" using assms(2) set_scan_keys [of i m c db] by (simp add: evidence_ok_def reports_linked_def scans(1))
  moreover have "approvals_backed passed db'"
    using assms(3) scans(2) by (auto simp: approvals_backed_def scans(1) set_scan_def set_update_where)
  ultimately show ?thesis by blast
qed

text \<open>C30: Stored curriculum evidence has the shape its types promise: whatever registrations, submissions, verifications,
  decisions, plans and rollback candidates ran, authorities are allow-listed with allow-listed domains,
  evidence has an allowed type, status, size, content type, checksum, private storage reference and a
  source URL of an approved host, a report's score lies in 0..100 with the level, action and status of one
  outcome, and decisions and candidates have a known status.\<close>

theorem evidence_rows_typed:
  assumes "(evidence_step url_ok sha date_text isoformat)\<^sup>*\<^sup>* db0 db" and "evidence_ok db0" and "evidence_db_typed db0"
  shows "evidence_db_typed db"
proof -
  from assms have "evidence_ok db \<and> evidence_db_typed db"
    by (induction rule: rtranclp_induct) (auto intro: evidence_step_ok evidence_step_typed)
  then show ?thesis by blast
qed

text \<open>C31: Evidence rows stay linked in every reachable state: ids are unique, two rows share a duplicate cluster exactly when they share
  a fingerprint, a storage reference belongs to one tenant, a duplicate points at another row of its own
  tenant and cluster, and each report belongs to evidence of its tenant, at most one to each.\<close>

theorem evidence_links_kept:
  assumes "(evidence_step url_ok sha date_text isoformat)\<^sup>*\<^sup>* db0 db" and "evidence_ok db0"
  shows "evidence_ok db"
  using assms by (induction rule: rtranclp_induct) (auto intro: evidence_step_ok)

text \<open>C32: An approval for publication always rests on a passed scan. Let the services run in any order on
  stored rows, with fresh ids, and between them trusted workers set the scan outcomes of evidence: then
  every decision that approves a publication has a reviewer and belongs to a stored report of its school
  that is complete or escalated and whose evidence the workers had found clean and verified. So the
  services alone, without a worker, approve nothing, and no payload of a client passes for a scan.\<close>

theorem approvals_rest_on_scans:
  assumes "(scanned_step url_ok sha date_text isoformat passed)\<^sup>*\<^sup>* db0 db" and "evidence_ok db0" and "approvals_backed passed db0"
    and "d \<in> set (governance_decisions db)" and "gd_decision d = ''approved_for_publication''"
  shows "gd_reviewed_by d \<noteq> None \<and> (\<exists>r\<in>set (verification_reports db). vr_id r = gd_report d \<and> vr_tenant r = gd_tenant d \<and>
    vr_review_status r \<in> {''complete'', ''escalated''} \<and> vr_evidence r \<in> passed)"
proof -
  from assms(1-3) have "evidence_ok db \<and> approvals_backed passed db"
    by (induction rule: rtranclp_induct) (auto dest: scanned_step_ok)
  then show ?thesis using assms(4,5) by (auto simp: approvals_backed_def approval_backed_def APPROVAL_REPORT_STATUSES_def)
qed

section \<open>Impact plans and reports\<close>

lemma list_all2_member: "list_all2 P xs ys \<Longrightarrow> x \<in> set xs \<Longrightarrow> \<exists>y\<in>set ys. P x y"
  by (induction rule: list_all2_induct) auto

text \<open>The domains a call plans for.\<close>

definition planned_domains :: "string list \<Rightarrow> string list" where
  "planned_domains domains = (if domains = [] then APP_DOMAINS else domains)"

lemma planned_rows:
  assumes "plan_curriculum_app_impacts ids u t r domains db = (Inr plans, db')"
  shows "impact_plans db' = impact_plans db @ plans" and "db'\<lparr>impact_plans := impact_plans db\<rparr> = db"
    and "d \<in> set (planned_domains domains) \<Longrightarrow> \<exists>p\<in>set plans. ip_tenant p = sc_id t \<and> ip_app_domain p = strip (strip d) \<and>
      ip_affected_scope p = JObj (vr_scope r) \<and> ip_status p = ''planned''"
    and "p \<in> set plans \<Longrightarrow> ip_tenant p = sc_id t \<and> (\<exists>d\<in>set (planned_domains domains). ip_app_domain p = strip (strip d))"
proof -
  let ?ps = "numbered (plan_app_impacts (vr_scope r) domains)"
  have loop: "aeach (save_impact_plan ids t r) ?ps db = (Inr plans, db')"
    using assms(1) by (auto simp: plan_curriculum_app_impacts_def atomic_eq_Inr abind_eq_Inr alift_eq_Inr split: if_split_asm)
  have clean: "impact_plan_full_clean db p = Inr p' \<Longrightarrow> p' = p\<lparr>ip_app_domain := strip (ip_app_domain p), ip_impact_type := strip (ip_impact_type p)\<rparr>"
    for db :: "'a evidence_db_scheme" and p p'
    by (auto simp: impact_plan_full_clean_def ebind_eq_Inr split: if_split_asm dest!: optional_text_Inr)
  have saved: "u' = add_impact_plan y v \<and> ip_tenant y = sc_id t \<and> ip_app_domain y = strip (strip (px_app_domain (snd x))) \<and>
      ip_affected_scope y = JObj (px_affected_scope (snd x)) \<and> ip_status y = px_status (snd x)"
    if "save_impact_plan ids t r x v = (Inr y, u')" for x y u' and v :: "'a evidence_db_scheme"
    using that by (cases x) (auto simp: save_impact_plan_def elim!: save_cleanE dest!: clean)
  show "impact_plans db' = impact_plans db @ plans"
    by (rule aeach_appends [OF loop, where g = "\<lambda>p. p" and T = impact_plans, simplified]) (drule saved, simp add: add_impact_plan_def)
  have "v'\<lparr>impact_plans := impact_plans v\<rparr> = v" if "aeach (save_impact_plan ids t r) xs v = (Inr ys, v')" for xs ys v' and v :: "'a evidence_db_scheme"
    using that
  proof (induction xs arbitrary: v ys)
    case (Cons x xs)
    then obtain y w zs where y: "save_impact_plan ids t r x v = (Inr y, w)" and zs: "aeach (save_impact_plan ids t r) xs w = (Inr zs, v')"
      by (auto simp: abind_eq_Inr)
    have "v'\<lparr>impact_plans := impact_plans v\<rparr> = (v'\<lparr>impact_plans := impact_plans w\<rparr>)\<lparr>impact_plans := impact_plans v\<rparr>" by simp
    also have "\<dots> = w\<lparr>impact_plans := impact_plans v\<rparr>" by (simp only: Cons.IH [OF zs])
    also have "\<dots> = v" using saved [OF y] by (simp add: add_impact_plan_def)
    finally show ?case .
  qed (simp add: alift_eq_Inr)
  from this [OF loop] show "db'\<lparr>impact_plans := impact_plans db\<rparr> = db" .
  have doms: "px_app_domain ` set (plan_app_impacts (vr_scope r) domains) = set (planned_domains domains)"
    by (force simp: plan_app_impacts_def planned_domains_def)
  show "ip_tenant p = sc_id t \<and> (\<exists>d\<in>set (planned_domains domains). ip_app_domain p = strip (strip d))" if p: "p \<in> set plans"
  proof -
    have "list_all2 (\<lambda>y x. \<exists>u u'. save_impact_plan ids t r x (u :: 'a evidence_db_scheme) = (Inr y, u')) plans ?ps"
      using aeach_results [OF loop] by (simp add: list_all2_conv_all_nth)
    from list_all2_member [OF this p] obtain x v v' where x: "x \<in> set ?ps"
      "save_impact_plan ids t r x (v :: 'a evidence_db_scheme) = (Inr p, v')" by blast
    have "snd x \<in> set (plan_app_impacts (vr_scope r) domains)" using x(1) by (metis image_eqI list.set_map numbered_snd)
    then have "px_app_domain (snd x) \<in> set (planned_domains domains)" using doms by blast
    then show ?thesis using saved [OF x(2)] by blast
  qed
  assume d: "d \<in> set (planned_domains domains)"
  let ?p = "\<lparr>px_app_domain = d, px_impact_type = ''review_required'', px_affected_scope = vr_scope r, px_required_action = ''review_before_activation'',
      px_safe_behavior = fst (impact_texts d), px_history = snd (impact_texts d), px_status = ''planned''\<rparr>"
  have "?p \<in> set (map snd ?ps)" using d unfolding numbered_snd plan_app_impacts_def set_map planned_domains_def by (rule imageI)
  then obtain x where x: "x \<in> set ?ps" "snd x = ?p" by auto
  then obtain y v' and v :: "'a evidence_db_scheme" where y: "y \<in> set plans" "save_impact_plan ids t r x v = (Inr y, v')"
    using list_all2_member [OF aeach_results [OF loop] x(1)] by blast
  show "\<exists>p\<in>set plans. ip_tenant p = sc_id t \<and> ip_app_domain p = strip (strip d) \<and> ip_affected_scope p = JObj (vr_scope r) \<and> ip_status p = ''planned''"
    using saved [OF y(2)] y(1) x(2) by (intro bexI [of _ y]) simp_all
qed

lemma impact_blocks:
  assumes p: "p \<in> set (impact_plans db)" "ip_tenant p = sc_id t" "ip_app_domain p \<in> set READINESS_CCT_APP_DOMAINS" "ip_status p = ''planned''"
    and scope: "impact_scope_applies_to_assessment db t a (ip_affected_scope p) = Inr True"
  shows "\<not> curriculum_clear db t a"
proof
  assume "curriculum_clear db t a"
  then have c: "get_cct_blockers_for_assessment db t a = Inr \<lparr>ct_has_adoption = True, ct_withdrawn = False, ct_rollback_count = 0, ct_impact_count = 0\<rparr>"
    by (simp add: curriculum_clear_def)
  let ?P = "\<lambda>p. ip_tenant p = sc_id t \<and> ip_app_domain p \<in> set READINESS_CCT_APP_DOMAINS \<and> ip_status p \<in> {''planned'', ''review_required''}"
  obtain applies where e: "emap (\<lambda>p. impact_scope_applies_to_assessment db t a (ip_affected_scope p)) (filter ?P (impact_plans db)) = Inr applies"
    and none: "filter id applies = []"
    using c by (auto simp: get_cct_blockers_for_assessment_def ebind_eq_Inr split: option.split_asm)
  have "p \<in> set (filter ?P (impact_plans db))" using p by simp
  then obtain b where "b \<in> set applies" "impact_scope_applies_to_assessment db t a (ip_affected_scope p) = Inr b"
    using list_all2_member [OF e [unfolded emap_all2]] by blast
  then show False using scope none by (auto simp: filter_empty_conv)
qed

lemma ignored_plans:
  assumes "\<forall>p\<in>set plans. ip_tenant p \<noteq> sc_id t \<or> ip_app_domain p \<notin> set READINESS_CCT_APP_DOMAINS"
  shows "build_assessment_readiness (db\<lparr>impact_plans := impact_plans db @ plans\<rparr>) t a = build_assessment_readiness db t a"
proof (rule readiness_of_blockers)
  have none: "filter (\<lambda>p. ip_tenant p = sc_id t \<and> ip_app_domain p \<in> set READINESS_CCT_APP_DOMAINS
      \<and> ip_status p \<in> {''planned'', ''review_required''}) plans = []"
    using assms by (auto simp: filter_empty_conv)
  have sc: "impact_scope_applies_to_assessment (db\<lparr>impact_plans := ps\<rparr>) t a s = impact_scope_applies_to_assessment db t a s" for ps s
    by (rule scope_of_tables) simp_all
  show "get_cct_blockers_for_assessment (db\<lparr>impact_plans := impact_plans db @ plans\<rparr>) t a = get_cct_blockers_for_assessment db t a"
    unfolding get_cct_blockers_for_assessment_def sc by (cases "as_version a") (simp_all add: none del: insert_iff)
qed simp_all

text \<open>C33: Planning the impact of a curriculum report stops reporting exactly in the domains that matter to it. If one
  of the domains the plans are stored for is, without the blanks around it, a domain readiness looks at,
  then no assessment of the school that the scope of the report applies to may be reported any more. If
  none of them is, the readiness of every assessment is what it was; and for other schools it always is.\<close>

theorem planned_impacts_block_reports:
  assumes "plan_curriculum_app_impacts ids u t r domains db = (Inr plans, db')"
  shows "((\<exists>d\<in>set (planned_domains domains). strip (strip d) \<in> set READINESS_CCT_APP_DOMAINS) \<and>
      impact_scope_applies_to_assessment db t a (JObj (vr_scope r)) = Inr True \<longrightarrow>
        \<not> (\<exists>rd. build_assessment_readiness db' t a = Inr rd \<and> rd_report_ready rd)) \<and>
    ((\<forall>d\<in>set (planned_domains domains). strip (strip d) \<notin> set READINESS_CCT_APP_DOMAINS) \<or> sc_id t' \<noteq> sc_id t \<longrightarrow>
        build_assessment_readiness db' t' b = build_assessment_readiness db t' b)"
proof (intro conjI impI)
  note rows = planned_rows [OF assms]
  have db': "db' = db\<lparr>impact_plans := impact_plans db @ plans\<rparr>" unfolding rows(1) [symmetric] by (subst rows(2) [symmetric]) simp
  {
    assume "(\<exists>d\<in>set (planned_domains domains). strip (strip d) \<in> set READINESS_CCT_APP_DOMAINS) \<and>
      impact_scope_applies_to_assessment db t a (JObj (vr_scope r)) = Inr True"
    then obtain d where d: "d \<in> set (planned_domains domains)" "strip (strip d) \<in> set READINESS_CCT_APP_DOMAINS"
      and sc: "impact_scope_applies_to_assessment db t a (JObj (vr_scope r)) = Inr True" by blast
    have "impact_scope_applies_to_assessment db' t a s = impact_scope_applies_to_assessment db t a s" for s
      unfolding db' by (rule scope_of_tables) simp_all
    moreover obtain p where p: "p \<in> set (impact_plans db')" "ip_tenant p = sc_id t" "ip_app_domain p = strip (strip d)"
        "ip_affected_scope p = JObj (vr_scope r)" "ip_status p = ''planned''" using rows(1) rows(3) [OF d(1)] by auto
    ultimately have "\<not> curriculum_clear db' t a" using impact_blocks [OF p(1,2) _ p(5)] d(2) sc by simp
    then show "\<not> (\<exists>rd. build_assessment_readiness db' t a = Inr rd \<and> rd_report_ready rd)" unfolding ready_iff by blast
  }
  assume other: "(\<forall>d\<in>set (planned_domains domains). strip (strip d) \<notin> set READINESS_CCT_APP_DOMAINS) \<or> sc_id t' \<noteq> sc_id t"
  show "build_assessment_readiness db' t' b = build_assessment_readiness db t' b"
    unfolding db'
  proof (rule ignored_plans, rule ballI)
    fix p assume "p \<in> set plans"
    from rows(4) [OF this] other show "ip_tenant p \<noteq> sc_id t' \<or> ip_app_domain p \<notin> set READINESS_CCT_APP_DOMAINS" by auto
  qed
qed

section \<open>Texts the guard accepts\<close>

lemma search_place: "search_from r l s \<Longrightarrow> \<exists>l' u v. s = u @ v \<and> ends r (l', v) \<noteq> []"
proof (induction s arbitrary: l)
  case (Cons c s)
  show ?case
  proof (cases "ends r (l, c # s) = []")
    case True
    then have "search_from r (c # l) s" using Cons.prems by simp
    then obtain l' u v where "s = u @ v" "ends r (l', v) \<noteq> []" using Cons.IH by blast
    then show ?thesis by (intro exI [of _ l'] exI [of _ "c # u"] exI [of _ v]) simp
  qed blast
qed auto

lemma LitI_starts: "q \<in> set (ends (LitI w) (l, v)) \<Longrightarrow> startswith (lower v) w"
proof (induction w arbitrary: l v)
  case (Cons c w)
  have "ends (LitI (c # w)) (l, v) = concat (map (ends (LitI w)) (ends (Cls (\<lambda>d. lower_char d = c)) (l, v)))"
    by (cases w) (auto simp: LitI_def split: list.split)
  then obtain d v' where v: "v = d # v'" "lower_char d = c" "q \<in> set (ends (LitI w) (d # l, v'))"
    using Cons.prems by (auto split: list.split_asm if_split_asm)
  from Cons.IH [OF this(3)] show ?case by (simp add: v startswith_def lower_def)
qed (simp add: startswith_def)

lemma search_starts:
  assumes "search r s" and "\<And>l v q. q \<in> set (ends r (l, v)) \<Longrightarrow> startswith (lower v) w"
  shows "contains w (lower s)"
proof -
  obtain l u v where s: "s = u @ v" "ends r (l, v) \<noteq> []" using search_place assms(1) unfolding search_def by blast
  then have "startswith (lower v) w" using assms(2) last_in_set by blast
  then obtain b where "lower v = w @ b" unfolding startswith_def by (metis append_take_drop_id)
  then show ?thesis by (simp add: contains_iff s lower_def) blast
qed

lemma bounded_search:
  assumes "search (seqs (WordBoundary # b # rs)) s" and "\<And>l v q. q \<in> set (ends b (l, v)) \<Longrightarrow> startswith (lower v) w"
  shows "contains w (lower s)"
proof (rule search_starts [OF assms(1)])
  fix l v q assume "q \<in> set (ends (seqs (WordBoundary # b # rs)) (l, v))"
  then have "ends b (l, v) \<noteq> []" by (cases rs) (auto split: if_split_asm)
  then have "\<exists>q'. q' \<in> set (ends b (l, v))" by (meson last_in_set)
  then show "startswith (lower v) w" using assms(2) by blast
qed

lemma governance_text_plain:
  assumes "strip s \<noteq> []" and "\<not> contains ''adm'' (lower s)" "\<not> contains ''guardian'' (lower s)" "\<not> contains ''pupil'' (lower s)"
    "\<not> contains ''learner'' (lower s)" and "\<forall>c\<in>set s. c \<notin> {CHR ''<'', CHR ''='', CHR '':''}"
  shows "validate_governance_text s = Inr ()"
proof -
  have "startswith v (a @ b) \<Longrightarrow> startswith v a" for v a b
    unfolding startswith_def by (metis append_assoc append_eq_conv_conj append_take_drop_id)
  from this [of _ "''adm''" "''ission''"] have "startswith v ''admission'' \<Longrightarrow> startswith v ''adm''" for v by simp
  then have "startswith (lower v) ''adm''" if "q \<in> set (ends (alts [LitI ''admission'', LitI ''adm'']) (l, v))" for l v q
    using that LitI_starts [of q "''admission''" l v] LitI_starts [of q "''adm''" l v] by auto
  then have a: "\<not> search (seqs (WordBoundary # alts [LitI ''admission'', LitI ''adm''] # rs)) s" for rs
    using bounded_search [of "alts [LitI ''admission'', LitI ''adm'']" rs s "''adm''"] assms(2) by blast
  have l: "\<not> search (seqs (WordBoundary # LitI w # rs)) s" if "\<not> contains w (lower s)" for w rs
    using bounded_search [of "LitI w" rs s w] LitI_starts that by blast
  have pii: "\<not> search r s" if "r \<in> set PII_PATTERNS" for r
    using that a l [OF assms(3)] l [OF assms(4)] l [OF assms(5)] unfolding PII_PATTERNS_def two_names_def list.set by blast
  have m: "must_consume (\<lambda>c. c \<in> {CHR ''<'', CHR ''='', CHR '':''}) r" if "r \<in> set HTML_INJECTION_PATTERNS" for r
    using that by (auto simp: HTML_INJECTION_PATTERNS_def LitI_def Lit_def)
  have "\<not> search r s" if "r \<in> set HTML_INJECTION_PATTERNS" for r
    by (rule search_must [OF m [OF that]]) (rule assms(6))
  with pii show ?thesis using assms(1) unfolding validate_governance_text_def by auto
qed

section \<open>Instances\<close>

definition kicd :: authority where
  "kicd = \<lparr>au_id = ''a1'', au_code = ''kicd'', au_name = ''KICD'', au_website = ''https://kicd.ac.ke/'', au_domains = [JStr ''kicd.ac.ke''],
     au_is_active = True, au_is_approved = True\<rparr>"

definition first_evidence :: evidence where
  "first_evidence = \<lparr>ce_id = ''e1'', ce_tenant = ''s1'', ce_submitted_by = Some ''u9'', ce_role = ''school_admin'', ce_type = ''withdrawal'',
     ce_status = ''quarantined'', ce_backend = ''private_internal'', ce_storage = ''private://a'', ce_file_name = ''a'', ce_content_type = ''text/plain'',
     ce_size = 1, ce_checksum = ''sha256:'' @ replicate 64 CHR ''0'', ce_malware = ''pending'', ce_content_status = ''pending'',
     ce_fingerprint = ''f'', ce_cluster = ''k1'', ce_duplicate_of = None, ce_authority = ''kicd'', ce_source_reference = [],
     ce_source_url = [], ce_reference_number = [], ce_publication_number = [], ce_publication_date = None,
     ce_effective_date = None, ce_scope = [], ce_created_at = 1\<rparr>"

definition second_evidence :: evidence where
  "second_evidence = first_evidence\<lparr>ce_id := ''e2'', ce_status := ''duplicate_attached'', ce_duplicate_of := Some ''e1'', ce_created_at := 2\<rparr>"

definition first_report :: verification_report where
  "first_report = \<lparr>vr_id = ''v1'', vr_tenant = ''s1'', vr_evidence = ''e1'', vr_candidate = ''k1'', vr_fingerprint = ''f'', vr_authority = ''kicd'',
     vr_source_reference = [], vr_reference_number = [], vr_publication_number = [],
     vr_signals = validate_document_signals [] [] None None False False False, vr_duplicate_count = 1, vr_official_match = ''matched'',
     vr_scope = [], vr_score = 61, vr_level = ''medium'', vr_action = ''await_official_confirmation'', vr_sla_due_at = 9,
     vr_review_status = ''awaiting_official_confirmation'', vr_created_by = Some ''u9'', vr_created_at = 3\<rparr>"

definition first_decision :: governance_decision where
  "first_decision = \<lparr>gd_id = ''g1'', gd_tenant = ''s1'', gd_report = ''v1'', gd_decision = ''requires_more_evidence'', gd_reason = ''Why'',
     gd_reviewed_by = Some ''u9'', gd_reviewed_at = Some 4, gd_created_at = 4\<rparr>"

definition sample_evidence :: evidence_db where
  "sample_evidence = readiness_db.extend sample_report
     (evidence_db.fields [kicd] [first_evidence, second_evidence] [first_report] [first_decision] [])"

lemma sample_evidence_tables:
  "authorities sample_evidence = [kicd]" "evidence_submissions sample_evidence = [first_evidence, second_evidence]"
  "verification_reports sample_evidence = [first_report]" "governance_decisions sample_evidence = [first_decision]"
  "rollback_candidates sample_evidence = []" "impact_plans sample_evidence = []"
  by (simp_all add: sample_evidence_def readiness_db.defs evidence_db.defs sample_report_tables)

lemma sample_evidence_ok: "evidence_ok sample_evidence" "evidence_db_typed sample_evidence"
proof -
  have "keys_linked (map ce_key [first_evidence, second_evidence])"
    by (rule keys_linkedI) (auto simp: first_evidence_def second_evidence_def)
  moreover have "reports_linked [first_evidence, second_evidence] [first_report]"
    by (simp add: reports_linked_def first_evidence_def first_report_def)
  ultimately show "evidence_ok sample_evidence" by (simp add: evidence_ok_def sample_evidence_tables)
  have "authority_typed kicd" by (simp add: authority_typed_def kicd_def stored_domains_def APPROVED_AUTHORITY_DOMAINS_def)
  moreover have p: "CHECKSUM_PATTERN (''sha256:'' @ replicate 64 CHR ''0'')" "PRIVATE_STORAGE_PATTERN ''private://a''" "\<not> contains ''..'' ''private://a''"
    by code_simp+
  then have "evidence_typed first_evidence" "evidence_typed second_evidence"
    by (simp_all add: evidence_typed_def first_evidence_def second_evidence_def evidence_types_def evidence_statuses_def MAX_ARTIFACT_BYTES_def
        ALLOWED_CONTENT_TYPES_def source_typed_def)
  moreover have "report_typed first_report" by (simp add: report_typed_def first_report_def official_source_matches_def)
  ultimately show "evidence_db_typed sample_evidence"
    by (simp add: evidence_db_typed_def sample_evidence_tables) (simp add: decision_typed_def first_decision_def)
qed

definition knec :: authority where
  "knec = \<lparr>au_id = ''a2'', au_code = ''knec'', au_name = ''Council'', au_website = ''https://knec.ac.ke/'', au_domains = [JStr ''knec.ac.ke''],
     au_is_active = True, au_is_approved = True\<rparr>"

lemma knec_registers:
  "register_curriculum_authority (\<lambda>_. True) ''a2'' ''KNEC'' ''Council'' ''https://knec.ac.ke/'' [JStr ''knec.ac.ke''] True True sample_evidence
     = (Inr knec, add_authority knec sample_evidence)"
proof -
  have "normalize_authority_code ''KNEC'' = Inr ''knec''" "normalize_authority_code ''knec'' = Inr ''knec''" "strip ''Council'' = ''Council''"
    "validate_authority_domains ''knec'' [JStr ''knec.ac.ke''] = Inr [''knec.ac.ke'']" "code_field ''knec''"
    "validate_source_url ''https://knec.ac.ke/'' [''knec.ac.ke''] = Inr ''https://knec.ac.ke/''" by code_simp+
  note parts = this
  have "authority_full_clean (\<lambda>_. True) sample_evidence knec = Inr knec"
    by (simp add: authority_full_clean_def knec_def parts char_field_def json_field_def sample_evidence_tables Let_def) (simp add: kicd_def)
  moreover have "\<lparr>au_id = ''a2'', au_code = ''knec'', au_name = ''Council'', au_website = ''https://knec.ac.ke/'', au_domains = [JStr ''knec.ac.ke''],
     au_is_active = True, au_is_approved = True\<rparr> = knec" by (simp add: knec_def)
  ultimately show ?thesis
    by (simp add: register_curriculum_authority_def atomic_def abind_def alift_def parts save_clean_def)
qed

lemma knec_step: "(evidence_step (\<lambda>_. True) (\<lambda>s. s) (\<lambda>d. []) (\<lambda>t. []))\<^sup>*\<^sup>* sample_evidence (add_authority knec sample_evidence)"
  using registers [of "\<lambda>_. True" "\<lambda>s. s" "\<lambda>d. []" "\<lambda>t. []" sample_evidence "''a2''" "''KNEC''" "''Council''" "''https://knec.ac.ke/''"
      "[JStr ''knec.ac.ke'']" True True] unfolding knec_registers by (simp add: r_into_rtranclp)

lemma evidence_rows_typed_witness:
  "evidence_db_typed (add_authority knec sample_evidence) \<and> knec \<in> set (authorities (add_authority knec sample_evidence))"
  using evidence_rows_typed [OF knec_step sample_evidence_ok(1,2)] by simp

lemma evidence_links_kept_witness:
  "evidence_ok (add_authority knec sample_evidence) \<and> ce_duplicate_of second_evidence = Some (ce_id first_evidence)"
  using evidence_links_kept [OF knec_step sample_evidence_ok(1)] by (simp add: second_evidence_def first_evidence_def)

lemma sample_evidence_people:
  "schools sample_evidence = schools sample_report" "users sample_evidence = users sample_report" "roles sample_evidence = roles sample_report"
  "role_bindings sample_evidence = role_bindings sample_report"
  by (simp_all only: sample_evidence_def readiness_db.extend_def identity_db.select_convs)

lemma evidence_admin: "require_school_curriculum_manager sample_evidence (Some report_admin) (Some sample_school) = Inr report_admin"
  by (simp add: require_school_curriculum_manager_def require_active_reviewer_def user_has_role_in_tenant_def
      get_roles_for_user_in_tenant_def get_active_tenant_user_role_bindings_def role_row_is_def user_active_def school_active_def first_where_def
      sample_evidence_people sample_report_simps sample_school_def report_admin_def)

text \<open>A complete report, whose evidence a worker passes before an administrator approves it.\<close>

definition complete_report :: verification_report where
  "complete_report = first_report\<lparr>vr_review_status := ''complete''\<rparr>"

definition scan_start :: evidence_db where
  "scan_start = sample_evidence\<lparr>verification_reports := [complete_report]\<rparr>"

definition scan_done :: evidence_db where "scan_done = set_scan ''e1'' ''clean'' ''passed'' scan_start"

definition approval :: governance_decision where
  "approval = \<lparr>gd_id = ''g2'', gd_tenant = ''s1'', gd_report = ''v1'', gd_decision = ''approved_for_publication'', gd_reason = [],
     gd_reviewed_by = Some ''u9'', gd_reviewed_at = Some 7, gd_created_at = 7\<rparr>"

lemma scan_tables:
  "verification_reports scan_done = [complete_report]" "governance_decisions scan_done = [first_decision]"
  "evidence_submissions scan_done = [first_evidence\<lparr>ce_malware := ''clean'', ce_content_status := ''passed''\<rparr>, second_evidence]"
  "schools scan_done = schools sample_report" "users scan_done = users sample_report" "roles scan_done = roles sample_report"
  "role_bindings scan_done = role_bindings sample_report"
  by (simp_all add: scan_done_def set_scan_def scan_start_def update_where_def sample_evidence_tables sample_evidence_people)
    (simp_all add: first_evidence_def second_evidence_def)

lemma approval_stored:
  "store_decision 7 ''g2'' (Some report_admin) sample_school complete_report ''approved_for_publication'' [] scan_done
     = (Inr approval, add_decision approval scan_done)"
proof -
  have a: "require_governance_approver scan_done (Some report_admin) (Some sample_school) = Inr ()"
    by (simp add: require_governance_approver_def require_active_reviewer_def user_has_role_in_tenant_def
      get_roles_for_user_in_tenant_def get_active_tenant_user_role_bindings_def role_row_is_def user_active_def school_active_def first_where_def
      scan_tables sample_report_simps sample_school_def report_admin_def)
  have v: "validate_governance_decision ''approved_for_publication'' ''complete'' [] = Inr ''approved_for_publication''" by code_simp
  have t: "optional_governance_text [] = Inr []" by code_simp
  have "evidence_row scan_done ''e1'' = Some (first_evidence\<lparr>ce_malware := ''clean'', ce_content_status := ''passed''\<rparr>)"
    by (simp add: evidence_row_def first_where_def scan_tables) (simp add: first_evidence_def)
  then have e: "evidence_row scan_done ''e1'' = Some x \<Longrightarrow> require_evidence_ready_for_approval x = Inr ()" "evidence_row scan_done ''e1'' \<noteq> None" for x
    by (auto simp: require_evidence_ready_for_approval_def)
  have "new_decision 7 ''g2'' (Some report_admin) sample_school complete_report ''approved_for_publication'' [] scan_done = Inr approval"
    using a v e by (simp add: new_decision_def)
      (use e in \<open>auto simp: complete_report_def first_report_def approval_def sample_school_def report_admin_def split: option.split\<close>)
  moreover have "decision_full_clean scan_done approval = Inr approval"
    by (simp add: decision_full_clean_def approval_def t school_exists_def report_row_def user_exists_def user_active_def opt_fk_def first_where_def
        scan_tables sample_report_simps)
      (simp add: complete_report_def first_report_def sample_corrections_def sample_grading_simps)
  ultimately show ?thesis by (simp add: store_decision_def atomic_def abind_def query_def save_clean_def)
qed

lemma approvals_rest_on_scans_witness:
  "approval \<in> set (governance_decisions (snd (record_governance_decision (\<lambda>_. []) 7 ''g2'' ''x1'' (Some report_admin) sample_school
     complete_report ''approved_for_publication'' [] scan_done))) \<and>
   (\<exists>r\<in>set (verification_reports (snd (record_governance_decision (\<lambda>_. []) 7 ''g2'' ''x1'' (Some report_admin) sample_school
     complete_report ''approved_for_publication'' [] scan_done))). vr_id r = gd_report approval \<and> vr_evidence r \<in> {''e1''})"
proof -
  let ?db = "snd (record_governance_decision (\<lambda>_. []) 7 ''g2'' ''x1'' (Some report_admin) sample_school
     complete_report ''approved_for_publication'' [] scan_done)"
  have d: "approval \<in> set (governance_decisions ?db)"
    by (simp add: record_governance_decision_def record_after_commit_def approval_stored add_decision_def split: prod.split sum.split)
  have "scanned_step (\<lambda>_. True) id (\<lambda>_. []) (\<lambda>_. []) {''e1''} scan_start scan_done"
    unfolding scan_done_def by (rule scans) simp
  moreover have "scanned_step (\<lambda>_. True) id (\<lambda>_. []) (\<lambda>_. []) {''e1''} scan_done ?db"
    by (intro serves decides) (simp add: scan_tables)
  ultimately have run: "(scanned_step (\<lambda>_. True) id (\<lambda>_. []) (\<lambda>_. []) {''e1''})\<^sup>*\<^sup>* scan_start ?db" by (rule r_into_rtranclp [THEN rtranclp.rtrancl_into_rtrancl])
  have "evidence_ok scan_start"
    using sample_evidence_ok(1) by (simp add: evidence_ok_def scan_start_def reports_linked_def sample_evidence_tables complete_report_def)
  moreover have "approvals_backed {''e1''} scan_start"
    by (simp add: approvals_backed_def scan_start_def sample_evidence_tables first_evidence_def second_evidence_def approval_backed_def first_decision_def)
  moreover have "gd_decision approval = ''approved_for_publication''" by (simp add: approval_def)
  ultimately show ?thesis using approvals_rest_on_scans [OF run _ _ d] d by blast
qed

definition first_plan :: impact_plan where
  "first_plan = \<lparr>ip_id = ''i1'', ip_tenant = ''s1'', ip_report = ''v1'', ip_app_domain = ''grading'', ip_impact_type = ''review_required'',
     ip_affected_scope = JObj [], ip_required_action = ''review_before_activation'', ip_safe_behavior = fst (impact_texts ''grading''),
     ip_history = snd (impact_texts ''grading''), ip_status = ''planned''\<rparr>"

lemma first_plan_texts:
  "validate_governance_text t = Inr ()"
  if "t \<in> {''grading'', ''review_required'', ''review_before_activation'', fst (impact_texts ''grading''), snd (impact_texts ''grading'')}"
proof -
  have "\<forall>t\<in>{''grading'', ''review_required'', ''review_before_activation'', fst (impact_texts ''grading''), snd (impact_texts ''grading'')}.
    strip t \<noteq> [] \<and> \<not> contains ''adm'' (lower t) \<and> \<not> contains ''guardian'' (lower t) \<and> \<not> contains ''pupil'' (lower t) \<and>
    \<not> contains ''learner'' (lower t) \<and> (\<forall>c\<in>set t. c \<notin> {CHR ''<'', CHR ''='', CHR '':''})" by code_simp
  from bspec [OF this that] show ?thesis by (intro governance_text_plain) blast+
qed

lemma first_plan_stored:
  "plan_curriculum_app_impacts (\<lambda>k. ''i1'') (Some report_admin) sample_school first_report [''grading''] sample_evidence
     = (Inr [first_plan], add_impact_plan first_plan sample_evidence)"
proof -
  have s: "strip ''grading'' = ''grading''" "strip ''review_required'' = ''review_required''" by code_simp+
  have o: "optional_governance_text ''grading'' = Inr ''grading''" "optional_governance_text ''review_required'' = Inr ''review_required''"
    using first_plan_texts by (simp_all add: optional_governance_text_def s)
  have "school_exists sample_evidence ''s1''" "report_row sample_evidence ''v1'' = Some first_report"
    by (simp_all add: school_exists_def report_row_def first_where_def sample_evidence_people sample_evidence_tables sample_report_simps)
      (simp_all add: first_report_def sample_corrections_def sample_grading_simps)
  moreover have "fst (impact_texts ''grading'') \<noteq> []" "snd (impact_texts ''grading'') \<noteq> []" by (simp_all add: impact_texts_def)
  ultimately have "impact_plan_full_clean sample_evidence first_plan = Inr first_plan"
    using first_plan_texts by (simp add: impact_plan_full_clean_def first_plan_def o char_field_def json_field_def) (simp add: first_report_def)
  moreover have "plan_app_impacts (vr_scope first_report) [''grading''] = [\<lparr>px_app_domain = ''grading'', px_impact_type = ''review_required'',
      px_affected_scope = [], px_required_action = ''review_before_activation'', px_safe_behavior = fst (impact_texts ''grading''),
      px_history = snd (impact_texts ''grading''), px_status = ''planned''\<rparr>]" by (simp add: plan_app_impacts_def first_report_def)
  moreover have "vr_tenant first_report = sc_id sample_school" "sc_id sample_school = ''s1''" "vr_id first_report = ''v1''"
    by (simp_all add: first_report_def sample_school_def)
  ultimately show ?thesis
    by (simp add: plan_curriculum_app_impacts_def atomic_def abind_def alift_def query_def evidence_admin numbered_def save_impact_plan_def
        save_clean_def first_plan_def [symmetric])
qed

lemma planned_impacts_block_reports_witness:
  "snd (plan_curriculum_app_impacts (\<lambda>k. ''i1'') (Some report_admin) sample_school first_report [''grading''] sample_evidence)
     = add_impact_plan first_plan sample_evidence \<and>
   \<not> (\<exists>rd. build_assessment_readiness (add_impact_plan first_plan sample_evidence) sample_school report_assessment = Inr rd \<and> rd_report_ready rd) \<and>
   build_assessment_readiness (add_impact_plan first_plan sample_evidence) (sample_school\<lparr>sc_id := ''s2''\<rparr>) report_assessment
     = build_assessment_readiness sample_evidence (sample_school\<lparr>sc_id := ''s2''\<rparr>) report_assessment"
proof -
  have "impact_scope_applies_to_assessment sample_evidence sample_school report_assessment (JObj (vr_scope first_report)) = Inr True"
    by (simp add: impact_scope_applies_to_assessment_def first_report_def)
  moreover have "strip (strip ''grading'') \<in> set READINESS_CCT_APP_DOMAINS" by code_simp
  moreover have "sc_id (sample_school\<lparr>sc_id := ''s2''\<rparr>) \<noteq> sc_id sample_school" by (simp add: sample_school_def)
  ultimately show ?thesis
    using planned_impacts_block_reports [OF first_plan_stored, of report_assessment "sample_school\<lparr>sc_id := ''s2''\<rparr>" report_assessment]
      first_plan_stored
    by (simp add: planned_domains_def)
qed

end
