(* ===== verification/Catalogue.thy ===== *)
theory Catalogue
  imports Evidence
begin

text \<open>
  The sources of the curriculum and its structure (curriculum/models.py, curriculum/services.py): source
  documents and artifacts, versions, the tree of learning areas, strands, sub-strands and outcomes, and the
  rubrics at its leaves. The tables of theory CurriculumState hold the columns the grading application
  reads; the rows of this theory extend them by the other columns, and a saved row appears in both.
\<close>

section \<open>Rows\<close>

record source_document =
  dm_id :: uuid
  dm_authority :: "uuid option"
  dm_source_authority :: string
  dm_title :: string
  dm_document_code :: string
  dm_source_url :: string
  dm_version_label :: string
  dm_publication_date :: "date option"
  dm_effective_date :: "date option"
  dm_checksum :: string
  dm_is_active :: bool

record source_artifact =
  sa_id :: uuid
  sa_source_document :: uuid
  sa_file_name :: string
  sa_content_type :: string
  sa_file_size :: int
  sa_checksum_algorithm :: string
  sa_checksum :: string
  sa_capture_method :: string
  sa_quarantine_status :: string
  sa_scan_status :: string
  sa_captured_at :: time

text \<open>Stages, competencies, values and contemporary issues have the same columns.\<close>

record named_code =
  nc_id :: uuid
  nc_code :: string
  nc_name :: string
  nc_description :: string
  nc_is_active :: bool

type_synonym curriculum_stage = named_code
type_synonym core_competency = named_code
type_synonym curriculum_value = named_code
type_synonym contemporary_issue = named_code

record grade_mapping =
  gm_id :: uuid
  gm_grade_level :: uuid
  gm_stage :: uuid
  gm_version :: uuid
  gm_is_active :: bool

record area_detail = curriculum_learning_area +
  cl_official_name :: string
  cl_official_code :: string

record strand_detail = strand +
  sd_code :: string
  sd_title :: string
  sd_sequence_order :: int
  sd_is_active :: bool

record sub_strand_detail = sub_strand +
  su_code :: string
  su_title :: string
  su_sequence_order :: int
  su_time_allocation :: string
  su_is_active :: bool

record outcome_detail = outcome +
  lo_text :: string
  lo_sequence_order :: int
  lo_is_active :: bool

record rubric_detail = rubric +
  rf_descriptor :: string
  rf_sequence_order :: int

record learning_experience =
  le_id :: uuid
  le_sub_strand :: "uuid option"
  le_learning_outcome :: "uuid option"
  le_text :: string
  le_sequence_order :: int
  le_is_active :: bool

record inquiry_question =
  kq_id :: uuid
  kq_sub_strand :: uuid
  kq_question_text :: string
  kq_sequence_order :: int
  kq_is_active :: bool

text \<open>The links of an outcome to a competency, a value or a contemporary issue.\<close>

record outcome_link =
  ol_id :: uuid
  ol_learning_outcome :: uuid
  ol_target :: uuid
  ol_is_active :: bool

type_synonym competency_link = outcome_link
type_synonym value_link = outcome_link
type_synonym pci_link = outcome_link

record catalogue_db = evidence_db +
  documents :: "source_document list"
  artifacts :: "source_artifact list"
  stages :: "curriculum_stage list"
  competencies :: "core_competency list"
  curriculum_values :: "curriculum_value list"
  contemporary_issues :: "contemporary_issue list"
  grade_mappings :: "grade_mapping list"
  area_details :: "area_detail list"
  strand_details :: "strand_detail list"
  sub_strand_details :: "sub_strand_detail list"
  outcome_details :: "outcome_detail list"
  rubric_details :: "rubric_detail list"
  learning_experiences :: "learning_experience list"
  inquiry_questions :: "inquiry_question list"
  competency_links :: "competency_link list"
  value_links :: "value_link list"
  pci_links :: "pci_link list"

section \<open>Validation\<close>

definition normalize_code :: "string \<Rightarrow> string" where
  "normalize_code value = replace_char (CHR '' '') (CHR ''-'') (lower (strip value))"

definition require_text :: "string \<Rightarrow> string \<Rightarrow> unit result" where
  "require_text value field_name = (if strip value = [] then Inl (ValidationError field_name ''This field is required.'') else Inr ())"

definition already_exists :: "string \<Rightarrow> bool \<Rightarrow> 'r \<Rightarrow> 'r result" where
  "already_exists field clash r = (if clash then Inl (ValidationError field ''Already exists.'') else Inr r)"

definition blank_slug_field :: "string \<Rightarrow> bool" where
  "blank_slug_field s \<longleftrightarrow> s = [] \<or> slug_field 64 s"

definition normalized_blank_code :: "string \<Rightarrow> string" where
  "normalized_blank_code s = (if s = [] then [] else normalize_code s)"

definition authority_row :: "'a evidence_db_scheme \<Rightarrow> uuid \<Rightarrow> authority option" where
  "authority_row db i = first_where (\<lambda>a. au_id a = i) (authorities db)"

definition source_authorities :: "string list" where
  "source_authorities = [''kicd'', ''ministry_of_education'', ''project_official'']"

definition document_fields_ok :: "(string \<Rightarrow> bool) \<Rightarrow> 'a evidence_db_scheme \<Rightarrow> source_document \<Rightarrow> bool" where
  "document_fields_ok url_ok db d \<longleftrightarrow>
     opt_fk (\<lambda>i. authority_row db i \<noteq> None) (dm_authority d) \<and> slug_field 64 (dm_source_authority d) \<and> char_field 255 (dm_title d)
     \<and> char_field 128 (dm_document_code d) \<and> (dm_source_url d = [] \<or> length (dm_source_url d) \<le> 500 \<and> url_ok (dm_source_url d))
     \<and> char_field 128 (dm_version_label d) \<and> length (dm_checksum d) \<le> 128"

text \<open>The source: an authority in use with one of its URLs, or one of three names.\<close>

definition document_source :: "'a evidence_db_scheme \<Rightarrow> source_document \<Rightarrow> source_document result" where
  "document_source db d =
     (case Option.bind (dm_authority d) (authority_row db) of
        Some a \<Rightarrow>
          if \<not> (au_is_active a \<and> au_is_approved a) then Inl (ValidationError ''authority'' ''Authority is not approved for source use.'')
          else ebind (validate_source_url (dm_source_url d) (stored_domains a)) (\<lambda>url.
            Inr (d\<lparr>dm_source_authority := au_code a, dm_source_url := url\<rparr>))
      | None \<Rightarrow>
          if dm_source_authority d \<notin> set source_authorities
          then Inl (ValidationError ''source_authority'' ''Source authority is not approved.'') else Inr d)"

definition document_clean :: "'a evidence_db_scheme \<Rightarrow> source_document \<Rightarrow> source_document result" where
  "document_clean db d =
     ebind (echeck (\<lambda>(v, f). require_text v f) [(dm_source_authority d, ''source_authority''), (dm_title d, ''title''),
         (dm_document_code d, ''document_code''), (dm_version_label d, ''document_version_label'')]) (\<lambda>_.
       ebind (echeck validate_governance_text [dm_title d, dm_version_label d]) (\<lambda>_.
         document_source db (d\<lparr>dm_title := strip (dm_title d), dm_document_code := strip (dm_document_code d),
           dm_version_label := strip (dm_version_label d), dm_checksum := strip (dm_checksum d)\<rparr>)))"

definition document_full_clean :: "(string \<Rightarrow> bool) \<Rightarrow> 'a catalogue_db_scheme \<Rightarrow> source_document \<Rightarrow> source_document result" where
  "document_full_clean url_ok db d =
     (if \<not> document_fields_ok url_ok db d then Inl (field_error ''title'')
      else ebind (document_clean db d) (\<lambda>d.
        already_exists ''source_authority'' (\<exists>q\<in>set (documents db). dm_id q \<noteq> dm_id d \<and> dm_source_authority q = dm_source_authority d
          \<and> dm_document_code q = dm_document_code d \<and> dm_version_label q = dm_version_label d) d))"

definition capture_methods :: "string list" where
  "capture_methods = [''manual_upload'', ''approved_reference'']"

definition artifact_fields_ok :: "'a curriculum_db_scheme \<Rightarrow> source_artifact \<Rightarrow> bool" where
  "artifact_fields_ok db a \<longleftrightarrow>
     sa_source_document a \<in> set (source_documents db) \<and> char_field 255 (sa_file_name a) \<and> char_field 128 (sa_content_type a)
     \<and> positive_integer_field (sa_file_size a) \<and> char_field 32 (sa_checksum_algorithm a) \<and> char_field 96 (sa_checksum a)
     \<and> sa_capture_method a \<in> set capture_methods \<and> sa_quarantine_status a \<in> {''quarantined'', ''trusted'', ''rejected''}
     \<and> sa_scan_status a \<in> {''pending'', ''clean'', ''rejected''}"

definition artifact_clean :: "source_artifact \<Rightarrow> source_artifact result" where
  "artifact_clean a =
     ebind (require_text (sa_file_name a) ''file_name'') (\<lambda>_.
       ebind (validate_artifact_file_name (sa_file_name a)) (\<lambda>file_name.
         let a = a\<lparr>sa_file_name := file_name, sa_content_type := lower (strip (sa_content_type a)),
                sa_checksum_algorithm := lower (strip (sa_checksum_algorithm a)), sa_checksum := lower (strip (sa_checksum a))\<rparr> in
         if sa_checksum_algorithm a \<noteq> ''sha256'' then Inl (ValidationError ''checksum_algorithm'' ''Only SHA-256 checksums are supported.'')
         else ebind (validate_artifact_metadata (sa_file_size a) (sa_content_type a) (sa_checksum a)) (\<lambda>_.
           if sa_quarantine_status a = ''trusted'' \<and> sa_scan_status a \<noteq> ''clean''
           then Inl (ValidationError ''quarantine_status'' ''Trusted artifacts must be scan-clean.'') else Inr a)))"

definition artifact_full_clean :: "'a catalogue_db_scheme \<Rightarrow> source_artifact \<Rightarrow> source_artifact result" where
  "artifact_full_clean db a =
     (if \<not> artifact_fields_ok db a then Inl (field_error ''file_name'')
      else ebind (artifact_clean a) (\<lambda>a.
        already_exists ''checksum''
          (\<exists>q\<in>set (artifacts db). sa_id q \<noteq> sa_id a \<and> sa_source_document q = sa_source_document a \<and> sa_checksum q = sa_checksum a) a))"

definition version_clean :: "curriculum_version \<Rightarrow> curriculum_version result" where
  "version_clean v =
     ebind (require_text (cv_version_label v) ''version_label'') (\<lambda>_.
       ebind (validate_governance_text (cv_version_label v)) (\<lambda>_.
         if (case cv_effective_to v of None \<Rightarrow> False | Some e \<Rightarrow> e \<le> cv_effective_from v)
         then Inl (ValidationError ''effective_to'' ''End date must follow start date.'')
         else Inr (v\<lparr>cv_version_label := strip (cv_version_label v)\<rparr>)))"

definition version_clash :: "curriculum_version \<Rightarrow> curriculum_version \<Rightarrow> bool" where
  "version_clash p q \<longleftrightarrow> cv_id p \<noteq> cv_id q \<and> cv_source_document p = cv_source_document q \<and>
     (cv_version_label p = cv_version_label q \<or> cv_is_active p \<and> cv_is_active q)"

definition version_full_clean :: "'a curriculum_db_scheme \<Rightarrow> curriculum_version \<Rightarrow> curriculum_version result" where
  "version_full_clean db v =
     (if \<not> (cv_source_document v \<in> set (source_documents db) \<and> char_field 128 (cv_version_label v)) then Inl (field_error ''version_label'')
      else ebind (version_clean v) (\<lambda>v. already_exists ''source_document'' (\<exists>q\<in>set (versions db). version_clash q v) v))"

definition named_code_full_clean :: "named_code list \<Rightarrow> named_code \<Rightarrow> named_code result" where
  "named_code_full_clean rows r =
     (if \<not> (code_field (nc_code r) \<and> char_field 128 (nc_name r)) then Inl (field_error ''code'')
      else ebind (echeck (\<lambda>(v, f). require_text v f) [(nc_code r, ''code''), (nc_name r, ''name'')]) (\<lambda>_.
        let r = r\<lparr>nc_code := normalize_code (nc_code r), nc_name := strip (nc_name r)\<rparr> in
        already_exists ''code'' (\<exists>q\<in>set rows. nc_id q \<noteq> nc_id r \<and> (nc_code q = nc_code r \<or> nc_name q = nc_name r)) r))"

definition stage_full_clean :: "'a catalogue_db_scheme \<Rightarrow> curriculum_stage \<Rightarrow> curriculum_stage result" where
  "stage_full_clean db = named_code_full_clean (stages db)"

definition competency_full_clean :: "'a catalogue_db_scheme \<Rightarrow> core_competency \<Rightarrow> core_competency result" where
  "competency_full_clean db = named_code_full_clean (competencies db)"

definition value_full_clean :: "'a catalogue_db_scheme \<Rightarrow> curriculum_value \<Rightarrow> curriculum_value result" where
  "value_full_clean db = named_code_full_clean (curriculum_values db)"

definition issue_full_clean :: "'a catalogue_db_scheme \<Rightarrow> contemporary_issue \<Rightarrow> contemporary_issue result" where
  "issue_full_clean db = named_code_full_clean (contemporary_issues db)"

definition grade_mapping_full_clean :: "'a catalogue_db_scheme \<Rightarrow> grade_mapping \<Rightarrow> grade_mapping result" where
  "grade_mapping_full_clean db m =
     (if \<not> (grade_level_row db (gm_grade_level m) \<noteq> None \<and> (\<exists>s\<in>set (stages db). nc_id s = gm_stage m) \<and> version_exists db (gm_version m))
      then Inl (field_error ''grade_level'')
      else already_exists ''grade_level'' (gm_is_active m \<and> (\<exists>q\<in>set (grade_mappings db). gm_id q \<noteq> gm_id m \<and> gm_is_active q
        \<and> gm_grade_level q = gm_grade_level m \<and> gm_version q = gm_version m)) m)"

definition area_clash :: "area_detail \<Rightarrow> area_detail \<Rightarrow> bool" where
  "area_clash p q \<longleftrightarrow> cl_id p \<noteq> cl_id q \<and> cl_version p = cl_version q \<and> cl_grade_level p = cl_grade_level q \<and> cl_learning_area p = cl_learning_area q"

definition area_clean :: "'a academic_db_scheme \<Rightarrow> area_detail \<Rightarrow> area_detail result" where
  "area_clean db a =
     ebind (require_text (cl_official_name a) ''official_name'') (\<lambda>_.
       if map_option la_grade_level (learning_area_row db (cl_learning_area a)) \<noteq> Some (cl_grade_level a)
       then Inl (ValidationError ''learning_area'' ''Learning area grade is invalid.'')
       else Inr (a\<lparr>cl_official_name := strip (cl_official_name a), cl_official_code := normalized_blank_code (cl_official_code a)\<rparr>))"

definition area_full_clean :: "'a catalogue_db_scheme \<Rightarrow> area_detail \<Rightarrow> area_detail result" where
  "area_full_clean db a =
     (if \<not> (version_exists db (cl_version a) \<and> grade_level_row db (cl_grade_level a) \<noteq> None \<and> learning_area_row db (cl_learning_area a) \<noteq> None
            \<and> char_field 150 (cl_official_name a) \<and> blank_slug_field (cl_official_code a))
      then Inl (field_error ''official_name'')
      else ebind (area_clean db a) (\<lambda>a. already_exists ''learning_area'' (\<exists>q\<in>set (area_details db). area_clash q a) a))"

definition strand_clash :: "strand_detail \<Rightarrow> strand_detail \<Rightarrow> bool" where
  "strand_clash p q \<longleftrightarrow> sd_id p \<noteq> sd_id q \<and> sd_curriculum_learning_area p = sd_curriculum_learning_area q \<and>
     (sd_title p = sd_title q \<or> sd_code q \<noteq> [] \<and> sd_code p = sd_code q)"

definition strand_full_clean :: "'a catalogue_db_scheme \<Rightarrow> strand_detail \<Rightarrow> strand_detail result" where
  "strand_full_clean db s =
     (if \<not> (curriculum_area_row db (sd_curriculum_learning_area s) \<noteq> None \<and> blank_slug_field (sd_code s) \<and> char_field 255 (sd_title s)
            \<and> positive_integer_field (sd_sequence_order s))
      then Inl (field_error ''title'')
      else ebind (require_text (sd_title s) ''title'') (\<lambda>_.
        let s = s\<lparr>sd_title := strip (sd_title s), sd_code := normalized_blank_code (sd_code s)\<rparr> in
        already_exists ''title'' (\<exists>q\<in>set (strand_details db). strand_clash q s) s))"

definition sub_strand_clash :: "sub_strand_detail \<Rightarrow> sub_strand_detail \<Rightarrow> bool" where
  "sub_strand_clash p q \<longleftrightarrow> su_id p \<noteq> su_id q \<and> su_strand p = su_strand q \<and>
     (su_title p = su_title q \<or> su_code q \<noteq> [] \<and> su_code p = su_code q)"

definition sub_strand_full_clean :: "'a catalogue_db_scheme \<Rightarrow> sub_strand_detail \<Rightarrow> sub_strand_detail result" where
  "sub_strand_full_clean db s =
     (if \<not> (strand_row db (su_strand s) \<noteq> None \<and> blank_slug_field (su_code s) \<and> char_field 255 (su_title s)
            \<and> positive_integer_field (su_sequence_order s) \<and> length (su_time_allocation s) \<le> 128)
      then Inl (field_error ''title'')
      else ebind (require_text (su_title s) ''title'') (\<lambda>_.
        let s = s\<lparr>su_title := strip (su_title s), su_code := normalized_blank_code (su_code s)\<rparr> in
        already_exists ''title'' (\<exists>q\<in>set (sub_strand_details db). sub_strand_clash q s) s))"

definition outcome_full_clean :: "'a curriculum_db_scheme \<Rightarrow> outcome_detail \<Rightarrow> outcome_detail result" where
  "outcome_full_clean db r =
     (if \<not> (sub_strand_row db (lo_sub_strand r) \<noteq> None \<and> lo_text r \<noteq> [] \<and> positive_integer_field (lo_sequence_order r)) then Inl (field_error ''text'')
      else ebind (require_text (lo_text r) ''text'') (\<lambda>_. Inr (r\<lparr>lo_text := strip (lo_text r)\<rparr>)))"

definition rubric_clash :: "rubric_detail \<Rightarrow> rubric_detail \<Rightarrow> bool" where
  "rubric_clash p q \<longleftrightarrow> rf_id p \<noteq> rf_id q \<and> rf_level_code p = rf_level_code q \<and>
     (rf_learning_outcome q \<noteq> None \<and> rf_learning_outcome p = rf_learning_outcome q \<or> rf_sub_strand q \<noteq> None \<and> rf_sub_strand p = rf_sub_strand q)"

definition rubric_clean :: "rubric_detail \<Rightarrow> rubric_detail result" where
  "rubric_clean r =
     ebind (echeck (\<lambda>(v, f). require_text v f) [(rf_level_code r, ''level_code''), (rf_level_label r, ''level_label''), (rf_descriptor r, ''descriptor'')]) (\<lambda>_.
       if (rf_sub_strand r \<noteq> None) = (rf_learning_outcome r \<noteq> None)
       then Inl (ValidationError ''learning_outcome'' ''Set exactly one curriculum parent.'')
       else Inr (r\<lparr>rf_level_code := normalize_code (rf_level_code r), rf_level_label := strip (rf_level_label r), rf_descriptor := strip (rf_descriptor r)\<rparr>))"

definition rubric_full_clean :: "'a catalogue_db_scheme \<Rightarrow> rubric_detail \<Rightarrow> rubric_detail result" where
  "rubric_full_clean db r =
     (if \<not> (opt_fk (\<lambda>i. sub_strand_row db i \<noteq> None) (rf_sub_strand r) \<and> opt_fk (\<lambda>i. outcome_row db i \<noteq> None) (rf_learning_outcome r)
            \<and> code_field (rf_level_code r) \<and> char_field 128 (rf_level_label r) \<and> rf_descriptor r \<noteq> [] \<and> positive_integer_field (rf_sequence_order r))
      then Inl (field_error ''level_code'')
      else ebind (rubric_clean r) (\<lambda>r. already_exists ''level_code'' (\<exists>q\<in>set (rubric_details db). rubric_clash q r) r))"

definition experience_full_clean :: "'a curriculum_db_scheme \<Rightarrow> learning_experience \<Rightarrow> learning_experience result" where
  "experience_full_clean db r =
     (if \<not> (opt_fk (\<lambda>i. sub_strand_row db i \<noteq> None) (le_sub_strand r) \<and> opt_fk (\<lambda>i. outcome_row db i \<noteq> None) (le_learning_outcome r)
            \<and> le_text r \<noteq> [] \<and> positive_integer_field (le_sequence_order r))
      then Inl (field_error ''text'')
      else ebind (require_text (le_text r) ''text'') (\<lambda>_.
        if (le_sub_strand r \<noteq> None) = (le_learning_outcome r \<noteq> None)
        then Inl (ValidationError ''learning_outcome'' ''Set exactly one curriculum parent.'')
        else Inr (r\<lparr>le_text := strip (le_text r)\<rparr>)))"

definition question_full_clean :: "'a curriculum_db_scheme \<Rightarrow> inquiry_question \<Rightarrow> inquiry_question result" where
  "question_full_clean db r =
     (if \<not> (sub_strand_row db (kq_sub_strand r) \<noteq> None \<and> kq_question_text r \<noteq> [] \<and> positive_integer_field (kq_sequence_order r))
      then Inl (field_error ''question_text'')
      else ebind (require_text (kq_question_text r) ''question_text'') (\<lambda>_. Inr (r\<lparr>kq_question_text := strip (kq_question_text r)\<rparr>)))"

definition link_full_clean :: "named_code list \<Rightarrow> outcome_link list \<Rightarrow> 'a curriculum_db_scheme \<Rightarrow> outcome_link \<Rightarrow> outcome_link result" where
  "link_full_clean targets links db l =
     (if \<not> (outcome_row db (ol_learning_outcome l) \<noteq> None \<and> (\<exists>t\<in>set targets. nc_id t = ol_target l)) then Inl (field_error ''learning_outcome'')
      else already_exists ''learning_outcome''
        (\<exists>q\<in>set links. ol_id q \<noteq> ol_id l \<and> ol_learning_outcome q = ol_learning_outcome l \<and> ol_target q = ol_target l) l)"

definition competency_link_full_clean :: "'a catalogue_db_scheme \<Rightarrow> competency_link \<Rightarrow> competency_link result" where
  "competency_link_full_clean db = link_full_clean (competencies db) (competency_links db) db"

definition value_link_full_clean :: "'a catalogue_db_scheme \<Rightarrow> value_link \<Rightarrow> value_link result" where
  "value_link_full_clean db = link_full_clean (curriculum_values db) (value_links db) db"

definition pci_link_full_clean :: "'a catalogue_db_scheme \<Rightarrow> pci_link \<Rightarrow> pci_link result" where
  "pci_link_full_clean db = link_full_clean (contemporary_issues db) (pci_links db) db"

section \<open>Tables\<close>

definition add_document :: "source_document \<Rightarrow> 'a catalogue_db_scheme \<Rightarrow> 'a catalogue_db_scheme" where
  "add_document r db = db\<lparr>source_documents := source_documents db @ [dm_id r], documents := documents db @ [r]\<rparr>"

definition add_artifact :: "source_artifact \<Rightarrow> 'a catalogue_db_scheme \<Rightarrow> 'a catalogue_db_scheme" where
  "add_artifact r db = db\<lparr>artifacts := artifacts db @ [r]\<rparr>"

definition add_version :: "curriculum_version \<Rightarrow> 'a curriculum_db_scheme \<Rightarrow> 'a curriculum_db_scheme" where
  "add_version r db = db\<lparr>versions := versions db @ [r]\<rparr>"

definition add_stage :: "curriculum_stage \<Rightarrow> 'a catalogue_db_scheme \<Rightarrow> 'a catalogue_db_scheme" where
  "add_stage r db = db\<lparr>stages := stages db @ [r]\<rparr>"

definition add_competency :: "core_competency \<Rightarrow> 'a catalogue_db_scheme \<Rightarrow> 'a catalogue_db_scheme" where
  "add_competency r db = db\<lparr>competencies := competencies db @ [r]\<rparr>"

definition add_value :: "curriculum_value \<Rightarrow> 'a catalogue_db_scheme \<Rightarrow> 'a catalogue_db_scheme" where
  "add_value r db = db\<lparr>curriculum_values := curriculum_values db @ [r]\<rparr>"

definition add_issue :: "contemporary_issue \<Rightarrow> 'a catalogue_db_scheme \<Rightarrow> 'a catalogue_db_scheme" where
  "add_issue r db = db\<lparr>contemporary_issues := contemporary_issues db @ [r]\<rparr>"

definition add_grade_mapping :: "grade_mapping \<Rightarrow> 'a catalogue_db_scheme \<Rightarrow> 'a catalogue_db_scheme" where
  "add_grade_mapping r db = db\<lparr>grade_mappings := grade_mappings db @ [r]\<rparr>"

definition add_area :: "area_detail \<Rightarrow> 'a catalogue_db_scheme \<Rightarrow> 'a catalogue_db_scheme" where
  "add_area r db = db\<lparr>curriculum_areas := curriculum_areas db @ [curriculum_learning_area.truncate r], area_details := area_details db @ [r]\<rparr>"

definition add_strand :: "strand_detail \<Rightarrow> 'a catalogue_db_scheme \<Rightarrow> 'a catalogue_db_scheme" where
  "add_strand r db = db\<lparr>strands := strands db @ [strand.truncate r], strand_details := strand_details db @ [r]\<rparr>"

definition add_sub_strand :: "sub_strand_detail \<Rightarrow> 'a catalogue_db_scheme \<Rightarrow> 'a catalogue_db_scheme" where
  "add_sub_strand r db = db\<lparr>sub_strands := sub_strands db @ [sub_strand.truncate r], sub_strand_details := sub_strand_details db @ [r]\<rparr>"

definition add_outcome :: "outcome_detail \<Rightarrow> 'a catalogue_db_scheme \<Rightarrow> 'a catalogue_db_scheme" where
  "add_outcome r db = db\<lparr>outcomes := outcomes db @ [outcome.truncate r], outcome_details := outcome_details db @ [r]\<rparr>"

definition add_rubric :: "rubric_detail \<Rightarrow> 'a catalogue_db_scheme \<Rightarrow> 'a catalogue_db_scheme" where
  "add_rubric r db = db\<lparr>rubrics := rubrics db @ [rubric.truncate r], rubric_details := rubric_details db @ [r]\<rparr>"

definition add_experience :: "learning_experience \<Rightarrow> 'a catalogue_db_scheme \<Rightarrow> 'a catalogue_db_scheme" where
  "add_experience r db = db\<lparr>learning_experiences := learning_experiences db @ [r]\<rparr>"

definition add_question :: "inquiry_question \<Rightarrow> 'a catalogue_db_scheme \<Rightarrow> 'a catalogue_db_scheme" where
  "add_question r db = db\<lparr>inquiry_questions := inquiry_questions db @ [r]\<rparr>"

definition add_competency_link :: "competency_link \<Rightarrow> 'a catalogue_db_scheme \<Rightarrow> 'a catalogue_db_scheme" where
  "add_competency_link r db = db\<lparr>competency_links := competency_links db @ [r]\<rparr>"

definition add_value_link :: "value_link \<Rightarrow> 'a catalogue_db_scheme \<Rightarrow> 'a catalogue_db_scheme" where
  "add_value_link r db = db\<lparr>value_links := value_links db @ [r]\<rparr>"

definition add_pci_link :: "pci_link \<Rightarrow> 'a catalogue_db_scheme \<Rightarrow> 'a catalogue_db_scheme" where
  "add_pci_link r db = db\<lparr>pci_links := pci_links db @ [r]\<rparr>"

section \<open>Services (services.py)\<close>

text \<open>The authority is the object the caller holds.\<close>

definition register_source_document ::
  "(string \<Rightarrow> bool) \<Rightarrow> uuid \<Rightarrow> authority \<Rightarrow> string \<Rightarrow> string \<Rightarrow> string \<Rightarrow> string \<Rightarrow> string \<Rightarrow> ('a catalogue_db_scheme, source_document) action" where
  "register_source_document url_ok new_id a title document_code version_label source_url checksum =
     (if \<not> (au_is_active a \<and> au_is_approved a) then alift (Inl (ValidationError ''authority'' ''Source authority is not approved.''))
      else save_clean (document_full_clean url_ok) add_document
        \<lparr>dm_id = new_id, dm_authority = Some (au_id a), dm_source_authority = au_code a, dm_title = title, dm_document_code = document_code,
         dm_source_url = source_url, dm_version_label = version_label, dm_publication_date = None, dm_effective_date = None,
         dm_checksum = checksum, dm_is_active = True\<rparr>)"

definition compute_source_checksum :: "(string \<Rightarrow> string) \<Rightarrow> string \<Rightarrow> string" where
  "compute_source_checksum sha content = ''sha256:'' @ sha content"

definition register_source_artifact ::
  "(string \<Rightarrow> string) \<Rightarrow> time \<Rightarrow> uuid \<Rightarrow> uuid \<Rightarrow> string \<Rightarrow> string \<Rightarrow> int \<Rightarrow> string \<Rightarrow> string \<Rightarrow> ('a catalogue_db_scheme, source_artifact) action" where
  "register_source_artifact sha now new_id document_id file_name content_type file_size content capture_method =
     (if file_size \<noteq> int (length content) then alift (Inl (ValidationError ''file_size'' ''Artifact size does not match content.''))
      else save_clean artifact_full_clean add_artifact
        \<lparr>sa_id = new_id, sa_source_document = document_id, sa_file_name = file_name, sa_content_type = content_type, sa_file_size = file_size,
         sa_checksum_algorithm = ''sha256'', sa_checksum = compute_source_checksum sha content, sa_capture_method = capture_method,
         sa_quarantine_status = ''quarantined'', sa_scan_status = ''pending'', sa_captured_at = now\<rparr>)"

definition create_curriculum_source_document ::
  "(string \<Rightarrow> bool) \<Rightarrow> uuid \<Rightarrow> string \<Rightarrow> string \<Rightarrow> string \<Rightarrow> string \<Rightarrow> string \<Rightarrow> string \<Rightarrow> ('a catalogue_db_scheme, source_document) action" where
  "create_curriculum_source_document url_ok new_id source_authority title document_code version_label source_url checksum =
     save_clean (document_full_clean url_ok) add_document
       \<lparr>dm_id = new_id, dm_authority = None, dm_source_authority = source_authority, dm_title = title, dm_document_code = document_code,
        dm_source_url = source_url, dm_version_label = version_label, dm_publication_date = None, dm_effective_date = None,
        dm_checksum = checksum, dm_is_active = True\<rparr>"

definition create_curriculum_version ::
  "uuid \<Rightarrow> uuid \<Rightarrow> string \<Rightarrow> date \<Rightarrow> date option \<Rightarrow> bool \<Rightarrow> ('a catalogue_db_scheme, curriculum_version) action" where
  "create_curriculum_version new_id document_id version_label effective_from effective_to is_active =
     save_clean version_full_clean add_version
       \<lparr>cv_id = new_id, cv_source_document = document_id, cv_version_label = version_label, cv_effective_from = effective_from,
        cv_effective_to = effective_to, cv_is_active = is_active\<rparr>"

definition map_grade_level_to_curriculum_version ::
  "uuid \<Rightarrow> uuid \<Rightarrow> uuid \<Rightarrow> uuid \<Rightarrow> bool \<Rightarrow> ('a catalogue_db_scheme, grade_mapping) action" where
  "map_grade_level_to_curriculum_version new_id grade_level stage version is_active =
     save_clean grade_mapping_full_clean add_grade_mapping
       \<lparr>gm_id = new_id, gm_grade_level = grade_level, gm_stage = stage, gm_version = version, gm_is_active = is_active\<rparr>"

definition map_learning_area_to_curriculum_version ::
  "uuid \<Rightarrow> uuid \<Rightarrow> uuid \<Rightarrow> uuid \<Rightarrow> string \<Rightarrow> string \<Rightarrow> bool \<Rightarrow> ('a catalogue_db_scheme, area_detail) action" where
  "map_learning_area_to_curriculum_version new_id version grade_level area official_name official_code is_active =
     save_clean area_full_clean add_area
       \<lparr>cl_id = new_id, cl_version = version, cl_grade_level = grade_level, cl_learning_area = area, cl_is_active = is_active,
        cl_official_name = official_name, cl_official_code = official_code\<rparr>"

definition create_strand :: "uuid \<Rightarrow> uuid \<Rightarrow> string \<Rightarrow> int \<Rightarrow> string \<Rightarrow> bool \<Rightarrow> ('a catalogue_db_scheme, strand_detail) action" where
  "create_strand new_id area title sequence_order code_text is_active =
     save_clean strand_full_clean add_strand
       \<lparr>sd_id = new_id, sd_curriculum_learning_area = area, sd_code = code_text, sd_title = title, sd_sequence_order = sequence_order,
        sd_is_active = is_active\<rparr>"

definition create_sub_strand ::
  "uuid \<Rightarrow> uuid \<Rightarrow> string \<Rightarrow> int \<Rightarrow> string \<Rightarrow> string \<Rightarrow> bool \<Rightarrow> ('a catalogue_db_scheme, sub_strand_detail) action" where
  "create_sub_strand new_id strand_id title sequence_order code_text time_allocation is_active =
     save_clean sub_strand_full_clean add_sub_strand
       \<lparr>su_id = new_id, su_strand = strand_id, su_code = code_text, su_title = title, su_sequence_order = sequence_order,
        su_time_allocation = time_allocation, su_is_active = is_active\<rparr>"

definition create_learning_outcome :: "uuid \<Rightarrow> uuid \<Rightarrow> string \<Rightarrow> int \<Rightarrow> bool \<Rightarrow> ('a catalogue_db_scheme, outcome_detail) action" where
  "create_learning_outcome new_id sub_strand_id text sequence_order is_active =
     save_clean outcome_full_clean add_outcome
       \<lparr>lo_id = new_id, lo_sub_strand = sub_strand_id, lo_text = text, lo_sequence_order = sequence_order, lo_is_active = is_active\<rparr>"

text \<open>A link is saved without a second validation.\<close>

definition link_outcome_to_competency :: "uuid \<Rightarrow> uuid \<Rightarrow> uuid \<Rightarrow> ('a catalogue_db_scheme, competency_link) action" where
  "link_outcome_to_competency new_id outcome_id competency =
     save_row competency_link_full_clean add_competency_link
       \<lparr>ol_id = new_id, ol_learning_outcome = outcome_id, ol_target = competency, ol_is_active = True\<rparr>"

definition link_outcome_to_value :: "uuid \<Rightarrow> uuid \<Rightarrow> uuid \<Rightarrow> ('a catalogue_db_scheme, value_link) action" where
  "link_outcome_to_value new_id outcome_id val =
     save_row value_link_full_clean add_value_link
       \<lparr>ol_id = new_id, ol_learning_outcome = outcome_id, ol_target = val, ol_is_active = True\<rparr>"

definition link_outcome_to_pci :: "uuid \<Rightarrow> uuid \<Rightarrow> uuid \<Rightarrow> ('a catalogue_db_scheme, pci_link) action" where
  "link_outcome_to_pci new_id outcome_id pci =
     save_row pci_link_full_clean add_pci_link
       \<lparr>ol_id = new_id, ol_learning_outcome = outcome_id, ol_target = pci, ol_is_active = True\<rparr>"

definition create_rubric_foundation_descriptor ::
  "uuid \<Rightarrow> uuid \<Rightarrow> string \<Rightarrow> string \<Rightarrow> string \<Rightarrow> int \<Rightarrow> bool \<Rightarrow> ('a catalogue_db_scheme, rubric_detail) action" where
  "create_rubric_foundation_descriptor new_id outcome_id level_code level_label descriptor sequence_order is_active =
     save_clean rubric_full_clean add_rubric
       \<lparr>rf_id = new_id, rf_sub_strand = None, rf_learning_outcome = Some outcome_id, rf_level_code = level_code, rf_level_label = level_label,
        rf_is_active = is_active, rf_descriptor = descriptor, rf_sequence_order = sequence_order\<rparr>"

end
