(* ===== verification/Notices.thy ===== *)
theory Notices
  imports Catalogue
begin

text \<open>
  Curriculum differences and regulatory notices (curriculum/algorithms/curriculum_diff_engine.py,
  curriculum_impact_analyzer.py, regulatory_notice_classifier.py, teacher_readiness_mapper.py,
  senior_school_dependency_mapper.py, principal_notification_builder.py, curriculum/models.py,
  curriculum/services.py): the difference of two curriculum snapshots, the impacts it suggests, notices of
  the authorities and the evidence cards principals acknowledge. The nodes of a snapshot are objects whose
  attributes are texts, flags, dates or absent; the SHA-256 hex digest of a text is a parameter.
\<close>

section \<open>Fingerprints of curriculum nodes (curriculum_graph_fingerprint.py)\<close>

type_synonym node = "(string \<times> json) list"

definition stable_graph_hash :: "(string \<Rightarrow> string) \<Rightarrow> json \<Rightarrow> string result" where
  "stable_graph_hash sha payload = ebind (dumps True payload) (\<lambda>canonical. Inr (sha canonical))"

definition fingerprint_node :: "(string \<Rightarrow> string) \<Rightarrow> string \<Rightarrow> node \<Rightarrow> string result" where
  "fingerprint_node sha entity_type values =
     stable_graph_hash sha (JObj [(''entity_type'', JStr entity_type), (''values'', JObj values)])"

section \<open>The difference of two snapshots (curriculum_diff_engine.py)\<close>

definition ASSESSMENT_ENTITY_TYPES :: "string list" where
  "ASSESSMENT_ENTITY_TYPES = [''rubric_foundation'', ''assessment_guidance'', ''teacher_training_notice'']"

definition node_text :: "node \<Rightarrow> string \<Rightarrow> string" where
  "node_text n key = json_str (jget_or n key (JStr []))"

definition node_key :: "node \<Rightarrow> string" where
  "node_key n = strip (node_text n ''entity_type'') @ '':'' @ strip (node_text n ''identifier'')"

definition node_fingerprint :: "(string \<Rightarrow> string) \<Rightarrow> node \<Rightarrow> string result" where
  "node_fingerprint sha n =
     (if json_truthy (jget n ''fingerprint'') then Inr (json_str (jget n ''fingerprint''))
      else fingerprint_node sha (node_text n ''entity_type'')
        (filter (\<lambda>(k, v). k \<notin> {''fingerprint'', ''identifier'', ''entity_type''}) n))"

text \<open>A list or a dict cannot be looked up in a set.\<close>

definition is_assessment_entity :: "node \<Rightarrow> bool result" where
  "is_assessment_entity n = (case jget n ''entity_type'' of
       JStr t \<Rightarrow> Inr (t \<in> set ASSESSMENT_ENTITY_TYPES) | JList _ \<Rightarrow> Inl TypeError | JObj _ \<Rightarrow> Inl TypeError | _ \<Rightarrow> Inr False)"

definition diff_change_type :: "node \<Rightarrow> node \<Rightarrow> string result" where
  "diff_change_type old new =
     (let old_active = json_truthy (jget_or old ''is_active'' (JBool True)); new_active = json_truthy (jget_or new ''is_active'' (JBool True)) in
      if old_active \<and> \<not> new_active then Inr ''retired''
      else if \<not> old_active \<and> new_active then Inr ''reactivated''
      else if jget old ''effective_date'' \<noteq> jget new ''effective_date'' then Inr ''effective_date_changed''
      else ebind (is_assessment_entity new) (\<lambda>assessment.
        if assessment then Inr ''assessment_criteria_changed''
        else if jget old ''title'' \<noteq> jget new ''title'' \<or> jget old ''name'' \<noteq> jget new ''name'' then Inr ''renamed''
        else Inr ''updated''))"

record diff_proposal =
  dp_change_type :: string
  dp_entity_type :: json
  dp_entity_identifier :: json
  dp_old_fingerprint :: string
  dp_new_fingerprint :: string
  dp_summary :: string

definition proposal_of :: "string \<Rightarrow> string \<Rightarrow> node \<Rightarrow> string \<Rightarrow> string \<Rightarrow> diff_proposal" where
  "proposal_of change_type verb n old_fingerprint new_fingerprint =
     \<lparr>dp_change_type = change_type, dp_entity_type = jget n ''entity_type'', dp_entity_identifier = jget n ''identifier'',
      dp_old_fingerprint = old_fingerprint, dp_new_fingerprint = new_fingerprint,
      dp_summary = verb @ '' '' @ json_str (jget n ''entity_type'') @ ''.''\<rparr>"

text \<open>One key of the two snapshots: at most one item.\<close>

definition diff_key :: "(string \<Rightarrow> string) \<Rightarrow> node option \<Rightarrow> node option \<Rightarrow> diff_proposal list result" where
  "diff_key sha old new =
     (case (old, new) of
        (None, Some n) \<Rightarrow> ebind (node_fingerprint sha n) (\<lambda>f. Inr [proposal_of ''added'' ''Added'' n [] f])
      | (Some old, None) \<Rightarrow> ebind (node_fingerprint sha old) (\<lambda>f. Inr [proposal_of ''removed'' ''Removed'' old f []])
      | (None, None) \<Rightarrow> Inr []
      | (Some old, Some n) \<Rightarrow>
          ebind (node_fingerprint sha old) (\<lambda>f. ebind (node_fingerprint sha n) (\<lambda>g.
            if f = g then Inr [] else ebind (diff_change_type old n) (\<lambda>c. Inr [proposal_of c ''Updated'' n f g]))))"

text \<open>A dict of nodes keeps the last node of a key.\<close>

definition node_table :: "node list \<Rightarrow> (string \<times> node) list" where
  "node_table nodes = map (\<lambda>n. (node_key n, n)) (rev nodes)"

definition diff_graph_snapshots :: "(string \<Rightarrow> string) \<Rightarrow> node list \<Rightarrow> node list \<Rightarrow> diff_proposal list result" where
  "diff_graph_snapshots sha old_snapshot new_snapshot =
     ebind (emap (\<lambda>key. diff_key sha (map_of (node_table old_snapshot) key) (map_of (node_table new_snapshot) key))
       (py_sorted_set (map node_key old_snapshot @ map node_key new_snapshot))) (\<lambda>items. Inr (concat items))"

section \<open>Suggested impacts (curriculum_impact_analyzer.py)\<close>

definition SENIOR_SIGNALS :: "string list" where
  "SENIOR_SIGNALS = [''grade 10'', ''grade 11'', ''grade 12'', ''senior school'']"

definition JUNIOR_TO_SENIOR_SIGNALS :: "string list" where
  "JUNIOR_TO_SENIOR_SIGNALS = [''grade 9'', ''kjsea'', ''grade 10 transition'', ''pathway placement'']"

definition impact_text :: "(string \<times> string) list \<Rightarrow> string" where
  "impact_text item = lower (join '' '' (map snd item))"

record diff_impact =
  di_category :: string
  di_severity :: string
  di_action :: string

definition text_get :: "(string \<times> string) list \<Rightarrow> string \<Rightarrow> string" where
  "text_get item key = (case map_of item key of None \<Rightarrow> [] | Some v \<Rightarrow> v)"

definition dependency_impacts :: "diff_impact list" where
  "dependency_impacts =
     [\<lparr>di_category = ''scheme_review_required'', di_severity = ''low'', di_action = ''Future schemes review required.''\<rparr>,
      \<lparr>di_category = ''grading_dependency_future'', di_severity = ''low'', di_action = ''Future grading dependency review required.''\<rparr>,
      \<lparr>di_category = ''report_dependency_future'', di_severity = ''low'', di_action = ''Future report dependency review required.''\<rparr>,
      \<lparr>di_category = ''lesson_assistant_dependency_future'', di_severity = ''low'', di_action = ''Future lesson assistant review required.''\<rparr>]"

definition analyze_diff_item_impact :: "(string \<times> string) list \<Rightarrow> diff_impact list" where
  "analyze_diff_item_impact item =
     (let text = impact_text item; entity_type = lower (text_get item ''entity_type''); change_type = lower (text_get item ''change_type'') in
      (if \<exists>s\<in>set SENIOR_SIGNALS. contains s text
       then [\<lparr>di_category = ''senior_school_curriculum'', di_severity = ''medium'', di_action = ''Principal curriculum review required.''\<rparr>] else [])
      @ (if \<exists>s\<in>set JUNIOR_TO_SENIOR_SIGNALS. contains s text
         then [\<lparr>di_category = ''junior_to_senior_transition'', di_severity = ''medium'', di_action = ''Review Senior School transition impact.''\<rparr>] else [])
      @ (if entity_type \<in> {''rubric_foundation'', ''assessment_guidance''} \<or> contains ''assessment'' text
         then [\<lparr>di_category = ''assessment_criteria'', di_severity = ''high'', di_action = ''Review assessment guidance.''\<rparr>] else [])
      @ (if entity_type \<in> {''learning_area'', ''teacher_training_notice''} \<or> contains ''teacher'' text
         then [\<lparr>di_category = ''teacher_readiness'', di_severity = ''medium'', di_action = ''Review teacher readiness requirements.''\<rparr>] else [])
      @ (if change_type \<in> {''added'', ''updated'', ''renamed'', ''removed'', ''retired''} then dependency_impacts else []))"

section \<open>Notices (regulatory_notice_classifier.py, teacher_readiness_mapper.py, senior_school_dependency_mapper.py)\<close>

definition classify_notice :: "string \<Rightarrow> string \<Rightarrow> string \<Rightarrow> string" where
  "classify_notice authority_code title summary =
     (let haystack = lower (authority_code @ '' '' @ title @ '' '' @ summary); has = (\<lambda>w. contains w haystack) in
      if has ''tsc'' \<or> has ''teacher service''
      then (if has ''training'' \<or> has ''retool'' then ''teacher_training_notice'' else ''tsc_teacher_update'')
      else if has ''knec'' \<or> has ''assessment'' \<or> has ''examination'' then ''knec_assessment_guidance''
      else if has ''kicd'' \<or> has ''curriculum design'' then ''kicd_curriculum_update''
      else if has ''pathway'' then ''pathway_guidance''
      else if has ''senior school'' \<or> has ''grade 10'' then ''senior_school_transition_notice''
      else if has ''implementation'' then ''implementation_guidance''
      else ''moe_circular'')"

definition map_teacher_requirement :: "string \<Rightarrow> string \<Rightarrow> string" where
  "map_teacher_requirement title summary =
     (let text = lower (title @ '' '' @ summary); has = (\<lambda>w. contains w text) in
      if has ''assessment'' \<and> has ''training'' then ''assessment_training_required''
      else if has ''retool'' then ''retooling_required''
      else if has ''pathway'' \<and> has ''readiness'' then ''pathway_readiness_required''
      else if has ''briefing'' \<or> has ''implementation'' then ''implementation_briefing_required''
      else ''training_required'')"

definition map_junior_to_senior_signals :: "string \<Rightarrow> string \<Rightarrow> string list" where
  "map_junior_to_senior_signals title summary =
     (let text = lower (title @ '' '' @ summary); has = (\<lambda>w. contains w text) in
      (if has ''grade 9'' \<and> has ''grade 10'' then [''grade_9_to_grade_10_transition''] else [])
      @ (if has ''kjsea'' then [''kjsea_transition_signal''] else [])
      @ (if has ''pathway'' \<or> has ''placement'' then [''pathway_selection_signal''] else [])
      @ (if has ''readiness'' \<and> (has ''senior'' \<or> has ''grade 10'') then [''grade_10_readiness_signal''] else [])
      @ (if has ''prerequisite'' then [''senior_learning_area_prerequisite_signal''] else []))"

section \<open>Notification texts (principal_notification_builder.py)\<close>

definition NO_AUTO_MUTATION_NOTICE :: string where
  "NO_AUTO_MUTATION_NOTICE = ''Darasa has not automatically changed your school records. Principal review and school activation are required.''"

record notification_payload =
  np_title :: string
  np_summary :: string
  np_evidence_summary :: string
  np_required_action :: string

definition build_notification_payload ::
  "string \<Rightarrow> string \<Rightarrow> string \<Rightarrow> string \<Rightarrow> string \<Rightarrow> string \<Rightarrow> notification_payload result" where
  "build_notification_payload authority_name source_reference checksum review_status impact_summary required_action =
     (if review_status \<notin> {''verified'', ''approved''} then Inl (ValidationError ''review_status'' ''Verified evidence is required.'')
      else ebind (echeck validate_governance_text [impact_summary, required_action, source_reference]) (\<lambda>_.
        Inr \<lparr>np_title = ''Senior School Regulatory Update Detected'', np_summary = impact_summary @ '' '' @ NO_AUTO_MUTATION_NOTICE,
             np_evidence_summary = ''Authority: '' @ authority_name @ ''; Source: '' @ source_reference @ ''; Checksum: ''
               @ (if checksum = [] then ''recorded in source registry'' else checksum) @ ''.'',
             np_required_action = required_action\<rparr>))"

section \<open>Rows (models.py)\<close>

record curriculum_diff =
  cdf_id :: uuid
  cdf_old_version :: uuid
  cdf_new_version :: uuid
  cdf_source_change_set :: "uuid option"
  cdf_status :: string
  cdf_summary :: string
  cdf_reviewed_at :: "time option"
  cdf_reviewed_by :: "uuid option"

record diff_item =
  cdi_id :: uuid
  cdi_diff :: uuid
  cdi_change_type :: string
  cdi_entity_type :: string
  cdi_entity_identifier :: string
  cdi_old_fingerprint :: string
  cdi_new_fingerprint :: string
  cdi_summary :: string
  cdi_severity :: string
  cdi_requires_review :: bool

record curriculum_impact =
  cim_id :: uuid
  cim_diff :: "uuid option"
  cim_diff_item :: "uuid option"
  cim_stage :: string
  cim_grade_level :: "uuid option"
  cim_pathway :: string
  cim_learning_area :: "uuid option"
  cim_strand :: "uuid option"
  cim_sub_strand :: "uuid option"
  cim_outcome :: "uuid option"
  cim_rubric :: "uuid option"
  cim_category :: string
  cim_severity :: string
  cim_action_required :: string

record regulatory_notice =
  rgn_id :: uuid
  rgn_authority :: uuid
  rgn_source_document :: "uuid option"
  rgn_source_artifact :: "uuid option"
  rgn_notice_type :: string
  rgn_title :: string
  rgn_reference_number :: string
  rgn_publication_date :: "date option"
  rgn_effective_date :: "date option"
  rgn_summary :: string
  rgn_review_status :: string
  rgn_notice_status :: string
  rgn_affects_senior :: bool
  rgn_affects_transition :: bool
  rgn_reviewed_at :: "time option"
  rgn_reviewed_by :: "uuid option"

record regulatory_impact =
  rgi_id :: uuid
  rgi_notice :: uuid
  rgi_grade_level :: "uuid option"
  rgi_pathway :: string
  rgi_learning_area :: "uuid option"
  rgi_category :: string
  rgi_severity :: string
  rgi_action_required :: string

record teacher_requirement =
  trq_id :: uuid
  trq_notice :: uuid
  trq_learning_area :: "uuid option"
  trq_grade_level :: "uuid option"
  trq_pathway :: string
  trq_type :: string
  trq_summary :: string
  trq_effective_from :: "date option"
  trq_is_active :: bool

record evidence_card =
  crd_id :: uuid
  crd_tenant :: uuid
  crd_notice :: "uuid option"
  crd_diff :: "uuid option"
  crd_impact :: "uuid option"
  crd_type :: string
  crd_title :: string
  crd_summary :: string
  crd_evidence_summary :: string
  crd_required_action :: string
  crd_severity :: string
  crd_status :: string
  crd_acknowledged_at :: "time option"
  crd_acknowledged_by :: "uuid option"

record acknowledgement =
  ack_id :: uuid
  ack_tenant :: uuid
  ack_card :: uuid
  ack_by :: uuid
  ack_at :: time
  ack_status :: string
  ack_notes :: string

record notice_db = catalogue_db +
  curriculum_diffs :: "curriculum_diff list"
  diff_items :: "diff_item list"
  curriculum_impacts :: "curriculum_impact list"
  regulatory_notices :: "regulatory_notice list"
  regulatory_impacts :: "regulatory_impact list"
  teacher_requirements :: "teacher_requirement list"
  evidence_cards :: "evidence_card list"
  acknowledgements :: "acknowledgement list"

definition document_row :: "'a catalogue_db_scheme \<Rightarrow> uuid \<Rightarrow> source_document option" where
  "document_row db i = first_where (\<lambda>d. dm_id d = i) (documents db)"

definition artifact_row :: "'a catalogue_db_scheme \<Rightarrow> uuid \<Rightarrow> source_artifact option" where
  "artifact_row db i = first_where (\<lambda>a. sa_id a = i) (artifacts db)"

definition diff_row :: "'a notice_db_scheme \<Rightarrow> uuid \<Rightarrow> curriculum_diff option" where
  "diff_row db i = first_where (\<lambda>d. cdf_id d = i) (curriculum_diffs db)"

definition notice_row :: "'a notice_db_scheme \<Rightarrow> uuid \<Rightarrow> regulatory_notice option" where
  "notice_row db i = first_where (\<lambda>n. rgn_id n = i) (regulatory_notices db)"

definition card_row :: "'a notice_db_scheme \<Rightarrow> uuid \<Rightarrow> evidence_card option" where
  "card_row db i = first_where (\<lambda>c. crd_id c = i) (evidence_cards db)"

definition severities :: "string list" where "severities = [''low'', ''medium'', ''high'']"

definition diff_statuses :: "string list" where "diff_statuses = [''draft'', ''under_review'', ''reviewed'', ''rejected'']"

definition diff_full_clean :: "'a notice_db_scheme \<Rightarrow> curriculum_diff \<Rightarrow> curriculum_diff result" where
  "diff_full_clean db d =
     (if \<not> (version_exists db (cdf_old_version d) \<and> version_exists db (cdf_new_version d)
            \<and> opt_fk (\<lambda>i. \<exists>c\<in>set (change_sets db). ch_id c = i) (cdf_source_change_set d) \<and> cdf_status d \<in> set diff_statuses
            \<and> cdf_summary d \<noteq> [] \<and> opt_fk (user_exists db) (cdf_reviewed_by d))
      then Inl (field_error ''summary'')
      else ebind (validate_governance_text (cdf_summary d)) (\<lambda>_.
        if cdf_old_version d = cdf_new_version d then Inl (ValidationError ''new_curriculum_version'' ''Diff versions must be different.'')
        else already_exists ''old_curriculum_version'' (\<exists>q\<in>set (curriculum_diffs db). cdf_id q \<noteq> cdf_id d
          \<and> cdf_old_version q = cdf_old_version d \<and> cdf_new_version q = cdf_new_version d) (d\<lparr>cdf_summary := strip (cdf_summary d)\<rparr>)))"

definition diff_change_types :: "string list" where
  "diff_change_types = [''added'', ''removed'', ''renamed'', ''moved'', ''updated'', ''retired'', ''reactivated'', ''assessment_criteria_changed'',
     ''effective_date_changed'']"

definition diff_entity_types :: "string list" where
  "diff_entity_types = [''curriculum_version'', ''grade_level'', ''pathway'', ''learning_area'', ''strand'', ''sub_strand'', ''outcome'', ''competency'',
     ''value'', ''pci'', ''rubric_foundation'', ''assessment_guidance'', ''teacher_training_notice'', ''circular'']"

definition diff_item_full_clean :: "'a notice_db_scheme \<Rightarrow> diff_item \<Rightarrow> diff_item result" where
  "diff_item_full_clean db d =
     (if \<not> (diff_row db (cdi_diff d) \<noteq> None \<and> cdi_change_type d \<in> set diff_change_types \<and> cdi_entity_type d \<in> set diff_entity_types
            \<and> char_field 255 (cdi_entity_identifier d) \<and> length (cdi_old_fingerprint d) \<le> 96 \<and> length (cdi_new_fingerprint d) \<le> 96
            \<and> cdi_summary d \<noteq> [] \<and> cdi_severity d \<in> set severities)
      then Inl (field_error ''change_type'')
      else ebind (require_text (cdi_entity_identifier d) ''entity_identifier'') (\<lambda>_.
        ebind (validate_governance_text (cdi_summary d)) (\<lambda>_.
          Inr (d\<lparr>cdi_entity_identifier := strip (cdi_entity_identifier d), cdi_summary := strip (cdi_summary d)\<rparr>))))"

definition impact_categories :: "string list" where
  "impact_categories = [''senior_school_curriculum'', ''junior_to_senior_transition'', ''assessment_criteria'', ''teacher_readiness'',
     ''scheme_review_required'', ''grading_dependency_future'', ''report_dependency_future'', ''lesson_assistant_dependency_future'',
     ''school_adoption_required'']"

definition impact_fields_ok :: "'a notice_db_scheme \<Rightarrow> curriculum_impact \<Rightarrow> bool" where
  "impact_fields_ok db i \<longleftrightarrow>
     opt_fk (\<lambda>k. diff_row db k \<noteq> None) (cim_diff i) \<and> opt_fk (\<lambda>k. \<exists>d\<in>set (diff_items db). cdi_id d = k) (cim_diff_item i)
     \<and> char_field 128 (cim_stage i) \<and> opt_fk (\<lambda>k. grade_level_row db k \<noteq> None) (cim_grade_level i) \<and> length (cim_pathway i) \<le> 128
     \<and> opt_fk (\<lambda>k. curriculum_area_row db k \<noteq> None) (cim_learning_area i) \<and> opt_fk (\<lambda>k. strand_row db k \<noteq> None) (cim_strand i)
     \<and> opt_fk (\<lambda>k. sub_strand_row db k \<noteq> None) (cim_sub_strand i) \<and> opt_fk (\<lambda>k. outcome_row db k \<noteq> None) (cim_outcome i)
     \<and> opt_fk (\<lambda>k. rubric_row db k \<noteq> None) (cim_rubric i) \<and> cim_category i \<in> set impact_categories
     \<and> cim_severity i \<in> set severities \<and> cim_action_required i \<noteq> []"

definition impact_full_clean :: "'a notice_db_scheme \<Rightarrow> curriculum_impact \<Rightarrow> curriculum_impact result" where
  "impact_full_clean db i =
     (if \<not> impact_fields_ok db i then Inl (field_error ''affected_stage'')
      else ebind (require_text (cim_stage i) ''affected_stage'') (\<lambda>_.
        ebind (validate_governance_text (cim_action_required i)) (\<lambda>_.
          if cim_diff i = None \<and> cim_diff_item i = None
          then Inl (ValidationError ''curriculum_diff'' ''A diff or diff item is required.'')
          else Inr (i\<lparr>cim_stage := strip (cim_stage i), cim_action_required := strip (cim_action_required i)\<rparr>))))"

definition notice_types :: "string list" where
  "notice_types = [''moe_circular'', ''kicd_curriculum_update'', ''knec_assessment_guidance'', ''tsc_teacher_update'', ''teacher_training_notice'',
     ''senior_school_transition_notice'', ''pathway_guidance'', ''implementation_guidance'']"

definition notice_fields_ok :: "'a notice_db_scheme \<Rightarrow> regulatory_notice \<Rightarrow> bool" where
  "notice_fields_ok db n \<longleftrightarrow>
     authority_row db (rgn_authority n) \<noteq> None \<and> opt_fk (\<lambda>i. document_row db i \<noteq> None) (rgn_source_document n)
     \<and> opt_fk (\<lambda>i. artifact_row db i \<noteq> None) (rgn_source_artifact n) \<and> rgn_notice_type n \<in> set notice_types \<and> char_field 255 (rgn_title n)
     \<and> length (rgn_reference_number n) \<le> 128 \<and> rgn_summary n \<noteq> [] \<and> rgn_review_status n \<in> {''pending_review'', ''verified'', ''rejected''}
     \<and> rgn_notice_status n \<in> {''draft'', ''active'', ''archived''} \<and> opt_fk (user_exists db) (rgn_reviewed_by n)"

definition notice_clean :: "'a notice_db_scheme \<Rightarrow> regulatory_notice \<Rightarrow> regulatory_notice result" where
  "notice_clean db n =
     ebind (require_text (rgn_title n) ''title'') (\<lambda>_.
       ebind (echeck validate_governance_text [rgn_title n, rgn_summary n]) (\<lambda>_.
         if \<not> (case authority_row db (rgn_authority n) of None \<Rightarrow> False | Some a \<Rightarrow> au_is_active a \<and> au_is_approved a)
         then Inl (ValidationError ''authority'' ''Authority is not approved.'')
         else if rgn_review_status n = ''verified'' \<and> rgn_source_document n = None \<and> rgn_source_artifact n = None
         then Inl (ValidationError ''review_status'' ''Verified notices require source evidence.'')
         else if rgn_review_status n = ''verified'' \<and> \<not> opt_fk (user_active db) (rgn_reviewed_by n)
         then Inl (ValidationError ''reviewed_by'' ''Reviewer must be active.'')
         else Inr (n\<lparr>rgn_title := strip (rgn_title n), rgn_reference_number := strip (rgn_reference_number n), rgn_summary := strip (rgn_summary n)\<rparr>)))"

definition notice_full_clean :: "'a notice_db_scheme \<Rightarrow> regulatory_notice \<Rightarrow> regulatory_notice result" where
  "notice_full_clean db n =
     (if \<not> notice_fields_ok db n then Inl (field_error ''title'')
      else ebind (notice_clean db n) (\<lambda>n.
        already_exists ''reference_number'' (rgn_reference_number n \<noteq> [] \<and> (\<exists>q\<in>set (regulatory_notices db). rgn_id q \<noteq> rgn_id n
          \<and> rgn_authority q = rgn_authority n \<and> rgn_reference_number q = rgn_reference_number n)) n))"

definition regulatory_categories :: "string list" where
  "regulatory_categories = [''senior_school_pathway'', ''senior_school_readiness'', ''teacher_training'', ''assessment_policy'',
     ''school_infrastructure_readiness'', ''timetable_or_term_guidance'', ''curriculum_implementation'', ''junior_to_senior_transition'']"

definition regulatory_impact_full_clean :: "'a notice_db_scheme \<Rightarrow> regulatory_impact \<Rightarrow> regulatory_impact result" where
  "regulatory_impact_full_clean db i =
     (if \<not> (notice_row db (rgi_notice i) \<noteq> None \<and> opt_fk (\<lambda>k. grade_level_row db k \<noteq> None) (rgi_grade_level i) \<and> length (rgi_pathway i) \<le> 128
            \<and> opt_fk (\<lambda>k. learning_area_row db k \<noteq> None) (rgi_learning_area i) \<and> rgi_category i \<in> set regulatory_categories
            \<and> rgi_severity i \<in> set severities \<and> rgi_action_required i \<noteq> [])
      then Inl (field_error ''impact_category'')
      else ebind (validate_governance_text (rgi_action_required i)) (\<lambda>_. Inr (i\<lparr>rgi_action_required := strip (rgi_action_required i)\<rparr>)))"

definition requirement_types :: "string list" where
  "requirement_types = [''training_required'', ''retooling_required'', ''assessment_training_required'', ''pathway_readiness_required'',
     ''implementation_briefing_required'']"

definition requirement_full_clean :: "'a notice_db_scheme \<Rightarrow> teacher_requirement \<Rightarrow> teacher_requirement result" where
  "requirement_full_clean db r =
     (if \<not> (notice_row db (trq_notice r) \<noteq> None \<and> opt_fk (\<lambda>k. learning_area_row db k \<noteq> None) (trq_learning_area r)
            \<and> opt_fk (\<lambda>k. grade_level_row db k \<noteq> None) (trq_grade_level r) \<and> length (trq_pathway r) \<le> 128
            \<and> trq_type r \<in> set requirement_types \<and> trq_summary r \<noteq> [])
      then Inl (field_error ''requirement_type'')
      else ebind (validate_governance_text (trq_summary r)) (\<lambda>_. Inr (r\<lparr>trq_summary := strip (trq_summary r)\<rparr>)))"

definition card_types :: "string list" where
  "card_types = [''curriculum_update'', ''regulatory_notice'', ''teacher_readiness_update'', ''assessment_guidance_update'',
     ''junior_to_senior_transition_update'', ''school_activation_required'']"

definition card_statuses :: "string list" where
  "card_statuses = [''draft'', ''ready_for_review'', ''issued'', ''acknowledged'', ''archived'']"

definition card_fields_ok :: "'a notice_db_scheme \<Rightarrow> evidence_card \<Rightarrow> bool" where
  "card_fields_ok db c \<longleftrightarrow>
     school_exists db (crd_tenant c) \<and> opt_fk (\<lambda>i. notice_row db i \<noteq> None) (crd_notice c) \<and> opt_fk (\<lambda>i. diff_row db i \<noteq> None) (crd_diff c)
     \<and> opt_fk (\<lambda>i. \<exists>m\<in>set (curriculum_impacts db). cim_id m = i) (crd_impact c) \<and> crd_type c \<in> set card_types \<and> char_field 255 (crd_title c)
     \<and> crd_summary c \<noteq> [] \<and> crd_evidence_summary c \<noteq> [] \<and> crd_required_action c \<noteq> [] \<and> crd_severity c \<in> set severities
     \<and> crd_status c \<in> set card_statuses \<and> opt_fk (user_exists db) (crd_acknowledged_by c)"

definition card_clean :: "'a notice_db_scheme \<Rightarrow> evidence_card \<Rightarrow> evidence_card result" where
  "card_clean db c =
     ebind (require_text (crd_title c) ''title'') (\<lambda>_.
       ebind (echeck validate_governance_text [crd_title c, crd_summary c, crd_evidence_summary c, crd_required_action c]) (\<lambda>_.
         if crd_notice c = None \<and> crd_diff c = None \<and> crd_impact c = None
         then Inl (ValidationError ''regulatory_notice'' ''Notification evidence is required.'')
         else if crd_status c = ''issued'' \<and> \<not> opt_fk (\<lambda>i. map_option rgn_review_status (notice_row db i) = Some ''verified'') (crd_notice c)
         then Inl (ValidationError ''status'' ''Verified source evidence is required before issue.'')
         else Inr (c\<lparr>crd_title := strip (crd_title c), crd_summary := strip (crd_summary c),
           crd_evidence_summary := strip (crd_evidence_summary c), crd_required_action := strip (crd_required_action c)\<rparr>)))"

text \<open>NULL is unequal to NULL: only cards of a notice are unique.\<close>

definition card_full_clean :: "'a notice_db_scheme \<Rightarrow> evidence_card \<Rightarrow> evidence_card result" where
  "card_full_clean db c =
     (if \<not> card_fields_ok db c then Inl (field_error ''title'')
      else ebind (card_clean db c) (\<lambda>c.
        already_exists ''regulatory_notice'' (crd_notice c \<noteq> None \<and> (\<exists>q\<in>set (evidence_cards db). crd_id q \<noteq> crd_id c \<and> crd_tenant q = crd_tenant c
          \<and> crd_notice q = crd_notice c \<and> crd_type q = crd_type c)) c))"

definition acknowledgement_statuses :: "string list" where
  "acknowledgement_statuses = [''acknowledged'', ''needs_internal_review'', ''deferred'', ''rejected_for_school_context'']"

definition acknowledgement_full_clean :: "'a notice_db_scheme \<Rightarrow> acknowledgement \<Rightarrow> acknowledgement result" where
  "acknowledgement_full_clean db k =
     (if \<not> (school_exists db (ack_tenant k) \<and> card_row db (ack_card k) \<noteq> None \<and> user_exists db (ack_by k)
            \<and> ack_status k \<in> set acknowledgement_statuses)
      then Inl (field_error ''acknowledgement_status'')
      else if map_option crd_tenant (card_row db (ack_card k)) \<noteq> Some (ack_tenant k)
      then Inl (ValidationError ''tenant'' ''Acknowledgement tenant does not match notification.'')
      else ebind (if ack_notes k = [] then Inr () else validate_governance_text (ack_notes k)) (\<lambda>_.
        already_exists ''tenant'' (\<exists>q\<in>set (acknowledgements db). ack_id q \<noteq> ack_id k \<and> ack_tenant q = ack_tenant k \<and> ack_card q = ack_card k)
          (k\<lparr>ack_notes := strip (ack_notes k)\<rparr>)))"

section \<open>Tables\<close>

definition add_diff :: "curriculum_diff \<Rightarrow> 'a notice_db_scheme \<Rightarrow> 'a notice_db_scheme" where
  "add_diff r db = db\<lparr>curriculum_diffs := curriculum_diffs db @ [r]\<rparr>"

definition add_diff_item :: "diff_item \<Rightarrow> 'a notice_db_scheme \<Rightarrow> 'a notice_db_scheme" where
  "add_diff_item r db = db\<lparr>diff_items := diff_items db @ [r]\<rparr>"

definition add_curriculum_impact :: "curriculum_impact \<Rightarrow> 'a notice_db_scheme \<Rightarrow> 'a notice_db_scheme" where
  "add_curriculum_impact r db = db\<lparr>curriculum_impacts := curriculum_impacts db @ [r]\<rparr>"

definition add_notice :: "regulatory_notice \<Rightarrow> 'a notice_db_scheme \<Rightarrow> 'a notice_db_scheme" where
  "add_notice r db = db\<lparr>regulatory_notices := regulatory_notices db @ [r]\<rparr>"

definition put_notice :: "regulatory_notice \<Rightarrow> 'a notice_db_scheme \<Rightarrow> 'a notice_db_scheme" where
  "put_notice r db = db\<lparr>regulatory_notices := update_where (\<lambda>q. rgn_id q = rgn_id r) (\<lambda>_. r) (regulatory_notices db)\<rparr>"

definition add_regulatory_impact :: "regulatory_impact \<Rightarrow> 'a notice_db_scheme \<Rightarrow> 'a notice_db_scheme" where
  "add_regulatory_impact r db = db\<lparr>regulatory_impacts := regulatory_impacts db @ [r]\<rparr>"

definition add_requirement :: "teacher_requirement \<Rightarrow> 'a notice_db_scheme \<Rightarrow> 'a notice_db_scheme" where
  "add_requirement r db = db\<lparr>teacher_requirements := teacher_requirements db @ [r]\<rparr>"

definition add_card :: "evidence_card \<Rightarrow> 'a notice_db_scheme \<Rightarrow> 'a notice_db_scheme" where
  "add_card r db = db\<lparr>evidence_cards := evidence_cards db @ [r]\<rparr>"

definition put_card :: "evidence_card \<Rightarrow> 'a notice_db_scheme \<Rightarrow> 'a notice_db_scheme" where
  "put_card r db = db\<lparr>evidence_cards := update_where (\<lambda>q. crd_id q = crd_id r) (\<lambda>_. r) (evidence_cards db)\<rparr>"

definition add_acknowledgement :: "acknowledgement \<Rightarrow> 'a notice_db_scheme \<Rightarrow> 'a notice_db_scheme" where
  "add_acknowledgement r db = db\<lparr>acknowledgements := acknowledgements db @ [r]\<rparr>"

section \<open>Differences and impacts (services.py)\<close>

definition create_curriculum_diff ::
  "uuid \<Rightarrow> uuid \<Rightarrow> uuid \<Rightarrow> string \<Rightarrow> uuid option \<Rightarrow> string \<Rightarrow> ('a notice_db_scheme, curriculum_diff) action" where
  "create_curriculum_diff new_id old_version new_version summary change_set status =
     save_clean diff_full_clean add_diff
       \<lparr>cdf_id = new_id, cdf_old_version = old_version, cdf_new_version = new_version, cdf_source_change_set = change_set, cdf_status = status,
        cdf_summary = summary, cdf_reviewed_at = None, cdf_reviewed_by = None\<rparr>"

text \<open>\<open>item[key]\<close>; the values of an item are texts.\<close>

definition text_at :: "(string \<times> json) list \<Rightarrow> string \<Rightarrow> string result" where
  "text_at item key = (case map_of item key of None \<Rightarrow> Inl KeyError | Some v \<Rightarrow> Inr (json_str v))"

definition read_diff_item :: "(nat \<Rightarrow> uuid) \<Rightarrow> uuid \<Rightarrow> nat \<times> (string \<times> json) list \<Rightarrow> diff_item result" where
  "read_diff_item new_ids diff_id = (\<lambda>(k, item).
     ebind (emap (text_at item) [''change_type'', ''entity_type'', ''entity_identifier'', ''summary'']) (\<lambda>t.
       Inr \<lparr>cdi_id = new_ids k, cdi_diff = diff_id, cdi_change_type = t ! 0, cdi_entity_type = t ! 1, cdi_entity_identifier = t ! 2,
            cdi_old_fingerprint = json_str (jget_or item ''old_value_fingerprint'' (JStr [])),
            cdi_new_fingerprint = json_str (jget_or item ''new_value_fingerprint'' (JStr [])), cdi_summary = t ! 3,
            cdi_severity = json_str (jget_or item ''severity'' (JStr ''medium'')),
            cdi_requires_review = json_truthy (jget_or item ''requires_review'' (JBool True))\<rparr>))"

definition create_curriculum_diff_items ::
  "(nat \<Rightarrow> uuid) \<Rightarrow> uuid \<Rightarrow> (string \<times> json) list list \<Rightarrow> ('a notice_db_scheme, diff_item list) action" where
  "create_curriculum_diff_items new_ids diff_id items =
     atomic (aeach (\<lambda>item. abind (alift (read_diff_item new_ids diff_id item)) (save_clean diff_item_full_clean add_diff_item)) (numbered items))"

definition impact_item :: "'a catalogue_db_scheme \<Rightarrow> diff_item \<Rightarrow> string \<Rightarrow> uuid option \<Rightarrow> uuid option \<Rightarrow> (string \<times> string) list" where
  "impact_item db d stage grade_level area =
     [(''change_type'', cdi_change_type d), (''entity_type'', cdi_entity_type d), (''entity_identifier'', cdi_entity_identifier d),
      (''summary'', cdi_summary d), (''affected_stage'', stage),
      (''affected_grade_level'', (case Option.bind grade_level (grade_level_row db) of None \<Rightarrow> [] | Some g \<Rightarrow> gl_name g)),
      (''affected_learning_area'', (case Option.bind area (\<lambda>i. first_where (\<lambda>a. cl_id a = i) (area_details db)) of
         None \<Rightarrow> [] | Some a \<Rightarrow> cl_official_name a))]"

text \<open>The item is the object the caller holds.\<close>

definition save_impact ::
  "(nat \<Rightarrow> uuid) \<Rightarrow> diff_item \<Rightarrow> string \<Rightarrow> uuid option \<Rightarrow> uuid option \<Rightarrow> nat \<times> diff_impact \<Rightarrow> ('a notice_db_scheme, curriculum_impact) action" where
  "save_impact new_ids d stage grade_level area = (\<lambda>(k, p). save_clean impact_full_clean add_curriculum_impact
     \<lparr>cim_id = new_ids k, cim_diff = Some (cdi_diff d), cim_diff_item = Some (cdi_id d), cim_stage = stage, cim_grade_level = grade_level,
      cim_pathway = [], cim_learning_area = area, cim_strand = None, cim_sub_strand = None, cim_outcome = None, cim_rubric = None,
      cim_category = di_category p, cim_severity = di_severity p, cim_action_required = di_action p\<rparr>)"

definition analyze_curriculum_impact ::
  "(nat \<Rightarrow> uuid) \<Rightarrow> diff_item \<Rightarrow> string \<Rightarrow> uuid option \<Rightarrow> uuid option \<Rightarrow> ('a notice_db_scheme, curriculum_impact list) action" where
  "analyze_curriculum_impact new_ids d stage grade_level area =
     atomic (abind (query (\<lambda>db. Inr (analyze_diff_item_impact (impact_item db d stage grade_level area)))) (\<lambda>proposals.
       aeach (save_impact new_ids d stage grade_level area) (numbered proposals)))"

section \<open>Notices and their consequences (services.py)\<close>

definition affects_senior :: "string \<Rightarrow> string \<Rightarrow> bool" where
  "affects_senior title summary \<longleftrightarrow>
     (\<exists>s\<in>{''senior school'', ''grade 10'', ''grade 11'', ''grade 12''}. contains s (lower (title @ '' '' @ summary)))"

definition new_notice ::
  "time \<Rightarrow> uuid \<Rightarrow> authority \<Rightarrow> string \<Rightarrow> string \<Rightarrow> string option \<Rightarrow> uuid option \<Rightarrow> uuid option \<Rightarrow> string \<Rightarrow> date option \<Rightarrow> date option
     \<Rightarrow> string \<Rightarrow> user option \<Rightarrow> regulatory_notice" where
  "new_notice now new_id a title summary notice_type document artifact reference published effective review_status reviewed_by =
     (let signals = map_junior_to_senior_signals title summary; verified = (review_status = ''verified'') in
      \<lparr>rgn_id = new_id, rgn_authority = au_id a, rgn_source_document = document, rgn_source_artifact = artifact,
       rgn_notice_type = (case notice_type of None \<Rightarrow> classify_notice (au_code a) title summary
         | Some t \<Rightarrow> if t = [] then classify_notice (au_code a) title summary else t),
       rgn_title = title, rgn_reference_number = reference, rgn_publication_date = published, rgn_effective_date = effective,
       rgn_summary = summary, rgn_review_status = review_status, rgn_notice_status = ''draft'',
       rgn_affects_senior = (affects_senior title summary \<or> signals \<noteq> []), rgn_affects_transition = (signals \<noteq> []),
       rgn_reviewed_at = (if verified then Some now else None),
       rgn_reviewed_by = (if verified then map_option us_id reviewed_by else None)\<rparr>)"

definition register_regulatory_notice ::
  "time \<Rightarrow> uuid \<Rightarrow> authority \<Rightarrow> string \<Rightarrow> string \<Rightarrow> string option \<Rightarrow> uuid option \<Rightarrow> uuid option \<Rightarrow> string \<Rightarrow> date option \<Rightarrow> date option
     \<Rightarrow> string \<Rightarrow> user option \<Rightarrow> ('a notice_db_scheme, regulatory_notice) action" where
  "register_regulatory_notice now new_id a title summary notice_type document artifact reference published effective review_status reviewed_by =
     atomic (abind (query (\<lambda>db. if review_status \<noteq> ''verified'' then Inr ()
         else ebind (require_curriculum_truth_manager db ''reviewed_by'' reviewed_by) (\<lambda>_. Inr ()))) (\<lambda>_.
       save_clean notice_full_clean add_notice
         (new_notice now new_id a title summary notice_type document artifact reference published effective review_status reviewed_by)))"

text \<open>The notice is the object the caller holds, and its authority is read from the database.\<close>

definition classified_notice :: "'a evidence_db_scheme \<Rightarrow> regulatory_notice \<Rightarrow> regulatory_notice result" where
  "classified_notice db n =
     (case authority_row db (rgn_authority n) of None \<Rightarrow> Inl DoesNotExist
      | Some a \<Rightarrow>
          let signals = map_junior_to_senior_signals (rgn_title n) (rgn_summary n) in
          Inr (n\<lparr>rgn_notice_type := classify_notice (au_code a) (rgn_title n) (rgn_summary n), rgn_affects_transition := (signals \<noteq> []),
                 rgn_affects_senior := (signals \<noteq> [] \<or> rgn_affects_senior n)\<rparr>))"

definition classify_regulatory_notice :: "regulatory_notice \<Rightarrow> ('a notice_db_scheme, regulatory_notice) action" where
  "classify_regulatory_notice n = atomic (abind (query (\<lambda>db. classified_notice db n)) (save_clean notice_full_clean put_notice))"

definition create_regulatory_impact ::
  "uuid \<Rightarrow> uuid \<Rightarrow> string \<Rightarrow> string \<Rightarrow> uuid option \<Rightarrow> uuid option \<Rightarrow> string \<Rightarrow> string \<Rightarrow> ('a notice_db_scheme, regulatory_impact) action" where
  "create_regulatory_impact new_id notice_id category action_required grade_level area pathway severity =
     save_clean regulatory_impact_full_clean add_regulatory_impact
       \<lparr>rgi_id = new_id, rgi_notice = notice_id, rgi_grade_level = grade_level, rgi_pathway = pathway, rgi_learning_area = area,
        rgi_category = category, rgi_severity = severity, rgi_action_required = action_required\<rparr>"

definition map_teacher_readiness_requirement ::
  "uuid \<Rightarrow> regulatory_notice \<Rightarrow> string \<Rightarrow> uuid option \<Rightarrow> uuid option \<Rightarrow> string \<Rightarrow> string option \<Rightarrow> ('a notice_db_scheme, teacher_requirement) action" where
  "map_teacher_readiness_requirement new_id n summary area grade_level pathway requirement_type =
     (let mapped = map_teacher_requirement (rgn_title n) (rgn_summary n @ '' '' @ summary) in
      save_clean requirement_full_clean add_requirement
        \<lparr>trq_id = new_id, trq_notice = rgn_id n, trq_learning_area = area, trq_grade_level = grade_level, trq_pathway = pathway,
         trq_type = (case requirement_type of None \<Rightarrow> mapped | Some t \<Rightarrow> if t = [] then mapped else t), trq_summary = summary,
         trq_effective_from = rgn_effective_date n, trq_is_active = True\<rparr>)"

section \<open>Evidence cards (services.py)\<close>

record card_source =
  cs_authority_name :: string
  cs_source_reference :: string
  cs_checksum :: string
  cs_review_status :: string

definition card_source_of :: "'a catalogue_db_scheme \<Rightarrow> regulatory_notice option \<Rightarrow> card_source result" where
  "card_source_of db notice_of_card =
     (case notice_of_card of
        None \<Rightarrow> Inr \<lparr>cs_authority_name = ''Curriculum source'', cs_source_reference = ''Curriculum diff evidence'', cs_checksum = [], cs_review_status = ''approved''\<rparr>
      | Some n \<Rightarrow>
          let source = Option.bind (rgn_source_document n) (document_row db); artifact = Option.bind (rgn_source_artifact n) (artifact_row db);
              artifact_checksum = (case artifact of None \<Rightarrow> [] | Some f \<Rightarrow> sa_checksum f) in
          case authority_row db (rgn_authority n) of None \<Rightarrow> Inl DoesNotExist
          | Some a \<Rightarrow> Inr \<lparr>cs_authority_name = au_name a,
              cs_source_reference = (case source of Some d \<Rightarrow> dm_document_code d | None \<Rightarrow> (case artifact of None \<Rightarrow> [] | Some f \<Rightarrow> sa_file_name f)),
              cs_checksum = (case source of Some d \<Rightarrow> if dm_checksum d \<noteq> [] then dm_checksum d else artifact_checksum | None \<Rightarrow> artifact_checksum),
              cs_review_status = rgn_review_status n\<rparr>)"

text \<open>The notice is the object the caller holds.\<close>

definition new_card ::
  "uuid \<Rightarrow> school \<Rightarrow> regulatory_notice option \<Rightarrow> uuid option \<Rightarrow> uuid option \<Rightarrow> string \<Rightarrow> string \<Rightarrow> string \<Rightarrow> string
     \<Rightarrow> 'a catalogue_db_scheme \<Rightarrow> evidence_card result" where
  "new_card new_id tenant n diff_id impact_id notification_type impact_summary required_action severity db =
     (if n = None \<and> diff_id = None \<and> impact_id = None then Inl (ValidationError ''regulatory_notice'' ''Source evidence is required.'')
      else ebind (card_source_of db n) (\<lambda>s.
        ebind (build_notification_payload (cs_authority_name s) (cs_source_reference s) (cs_checksum s) (cs_review_status s) impact_summary required_action) (\<lambda>p.
          Inr \<lparr>crd_id = new_id, crd_tenant = sc_id tenant, crd_notice = map_option rgn_id n, crd_diff = diff_id, crd_impact = impact_id,
            crd_type = notification_type, crd_title = np_title p, crd_summary = np_summary p, crd_evidence_summary = np_evidence_summary p,
            crd_required_action = np_required_action p, crd_severity = severity, crd_status = ''ready_for_review'',
            crd_acknowledged_at = None, crd_acknowledged_by = None\<rparr>)))"

definition build_principal_notification_evidence_card ::
  "uuid \<Rightarrow> school \<Rightarrow> regulatory_notice option \<Rightarrow> uuid option \<Rightarrow> uuid option \<Rightarrow> string \<Rightarrow> string \<Rightarrow> string \<Rightarrow> string
     \<Rightarrow> ('a notice_db_scheme, evidence_card) action" where
  "build_principal_notification_evidence_card new_id tenant n diff_id impact_id notification_type impact_summary required_action severity =
     atomic (abind (query (new_card new_id tenant n diff_id impact_id notification_type impact_summary required_action severity))
       (save_clean card_full_clean add_card))"

text \<open>The card is the object the caller holds.\<close>

definition issue_principal_notification_evidence_card :: "evidence_card \<Rightarrow> ('a notice_db_scheme, evidence_card) action" where
  "issue_principal_notification_evidence_card c =
     (if crd_status c \<noteq> ''ready_for_review'' then alift (Inl (ValidationError ''status'' ''Evidence card is not ready for issue.''))
      else save_clean card_full_clean put_card (c\<lparr>crd_status := ''issued''\<rparr>))"

definition acknowledge_school_update ::
  "time \<Rightarrow> uuid \<Rightarrow> evidence_card \<Rightarrow> school \<Rightarrow> uuid \<Rightarrow> string \<Rightarrow> string \<Rightarrow> ('a notice_db_scheme, acknowledgement) action" where
  "acknowledge_school_update now new_id c tenant acknowledged_by status notes =
     (if crd_tenant c \<noteq> sc_id tenant then alift (Inl (ValidationError ''tenant'' ''Acknowledgement tenant is invalid.''))
      else if crd_status c \<notin> {''issued'', ''acknowledged''} then alift (Inl (ValidationError ''status'' ''Notification has not been issued.''))
      else atomic (abind (save_clean acknowledgement_full_clean add_acknowledgement
          \<lparr>ack_id = new_id, ack_tenant = sc_id tenant, ack_card = crd_id c, ack_by = acknowledged_by, ack_at = now, ack_status = status, ack_notes = notes\<rparr>) (\<lambda>k.
        abind (save_clean card_full_clean put_card
          (c\<lparr>crd_status := ''acknowledged'', crd_acknowledged_at := Some (ack_at k), crd_acknowledged_by := Some acknowledged_by\<rparr>)) (\<lambda>_.
          alift (Inr k)))))"

definition archive_notification_evidence_card :: "evidence_card \<Rightarrow> ('a notice_db_scheme, evidence_card) action" where
  "archive_notification_evidence_card c = save_clean card_full_clean put_card (c\<lparr>crd_status := ''archived''\<rparr>)"

end
