(* ===== verification/CatalogueFacts.thy ===== *)
theory CatalogueFacts
  imports Catalogue EvidenceFacts
begin

text \<open>
  What holds of the curriculum structure in every state its services reach: the tree from a rubric up to
  its curriculum version is never broken, names are unique under a parent, a source document has one
  active version, and the columns the grading application reads are those of the full rows.
\<close>

section \<open>Coherent tables\<close>

definition versions_ok :: "'a catalogue_db_scheme \<Rightarrow> bool" where
  "versions_ok db \<longleftrightarrow> (\<forall>p\<in>set (versions db). \<forall>q\<in>set (versions db). \<not> version_clash p q) \<and>
     (\<forall>v\<in>set (versions db). case cv_effective_to v of None \<Rightarrow> True | Some e \<Rightarrow> cv_effective_from v < e)"

definition curriculum_areas_ok :: "'a catalogue_db_scheme \<Rightarrow> bool" where
  "curriculum_areas_ok db \<longleftrightarrow> curriculum_areas db = map curriculum_learning_area.truncate (area_details db) \<and>
     (\<forall>a\<in>set (area_details db). version_row db (cl_version a) \<noteq> None \<and>
        map_option la_grade_level (learning_area_row db (cl_learning_area a)) = Some (cl_grade_level a)) \<and>
     (\<forall>p\<in>set (area_details db). \<forall>q\<in>set (area_details db). \<not> area_clash p q)"

definition strands_ok :: "'a catalogue_db_scheme \<Rightarrow> bool" where
  "strands_ok db \<longleftrightarrow> strands db = map strand.truncate (strand_details db) \<and>
     (\<forall>s\<in>set (strand_details db). curriculum_area_row db (sd_curriculum_learning_area s) \<noteq> None) \<and>
     (\<forall>p\<in>set (strand_details db). \<forall>q\<in>set (strand_details db). \<not> strand_clash p q)"

definition sub_strands_ok :: "'a catalogue_db_scheme \<Rightarrow> bool" where
  "sub_strands_ok db \<longleftrightarrow> sub_strands db = map sub_strand.truncate (sub_strand_details db) \<and>
     (\<forall>s\<in>set (sub_strand_details db). strand_row db (su_strand s) \<noteq> None) \<and>
     (\<forall>p\<in>set (sub_strand_details db). \<forall>q\<in>set (sub_strand_details db). \<not> sub_strand_clash p q)"

definition outcomes_ok :: "'a catalogue_db_scheme \<Rightarrow> bool" where
  "outcomes_ok db \<longleftrightarrow> outcomes db = map outcome.truncate (outcome_details db) \<and>
     (\<forall>r\<in>set (outcome_details db). sub_strand_row db (lo_sub_strand r) \<noteq> None)"

definition rubrics_ok :: "'a catalogue_db_scheme \<Rightarrow> bool" where
  "rubrics_ok db \<longleftrightarrow> rubrics db = map rubric.truncate (rubric_details db) \<and>
     (\<forall>r\<in>set (rubric_details db). (rf_sub_strand r = None) \<noteq> (rf_learning_outcome r = None) \<and>
        opt_fk (\<lambda>i. sub_strand_row db i \<noteq> None) (rf_sub_strand r) \<and> opt_fk (\<lambda>i. outcome_row db i \<noteq> None) (rf_learning_outcome r)) \<and>
     (\<forall>p\<in>set (rubric_details db). \<forall>q\<in>set (rubric_details db). \<not> rubric_clash p q)"

definition catalogue_ok :: "'a catalogue_db_scheme \<Rightarrow> bool" where
  "catalogue_ok db \<longleftrightarrow> versions_ok db \<and> curriculum_areas_ok db \<and> strands_ok db \<and> sub_strands_ok db \<and> outcomes_ok db \<and> rubrics_ok db"

text \<open>Rows that can be looked up stay.\<close>

definition catalogue_grows :: "'a catalogue_db_scheme \<Rightarrow> 'a catalogue_db_scheme \<Rightarrow> bool" where
  "catalogue_grows db db' \<longleftrightarrow> (\<forall>i. version_row db i \<noteq> None \<longrightarrow> version_row db' i \<noteq> None) \<and>
     (\<forall>i. curriculum_area_row db i \<noteq> None \<longrightarrow> curriculum_area_row db' i \<noteq> None) \<and> (\<forall>i. strand_row db i \<noteq> None \<longrightarrow> strand_row db' i \<noteq> None) \<and>
     (\<forall>i. sub_strand_row db i \<noteq> None \<longrightarrow> sub_strand_row db' i \<noteq> None) \<and> (\<forall>i. outcome_row db i \<noteq> None \<longrightarrow> outcome_row db' i \<noteq> None) \<and>
     learning_areas db' = learning_areas db"

named_theorems add_rows \<open>what inserting a row does to the tables\<close>

lemmas [add_rows] = add_version_def add_area_def add_strand_def add_sub_strand_def add_outcome_def add_rubric_def add_document_def
  add_artifact_def add_grade_mapping_def add_competency_link_def add_value_link_def add_pci_link_def

lemma first_where_grows: "first_where P xs \<noteq> None \<Longrightarrow> first_where P (xs @ ys) \<noteq> None"
  by (auto simp: first_where_append)

lemma add_grows:
  "catalogue_grows db (add_version v db)" "catalogue_grows db (add_area a db)" "catalogue_grows db (add_strand s db)"
  "catalogue_grows db (add_sub_strand u db)" "catalogue_grows db (add_outcome p db)" "catalogue_grows db (add_rubric r db)"
  "catalogue_grows db (add_document d db)" "catalogue_grows db (add_artifact f db)" "catalogue_grows db (add_grade_mapping m db)"
  "catalogue_grows db (add_competency_link l db)" "catalogue_grows db (add_value_link l db)" "catalogue_grows db (add_pci_link l db)"
  using first_where_grows
  by (auto simp: catalogue_grows_def add_rows version_row_def curriculum_area_row_def strand_row_def sub_strand_row_def outcome_row_def
      first_where_append split: option.splits)

lemma opt_fk_grows:
  "opt_fk (\<lambda>i. \<exists>y. f i = Some y) k \<Longrightarrow> \<forall>i. (\<exists>y. f i = Some y) \<longrightarrow> (\<exists>y. g i = Some y) \<Longrightarrow> opt_fk (\<lambda>i. \<exists>y. g i = Some y) k"
  by (cases k) (simp_all add: opt_fk_def)

lemma catalogue_frame:
  assumes "catalogue_grows db db'"
  shows "versions db' = versions db \<Longrightarrow> versions_ok db \<Longrightarrow> versions_ok db'"
    and "curriculum_areas db' = curriculum_areas db \<Longrightarrow> area_details db' = area_details db \<Longrightarrow> curriculum_areas_ok db \<Longrightarrow> curriculum_areas_ok db'"
    and "strands db' = strands db \<Longrightarrow> strand_details db' = strand_details db \<Longrightarrow> strands_ok db \<Longrightarrow> strands_ok db'"
    and "sub_strands db' = sub_strands db \<Longrightarrow> sub_strand_details db' = sub_strand_details db \<Longrightarrow> sub_strands_ok db \<Longrightarrow> sub_strands_ok db'"
    and "outcomes db' = outcomes db \<Longrightarrow> outcome_details db' = outcome_details db \<Longrightarrow> outcomes_ok db \<Longrightarrow> outcomes_ok db'"
    and "rubrics db' = rubrics db \<Longrightarrow> rubric_details db' = rubric_details db \<Longrightarrow> rubrics_ok db \<Longrightarrow> rubrics_ok db'"
proof -
  note g = assms [unfolded catalogue_grows_def]
  have l: "learning_area_row db' = learning_area_row db" using g by (simp add: fun_eq_iff learning_area_row_def)
  show "versions db' = versions db \<Longrightarrow> versions_ok db \<Longrightarrow> versions_ok db'" by (simp add: versions_ok_def)
  show "curriculum_areas db' = curriculum_areas db \<Longrightarrow> area_details db' = area_details db \<Longrightarrow> curriculum_areas_ok db \<Longrightarrow> curriculum_areas_ok db'"
    using g by (auto simp: curriculum_areas_ok_def l)
  show "strands db' = strands db \<Longrightarrow> strand_details db' = strand_details db \<Longrightarrow> strands_ok db \<Longrightarrow> strands_ok db'"
    using g by (auto simp: strands_ok_def)
  show "sub_strands db' = sub_strands db \<Longrightarrow> sub_strand_details db' = sub_strand_details db \<Longrightarrow> sub_strands_ok db \<Longrightarrow> sub_strands_ok db'"
    using g by (auto simp: sub_strands_ok_def)
  show "outcomes db' = outcomes db \<Longrightarrow> outcome_details db' = outcome_details db \<Longrightarrow> outcomes_ok db \<Longrightarrow> outcomes_ok db'"
    using g by (auto simp: outcomes_ok_def)
  show "rubrics db' = rubrics db \<Longrightarrow> rubric_details db' = rubric_details db \<Longrightarrow> rubrics_ok db \<Longrightarrow> rubrics_ok db'"
    using g by (auto simp: rubrics_ok_def elim: opt_fk_grows)
qed

lemma catalogue_clash_sym:
  "version_clash p q \<Longrightarrow> version_clash q p" "area_clash a b \<Longrightarrow> area_clash b a" "strand_clash s t \<Longrightarrow> strand_clash t s"
  "sub_strand_clash u v \<Longrightarrow> sub_strand_clash v u" "rubric_clash x y \<Longrightarrow> rubric_clash y x"
  by (auto simp: version_clash_def area_clash_def strand_clash_def sub_strand_clash_def rubric_clash_def)

lemma catalogue_clash_irrefl: "\<not> version_clash p p" "\<not> area_clash a a" "\<not> strand_clash s s" "\<not> sub_strand_clash u u" "\<not> rubric_clash x x"
  by (simp_all add: version_clash_def area_clash_def strand_clash_def sub_strand_clash_def rubric_clash_def)

lemma no_clash_append:
  assumes "\<forall>p\<in>set xs. \<forall>q\<in>set xs. \<not> C p q" and "\<forall>q\<in>set xs. \<not> C q r" and "\<And>p q. C p q \<Longrightarrow> C q p" and "\<not> C r r"
  shows "\<forall>p\<in>set (xs @ [r]). \<forall>q\<in>set (xs @ [r]). \<not> C p q"
  using assms by auto

lemma already_exists_Inr: "already_exists f c r = Inr r' \<longleftrightarrow> \<not> c \<and> r' = r"
  by (auto simp: already_exists_def)

section \<open>Every service keeps the tables coherent\<close>

lemma version_full_clean_Inr:
  assumes "version_full_clean db v = Inr v'"
  shows "(\<forall>q\<in>set (versions db). \<not> version_clash q v') \<and> (case cv_effective_to v' of None \<Rightarrow> True | Some e \<Rightarrow> cv_effective_from v' < e)"
  using assms by (auto simp: version_full_clean_def version_clean_def ebind_eq_Inr already_exists_Inr split: if_split_asm option.splits)

lemma area_full_clean_Inr:
  assumes "area_full_clean db a = Inr a'"
  shows "version_row db (cl_version a') \<noteq> None \<and> map_option la_grade_level (learning_area_row db (cl_learning_area a')) = Some (cl_grade_level a') \<and>
    (\<forall>q\<in>set (area_details db). \<not> area_clash q a')"
  using assms by (auto simp: area_full_clean_def area_clean_def version_exists_def ebind_eq_Inr already_exists_Inr split: if_split_asm)

lemma strand_full_clean_Inr:
  assumes "strand_full_clean db s = Inr s'"
  shows "curriculum_area_row db (sd_curriculum_learning_area s') \<noteq> None \<and> (\<forall>q\<in>set (strand_details db). \<not> strand_clash q s')"
  using assms by (auto simp: strand_full_clean_def ebind_eq_Inr already_exists_Inr Let_def split: if_split_asm)

lemma sub_strand_full_clean_Inr:
  assumes "sub_strand_full_clean db s = Inr s'"
  shows "strand_row db (su_strand s') \<noteq> None \<and> (\<forall>q\<in>set (sub_strand_details db). \<not> sub_strand_clash q s')"
  using assms by (auto simp: sub_strand_full_clean_def ebind_eq_Inr already_exists_Inr Let_def split: if_split_asm)

lemma outcome_full_clean_Inr: "outcome_full_clean db r = Inr r' \<Longrightarrow> sub_strand_row db (lo_sub_strand r') \<noteq> None"
  by (auto simp: outcome_full_clean_def ebind_eq_Inr split: if_split_asm)

lemma rubric_full_clean_Inr:
  assumes "rubric_full_clean db r = Inr r'"
  shows "(rf_sub_strand r' = None) \<noteq> (rf_learning_outcome r' = None) \<and> opt_fk (\<lambda>i. sub_strand_row db i \<noteq> None) (rf_sub_strand r') \<and>
    opt_fk (\<lambda>i. outcome_row db i \<noteq> None) (rf_learning_outcome r') \<and> (\<forall>q\<in>set (rubric_details db). \<not> rubric_clash q r')"
  using assms by (auto simp: rubric_full_clean_def rubric_clean_def ebind_eq_Inr already_exists_Inr split: if_split_asm)

lemmas catalogue_parts = catalogue_ok_def versions_ok_def curriculum_areas_ok_def strands_ok_def sub_strands_ok_def outcomes_ok_def rubrics_ok_def

interpretation version_rows: clean_store version_full_clean add_version catalogue_ok
proof
  fix db :: "'a catalogue_db_scheme" and v v'
  assume ok: "catalogue_ok db" and "version_full_clean db v = Inr v'"
  from version_full_clean_Inr [OF this(2)] have v: "\<forall>q\<in>set (versions db). \<not> version_clash q v'"
    and w: "case cv_effective_to v' of None \<Rightarrow> True | Some e \<Rightarrow> cv_effective_from v' < e" by blast+
  have "versions_ok (add_version v' db)"
    using no_clash_append [where C = version_clash, OF _ v catalogue_clash_sym(1) catalogue_clash_irrefl(1)] w ok by (simp add: catalogue_ok_def versions_ok_def add_rows)
  then show "catalogue_ok (add_version v' db)"
    using ok catalogue_frame(2-6) [OF add_grows(1) [where db = db and v = v']] by (simp add: catalogue_ok_def add_rows)
qed

interpretation area_rows: clean_store area_full_clean add_area catalogue_ok
proof
  fix db :: "'a catalogue_db_scheme" and a a'
  assume ok: "catalogue_ok db" and "area_full_clean db a = Inr a'"
  from area_full_clean_Inr [OF this(2)] have r: "version_row db (cl_version a') \<noteq> None"
      "map_option la_grade_level (learning_area_row db (cl_learning_area a')) = Some (cl_grade_level a')"
    and c: "\<forall>q\<in>set (area_details db). \<not> area_clash q a'" by blast+
  have "version_row (add_area a' db) = version_row db" "learning_area_row (add_area a' db) = learning_area_row db"
    by (simp_all add: fun_eq_iff version_row_def learning_area_row_def add_rows)
  then have "curriculum_areas_ok (add_area a' db)"
    using no_clash_append [where C = area_clash, OF _ c catalogue_clash_sym(2) catalogue_clash_irrefl(2)] r ok by (simp add: catalogue_ok_def curriculum_areas_ok_def) (simp add: add_rows)
  then show "catalogue_ok (add_area a' db)"
    using ok catalogue_frame(1,3-6) [OF add_grows(2) [where db = db and a = a']] by (simp add: catalogue_ok_def add_rows)
qed

interpretation strand_rows: clean_store strand_full_clean add_strand catalogue_ok
proof
  fix db :: "'a catalogue_db_scheme" and s s'
  assume ok: "catalogue_ok db" and "strand_full_clean db s = Inr s'"
  from strand_full_clean_Inr [OF this(2)] have r: "curriculum_area_row db (sd_curriculum_learning_area s') \<noteq> None"
    and c: "\<forall>q\<in>set (strand_details db). \<not> strand_clash q s'" by blast+
  have "curriculum_area_row (add_strand s' db) = curriculum_area_row db" by (simp add: fun_eq_iff curriculum_area_row_def add_rows)
  then have "strands_ok (add_strand s' db)"
    using no_clash_append [where C = strand_clash, OF _ c catalogue_clash_sym(3) catalogue_clash_irrefl(3)] r ok by (simp add: catalogue_ok_def strands_ok_def) (simp add: add_rows)
  then show "catalogue_ok (add_strand s' db)"
    using ok catalogue_frame(1,2,4-6) [OF add_grows(3) [where db = db and s = s']] by (simp add: catalogue_ok_def add_rows)
qed

interpretation sub_strand_rows: clean_store sub_strand_full_clean add_sub_strand catalogue_ok
proof
  fix db :: "'a catalogue_db_scheme" and s s'
  assume ok: "catalogue_ok db" and "sub_strand_full_clean db s = Inr s'"
  from sub_strand_full_clean_Inr [OF this(2)] have r: "strand_row db (su_strand s') \<noteq> None"
    and c: "\<forall>q\<in>set (sub_strand_details db). \<not> sub_strand_clash q s'" by blast+
  have "strand_row (add_sub_strand s' db) = strand_row db" by (simp add: fun_eq_iff strand_row_def add_rows)
  then have "sub_strands_ok (add_sub_strand s' db)"
    using no_clash_append [where C = sub_strand_clash, OF _ c catalogue_clash_sym(4) catalogue_clash_irrefl(4)] r ok by (simp add: catalogue_ok_def sub_strands_ok_def) (simp add: add_rows)
  then show "catalogue_ok (add_sub_strand s' db)"
    using ok catalogue_frame(1-3,5,6) [OF add_grows(4) [where db = db and u = s']] by (simp add: catalogue_ok_def add_rows)
qed

interpretation outcome_rows: clean_store outcome_full_clean add_outcome catalogue_ok
proof
  fix db :: "'a catalogue_db_scheme" and p p'
  assume ok: "catalogue_ok db" and f: "outcome_full_clean db p = Inr p'"
  have "sub_strand_row (add_outcome p' db) = sub_strand_row db" by (simp add: fun_eq_iff sub_strand_row_def add_rows)
  then have "outcomes_ok (add_outcome p' db)"
    using outcome_full_clean_Inr [OF f] ok by (simp add: catalogue_ok_def outcomes_ok_def) (simp add: add_rows)
  then show "catalogue_ok (add_outcome p' db)"
    using ok catalogue_frame(1-4,6) [OF add_grows(5) [where db = db and p = p']] by (simp add: catalogue_ok_def add_rows)
qed

interpretation rubric_rows: clean_store rubric_full_clean add_rubric catalogue_ok
proof
  fix db :: "'a catalogue_db_scheme" and r r'
  assume ok: "catalogue_ok db" and f: "rubric_full_clean db r = Inr r'"
  note i = rubric_full_clean_Inr [OF f]
  have e: "sub_strand_row (add_rubric r' db) = sub_strand_row db" "outcome_row (add_rubric r' db) = outcome_row db"
    by (simp_all add: fun_eq_iff sub_strand_row_def outcome_row_def add_rows)
  have c: "\<forall>q\<in>set (rubric_details db). \<not> rubric_clash q r'" using i by blast
  have "rubrics_ok (add_rubric r' db)"
    using no_clash_append [where C = rubric_clash, OF _ c catalogue_clash_sym(5) catalogue_clash_irrefl(5)] i ok by (simp add: catalogue_ok_def rubrics_ok_def e) (simp add: add_rows)
  then show "catalogue_ok (add_rubric r' db)"
    using ok catalogue_frame(1-5) [OF add_grows(6) [where db = db and r = r']] by (simp add: catalogue_ok_def add_rows)
qed

text \<open>Documents, artifacts, grade mappings and links are other tables.\<close>

lemma add_others: "catalogue_ok db \<Longrightarrow> catalogue_ok (add_document d db)" "catalogue_ok db \<Longrightarrow> catalogue_ok (add_artifact f db)"
  "catalogue_ok db \<Longrightarrow> catalogue_ok (add_grade_mapping m db)" "catalogue_ok db \<Longrightarrow> catalogue_ok (add_competency_link l db)"
  "catalogue_ok db \<Longrightarrow> catalogue_ok (add_value_link l db)" "catalogue_ok db \<Longrightarrow> catalogue_ok (add_pci_link l db)"
  using catalogue_frame [OF add_grows(7) [where db = db and d = d]] catalogue_frame [OF add_grows(8) [where db = db and f = f]]
    catalogue_frame [OF add_grows(9) [where db = db and m = m]] catalogue_frame [OF add_grows(10) [where db = db and l = l]]
    catalogue_frame [OF add_grows(11) [where db = db and l = l]] catalogue_frame [OF add_grows(12) [where db = db and l = l]]
  by (simp_all add: catalogue_ok_def add_rows)

section \<open>The catalogue in every reachable state\<close>

text \<open>The services in any order, with any arguments and any ids.\<close>

inductive catalogue_step :: "(string \<Rightarrow> bool) \<Rightarrow> (string \<Rightarrow> string) \<Rightarrow> 'a catalogue_db_scheme \<Rightarrow> 'a catalogue_db_scheme \<Rightarrow> bool"
  for url_ok sha where
  registers_document: "catalogue_step url_ok sha db (snd (register_source_document url_ok i au t c l u k db))"
| registers_artifact: "catalogue_step url_ok sha db (snd (register_source_artifact sha now i d f ct n content m db))"
| creates_document: "catalogue_step url_ok sha db (snd (create_curriculum_source_document url_ok i au t c l u k db))"
| creates_version: "catalogue_step url_ok sha db (snd (create_curriculum_version i d l f e act db))"
| maps_grade: "catalogue_step url_ok sha db (snd (map_grade_level_to_curriculum_version i g st v act db))"
| maps_area: "catalogue_step url_ok sha db (snd (map_learning_area_to_curriculum_version i v g a name c act db))"
| creates_strand: "catalogue_step url_ok sha db (snd (create_strand i a t n c act db))"
| creates_sub_strand: "catalogue_step url_ok sha db (snd (create_sub_strand i s t n c w act db))"
| creates_outcome: "catalogue_step url_ok sha db (snd (create_learning_outcome i s t n act db))"
| links_competency: "catalogue_step url_ok sha db (snd (link_outcome_to_competency i p k db))"
| links_value: "catalogue_step url_ok sha db (snd (link_outcome_to_value i p k db))"
| links_pci: "catalogue_step url_ok sha db (snd (link_outcome_to_pci i p k db))"
| creates_rubric: "catalogue_step url_ok sha db (snd (create_rubric_foundation_descriptor i p c l t n act db))"

lemma save_clean_others:
  assumes "\<And>r. catalogue_ok db \<Longrightarrow> catalogue_ok (ins r db)" and "catalogue_ok db"
  shows "catalogue_ok (snd (save_clean clean ins r db))"
  using assms by (cases "save_clean clean ins r db"; cases "fst (save_clean clean ins r db)") (auto elim: save_cleanE dest: save_clean_Inl)

lemma save_row_others:
  assumes "\<And>r. catalogue_ok db \<Longrightarrow> catalogue_ok (ins r db)" and "catalogue_ok db"
  shows "catalogue_ok (snd (save_row clean ins r db))"
  using assms by (auto simp: save_row_def split: sum.split)

lemma catalogue_step_keeps: "catalogue_step url_ok sha db db' \<Longrightarrow> catalogue_ok db \<Longrightarrow> catalogue_ok db'"
proof (induction rule: catalogue_step.induct)
  case creates_version
  then show ?case unfolding create_curriculum_version_def by (rule version_rows.save_keeps)
next
  case maps_area
  then show ?case unfolding map_learning_area_to_curriculum_version_def by (rule area_rows.save_keeps)
next
  case creates_strand
  then show ?case unfolding create_strand_def by (rule strand_rows.save_keeps)
next
  case creates_sub_strand
  then show ?case unfolding create_sub_strand_def by (rule sub_strand_rows.save_keeps)
next
  case creates_outcome
  then show ?case unfolding create_learning_outcome_def by (rule outcome_rows.save_keeps)
next
  case creates_rubric
  then show ?case unfolding create_rubric_foundation_descriptor_def by (rule rubric_rows.save_keeps)
qed (simp_all add: register_source_document_def register_source_artifact_def create_curriculum_source_document_def
    map_grade_level_to_curriculum_version_def link_outcome_to_competency_def link_outcome_to_value_def link_outcome_to_pci_def
    alift_def save_clean_others save_row_others add_others)

lemma reachable_catalogue:
  "(catalogue_step url_ok sha)\<^sup>*\<^sup>* db0 db \<Longrightarrow> catalogue_ok db0 \<Longrightarrow> catalogue_ok db"
  by (induction rule: rtranclp_induct) (simp_all add: catalogue_step_keeps)

lemma area_path:
  assumes "catalogue_ok db" and "sub_strand_row db s \<noteq> None"
  shows "\<exists>a. sub_strand_area db s = Some a \<and> version_row db (cl_version a) \<noteq> None \<and>
    map_option la_grade_level (learning_area_row db (cl_learning_area a)) = Some (cl_grade_level a)"
proof -
  obtain u where u: "sub_strand_row db s = Some u" using assms(2) by blast
  then have "u \<in> set (sub_strands db)" unfolding sub_strand_row_def by (blast dest: first_where_SomeD)
  then have "strand_row db (su_strand u) \<noteq> None" using assms(1) by (auto simp: catalogue_ok_def sub_strands_ok_def sub_strand.defs)
  then obtain d where d: "strand_row db (su_strand u) = Some d" by blast
  then have "d \<in> set (strands db)" unfolding strand_row_def by (blast dest: first_where_SomeD)
  then have "curriculum_area_row db (sd_curriculum_learning_area d) \<noteq> None" using assms(1) by (auto simp: catalogue_ok_def strands_ok_def strand.defs)
  then obtain a where a: "curriculum_area_row db (sd_curriculum_learning_area d) = Some a" by blast
  then have "a \<in> set (curriculum_areas db)" unfolding curriculum_area_row_def by (blast dest: first_where_SomeD)
  then have "version_row db (cl_version a) \<noteq> None \<and> map_option la_grade_level (learning_area_row db (cl_learning_area a)) = Some (cl_grade_level a)"
    using assms(1) by (auto simp: catalogue_ok_def curriculum_areas_ok_def curriculum_learning_area.defs)
  then show ?thesis using u d a by (simp add: sub_strand_area_def)
qed

lemma rubric_place:
  assumes "catalogue_ok db" and "r \<in> set (rubrics db)"
  shows "\<exists>s. rubric_sub_strand db r = Some s \<and> sub_strand_row db s \<noteq> None"
proof -
  have "(rf_sub_strand r = None) \<noteq> (rf_learning_outcome r = None) \<and> opt_fk (\<lambda>i. sub_strand_row db i \<noteq> None) (rf_sub_strand r) \<and>
      opt_fk (\<lambda>i. outcome_row db i \<noteq> None) (rf_learning_outcome r)"
    using assms by (auto simp: catalogue_ok_def rubrics_ok_def rubric.defs)
  moreover have "sub_strand_row db (lo_sub_strand p) \<noteq> None" if "outcome_row db i = Some p" for i p
  proof -
    have "p \<in> set (outcomes db)" using that unfolding outcome_row_def by (blast dest: first_where_SomeD)
    then show ?thesis using assms(1) by (auto simp: catalogue_ok_def outcomes_ok_def outcome.defs)
  qed
  ultimately show ?thesis by (auto simp: rubric_sub_strand_def opt_fk_def split: option.splits)
qed

text \<open>C37: Whatever the curriculum team creates, maps and links, every rubric stays in the tree: its sub-strand exists and leads
  over its strand to a learning area of a curriculum version, whose grade is the grade of the school's learning
  area; and no other rubric of the same parent has its level code.\<close>

theorem rubric_paths_kept:
  assumes "(catalogue_step url_ok sha)\<^sup>*\<^sup>* db0 db" and "catalogue_ok db0" and "r \<in> set (rubrics db)"
  shows "(\<exists>s a. rubric_sub_strand db r = Some s \<and> sub_strand_area db s = Some a \<and> version_row db (cl_version a) \<noteq> None \<and>
      map_option la_grade_level (learning_area_row db (cl_learning_area a)) = Some (cl_grade_level a)) \<and>
    \<not> (\<exists>q. q \<in> set (rubrics db) \<and> rf_id q \<noteq> rf_id r \<and> rf_level_code q = rf_level_code r \<and>
      rf_learning_outcome q = rf_learning_outcome r \<and> rf_sub_strand q = rf_sub_strand r)"
proof
  note ok = reachable_catalogue [OF assms(1,2)]
  from rubric_place [OF ok assms(3)] area_path [OF ok]
  show "\<exists>s a. rubric_sub_strand db r = Some s \<and> sub_strand_area db s = Some a \<and> version_row db (cl_version a) \<noteq> None \<and>
      map_option la_grade_level (learning_area_row db (cl_learning_area a)) = Some (cl_grade_level a)" by blast
  have rows: "rubrics db = map rubric.truncate (rubric_details db)" "\<forall>p\<in>set (rubric_details db). \<forall>q\<in>set (rubric_details db). \<not> rubric_clash p q"
    "\<forall>p\<in>set (rubric_details db). (rf_sub_strand p = None) \<noteq> (rf_learning_outcome p = None)"
    using ok by (simp_all add: catalogue_ok_def rubrics_ok_def)
  show "\<not> (\<exists>q. q \<in> set (rubrics db) \<and> rf_id q \<noteq> rf_id r \<and> rf_level_code q = rf_level_code r \<and>
      rf_learning_outcome q = rf_learning_outcome r \<and> rf_sub_strand q = rf_sub_strand r)"
    using assms(3) rows(2,3) unfolding rows(1) by (fastforce simp: rubric.defs rubric_clash_def)
qed

section \<open>An instance\<close>

definition sample_catalogue :: catalogue_db where
  "sample_catalogue = evidence_db.extend (sample_evidence\<lparr>
       learning_areas := [\<lparr>la_id = ''l1'', la_tenant = ''s1'', la_grade_level = ''g1'', la_code = ''math'', la_name = ''Mathematics'', la_is_active = True\<rparr>],
       source_documents := [''d1''],
       versions := [\<lparr>cv_id = ''v1'', cv_source_document = ''d1'', cv_version_label = ''2026'', cv_effective_from = 1, cv_effective_to = None, cv_is_active = True\<rparr>],
       curriculum_areas := [\<lparr>cl_id = ''k1'', cl_version = ''v1'', cl_grade_level = ''g1'', cl_learning_area = ''l1'', cl_is_active = True\<rparr>],
       strands := [\<lparr>sd_id = ''n1'', sd_curriculum_learning_area = ''k1''\<rparr>], sub_strands := [\<lparr>su_id = ''m1'', su_strand = ''n1''\<rparr>],
       outcomes := [\<lparr>lo_id = ''o1'', lo_sub_strand = ''m1''\<rparr>], rubrics := []\<rparr>)
     (catalogue_db.fields
       [\<lparr>dm_id = ''d1'', dm_authority = None, dm_source_authority = ''kicd'', dm_title = ''Design'', dm_document_code = ''D1'', dm_source_url = [],
         dm_version_label = ''1'', dm_publication_date = None, dm_effective_date = None, dm_checksum = [], dm_is_active = True\<rparr>] [] [] [] [] [] []
       [\<lparr>cl_id = ''k1'', cl_version = ''v1'', cl_grade_level = ''g1'', cl_learning_area = ''l1'', cl_is_active = True,
         cl_official_name = ''Mathematics'', cl_official_code = ''math''\<rparr>]
       [\<lparr>sd_id = ''n1'', sd_curriculum_learning_area = ''k1'', sd_code = [], sd_title = ''Numbers'', sd_sequence_order = 1, sd_is_active = True\<rparr>]
       [\<lparr>su_id = ''m1'', su_strand = ''n1'', su_code = [], su_title = ''Fractions'', su_sequence_order = 1, su_time_allocation = [], su_is_active = True\<rparr>]
       [\<lparr>lo_id = ''o1'', lo_sub_strand = ''m1'', lo_text = ''Adds fractions'', lo_sequence_order = 1, lo_is_active = True\<rparr>] [] [] [] [] [] [])"

lemma sample_catalogue_tables:
  "learning_areas sample_catalogue = [\<lparr>la_id = ''l1'', la_tenant = ''s1'', la_grade_level = ''g1'', la_code = ''math'', la_name = ''Mathematics'', la_is_active = True\<rparr>]"
  "versions sample_catalogue = [\<lparr>cv_id = ''v1'', cv_source_document = ''d1'', cv_version_label = ''2026'', cv_effective_from = 1, cv_effective_to = None, cv_is_active = True\<rparr>]"
  "curriculum_areas sample_catalogue = map curriculum_learning_area.truncate (area_details sample_catalogue)"
  "strands sample_catalogue = map strand.truncate (strand_details sample_catalogue)"
  "sub_strands sample_catalogue = map sub_strand.truncate (sub_strand_details sample_catalogue)"
  "outcomes sample_catalogue = map outcome.truncate (outcome_details sample_catalogue)"
  "area_details sample_catalogue = [\<lparr>cl_id = ''k1'', cl_version = ''v1'', cl_grade_level = ''g1'', cl_learning_area = ''l1'', cl_is_active = True,
         cl_official_name = ''Mathematics'', cl_official_code = ''math''\<rparr>]"
  "strand_details sample_catalogue = [\<lparr>sd_id = ''n1'', sd_curriculum_learning_area = ''k1'', sd_code = [], sd_title = ''Numbers'', sd_sequence_order = 1, sd_is_active = True\<rparr>]"
  "sub_strand_details sample_catalogue = [\<lparr>su_id = ''m1'', su_strand = ''n1'', su_code = [], su_title = ''Fractions'', su_sequence_order = 1, su_time_allocation = [], su_is_active = True\<rparr>]"
  "outcome_details sample_catalogue = [\<lparr>lo_id = ''o1'', lo_sub_strand = ''m1'', lo_text = ''Adds fractions'', lo_sequence_order = 1, lo_is_active = True\<rparr>]"
  "rubrics sample_catalogue = []" "rubric_details sample_catalogue = []"
  by (simp_all add: sample_catalogue_def evidence_db.defs catalogue_db.defs curriculum_learning_area.defs strand.defs sub_strand.defs outcome.defs)

lemma sample_catalogue_ok: "catalogue_ok sample_catalogue"
  by (simp add: catalogue_parts sample_catalogue_tables catalogue_clash_irrefl version_row_def learning_area_row_def curriculum_area_row_def strand_row_def
      sub_strand_row_def first_where_def curriculum_learning_area.defs strand.defs sub_strand.defs outcome.defs)

definition first_rubric :: rubric_detail where
  "first_rubric = \<lparr>rf_id = ''f1'', rf_sub_strand = None, rf_learning_outcome = Some ''o1'', rf_level_code = ''me'', rf_level_label = ''Meets'',
     rf_is_active = True, rf_descriptor = ''Adds well'', rf_sequence_order = 1\<rparr>"

lemma first_rubric_created:
  "create_rubric_foundation_descriptor ''f1'' ''o1'' ''me'' ''Meets'' ''Adds well'' 1 True sample_catalogue
     = (Inr first_rubric, add_rubric first_rubric sample_catalogue)"
proof -
  have "code_field ''me''" "strip ''me'' = ''me''" "normalize_code ''me'' = ''me''" "strip ''Meets'' = ''Meets''" "strip ''Adds well'' = ''Adds well''"
    by code_simp+
  then have "rubric_full_clean sample_catalogue first_rubric = Inr first_rubric"
    by (simp add: rubric_full_clean_def rubric_clean_def first_rubric_def require_text_def opt_fk_def outcome_row_def first_where_def
        sample_catalogue_tables char_field_def positive_integer_field_def already_exists_def outcome.defs)
  then show ?thesis by (simp add: create_rubric_foundation_descriptor_def save_clean_def atomic_def first_rubric_def [symmetric])
qed

lemma rubric_paths_kept_witness:
  "snd (create_rubric_foundation_descriptor ''f1'' ''o1'' ''me'' ''Meets'' ''Adds well'' 1 True sample_catalogue) = add_rubric first_rubric sample_catalogue \<and>
   (\<exists>s a. rubric_sub_strand (add_rubric first_rubric sample_catalogue) (rubric.truncate first_rubric) = Some s \<and>
     sub_strand_area (add_rubric first_rubric sample_catalogue) s = Some a)"
proof -
  let ?db = "add_rubric first_rubric sample_catalogue"
  have "catalogue_step (\<lambda>_. True) (\<lambda>s. s) sample_catalogue ?db"
    using creates_rubric [of "\<lambda>_. True" "\<lambda>s. s" sample_catalogue] unfolding first_rubric_created [symmetric]
    by (metis first_rubric_created snd_conv)
  then have "(catalogue_step (\<lambda>_. True) (\<lambda>s. s))\<^sup>*\<^sup>* sample_catalogue ?db" by blast
  moreover have "rubric.truncate first_rubric \<in> set (rubrics ?db)" by (simp add: add_rubric_def)
  ultimately show ?thesis using rubric_paths_kept sample_catalogue_ok first_rubric_created by (metis snd_conv)
qed

end
