(* ===== verification/NoticeFacts.thy ===== *)
theory NoticeFacts
  imports Notices CatalogueFacts
begin

text \<open>
  What holds of curriculum differences and of the notices principals acknowledge: a difference lists
  exactly the nodes that changed, a card with a notice rests on verified source evidence, and a school
  acknowledges an issued card once.
\<close>

section \<open>The difference of two snapshots\<close>

definition changed_node :: "(string \<Rightarrow> string) \<Rightarrow> node option \<Rightarrow> node option \<Rightarrow> bool" where
  "changed_node sha old new =
     (case (old, new) of (None, None) \<Rightarrow> False | (None, Some n) \<Rightarrow> True | (Some n, None) \<Rightarrow> True
      | (Some a, Some b) \<Rightarrow> node_fingerprint sha a \<noteq> node_fingerprint sha b)"

definition describes :: "node option \<Rightarrow> node option \<Rightarrow> diff_proposal \<Rightarrow> bool" where
  "describes old new p \<longleftrightarrow> (dp_change_type p = ''added'') = (old = None) \<and> (dp_change_type p = ''removed'') = (new = None) \<and>
     (\<exists>n. (new = Some n \<or> new = None \<and> old = Some n) \<and> dp_entity_type p = jget n ''entity_type'' \<and> dp_entity_identifier p = jget n ''identifier'')"

lemma diff_change_type_Inr: "diff_change_type a b = Inr c \<Longrightarrow> c \<noteq> ''added'' \<and> c \<noteq> ''removed''"
  by (auto simp: diff_change_type_def Let_def ebind_eq_Inr split: if_split_asm)

lemma diff_key_item:
  assumes "diff_key sha old new = Inr ps"
  shows "if changed_node sha old new then \<exists>p. ps = [p] \<and> describes old new p else ps = []"
proof (cases old; cases new)
  fix a b assume c: "old = Some a" "new = Some b"
  from assms [unfolded c diff_key_def] obtain f g where f: "node_fingerprint sha a = Inr f" "node_fingerprint sha b = Inr g"
    and ps: "(if f = g then Inr [] else ebind (diff_change_type a b) (\<lambda>t. Inr [proposal_of t ''Updated'' b f g])) = Inr ps"
    by (auto simp: ebind_eq_Inr)
  then show ?thesis
    by (auto simp: c changed_node_def describes_def proposal_of_def ebind_eq_Inr dest: diff_change_type_Inr split: if_split_asm)
qed (use assms in \<open>auto simp: diff_key_def changed_node_def describes_def proposal_of_def ebind_eq_Inr\<close>)

lemma diff_keys_items:
  assumes "emap (\<lambda>k. diff_key sha (f k) (g k)) ks = Inr items"
  shows "list_all2 (\<lambda>k p. describes (f k) (g k) p) (filter (\<lambda>k. changed_node sha (f k) (g k)) ks) (concat items)"
  using assms
proof (induction ks arbitrary: items)
  case (Cons k ks)
  from Cons.prems obtain ps rest where k: "diff_key sha (f k) (g k) = Inr ps" and r: "emap (\<lambda>k. diff_key sha (f k) (g k)) ks = Inr rest"
    and i: "items = ps # rest" by (auto simp: ebind_eq_Inr)
  show ?case using diff_key_item [OF k] Cons.IH [OF r] by (auto simp: i split: if_split_asm)
qed simp

text \<open>C34: The difference of two snapshots lists, in the order of their keys, one item for each key whose node was added, was removed
  or has another fingerprint, and no other: the item names the node, an added node is exactly one the old
  snapshot lacks and a removed one exactly one the new snapshot lacks.\<close>

theorem diff_items_exact:
  assumes "diff_graph_snapshots sha old new = Inr items"
  defines "was \<equiv> map_of (node_table old)" and "now \<equiv> map_of (node_table new)"
  shows "list_all2 (\<lambda>k p. describes (was k) (now k) p)
    (filter (\<lambda>k. changed_node sha (was k) (now k)) (py_sorted_set (map node_key old @ map node_key new))) items"
proof -
  from assms(1) obtain xs where "emap (\<lambda>k. diff_key sha (was k) (now k)) (py_sorted_set (map node_key old @ map node_key new)) = Inr xs"
    and "items = concat xs" by (auto simp: diff_graph_snapshots_def was_def now_def ebind_eq_Inr)
  then show ?thesis using diff_keys_items [of sha was now] by simp
qed

lemma diff_items_exact_witness:
  "let old = [[(''entity_type'', JStr ''strand''), (''identifier'', JStr ''a''), (''fingerprint'', JStr ''1'')],
              [(''entity_type'', JStr ''strand''), (''identifier'', JStr ''b''), (''fingerprint'', JStr ''2'')]];
       new = [[(''entity_type'', JStr ''strand''), (''identifier'', JStr ''b''), (''fingerprint'', JStr ''2'')],
              [(''entity_type'', JStr ''strand''), (''identifier'', JStr ''c''), (''fingerprint'', JStr ''3'')]] in
   \<exists>items. diff_graph_snapshots (\<lambda>s. s) old new = Inr items \<and> map dp_change_type items = [''removed'', ''added''] \<and>
     length (filter (\<lambda>k. changed_node (\<lambda>s. s) (map_of (node_table old) k) (map_of (node_table new) k))
       (py_sorted_set (map node_key old @ map node_key new))) = 2"
proof -
  let ?old = "[[(''entity_type'', JStr ''strand''), (''identifier'', JStr ''a''), (''fingerprint'', JStr ''1'')],
              [(''entity_type'', JStr ''strand''), (''identifier'', JStr ''b''), (''fingerprint'', JStr ''2'')]]"
  let ?new = "[[(''entity_type'', JStr ''strand''), (''identifier'', JStr ''b''), (''fingerprint'', JStr ''2'')],
              [(''entity_type'', JStr ''strand''), (''identifier'', JStr ''c''), (''fingerprint'', JStr ''3'')]]"
  have e: "case diff_graph_snapshots (\<lambda>s. s) ?old ?new of Inl _ \<Rightarrow> False | Inr items \<Rightarrow> map dp_change_type items = [''removed'', ''added'']"
    by code_simp
  then obtain items where i: "diff_graph_snapshots (\<lambda>s. s) ?old ?new = Inr items" "map dp_change_type items = [''removed'', ''added'']"
    by (auto split: sum.split_asm)
  then have "length items = 2" by (metis length_map length_Cons list.size(3) numeral_2_eq_2)
  with i list_all2_lengthD [OF diff_items_exact [OF i(1)]] show ?thesis by (simp add: Let_def)
qed

section \<open>Notices, cards and acknowledgements\<close>

definition verified_notice :: "regulatory_notice \<Rightarrow> bool" where
  "verified_notice n \<longleftrightarrow> rgn_review_status n = ''verified'' \<and> (rgn_source_document n \<noteq> None \<or> rgn_source_artifact n \<noteq> None) \<and> rgn_reviewed_by n \<noteq> None"

text \<open>What of a notice no service changes, and what of a card.\<close>

definition notice_key :: "regulatory_notice \<Rightarrow> uuid \<times> string \<times> uuid option \<times> uuid option \<times> uuid option" where
  "notice_key n = (rgn_id n, rgn_review_status n, rgn_source_document n, rgn_source_artifact n, rgn_reviewed_by n)"

definition card_key :: "evidence_card \<Rightarrow> uuid \<times> uuid \<times> uuid option" where
  "card_key c = (crd_id c, crd_tenant c, crd_notice c)"

definition notices_reviewed :: "regulatory_notice list \<Rightarrow> bool" where
  "notices_reviewed ns \<longleftrightarrow> distinct (map rgn_id ns) \<and> (\<forall>n\<in>set ns. rgn_review_status n \<noteq> ''approved'' \<and> (rgn_review_status n = ''verified'' \<longrightarrow> verified_notice n))"

definition cards_sourced :: "regulatory_notice list \<Rightarrow> evidence_card list \<Rightarrow> bool" where
  "cards_sourced ns cs \<longleftrightarrow> distinct (map crd_id cs) \<and>
     (\<forall>c\<in>set cs. \<forall>i. crd_notice c = Some i \<longrightarrow> (\<exists>n\<in>set ns. rgn_id n = i \<and> rgn_review_status n = ''verified''))"

definition acknowledgements_linked :: "evidence_card list \<Rightarrow> acknowledgement list \<Rightarrow> bool" where
  "acknowledgements_linked cs ks \<longleftrightarrow> distinct (map ack_card ks) \<and>
     (\<forall>k\<in>set ks. \<exists>c\<in>set cs. crd_id c = ack_card k \<and> crd_tenant c = ack_tenant k \<and> crd_status c \<in> {''acknowledged'', ''archived''})"

definition notices_ok :: "'a notice_db_scheme \<Rightarrow> bool" where
  "notices_ok db \<longleftrightarrow> notices_reviewed (regulatory_notices db) \<and> cards_sourced (regulatory_notices db) (evidence_cards db) \<and>
     acknowledgements_linked (evidence_cards db) (acknowledgements db)"

lemma verified_key: "notice_key n = notice_key m \<Longrightarrow> verified_notice n = verified_notice m \<and> rgn_review_status n = rgn_review_status m \<and> rgn_id n = rgn_id m"
  by (auto simp: notice_key_def verified_notice_def)

lemma reviewed_add:
  assumes "notices_reviewed ns" and "rgn_id n \<notin> rgn_id ` set ns" and "rgn_review_status n = ''verified'' \<Longrightarrow> verified_notice n" and "rgn_review_status n \<noteq> ''approved''"
  shows "notices_reviewed (ns @ [n])"
  using assms by (auto simp: notices_reviewed_def)

lemma put_notice_keys:
  assumes "notices_reviewed ns" and "n \<in> set ns" and "notice_key n' = notice_key n"
  shows "map notice_key (update_where (\<lambda>q. rgn_id q = rgn_id n') (\<lambda>_. n') ns) = map notice_key ns"
proof -
  have "q = n" if "q \<in> set ns" "rgn_id q = rgn_id n'" for q
    using that inj_onD [of rgn_id "set ns" q n] assms(1,2) verified_key [OF assms(3)] by (simp add: notices_reviewed_def distinct_map)
  then show ?thesis using assms(3) by (auto simp: update_where_def)
qed

lemma reviewed_keys: "map notice_key ns = map notice_key ms \<Longrightarrow> notices_reviewed ns \<Longrightarrow> notices_reviewed ms"
proof -
  assume k: "map notice_key ns = map notice_key ms" and r: "notices_reviewed ns"
  have "map rgn_id ms = map rgn_id ns" using arg_cong [OF k, of "map fst"] by (simp add: o_def notice_key_def)
  moreover have "rgn_review_status m \<noteq> ''approved'' \<and> (rgn_review_status m = ''verified'' \<longrightarrow> verified_notice m)" if "m \<in> set ms" for m
  proof -
    have "notice_key m \<in> set (map notice_key ns)" using that by (simp add: k)
    then obtain n where n: "n \<in> set ns" "notice_key n = notice_key m" by auto
    have "rgn_review_status n \<noteq> ''approved'' \<and> (rgn_review_status n = ''verified'' \<longrightarrow> verified_notice n)" using r n(1) by (simp add: notices_reviewed_def)
    then show ?thesis using verified_key [OF n(2)] by simp
  qed
  ultimately show "notices_reviewed ms" using r by (simp add: notices_reviewed_def)
qed

lemma sourced_keys: "map notice_key ns = map notice_key ms \<Longrightarrow> cards_sourced ns cs \<Longrightarrow> cards_sourced ms cs"
proof -
  assume k: "map notice_key ns = map notice_key ms" and s: "cards_sourced ns cs"
  have "\<exists>m\<in>set ms. rgn_id m = i \<and> rgn_review_status m = ''verified''" if "\<exists>n\<in>set ns. rgn_id n = i \<and> rgn_review_status n = ''verified''" for i
  proof -
    from that obtain n where n: "n \<in> set ns" "rgn_id n = i" "rgn_review_status n = ''verified''" by blast
    have "notice_key n \<in> set (map notice_key ms)" using n(1) by (simp flip: k)
    then obtain m where "m \<in> set ms" "notice_key m = notice_key n" by auto
    then show ?thesis using n verified_key by metis
  qed
  then show "cards_sourced ms cs" using s by (auto simp: cards_sourced_def)
qed

lemma card_id_inj: "cards_sourced ns cs \<Longrightarrow> a \<in> set cs \<Longrightarrow> b \<in> set cs \<Longrightarrow> crd_id a = crd_id b \<Longrightarrow> a = b"
  by (auto simp: cards_sourced_def distinct_map inj_on_def)

lemma sourced_put:
  assumes s: "cards_sourced ns cs" and c: "c \<in> set cs" and k: "card_key c' = card_key c"
  shows "cards_sourced ns (update_where (\<lambda>q. crd_id q = crd_id c') (\<lambda>_. c') cs)"
proof -
  have "map crd_id (update_where (\<lambda>q. crd_id q = crd_id c') (\<lambda>_. c') cs) = map crd_id cs" by (rule map_update_where) simp
  moreover have "crd_notice c' = crd_notice c" using k by (simp add: card_key_def)
  ultimately show ?thesis using s c by (auto simp: cards_sourced_def set_update_where)
qed

lemma linked_put:
  assumes s: "cards_sourced ns cs" and l: "acknowledgements_linked cs ks" and c: "c \<in> set cs" and k: "card_key c' = card_key c"
    and st: "crd_status c \<in> {''acknowledged'', ''archived''} \<Longrightarrow> crd_status c' \<in> {''acknowledged'', ''archived''}"
  shows "acknowledgements_linked (update_where (\<lambda>q. crd_id q = crd_id c') (\<lambda>_. c') cs) ks"
proof -
  have i: "crd_id c' = crd_id c" "crd_tenant c' = crd_tenant c" using k by (simp_all add: card_key_def)
  have "\<exists>q\<in>set (update_where (\<lambda>q. crd_id q = crd_id c') (\<lambda>_. c') cs). crd_id q = ack_card a \<and> crd_tenant q = ack_tenant a \<and>
      crd_status q \<in> {''acknowledged'', ''archived''}" if a: "a \<in> set ks" for a
  proof -
    obtain q where q: "q \<in> set cs" "crd_id q = ack_card a" "crd_tenant q = ack_tenant a" "crd_status q \<in> {''acknowledged'', ''archived''}"
      using l a unfolding acknowledgements_linked_def by blast
    show ?thesis
    proof (cases "crd_id q = crd_id c")
      case True
      then have "q = c" using card_id_inj [OF s q(1) c] by simp
      then show ?thesis using q st c by (intro bexI [of _ c']) (auto simp: i set_update_where)
    next
      case False
      then show ?thesis using q by (intro bexI [of _ q]) (auto simp: i set_update_where)
    qed
  qed
  then show ?thesis using l by (simp add: acknowledgements_linked_def)
qed

section \<open>What the services store\<close>

lemma notice_full_clean_Inr:
  assumes "notice_full_clean db n = Inr n'"
  shows "notice_key n' = notice_key n" and "rgn_review_status n = ''verified'' \<Longrightarrow> rgn_source_document n \<noteq> None \<or> rgn_source_artifact n \<noteq> None"
    and "rgn_review_status n \<noteq> ''approved''"
proof -
  have f: "notice_fields_ok db n" using assms by (auto simp: notice_full_clean_def split: if_split_asm)
  with assms have "notice_clean db n = Inr n'" by (auto simp: notice_full_clean_def ebind_eq_Inr already_exists_Inr)
  then have c: "n' = n\<lparr>rgn_title := strip (rgn_title n), rgn_reference_number := strip (rgn_reference_number n), rgn_summary := strip (rgn_summary n)\<rparr>"
    "\<not> (rgn_review_status n = ''verified'' \<and> rgn_source_document n = None \<and> rgn_source_artifact n = None)"
    by (simp_all add: notice_clean_def ebind_eq_Inr split: if_split_asm)
  show "notice_key n' = notice_key n" by (simp add: c(1) notice_key_def)
  show "rgn_review_status n = ''verified'' \<Longrightarrow> rgn_source_document n \<noteq> None \<or> rgn_source_artifact n \<noteq> None" using c(2) by simp
  have "rgn_review_status n \<in> {''pending_review'', ''verified'', ''rejected''}" using f by (simp only: notice_fields_ok_def)
  then show "rgn_review_status n \<noteq> ''approved''" by auto
qed

lemma notice_saved:
  assumes "save_clean notice_full_clean ins n db = (Inr n', db')"
  shows "db' = ins n' db" and "notice_key n' = notice_key n"
    and "rgn_review_status n = ''verified'' \<Longrightarrow> rgn_source_document n \<noteq> None \<or> rgn_source_artifact n \<noteq> None"
    and "rgn_review_status n \<noteq> ''approved''"
proof -
  obtain n1 where n1: "notice_full_clean db n = Inr n1" "notice_full_clean db n1 = Inr n'" and d: "db' = ins n' db" using assms by (rule save_cleanE)
  show "db' = ins n' db" by (rule d)
  show "notice_key n' = notice_key n" by (simp add: notice_full_clean_Inr(1) [OF n1(1)] notice_full_clean_Inr(1) [OF n1(2)])
  show "rgn_review_status n = ''verified'' \<Longrightarrow> rgn_source_document n \<noteq> None \<or> rgn_source_artifact n \<noteq> None" by (rule notice_full_clean_Inr(2) [OF n1(1)])
  show "rgn_review_status n \<noteq> ''approved''" by (rule notice_full_clean_Inr(3) [OF n1(1)])
qed

lemma card_full_clean_Inr: "card_full_clean db c = Inr c' \<Longrightarrow> card_key c' = card_key c \<and> crd_status c' = crd_status c"
  by (auto simp: card_full_clean_def card_clean_def card_key_def ebind_eq_Inr already_exists_Inr split: if_split_asm)

lemma card_saved:
  assumes "save_clean card_full_clean ins c db = (Inr c', db')"
  shows "db' = ins c' db \<and> card_key c' = card_key c \<and> crd_status c' = crd_status c"
proof -
  obtain c1 where c1: "card_full_clean db c = Inr c1" "card_full_clean db c1 = Inr c'" "db' = ins c' db" using assms by (rule save_cleanE)
  show ?thesis using card_full_clean_Inr [OF c1(1)] card_full_clean_Inr [OF c1(2)] c1(3) by simp
qed

lemma acknowledgement_full_clean_Inr:
  assumes "acknowledgement_full_clean db k = Inr k'"
  shows "ack_card k' = ack_card k \<and> ack_tenant k' = ack_tenant k \<and> ack_id k' = ack_id k \<and> ack_at k' = ack_at k \<and>
    map_option crd_tenant (card_row db (ack_card k)) = Some (ack_tenant k) \<and>
    (\<forall>q\<in>set (acknowledgements db). ack_id q = ack_id k \<or> ack_tenant q \<noteq> ack_tenant k \<or> ack_card q \<noteq> ack_card k)"
  using assms by (auto simp: acknowledgement_full_clean_def ebind_eq_Inr already_exists_Inr split: if_split_asm)

lemma register_notice_Inr:
  assumes "register_regulatory_notice now i a t s ty d f ref p e st u db = (Inr n, db')"
  shows "db' = add_notice n db \<and> rgn_id n = i \<and> rgn_review_status n \<noteq> ''approved'' \<and> (rgn_review_status n = ''verified'' \<longrightarrow> verified_notice n)"
proof -
  let ?n = "new_notice now i a t s ty d f ref p e st u"
  from assms have s: "save_clean notice_full_clean add_notice ?n db = (Inr n, db')"
    and u: "st = ''verified'' \<Longrightarrow> u \<noteq> None"
    by (auto simp: register_regulatory_notice_def atomic_eq_Inr abind_eq_Inr require_curriculum_truth_manager_def require_active_reviewer_def
        ebind_eq_Inr split: if_split_asm option.split_asm)
  have "rgn_id ?n = i" "rgn_review_status ?n = st" "st = ''verified'' \<Longrightarrow> rgn_reviewed_by ?n \<noteq> None"
    using u by (auto simp: new_notice_def Let_def)
  then show ?thesis using notice_saved [OF s] by (auto simp: notice_key_def verified_notice_def)
qed

lemma classify_notice_Inr:
  assumes "classify_regulatory_notice n db = (Inr n', db')"
  shows "db' = put_notice n' db \<and> notice_key n' = notice_key n"
proof -
  from assms obtain m where m: "classified_notice db n = Inr m" and s: "save_clean notice_full_clean put_notice m db = (Inr n', db')"
    by (auto simp: classify_regulatory_notice_def atomic_eq_Inr abind_eq_Inr)
  have "notice_key m = notice_key n" using m by (auto simp: classified_notice_def notice_key_def Let_def split: option.split_asm)
  then show ?thesis using notice_saved [OF s] by simp
qed

lemma build_card_Inr:
  assumes "build_principal_notification_evidence_card i tenant n d m ty s r sev db = (Inr c, db')"
  shows "db' = add_card c db \<and> crd_id c = i \<and> crd_notice c = map_option rgn_id n \<and>
    (\<forall>q. n = Some q \<longrightarrow> rgn_review_status q \<in> {''verified'', ''approved''})"
proof -
  from assms obtain c0 where c0: "new_card i tenant n d m ty s r sev db = Inr c0" and sv: "save_clean card_full_clean add_card c0 db = (Inr c, db')"
    by (auto simp: build_principal_notification_evidence_card_def atomic_eq_Inr abind_eq_Inr)
  have "crd_id c0 = i \<and> crd_notice c0 = map_option rgn_id n \<and> (\<forall>q. n = Some q \<longrightarrow> rgn_review_status q \<in> {''verified'', ''approved''})"
    using c0 by (auto simp: new_card_def card_source_of_def build_notification_payload_def ebind_eq_Inr Let_def split: if_split_asm option.split_asm)
  then show ?thesis using card_saved [OF sv] by (auto simp: card_key_def)
qed


section \<open>The workflow of notices\<close>

text \<open>The services in any order, with fresh ids; the notices and cards they are given are rows of the database.\<close>

inductive notice_step :: "'a notice_db_scheme \<Rightarrow> 'a notice_db_scheme \<Rightarrow> bool" where
  registers_notice: "i \<notin> rgn_id ` set (regulatory_notices db) \<Longrightarrow>
    notice_step db (snd (register_regulatory_notice now i a t s ty d f ref p e st u db))"
| classifies: "n \<in> set (regulatory_notices db) \<Longrightarrow> notice_step db (snd (classify_regulatory_notice n db))"
| builds_card: "i \<notin> crd_id ` set (evidence_cards db) \<Longrightarrow> opt_fk (\<lambda>q. q \<in> set (regulatory_notices db)) n \<Longrightarrow>
    notice_step db (snd (build_principal_notification_evidence_card i tenant n d m ty s r sev db))"
| issues: "c \<in> set (evidence_cards db) \<Longrightarrow> notice_step db (snd (issue_principal_notification_evidence_card c db))"
| acknowledges: "c \<in> set (evidence_cards db) \<Longrightarrow> i \<notin> ack_id ` set (acknowledgements db) \<Longrightarrow>
    notice_step db (snd (acknowledge_school_update now i c tenant by_user st remarks db))"
| archives: "c \<in> set (evidence_cards db) \<Longrightarrow> notice_step db (snd (archive_notification_evidence_card c db))"
| creates_diff: "notice_step db (snd (create_curriculum_diff i v w s ch st db))"
| creates_items: "notice_step db (snd (create_curriculum_diff_items ids d items db))"
| analyzes: "notice_step db (snd (analyze_curriculum_impact ids item st g ar db))"
| creates_impact: "notice_step db (snd (create_regulatory_impact i n cat act g ar pw sev db))"
| maps_requirement: "notice_step db (snd (map_teacher_readiness_requirement i n s ar g pw ty db))"

definition notice_tables :: "'a notice_db_scheme \<Rightarrow> regulatory_notice list \<times> evidence_card list \<times> acknowledgement list" where
  "notice_tables db = (regulatory_notices db, evidence_cards db, acknowledgements db)"

lemma notices_frame: "notice_tables db' = notice_tables db \<Longrightarrow> notices_ok db \<Longrightarrow> notices_ok db'"
  by (simp add: notice_tables_def notices_ok_def)

lemma other_tables:
  "notice_tables (add_diff d db) = notice_tables db" "notice_tables (add_diff_item it db) = notice_tables db"
  "notice_tables (add_curriculum_impact m db) = notice_tables db" "notice_tables (add_regulatory_impact g db) = notice_tables db"
  "notice_tables (add_requirement q db) = notice_tables db"
  by (simp_all add: notice_tables_def add_diff_def add_diff_item_def add_curriculum_impact_def add_regulatory_impact_def add_requirement_def)

lemma save_other_tables:
  assumes "\<And>r s. notice_tables (ins r s) = notice_tables s"
  shows "notice_tables (snd (save_clean full ins x db)) = notice_tables db"
  using assms by (cases "save_clean full ins x db"; cases "fst (save_clean full ins x db)") (auto elim: save_cleanE dest: save_clean_Inl)

lemma saved_tables:
  assumes "\<And>r s. notice_tables (ins r s) = notice_tables s" and "save_clean full ins x db = (Inr r, t)"
  shows "notice_tables t = notice_tables db"
  using assms by (auto elim: save_cleanE)

lemma atomic_tables: "(\<And>r t. m db = (Inr r, t) \<Longrightarrow> notice_tables t = notice_tables db) \<Longrightarrow> notice_tables (snd (atomic m db)) = notice_tables db"
  by (auto simp: atomic_def split: prod.split sum.split)

lemma each_tables:
  assumes "\<And>x s r t. f x s = (Inr r, t) \<Longrightarrow> notice_tables t = notice_tables s"
  shows "aeach f xs s = (Inr ys, t) \<Longrightarrow> notice_tables t = notice_tables s"
  by (induction xs arbitrary: s ys) (auto simp: abind_eq_Inr alift_eq_Inr dest: assms)

lemma consequences_keep_tables:
  "notice_tables (snd (create_curriculum_diff i v w s ch st db)) = notice_tables db"
  "notice_tables (snd (create_curriculum_diff_items ids d items db)) = notice_tables db"
  "notice_tables (snd (analyze_curriculum_impact ids item st g ar db)) = notice_tables db"
  "notice_tables (snd (create_regulatory_impact i k cat act g ar pw sev db)) = notice_tables db"
  "notice_tables (snd (map_teacher_readiness_requirement i n s ar g pw ty db)) = notice_tables db"
proof -
  show "notice_tables (snd (create_curriculum_diff i v w s ch st db)) = notice_tables db"
    "notice_tables (snd (create_regulatory_impact i k cat act g ar pw sev db)) = notice_tables db"
    "notice_tables (snd (map_teacher_readiness_requirement i n s ar g pw ty db)) = notice_tables db"
    by (simp_all add: create_curriculum_diff_def create_regulatory_impact_def map_teacher_readiness_requirement_def Let_def
        save_other_tables other_tables)
  show "notice_tables (snd (create_curriculum_diff_items ids d items db)) = notice_tables db"
    unfolding create_curriculum_diff_items_def
    by (rule atomic_tables, erule each_tables [rotated]) (auto simp: abind_eq_Inr alift_eq_Inr dest!: saved_tables [of add_diff_item, OF other_tables(2)])
  show "notice_tables (snd (analyze_curriculum_impact ids item st g ar db)) = notice_tables db"
    unfolding analyze_curriculum_impact_def
    by (rule atomic_tables) (auto simp: abind_eq_Inr save_impact_def elim!: each_tables [rotated] dest!: saved_tables [of add_curriculum_impact, OF other_tables(3)])
qed


lemma issue_card_Inr:
  assumes "issue_principal_notification_evidence_card c db = (Inr c', db')"
  shows "db' = put_card c' db \<and> card_key c' = card_key c \<and> crd_status c = ''ready_for_review''"
proof -
  from assms have "crd_status c = ''ready_for_review''" and s: "save_clean card_full_clean put_card (c\<lparr>crd_status := ''issued''\<rparr>) db = (Inr c', db')"
    by (auto simp: issue_principal_notification_evidence_card_def alift_def split: if_split_asm)
  then show ?thesis using card_saved [OF s] by (simp add: card_key_def)
qed

lemma archive_card_Inr:
  assumes "archive_notification_evidence_card c db = (Inr c', db')"
  shows "db' = put_card c' db \<and> card_key c' = card_key c \<and> crd_status c' = ''archived''"
  using card_saved [OF assms [unfolded archive_notification_evidence_card_def]] by (simp add: card_key_def)

lemma acknowledge_Inr:
  assumes "acknowledge_school_update now i c tenant u st remarks db = (Inr k, db')"
  shows "\<exists>c'. db' = put_card c' (add_acknowledgement k db) \<and> card_key c' = card_key c \<and> crd_status c' = ''acknowledged'' \<and>
    ack_card k = crd_id c \<and> ack_tenant k = crd_tenant c \<and>
    (\<forall>q\<in>set (acknowledgements db). ack_id q = i \<or> ack_tenant q \<noteq> crd_tenant c \<or> ack_card q \<noteq> crd_id c)"
proof -
  let ?k = "\<lparr>ack_id = i, ack_tenant = sc_id tenant, ack_card = crd_id c, ack_by = u, ack_at = now, ack_status = st, ack_notes = remarks\<rparr>"
  from assms obtain c' db1 where t: "crd_tenant c = sc_id tenant" and k: "save_clean acknowledgement_full_clean add_acknowledgement ?k db = (Inr k, db1)"
    and c: "save_clean card_full_clean put_card (c\<lparr>crd_status := ''acknowledged'', crd_acknowledged_at := Some (ack_at k), crd_acknowledged_by := Some u\<rparr>) db1 = (Inr c', db')"
    by (auto simp: acknowledge_school_update_def alift_def atomic_eq_Inr abind_eq_Inr split: if_split_asm)
  obtain k1 where k1: "acknowledgement_full_clean db ?k = Inr k1" "acknowledgement_full_clean db k1 = Inr k" and db1: "db1 = add_acknowledgement k db"
    using k by (rule save_cleanE)
  note f = acknowledgement_full_clean_Inr [OF k1(1)] acknowledgement_full_clean_Inr [OF k1(2)]
  show ?thesis using card_saved [OF c] f t by (intro exI [of _ c']) (simp add: db1 card_key_def)
qed

lemma card_services_refuse:
  "issue_principal_notification_evidence_card c db = (Inl x, db') \<Longrightarrow> db' = db"
  "archive_notification_evidence_card c db = (Inl x, db') \<Longrightarrow> db' = db"
  "acknowledge_school_update now i c tenant u st remarks db = (Inl x, db') \<Longrightarrow> db' = db"
  "register_regulatory_notice now i a t s ty d f ref p e st w db = (Inl x, db') \<Longrightarrow> db' = db"
  "classify_regulatory_notice n db = (Inl x, db') \<Longrightarrow> db' = db"
  "build_principal_notification_evidence_card i sch m df im kd sm ra sev db = (Inl x, db') \<Longrightarrow> db' = db"
  by (auto simp: issue_principal_notification_evidence_card_def archive_notification_evidence_card_def acknowledge_school_update_def
      register_regulatory_notice_def classify_regulatory_notice_def build_principal_notification_evidence_card_def alift_def
      dest: save_clean_Inl atomic_unchanged split: if_split_asm)

section \<open>Every service keeps notices, cards and acknowledgements together\<close>

lemmas put_tables = add_notice_def put_notice_def add_card_def put_card_def add_acknowledgement_def

lemma add_notice_keeps:
  assumes "notices_ok db" and "rgn_id n \<notin> rgn_id ` set (regulatory_notices db)" and "rgn_review_status n \<noteq> ''approved''"
    and "rgn_review_status n = ''verified'' \<longrightarrow> verified_notice n"
  shows "notices_ok (add_notice n db)"
proof -
  have "cards_sourced (regulatory_notices db @ [n]) (evidence_cards db)" using assms(1) by (fastforce simp: notices_ok_def cards_sourced_def)
  then show ?thesis using assms reviewed_add [of "regulatory_notices db" n] by (simp add: notices_ok_def put_tables)
qed

lemma put_notice_keeps:
  assumes "notices_ok db" and "n \<in> set (regulatory_notices db)" and "notice_key n' = notice_key n"
  shows "notices_ok (put_notice n' db)"
proof -
  have "notices_reviewed (regulatory_notices db)" using assms(1) by (simp add: notices_ok_def)
  note k = put_notice_keys [OF this assms(2,3), symmetric]
  show ?thesis using assms(1) reviewed_keys [OF k] sourced_keys [OF k] by (simp add: notices_ok_def put_tables)
qed

lemma add_card_keeps:
  assumes "notices_ok db" and "crd_id c \<notin> crd_id ` set (evidence_cards db)"
    and "\<And>i. crd_notice c = Some i \<Longrightarrow> \<exists>n\<in>set (regulatory_notices db). rgn_id n = i \<and> rgn_review_status n = ''verified''"
  shows "notices_ok (add_card c db)"
proof -
  have "acknowledgements_linked (evidence_cards db @ [c]) (acknowledgements db)" using assms(1) by (fastforce simp: notices_ok_def acknowledgements_linked_def)
  moreover have "cards_sourced (regulatory_notices db) (evidence_cards db @ [c])" using assms by (auto simp: notices_ok_def cards_sourced_def)
  ultimately show ?thesis using assms(1) by (simp add: notices_ok_def put_tables)
qed

lemma put_card_keeps:
  assumes "notices_ok db" and "c \<in> set (evidence_cards db)" and "card_key c' = card_key c"
    and "crd_status c \<in> {''acknowledged'', ''archived''} \<Longrightarrow> crd_status c' \<in> {''acknowledged'', ''archived''}"
  shows "notices_ok (put_card c' db)"
proof -
  from assms(1) have "cards_sourced (regulatory_notices db) (evidence_cards db)" "acknowledgements_linked (evidence_cards db) (acknowledgements db)"
    by (simp_all add: notices_ok_def)
  then show ?thesis using assms(1) sourced_put [OF _ assms(2,3)] linked_put [OF _ _ assms(2-4)] by (simp add: notices_ok_def put_tables)
qed

lemma acknowledge_keeps:
  assumes ok: "notices_ok db" and c: "c \<in> set (evidence_cards db)" and key: "card_key c' = card_key c" and st: "crd_status c' = ''acknowledged''"
    and k: "ack_card k = crd_id c" "ack_tenant k = crd_tenant c" and i: "i \<notin> ack_id ` set (acknowledgements db)"
    and u: "\<forall>q\<in>set (acknowledgements db). ack_id q = i \<or> ack_tenant q \<noteq> crd_tenant c \<or> ack_card q \<noteq> crd_id c"
  shows "notices_ok (put_card c' (add_acknowledgement k db))"
proof -
  from ok have s: "cards_sourced (regulatory_notices db) (evidence_cards db)" and l: "acknowledgements_linked (evidence_cards db) (acknowledgements db)"
    by (simp_all add: notices_ok_def)
  let ?cs = "update_where (\<lambda>q. crd_id q = crd_id c') (\<lambda>_. c') (evidence_cards db)"
  have new: "ack_card q \<noteq> crd_id c" if q: "q \<in> set (acknowledgements db)" for q
  proof
    assume e: "ack_card q = crd_id c"
    obtain d where d: "d \<in> set (evidence_cards db)" "crd_id d = ack_card q" "crd_tenant d = ack_tenant q"
      using l q unfolding acknowledgements_linked_def by blast
    have "d = c" using card_id_inj [OF s d(1) c] d(2) e by simp
    then show False using u q i d(3) e by (auto simp: image_iff)
  qed
  have "c' \<in> set ?cs" using c key by (force simp: set_update_where card_key_def)
  moreover have "crd_id c' = crd_id c" "crd_tenant c' = crd_tenant c" using key by (simp_all add: card_key_def)
  ultimately have "\<exists>q\<in>set ?cs. crd_id q = ack_card k \<and> crd_tenant q = ack_tenant k \<and> crd_status q \<in> {''acknowledged'', ''archived''}"
    using st k by (intro bexI [of _ c']) simp_all
  moreover have "acknowledgements_linked ?cs (acknowledgements db)" using linked_put [OF s l c key] st by simp
  moreover have "ack_card k \<notin> ack_card ` set (acknowledgements db)" using new k(1) by (metis imageE)
  ultimately have "acknowledgements_linked ?cs (acknowledgements db @ [k])" unfolding acknowledgements_linked_def by simp
  then show ?thesis using ok sourced_put [OF s c key] by (simp add: notices_ok_def put_tables)
qed

lemma notice_step_keeps:
  assumes "notice_step db db'" and ok: "notices_ok db"
  shows "notices_ok db'"
  using assms(1)
proof cases
  case (registers_notice i now a t s ty d f ref p e st u)
  show ?thesis unfolding registers_notice(1)
    by (rule service_keeps [where P = notices_ok, OF _ ok], erule card_services_refuse) (use register_notice_Inr add_notice_keeps [OF ok] registers_notice(2) in blast)
next
  case (classifies n)
  show ?thesis unfolding classifies(1)
    by (rule service_keeps [where P = notices_ok, OF _ ok], erule card_services_refuse) (use classify_notice_Inr put_notice_keeps [OF ok classifies(2)] in blast)
next
  case (builds_card i n tenant d m ty s r sev)
  show ?thesis unfolding builds_card(1)
  proof (rule service_keeps [where P = notices_ok, OF _ ok], erule card_services_refuse)
    fix c t assume "build_principal_notification_evidence_card i tenant n d m ty s r sev db = (Inr c, t)"
    note b = build_card_Inr [OF this]
    have "rgn_review_status q \<noteq> ''approved''" if "q \<in> set (regulatory_notices db)" for q using ok that by (simp add: notices_ok_def notices_reviewed_def)
    then have "\<exists>q\<in>set (regulatory_notices db). rgn_id q = j \<and> rgn_review_status q = ''verified''" if "crd_notice c = Some j" for j
      using b builds_card(3) that by (auto simp: opt_fk_def split: option.split_asm)
    then have "notices_ok (add_card c db)" using add_card_keeps [OF ok] b builds_card(2) by blast
    then show "notices_ok t" using b by simp
  qed
next
  case (issues c)
  show ?thesis unfolding issues(1)
  proof (rule service_keeps [where P = notices_ok, OF _ ok], erule card_services_refuse)
    fix c' t assume "issue_principal_notification_evidence_card c db = (Inr c', t)"
    note b = issue_card_Inr [OF this]
    then have "notices_ok (put_card c' db)" by (intro put_card_keeps [OF ok issues(2)]) simp_all
    then show "notices_ok t" using b by simp
  qed
next
  case (acknowledges c i now tenant u st remarks)
  show ?thesis unfolding acknowledges(1)
    by (rule service_keeps [where P = notices_ok, OF _ ok], erule card_services_refuse)
      (use acknowledge_Inr acknowledge_keeps [OF ok acknowledges(2) _ _ _ _ acknowledges(3)] in blast)
next
  case (archives c)
  show ?thesis unfolding archives(1)
  proof (rule service_keeps [where P = notices_ok, OF _ ok], erule card_services_refuse)
    fix c' t assume "archive_notification_evidence_card c db = (Inr c', t)"
    note b = archive_card_Inr [OF this]
    then have "notices_ok (put_card c' db)" by (intro put_card_keeps [OF ok archives(2)]) simp_all
    then show "notices_ok t" using b by simp
  qed
qed (simp_all add: notices_frame [OF consequences_keep_tables(1) ok] notices_frame [OF consequences_keep_tables(2) ok]
    notices_frame [OF consequences_keep_tables(3) ok] notices_frame [OF consequences_keep_tables(4) ok] notices_frame [OF consequences_keep_tables(5) ok])

lemma reachable_notices: "notice_step\<^sup>*\<^sup>* db0 db \<Longrightarrow> notices_ok db0 \<Longrightarrow> notices_ok db"
  by (induction rule: rtranclp_induct) (simp_all add: notice_step_keeps)

text \<open>C35: Whatever notice operations ran, a card for a principal that comes from a notice comes from a verified one: its notice is
  there, is marked as verified, names its source document or artifact and the reviewer.\<close>

theorem cards_rest_on_verified:
  assumes "notice_step\<^sup>*\<^sup>* db0 db" and "notices_ok db0" and "c \<in> set (evidence_cards db)" and "crd_notice c = Some i"
  shows "\<exists>n. notice_row db i = Some n \<and> verified_notice n"
proof -
  have ok: "notices_ok db" by (rule reachable_notices [OF assms(1,2)])
  then obtain n where n: "n \<in> set (regulatory_notices db)" "rgn_id n = i" "rgn_review_status n = ''verified''"
    using assms(3,4) unfolding notices_ok_def cards_sourced_def by blast
  have r: "notices_reviewed (regulatory_notices db)" using ok by (simp add: notices_ok_def)
  then have "verified_notice n" using n by (simp add: notices_reviewed_def)
  moreover have "notice_row db i = Some n"
  proof (cases "notice_row db i")
    case None
    then show ?thesis using n by (auto simp: notice_row_def first_where_None)
  next
    case (Some m)
    then have "m \<in> set (regulatory_notices db)" "rgn_id m = i" unfolding notice_row_def by (blast dest: first_where_SomeD)+
    then show ?thesis using Some n r inj_onD [of rgn_id "set (regulatory_notices db)" m n] by (simp add: notices_reviewed_def distinct_map)
  qed
  ultimately show ?thesis by blast
qed

text \<open>C36: A school acknowledges a card at most once, only its own card, and the card then stays acknowledged until it is archived:
  no later operation puts it back to issued.\<close>

theorem acknowledged_once:
  assumes "notice_step\<^sup>*\<^sup>* db0 db" and "notices_ok db0" and "k \<in> set (acknowledgements db)"
  shows "(\<exists>c. c \<in> set (evidence_cards db) \<and> crd_id c = ack_card k \<and> crd_tenant c = ack_tenant k \<and> crd_status c \<in> {''acknowledged'', ''archived''}) \<and>
    distinct (map ack_card (acknowledgements db)) \<and> distinct (map crd_id (evidence_cards db))"
  using reachable_notices [OF assms(1,2)] assms(3) by (auto simp: notices_ok_def acknowledgements_linked_def cards_sourced_def)


section \<open>An instance\<close>

definition first_notice :: regulatory_notice where
  "first_notice = \<lparr>rgn_id = ''w1'', rgn_authority = ''a1'', rgn_source_document = Some ''d1'', rgn_source_artifact = None,
     rgn_notice_type = ''kicd_curriculum_update'', rgn_title = ''Update'', rgn_reference_number = [], rgn_publication_date = None,
     rgn_effective_date = None, rgn_summary = ''New text'', rgn_review_status = ''verified'', rgn_notice_status = ''draft'',
     rgn_affects_senior = False, rgn_affects_transition = False, rgn_reviewed_at = Some 1, rgn_reviewed_by = Some ''u9''\<rparr>"

definition issued_card :: evidence_card where
  "issued_card = \<lparr>crd_id = ''c1'', crd_tenant = ''s1'', crd_notice = Some ''w1'', crd_diff = None, crd_impact = None,
     crd_type = ''curriculum_update'', crd_title = ''Update'', crd_summary = ''New text'', crd_evidence_summary = ''KICD'',
     crd_required_action = ''Review it'', crd_severity = ''low'', crd_status = ''issued'', crd_acknowledged_at = None, crd_acknowledged_by = None\<rparr>"

definition seen_card :: evidence_card where
  "seen_card = issued_card\<lparr>crd_status := ''acknowledged'', crd_acknowledged_at := Some 7, crd_acknowledged_by := Some ''u9''\<rparr>"

definition first_acknowledgement :: acknowledgement where
  "first_acknowledgement = \<lparr>ack_id = ''k1'', ack_tenant = ''s1'', ack_card = ''c1'', ack_by = ''u9'', ack_at = 7, ack_status = ''acknowledged'', ack_notes = []\<rparr>"

definition sample_notices :: notice_db where
  "sample_notices = catalogue_db.extend sample_catalogue (notice_db.fields [] [] [] [first_notice] [] [] [issued_card] [])"

lemma sample_notices_tables:
  "regulatory_notices sample_notices = [first_notice]" "evidence_cards sample_notices = [issued_card]" "acknowledgements sample_notices = []"
  by (simp_all add: sample_notices_def catalogue_db.defs notice_db.defs)

lemma sample_notices_people: "schools sample_notices = schools sample_report" "users sample_notices = users sample_report"
proof -
  have "schools sample_notices = schools sample_catalogue" "users sample_notices = users sample_catalogue"
    by (simp_all add: sample_notices_def catalogue_db.defs)
  moreover have "schools sample_catalogue = schools sample_evidence" "users sample_catalogue = users sample_evidence"
    by (simp_all add: sample_catalogue_def evidence_db.defs)
  ultimately show "schools sample_notices = schools sample_report" "users sample_notices = users sample_report"
    by (simp_all add: sample_evidence_people)
qed

lemma sample_notices_known: "school_exists sample_notices ''s1''" "user_exists sample_notices ''u9''"
  by (simp_all add: school_exists_def user_exists_def sample_notices_people sample_report_simps)

lemma sample_notices_ok: "notices_ok sample_notices"
  by (simp add: notices_ok_def notices_reviewed_def cards_sourced_def acknowledgements_linked_def sample_notices_tables)
    (simp add: first_notice_def issued_card_def verified_notice_def)

lemma card_texts: "validate_governance_text t = Inr ()" "strip t = t" if "t \<in> {''Update'', ''New text'', ''KICD'', ''Review it''}"
proof -
  have "\<forall>t\<in>{''Update'', ''New text'', ''KICD'', ''Review it''}.
    strip t \<noteq> [] \<and> strip t = t \<and> \<not> contains ''adm'' (lower t) \<and> \<not> contains ''guardian'' (lower t) \<and> \<not> contains ''pupil'' (lower t) \<and>
    \<not> contains ''learner'' (lower t) \<and> (\<forall>c\<in>set t. c \<notin> {CHR ''<'', CHR ''='', CHR '':''})" by code_simp
  note t = bspec [OF this that]
  then show "validate_governance_text t = Inr ()" by (intro governance_text_plain) blast+
  show "strip t = t" using t by blast
qed

lemma sample_acknowledged:
  "acknowledge_school_update 7 ''k1'' issued_card sample_school ''u9'' ''acknowledged'' [] sample_notices
     = (Inr first_acknowledgement, put_card seen_card (add_acknowledgement first_acknowledgement sample_notices))"
proof -
  have c: "card_row sample_notices ''c1'' = Some issued_card"
    by (simp add: card_row_def first_where_def sample_notices_tables) (simp add: issued_card_def)
  have e: "strip ([]::char list) = []" by code_simp
  have "acknowledgement_full_clean sample_notices first_acknowledgement = Inr first_acknowledgement"
    using c sample_notices_known
    by (simp add: acknowledgement_full_clean_def first_acknowledgement_def acknowledgement_statuses_def already_exists_def sample_notices_tables e)
      (simp add: issued_card_def)
  then have a: "save_clean acknowledgement_full_clean add_acknowledgement first_acknowledgement sample_notices
      = (Inr first_acknowledgement, add_acknowledgement first_acknowledgement sample_notices)" by (simp add: save_clean_def atomic_def)
  let ?db = "add_acknowledgement first_acknowledgement sample_notices"
  have k: "school_exists ?db ''s1''" "user_exists ?db ''u9''" "notice_row ?db ''w1'' = Some first_notice" "evidence_cards ?db = [issued_card]"
    using sample_notices_known
    by (simp_all add: add_acknowledgement_def school_exists_def user_exists_def notice_row_def first_where_def sample_notices_tables)
      (simp add: first_notice_def)
  have "card_full_clean ?db seen_card = Inr seen_card"
    using k card_texts
    by (simp add: card_full_clean_def card_fields_ok_def card_clean_def seen_card_def opt_fk_def char_field_def card_types_def card_statuses_def
        severities_def require_text_def already_exists_def issued_card_def)
  then have b: "save_clean card_full_clean put_card seen_card ?db = (Inr seen_card, put_card seen_card ?db)" by (simp add: save_clean_def atomic_def)
  have "crd_tenant issued_card = sc_id sample_school" "crd_status issued_card = ''issued''" by (simp_all add: issued_card_def sample_school_def)
  moreover have "\<lparr>ack_id = ''k1'', ack_tenant = sc_id sample_school, ack_card = crd_id issued_card, ack_by = ''u9'', ack_at = 7,
      ack_status = ''acknowledged'', ack_notes = []\<rparr> = first_acknowledgement"
    by (simp add: first_acknowledgement_def issued_card_def sample_school_def)
  moreover have "issued_card\<lparr>crd_status := ''acknowledged'', crd_acknowledged_at := Some (ack_at first_acknowledgement),
      crd_acknowledged_by := Some ''u9''\<rparr> = seen_card" by (simp add: seen_card_def first_acknowledgement_def)
  ultimately show ?thesis using a b by (simp add: acknowledge_school_update_def atomic_def abind_def alift_def)
qed

abbreviation acknowledged_notices :: notice_db where
  "acknowledged_notices \<equiv> put_card seen_card (add_acknowledgement first_acknowledgement sample_notices)"

lemma sample_notices_reach: "notice_step\<^sup>*\<^sup>* sample_notices acknowledged_notices"
proof -
  have "issued_card \<in> set (evidence_cards sample_notices)" "''k1'' \<notin> ack_id ` set (acknowledgements sample_notices)"
    by (simp_all add: sample_notices_tables)
  from acknowledges [OF this, of 7 sample_school "''u9''" "''acknowledged''" "[]"] show ?thesis unfolding sample_acknowledged by auto
qed

lemma acknowledged_rows: "seen_card \<in> set (evidence_cards acknowledged_notices)" "acknowledgements acknowledged_notices = [first_acknowledgement]"
  by (simp_all add: put_tables set_update_where sample_notices_tables) (simp add: seen_card_def)

lemma cards_rest_on_verified_witness:
  "seen_card \<in> set (evidence_cards acknowledged_notices) \<and> (\<exists>n. notice_row acknowledged_notices ''w1'' = Some n \<and> verified_notice n)"
  using cards_rest_on_verified [OF sample_notices_reach sample_notices_ok acknowledged_rows(1), of "''w1''"] acknowledged_rows(1)
  by (simp add: seen_card_def issued_card_def)

lemma acknowledged_once_witness:
  "(\<exists>c. c \<in> set (evidence_cards acknowledged_notices) \<and> crd_id c = ''c1'' \<and> crd_status c \<in> {''acknowledged'', ''archived''})"
  using acknowledged_once [OF sample_notices_reach sample_notices_ok, of first_acknowledgement] acknowledged_rows(2)
  by (auto simp: first_acknowledgement_def)

end
