(* ===== verification/CurriculumAccess.thy ===== *)
theory CurriculumAccess
  imports Notices
begin

text \<open>
  Reading curriculum governance: the policies of curriculum/policies.py, the selectors of
  curriculum/selectors.py and version_resolver.py. Tables are in the order their rows were created, so the
  newest rows come first in the reversed table; \<open>collate\<close> is the order the database gives to texts; a
  foreign key always finds its row, and where it would not the answer is no.
\<close>

section \<open>Roles and grants (policies.py)\<close>

definition CURRICULUM_MANAGE_ROLES :: "string list" where
  "CURRICULUM_MANAGE_ROLES = [''principal'', ''school_admin'']"

definition CURRICULUM_EVIDENCE_SUBMITTER_ROLES :: "string list" where
  "CURRICULUM_EVIDENCE_SUBMITTER_ROLES = [''principal'', ''deputy_principal'', ''school_admin'']"

definition CURRICULUM_GOVERNANCE_ROLES :: "string list" where
  "CURRICULUM_GOVERNANCE_ROLES = [''school_admin'']"

definition CURRICULUM_VIEW_ROLES :: "string list" where
  "CURRICULUM_VIEW_ROLES = [''principal'', ''school_admin'', ''hod'', ''class_teacher'', ''subject_teacher'']"

text \<open>The shape of most policies: the exact action, a valid context, a role of a list.\<close>

definition has_grant :: "'a identity_db_scheme \<Rightarrow> policy_context \<Rightarrow> string \<Rightarrow> string list \<Rightarrow> bool" where
  "has_grant db ctx action codes \<longleftrightarrow> ctx_action ctx = action \<and> context_is_valid db ctx \<and> role_in ctx codes"

definition teaches_area :: "'a academic_db_scheme \<Rightarrow> policy_context \<Rightarrow> uuid \<Rightarrow> bool" where
  "teaches_area db ctx area \<longleftrightarrow>
     (case (ctx_tenant ctx, ctx_actor ctx) of
        (Some t, Some u) \<Rightarrow> \<exists>ta\<in>set (assignments db). ta_tenant ta = sc_id t \<and> ta_teacher ta = us_id u \<and> ta_learning_area ta = area
          \<and> ta_is_active ta \<and> learning_area_active db area
      | _ \<Rightarrow> False)"

definition can_view_learning_area :: "'a academic_db_scheme \<Rightarrow> policy_context \<Rightarrow> 'b curriculum_learning_area_scheme \<Rightarrow> bool" where
  "can_view_learning_area db ctx cl =
     (if \<not> context_is_valid db ctx then False
      else case learning_area_row db (cl_learning_area cl) of None \<Rightarrow> False
      | Some la \<Rightarrow>
          if \<not> resource_in_tenant ctx (la_tenant la) then False
          else if role_in ctx CURRICULUM_MANAGE_ROLES then True
          else if \<not> role_in ctx CURRICULUM_VIEW_ROLES then False
          else teaches_area db ctx (la_id la))"

definition can_view_curriculum_map :: "'a academic_db_scheme \<Rightarrow> policy_context \<Rightarrow> 'b curriculum_learning_area_scheme \<Rightarrow> bool" where
  "can_view_curriculum_map db ctx cl = can_view_learning_area db ctx cl"

definition can_view_rubric_foundation :: "'a curriculum_db_scheme \<Rightarrow> policy_context \<Rightarrow> 'b outcome_scheme \<Rightarrow> bool" where
  "can_view_rubric_foundation db ctx r \<longleftrightarrow> ctx_action ctx = ''curriculum.view_rubric_foundation'' \<and>
     (case sub_strand_area db (lo_sub_strand r) of None \<Rightarrow> False | Some cl \<Rightarrow> can_view_learning_area db ctx cl)"

definition can_manage_curriculum_source_documents :: "'a identity_db_scheme \<Rightarrow> policy_context \<Rightarrow> bool" where
  "can_manage_curriculum_source_documents db ctx \<longleftrightarrow> has_grant db ctx ''curriculum.manage_source'' CURRICULUM_MANAGE_ROLES"

definition can_activate_curriculum_version :: "'a identity_db_scheme \<Rightarrow> policy_context \<Rightarrow> bool" where
  "can_activate_curriculum_version db ctx \<longleftrightarrow> has_grant db ctx ''curriculum.activate_version'' CURRICULUM_MANAGE_ROLES"

definition can_create_curriculum_structure :: "'a identity_db_scheme \<Rightarrow> policy_context \<Rightarrow> bool" where
  "can_create_curriculum_structure db ctx \<longleftrightarrow> has_grant db ctx ''curriculum.create_structure'' CURRICULUM_MANAGE_ROLES"

definition can_view_source_registry :: "'a identity_db_scheme \<Rightarrow> policy_context \<Rightarrow> bool" where
  "can_view_source_registry db ctx \<longleftrightarrow> has_grant db ctx ''curriculum.cct.register_source'' CURRICULUM_VIEW_ROLES"

definition can_register_curriculum_source :: "'a identity_db_scheme \<Rightarrow> policy_context \<Rightarrow> bool" where
  "can_register_curriculum_source db ctx \<longleftrightarrow> has_grant db ctx ''curriculum.cct.register_source'' CURRICULUM_MANAGE_ROLES"

definition can_approve_curriculum_source :: "'a identity_db_scheme \<Rightarrow> policy_context \<Rightarrow> bool" where
  "can_approve_curriculum_source db ctx \<longleftrightarrow> has_grant db ctx ''curriculum.cct.approve_source'' CURRICULUM_GOVERNANCE_ROLES"

definition can_approve_change_set :: "'a identity_db_scheme \<Rightarrow> policy_context \<Rightarrow> bool" where
  "can_approve_change_set db ctx \<longleftrightarrow> has_grant db ctx ''curriculum.cct.approve_change_set'' CURRICULUM_GOVERNANCE_ROLES"

definition can_reject_change_set :: "'a identity_db_scheme \<Rightarrow> policy_context \<Rightarrow> bool" where
  "can_reject_change_set db ctx \<longleftrightarrow> has_grant db ctx ''curriculum.cct.reject_change_set'' CURRICULUM_GOVERNANCE_ROLES"

definition can_publish_curriculum_version :: "'a identity_db_scheme \<Rightarrow> policy_context \<Rightarrow> bool" where
  "can_publish_curriculum_version db ctx \<longleftrightarrow> has_grant db ctx ''curriculum.cct.publish_version'' CURRICULUM_GOVERNANCE_ROLES"

definition can_supersede_curriculum_version :: "'a identity_db_scheme \<Rightarrow> policy_context \<Rightarrow> bool" where
  "can_supersede_curriculum_version db ctx \<longleftrightarrow> has_grant db ctx ''curriculum.cct.supersede_version'' CURRICULUM_GOVERNANCE_ROLES"

definition can_schedule_school_adoption :: "'a identity_db_scheme \<Rightarrow> policy_context \<Rightarrow> bool" where
  "can_schedule_school_adoption db ctx \<longleftrightarrow> has_grant db ctx ''curriculum.cct.schedule_adoption'' CURRICULUM_MANAGE_ROLES"

definition can_plan_curriculum_rollback :: "'a identity_db_scheme \<Rightarrow> policy_context \<Rightarrow> bool" where
  "can_plan_curriculum_rollback db ctx \<longleftrightarrow> has_grant db ctx ''curriculum.cct.plan_rollback'' CURRICULUM_MANAGE_ROLES"

definition can_view_curriculum_impact :: "'a identity_db_scheme \<Rightarrow> policy_context \<Rightarrow> bool" where
  "can_view_curriculum_impact db ctx \<longleftrightarrow> has_grant db ctx ''curriculum.cct.view_impact'' CURRICULUM_VIEW_ROLES"

definition can_view_evidence_artifact :: "'a identity_db_scheme \<Rightarrow> policy_context \<Rightarrow> bool" where
  "can_view_evidence_artifact db ctx \<longleftrightarrow> has_grant db ctx ''curriculum.cct.view_evidence'' CURRICULUM_VIEW_ROLES"

definition can_resolve_dependent_app_context :: "'a identity_db_scheme \<Rightarrow> policy_context \<Rightarrow> bool" where
  "can_resolve_dependent_app_context db ctx \<longleftrightarrow> has_grant db ctx ''curriculum.cct.resolve_dependent_context'' CURRICULUM_MANAGE_ROLES"

definition can_submit_curriculum_evidence :: "'a identity_db_scheme \<Rightarrow> policy_context \<Rightarrow> bool" where
  "can_submit_curriculum_evidence db ctx \<longleftrightarrow> has_grant db ctx ''curriculum.cct.submit_evidence'' CURRICULUM_EVIDENCE_SUBMITTER_ROLES"

definition can_view_curriculum_evidence_submission :: "'a identity_db_scheme \<Rightarrow> policy_context \<Rightarrow> evidence \<Rightarrow> bool" where
  "can_view_curriculum_evidence_submission db ctx r \<longleftrightarrow> has_grant db ctx ''curriculum.cct.view_evidence_submission'' CURRICULUM_VIEW_ROLES \<and> resource_in_tenant ctx (ce_tenant r)"

definition can_view_curriculum_verification_report :: "'a identity_db_scheme \<Rightarrow> policy_context \<Rightarrow> verification_report \<Rightarrow> bool" where
  "can_view_curriculum_verification_report db ctx r \<longleftrightarrow> has_grant db ctx ''curriculum.cct.view_verification_report'' CURRICULUM_VIEW_ROLES \<and> resource_in_tenant ctx (vr_tenant r)"

definition can_record_curriculum_governance_decision :: "'a identity_db_scheme \<Rightarrow> policy_context \<Rightarrow> bool" where
  "can_record_curriculum_governance_decision db ctx \<longleftrightarrow> has_grant db ctx ''curriculum.cct.record_governance_decision'' CURRICULUM_GOVERNANCE_ROLES"

definition can_view_curriculum_governance_decision :: "'a identity_db_scheme \<Rightarrow> policy_context \<Rightarrow> governance_decision \<Rightarrow> bool" where
  "can_view_curriculum_governance_decision db ctx r \<longleftrightarrow> has_grant db ctx ''curriculum.cct.view_governance_decision'' CURRICULUM_VIEW_ROLES \<and> resource_in_tenant ctx (gd_tenant r)"

definition can_plan_curriculum_app_impact :: "'a identity_db_scheme \<Rightarrow> policy_context \<Rightarrow> bool" where
  "can_plan_curriculum_app_impact db ctx \<longleftrightarrow> has_grant db ctx ''curriculum.cct.plan_app_impact'' CURRICULUM_EVIDENCE_SUBMITTER_ROLES"

definition can_view_curriculum_app_impact_plan :: "'a identity_db_scheme \<Rightarrow> policy_context \<Rightarrow> impact_plan \<Rightarrow> bool" where
  "can_view_curriculum_app_impact_plan db ctx r \<longleftrightarrow> has_grant db ctx ''curriculum.cct.view_app_impact_plan'' CURRICULUM_VIEW_ROLES \<and> resource_in_tenant ctx (ip_tenant r)"

definition can_create_curriculum_rollback_candidate :: "'a identity_db_scheme \<Rightarrow> policy_context \<Rightarrow> bool" where
  "can_create_curriculum_rollback_candidate db ctx \<longleftrightarrow> has_grant db ctx ''curriculum.cct.create_rollback_candidate'' CURRICULUM_EVIDENCE_SUBMITTER_ROLES"

definition can_view_curriculum_rollback_candidate :: "'a identity_db_scheme \<Rightarrow> policy_context \<Rightarrow> rollback_candidate \<Rightarrow> bool" where
  "can_view_curriculum_rollback_candidate db ctx r \<longleftrightarrow> has_grant db ctx ''curriculum.cct.view_rollback_candidate'' CURRICULUM_VIEW_ROLES \<and> resource_in_tenant ctx (rc_tenant r)"

definition can_view_regulatory_notice :: "'a identity_db_scheme \<Rightarrow> policy_context \<Rightarrow> bool" where
  "can_view_regulatory_notice db ctx \<longleftrightarrow> has_grant db ctx ''curriculum.regulatory.view'' CURRICULUM_VIEW_ROLES"

definition can_register_regulatory_notice :: "'a identity_db_scheme \<Rightarrow> policy_context \<Rightarrow> bool" where
  "can_register_regulatory_notice db ctx \<longleftrightarrow> has_grant db ctx ''curriculum.regulatory.register'' CURRICULUM_GOVERNANCE_ROLES"

definition can_review_regulatory_notice :: "'a identity_db_scheme \<Rightarrow> policy_context \<Rightarrow> bool" where
  "can_review_regulatory_notice db ctx \<longleftrightarrow> has_grant db ctx ''curriculum.regulatory.review'' CURRICULUM_GOVERNANCE_ROLES"

definition can_classify_regulatory_notice :: "'a identity_db_scheme \<Rightarrow> policy_context \<Rightarrow> bool" where
  "can_classify_regulatory_notice db ctx \<longleftrightarrow> has_grant db ctx ''curriculum.regulatory.classify'' CURRICULUM_GOVERNANCE_ROLES"

definition can_create_impact_analysis :: "'a identity_db_scheme \<Rightarrow> policy_context \<Rightarrow> bool" where
  "can_create_impact_analysis db ctx \<longleftrightarrow> has_grant db ctx ''curriculum.regulatory.create_impact'' CURRICULUM_MANAGE_ROLES"

definition can_issue_principal_notification :: "'a identity_db_scheme \<Rightarrow> policy_context \<Rightarrow> bool" where
  "can_issue_principal_notification db ctx \<longleftrightarrow> has_grant db ctx ''curriculum.notification.issue'' CURRICULUM_MANAGE_ROLES"

definition can_acknowledge_principal_notification :: "'a identity_db_scheme \<Rightarrow> policy_context \<Rightarrow> evidence_card \<Rightarrow> bool" where
  "can_acknowledge_principal_notification db ctx r \<longleftrightarrow> has_grant db ctx ''curriculum.notification.acknowledge'' CURRICULUM_MANAGE_ROLES \<and> resource_in_tenant ctx (crd_tenant r)"

definition can_view_teacher_readiness_requirement :: "'a identity_db_scheme \<Rightarrow> policy_context \<Rightarrow> bool" where
  "can_view_teacher_readiness_requirement db ctx \<longleftrightarrow> has_grant db ctx ''curriculum.teacher_readiness.view'' CURRICULUM_VIEW_ROLES"

definition can_view_teacher_readiness_notice :: "'a academic_db_scheme \<Rightarrow> policy_context \<Rightarrow> teacher_requirement \<Rightarrow> bool" where
  "can_view_teacher_readiness_notice db ctx r =
     (if \<not> can_view_teacher_readiness_requirement db ctx then False
      else if role_in ctx CURRICULUM_MANAGE_ROLES then True
      else case trq_learning_area r of None \<Rightarrow> False | Some area \<Rightarrow> teaches_area db ctx area)"

section \<open>Versions, publications and adoptions (selectors.py, version_resolver.py)\<close>

definition first_row :: "'r list \<Rightarrow> 'r option" where
  "first_row rows = (case rows of [] \<Rightarrow> None | r # _ \<Rightarrow> Some r)"

definition document_active :: "'a catalogue_db_scheme \<Rightarrow> uuid \<Rightarrow> bool" where
  "document_active db i \<longleftrightarrow> (\<exists>d\<in>set (documents db). dm_id d = i \<and> dm_is_active d)"

definition get_active_curriculum_version :: "'a catalogue_db_scheme \<Rightarrow> curriculum_version option" where
  "get_active_curriculum_version db =
     first_row (sort_key (\<lambda>v. - cv_effective_from v)
       (rev (filter (\<lambda>v. cv_is_active v \<and> document_active db (cv_source_document v)) (versions db))))"

definition get_active_curriculum_publication :: "'a curriculum_db_scheme \<Rightarrow> publication option" where
  "get_active_curriculum_publication db =
     first_row (sort_key (\<lambda>p. - pb_effective_from p)
       (sort_key (\<lambda>p. - pb_published_at p) (filter (\<lambda>p. pb_is_active p \<and> pb_superseded_by p = None) (publications db))))"

definition get_active_school_curriculum_adoption :: "'a curriculum_db_scheme \<Rightarrow> school \<Rightarrow> uuid \<Rightarrow> adoption option" where
  "get_active_school_curriculum_adoption db tenant version =
     first_row (sort_key (\<lambda>a. - ad_effective_from a) (rev (filter (\<lambda>a. ad_tenant a = sc_id tenant \<and> ad_version a = version
       \<and> ad_status a \<in> {''scheduled'', ''active''}) (adoptions db))))"

definition get_school_adoption_status :: "'a curriculum_db_scheme \<Rightarrow> school \<Rightarrow> adoption list" where
  "get_school_adoption_status db tenant =
     sort_key (\<lambda>a. - ad_effective_from a) (rev (filter (\<lambda>a. ad_tenant a = sc_id tenant) (adoptions db)))"

definition get_curriculum_publication_history :: "'a curriculum_db_scheme \<Rightarrow> uuid \<Rightarrow> publication list" where
  "get_curriculum_publication_history db version =
     sort_key (\<lambda>p. - pb_effective_from p) (sort_key (\<lambda>p. - pb_published_at p) (filter (\<lambda>p. pb_version p = version) (publications db)))"

definition in_force :: "date \<Rightarrow> publication \<Rightarrow> bool" where
  "in_force on_date p \<longleftrightarrow> pb_is_active p \<and> pb_superseded_by p = None \<and> pb_effective_from p \<le> on_date
     \<and> (case pb_effective_to p of None \<Rightarrow> True | Some e \<Rightarrow> on_date \<le> e)"

text \<open>A reversed sort of Python keeps the order of equal keys.\<close>

definition resolve_publication_for_date :: "publication list \<Rightarrow> date \<Rightarrow> publication option" where
  "resolve_publication_for_date ps on_date = first_row (sort_key (\<lambda>p. - pb_effective_from p) (filter (in_force on_date) ps))"

definition resolve_curriculum_version_for_date :: "'a curriculum_db_scheme \<Rightarrow> date \<Rightarrow> curriculum_version option" where
  "resolve_curriculum_version_for_date db on_date =
     Option.bind (resolve_publication_for_date (filter (\<lambda>p. pb_effective_from p \<le> on_date) (publications db)) on_date)
       (\<lambda>p. version_row db (pb_version p))"

text \<open>A missing time sorts after every other, in the reverse order before.\<close>

definition by_time :: "('r \<Rightarrow> time option) \<Rightarrow> 'r list \<Rightarrow> 'r list" where
  "by_time f rows = sort_key (\<lambda>r. the (f r)) (filter (\<lambda>r. f r \<noteq> None) rows) @ filter (\<lambda>r. f r = None) rows"

definition by_newest :: "('r \<Rightarrow> time option) \<Rightarrow> 'r list \<Rightarrow> 'r list" where
  "by_newest f rows = filter (\<lambda>r. f r = None) rows @ sort_key (\<lambda>r. - the (f r)) (filter (\<lambda>r. f r \<noteq> None) rows)"

definition get_withdrawn_curriculum_versions :: "'a curriculum_db_scheme \<Rightarrow> withdrawal list" where
  "get_withdrawn_curriculum_versions db = by_newest wd_withdrawn_at (rev (filter (\<lambda>w. wd_status w = ''withdrawn'') (withdrawals db)))"

definition get_curriculum_rollback_plans :: "'a curriculum_db_scheme \<Rightarrow> school \<Rightarrow> rollback_plan list" where
  "get_curriculum_rollback_plans db tenant = rev (filter (\<lambda>p. rp_tenant p = sc_id tenant) (rollback_plans db))"

definition get_curriculum_notice_batch_runs :: "'a curriculum_db_scheme \<Rightarrow> school option \<Rightarrow> notice_batch list" where
  "get_curriculum_notice_batch_runs db tenant =
     rev (filter (\<lambda>b. case tenant of None \<Rightarrow> True | Some t \<Rightarrow> nb_tenant b = Some (sc_id t)) (notice_batches db))"

section \<open>The catalogue (selectors.py)\<close>

definition version_active :: "'a curriculum_db_scheme \<Rightarrow> uuid \<Rightarrow> bool" where
  "version_active db i \<longleftrightarrow> (\<exists>v\<in>set (versions db). cv_id v = i \<and> cv_is_active v)"

definition get_curriculum_learning_areas_for_grade :: "'a curriculum_db_scheme \<Rightarrow> uuid \<Rightarrow> uuid \<Rightarrow> curriculum_learning_area list" where
  "get_curriculum_learning_areas_for_grade db version grade_level =
     filter (\<lambda>a. cl_version a = version \<and> cl_grade_level a = grade_level \<and> cl_is_active a \<and> version_active db version) (curriculum_areas db)"

definition get_curriculum_map :: "'a curriculum_db_scheme \<Rightarrow> uuid \<Rightarrow> uuid \<Rightarrow> uuid \<Rightarrow> curriculum_learning_area option" where
  "get_curriculum_map db version grade_level area =
     first_where (\<lambda>a. cl_version a = version \<and> cl_grade_level a = grade_level \<and> cl_learning_area a = area \<and> cl_is_active a
       \<and> version_active db version) (curriculum_areas db)"

definition get_strands_for_learning_area :: "(string \<Rightarrow> 'k::linorder) \<Rightarrow> 'a catalogue_db_scheme \<Rightarrow> uuid \<Rightarrow> strand_detail list" where
  "get_strands_for_learning_area collate db area =
     sort_key sd_sequence_order (sort_key (\<lambda>s. collate (sd_title s)) (filter (\<lambda>s. sd_curriculum_learning_area s = area \<and> sd_is_active s
       \<and> (\<exists>a\<in>set (curriculum_areas db). cl_id a = area \<and> cl_is_active a)) (strand_details db)))"

definition get_sub_strands_for_strand :: "(string \<Rightarrow> 'k::linorder) \<Rightarrow> 'a catalogue_db_scheme \<Rightarrow> uuid \<Rightarrow> sub_strand_detail list" where
  "get_sub_strands_for_strand collate db strand_id =
     sort_key su_sequence_order (sort_key (\<lambda>s. collate (su_title s)) (filter (\<lambda>s. su_strand s = strand_id \<and> su_is_active s
       \<and> (\<exists>d\<in>set (strand_details db). sd_id d = strand_id \<and> sd_is_active d)) (sub_strand_details db)))"

definition get_outcomes_for_sub_strand :: "'a catalogue_db_scheme \<Rightarrow> uuid \<Rightarrow> outcome_detail list" where
  "get_outcomes_for_sub_strand db sub_strand_id =
     sort_key lo_sequence_order (sort_key lo_id (filter (\<lambda>r. lo_sub_strand r = sub_strand_id \<and> lo_is_active r
       \<and> (\<exists>s\<in>set (sub_strand_details db). su_id s = sub_strand_id \<and> su_is_active s)) (outcome_details db)))"

text \<open>A join: one row for each link.\<close>

definition linked_rows :: "(string \<Rightarrow> 'k::linorder) \<Rightarrow> named_code list \<Rightarrow> outcome_link list \<Rightarrow> uuid \<Rightarrow> named_code list" where
  "linked_rows collate rows links outcome_id =
     sort_key (\<lambda>r. collate (nc_name r)) (concat (map (\<lambda>r. if nc_is_active r
       then map (\<lambda>_. r) (filter (\<lambda>l. ol_target l = nc_id r \<and> ol_learning_outcome l = outcome_id \<and> ol_is_active l) links) else []) rows))"

definition get_competencies_for_outcome :: "(string \<Rightarrow> 'k::linorder) \<Rightarrow> 'a catalogue_db_scheme \<Rightarrow> uuid \<Rightarrow> core_competency list" where
  "get_competencies_for_outcome collate db = linked_rows collate (competencies db) (competency_links db)"

definition get_values_for_outcome :: "(string \<Rightarrow> 'k::linorder) \<Rightarrow> 'a catalogue_db_scheme \<Rightarrow> uuid \<Rightarrow> curriculum_value list" where
  "get_values_for_outcome collate db = linked_rows collate (curriculum_values db) (value_links db)"

definition get_pcis_for_outcome :: "(string \<Rightarrow> 'k::linorder) \<Rightarrow> 'a catalogue_db_scheme \<Rightarrow> uuid \<Rightarrow> contemporary_issue list" where
  "get_pcis_for_outcome collate db = linked_rows collate (contemporary_issues db) (pci_links db)"

definition get_rubric_foundation_descriptors :: "(string \<Rightarrow> 'k::linorder) \<Rightarrow> 'a catalogue_db_scheme \<Rightarrow> uuid \<Rightarrow> rubric_detail list" where
  "get_rubric_foundation_descriptors collate db outcome_id =
     sort_key rf_sequence_order (sort_key (\<lambda>r. collate (rf_level_code r))
       (filter (\<lambda>r. rf_learning_outcome r = Some outcome_id \<and> rf_is_active r) (rubric_details db)))"

section \<open>Sources and change sets (selectors.py)\<close>

definition get_active_authorities :: "(string \<Rightarrow> 'k::linorder) \<Rightarrow> 'a evidence_db_scheme \<Rightarrow> authority list" where
  "get_active_authorities collate db = sort_key (\<lambda>a. collate (au_code a)) (filter (\<lambda>a. au_is_active a \<and> au_is_approved a) (authorities db))"

definition get_source_document_history :: "'a catalogue_db_scheme \<Rightarrow> uuid \<Rightarrow> source_document list" where
  "get_source_document_history db authority_id = rev (filter (\<lambda>d. dm_authority d = Some authority_id \<and> dm_is_active d) (documents db))"

definition get_quarantined_artifacts :: "'a catalogue_db_scheme \<Rightarrow> source_artifact list" where
  "get_quarantined_artifacts db = sort_key sa_captured_at (filter (\<lambda>a. sa_quarantine_status a = ''quarantined'') (artifacts db))"

definition get_pending_change_sets :: "'a curriculum_db_scheme \<Rightarrow> change_set list" where
  "get_pending_change_sets db = filter (\<lambda>c. ch_status c \<in> {''detected'', ''quarantined'', ''under_review''}) (change_sets db)"

definition get_approved_change_sets :: "'a curriculum_db_scheme \<Rightarrow> change_set list" where
  "get_approved_change_sets db = by_time ch_reviewed_at (filter (\<lambda>c. ch_status c = ''approved'') (change_sets db))"

definition get_rejected_change_sets :: "'a curriculum_db_scheme \<Rightarrow> change_set list" where
  "get_rejected_change_sets db = by_time ch_reviewed_at (filter (\<lambda>c. ch_status c = ''rejected'') (change_sets db))"

section \<open>Evidence (selectors.py)\<close>

definition get_curriculum_evidence_submissions :: "'a evidence_db_scheme \<Rightarrow> school \<Rightarrow> evidence list" where
  "get_curriculum_evidence_submissions db tenant = rev (filter (\<lambda>e. ce_tenant e = sc_id tenant) (evidence_submissions db))"

definition get_curriculum_verification_reports :: "'a evidence_db_scheme \<Rightarrow> school \<Rightarrow> verification_report list" where
  "get_curriculum_verification_reports db tenant = rev (filter (\<lambda>r. vr_tenant r = sc_id tenant) (verification_reports db))"

definition get_curriculum_governance_decisions :: "'a evidence_db_scheme \<Rightarrow> school \<Rightarrow> governance_decision list" where
  "get_curriculum_governance_decisions db tenant =
     by_newest gd_reviewed_at (rev (filter (\<lambda>d. gd_tenant d = sc_id tenant) (governance_decisions db)))"

definition get_curriculum_app_impact_plans :: "(string \<Rightarrow> 'k::linorder) \<Rightarrow> 'a readiness_db_scheme \<Rightarrow> school \<Rightarrow> impact_plan list" where
  "get_curriculum_app_impact_plans collate db tenant =
     sort_key (\<lambda>p. collate (ip_app_domain p)) (rev (filter (\<lambda>p. ip_tenant p = sc_id tenant) (impact_plans db)))"

definition get_curriculum_rollback_candidates :: "'a evidence_db_scheme \<Rightarrow> school \<Rightarrow> rollback_candidate list" where
  "get_curriculum_rollback_candidates db tenant = rev (filter (\<lambda>c. rc_tenant c = sc_id tenant) (rollback_candidates db))"

section \<open>Differences and notices (selectors.py)\<close>

definition get_curriculum_diffs :: "'a notice_db_scheme \<Rightarrow> curriculum_diff list" where
  "get_curriculum_diffs db = rev (filter (\<lambda>d. cdf_status d \<noteq> ''rejected'') (curriculum_diffs db))"

definition get_diff_items_for_review :: "(string \<Rightarrow> 'k::linorder) \<Rightarrow> 'a notice_db_scheme \<Rightarrow> diff_item list" where
  "get_diff_items_for_review collate db =
     sort_key (\<lambda>d. collate (cdi_severity d)) (sort_key (\<lambda>d. collate (cdi_entity_type d)) (sort_key (\<lambda>d. collate (cdi_entity_identifier d))
       (filter (\<lambda>d. cdi_requires_review d \<and> (\<exists>q\<in>set (curriculum_diffs db). cdf_id q = cdi_diff d \<and> cdf_status q \<in> {''draft'', ''under_review''}))
         (diff_items db))))"

definition get_impacts_for_senior_school :: "'a notice_db_scheme \<Rightarrow> curriculum_impact list" where
  "get_impacts_for_senior_school db = rev (filter (\<lambda>i. cim_category i = ''senior_school_curriculum'') (curriculum_impacts db))"

definition get_impacts_for_junior_to_senior_transition :: "'a notice_db_scheme \<Rightarrow> curriculum_impact list" where
  "get_impacts_for_junior_to_senior_transition db = rev (filter (\<lambda>i. cim_category i = ''junior_to_senior_transition'') (curriculum_impacts db))"

definition get_regulatory_notices_for_review :: "'a notice_db_scheme \<Rightarrow> regulatory_notice list" where
  "get_regulatory_notices_for_review db = filter (\<lambda>n. rgn_review_status n = ''pending_review'') (regulatory_notices db)"

definition get_verified_regulatory_notices :: "'a notice_db_scheme \<Rightarrow> regulatory_notice list" where
  "get_verified_regulatory_notices db =
     by_newest rgn_effective_date (rev (filter (\<lambda>n. rgn_review_status n = ''verified'' \<and> rgn_notice_status n \<in> {''draft'', ''active''})
       (regulatory_notices db)))"

definition get_teacher_readiness_requirements :: "(string \<Rightarrow> 'k::linorder) \<Rightarrow> 'a notice_db_scheme \<Rightarrow> teacher_requirement list" where
  "get_teacher_readiness_requirements collate db =
     by_newest trq_effective_from (sort_key (\<lambda>r. collate (trq_type r)) (filter (\<lambda>r. trq_is_active r
       \<and> (\<exists>n\<in>set (regulatory_notices db). rgn_id n = trq_notice r \<and> rgn_review_status n = ''verified'')) (teacher_requirements db)))"

definition get_pending_principal_notifications :: "'a notice_db_scheme \<Rightarrow> school option \<Rightarrow> evidence_card list" where
  "get_pending_principal_notifications db tenant =
     rev (filter (\<lambda>c. crd_status c = ''ready_for_review'' \<and> (case tenant of None \<Rightarrow> True | Some t \<Rightarrow> crd_tenant c = sc_id t)) (evidence_cards db))"

definition get_issued_principal_notifications_for_school :: "'a notice_db_scheme \<Rightarrow> school \<Rightarrow> evidence_card list" where
  "get_issued_principal_notifications_for_school db tenant =
     rev (filter (\<lambda>c. crd_tenant c = sc_id tenant \<and> crd_status c \<in> {''issued'', ''acknowledged''}) (evidence_cards db))"

definition get_acknowledgements_for_school :: "'a notice_db_scheme \<Rightarrow> school \<Rightarrow> acknowledgement list" where
  "get_acknowledgements_for_school db tenant =
     sort_key (\<lambda>k. - ack_at k) (filter (\<lambda>k. ack_tenant k = sc_id tenant) (acknowledgements db))"

end
