(* ===== verification/Schemas.thy ===== *)
theory Schemas
  imports Correction
begin

text \<open>
  The services of school grading schemas (grading/services.py): creating a schema with its bands,
  activating and deprecating it, binding it to an assessment and mapping a score to one of its bands. The
  bands are inserted in bulk, without the validation of the model: what the columns keep of a decimal and
  what the constraints of the table refuse is written out.
\<close>

section \<open>Reading the bands of a payload\<close>

definition GRADING_SCHEMA_ADMIN_ROLE_CODES :: "string list" where
  "GRADING_SCHEMA_ADMIN_ROLE_CODES = [''principal'', ''deputy_principal'', ''school_admin'']"

definition item_at :: "(string \<times> json) list \<Rightarrow> string \<Rightarrow> json result" where
  "item_at item key = (case map_of item key of None \<Rightarrow> Inl KeyError | Some v \<Rightarrow> Inr v)"

text \<open>Iterating over a number fails, and so does indexing a text or a list by a name.\<close>

definition payload_bands :: "(string \<times> json) list \<Rightarrow> json list result" where
  "payload_bands payload = (case or_json (jget payload ''bands'') (JList []) of JList xs \<Rightarrow> Inr xs | _ \<Rightarrow> Inl TypeError)"

definition band_items :: "json \<Rightarrow> (string \<times> json) list result" where
  "band_items v = (case v of JObj kvs \<Rightarrow> Inr kvs | _ \<Rightarrow> Inl TypeError)"

text \<open>The two percentages, read and converted in turn.\<close>

definition read_band :: "json \<Rightarrow> band_input result" where
  "read_band v =
     ebind (band_items v) (\<lambda>band.
       ebind (item_at band ''min_percentage'') (\<lambda>lo.
         ebind (decimal_of_text (json_str lo)) (\<lambda>_.
           ebind (item_at band ''max_percentage'') (\<lambda>hi.
             ebind (decimal_of_text (json_str hi)) (\<lambda>_.
               Inr \<lparr>bi_label = [], bi_descriptor = [], bi_min = json_str lo, bi_max = json_str hi, bi_points = None\<rparr>)))))"

section \<open>Stored decimals\<close>

text \<open>A numeric(5, 2) column takes a finite number only, rounds half away from zero, has no negative zero and no room for 1000 or more.\<close>

definition round_cents :: "nat \<Rightarrow> int \<Rightarrow> nat" where
  "round_cents c e = (if -2 \<le> e then c * 10 ^ nat (e + 2) else half_up c (nat (- 2 - e)))"

definition numeric_5_2 :: "decimal \<Rightarrow> decimal result" where
  "numeric_5_2 d = (case d of
       Fin s c e \<Rightarrow> if 100000 \<le> round_cents c e then Inl (OtherError ''DataError'') else Inr (Fin (s \<and> round_cents c e \<noteq> 0) (round_cents c e) (-2))
     | _ \<Rightarrow> Inl (ValidationError ''bands'' ''Enter a number.''))"

definition stored_band :: "schema_band \<Rightarrow> schema_band result" where
  "stored_band b =
     ebind (numeric_5_2 (sb_min b)) (\<lambda>lo. ebind (numeric_5_2 (sb_max b)) (\<lambda>hi.
       ebind (case sb_points b of None \<Rightarrow> Inr None | Some p \<Rightarrow> ebind (numeric_5_2 p) (\<lambda>q. Inr (Some q))) (\<lambda>points.
         Inr (b\<lparr>sb_min := lo, sb_max := hi, sb_points := points\<rparr>))))"

definition band_constraints :: "schema_band \<Rightarrow> bool" where
  "band_constraints b \<longleftrightarrow> dec_le dec_0 (sb_min b) = Inr True \<and> dec_le (sb_max b) dec_100 = Inr True \<and> dec_le (sb_min b) (sb_max b) = Inr True"

definition bulk_create_bands :: "schema_band list \<Rightarrow> ('a grading_db_scheme, unit) action" where
  "bulk_create_bands bands =
     abind (alift (emap stored_band bands)) (\<lambda>rows db.
       if \<not> distinct (map sb_label rows) \<or> (\<exists>b\<in>set rows. \<not> band_constraints b)
            \<or> (\<exists>b\<in>set rows. \<exists>q\<in>set (schema_bands db). sb_tenant q = sb_tenant b \<and> sb_schema q = sb_schema b \<and> sb_label q = sb_label b)
       then (Inl IntegrityError, db) else (Inr (), db\<lparr>schema_bands := schema_bands db @ rows\<rparr>))"

section \<open>Creating a schema\<close>

definition new_band :: "school \<Rightarrow> uuid \<Rightarrow> nat \<times> json \<Rightarrow> schema_band result" where
  "new_band tenant schema_id = (\<lambda>(k, v).
     ebind (band_items v) (\<lambda>band.
       ebind (item_at band ''label'') (\<lambda>l. ebind (sanitize_untrusted_text l 32) (\<lambda>label.
         ebind (sanitize_untrusted_text (jget_or band ''descriptor'' (JStr [])) 160) (\<lambda>descriptor.
           ebind (item_at band ''min_percentage'') (\<lambda>a. ebind (decimal_of_text (json_str a)) (\<lambda>lo.
             ebind (item_at band ''max_percentage'') (\<lambda>b. ebind (decimal_of_text (json_str b)) (\<lambda>hi.
               ebind (if jget band ''points'' = JNull then Inr None
                      else ebind (decimal_of_text (json_str (jget band ''points''))) (\<lambda>p. Inr (Some p))) (\<lambda>points.
                 Inr \<lparr>sb_tenant = sc_id tenant, sb_schema = schema_id, sb_label = label, sb_descriptor = descriptor, sb_min = lo, sb_max = hi,
                   sb_points = points, sb_order = int k + 1\<rparr>))))))))))"

definition schema_errors :: "schema_validation \<Rightarrow> unit result" where
  "schema_errors v = (if sv_is_valid v then Inr () else Inl (ValidationError ''bands'' (join '', '' (sv_errors v))))"

text \<open>The schema a payload describes, after every check before the first write.\<close>

definition new_schema ::
  "uuid \<Rightarrow> user \<Rightarrow> school \<Rightarrow> (string \<times> json) list \<Rightarrow> 'a grading_db_scheme \<Rightarrow> (grading_schema \<times> json list) result" where
  "new_schema new_id actor tenant payload db =
     ebind (reject_correction_mass_assignment payload) (\<lambda>_.
       let ctx = policy_context_for db (Some actor) (Some tenant) ''grading.schema.create'' GRADING_SCHEMA_ADMIN_ROLE_CODES;
           coverage = json_truthy (jget_or payload ''requires_full_coverage'' (JBool True)) in
       if \<not> can_manage_school_grading_schema db ctx ''grading.schema.create'' None None
       then Inl (ValidationError ''schema'' ''Schema management is not authorized.'')
       else ebind (payload_bands payload) (\<lambda>bands.
         ebind (ebind (emap read_band bands) (\<lambda>inputs. validate_schema_bands inputs coverage)) (\<lambda>v.
           ebind (schema_errors v) (\<lambda>_.
             ebind (sanitize_untrusted_text (jget payload ''name'') 120) (\<lambda>name.
               ebind (sanitize_untrusted_text (jget payload ''version_label'') 48) (\<lambda>version_label.
                 Inr (\<lparr>gs_id = new_id, gs_tenant = sc_id tenant, gs_name = name,
                   gs_assessment_type = json_str (or_json (jget payload ''assessment_type'') (JStr [])), gs_version_label = version_label,
                   gs_status = ''draft'', gs_requires_full_coverage = coverage, gs_created_by = us_id actor, gs_activated_by = None,
                   gs_activated_at = None, gs_deprecated_by = None, gs_deprecated_at = None\<rparr>, bands)))))))"

definition create_school_grading_schema ::
  "uuid \<Rightarrow> user \<Rightarrow> school \<Rightarrow> (string \<times> json) list \<Rightarrow> ('a grading_db_scheme, grading_schema) action" where
  "create_school_grading_schema new_id actor tenant payload =
     atomic (abind (query (new_schema new_id actor tenant payload)) (\<lambda>(s, bands).
       abind (save_row schema_full_clean add_schema s) (\<lambda>s.
         abind (alift (emap (new_band tenant (gs_id s)) (numbered bands))) (\<lambda>rows.
           abind (bulk_create_bands rows) (\<lambda>_. alift (Inr s))))))"

section \<open>Activating and deprecating\<close>

definition tenant_schema :: "'a grading_db_scheme \<Rightarrow> school \<Rightarrow> uuid \<Rightarrow> grading_schema option" where
  "tenant_schema db tenant schema_id = first_where (\<lambda>s. gs_tenant s = sc_id tenant \<and> gs_id s = schema_id) (schemas db)"

definition schema_rows :: "'a grading_db_scheme \<Rightarrow> uuid \<Rightarrow> schema_band list" where
  "schema_rows db schema_id = filter (\<lambda>b. sb_schema b = schema_id) (schema_bands db)"

definition managed_schema :: "user \<Rightarrow> school \<Rightarrow> string \<Rightarrow> uuid \<Rightarrow> 'a grading_db_scheme \<Rightarrow> grading_schema result" where
  "managed_schema actor tenant action schema_id db =
     (case tenant_schema db tenant schema_id of None \<Rightarrow> Inl (ValidationError ''schema'' ''Schema is not available.'')
      | Some s \<Rightarrow>
          if \<not> can_manage_school_grading_schema db
               (policy_context_for db (Some actor) (Some tenant) action GRADING_SCHEMA_ADMIN_ROLE_CODES) action (Some s) None
          then Inl (ValidationError ''schema'' ''Schema management is not authorized.'') else Inr s)"

definition activatable_schema :: "user \<Rightarrow> school \<Rightarrow> uuid \<Rightarrow> 'a grading_db_scheme \<Rightarrow> grading_schema result" where
  "activatable_schema actor tenant schema_id db =
     ebind (managed_schema actor tenant ''grading.schema.activate'' schema_id db) (\<lambda>s.
       ebind (validate_schema_bands (map band_input_of (schema_rows db (gs_id s))) (gs_requires_full_coverage s)) (\<lambda>v.
         ebind (schema_errors v) (\<lambda>_. Inr s)))"

definition activate_school_grading_schema :: "time \<Rightarrow> user \<Rightarrow> school \<Rightarrow> uuid \<Rightarrow> ('a grading_db_scheme, grading_schema) action" where
  "activate_school_grading_schema now actor tenant schema_id =
     atomic (abind (query (activatable_schema actor tenant schema_id)) (\<lambda>s.
       save_row schema_full_clean put_schema (s\<lparr>gs_status := ''active'', gs_activated_by := Some (us_id actor), gs_activated_at := Some now\<rparr>)))"

definition deprecate_school_grading_schema :: "time \<Rightarrow> user \<Rightarrow> school \<Rightarrow> uuid \<Rightarrow> ('a grading_db_scheme, grading_schema) action" where
  "deprecate_school_grading_schema now actor tenant schema_id =
     atomic (abind (query (managed_schema actor tenant ''grading.schema.deprecate'' schema_id)) (\<lambda>s.
       save_row schema_full_clean put_schema (s\<lparr>gs_status := ''deprecated'', gs_deprecated_by := Some (us_id actor), gs_deprecated_at := Some now\<rparr>)))"

section \<open>Binding\<close>

definition bindable_schema :: "user \<Rightarrow> school \<Rightarrow> uuid \<Rightarrow> uuid \<Rightarrow> 'a grading_db_scheme \<Rightarrow> (assessment \<times> grading_schema) result" where
  "bindable_schema actor tenant assessment_id schema_id db =
     (case (first_where (\<lambda>a. as_tenant a = sc_id tenant \<and> as_id a = assessment_id) (assessments db), tenant_schema db tenant schema_id) of
        (Some a, Some s) \<Rightarrow>
          if \<not> can_manage_school_grading_schema db
               (policy_context_for db (Some actor) (Some tenant) ''grading.schema.bind'' GRADING_SCHEMA_ADMIN_ROLE_CODES)
               ''grading.schema.bind'' (Some s) (Some a)
          then Inl (ValidationError ''schema'' ''Schema binding is not authorized.'')
          else let decision = can_bind_school_schema (as_type a) (gs_assessment_type s) (as_version a \<noteq> None \<and> as_rubric a \<noteq> None) in
            if \<not> bd_allowed decision then Inl (ValidationError ''schema'' (bd_reason decision))
            else if gs_status s \<notin> {''active'', ''locked''} then Inl (ValidationError ''schema'' ''Schema is not active.'')
            else Inr (a, s)
      | _ \<Rightarrow> Inl (ValidationError ''schema'' ''Schema binding is not available.''))"

definition bind_schema_to_assessment :: "time \<Rightarrow> user \<Rightarrow> school \<Rightarrow> uuid \<Rightarrow> uuid \<Rightarrow> ('a grading_db_scheme, assessment) action" where
  "bind_schema_to_assessment now actor tenant assessment_id schema_id =
     atomic (abind (query (bindable_schema actor tenant assessment_id schema_id)) (\<lambda>(a, s).
       assessment_save now (a\<lparr>as_schema := Some (gs_id s), as_schema_version := gs_version_label s\<rparr>)))"

definition resolve_assessment_grading_schema :: "'a grading_db_scheme \<Rightarrow> school \<Rightarrow> assessment \<Rightarrow> grading_schema option" where
  "resolve_assessment_grading_schema db tenant a = get_assessment_schema_binding db tenant a"

section \<open>Mapping a score\<close>

record score_band =
  sm_raw_score :: string
  sm_max_score :: string
  sm_normalized_score :: string
  sm_band_label :: string
  sm_band_descriptor :: string
  sm_schema_version :: string

text \<open>The score as the text \<open>str\<close> gives of it.\<close>

definition map_score_to_school_band :: "'a grading_db_scheme \<Rightarrow> school \<Rightarrow> assessment \<Rightarrow> string \<Rightarrow> score_band result" where
  "map_score_to_school_band db tenant a raw_score =
     (let bands = get_schema_bands_for_assessment db tenant a in
      if bands = [] then Inl (ValidationError ''schema'' ''Assessment has no school grading schema.'')
      else ebind (map_score_to_band raw_score (dec_str (as_max_score a)) (map band_input_of bands)) (\<lambda>m.
        Inr \<lparr>sm_raw_score = dec_str (bm_raw_score m), sm_max_score = dec_str (bm_max_score m),
             sm_normalized_score = dec_str (bm_normalized_percentage m), sm_band_label = bm_band_label m,
             sm_band_descriptor = bm_band_descriptor m, sm_schema_version = as_schema_version a\<rparr>))"

end
