(* ===== verification/SchemaFacts.thy ===== *)
theory SchemaFacts
  imports Schemas BandFacts CorrectionFacts
begin

text \<open>
  What holds of school grading schemas in every state their services reach: the bands of an active schema are
  valid as stored, and so an assessment bound to it has exactly one band for every score.
\<close>

section \<open>The order of the bands does not matter\<close>

lemma ranges_are_map:
  assumes "\<forall>b\<in>set bands. grid_band b"
  shows "emap band_range bands = Inr (map (\<lambda>b. projr (band_range b)) bands)"
    and "b \<in> set bands \<Longrightarrow> \<exists>p. projr (band_range b) = grid p"
proof -
  have r: "\<exists>p. band_range b = Inr (grid p)" if "b \<in> set bands" for b
    using assms that by (fastforce simp: grid_band_def band_range_def grid_def)
  then show "b \<in> set bands \<Longrightarrow> \<exists>p. projr (band_range b) = grid p" by fastforce
  have "list_all2 (\<lambda>b r. band_range b = Inr r) bands (map (\<lambda>b. projr (band_range b)) bands)"
    using r by (force simp: list_all2_map2 intro!: list.rel_refl_strong)
  then show "emap band_range bands = Inr (map (\<lambda>b. projr (band_range b)) bands)" by (simp add: emap_all2)
qed

lemma validate_perm:
  assumes "mset bands = mset bands'" and "\<forall>b\<in>set bands. grid_band b"
  shows "validate_schema_bands bands cov = validate_schema_bands bands' cov"
proof -
  have "set bands' = set bands" using mset_eq_setD [OF assms(1)] by simp
  then have g: "\<forall>b\<in>set bands'. grid_band b" using assms(2) by simp
  let ?f = "\<lambda>b. projr (band_range b)" and ?k = "\<lambda>x. (dec_key (fst (id x)), dec_key (snd (id x)))"
  have "inj_on ?k (set (map ?f bands))"
  proof (rule inj_onI)
    fix x y assume "x \<in> set (map ?f bands)" "y \<in> set (map ?f bands)" and e: "?k x = ?k y"
    then obtain b c where "x = ?f b" "b \<in> set bands" "y = ?f c" "c \<in> set bands" by auto
    then obtain p q where "x = grid p" "y = grid q" using ranges_are_map(2) [OF assms(2)] by metis
    then show "x = y" using e by (simp add: grid_def)
  qed
  then have s: "sort_key ?k (map ?f bands) = sort_key ?k (map ?f bands')"
    by (intro sort_key_inj_key_eq) (simp_all add: assms(1))
  have "\<forall>x\<in>set (map ?f bands). \<exists>p. id x = grid p" "\<forall>x\<in>set (map ?f bands'). \<exists>p. id x = grid p"
    using ranges_are_map(2) [OF assms(2)] ranges_are_map(2) [OF g] by auto
  then have "sort_ranges id (map ?f bands) = sort_ranges id (map ?f bands')" using s by (simp only: sort_ranges_grid)
  then show ?thesis by (simp add: validate_schema_bands_def ranges_are_map(1) [OF assms(2)] ranges_are_map(1) [OF g])
qed

section \<open>What the tables keep\<close>

definition band_on_grid :: "schema_band \<Rightarrow> bool" where
  "band_on_grid b \<longleftrightarrow> (\<exists>lo hi. sb_min b = cents lo \<and> sb_max b = cents hi) \<and>
     (case sb_points b of None \<Rightarrow> True | Some p \<Rightarrow> \<exists>d. decimal_of_text (dec_str p) = Inr d)"

definition schema_valid :: "'a grading_db_scheme \<Rightarrow> grading_schema \<Rightarrow> bool" where
  "schema_valid db s \<longleftrightarrow> (\<exists>v. validate_schema_bands (map band_input_of (schema_rows db (gs_id s))) (gs_requires_full_coverage s) = Inr v \<and> sv_is_valid v)"

definition schemas_ok :: "'a grading_db_scheme \<Rightarrow> bool" where
  "schemas_ok db \<longleftrightarrow> distinct (map gs_id (schemas db)) \<and>
     (\<forall>b\<in>set (schema_bands db). band_on_grid b \<and> (\<exists>s\<in>set (schemas db). gs_id s = sb_schema b \<and> gs_tenant s = sb_tenant b)) \<and>
     (\<forall>s\<in>set (schemas db). gs_status s \<in> {''active'', ''locked''} \<longrightarrow> schema_valid db s)"

lemma stored_band_grid:
  assumes "stored_band b = Inr b'" and "band_constraints b'"
  shows "band_on_grid b'" and "sb_schema b' = sb_schema b" and "sb_tenant b' = sb_tenant b"
proof -
  obtain lo hi points where b': "b' = b\<lparr>sb_min := lo, sb_max := hi, sb_points := points\<rparr>" and lo: "numeric_5_2 (sb_min b) = Inr lo"
    and hi: "numeric_5_2 (sb_max b) = Inr hi"
    and p: "(case sb_points b of None \<Rightarrow> Inr None | Some p \<Rightarrow> ebind (numeric_5_2 p) (\<lambda>q. Inr (Some q))) = Inr points"
    using assms(1) by (auto simp: stored_band_def ebind_eq_Inr)
  show "sb_schema b' = sb_schema b" "sb_tenant b' = sb_tenant b" by (simp_all add: b')
  have kept: "q = QNaN \<or> (\<exists>s n. q = Fin s n (-2) \<and> (s \<longrightarrow> n \<noteq> 0))" if "numeric_5_2 d = Inr q" for d q
    using that by (auto simp: numeric_5_2_def split: decimal.split_asm if_split_asm)
  have low: "\<exists>n. q = cents n" if k: "q = QNaN \<or> (\<exists>s n. q = Fin s n (-2) \<and> (s \<longrightarrow> n \<noteq> 0))" and l: "dec_le (cents m) q = Inr True" for q m
  proof -
    from k l obtain s n where q: "q = Fin s n (-2)" "s \<longrightarrow> n \<noteq> 0" by (auto simp: dec_le_def cents_def)
    have "\<not> s" using l q by (auto simp: cents_def dec_le_finite sval_def dval_def)
    then show ?thesis using q by (simp add: cents_def)
  qed
  have c: "dec_le dec_0 lo = Inr True" "dec_le lo hi = Inr True" using assms(2) by (simp_all add: band_constraints_def b')
  have "dec_le (cents 0) q = dec_le dec_0 q" for q
    by (cases q) (simp_all add: dec_0_def cents_def dec_le_finite sval_def dval_def, simp_all add: dec_le_def)
  then have "dec_le (cents 0) lo = Inr True" using c(1) by simp
  from low [OF kept [OF lo] this] obtain n where n: "lo = cents n" by blast
  from low [OF kept [OF hi]] c(2) n obtain m where m: "hi = cents m" by blast
  have "case points of None \<Rightarrow> True | Some p \<Rightarrow> \<exists>d. decimal_of_text (dec_str p) = Inr d"
  proof -
    have "decimal_of_text (dec_str QNaN) = Inr QNaN" by code_simp
    then have "\<exists>d. decimal_of_text (dec_str q) = Inr d" if "numeric_5_2 r = Inr q" for r q
      using kept [OF that] decimal_of_dec_str by blast
    then show ?thesis using p by (auto simp: ebind_eq_Inr split: option.split_asm)
  qed
  then show "band_on_grid b'" using n m by (auto simp: band_on_grid_def b')
qed


section \<open>Every service keeps the schemas valid\<close>

lemma new_schema_Inr:
  assumes "new_schema new_id actor tenant payload db = Inr (s, bands)"
  shows "gs_id s = new_id \<and> gs_tenant s = sc_id tenant \<and> gs_status s = ''draft''"
  using assms by (auto simp: new_schema_def ebind_eq_Inr Let_def split: if_split_asm)

lemma schema_full_clean_Inr:
  assumes "schema_full_clean db s = Inr s'"
  shows "gs_id s' = gs_id s \<and> gs_tenant s' = gs_tenant s \<and> gs_status s' = gs_status s \<and> gs_requires_full_coverage s' = gs_requires_full_coverage s"
  using assms by (auto simp: schema_full_clean_def schema_clean_def Let_def ebind_eq_Inr split: if_split_asm)

lemma bulk_create_Inr:
  assumes "bulk_create_bands bands db = (Inr u, db')" and "\<And>b. b \<in> set bands \<Longrightarrow> sb_schema b = i \<and> sb_tenant b = t"
  shows "\<exists>rows. db' = db\<lparr>schema_bands := schema_bands db @ rows\<rparr> \<and> (\<forall>b\<in>set rows. band_on_grid b \<and> sb_schema b = i \<and> sb_tenant b = t)"
proof -
  from assms(1) obtain rows where rows: "emap stored_band bands = Inr rows" and c: "\<forall>b\<in>set rows. band_constraints b"
    and db': "db' = db\<lparr>schema_bands := schema_bands db @ rows\<rparr>"
    by (auto simp: bulk_create_bands_def abind_eq_Inr alift_eq_Inr split: if_split_asm)
  have "band_on_grid b \<and> sb_schema b = i \<and> sb_tenant b = t" if b: "b \<in> set rows" for b
  proof -
    obtain b0 where "b0 \<in> set bands" "stored_band b0 = Inr b" using emap_set [OF rows b] by blast
    then show ?thesis using stored_band_grid [of b0 b] c b assms(2) by simp
  qed
  then show ?thesis using db' by blast
qed

lemma new_band_Inr: "new_band tenant i x = Inr b \<Longrightarrow> sb_schema b = i \<and> sb_tenant b = sc_id tenant"
  by (cases x) (auto simp: new_band_def ebind_eq_Inr)

lemma create_schema_Inr:
  assumes "create_school_grading_schema new_id actor tenant payload db = (Inr s, db')"
  shows "\<exists>rows. db' = db\<lparr>schemas := schemas db @ [s], schema_bands := schema_bands db @ rows\<rparr> \<and> gs_id s = new_id \<and> gs_status s = ''draft'' \<and>
    (\<forall>b\<in>set rows. band_on_grid b \<and> sb_schema b = new_id \<and> sb_tenant b = gs_tenant s)"
proof -
  from assms obtain s0 bands rows u where n: "new_schema new_id actor tenant payload db = Inr (s0, bands)" and f: "schema_full_clean db s0 = Inr s"
    and e: "emap (new_band tenant (gs_id s)) (numbered bands) = Inr rows" and b: "bulk_create_bands rows (add_schema s db) = (Inr u, db')"
    by (auto simp: create_school_grading_schema_def atomic_eq_Inr abind_eq_Inr alift_eq_Inr save_row_Inr)
  note s = new_schema_Inr [OF n] schema_full_clean_Inr [OF f]
  have "sb_schema r = gs_id s \<and> sb_tenant r = sc_id tenant" if "r \<in> set rows" for r
    using emap_set [OF e that] new_band_Inr by blast
  from bulk_create_Inr [OF b this] show ?thesis using s by (auto simp: add_schema_def)
qed

lemma managed_schema_Inr: "managed_schema actor tenant act i db = Inr s \<Longrightarrow> s \<in> set (schemas db)"
  by (auto simp: managed_schema_def tenant_schema_def split: option.split_asm if_split_asm dest: first_where_SomeD)

lemma activate_Inr:
  assumes "activate_school_grading_schema now actor tenant i db = (Inr s', db')"
  shows "\<exists>s. s \<in> set (schemas db) \<and> db' = put_schema s' db \<and> gs_id s' = gs_id s \<and> gs_tenant s' = gs_tenant s \<and>
    schema_valid db s \<and> gs_requires_full_coverage s' = gs_requires_full_coverage s"
proof -
  from assms obtain s where a: "activatable_schema actor tenant i db = Inr s"
    and f: "schema_full_clean db (s\<lparr>gs_status := ''active'', gs_activated_by := Some (us_id actor), gs_activated_at := Some now\<rparr>) = Inr s'"
    and db': "db' = put_schema s' db"
    by (auto simp: activate_school_grading_schema_def atomic_eq_Inr abind_eq_Inr save_row_Inr)
  from a have "s \<in> set (schemas db)" "schema_valid db s"
    by (auto simp: activatable_schema_def ebind_eq_Inr schema_errors_def schema_valid_def split: if_split_asm dest: managed_schema_Inr)
  then show ?thesis using schema_full_clean_Inr [OF f] db' by auto
qed

lemma deprecate_Inr:
  assumes "deprecate_school_grading_schema now actor tenant i db = (Inr s', db')"
  shows "\<exists>s. s \<in> set (schemas db) \<and> db' = put_schema s' db \<and> gs_id s' = gs_id s \<and> gs_tenant s' = gs_tenant s \<and> gs_status s' = ''deprecated''"
proof -
  from assms obtain s where a: "managed_schema actor tenant ''grading.schema.deprecate'' i db = Inr s"
    and f: "schema_full_clean db (s\<lparr>gs_status := ''deprecated'', gs_deprecated_by := Some (us_id actor), gs_deprecated_at := Some now\<rparr>) = Inr s'"
    and db': "db' = put_schema s' db"
    by (auto simp: deprecate_school_grading_schema_def atomic_eq_Inr abind_eq_Inr save_row_Inr)
  then show ?thesis using schema_full_clean_Inr [OF f] managed_schema_Inr [OF a] by auto
qed

lemma assessment_save_Inr: "assessment_save now a db = (Inr a', db') \<Longrightarrow> db' = put_assessment a' db"
  by (cases "assessment_full_clean db a") (auto simp: assessment_save_def Let_def)

lemma bind_schema_frame:
  assumes "bind_schema_to_assessment now actor tenant i j db = (r, db')"
  shows "schemas db' = schemas db \<and> schema_bands db' = schema_bands db"
proof (cases r)
  case (Inl x)
  then show ?thesis using assms by (auto simp: bind_schema_to_assessment_def dest: atomic_unchanged)
next
  case (Inr a)
  then show ?thesis using assms
    by (auto simp: bind_schema_to_assessment_def atomic_eq_Inr abind_eq_Inr put_assessment_def dest!: assessment_save_Inr)
qed

lemma schemas_frame: "schemas db' = schemas db \<Longrightarrow> schema_bands db' = schema_bands db \<Longrightarrow> schemas_ok db \<Longrightarrow> schemas_ok db'"
  by (simp add: schemas_ok_def schema_valid_def schema_rows_def)

lemma put_schema_keeps:
  assumes ok: "schemas_ok db" and s: "s \<in> set (schemas db)" and k: "gs_id s' = gs_id s" "gs_tenant s' = gs_tenant s"
    and v: "gs_status s' \<in> {''active'', ''locked''} \<Longrightarrow> schema_valid db s'"
  shows "schemas_ok (put_schema s' db)"
proof -
  let ?ss = "update_where (\<lambda>q. gs_id q = gs_id s') (\<lambda>_. s') (schemas db)"
  have "map gs_id ?ss = map gs_id (schemas db)" by (rule map_update_where) simp
  moreover have "\<exists>q\<in>set ?ss. gs_id q = sb_schema b \<and> gs_tenant q = sb_tenant b" if b: "b \<in> set (schema_bands db)" for b
  proof -
    obtain q where q: "q \<in> set (schemas db)" "gs_id q = sb_schema b" "gs_tenant q = sb_tenant b" using ok b by (auto simp: schemas_ok_def)
    show ?thesis
    proof (cases "gs_id q = gs_id s")
      case True
      have "distinct (map gs_id (schemas db))" using ok by (simp add: schemas_ok_def)
      then have "q = s" using True q(1) s by (auto simp: distinct_map dest: inj_onD)
      then show ?thesis using q s k by (intro bexI [of _ s']) (auto simp: set_update_where)
    next
      case False
      then show ?thesis using q k by (intro bexI [of _ q]) (auto simp: set_update_where)
    qed
  qed
  moreover have "schema_valid (put_schema s' db) q = schema_valid db q" for q by (simp add: schema_valid_def schema_rows_def put_schema_def)
  moreover have "schema_valid db q" if "q \<in> set ?ss" "gs_status q \<in> {''active'', ''locked''}" for q
    using that v ok by (auto simp: set_update_where schemas_ok_def)
  ultimately show ?thesis using ok by (simp add: schemas_ok_def) (simp add: put_schema_def)
qed

lemma create_schema_keeps:
  assumes ok: "schemas_ok db" and fresh: "gs_id s \<notin> gs_id ` set (schemas db)" and st: "gs_status s = ''draft''"
    and rows: "\<forall>b\<in>set rows. band_on_grid b \<and> sb_schema b = gs_id s \<and> sb_tenant b = gs_tenant s"
  shows "schemas_ok (db\<lparr>schemas := schemas db @ [s], schema_bands := schema_bands db @ rows\<rparr>)" (is "schemas_ok ?db")
proof -
  have "schema_rows ?db (gs_id q) = schema_rows db (gs_id q)" if "q \<in> set (schemas db)" for q
    using that fresh rows by (auto simp: schema_rows_def filter_empty_conv)
  then have "schema_valid ?db q = schema_valid db q" if "q \<in> set (schemas db)" for q using that by (simp add: schema_valid_def)
  then show ?thesis using ok fresh st rows by (auto simp: schemas_ok_def)
qed

section \<open>Reachable states\<close>

text \<open>The services in any order; a new schema has a fresh id.\<close>

inductive schema_step :: "'a grading_db_scheme \<Rightarrow> 'a grading_db_scheme \<Rightarrow> bool" where
  creates: "i \<notin> gs_id ` set (schemas db) \<Longrightarrow> schema_step db (snd (create_school_grading_schema i actor tenant payload db))"
| activates: "schema_step db (snd (activate_school_grading_schema now actor tenant i db))"
| deprecates: "schema_step db (snd (deprecate_school_grading_schema now actor tenant i db))"
| binds: "schema_step db (snd (bind_schema_to_assessment now actor tenant j i db))"

lemma schema_services_refuse:
  "create_school_grading_schema i actor tenant payload db = (Inl x, db') \<Longrightarrow> db' = db"
  "activate_school_grading_schema now actor tenant i db = (Inl x, db') \<Longrightarrow> db' = db"
  "deprecate_school_grading_schema now actor tenant i db = (Inl x, db') \<Longrightarrow> db' = db"
  by (auto simp: create_school_grading_schema_def activate_school_grading_schema_def deprecate_school_grading_schema_def dest: atomic_unchanged)

lemma schema_step_keeps: "schema_step db db' \<Longrightarrow> schemas_ok db \<Longrightarrow> schemas_ok db'"
proof (induction rule: schema_step.induct)
  case (creates i db actor tenant payload)
  show ?case
  proof (rule service_keeps [where P = schemas_ok, OF _ creates(2)], erule schema_services_refuse)
    fix s t assume "create_school_grading_schema i actor tenant payload db = (Inr s, t)"
    from create_schema_Inr [OF this] obtain rows where t: "t = db\<lparr>schemas := schemas db @ [s], schema_bands := schema_bands db @ rows\<rparr>"
      and s: "gs_id s = i" "gs_status s = ''draft''" "\<forall>b\<in>set rows. band_on_grid b \<and> sb_schema b = i \<and> sb_tenant b = gs_tenant s" by blast
    show "schemas_ok t" unfolding t by (rule create_schema_keeps [OF creates(2)]) (use creates(1) s in simp_all)
  qed
next
  case (activates db now actor tenant i)
  show ?case
  proof (rule service_keeps [where P = schemas_ok, OF _ activates], erule schema_services_refuse)
    fix s t assume "activate_school_grading_schema now actor tenant i db = (Inr s, t)"
    from activate_Inr [OF this] obtain s0 where s0: "s0 \<in> set (schemas db)" "t = put_schema s db" "gs_id s = gs_id s0" "gs_tenant s = gs_tenant s0"
      "schema_valid db s0" "gs_requires_full_coverage s = gs_requires_full_coverage s0" by blast
    then have "schema_valid db s" by (simp add: schema_valid_def)
    then show "schemas_ok t" using put_schema_keeps [OF activates s0(1,3,4)] s0(2) by simp
  qed
next
  case (deprecates db now actor tenant i)
  show ?case
  proof (rule service_keeps [where P = schemas_ok, OF _ deprecates], erule schema_services_refuse)
    fix s t assume "deprecate_school_grading_schema now actor tenant i db = (Inr s, t)"
    from deprecate_Inr [OF this] obtain s0 where s0: "s0 \<in> set (schemas db)" "t = put_schema s db" "gs_id s = gs_id s0" "gs_tenant s = gs_tenant s0"
      "gs_status s = ''deprecated''" by blast
    then show "schemas_ok t" using put_schema_keeps [OF deprecates s0(1,3,4)] by simp
  qed
next
  case (binds db now actor tenant j i)
  then show ?case
    by (cases "bind_schema_to_assessment now actor tenant j i db") (simp add: schemas_frame [OF _ _ binds] bind_schema_frame)
qed

lemma reachable_schemas: "schema_step\<^sup>*\<^sup>* db0 db \<Longrightarrow> schemas_ok db0 \<Longrightarrow> schemas_ok db"
  by (induction rule: rtranclp_induct) (simp_all add: schema_step_keeps)

section \<open>Scores of bound assessments\<close>

lemma schema_row_member:
  assumes "schemas_ok db" and "s \<in> set (schemas db)"
  shows "schema_row db (gs_id s) = Some s"
  unfolding schema_row_def
proof (rule first_where_unique)
  show "q = s" if "q \<in> set (schemas db)" "gs_id q = gs_id s" for q
    using that assms by (auto simp: schemas_ok_def distinct_map dest: inj_onD)
qed (use assms(2) in simp_all)

lemma bound_bands:
  assumes ok: "schemas_ok db" and s: "s \<in> set (schemas db)" and a: "as_tenant a = sc_id tenant" "as_schema a = Some (gs_id s)" "gs_tenant s = sc_id tenant"
  shows "mset (get_schema_bands_for_assessment db tenant a) = mset (schema_rows db (gs_id s))"
proof -
  have "sb_tenant b = sc_id tenant" if b: "b \<in> set (schema_bands db)" "sb_schema b = gs_id s" for b
  proof -
    obtain q where "q \<in> set (schemas db)" "gs_id q = sb_schema b" "gs_tenant q = sb_tenant b" using ok b(1) by (auto simp: schemas_ok_def)
    moreover from this have "q = s" using b(2) s ok by (auto simp: schemas_ok_def distinct_map dest: inj_onD)
    ultimately show ?thesis using a(3) by simp
  qed
  then have "filter (\<lambda>b. sb_tenant b = sc_id tenant \<and> sb_schema b = gs_id s) (schema_bands db) = schema_rows db (gs_id s)"
    unfolding schema_rows_def by (intro filter_cong) auto
  then show ?thesis using schema_row_member [OF ok s] a by (simp add: get_schema_bands_for_assessment_def get_assessment_schema_binding_def)
qed

lemma band_input_grid: "band_on_grid b \<Longrightarrow> grid_band (band_input_of b)"
  by (auto simp: band_on_grid_def grid_band_def band_input_of_def cents_def decimal_of_dec_str)

text \<open>C38: A score always gets its band. Whatever schema operations ran, when an assessment is bound to an active schema of its school
  that must cover every percentage, then for every score from zero to the maximum (both in hundredths) the mapper returns a
  result, from the only stored band of the schema that holds the percentage, and the percentage is exact.\<close>

theorem bound_scores_get_bands:
  assumes "schema_step\<^sup>*\<^sup>* db0 db" and "schemas_ok db0" and "s \<in> set (schemas db)" and "gs_status s = ''active''"
    and "gs_requires_full_coverage s" and "gs_tenant s = sc_id tenant" and "as_tenant a = sc_id tenant" and "as_schema a = Some (gs_id s)"
    and "as_max_score a = Fin False m (-2)" and "k \<le> m" and "0 < m" and "m < 10 ^ 20"
  shows "\<exists>b r. filter (\<lambda>q. in_band ((20000 * k + m) div (2 * m)) (band_input_of q)) (get_schema_bands_for_assessment db tenant a) = [b] \<and>
    sb_schema b = gs_id s \<and> map_score_to_school_band db tenant a (dec_str (Fin False k (-2))) = Inr r \<and>
    sm_band_label r = sb_label b \<and> sm_band_descriptor r = sb_descriptor b \<and>
    sm_normalized_score r = dec_str (Fin False ((20000 * k + m) div (2 * m)) (-2))"
proof -
  have ok: "schemas_ok db" by (rule reachable_schemas [OF assms(1,2)])
  let ?bs = "get_schema_bands_for_assessment db tenant a" and ?n = "(20000 * k + m) div (2 * m)"
  note perm = bound_bands [OF ok assms(3,7,8,6)]
  then have mem: "set ?bs = set (schema_rows db (gs_id s))" by (metis mset_eq_setD)
  then have g: "b \<in> set ?bs \<Longrightarrow> band_on_grid b" for b using ok by (simp add: schemas_ok_def schema_rows_def)
  then have grid: "\<forall>c\<in>set (map band_input_of ?bs). grid_band c" by (auto intro: band_input_grid)
  obtain v where "validate_schema_bands (map band_input_of (schema_rows db (gs_id s))) True = Inr v" "sv_is_valid v"
    using ok assms(3-5) by (auto simp: schemas_ok_def schema_valid_def)
  moreover have "mset (map band_input_of ?bs) = mset (map band_input_of (schema_rows db (gs_id s)))" using perm by simp
  ultimately have v: "validate_schema_bands (map band_input_of ?bs) True = Inr v" "sv_is_valid v"
    using validate_perm [OF _ grid, of "map band_input_of (schema_rows db (gs_id s))" True] by simp_all
  have points: "\<forall>c\<in>set (map band_input_of ?bs). case bi_points c of None \<Rightarrow> True | Some t \<Rightarrow> \<exists>d. decimal_of_text t = Inr d"
  proof
    fix c assume "c \<in> set (map band_input_of ?bs)"
    then obtain b where "b \<in> set ?bs" "c = band_input_of b" by auto
    then show "case bi_points c of None \<Rightarrow> True | Some t \<Rightarrow> \<exists>d. decimal_of_text t = Inr d"
      using g [of b] by (simp add: band_input_of_def band_on_grid_def split: option.splits)
  qed
  obtain c r where c: "filter (in_band ?n) (map band_input_of ?bs) = [c]" and r: "map_score_to_band (dec_str (Fin False k (-2)))
      (dec_str (Fin False m (-2))) (map band_input_of ?bs) = Inr r" "bm_band_label r = bi_label c" "bm_band_descriptor r = bi_descriptor c"
      "bm_normalized_percentage r = Fin False ?n (-2)"
    using schema_maps_score [OF v grid points assms(10-12)] by blast
  from c obtain b where b: "filter (\<lambda>q. in_band ?n (band_input_of q)) ?bs = [b]" "c = band_input_of b"
    by (auto simp: filter_map o_def)
  then have "b \<in> set (filter (\<lambda>q. in_band ?n (band_input_of q)) ?bs)" by simp
  then have "sb_schema b = gs_id s" "?bs \<noteq> []" using mem by (auto simp: schema_rows_def)
  then show ?thesis using b r assms(9)
    by (intro exI [of _ b]) (simp add: map_score_to_school_band_def Let_def band_input_of_def)
qed


section \<open>An instance\<close>

definition draft_schema :: grading_schema where
  "draft_schema = \<lparr>gs_id = ''z1'', gs_tenant = ''s1'', gs_name = ''Half'', gs_assessment_type = ''quiz'', gs_version_label = ''1'', gs_status = ''draft'',
     gs_requires_full_coverage = True, gs_created_by = ''u9'', gs_activated_by = None, gs_activated_at = None, gs_deprecated_by = None,
     gs_deprecated_at = None\<rparr>"

definition active_schema :: grading_schema where
  "active_schema = draft_schema\<lparr>gs_status := ''active'', gs_activated_by := Some ''u9'', gs_activated_at := Some 7\<rparr>"

definition half_bands :: "schema_band list" where
  "half_bands =
     [\<lparr>sb_tenant = ''s1'', sb_schema = ''z1'', sb_label = ''BE'', sb_descriptor = ''below'', sb_min = cents 0, sb_max = cents 4999, sb_points = None, sb_order = 1\<rparr>,
      \<lparr>sb_tenant = ''s1'', sb_schema = ''z1'', sb_label = ''ME'', sb_descriptor = ''meets'', sb_min = cents 5000, sb_max = cents 10000,
        sb_points = Some (cents 100), sb_order = 2\<rparr>]"

definition sample_schemas :: grading_db where
  "sample_schemas = sample_corrections\<lparr>schemas := [draft_schema], schema_bands := half_bands\<rparr>"

lemma half_valid: "\<exists>v. validate_schema_bands (map band_input_of half_bands) True = Inr v \<and> sv_is_valid v"
proof -
  have "emap band_range (map band_input_of half_bands) = Inr (map grid [(0, 4999), (5000, 10000)])"
    by (simp add: half_bands_def band_input_of_def band_range_def grid_def cents_def decimal_of_dec_str)
  then show ?thesis
    by (simp add: validate_schema_bands_def sample_sorted emap_range_error coverage_errors_def del: list.map) (simp add: grid_def next_cent)
qed

lemma half_schema_valid: "schema_valid sample_schemas draft_schema"
  using half_valid by (simp add: schema_valid_def schema_rows_def sample_schemas_def draft_schema_def) (simp add: half_bands_def)

lemma sample_schemas_ok: "schemas_ok sample_schemas"
proof -
  have "\<forall>b\<in>set half_bands. band_on_grid b" by (auto simp: half_bands_def band_on_grid_def cents_def decimal_of_dec_str)
  then show ?thesis
    by (simp add: schemas_ok_def sample_schemas_def) (simp add: draft_schema_def half_bands_def)
qed

lemma schema_activates:
  "activate_school_grading_schema 7 sample_admin sample_school ''z1'' sample_schemas = (Inr active_schema, put_schema active_schema sample_schemas)"
proof -
  have p: "schools sample_schemas = schools sample_corrections" "users sample_schemas = users sample_corrections" "roles sample_schemas = roles sample_corrections"
    "role_bindings sample_schemas = role_bindings sample_corrections" "schemas sample_schemas = [draft_schema]" by (simp_all add: sample_schemas_def)
  have t: "tenant_schema sample_schemas sample_school ''z1'' = Some draft_schema"
    by (simp add: tenant_schema_def first_where_def p draft_schema_def sample_school_def)
  have "can_manage_school_grading_schema sample_schemas (policy_context_for sample_schemas (Some sample_admin) (Some sample_school)
      ''grading.schema.activate'' GRADING_SCHEMA_ADMIN_ROLE_CODES) ''grading.schema.activate'' (Some draft_schema) None"
    by (simp add: can_manage_school_grading_schema_def policy_context_for_def role_for_def context_is_valid_def user_has_role_in_tenant_def
        get_roles_for_user_in_tenant_def get_active_tenant_user_role_bindings_def role_row_is_def user_active_def school_active_def first_where_def
        opt_in_tenant_def resource_in_tenant_def role_in_def GRADING_SCHEMA_ADMIN_ROLE_CODES_def GRADING_ACADEMIC_HEAD_ROLES_def p sample_people sample_school_def
        sample_admin_def draft_schema_def)
  moreover obtain v where "validate_schema_bands (map band_input_of (schema_rows sample_schemas ''z1'')) True = Inr v" "sv_is_valid v"
    using half_schema_valid by (auto simp: schema_valid_def draft_schema_def)
  ultimately have a: "activatable_schema sample_admin sample_school ''z1'' sample_schemas = Inr draft_schema"
    by (simp add: activatable_schema_def managed_schema_def t schema_errors_def) (simp add: draft_schema_def schema_errors_def)
  have "strip ''Half'' = ''Half''" "strip ''1'' = ''1''" "\<not> unsafe_markup ''Half''" by code_simp+
  then have "schema_full_clean sample_schemas active_schema = Inr active_schema"
    by (simp add: schema_full_clean_def schema_clean_def school_exists_def user_exists_def opt_fk_def char_field_def p sample_people Let_def
        active_schema_def draft_schema_def ASSESSMENT_TYPES_def INTERNAL_ASSESSMENT_TYPES_def)
  then show ?thesis using a
    by (simp add: activate_school_grading_schema_def atomic_def abind_def query_def save_row_def active_schema_def sample_admin_def)
qed

definition half_assessment :: assessment where
  "half_assessment = sample_assessment\<lparr>as_tenant := ''s1'', as_schema := Some ''z1'', as_max_score := Fin False 200 (-2)\<rparr>"

lemma bound_scores_get_bands_witness:
  "\<exists>r. map_score_to_school_band (put_schema active_schema sample_schemas) sample_school half_assessment (dec_str (Fin False 100 (-2))) = Inr r \<and>
     sm_normalized_score r = dec_str (Fin False 5000 (-2))"
proof -
  have "schema_step sample_schemas (snd (activate_school_grading_schema 7 sample_admin sample_school ''z1'' sample_schemas))"
    by (rule activates)
  then have "schema_step\<^sup>*\<^sup>* sample_schemas (put_schema active_schema sample_schemas)" unfolding schema_activates by auto
  moreover have "active_schema \<in> set (schemas (put_schema active_schema sample_schemas))"
    by (simp add: put_schema_def set_update_where sample_schemas_def) (simp add: active_schema_def)
  ultimately show ?thesis
    using bound_scores_get_bands [of sample_schemas "put_schema active_schema sample_schemas" active_schema sample_school half_assessment 200 100]
      sample_schemas_ok by (auto simp: active_schema_def draft_schema_def sample_school_def half_assessment_def)
qed

end
