(* ===== verification/CurriculumAccessFacts.thy ===== *)
theory CurriculumAccessFacts
  imports CurriculumAccess SchemaFacts
begin

text \<open>
  Who may do what with the curriculum: the policies of curriculum/policies.py as one function of the
  request, and its specification, a matrix of the action, the roles, the schools and the learning
  area each request needs.
\<close>

section \<open>Requests\<close>

datatype curriculum_request =
      ManageCurriculumSourceDocuments | ActivateCurriculumVersion | CreateCurriculumStructure 
    | ViewSourceRegistry | RegisterCurriculumSource | ApproveCurriculumSource | ApproveChangeSet 
    | RejectChangeSet | PublishCurriculumVersion | SupersedeCurriculumVersion | ScheduleSchoolAdoption 
    | PlanCurriculumRollback | ViewCurriculumImpact | ViewEvidenceArtifact | ResolveDependentAppContext 
    | SubmitCurriculumEvidence | ViewCurriculumEvidenceSubmission evidence 
    | ViewCurriculumVerificationReport verification_report | RecordCurriculumGovernanceDecision 
    | ViewCurriculumGovernanceDecision governance_decision | PlanCurriculumAppImpact 
    | ViewCurriculumAppImpactPlan impact_plan | CreateCurriculumRollbackCandidate 
    | ViewCurriculumRollbackCandidate rollback_candidate | ViewRegulatoryNotice | RegisterRegulatoryNotice 
    | ReviewRegulatoryNotice | ClassifyRegulatoryNotice | CreateImpactAnalysis | IssuePrincipalNotification 
    | AcknowledgePrincipalNotification evidence_card | ViewTeacherReadinessRequirement 
    | ViewCurriculumMap curriculum_learning_area | ViewRubricFoundation outcome 
    | ViewTeacherReadinessNotice teacher_requirement 

fun curriculum_allowed :: "'a curriculum_db_scheme \<Rightarrow> policy_context \<Rightarrow> curriculum_request \<Rightarrow> bool" where
  "curriculum_allowed db ctx ManageCurriculumSourceDocuments = can_manage_curriculum_source_documents db ctx"
| "curriculum_allowed db ctx ActivateCurriculumVersion = can_activate_curriculum_version db ctx"
| "curriculum_allowed db ctx CreateCurriculumStructure = can_create_curriculum_structure db ctx"
| "curriculum_allowed db ctx ViewSourceRegistry = can_view_source_registry db ctx"
| "curriculum_allowed db ctx RegisterCurriculumSource = can_register_curriculum_source db ctx"
| "curriculum_allowed db ctx ApproveCurriculumSource = can_approve_curriculum_source db ctx"
| "curriculum_allowed db ctx ApproveChangeSet = can_approve_change_set db ctx"
| "curriculum_allowed db ctx RejectChangeSet = can_reject_change_set db ctx"
| "curriculum_allowed db ctx PublishCurriculumVersion = can_publish_curriculum_version db ctx"
| "curriculum_allowed db ctx SupersedeCurriculumVersion = can_supersede_curriculum_version db ctx"
| "curriculum_allowed db ctx ScheduleSchoolAdoption = can_schedule_school_adoption db ctx"
| "curriculum_allowed db ctx PlanCurriculumRollback = can_plan_curriculum_rollback db ctx"
| "curriculum_allowed db ctx ViewCurriculumImpact = can_view_curriculum_impact db ctx"
| "curriculum_allowed db ctx ViewEvidenceArtifact = can_view_evidence_artifact db ctx"
| "curriculum_allowed db ctx ResolveDependentAppContext = can_resolve_dependent_app_context db ctx"
| "curriculum_allowed db ctx SubmitCurriculumEvidence = can_submit_curriculum_evidence db ctx"
| "curriculum_allowed db ctx (ViewCurriculumEvidenceSubmission r) = can_view_curriculum_evidence_submission db ctx r"
| "curriculum_allowed db ctx (ViewCurriculumVerificationReport r) = can_view_curriculum_verification_report db ctx r"
| "curriculum_allowed db ctx RecordCurriculumGovernanceDecision = can_record_curriculum_governance_decision db ctx"
| "curriculum_allowed db ctx (ViewCurriculumGovernanceDecision r) = can_view_curriculum_governance_decision db ctx r"
| "curriculum_allowed db ctx PlanCurriculumAppImpact = can_plan_curriculum_app_impact db ctx"
| "curriculum_allowed db ctx (ViewCurriculumAppImpactPlan r) = can_view_curriculum_app_impact_plan db ctx r"
| "curriculum_allowed db ctx CreateCurriculumRollbackCandidate = can_create_curriculum_rollback_candidate db ctx"
| "curriculum_allowed db ctx (ViewCurriculumRollbackCandidate r) = can_view_curriculum_rollback_candidate db ctx r"
| "curriculum_allowed db ctx ViewRegulatoryNotice = can_view_regulatory_notice db ctx"
| "curriculum_allowed db ctx RegisterRegulatoryNotice = can_register_regulatory_notice db ctx"
| "curriculum_allowed db ctx ReviewRegulatoryNotice = can_review_regulatory_notice db ctx"
| "curriculum_allowed db ctx ClassifyRegulatoryNotice = can_classify_regulatory_notice db ctx"
| "curriculum_allowed db ctx CreateImpactAnalysis = can_create_impact_analysis db ctx"
| "curriculum_allowed db ctx IssuePrincipalNotification = can_issue_principal_notification db ctx"
| "curriculum_allowed db ctx (AcknowledgePrincipalNotification r) = can_acknowledge_principal_notification db ctx r"
| "curriculum_allowed db ctx ViewTeacherReadinessRequirement = can_view_teacher_readiness_requirement db ctx"
| "curriculum_allowed db ctx (ViewCurriculumMap cl) = can_view_curriculum_map db ctx cl"
| "curriculum_allowed db ctx (ViewRubricFoundation r) = can_view_rubric_foundation db ctx r"
| "curriculum_allowed db ctx (ViewTeacherReadinessNotice r) = can_view_teacher_readiness_notice db ctx r"

section \<open>The access matrix\<close>

text \<open>
  What a request needs, as a row of a table: the exact action, or none in particular; the roles; the
  schools of the rows it names; and what the learning area it is about asks for: to lie in the actor's
  school and be managed or taught by the actor, or only the latter.
\<close>

datatype area_need = NoArea | SchoolArea "uuid option" | NoticeArea "uuid option"

type_synonym curriculum_rule = "string option \<times> string list \<times> uuid list \<times> area_need"

definition managers :: "string list" where "managers = [''principal'', ''school_admin'']"
definition submitters :: "string list" where "submitters = [''principal'', ''deputy_principal'', ''school_admin'']"
definition viewers :: "string list" where
  "viewers = [''principal'', ''school_admin'', ''hod'', ''class_teacher'', ''subject_teacher'']"

fun curriculum_rule_of :: "'a curriculum_db_scheme \<Rightarrow> curriculum_request \<Rightarrow> curriculum_rule" where
  "curriculum_rule_of db ManageCurriculumSourceDocuments = (Some ''curriculum.manage_source'', managers, [], NoArea)"
| "curriculum_rule_of db ActivateCurriculumVersion = (Some ''curriculum.activate_version'', managers, [], NoArea)"
| "curriculum_rule_of db CreateCurriculumStructure = (Some ''curriculum.create_structure'', managers, [], NoArea)"
| "curriculum_rule_of db ViewSourceRegistry = (Some ''curriculum.cct.register_source'', viewers, [], NoArea)"
| "curriculum_rule_of db RegisterCurriculumSource = (Some ''curriculum.cct.register_source'', managers, [], NoArea)"
| "curriculum_rule_of db ApproveCurriculumSource = (Some ''curriculum.cct.approve_source'', [''school_admin''], [], NoArea)"
| "curriculum_rule_of db ApproveChangeSet = (Some ''curriculum.cct.approve_change_set'', [''school_admin''], [], NoArea)"
| "curriculum_rule_of db RejectChangeSet = (Some ''curriculum.cct.reject_change_set'', [''school_admin''], [], NoArea)"
| "curriculum_rule_of db PublishCurriculumVersion = (Some ''curriculum.cct.publish_version'', [''school_admin''], [], NoArea)"
| "curriculum_rule_of db SupersedeCurriculumVersion = (Some ''curriculum.cct.supersede_version'', [''school_admin''], [], NoArea)"
| "curriculum_rule_of db ScheduleSchoolAdoption = (Some ''curriculum.cct.schedule_adoption'', managers, [], NoArea)"
| "curriculum_rule_of db PlanCurriculumRollback = (Some ''curriculum.cct.plan_rollback'', managers, [], NoArea)"
| "curriculum_rule_of db ViewCurriculumImpact = (Some ''curriculum.cct.view_impact'', viewers, [], NoArea)"
| "curriculum_rule_of db ViewEvidenceArtifact = (Some ''curriculum.cct.view_evidence'', viewers, [], NoArea)"
| "curriculum_rule_of db ResolveDependentAppContext = (Some ''curriculum.cct.resolve_dependent_context'', managers, [], NoArea)"
| "curriculum_rule_of db SubmitCurriculumEvidence = (Some ''curriculum.cct.submit_evidence'', submitters, [], NoArea)"
| "curriculum_rule_of db (ViewCurriculumEvidenceSubmission r) = (Some ''curriculum.cct.view_evidence_submission'', viewers, [ce_tenant r], NoArea)"
| "curriculum_rule_of db (ViewCurriculumVerificationReport r) = (Some ''curriculum.cct.view_verification_report'', viewers, [vr_tenant r], NoArea)"
| "curriculum_rule_of db RecordCurriculumGovernanceDecision = (Some ''curriculum.cct.record_governance_decision'', [''school_admin''], [], NoArea)"
| "curriculum_rule_of db (ViewCurriculumGovernanceDecision r) = (Some ''curriculum.cct.view_governance_decision'', viewers, [gd_tenant r], NoArea)"
| "curriculum_rule_of db PlanCurriculumAppImpact = (Some ''curriculum.cct.plan_app_impact'', submitters, [], NoArea)"
| "curriculum_rule_of db (ViewCurriculumAppImpactPlan r) = (Some ''curriculum.cct.view_app_impact_plan'', viewers, [ip_tenant r], NoArea)"
| "curriculum_rule_of db CreateCurriculumRollbackCandidate = (Some ''curriculum.cct.create_rollback_candidate'', submitters, [], NoArea)"
| "curriculum_rule_of db (ViewCurriculumRollbackCandidate r) = (Some ''curriculum.cct.view_rollback_candidate'', viewers, [rc_tenant r], NoArea)"
| "curriculum_rule_of db ViewRegulatoryNotice = (Some ''curriculum.regulatory.view'', viewers, [], NoArea)"
| "curriculum_rule_of db RegisterRegulatoryNotice = (Some ''curriculum.regulatory.register'', [''school_admin''], [], NoArea)"
| "curriculum_rule_of db ReviewRegulatoryNotice = (Some ''curriculum.regulatory.review'', [''school_admin''], [], NoArea)"
| "curriculum_rule_of db ClassifyRegulatoryNotice = (Some ''curriculum.regulatory.classify'', [''school_admin''], [], NoArea)"
| "curriculum_rule_of db CreateImpactAnalysis = (Some ''curriculum.regulatory.create_impact'', managers, [], NoArea)"
| "curriculum_rule_of db IssuePrincipalNotification = (Some ''curriculum.notification.issue'', managers, [], NoArea)"
| "curriculum_rule_of db (AcknowledgePrincipalNotification r) = (Some ''curriculum.notification.acknowledge'', managers, [crd_tenant r], NoArea)"
| "curriculum_rule_of db ViewTeacherReadinessRequirement = (Some ''curriculum.teacher_readiness.view'', viewers, [], NoArea)"
| "curriculum_rule_of db (ViewCurriculumMap cl) = (None, viewers, [], SchoolArea (Some (cl_learning_area cl)))"
| "curriculum_rule_of db (ViewRubricFoundation r) = (Some ''curriculum.view_rubric_foundation'', viewers, [], SchoolArea (map_option cl_learning_area (sub_strand_area db (lo_sub_strand r))))"
| "curriculum_rule_of db (ViewTeacherReadinessNotice r) = (Some ''curriculum.teacher_readiness.view'', viewers, [], NoticeArea (trq_learning_area r))"

definition manages_or_teaches :: "'a academic_db_scheme \<Rightarrow> policy_context \<Rightarrow> uuid option \<Rightarrow> bool" where
  "manages_or_teaches db ctx area \<longleftrightarrow> role_in ctx managers \<or>
     (case area of None \<Rightarrow> False
      | Some i \<Rightarrow> learning_area_active db i \<and> (\<exists>ta\<in>set (own_assignments db ctx). ta_learning_area ta = i))"

fun area_met :: "'a academic_db_scheme \<Rightarrow> policy_context \<Rightarrow> area_need \<Rightarrow> bool" where
  "area_met db ctx NoArea \<longleftrightarrow> True"
| "area_met db ctx (SchoolArea area) \<longleftrightarrow> manages_or_teaches db ctx area \<and>
     (case Option.bind area (learning_area_row db) of None \<Rightarrow> False | Some la \<Rightarrow> resource_in_tenant ctx (la_tenant la))"
| "area_met db ctx (NoticeArea area) \<longleftrightarrow> manages_or_teaches db ctx area"

definition curriculum_granted :: "'a academic_db_scheme \<Rightarrow> policy_context \<Rightarrow> curriculum_rule \<Rightarrow> bool" where
  "curriculum_granted db ctx = (\<lambda>(action, codes, tenants, area).
     context_is_valid db ctx \<and> (action = None \<or> action = Some (ctx_action ctx)) \<and> role_in ctx codes \<and>
     (\<forall>t\<in>set tenants. resource_in_tenant ctx t) \<and> area_met db ctx area)"

lemmas curriculum_policy_defs =
  can_manage_curriculum_source_documents_def can_activate_curriculum_version_def can_create_curriculum_structure_def 
  can_view_source_registry_def can_register_curriculum_source_def can_approve_curriculum_source_def can_approve_change_set_def 
  can_reject_change_set_def can_publish_curriculum_version_def can_supersede_curriculum_version_def can_schedule_school_adoption_def 
  can_plan_curriculum_rollback_def can_view_curriculum_impact_def can_view_evidence_artifact_def can_resolve_dependent_app_context_def 
  can_submit_curriculum_evidence_def can_view_curriculum_evidence_submission_def can_view_curriculum_verification_report_def 
  can_record_curriculum_governance_decision_def can_view_curriculum_governance_decision_def can_plan_curriculum_app_impact_def 
  can_view_curriculum_app_impact_plan_def can_create_curriculum_rollback_candidate_def can_view_curriculum_rollback_candidate_def 
  can_view_regulatory_notice_def can_register_regulatory_notice_def can_review_regulatory_notice_def 
  can_classify_regulatory_notice_def can_create_impact_analysis_def can_issue_principal_notification_def 
  can_acknowledge_principal_notification_def can_view_teacher_readiness_requirement_def 

lemmas curriculum_roles = CURRICULUM_MANAGE_ROLES_def CURRICULUM_VIEW_ROLES_def CURRICULUM_GOVERNANCE_ROLES_def
  CURRICULUM_EVIDENCE_SUBMITTER_ROLES_def managers_def viewers_def submitters_def

section \<open>The policies implement the matrix\<close>

lemma manager_views: "role_in ctx managers \<Longrightarrow> role_in ctx viewers"
  by (auto simp: role_in_simps curriculum_roles)

lemma teaches_area_own:
  "teaches_area db ctx i \<longleftrightarrow> learning_area_active db i \<and> (\<exists>ta\<in>set (own_assignments db ctx). ta_learning_area ta = i)"
  by (auto simp: teaches_area_def own_assignments_def split: option.splits)

lemma learning_area_row_id: "learning_area_row db i = Some la \<Longrightarrow> la_id la = i"
  by (auto simp: learning_area_row_def dest: first_where_SomeD)

lemma view_area_matrix:
  "can_view_learning_area db ctx cl \<longleftrightarrow>
     context_is_valid db ctx \<and> role_in ctx viewers \<and> area_met db ctx (SchoolArea (Some (cl_learning_area cl)))"
proof -
  have m: "CURRICULUM_MANAGE_ROLES = managers" "CURRICULUM_VIEW_ROLES = viewers" by (simp_all add: curriculum_roles)
  show ?thesis
  proof (cases "learning_area_row db (cl_learning_area cl)")
    case (Some la)
    then show ?thesis using manager_views [of ctx] learning_area_row_id [OF Some]
      by (auto simp: can_view_learning_area_def m manages_or_teaches_def teaches_area_own)
  qed (simp add: can_view_learning_area_def)
qed

lemma readiness_notice_matrix:
  "can_view_teacher_readiness_notice db ctx r \<longleftrightarrow>
     has_grant db ctx ''curriculum.teacher_readiness.view'' viewers \<and> manages_or_teaches db ctx (trq_learning_area r)"
proof -
  have m: "CURRICULUM_MANAGE_ROLES = managers" "CURRICULUM_VIEW_ROLES = viewers" by (simp_all add: curriculum_roles)
  show ?thesis
    by (auto simp: can_view_teacher_readiness_notice_def can_view_teacher_readiness_requirement_def m
        manages_or_teaches_def teaches_area_own split: option.splits)
qed

text \<open>C39: The access matrix of the curriculum is exact. Each request the policies decide on is granted if and
  only if its row of the matrix is met: the actor is an active user with an active role, by an active
  binding, in an active school; the action asked for is the one of the request, except for the
  curriculum map, which is shown for any action; the role is one of those listed; the evidence row,
  report, decision, plan, candidate or card belongs to the actor's school; and the learning area of a
  map or of the rubrics of an outcome exists, lies in the actor's school, and is managed or, while it is
  active, taught by the actor. A readiness notice asks only for the last of these.\<close>

theorem curriculum_access_matrix:
  "curriculum_allowed db ctx rq \<longleftrightarrow> curriculum_granted db ctx (curriculum_rule_of db rq)"
proof (cases rq)
  case (ViewCurriculumMap cl)
  then show ?thesis by (auto simp: can_view_curriculum_map_def view_area_matrix curriculum_granted_def)
next
  case (ViewRubricFoundation r)
  then show ?thesis
    by (cases "sub_strand_area db (lo_sub_strand r)")
      (auto simp: can_view_rubric_foundation_def view_area_matrix curriculum_granted_def)
next
  case (ViewTeacherReadinessNotice r)
  then show ?thesis by (auto simp: readiness_notice_matrix has_grant_def curriculum_granted_def)
qed (auto simp: curriculum_policy_defs has_grant_def curriculum_granted_def curriculum_roles)

text \<open>Both answers occur: a teacher of a learning area is shown its map, for any action, and not the
  map of an area of another school.\<close>

lemma sample_map_granted:
  "curriculum_allowed sample_grading (sample_teacher_context\<lparr>ctx_action := ''any''\<rparr>)
     (ViewCurriculumMap (\<lparr>cl_id = ''a1'', cl_version = ''v1'', cl_grade_level = ''g1'', cl_learning_area = ''l1'', cl_is_active = True\<rparr>)) \<and>
   \<not> curriculum_allowed sample_grading (sample_teacher_context\<lparr>ctx_action := ''any''\<rparr>)
     (ViewCurriculumMap (\<lparr>cl_id = ''a2'', cl_version = ''v1'', cl_grade_level = ''g1'', cl_learning_area = ''l9'', cl_is_active = True\<rparr>))"
  using sample_teacher_valid [of "''any''"]
  by (simp add: can_view_curriculum_map_def can_view_learning_area_def teaches_area_def role_in_def curriculum_roles
      resource_in_tenant_def learning_area_active_def row_defs first_where_def sample_teacher_context_def sample_grading_simps)

end
