(* ===== verification/Spec2Isabelle.thy ===== *)
theory Spec2Isabelle
  imports Backbone BandFacts ChangeSetFacts GradingPolicyFacts Analytics ReportInstances EvidenceFacts NoticeFacts CurriculumAccessFacts
begin

text \<open>
  A model of the DARASA API, a Django service for schools (src/app), with the theorems that make
  its core correct.

  Parts and theories. The program is split in Django applications; each has pure rules
  (algorithms/), rows with validation (models.py), services that change the database inside
  transactions (services.py) and policies.

  \<^item> Prelude, PyText, Regex, Json, Decimals: what the program uses of Python and Django:
    exceptions as values, actions on a database that may raise, transactions, stable sorting,
    string methods, regular expressions (as the end positions of their matches), JSON values, decimal arithmetic
    to 28 digits.
  \<^item> EventRules, EventFacts: the pure rules of the event backbone (events/algorithms).
  \<^item> Outbox, OutboxFacts, DispatchFacts, OutboxInvariant, Backbone: the rows and services of the
    event backbone (events/models.py, events/services.py, events/handlers.py).
  \<^item> Identity, Academic, AcademicFacts: schools, users, roles and access (core, tenant, events/policies.py),
    and the academic structure of a school (academics).
  \<^item> Workflow: what every table of allowed statuses shares, as a locale.
  \<^item> CurriculumState, CurriculumWorkflow, GovernanceText, CurriculumFacts: curriculum governance, from
    change set to publication, adoption and withdrawal (curriculum).
  \<^item> SourceUrl, SourceRules, Evidence, EvidenceFacts: accepted source URLs, the rules sources are checked
    by, and the evidence of a change with its verification, decisions, impact plans and rollback
    candidates (curriculum).
  \<^item> Catalogue, CatalogueFacts: source documents, curriculum versions and the tree of learning areas,
    strands, sub-strands, outcomes and rubrics (curriculum).
  \<^item> Notices, NoticeFacts: differences of curriculum snapshots, regulatory notices and the cards
    principals acknowledge (curriculum).
  \<^item> CurriculumAccess, CurriculumAccessFacts: who may see or change what of the curriculum, and the
    querysets that read it (curriculum/policies.py, curriculum/selectors.py).
  \<^item> GradingTables, GradingPolicies, GradingPolicyFacts: the rows of grading and who may touch them
    (grading/models.py, grading/policies.py).
  \<^item> Correction, CorrectionFacts: corrections of submitted marks (grading/services.py).
  \<^item> Scores, ScoreFacts: score bounds, batches of grade rows and percentages (grading/algorithms).
  \<^item> Bands, BandFacts: school grading schemas, validation and the mapper (grading/algorithms).
  \<^item> Schemas, SchemaFacts: the services that create, activate, deprecate and bind schemas and map scores
    with them (grading/services.py).
  \<^item> Submission, SubmissionFacts, Ledger: drafts and submissions of marks with their idempotency keys
    (grading/services.py), and the ledger of marks that submissions and corrections refine.
  \<^item> Compilation, CompilationFacts: the compilation of an assessment's marks into a run with its
    snapshots and summary (grading/services.py, grading/algorithms).
  \<^item> Readiness, Projections, ReadinessFacts: whether an assessment may be reported, and what each
    role sees of readiness and compilations (grading/services.py, grading/selectors.py).
  \<^item> ReportRules, Reports, Analytics, ReportFacts, ReportInstances: report snapshots of a period,
    their aggregates, and the analytics of each role.

  How the parts interact. A teacher's submission stores records and an event; a correction changes
  a record and makes the runs of its assessment stale; a compilation copies the records into a run;
  readiness compares the latest run with what happened since; a report snapshot freezes the runs of
  ready assessments. The properties of ReadinessFacts and ReportFacts hold across all of these:
  \<open>school_step\<close> is one call of any of the services that touch marks, with any arguments and any
  outcome, and what is shown for its reachable states rests on the invariants of each part.
  A change of the curriculum starts from evidence, is approved on its verification report and
  published; its impact plans block the reports of the assessments they cover, which is shown across
  Evidence and Readiness. A schema validated when it is activated still decides every score when an
  assessment bound to it is mapped, which is shown across Bands and Schemas.

  Groups of lemmas. Each theory of facts first shows what a committed call did (the lemmas named
  \<open>_Inr\<close>), then that every call keeps the part's invariant, then the properties. The locales
  \<open>state_order\<close> (Prelude) and the workflow locale are the interfaces the parts share: a loop or
  transaction of actions respects every order its steps respect.

  Correspondence. A table is a list of rows in insertion order, a row a record with one field per
  column the code reads or writes; a queryset filter is \<open>filter\<close>, \<open>update\<close> is
  \<open>update_where\<close>, \<open>order_by\<close> a stable sort. A service takes the values the code obtains from
  its surroundings as arguments: the clock (microseconds), the identifiers of new rows, the
  handlers of consumers. It is an action: from a database to a result, with the exception when one
  is raised, and the database left behind.
  Texts are lists of characters up to 255; code points above are outside the model.

  Bounds. Every definition is total. Loops are recursion over lists; the recursions over numbers and
  nested JSON end on a measure. One bound is a number: repetition in a regular expression is
  followed as often as the rest of the text has characters, which is enough because an iteration
  that consumes nothing adds no new end position. Decimals are exact integers with an exponent, rounded to
  28 digits as Python's default context does.

  Parameters. SHA-256 digests, the order a database gives to texts, Django's URL field check and the ISO
  texts of dates are arguments of the definitions that use them.

  Not modelled: HTTP and its serializers, settings, migrations, the admin, metrics, tracing and log
  output; the audit rows of events; encrypted columns; the provisioning of tenants; and the
  dictionaries that only lay out columns for display.
\<close>

end
